(* ===== verification/Prelude.thy ===== *)
theory Prelude
  imports Main "HOL-Library.Word"
begin

text \<open>
  Shared vocabulary of the development: machine integers, Rust strings, Rust's
  \<open>Result\<close> with the early return of the \<open>?\<close> operator, the loop over a collection that
  rejects duplicates with a hash set, and Unix paths as the standard library sees them.

  A Rust \<open>str\<close> is the list of its UTF-8 bytes (HOL's \<open>char\<close> is a byte), so that
  \<open>len()\<close>, equality, \<open>split\<close> at an ASCII character and \<open>to_ascii_lowercase\<close> are the
  plain list operations.  What the code reads as Unicode (\<open>chars()\<close>, \<open>trim()\<close>,
  \<open>is_control\<close>) goes through the decoder \<open>str_chars\<close>, proved to invert UTF-8 encoding.
\<close>

section \<open>Collections of facts\<close>

named_theorems result_simps \<open>when a chain of fallible steps succeeds\<close>
named_theorems validate_defs \<open>unfolding equations of the validators\<close>

section \<open>Machine integers\<close>

type_synonym u8 = "8 word"
type_synonym u16 = "16 word"
type_synonym u32 = "32 word"
type_synonym u64 = "64 word"

text \<open>Rust's \<open>saturating_add\<close>, \<open>saturating_sub\<close> and \<open>saturating_mul\<close> at any width.\<close>

definition sat_add :: "'w::len word \<Rightarrow> 'w word \<Rightarrow> 'w word" where
  "sat_add a b = (if unat a + unat b < 2 ^ LENGTH('w) then a + b else - 1)"

definition sat_sub :: "'w::len word \<Rightarrow> 'w word \<Rightarrow> 'w word" where
  "sat_sub a b = (if b \<le> a then a - b else 0)"

definition sat_mul :: "'w::len word \<Rightarrow> 'w word \<Rightarrow> 'w word" where
  "sat_mul a b = (if unat a * unat b < 2 ^ LENGTH('w) then a * b else - 1)"

lemma unat_max_word: "unat (- 1 :: 'w::len word) = 2 ^ LENGTH('w) - 1"
  by (simp add: unsigned_minus_1_eq_mask mask_eq_exp_minus_1)

lemma unat_sat_add: "unat (sat_add a b) = min (unat a + unat b) (2 ^ LENGTH('w) - 1)"
  for a b :: "'w::len word"
  using unat_max_word [where 'w = 'w] by (auto simp: sat_add_def unat_word_ariths min_def)

lemma unat_sat_mul: "unat (sat_mul a b) = min (unat a * unat b) (2 ^ LENGTH('w) - 1)"
  for a b :: "'w::len word"
proof (cases "unat a * unat b < 2 ^ LENGTH('w)")
  case True
  then show ?thesis by (simp add: sat_mul_def unat_word_ariths)
next
  case False
  then have "2 ^ LENGTH('w) - 1 \<le> unat a * unat b" by linarith
  with False show ?thesis by (simp only: sat_mul_def if_False unat_max_word min_absorb2)
qed

lemma unat_sat_sub: "unat (sat_sub a b) = unat a - unat b"
  by (simp add: sat_sub_def word_le_nat_alt unat_sub)

section \<open>Results and early return\<close>

text \<open>\<open>Result<T, E>\<close> is a sum with the error on the left; \<open>rbind\<close> is the \<open>?\<close> operator.\<close>

fun rbind :: "'e + 'a \<Rightarrow> ('a \<Rightarrow> 'e + 'b) \<Rightarrow> 'e + 'b" where
  "rbind (Inl e) f = Inl e"
| "rbind (Inr x) f = f x"

fun is_ok :: "'e + 'a \<Rightarrow> bool" where
  "is_ok (Inl e) = False"
| "is_ok (Inr x) = True"

text \<open>\<open>if c { return Err(e) }\<close> as a step of its own.\<close>

definition reject_if :: "bool \<Rightarrow> 'e \<Rightarrow> 'e + unit" where
  "reject_if c e = (if c then Inl e else Inr ())"

text \<open>A sequence of fallible steps with unit results: the first error is the result.\<close>

fun steps :: "('e + unit) list \<Rightarrow> 'e + unit" where
  "steps [] = Inr ()"
| "steps (r # rs) = rbind r (\<lambda>_. steps rs)"

definition when_some :: "'a option \<Rightarrow> ('a \<Rightarrow> 'e + unit) \<Rightarrow> 'e + unit" where
  "when_some x f = (case x of None \<Rightarrow> Inr () | Some y \<Rightarrow> f y)"

text \<open>\<open>for x in xs { f(x)?; }\<close>\<close>

fun for_each :: "('a \<Rightarrow> 'e + unit) \<Rightarrow> 'a list \<Rightarrow> 'e + unit" where
  "for_each f [] = Inr ()"
| "for_each f (x # xs) = rbind (f x) (\<lambda>_. for_each f xs)"

text \<open>
  \<open>for x in xs { f(x)?; if !seen.insert(key(x)) { return Err(dup(x)); } }\<close>: the hash set
  is threaded through the loop and returned, because some callers use it afterwards.
\<close>

fun for_each_unique ::
    "('a \<Rightarrow> 'e + unit) \<Rightarrow> ('a \<Rightarrow> 'k) \<Rightarrow> ('a \<Rightarrow> 'e) \<Rightarrow> 'k set \<Rightarrow> 'a list \<Rightarrow> 'e + 'k set" where
  "for_each_unique f key dup seen [] = Inr seen"
| "for_each_unique f key dup seen (x # xs) =
     rbind (f x) (\<lambda>_.
       if key x \<in> seen then Inl (dup x)
       else for_each_unique f key dup (insert (key x) seen) xs)"

lemma rbind_Inr_iff [result_simps]: "rbind r f = Inr y \<longleftrightarrow> (\<exists>x. r = Inr x \<and> f x = Inr y)"
  by (cases r) auto

lemma rbind_Inl_iff: "rbind r f = Inl e \<longleftrightarrow> r = Inl e \<or> (\<exists>x. r = Inr x \<and> f x = Inl e)"
  by (cases r) auto

lemma rbind_assoc: "rbind (rbind r f) g = rbind r (\<lambda>x. rbind (f x) g)"
  by (cases r) auto

lemma is_ok_unit_iff: "is_ok r \<longleftrightarrow> r = Inr ()" for r :: "'e + unit"
  by (cases r) auto

lemma not_ok_iff: "r \<noteq> Inr () \<longleftrightarrow> (\<exists>e. r = Inl e)" for r :: "'e + unit"
  by (cases r) auto

lemma ex_unit_eq: "(\<exists>x::unit. P x) \<longleftrightarrow> P ()"
  by auto

lemma reject_if_Inr [result_simps]: "reject_if c e = Inr u \<longleftrightarrow> \<not> c"
  by (simp add: reject_if_def)

lemma reject_if_Inl: "reject_if c e = Inl e' \<longleftrightarrow> c \<and> e' = e"
  by (auto simp: reject_if_def)

lemma when_some_simps [simp]: "when_some None f = Inr ()" "when_some (Some x) f = f x"
  by (simp_all add: when_some_def)

lemma when_some_Inr [result_simps]:
  "when_some x f = Inr () \<longleftrightarrow> (\<forall>y. x = Some y \<longrightarrow> f y = Inr ())"
  by (cases x) auto

lemma steps_Inr [result_simps]: "steps rs = Inr () \<longleftrightarrow> (\<forall>r \<in> set rs. r = Inr ())"
  by (induction rs) (auto simp: rbind_Inr_iff)

lemma steps_append: "steps (rs @ ss) = rbind (steps rs) (\<lambda>_. steps ss)"
  by (induction rs) (auto simp: rbind_assoc)

text \<open>The early return: an error is reported exactly when all the steps before it passed.\<close>

lemma steps_first_error:
  "\<lbrakk> \<forall>r \<in> set rs. r = Inr () \<rbrakk> \<Longrightarrow> steps (rs @ Inl e # ss) = Inl e"
  by (induction rs) auto

lemma for_each_Inr [result_simps]: "for_each f xs = Inr () \<longleftrightarrow> (\<forall>x \<in> set xs. f x = Inr ())"
  by (induction xs) (auto simp: rbind_Inr_iff)

lemma for_each_unique_Inr [result_simps]:
  "for_each_unique f key dup seen xs = Inr seen' \<longleftrightarrow>
     (\<forall>x \<in> set xs. f x = Inr ()) \<and> distinct (map key xs) \<and>
     key ` set xs \<inter> seen = {} \<and> seen' = seen \<union> key ` set xs"
  by (induction xs arbitrary: seen) (auto simp: rbind_Inr_iff split: if_splits)

section \<open>Characters and strings\<close>

definition byte :: "char \<Rightarrow> nat" where
  "byte c = of_char c"

definition ascii_lower :: "nat \<Rightarrow> bool" where
  "ascii_lower n \<longleftrightarrow> 97 \<le> n \<and> n \<le> 122"

definition ascii_upper :: "nat \<Rightarrow> bool" where
  "ascii_upper n \<longleftrightarrow> 65 \<le> n \<and> n \<le> 90"

definition ascii_digit :: "nat \<Rightarrow> bool" where
  "ascii_digit n \<longleftrightarrow> 48 \<le> n \<and> n \<le> 57"

definition ascii_alphabetic :: "nat \<Rightarrow> bool" where
  "ascii_alphabetic n \<longleftrightarrow> ascii_lower n \<or> ascii_upper n"

definition ascii_alphanumeric :: "nat \<Rightarrow> bool" where
  "ascii_alphanumeric n \<longleftrightarrow> ascii_alphabetic n \<or> ascii_digit n"

text \<open>\<open>char::is_control\<close>: the Unicode category Cc.\<close>

definition char_control :: "nat \<Rightarrow> bool" where
  "char_control n \<longleftrightarrow> n \<le> 31 \<or> 127 \<le> n \<and> n \<le> 159"

text \<open>\<open>char::is_whitespace\<close>: the Unicode property White\_Space.\<close>

definition char_whitespace :: "nat \<Rightarrow> bool" where
  "char_whitespace n \<longleftrightarrow> 9 \<le> n \<and> n \<le> 13 \<or> n = 32 \<or> n = 133 \<or> n = 160 \<or> n = 5760 \<or>
     8192 \<le> n \<and> n \<le> 8202 \<or> n = 8232 \<or> n = 8233 \<or> n = 8239 \<or> n = 8287 \<or> n = 12288"

text \<open>\<open>to_ascii_lowercase\<close> sets the bit 32 of the upper-case letters.\<close>

fun set_bit_32 :: "char \<Rightarrow> char" where
  "set_bit_32 (Char b0 b1 b2 b3 b4 b5 b6 b7) = Char b0 b1 b2 b3 b4 True b6 b7"

definition to_ascii_lowercase :: "string \<Rightarrow> string" where
  "to_ascii_lowercase s = map (\<lambda>c. if ascii_upper (byte c) then set_bit_32 c else c) s"

text \<open>
  The UTF-8 decoder behind \<open>str::chars\<close>.  A \<open>str\<close> is valid UTF-8 by its type, so the
  branches for a truncated or overlong sequence (which give U+FFFD) are never taken by the
  program.
\<close>

definition scalar_from :: "nat \<Rightarrow> nat \<Rightarrow> nat" where
  "scalar_from least n = (if n < least then 65533 else n)"

fun utf8_decode :: "nat list \<Rightarrow> nat list" where
  "utf8_decode [] = []"
| "utf8_decode (a # s) =
     (if a < 128 then a # utf8_decode s
      else if a < 224 then
        (case s of
           b # t \<Rightarrow> scalar_from 128 ((a - 192) * 64 + (b - 128)) # utf8_decode t
         | _ \<Rightarrow> [65533])
      else if a < 240 then
        (case s of
           b # c # t \<Rightarrow>
             scalar_from 2048 (((a - 224) * 64 + (b - 128)) * 64 + (c - 128)) # utf8_decode t
         | _ \<Rightarrow> [65533])
      else
        (case s of
           b # c # d # t \<Rightarrow>
             scalar_from 65536
               ((((a - 240) * 64 + (b - 128)) * 64 + (c - 128)) * 64 + (d - 128)) # utf8_decode t
         | _ \<Rightarrow> [65533]))"

definition str_chars :: "string \<Rightarrow> nat list" where
  "str_chars s = utf8_decode (map byte s)"

definition utf8_encode_char :: "nat \<Rightarrow> nat list" where
  "utf8_encode_char n =
     (if n < 128 then [n]
      else if n < 2048 then [192 + n div 64, 128 + n mod 64]
      else if n < 65536 then [224 + n div 4096, 128 + n div 64 mod 64, 128 + n mod 64]
      else [240 + n div 262144, 128 + n div 4096 mod 64, 128 + n div 64 mod 64, 128 + n mod 64])"

definition utf8_encode :: "nat list \<Rightarrow> nat list" where
  "utf8_encode cs = concat (map utf8_encode_char cs)"

text \<open>\<open>str::trim\<close>, on the decoded characters; the code only asks whether the result is empty.\<close>

definition trim_chars :: "nat list \<Rightarrow> nat list" where
  "trim_chars cs = rev (dropWhile char_whitespace (rev (dropWhile char_whitespace cs)))"

definition trim_is_empty :: "string \<Rightarrow> bool" where
  "trim_is_empty s = (trim_chars (str_chars s) = [])"

definition contains_nul :: "string \<Rightarrow> bool" where
  "contains_nul s = (0 \<in> set (map byte s))"

text \<open>A decimal number, as \<open>format!\<close> prints it.\<close>

fun decimal :: "nat \<Rightarrow> string" where
  "decimal n = (if n < 10 then [char_of (48 + n)] else decimal (n div 10) @ [char_of (48 + n mod 10)])"

declare decimal.simps [simp del]

text \<open>\<open>str::split\<close> at a one-byte separator (at least one piece) and \<open>str::split_once\<close>.\<close>

fun split_on :: "'a \<Rightarrow> 'a list \<Rightarrow> 'a list list" where
  "split_on c [] = [[]]"
| "split_on c (x # xs) =
     (if x = c then [] # split_on c xs
      else (case split_on c xs of
              [] \<Rightarrow> [[x]]
            | ys # zs \<Rightarrow> (x # ys) # zs))"

text \<open>\<open>join\<close>.\<close>

fun join_with :: "string \<Rightarrow> string list \<Rightarrow> string" where
  "join_with s [] = []"
| "join_with s [x] = x"
| "join_with s (x # y # ys) = x @ s @ join_with s (y # ys)"

fun split_once :: "'a \<Rightarrow> 'a list \<Rightarrow> ('a list \<times> 'a list) option" where
  "split_once c [] = None"
| "split_once c (x # xs) =
     (if x = c then Some ([], xs)
      else map_option (\<lambda>(a, b). (x # a, b)) (split_once c xs))"

definition starts_with :: "'a list \<Rightarrow> 'a list \<Rightarrow> bool" where
  "starts_with p s = (take (length p) s = p)"

definition strip_prefix :: "'a list \<Rightarrow> 'a list \<Rightarrow> 'a list option" where
  "strip_prefix p s = (if starts_with p s then Some (drop (length p) s) else None)"

lemma byte_less [simp]: "byte c < 256"
  unfolding byte_def by (cases c) (simp add: of_char_def)

lemma byte_inj [simp]: "byte c = byte d \<longleftrightarrow> c = d"
  by (simp add: byte_def)

lemma base64_digits3: "4096 * (n div 4096) + n div 64 mod 64 * 64 + n mod 64 = n" for n :: nat
proof -
  have "n div 64 div 64 = n div 4096" by (simp add: div_mult2_eq [symmetric])
  moreover have "n div 64 div 64 * 64 + n div 64 mod 64 = n div 64" by (rule div_mult_mod_eq)
  moreover have "n div 64 * 64 + n mod 64 = n" by (rule div_mult_mod_eq)
  ultimately show ?thesis by linarith
qed

lemma base64_digits4:
  "262144 * (n div 262144) + 4096 * (n div 4096 mod 64) + n div 64 mod 64 * 64 + n mod 64 = n"
  for n :: nat
proof -
  have "n div 4096 div 64 = n div 262144" by (simp add: div_mult2_eq [symmetric])
  moreover have "n div 4096 div 64 * 64 + n div 4096 mod 64 = n div 4096"
    by (rule div_mult_mod_eq)
  moreover note base64_digits3 [of n]
  ultimately show ?thesis by linarith
qed

lemma decode_three:
  "a < 16 \<Longrightarrow> (a * 64 + b) * 64 + c = n \<Longrightarrow> 2048 \<le> n \<Longrightarrow>
     utf8_decode ([224 + a, 128 + b, 128 + c] @ rest) = n # utf8_decode rest"
  by (auto simp: scalar_from_def)

lemma decode_four:
  "((a * 64 + b) * 64 + c) * 64 + d = n \<Longrightarrow> 65536 \<le> n \<Longrightarrow>
     utf8_decode ([240 + a, 128 + b, 128 + c, 128 + d] @ rest) = n # utf8_decode rest"
  by (auto simp: scalar_from_def)

lemma horner:
  "(a * 64 + b) * 64 + c = 4096 * a + b * 64 + c"
  "((a * 64 + b) * 64 + c) * 64 + d = 262144 * a + 4096 * b + c * 64 + d" for a b c d :: nat
  by simp_all

lemma utf8_decode_encode_char:
  assumes "n < 1114112"
  shows "utf8_decode (utf8_encode_char n @ rest) = n # utf8_decode rest"
proof -
  consider "n < 128" | "128 \<le> n" "n < 2048" | "2048 \<le> n" "n < 65536" | "65536 \<le> n"
    by linarith
  then show ?thesis
  proof cases
    case 2
    then have "n div 64 < 32" by linarith
    with 2 show ?thesis
      by (simp add: utf8_encode_char_def scalar_from_def)
  next
    case 3
    have "utf8_encode_char n = [224 + n div 4096, 128 + n div 64 mod 64, 128 + n mod 64]"
      using 3 by (simp add: utf8_encode_char_def)
    moreover have "n div 4096 < 16" using 3 by linarith
    ultimately show ?thesis
      by (simp only: decode_three horner base64_digits3 3)
  next
    case 4
    have "utf8_encode_char n =
        [240 + n div 262144, 128 + n div 4096 mod 64, 128 + n div 64 mod 64, 128 + n mod 64]"
      using 4 by (simp add: utf8_encode_char_def)
    then show ?thesis
      by (simp only:) (rule decode_four, simp only: horner(2) base64_digits4, rule 4)
  qed (simp add: utf8_encode_char_def)
qed

theorem utf8_decode_encode:
  "\<forall>c \<in> set cs. c < 1114112 \<Longrightarrow> utf8_decode (utf8_encode cs) = cs"
  by (induction cs) (simp_all add: utf8_encode_def utf8_decode_encode_char)

lemma utf8_decode_ascii: "\<forall>a \<in> set s. a < 128 \<Longrightarrow> utf8_decode s = s"
  by (induction s) auto

lemma str_chars_ascii: "\<forall>c \<in> set s. byte c < 128 \<Longrightarrow> str_chars s = map byte s"
  by (simp add: str_chars_def utf8_decode_ascii)

lemma scalar_from_not_ascii:
  "\<not> scalar_from 128 n < 128" "\<not> scalar_from 2048 n < 128" "\<not> scalar_from 65536 n < 128"
  by (simp_all add: scalar_from_def)

lemma utf8_decode_not_ascii: "\<not> a < 128 \<Longrightarrow> \<exists>c \<in> set (utf8_decode (a # s)). \<not> c < 128"
  by (simp add: scalar_from_not_ascii split: list.split)

lemma utf8_decode_all_ascii:
  "(\<forall>c \<in> set (utf8_decode s). c < 128) \<Longrightarrow> \<forall>a \<in> set s. a < 128"
proof (induction s)
  case (Cons a s)
  then have "a < 128"
    using utf8_decode_not_ascii [of a s] by blast
  with Cons show ?case by simp
qed simp

lemma list_all_str_chars:
  assumes "\<And>n. p n \<Longrightarrow> n < 128"
  shows "list_all p (str_chars s) \<longleftrightarrow> list_all p (map byte s)"
proof
  assume p: "list_all p (str_chars s)"
  then have "\<forall>c \<in> set (str_chars s). c < 128"
    using assms by (auto simp: list_all_iff)
  then have "\<forall>a \<in> set (map byte s). a < 128"
    unfolding str_chars_def by (rule utf8_decode_all_ascii)
  with p show "list_all p (map byte s)"
    by (simp add: str_chars_def utf8_decode_ascii)
next
  assume p: "list_all p (map byte s)"
  then have "\<forall>a \<in> set (map byte s). a < 128"
    using assms by (auto simp: list_all_iff)
  with p show "list_all p (str_chars s)"
    by (simp add: str_chars_def utf8_decode_ascii)
qed

lemma str_chars_Nil [simp]: "str_chars [] = []"
  by (simp add: str_chars_def)

lemma str_chars_eq_Nil [simp]: "str_chars s = [] \<longleftrightarrow> s = []"
  by (cases s) (auto simp: str_chars_def split: list.splits)

text \<open>First character and the rest, both ASCII: the shape of every identifier check.\<close>

lemma str_chars_Cons_ascii:
  assumes "\<And>n. p n \<Longrightarrow> n < 128" and "\<And>n. q n \<Longrightarrow> n < 128"
  shows "(\<exists>n ns. str_chars s = n # ns \<and> p n \<and> list_all q ns) \<longleftrightarrow>
         (\<exists>c cs. s = c # cs \<and> p (byte c) \<and> list_all q (map byte cs))"
proof
  assume "\<exists>n ns. str_chars s = n # ns \<and> p n \<and> list_all q ns"
  then obtain n ns where *: "str_chars s = n # ns" "p n" "list_all q ns" by blast
  then have "list_all (\<lambda>n. n < 128) (str_chars s)"
    using assms by (auto simp: list_all_iff)
  then have "list_all (\<lambda>n. n < 128) (map byte s)"
    by (subst (asm) list_all_str_chars) auto
  then have "map byte s = n # ns"
    using * str_chars_ascii [of s] by (simp add: list_all_iff)
  with * show "\<exists>c cs. s = c # cs \<and> p (byte c) \<and> list_all q (map byte cs)"
    by (cases s) auto
next
  assume "\<exists>c cs. s = c # cs \<and> p (byte c) \<and> list_all q (map byte cs)"
  then obtain c cs where *: "s = c # cs" "p (byte c)" "list_all q (map byte cs)" by blast
  then have "\<forall>c \<in> set s. byte c < 128"
    using assms by (auto simp: list_all_iff)
  with * show "\<exists>n ns. str_chars s = n # ns \<and> p n \<and> list_all q ns"
    by (simp add: str_chars_ascii)
qed

lemma str_chars_ne: "byte c < 128 \<Longrightarrow> str_chars (c # s) = byte c # str_chars s"
  by (simp add: str_chars_def)

lemma trim_chars_Nil_iff: "trim_chars cs = [] \<longleftrightarrow> (\<forall>c \<in> set cs. char_whitespace c)"
  by (auto simp: trim_chars_def dropWhile_eq_Nil_conv dest: set_dropWhileD)
     (metis dropWhile_eq_self_iff hd_Cons_tl hd_dropWhile list.set_intros(1)
        dropWhile_eq_Nil_conv)

lemma split_on_not_Nil [simp]: "split_on c xs \<noteq> []"
  by (induction xs) (auto split: list.splits)

lemma split_on_pieces: "ys \<in> set (split_on c xs) \<Longrightarrow> c \<notin> set ys"
  by (induction xs arbitrary: ys) (auto split: list.splits if_splits)

lemma set_concat_split_on: "set (concat (split_on c xs)) = set xs - {c}"
proof (induction xs)
  case (Cons x xs)
  then show ?case
    by (cases "split_on c xs") auto
qed simp

lemma split_on_no_sep: "c \<notin> set xs \<Longrightarrow> split_on c xs = [xs]"
  by (induction xs) auto

lemma split_on_sep: "c \<notin> set xs \<Longrightarrow> split_on c (xs @ c # ys) = xs # split_on c ys"
  by (induction xs) auto

lemma split_once_Some_iff:
  "split_once c xs = Some (a, b) \<longleftrightarrow> xs = a @ c # b \<and> c \<notin> set a"
proof (induction xs arbitrary: a)
  case (Cons x xs)
  then show ?case by (cases a) auto
qed simp

lemma split_once_None_iff: "split_once c xs = None \<longleftrightarrow> c \<notin> set xs"
  by (induction xs) auto

end
