(* ===== verification/WireCodes.thy ===== *)
theory WireCodes
  imports Prelude
begin

text \<open>
  The enumerations of \<open>pam-desktop-protocol\<close>.  Every one crosses the process boundary as
  an integer (\<open>#[repr(u8)]\<close> or \<open>u16\<close> with \<open>Serialize_repr\<close> / \<open>Deserialize_repr\<close>), so each
  is a datatype, its discriminant, its members in source order, and the partial inverse
  that decoding is.  The locale \<open>wire_code\<close> states what the two processes rely on; it is
  interpreted for every enumeration.

  Constructors are written with the name of their type where another enumeration has the
  same one: \<open>FileAccess.Read\<close> is the source's \<open>FileAccess::Read\<close>.
\<close>

definition find_code :: "('a \<Rightarrow> nat) \<Rightarrow> 'a list \<Rightarrow> nat \<Rightarrow> 'a option" where
  "find_code encode members n = List.find (\<lambda>x. encode x = n) members"

locale wire_code =
  fixes encode :: "'a \<Rightarrow> nat"
    and members :: "'a list"
    and decode :: "nat \<Rightarrow> 'a option"
  assumes complete: "x \<in> set members"
    and sequential: "map encode members = [1..<Suc (length members)]"
    and decode_find: "decode = find_code encode members"
begin

lemma encode_inj: "encode x = encode y \<longleftrightarrow> x = y"
proof -
  have "distinct (map encode members)"
    by (simp add: sequential)
  then have "inj_on encode (set members)"
    by (simp add: distinct_map)
  then show ?thesis
    using complete by (auto dest: inj_onD)
qed

lemma roundtrip: "decode (encode x) = Some x"
proof -
  obtain y where "decode (encode x) = Some y" and "encode y = encode x"
    using complete [of x] by (cases "decode (encode x)")
      (auto simp: decode_find find_code_def find_None_iff find_Some_iff)
  then show ?thesis by (simp add: encode_inj)
qed

lemma decode_Some_iff: "decode n = Some x \<longleftrightarrow> n = encode x"
  using roundtrip by (auto simp: decode_find find_code_def find_Some_iff)

lemma encode_range: "1 \<le> encode x \<and> encode x \<le> length members"
proof -
  have "encode x \<in> set (map encode members)"
    using complete by simp
  then show ?thesis
    unfolding sequential by auto
qed

lemma decode_None_iff: "decode n = None \<longleftrightarrow> n = 0 \<or> length members < n"
proof -
  have "decode n = None \<longleftrightarrow> n \<notin> set (map encode members)"
    by (auto simp: decode_find find_code_def find_None_iff)
  also have "\<dots> \<longleftrightarrow> n = 0 \<or> length members < n"
    unfolding sequential by auto
  finally show ?thesis .
qed

end

datatype MessageKind =
  Request | Response

fun MessageKind_code :: "MessageKind \<Rightarrow> nat" where
  "MessageKind_code MessageKind.Request = 1"
| "MessageKind_code MessageKind.Response = 2"

definition MessageKind_members :: "MessageKind list" where
  "MessageKind_members = [
     MessageKind.Request, MessageKind.Response]"

definition MessageKind_of_code :: "nat \<Rightarrow> MessageKind option" where
  "MessageKind_of_code = find_code MessageKind_code MessageKind_members"

interpretation message_kind_wire: wire_code MessageKind_code MessageKind_members MessageKind_of_code
  by unfold_locales (auto simp: MessageKind_members_def MessageKind_of_code_def upt_rec elim: MessageKind_code.elims intro: MessageKind.exhaust)

datatype ResponseStatus =
  Success | Failure

fun ResponseStatus_code :: "ResponseStatus \<Rightarrow> nat" where
  "ResponseStatus_code ResponseStatus.Success = 1"
| "ResponseStatus_code ResponseStatus.Failure = 2"

definition ResponseStatus_members :: "ResponseStatus list" where
  "ResponseStatus_members = [
     ResponseStatus.Success, ResponseStatus.Failure]"

definition ResponseStatus_of_code :: "nat \<Rightarrow> ResponseStatus option" where
  "ResponseStatus_of_code = find_code ResponseStatus_code ResponseStatus_members"

interpretation response_status_wire: wire_code ResponseStatus_code ResponseStatus_members ResponseStatus_of_code
  by unfold_locales (auto simp: ResponseStatus_members_def ResponseStatus_of_code_def upt_rec elim: ResponseStatus_code.elims intro: ResponseStatus.exhaust)

datatype ErrorCode =
  InvalidMessage | UnsupportedProtocol | UnknownCommand | InvalidPayload | HandlerFailed |
  WorkerUnavailable | Unauthorized | Internal | UnknownEvent | RequestTimedOut |
  RequestCancelled | WorkerCrashed | CapabilityDisabled | PermissionDenied | ResourceNotFound |
  ResourceTooLarge | NativeOperationFailed | InvalidGrant | UpdateDisabled | UpdateUnavailable |
  UpdateIntegrityFailed | UpdateInstallFailed | PluginUnavailable | PluginFailed |
  ShortcutUnavailable | BackgroundJobFailed

fun ErrorCode_code :: "ErrorCode \<Rightarrow> nat" where
  "ErrorCode_code ErrorCode.InvalidMessage = 1"
| "ErrorCode_code ErrorCode.UnsupportedProtocol = 2"
| "ErrorCode_code ErrorCode.UnknownCommand = 3"
| "ErrorCode_code ErrorCode.InvalidPayload = 4"
| "ErrorCode_code ErrorCode.HandlerFailed = 5"
| "ErrorCode_code ErrorCode.WorkerUnavailable = 6"
| "ErrorCode_code ErrorCode.Unauthorized = 7"
| "ErrorCode_code ErrorCode.Internal = 8"
| "ErrorCode_code ErrorCode.UnknownEvent = 9"
| "ErrorCode_code ErrorCode.RequestTimedOut = 10"
| "ErrorCode_code ErrorCode.RequestCancelled = 11"
| "ErrorCode_code ErrorCode.WorkerCrashed = 12"
| "ErrorCode_code ErrorCode.CapabilityDisabled = 13"
| "ErrorCode_code ErrorCode.PermissionDenied = 14"
| "ErrorCode_code ErrorCode.ResourceNotFound = 15"
| "ErrorCode_code ErrorCode.ResourceTooLarge = 16"
| "ErrorCode_code ErrorCode.NativeOperationFailed = 17"
| "ErrorCode_code ErrorCode.InvalidGrant = 18"
| "ErrorCode_code ErrorCode.UpdateDisabled = 19"
| "ErrorCode_code ErrorCode.UpdateUnavailable = 20"
| "ErrorCode_code ErrorCode.UpdateIntegrityFailed = 21"
| "ErrorCode_code ErrorCode.UpdateInstallFailed = 22"
| "ErrorCode_code ErrorCode.PluginUnavailable = 23"
| "ErrorCode_code ErrorCode.PluginFailed = 24"
| "ErrorCode_code ErrorCode.ShortcutUnavailable = 25"
| "ErrorCode_code ErrorCode.BackgroundJobFailed = 26"

definition ErrorCode_members :: "ErrorCode list" where
  "ErrorCode_members = [
     ErrorCode.InvalidMessage, ErrorCode.UnsupportedProtocol, ErrorCode.UnknownCommand,
     ErrorCode.InvalidPayload, ErrorCode.HandlerFailed, ErrorCode.WorkerUnavailable,
     ErrorCode.Unauthorized, ErrorCode.Internal, ErrorCode.UnknownEvent,
     ErrorCode.RequestTimedOut, ErrorCode.RequestCancelled, ErrorCode.WorkerCrashed,
     ErrorCode.CapabilityDisabled, ErrorCode.PermissionDenied, ErrorCode.ResourceNotFound,
     ErrorCode.ResourceTooLarge, ErrorCode.NativeOperationFailed, ErrorCode.InvalidGrant,
     ErrorCode.UpdateDisabled, ErrorCode.UpdateUnavailable, ErrorCode.UpdateIntegrityFailed,
     ErrorCode.UpdateInstallFailed, ErrorCode.PluginUnavailable, ErrorCode.PluginFailed,
     ErrorCode.ShortcutUnavailable, ErrorCode.BackgroundJobFailed]"

definition ErrorCode_of_code :: "nat \<Rightarrow> ErrorCode option" where
  "ErrorCode_of_code = find_code ErrorCode_code ErrorCode_members"

interpretation error_code_wire: wire_code ErrorCode_code ErrorCode_members ErrorCode_of_code
  by unfold_locales (auto simp: ErrorCode_members_def ErrorCode_of_code_def upt_rec elim: ErrorCode_code.elims intro: ErrorCode.exhaust)

datatype EffectKind =
  SetWindowTitle | SetWindowVisible | CloseWindow | FocusWindow | SetMenuItemEnabled |
  SetMenuItemChecked | SetTrayVisible | SetWindowFullscreen | SetWindowMaximized |
  SetWindowAlwaysOnTop | SetWindowAttention | SetApplicationBadge | SetTaskbarProgress |
  QuitApplication

fun EffectKind_code :: "EffectKind \<Rightarrow> nat" where
  "EffectKind_code EffectKind.SetWindowTitle = 1"
| "EffectKind_code EffectKind.SetWindowVisible = 2"
| "EffectKind_code EffectKind.CloseWindow = 3"
| "EffectKind_code EffectKind.FocusWindow = 4"
| "EffectKind_code EffectKind.SetMenuItemEnabled = 5"
| "EffectKind_code EffectKind.SetMenuItemChecked = 6"
| "EffectKind_code EffectKind.SetTrayVisible = 7"
| "EffectKind_code EffectKind.SetWindowFullscreen = 8"
| "EffectKind_code EffectKind.SetWindowMaximized = 9"
| "EffectKind_code EffectKind.SetWindowAlwaysOnTop = 10"
| "EffectKind_code EffectKind.SetWindowAttention = 11"
| "EffectKind_code EffectKind.SetApplicationBadge = 12"
| "EffectKind_code EffectKind.SetTaskbarProgress = 13"
| "EffectKind_code EffectKind.QuitApplication = 14"

definition EffectKind_members :: "EffectKind list" where
  "EffectKind_members = [
     EffectKind.SetWindowTitle, EffectKind.SetWindowVisible, EffectKind.CloseWindow,
     EffectKind.FocusWindow, EffectKind.SetMenuItemEnabled, EffectKind.SetMenuItemChecked,
     EffectKind.SetTrayVisible, EffectKind.SetWindowFullscreen, EffectKind.SetWindowMaximized,
     EffectKind.SetWindowAlwaysOnTop, EffectKind.SetWindowAttention,
     EffectKind.SetApplicationBadge, EffectKind.SetTaskbarProgress, EffectKind.QuitApplication]"

definition EffectKind_of_code :: "nat \<Rightarrow> EffectKind option" where
  "EffectKind_of_code = find_code EffectKind_code EffectKind_members"

interpretation effect_kind_wire: wire_code EffectKind_code EffectKind_members EffectKind_of_code
  by unfold_locales (auto simp: EffectKind_members_def EffectKind_of_code_def upt_rec elim: EffectKind_code.elims intro: EffectKind.exhaust)

datatype TaskbarProgressState =
  Hidden | Indeterminate | Normal | Paused | Error

fun TaskbarProgressState_code :: "TaskbarProgressState \<Rightarrow> nat" where
  "TaskbarProgressState_code TaskbarProgressState.Hidden = 1"
| "TaskbarProgressState_code TaskbarProgressState.Indeterminate = 2"
| "TaskbarProgressState_code TaskbarProgressState.Normal = 3"
| "TaskbarProgressState_code TaskbarProgressState.Paused = 4"
| "TaskbarProgressState_code TaskbarProgressState.Error = 5"

definition TaskbarProgressState_members :: "TaskbarProgressState list" where
  "TaskbarProgressState_members = [
     TaskbarProgressState.Hidden, TaskbarProgressState.Indeterminate,
     TaskbarProgressState.Normal, TaskbarProgressState.Paused, TaskbarProgressState.Error]"

definition TaskbarProgressState_of_code :: "nat \<Rightarrow> TaskbarProgressState option" where
  "TaskbarProgressState_of_code = find_code TaskbarProgressState_code TaskbarProgressState_members"

interpretation taskbar_progress_state_wire: wire_code TaskbarProgressState_code TaskbarProgressState_members TaskbarProgressState_of_code
  by unfold_locales (auto simp: TaskbarProgressState_members_def TaskbarProgressState_of_code_def upt_rec elim: TaskbarProgressState_code.elims intro: TaskbarProgressState.exhaust)

datatype WindowTheme =
  System | Light | Dark

fun WindowTheme_code :: "WindowTheme \<Rightarrow> nat" where
  "WindowTheme_code WindowTheme.System = 1"
| "WindowTheme_code WindowTheme.Light = 2"
| "WindowTheme_code WindowTheme.Dark = 3"

definition WindowTheme_members :: "WindowTheme list" where
  "WindowTheme_members = [
     WindowTheme.System, WindowTheme.Light, WindowTheme.Dark]"

definition WindowTheme_of_code :: "nat \<Rightarrow> WindowTheme option" where
  "WindowTheme_of_code = find_code WindowTheme_code WindowTheme_members"

interpretation window_theme_wire: wire_code WindowTheme_code WindowTheme_members WindowTheme_of_code
  by unfold_locales (auto simp: WindowTheme_members_def WindowTheme_of_code_def upt_rec elim: WindowTheme_code.elims intro: WindowTheme.exhaust)

datatype ApplicationCategory =
  Development | Productivity | Graphics | AudioVideo | Network | Utility | Game | Education

fun ApplicationCategory_code :: "ApplicationCategory \<Rightarrow> nat" where
  "ApplicationCategory_code ApplicationCategory.Development = 1"
| "ApplicationCategory_code ApplicationCategory.Productivity = 2"
| "ApplicationCategory_code ApplicationCategory.Graphics = 3"
| "ApplicationCategory_code ApplicationCategory.AudioVideo = 4"
| "ApplicationCategory_code ApplicationCategory.Network = 5"
| "ApplicationCategory_code ApplicationCategory.Utility = 6"
| "ApplicationCategory_code ApplicationCategory.Game = 7"
| "ApplicationCategory_code ApplicationCategory.Education = 8"

definition ApplicationCategory_members :: "ApplicationCategory list" where
  "ApplicationCategory_members = [
     ApplicationCategory.Development, ApplicationCategory.Productivity,
     ApplicationCategory.Graphics, ApplicationCategory.AudioVideo, ApplicationCategory.Network,
     ApplicationCategory.Utility, ApplicationCategory.Game, ApplicationCategory.Education]"

definition ApplicationCategory_of_code :: "nat \<Rightarrow> ApplicationCategory option" where
  "ApplicationCategory_of_code = find_code ApplicationCategory_code ApplicationCategory_members"

interpretation application_category_wire: wire_code ApplicationCategory_code ApplicationCategory_members ApplicationCategory_of_code
  by unfold_locales (auto simp: ApplicationCategory_members_def ApplicationCategory_of_code_def upt_rec elim: ApplicationCategory_code.elims intro: ApplicationCategory.exhaust)

datatype UpdatePolicy =
  Manual | Notify | Automatic

fun UpdatePolicy_code :: "UpdatePolicy \<Rightarrow> nat" where
  "UpdatePolicy_code UpdatePolicy.Manual = 1"
| "UpdatePolicy_code UpdatePolicy.Notify = 2"
| "UpdatePolicy_code UpdatePolicy.Automatic = 3"

definition UpdatePolicy_members :: "UpdatePolicy list" where
  "UpdatePolicy_members = [
     UpdatePolicy.Manual, UpdatePolicy.Notify, UpdatePolicy.Automatic]"

definition UpdatePolicy_of_code :: "nat \<Rightarrow> UpdatePolicy option" where
  "UpdatePolicy_of_code = find_code UpdatePolicy_code UpdatePolicy_members"

interpretation update_policy_wire: wire_code UpdatePolicy_code UpdatePolicy_members UpdatePolicy_of_code
  by unfold_locales (auto simp: UpdatePolicy_members_def UpdatePolicy_of_code_def upt_rec elim: UpdatePolicy_code.elims intro: UpdatePolicy.exhaust)

datatype UpdatePlatform =
  Linux | Windows | MacOs

fun UpdatePlatform_code :: "UpdatePlatform \<Rightarrow> nat" where
  "UpdatePlatform_code UpdatePlatform.Linux = 1"
| "UpdatePlatform_code UpdatePlatform.Windows = 2"
| "UpdatePlatform_code UpdatePlatform.MacOs = 3"

definition UpdatePlatform_members :: "UpdatePlatform list" where
  "UpdatePlatform_members = [
     UpdatePlatform.Linux, UpdatePlatform.Windows, UpdatePlatform.MacOs]"

definition UpdatePlatform_of_code :: "nat \<Rightarrow> UpdatePlatform option" where
  "UpdatePlatform_of_code = find_code UpdatePlatform_code UpdatePlatform_members"

interpretation update_platform_wire: wire_code UpdatePlatform_code UpdatePlatform_members UpdatePlatform_of_code
  by unfold_locales (auto simp: UpdatePlatform_members_def UpdatePlatform_of_code_def upt_rec elim: UpdatePlatform_code.elims intro: UpdatePlatform.exhaust)

datatype UpdateArtifactKind =
  PortableArchive | NativeInstaller

fun UpdateArtifactKind_code :: "UpdateArtifactKind \<Rightarrow> nat" where
  "UpdateArtifactKind_code UpdateArtifactKind.PortableArchive = 1"
| "UpdateArtifactKind_code UpdateArtifactKind.NativeInstaller = 2"

definition UpdateArtifactKind_members :: "UpdateArtifactKind list" where
  "UpdateArtifactKind_members = [
     UpdateArtifactKind.PortableArchive, UpdateArtifactKind.NativeInstaller]"

definition UpdateArtifactKind_of_code :: "nat \<Rightarrow> UpdateArtifactKind option" where
  "UpdateArtifactKind_of_code = find_code UpdateArtifactKind_code UpdateArtifactKind_members"

interpretation update_artifact_kind_wire: wire_code UpdateArtifactKind_code UpdateArtifactKind_members UpdateArtifactKind_of_code
  by unfold_locales (auto simp: UpdateArtifactKind_members_def UpdateArtifactKind_of_code_def upt_rec elim: UpdateArtifactKind_code.elims intro: UpdateArtifactKind.exhaust)

datatype UpdateState =
  Disabled | Idle | Checking | Available | Downloading | Ready | Applying | UpToDate | Failed

fun UpdateState_code :: "UpdateState \<Rightarrow> nat" where
  "UpdateState_code UpdateState.Disabled = 1"
| "UpdateState_code UpdateState.Idle = 2"
| "UpdateState_code UpdateState.Checking = 3"
| "UpdateState_code UpdateState.Available = 4"
| "UpdateState_code UpdateState.Downloading = 5"
| "UpdateState_code UpdateState.Ready = 6"
| "UpdateState_code UpdateState.Applying = 7"
| "UpdateState_code UpdateState.UpToDate = 8"
| "UpdateState_code UpdateState.Failed = 9"

definition UpdateState_members :: "UpdateState list" where
  "UpdateState_members = [
     UpdateState.Disabled, UpdateState.Idle, UpdateState.Checking, UpdateState.Available,
     UpdateState.Downloading, UpdateState.Ready, UpdateState.Applying, UpdateState.UpToDate,
     UpdateState.Failed]"

definition UpdateState_of_code :: "nat \<Rightarrow> UpdateState option" where
  "UpdateState_of_code = find_code UpdateState_code UpdateState_members"

interpretation update_state_wire: wire_code UpdateState_code UpdateState_members UpdateState_of_code
  by unfold_locales (auto simp: UpdateState_members_def UpdateState_of_code_def upt_rec elim: UpdateState_code.elims intro: UpdateState.exhaust)

datatype MenuItemKind =
  Command | Checkbox | Separator | Submenu

fun MenuItemKind_code :: "MenuItemKind \<Rightarrow> nat" where
  "MenuItemKind_code MenuItemKind.Command = 1"
| "MenuItemKind_code MenuItemKind.Checkbox = 2"
| "MenuItemKind_code MenuItemKind.Separator = 3"
| "MenuItemKind_code MenuItemKind.Submenu = 4"

definition MenuItemKind_members :: "MenuItemKind list" where
  "MenuItemKind_members = [
     MenuItemKind.Command, MenuItemKind.Checkbox, MenuItemKind.Separator, MenuItemKind.Submenu]"

definition MenuItemKind_of_code :: "nat \<Rightarrow> MenuItemKind option" where
  "MenuItemKind_of_code = find_code MenuItemKind_code MenuItemKind_members"

interpretation menu_item_kind_wire: wire_code MenuItemKind_code MenuItemKind_members MenuItemKind_of_code
  by unfold_locales (auto simp: MenuItemKind_members_def MenuItemKind_of_code_def upt_rec elim: MenuItemKind_code.elims intro: MenuItemKind.exhaust)

datatype TrayCloseBehavior =
  Exit | Hide

fun TrayCloseBehavior_code :: "TrayCloseBehavior \<Rightarrow> nat" where
  "TrayCloseBehavior_code TrayCloseBehavior.Exit = 1"
| "TrayCloseBehavior_code TrayCloseBehavior.Hide = 2"

definition TrayCloseBehavior_members :: "TrayCloseBehavior list" where
  "TrayCloseBehavior_members = [
     TrayCloseBehavior.Exit, TrayCloseBehavior.Hide]"

definition TrayCloseBehavior_of_code :: "nat \<Rightarrow> TrayCloseBehavior option" where
  "TrayCloseBehavior_of_code = find_code TrayCloseBehavior_code TrayCloseBehavior_members"

interpretation tray_close_behavior_wire: wire_code TrayCloseBehavior_code TrayCloseBehavior_members TrayCloseBehavior_of_code
  by unfold_locales (auto simp: TrayCloseBehavior_members_def TrayCloseBehavior_of_code_def upt_rec elim: TrayCloseBehavior_code.elims intro: TrayCloseBehavior.exhaust)

datatype ShortcutState =
  Pressed | Released

fun ShortcutState_code :: "ShortcutState \<Rightarrow> nat" where
  "ShortcutState_code ShortcutState.Pressed = 1"
| "ShortcutState_code ShortcutState.Released = 2"

definition ShortcutState_members :: "ShortcutState list" where
  "ShortcutState_members = [
     ShortcutState.Pressed, ShortcutState.Released]"

definition ShortcutState_of_code :: "nat \<Rightarrow> ShortcutState option" where
  "ShortcutState_of_code = find_code ShortcutState_code ShortcutState_members"

interpretation shortcut_state_wire: wire_code ShortcutState_code ShortcutState_members ShortcutState_of_code
  by unfold_locales (auto simp: ShortcutState_members_def ShortcutState_of_code_def upt_rec elim: ShortcutState_code.elims intro: ShortcutState.exhaust)

datatype JobOverlapPolicy =
  Skip | Wait

fun JobOverlapPolicy_code :: "JobOverlapPolicy \<Rightarrow> nat" where
  "JobOverlapPolicy_code JobOverlapPolicy.Skip = 1"
| "JobOverlapPolicy_code JobOverlapPolicy.Wait = 2"

definition JobOverlapPolicy_members :: "JobOverlapPolicy list" where
  "JobOverlapPolicy_members = [
     JobOverlapPolicy.Skip, JobOverlapPolicy.Wait]"

definition JobOverlapPolicy_of_code :: "nat \<Rightarrow> JobOverlapPolicy option" where
  "JobOverlapPolicy_of_code = find_code JobOverlapPolicy_code JobOverlapPolicy_members"

interpretation job_overlap_policy_wire: wire_code JobOverlapPolicy_code JobOverlapPolicy_members JobOverlapPolicy_of_code
  by unfold_locales (auto simp: JobOverlapPolicy_members_def JobOverlapPolicy_of_code_def upt_rec elim: JobOverlapPolicy_code.elims intro: JobOverlapPolicy.exhaust)

datatype FileAccess =
  Read | Write | ReadWrite

fun FileAccess_code :: "FileAccess \<Rightarrow> nat" where
  "FileAccess_code FileAccess.Read = 1"
| "FileAccess_code FileAccess.Write = 2"
| "FileAccess_code FileAccess.ReadWrite = 3"

definition FileAccess_members :: "FileAccess list" where
  "FileAccess_members = [
     FileAccess.Read, FileAccess.Write, FileAccess.ReadWrite]"

definition FileAccess_of_code :: "nat \<Rightarrow> FileAccess option" where
  "FileAccess_of_code = find_code FileAccess_code FileAccess_members"

interpretation file_access_wire: wire_code FileAccess_code FileAccess_members FileAccess_of_code
  by unfold_locales (auto simp: FileAccess_members_def FileAccess_of_code_def upt_rec elim: FileAccess_code.elims intro: FileAccess.exhaust)

datatype FileEntryKind =
  File | Directory

fun FileEntryKind_code :: "FileEntryKind \<Rightarrow> nat" where
  "FileEntryKind_code FileEntryKind.File = 1"
| "FileEntryKind_code FileEntryKind.Directory = 2"

definition FileEntryKind_members :: "FileEntryKind list" where
  "FileEntryKind_members = [
     FileEntryKind.File, FileEntryKind.Directory]"

definition FileEntryKind_of_code :: "nat \<Rightarrow> FileEntryKind option" where
  "FileEntryKind_of_code = find_code FileEntryKind_code FileEntryKind_members"

interpretation file_entry_kind_wire: wire_code FileEntryKind_code FileEntryKind_members FileEntryKind_of_code
  by unfold_locales (auto simp: FileEntryKind_members_def FileEntryKind_of_code_def upt_rec elim: FileEntryKind_code.elims intro: FileEntryKind.exhaust)

datatype DialogKind =
  OpenFile | OpenFiles | SaveFile | OpenDirectory

fun DialogKind_code :: "DialogKind \<Rightarrow> nat" where
  "DialogKind_code DialogKind.OpenFile = 1"
| "DialogKind_code DialogKind.OpenFiles = 2"
| "DialogKind_code DialogKind.SaveFile = 3"
| "DialogKind_code DialogKind.OpenDirectory = 4"

definition DialogKind_members :: "DialogKind list" where
  "DialogKind_members = [
     DialogKind.OpenFile, DialogKind.OpenFiles, DialogKind.SaveFile, DialogKind.OpenDirectory]"

definition DialogKind_of_code :: "nat \<Rightarrow> DialogKind option" where
  "DialogKind_of_code = find_code DialogKind_code DialogKind_members"

interpretation dialog_kind_wire: wire_code DialogKind_code DialogKind_members DialogKind_of_code
  by unfold_locales (auto simp: DialogKind_members_def DialogKind_of_code_def upt_rec elim: DialogKind_code.elims intro: DialogKind.exhaust)

datatype FileOperation =
  ReadText | WriteText | List | Metadata | CreateDirectory

fun FileOperation_code :: "FileOperation \<Rightarrow> nat" where
  "FileOperation_code FileOperation.ReadText = 1"
| "FileOperation_code FileOperation.WriteText = 2"
| "FileOperation_code FileOperation.List = 3"
| "FileOperation_code FileOperation.Metadata = 4"
| "FileOperation_code FileOperation.CreateDirectory = 5"

definition FileOperation_members :: "FileOperation list" where
  "FileOperation_members = [
     FileOperation.ReadText, FileOperation.WriteText, FileOperation.List,
     FileOperation.Metadata, FileOperation.CreateDirectory]"

definition FileOperation_of_code :: "nat \<Rightarrow> FileOperation option" where
  "FileOperation_of_code = find_code FileOperation_code FileOperation_members"

interpretation file_operation_wire: wire_code FileOperation_code FileOperation_members FileOperation_of_code
  by unfold_locales (auto simp: FileOperation_members_def FileOperation_of_code_def upt_rec elim: FileOperation_code.elims intro: FileOperation.exhaust)

datatype ClipboardOperation =
  ReadText | WriteText | Clear | WriteHtml | ReadImage | WriteImage | ReadFiles | WriteFiles |
  ReadCustom | WriteCustom | AvailableFormats

fun ClipboardOperation_code :: "ClipboardOperation \<Rightarrow> nat" where
  "ClipboardOperation_code ClipboardOperation.ReadText = 1"
| "ClipboardOperation_code ClipboardOperation.WriteText = 2"
| "ClipboardOperation_code ClipboardOperation.Clear = 3"
| "ClipboardOperation_code ClipboardOperation.WriteHtml = 4"
| "ClipboardOperation_code ClipboardOperation.ReadImage = 5"
| "ClipboardOperation_code ClipboardOperation.WriteImage = 6"
| "ClipboardOperation_code ClipboardOperation.ReadFiles = 7"
| "ClipboardOperation_code ClipboardOperation.WriteFiles = 8"
| "ClipboardOperation_code ClipboardOperation.ReadCustom = 9"
| "ClipboardOperation_code ClipboardOperation.WriteCustom = 10"
| "ClipboardOperation_code ClipboardOperation.AvailableFormats = 11"

definition ClipboardOperation_members :: "ClipboardOperation list" where
  "ClipboardOperation_members = [
     ClipboardOperation.ReadText, ClipboardOperation.WriteText, ClipboardOperation.Clear,
     ClipboardOperation.WriteHtml, ClipboardOperation.ReadImage, ClipboardOperation.WriteImage,
     ClipboardOperation.ReadFiles, ClipboardOperation.WriteFiles, ClipboardOperation.ReadCustom,
     ClipboardOperation.WriteCustom, ClipboardOperation.AvailableFormats]"

definition ClipboardOperation_of_code :: "nat \<Rightarrow> ClipboardOperation option" where
  "ClipboardOperation_of_code = find_code ClipboardOperation_code ClipboardOperation_members"

interpretation clipboard_operation_wire: wire_code ClipboardOperation_code ClipboardOperation_members ClipboardOperation_of_code
  by unfold_locales (auto simp: ClipboardOperation_members_def ClipboardOperation_of_code_def upt_rec elim: ClipboardOperation_code.elims intro: ClipboardOperation.exhaust)

datatype NotificationUrgency =
  Low | Normal | Critical

fun NotificationUrgency_code :: "NotificationUrgency \<Rightarrow> nat" where
  "NotificationUrgency_code NotificationUrgency.Low = 1"
| "NotificationUrgency_code NotificationUrgency.Normal = 2"
| "NotificationUrgency_code NotificationUrgency.Critical = 3"

definition NotificationUrgency_members :: "NotificationUrgency list" where
  "NotificationUrgency_members = [
     NotificationUrgency.Low, NotificationUrgency.Normal, NotificationUrgency.Critical]"

definition NotificationUrgency_of_code :: "nat \<Rightarrow> NotificationUrgency option" where
  "NotificationUrgency_of_code = find_code NotificationUrgency_code NotificationUrgency_members"

interpretation notification_urgency_wire: wire_code NotificationUrgency_code NotificationUrgency_members NotificationUrgency_of_code
  by unfold_locales (auto simp: NotificationUrgency_members_def NotificationUrgency_of_code_def upt_rec elim: NotificationUrgency_code.elims intro: NotificationUrgency.exhaust)

datatype DatabaseAccess =
  Read | ReadWrite

fun DatabaseAccess_code :: "DatabaseAccess \<Rightarrow> nat" where
  "DatabaseAccess_code DatabaseAccess.Read = 1"
| "DatabaseAccess_code DatabaseAccess.ReadWrite = 2"

definition DatabaseAccess_members :: "DatabaseAccess list" where
  "DatabaseAccess_members = [
     DatabaseAccess.Read, DatabaseAccess.ReadWrite]"

definition DatabaseAccess_of_code :: "nat \<Rightarrow> DatabaseAccess option" where
  "DatabaseAccess_of_code = find_code DatabaseAccess_code DatabaseAccess_members"

interpretation database_access_wire: wire_code DatabaseAccess_code DatabaseAccess_members DatabaseAccess_of_code
  by unfold_locales (auto simp: DatabaseAccess_members_def DatabaseAccess_of_code_def upt_rec elim: DatabaseAccess_code.elims intro: DatabaseAccess.exhaust)

datatype DatabaseOperation =
  Query | Execute | Transaction

fun DatabaseOperation_code :: "DatabaseOperation \<Rightarrow> nat" where
  "DatabaseOperation_code DatabaseOperation.Query = 1"
| "DatabaseOperation_code DatabaseOperation.Execute = 2"
| "DatabaseOperation_code DatabaseOperation.Transaction = 3"

definition DatabaseOperation_members :: "DatabaseOperation list" where
  "DatabaseOperation_members = [
     DatabaseOperation.Query, DatabaseOperation.Execute, DatabaseOperation.Transaction]"

definition DatabaseOperation_of_code :: "nat \<Rightarrow> DatabaseOperation option" where
  "DatabaseOperation_of_code = find_code DatabaseOperation_code DatabaseOperation_members"

interpretation database_operation_wire: wire_code DatabaseOperation_code DatabaseOperation_members DatabaseOperation_of_code
  by unfold_locales (auto simp: DatabaseOperation_members_def DatabaseOperation_of_code_def upt_rec elim: DatabaseOperation_code.elims intro: DatabaseOperation.exhaust)

datatype ConnectivityState =
  Offline | Online

fun ConnectivityState_code :: "ConnectivityState \<Rightarrow> nat" where
  "ConnectivityState_code ConnectivityState.Offline = 1"
| "ConnectivityState_code ConnectivityState.Online = 2"

definition ConnectivityState_members :: "ConnectivityState list" where
  "ConnectivityState_members = [
     ConnectivityState.Offline, ConnectivityState.Online]"

definition ConnectivityState_of_code :: "nat \<Rightarrow> ConnectivityState option" where
  "ConnectivityState_of_code = find_code ConnectivityState_code ConnectivityState_members"

interpretation connectivity_state_wire: wire_code ConnectivityState_code ConnectivityState_members ConnectivityState_of_code
  by unfold_locales (auto simp: ConnectivityState_members_def ConnectivityState_of_code_def upt_rec elim: ConnectivityState_code.elims intro: ConnectivityState.exhaust)

datatype PowerState =
  Unknown | Charging | Discharging | Full

fun PowerState_code :: "PowerState \<Rightarrow> nat" where
  "PowerState_code PowerState.Unknown = 1"
| "PowerState_code PowerState.Charging = 2"
| "PowerState_code PowerState.Discharging = 3"
| "PowerState_code PowerState.Full = 4"

definition PowerState_members :: "PowerState list" where
  "PowerState_members = [
     PowerState.Unknown, PowerState.Charging, PowerState.Discharging, PowerState.Full]"

definition PowerState_of_code :: "nat \<Rightarrow> PowerState option" where
  "PowerState_of_code = find_code PowerState_code PowerState_members"

interpretation power_state_wire: wire_code PowerState_code PowerState_members PowerState_of_code
  by unfold_locales (auto simp: PowerState_members_def PowerState_of_code_def upt_rec elim: PowerState_code.elims intro: PowerState.exhaust)

datatype CommandExecution =
  Stateful | Parallel | Background

fun CommandExecution_code :: "CommandExecution \<Rightarrow> nat" where
  "CommandExecution_code CommandExecution.Stateful = 1"
| "CommandExecution_code CommandExecution.Parallel = 2"
| "CommandExecution_code CommandExecution.Background = 3"

definition CommandExecution_members :: "CommandExecution list" where
  "CommandExecution_members = [
     CommandExecution.Stateful, CommandExecution.Parallel, CommandExecution.Background]"

definition CommandExecution_of_code :: "nat \<Rightarrow> CommandExecution option" where
  "CommandExecution_of_code = find_code CommandExecution_code CommandExecution_members"

interpretation command_execution_wire: wire_code CommandExecution_code CommandExecution_members CommandExecution_of_code
  by unfold_locales (auto simp: CommandExecution_members_def CommandExecution_of_code_def upt_rec elim: CommandExecution_code.elims intro: CommandExecution.exhaust)

datatype ProcessIsolation =
  Shared | PerWindow | PerWorkspace

fun ProcessIsolation_code :: "ProcessIsolation \<Rightarrow> nat" where
  "ProcessIsolation_code ProcessIsolation.Shared = 1"
| "ProcessIsolation_code ProcessIsolation.PerWindow = 2"
| "ProcessIsolation_code ProcessIsolation.PerWorkspace = 3"

definition ProcessIsolation_members :: "ProcessIsolation list" where
  "ProcessIsolation_members = [
     ProcessIsolation.Shared, ProcessIsolation.PerWindow, ProcessIsolation.PerWorkspace]"

definition ProcessIsolation_of_code :: "nat \<Rightarrow> ProcessIsolation option" where
  "ProcessIsolation_of_code = find_code ProcessIsolation_code ProcessIsolation_members"

interpretation process_isolation_wire: wire_code ProcessIsolation_code ProcessIsolation_members ProcessIsolation_of_code
  by unfold_locales (auto simp: ProcessIsolation_members_def ProcessIsolation_of_code_def upt_rec elim: ProcessIsolation_code.elims intro: ProcessIsolation.exhaust)

datatype RenderBackend =
  Automatic | Gpu | Software

fun RenderBackend_code :: "RenderBackend \<Rightarrow> nat" where
  "RenderBackend_code RenderBackend.Automatic = 1"
| "RenderBackend_code RenderBackend.Gpu = 2"
| "RenderBackend_code RenderBackend.Software = 3"

definition RenderBackend_members :: "RenderBackend list" where
  "RenderBackend_members = [
     RenderBackend.Automatic, RenderBackend.Gpu, RenderBackend.Software]"

definition RenderBackend_of_code :: "nat \<Rightarrow> RenderBackend option" where
  "RenderBackend_of_code = find_code RenderBackend_code RenderBackend_members"

interpretation render_backend_wire: wire_code RenderBackend_code RenderBackend_members RenderBackend_of_code
  by unfold_locales (auto simp: RenderBackend_members_def RenderBackend_of_code_def upt_rec elim: RenderBackend_code.elims intro: RenderBackend.exhaust)

datatype WindowRole =
  Primary | Child | Modal | Popover | Panel | Palette

fun WindowRole_code :: "WindowRole \<Rightarrow> nat" where
  "WindowRole_code WindowRole.Primary = 1"
| "WindowRole_code WindowRole.Child = 2"
| "WindowRole_code WindowRole.Modal = 3"
| "WindowRole_code WindowRole.Popover = 4"
| "WindowRole_code WindowRole.Panel = 5"
| "WindowRole_code WindowRole.Palette = 6"

definition WindowRole_members :: "WindowRole list" where
  "WindowRole_members = [
     WindowRole.Primary, WindowRole.Child, WindowRole.Modal, WindowRole.Popover,
     WindowRole.Panel, WindowRole.Palette]"

definition WindowRole_of_code :: "nat \<Rightarrow> WindowRole option" where
  "WindowRole_of_code = find_code WindowRole_code WindowRole_members"

interpretation window_role_wire: wire_code WindowRole_code WindowRole_members WindowRole_of_code
  by unfold_locales (auto simp: WindowRole_members_def WindowRole_of_code_def upt_rec elim: WindowRole_code.elims intro: WindowRole.exhaust)

datatype InstallerScope =
  CurrentUser | Machine

fun InstallerScope_code :: "InstallerScope \<Rightarrow> nat" where
  "InstallerScope_code InstallerScope.CurrentUser = 1"
| "InstallerScope_code InstallerScope.Machine = 2"

definition InstallerScope_members :: "InstallerScope list" where
  "InstallerScope_members = [
     InstallerScope.CurrentUser, InstallerScope.Machine]"

definition InstallerScope_of_code :: "nat \<Rightarrow> InstallerScope option" where
  "InstallerScope_of_code = find_code InstallerScope_code InstallerScope_members"

interpretation installer_scope_wire: wire_code InstallerScope_code InstallerScope_members InstallerScope_of_code
  by unfold_locales (auto simp: InstallerScope_members_def InstallerScope_of_code_def upt_rec elim: InstallerScope_code.elims intro: InstallerScope.exhaust)

datatype ReleaseChannel =
  Stable | Beta | Nightly

fun ReleaseChannel_code :: "ReleaseChannel \<Rightarrow> nat" where
  "ReleaseChannel_code ReleaseChannel.Stable = 1"
| "ReleaseChannel_code ReleaseChannel.Beta = 2"
| "ReleaseChannel_code ReleaseChannel.Nightly = 3"

definition ReleaseChannel_members :: "ReleaseChannel list" where
  "ReleaseChannel_members = [
     ReleaseChannel.Stable, ReleaseChannel.Beta, ReleaseChannel.Nightly]"

definition ReleaseChannel_of_code :: "nat \<Rightarrow> ReleaseChannel option" where
  "ReleaseChannel_of_code = find_code ReleaseChannel_code ReleaseChannel_members"

interpretation release_channel_wire: wire_code ReleaseChannel_code ReleaseChannel_members ReleaseChannel_of_code
  by unfold_locales (auto simp: ReleaseChannel_members_def ReleaseChannel_of_code_def upt_rec elim: ReleaseChannel_code.elims intro: ReleaseChannel.exhaust)

datatype HttpMethod =
  Get | Post | Put | Patch | Delete | Head

fun HttpMethod_code :: "HttpMethod \<Rightarrow> nat" where
  "HttpMethod_code HttpMethod.Get = 1"
| "HttpMethod_code HttpMethod.Post = 2"
| "HttpMethod_code HttpMethod.Put = 3"
| "HttpMethod_code HttpMethod.Patch = 4"
| "HttpMethod_code HttpMethod.Delete = 5"
| "HttpMethod_code HttpMethod.Head = 6"

definition HttpMethod_members :: "HttpMethod list" where
  "HttpMethod_members = [
     HttpMethod.Get, HttpMethod.Post, HttpMethod.Put, HttpMethod.Patch, HttpMethod.Delete,
     HttpMethod.Head]"

definition HttpMethod_of_code :: "nat \<Rightarrow> HttpMethod option" where
  "HttpMethod_of_code = find_code HttpMethod_code HttpMethod_members"

interpretation http_method_wire: wire_code HttpMethod_code HttpMethod_members HttpMethod_of_code
  by unfold_locales (auto simp: HttpMethod_members_def HttpMethod_of_code_def upt_rec elim: HttpMethod_code.elims intro: HttpMethod.exhaust)

datatype SecretOperation =
  Read | Write | Delete

fun SecretOperation_code :: "SecretOperation \<Rightarrow> nat" where
  "SecretOperation_code SecretOperation.Read = 1"
| "SecretOperation_code SecretOperation.Write = 2"
| "SecretOperation_code SecretOperation.Delete = 3"

definition SecretOperation_members :: "SecretOperation list" where
  "SecretOperation_members = [
     SecretOperation.Read, SecretOperation.Write, SecretOperation.Delete]"

definition SecretOperation_of_code :: "nat \<Rightarrow> SecretOperation option" where
  "SecretOperation_of_code = find_code SecretOperation_code SecretOperation_members"

interpretation secret_operation_wire: wire_code SecretOperation_code SecretOperation_members SecretOperation_of_code
  by unfold_locales (auto simp: SecretOperation_members_def SecretOperation_of_code_def upt_rec elim: SecretOperation_code.elims intro: SecretOperation.exhaust)

datatype ProcessArgumentPolicy =
  Fixed | Append

fun ProcessArgumentPolicy_code :: "ProcessArgumentPolicy \<Rightarrow> nat" where
  "ProcessArgumentPolicy_code ProcessArgumentPolicy.Fixed = 1"
| "ProcessArgumentPolicy_code ProcessArgumentPolicy.Append = 2"

definition ProcessArgumentPolicy_members :: "ProcessArgumentPolicy list" where
  "ProcessArgumentPolicy_members = [
     ProcessArgumentPolicy.Fixed, ProcessArgumentPolicy.Append]"

definition ProcessArgumentPolicy_of_code :: "nat \<Rightarrow> ProcessArgumentPolicy option" where
  "ProcessArgumentPolicy_of_code = find_code ProcessArgumentPolicy_code ProcessArgumentPolicy_members"

interpretation process_argument_policy_wire: wire_code ProcessArgumentPolicy_code ProcessArgumentPolicy_members ProcessArgumentPolicy_of_code
  by unfold_locales (auto simp: ProcessArgumentPolicy_members_def ProcessArgumentPolicy_of_code_def upt_rec elim: ProcessArgumentPolicy_code.elims intro: ProcessArgumentPolicy.exhaust)

datatype FileWatchOperation =
  Start | Stop

fun FileWatchOperation_code :: "FileWatchOperation \<Rightarrow> nat" where
  "FileWatchOperation_code FileWatchOperation.Start = 1"
| "FileWatchOperation_code FileWatchOperation.Stop = 2"

definition FileWatchOperation_members :: "FileWatchOperation list" where
  "FileWatchOperation_members = [
     FileWatchOperation.Start, FileWatchOperation.Stop]"

definition FileWatchOperation_of_code :: "nat \<Rightarrow> FileWatchOperation option" where
  "FileWatchOperation_of_code = find_code FileWatchOperation_code FileWatchOperation_members"

interpretation file_watch_operation_wire: wire_code FileWatchOperation_code FileWatchOperation_members FileWatchOperation_of_code
  by unfold_locales (auto simp: FileWatchOperation_members_def FileWatchOperation_of_code_def upt_rec elim: FileWatchOperation_code.elims intro: FileWatchOperation.exhaust)

datatype DesktopPortalOperation =
  OpenUri | Screenshot | PrintPdf | CameraStatus | RequestCamera | ListScanners | ScanImage

fun DesktopPortalOperation_code :: "DesktopPortalOperation \<Rightarrow> nat" where
  "DesktopPortalOperation_code DesktopPortalOperation.OpenUri = 1"
| "DesktopPortalOperation_code DesktopPortalOperation.Screenshot = 2"
| "DesktopPortalOperation_code DesktopPortalOperation.PrintPdf = 3"
| "DesktopPortalOperation_code DesktopPortalOperation.CameraStatus = 4"
| "DesktopPortalOperation_code DesktopPortalOperation.RequestCamera = 5"
| "DesktopPortalOperation_code DesktopPortalOperation.ListScanners = 6"
| "DesktopPortalOperation_code DesktopPortalOperation.ScanImage = 7"

definition DesktopPortalOperation_members :: "DesktopPortalOperation list" where
  "DesktopPortalOperation_members = [
     DesktopPortalOperation.OpenUri, DesktopPortalOperation.Screenshot,
     DesktopPortalOperation.PrintPdf, DesktopPortalOperation.CameraStatus,
     DesktopPortalOperation.RequestCamera, DesktopPortalOperation.ListScanners,
     DesktopPortalOperation.ScanImage]"

definition DesktopPortalOperation_of_code :: "nat \<Rightarrow> DesktopPortalOperation option" where
  "DesktopPortalOperation_of_code = find_code DesktopPortalOperation_code DesktopPortalOperation_members"

interpretation desktop_portal_operation_wire: wire_code DesktopPortalOperation_code DesktopPortalOperation_members DesktopPortalOperation_of_code
  by unfold_locales (auto simp: DesktopPortalOperation_members_def DesktopPortalOperation_of_code_def upt_rec elim: DesktopPortalOperation_code.elims intro: DesktopPortalOperation.exhaust)

datatype ScannerImageFormat =
  Png | Jpeg | Pnm

fun ScannerImageFormat_code :: "ScannerImageFormat \<Rightarrow> nat" where
  "ScannerImageFormat_code ScannerImageFormat.Png = 1"
| "ScannerImageFormat_code ScannerImageFormat.Jpeg = 2"
| "ScannerImageFormat_code ScannerImageFormat.Pnm = 3"

definition ScannerImageFormat_members :: "ScannerImageFormat list" where
  "ScannerImageFormat_members = [
     ScannerImageFormat.Png, ScannerImageFormat.Jpeg, ScannerImageFormat.Pnm]"

definition ScannerImageFormat_of_code :: "nat \<Rightarrow> ScannerImageFormat option" where
  "ScannerImageFormat_of_code = find_code ScannerImageFormat_code ScannerImageFormat_members"

interpretation scanner_image_format_wire: wire_code ScannerImageFormat_code ScannerImageFormat_members ScannerImageFormat_of_code
  by unfold_locales (auto simp: ScannerImageFormat_members_def ScannerImageFormat_of_code_def upt_rec elim: ScannerImageFormat_code.elims intro: ScannerImageFormat.exhaust)

datatype PluginSandboxMode =
  Inherited | Strict

fun PluginSandboxMode_code :: "PluginSandboxMode \<Rightarrow> nat" where
  "PluginSandboxMode_code PluginSandboxMode.Inherited = 1"
| "PluginSandboxMode_code PluginSandboxMode.Strict = 2"

definition PluginSandboxMode_members :: "PluginSandboxMode list" where
  "PluginSandboxMode_members = [
     PluginSandboxMode.Inherited, PluginSandboxMode.Strict]"

definition PluginSandboxMode_of_code :: "nat \<Rightarrow> PluginSandboxMode option" where
  "PluginSandboxMode_of_code = find_code PluginSandboxMode_code PluginSandboxMode_members"

interpretation plugin_sandbox_mode_wire: wire_code PluginSandboxMode_code PluginSandboxMode_members PluginSandboxMode_of_code
  by unfold_locales (auto simp: PluginSandboxMode_members_def PluginSandboxMode_of_code_def upt_rec elim: PluginSandboxMode_code.elims intro: PluginSandboxMode.exhaust)

section \<open>Access modes\<close>

definition can_read :: "FileAccess \<Rightarrow> bool" where
  "can_read a = (case a of FileAccess.Read \<Rightarrow> True | FileAccess.ReadWrite \<Rightarrow> True | _ \<Rightarrow> False)"

definition can_write :: "FileAccess \<Rightarrow> bool" where
  "can_write a = (case a of FileAccess.Write \<Rightarrow> True | FileAccess.ReadWrite \<Rightarrow> True | _ \<Rightarrow> False)"

lemma access_simps [simp]:
  "can_read FileAccess.Read" "\<not> can_read FileAccess.Write" "can_read FileAccess.ReadWrite"
  "\<not> can_write FileAccess.Read" "can_write FileAccess.Write" "can_write FileAccess.ReadWrite"
  by (simp_all add: can_read_def can_write_def)

end
