(* ===== verification/Paths.thy ===== *)
theory Paths
  imports Prelude
begin

text \<open>
  \<open>std::path\<close> as the code uses it, on a Unix target: \<open>components\<close>, \<open>is_absolute\<close>,
  \<open>file_name\<close>, \<open>extension\<close> and \<open>join\<close>, and the lexical meaning of a path as a
  position in the directory tree, against which the confinement theorems are stated.
\<close>

section \<open>Components\<close>

datatype component = RootDir | CurDir | ParentDir | Normal string

definition slash :: char where
  "slash = CHR ''/''"

fun segment_component :: "string \<Rightarrow> component option" where
  "segment_component s =
     (if s = [] \<or> s = ''.'' then None
      else if s = ''..'' then Some ParentDir
      else Some (Normal s))"

text \<open>
  Empty segments and inner dots are skipped; a leading dot of a relative path is kept as
  \<open>CurDir\<close>, a leading slash is \<open>RootDir\<close>.
\<close>

definition path_components :: "string \<Rightarrow> component list" where
  "path_components s =
     (let segments = split_on slash s;
          body = List.map_filter segment_component segments
      in if starts_with ''/'' s then RootDir # body
         else if hd segments = ''.'' then CurDir # body
         else body)"

definition path_is_absolute :: "string \<Rightarrow> bool" where
  "path_is_absolute s = starts_with ''/'' s"

definition path_file_name :: "string \<Rightarrow> string option" where
  "path_file_name s =
     (case rev (path_components s) of
        Normal n # _ \<Rightarrow> Some n
      | _ \<Rightarrow> None)"

definition rsplit_once :: "'a \<Rightarrow> 'a list \<Rightarrow> ('a list \<times> 'a list) option" where
  "rsplit_once c s = map_option (\<lambda>(a, b). (rev b, rev a)) (split_once c (rev s))"

text \<open>\<open>extension\<close>: what follows the last dot of the file name, unless that dot begins it.\<close>

definition path_extension :: "string \<Rightarrow> string option" where
  "path_extension s =
     Option.bind (path_file_name s) (\<lambda>name.
       case rsplit_once CHR ''.'' name of
         None \<Rightarrow> None
       | Some (stem, ext) \<Rightarrow> if stem = [] then None else Some ext)"

text \<open>\<open>Path::join\<close>: an absolute argument replaces the base.\<close>

definition path_join :: "string \<Rightarrow> string \<Rightarrow> string" where
  "path_join base p =
     (if path_is_absolute p then p
      else if base = [] \<or> last base = slash then base @ p
      else base @ slash # p)"

section \<open>Where a path leads\<close>

text \<open>
  The position reached from a directory by following a path, each directory being the
  list of names from the root, innermost first.  Symbolic links are not followed: the
  code resolves them separately, with \<open>canonicalize\<close> or a capability directory.
\<close>

fun follow :: "string list \<Rightarrow> component list \<Rightarrow> string list" where
  "follow dir [] = dir"
| "follow dir (RootDir # cs) = follow [] cs"
| "follow dir (CurDir # cs) = follow dir cs"
| "follow dir (ParentDir # cs) = follow (tl dir) cs"
| "follow dir (Normal n # cs) = follow (n # dir) cs"

definition inside :: "string list \<Rightarrow> string list \<Rightarrow> bool" where
  "inside root dir \<longleftrightarrow> (\<exists>below. dir = below @ root)"

definition safe_component :: "component \<Rightarrow> bool" where
  "safe_component c = (case c of Normal _ \<Rightarrow> True | CurDir \<Rightarrow> True | _ \<Rightarrow> False)"

lemma safe_component_simps [simp]:
  "safe_component (Normal n)" "safe_component CurDir"
  "\<not> safe_component RootDir" "\<not> safe_component ParentDir"
  by (simp_all add: safe_component_def)

lemma inside_refl [simp]: "inside d d"
  by (simp add: inside_def)

lemma inside_Cons: "inside r d \<Longrightarrow> inside r (n # d)"
  by (auto simp: inside_def)

lemma inside_trans: "inside a b \<Longrightarrow> inside b c \<Longrightarrow> inside a c"
  by (auto simp: inside_def)

text \<open>A path of normal and current-directory components never leaves the start.\<close>

lemma follow_safe: "list_all safe_component cs \<Longrightarrow> inside dir (follow dir cs)"
  by (induction dir cs rule: follow.induct)
     (auto simp: inside_def dest: inside_Cons)

lemma follow_append: "follow dir (cs @ ds) = follow (follow dir cs) ds"
  by (induction dir cs rule: follow.induct) auto

text \<open>A string with no slash that is neither empty nor dots is one normal component.\<close>

lemma path_components_single:
  assumes "slash \<notin> set s" "s \<noteq> []" "s \<noteq> ''.''" "s \<noteq> ''..''"
  shows "path_components s = [Normal s]"
proof -
  have "hd s \<noteq> slash"
    using assms(1,2) by (cases s) auto
  then have "\<not> starts_with ''/'' s"
    using assms(2) by (cases s) (auto simp: starts_with_def slash_def)
  then show ?thesis
    using assms by (simp add: path_components_def split_on_no_sep List.map_filter_def)
qed

lemma path_components_relative:
  assumes "\<not> path_is_absolute s"
  shows "RootDir \<notin> set (path_components s)"
  using assms by (auto simp: path_components_def path_is_absolute_def List.map_filter_def
      Let_def split: if_splits)

lemma set_body_components:
  "c \<in> set (path_components s) \<Longrightarrow>
     c = RootDir \<and> path_is_absolute s \<or> c = CurDir \<or> c = ParentDir \<or>
     (\<exists>n. c = Normal n \<and> n \<in> set (split_on slash s) \<and> n \<noteq> [] \<and> n \<noteq> ''.'' \<and> n \<noteq> ''..'')"
  by (auto simp: path_components_def path_is_absolute_def List.map_filter_def Let_def
      split: if_splits)

lemma ParentDir_component:
  "ParentDir \<in> set (path_components s) \<longleftrightarrow> ''..'' \<in> set (split_on slash s)"
  by (auto simp: path_components_def List.map_filter_def Let_def image_iff
      split: if_splits intro!: bexI [of _ "''..''"])

end
