(* ===== verification/Validators.thy ===== *)
theory Validators
  imports WireCodes Paths
begin

text \<open>
  The text validators at the end of \<open>pam-desktop-protocol/src/lib.rs\<close>: identifiers,
  keyboard accelerators, reverse-DNS application identifiers, display text, versions,
  project paths, hexadecimal digests and update URLs.  Every error message of the source
  is a constructor of \<open>verror\<close> with the values the message shows.

  Each validator has a lemma that says which strings it accepts, over the bytes of the
  string, so that the configuration validators and their clients never look at characters
  again.
\<close>

section \<open>Errors\<close>

datatype verror =
    EmptyIdentifier string
  | MalformedIdentifier string
  | AcceleratorShape
  | AcceleratorMalformed string
  | AcceleratorModifier string
  | AcceleratorKey string
  | ApplicationIdentifierShape
  | ApplicationIdentifierEmptySegment
  | ApplicationIdentifierSegment
  | TextRejected string nat bool
  | VersionRejected
  | NotProjectPath string
  | NotLowerHex string nat
  | UpdateUrlRejected string
  | Duplicated string string
  | Invalid string string
  | Message string

section \<open>Identifiers\<close>

definition identifier_char :: "nat \<Rightarrow> bool" where
  "identifier_char n \<longleftrightarrow> ascii_alphanumeric n \<or> n \<in> set (map byte ''._-'')"

definition validate_identifier :: "string \<Rightarrow> string \<Rightarrow> verror + unit" where
  "validate_identifier value label =
     (case str_chars value of
        [] \<Rightarrow> Inl (EmptyIdentifier label)
      | first # characters \<Rightarrow>
          reject_if (\<not> ascii_alphabetic first \<or> length value > 64 \<or>
                     \<not> list_all identifier_char characters)
            (MalformedIdentifier label))"

section \<open>Keyboard accelerators\<close>

definition accelerator_modifiers :: "string list" where
  "accelerator_modifiers =
     [''alt'', ''ctrl'', ''control'', ''shift'', ''super'', ''cmd'', ''command'', ''cmdorctrl'']"

definition validate_accelerator :: "string \<Rightarrow> verror + unit" where
  "validate_accelerator value =
     (let tokens = split_on CHR ''+'' value;
          key = last tokens
      in steps [
        reject_if (value = [] \<or> length value > 64 \<or> list_ex char_whitespace (str_chars value))
          AcceleratorShape,
        reject_if (tokens = [] \<or> list_ex (\<lambda>token. token = []) tokens)
          (AcceleratorMalformed value),
        rbind
          (for_each_unique
             (\<lambda>modifier. reject_if (to_ascii_lowercase modifier \<notin> set accelerator_modifiers)
                (AcceleratorModifier value))
             to_ascii_lowercase
             (\<lambda>modifier. AcceleratorModifier value)
             {} (butlast tokens))
          (\<lambda>modifiers. Inr ()),
        reject_if (length key > 24 \<or> \<not> list_all ascii_alphanumeric (str_chars key))
          (AcceleratorKey value)])"

section \<open>Application identifiers\<close>

definition application_segment_char :: "nat \<Rightarrow> bool" where
  "application_segment_char n \<longleftrightarrow> ascii_lower n \<or> ascii_digit n \<or> n = byte CHR ''-''"

definition validate_application_segment :: "string \<Rightarrow> verror + unit" where
  "validate_application_segment segment =
     (case str_chars segment of
        [] \<Rightarrow> Inl ApplicationIdentifierEmptySegment
      | first # characters \<Rightarrow>
          reject_if (\<not> ascii_lower first \<or> \<not> list_all application_segment_char characters)
            ApplicationIdentifierSegment)"

definition validate_application_identifier :: "string \<Rightarrow> verror + unit" where
  "validate_application_identifier value =
     steps [
       reject_if (length value > 155 \<or> length (split_on CHR ''.'' value) < 2)
         ApplicationIdentifierShape,
       for_each validate_application_segment (split_on CHR ''.'' value)]"

section \<open>Display text and versions\<close>

definition validate_text :: "string \<Rightarrow> string \<Rightarrow> nat \<Rightarrow> bool \<Rightarrow> verror + unit" where
  "validate_text value label maximum_bytes allow_empty =
     reject_if ((\<not> allow_empty \<and> trim_is_empty value) \<or>
                length value > maximum_bytes \<or>
                list_ex (\<lambda>c. char_control c \<or> c = 10 \<or> c = 13) (str_chars value))
       (TextRejected label maximum_bytes allow_empty)"

definition version_char :: "nat \<Rightarrow> bool" where
  "version_char n \<longleftrightarrow> ascii_alphanumeric n \<or> n \<in> set (map byte ''.+-~'')"

definition validate_version :: "string \<Rightarrow> verror + unit" where
  "validate_version value =
     reject_if (value = [] \<or> length value > 64 \<or>
                \<not> (case map byte value of [] \<Rightarrow> False | b # _ \<Rightarrow> ascii_digit b) \<or>
                \<not> list_all version_char (map byte value))
       VersionRejected"

section \<open>Project paths, digests\<close>

definition validate_relative_project_path :: "string \<Rightarrow> string \<Rightarrow> verror + unit" where
  "validate_relative_project_path value label =
     reject_if (value = [] \<or> contains_nul value \<or> path_is_absolute value \<or>
                list_ex (\<lambda>c. \<not> safe_component c) (path_components value))
       (NotProjectPath label)"

definition lower_hex_byte :: "nat \<Rightarrow> bool" where
  "lower_hex_byte n \<longleftrightarrow> ascii_digit n \<or> byte CHR ''a'' \<le> n \<and> n \<le> byte CHR ''f''"

definition validate_lower_hex :: "string \<Rightarrow> nat \<Rightarrow> string \<Rightarrow> verror + unit" where
  "validate_lower_hex value expected_bytes label =
     reject_if (length value \<noteq> expected_bytes \<or> \<not> list_all lower_hex_byte (map byte value))
       (NotLowerHex label expected_bytes)"

section \<open>Update URLs\<close>

text \<open>
  The crate \<open>url\<close> is not part of the repository: its parser is the parameter \<open>parse_url\<close>,
  and a parsed URL is what its accessors return.  \<open>debug\<close> is \<open>cfg!(debug_assertions)\<close>.
\<close>

datatype url_host = Domain string | Ipv4 u32 | Ipv6 "128 word"

record url =
  url_scheme :: string
  url_username :: string
  url_password :: "string option"
  url_host_str :: "string option"
  url_host_of :: "url_host option"
  url_path :: string
  url_query :: "string option"
  url_fragment :: "string option"

type_synonym url_parser = "string \<Rightarrow> url option"

text \<open>\<open>Ipv4Addr::is_loopback\<close> is 127.0.0.0/8, \<open>Ipv6Addr::is_loopback\<close> is the address 1.\<close>

fun host_is_loopback :: "url_host \<Rightarrow> bool" where
  "host_is_loopback (Domain domain) = (to_ascii_lowercase domain = ''localhost'')"
| "host_is_loopback (Ipv4 address) = (drop_bit 24 address = 127)"
| "host_is_loopback (Ipv6 address) = (address = 1)"

definition trusted_update_url :: "bool \<Rightarrow> url \<Rightarrow> bool" where
  "trusted_update_url debug u =
     (let has_authority = url_host_str u \<noteq> None \<and> url_username u = [] \<and>
            url_password u = None \<and> url_fragment u = None;
          secure = (url_scheme u = ''https'');
          loopback = (url_scheme u = ''http'' \<and>
            (case url_host_of u of None \<Rightarrow> False | Some host \<Rightarrow> host_is_loopback host))
      in has_authority \<and> (secure \<or> debug \<and> loopback))"

definition validate_update_url :: "url_parser \<Rightarrow> bool \<Rightarrow> string \<Rightarrow> string \<Rightarrow> verror + unit" where
  "validate_update_url parse_url debug value label =
     reject_if (length value > 2048 \<or> list_ex char_control (str_chars value) \<or>
                \<not> (case parse_url value of None \<Rightarrow> False | Some u \<Rightarrow> trusted_update_url debug u))
       (UpdateUrlRejected label)"

section \<open>What the validators accept\<close>

definition valid_identifier :: "string \<Rightarrow> bool" where
  "valid_identifier s \<longleftrightarrow> s \<noteq> [] \<and> length s \<le> 64 \<and> ascii_alphabetic (byte (hd s)) \<and>
     list_all identifier_char (map byte (tl s))"

definition valid_application_segment :: "string \<Rightarrow> bool" where
  "valid_application_segment s \<longleftrightarrow> s \<noteq> [] \<and> ascii_lower (byte (hd s)) \<and>
     list_all application_segment_char (map byte (tl s))"

definition valid_application_identifier :: "string \<Rightarrow> bool" where
  "valid_application_identifier s \<longleftrightarrow> length s \<le> 155 \<and> 2 \<le> length (split_on CHR ''.'' s) \<and>
     list_all valid_application_segment (split_on CHR ''.'' s)"

definition valid_project_path :: "string \<Rightarrow> bool" where
  "valid_project_path s \<longleftrightarrow> s \<noteq> [] \<and> \<not> contains_nul s \<and> \<not> path_is_absolute s \<and>
     ''..'' \<notin> set (split_on slash s)"

definition valid_accelerator :: "string \<Rightarrow> bool" where
  "valid_accelerator s \<longleftrightarrow>
     (let tokens = split_on CHR ''+'' s; modifiers = map to_ascii_lowercase (butlast tokens)
      in s \<noteq> [] \<and> length s \<le> 64 \<and> \<not> list_ex char_whitespace (str_chars s) \<and>
         list_all (\<lambda>t. t \<noteq> []) tokens \<and>
         distinct modifiers \<and> set modifiers \<subseteq> set accelerator_modifiers \<and>
         length (last tokens) \<le> 24 \<and> list_all ascii_alphanumeric (map byte (last tokens)))"

definition valid_text :: "nat \<Rightarrow> bool \<Rightarrow> string \<Rightarrow> bool" where
  "valid_text maximum_bytes allow_empty s \<longleftrightarrow>
     (allow_empty \<or> (\<exists>c \<in> set (str_chars s). \<not> char_whitespace c)) \<and>
     length s \<le> maximum_bytes \<and> (\<forall>c \<in> set (str_chars s). \<not> char_control c)"

definition valid_hex :: "nat \<Rightarrow> string \<Rightarrow> bool" where
  "valid_hex n s \<longleftrightarrow> length s = n \<and> list_all lower_hex_byte (map byte s)"

lemma ascii_class_less:
  "ascii_lower n \<Longrightarrow> n < 128" "ascii_digit n \<Longrightarrow> n < 128" "ascii_alphabetic n \<Longrightarrow> n < 128"
  "ascii_alphanumeric n \<Longrightarrow> n < 128"
  by (auto simp: ascii_lower_def ascii_digit_def ascii_alphabetic_def ascii_upper_def
      ascii_alphanumeric_def)

lemma byte_literals:
  "byte CHR ''.'' = 46" "byte CHR ''_'' = 95" "byte CHR ''-'' = 45" "byte CHR ''+'' = 43"
  "byte CHR ''~'' = 126" "byte CHR ''a'' = 97" "byte CHR ''f'' = 102" "byte CHR ''/'' = 47"
  by (simp_all add: byte_def)

lemma identifier_char_less: "identifier_char n \<Longrightarrow> n < 128"
  by (auto simp: identifier_char_def ascii_class_less byte_literals)

lemma application_segment_char_less: "application_segment_char n \<Longrightarrow> n < 128"
  by (auto simp: application_segment_char_def ascii_class_less byte_literals)

lemma str_chars_head:
  assumes "\<And>n. p n \<Longrightarrow> n < 128" and "\<And>n. q n \<Longrightarrow> n < 128"
  shows "(\<exists>n ns. str_chars s = n # ns \<and> p n \<and> list_all q ns) \<longleftrightarrow>
         s \<noteq> [] \<and> p (byte (hd s)) \<and> list_all q (map byte (tl s))"
proof -
  have "(\<exists>n ns. str_chars s = n # ns \<and> p n \<and> list_all q ns) \<longleftrightarrow>
        (\<exists>c cs. s = c # cs \<and> p (byte c) \<and> list_all q (map byte cs))"
    using assms by (rule str_chars_Cons_ascii)
  then show ?thesis by (cases s) simp_all
qed

lemma validate_identifier_Inr [result_simps]:
  "validate_identifier value label = Inr () \<longleftrightarrow> valid_identifier value"
proof -
  have "validate_identifier value label = Inr () \<longleftrightarrow> length value \<le> 64 \<and>
      (\<exists>n ns. str_chars value = n # ns \<and> ascii_alphabetic n \<and> list_all identifier_char ns)"
    by (auto simp: validate_identifier_def reject_if_Inr split: list.splits)
  with str_chars_head [of ascii_alphabetic identifier_char "value",
      OF ascii_class_less(3) identifier_char_less]
  show ?thesis
    unfolding valid_identifier_def by blast
qed

lemma validate_application_segment_Inr [result_simps]:
  "validate_application_segment s = Inr () \<longleftrightarrow> valid_application_segment s"
proof -
  have "validate_application_segment s = Inr () \<longleftrightarrow>
      (\<exists>n ns. str_chars s = n # ns \<and> ascii_lower n \<and> list_all application_segment_char ns)"
    by (auto simp: validate_application_segment_def reject_if_Inr split: list.splits)
  with str_chars_head [of ascii_lower application_segment_char s,
      OF ascii_class_less(1) application_segment_char_less]
  show ?thesis
    unfolding valid_application_segment_def by blast
qed

lemma validate_application_identifier_Inr [result_simps]:
  "validate_application_identifier s = Inr () \<longleftrightarrow> valid_application_identifier s"
  by (auto simp: validate_application_identifier_def valid_application_identifier_def
      result_simps list_all_iff)

lemma validate_version_Inr [result_simps]:
  "validate_version s = Inr () \<longleftrightarrow> s \<noteq> [] \<and> length s \<le> 64 \<and> ascii_digit (byte (hd s)) \<and>
     list_all version_char (map byte s)"
  by (cases s) (auto simp: validate_version_def reject_if_Inr)

lemma line_feed_is_control: "char_control c \<or> c = 10 \<or> c = 13 \<longleftrightarrow> char_control c"
  by (auto simp: char_control_def)

lemma validate_text_Inr [result_simps]:
  "validate_text s label m allow_empty = Inr () \<longleftrightarrow> valid_text m allow_empty s"
  unfolding validate_text_def reject_if_Inr valid_text_def trim_is_empty_def trim_chars_Nil_iff
    line_feed_is_control
  by (auto simp: list_ex_iff)

lemma validate_relative_project_path_Inr [result_simps]:
  "validate_relative_project_path s label = Inr () \<longleftrightarrow> valid_project_path s"
proof -
  have "(\<exists>c \<in> set (path_components s). \<not> safe_component c) \<longleftrightarrow> ''..'' \<in> set (split_on slash s)"
    if "\<not> path_is_absolute s"
    using ParentDir_component [of s] set_body_components [of _ s] that
    by (metis safe_component_simps)
  then show ?thesis
    by (auto simp: validate_relative_project_path_def valid_project_path_def reject_if_Inr
        list_ex_iff)
qed

lemma validate_lower_hex_Inr [result_simps]:
  "validate_lower_hex s n label = Inr () \<longleftrightarrow> valid_hex n s"
  by (auto simp: validate_lower_hex_def valid_hex_def reject_if_Inr)

lemma validate_accelerator_Inr [result_simps]:
  "validate_accelerator s = Inr () \<longleftrightarrow> valid_accelerator s"
  by (auto simp: validate_accelerator_def valid_accelerator_def result_simps Let_def
      list_ex_iff list_all_iff list_all_str_chars [OF ascii_class_less(4), unfolded list_all_iff])

lemma valid_project_path_confined:
  "valid_project_path s \<Longrightarrow> inside dir (follow dir (path_components s))"
proof (rule follow_safe)
  assume "valid_project_path s"
  then show "list_all safe_component (path_components s)"
    using ParentDir_component [of s] set_body_components [of _ s]
    by (auto simp: valid_project_path_def list_all_iff)
       (metis safe_component_simps)
qed

lemma valid_identifier_bytes:
  "valid_identifier s \<Longrightarrow> c \<in> set s \<Longrightarrow> identifier_char (byte c)"
  by (cases s) (auto simp: valid_identifier_def list_all_iff identifier_char_def
      ascii_alphanumeric_def)

lemma valid_identifier_component: "valid_identifier s \<Longrightarrow> path_components s = [component.Normal s]"
proof (rule path_components_single)
  assume v: "valid_identifier s"
  show "slash \<notin> set s"
    using valid_identifier_bytes [OF v, of slash]
    by (auto simp: slash_def identifier_char_def byte_literals ascii_alphanumeric_def
        ascii_alphabetic_def ascii_lower_def ascii_upper_def ascii_digit_def)
qed (auto simp: valid_identifier_def ascii_alphabetic_def ascii_lower_def ascii_upper_def
      byte_literals)

lemma valid_application_segment_bytes:
  "valid_application_segment s \<Longrightarrow> c \<in> set s \<Longrightarrow> application_segment_char (byte c)"
  by (cases s) (auto simp: valid_application_segment_def list_all_iff
      application_segment_char_def)

lemma valid_application_identifier_component:
  "valid_application_identifier s \<Longrightarrow> path_components s = [component.Normal s]"
proof (rule path_components_single)
  assume v: "valid_application_identifier s"
  show "slash \<notin> set s"
  proof
    assume "slash \<in> set s"
    then have "slash \<in> set (concat (split_on CHR ''.'' s))"
      by (simp only: set_concat_split_on) (simp add: slash_def)
    then obtain seg where "seg \<in> set (split_on CHR ''.'' s)" "slash \<in> set seg" by auto
    then show False
      using v valid_application_segment_bytes [of seg slash]
      by (auto simp: valid_application_identifier_def list_all_iff slash_def
          application_segment_char_def byte_literals ascii_lower_def ascii_digit_def)
  qed
qed (auto simp: valid_application_identifier_def valid_application_segment_def)

text \<open>An accepted accelerator has at most the eight distinct modifiers and one key.\<close>

lemma valid_accelerator_tokens:
  "valid_accelerator s \<Longrightarrow> length (split_on CHR ''+'' s) \<le> 9"
proof -
  assume v: "valid_accelerator s"
  let ?m = "map to_ascii_lowercase (butlast (split_on CHR ''+'' s))"
  have "distinct ?m"
    using v by (simp add: valid_accelerator_def Let_def)
  then have "length ?m = card (set ?m)"
    by (rule distinct_card [symmetric])
  also have "\<dots> \<le> card (set accelerator_modifiers)"
    using v by (intro card_mono) (auto simp: valid_accelerator_def Let_def)
  also have "\<dots> = 8"
    by (simp add: accelerator_modifiers_def)
  finally show ?thesis by simp
qed

end
