(* ===== verification/Config.thy ===== *)
theory Config
  imports Validators
begin

text \<open>
  The application configuration of \<open>pam-desktop-protocol\<close>: the structs of the bootstrap
  message and the \<open>validate\<close> method of each, in source order.  A field is named after the
  source's, with a prefix for its struct.  The maps of the source that are iterated in key
  order (\<open>BTreeMap\<close>) are association lists in that order; the order in which a validator
  checks, and with it the error reported first, is the source's.
\<close>

definition MIN_COMMAND_TIMEOUT_MS :: u64 where
  "MIN_COMMAND_TIMEOUT_MS = 100"

definition MAX_COMMAND_TIMEOUT_MS :: u64 where
  "MAX_COMMAND_TIMEOUT_MS = 120000"

definition MAIN_WINDOW_ID :: string where
  "MAIN_WINDOW_ID = ''main''"

definition UPDATE_FEED_VERSION :: u16 where
  "UPDATE_FEED_VERSION = 1"

definition between :: "'w::len word \<Rightarrow> 'w word \<Rightarrow> 'w word \<Rightarrow> bool" where
  "between lo hi x \<longleftrightarrow> lo \<le> x \<and> x \<le> hi"

section \<open>Processes, commands, databases, HTTP origins\<close>

record ProcessCommandConfig =
  pc_name :: string
  pc_executable :: string
  pc_arguments :: "string list"
  pc_argument_policy :: ProcessArgumentPolicy

definition validate_process_command :: "ProcessCommandConfig \<Rightarrow> verror + unit" where
  "validate_process_command c =
     steps [
       validate_identifier (pc_name c) ''process command'',
       validate_relative_project_path (pc_executable c) ''process executable'',
       reject_if (length (pc_arguments c) > 32 \<or>
                  list_ex (\<lambda>argument. length argument > 1024 \<or> contains_nul argument)
                    (pc_arguments c))
         (Invalid ''process command has invalid fixed arguments'' (pc_name c))]"

record CommandConfig =
  cc_name :: string
  cc_execution :: CommandExecution

record DatabaseConfig =
  db_name :: string
  db_path :: string
  db_access :: DatabaseAccess

definition validate_database :: "DatabaseConfig \<Rightarrow> verror + unit" where
  "validate_database c =
     steps [
       validate_identifier (db_name c) ''database'',
       reject_if (db_path c = [] \<or> contains_nul (db_path c))
         (Invalid ''database has an invalid path'' (db_name c))]"

record HttpOriginConfig =
  ho_name :: string
  ho_origin :: string

definition validate_http_origin :: "url_parser \<Rightarrow> HttpOriginConfig \<Rightarrow> verror + unit" where
  "validate_http_origin parse_url c =
     steps [
       validate_identifier (ho_name c) ''HTTP origin'',
       (case parse_url (ho_origin c) of
          None \<Rightarrow> Inl (Invalid ''HTTP origin is invalid'' (ho_name c))
        | Some u \<Rightarrow>
            reject_if (url_scheme u \<noteq> ''https'' \<or> url_host_str u = None \<or>
                       url_username u \<noteq> [] \<or> url_password u \<noteq> None \<or>
                       url_query u \<noteq> None \<or> url_fragment u \<noteq> None)
              (Invalid ''HTTP origin must be a credential-free HTTPS URL'' (ho_name c)))]"

section \<open>Workstation policy\<close>

record PerformanceBudgetConfig =
  pb_cold_start_milliseconds :: u32
  pb_warm_start_milliseconds :: u32
  pb_idle_memory_megabytes :: u32
  pb_idle_cpu_basis_points :: u16
  pb_ipc_p95_microseconds :: u32
  pb_frame_p95_microseconds :: u32

definition PerformanceBudgetConfig_default :: PerformanceBudgetConfig where
  "PerformanceBudgetConfig_default =
     \<lparr>pb_cold_start_milliseconds = 1500, pb_warm_start_milliseconds = 500,
      pb_idle_memory_megabytes = 180, pb_idle_cpu_basis_points = 100,
      pb_ipc_p95_microseconds = 5000, pb_frame_p95_microseconds = 16667\<rparr>"

record WindowProfileConfig =
  wp_role :: WindowRole
  wp_parent :: "string option"
  wp_restore :: bool
  wp_remember_monitor :: bool
  wp_detachable_tabs :: bool

record WorkstationConfig =
  ws_single_instance :: bool
  ws_forward_arguments :: bool
  ws_background_agent :: bool
  ws_persistent_services :: bool
  ws_isolation :: ProcessIsolation
  ws_process_pool_size :: u8
  ws_workspace_restore :: bool
  ws_autosave_milliseconds :: u32
  ws_recovery_journal :: bool
  ws_idle_sleep_milliseconds :: u32
  ws_startup_snapshot :: bool
  ws_lazy_plugins :: bool
  ws_tree_shaking :: bool
  ws_render_backend :: RenderBackend
  ws_dirty_regions :: bool
  ws_accessibility :: bool
  ws_devtools :: bool
  ws_crash_reports :: bool
  ws_installer_scope :: InstallerScope
  ws_release_channel :: ReleaseChannel
  ws_performance :: PerformanceBudgetConfig
  ws_windows :: "(string \<times> WindowProfileConfig) list"

definition WorkstationConfig_default :: WorkstationConfig where
  "WorkstationConfig_default =
     \<lparr>ws_single_instance = True, ws_forward_arguments = True, ws_background_agent = False,
      ws_persistent_services = False, ws_isolation = ProcessIsolation.Shared,
      ws_process_pool_size = 2, ws_workspace_restore = True, ws_autosave_milliseconds = 2000,
      ws_recovery_journal = True, ws_idle_sleep_milliseconds = 30000,
      ws_startup_snapshot = True, ws_lazy_plugins = True, ws_tree_shaking = True,
      ws_render_backend = RenderBackend.Automatic, ws_dirty_regions = True,
      ws_accessibility = True, ws_devtools = True, ws_crash_reports = True,
      ws_installer_scope = InstallerScope.CurrentUser,
      ws_release_channel = ReleaseChannel.Stable,
      ws_performance = PerformanceBudgetConfig_default, ws_windows = []\<rparr>"

definition role_needs_parent :: "WindowRole \<Rightarrow> bool" where
  "role_needs_parent r =
     (case r of
        WindowRole.Child \<Rightarrow> True | WindowRole.Modal \<Rightarrow> True | WindowRole.Popover \<Rightarrow> True
      | _ \<Rightarrow> False)"

definition validate_window_profile ::
    "string set \<Rightarrow> string \<times> WindowProfileConfig \<Rightarrow> verror + unit" where
  "validate_window_profile windows entry =
     (case entry of (ident, profile) \<Rightarrow>
       steps [
         validate_identifier ident ''workstation window'',
         reject_if (ident \<notin> windows) (Invalid ''window profile is not registered'' ident),
         reject_if (role_needs_parent (wp_role profile) \<noteq> (wp_parent profile \<noteq> None))
           (Invalid ''window has an invalid parent contract'' ident),
         when_some (wp_parent profile) (\<lambda>parent.
           reject_if (parent \<notin> windows) (Invalid ''parent window is not registered'' parent))])"

definition validate_workstation :: "string set \<Rightarrow> WorkstationConfig \<Rightarrow> verror + unit" where
  "validate_workstation windows c =
     (let budget = ws_performance c
      in steps [
        reject_if (\<not> between 1 16 (ws_process_pool_size c))
          (Message ''workstation process pool must contain 1 to 16 workers''),
        reject_if (\<not> between 250 3600000 (ws_autosave_milliseconds c))
          (Message ''workstation autosave must be between 250ms and one hour''),
        reject_if (\<not> between 100 3600000 (ws_idle_sleep_milliseconds c))
          (Message ''workstation idle sleep must be between 100ms and one hour''),
        reject_if (pb_cold_start_milliseconds budget = 0 \<or>
                   pb_warm_start_milliseconds budget = 0 \<or>
                   pb_idle_memory_megabytes budget = 0 \<or>
                   pb_idle_cpu_basis_points budget = 0 \<or>
                   pb_ipc_p95_microseconds budget = 0 \<or>
                   pb_frame_p95_microseconds budget = 0)
          (Message ''workstation performance budgets must be positive''),
        for_each (validate_window_profile windows) (ws_windows c)])"

section \<open>Lifecycle associations\<close>

record LifecycleConfig =
  lc_url_schemes :: "string list"
  lc_mime_types :: "string list"
  lc_autostart :: bool

definition valid_url_scheme :: "string \<Rightarrow> bool" where
  "valid_url_scheme scheme \<longleftrightarrow>
     2 \<le> length scheme \<and> length scheme \<le> 32 \<and>
     list_all (\<lambda>(index, b).
         if index = 0 then ascii_lower b
         else ascii_lower b \<or> ascii_digit b \<or> b \<in> set (map byte ''+.-''))
       (enumerate 0 (map byte scheme))"

definition valid_mime_part :: "string \<Rightarrow> bool" where
  "valid_mime_part part \<longleftrightarrow>
     part \<noteq> [] \<and> length part \<le> 64 \<and>
     list_all (\<lambda>b. ascii_lower b \<or> ascii_digit b \<or> b \<in> set (map byte ''!#$&^_.+-''))
       (map byte part)"

definition validate_lifecycle :: "LifecycleConfig \<Rightarrow> verror + unit" where
  "validate_lifecycle c =
     rbind
       (for_each_unique
          (\<lambda>scheme. reject_if (\<not> valid_url_scheme scheme)
             (Invalid ''application URL scheme is invalid or duplicated'' scheme))
          (\<lambda>scheme. ''scheme:'' @ scheme)
          (Invalid ''application URL scheme is invalid or duplicated'')
          {} (lc_url_schemes c))
       (\<lambda>values. rbind
         (for_each_unique
            (\<lambda>mime.
               case split_once slash mime of
                 None \<Rightarrow> Inl (Invalid ''application MIME type is invalid'' mime)
               | Some (kind, subtype) \<Rightarrow>
                   reject_if (\<not> valid_mime_part kind \<or> \<not> valid_mime_part subtype)
                     (Invalid ''application MIME type is invalid or duplicated'' mime))
            (\<lambda>mime. ''mime:'' @ mime)
            (Invalid ''application MIME type is invalid or duplicated'')
            values (lc_mime_types c))
         (\<lambda>_. Inr ()))"

section \<open>Update feed\<close>

record UpdateConfig =
  uc_endpoint :: string
  uc_channel :: string
  uc_public_key :: string
  uc_policy :: UpdatePolicy

definition validate_update_config :: "url_parser \<Rightarrow> bool \<Rightarrow> UpdateConfig \<Rightarrow> verror + unit" where
  "validate_update_config parse_url debug c =
     steps [
       validate_update_url parse_url debug (uc_endpoint c) ''update endpoint'',
       validate_identifier (uc_channel c) ''update channel'',
       validate_lower_hex (uc_public_key c) 64 ''update public key'']"

record UpdateArtifact =
  ua_platform :: UpdatePlatform
  ua_architecture :: string
  ua_kind :: UpdateArtifactKind
  ua_url :: string
  ua_bytes :: u64
  ua_sha256 :: string

definition validate_update_artifact ::
    "url_parser \<Rightarrow> bool \<Rightarrow> UpdateArtifact \<Rightarrow> verror + unit" where
  "validate_update_artifact parse_url debug a =
     steps [
       validate_identifier (ua_architecture a) ''update architecture'',
       validate_update_url parse_url debug (ua_url a) ''update artifact URL'',
       reject_if (ua_bytes a = 0)
         (Message ''update artifact size must be greater than zero''),
       validate_lower_hex (ua_sha256 a) 64 ''update artifact SHA-256'']"

record UpdateRelease =
  ur_schema_version :: u16
  ur_application_id :: string
  ur_channel :: string
  ur_version :: string
  ur_published_at :: string
  ur_notes_url :: "string option"
  ur_artifacts :: "UpdateArtifact list"

definition artifact_target :: "UpdateArtifact \<Rightarrow> UpdatePlatform \<times> string \<times> UpdateArtifactKind" where
  "artifact_target a = (ua_platform a, ua_architecture a, ua_kind a)"

definition validate_update_release ::
    "url_parser \<Rightarrow> bool \<Rightarrow> UpdateRelease \<Rightarrow> verror + unit" where
  "validate_update_release parse_url debug r =
     steps [
       reject_if (ur_schema_version r \<noteq> UPDATE_FEED_VERSION)
         (Message ''update feed schema is unsupported''),
       validate_application_identifier (ur_application_id r),
       validate_identifier (ur_channel r) ''update channel'',
       validate_version (ur_version r),
       validate_text (ur_published_at r) ''update publication timestamp'' 64 False,
       when_some (ur_notes_url r)
         (\<lambda>notes_url. validate_update_url parse_url debug notes_url ''update notes URL''),
       reject_if (ur_artifacts r = [])
         (Message ''update release must contain at least one artifact''),
       rbind
         (for_each_unique (validate_update_artifact parse_url debug) artifact_target
            (\<lambda>a. Duplicated ''update artifact target'' (ua_architecture a))
            {} (ur_artifacts r))
         (\<lambda>_. Inr ())]"

record SignedUpdateRelease =
  sr_release :: UpdateRelease
  sr_signature :: string

definition validate_signed_release ::
    "url_parser \<Rightarrow> bool \<Rightarrow> SignedUpdateRelease \<Rightarrow> verror + unit" where
  "validate_signed_release parse_url debug s =
     steps [
       validate_update_release parse_url debug (sr_release s),
       validate_lower_hex (sr_signature s) 128 ''update signature'']"

section \<open>Manifest\<close>

record ApplicationManifest =
  am_identifier :: string
  am_name :: string
  am_version :: string
  am_description :: string
  am_publisher :: string
  am_category :: ApplicationCategory
  am_icon :: string
  am_bundle_excludes :: "string list"
  am_updates :: "UpdateConfig option"
  am_lifecycle :: LifecycleConfig

definition required_project_paths :: "string list" where
  "required_project_paths =
     [''app.php'', ''composer.json'', ''composer.lock'', ''resources'', ''vendor'']"

fun validate_bundle_excludes :: "string set \<Rightarrow> string list \<Rightarrow> verror + unit" where
  "validate_bundle_excludes excludes [] = Inr ()"
| "validate_bundle_excludes excludes (path # paths) =
     rbind (validate_relative_project_path path ''bundle exclusion'') (\<lambda>_.
       if path \<in> excludes then Inl (Duplicated ''bundle exclusion'' path)
       else if path \<in> set required_project_paths
         then Inl (Invalid ''required desktop project path cannot be excluded'' path)
       else validate_bundle_excludes (insert path excludes) paths)"

definition validate_manifest :: "url_parser \<Rightarrow> bool \<Rightarrow> ApplicationManifest \<Rightarrow> verror + unit" where
  "validate_manifest parse_url debug m =
     steps [
       validate_application_identifier (am_identifier m),
       validate_text (am_name m) ''application name'' 80 False,
       validate_version (am_version m),
       validate_text (am_description m) ''application description'' 256 True,
       validate_text (am_publisher m) ''application publisher'' 128 False,
       validate_relative_project_path (am_icon m) ''application icon'',
       reject_if
         (map_option to_ascii_lowercase (path_extension (am_icon m))
            \<notin> {Some ''png'', Some ''svg''})
         (Message ''application icon must be a PNG or SVG project asset''),
       validate_bundle_excludes {} (am_bundle_excludes m),
       when_some (am_updates m) (validate_update_config parse_url debug),
       validate_lifecycle (am_lifecycle m)]"

end
