(* ===== verification/ShellConfig.thy ===== *)
theory ShellConfig
  imports Config
begin

text \<open>
  Native menus, tray, global shortcuts and quick actions of \<open>pam-desktop-protocol\<close>.  The
  menu is a tree: its validator walks it with a set of identifiers and a counter shared by
  all menus, which the model threads through the recursion.
\<close>

section \<open>Menu items\<close>

datatype MenuItemConfig = MenuItemConfig
  (mi_kind: MenuItemKind)
  (mi_id: string)
  (mi_label: string)
  (mi_enabled: bool)
  (mi_checked: bool)
  (mi_accelerator: "string option")
  (mi_items: "MenuItemConfig list")

type_synonym menu_state = "string set \<times> nat"

definition usize_max :: nat where
  "usize_max = 2 ^ 64 - 1"

text \<open>\<open>usize::saturating_add(1)\<close>\<close>

definition usize_succ :: "nat \<Rightarrow> nat" where
  "usize_succ n = min (n + 1) usize_max"

definition validate_separator ::
    "string \<Rightarrow> string \<Rightarrow> bool \<Rightarrow> string option \<Rightarrow> MenuItemConfig list \<Rightarrow> verror + unit" where
  "validate_separator ident label checked accelerator items =
     reject_if (ident \<noteq> [] \<or> label \<noteq> [] \<or> checked \<or> accelerator \<noteq> None \<or> items \<noteq> [])
       (Message ''menu separators cannot define identity, text, state, or children'')"

definition validate_leaf_item ::
    "MenuItemKind \<Rightarrow> string \<Rightarrow> string \<Rightarrow> bool \<Rightarrow> string option \<Rightarrow> MenuItemConfig list \<Rightarrow>
     string set \<Rightarrow> verror + unit" where
  "validate_leaf_item kind ident label checked accelerator items item_ids =
     steps [
       validate_identifier ident ''menu item'',
       validate_text label ''menu item label'' 80 False,
       reject_if (ident \<in> item_ids) (Duplicated ''menu item identifier'' ident),
       reject_if (items \<noteq> []) (Invalid ''menu item cannot contain children'' ident),
       reject_if (kind = MenuItemKind.Command \<and> checked)
         (Invalid ''command menu item cannot be checked'' ident),
       when_some accelerator validate_accelerator]"

definition validate_submenu ::
    "string \<Rightarrow> string \<Rightarrow> bool \<Rightarrow> string option \<Rightarrow> MenuItemConfig list \<Rightarrow>
     string set \<Rightarrow> verror + unit" where
  "validate_submenu ident label checked accelerator items item_ids =
     steps [
       validate_identifier ident ''submenu'',
       validate_text label ''submenu label'' 80 False,
       reject_if (ident \<in> item_ids) (Duplicated ''menu item identifier'' ident),
       reject_if (checked \<or> accelerator \<noteq> None \<or> items = [])
         (Invalid ''submenu must contain children and cannot be checked or accelerated'' ident)]"

fun validate_menu_item :: "nat \<Rightarrow> MenuItemConfig \<Rightarrow> menu_state \<Rightarrow> verror + menu_state"
and validate_menu_items :: "nat \<Rightarrow> MenuItemConfig list \<Rightarrow> menu_state \<Rightarrow> verror + menu_state" where
  "validate_menu_item depth (MenuItemConfig kind ident label enabled checked accelerator items)
       (item_ids, item_count) =
     (if depth > 8 then Inl (Message ''native menu nesting cannot exceed eight levels'')
      else
        case kind of
          MenuItemKind.Separator \<Rightarrow>
            rbind (validate_separator ident label checked accelerator items)
              (\<lambda>_. Inr (item_ids, usize_succ item_count))
        | MenuItemKind.Submenu \<Rightarrow>
            rbind (validate_submenu ident label checked accelerator items item_ids)
              (\<lambda>_. validate_menu_items (depth + 1) items
                     (insert ident item_ids, usize_succ item_count))
        | _ \<Rightarrow>
            rbind (validate_leaf_item kind ident label checked accelerator items item_ids)
              (\<lambda>_. Inr (insert ident item_ids, usize_succ item_count)))"
| "validate_menu_items depth [] state = Inr state"
| "validate_menu_items depth (item # items) state =
     rbind (validate_menu_item depth item state) (validate_menu_items depth items)"

section \<open>Menus, tray, shortcuts, quick actions\<close>

record MenuConfig =
  mc_id :: string
  mc_label :: string
  mc_items :: "MenuItemConfig list"

definition validate_menu :: "MenuConfig \<Rightarrow> menu_state \<Rightarrow> verror + menu_state" where
  "validate_menu m state =
     rbind
       (steps [
          validate_identifier (mc_id m) ''menu'',
          validate_text (mc_label m) ''menu label'' 80 False,
          reject_if (mc_items m = []) (Invalid ''menu must contain at least one item'' (mc_id m))])
       (\<lambda>_. validate_menu_items 1 (mc_items m) state)"

fun validate_menus ::
    "string set \<Rightarrow> MenuConfig list \<Rightarrow> menu_state \<Rightarrow> verror + string set \<times> menu_state" where
  "validate_menus menu_ids [] state = Inr (menu_ids, state)"
| "validate_menus menu_ids (m # ms) state =
     rbind (validate_menu m state) (\<lambda>state'.
       if mc_id m \<in> menu_ids then Inl (Duplicated ''menu identifier'' (mc_id m))
       else validate_menus (insert (mc_id m) menu_ids) ms state')"

record TrayConfig =
  tc_menu_id :: string
  tc_tooltip :: string
  tc_close_behavior :: TrayCloseBehavior

definition validate_tray :: "TrayConfig \<Rightarrow> verror + unit" where
  "validate_tray t =
     steps [
       validate_identifier (tc_menu_id t) ''tray menu'',
       validate_text (tc_tooltip t) ''tray tooltip'' 128 False]"

record GlobalShortcutConfig =
  gs_id :: string
  gs_accelerator :: string

definition validate_shortcut :: "GlobalShortcutConfig \<Rightarrow> verror + unit" where
  "validate_shortcut s =
     steps [
       validate_identifier (gs_id s) ''global shortcut'',
       validate_accelerator (gs_accelerator s)]"

fun validate_shortcuts ::
    "string set \<Rightarrow> string set \<Rightarrow> GlobalShortcutConfig list \<Rightarrow> verror + unit" where
  "validate_shortcuts shortcut_ids accelerators [] = Inr ()"
| "validate_shortcuts shortcut_ids accelerators (s # ss) =
     rbind (validate_shortcut s) (\<lambda>_.
       if gs_id s \<in> shortcut_ids
         then Inl (Duplicated ''global shortcut identifier'' (gs_id s))
       else if to_ascii_lowercase (gs_accelerator s) \<in> accelerators
         then Inl (Duplicated ''global shortcut accelerator'' (gs_accelerator s))
       else validate_shortcuts (insert (gs_id s) shortcut_ids)
              (insert (to_ascii_lowercase (gs_accelerator s)) accelerators) ss)"

record QuickActionConfig =
  qa_id :: string
  qa_label :: string
  qa_description :: string

definition validate_quick_action :: "QuickActionConfig \<Rightarrow> verror + unit" where
  "validate_quick_action a =
     steps [
       validate_identifier (qa_id a) ''quick action'',
       validate_text (qa_label a) ''quick action label'' 80 False,
       validate_text (qa_description a) ''quick action description'' 160 True]"

record ShellConfig =
  sc_menus :: "MenuConfig list"
  sc_tray :: "TrayConfig option"
  sc_shortcuts :: "GlobalShortcutConfig list"
  sc_quick_actions :: "QuickActionConfig list"

definition validate_shell :: "ShellConfig \<Rightarrow> verror + unit" where
  "validate_shell c =
     rbind (validate_menus {} (sc_menus c) ({}, 0))
       (\<lambda>(menu_ids, item_ids, item_count).
         steps [
           reject_if (item_count > 256)
             (Message ''native menus cannot contain more than 256 items''),
           reject_if (length (sc_menus c) > 1)
             (Message ''the stable Linux shell accepts one tray menu per application''),
           reject_if (sc_menus c \<noteq> [] \<and> sc_tray c = None)
             (Message ''native menus require a tray configuration on Linux''),
           when_some (sc_tray c) (\<lambda>tray.
             steps [
               validate_tray tray,
               reject_if (tc_menu_id tray \<notin> menu_ids)
                 (Invalid ''tray menu is not registered in the shell'' (tc_menu_id tray))]),
           validate_shortcuts {} {} (sc_shortcuts c),
           reject_if (length (sc_quick_actions c) > 10)
             (Message ''desktop applications cannot register more than ten quick actions''),
           rbind
             (for_each_unique validate_quick_action qa_id
                (\<lambda>a. Duplicated ''quick action identifier'' (qa_id a))
                {} (sc_quick_actions c))
             (\<lambda>_. Inr ())])"

section \<open>What an accepted menu looks like\<close>

text \<open>The tree read as data: identifiers in walking order, number of items, depth.\<close>

fun menu_ids :: "MenuItemConfig \<Rightarrow> string list" where
  "menu_ids (MenuItemConfig kind ident label enabled checked accelerator items) =
     (if kind = MenuItemKind.Separator then [] else ident # concat (map menu_ids items))"

fun menu_size :: "MenuItemConfig \<Rightarrow> nat" where
  "menu_size (MenuItemConfig kind ident label enabled checked accelerator items) =
     1 + sum_list (map menu_size items)"

fun menu_depth :: "MenuItemConfig \<Rightarrow> nat" where
  "menu_depth (MenuItemConfig kind ident label enabled checked accelerator items) =
     1 + fold max (map menu_depth items) 0"

fun well_formed_item :: "MenuItemConfig \<Rightarrow> bool" where
  "well_formed_item (MenuItemConfig kind ident label enabled checked accelerator items) =
     (case kind of
        MenuItemKind.Separator \<Rightarrow>
          ident = [] \<and> label = [] \<and> \<not> checked \<and> accelerator = None \<and> items = []
      | MenuItemKind.Submenu \<Rightarrow>
          valid_identifier ident \<and> valid_text 80 False label \<and>
          \<not> checked \<and> accelerator = None \<and> items \<noteq> [] \<and>
          list_all well_formed_item items
      | _ \<Rightarrow>
          valid_identifier ident \<and> valid_text 80 False label \<and>
          items = [] \<and> (kind = MenuItemKind.Command \<longrightarrow> \<not> checked) \<and>
          (case accelerator of None \<Rightarrow> True | Some a \<Rightarrow> valid_accelerator a))"

definition menu_accepted ::
    "nat \<Rightarrow> MenuItemConfig list \<Rightarrow> menu_state \<Rightarrow> menu_state \<Rightarrow> bool" where
  "menu_accepted depth items state state' \<longleftrightarrow>
     (let ids = concat (map menu_ids items)
      in list_all well_formed_item items \<and> distinct ids \<and> set ids \<inter> fst state = {} \<and>
         fst state' = fst state \<union> set ids \<and>
         snd state' = min (snd state + sum_list (map menu_size items)) usize_max \<and>
         list_all (\<lambda>item. menu_depth item + depth \<le> 9) items)"

lemma fold_max_le: "fold max xs a \<le> n \<longleftrightarrow> a \<le> n \<and> (\<forall>x \<in> set xs. x \<le> n)" for a n :: nat
  by (induction xs arbitrary: a) auto

lemma menu_depth_le:
  "menu_depth (MenuItemConfig kind ident label enabled checked accelerator items) + d \<le> n \<longleftrightarrow>
     d < n \<and> (\<forall>item \<in> set items. menu_depth item + (d + 1) \<le> n)"
proof -
  have "menu_depth (MenuItemConfig kind ident label enabled checked accelerator items) + d \<le> n
      \<longleftrightarrow> fold max (map menu_depth items) 0 \<le> n - (d + 1) \<and> d + 1 \<le> n"
    by auto
  also have "\<dots> \<longleftrightarrow> d < n \<and> (\<forall>item \<in> set items. menu_depth item + (d + 1) \<le> n)"
    unfolding fold_max_le by auto
  finally show ?thesis .
qed

lemma menu_accepted_Nil: "snd s \<le> usize_max \<Longrightarrow> menu_accepted d [] s s' \<longleftrightarrow> s' = s"
  by (cases s; cases s') (auto simp: menu_accepted_def)

lemma menu_accepted_Cons:
  "menu_accepted d (x # xs) s s' \<longleftrightarrow>
     (\<exists>s1. menu_accepted d [x] s s1 \<and> menu_accepted d xs s1 s')"
proof
  assume a: "menu_accepted d (x # xs) s s'"
  let ?s1 = "(fst s \<union> set (menu_ids x), min (snd s + menu_size x) usize_max)"
  have "menu_accepted d [x] s ?s1" "menu_accepted d xs ?s1 s'"
    using a by (auto simp: menu_accepted_def Let_def)
  then show "\<exists>s1. menu_accepted d [x] s s1 \<and> menu_accepted d xs s1 s'" by blast
qed (auto simp: menu_accepted_def Let_def)

lemma menu_accepted_bounded: "menu_accepted d xs s s' \<Longrightarrow> snd s' \<le> usize_max"
  by (simp add: menu_accepted_def)

lemma validate_separator_Inr [result_simps]:
  "validate_separator ident label checked accelerator items = Inr () \<longleftrightarrow>
     ident = [] \<and> label = [] \<and> \<not> checked \<and> accelerator = None \<and> items = []"
  by (auto simp: validate_separator_def reject_if_Inr)

lemma validate_leaf_item_Inr [result_simps]:
  "validate_leaf_item kind ident label checked accelerator items ids = Inr () \<longleftrightarrow>
     valid_identifier ident \<and> valid_text 80 False label \<and> ident \<notin> ids \<and> items = [] \<and>
     (kind = MenuItemKind.Command \<longrightarrow> \<not> checked) \<and>
     (case accelerator of None \<Rightarrow> True | Some a \<Rightarrow> valid_accelerator a)"
  by (auto simp: validate_leaf_item_def result_simps split: option.splits)

lemma validate_submenu_Inr [result_simps]:
  "validate_submenu ident label checked accelerator items ids = Inr () \<longleftrightarrow>
     valid_identifier ident \<and> valid_text 80 False label \<and> ident \<notin> ids \<and>
     \<not> checked \<and> accelerator = None \<and> items \<noteq> []"
  by (auto simp: validate_submenu_def result_simps)

text \<open>
  The recursive validator accepts exactly the well-formed forests, and returns the set of
  identifiers and the number of items it has walked.
\<close>

lemma validate_menu_accepts:
  "snd s \<le> usize_max \<Longrightarrow>
     validate_menu_item depth item s = Inr s' \<longleftrightarrow> menu_accepted depth [item] s s'"
  "snd s \<le> usize_max \<Longrightarrow>
     validate_menu_items depth items s = Inr s' \<longleftrightarrow> menu_accepted depth items s s'"
proof (induction depth item s and depth items s arbitrary: s' and s'
    rule: validate_menu_item_validate_menu_items.induct)
  case (1 depth kind ident label enabled checked accelerator items item_ids item_count)
  show ?case
  proof (cases "kind = MenuItemKind.Submenu")
    case True
    have sub: "snd (insert ident item_ids, usize_succ item_count) \<le> usize_max"
      by (simp add: usize_succ_def)
    have "menu_accepted depth
        [MenuItemConfig kind ident label enabled checked accelerator items]
        (item_ids, item_count) s' \<longleftrightarrow>
      depth \<le> 8 \<and>
      validate_submenu ident label checked accelerator items item_ids = Inr () \<and>
      menu_accepted (depth + 1) items (insert ident item_ids, usize_succ item_count) s'"
      using True
      by (auto simp: menu_accepted_def Let_def result_simps usize_succ_def list_all_iff
          menu_depth_le simp del: menu_depth.simps)
    moreover have "depth \<le> 8 \<Longrightarrow>
        validate_menu_items (depth + 1) items (insert ident item_ids, usize_succ item_count) = Inr s'
        \<longleftrightarrow> menu_accepted (depth + 1) items (insert ident item_ids, usize_succ item_count) s'"
      using "1.IH" sub True by simp
    ultimately show ?thesis
      using True by (auto simp: rbind_Inr_iff)
  next
    case False
    then show ?thesis
      by (cases kind; cases s')
        (auto simp: menu_accepted_def Let_def result_simps usize_succ_def menu_depth_le
          simp del: menu_depth.simps)
  qed
next
  case (2 depth state)
  then show ?case by (auto simp: menu_accepted_Nil)
next
  case (3 depth item items state)
  have "validate_menu_items depth items s1 = Inr s' \<longleftrightarrow> menu_accepted depth items s1 s'"
    if "menu_accepted depth [item] state s1" for s1
    using "3.IH"(2) menu_accepted_bounded [OF that] by simp
  then show ?case
    using 3 by (auto simp: rbind_Inr_iff menu_accepted_Cons [of _ _ items])
qed

end
