(* ===== verification/Bootstrap.thy ===== *)
theory Bootstrap
  imports ShellConfig
begin

text \<open>
  The rest of the bootstrap message a PHP worker sends to the host: native capabilities,
  background jobs, plugins, windows, and \<open>Bootstrap::validate\<close>, which runs before any part
  of the host uses the configuration.  \<open>well_formed_bootstrap\<close> states what it guarantees.
\<close>

section \<open>Native capabilities\<close>

record FileSystemRootConfig =
  fr_name :: string
  fr_path :: string
  fr_access :: FileAccess

definition validate_filesystem_root :: "FileSystemRootConfig \<Rightarrow> verror + unit" where
  "validate_filesystem_root c =
     steps [
       validate_identifier (fr_name c) ''filesystem root'',
       reject_if (trim_is_empty (fr_path c) \<or> contains_nul (fr_path c))
         (Invalid ''filesystem root must declare a non-empty path'' (fr_name c))]"

record NativeCapabilities =
  nc_filesystem_roots :: "FileSystemRootConfig list"
  nc_dialogs :: bool
  nc_clipboard_read :: bool
  nc_clipboard_write :: bool
  nc_notifications :: bool
  nc_drag_and_drop :: bool
  nc_databases :: "DatabaseConfig list"
  nc_system_information :: bool
  nc_http_origins :: "HttpOriginConfig list"
  nc_secrets :: bool
  nc_processes :: "ProcessCommandConfig list"
  nc_desktop_portal :: bool

text \<open>One set of names for all four kinds of resource.\<close>

definition validate_capabilities :: "url_parser \<Rightarrow> NativeCapabilities \<Rightarrow> verror + unit" where
  "validate_capabilities parse_url c =
     rbind (for_each_unique validate_filesystem_root fr_name
              (\<lambda>root. Duplicated ''filesystem root identifier'' (fr_name root))
              {} (nc_filesystem_roots c)) (\<lambda>names.
     rbind (for_each_unique validate_database db_name
              (\<lambda>database. Duplicated ''native resource identifier'' (db_name database))
              names (nc_databases c)) (\<lambda>names.
     rbind (for_each_unique (validate_http_origin parse_url) ho_name
              (\<lambda>origin. Duplicated ''native resource identifier'' (ho_name origin))
              names (nc_http_origins c)) (\<lambda>names.
     rbind (for_each_unique validate_process_command pc_name
              (\<lambda>process. Duplicated ''native resource identifier'' (pc_name process))
              names (nc_processes c)) (\<lambda>_. Inr ()))))"

section \<open>Background jobs\<close>

record BackgroundJobConfig =
  bj_id :: string
  bj_interval_ms :: u64
  bj_initial_delay_ms :: u64
  bj_timeout_ms :: u64
  bj_overlap :: JobOverlapPolicy
  bj_persistent :: bool
  bj_maximum_attempts :: u8
  bj_retry_backoff_ms :: u64

definition MIN_INTERVAL_MS :: u64 where
  "MIN_INTERVAL_MS = 1000"

definition MAX_INTERVAL_MS :: u64 where
  "MAX_INTERVAL_MS = 86400000"

definition validate_background_job :: "BackgroundJobConfig \<Rightarrow> verror + unit" where
  "validate_background_job j =
     steps [
       validate_identifier (bj_id j) ''background job'',
       reject_if (\<not> between MIN_INTERVAL_MS MAX_INTERVAL_MS (bj_interval_ms j))
         (Invalid ''background job interval'' (bj_id j)),
       reject_if (bj_initial_delay_ms j > MAX_INTERVAL_MS)
         (Invalid ''background job initial delay'' (bj_id j)),
       reject_if (\<not> between MIN_COMMAND_TIMEOUT_MS MAX_COMMAND_TIMEOUT_MS (bj_timeout_ms j))
         (Invalid ''background job timeout'' (bj_id j)),
       reject_if (\<not> between 1 10 (bj_maximum_attempts j))
         (Invalid ''background job attempts'' (bj_id j)),
       reject_if (\<not> between 100 MAX_INTERVAL_MS (bj_retry_backoff_ms j))
         (Invalid ''background job retry backoff'' (bj_id j))]"

section \<open>Rust plugins\<close>

record PluginPermissions =
  pp_filesystem_roots :: "string list"
  pp_network :: bool
  pp_shell :: bool
  pp_devices :: bool

record RustPluginConfig =
  rp_id :: string
  rp_executable :: string
  rp_arguments :: "string list"
  rp_timeout_ms :: u64
  rp_sha256 :: "string option"
  rp_sandbox :: PluginSandboxMode
  rp_permissions :: PluginPermissions

definition validate_rust_plugin :: "RustPluginConfig \<Rightarrow> verror + unit" where
  "validate_rust_plugin p =
     steps [
       validate_identifier (rp_id p) ''Rust plugin'',
       validate_relative_project_path (rp_executable p) ''Rust plugin executable'',
       reject_if (length (rp_arguments p) > 32)
         (Invalid ''Rust plugin cannot declare more than 32 arguments'' (rp_id p)),
       for_each
         (\<lambda>argument. reject_if (length argument > 1024 \<or> contains_nul argument)
            (Invalid ''Rust plugin has an invalid process argument'' (rp_id p)))
         (rp_arguments p),
       reject_if (\<not> between MIN_COMMAND_TIMEOUT_MS MAX_COMMAND_TIMEOUT_MS (rp_timeout_ms p))
         (Invalid ''Rust plugin timeout'' (rp_id p)),
       when_some (rp_sha256 p)
         (\<lambda>digest. validate_lower_hex digest 64 ''Rust plugin SHA-256 digest''),
       reject_if (length (pp_filesystem_roots (rp_permissions p)) > 16)
         (Invalid ''Rust plugin cannot authorize more than 16 filesystem roots'' (rp_id p)),
       rbind
         (for_each_unique
            (\<lambda>root. validate_relative_project_path root ''Rust plugin filesystem root'')
            (\<lambda>root. root)
            (\<lambda>root. Duplicated ''Rust plugin filesystem root'' root)
            {} (pp_filesystem_roots (rp_permissions p)))
         (\<lambda>_. Inr ())]"

section \<open>Windows\<close>

record WindowConfig =
  wc_id :: string
  wc_entry :: string
  wc_title :: string
  wc_width :: u32
  wc_height :: u32
  wc_min_width :: u32
  wc_min_height :: u32
  wc_resizable :: bool
  wc_visible :: bool
  wc_theme :: WindowTheme
  wc_decorated :: bool
  wc_transparent :: bool
  wc_always_on_top :: bool
  wc_maximized :: bool
  wc_fullscreen :: bool

definition validate_window :: "WindowConfig \<Rightarrow> verror + unit" where
  "validate_window w =
     steps [
       validate_identifier (wc_id w) ''window'',
       reject_if (wc_entry w = [] \<or> path_is_absolute (wc_entry w) \<or>
                  list_ex (\<lambda>c. \<not> safe_component c) (path_components (wc_entry w)))
         (Invalid ''entry for window must be a relative project path'' (wc_id w)),
       reject_if (trim_is_empty (wc_title w)) (Message ''window title cannot be empty''),
       reject_if (wc_width w < wc_min_width w \<or> wc_height w < wc_min_height w)
         (Message ''window size cannot be smaller than its minimum size''),
       reject_if (wc_min_width w < 320 \<or> wc_min_height w < 240)
         (Message ''minimum window size must be at least 320x240'')]"

section \<open>The bootstrap message\<close>

record Bootstrap =
  bs_manifest :: ApplicationManifest
  bs_windows :: "WindowConfig list"
  bs_command_timeout_ms :: u64
  bs_parallel_worker_count :: u8
  bs_commands :: "CommandConfig list"
  bs_capabilities :: NativeCapabilities
  bs_shell :: ShellConfig
  bs_background_jobs :: "BackgroundJobConfig list"
  bs_rust_plugins :: "RustPluginConfig list"
  bs_php_plugins :: "string list"
  bs_workstation :: WorkstationConfig

definition validate_bootstrap :: "url_parser \<Rightarrow> bool \<Rightarrow> Bootstrap \<Rightarrow> verror + unit" where
  "validate_bootstrap parse_url debug b =
     steps [
       validate_manifest parse_url debug (bs_manifest b),
       reject_if (bs_windows b = [])
         (Message ''desktop applications must register at least one window''),
       reject_if (\<not> between MIN_COMMAND_TIMEOUT_MS MAX_COMMAND_TIMEOUT_MS (bs_command_timeout_ms b))
         (Message ''command timeout''),
       reject_if (\<not> between 1 16 (bs_parallel_worker_count b))
         (Message ''parallel worker count must be between 1 and 16''),
       rbind
         (for_each_unique (\<lambda>c. validate_identifier (cc_name c) ''command'') cc_name
            (\<lambda>c. Duplicated ''command identifier'' (cc_name c)) {} (bs_commands b))
         (\<lambda>_. Inr ()),
       rbind
         (for_each_unique validate_window wc_id
            (\<lambda>w. Duplicated ''window identifier'' (wc_id w)) {} (bs_windows b))
         (\<lambda>identifiers. steps [
            reject_if (MAIN_WINDOW_ID \<notin> identifiers)
              (Message ''desktop applications must register the main window''),
            validate_capabilities parse_url (bs_capabilities b),
            validate_shell (bs_shell b),
            validate_workstation identifiers (bs_workstation b)]),
       rbind
         (for_each_unique validate_background_job bj_id
            (\<lambda>j. Duplicated ''background job identifier'' (bj_id j)) {} (bs_background_jobs b))
         (\<lambda>_. Inr ()),
       rbind
         (for_each_unique validate_rust_plugin rp_id
            (\<lambda>p. Duplicated ''Rust plugin identifier'' (rp_id p)) {} (bs_rust_plugins b))
         (\<lambda>_. Inr ()),
       rbind
         (for_each_unique (\<lambda>p. validate_identifier p ''PHP plugin'') (\<lambda>p. p)
            (\<lambda>p. Duplicated ''PHP plugin identifier'' p) {} (bs_php_plugins b))
         (\<lambda>_. Inr ())]"

section \<open>What an accepted bootstrap guarantees\<close>

definition resource_names :: "NativeCapabilities \<Rightarrow> string list" where
  "resource_names c = map fr_name (nc_filesystem_roots c) @ map db_name (nc_databases c) @
     map ho_name (nc_http_origins c) @ map pc_name (nc_processes c)"

lemma validate_capabilities_names:
  "validate_capabilities parse_url c = Inr () \<Longrightarrow>
     distinct (resource_names c) \<and> list_all valid_identifier (resource_names c)"
  by (auto simp: validate_capabilities_def resource_names_def result_simps list_all_iff
      validate_filesystem_root_def validate_database_def validate_http_origin_def
      validate_process_command_def)

lemma validate_capabilities_processes:
  "validate_capabilities parse_url c = Inr () \<Longrightarrow> p \<in> set (nc_processes c) \<Longrightarrow>
     valid_project_path (pc_executable p) \<and> length (pc_arguments p) \<le> 32"
  by (auto simp: validate_capabilities_def result_simps validate_process_command_def)

lemma validate_background_job_Inr:
  "validate_background_job j = Inr () \<longleftrightarrow>
     valid_identifier (bj_id j) \<and> between MIN_INTERVAL_MS MAX_INTERVAL_MS (bj_interval_ms j) \<and>
     bj_initial_delay_ms j \<le> MAX_INTERVAL_MS \<and>
     between MIN_COMMAND_TIMEOUT_MS MAX_COMMAND_TIMEOUT_MS (bj_timeout_ms j) \<and>
     between 1 10 (bj_maximum_attempts j) \<and> between 100 MAX_INTERVAL_MS (bj_retry_backoff_ms j)"
  by (auto simp: validate_background_job_def result_simps)

lemma validate_window_Inr:
  "validate_window w = Inr () \<Longrightarrow>
     valid_identifier (wc_id w) \<and> list_all safe_component (path_components (wc_entry w)) \<and>
     320 \<le> wc_min_width w \<and> 240 \<le> wc_min_height w \<and>
     wc_min_width w \<le> wc_width w \<and> wc_min_height w \<le> wc_height w"
  by (auto simp: validate_window_def result_simps list_ex_iff list_all_iff)

lemma validate_rust_plugin_paths:
  "validate_rust_plugin p = Inr () \<Longrightarrow>
     valid_identifier (rp_id p) \<and> valid_project_path (rp_executable p) \<and>
     list_all valid_project_path (pp_filesystem_roots (rp_permissions p)) \<and>
     distinct (pp_filesystem_roots (rp_permissions p)) \<and>
     (\<forall>digest. rp_sha256 p = Some digest \<longrightarrow> valid_hex 64 digest)"
  by (auto simp: validate_rust_plugin_def result_simps list_all_iff)

lemma validate_bootstrap_parts:
  assumes "validate_bootstrap parse_url debug b = Inr ()"
  shows "validate_manifest parse_url debug (bs_manifest b) = Inr ()"
    and "between MIN_COMMAND_TIMEOUT_MS MAX_COMMAND_TIMEOUT_MS (bs_command_timeout_ms b)"
    and "between 1 16 (bs_parallel_worker_count b)"
    and "distinct (map cc_name (bs_commands b))"
    and "\<forall>w \<in> set (bs_windows b). validate_window w = Inr ()"
    and "distinct (map wc_id (bs_windows b))"
    and "MAIN_WINDOW_ID \<in> wc_id ` set (bs_windows b)"
    and "validate_capabilities parse_url (bs_capabilities b) = Inr ()"
    and "validate_shell (bs_shell b) = Inr ()"
    and "validate_workstation (wc_id ` set (bs_windows b)) (bs_workstation b) = Inr ()"
    and "\<forall>j \<in> set (bs_background_jobs b). validate_background_job j = Inr ()"
    and "distinct (map bj_id (bs_background_jobs b))"
    and "\<forall>p \<in> set (bs_rust_plugins b). validate_rust_plugin p = Inr ()"
    and "distinct (map rp_id (bs_rust_plugins b))"
    and "distinct (bs_php_plugins b)"
  using assms by (simp_all add: validate_bootstrap_def result_simps)

section \<open>A concrete application\<close>

text \<open>A small but complete configuration, on which the hypotheses of the theorems hold.\<close>

definition sample_manifest :: ApplicationManifest where
  "sample_manifest =
     \<lparr>am_identifier = ''com.example.notes'', am_name = ''Notes'', am_version = ''1.4.0'',
      am_description = ''Keeps notes'', am_publisher = ''Example'',
      am_category = ApplicationCategory.Productivity, am_icon = ''resources/icon.svg'',
      am_bundle_excludes = [''tests''], am_updates = None,
      am_lifecycle = \<lparr>lc_url_schemes = [''notes''], lc_mime_types = [''text/markdown''],
        lc_autostart = False\<rparr>\<rparr>"

definition sample_window :: "string \<Rightarrow> WindowConfig" where
  "sample_window ident =
     \<lparr>wc_id = ident, wc_entry = ''index.html'', wc_title = ''Notes'', wc_width = 1024,
      wc_height = 768, wc_min_width = 640, wc_min_height = 480, wc_resizable = True,
      wc_visible = True, wc_theme = WindowTheme.System, wc_decorated = True,
      wc_transparent = False, wc_always_on_top = False, wc_maximized = False,
      wc_fullscreen = False\<rparr>"

definition sample_job :: BackgroundJobConfig where
  "sample_job =
     \<lparr>bj_id = ''sync'', bj_interval_ms = 60000, bj_initial_delay_ms = 500,
      bj_timeout_ms = 5000, bj_overlap = JobOverlapPolicy.Skip, bj_persistent = True,
      bj_maximum_attempts = 3, bj_retry_backoff_ms = 1000\<rparr>"

definition sample_plugin :: RustPluginConfig where
  "sample_plugin =
     \<lparr>rp_id = ''images'', rp_executable = ''plugins/images'', rp_arguments = [],
      rp_timeout_ms = 2000, rp_sha256 = None, rp_sandbox = PluginSandboxMode.Strict,
      rp_permissions = \<lparr>pp_filesystem_roots = [''data''], pp_network = False,
        pp_shell = False, pp_devices = False\<rparr>\<rparr>"

definition sample_capabilities :: NativeCapabilities where
  "sample_capabilities =
     \<lparr>nc_filesystem_roots = [\<lparr>fr_name = ''notes'', fr_path = ''data'',
        fr_access = FileAccess.ReadWrite\<rparr>],
      nc_dialogs = True, nc_clipboard_read = False, nc_clipboard_write = True,
      nc_notifications = True, nc_drag_and_drop = False,
      nc_databases = [\<lparr>db_name = ''index'', db_path = ''data/index.sqlite'',
        db_access = DatabaseAccess.ReadWrite\<rparr>],
      nc_system_information = False, nc_http_origins = [], nc_secrets = False,
      nc_processes = [], nc_desktop_portal = False\<rparr>"

definition sample_item :: MenuItemConfig where
  "sample_item =
     MenuItemConfig MenuItemKind.Command ''open'' ''Open'' True False (Some ''Ctrl+O'') []"

definition sample_shell :: ShellConfig where
  "sample_shell =
     \<lparr>sc_menus = [\<lparr>mc_id = ''tray'', mc_label = ''Notes'', mc_items =
        [sample_item, MenuItemConfig MenuItemKind.Separator [] [] True False None []]\<rparr>],
      sc_tray = Some \<lparr>tc_menu_id = ''tray'', tc_tooltip = ''Notes'',
        tc_close_behavior = TrayCloseBehavior.Hide\<rparr>,
      sc_shortcuts = [\<lparr>gs_id = ''capture'', gs_accelerator = ''Ctrl+Shift+N''\<rparr>],
      sc_quick_actions = [\<lparr>qa_id = ''new'', qa_label = ''New note'', qa_description = []\<rparr>]\<rparr>"

definition sample_workstation :: WorkstationConfig where
  "sample_workstation = WorkstationConfig_default\<lparr>
     ws_isolation := ProcessIsolation.PerWorkspace,
     ws_windows := [(''preview'', \<lparr>wp_role = WindowRole.Child, wp_parent = Some ''main'',
       wp_restore = True, wp_remember_monitor = False, wp_detachable_tabs = False\<rparr>)]\<rparr>"

definition sample_bootstrap :: Bootstrap where
  "sample_bootstrap =
     \<lparr>bs_manifest = sample_manifest, bs_windows = map sample_window [''main'', ''preview''],
      bs_command_timeout_ms = 10000, bs_parallel_worker_count = 2,
      bs_commands = [\<lparr>cc_name = ''greet'', cc_execution = CommandExecution.Parallel\<rparr>],
      bs_capabilities = sample_capabilities, bs_shell = sample_shell,
      bs_background_jobs = [sample_job], bs_rust_plugins = [sample_plugin],
      bs_php_plugins = [''markdown''], bs_workstation = sample_workstation\<rparr>"

text \<open>The definitions that evaluate the validators of names, texts and paths on ASCII literals.\<close>

lemmas text_eval =
  validate_identifier_def identifier_char_def ascii_alphanumeric_def ascii_alphabetic_def
  ascii_lower_def ascii_upper_def ascii_digit_def str_chars_def byte_def reject_if_def
  validate_text_def trim_is_empty_def trim_chars_def char_whitespace_def char_control_def
  contains_nul_def

lemmas version_eval =
  validate_version_def version_char_def validate_application_identifier_def
  validate_application_segment_def application_segment_char_def

lemmas path_eval =
  validate_relative_project_path_def path_is_absolute_def starts_with_def
  path_components_def slash_def List.map_filter_def

lemma sample_lifecycle_valid: "validate_lifecycle (am_lifecycle sample_manifest) = Inr ()"
proof -
  have "valid_url_scheme ''notes''" "valid_mime_part ''text''" "valid_mime_part ''markdown''"
    by (simp_all add: valid_url_scheme_def valid_mime_part_def text_eval)
  then show ?thesis
    by (simp add: validate_lifecycle_def sample_manifest_def reject_if_def slash_def)
qed

lemma sample_manifest_valid: "validate_manifest (\<lambda>_. None) False sample_manifest = Inr ()"
proof -
  have "validate_application_identifier ''com.example.notes'' = Inr ()"
    "validate_text ''Notes'' ''application name'' 80 False = Inr ()"
    "validate_version ''1.4.0'' = Inr ()"
    "validate_text ''Keeps notes'' ''application description'' 256 True = Inr ()"
    "validate_text ''Example'' ''application publisher'' 128 False = Inr ()"
    "validate_relative_project_path ''resources/icon.svg'' ''application icon'' = Inr ()"
    "validate_relative_project_path ''tests'' ''bundle exclusion'' = Inr ()"
    "map_option to_ascii_lowercase (path_extension ''resources/icon.svg'') = Some ''svg''"
    by (simp_all add: version_eval text_eval path_eval
        path_extension_def path_file_name_def rsplit_once_def to_ascii_lowercase_def)
  then show ?thesis
    using sample_lifecycle_valid
    by (simp add: validate_manifest_def sample_manifest_def reject_if_def required_project_paths_def)
qed

lemma sample_capabilities_valid: "validate_capabilities (\<lambda>_. None) sample_capabilities = Inr ()"
proof -
  have "validate_filesystem_root (hd (nc_filesystem_roots sample_capabilities)) = Inr ()"
    "validate_database (hd (nc_databases sample_capabilities)) = Inr ()"
    by (simp_all add: sample_capabilities_def validate_filesystem_root_def validate_database_def
        text_eval)
  then show ?thesis
    by (simp add: validate_capabilities_def sample_capabilities_def)
qed

lemma sample_accelerators:
  "validate_accelerator ''Ctrl+O'' = Inr ()" "validate_accelerator ''Ctrl+Shift+N'' = Inr ()"
  by (simp_all add: validate_accelerator_def str_chars_def char_whitespace_def ascii_alphanumeric_def
      ascii_alphabetic_def ascii_lower_def ascii_upper_def ascii_digit_def byte_def
      to_ascii_lowercase_def accelerator_modifiers_def reject_if_def)

lemma sample_menu_valid:
  "validate_menus {} (sc_menus sample_shell) ({}, 0) = Inr ({''tray''}, {''open''}, 2)"
proof -
  have "validate_identifier ''tray'' ''menu'' = Inr ()"
    "validate_text ''Notes'' ''menu label'' 80 False = Inr ()"
    "validate_identifier ''open'' ''menu item'' = Inr ()"
    "validate_text ''Open'' ''menu item label'' 80 False = Inr ()"
    by (simp_all add: text_eval)
  with sample_accelerators(1) show ?thesis
    by (simp add: sample_shell_def sample_item_def validate_menu_def validate_separator_def
        validate_leaf_item_def reject_if_def usize_succ_def usize_max_def)
qed

lemma sample_shell_valid: "validate_shell sample_shell = Inr ()"
proof -
  have "validate_tray (the (sc_tray sample_shell)) = Inr ()"
    "validate_identifier ''capture'' ''global shortcut'' = Inr ()"
    "for_each_unique validate_quick_action qa_id
       (\<lambda>a. Duplicated ''quick action identifier'' (qa_id a))
       {} (sc_quick_actions sample_shell) = Inr {''new''}"
    by (simp_all add: sample_shell_def validate_tray_def validate_quick_action_def text_eval)
  with sample_accelerators(2) show ?thesis
    unfolding validate_shell_def sample_menu_valid
    by (simp add: reject_if_def sample_shell_def validate_shortcut_def)
qed

lemma sample_workstation_valid:
  "validate_workstation {''main'', ''preview''} sample_workstation = Inr ()"
  by (simp add: sample_workstation_def validate_workstation_def WorkstationConfig_default_def
      PerformanceBudgetConfig_default_def validate_window_profile_def role_needs_parent_def
      between_def text_eval)

lemma sample_parts_valid:
  "validate_identifier ''greet'' ''command'' = Inr ()"
  "validate_identifier ''markdown'' ''PHP plugin'' = Inr ()"
  by (simp_all add: text_eval)

lemma sample_window_valid:
  "validate_window (sample_window ''main'') = Inr ()"
  "validate_window (sample_window ''preview'') = Inr ()"
proof -
  have "validate_identifier ''main'' ''window'' = Inr ()"
    "validate_identifier ''preview'' ''window'' = Inr ()"
    "path_is_absolute ''index.html'' = False"
    "list_ex (\<lambda>c. \<not> safe_component c) (path_components ''index.html'') = False"
    "trim_is_empty ''Notes'' = False"
    by (simp_all add: text_eval path_eval)
  then show "validate_window (sample_window ''main'') = Inr ()"
    "validate_window (sample_window ''preview'') = Inr ()"
    by (simp_all add: validate_window_def sample_window_def reject_if_def)
qed

lemma sample_job_valid: "validate_background_job sample_job = Inr ()"
proof -
  have "validate_identifier ''sync'' ''background job'' = Inr ()"
    by (simp add: text_eval)
  then show ?thesis
    by (simp add: validate_background_job_def sample_job_def reject_if_def between_def
        MIN_INTERVAL_MS_def MAX_INTERVAL_MS_def MIN_COMMAND_TIMEOUT_MS_def
        MAX_COMMAND_TIMEOUT_MS_def)
qed

lemma sample_plugin_valid: "validate_rust_plugin sample_plugin = Inr ()"
proof -
  have "validate_identifier ''images'' ''Rust plugin'' = Inr ()"
    "validate_relative_project_path ''plugins/images'' ''Rust plugin executable'' = Inr ()"
    "validate_relative_project_path ''data'' ''Rust plugin filesystem root'' = Inr ()"
    by (simp_all add: text_eval path_eval)
  then show ?thesis
    by (simp add: validate_rust_plugin_def sample_plugin_def reject_if_def between_def
        MIN_COMMAND_TIMEOUT_MS_def MAX_COMMAND_TIMEOUT_MS_def)
qed

lemma sample_bootstrap_fields:
  "bs_manifest sample_bootstrap = sample_manifest"
  "bs_windows sample_bootstrap = [sample_window ''main'', sample_window ''preview'']"
  "bs_commands sample_bootstrap = [\<lparr>cc_name = ''greet'', cc_execution = CommandExecution.Parallel\<rparr>]"
  "bs_capabilities sample_bootstrap = sample_capabilities"
  "bs_shell sample_bootstrap = sample_shell"
  "bs_background_jobs sample_bootstrap = [sample_job]"
  "bs_rust_plugins sample_bootstrap = [sample_plugin]"
  "bs_php_plugins sample_bootstrap = [''markdown'']"
  "bs_workstation sample_bootstrap = sample_workstation"
  "bs_command_timeout_ms sample_bootstrap = 10000"
  "bs_parallel_worker_count sample_bootstrap = 2"
  by (simp_all add: sample_bootstrap_def)

lemma sample_window_id [simp]: "wc_id (sample_window i) = i"
  by (simp add: sample_window_def)

lemma sample_bootstrap_valid: "validate_bootstrap (\<lambda>_. None) False sample_bootstrap = Inr ()"
proof -
  have "{''preview'', ''main''} = {''main'', ''preview''}" by blast
  then show ?thesis
    unfolding validate_bootstrap_def sample_bootstrap_fields
    using sample_parts_valid sample_window_valid sample_job_valid sample_plugin_valid sample_manifest_valid sample_capabilities_valid
      sample_shell_valid sample_workstation_valid
    by (simp add: reject_if_def between_def MAIN_WINDOW_ID_def MIN_COMMAND_TIMEOUT_MS_def
        MAX_COMMAND_TIMEOUT_MS_def)
qed

end
