(* ===== verification/Envelope.thy ===== *)
theory Envelope
  imports Validators
begin

text \<open>
  The message envelopes of \<open>pam-desktop-protocol\<close>: host to PHP worker, host to Rust plugin,
  and their answers, with the checks each side makes before it trusts the other.

  \<open>json\<close> is the public enumeration \<open>serde_json::Value\<close>; integers are exact and a floating
  point number is its mantissa and binary exponent.  Payloads are carried, never inspected,
  by the code modelled here.
\<close>

datatype json =
    JNull
  | JBool bool
  | JInt int
  | JFloat int int
  | JString string
  | JArray "json list"
  | JObject "(string \<times> json) list"

definition PROTOCOL_VERSION :: u16 where
  "PROTOCOL_VERSION = 6"

definition PLUGIN_PROTOCOL_VERSION :: u16 where
  "PLUGIN_PROTOCOL_VERSION = 1"

definition BOOT_COMMAND :: string where
  "BOOT_COMMAND = ''@pam/boot''"

definition JOB_COMMAND :: string where
  "JOB_COMMAND = ''@pam/job''"

definition PLUGIN_BOOT_COMMAND :: string where
  "PLUGIN_BOOT_COMMAND = ''@pam/plugin/boot''"

definition MAX_MESSAGE_BYTES :: nat where
  "MAX_MESSAGE_BYTES = 1024 * 1024"

section \<open>Effects, events, errors\<close>

record Effect =
  ef_kind :: EffectKind
  ef_window_id :: string
  ef_payload :: json

record ClientEvent =
  ce_name :: string
  ce_payload :: json
  ce_window_id :: "string option"

definition validate_client_event :: "ClientEvent \<Rightarrow> verror + unit" where
  "validate_client_event e =
     steps [
       validate_identifier (ce_name e) ''event'',
       when_some (ce_window_id e) (\<lambda>window_id. validate_identifier window_id ''window'')]"

record ProtocolError =
  pe_code :: ErrorCode
  pe_message :: string

section \<open>PHP worker envelopes\<close>

record RequestEnvelope =
  re_version :: u16
  re_id :: u64
  re_kind :: MessageKind
  re_command :: string
  re_window_id :: string
  re_payload :: json

definition request_for_window :: "u64 \<Rightarrow> string \<Rightarrow> string \<Rightarrow> json \<Rightarrow> RequestEnvelope" where
  "request_for_window ident command window_id payload =
     \<lparr>re_version = PROTOCOL_VERSION, re_id = ident, re_kind = MessageKind.Request,
      re_command = command, re_window_id = window_id, re_payload = payload\<rparr>"

record ResponseEnvelope =
  rs_version :: u16
  rs_id :: u64
  rs_kind :: MessageKind
  rs_status :: ResponseStatus
  rs_payload :: json
  rs_effects :: "Effect list"
  rs_events :: "ClientEvent list"
  rs_error :: "ProtocolError option"

definition response_failure :: "u64 \<Rightarrow> ErrorCode \<Rightarrow> string \<Rightarrow> ResponseEnvelope" where
  "response_failure ident code message =
     \<lparr>rs_version = PROTOCOL_VERSION, rs_id = ident, rs_kind = MessageKind.Response,
      rs_status = ResponseStatus.Failure, rs_payload = JNull, rs_effects = [], rs_events = [],
      rs_error = Some \<lparr>pe_code = code, pe_message = message\<rparr>\<rparr>"

definition validate_response_for :: "ResponseEnvelope \<Rightarrow> u64 \<Rightarrow> verror + unit" where
  "validate_response_for r request_id =
     steps [
       reject_if (rs_version r \<noteq> PROTOCOL_VERSION)
         (Message ''worker protocol is incompatible with host protocol''),
       reject_if (rs_kind r \<noteq> MessageKind.Response)
         (Message ''worker returned a non-response message''),
       reject_if (rs_id r \<noteq> request_id)
         (Message ''worker response id does not match request id''),
       reject_if (rs_status r = ResponseStatus.Failure \<and> rs_error r = None)
         (Message ''worker returned failure without an error'')]"

section \<open>Rust plugin envelopes\<close>

record PluginRequestEnvelope =
  pq_version :: u16
  pq_id :: u64
  pq_kind :: MessageKind
  pq_command :: string
  pq_payload :: json

definition plugin_request :: "u64 \<Rightarrow> string \<Rightarrow> json \<Rightarrow> PluginRequestEnvelope" where
  "plugin_request ident command payload =
     \<lparr>pq_version = PLUGIN_PROTOCOL_VERSION, pq_id = ident, pq_kind = MessageKind.Request,
      pq_command = command, pq_payload = payload\<rparr>"

definition validate_plugin_request :: "PluginRequestEnvelope \<Rightarrow> verror + unit" where
  "validate_plugin_request q =
     steps [
       reject_if (pq_version q \<noteq> PLUGIN_PROTOCOL_VERSION)
         (Message ''plugin protocol is incompatible with SDK protocol''),
       reject_if (pq_id q = 0 \<or> pq_kind q \<noteq> MessageKind.Request)
         (Message ''plugin request identity is invalid''),
       (if pq_command q \<noteq> PLUGIN_BOOT_COMMAND
        then validate_identifier (pq_command q) ''plugin command'' else Inr ())]"

record PluginResponseEnvelope =
  ps_version :: u16
  ps_id :: u64
  ps_kind :: MessageKind
  ps_status :: ResponseStatus
  ps_payload :: json
  ps_events :: "ClientEvent list"
  ps_error :: "ProtocolError option"

definition plugin_success :: "u64 \<Rightarrow> json \<Rightarrow> ClientEvent list \<Rightarrow> PluginResponseEnvelope" where
  "plugin_success ident payload events =
     \<lparr>ps_version = PLUGIN_PROTOCOL_VERSION, ps_id = ident, ps_kind = MessageKind.Response,
      ps_status = ResponseStatus.Success, ps_payload = payload, ps_events = events,
      ps_error = None\<rparr>"

definition plugin_failure :: "u64 \<Rightarrow> ErrorCode \<Rightarrow> string \<Rightarrow> PluginResponseEnvelope" where
  "plugin_failure ident code message =
     \<lparr>ps_version = PLUGIN_PROTOCOL_VERSION, ps_id = ident, ps_kind = MessageKind.Response,
      ps_status = ResponseStatus.Failure, ps_payload = JNull, ps_events = [],
      ps_error = Some \<lparr>pe_code = code, pe_message = message\<rparr>\<rparr>"

definition validate_plugin_response_for :: "PluginResponseEnvelope \<Rightarrow> u64 \<Rightarrow> verror + unit" where
  "validate_plugin_response_for r request_id =
     steps [
       reject_if (ps_version r \<noteq> PLUGIN_PROTOCOL_VERSION)
         (Message ''plugin protocol is incompatible with host plugin protocol''),
       reject_if (ps_kind r \<noteq> MessageKind.Response \<or> ps_id r \<noteq> request_id)
         (Message ''plugin response identity does not match its request''),
       reject_if (ps_status r = ResponseStatus.Failure \<and> ps_error r = None)
         (Message ''plugin returned failure without an error''),
       for_each validate_client_event (ps_events r)]"

record PluginMetadata =
  pm_identifier :: string
  pm_name :: string
  pm_version :: string
  pm_commands :: "string list"

definition validate_plugin_metadata :: "PluginMetadata \<Rightarrow> verror + unit" where
  "validate_plugin_metadata m =
     steps [
       validate_identifier (pm_identifier m) ''plugin'',
       validate_text (pm_name m) ''plugin name'' 80 False,
       validate_version (pm_version m),
       reject_if (pm_commands m = [])
         (Message ''Rust plugins must export at least one command''),
       rbind
         (for_each_unique (\<lambda>command. validate_identifier command ''plugin command'')
            (\<lambda>command. command) (\<lambda>command. Duplicated ''plugin command'' command)
            {} (pm_commands m))
         (\<lambda>_. Inr ())]"

section \<open>Acceptance\<close>

lemma validate_client_event_Inr [result_simps]:
  "validate_client_event e = Inr () \<longleftrightarrow>
     valid_identifier (ce_name e) \<and> (\<forall>w. ce_window_id e = Some w \<longrightarrow> valid_identifier w)"
  by (auto simp: validate_client_event_def result_simps)

lemma validate_response_for_Inr [result_simps]:
  "validate_response_for r request_id = Inr () \<longleftrightarrow>
     rs_version r = PROTOCOL_VERSION \<and> rs_kind r = MessageKind.Response \<and> rs_id r = request_id \<and>
     (rs_status r = ResponseStatus.Failure \<longrightarrow> rs_error r \<noteq> None)"
  by (auto simp: validate_response_for_def result_simps)

lemma validate_plugin_request_Inr [result_simps]:
  "validate_plugin_request q = Inr () \<longleftrightarrow>
     pq_version q = PLUGIN_PROTOCOL_VERSION \<and> pq_id q \<noteq> 0 \<and> pq_kind q = MessageKind.Request \<and>
     (pq_command q = PLUGIN_BOOT_COMMAND \<or> valid_identifier (pq_command q))"
  by (auto simp: validate_plugin_request_def result_simps)

lemma validate_plugin_response_for_Inr [result_simps]:
  "validate_plugin_response_for r request_id = Inr () \<longleftrightarrow>
     ps_version r = PLUGIN_PROTOCOL_VERSION \<and> ps_kind r = MessageKind.Response \<and>
     ps_id r = request_id \<and> (ps_status r = ResponseStatus.Failure \<longrightarrow> ps_error r \<noteq> None) \<and>
     (\<forall>e \<in> set (ps_events r). validate_client_event e = Inr ())"
  by (auto simp: validate_plugin_response_for_def result_simps)

lemma plugin_success_valid_iff:
  "validate_plugin_response_for (plugin_success ident payload events) ident = Inr () \<longleftrightarrow>
     (\<forall>e \<in> set events. validate_client_event e = Inr ())"
  by (auto simp: validate_plugin_response_for_Inr plugin_success_def)

lemma plugin_failure_valid:
  "validate_plugin_response_for (plugin_failure ident code message) ident = Inr ()"
  by (simp add: validate_plugin_response_for_Inr plugin_failure_def)

lemma response_failure_valid:
  "validate_response_for (response_failure ident code message) ident = Inr ()"
  by (simp add: validate_response_for_Inr response_failure_def)

text \<open>The boot command is outside the identifier grammar, so no plugin can export it.\<close>

lemma boot_command_reserved: "\<not> valid_identifier PLUGIN_BOOT_COMMAND"
  by (simp add: valid_identifier_def PLUGIN_BOOT_COMMAND_def byte_def ascii_alphabetic_def
      ascii_lower_def ascii_upper_def)

lemma validate_plugin_metadata_commands:
  "validate_plugin_metadata m = Inr () \<Longrightarrow>
     pm_commands m \<noteq> [] \<and> distinct (pm_commands m) \<and> list_all valid_identifier (pm_commands m)"
  by (auto simp: validate_plugin_metadata_def result_simps list_all_iff)

end
