(* ===== verification/ProtocolClaims.thy ===== *)
theory ProtocolClaims
  imports Bootstrap Envelope
begin

text \<open>
  The properties of the protocol crate (\<open>pam-desktop-protocol/src/lib.rs\<close>): what a value that
  passed its \<open>validate\<close> can be relied on for.
\<close>

section \<open>Lemmas\<close>

lemma validate_menus_accepted:
  "snd state \<le> usize_max \<Longrightarrow> validate_menus ids ms state = Inr (ids', state') \<Longrightarrow>
     menu_accepted 1 (concat (map mc_items ms)) state state' \<and> ids' = ids \<union> mc_id ` set ms \<and>
     distinct (map mc_id ms)"
proof (induction ids ms state arbitrary: ids' state' rule: validate_menus.induct)
  case (1 ids state)
  then show ?case by (auto simp: menu_accepted_Nil)
next
  case (2 ids m ms state)
  then obtain s1 where menu: "validate_menu m state = Inr s1" "mc_id m \<notin> ids"
    and rest: "validate_menus (insert (mc_id m) ids) ms s1 = Inr (ids', state')"
    by (auto simp: rbind_Inr_iff split: if_splits)
  have first: "menu_accepted 1 (mc_items m) state s1"
    using menu(1) 2(2) by (auto simp: validate_menu_def rbind_Inr_iff validate_menu_accepts)
  have IH: "menu_accepted 1 (concat (map mc_items ms)) s1 state' \<and>
      ids' = insert (mc_id m) ids \<union> mc_id ` set ms \<and> distinct (map mc_id ms)"
    using "2.IH" [OF menu(2) menu_accepted_bounded [OF first] rest] by blast
  have append: "menu_accepted 1 (xs @ ys) s s'" if "menu_accepted 1 xs s t" "menu_accepted 1 ys t s'"
      "snd s \<le> usize_max" for xs ys s s' t
    using that
  proof (induction xs arbitrary: s)
    case Nil
    then show ?case by (simp add: menu_accepted_Nil)
  next
    case (Cons x xs)
    then obtain u where u: "menu_accepted 1 [x] s u" "menu_accepted 1 xs u t"
      using menu_accepted_Cons by blast
    have "menu_accepted 1 (xs @ ys) u s'"
      by (rule Cons.IH [OF u(2) Cons.prems(2) menu_accepted_bounded [OF u(1)]])
    with u(1) show ?case
      unfolding append_Cons menu_accepted_Cons [of 1 x "xs @ ys" s s'] by blast
  qed
  have "mc_id m \<notin> set (map mc_id ms)"
  proof
    assume "mc_id m \<in> set (map mc_id ms)"
    moreover have "\<forall>i s. mc_id m \<in> i \<longrightarrow> validate_menus i ms s \<noteq> Inr (ids', state')"
      if "mc_id m \<in> set (map mc_id ms)" for ids' state'
      using that
    proof (induction ms)
      case (Cons n ns)
      then show ?case by (auto simp: rbind_Inr_iff)
    qed simp
    ultimately show False using rest by blast
  qed
  then show ?case
    using append [OF first conjunct1 [OF IH] 2(2)] IH by auto
qed

lemma validate_shortcuts_distinct:
  "validate_shortcuts ids accs ss = Inr () \<Longrightarrow>
     distinct (map gs_id ss) \<and> set (map gs_id ss) \<inter> ids = {} \<and>
     distinct (map (\<lambda>s. to_ascii_lowercase (gs_accelerator s)) ss) \<and>
     set (map (\<lambda>s. to_ascii_lowercase (gs_accelerator s)) ss) \<inter> accs = {}"
  by (induction ids accs ss rule: validate_shortcuts.induct)
    (auto simp: rbind_Inr_iff split: if_splits)

section \<open>Properties of the protocol\<close>

text \<open>
  C13. An accepted bootstrap has a main window, unique window, job, command and plugin
  identifiers, unique names over all four kinds of native resource, and every executable,
  plugin root and window entry it names stays below the directory it is resolved against.
\<close>
theorem accepted_bootstrap_is_safe:
  assumes "validate_bootstrap parse_url debug b = Inr ()"
  shows "MAIN_WINDOW_ID \<in> wc_id ` set (bs_windows b) \<and> distinct (map wc_id (bs_windows b)) \<and>
    distinct (map cc_name (bs_commands b)) \<and> distinct (map bj_id (bs_background_jobs b)) \<and>
    distinct (map rp_id (bs_rust_plugins b)) \<and> distinct (resource_names (bs_capabilities b)) \<and>
    (\<forall>w \<in> set (bs_windows b). inside dir (follow dir (path_components (wc_entry w)))) \<and>
    (\<forall>p \<in> set (nc_processes (bs_capabilities b)).
       inside dir (follow dir (path_components (pc_executable p)))) \<and>
    (\<forall>p \<in> set (bs_rust_plugins b). inside dir (follow dir (path_components (rp_executable p))) \<and>
       (\<forall>r \<in> set (pp_filesystem_roots (rp_permissions p)). inside dir (follow dir (path_components r))))"
proof -
  note parts = validate_bootstrap_parts [OF assms]
  have "inside dir (follow dir (path_components (wc_entry w)))" if "w \<in> set (bs_windows b)" for w
    using validate_window_Inr parts(5) that by (auto intro: follow_safe)
  moreover have "inside dir (follow dir (path_components (pc_executable p)))"
    if "p \<in> set (nc_processes (bs_capabilities b))" for p
    using validate_capabilities_processes [OF parts(8) that] by (auto intro: valid_project_path_confined)
  moreover have "valid_project_path (rp_executable p) \<and>
      list_all valid_project_path (pp_filesystem_roots (rp_permissions p))"
    if "p \<in> set (bs_rust_plugins b)" for p
    using validate_rust_plugin_paths parts(13) that by blast
  ultimately show ?thesis
    using parts validate_capabilities_names [OF parts(8)]
    by (auto simp: list_all_iff intro: valid_project_path_confined)
qed

text \<open>
  \<open>validate_relative_project_path\<close> accepts exactly the non-empty strings without a NUL byte,
  without a leading slash and without a segment of two dots; following such a path from any
  directory never leaves it.
\<close>
theorem project_path_accepted_iff:
  "(validate_relative_project_path s label = Inr () \<longleftrightarrow>
      s \<noteq> [] \<and> \<not> contains_nul s \<and> \<not> path_is_absolute s \<and> ''..'' \<notin> set (split_on slash s)) \<and>
   (validate_relative_project_path s label = Inr () \<longrightarrow>
      inside dir (follow dir (path_components s)))"
  using valid_project_path_confined [of s dir]
  by (auto simp: validate_relative_project_path_Inr valid_project_path_def)

text \<open>
  An accepted identifier, and an accepted application identifier, is exactly one normal path
  component: it can name a directory without reaching any other.
\<close>
theorem identifiers_are_path_components:
  "(validate_identifier s label = Inr () \<longrightarrow> path_components s = [component.Normal s]) \<and>
   (validate_application_identifier s = Inr () \<longrightarrow> path_components s = [component.Normal s])"
  by (simp add: validate_identifier_Inr validate_application_identifier_Inr
      valid_identifier_component valid_application_identifier_component)

text \<open>
  C31. The recursive menu validator, with its mutable set and counter, is equivalent to a
  declarative specification of the tree: every item is well formed, the identifiers are
  distinct and new, no item is deeper than eight levels, and what it returns is the set
  with the identifiers added and the count (saturating) with the items added.
\<close>
theorem menu_validator_meets_specification:
  assumes "count \<le> usize_max"
  shows "validate_menu_items depth items (ids, count) = Inr (ids', count') \<longleftrightarrow>
    list_all well_formed_item items \<and> distinct (concat (map menu_ids items)) \<and>
    set (concat (map menu_ids items)) \<inter> ids = {} \<and>
    list_all (\<lambda>item. menu_depth item + depth \<le> 9) items \<and>
    ids' = ids \<union> set (concat (map menu_ids items)) \<and>
    count' = min (count + sum_list (map menu_size items)) usize_max"
  using validate_menu_accepts(2) [of "(ids, count)" depth items "(ids', count')"] assms
  by (auto simp: menu_accepted_def Let_def)

text \<open>
  An accepted shell has at most 256 menu items, unique over all menus and at most eight
  levels deep, at most one menu, which the tray names, and its global shortcuts are unique by
  identifier and by accelerator, compared without case.
\<close>
theorem accepted_shell_is_bounded:
  assumes "validate_shell c = Inr ()"
  shows "let items = concat (map mc_items (sc_menus c)) in
    sum_list (map menu_size items) \<le> 256 \<and> distinct (concat (map menu_ids items)) \<and>
    (\<forall>item \<in> set items. well_formed_item item \<and> menu_depth item \<le> 8) \<and>
    length (sc_menus c) \<le> 1 \<and>
    (\<forall>m \<in> set (sc_menus c). \<exists>tray. sc_tray c = Some tray \<and> tc_menu_id tray = mc_id m) \<and>
    distinct (map gs_id (sc_shortcuts c)) \<and>
    distinct (map (\<lambda>s. to_ascii_lowercase (gs_accelerator s)) (sc_shortcuts c)) \<and>
    length (sc_quick_actions c) \<le> 10"
proof -
  obtain menus ids count where m: "validate_menus {} (sc_menus c) ({}, 0) = Inr (menus, ids, count)"
    and rest: "count \<le> 256" "length (sc_menus c) \<le> 1" "sc_menus c \<noteq> [] \<longrightarrow> sc_tray c \<noteq> None"
      "\<forall>t. sc_tray c = Some t \<longrightarrow> tc_menu_id t \<in> menus"
      "validate_shortcuts {} {} (sc_shortcuts c) = Inr ()" "length (sc_quick_actions c) \<le> 10"
    using assms by (auto simp: validate_shell_def result_simps)
  from validate_menus_accepted [OF _ m]
  have acc: "menu_accepted 1 (concat (map mc_items (sc_menus c))) ({}, 0) (ids, count)"
    and menus: "menus = mc_id ` set (sc_menus c)"
    by auto
  have "sum_list (map menu_size (concat (map mc_items (sc_menus c)))) \<le> 256"
    using acc rest(1) by (auto simp: menu_accepted_def Let_def usize_max_def min_def split: if_splits)
  moreover have "\<forall>m \<in> set (sc_menus c). \<exists>tray. sc_tray c = Some tray \<and> tc_menu_id tray = mc_id m"
  proof
    fix m
    assume "m \<in> set (sc_menus c)"
    then have one: "sc_menus c = [m]"
      using rest(2) by (cases "sc_menus c") auto
    then obtain t where "sc_tray c = Some t" "tc_menu_id t \<in> menus"
      using rest(3,4) by auto
    then show "\<exists>tray. sc_tray c = Some tray \<and> tc_menu_id tray = mc_id m"
      using menus one by auto
  qed
  ultimately show ?thesis
    using acc rest validate_shortcuts_distinct [OF rest(5)]
    by (auto simp: menu_accepted_def Let_def list_all_iff)
qed

text \<open>
  The integer codes are a wire format: every error code decodes to itself, and the integers
  that no error has are rejected, never read as another error.
\<close>
theorem error_codes_roundtrip:
  "ErrorCode_of_code (ErrorCode_code e) = Some e \<and>
   (ErrorCode_of_code n = None \<longleftrightarrow> n = 0 \<or> length ErrorCode_members < n) \<and>
   (ErrorCode_of_code n = Some e \<longleftrightarrow> n = ErrorCode_code e)"
  by (simp only: error_code_wire.roundtrip error_code_wire.decode_None_iff
      error_code_wire.decode_Some_iff simp_thms)

text \<open>
  A validated worker response is tied to its request: a response of another id, of another
  protocol version, of the wrong kind, or a failure without an error is rejected, and an
  accepted failure carries its error.
\<close>
theorem accepted_response_answers_request:
  assumes "validate_response_for r i = Inr ()"
  shows "rs_id r = i \<and> rs_version r = PROTOCOL_VERSION \<and> rs_kind r = MessageKind.Response \<and>
    (rs_status r = ResponseStatus.Failure \<longrightarrow> rs_error r \<noteq> None) \<and>
    (j \<noteq> i \<longrightarrow> validate_response_for r j \<noteq> Inr ())"
  using assms by (auto simp: validate_response_for_Inr)

subsection \<open>Witnesses\<close>

theorem accepted_bootstrap_is_safe_witness:
  "distinct (resource_names (bs_capabilities sample_bootstrap))"
  using accepted_bootstrap_is_safe [OF sample_bootstrap_valid] by blast

theorem project_path_accepted_iff_witness:
  "inside [''p''] (follow [''p''] (path_components ''data/notes''))"
proof -
  have "validate_relative_project_path ''data/notes'' [] = Inr ()"
    by (simp add: path_eval text_eval)
  then show ?thesis
    using project_path_accepted_iff [of "''data/notes''" "[]" "[''p'']"] by blast
qed

theorem identifiers_are_path_components_witness:
  "path_components ''main'' = [component.Normal ''main'']"
proof -
  have "validate_identifier ''main'' [] = Inr ()"
    by (simp add: text_eval)
  then show ?thesis
    using identifiers_are_path_components [of "''main''" "[]"] by blast
qed

theorem menu_validator_meets_specification_witness:
  "validate_menu_items 1 [sample_item] ({}, 0) = Inr ({''open''}, 1)"
proof -
  have "valid_accelerator ''Ctrl+O''"
    using sample_accelerators(1) by (simp add: validate_accelerator_Inr)
  moreover have "validate_identifier ''open'' [] = Inr ()" "validate_text ''Open'' [] 80 False = Inr ()"
    by (simp_all add: text_eval)
  ultimately have "well_formed_item sample_item"
    by (simp add: sample_item_def validate_identifier_Inr validate_text_Inr)
  then show ?thesis
    using menu_validator_meets_specification [of 0 1 "[sample_item]" "{}" "{''open''}" 1]
    by (simp add: sample_item_def usize_max_def)
qed

theorem accepted_shell_is_bounded_witness:
  "length (sc_menus sample_shell) \<le> 1 \<and> length (sc_quick_actions sample_shell) \<le> 10"
  using accepted_shell_is_bounded [OF sample_shell_valid] by (simp add: Let_def)

theorem accepted_response_answers_request_witness:
  "rs_error (response_failure 7 ErrorCode.RequestTimedOut ''late'') \<noteq> None"
  using accepted_response_answers_request [OF response_failure_valid [of 7 ErrorCode.RequestTimedOut "''late''"]]
  by (simp add: response_failure_def)

end
