(* ===== verification/Transport.thy ===== *)
theory Transport
  imports Envelope
begin

text \<open>
  The JSON-lines transport between the host and its worker processes, and the plugin side
  of it: \<open>serve_with_io\<close> of \<open>pam-desktop-plugin/src/lib.rs\<close>.  A stream is the list of its
  bytes.  JSON encoding and decoding (\<open>serde_json\<close>) and the plugin itself are parameters.
\<close>

section \<open>Frames\<close>

definition newline :: char where
  "newline = CHR 0x0A"

text \<open>\<open>take(limit).read_line(&mut line)\<close>: the line with its newline, and what is left.\<close>

definition read_line :: "nat \<Rightarrow> string \<Rightarrow> string \<times> string" where
  "read_line limit input =
     (let window = take limit input;
          body = takeWhile (\<lambda>c. c \<noteq> newline) window;
          line = (if newline \<in> set window then body @ [newline] else body)
      in (line, drop (length line) input))"

text \<open>\<open>read_line\<close> fails on bytes that are not UTF-8.\<close>

definition scalar_value :: "nat \<Rightarrow> bool" where
  "scalar_value c \<longleftrightarrow> c < 55296 \<or> 57344 \<le> c \<and> c < 1114112"

definition is_utf8 :: "string \<Rightarrow> bool" where
  "is_utf8 s \<longleftrightarrow> list_all scalar_value (str_chars s) \<and> utf8_encode (str_chars s) = map byte s"

definition frame_limit :: nat where
  "frame_limit = MAX_MESSAGE_BYTES + 1"

text \<open>\<open>bytes > MAX_MESSAGE_BYTES || !line.ends_with('\n')\<close>\<close>

definition frame_rejected :: "string \<Rightarrow> bool" where
  "frame_rejected line \<longleftrightarrow> length line > MAX_MESSAGE_BYTES \<or> line = [] \<or> last line \<noteq> newline"

text \<open>
  The sender's side, the same in the worker client, the plugin client and the plugin SDK:
  an encoded message above the limit is refused, otherwise it is written with a newline.
\<close>

definition write_frame :: "string \<Rightarrow> string option" where
  "write_frame encoded =
     (if length encoded > MAX_MESSAGE_BYTES then None else Some (encoded @ [newline]))"

text \<open>
  The reader's side: one accepted line without its newline, and the rest of the stream; None when
  \<open>read_line\<close> fails on bytes that are not UTF-8, at the end of the stream, and for a line that is too
  long or incomplete, each of which ends the reader.
\<close>

definition read_frame :: "string \<Rightarrow> (string \<times> string) option" where
  "read_frame input =
     (let (line, rest) = read_line frame_limit input
      in if \<not> is_utf8 line \<or> frame_rejected line then None else Some (butlast line, rest))"

fun read_frames :: "nat \<Rightarrow> string \<Rightarrow> string list" where
  "read_frames 0 input = []"
| "read_frames (Suc n) input =
     (case read_frame input of
        None \<Rightarrow> []
      | Some (message, rest) \<Rightarrow> message # read_frames n rest)"

lemma takeWhile_newline:
  "newline \<notin> set m \<Longrightarrow> takeWhile (\<lambda>c. c \<noteq> newline) (m @ newline # rest) = m"
  by (induction m) auto

lemma takeWhile_stops: "x \<in> set xs \<Longrightarrow> \<not> P x \<Longrightarrow> length (takeWhile P xs) < length xs"
  by (induction xs) auto

lemma read_line_complete:
  assumes "newline \<notin> set m" "length m < limit"
  shows "read_line limit (m @ newline # rest) = (m @ [newline], rest)"
proof -
  obtain k where k: "limit = length m + Suc k"
    using assms(2) by (metis add_Suc_right less_iff_Suc_add)
  then have "take limit (m @ newline # rest) = m @ newline # take k rest"
    by simp
  with assms(1) show ?thesis
    by (simp add: read_line_def Let_def takeWhile_newline)
qed

lemma read_line_length: "length (fst (read_line limit input)) \<le> limit"
proof (cases "newline \<in> set (take limit input)")
  case True
  then have "length (takeWhile (\<lambda>c. c \<noteq> newline) (take limit input)) < length (take limit input)"
    by (rule takeWhile_stops) simp
  with True show ?thesis by (simp add: read_line_def Let_def)
next
  case False
  have "length (takeWhile (\<lambda>c. c \<noteq> newline) (take limit input)) \<le> length (take limit input)"
    by (rule length_takeWhile_le)
  with False show ?thesis by (simp add: read_line_def Let_def)
qed

lemma read_line_shrinks:
  "fst (read_line limit input) \<noteq> [] \<Longrightarrow> length (snd (read_line limit input)) < length input"
proof -
  assume ne: "fst (read_line limit input) \<noteq> []"
  then have "input \<noteq> []"
    by (auto simp: read_line_def Let_def split: if_splits)
  with ne show ?thesis
    by (simp add: read_line_def Let_def)
qed

lemma is_utf8_line:
  assumes "is_utf8 m"
  shows "is_utf8 (m @ [newline])"
proof -
  have scalars: "list_all scalar_value (str_chars m @ [10])"
    using assms by (simp add: is_utf8_def scalar_value_def)
  have bytes: "utf8_encode (str_chars m @ [10]) = map byte (m @ [newline])"
    using assms by (simp add: is_utf8_def utf8_encode_def utf8_encode_char_def newline_def byte_def)
  have "utf8_decode (utf8_encode (str_chars m @ [10])) = str_chars m @ [10]"
    using scalars by (intro utf8_decode_encode) (auto simp: list_all_iff scalar_value_def)
  then have "str_chars (m @ [newline]) = str_chars m @ [10]"
    unfolding bytes by (simp add: str_chars_def)
  with scalars bytes show ?thesis unfolding is_utf8_def by simp
qed

lemma ascii_is_utf8: "\<forall>c \<in> set s. byte c < 128 \<Longrightarrow> is_utf8 s"
proof -
  assume ascii: "\<forall>c \<in> set s. byte c < 128"
  moreover have "utf8_encode (map byte s) = map byte s"
    using ascii by (induction s) (auto simp: utf8_encode_def utf8_encode_char_def)
  ultimately show "is_utf8 s"
    by (auto simp: is_utf8_def str_chars_ascii scalar_value_def list_all_iff)
qed

text \<open>
  A UTF-8 message in one line is read back exactly when it is shorter than the limit: at the limit
  itself the reader, which counts the newline, refuses what the writer sends.
\<close>

lemma read_frame_written:
  assumes "newline \<notin> set m" "is_utf8 m" "length m \<le> MAX_MESSAGE_BYTES"
  shows "read_frame (m @ newline # rest) = (if length m < MAX_MESSAGE_BYTES then Some (m, rest) else None)"
  using assms is_utf8_line [of m]
  by (simp add: read_frame_def frame_limit_def read_line_complete frame_rejected_def)

lemma read_frame_complete:
  "newline \<notin> set m \<Longrightarrow> is_utf8 m \<Longrightarrow> length m < MAX_MESSAGE_BYTES \<Longrightarrow>
     read_frame (m @ newline # rest) = Some (m, rest)"
  by (simp add: read_frame_written)

lemma read_frame_at_limit:
  "newline \<notin> set m \<Longrightarrow> is_utf8 m \<Longrightarrow> length m = MAX_MESSAGE_BYTES \<Longrightarrow>
     read_frame (m @ newline # rest) = None"
  by (simp add: read_frame_written)

section \<open>A stream of messages as an interface\<close>

text \<open>
  What the two ends of a pipe rely on: every sendable message is read back, with the rest of
  the stream intact, and an empty stream holds no message.
\<close>

locale message_stream =
  fixes sendable :: "string \<Rightarrow> bool"
    and send :: "string \<Rightarrow> string option"
    and receive :: "string \<Rightarrow> (string \<times> string) option"
    and receive_all :: "nat \<Rightarrow> string \<Rightarrow> string list"
  assumes send_receive: "sendable m \<Longrightarrow> \<exists>w. send m = Some w \<and> (\<forall>rest. receive (w @ rest) = Some (m, rest))"
    and receive_all_0: "receive_all 0 input = []"
    and receive_all_Suc: "receive_all (Suc n) input =
      (case receive input of None \<Rightarrow> [] | Some (m, rest) \<Rightarrow> m # receive_all n rest)"
begin

lemma messages_arrive_in_order:
  "list_all sendable ms \<Longrightarrow>
     receive_all (length ms) (concat (map (\<lambda>m. the (send m)) ms)) = ms"
proof (induction ms)
  case (Cons m ms)
  then obtain w where "send m = Some w" "\<forall>rest. receive (w @ rest) = Some (m, rest)"
    using send_receive [of m] by auto
  with Cons show ?case
    by (simp add: receive_all_Suc)
qed (simp add: receive_all_0)

end

definition sendable_message :: "string \<Rightarrow> bool" where
  "sendable_message m \<longleftrightarrow> newline \<notin> set m \<and> is_utf8 m \<and> length m < MAX_MESSAGE_BYTES"

interpretation pipe: message_stream sendable_message write_frame read_frame read_frames
proof unfold_locales
  fix m :: string
  assume "sendable_message m"
  then have "write_frame m = Some (m @ [newline])"
    and "read_frame ((m @ [newline]) @ rest) = Some (m, rest)" for rest
    by (simp_all add: sendable_message_def write_frame_def read_frame_complete)
  then show "\<exists>w. write_frame m = Some w \<and> (\<forall>rest. read_frame (w @ rest) = Some (m, rest))"
    by blast
qed simp_all

section \<open>The plugin side\<close>

record PluginContext =
  cx_request_id :: u64
  cx_command :: string
  cx_payload :: json

record PluginOutput =
  po_payload :: json
  po_events :: "ClientEvent list"

record PluginFailure =
  pf_code :: ErrorCode
  pf_message :: string

datatype serve_error =
    InvalidMetadata verror
  | ReadFailed
  | RequestTooLong
  | InvalidJson
  | InvalidRequest verror
  | MetadataNotSerializable
  | InvalidEvent verror
  | ResponseNotSerializable
  | ResponseTooLong

text \<open>A plugin is its state and its \<open>invoke\<close>.\<close>

type_synonym 'p plugin = "'p \<Rightarrow> PluginContext \<Rightarrow> 'p \<times> (PluginFailure + PluginOutput)"

definition dispatch_request ::
    "(PluginMetadata \<Rightarrow> json option) \<Rightarrow> PluginMetadata \<Rightarrow> 'p plugin \<Rightarrow> 'p \<Rightarrow>
     PluginRequestEnvelope \<Rightarrow> 'p \<times> (serve_error + PluginResponseEnvelope)" where
  "dispatch_request to_value metadata invoke p request =
     (if pq_command request = PLUGIN_BOOT_COMMAND then
        (case to_value metadata of
           None \<Rightarrow> (p, Inl MetadataNotSerializable)
         | Some payload \<Rightarrow> (p, Inr (plugin_success (pq_id request) payload [])))
      else if pq_command request \<notin> set (pm_commands metadata) then
        (p, Inr (plugin_failure (pq_id request) ErrorCode.UnknownCommand
                   ''Plugin command is not exported.''))
      else
        (case invoke p \<lparr>cx_request_id = pq_id request, cx_command = pq_command request,
                        cx_payload = pq_payload request\<rparr> of
           (p', Inr result) \<Rightarrow>
             (case for_each validate_client_event (po_events result) of
                Inl e \<Rightarrow> (p', Inl (InvalidEvent e))
              | Inr _ \<Rightarrow>
                  (p', Inr (plugin_success (pq_id request) (po_payload result) (po_events result))))
         | (p', Inl failure) \<Rightarrow>
             (p', Inr (plugin_failure (pq_id request) (pf_code failure) (pf_message failure)))))"

text \<open>
  What the loop leaves behind: the requests it answered with the answer and the bytes
  written for each, and its own result.
\<close>

type_synonym served = "(PluginRequestEnvelope \<times> PluginResponseEnvelope \<times> string) list"

function serve_loop ::
    "(string \<Rightarrow> PluginRequestEnvelope option) \<Rightarrow> (PluginResponseEnvelope \<Rightarrow> string option) \<Rightarrow>
     (PluginMetadata \<Rightarrow> json option) \<Rightarrow> PluginMetadata \<Rightarrow> 'p plugin \<Rightarrow> 'p \<Rightarrow> string \<Rightarrow>
     served \<times> (serve_error + unit)" where
  "serve_loop from_json to_json to_value metadata invoke p input =
     (let (line, rest) = read_line frame_limit input
      in if \<not> is_utf8 line then ([], Inl ReadFailed)
         else if line = [] then ([], Inr ())
         else if frame_rejected line then ([], Inl RequestTooLong)
         else
           (case from_json line of
              None \<Rightarrow> ([], Inl InvalidJson)
            | Some request \<Rightarrow>
                (case validate_plugin_request request of
                   Inl e \<Rightarrow> ([], Inl (InvalidRequest e))
                 | Inr _ \<Rightarrow>
                     (case dispatch_request to_value metadata invoke p request of
                        (p', Inl e) \<Rightarrow> ([], Inl e)
                      | (p', Inr response) \<Rightarrow>
                          (case to_json response of
                             None \<Rightarrow> ([], Inl ResponseNotSerializable)
                           | Some encoded \<Rightarrow>
                               (case write_frame encoded of
                                  None \<Rightarrow> ([], Inl ResponseTooLong)
                                | Some bytes \<Rightarrow>
                                    (let (out, result) =
                                       serve_loop from_json to_json to_value metadata invoke p' rest
                                     in ((request, response, bytes) # out, result))))))))"
  by pat_completeness auto
termination
  by (relation "measure (\<lambda>(_, _, _, _, _, _, input). length input)")
     (auto dest!: sym [of "(_, _)" "read_line _ _"],
      metis fst_conv snd_conv read_line_shrinks)

definition serve_with_io ::
    "(string \<Rightarrow> PluginRequestEnvelope option) \<Rightarrow> (PluginResponseEnvelope \<Rightarrow> string option) \<Rightarrow>
     (PluginMetadata \<Rightarrow> json option) \<Rightarrow> PluginMetadata \<Rightarrow> 'p plugin \<Rightarrow> 'p \<Rightarrow> string \<Rightarrow>
     served \<times> (serve_error + unit)" where
  "serve_with_io from_json to_json to_value metadata invoke p input =
     (case validate_plugin_metadata metadata of
        Inl e \<Rightarrow> ([], Inl (InvalidMetadata e))
      | Inr _ \<Rightarrow> serve_loop from_json to_json to_value metadata invoke p input)"

declare serve_loop.simps [simp del]

section \<open>Properties of the transport and of the plugin loop\<close>

lemma dispatch_request_accepted:
  "snd (dispatch_request to_value metadata invoke p q) = Inr r \<Longrightarrow>
     validate_plugin_response_for r (pq_id q) = Inr ()"
  by (auto simp: dispatch_request_def plugin_failure_valid plugin_success_valid_iff
      for_each_Inr split: if_splits option.splits prod.splits sum.splits)

definition answered :: "(PluginResponseEnvelope \<Rightarrow> string option) \<Rightarrow> PluginMetadata \<Rightarrow>
    PluginRequestEnvelope \<times> PluginResponseEnvelope \<times> string \<Rightarrow> bool" where
  "answered to_json metadata entry =
     (case entry of (q, r, bytes) \<Rightarrow>
        validate_plugin_request q = Inr () \<and>
        validate_plugin_response_for r (pq_id q) = Inr () \<and>
        Option.bind (to_json r) write_frame = Some bytes)"

lemma serve_loop_answered:
  "list_all (answered to_json metadata)
     (fst (serve_loop from_json to_json to_value metadata invoke p input))"
proof (induction from_json to_json to_value metadata invoke p input rule: serve_loop.induct)
  case (1 from_json to_json to_value metadata invoke p input)
  obtain line rest where rl: "read_line frame_limit input = (line, rest)"
    by (cases "read_line frame_limit input")
  show ?case
  proof (cases "\<not> is_utf8 line \<or> line = [] \<or> frame_rejected line")
    case True
    then show ?thesis
      by (subst serve_loop.simps) (auto simp: rl)
  next
    case False
    note step = "1.IH" [OF rl [symmetric]]
    show ?thesis
    proof (cases "from_json line")
      case None
      with False show ?thesis
        by (subst serve_loop.simps) (simp add: rl)
    next
      case (Some q)
      obtain p' d where dr: "dispatch_request to_value metadata invoke p q = (p', d)"
        by (cases "dispatch_request to_value metadata invoke p q")
      show ?thesis
      proof (cases "validate_plugin_request q = Inr () \<and>
          (\<exists>r encoded bytes. d = Inr r \<and> to_json r = Some encoded \<and>
             write_frame encoded = Some bytes)")
        case True
        then obtain r encoded bytes where d: "d = Inr r" "to_json r = Some encoded"
          "write_frame encoded = Some bytes" and q: "validate_plugin_request q = Inr ()"
          by blast
        have "answered to_json metadata (q, r, bytes)"
          using dispatch_request_accepted [where q = q and r = r and to_value = to_value
              and metadata = metadata and invoke = invoke and p = p] d q dr
          by (simp add: answered_def)
        moreover have "list_all (answered to_json metadata)
            (fst (serve_loop from_json to_json to_value metadata invoke p' rest))"
          by (rule step [OF refl _ _ _ Some q dr [symmetric] d(1) d(2) d(3)])
             (use False in simp_all)
        ultimately show ?thesis
          using False Some d q dr
          by (subst serve_loop.simps) (auto simp: rl split: prod.split)
      next
        case other: False
        with False Some dr show ?thesis
          by (subst serve_loop.simps) (auto simp: rl split: sum.splits option.splits prod.splits)
      qed
    qed
  qed
qed

text \<open>
  C30. Whatever the plugin does, only requests that passed their own check are answered, and every
  response is valid for its very request: protocol version, message kind and request id agree, a
  failure carries an error, and every event name and target is a valid identifier.  The frame is the
  encoded response in a line; given that the encoder writes UTF-8 without line breaks, as JSON is
  written, the reader of the host accepts the frame exactly when the response is encoded in less than
  \<open>MAX_MESSAGE_BYTES\<close> bytes.  One of exactly that length is written and refused.
\<close>
theorem serve_answers_are_accepted:
  assumes "(q, r, bytes) \<in> set (fst (serve_with_io from_json to_json to_value metadata invoke p input))"
    and "\<And>r encoded. to_json r = Some encoded \<Longrightarrow> newline \<notin> set encoded \<and> is_utf8 encoded"
  shows "validate_plugin_request q = Inr () \<and>
         (ps_version r = PLUGIN_PROTOCOL_VERSION \<and> ps_kind r = MessageKind.Response \<and> ps_id r = pq_id q \<and>
          (ps_status r = ResponseStatus.Failure \<longrightarrow> ps_error r \<noteq> None) \<and>
          (\<forall>e \<in> set (ps_events r). validate_client_event e = Inr ())) \<and>
         (\<exists>encoded. to_json r = Some encoded \<and> length encoded \<le> MAX_MESSAGE_BYTES \<and>
            bytes = encoded @ [newline] \<and>
            (\<forall>rest. read_frame (bytes @ rest) =
               (if length encoded < MAX_MESSAGE_BYTES then Some (encoded, rest) else None)))"
proof -
  have "answered to_json metadata (q, r, bytes)"
    using assms(1) serve_loop_answered [of to_json metadata from_json to_value invoke p input]
    by (auto simp: serve_with_io_def list_all_iff split: sum.splits)
  then obtain encoded where valid: "validate_plugin_request q = Inr ()"
      "validate_plugin_response_for r (pq_id q) = Inr ()"
    and written: "to_json r = Some encoded" "length encoded \<le> MAX_MESSAGE_BYTES" "bytes = encoded @ [newline]"
    by (auto simp: answered_def write_frame_def bind_eq_Some_conv split: if_splits)
  have "read_frame (bytes @ rest) =
      (if length encoded < MAX_MESSAGE_BYTES then Some (encoded, rest) else None)" for rest
    using read_frame_written [of encoded rest] assms(2) [OF written(1)] written(2,3) by simp
  with valid written show ?thesis
    by (simp add: validate_plugin_response_for_Inr)
qed

text \<open>
  A command the plugin does not export never reaches the plugin: its state is unchanged
  and the answer is the failure \<open>UnknownCommand\<close> for that request, whatever the plugin's
  \<open>invoke\<close> is.
\<close>
theorem unexported_command_not_invoked:
  assumes "pq_command request \<notin> set (pm_commands metadata)"
    and "pq_command request \<noteq> PLUGIN_BOOT_COMMAND"
  shows "dispatch_request to_value metadata invoke p request =
     (p, Inr (plugin_failure (pq_id request) ErrorCode.UnknownCommand
                ''Plugin command is not exported.''))"
  using assms by (simp add: dispatch_request_def)

text \<open>
  C36. Messages of UTF-8 text without a newline, each shorter than \<open>MAX_MESSAGE_BYTES\<close>, arrive complete
  and in order, however many are written to the pipe before they are read.
\<close>
theorem frames_arrive_in_order:
  assumes "list_all sendable_message ms"
  shows "read_frames (length ms) (concat (map (\<lambda>m. the (write_frame m)) ms)) = ms"
  using assms by (rule pipe.messages_arrive_in_order)

text \<open>
  The two ends disagree on one size: a UTF-8 message without a newline that the writer accepts
  is read back exactly when it is shorter than \<open>MAX_MESSAGE_BYTES\<close>.  A message of exactly
  that length is written, and refused by the reader, which counts the newline.
\<close>
theorem frame_limit_disagreement:
  assumes "newline \<notin> set m" "is_utf8 m" and "write_frame m = Some w"
  shows "(read_frame (w @ rest) = Some (m, rest) \<longleftrightarrow> length m < MAX_MESSAGE_BYTES) \<and>
         (length m = MAX_MESSAGE_BYTES \<longrightarrow> read_frame (w @ rest) = None)"
proof -
  have w: "w = m @ [newline]" and len: "length m \<le> MAX_MESSAGE_BYTES"
    using assms(3) by (auto simp: write_frame_def split: if_splits)
  show ?thesis
    using read_frame_written [OF assms(1,2) len, of rest] by (simp add: w)
qed

subsection \<open>Witnesses\<close>

definition echo_metadata :: PluginMetadata where
  "echo_metadata = \<lparr>pm_identifier = ''echo'', pm_name = ''Echo'', pm_version = ''1.0.0'',
     pm_commands = [''echo'']\<rparr>"

definition echo_plugin :: "unit plugin" where
  "echo_plugin p c = (p, Inr \<lparr>po_payload = cx_payload c, po_events = []\<rparr>)"

definition echo_from_json :: "string \<Rightarrow> PluginRequestEnvelope option" where
  "echo_from_json line = Some (plugin_request 1 (butlast line) JNull)"

definition echo_to_json :: "PluginResponseEnvelope \<Rightarrow> string option" where
  "echo_to_json r = Some ''{}''"

definition echo_request :: PluginRequestEnvelope where
  "echo_request = plugin_request 1 ''echo'' JNull"

lemmas ascii_defs = byte_def ascii_alphanumeric_def ascii_alphabetic_def ascii_lower_def
  ascii_upper_def ascii_digit_def char_control_def char_whitespace_def

lemma echo_metadata_valid: "validate_plugin_metadata echo_metadata = Inr ()"
  by (simp add: validate_plugin_metadata_def echo_metadata_def result_simps valid_identifier_def
      valid_text_def str_chars_def version_char_def identifier_char_def ascii_defs)

lemma echo_request_line:
  "read_line frame_limit (''echo'' @ [newline]) = ((''echo'' @ [newline]), [])"
  using read_line_complete [of "''echo''" frame_limit "[]"]
  by (simp add: newline_def frame_limit_def MAX_MESSAGE_BYTES_def)

lemma echo_run:
  "serve_with_io echo_from_json echo_to_json (\<lambda>m. Some JNull) echo_metadata echo_plugin ()
     (''echo'' @ [newline]) =
   ([(echo_request, plugin_success 1 JNull [], ''{}'' @ [newline])], Inr ())"
proof -
  have eof: "serve_loop echo_from_json echo_to_json (\<lambda>m. Some JNull) echo_metadata echo_plugin () [] =
      ([], Inr ())"
    by (subst serve_loop.simps) (simp add: read_line_def is_utf8_def utf8_encode_def)
  have utf8: "is_utf8 (''echo'' @ [newline])"
    by (simp add: is_utf8_def str_chars_def utf8_encode_def utf8_encode_char_def
        scalar_value_def byte_def newline_def)
  have q: "validate_plugin_request (plugin_request 1 ''echo'' JNull) = Inr ()"
    by (simp add: validate_plugin_request_Inr plugin_request_def valid_identifier_def
        identifier_char_def ascii_defs)
  show ?thesis
    unfolding serve_with_io_def echo_metadata_valid
    using utf8 q eof
    by (subst serve_loop.simps)
       (simp add: echo_request_line [simplified] frame_rejected_def MAX_MESSAGE_BYTES_def
        echo_from_json_def echo_to_json_def dispatch_request_def echo_metadata_def
        echo_plugin_def write_frame_def echo_request_def plugin_request_def
        PLUGIN_BOOT_COMMAND_def)
qed

theorem serve_answers_are_accepted_witness:
  "validate_plugin_response_for (plugin_success 1 JNull []) 1 = Inr () \<and>
   (echo_request, plugin_success 1 JNull [], ''{}'' @ [newline]) \<in>
     set (fst (serve_with_io echo_from_json echo_to_json (\<lambda>m. Some JNull) echo_metadata
                 echo_plugin () (''echo'' @ [newline])))"
proof -
  have m: "(echo_request, plugin_success 1 JNull [], ''{}'' @ [newline]) \<in>
     set (fst (serve_with_io echo_from_json echo_to_json (\<lambda>m. Some JNull) echo_metadata
                 echo_plugin () (''echo'' @ [newline])))"
    unfolding echo_run by simp
  have "newline \<notin> set encoded \<and> is_utf8 encoded" if "echo_to_json r = Some encoded" for r encoded
    using that by (auto simp: echo_to_json_def newline_def byte_def intro!: ascii_is_utf8)
  from serve_answers_are_accepted [OF m this] m show ?thesis
    by (simp add: echo_request_def plugin_request_def validate_plugin_response_for_Inr)
qed

theorem unexported_command_not_invoked_witness:
  "dispatch_request (\<lambda>m. Some JNull) echo_metadata echo_plugin ()
     (plugin_request 7 ''format'' JNull) =
   ((), Inr (plugin_failure 7 ErrorCode.UnknownCommand ''Plugin command is not exported.''))"
  using unexported_command_not_invoked
    [of "plugin_request 7 ''format'' JNull" echo_metadata "\<lambda>m. Some JNull" echo_plugin "()"]
  by (simp add: plugin_request_def echo_metadata_def PLUGIN_BOOT_COMMAND_def)

theorem frames_arrive_in_order_witness:
  "read_frames 2 (concat (map (\<lambda>m. the (write_frame m)) [''{1}'', ''{2}''])) = [''{1}'', ''{2}'']"
  using frames_arrive_in_order [of "[''{1}'', ''{2}'']"]
  by (simp add: sendable_message_def newline_def MAX_MESSAGE_BYTES_def numeral_2_eq_2
      ascii_is_utf8 byte_def)

theorem frame_limit_disagreement_witness:
  "write_frame (replicate MAX_MESSAGE_BYTES CHR ''a'') =
     Some (replicate MAX_MESSAGE_BYTES CHR ''a'' @ [newline]) \<and>
   read_frame ((replicate MAX_MESSAGE_BYTES CHR ''a'' @ [newline]) @ []) = None"
proof -
  have nl: "newline \<notin> set (replicate MAX_MESSAGE_BYTES CHR ''a'')"
    by (simp add: newline_def)
  have utf8: "is_utf8 (replicate MAX_MESSAGE_BYTES CHR ''a'')"
    by (rule ascii_is_utf8) (simp add: byte_def)
  have w: "write_frame (replicate MAX_MESSAGE_BYTES CHR ''a'') =
      Some (replicate MAX_MESSAGE_BYTES CHR ''a'' @ [newline])"
    by (simp add: write_frame_def)
  from frame_limit_disagreement [OF nl utf8 w, of "[]"] w show ?thesis
    by simp
qed

end
