(* ===== verification/EventHub.thy ===== *)
theory EventHub
  imports Envelope
begin

text \<open>
  \<open>event_hub.rs\<close>: the bounded history of application events and the cursor by which each
  window reads it, with the \<open>events\<close> handler of \<open>gateway.rs\<close> that polls it.

  The abstract view is the log of everything ever published.  The hub keeps its last
  \<open>EVENT_HISTORY_LIMIT\<close> entries, stamped with their position; \<open>represents\<close> is the relation
  between the two, and reads are specified on the log.
\<close>

section \<open>State and operations\<close>

definition EVENT_HISTORY_LIMIT :: nat where
  "EVENT_HISTORY_LIMIT = 256"

record PublishedEvent =
  pv_id :: u64
  pv_name :: string
  pv_payload :: json
  pv_window_id :: "string option"

record EventState =
  es_next_id :: u64
  es_events :: "PublishedEvent list"

definition empty_hub :: EventState where
  "empty_hub = \<lparr>es_next_id = 0, es_events = []\<rparr>"

definition stamp :: "u64 \<Rightarrow> ClientEvent \<Rightarrow> PublishedEvent" where
  "stamp n e = \<lparr>pv_id = n, pv_name = ce_name e, pv_payload = ce_payload e,
     pv_window_id = ce_window_id e\<rparr>"

text \<open>\<open>while state.events.len() > EVENT_HISTORY_LIMIT { state.events.pop_front(); }\<close>\<close>

function pop_excess :: "'a list \<Rightarrow> 'a list" where
  "pop_excess xs = (if length xs > EVENT_HISTORY_LIMIT then pop_excess (tl xs) else xs)"
  by pat_completeness auto
termination
  by (relation "measure length") (auto simp: EVENT_HISTORY_LIMIT_def)

declare pop_excess.simps [simp del]

definition publish :: "EventState \<Rightarrow> ClientEvent \<Rightarrow> EventState" where
  "publish s e =
     (let next_id = sat_add (es_next_id s) 1
      in \<lparr>es_next_id = next_id, es_events = pop_excess (es_events s @ [stamp next_id e])\<rparr>)"

definition latest_id :: "EventState \<Rightarrow> u64" where
  "latest_id s = es_next_id s"

definition visible_to :: "string \<Rightarrow> string option \<Rightarrow> bool" where
  "visible_to window target = (case target of None \<Rightarrow> True | Some w \<Rightarrow> w = window)"

definition events_after :: "EventState \<Rightarrow> u64 \<Rightarrow> string \<Rightarrow> PublishedEvent list" where
  "events_after s after window =
     filter (\<lambda>e. pv_id e > after \<and> visible_to window (pv_window_id e)) (es_events s)"

text \<open>
  \<open>poll\<close>: each round reads the hub as it is then, and gives up when the time is over.  The
  rounds are the hub states it sees with the flag that ends the wait; \<open>None\<close> is still waiting.
\<close>

fun poll :: "u64 \<Rightarrow> string \<Rightarrow> (EventState \<times> bool) list \<Rightarrow> PublishedEvent list option" where
  "poll after window [] = None"
| "poll after window ((s, expired) # rounds) =
     (if events_after s after window \<noteq> [] then Some (events_after s after window)
      else if expired then Some []
      else poll after window rounds)"

text \<open>
  The \<open>events\<close> handler of the gateway answers with the events and the cursor for the next
  poll: the last event's id, or, when there was none, the hub's latest id, which is read
  after the poll has returned (\<open>hub_later\<close>).
\<close>

definition poll_response ::
    "PublishedEvent list \<Rightarrow> EventState \<Rightarrow> u64 \<times> PublishedEvent list" where
  "poll_response evs hub_later =
     ((if evs = [] then latest_id hub_later else pv_id (last evs)), evs)"

section \<open>The log\<close>

definition publish_all :: "EventState \<Rightarrow> ClientEvent list \<Rightarrow> EventState" where
  "publish_all s es = foldl publish s es"

definition stamped :: "ClientEvent list \<Rightarrow> PublishedEvent list" where
  "stamped log = map (\<lambda>(i, e). stamp (of_nat (Suc i)) e) (enumerate 0 log)"

definition represents :: "ClientEvent list \<Rightarrow> EventState \<Rightarrow> bool" where
  "represents log s \<longleftrightarrow> es_next_id s = of_nat (length log) \<and>
     es_events s = drop (length log - EVENT_HISTORY_LIMIT) (stamped log)"

lemma pop_excess_drop: "pop_excess xs = drop (length xs - EVENT_HISTORY_LIMIT) xs"
proof (induction xs rule: pop_excess.induct)
  case (1 xs)
  show ?case
  proof (cases "length xs > EVENT_HISTORY_LIMIT")
    case True
    then obtain y ys where xs: "xs = y # ys" by (cases xs) auto
    with True 1 show ?thesis
      by (subst pop_excess.simps) (simp add: Suc_diff_le)
  next
    case False
    then show ?thesis by (subst pop_excess.simps) simp
  qed
qed

lemma length_stamped [simp]: "length (stamped log) = length log"
  by (simp add: stamped_def)

lemma stamped_snoc: "stamped (log @ [e]) = stamped log @ [stamp (of_nat (Suc (length log))) e]"
  by (simp add: stamped_def enumerate_append_eq)

lemma stamped_append:
  "stamped (log @ es) = stamped log @ drop (length log) (stamped (log @ es))"
proof -
  have "take (length log) (stamped (log @ es)) = stamped log"
    by (simp add: stamped_def enumerate_append_eq)
  then show ?thesis
    by (metis append_take_drop_id)
qed

lemma represents_empty: "represents [] empty_hub"
  by (simp add: represents_def empty_hub_def stamped_def)

text \<open>One publication is one entry of the log: the simulation step.\<close>

lemma represents_publish:
  assumes "represents log s" and "length log < 2 ^ 64 - 1"
  shows "represents (log @ [e]) (publish s e)"
proof -
  let ?n = "length log"
  have next_id: "sat_add (es_next_id s) 1 = of_nat (Suc ?n)"
    using assms by (simp add: represents_def sat_add_def unat_of_nat)
  have "pop_excess (es_events s @ [stamp (of_nat (Suc ?n)) e]) =
      drop (length (es_events s @ [stamp (of_nat (Suc ?n)) e]) - EVENT_HISTORY_LIMIT)
        (drop (?n - EVENT_HISTORY_LIMIT) (stamped (log @ [e])))"
    using assms(1) by (simp add: pop_excess_drop represents_def stamped_snoc)
  also have "\<dots> = drop (Suc ?n - EVENT_HISTORY_LIMIT) (stamped (log @ [e]))"
  proof -
    have "length (es_events s) = ?n - (?n - EVENT_HISTORY_LIMIT)"
      using assms(1) by (simp add: represents_def)
    then have "length (es_events s @ [stamp (of_nat (Suc ?n)) e]) - EVENT_HISTORY_LIMIT +
        (?n - EVENT_HISTORY_LIMIT) = Suc ?n - EVENT_HISTORY_LIMIT"
      by (simp add: EVENT_HISTORY_LIMIT_def)
    then show ?thesis by (simp add: drop_drop)
  qed
  finally show ?thesis
    using next_id by (simp add: represents_def publish_def Let_def)
qed

lemma represents_publish_all:
  assumes "represents log s" and "length log + length es < 2 ^ 64"
  shows "represents (log @ es) (publish_all s es)"
  using assms
proof (induction es arbitrary: log s)
  case (Cons e es)
  then have "represents (log @ [e]) (publish s e)"
    by (intro represents_publish) simp_all
  from Cons.IH [OF this] Cons.prems show ?case
    by (simp add: publish_all_def)
qed (simp add: publish_all_def)

section \<open>The hub as a bounded log\<close>

text \<open>
  The interface of a log with cursors, as the gateway and the scheduler use it: publishing
  appends, the history is bounded, and a read gives the entries past the cursor.
\<close>

locale cursor_log =
  fixes rep :: "'e list \<Rightarrow> 's \<Rightarrow> bool"
    and append :: "'s \<Rightarrow> 'e \<Rightarrow> 's"
    and read :: "'s \<Rightarrow> nat \<Rightarrow> 'o list"
    and observe :: "'e list \<Rightarrow> 'o list"
    and keep :: nat
    and bound :: nat
  assumes rep_append: "rep log s \<Longrightarrow> Suc (length log) < bound \<Longrightarrow> rep (log @ [e]) (append s e)"
    and length_observe: "length (observe log) = length log"
    and observe_append: "\<exists>more. observe (log @ es) = observe log @ more"
    and read_rep: "rep log s \<Longrightarrow> length log < bound \<Longrightarrow> c \<le> length log \<Longrightarrow>
      read s c = drop (max c (length log - keep)) (observe log)"
begin

lemma rep_append_all:
  "rep log s \<Longrightarrow> length log + length es < bound \<Longrightarrow> rep (log @ es) (foldl append s es)"
proof (induction es arbitrary: log s)
  case (Cons e es)
  then have "rep (log @ [e]) (append s e)"
    by (intro rep_append) simp_all
  from Cons.IH [OF this] Cons.prems show ?case by simp
qed simp

text \<open>
  A reader that comes back before \<open>keep\<close> entries have passed sees exactly the new ones.
\<close>

lemma read_new_entries:
  assumes "rep log s" and "length log + length es < bound" and "length es \<le> keep"
  shows "read (foldl append s es) (length log) = drop (length log) (observe (log @ es))"
proof -
  have "max (length log) (length (log @ es) - keep) = length log"
    using assms(3) by simp
  then show ?thesis
    using read_rep [OF rep_append_all [OF assms(1,2)], of "length log"] assms(2) by simp
qed

lemma consecutive_reads:
  assumes "rep log s" and "length log + length es < bound" and "length es \<le> keep"
    and "c \<le> length log" and "length log - c \<le> keep"
  shows "read s c @ read (foldl append s es) (length log) = drop c (observe (log @ es))"
proof -
  obtain more where more: "observe (log @ es) = observe log @ more"
    using observe_append by blast
  have "max c (length log - keep) = c"
    using assms(5) by simp
  then have "read s c = drop c (observe log)"
    using read_rep [OF assms(1), of c] assms(2,4) by simp
  moreover have "read (foldl append s es) (length log) = more"
    using read_new_entries [OF assms(1-3)] more by (simp add: length_observe)
  ultimately show ?thesis
    using assms(4) more by (simp add: length_observe)
qed

end

definition hub_read :: "EventState \<Rightarrow> nat \<Rightarrow> PublishedEvent list" where
  "hub_read s c = filter (\<lambda>e. pv_id e > of_nat c) (es_events s)"

lemma filter_stamped_drop:
  assumes "length log < 2 ^ 64" and "c \<le> length log"
  shows "filter (\<lambda>e. pv_id e > of_nat c) (drop k (stamped log)) = drop (max c k) (stamped log)"
proof (cases "k \<le> length log")
  case True
  have small: "i < 2 ^ 64" if "i \<le> length log" for i
    using that assms(1) by simp
  have id_nth: "pv_id (stamped log ! i) = of_nat (Suc i)" if "i < length log" for i
    using that by (simp add: stamped_def nth_enumerate_eq stamp_def)
  have gt: "pv_id (stamped log ! i) > of_nat c \<longleftrightarrow> c \<le> i" if "i < length log" for i
    using that small [of c] small [of "Suc i"] assms(2)
    by (simp add: id_nth word_less_nat_alt unat_of_nat less_Suc_eq_le del: of_nat_Suc)
  have "filter (\<lambda>e. pv_id e > of_nat c) (drop m (stamped log)) = drop (max c m) (stamped log)"
    if "m \<le> length log" for m
    using that
  proof (induction "length log - m" arbitrary: m)
    case 0
    then show ?case using assms(2) by simp
  next
    case (Suc n)
    then have m: "m < length log" by simp
    have d: "drop m (stamped log) = stamped log ! m # drop (Suc m) (stamped log)"
      using m by (simp add: Cons_nth_drop_Suc)
    have rest: "filter (\<lambda>e. pv_id e > of_nat c) (drop (Suc m) (stamped log)) =
        drop (max c (Suc m)) (stamped log)"
      using Suc by simp
    show ?case
    proof (cases "c \<le> m")
      case True
      then have "max c m = m" "max c (Suc m) = Suc m" by simp_all
      then show ?thesis
        using True gt [OF m] unfolding d filter.simps rest by (simp only: d if_True)
    next
      case False
      then have "max c m = c" "max c (Suc m) = c" by simp_all
      then show ?thesis
        using False gt [OF m] unfolding d filter.simps rest by simp
    qed
  qed
  with True show ?thesis by simp
qed (use assms in \<open>simp add: max_def\<close>)

interpretation hub: cursor_log represents publish hub_read stamped EVENT_HISTORY_LIMIT "2 ^ 64"
proof unfold_locales
  show "represents (log @ [e]) (publish s e)"
    if "represents log s" "Suc (length log) < 2 ^ 64" for log s e
    using that by (intro represents_publish) simp_all
  show "\<exists>more. stamped (log @ es) = stamped log @ more" for log es
    using stamped_append by blast
  show "hub_read s c = drop (max c (length log - EVENT_HISTORY_LIMIT)) (stamped log)"
    if "represents log s" "length log < 2 ^ 64" "c \<le> length log" for log s c
    using that by (simp add: hub_read_def represents_def filter_stamped_drop)
qed simp

lemma events_after_hub_read:
  "events_after s (of_nat c) window =
     filter (\<lambda>e. visible_to window (pv_window_id e)) (hub_read s c)"
  by (simp add: events_after_def hub_read_def conj_commute)

section \<open>Properties of the event history\<close>

text \<open>
  C8. The hub implements the log: after any sequence of publications a window reading from
  cursor \<open>c\<close> gets, in order, exactly the events past the cursor that are addressed to it or
  to everyone, of the last 256; ids are the positions in the log.
\<close>
theorem hub_reads_the_log:
  assumes "length es < 2 ^ 64" and "c \<le> length es"
  shows "events_after (publish_all empty_hub es) (of_nat c) window =
     filter (\<lambda>e. visible_to window (pv_window_id e))
       (drop (max c (length es - EVENT_HISTORY_LIMIT)) (stamped es)) \<and>
     latest_id (publish_all empty_hub es) = of_nat (length es) \<and>
     length (es_events (publish_all empty_hub es)) \<le> EVENT_HISTORY_LIMIT"
proof -
  have rep: "represents es (publish_all empty_hub es)"
    using represents_publish_all [OF represents_empty, of es] assms(1) by simp
  then have "hub_read (publish_all empty_hub es) c =
      drop (max c (length es - EVENT_HISTORY_LIMIT)) (stamped es)"
    using assms by (rule hub.read_rep)
  then show ?thesis
    using rep by (simp add: events_after_hub_read latest_id_def represents_def)
qed

text \<open>
  A window that polls before 256 events have passed sees every event addressed to it
  exactly once: two consecutive reads, the second from the position of the first, are
  together the visible events of the whole stretch of the log.
\<close>
theorem polls_deliver_exactly_once:
  assumes "represents log s" and "length log + length es < 2 ^ 64"
    and "length es \<le> EVENT_HISTORY_LIMIT"
    and "c \<le> length log" and "length log - c \<le> EVENT_HISTORY_LIMIT"
  shows "events_after s (of_nat c) window @
         events_after (publish_all s es) (of_nat (length log)) window =
         filter (\<lambda>e. visible_to window (pv_window_id e)) (drop c (stamped (log @ es)))"
  using hub.consecutive_reads [OF assms]
  by (simp add: events_after_hub_read publish_all_def flip: filter_append)

text \<open>
  A poll that times out can lose an event.  If an event reaches the hub after the poll
  found nothing and before the handler reads \<open>latest_id\<close>, the response is empty and its
  cursor is past the event: no later poll from that cursor returns it, although a poll from
  the old cursor would have.
\<close>
theorem timed_out_poll_skips_event:
  assumes "represents log s" and "Suc (length log) + length es < 2 ^ 64"
    and "poll (of_nat c) window [(s, True)] = Some []" and "c \<le> length log"
    and "visible_to window (ce_window_id e)"
  shows "let published = stamp (of_nat (Suc (length log))) e;
             (cursor, delivered) = poll_response [] (publish s e)
         in published \<notin> set delivered \<and>
            published \<notin> set (events_after (publish_all (publish s e) es) cursor window) \<and>
            published \<in> set (events_after (publish s e) (of_nat c) window)"
proof -
  let ?n = "length log" and ?e = "stamp (of_nat (Suc (length log))) e"
  have rep: "represents (log @ [e]) (publish s e)"
    using assms(1,2) by (intro represents_publish) simp_all
  have cursor: "latest_id (publish s e) = of_nat (Suc ?n)"
    using rep by (simp add: latest_id_def represents_def)
  have "\<not> pv_id ?e > latest_id (publish s e)"
    by (simp add: cursor stamp_def)
  then have "?e \<notin> set (events_after (publish_all (publish s e) es) (latest_id (publish s e)) window)"
    by (simp add: events_after_def)
  moreover have "?e \<in> set (events_after (publish s e) (of_nat c) window)"
  proof -
    have "?e \<in> set (drop (Suc ?n - EVENT_HISTORY_LIMIT) (stamped (log @ [e])))"
      by (simp add: stamped_snoc EVENT_HISTORY_LIMIT_def)
    moreover have "pv_id ?e > of_nat c"
      using assms(2,4) by (simp add: stamp_def word_less_nat_alt unat_of_nat del: of_nat_Suc)
    ultimately show ?thesis
      using rep assms(5) by (simp add: events_after_def represents_def stamp_def)
  qed
  ultimately show ?thesis
    by (simp add: poll_response_def Let_def)
qed

subsection \<open>Witnesses\<close>

definition tick :: ClientEvent where
  "tick = \<lparr>ce_name = ''tick'', ce_payload = JNull, ce_window_id = None\<rparr>"

definition saved :: ClientEvent where
  "saved = \<lparr>ce_name = ''saved'', ce_payload = JNull, ce_window_id = Some ''settings''\<rparr>"

theorem hub_reads_the_log_witness:
  "events_after (publish_all empty_hub [tick, saved]) 0 ''main'' = [stamp 1 tick] \<and>
   events_after (publish_all empty_hub [tick, saved]) 0 ''settings'' = [stamp 1 tick, stamp 2 saved]"
  using hub_reads_the_log [of "[tick, saved]" 0 "''main''"]
    hub_reads_the_log [of "[tick, saved]" 0 "''settings''"]
  by (simp add: stamped_def tick_def saved_def stamp_def visible_to_def EVENT_HISTORY_LIMIT_def)

theorem polls_deliver_exactly_once_witness:
  "events_after (publish_all empty_hub [tick]) 0 ''main'' @
   events_after (publish_all (publish_all empty_hub [tick]) [saved, tick]) 1 ''main'' =
   [stamp 1 tick, stamp 3 tick]"
proof -
  have "represents [tick] (publish_all empty_hub [tick])"
    using represents_publish_all [OF represents_empty, of "[tick]"] by simp
  from polls_deliver_exactly_once [OF this, of "[saved, tick]" 0 "''main''"] show ?thesis
    by (simp add: stamped_def tick_def saved_def stamp_def visible_to_def EVENT_HISTORY_LIMIT_def)
qed

theorem timed_out_poll_skips_event_witness:
  "poll 0 ''main'' [(empty_hub, True)] = Some [] \<and>
   poll_response [] (publish empty_hub tick) = (1, []) \<and>
   stamp 1 tick \<notin> set (events_after (publish_all (publish empty_hub tick) [saved]) 1 ''main'')"
proof -
  have p: "poll (of_nat 0) ''main'' [(empty_hub, True)] = Some []"
    by (simp add: events_after_def empty_hub_def)
  have cursor: "poll_response [] (publish empty_hub tick) = (1, [])"
    by (simp add: poll_response_def latest_id_def publish_def empty_hub_def sat_add_def Let_def)
  show ?thesis
    using timed_out_poll_skips_event [OF represents_empty, of "[saved]" 0 "''main''" tick]
      p cursor by (simp add: Let_def visible_to_def tick_def)
qed

end
