(* ===== verification/Supervisor.thy ===== *)
theory Supervisor
  imports Transport Bootstrap
begin

text \<open>
  The supervision of the PHP worker: \<open>worker.rs\<close>.  A client owns one process and numbers its
  requests; the supervisor owns at most one client, replaces it when a request fails, and
  never repeats a command.

  The environment of an operation is explicit: what a spawn gives, whether the pipe takes a
  write, and what each round of a wait sees (cancellation, answers, the time that passes).
  Times are nanoseconds, as \<open>Instant\<close> counts.  Every envelope written to a worker is
  returned with the result, so that what was sent can be stated.
\<close>

section \<open>Waiting for an answer\<close>

text \<open>What \<open>recv_timeout\<close> returns.\<close>

datatype 'r received = Reply 'r | ReadError string | NothingYet | Disconnected

record 'r round =
  rd_cancelled :: bool
  rd_received :: "'r received"
  rd_extra :: nat

datatype 'r awaited =
    AwaitCancelled
  | AwaitTimedOut
  | AwaitReply 'r
  | AwaitReadError string
  | AwaitDisconnected

definition CANCELLATION_POLL_INTERVAL :: nat where
  "CANCELLATION_POLL_INTERVAL = 20000000"

text \<open>
  The loop of \<open>WorkerClient::request\<close> and of \<open>PluginClient::request\<close>.  A \<open>recv_timeout\<close> that
  returns \<open>Timeout\<close> has waited at least the time it was given; \<open>rd_extra\<close> is what it waited
  beyond that.  The loop always ends: an empty round moves the clock towards the deadline.
\<close>

function await :: "nat \<Rightarrow> nat \<Rightarrow> nat \<Rightarrow> (nat \<Rightarrow> 'r round) \<Rightarrow> 'r awaited" where
  "await deadline now k rounds =
     (if rd_cancelled (rounds k) then AwaitCancelled
      else if now \<ge> deadline then AwaitTimedOut
      else
        (let wait = min CANCELLATION_POLL_INTERVAL (deadline - now)
         in case rd_received (rounds k) of
              Reply r \<Rightarrow> AwaitReply r
            | ReadError e \<Rightarrow> AwaitReadError e
            | Disconnected \<Rightarrow> AwaitDisconnected
            | NothingYet \<Rightarrow>
                await deadline (now + wait + rd_extra (rounds k)) (Suc k) rounds))"
  by pat_completeness auto
termination
  by (relation "measure (\<lambda>(deadline, now, k, rounds). deadline - now)")
     (auto simp: CANCELLATION_POLL_INTERVAL_def)

declare await.simps [simp del]

section \<open>The worker client\<close>

datatype WorkerRequestError = TimedOut | Cancelled | Crashed string

record WorkerClient =
  wk_next_id :: u64

definition fresh_worker :: WorkerClient where
  "fresh_worker = \<lparr>wk_next_id = 1\<rparr>"

record 'r exchange =
  xc_write_ok :: bool
  xc_rounds :: "nat \<Rightarrow> 'r round"

definition checked_succ :: "u64 \<Rightarrow> u64 option" where
  "checked_succ n = (if n = - 1 then None else Some (n + 1))"

definition worker_answer :: "u64 \<Rightarrow> ResponseEnvelope awaited \<Rightarrow> WorkerRequestError + ResponseEnvelope" where
  "worker_answer request_id a =
     (case a of
        AwaitCancelled \<Rightarrow> Inl Cancelled
      | AwaitTimedOut \<Rightarrow> Inl TimedOut
      | AwaitReply response \<Rightarrow>
          (case validate_response_for response request_id of
             Inl (Message m) \<Rightarrow> Inl (Crashed m)
           | Inl _ \<Rightarrow> Inl (Crashed ''worker response is invalid'')
           | Inr _ \<Rightarrow> Inr response)
      | AwaitReadError e \<Rightarrow> Inl (Crashed e)
      | AwaitDisconnected \<Rightarrow> Inl (Crashed ''PHP response channel disconnected''))"

text \<open>
  The second component are the envelopes that reached the pipe.  A write that fails may have left any
  part of its frame there, up to all of it, so its envelope counts as well.
\<close>

definition worker_client_request ::
    "(RequestEnvelope \<Rightarrow> string option) \<Rightarrow> WorkerClient \<Rightarrow> string \<Rightarrow> string \<Rightarrow> json \<Rightarrow> nat \<Rightarrow>
     ResponseEnvelope exchange \<Rightarrow>
     WorkerClient \<times> RequestEnvelope list \<times> (WorkerRequestError + ResponseEnvelope)" where
  "worker_client_request to_json c command window_id payload timeout x =
     (case checked_succ (wk_next_id c) of
        None \<Rightarrow> (c, [], Inl (Crashed ''worker request id overflow''))
      | Some next \<Rightarrow>
          (let request_id = wk_next_id c;
               c' = c\<lparr>wk_next_id := next\<rparr>;
               request = request_for_window request_id command window_id payload
           in case to_json request of
                None \<Rightarrow> (c', [], Inl (Crashed ''cannot serialize worker request''))
              | Some encoded \<Rightarrow>
                  (case write_frame encoded of
                     None \<Rightarrow>
                       (c', [], Inl (Crashed ''worker request exceeds the one-megabyte limit''))
                   | Some _ \<Rightarrow>
                       if \<not> xc_write_ok x
                       then (c', [request], Inl (Crashed ''cannot write to PHP worker''))
                       else (c', [request],
                             worker_answer request_id (await timeout 0 0 (xc_rounds x))))))"

definition BOOT_TIMEOUT :: nat where
  "BOOT_TIMEOUT = 10000000000"

definition worker_failure :: "ResponseEnvelope \<Rightarrow> string" where
  "worker_failure r =
     (case rs_error r of
        None \<Rightarrow> ''PHP worker returned an unspecified failure''
      | Some e \<Rightarrow> ''PHP worker error '' @ decimal (ErrorCode_code (pe_code e)) @ '': '' @ pe_message e)"

fun worker_error_text :: "WorkerRequestError \<Rightarrow> string" where
  "worker_error_text TimedOut = ''the PHP command exceeded its deadline''"
| "worker_error_text Cancelled = ''the PHP command was cancelled''"
| "worker_error_text (Crashed message) = ''the PHP worker stopped: '' @ message"

definition worker_boot ::
    "(RequestEnvelope \<Rightarrow> string option) \<Rightarrow> (json \<Rightarrow> Bootstrap option) \<Rightarrow> WorkerClient \<Rightarrow>
     ResponseEnvelope exchange \<Rightarrow> WorkerClient \<times> RequestEnvelope list \<times> (string + Bootstrap)" where
  "worker_boot to_json from_value c x =
     (case worker_client_request to_json c BOOT_COMMAND MAIN_WINDOW_ID JNull BOOT_TIMEOUT x of
        (c', sent, Inl e) \<Rightarrow> (c', sent, Inl (worker_error_text e))
      | (c', sent, Inr response) \<Rightarrow>
          if rs_status response = ResponseStatus.Failure
          then (c', sent, Inl (worker_failure response))
          else (case from_value (rs_payload response) of
                  None \<Rightarrow> (c', sent, Inl ''worker returned an invalid bootstrap contract'')
                | Some b \<Rightarrow> (c', sent, Inr b)))"

text \<open>
  The attempts to start the process: a busy executable is retried, 26 attempts at most.  The
  outcomes are what the operating system answers to each attempt.
\<close>

datatype spawn_outcome = Spawned | SpawnFailed "int option"

definition EXECUTABLE_BUSY_RETRY_LIMIT :: nat where
  "EXECUTABLE_BUSY_RETRY_LIMIT = 25"

definition executable_is_busy :: "int option \<Rightarrow> bool" where
  "executable_is_busy raw_os_error = (raw_os_error = Some 26)"

function spawn_attempts :: "nat \<Rightarrow> (nat \<Rightarrow> spawn_outcome) \<Rightarrow> nat \<times> spawn_outcome" where
  "spawn_attempts attempt outcomes =
     (case outcomes attempt of
        SpawnFailed e \<Rightarrow>
          if executable_is_busy e \<and> attempt < EXECUTABLE_BUSY_RETRY_LIMIT
          then spawn_attempts (Suc attempt) outcomes
          else (attempt, SpawnFailed e)
      | Spawned \<Rightarrow> (attempt, Spawned))"
  by pat_completeness auto
termination
  by (relation "measure (\<lambda>(attempt, _). EXECUTABLE_BUSY_RETRY_LIMIT - attempt)") auto

declare spawn_attempts.simps [simp del]

record spawn_env =
  sp_outcomes :: "nat \<Rightarrow> spawn_outcome"
  sp_boot :: "ResponseEnvelope exchange"

section \<open>The supervisor\<close>

text \<open>What does not change while the host runs: encoders, decoders, the URL parser.\<close>

record host =
  hs_to_json :: "RequestEnvelope \<Rightarrow> string option"
  hs_from_value :: "json \<Rightarrow> Bootstrap option"
  hs_parse_url :: url_parser
  hs_debug :: bool

record WorkerSupervisor =
  sv_worker :: "WorkerClient option"
  sv_bootstrap :: Bootstrap
  sv_generation :: u64

definition spawn_ready_worker ::
    "host \<Rightarrow> spawn_env \<Rightarrow> RequestEnvelope list \<times> (string + WorkerClient \<times> Bootstrap)" where
  "spawn_ready_worker h env =
     (case snd (spawn_attempts 0 (sp_outcomes env)) of
        SpawnFailed _ \<Rightarrow> ([], Inl ''cannot start PHP worker'')
      | Spawned \<Rightarrow>
          (case worker_boot (hs_to_json h) (hs_from_value h) fresh_worker (sp_boot env) of
             (c, sent, Inl e) \<Rightarrow> (sent, Inl e)
           | (c, sent, Inr b) \<Rightarrow>
               (case validate_bootstrap (hs_parse_url h) (hs_debug h) b of
                  Inl _ \<Rightarrow> (sent, Inl ''invalid bootstrap'')
                | Inr _ \<Rightarrow> (sent, Inr (c, b)))))"

definition supervisor_start ::
    "host \<Rightarrow> spawn_env \<Rightarrow> RequestEnvelope list \<times> (string + WorkerSupervisor)" where
  "supervisor_start h env =
     (case spawn_ready_worker h env of
        (sent, Inl e) \<Rightarrow> (sent, Inl e)
      | (sent, Inr (c, b)) \<Rightarrow>
          (sent, Inr \<lparr>sv_worker = Some c, sv_bootstrap = b, sv_generation = 1\<rparr>))"

definition supervisor_restart ::
    "host \<Rightarrow> WorkerSupervisor \<Rightarrow> spawn_env \<Rightarrow>
     WorkerSupervisor \<times> RequestEnvelope list \<times> (string + Bootstrap)" where
  "supervisor_restart h s env =
     (case spawn_ready_worker h env of
        (sent, Inl e) \<Rightarrow> (s\<lparr>sv_worker := None\<rparr>, sent, Inl e)
      | (sent, Inr (c, b)) \<Rightarrow>
          (s\<lparr>sv_worker := Some c, sv_bootstrap := b,
             sv_generation := sat_add (sv_generation s) 1\<rparr>, sent, Inr b))"

text \<open>\<open>if self.worker.is_none() { self.restart()?; }\<close> and then the worker that is there.\<close>

definition ensure_worker ::
    "host \<Rightarrow> WorkerSupervisor \<Rightarrow> spawn_env \<Rightarrow>
     WorkerSupervisor \<times> RequestEnvelope list \<times> (WorkerRequestError + WorkerClient)" where
  "ensure_worker h s env =
     (case sv_worker s of
        Some c \<Rightarrow> (s, [], Inr c)
      | None \<Rightarrow>
          (case supervisor_restart h s env of
             (s', sent, Inl e) \<Rightarrow> (s', sent, Inl (Crashed e))
           | (s', sent, Inr _) \<Rightarrow> (s', sent, Inr (the (sv_worker s')))))"

text \<open>
  \<open>env1\<close> is the spawn when no worker is there, \<open>x\<close> the exchange with the worker, \<open>env2\<close> the
  spawn that replaces a worker whose request failed.
\<close>

definition supervisor_request ::
    "host \<Rightarrow> WorkerSupervisor \<Rightarrow> string \<Rightarrow> string \<Rightarrow> json \<Rightarrow> nat \<Rightarrow>
     spawn_env \<Rightarrow> ResponseEnvelope exchange \<Rightarrow> spawn_env \<Rightarrow>
     WorkerSupervisor \<times> RequestEnvelope list \<times> (WorkerRequestError + ResponseEnvelope)" where
  "supervisor_request h s command window_id payload timeout env1 x env2 =
     (case ensure_worker h s env1 of
        (s1, sent1, Inl e) \<Rightarrow> (s1, sent1, Inl e)
      | (s1, sent1, Inr c) \<Rightarrow>
          (case worker_client_request (hs_to_json h) c command window_id payload timeout x of
             (c', sent2, Inr response) \<Rightarrow>
               (s1\<lparr>sv_worker := Some c'\<rparr>, sent1 @ sent2, Inr response)
           | (c', sent2, Inl e) \<Rightarrow>
               (case supervisor_restart h (s1\<lparr>sv_worker := None\<rparr>) env2 of
                  (s3, sent3, _) \<Rightarrow> (s3, sent1 @ sent2 @ sent3, Inl e))))"

section \<open>Lemmas\<close>

lemma checked_succ_Some: "checked_succ n = Some m \<Longrightarrow> m = n + 1 \<and> n \<noteq> - 1"
  by (auto simp: checked_succ_def split: if_splits)

lemma worker_answer_Inr:
  "worker_answer request_id a = Inr r \<Longrightarrow>
     a = AwaitReply r \<and> validate_response_for r request_id = Inr ()"
  by (auto simp: worker_answer_def split: awaited.splits sum.splits verror.splits)

text \<open>Everything a client request can do: at most one envelope, and the answer to it.\<close>

lemma worker_client_request_shape:
  assumes "worker_client_request to_json c command window payload timeout x = (c', sent, result)"
  shows "sent = [] \<and> (\<exists>e. result = Inl e) \<or>
     sent = [request_for_window (wk_next_id c) command window payload] \<and>
     wk_next_id c' = wk_next_id c + 1 \<and>
     (\<forall>r. result = Inr r \<longrightarrow> validate_response_for r (wk_next_id c) = Inr ())"
proof (cases "checked_succ (wk_next_id c)")
  case None
  with assms show ?thesis by (auto simp: worker_client_request_def)
next
  case (Some n)
  let ?q = "request_for_window (wk_next_id c) command window payload"
  show ?thesis
  proof (cases "Option.bind (to_json ?q) write_frame = None \<or> \<not> xc_write_ok x")
    case True
    with assms Some checked_succ_Some [OF Some] show ?thesis
      by (auto simp: worker_client_request_def Let_def split: option.splits if_splits)
  next
    case False
    then have "sent = [?q]" "c' = c\<lparr>wk_next_id := n\<rparr>"
      "result = worker_answer (wk_next_id c) (await timeout 0 0 (xc_rounds x))"
      using assms Some
      by (auto simp: worker_client_request_def Let_def split: option.splits if_splits)
    moreover have "n = wk_next_id c + 1"
      using checked_succ_Some [OF Some] by simp
    ultimately show ?thesis
      using worker_answer_Inr by fastforce
  qed
qed

lemma worker_client_request_Inr:
  "worker_client_request to_json c command window payload timeout x = (c', sent, Inr r) \<Longrightarrow>
     sent = [request_for_window (wk_next_id c) command window payload] \<and>
     wk_next_id c' = wk_next_id c + 1 \<and> validate_response_for r (wk_next_id c) = Inr ()"
  by (drule worker_client_request_shape) auto

lemma request_for_window_fields [simp]:
  "re_id (request_for_window i c w p) = i" "re_command (request_for_window i c w p) = c"
  "re_window_id (request_for_window i c w p) = w" "re_payload (request_for_window i c w p) = p"
  by (simp_all add: request_for_window_def)

definition booting :: "RequestEnvelope \<Rightarrow> bool" where
  "booting q \<longleftrightarrow> re_command q = BOOT_COMMAND"

lemma booting_request [simp]: "booting (request_for_window i c w p) \<longleftrightarrow> c = BOOT_COMMAND"
  by (simp add: booting_def)

lemma worker_boot_sends:
  "worker_boot to_json from_value c x = (c', sent, result) \<Longrightarrow>
     list_all booting sent \<and> (\<forall>b. result = Inr b \<longrightarrow> wk_next_id c' = wk_next_id c + 1)"
  by (cases "worker_client_request to_json c BOOT_COMMAND MAIN_WINDOW_ID JNull BOOT_TIMEOUT x")
    (auto simp: worker_boot_def booting_def split: sum.splits if_splits option.splits
      dest!: worker_client_request_shape)

lemma spawn_ready_worker_sends:
  "spawn_ready_worker h env = (sent, result) \<Longrightarrow>
     list_all booting sent \<and>
     (\<forall>c b. result = Inr (c, b) \<longrightarrow>
        wk_next_id c = 2 \<and> validate_bootstrap (hs_parse_url h) (hs_debug h) b = Inr ())"
  by (cases "worker_boot (hs_to_json h) (hs_from_value h) fresh_worker (sp_boot env)")
    (auto simp: spawn_ready_worker_def fresh_worker_def
      split: spawn_outcome.splits sum.splits prod.splits dest!: worker_boot_sends)

definition validated :: "host \<Rightarrow> WorkerSupervisor \<Rightarrow> bool" where
  "validated h s \<longleftrightarrow>
     validate_bootstrap (hs_parse_url h) (hs_debug h) (sv_bootstrap s) = Inr ()"

lemma supervisor_restart_effect:
  assumes "supervisor_restart h s env = (s', sent, result)"
  shows "list_all booting sent \<and>
     (case result of
        Inl _ \<Rightarrow> s' = s\<lparr>sv_worker := None\<rparr>
      | Inr b \<Rightarrow> (\<exists>c. sv_worker s' = Some c \<and> wk_next_id c = 2) \<and> validated h s' \<and>
          sv_bootstrap s' = b \<and> sv_generation s' = sat_add (sv_generation s) 1)"
proof -
  obtain boot result' where sp: "spawn_ready_worker h env = (boot, result')"
    by (cases "spawn_ready_worker h env")
  show ?thesis
    using assms spawn_ready_worker_sends [OF sp]
    by (auto simp: supervisor_restart_def sp validated_def split: sum.splits)
qed

lemma ensure_worker_effect:
  assumes "ensure_worker h s env = (s1, boots, ready)"
  shows "list_all booting boots \<and> (validated h s \<longrightarrow> validated h s1) \<and>
    (\<forall>e. ready = Inl e \<longrightarrow> s1 = s\<lparr>sv_worker := None\<rparr> \<and> (\<exists>m. e = Crashed m))"
proof (cases "sv_worker s")
  case None
  obtain s' sent result where r: "supervisor_restart h s env = (s', sent, result)"
    by (metis prod_cases3)
  show ?thesis
    using assms None supervisor_restart_effect [OF r]
    by (cases result) (auto simp: ensure_worker_def r validated_def)
qed (use assms in \<open>auto simp: ensure_worker_def\<close>)

text \<open>
  The whole of a supervised request: boot messages, then the request at most once, then boot
  messages again when it failed.
\<close>

lemma supervisor_request_cases:
  assumes "supervisor_request h s command window payload timeout env1 x env2 = (s', sent, result)"
  obtains (no_worker) e boots where
      "sent = boots" "list_all booting boots" "result = Inl (Crashed e)"
      "sv_worker s' = None" "sv_bootstrap s' = sv_bootstrap s"
  | (replied) boots and c :: WorkerClient and c1 r where
      "sent = boots @ [request_for_window (wk_next_id c) command window payload]"
      "list_all booting boots" "result = Inr r"
      "validate_response_for r (wk_next_id c) = Inr ()"
      "sv_worker s' = Some c1" "wk_next_id c1 = wk_next_id c + 1"
      "validated h s \<longrightarrow> validated h s'"
  | (failed) boots request boots' e where
      "sent = boots @ request @ boots'" "list_all booting boots" "list_all booting boots'"
      "request = [] \<or> (\<exists>i. request = [request_for_window i command window payload])"
      "result = Inl e"
      "sv_worker s' = None \<or> (\<exists>c. sv_worker s' = Some c \<and> wk_next_id c = 2)"
      "validated h s \<longrightarrow> validated h s'"
proof -
  obtain s1 boots ready where ready: "ensure_worker h s env1 = (s1, boots, ready)"
    by (metis prod_cases3)
  note r1 = ensure_worker_effect [OF ready]
  show thesis
  proof (cases ready)
    case (Inl e)
    then obtain m where e: "e = Crashed m" and s1: "s1 = s\<lparr>sv_worker := None\<rparr>"
      using r1 by auto
    show thesis
      by (rule no_worker [of boots m])
        (use assms ready r1 Inl e s1 in \<open>auto simp: supervisor_request_def\<close>)
  next
    case (Inr c)
    obtain c' sent2 result2 where req:
      "worker_client_request (hs_to_json h) c command window payload timeout x =
        (c', sent2, result2)"
      by (metis prod_cases3)
    show thesis
    proof (cases result2)
      case ok: (Inr r)
      note sent2 = worker_client_request_Inr [OF req [unfolded ok]]
      show thesis
        by (rule replied [of boots c r c'])
          (use assms ready Inr req ok sent2 r1 in
            \<open>auto simp: supervisor_request_def validated_def\<close>)
    next
      case err: (Inl e)
      obtain s3 sent3 res3 where rs:
        "supervisor_restart h (s1\<lparr>sv_worker := None\<rparr>) env2 = (s3, sent3, res3)"
        by (metis prod_cases3)
      have out: "s' = s3" "sent = boots @ sent2 @ sent3" "result = Inl e"
        using assms ready Inr req err rs by (simp_all add: supervisor_request_def)
      have request: "sent2 = [] \<or> (\<exists>i. sent2 = [request_for_window i command window payload])"
        using worker_client_request_shape [OF req] by auto
      show thesis
        by (rule failed [OF out(2) _ _ request out(3)])
          (use r1 supervisor_restart_effect [OF rs] out(1) in
            \<open>auto simp: validated_def split: sum.splits\<close>)
    qed
  qed
qed

text \<open>The life of a supervisor: started, asked, restarted.\<close>

inductive supervised :: "host \<Rightarrow> WorkerSupervisor \<Rightarrow> bool" for h where
  start: "supervisor_start h env = (sent, Inr s) \<Longrightarrow> supervised h s"
| request: "supervised h s \<Longrightarrow>
    supervisor_request h s command window payload timeout env1 x env2 = (s', sent, result) \<Longrightarrow>
    supervised h s'"
| restart: "supervised h s \<Longrightarrow> supervisor_restart h s env = (s', sent, result) \<Longrightarrow>
    supervised h s'"

lemma supervised_validated: "supervised h s \<Longrightarrow> validated h s"
proof (induction rule: supervised.induct)
  case (start env sent s)
  then show ?case
    by (auto simp: supervisor_start_def validated_def split: prod.splits sum.splits
        dest!: spawn_ready_worker_sends)
next
  case (request s command window payload timeout env1 x env2 s' sent result)
  from request.hyps(2) request.IH show ?case
    by (cases rule: supervisor_request_cases) (auto simp: validated_def)
next
  case (restart s env s' sent result)
  then show ?case
    using supervisor_restart_effect [OF restart.hyps(2)]
    by (auto simp: validated_def split: sum.splits)
qed

lemma await_empty_round:
  "\<not> rd_cancelled (rounds k) \<Longrightarrow> rd_received (rounds k) = NothingYet \<Longrightarrow>
     await deadline now k rounds =
       (if now \<ge> deadline then AwaitTimedOut
        else await deadline (now + min CANCELLATION_POLL_INTERVAL (deadline - now) +
               rd_extra (rounds k)) (Suc k) rounds)"
  by (subst await.simps) (simp add: Let_def)

lemma await_silence:
  assumes "\<forall>j. rd_received (rounds j) = NothingYet \<and> \<not> rd_cancelled (rounds j)"
  shows "await deadline now k rounds = AwaitTimedOut"
  using assms
proof (induction deadline now k rounds rule: await.induct)
  case (1 deadline now k rounds)
  then show ?case
    by (cases "now \<ge> deadline") (auto simp: await_empty_round)
qed

lemma await_cancelled:
  assumes "k \<le> j" and "rd_cancelled (rounds j)"
    and "\<forall>i. k \<le> i \<and> i < j \<longrightarrow> rd_received (rounds i) = NothingYet"
  shows "await deadline now k rounds \<in> {AwaitCancelled, AwaitTimedOut}"
  using assms
proof (induction deadline now k rounds rule: await.induct)
  case (1 deadline now k rounds)
  show ?case
  proof (cases "rd_cancelled (rounds k) \<or> now \<ge> deadline")
    case True
    then show ?thesis by (subst await.simps) auto
  next
    case False
    then have "k \<noteq> j" using "1.prems" by auto
    with "1.prems" have "rd_received (rounds k) = NothingYet" "Suc k \<le> j" by auto
    with False "1.prems" "1.IH" show ?thesis
      by (simp add: await_empty_round)
  qed
qed

text \<open>What is written besides boot messages.\<close>

lemma supervisor_request_writes_once:
  assumes "supervisor_request h s command window payload timeout env1 x env2 = (s', sent, result)"
    and "command \<noteq> BOOT_COMMAND"
  shows "filter (\<lambda>q. \<not> booting q) sent = [] \<or>
     (\<exists>i. filter (\<lambda>q. \<not> booting q) sent = [request_for_window i command window payload])"
proof -
  have boots: "filter (\<lambda>q. \<not> booting q) qs = []" if "list_all booting qs" for qs
    using that by (induction qs) auto
  show ?thesis
    using assms(1)
    by (cases rule: supervisor_request_cases) (use assms(2) in \<open>auto simp: boots booting_request\<close>)
qed

section \<open>Properties of worker supervision\<close>

text \<open>
  C4. The supervisor never repeats a command: whatever the environment does, a request that is
  not the boot message is written to a worker at most once, with the command, window and
  payload it was given; everything else that is written is a boot message.
\<close>
theorem command_written_at_most_once:
  assumes "supervisor_request h s command window payload timeout env1 x env2 = (s', sent, result)"
    and "command \<noteq> BOOT_COMMAND"
  shows "\<exists>i. filter (\<lambda>q. \<not> booting q) sent = [] \<or>
     filter (\<lambda>q. \<not> booting q) sent = [request_for_window i command window payload]"
  using supervisor_request_writes_once [OF assms] by auto

text \<open>
  C9. An answer is never paired with another request: what a successful request returns answers
  the envelope that was written last, which carries this command, window and payload: it has the id of
  that envelope, the protocol version of the host and the kind of a response, and if it tells of a
  failure it carries an error.  The worker it came from stays in place.
\<close>
theorem reply_belongs_to_request:
  assumes "supervisor_request h s command window payload timeout env1 x env2 = (s', sent, Inr r)"
  shows "\<exists>q. sent \<noteq> [] \<and> last sent = q \<and> re_command q = command \<and> re_window_id q = window \<and>
     re_payload q = payload \<and> rs_id r = re_id q \<and> rs_version r = PROTOCOL_VERSION \<and>
     rs_kind r = MessageKind.Response \<and> (rs_status r = ResponseStatus.Failure \<longrightarrow> rs_error r \<noteq> None) \<and>
     sv_worker s' \<noteq> None"
  using assms
  by (cases rule: supervisor_request_cases) (auto simp: validate_response_for_Inr)

text \<open>
  After a failed request (timeout, cancellation, crash) the worker that was asked is gone:
  there is none, or a new process that has only answered its boot request, so a late answer
  of the old one can never be read.
\<close>
theorem failed_request_discards_worker:
  assumes "supervisor_request h s command window payload timeout env1 x env2 = (s', sent, Inl e)"
  shows "case sv_worker s' of None \<Rightarrow> True | Some c \<Rightarrow> wk_next_id c = 2"
  using assms
  by (cases rule: supervisor_request_cases) (auto split: option.split)

text \<open>
  In every state a supervisor reaches, through any sequence of requests, failures and
  restarts, its bootstrap has passed \<open>Bootstrap::validate\<close>.
\<close>
theorem supervised_bootstrap_is_validated:
  assumes "supervised h s"
  shows "validate_bootstrap (hs_parse_url h) (hs_debug h) (sv_bootstrap s) = Inr ()"
  using supervised_validated [OF assms] by (simp add: validated_def)

text \<open>
  C40. The wait for an answer ends: with a silent worker it is \<open>AwaitTimedOut\<close>; a cancellation
  before any answer gives \<open>AwaitCancelled\<close>, or \<open>AwaitTimedOut\<close> when the deadline came first.
\<close>
theorem await_ends:
  "((\<forall>j. rd_received (rounds j) = NothingYet \<and> \<not> rd_cancelled (rounds j)) \<longrightarrow>
      await timeout now k rounds = AwaitTimedOut) \<and>
   (\<forall>j\<ge>k. rd_cancelled (rounds j) \<and> (\<forall>i. k \<le> i \<and> i < j \<longrightarrow> rd_received (rounds i) = NothingYet) \<longrightarrow>
      await timeout now k rounds \<in> {AwaitCancelled, AwaitTimedOut})"
  using await_silence [of rounds] await_cancelled [of k _ rounds] by blast

text \<open>
  Starting the process makes at most 26 attempts: it stops at the first outcome that is
  not a busy executable, or at attempt 25 (counted from 0) with the error.
\<close>
theorem spawn_attempts_bounded:
  assumes "a \<le> EXECUTABLE_BUSY_RETRY_LIMIT"
  shows "fst (spawn_attempts a outcomes) \<le> EXECUTABLE_BUSY_RETRY_LIMIT \<and>
     snd (spawn_attempts a outcomes) = outcomes (fst (spawn_attempts a outcomes)) \<and>
     (\<forall>e. snd (spawn_attempts a outcomes) = SpawnFailed e \<and> executable_is_busy e \<longrightarrow>
        fst (spawn_attempts a outcomes) = EXECUTABLE_BUSY_RETRY_LIMIT)"
  using assms
proof (induction a outcomes rule: spawn_attempts.induct)
  case (1 a outcomes)
  show ?case
  proof (cases "\<exists>e. outcomes a = SpawnFailed e \<and> executable_is_busy e \<and>
      a < EXECUTABLE_BUSY_RETRY_LIMIT")
    case True
    then have "spawn_attempts a outcomes = spawn_attempts (Suc a) outcomes"
      by (subst spawn_attempts.simps) auto
    with True "1.IH" show ?thesis by auto
  next
    case False
    then have "spawn_attempts a outcomes = (a, outcomes a)"
      by (subst spawn_attempts.simps) (auto split: spawn_outcome.split)
    with False "1.prems" show ?thesis by (auto simp: le_less)
  qed
qed

subsection \<open>Witnesses\<close>

definition quiet_round :: "'r round" where
  "quiet_round = \<lparr>rd_cancelled = False, rd_received = NothingYet, rd_extra = 0\<rparr>"

definition replying :: "'r \<Rightarrow> 'r exchange" where
  "replying r = \<lparr>xc_write_ok = True,
     xc_rounds = (\<lambda>_. \<lparr>rd_cancelled = False, rd_received = Reply r, rd_extra = 0\<rparr>)\<rparr>"

definition hung_up :: "'r exchange" where
  "hung_up = \<lparr>xc_write_ok = True,
     xc_rounds = (\<lambda>_. \<lparr>rd_cancelled = False, rd_received = Disconnected, rd_extra = 0\<rparr>)\<rparr>"

definition no_spawn :: spawn_env where
  "no_spawn = \<lparr>sp_outcomes = (\<lambda>_. SpawnFailed None), sp_boot = hung_up\<rparr>"

definition ok_response :: "u64 \<Rightarrow> json \<Rightarrow> ResponseEnvelope" where
  "ok_response i payload = \<lparr>rs_version = PROTOCOL_VERSION, rs_id = i,
     rs_kind = MessageKind.Response, rs_status = ResponseStatus.Success, rs_payload = payload,
     rs_effects = [], rs_events = [], rs_error = None\<rparr>"

lemma ok_response_valid: "validate_response_for (ok_response i p) i = Inr ()"
  by (simp add: validate_response_for_Inr ok_response_def)

lemma await_replying: "0 < t \<Longrightarrow> await t 0 0 (xc_rounds (replying r)) = AwaitReply r"
  by (subst await.simps) (simp add: replying_def Let_def)

lemma await_hung_up: "0 < t \<Longrightarrow> await t 0 0 (xc_rounds hung_up) = AwaitDisconnected"
  by (subst await.simps) (simp add: hung_up_def Let_def)

definition plain_host :: "Bootstrap \<Rightarrow> host" where
  "plain_host b = \<lparr>hs_to_json = (\<lambda>_. Some ''{}''), hs_from_value = (\<lambda>_. Some b),
     hs_parse_url = (\<lambda>_. None), hs_debug = False\<rparr>"

lemma plain_host_request:
  "0 < t \<Longrightarrow>
   supervisor_request (plain_host b) \<lparr>sv_worker = Some \<lparr>wk_next_id = 2\<rparr>, sv_bootstrap = b, sv_generation = 1\<rparr>
     ''greet'' ''main'' JNull t no_spawn (replying (ok_response 2 JNull)) no_spawn =
   (\<lparr>sv_worker = Some \<lparr>wk_next_id = 3\<rparr>, sv_bootstrap = b, sv_generation = 1\<rparr>,
    [request_for_window 2 ''greet'' ''main'' JNull], Inr (ok_response 2 JNull))"
  by (simp add: supervisor_request_def ensure_worker_def worker_client_request_def plain_host_def
      checked_succ_def write_frame_def MAX_MESSAGE_BYTES_def await_replying worker_answer_def
      ok_response_valid Let_def, simp add: replying_def)

lemma plain_host_failure:
  "0 < t \<Longrightarrow>
   supervisor_request (plain_host b) \<lparr>sv_worker = Some \<lparr>wk_next_id = 2\<rparr>, sv_bootstrap = b, sv_generation = 1\<rparr>
     ''greet'' ''main'' JNull t no_spawn hung_up no_spawn =
   (\<lparr>sv_worker = None, sv_bootstrap = b, sv_generation = 1\<rparr>,
    [request_for_window 2 ''greet'' ''main'' JNull],
    Inl (Crashed ''PHP response channel disconnected''))"
  by (simp add: supervisor_request_def ensure_worker_def worker_client_request_def plain_host_def
      checked_succ_def write_frame_def MAX_MESSAGE_BYTES_def await_hung_up worker_answer_def
      supervisor_restart_def spawn_ready_worker_def no_spawn_def executable_is_busy_def
      spawn_attempts.simps [of 0] Let_def, simp add: hung_up_def)

theorem command_written_at_most_once_witness:
  "\<exists>i. filter (\<lambda>q. \<not> booting q) [request_for_window 2 ''greet'' ''main'' JNull] = [] \<or>
     filter (\<lambda>q. \<not> booting q) [request_for_window 2 ''greet'' ''main'' JNull] =
       [request_for_window i ''greet'' ''main'' JNull]"
  by (rule command_written_at_most_once [OF plain_host_failure [of 5 sample_bootstrap]])
    (simp_all add: BOOT_COMMAND_def)

theorem reply_belongs_to_request_witness:
  "\<exists>q. last [request_for_window 2 ''greet'' ''main'' JNull] = q \<and> re_command q = ''greet'' \<and>
     re_window_id q = ''main'' \<and> re_payload q = JNull \<and> rs_id (ok_response 2 JNull) = re_id q \<and>
     rs_version (ok_response 2 JNull) = PROTOCOL_VERSION \<and>
     rs_kind (ok_response 2 JNull) = MessageKind.Response \<and>
     rs_status (ok_response 2 JNull) = ResponseStatus.Success \<and>
     sv_worker \<lparr>sv_worker = Some \<lparr>wk_next_id = 3\<rparr>, sv_bootstrap = sample_bootstrap, sv_generation = 1\<rparr> \<noteq> None"
  using reply_belongs_to_request [OF plain_host_request [of 5 sample_bootstrap]]
  by (simp add: ok_response_def)

theorem failed_request_discards_worker_witness:
  "case sv_worker \<lparr>sv_worker = None, sv_bootstrap = sample_bootstrap, sv_generation = 1\<rparr> of
     None \<Rightarrow> True | Some c \<Rightarrow> wk_next_id c = 2"
  by (rule failed_request_discards_worker [OF plain_host_failure [of 5 sample_bootstrap]]) simp

definition ready_spawn :: spawn_env where
  "ready_spawn = \<lparr>sp_outcomes = (\<lambda>_. Spawned), sp_boot = replying (ok_response 1 JNull)\<rparr>"

lemma sample_started:
  "supervisor_start (plain_host sample_bootstrap) ready_spawn =
    ([request_for_window 1 BOOT_COMMAND MAIN_WINDOW_ID JNull],
     Inr \<lparr>sv_worker = Some \<lparr>wk_next_id = 2\<rparr>, sv_bootstrap = sample_bootstrap, sv_generation = 1\<rparr>)"
proof -
  have "worker_client_request (\<lambda>_. Some ''{}'') fresh_worker BOOT_COMMAND MAIN_WINDOW_ID JNull
      BOOT_TIMEOUT (replying (ok_response 1 JNull)) =
    (\<lparr>wk_next_id = 2\<rparr>, [request_for_window 1 BOOT_COMMAND MAIN_WINDOW_ID JNull],
     Inr (ok_response 1 JNull))"
    by (simp add: worker_client_request_def fresh_worker_def checked_succ_def write_frame_def
        MAX_MESSAGE_BYTES_def BOOT_TIMEOUT_def await_replying worker_answer_def ok_response_valid
        Let_def, simp add: replying_def)
  then have "spawn_ready_worker (plain_host sample_bootstrap) ready_spawn =
    ([request_for_window 1 BOOT_COMMAND MAIN_WINDOW_ID JNull],
     Inr (\<lparr>wk_next_id = 2\<rparr>, sample_bootstrap))"
    by (simp add: spawn_ready_worker_def ready_spawn_def spawn_attempts.simps [of 0] worker_boot_def
        plain_host_def sample_bootstrap_valid, simp add: ok_response_def)
  then show ?thesis
    by (simp add: supervisor_start_def)
qed

lemma supervised_sample:
  "supervised (plain_host sample_bootstrap)
     \<lparr>sv_worker = Some \<lparr>wk_next_id = 2\<rparr>, sv_bootstrap = sample_bootstrap, sv_generation = 1\<rparr>"
  using sample_started by (rule supervised.start)

theorem supervised_bootstrap_is_validated_witness:
  "validate_bootstrap (hs_parse_url (plain_host sample_bootstrap))
     (hs_debug (plain_host sample_bootstrap))
     (sv_bootstrap \<lparr>sv_worker = Some \<lparr>wk_next_id = 2\<rparr>, sv_bootstrap = sample_bootstrap,
        sv_generation = 1\<rparr>) = Inr ()"
  by (rule supervised_bootstrap_is_validated [OF supervised_sample])

theorem await_ends_witness:
  "await 50000000 0 0 (\<lambda>_. quiet_round) = (AwaitTimedOut :: json awaited)"
  using await_ends [where timeout = 50000000 and now = 0 and k = 0 and rounds = "\<lambda>_. quiet_round :: json round"]
  by (simp add: quiet_round_def)

theorem spawn_attempts_bounded_witness:
  "fst (spawn_attempts 0 (\<lambda>_. SpawnFailed (Some 26))) \<le> 25"
  using spawn_attempts_bounded [of 0 "\<lambda>_. SpawnFailed (Some 26)"]
  by (simp add: EXECUTABLE_BUSY_RETRY_LIMIT_def)

end
