(* ===== verification/ProjectFiles.thy ===== *)
theory ProjectFiles
  imports Transport Bootstrap
begin

text \<open>
  The project on disk: \<open>project.rs\<close>.  Which files of a project the host serves, shows or runs
  is decided here, so the theorems are about confinement: whatever the configuration names,
  what is resolved lies below the directory that was promised.

  The operating system is the record \<open>filesystem\<close>: the answers of \<open>canonicalize\<close>,
  \<open>is_file\<close>, \<open>is_dir\<close>, \<open>metadata\<close> and \<open>read\<close> at the moment of the calls.
\<close>

section \<open>The file system\<close>

record filesystem =
  fs_canonicalize :: "string \<Rightarrow> string option"
  fs_is_file :: "string \<Rightarrow> bool"
  fs_is_dir :: "string \<Rightarrow> bool"
  fs_size :: "string \<Rightarrow> nat option"
  fs_mode :: "string \<Rightarrow> u32 option"
  fs_read :: "string \<Rightarrow> string option"

text \<open>\<open>Path::starts_with\<close> compares whole components.\<close>

definition path_starts_with :: "string \<Rightarrow> string \<Rightarrow> bool" where
  "path_starts_with p base = starts_with (path_components base) (path_components p)"

text \<open>\<open>str::contains\<close> with a string pattern.\<close>

fun contains_str :: "string \<Rightarrow> string \<Rightarrow> bool" where
  "contains_str pat [] = (pat = [])"
| "contains_str pat (c # cs) = (starts_with pat (c # cs) \<or> contains_str pat cs)"

section \<open>Icons\<close>

definition png_signature :: "nat list" where
  "png_signature = [137, 80, 78, 71, 13, 10, 26, 10]"

definition be_u32 :: "nat list \<Rightarrow> nat" where
  "be_u32 bytes = foldl (\<lambda>n b. n * 256 + b) 0 bytes"

definition validate_png_icon :: "string \<Rightarrow> string + unit" where
  "validate_png_icon contents =
     (let bytes = map byte contents;
          width = be_u32 (take 4 (drop 16 bytes));
          height = be_u32 (take 4 (drop 20 bytes))
      in if length bytes < 24 \<or> take 8 bytes \<noteq> png_signature \<or>
            take 4 (drop 12 bytes) \<noteq> map byte ''IHDR''
         then Inl ''application PNG icon has an invalid header''
         else if width \<noteq> height \<or> \<not> (64 \<le> width \<and> width \<le> 1024)
         then Inl ''application PNG icon must be square and between 64px and 1024px''
         else Inr ())"

definition validate_svg_icon :: "string \<Rightarrow> string + unit" where
  "validate_svg_icon contents =
     (if \<not> is_utf8 contents then Inl ''application SVG icon must contain valid UTF-8''
      else let normalized = to_ascii_lowercase contents
        in if \<not> contains_str ''<svg'' normalized \<or>
              contains_str ''<script'' normalized \<or>
              contains_str ''<!doctype'' normalized \<or>
              contains_str ''href=\"http'' normalized \<or>
              contains_str (''href='' @ [CHR 0x27] @ ''http'') normalized
           then Inl ''application SVG icon must be self-contained''
           else Inr ())"

section \<open>The project\<close>

record Project =
  pj_root :: string
  pj_application :: string

definition discover :: "filesystem \<Rightarrow> string \<Rightarrow> string + Project" where
  "discover fs path =
     (case fs_canonicalize fs path of
        None \<Rightarrow> Inl ''cannot resolve project''
      | Some root \<Rightarrow>
          if \<not> fs_is_dir fs root then Inl ''project is not a directory''
          else let application = path_join root ''app.php''
            in if \<not> fs_is_file fs application then Inl ''app.php is missing''
               else if \<not> fs_is_file fs (path_join root ''composer.json'')
               then Inl ''no composer.json''
               else if \<not> fs_is_file fs (path_join root ''vendor/autoload.php'')
               then Inl ''vendor/autoload.php is missing''
               else Inr \<lparr>pj_root = root, pj_application = application\<rparr>)"

definition public_root :: "filesystem \<Rightarrow> Project \<Rightarrow> string + string" where
  "public_root fs p =
     (case fs_canonicalize fs (path_join (pj_root p) ''resources'') of
        None \<Rightarrow> Inl ''cannot resolve desktop resources directory''
      | Some resolved \<Rightarrow>
          if \<not> fs_is_dir fs resolved \<or> \<not> path_starts_with resolved (pj_root p)
          then Inl ''desktop resources directory is invalid''
          else Inr resolved)"

definition resolve_public_asset :: "filesystem \<Rightarrow> Project \<Rightarrow> string \<Rightarrow> string + string" where
  "resolve_public_asset fs p asset =
     (if path_is_absolute asset \<or>
         list_ex (\<lambda>c. case c of Normal _ \<Rightarrow> False | CurDir \<Rightarrow> False | _ \<Rightarrow> True)
           (path_components asset)
      then Inl ''must be a relative path inside the project''
      else case fs_canonicalize fs (path_join (pj_root p) asset) of
             None \<Rightarrow> Inl ''cannot resolve asset''
           | Some resolved \<Rightarrow>
               rbind (public_root fs p) (\<lambda>public.
                 if \<not> path_starts_with resolved public
                 then Inl ''must be inside the resources directory''
                 else Inr resolved))"

definition resolve_entry :: "filesystem \<Rightarrow> Project \<Rightarrow> string \<Rightarrow> string + string" where
  "resolve_entry fs p entry =
     rbind (resolve_public_asset fs p entry) (\<lambda>resolved.
       if \<not> fs_is_file fs resolved then Inl ''desktop entry is not a file''
       else Inr resolved)"

definition MAX_ICON_BYTES :: nat where
  "MAX_ICON_BYTES = 2 * 1024 * 1024"

definition validate_icon_contents :: "string \<Rightarrow> string \<Rightarrow> string + unit" where
  "validate_icon_contents resolved contents =
     (let extension = map_option to_ascii_lowercase (path_extension resolved)
      in if extension = Some ''png'' then validate_png_icon contents
         else if extension = Some ''svg'' then validate_svg_icon contents
         else Inl ''application icon must use the PNG or SVG extension'')"

definition resolve_icon :: "filesystem \<Rightarrow> Project \<Rightarrow> string \<Rightarrow> string + string" where
  "resolve_icon fs p icon =
     rbind (resolve_public_asset fs p icon) (\<lambda>resolved.
       case fs_size fs resolved of
         None \<Rightarrow> Inl ''cannot inspect icon''
       | Some len \<Rightarrow>
           if \<not> fs_is_file fs resolved \<or> len > MAX_ICON_BYTES
           then Inl ''application icon must be a file within the size limit''
           else (case fs_read fs resolved of
                  None \<Rightarrow> Inl ''cannot read icon''
                | Some contents \<Rightarrow>
                    rbind (validate_icon_contents resolved contents) (\<lambda>_. Inr resolved)))"

text \<open>The executable suffix is empty on Unix, so the retry with a suffix does not occur.\<close>

definition resolve_plugin_executable :: "filesystem \<Rightarrow> Project \<Rightarrow> string \<Rightarrow> string + string" where
  "resolve_plugin_executable fs p executable =
     (let components = path_components executable
      in if path_is_absolute executable \<or>
            list_ex (\<lambda>c. case c of Normal _ \<Rightarrow> False | _ \<Rightarrow> True) components \<or>
            (case components of
               Normal name # _ \<Rightarrow>
                 name \<in> set [''.git'', ''.pam'', ''dist'', ''node_modules'', ''target'']
             | _ \<Rightarrow> False)
         then Inl ''Rust plugin executables must use a bundled project-relative path''
         else case fs_canonicalize fs (path_join (pj_root p) executable) of
                None \<Rightarrow> Inl ''cannot resolve Rust plugin executable''
              | Some resolved \<Rightarrow>
                  if \<not> path_starts_with resolved (pj_root p) \<or> \<not> fs_is_file fs resolved
                  then Inl ''Rust plugin executable is not a regular project file''
                  else case fs_mode fs resolved of
                         None \<Rightarrow> Inl ''cannot inspect Rust plugin executable''
                       | Some mode \<Rightarrow>
                           if and mode 0x49 = 0
                           then Inl ''Rust plugin file is not executable''
                           else Inr resolved)"

definition project_validate_bootstrap ::
    "filesystem \<Rightarrow> url_parser \<Rightarrow> bool \<Rightarrow> Project \<Rightarrow> Bootstrap \<Rightarrow> string + unit" where
  "project_validate_bootstrap fs parse debug p b =
     steps [
       (case validate_bootstrap parse debug b of
          Inl _ \<Rightarrow> Inl ''invalid bootstrap''
        | Inr _ \<Rightarrow> Inr ()),
       for_each (\<lambda>window. rbind (resolve_entry fs p (wc_entry window)) (\<lambda>_. Inr ()))
         (bs_windows b),
       rbind (resolve_icon fs p (am_icon (bs_manifest b))) (\<lambda>_. Inr ()),
       for_each
         (\<lambda>plugin. rbind (resolve_plugin_executable fs p (rp_executable plugin)) (\<lambda>_. Inr ()))
         (bs_rust_plugins b)]"

section \<open>Lemmas\<close>

lemma path_starts_with_refl [simp]: "path_starts_with p p"
  by (simp add: path_starts_with_def starts_with_def)

lemma path_starts_with_iff:
  "path_starts_with p base \<longleftrightarrow> (\<exists>below. path_components p = path_components base @ below)"
  by (auto simp: path_starts_with_def starts_with_def) (metis append_take_drop_id)

lemma path_starts_with_trans:
  "path_starts_with a b \<Longrightarrow> path_starts_with b c \<Longrightarrow> path_starts_with a c"
  by (auto simp: path_starts_with_iff)

lemma contains_str_iff: "contains_str pat s \<longleftrightarrow> (\<exists>before after. s = before @ pat @ after)"
proof (induction s)
  case Nil
  show ?case by auto
next
  case (Cons c cs)
  have "starts_with pat (c # cs) \<longleftrightarrow> (\<exists>after. c # cs = pat @ after)"
    by (metis append_eq_conv_conj append_take_drop_id starts_with_def)
  moreover have "(\<exists>before after. c # cs = before @ pat @ after) \<longleftrightarrow>
      (\<exists>after. c # cs = pat @ after) \<or> (\<exists>before after. cs = before @ pat @ after)"
    by (metis append_Cons append_Nil list.exhaust list.inject)
  ultimately show ?case using Cons.IH by simp
qed

lemma public_root_below: "public_root fs p = Inr r \<Longrightarrow> path_starts_with r (pj_root p) \<and> fs_is_dir fs r"
  by (auto simp: public_root_def split: option.splits if_splits)

lemma resolve_public_asset_below:
  "resolve_public_asset fs p asset = Inr r \<Longrightarrow>
     \<exists>public. public_root fs p = Inr public \<and> path_starts_with r public \<and>
       path_starts_with r (pj_root p) \<and> (\<exists>q. fs_canonicalize fs q = Some r)"
  using public_root_below path_starts_with_trans
  by (fastforce simp: resolve_public_asset_def rbind_Inr_iff split: option.splits if_splits)

lemma resolve_entry_asset:
  "resolve_entry fs p entry = Inr r \<Longrightarrow>
     resolve_public_asset fs p entry = Inr r \<and> fs_is_file fs r"
  by (auto simp: resolve_entry_def rbind_Inr_iff split: if_splits)

lemma resolve_icon_asset:
  "resolve_icon fs p icon = Inr r \<Longrightarrow>
     resolve_public_asset fs p icon = Inr r \<and> fs_is_file fs r"
  by (auto simp: resolve_icon_def rbind_Inr_iff split: if_splits option.splits)

lemma resolve_plugin_executable_below:
  "resolve_plugin_executable fs p e = Inr r \<Longrightarrow>
     path_starts_with r (pj_root p) \<and> fs_is_file fs r \<and>
     (\<exists>mode. fs_mode fs r = Some mode \<and> and mode 0x49 \<noteq> 0)"
  by (auto simp: resolve_plugin_executable_def Let_def split: option.splits if_splits)

text \<open>
  What \<open>canonicalize\<close> documents: the result is absolute, with all intermediate components
  normalised.
\<close>

definition canonical_paths :: "filesystem \<Rightarrow> bool" where
  "canonical_paths fs \<longleftrightarrow>
     (\<forall>p r. fs_canonicalize fs p = Some r \<longrightarrow>
        (\<exists>names. path_components r = RootDir # map Normal names))"

lemma follow_normals: "follow dir (map Normal names) = rev names @ dir"
  by (induction names arbitrary: dir) auto

lemma canonical_below:
  assumes "path_components r = RootDir # map Normal names" "path_starts_with r base"
    "path_components base \<noteq> []"
  shows "inside (follow [] (path_components base)) (follow [] (path_components r))"
proof -
  from assms obtain below where r: "path_components r = path_components base @ below"
    by (auto simp: path_starts_with_iff)
  obtain c cs where base: "path_components base = c # cs"
    using assms(3) by (cases "path_components base") auto
  have "map Normal names = cs @ below"
    using r base assms(1) by simp
  then have "set below \<subseteq> set (map Normal names)"
    by simp
  then have "list_all safe_component below"
    by (auto simp: list_all_iff)
  then show ?thesis
    unfolding r follow_append by (rule follow_safe)
qed

section \<open>Properties of the project\<close>

text \<open>
  C26. Whatever entry a configuration names, the file the host serves for it is a regular file
  whose position in the tree is below the resources directory, and that directory is below
  the project root; \<open>canonical_paths\<close> is what \<open>canonicalize\<close> documents.
\<close>
theorem served_entry_is_confined:
  assumes "canonical_paths fs" and "resolve_entry fs p entry = Inr r"
  shows "\<exists>public. public_root fs p = Inr public \<and> fs_is_file fs r \<and>
     inside (follow [] (path_components public)) (follow [] (path_components r)) \<and>
     path_starts_with public (pj_root p)"
proof -
  obtain public q where public: "public_root fs p = Inr public" "path_starts_with r public"
    "fs_canonicalize fs q = Some r"
    using resolve_public_asset_below resolve_entry_asset [OF assms(2)] by metis
  obtain q' where "fs_canonicalize fs q' = Some public"
    using public(1) by (auto simp: public_root_def split: option.splits if_splits)
  then have "path_components public \<noteq> []"
    using assms(1) by (fastforce simp: canonical_paths_def)
  moreover obtain names where "path_components r = RootDir # map Normal names"
    using assms(1) public(3) by (auto simp: canonical_paths_def)
  ultimately show ?thesis
    using public canonical_below public_root_below resolve_entry_asset [OF assms(2)] by blast
qed

text \<open>
  A bootstrap that the project accepts has passed \<open>Bootstrap::validate\<close>, every window entry is
  a file below the resources directory, and every Rust plugin is a file of the project
  with an execute permission.
\<close>
theorem accepted_bootstrap_uses_own_files:
  assumes "project_validate_bootstrap fs parse debug p b = Inr ()"
  shows "validate_bootstrap parse debug b = Inr () \<and>
    (\<forall>w \<in> set (bs_windows b). \<exists>r public. resolve_entry fs p (wc_entry w) = Inr r \<and>
       public_root fs p = Inr public \<and> path_starts_with r public) \<and>
    (\<forall>g \<in> set (bs_rust_plugins b). \<exists>r mode. resolve_plugin_executable fs p (rp_executable g) = Inr r \<and>
       path_starts_with r (pj_root p) \<and> fs_mode fs r = Some mode \<and> and mode 0x49 \<noteq> 0)"
proof -
  have parts: "validate_bootstrap parse debug b = Inr ()"
    "\<forall>w \<in> set (bs_windows b). \<exists>r. resolve_entry fs p (wc_entry w) = Inr r"
    "\<forall>g \<in> set (bs_rust_plugins b). \<exists>r. resolve_plugin_executable fs p (rp_executable g) = Inr r"
    using assms by (auto simp: project_validate_bootstrap_def result_simps split: sum.splits)
  moreover have "\<exists>public. public_root fs p = Inr public \<and> path_starts_with r public"
    if "resolve_entry fs p e = Inr r" for e r
    using resolve_public_asset_below resolve_entry_asset [OF that] by metis
  ultimately show ?thesis
    using resolve_plugin_executable_below by metis
qed

subsection \<open>Witnesses\<close>

definition sample_fs :: filesystem where
  "sample_fs =
     \<lparr>fs_canonicalize = (\<lambda>p. Some (if p = ''/p/resources'' then p else ''/p/resources/a.svg'')),
      fs_is_file = (\<lambda>_. True), fs_is_dir = (\<lambda>_. True), fs_size = (\<lambda>_. Some 4),
      fs_mode = (\<lambda>_. Some 0x1ED), fs_read = (\<lambda>_. Some ''<svg'')\<rparr>"

definition sample_project :: Project where
  "sample_project = \<lparr>pj_root = ''/p'', pj_application = ''/p/app.php''\<rparr>"

lemma sample_components:
  "path_components ''/p'' = [RootDir, Normal ''p'']"
  "path_components ''/p/resources'' = [RootDir, Normal ''p'', Normal ''resources'']"
  "path_components ''/p/resources/a.svg'' =
     [RootDir, Normal ''p'', Normal ''resources'', Normal ''a.svg'']"
  by code_simp+

lemma sample_canonical: "canonical_paths sample_fs"
proof -
  have "\<exists>names. path_components ''/p/resources'' = RootDir # map Normal names"
    "\<exists>names. path_components ''/p/resources/a.svg'' = RootDir # map Normal names"
    unfolding sample_components
    by (rule exI [of _ "[''p'', ''resources'']"], simp)
      (rule exI [of _ "[''p'', ''resources'', ''a.svg'']"], simp)
  then show ?thesis
    by (simp add: canonical_paths_def sample_fs_def)
qed

lemma sample_entry:
  "resolve_entry sample_fs sample_project ''resources/index.html'' = Inr ''/p/resources/a.svg''"
  by code_simp

theorem served_entry_is_confined_witness:
  "\<exists>public. public_root sample_fs sample_project = Inr public \<and>
     fs_is_file sample_fs ''/p/resources/a.svg'' \<and>
     inside (follow [] (path_components public)) (follow [] (path_components ''/p/resources/a.svg'')) \<and>
     path_starts_with public (pj_root sample_project)"
  by (rule served_entry_is_confined [OF sample_canonical sample_entry])

lemma sample_entry_index:
  "resolve_entry sample_fs sample_project ''index.html'' = Inr ''/p/resources/a.svg''"
  by code_simp

lemma sample_plugin_file:
  "resolve_plugin_executable sample_fs sample_project ''plugins/images'' = Inr ''/p/resources/a.svg''"
  by code_simp

lemma sample_svg: "validate_svg_icon ''<svg'' = Inr ()"
proof -
  have "is_utf8 ''<svg''"
    by (simp add: is_utf8_def str_chars_def utf8_encode_def utf8_encode_char_def scalar_value_def byte_def)
  moreover have "to_ascii_lowercase ''<svg'' = ''<svg''"
    by code_simp
  ultimately show ?thesis
    by (simp add: validate_svg_icon_def starts_with_def)
qed

lemma sample_icon:
  "resolve_icon sample_fs sample_project ''resources/icon.svg'' = Inr ''/p/resources/a.svg''"
proof -
  have "resolve_public_asset sample_fs sample_project ''resources/icon.svg'' = Inr ''/p/resources/a.svg''"
    by code_simp
  moreover have "path_extension ''/p/resources/a.svg'' = Some ''svg''"
    "to_ascii_lowercase ''svg'' = ''svg''"
    by code_simp+
  moreover have "fs_size sample_fs r = Some 4" "fs_is_file sample_fs r"
    "fs_read sample_fs r = Some ''<svg''" for r
    by (simp_all add: sample_fs_def)
  ultimately show ?thesis
    by (simp add: resolve_icon_def MAX_ICON_BYTES_def validate_icon_contents_def sample_svg)
qed

lemmas sample_resolutions = sample_entry_index sample_plugin_file sample_icon

theorem accepted_bootstrap_uses_own_files_witness:
  "\<exists>r public. resolve_entry sample_fs sample_project ''index.html'' = Inr r \<and>
     public_root sample_fs sample_project = Inr public \<and> path_starts_with r public"
proof -
  have "project_validate_bootstrap sample_fs (\<lambda>_. None) False sample_project sample_bootstrap = Inr ()"
    by (simp add: project_validate_bootstrap_def sample_bootstrap_valid,
        simp add: sample_bootstrap_def sample_window_def sample_manifest_def sample_plugin_def
          sample_resolutions)
  moreover have "sample_window ''main'' \<in> set (bs_windows sample_bootstrap)"
    "wc_entry (sample_window ''main'') = ''index.html''"
    by (simp_all add: sample_bootstrap_def sample_window_def)
  ultimately show ?thesis
    using accepted_bootstrap_uses_own_files by metis
qed

end
