(* ===== verification/PluginSupervisor.thy ===== *)
theory PluginSupervisor
  imports Supervisor ProjectFiles
begin

text \<open>
  The supervision of Rust plugins: \<open>plugin.rs\<close>.  Every plugin has a slot; its process is
  started lazily, must keep the identity and the metadata of its first start, and is
  replaced when a call fails.  The command line of the strict sandbox is modelled argument
  by argument.

  SHA-256 is a parameter (the hexadecimal digest of the bytes), since its code is a package.
\<close>

section \<open>Errors and the client\<close>

record PluginError =
  pl_code :: ErrorCode
  pl_message :: string

definition plugin_unavailable :: "string \<Rightarrow> PluginError" where
  "plugin_unavailable message = \<lparr>pl_code = ErrorCode.PluginUnavailable, pl_message = message\<rparr>"

definition plugin_failed :: "string \<Rightarrow> PluginError" where
  "plugin_failed message = \<lparr>pl_code = ErrorCode.PluginFailed, pl_message = message\<rparr>"

record PluginInvocation =
  pi_payload :: json
  pi_events :: "ClientEvent list"

record PluginClient =
  pc_next_id :: u64

definition fresh_plugin_client :: PluginClient where
  "fresh_plugin_client = \<lparr>pc_next_id = 1\<rparr>"

definition plugin_answer ::
    "u64 \<Rightarrow> PluginResponseEnvelope awaited \<Rightarrow> PluginError + PluginResponseEnvelope" where
  "plugin_answer request_id a =
     (case a of
        AwaitCancelled \<Rightarrow> Inl \<lparr>pl_code = ErrorCode.RequestCancelled,
          pl_message = ''Rust plugin invocation was cancelled.''\<rparr>
      | AwaitTimedOut \<Rightarrow> Inl \<lparr>pl_code = ErrorCode.RequestTimedOut,
          pl_message = ''Rust plugin invocation exceeded its deadline.''\<rparr>
      | AwaitReply response \<Rightarrow>
          (case validate_plugin_response_for response request_id of
             Inl _ \<Rightarrow> Inl (plugin_failed ''plugin response is invalid'')
           | Inr _ \<Rightarrow> Inr response)
      | AwaitReadError e \<Rightarrow> Inl (plugin_unavailable e)
      | AwaitDisconnected \<Rightarrow>
          Inl (plugin_unavailable ''Rust plugin response channel disconnected.''))"

text \<open>
  A failed write may have passed some or all of the frame on to the plugin, so the envelope
  counts as sent.
\<close>

definition plugin_client_request ::
    "(PluginRequestEnvelope \<Rightarrow> string option) \<Rightarrow> PluginClient \<Rightarrow> string \<Rightarrow> json \<Rightarrow> nat \<Rightarrow>
     PluginResponseEnvelope exchange \<Rightarrow>
     PluginClient \<times> PluginRequestEnvelope list \<times> (PluginError + PluginResponseEnvelope)" where
  "plugin_client_request to_json c command payload timeout x =
     (case checked_succ (pc_next_id c) of
        None \<Rightarrow> (c, [], Inl (plugin_failed ''Rust plugin request id overflow.''))
      | Some next \<Rightarrow>
          (let request_id = pc_next_id c;
               c' = c\<lparr>pc_next_id := next\<rparr>;
               request = plugin_request request_id command payload
           in case to_json request of
                None \<Rightarrow> (c', [], Inl (plugin_failed ''Cannot encode plugin request''))
              | Some encoded \<Rightarrow>
                  if length encoded > MAX_MESSAGE_BYTES
                  then (c', [], Inl \<lparr>pl_code = ErrorCode.ResourceTooLarge,
                    pl_message = ''Rust plugin request exceeds the one-megabyte limit.''\<rparr>)
                  else if \<not> xc_write_ok x
                  then (c', [request], Inl (plugin_unavailable ''Cannot write to Rust plugin''))
                  else (c', [request],
                        plugin_answer request_id (await timeout 0 0 (xc_rounds x)))))"

definition PLUGIN_BOOT_TIMEOUT :: nat where
  "PLUGIN_BOOT_TIMEOUT = 10000000000"

definition plugin_boot ::
    "(PluginRequestEnvelope \<Rightarrow> string option) \<Rightarrow> (json \<Rightarrow> PluginMetadata option) \<Rightarrow>
     PluginClient \<Rightarrow> PluginResponseEnvelope exchange \<Rightarrow>
     PluginClient \<times> PluginRequestEnvelope list \<times> (string + PluginMetadata)" where
  "plugin_boot to_json from_value c x =
     (case plugin_client_request to_json c PLUGIN_BOOT_COMMAND JNull PLUGIN_BOOT_TIMEOUT x of
        (c', sent, Inl e) \<Rightarrow> (c', sent, Inl (pl_message e))
      | (c', sent, Inr response) \<Rightarrow>
          if ps_status response = ResponseStatus.Failure
          then (c', sent, Inl (case ps_error response of
                  None \<Rightarrow> ''Rust plugin rejected its boot request''
                | Some e \<Rightarrow> ''Rust plugin boot failed: '' @ pe_message e))
          else (case from_value (ps_payload response) of
                  None \<Rightarrow> (c', sent, Inl ''Rust plugin returned invalid metadata'')
                | Some m \<Rightarrow> (c', sent, Inr m)))"

section \<open>Integrity\<close>

definition verify_integrity ::
    "(string \<Rightarrow> string) \<Rightarrow> string option \<Rightarrow> RustPluginConfig \<Rightarrow> string + unit" where
  "verify_integrity sha256 contents config =
     (case rp_sha256 config of
        None \<Rightarrow> Inr ()
      | Some expected \<Rightarrow>
          (case contents of
             None \<Rightarrow> Inl ''cannot read Rust plugin for integrity verification''
           | Some bytes \<Rightarrow>
               if sha256 bytes \<noteq> expected
               then Inl ''Rust plugin failed SHA-256 integrity verification''
               else Inr ()))"

section \<open>The slot of a plugin\<close>

record PluginSlot =
  sl_config :: RustPluginConfig
  sl_metadata :: "PluginMetadata option"
  sl_client :: "PluginClient option"

definition lazy_slot :: "RustPluginConfig \<Rightarrow> PluginSlot" where
  "lazy_slot config = \<lparr>sl_config = config, sl_metadata = None, sl_client = None\<rparr>"

text \<open>
  What one start of the process meets: the bytes of the executable, the outcome of building
  the command and spawning it, and the boot exchange.
\<close>

record plugin_env =
  pn_contents :: "string option"
  pn_spawn :: "string + unit"
  pn_boot :: "PluginResponseEnvelope exchange"

record plugin_host =
  ph_to_json :: "PluginRequestEnvelope \<Rightarrow> string option"
  ph_from_value :: "json \<Rightarrow> PluginMetadata option"
  ph_sha256 :: "string \<Rightarrow> string"

definition slot_restart ::
    "plugin_host \<Rightarrow> PluginSlot \<Rightarrow> plugin_env \<Rightarrow>
     PluginSlot \<times> PluginRequestEnvelope list \<times> (string + unit)" where
  "slot_restart h s0 env =
     (let s = s0\<lparr>sl_client := None\<rparr>
      in case verify_integrity (ph_sha256 h) (pn_contents env) (sl_config s) of
           Inl e \<Rightarrow> (s, [], Inl e)
         | Inr _ \<Rightarrow>
             (case pn_spawn env of
                Inl e \<Rightarrow> (s, [], Inl e)
              | Inr _ \<Rightarrow>
                  (case plugin_boot (ph_to_json h) (ph_from_value h) fresh_plugin_client (pn_boot env) of
                     (c, sent, Inl e) \<Rightarrow> (s, sent, Inl e)
                   | (c, sent, Inr metadata) \<Rightarrow>
                       if validate_plugin_metadata metadata \<noteq> Inr ()
                       then (s, sent, Inl ''plugin metadata is invalid'')
                       else if pm_identifier metadata \<noteq> rp_id (sl_config s)
                       then (s, sent, Inl ''Rust plugin identifies as another plugin'')
                       else (case sl_metadata s of
                               Some expected \<Rightarrow>
                                 if metadata \<noteq> expected
                                 then (s, sent, Inl ''Rust plugin changed metadata while recovering'')
                                 else (s\<lparr>sl_client := Some c\<rparr>, sent, Inr ())
                             | None \<Rightarrow>
                                 (s\<lparr>sl_metadata := Some metadata, sl_client := Some c\<rparr>,
                                  sent, Inr ())))))"

definition invocation_result ::
    "PluginResponseEnvelope \<Rightarrow> PluginError + PluginInvocation" where
  "invocation_result response =
     (if ps_status response = ResponseStatus.Failure
      then Inl (case ps_error response of
                  None \<Rightarrow> plugin_failed ''Rust plugin returned an unspecified failure.''
                | Some e \<Rightarrow> \<lparr>pl_code = pe_code e, pl_message = pe_message e\<rparr>)
      else Inr \<lparr>pi_payload = ps_payload response, pi_events = ps_events response\<rparr>)"

definition slot_invoke ::
    "plugin_host \<Rightarrow> PluginSlot \<Rightarrow> string \<Rightarrow> json \<Rightarrow> nat option \<Rightarrow>
     plugin_env \<Rightarrow> PluginResponseEnvelope exchange \<Rightarrow> plugin_env \<Rightarrow>
     PluginSlot \<times> PluginRequestEnvelope list \<times> (PluginError + PluginInvocation)" where
  "slot_invoke h s command payload timeout env1 x env2 =
     (case (if sl_client s = None then slot_restart h s env1 else (s, [], Inr ())) of
        (s1, sent1, Inl e) \<Rightarrow> (s1, sent1, Inl (plugin_unavailable e))
      | (s1, sent1, Inr _) \<Rightarrow>
          if command \<notin> set (pm_commands (the (sl_metadata s1)))
          then (s1, sent1, Inl \<lparr>pl_code = ErrorCode.UnknownCommand,
                 pl_message = ''Rust plugin does not export command''\<rparr>)
          else (let deadline = (case timeout of Some t \<Rightarrow> t
                                | None \<Rightarrow> unat (rp_timeout_ms (sl_config s1)) * 1000000)
                in case plugin_client_request (ph_to_json h) (the (sl_client s1)) command payload
                          deadline x of
                     (c, sent2, Inl e) \<Rightarrow>
                       (case slot_restart h (s1\<lparr>sl_client := None\<rparr>) env2 of
                          (s2, sent3, _) \<Rightarrow> (s2, sent1 @ sent2 @ sent3, Inl e))
                   | (c, sent2, Inr response) \<Rightarrow>
                       (s1\<lparr>sl_client := Some c\<rparr>, sent1 @ sent2, invocation_result response)))"

section \<open>The supervisor of all plugins\<close>

type_synonym plugins = "string \<rightharpoonup> PluginSlot"

definition plugins_prepare ::
    "filesystem \<Rightarrow> (string \<Rightarrow> string) \<Rightarrow> Project \<Rightarrow> RustPluginConfig list \<Rightarrow> string + plugins" where
  "plugins_prepare fs sha256 project configs =
     foldl (\<lambda>acc config. rbind acc (\<lambda>plugins.
         rbind (resolve_plugin_executable fs project (rp_executable config)) (\<lambda>executable.
         rbind (verify_integrity sha256 (fs_read fs executable) config) (\<lambda>_.
         Inr (plugins(rp_id config \<mapsto> lazy_slot config))))))
       (Inr Map.empty) configs"

definition plugins_invoke ::
    "plugin_host \<Rightarrow> plugins \<Rightarrow> string \<Rightarrow> string \<Rightarrow> json \<Rightarrow> nat option \<Rightarrow>
     plugin_env \<Rightarrow> PluginResponseEnvelope exchange \<Rightarrow> plugin_env \<Rightarrow>
     plugins \<times> PluginRequestEnvelope list \<times> (PluginError + PluginInvocation)" where
  "plugins_invoke h ps plugin_id command payload timeout env1 x env2 =
     (case ps plugin_id of
        None \<Rightarrow> (ps, [], Inl (plugin_unavailable ''Rust plugin is not registered.''))
      | Some s \<Rightarrow>
          (case slot_invoke h s command payload timeout env1 x env2 of
             (s', sent, result) \<Rightarrow> (ps(plugin_id \<mapsto> s'), sent, result)))"

section \<open>The command line of the strict sandbox\<close>

text \<open>
  A \<open>Command\<close> under construction: the program and one list per call of \<open>arg\<close> or \<open>args\<close>; the
  process receives their concatenation.
\<close>

record sandbox_command =
  cm_program :: string
  cm_calls :: "string list list"
  cm_dir :: string

definition render :: "string list \<Rightarrow> string" where
  "render names = concat (map (\<lambda>n. slash # n) names)"

fun normal_name :: "component \<Rightarrow> string option" where
  "normal_name (Normal n) = Some n"
| "normal_name _ = None"

text \<open>
  \<open>append_parent_directories\<close>: the proper ancestors of an absolute path but the root, from the
  top; each is rendered from its names, which for a canonical path is the slice that
  \<open>Path::ancestors\<close> returns.
\<close>

definition parent_directories :: "string \<Rightarrow> string list" where
  "parent_directories path =
     (let names = List.map_filter normal_name (path_components path)
      in map (\<lambda>k. render (take k names)) [1..<length names])"

definition append_parent_directories :: "string \<Rightarrow> string list list" where
  "append_parent_directories path = map (\<lambda>parent. [''--dir'', parent]) (parent_directories path)"

definition bubblewrap_candidates :: "string list" where
  "bubblewrap_candidates = [''/usr/bin/bwrap'', ''/bin/bwrap'']"

definition base_options :: "string list" where
  "base_options =
     [''--die-with-parent'', ''--new-session'', ''--unshare-all'', ''--proc'', ''/proc'',
      ''--dev'', ''/dev'', ''--tmpfs'', ''/tmp'']"

definition read_only_roots :: "(string \<Rightarrow> bool) \<Rightarrow> string list \<Rightarrow> string list list" where
  "read_only_roots exists_path roots =
     map (\<lambda>root. [''--ro-bind'', root, root]) (filter exists_path roots)"

text \<open>The loop over the filesystem roots; the first error ends it.\<close>

fun bind_roots ::
    "(string \<Rightarrow> string option) \<Rightarrow> string \<Rightarrow> string list \<Rightarrow> string + string list list" where
  "bind_roots canonicalize canonical_root [] = Inr []"
| "bind_roots canonicalize canonical_root (relative # rest) =
     (case canonicalize (path_join canonical_root relative) of
        None \<Rightarrow> Inl ''cannot resolve strict plugin filesystem root''
      | Some root \<Rightarrow>
          if \<not> path_starts_with root canonical_root
          then Inl ''strict plugin filesystem root escapes the project''
          else rbind (bind_roots canonicalize canonical_root rest) (\<lambda>calls.
            Inr (append_parent_directories root @ [[''--bind'', root, root]] @ calls)))"

definition strict_plugin_command ::
    "filesystem \<Rightarrow> (string \<Rightarrow> bool) \<Rightarrow> string \<Rightarrow> string \<Rightarrow> RustPluginConfig \<Rightarrow>
     string + sandbox_command" where
  "strict_plugin_command fs exists_path project_root executable config =
     (case find (fs_is_file fs) bubblewrap_candidates of
        None \<Rightarrow> Inl ''strict sandboxing is required, but bubblewrap is unavailable''
      | Some bubblewrap \<Rightarrow>
     (case fs_canonicalize fs project_root of
        None \<Rightarrow> Inl ''cannot resolve plugin project root''
      | Some canonical_root \<Rightarrow>
     (case fs_canonicalize fs executable of
        None \<Rightarrow> Inl ''cannot resolve plugin executable''
      | Some canonical_executable \<Rightarrow>
          rbind (bind_roots (fs_canonicalize fs) canonical_root
                   (pp_filesystem_roots (rp_permissions config))) (\<lambda>binds.
            Inr \<lparr>cm_program = bubblewrap,
              cm_calls =
                [base_options] @
                (if pp_network (rp_permissions config) then [[''--share-net'']] else []) @
                read_only_roots exists_path [''/usr/lib'', ''/usr/lib64'', ''/lib'', ''/lib64''] @
                append_parent_directories canonical_root @
                [[''--dir'', canonical_root]] @
                append_parent_directories canonical_executable @
                [[''--ro-bind'', canonical_executable, canonical_executable]] @
                binds @
                (if pp_devices (rp_permissions config)
                 then [[''--dev-bind'', ''/dev'', ''/dev'']] else []) @
                (if pp_shell (rp_permissions config)
                 then read_only_roots exists_path [''/usr/bin'', ''/bin''] else []) @
                [[''--chdir'', canonical_root, ''--''], [canonical_executable], rp_arguments config],
              cm_dir = canonical_root\<rparr>))))"

definition plugin_command ::
    "filesystem \<Rightarrow> (string \<Rightarrow> bool) \<Rightarrow> string \<Rightarrow> string \<Rightarrow> RustPluginConfig \<Rightarrow>
     string + sandbox_command" where
  "plugin_command fs exists_path project_root executable config =
     (if rp_sandbox config = PluginSandboxMode.Inherited
      then Inr \<lparr>cm_program = executable, cm_calls = [rp_arguments config], cm_dir = project_root\<rparr>
      else strict_plugin_command fs exists_path project_root executable config)"

section \<open>Lemmas\<close>

definition plugin_booting :: "PluginRequestEnvelope \<Rightarrow> bool" where
  "plugin_booting q \<longleftrightarrow> pq_command q = PLUGIN_BOOT_COMMAND"

lemma plugin_client_request_shape:
  assumes "plugin_client_request to_json c command payload timeout x = (c', sent, result)"
  shows "sent = [] \<and> (\<exists>e. result = Inl e) \<or>
     sent = [plugin_request (pc_next_id c) command payload] \<and>
     pc_next_id c' = pc_next_id c + 1 \<and>
     (\<forall>r. result = Inr r \<longrightarrow> validate_plugin_response_for r (pc_next_id c) = Inr ())"
proof (cases "checked_succ (pc_next_id c)")
  case None
  with assms show ?thesis by (auto simp: plugin_client_request_def)
next
  case (Some n)
  have answer: "validate_plugin_response_for r i = Inr ()" if "plugin_answer i a = Inr r" for i a r
    using that by (auto simp: plugin_answer_def split: awaited.splits sum.splits)
  show ?thesis
    using assms Some checked_succ_Some [OF Some]
    by (auto simp: plugin_client_request_def Let_def answer split: option.splits if_splits)
qed

lemma plugin_boot_sends:
  "plugin_boot to_json from_value c x = (c', sent, result) \<Longrightarrow> list_all plugin_booting sent"
  by (cases "plugin_client_request to_json c PLUGIN_BOOT_COMMAND JNull PLUGIN_BOOT_TIMEOUT x")
    (auto simp: plugin_boot_def plugin_booting_def plugin_request_def
      split: sum.splits if_splits option.splits dest!: plugin_client_request_shape)

text \<open>The invariant of a slot: a running client has metadata that was checked.\<close>

definition checked_metadata :: "RustPluginConfig \<Rightarrow> PluginMetadata \<Rightarrow> bool" where
  "checked_metadata config m \<longleftrightarrow>
     validate_plugin_metadata m = Inr () \<and> pm_identifier m = rp_id config"

definition slot_ok :: "PluginSlot \<Rightarrow> bool" where
  "slot_ok s \<longleftrightarrow> (\<forall>m. sl_metadata s = Some m \<longrightarrow> checked_metadata (sl_config s) m) \<and>
     (sl_client s \<noteq> None \<longrightarrow> sl_metadata s \<noteq> None)"

text \<open>What every operation of a slot keeps.\<close>

definition slot_kept :: "PluginSlot \<Rightarrow> PluginSlot \<Rightarrow> bool" where
  "slot_kept s s' \<longleftrightarrow> sl_config s' = sl_config s \<and>
     (\<forall>m. sl_metadata s = Some m \<longrightarrow> sl_metadata s' = Some m) \<and> (slot_ok s \<longrightarrow> slot_ok s')"

lemma slot_kept_refl: "slot_kept s s"
  by (simp add: slot_kept_def)

lemma slot_kept_trans: "slot_kept a b \<Longrightarrow> slot_kept b c \<Longrightarrow> slot_kept a c"
  by (simp add: slot_kept_def)

lemma slot_kept_client:
  "slot_kept s (s\<lparr>sl_client := None\<rparr>)"
  "sl_client s \<noteq> None \<Longrightarrow> slot_kept s (s\<lparr>sl_client := Some c\<rparr>)"
  by (auto simp: slot_kept_def slot_ok_def)

lemma slot_restart_effect:
  assumes "slot_restart h s env = (s', sent, result)"
  shows "slot_kept s s' \<and> list_all plugin_booting sent \<and>
     (case result of Inl _ \<Rightarrow> sl_client s' = None
      | Inr _ \<Rightarrow> sl_client s' \<noteq> None)"
proof -
  obtain c boot r where b: "plugin_boot (ph_to_json h) (ph_from_value h) fresh_plugin_client
      (pn_boot env) = (c, boot, r)"
    by (metis prod_cases3)
  show ?thesis
    using assms plugin_boot_sends [OF b]
    by (auto simp: slot_restart_def b slot_kept_def slot_ok_def checked_metadata_def Let_def
        split: sum.splits if_splits option.splits)
qed

text \<open>
  The whole of an invocation: boot messages, then the command once if it is exported, then
  boot messages again when it failed.
\<close>

lemma slot_invoke_cases:
  assumes "slot_invoke h s command payload timeout env1 x env2 = (s', sent, result)"
  obtains (not_sent) e where "slot_kept s s'" "list_all plugin_booting sent" "result = Inl e"
  | (sent) boots request boots' m where
      "slot_kept s s'" "sent = boots @ request @ boots'"
      "list_all plugin_booting boots" "list_all plugin_booting boots'"
      "request = [] \<or> (\<exists>i. request = [plugin_request i command payload])"
      "sl_metadata s' = Some m" "command \<in> set (pm_commands m)"
      "\<forall>v. result = Inr v \<longrightarrow> boots' = [] \<and>
         (\<exists>i r. request = [plugin_request i command payload] \<and>
            validate_plugin_response_for r i = Inr () \<and> ps_status r = ResponseStatus.Success \<and>
            v = \<lparr>pi_payload = ps_payload r, pi_events = ps_events r\<rparr>)"
    | (unready) "\<not> slot_ok s"
proof (cases "slot_ok s")
  case ok: True
  define start where "start = (if sl_client s = None then slot_restart h s env1 else (s, [], Inr ()))"
  obtain s1 boots ready where ready: "start = (s1, boots, ready)"
    by (metis prod_cases3)
  have r1: "slot_kept s s1" "list_all plugin_booting boots" "ready = Inr () \<Longrightarrow> sl_client s1 \<noteq> None"
    using ready slot_restart_effect [of h s env1 s1 boots ready]
    by (auto simp: start_def slot_kept_refl split: if_splits sum.splits)
  note invoke = assms [unfolded slot_invoke_def start_def [symmetric] ready]
  show thesis
  proof (cases "ready = Inr () \<and> command \<in> set (pm_commands (the (sl_metadata s1)))")
    case False
    then have "sent = boots" "s' = s1" "\<exists>e. result = Inl e"
      using invoke by (cases ready; auto)+
    with r1 not_sent show thesis by auto
  next
    case True
    with r1 ok obtain m c0 where m: "sl_metadata s1 = Some m" "command \<in> set (pm_commands m)"
      and c0: "sl_client s1 = Some c0"
      by (auto simp: slot_kept_def slot_ok_def)
    define deadline where "deadline =
      (case timeout of Some t \<Rightarrow> t | None \<Rightarrow> unat (rp_timeout_ms (sl_config s1)) * 1000000)"
    obtain c sent2 result2 where req:
      "plugin_client_request (ph_to_json h) c0 command payload deadline x = (c, sent2, result2)"
      by (metis prod_cases3)
    note shape = plugin_client_request_shape [OF req]
    show thesis
    proof (cases result2)
      case (Inl e)
      obtain s2 sent3 res3 where rs: "slot_restart h (s1\<lparr>sl_client := None\<rparr>) env2 = (s2, sent3, res3)"
        by (metis prod_cases3)
      have out: "s' = s2" "sent = boots @ sent2 @ sent3" "result = Inl e"
        using invoke True m c0 req rs Inl by (auto simp: deadline_def Let_def)
      have k: "slot_kept s1 s2" "list_all plugin_booting sent3"
        using slot_restart_effect [OF rs] slot_kept_client(1) slot_kept_trans by blast+
      then have "sl_metadata s2 = Some m"
        using m by (simp add: slot_kept_def)
      then show thesis
        using sent [of boots sent2 sent3 m] out k r1 shape m slot_kept_trans by blast
    next
      case (Inr r)
      have out: "s' = s1\<lparr>sl_client := Some c\<rparr>" "sent = boots @ sent2 @ []"
        "result = invocation_result r"
        using invoke True m c0 req Inr by (auto simp: deadline_def Let_def)
      have "slot_kept s s'"
        using out r1 slot_kept_client(2) [of s1 c] c0 slot_kept_trans by blast
      moreover have "\<forall>v. result = Inr v \<longrightarrow> ps_status r = ResponseStatus.Success \<and>
          v = \<lparr>pi_payload = ps_payload r, pi_events = ps_events r\<rparr>"
        using out(3) ResponseStatus.exhaust
        by (auto simp: invocation_result_def split: if_splits)
      ultimately show thesis
        using sent [of boots sent2 "[]" m] out r1 shape Inr m by auto
    qed
  qed
qed (rule unready)

text \<open>The life of a slot: started lazily, then any sequence of invocations.\<close>

inductive slot_reaches :: "plugin_host \<Rightarrow> PluginSlot \<Rightarrow> PluginSlot \<Rightarrow> bool" for h where
  initial: "slot_reaches h s s"
| invoke: "slot_reaches h s s1 \<Longrightarrow>
    slot_invoke h s1 command payload timeout env1 x env2 = (s', sent, result) \<Longrightarrow>
    slot_reaches h s s'"

lemma slot_reaches_kept: "slot_reaches h s s' \<Longrightarrow> slot_ok s \<Longrightarrow> slot_kept s s'"
proof (induction rule: slot_reaches.induct)
  case (invoke s s1 command payload timeout env1 x env2 s' sent result)
  then have k: "slot_kept s s1" "slot_ok s1"
    by (auto simp: slot_kept_def)
  from invoke.hyps(2) have "slot_kept s1 s'"
    by (cases rule: slot_invoke_cases) (use k(2) in auto)
  with k show ?case by (blast intro: slot_kept_trans)
qed (rule slot_kept_refl)

lemma lazy_slot_ok: "slot_ok (lazy_slot config)"
  by (simp add: slot_ok_def lazy_slot_def)

text \<open>
  How bubblewrap reads its command line: every option takes a fixed number of arguments, and
  \<open>--\<close> ends the options.  The sandbox is judged by the options that are read, not by the calls
  of \<open>arg\<close> that wrote them.
\<close>

definition bubblewrap_arities :: "(string \<times> nat) list" where
  "bubblewrap_arities =
     [(''--die-with-parent'', 0), (''--new-session'', 0), (''--unshare-all'', 0),
      (''--share-net'', 0), (''--proc'', 1), (''--dev'', 1), (''--tmpfs'', 1), (''--dir'', 1),
      (''--chdir'', 1), (''--ro-bind'', 2), (''--bind'', 2), (''--dev-bind'', 2)]"

function read_options :: "string list \<Rightarrow> (string list list \<times> string list) option" where
  "read_options [] = None"
| "read_options (a # rest) =
     (if a = ''--'' then Some ([], rest)
      else case map_of bubblewrap_arities a of
             None \<Rightarrow> None
           | Some n \<Rightarrow>
               if length rest < n then None
               else map_option (\<lambda>(options, program). ((a # take n rest) # options, program))
                      (read_options (drop n rest)))"
  by pat_completeness auto
termination by (relation "measure length") auto

definition is_option :: "string list \<Rightarrow> bool" where
  "is_option call \<longleftrightarrow>
     (case call of [] \<Rightarrow> False | a # arguments \<Rightarrow> (a, length arguments) \<in> set bubblewrap_arities)"

lemma is_option_simps:
  "is_option [''--share-net'']" "is_option [''--dir'', p]" "is_option [''--chdir'', p]"
  "is_option [''--ro-bind'', p, q]" "is_option [''--bind'', p, q]" "is_option [''--dev-bind'', p, q]"
  by (simp_all add: is_option_def bubblewrap_arities_def)

lemma read_option_call:
  assumes "is_option call"
  shows "read_options (call @ rest) =
    map_option (\<lambda>(options, program). (call # options, program)) (read_options rest)"
proof -
  from assms obtain a arguments where call: "call = a # arguments"
    "(a, length arguments) \<in> set bubblewrap_arities"
    by (auto simp: is_option_def split: list.splits)
  have "distinct (map fst bubblewrap_arities)" "(''--'', n) \<notin> set bubblewrap_arities" for n
    by (simp_all add: bubblewrap_arities_def)
  with call(2) have "map_of bubblewrap_arities a = Some (length arguments)" "a \<noteq> ''--''"
    by auto
  then show ?thesis
    by (simp add: call(1))
qed

lemma read_option_calls:
  "list_all is_option calls \<Longrightarrow> read_options (concat calls @ ''--'' # rest) = Some (calls, rest)"
  by (induction calls) (simp_all add: read_option_call)

text \<open>The options that isolate the process, and the grants that the permissions stand for.\<close>

definition isolation :: "string list list" where
  "isolation = [[''--die-with-parent''], [''--new-session''], [''--unshare-all''],
     [''--proc'', ''/proc''], [''--dev'', ''/dev''], [''--tmpfs'', ''/tmp'']]"

definition read_only_bind :: "string \<Rightarrow> string list" where
  "read_only_bind p = [''--ro-bind'', p, p]"

definition writable_bind :: "string \<Rightarrow> string list" where
  "writable_bind p = [''--bind'', p, p]"

definition make_directory :: "string \<Rightarrow> string list" where
  "make_directory p = [''--dir'', p]"

definition readable_paths :: "(string \<Rightarrow> bool) \<Rightarrow> string \<Rightarrow> PluginPermissions \<Rightarrow> string set" where
  "readable_paths exists_path exe permissions =
     insert exe ({p \<in> {''/usr/lib'', ''/usr/lib64'', ''/lib'', ''/lib64''}. exists_path p} \<union>
       (if pp_shell permissions then {p \<in> {''/usr/bin'', ''/bin''}. exists_path p} else {}))"

definition writable_paths :: "filesystem \<Rightarrow> string \<Rightarrow> PluginPermissions \<Rightarrow> string set" where
  "writable_paths fs root permissions =
     {r. \<exists>relative \<in> set (pp_filesystem_roots permissions).
        fs_canonicalize fs (path_join root relative) = Some r}"

definition granted_options ::
    "filesystem \<Rightarrow> (string \<Rightarrow> bool) \<Rightarrow> string \<Rightarrow> string \<Rightarrow> PluginPermissions \<Rightarrow> string list set" where
  "granted_options fs exists_path root exe permissions =
     read_only_bind ` readable_paths exists_path exe permissions \<union>
     writable_bind ` writable_paths fs root permissions \<union>
     (if pp_network permissions then {[''--share-net'']} else {}) \<union>
     (if pp_devices permissions then {[''--dev-bind'', ''/dev'', ''/dev'']} else {}) \<union>
     make_directory ` insert root
       (\<Union>p \<in> insert root (insert exe (writable_paths fs root permissions)). set (parent_directories p)) \<union>
     {[''--chdir'', root]}"

lemma set_append_parent_directories:
  "set (append_parent_directories p) = make_directory ` set (parent_directories p)"
  by (simp add: append_parent_directories_def make_directory_def)

lemma set_read_only_roots:
  "set (read_only_roots e roots) = read_only_bind ` {p \<in> set roots. e p}"
  by (simp add: read_only_roots_def read_only_bind_def)

text \<open>The grants in the order of the command line, and grouped by what they grant.\<close>

lemma grants_grouped:
  "(if n then {net} else {}) \<union> (ro ` L \<union> (dir ` P root \<union> ({dir root} \<union> (dir ` P exe \<union> ({ro exe} \<union>
     ((bind ` W \<union> dir ` (\<Union>r \<in> W. P r)) \<union> ((if d then {dev} else {}) \<union>
     ((if s then ro ` S else {}) \<union> {ch})))))))) =
   ro ` insert exe (L \<union> (if s then S else {})) \<union> bind ` W \<union> (if n then {net} else {}) \<union>
     (if d then {dev} else {}) \<union> dir ` insert root (\<Union>p \<in> insert root (insert exe W). P p) \<union> {ch}"
  by auto

lemma bind_roots_calls:
  assumes "bind_roots canonicalize root relatives = Inr calls"
  defines "resolved \<equiv> {r. \<exists>relative \<in> set relatives. canonicalize (path_join root relative) = Some r}"
  shows "(\<forall>relative \<in> set relatives. \<exists>r. canonicalize (path_join root relative) = Some r \<and>
       path_starts_with r root) \<and>
     set calls = writable_bind ` resolved \<union> make_directory ` (\<Union>r \<in> resolved. set (parent_directories r))"
  using assms(1) unfolding resolved_def
proof (induction relatives arbitrary: calls)
  case (Cons relative rest)
  from Cons.prems obtain r calls' where r: "canonicalize (path_join root relative) = Some r"
    "path_starts_with r root" "bind_roots canonicalize root rest = Inr calls'"
    and calls: "calls = append_parent_directories r @ [[''--bind'', r, r]] @ calls'"
    by (auto simp: rbind_Inr_iff split: option.splits if_splits)
  note rest = Cons.IH [OF r(3)]
  define W where "W = {q. \<exists>relative \<in> set rest. canonicalize (path_join root relative) = Some q}"
  have W: "{q. \<exists>relative' \<in> set (relative # rest). canonicalize (path_join root relative') = Some q} = insert r W"
    using r(1) by (auto simp: W_def)
  have "set calls = make_directory ` set (parent_directories r) \<union> ({writable_bind r} \<union>
      (writable_bind ` W \<union> make_directory ` (\<Union>q \<in> W. set (parent_directories q))))"
    using rest [THEN conjunct2] by (simp add: calls set_append_parent_directories writable_bind_def W_def)
  also have "\<dots> = writable_bind ` insert r W \<union> make_directory ` (\<Union>q \<in> insert r W. set (parent_directories q))"
    by blast
  finally show ?case
    unfolding W using rest [THEN conjunct1] r(1,2) by simp
qed simp

lemma option_lists:
  "list_all is_option isolation" "list_all is_option (append_parent_directories p)"
  "list_all is_option (read_only_roots e roots)"
  by (simp_all add: isolation_def is_option_def bubblewrap_arities_def list_all_iff
      append_parent_directories_def read_only_roots_def)

lemma bind_roots_options:
  "bind_roots canonicalize root relatives = Inr calls \<Longrightarrow> list_all is_option calls"
  using bind_roots_calls [of canonicalize root relatives calls]
  by (auto simp: list_all_iff is_option_simps writable_bind_def make_directory_def)

section \<open>Properties of plugin supervision\<close>

text \<open>
  The identity of a plugin is pinned: from the lazy slot of a configuration, after any
  sequence of invocations, crashes and restarts, a running client has metadata that is
  valid and names the configured plugin, and metadata once loaded never changes afterwards.
\<close>
theorem plugin_identity_is_pinned:
  assumes "slot_reaches h (lazy_slot config) s" and "slot_reaches h s s'"
  shows "sl_config s' = config \<and>
     (sl_client s' \<noteq> None \<longrightarrow> (\<exists>m. sl_metadata s' = Some m \<and>
        validate_plugin_metadata m = Inr () \<and> pm_identifier m = rp_id config)) \<and>
     (\<forall>m. sl_metadata s = Some m \<longrightarrow> sl_metadata s' = Some m)"
proof -
  have k: "slot_kept (lazy_slot config) s"
    by (rule slot_reaches_kept [OF assms(1) lazy_slot_ok])
  then have "slot_ok s"
    by (simp add: slot_kept_def lazy_slot_ok)
  then have k': "slot_kept s s'"
    by (rule slot_reaches_kept [OF assms(2)])
  have ok': "slot_ok s'"
    using k' \<open>slot_ok s\<close> by (simp add: slot_kept_def)
  have config: "sl_config s' = config"
    using slot_kept_trans [OF k k'] by (simp add: slot_kept_def lazy_slot_def)
  have "\<exists>m. sl_metadata s' = Some m \<and> checked_metadata config m" if "sl_client s' \<noteq> None"
    using ok' that unfolding slot_ok_def config by fast
  moreover have "\<forall>m. sl_metadata s = Some m \<longrightarrow> sl_metadata s' = Some m"
    using k' by (simp add: slot_kept_def)
  ultimately show ?thesis
    using config unfolding checked_metadata_def by blast
qed

text \<open>
  C5. On a slot in any reachable state, a command is written to the plugin at most once and only
  if the checked metadata of the plugin exports it; all other envelopes are boot messages.
  The boot command itself cannot be invoked from outside: no metadata may export it.
\<close>
theorem only_exported_commands_are_sent:
  assumes "slot_reaches h (lazy_slot config) s"
    and "slot_invoke h s command payload timeout env1 x env2 = (s', sent, result)"
  shows "filter (\<lambda>q. \<not> plugin_booting q) sent = [] \<or>
     (\<exists>i m. filter (\<lambda>q. \<not> plugin_booting q) sent = [plugin_request i command payload] \<and>
        sl_metadata s' = Some m \<and> command \<in> set (pm_commands m)) \<and> command \<noteq> PLUGIN_BOOT_COMMAND"
proof -
  have ok: "slot_ok s"
    using slot_reaches_kept [OF assms(1) lazy_slot_ok] lazy_slot_ok by (simp add: slot_kept_def)
  have boots: "filter (\<lambda>q. \<not> plugin_booting q) qs = []" if "list_all plugin_booting qs" for qs
    using that by (induction qs) auto
  show ?thesis
    using assms(2)
  proof (cases rule: slot_invoke_cases)
    case (sent boots request boots' m)
    have "command \<noteq> PLUGIN_BOOT_COMMAND"
    proof -
      have "checked_metadata (sl_config s') m"
        using sent(1,6) ok unfolding slot_kept_def slot_ok_def by blast
      then show ?thesis
        using sent(7) validate_plugin_metadata_commands boot_command_reserved
        by (auto simp: checked_metadata_def list_all_iff)
    qed
    with sent boots show ?thesis
      by (auto simp: plugin_booting_def plugin_request_def)
  qed (use ok boots in auto)
qed

text \<open>
  An executable whose bytes do not have the pinned digest is never started: the restart
  fails, leaves no client, and nothing is written to any process.
\<close>
theorem tampered_plugin_not_started:
  assumes "rp_sha256 (sl_config s) = Some expected" and "pn_contents env = Some bytes"
    and "ph_sha256 h bytes \<noteq> expected"
  shows "\<exists>e. slot_restart h s env = (s\<lparr>sl_client := None\<rparr>, [], Inl e)"
  using assms by (simp add: slot_restart_def verify_integrity_def)

text \<open>
  C7. The strict sandbox grants exactly what the configuration permits.  Read as bubblewrap reads
  it, the command line first isolates the process and then has exactly these options: read-only
  binds of the executable and of the present library directories, with the shell permission of
  the present program directories too; a writable bind of every permitted root, with links
  resolved, each of which lies in the project; the network and the devices if and only if they
  are permitted; the directories that hold these paths; and the project root as the working
  directory.  What follows the options is the executable and the configured arguments.
\<close>
theorem strict_sandbox_grants_only_permissions:
  assumes "plugin_command fs exists_path project_root executable config = Inr c"
    and "rp_sandbox config = PluginSandboxMode.Strict"
  shows "\<exists>root exe options. fs_canonicalize fs project_root = Some root \<and>
     fs_canonicalize fs executable = Some exe \<and> cm_dir c = root \<and>
     cm_program c \<in> set bubblewrap_candidates \<and> fs_is_file fs (cm_program c) \<and>
     read_options (concat (cm_calls c)) = Some (isolation @ options, exe # rp_arguments config) \<and>
     set options = granted_options fs exists_path root exe (rp_permissions config) \<and>
     (\<forall>relative \<in> set (pp_filesystem_roots (rp_permissions config)).
        \<exists>r \<in> writable_paths fs root (rp_permissions config).
          fs_canonicalize fs (path_join root relative) = Some r) \<and>
     (\<forall>r \<in> writable_paths fs root (rp_permissions config). path_starts_with r root)"
proof -
  let ?permissions = "rp_permissions config"
  from assms obtain bubblewrap root exe binds where parts:
    "find (fs_is_file fs) bubblewrap_candidates = Some bubblewrap"
    "fs_canonicalize fs project_root = Some root" "fs_canonicalize fs executable = Some exe"
    "bind_roots (fs_canonicalize fs) root (pp_filesystem_roots ?permissions) = Inr binds"
    by (auto simp: plugin_command_def strict_plugin_command_def rbind_Inr_iff
        split: option.splits)
  define options where "options =
    (if pp_network ?permissions then [[''--share-net'']] else []) @
    read_only_roots exists_path [''/usr/lib'', ''/usr/lib64'', ''/lib'', ''/lib64''] @
    append_parent_directories root @ [[''--dir'', root]] @ append_parent_directories exe @
    [[''--ro-bind'', exe, exe]] @ binds @
    (if pp_devices ?permissions then [[''--dev-bind'', ''/dev'', ''/dev'']] else []) @
    (if pp_shell ?permissions then read_only_roots exists_path [''/usr/bin'', ''/bin''] else []) @
    [[''--chdir'', root]]"
  have c: "cm_program c = bubblewrap" "cm_dir c = root"
    "concat (cm_calls c) = concat (isolation @ options) @ ''--'' # exe # rp_arguments config"
    using assms parts
    by (auto simp: plugin_command_def strict_plugin_command_def options_def isolation_def
        base_options_def)
  have "list_all is_option (isolation @ options)"
    using option_lists bind_roots_options [OF parts(4)]
    by (simp add: options_def is_option_simps)
  then have "read_options (concat (cm_calls c)) = Some (isolation @ options, exe # rp_arguments config)"
    unfolding c(3) by (rule read_option_calls)
  moreover note roots = bind_roots_calls [OF parts(4)]
  have "set options = granted_options fs exists_path root exe ?permissions"
    unfolding options_def granted_options_def readable_paths_def writable_paths_def grants_grouped [symmetric]
    by (simp only: set_append set_append_parent_directories set_read_only_roots roots [THEN conjunct2]
        if_distrib [of set] list.set read_only_bind_def [symmetric] make_directory_def [symmetric])
  moreover have "bubblewrap \<in> set bubblewrap_candidates" "fs_is_file fs bubblewrap"
    using parts(1) by (auto simp: find_Some_iff)
  moreover have "\<forall>relative \<in> set (pp_filesystem_roots ?permissions).
      \<exists>r \<in> writable_paths fs root ?permissions. fs_canonicalize fs (path_join root relative) = Some r"
    "\<forall>r \<in> writable_paths fs root ?permissions. path_starts_with r root"
    using roots [THEN conjunct1] by (fastforce simp: writable_paths_def)+
  ultimately show ?thesis
    using parts(2,3) c(1,2) by blast
qed

subsection \<open>Witnesses\<close>

definition images_metadata :: PluginMetadata where
  "images_metadata = \<lparr>pm_identifier = ''images'', pm_name = ''Images'', pm_version = ''1.0.0'',
     pm_commands = [''resize'']\<rparr>"

definition images_host :: plugin_host where
  "images_host = \<lparr>ph_to_json = (\<lambda>_. Some ''{}''), ph_from_value = (\<lambda>_. Some images_metadata),
     ph_sha256 = (\<lambda>_. ''00'')\<rparr>"

definition images_env :: plugin_env where
  "images_env = \<lparr>pn_contents = Some [], pn_spawn = Inr (),
     pn_boot = replying (plugin_success 1 JNull [])\<rparr>"

lemma images_metadata_valid: "validate_plugin_metadata images_metadata = Inr ()"
proof -
  have "validate_identifier ''images'' l = Inr ()" "validate_identifier ''resize'' l = Inr ()" for l
    by (simp_all add: validate_identifier_Inr valid_identifier_def identifier_char_def ascii_defs)
  moreover have "validate_text ''Images'' l 80 False = Inr ()" "validate_version ''1.0.0'' = Inr ()" for l
    by (simp_all add: version_eval text_eval)
  ultimately show ?thesis
    by (simp add: validate_plugin_metadata_def images_metadata_def reject_if_def)
qed

lemma plugin_success_replies:
  "plugin_answer i (AwaitReply (plugin_success i p [])) = Inr (plugin_success i p [])"
  using plugin_success_valid_iff [of i p "[]"]
  by (auto simp: plugin_answer_def split: sum.split)

lemma images_boot:
  "slot_restart images_host (lazy_slot sample_plugin) images_env =
    (\<lparr>sl_config = sample_plugin, sl_metadata = Some images_metadata,
      sl_client = Some \<lparr>pc_next_id = 2\<rparr>\<rparr>, [plugin_request 1 PLUGIN_BOOT_COMMAND JNull], Inr ())"
proof -
  have "plugin_client_request (\<lambda>_. Some ''{}'') fresh_plugin_client PLUGIN_BOOT_COMMAND JNull
      PLUGIN_BOOT_TIMEOUT (replying (plugin_success 1 JNull [])) =
    (\<lparr>pc_next_id = 2\<rparr>, [plugin_request 1 PLUGIN_BOOT_COMMAND JNull],
     Inr (plugin_success 1 JNull []))"
    by (simp add: plugin_client_request_def fresh_plugin_client_def checked_succ_def
        MAX_MESSAGE_BYTES_def PLUGIN_BOOT_TIMEOUT_def await_replying plugin_success_replies Let_def,
        simp add: replying_def)
  then show ?thesis
    by (simp add: slot_restart_def images_host_def images_env_def lazy_slot_def
        verify_integrity_def sample_plugin_def plugin_boot_def images_metadata_valid,
        simp add: plugin_success_def images_metadata_def)
qed

lemma images_invoke:
  "slot_invoke images_host (lazy_slot sample_plugin) ''resize'' JNull (Some 5) images_env
     (replying (plugin_success 2 JNull [])) images_env =
   (\<lparr>sl_config = sample_plugin, sl_metadata = Some images_metadata,
     sl_client = Some \<lparr>pc_next_id = 3\<rparr>\<rparr>,
    [plugin_request 1 PLUGIN_BOOT_COMMAND JNull, plugin_request 2 ''resize'' JNull],
    Inr \<lparr>pi_payload = JNull, pi_events = []\<rparr>)"
proof -
  have "plugin_client_request (\<lambda>_. Some ''{}'') \<lparr>pc_next_id = 2\<rparr> ''resize'' JNull 5
      (replying (plugin_success 2 JNull [])) =
    (\<lparr>pc_next_id = 3\<rparr>, [plugin_request 2 ''resize'' JNull], Inr (plugin_success 2 JNull []))"
    by (simp add: plugin_client_request_def checked_succ_def MAX_MESSAGE_BYTES_def
        await_replying plugin_success_replies Let_def, simp add: replying_def)
  moreover have "sl_client (lazy_slot sample_plugin) = None"
    by (simp add: lazy_slot_def)
  moreover have "invocation_result (plugin_success 2 JNull []) =
      Inr \<lparr>pi_payload = JNull, pi_events = []\<rparr>"
    by (simp add: invocation_result_def plugin_success_def)
  ultimately show ?thesis
    by (simp add: slot_invoke_def images_boot, simp add: images_host_def images_metadata_def)
qed

lemma images_reaches:
  "slot_reaches images_host (lazy_slot sample_plugin)
     \<lparr>sl_config = sample_plugin, sl_metadata = Some images_metadata,
      sl_client = Some \<lparr>pc_next_id = 3\<rparr>\<rparr>"
  by (rule slot_reaches.invoke [OF slot_reaches.initial images_invoke])

theorem plugin_identity_is_pinned_witness:
  "pm_identifier images_metadata = rp_id sample_plugin"
  using plugin_identity_is_pinned [OF images_reaches slot_reaches.initial] by simp

theorem only_exported_commands_are_sent_witness:
  "''resize'' \<in> set (pm_commands images_metadata) \<and> ''resize'' \<noteq> PLUGIN_BOOT_COMMAND"
  using only_exported_commands_are_sent [OF slot_reaches.initial images_invoke]
  by (simp add: plugin_booting_def plugin_request_def PLUGIN_BOOT_COMMAND_def)

theorem tampered_plugin_not_started_witness:
  "\<exists>e. slot_restart images_host
     (lazy_slot (sample_plugin\<lparr>rp_sha256 := Some ''ff''\<rparr>)) images_env =
     (lazy_slot (sample_plugin\<lparr>rp_sha256 := Some ''ff''\<rparr>)\<lparr>sl_client := None\<rparr>, [], Inl e)"
  by (rule tampered_plugin_not_started [of _ "''ff''" _ "[]"])
    (simp_all add: lazy_slot_def images_env_def images_host_def)

lemma sample_strict_command:
  "plugin_command sample_fs (\<lambda>_. False) ''/p'' ''/p/plugins/images'' sample_plugin =
   Inr \<lparr>cm_program = ''/usr/bin/bwrap'', cm_calls =
     [base_options] @ append_parent_directories ''/p/resources/a.svg'' @
     [[''--dir'', ''/p/resources/a.svg'']] @ append_parent_directories ''/p/resources/a.svg'' @
     [[''--ro-bind'', ''/p/resources/a.svg'', ''/p/resources/a.svg'']] @
     append_parent_directories ''/p/resources/a.svg'' @
     [[''--bind'', ''/p/resources/a.svg'', ''/p/resources/a.svg'']] @
     [[''--chdir'', ''/p/resources/a.svg'', ''--''], [''/p/resources/a.svg''], []],
     cm_dir = ''/p/resources/a.svg''\<rparr>"
  by code_simp

theorem strict_sandbox_grants_only_permissions_witness:
  "\<exists>root exe options. fs_canonicalize sample_fs ''/p'' = Some root \<and>
     fs_canonicalize sample_fs ''/p/plugins/images'' = Some exe \<and> root = ''/p/resources/a.svg'' \<and>
     set options = granted_options sample_fs (\<lambda>_. False) root exe (rp_permissions sample_plugin)"
proof -
  have "rp_sandbox sample_plugin = PluginSandboxMode.Strict"
    by (simp add: sample_plugin_def)
  from strict_sandbox_grants_only_permissions [OF sample_strict_command this] show ?thesis
    by (simp only: sandbox_command.select_convs) blast
qed

end
