(* ===== verification/Scheduler.thy ===== *)
theory Scheduler
  imports Supervisor EventHub
begin

text \<open>
  Background jobs: \<open>scheduler.rs\<close>.  A thread per job waits its initial delay and then runs
  cycles: attempts with exponential backoff, the journal entry of the cycle, the interval.
  The journal of a persistent job is a file, so that a restart of the host resumes it.

  What the thread meets is explicit: the outcome of a journal write (\<open>None\<close> is success), the
  clock, the stop flag after each wait, the lock of the supervisor and the exchanges with
  the worker.
\<close>

section \<open>The journal\<close>

datatype JobRunState = Pending | Running

fun JobRunState_code :: "JobRunState \<Rightarrow> u8" where
  "JobRunState_code Pending = 1"
| "JobRunState_code Running = 2"

record JobState =
  js_state :: u8
  js_next_run_at_ms :: u64
  js_attempts :: u8

text \<open>The map in memory and what the journal file holds.\<close>

record JobJournal =
  jj_states :: "string \<rightharpoonup> JobState"
  jj_file :: "string \<rightharpoonup> JobState"

text \<open>\<open>open_at\<close>, with \<open>contents\<close> what decoding the file gives: an absent file is an empty map.\<close>

definition journal_open :: "(string \<rightharpoonup> JobState) option \<Rightarrow> JobJournal" where
  "journal_open contents =
     (let states = (case contents of None \<Rightarrow> Map.empty | Some m \<Rightarrow> m)
      in \<lparr>jj_states = states, jj_file = states\<rparr>)"

definition journal_initial_delay :: "JobJournal \<Rightarrow> u64 \<Rightarrow> BackgroundJobConfig \<Rightarrow> u64" where
  "journal_initial_delay j now_ms job =
     (if \<not> bj_persistent job then bj_initial_delay_ms job
      else case jj_states j (bj_id job) of
             None \<Rightarrow> bj_initial_delay_ms job
           | Some state \<Rightarrow>
               if js_state state = JobRunState_code Running then 0
               else sat_sub (js_next_run_at_ms state) now_ms)"

text \<open>
  \<open>update\<close>: the entry is inserted in memory first; the file is written beside and renamed, so
  a failed write leaves the old contents.
\<close>

definition journal_update ::
    "JobJournal \<Rightarrow> string \<Rightarrow> JobState \<Rightarrow> string option \<Rightarrow> JobJournal \<times> (string + unit)" where
  "journal_update j ident state write =
     (let states = (jj_states j)(ident \<mapsto> state)
      in case write of
           Some e \<Rightarrow> (j\<lparr>jj_states := states\<rparr>, Inl e)
         | None \<Rightarrow> (j\<lparr>jj_states := states, jj_file := states\<rparr>, Inr ()))"

definition journal_started ::
    "JobJournal \<Rightarrow> BackgroundJobConfig \<Rightarrow> u8 \<Rightarrow> string option \<Rightarrow> JobJournal \<times> (string + unit)" where
  "journal_started j job attempt write =
     (if \<not> bj_persistent job then (j, Inr ())
      else journal_update j (bj_id job)
             \<lparr>js_state = JobRunState_code Running, js_next_run_at_ms = 0, js_attempts = attempt\<rparr>
             write)"

definition journal_finished ::
    "JobJournal \<Rightarrow> BackgroundJobConfig \<Rightarrow> u64 \<Rightarrow> string option \<Rightarrow> JobJournal \<times> (string + unit)" where
  "journal_finished j job now_ms write =
     (if \<not> bj_persistent job then (j, Inr ())
      else journal_update j (bj_id job)
             \<lparr>js_state = JobRunState_code Pending,
              js_next_run_at_ms = sat_add now_ms (bj_interval_ms job), js_attempts = 0\<rparr>
             write)"

section \<open>One run\<close>

definition job_event :: "string \<Rightarrow> (string \<times> json) list \<Rightarrow> ClientEvent" where
  "job_event name pairs = \<lparr>ce_name = name, ce_payload = JObject pairs, ce_window_id = None\<rparr>"

text \<open>\<open>pam.job.journal-failed\<close> and \<open>pam.job.failed\<close>.\<close>

definition journal_failed_event :: "BackgroundJobConfig \<Rightarrow> string \<Rightarrow> ClientEvent" where
  "journal_failed_event job message =
     job_event ''pam.job.journal-failed''
       [(''id'', JString (bj_id job)), (''message'', JString message)]"

definition failure_event :: "BackgroundJobConfig \<Rightarrow> u64 \<Rightarrow> ErrorCode \<Rightarrow> string \<Rightarrow> ClientEvent" where
  "failure_event job run_id code message =
     job_event ''pam.job.failed''
       [(''id'', JString (bj_id job)), (''runId'', JInt (uint run_id)),
        (''code'', JInt (int (ErrorCode_code code))), (''message'', JString message)]"

datatype dispatcher = Ui | Headless

definition dispatch_effects :: "dispatcher \<Rightarrow> Effect list \<Rightarrow> Effect list" where
  "dispatch_effects d effects = (case d of Ui \<Rightarrow> effects | Headless \<Rightarrow> [])"

text \<open>
  The state a job shares: the supervisor, the event hub, the run counter, the journal, and
  the effects applied by the user interface so far.
\<close>

record job_world =
  jw_supervisor :: WorkerSupervisor
  jw_hub :: EventState
  jw_next_run :: u64
  jw_journal :: JobJournal
  jw_applied :: "Effect list"

definition announce :: "job_world \<Rightarrow> ClientEvent \<Rightarrow> job_world" where
  "announce w e = w\<lparr>jw_hub := publish (jw_hub w) e\<rparr>"

record run_env =
  rn_stopped :: bool
  rn_busy :: bool
  rn_stopped_after :: bool
  rn_started_at_ms :: nat
  rn_spawn :: spawn_env
  rn_exchange :: "ResponseEnvelope exchange"
  rn_respawn :: spawn_env

fun worker_error_code :: "WorkerRequestError \<Rightarrow> ErrorCode" where
  "worker_error_code TimedOut = ErrorCode.RequestTimedOut"
| "worker_error_code Cancelled = ErrorCode.RequestCancelled"
| "worker_error_code (Crashed m) = ErrorCode.WorkerCrashed"

definition run_fields :: "BackgroundJobConfig \<Rightarrow> u64 \<Rightarrow> nat \<Rightarrow> (string \<times> json) list" where
  "run_fields job run_id started_at_ms =
     [(''id'', JString (bj_id job)), (''runId'', JInt (uint run_id)),
      (''startedAtMs'', JInt (int started_at_ms))]"

text \<open>The events of an answered run, in order; the flag says whether the run succeeded.\<close>

definition outcome_events ::
    "BackgroundJobConfig \<Rightarrow> u64 \<Rightarrow> WorkerRequestError + ResponseEnvelope \<Rightarrow> ClientEvent list \<times> bool" where
  "outcome_events job run_id result =
     (case result of
        Inr response \<Rightarrow>
          if rs_status response = ResponseStatus.Success
          then (rs_events response @
                  [job_event ''pam.job.completed''
                     [(''id'', JString (bj_id job)), (''runId'', JInt (uint run_id)),
                      (''result'', rs_payload response)]], True)
          else ([failure_event job run_id ErrorCode.BackgroundJobFailed
                   (case rs_error response of
                      None \<Rightarrow> ''PHP background job returned an unspecified failure.''
                    | Some e \<Rightarrow> pe_message e)], False)
      | Inl e \<Rightarrow>
          ([failure_event job run_id (worker_error_code e) (worker_error_text e)], False))"

definition outcome_effects :: "WorkerRequestError + ResponseEnvelope \<Rightarrow> Effect list" where
  "outcome_effects result =
     (case result of
        Inr response \<Rightarrow>
          if rs_status response = ResponseStatus.Success then rs_effects response else []
      | Inl _ \<Rightarrow> [])"

definition run_job ::
    "host \<Rightarrow> dispatcher \<Rightarrow> BackgroundJobConfig \<Rightarrow> job_world \<Rightarrow> run_env \<Rightarrow>
     job_world \<times> RequestEnvelope list \<times> bool" where
  "run_job h d job w env =
     (if rn_stopped env then (w, [], False)
      else
        let run_id = jw_next_run w;
            w1 = w\<lparr>jw_next_run := run_id + 1\<rparr>
        in if bj_overlap job = JobOverlapPolicy.Skip \<and> rn_busy env
           then (announce w1 (job_event ''pam.job.skipped''
                   [(''id'', JString (bj_id job)), (''runId'', JInt (uint run_id)),
                    (''reason'', JInt 1)]), [], True)
           else if rn_stopped_after env then (w1, [], False)
           else
             let pairs = run_fields job run_id (rn_started_at_ms env);
                 w2 = announce w1 (job_event ''pam.job.started'' pairs)
             in case supervisor_request h (jw_supervisor w2) JOB_COMMAND MAIN_WINDOW_ID
                       (JObject pairs) (unat (bj_timeout_ms job) * 1000000)
                       (rn_spawn env) (rn_exchange env) (rn_respawn env) of
                  (s', sent, result) \<Rightarrow>
                    let w3 = w2\<lparr>jw_supervisor := s',
                          jw_applied := jw_applied w2 @ dispatch_effects d (outcome_effects result)\<rparr>;
                        (events, ok) = outcome_events job run_id result
                    in (foldl announce w3 events, sent, ok))"

section \<open>Attempts, cycles and the thread\<close>

definition retry_delay :: "BackgroundJobConfig \<Rightarrow> nat \<Rightarrow> u64" where
  "retry_delay job attempt = sat_mul (bj_retry_backoff_ms job) (push_bit (attempt - 1) 1)"

record attempt_env =
  at_journal :: "string option"
  at_run :: run_env
  at_stop :: bool

text \<open>What happened in an attempt, for the theorems: its number, its result, the wait after it.\<close>

datatype attempt_trace = Attempt nat bool "u64 option"

text \<open>
  \<open>for attempt in 1..=job.maximum_attempts\<close>; the flag of the result says that the thread
  returns.
\<close>

function attempt_loop ::
    "host \<Rightarrow> dispatcher \<Rightarrow> BackgroundJobConfig \<Rightarrow> (nat \<Rightarrow> attempt_env) \<Rightarrow> nat \<Rightarrow> job_world \<Rightarrow>
     job_world \<times> bool \<times> attempt_trace list" where
  "attempt_loop h d job envs attempt w =
     (if attempt > unat (bj_maximum_attempts job) then (w, False, [])
      else
        case journal_started (jw_journal w) job (of_nat attempt) (at_journal (envs attempt)) of
          (j, Inl e) \<Rightarrow> (announce (w\<lparr>jw_journal := j\<rparr>) (journal_failed_event job e), True, [])
        | (j, Inr _) \<Rightarrow>
            (case run_job h d job (w\<lparr>jw_journal := j\<rparr>) (at_run (envs attempt)) of
               (w', sent, ok) \<Rightarrow>
                 if ok then (w', False, [Attempt attempt True None])
                 else if attempt < unat (bj_maximum_attempts job)
                 then let delay = retry_delay job attempt
                   in if at_stop (envs attempt)
                      then (w', True, [Attempt attempt False (Some delay)])
                      else (case attempt_loop h d job envs (Suc attempt) w' of
                              (w'', exit, trace) \<Rightarrow>
                                (w'', exit, Attempt attempt False (Some delay) # trace))
                 else (w', False, [Attempt attempt False None])))"
  by pat_completeness auto
termination
  by (relation "measure (\<lambda>(h, d, job, envs, attempt, w).
        Suc (unat (bj_maximum_attempts job)) - attempt)") auto

declare attempt_loop.simps [simp del]

record cycle_env =
  cy_attempts :: "nat \<Rightarrow> attempt_env"
  cy_now_ms :: u64
  cy_journal :: "string option"
  cy_stop :: bool

definition job_cycle ::
    "host \<Rightarrow> dispatcher \<Rightarrow> BackgroundJobConfig \<Rightarrow> job_world \<Rightarrow> cycle_env \<Rightarrow>
     job_world \<times> bool \<times> attempt_trace list" where
  "job_cycle h d job w env =
     (case attempt_loop h d job (cy_attempts env) 1 w of
        (w1, True, trace) \<Rightarrow> (w1, True, trace)
      | (w1, False, trace) \<Rightarrow>
          (case journal_finished (jw_journal w1) job (cy_now_ms env) (cy_journal env) of
             (j, Inl e) \<Rightarrow>
               (announce (w1\<lparr>jw_journal := j\<rparr>) (journal_failed_event job e), True, trace)
           | (j, Inr _) \<Rightarrow> (w1\<lparr>jw_journal := j\<rparr>, cy_stop env, trace)))"

text \<open>The thread until it returns, or until the cycles that are looked at are over.\<close>

fun job_cycles ::
    "host \<Rightarrow> dispatcher \<Rightarrow> BackgroundJobConfig \<Rightarrow> job_world \<Rightarrow> cycle_env list \<Rightarrow>
     job_world \<times> bool \<times> attempt_trace list list" where
  "job_cycles h d job w [] = (w, False, [])"
| "job_cycles h d job w (env # envs) =
     (case job_cycle h d job w env of
        (w', True, trace) \<Rightarrow> (w', True, [trace])
      | (w', False, trace) \<Rightarrow>
          (case job_cycles h d job w' envs of (w'', exit, traces) \<Rightarrow> (w'', exit, trace # traces)))"

definition job_thread ::
    "host \<Rightarrow> dispatcher \<Rightarrow> BackgroundJobConfig \<Rightarrow> job_world \<Rightarrow> u64 \<Rightarrow> bool \<Rightarrow> cycle_env list \<Rightarrow>
     u64 \<times> job_world \<times> bool \<times> attempt_trace list list" where
  "job_thread h d job w now_ms stopped envs =
     (journal_initial_delay (jw_journal w) now_ms job,
      if stopped then (w, True, []) else job_cycles h d job w envs)"

section \<open>Lemmas\<close>

lemma announce_simps [simp]:
  "jw_hub (announce w e) = publish (jw_hub w) e"
  "jw_supervisor (announce w e) = jw_supervisor w"
  "jw_journal (announce w e) = jw_journal w"
  "jw_applied (announce w e) = jw_applied w"
  "jw_next_run (announce w e) = jw_next_run w"
  by (simp_all add: announce_def)

lemma announce_all [simp]:
  "jw_hub (foldl announce w es) = publish_all (jw_hub w) es"
  "jw_supervisor (foldl announce w es) = jw_supervisor w"
  "jw_journal (foldl announce w es) = jw_journal w"
  "jw_applied (foldl announce w es) = jw_applied w"
  by (induction es arbitrary: w) (simp_all add: publish_all_def)

lemma publish_all_Cons: "publish_all (publish s e) es = publish_all s (e # es)"
  by (simp add: publish_all_def)

text \<open>The order of the lifecycle events of one run.\<close>

definition run_events_ok :: "ClientEvent list \<Rightarrow> bool \<Rightarrow> bool" where
  "run_events_ok events ok \<longleftrightarrow>
     events = [] \<and> \<not> ok \<or>
     map ce_name events = [''pam.job.skipped''] \<and> ok \<or>
     map ce_name events = [''pam.job.started'', ''pam.job.failed''] \<and> \<not> ok \<or>
     (ok \<and> 2 \<le> length events \<and> ce_name (hd events) = ''pam.job.started'' \<and>
      ce_name (last events) = ''pam.job.completed'')"

lemma outcome_events_shape:
  "outcome_events job i result = (events, ok) \<Longrightarrow>
     ok \<and> events \<noteq> [] \<and> ce_name (last events) = ''pam.job.completed'' \<or>
     \<not> ok \<and> map ce_name events = [''pam.job.failed''] \<and> outcome_effects result = []"
  by (auto simp: outcome_events_def outcome_effects_def failure_event_def job_event_def
      split: sum.splits if_splits)

lemma job_command_not_boot: "JOB_COMMAND \<noteq> BOOT_COMMAND"
  by (simp add: JOB_COMMAND_def BOOT_COMMAND_def)

lemma run_job_effect:
  assumes "run_job h d job w env = (w', sent, ok)"
  shows "\<exists>events. jw_hub w' = publish_all (jw_hub w) events \<and> run_events_ok events ok \<and>
     length (filter (\<lambda>q. \<not> booting q) sent) \<le> 1 \<and>
     (\<not> ok \<longrightarrow> jw_applied w' = jw_applied w) \<and> jw_journal w' = jw_journal w"
proof -
  let ?done = "rn_stopped env \<or> bj_overlap job = JobOverlapPolicy.Skip \<and> rn_busy env \<or>
    rn_stopped_after env"
  show ?thesis
  proof (cases ?done)
    case True
    consider "sent = []" "\<not> ok" "jw_hub w' = publish_all (jw_hub w) []"
        "jw_applied w' = jw_applied w" "jw_journal w' = jw_journal w"
      | e where "sent = []" "ok" "jw_hub w' = publish_all (jw_hub w) [e]"
        "ce_name e = ''pam.job.skipped''" "jw_journal w' = jw_journal w"
      using assms True
      by (auto simp: run_job_def Let_def publish_all_def job_event_def split: if_splits)
    then show ?thesis
      by cases (auto simp: run_events_ok_def)
  next
    case False
    define pairs where "pairs = run_fields job (jw_next_run w) (rn_started_at_ms env)"
    obtain s' q result where req: "supervisor_request h (jw_supervisor w) JOB_COMMAND MAIN_WINDOW_ID
        (JObject pairs) (unat (bj_timeout_ms job) * 1000000)
        (rn_spawn env) (rn_exchange env) (rn_respawn env) = (s', q, result)"
      by (metis prod_cases3)
    obtain events ok' where out: "outcome_events job (jw_next_run w) result = (events, ok')"
      by (metis surj_pair)
    define started where "started = job_event ''pam.job.started'' pairs"
    have w': "jw_hub w' = publish_all (jw_hub w) (started # events)" "sent = q" "ok = ok'"
      "jw_applied w' = jw_applied w @ dispatch_effects d (outcome_effects result)"
      "jw_journal w' = jw_journal w"
      using assms False req out
      by (auto simp: run_job_def Let_def started_def pairs_def publish_all_Cons)
    moreover have "length (filter (\<lambda>q. \<not> booting q) q) \<le> 1"
      using supervisor_request_writes_once [OF req job_command_not_boot] by auto
    moreover have "ce_name started = ''pam.job.started''"
      by (simp add: started_def job_event_def)
    ultimately show ?thesis
      using outcome_events_shape [OF out]
      by (intro exI [of _ "started # events"])
        (auto simp: run_events_ok_def dispatch_effects_def Suc_le_eq split: dispatcher.split)
  qed
qed






section \<open>Properties of background jobs\<close>


text \<open>
  The backoff of an accepted job is exactly the configured time doubled for every further
  attempt: it never saturates and the shift never exceeds eight places.
\<close>
theorem backoff_doubles_exactly:
  assumes "validate_background_job job = Inr ()"
    and "1 \<le> i" and "i < unat (bj_maximum_attempts job)"
  shows "unat (retry_delay job i) = unat (bj_retry_backoff_ms job) * 2 ^ (i - 1) \<and>
     unat (retry_delay job i) \<le> 86400000 * 2 ^ 8"
proof -
  have bounds: "unat (bj_retry_backoff_ms job) \<le> 86400000" "unat (bj_maximum_attempts job) \<le> 10"
    using assms(1)
    by (simp_all add: validate_background_job_Inr between_def word_le_nat_alt MAX_INTERVAL_MS_def)
  then have "i - 1 \<le> 8" using assms(3) by linarith
  have k: "i - 1 < 64" using \<open>i - 1 \<le> 8\<close> by linarith
  have p: "(2::nat) ^ (i - 1) \<le> 2 ^ 8" using \<open>i - 1 \<le> 8\<close> by (intro power_increasing) auto
  then have "unat (push_bit (i - 1) (1 :: u64)) = 2 ^ (i - 1)"
    using k by (simp only: unsigned_push_bit_eq) (simp add: push_bit_eq_mult take_bit_nat_eq_self)
  moreover have m: "unat (bj_retry_backoff_ms job) * 2 ^ (i - 1) \<le> 86400000 * 2 ^ 8"
    using bounds(1) p by (rule mult_le_mono)
  ultimately show ?thesis
    by (simp add: retry_delay_def unat_sat_mul)
qed

text \<open>
  The journal resumes a persistent job: with the entry of a started attempt on disk, a host
  that opens the journal again runs the job at once; with the entry of a cycle that finished
  at \<open>t\<close>, it waits until \<open>t\<close> plus the interval, and never longer than the interval.
\<close>
theorem journal_resumes_job:
  assumes "bj_persistent job" and "t \<le> now"
  shows "journal_initial_delay
       (journal_open (Some (jj_file (fst (journal_started j job attempt None))))) now' job = 0 \<and>
    unat (journal_initial_delay
       (journal_open (Some (jj_file (fst (journal_finished j job t None))))) now job) =
      min (unat t + unat (bj_interval_ms job)) (2 ^ 64 - 1) - unat now \<and>
    journal_initial_delay
       (journal_open (Some (jj_file (fst (journal_finished j job t None))))) now job
      \<le> bj_interval_ms job"
proof -
  let ?d = "journal_initial_delay
       (journal_open (Some (jj_file (fst (journal_finished j job t None))))) now job"
  have started: "journal_initial_delay
       (journal_open (Some (jj_file (fst (journal_started j job attempt None))))) now' job = 0"
    using assms(1)
    by (simp add: journal_initial_delay_def journal_open_def journal_started_def journal_update_def Let_def)
  have "?d = sat_sub (sat_add t (bj_interval_ms job)) now"
    using assms(1)
    by (simp add: journal_initial_delay_def journal_open_def journal_finished_def journal_update_def Let_def)
  then have d: "unat ?d = min (unat t + unat (bj_interval_ms job)) (2 ^ 64 - 1) - unat now"
    by (simp add: unat_sat_sub unat_sat_add)
  moreover have "unat t \<le> unat now"
    using assms(2) by (simp add: word_le_nat_alt)
  ultimately have "unat ?d \<le> unat (bj_interval_ms job)"
    by linarith
  with started d show ?thesis
    by (simp add: word_le_nat_alt)
qed

text \<open>
  Every run tells the application what happened, in order: nothing when the host is
  stopping, one \<open>skipped\<close> event when the worker was busy, otherwise \<open>started\<close> first and
  \<open>completed\<close> last, or \<open>started\<close> and \<open>failed\<close>; a run that did not succeed applies no effect,
  and no run writes more than one job command to a worker.
\<close>
theorem run_publishes_its_outcome:
  assumes "run_job h d job w env = (w', sent, ok)"
  shows "\<exists>events. jw_hub w' = publish_all (jw_hub w) events \<and>
     (events = [] \<and> \<not> ok \<or>
      map ce_name events = [''pam.job.skipped''] \<and> ok \<or>
      map ce_name events = [''pam.job.started'', ''pam.job.failed''] \<and> \<not> ok \<or>
      ok \<and> 2 \<le> length events \<and> ce_name (hd events) = ''pam.job.started'' \<and>
        ce_name (last events) = ''pam.job.completed'') \<and>
     (\<not> ok \<longrightarrow> jw_applied w' = jw_applied w) \<and>
     length (filter (\<lambda>q. \<not> booting q) sent) \<le> 1"
  using run_job_effect [OF assms] unfolding run_events_ok_def by metis

subsection \<open>Witnesses\<close>

definition idle_world :: job_world where
  "idle_world = \<lparr>jw_supervisor = \<lparr>sv_worker = None, sv_bootstrap = sample_bootstrap, sv_generation = 1\<rparr>,
     jw_hub = empty_hub, jw_next_run = 1, jw_journal = journal_open None, jw_applied = []\<rparr>"

definition busy_run :: run_env where
  "busy_run = \<lparr>rn_stopped = False, rn_busy = True, rn_stopped_after = False, rn_started_at_ms = 7,
     rn_spawn = no_spawn, rn_exchange = hung_up, rn_respawn = no_spawn\<rparr>"


lemma sample_job_fields:
  "bj_persistent sample_job" "bj_maximum_attempts sample_job = 3"
  "bj_overlap sample_job = JobOverlapPolicy.Skip" "bj_interval_ms sample_job = 60000"
  "bj_retry_backoff_ms sample_job = 1000"
  by (simp_all add: sample_job_def)





theorem backoff_doubles_exactly_witness:
  "unat (retry_delay sample_job 2) = 2000"
  using backoff_doubles_exactly [OF sample_job_valid, of 2] by (simp add: sample_job_fields)

theorem journal_resumes_job_witness:
  "journal_initial_delay
     (journal_open (Some (jj_file (fst (journal_finished (journal_open None) sample_job 5 None))))) 8
     sample_job \<le> 60000"
  using journal_resumes_job [of sample_job 5 8 "journal_open None" 1 0]
  by (simp add: sample_job_fields)

lemma busy_run_skips:
  "run_job (plain_host sample_bootstrap) Ui sample_job idle_world busy_run =
     (announce (idle_world\<lparr>jw_next_run := 2\<rparr>) (job_event ''pam.job.skipped''
        [(''id'', JString ''sync''), (''runId'', JInt 1), (''reason'', JInt 1)]), [], True)"
  by (simp add: run_job_def busy_run_def sample_job_def idle_world_def Let_def)

theorem run_publishes_its_outcome_witness:
  "\<exists>events. jw_hub (announce (idle_world\<lparr>jw_next_run := 2\<rparr>) (job_event ''pam.job.skipped''
        [(''id'', JString ''sync''), (''runId'', JInt 1), (''reason'', JInt 1)])) =
     publish_all (jw_hub idle_world) events"
  using run_publishes_its_outcome [OF busy_run_skips] by blast

end
