(* ===== verification/PermissionAudit.thy ===== *)
theory PermissionAudit
  imports ProjectFiles "HOL-Library.List_Lexorder" "HOL-Library.Char_ord"
    "HOL-Library.Product_Lexorder" "HOL-Library.Multiset"
begin

text \<open>
  \<open>pam-desktop audit permissions\<close>: \<open>permission_audit.rs\<close>.  The audit turns the capabilities of
  a bootstrap into findings, orders them by severity, and fails when one reaches the severity
  that is denied.  The theorems say what an application that passes cannot have.
\<close>

section \<open>Findings\<close>

datatype Severity = Info | Warning | High | Critical

fun Severity_code :: "Severity \<Rightarrow> u8" where
  "Severity_code Info = 1"
| "Severity_code Warning = 2"
| "Severity_code High = 3"
| "Severity_code Critical = 4"

record Finding =
  fi_severity_code :: u8
  fi_rule :: string
  fi_resource :: string
  fi_message :: string
  fi_remediation :: string

definition new_finding :: "Severity \<Rightarrow> string \<Rightarrow> string \<Rightarrow> string \<Rightarrow> string \<Rightarrow> Finding" where
  "new_finding severity rule resource message remediation =
     \<lparr>fi_severity_code = Severity_code severity, fi_rule = rule, fi_resource = resource,
      fi_message = message, fi_remediation = remediation\<rparr>"

text \<open>\<open>Finding::severity\<close>; the last branch of the source is unreachable.\<close>

definition finding_severity :: "Finding \<Rightarrow> Severity" where
  "finding_severity f =
     (if fi_severity_code f = 1 then Info
      else if fi_severity_code f = 2 then Warning
      else if fi_severity_code f = 3 then High
      else Critical)"

section \<open>The rules\<close>

definition audit_root ::
    "filesystem \<Rightarrow> string \<Rightarrow> FileSystemRootConfig \<Rightarrow> Finding list" where
  "audit_root fs project_root root =
     (let candidate = (if path_is_absolute (fr_path root) then fr_path root
                       else path_join project_root (fr_path root))
      in case fs_canonicalize fs candidate of
           None \<Rightarrow>
             [new_finding Critical ''filesystem.unresolved'' (fr_name root)
                ''The filesystem capability cannot be resolved to a stable directory.''
                ''Create the directory before auditing and reject symlinks or missing release paths.'']
         | Some resolved \<Rightarrow>
             let external = \<not> path_starts_with resolved project_root;
                 broad = path_starts_with project_root resolved;
                 writable = (fr_access root = FileAccess.Write \<or> fr_access root = FileAccess.ReadWrite)
             in if writable \<and> (external \<or> broad)
                then [new_finding Critical ''filesystem.broad-write'' (fr_name root)
                  ''A writable filesystem root includes the whole project or an external directory.''
                  ''Restrict writes to a dedicated project data directory with the narrowest access mode.'']
                else if external \<or> broad
                then [new_finding High ''filesystem.broad-read'' (fr_name root)
                  ''A readable filesystem root includes the whole project or an external directory.''
                  ''Copy required assets into a dedicated read-only project directory.'']
                else if writable
                then [new_finding Warning ''filesystem.write'' (fr_name root)
                  ''The renderer can request writes inside this named root.''
                  ''Keep generated and user data isolated from code, credentials and bundled assets.'']
                else [])"

definition audit_filesystem :: "filesystem \<Rightarrow> string \<Rightarrow> NativeCapabilities \<Rightarrow> Finding list" where
  "audit_filesystem fs project_root c = concat (map (audit_root fs project_root) (nc_filesystem_roots c))"

definition found_if :: "bool \<Rightarrow> Finding \<Rightarrow> Finding list" where
  "found_if c f = (if c then [f] else [])"

definition audit_sensitive_capabilities :: "NativeCapabilities \<Rightarrow> Finding list" where
  "audit_sensitive_capabilities c =
     found_if (nc_clipboard_read c)
       (new_finding High ''clipboard.read'' ''clipboard''
         ''The renderer can read clipboard contents, which may contain secrets.''
         ''Prefer paste events or an explicit user action and disable ambient clipboard reads.'') @
     found_if (nc_clipboard_write c)
       (new_finding Warning ''clipboard.write'' ''clipboard''
         (''The renderer can replace the user'' @ [CHR 0x27] @ ''s clipboard contents.'')
         ''Expose clipboard writes only from a visible user gesture.'') @
     found_if (nc_secrets c)
       (new_finding High ''secrets.access'' ''secret-service''
         ''Application commands can access operating-system secret storage.''
         ''Keep secret operations behind narrow PHP commands and never return secret values to untrusted views.'') @
     found_if (nc_dialogs c \<or> nc_drag_and_drop c \<or> nc_desktop_portal c)
       (new_finding Warning ''user-mediated.external-access'' ''desktop-integration''
         ''User-mediated integrations can grant temporary access to external files or desktop services.''
         ''Preserve explicit consent and avoid persisting grants or ambient paths.'') @
     found_if (nc_system_information c)
       (new_finding Warning ''system.information'' ''system-information''
         ''The application can inspect bounded host, network, power and memory metadata.''
         ''Collect only operational fields and disclose diagnostics collection to users.'')"

text \<open>\<open>after_scheme.find('/').map_or("/", |index| &after_scheme[index..])\<close>\<close>

definition origin_base_path :: "string \<Rightarrow> string" where
  "origin_base_path origin =
     (let after_scheme = (case strip_prefix ''https://'' origin of Some s \<Rightarrow> s | None \<Rightarrow> origin);
          rest = dropWhile (\<lambda>c. c \<noteq> slash) after_scheme
      in if rest = [] then ''/'' else rest)"

definition audit_process :: "ProcessCommandConfig \<Rightarrow> Finding" where
  "audit_process p =
     (if pc_argument_policy p = ProcessArgumentPolicy.Append
      then new_finding High ''process.dynamic-arguments'' (pc_name p)
        ''The renderer can append runtime arguments to a bundled executable.''
        ''Prefer fixed arguments and validate all process inputs in a narrow PHP command.''
      else new_finding Warning ''process.execution'' (pc_name p)
        ''The renderer can launch a bundled executable with fixed arguments.''
        ''Prefer fixed arguments and validate all process inputs in a narrow PHP command.'')"

definition audit_network_and_processes :: "NativeCapabilities \<Rightarrow> Finding list" where
  "audit_network_and_processes c =
     concat (map (\<lambda>origin. found_if (origin_base_path (ho_origin origin) = ''/'')
       (new_finding Warning ''http.origin-wide'' (ho_name origin)
         ''The native HTTP capability allows every path on its HTTPS origin.''
         ''Declare the narrowest stable API base path instead of the origin root.''))
       (nc_http_origins c)) @
     map audit_process (nc_processes c)"

definition audit_capabilities :: "filesystem \<Rightarrow> string \<Rightarrow> NativeCapabilities \<Rightarrow> Finding list" where
  "audit_capabilities fs project_root c =
     audit_filesystem fs project_root c @ audit_sensitive_capabilities c @
     audit_network_and_processes c"

definition audit_plugin :: "RustPluginConfig \<Rightarrow> Finding list" where
  "audit_plugin p =
     found_if (rp_sandbox p = PluginSandboxMode.Inherited)
       (new_finding Critical ''plugin.unsandboxed'' (rp_id p)
         ''The Rust plugin inherits the complete operating-system authority of the application user.''
         ''Enable strict sandboxing and grant only the required filesystem, network, shell and device capabilities.'') @
     [if rp_sha256 p \<noteq> None
      then new_finding Warning ''plugin.process'' (rp_id p)
        ''A process-isolated Rust plugin receives application-defined native commands.''
        ''Keep the command allowlist minimal and review plugin updates before changing the digest.''
      else new_finding Critical ''plugin.unpinned'' (rp_id p)
        ''A Rust plugin executable is not pinned to a SHA-256 digest.''
        ''Set the plugin SHA-256 digest and update it only through a reviewed release process.'']"

definition audit_plugins :: "RustPluginConfig list \<Rightarrow> Finding list" where
  "audit_plugins plugins = concat (map audit_plugin plugins)"

definition audit_application :: "Bootstrap \<Rightarrow> Finding list" where
  "audit_application b =
     found_if (lc_autostart (am_lifecycle (bs_manifest b)))
       (new_finding High ''lifecycle.autostart'' ''application''
         ''The application starts automatically with the user session.''
         ''Keep autostart disabled unless continuous background execution is essential and disclosed.'') @
     found_if (am_updates (bs_manifest b) = None)
       (new_finding Info ''updates.disabled'' ''application''
         ''Signed automatic update delivery is not configured.''
         ''Document the external patch channel or configure a signed HTTPS update feed before release.'') @
     found_if (bs_background_jobs b \<noteq> [])
       (new_finding Warning ''runtime.background-jobs''
         (decimal (length (bs_background_jobs b)) @ '' jobs'')
         ''PHP jobs execute while the desktop host is running.''
         ''Review every schedule, overlap policy and command for least privilege and bounded work.'') @
     found_if (sc_shortcuts (bs_shell b) \<noteq> [])
       (new_finding Warning ''shell.global-shortcuts''
         (decimal (length (sc_shortcuts (bs_shell b))) @ '' shortcuts'')
         ''Global shortcuts receive input outside the application windows.''
         ''Register only essential shortcuts and disclose them in application settings.'')"

text \<open>Severity first, the highest before, then the rule, then the resource.\<close>

definition finding_key :: "Finding \<Rightarrow> int \<times> string \<times> string" where
  "finding_key f = (- uint (fi_severity_code f), fi_rule f, fi_resource f)"

definition audit_findings :: "filesystem \<Rightarrow> string \<Rightarrow> Bootstrap \<Rightarrow> Finding list" where
  "audit_findings fs project_root b =
     audit_capabilities fs project_root (bs_capabilities b) @ audit_plugins (bs_rust_plugins b) @
     audit_application b"

definition audit :: "filesystem \<Rightarrow> string \<Rightarrow> Bootstrap \<Rightarrow> Finding list" where
  "audit fs project_root b = sort_key finding_key (audit_findings fs project_root b)"

section \<open>The command\<close>

record Options =
  op_project :: string
  op_json :: bool
  op_deny :: Severity

text \<open>\<open>parse\<close>: \<open>None\<close> is the usage error; arguments that are not UTF-8 are \<open>None\<close> too.\<close>

fun parse_arguments :: "string option list \<Rightarrow> bool \<Rightarrow> Options \<Rightarrow> Options option" where
  "parse_arguments [] positional options = Some options"
| "parse_arguments (argument # rest) positional options =
     (case argument of
        None \<Rightarrow> None
      | Some v \<Rightarrow>
          if v = ''--json'' then parse_arguments rest positional (options\<lparr>op_json := True\<rparr>)
          else if v = ''--deny-high'' then parse_arguments rest positional (options\<lparr>op_deny := High\<rparr>)
          else if \<not> starts_with ''-'' v \<and> \<not> positional
          then parse_arguments rest True (options\<lparr>op_project := v\<rparr>)
          else None)"

definition parse_audit :: "string option list \<Rightarrow> Options option" where
  "parse_audit arguments =
     (case arguments of
        Some a # rest \<Rightarrow>
          if a = ''permissions''
          then parse_arguments rest False \<lparr>op_project = ''.'', op_json = False, op_deny = Critical\<rparr>
          else None
      | _ \<Rightarrow> None)"

record Counts =
  cn_info :: nat
  cn_warning :: nat
  cn_high :: nat
  cn_critical :: nat

definition counts :: "Finding list \<Rightarrow> Counts" where
  "counts findings =
     \<lparr>cn_info = length (filter (\<lambda>f. finding_severity f = Info) findings),
      cn_warning = length (filter (\<lambda>f. finding_severity f = Warning) findings),
      cn_high = length (filter (\<lambda>f. finding_severity f = High) findings),
      cn_critical = length (filter (\<lambda>f. finding_severity f = Critical) findings)\<rparr>"

text \<open>\<open>Severity\<close> is ordered as its codes are.\<close>

definition severity_at_least :: "Severity \<Rightarrow> Severity \<Rightarrow> bool" where
  "severity_at_least a b \<longleftrightarrow> Severity_code b \<le> Severity_code a"

record Report =
  rt_result_code :: nat
  rt_deny_severity_code :: u8
  rt_application_identifier :: string
  rt_counts :: Counts
  rt_findings :: "Finding list"

definition audit_failed :: "Severity \<Rightarrow> Finding list \<Rightarrow> bool" where
  "audit_failed deny findings = list_ex (\<lambda>f. severity_at_least (finding_severity f) deny) findings"

definition audit_run :: "filesystem \<Rightarrow> Options \<Rightarrow> Project \<Rightarrow> Bootstrap \<Rightarrow> Report \<times> (string + unit)" where
  "audit_run fs options project b =
     (let findings = audit fs (pj_root project) b;
          failed = audit_failed (op_deny options) findings
      in (\<lparr>rt_result_code = (if failed then 2 else 1),
           rt_deny_severity_code = Severity_code (op_deny options),
           rt_application_identifier = am_identifier (bs_manifest b),
           rt_counts = counts findings, rt_findings = findings\<rparr>,
          if failed then Inl ''permission audit failed'' else Inr ()))"

section \<open>Lemmas\<close>

lemma finding_severity_new [simp]: "finding_severity (new_finding s r n m m') = s"
  by (cases s) (simp_all add: finding_severity_def new_finding_def)

lemma found_if_mem: "f \<in> set (found_if c g) \<longleftrightarrow> c \<and> f = g"
  by (auto simp: found_if_def)

lemma severity_at_least_simps:
  "severity_at_least s Critical \<longleftrightarrow> s = Critical"
  "severity_at_least s High \<longleftrightarrow> s = High \<or> s = Critical"
  unfolding severity_at_least_def
  by (cases s, simp_all add: word_le_nat_alt) (cases s, simp_all add: word_le_nat_alt)

lemma set_audit: "set (audit fs root b) = set (audit_findings fs root b)"
  by (simp add: audit_def)

lemma length_audit_counts:
  "cn_info (counts fs) + cn_warning (counts fs) + cn_high (counts fs) + cn_critical (counts fs) = length fs"
proof (induction fs)
  case (Cons f fs)
  then show ?case
    by (cases "finding_severity f") (simp_all add: counts_def)
qed (simp add: counts_def)

text \<open>What it means for the directory of a capability to lie properly inside the project.\<close>

definition root_confined :: "filesystem \<Rightarrow> string \<Rightarrow> FileSystemRootConfig \<Rightarrow> bool" where
  "root_confined fs project_root root \<longleftrightarrow>
     (\<exists>resolved. fs_canonicalize fs
          (if path_is_absolute (fr_path root) then fr_path root
           else path_join project_root (fr_path root)) = Some resolved \<and>
        path_starts_with resolved project_root \<and> \<not> path_starts_with project_root resolved)"

definition root_writable :: "FileSystemRootConfig \<Rightarrow> bool" where
  "root_writable root \<longleftrightarrow> fr_access root = FileAccess.Write \<or> fr_access root = FileAccess.ReadWrite"

definition silent :: "Severity \<Rightarrow> Finding list \<Rightarrow> bool" where
  "silent deny findings \<longleftrightarrow> (\<forall>f \<in> set findings. \<not> severity_at_least (finding_severity f) deny)"

lemma silent_simps:
  "silent d (xs @ ys) \<longleftrightarrow> silent d xs \<and> silent d ys"
  "silent d [f] \<longleftrightarrow> \<not> severity_at_least (finding_severity f) d"
  "silent d (found_if c f) \<longleftrightarrow> (c \<longrightarrow> \<not> severity_at_least (finding_severity f) d)"
  "silent d (concat (map g zs)) \<longleftrightarrow> (\<forall>z \<in> set zs. silent d (g z))"
  "silent d (map h zs) \<longleftrightarrow> (\<forall>z \<in> set zs. \<not> severity_at_least (finding_severity (h z)) d)"
  by (auto simp: silent_def found_if_def)

lemma silent_audit:
  "\<not> audit_failed d (audit fs root b) \<longleftrightarrow> silent d (audit_findings fs root b)"
  by (simp add: audit_failed_def list_ex_iff silent_def set_audit)

lemma audit_root_critical:
  "silent Critical (audit_root fs project_root root) \<longleftrightarrow>
     (\<exists>resolved. fs_canonicalize fs
          (if path_is_absolute (fr_path root) then fr_path root
           else path_join project_root (fr_path root)) = Some resolved) \<and>
     (root_writable root \<longrightarrow> root_confined fs project_root root)"
  by (cases "fs_canonicalize fs (if path_is_absolute (fr_path root) then fr_path root
        else path_join project_root (fr_path root))")
    (simp_all add: audit_root_def Let_def silent_def severity_at_least_simps root_writable_def
      root_confined_def)

lemma audit_root_high:
  "silent High (audit_root fs project_root root) \<longleftrightarrow> root_confined fs project_root root"
  by (cases "fs_canonicalize fs (if path_is_absolute (fr_path root) then fr_path root
        else path_join project_root (fr_path root))")
    (simp_all add: audit_root_def Let_def silent_def severity_at_least_simps root_confined_def)

lemma audit_plugin_silent:
  "silent Critical (audit_plugin p) \<longleftrightarrow> rp_sandbox p \<noteq> PluginSandboxMode.Inherited \<and> rp_sha256 p \<noteq> None"
  "silent High (audit_plugin p) \<longleftrightarrow> rp_sandbox p \<noteq> PluginSandboxMode.Inherited \<and> rp_sha256 p \<noteq> None"
  by (auto simp: audit_plugin_def silent_simps severity_at_least_simps)

lemma audit_parts_critical:
  "silent Critical (audit_sensitive_capabilities c)" "silent Critical (audit_network_and_processes c)"
  "silent Critical (audit_application b)"
  by (simp_all add: audit_sensitive_capabilities_def audit_network_and_processes_def
      audit_application_def silent_simps severity_at_least_simps audit_process_def)

lemma audit_parts_high:
  "silent High (audit_sensitive_capabilities c) \<longleftrightarrow> \<not> nc_clipboard_read c \<and> \<not> nc_secrets c"
  "silent High (audit_network_and_processes c) \<longleftrightarrow>
     (\<forall>p \<in> set (nc_processes c). pc_argument_policy p \<noteq> ProcessArgumentPolicy.Append)"
  "silent High (audit_application b) \<longleftrightarrow> \<not> lc_autostart (am_lifecycle (bs_manifest b))"
  by (simp_all add: audit_sensitive_capabilities_def audit_network_and_processes_def
      audit_application_def silent_simps severity_at_least_simps audit_process_def)

section \<open>Properties of the permission audit\<close>

text \<open>
  C34. The default audit passes exactly when every file root resolves, every writable root lies
  properly inside the project (neither outside nor the whole project), and every Rust plugin
  is sandboxed and pinned to a digest.  A root that is only read may lie anywhere: that is a high
  finding, which only \<open>--deny-high\<close> refuses.
\<close>
theorem audit_passes_iff_confined:
  "snd (audit_run fs \<lparr>op_project = dir, op_json = json, op_deny = Critical\<rparr> p b) = Inr () \<longleftrightarrow>
     (\<forall>root \<in> set (nc_filesystem_roots (bs_capabilities b)).
        (\<exists>resolved. fs_canonicalize fs
          (if path_is_absolute (fr_path root) then fr_path root
           else path_join (pj_root p) (fr_path root)) = Some resolved) \<and>
        (root_writable root \<longrightarrow> root_confined fs (pj_root p) root)) \<and>
     (\<forall>g \<in> set (bs_rust_plugins b). rp_sandbox g \<noteq> PluginSandboxMode.Inherited \<and> rp_sha256 g \<noteq> None)"
proof -
  have "snd (audit_run fs \<lparr>op_project = dir, op_json = json, op_deny = Critical\<rparr> p b) = Inr () \<longleftrightarrow>
      silent Critical (audit_findings fs (pj_root p) b)"
    by (simp add: audit_run_def Let_def silent_audit [symmetric])
  then show ?thesis
    by (simp add: audit_findings_def audit_capabilities_def audit_filesystem_def audit_plugins_def
        silent_simps audit_parts_critical audit_root_critical audit_plugin_silent)
qed

text \<open>
  With \<open>--deny-high\<close> the audit passes exactly when, besides, all file roots (the readable
  ones too) lie properly inside the project, and there is no clipboard reading, no secret
  storage, no process that takes runtime arguments and no autostart.
\<close>
theorem strict_audit_passes_iff:
  "snd (audit_run fs \<lparr>op_project = dir, op_json = json, op_deny = High\<rparr> p b) = Inr () \<longleftrightarrow>
     (\<forall>root \<in> set (nc_filesystem_roots (bs_capabilities b)). root_confined fs (pj_root p) root) \<and>
     \<not> nc_clipboard_read (bs_capabilities b) \<and> \<not> nc_secrets (bs_capabilities b) \<and>
     (\<forall>c \<in> set (nc_processes (bs_capabilities b)). pc_argument_policy c \<noteq> ProcessArgumentPolicy.Append) \<and>
     (\<forall>g \<in> set (bs_rust_plugins b). rp_sandbox g \<noteq> PluginSandboxMode.Inherited \<and> rp_sha256 g \<noteq> None) \<and>
     \<not> lc_autostart (am_lifecycle (bs_manifest b))"
proof -
  have "snd (audit_run fs \<lparr>op_project = dir, op_json = json, op_deny = High\<rparr> p b) = Inr () \<longleftrightarrow>
      silent High (audit_findings fs (pj_root p) b)"
    by (simp add: audit_run_def Let_def silent_audit [symmetric])
  then show ?thesis
    by (simp add: audit_findings_def audit_capabilities_def audit_filesystem_def audit_plugins_def
        silent_simps audit_parts_high audit_root_high audit_plugin_silent conj_ac)
qed

text \<open>
  The report loses and reorders nothing it should not: it is a permutation of the findings
  the rules produced, the most severe come first, and the four counts add up to their number.
\<close>
theorem report_is_ordered_and_complete:
  "mset (rt_findings (fst (audit_run fs options p b))) = mset (audit_findings fs (pj_root p) b) \<and>
   sorted_wrt (\<lambda>f g. fi_severity_code f \<ge> fi_severity_code g)
     (rt_findings (fst (audit_run fs options p b))) \<and>
   (let c = rt_counts (fst (audit_run fs options p b))
    in cn_info c + cn_warning c + cn_high c + cn_critical c =
         length (audit_findings fs (pj_root p) b))"
proof -
  have "sorted (map finding_key (audit fs (pj_root p) b))"
    by (simp add: audit_def)
  then have "sorted_wrt (\<lambda>f g. fi_severity_code f \<ge> fi_severity_code g) (audit fs (pj_root p) b)"
    unfolding sorted_map
    by (rule sorted_wrt_mono_rel [rotated])
      (auto simp: finding_key_def less_eq_prod_def word_le_def)
  moreover have "length (audit fs (pj_root p) b) = length (audit_findings fs (pj_root p) b)"
    by (simp add: audit_def)
  ultimately show ?thesis
    by (simp add: audit_run_def Let_def length_audit_counts, simp add: audit_def)
qed

subsection \<open>Witnesses\<close>

lemma sample_audit_root:
  "fr_path r = ''data'' \<Longrightarrow> path_join ''/p'' ''data'' = ''/p/data'' \<Longrightarrow>
   root_confined sample_fs ''/p'' r"
  by (simp add: root_confined_def sample_fs_def path_is_absolute_def starts_with_def
      path_starts_with_def sample_components)

theorem audit_passes_iff_confined_witness:
  "snd (audit_run sample_fs \<lparr>op_project = ''.'', op_json = False, op_deny = Critical\<rparr> sample_project
     (sample_bootstrap\<lparr>bs_rust_plugins := [sample_plugin\<lparr>rp_sha256 := Some ''00''\<rparr>]\<rparr>)) = Inr ()"
proof -
  have "path_join ''/p'' ''data'' = ''/p/data''"
    by (simp add: path_join_def path_is_absolute_def starts_with_def slash_def)
  then show ?thesis
    unfolding audit_passes_iff_confined
    by (simp add: sample_bootstrap_def sample_capabilities_def sample_project_def sample_plugin_def
        sample_audit_root, simp add: sample_fs_def)
qed

theorem strict_audit_passes_iff_witness:
  "snd (audit_run sample_fs \<lparr>op_project = ''.'', op_json = False, op_deny = High\<rparr> sample_project
     sample_bootstrap) \<noteq> Inr ()"
  unfolding strict_audit_passes_iff by (simp add: sample_bootstrap_def sample_plugin_def)

end
