(* ===== verification/Versions.thy ===== *)
theory Versions
  imports Validators
begin

text \<open>
  The order of release versions: \<open>compare_versions\<close> and its helpers in \<open>updater.rs\<close>, which
  decide whether a signed release is newer than the running one.
\<close>

section \<open>Orderings\<close>

datatype ordering = Less | Equal | Greater

fun opposite :: "ordering \<Rightarrow> ordering" where
  "opposite Less = Greater"
| "opposite Equal = Equal"
| "opposite Greater = Less"

definition nat_cmp :: "nat \<Rightarrow> nat \<Rightarrow> ordering" where
  "nat_cmp a b = (if a < b then Less else if a = b then Equal else Greater)"

text \<open>\<open>if order != Ordering::Equal { return order; }\<close> and then the rest.\<close>

definition and_then :: "ordering \<Rightarrow> ordering \<Rightarrow> ordering" where
  "and_then order rest = (if order = Equal then rest else order)"

text \<open>\<open>str::cmp\<close> is the lexicographic order of the bytes.\<close>

fun str_cmp :: "string \<Rightarrow> string \<Rightarrow> ordering" where
  "str_cmp [] [] = Equal"
| "str_cmp [] (d # ds) = Less"
| "str_cmp (c # cs) [] = Greater"
| "str_cmp (c # cs) (d # ds) =
     and_then (nat_cmp (byte c) (byte d)) (str_cmp cs ds)"

text \<open>\<open>parse::<u64>\<close>: an optional plus sign, at least one decimal digit, no overflow.\<close>

definition digits_value :: "string \<Rightarrow> nat" where
  "digits_value s = foldl (\<lambda>n c. n * 10 + (byte c - 48)) 0 s"

definition parse_unsigned :: "nat \<Rightarrow> string \<Rightarrow> nat option" where
  "parse_unsigned bits s =
     (let digits = (if starts_with ''+'' s then tl s else s)
      in if digits = [] \<or> \<not> list_all (\<lambda>c. 48 \<le> byte c \<and> byte c \<le> 57) digits then None
         else if digits_value digits < 2 ^ bits then Some (digits_value digits)
         else None)"

definition parse_u64 :: "string \<Rightarrow> nat option" where
  "parse_u64 s = parse_unsigned 64 s"

section \<open>Versions\<close>

definition compare_version_part :: "string \<Rightarrow> string \<Rightarrow> ordering" where
  "compare_version_part left right =
     (case (parse_u64 left, parse_u64 right) of
        (Some l, Some r) \<Rightarrow> nat_cmp l r
      | _ \<Rightarrow> str_cmp left right)"

text \<open>
  The loop over the indices of the longer core; a missing part is \<open>0\<close>.
\<close>

fun compare_cores :: "string list \<Rightarrow> string list \<Rightarrow> ordering" where
  "compare_cores [] [] = Equal"
| "compare_cores (l # ls) [] = and_then (compare_version_part l ''0'') (compare_cores ls [])"
| "compare_cores [] (r # rs) = and_then (compare_version_part ''0'' r) (compare_cores [] rs)"
| "compare_cores (l # ls) (r # rs) = and_then (compare_version_part l r) (compare_cores ls rs)"

definition compare_prerelease_part :: "string \<Rightarrow> string \<Rightarrow> ordering" where
  "compare_prerelease_part left right =
     (case (parse_u64 left, parse_u64 right) of
        (Some l, Some r) \<Rightarrow> nat_cmp l r
      | (Some _, None) \<Rightarrow> Less
      | (None, Some _) \<Rightarrow> Greater
      | (None, None) \<Rightarrow> str_cmp left right)"

fun compare_prerelease_parts :: "string list \<Rightarrow> string list \<Rightarrow> ordering" where
  "compare_prerelease_parts [] [] = Equal"
| "compare_prerelease_parts (l # ls) [] = Greater"
| "compare_prerelease_parts [] (r # rs) = Less"
| "compare_prerelease_parts (l # ls) (r # rs) =
     and_then (compare_prerelease_part l r) (compare_prerelease_parts ls rs)"

definition compare_prerelease :: "string \<Rightarrow> string \<Rightarrow> ordering" where
  "compare_prerelease left right =
     compare_prerelease_parts (split_on CHR ''.'' left) (split_on CHR ''.'' right)"

definition without_build :: "string \<Rightarrow> string" where
  "without_build v = (case split_once CHR ''+'' v of None \<Rightarrow> v | Some (version, _) \<Rightarrow> version)"

definition version_parts :: "string \<Rightarrow> string list \<times> string option" where
  "version_parts v =
     (case split_once CHR ''-'' (without_build v) of
        None \<Rightarrow> (split_on CHR ''.'' (without_build v), None)
      | Some (core, pre) \<Rightarrow> (split_on CHR ''.'' core, Some pre))"

fun compare_presence :: "string option \<Rightarrow> string option \<Rightarrow> ordering" where
  "compare_presence None (Some _) = Greater"
| "compare_presence (Some _) None = Less"
| "compare_presence (Some l) (Some r) = compare_prerelease l r"
| "compare_presence None None = Equal"

definition compare_versions :: "string \<Rightarrow> string \<Rightarrow> ordering" where
  "compare_versions left right =
     and_then (compare_cores (fst (version_parts left)) (fst (version_parts right)))
       (compare_presence (snd (version_parts left)) (snd (version_parts right)))"

definition version_is_newer :: "string \<Rightarrow> string \<Rightarrow> bool" where
  "version_is_newer candidate current \<longleftrightarrow> compare_versions candidate current = Greater"

section \<open>Comparisons that are orders\<close>

text \<open>
  The laws of a comparison on the values of \<open>ok\<close>: swapping the arguments turns the result
  round, equality is neutral, and two equal results compose.  Lexicographic comparisons keep
  these laws.
\<close>

locale comparison =
  fixes cmp :: "'a \<Rightarrow> 'a \<Rightarrow> ordering" and ok :: "'a \<Rightarrow> bool"
  assumes turn: "cmp b a = opposite (cmp a b)"
    and trans_eq: "ok a \<Longrightarrow> ok b \<Longrightarrow> ok c \<Longrightarrow> cmp a b = Equal \<Longrightarrow> cmp a c = cmp b c"
    and trans_less: "ok a \<Longrightarrow> ok b \<Longrightarrow> ok c \<Longrightarrow> cmp a b = Less \<Longrightarrow> cmp b c = Less \<Longrightarrow> cmp a c = Less"
begin

lemma same: "cmp a a = Equal"
  using turn [of a a] by (cases "cmp a a") auto

lemma Greater_iff: "cmp a b = Greater \<longleftrightarrow> cmp b a = Less"
  using turn [of a b] by (cases "cmp b a") auto

lemma Equal_iff: "cmp a b = Equal \<longleftrightarrow> cmp b a = Equal"
  using turn [of a b] by (cases "cmp b a") auto

lemma trans_eq_right:
  assumes "ok a" "ok b" "ok c" "cmp b c = Equal"
  shows "cmp a b = cmp a c"
  using trans_eq [of b c a] assms Equal_iff turn [of a b] turn [of a c] by metis

lemma trans_greater:
  assumes "ok a" "ok b" "ok c" "cmp a b = Greater" "cmp b c = Greater"
  shows "cmp a c = Greater"
  using assms trans_less [of c b a] Greater_iff by blast

text \<open>One more component in front of a comparison keeps its laws.\<close>

lemma chain_turn:
  "d' = opposite d \<Longrightarrow> and_then (cmp y x) d' = opposite (and_then (cmp x y) d)"
  using turn [of y x] by (cases "cmp x y") (auto simp: and_then_def)

lemma chain_eq:
  assumes "ok x" "ok y" "ok z" "and_then (cmp x y) d1 = Equal" "d1 = Equal \<Longrightarrow> d3 = d2"
  shows "and_then (cmp x z) d3 = and_then (cmp y z) d2"
  using assms trans_eq [of x y z] by (auto simp: and_then_def split: if_splits)

lemma chain_less:
  assumes "ok x" "ok y" "ok z" "and_then (cmp x y) d1 = Less" "and_then (cmp y z) d2 = Less"
    and "d1 = Less \<Longrightarrow> d2 = Less \<Longrightarrow> d3 = Less"
  shows "and_then (cmp x z) d3 = Less"
  using assms trans_eq [of x y z] trans_eq_right [of x y z] trans_less [of x y z]
  by (auto simp: and_then_def split: if_splits)

end

interpretation nat_order: comparison nat_cmp "\<lambda>_. True"
  by unfold_locales (auto simp: nat_cmp_def split: if_splits)

lemma str_cmp_laws:
  "str_cmp t s = opposite (str_cmp s t)"
  "str_cmp s t = Equal \<Longrightarrow> str_cmp s u = str_cmp t u"
  "str_cmp s t = Less \<Longrightarrow> str_cmp t u = Less \<Longrightarrow> str_cmp s u = Less"
proof -
  show "str_cmp t s = opposite (str_cmp s t)" for s t
    by (induction s t rule: str_cmp.induct)
      (simp_all add: nat_order.chain_turn)
  show "str_cmp s t = Equal \<Longrightarrow> str_cmp s u = str_cmp t u" for s t u
  proof (induction s t arbitrary: u rule: str_cmp.induct)
    case (4 c cs d ds)
    show ?case
    proof (cases u)
      case (Cons e es)
      show ?thesis
        unfolding Cons str_cmp.simps
        by (rule nat_order.chain_eq [where ?d1.0 = "str_cmp cs ds"]) (use 4 in auto)
    qed simp
  qed auto
  show "str_cmp s t = Less \<Longrightarrow> str_cmp t u = Less \<Longrightarrow> str_cmp s u = Less" for s t u
  proof (induction s t arbitrary: u rule: str_cmp.induct)
    case (2 d ds)
    then show ?case by (cases u) auto
  next
    case (4 c cs d ds)
    show ?case
    proof (cases u)
      case (Cons e es)
      show ?thesis
        unfolding Cons str_cmp.simps
        by (rule nat_order.chain_less [where y = "byte d" and ?d1.0 = "str_cmp cs ds"
              and ?d2.0 = "str_cmp ds es"]) (use 4 Cons in auto)
    qed (use 4 in simp)
  qed auto
qed

interpretation str_order: comparison str_cmp "\<lambda>_. True"
  using str_cmp_laws by unfold_locales blast+

lemma nat_parts:
  "parse_u64 a = Some x \<Longrightarrow> parse_u64 b = Some y \<Longrightarrow> compare_prerelease_part a b = nat_cmp x y"
  "parse_u64 a = Some x \<Longrightarrow> parse_u64 b = Some y \<Longrightarrow> compare_version_part a b = nat_cmp x y"
  "parse_u64 a = Some x \<Longrightarrow> parse_u64 b = None \<Longrightarrow> compare_prerelease_part a b = Less"
  "parse_u64 a = None \<Longrightarrow> parse_u64 b = Some y \<Longrightarrow> compare_prerelease_part a b = Greater"
  "parse_u64 a = None \<Longrightarrow> parse_u64 b = None \<Longrightarrow> compare_prerelease_part a b = str_cmp a b"
  "parse_u64 a = None \<Longrightarrow> compare_version_part a b = str_cmp a b"
  "parse_u64 b = None \<Longrightarrow> compare_version_part a b = str_cmp a b"
  by (simp_all add: compare_prerelease_part_def compare_version_part_def split: option.split)

interpretation prerelease_part_order: comparison compare_prerelease_part "\<lambda>_. True"
proof unfold_locales
  fix a b c
  show "compare_prerelease_part b a = opposite (compare_prerelease_part a b)"
    using nat_order.turn [of "the (parse_u64 b)" "the (parse_u64 a)"] str_order.turn [of b a]
    by (cases "parse_u64 a"; cases "parse_u64 b") (simp_all add: nat_parts)
  show "compare_prerelease_part a b = Equal \<Longrightarrow>
      compare_prerelease_part a c = compare_prerelease_part b c"
    using nat_order.trans_eq [of "the (parse_u64 a)" "the (parse_u64 b)" "the (parse_u64 c)"]
      str_order.trans_eq [of a b c]
    by (cases "parse_u64 a"; cases "parse_u64 b"; cases "parse_u64 c") (simp_all add: nat_parts)
  show "compare_prerelease_part a b = Less \<Longrightarrow> compare_prerelease_part b c = Less \<Longrightarrow>
      compare_prerelease_part a c = Less"
    using nat_order.trans_less [of "the (parse_u64 a)" "the (parse_u64 b)" "the (parse_u64 c)"]
      str_order.trans_less [of a b c]
    by (cases "parse_u64 a"; cases "parse_u64 b"; cases "parse_u64 c") (simp_all add: nat_parts)
qed

interpretation prerelease_order: comparison compare_prerelease_parts "\<lambda>_. True"
proof unfold_locales
  fix a b c :: "string list"
  show "compare_prerelease_parts b a = opposite (compare_prerelease_parts a b)"
    by (induction a b rule: compare_prerelease_parts.induct)
      (simp_all add: prerelease_part_order.chain_turn)
  show "compare_prerelease_parts a b = Equal \<Longrightarrow>
      compare_prerelease_parts a c = compare_prerelease_parts b c"
  proof (induction a b arbitrary: c rule: compare_prerelease_parts.induct)
    case (4 l ls r rs)
    show ?case
    proof (cases c)
      case (Cons e es)
      show ?thesis
        unfolding Cons compare_prerelease_parts.simps
        by (rule prerelease_part_order.chain_eq [where ?d1.0 = "compare_prerelease_parts ls rs"])
          (use 4 in auto)
    qed simp
  qed auto
  show "compare_prerelease_parts a b = Less \<Longrightarrow> compare_prerelease_parts b c = Less \<Longrightarrow>
      compare_prerelease_parts a c = Less"
  proof (induction a b arbitrary: c rule: compare_prerelease_parts.induct)
    case (3 r rs)
    then show ?case by (cases c) auto
  next
    case (4 l ls r rs)
    show ?case
    proof (cases c)
      case (Cons e es)
      show ?thesis
        unfolding Cons compare_prerelease_parts.simps
        by (rule prerelease_part_order.chain_less [where y = r
              and ?d1.0 = "compare_prerelease_parts ls rs" and ?d2.0 = "compare_prerelease_parts rs es"])
          (use 4 Cons in auto)
    qed (use 4 in simp)
  qed auto
qed

text \<open>A part that is a number; the comparison of parts is an order on these only.\<close>

definition numeric_part :: "string \<Rightarrow> bool" where
  "numeric_part s \<longleftrightarrow> parse_u64 s \<noteq> None"

interpretation part_order: comparison compare_version_part numeric_part
proof unfold_locales
  fix a b c
  show "compare_version_part b a = opposite (compare_version_part a b)"
    using nat_order.turn [of "the (parse_u64 b)" "the (parse_u64 a)"] str_order.turn [of b a]
    by (cases "parse_u64 a"; cases "parse_u64 b") (simp_all add: nat_parts)
  assume "numeric_part a" "numeric_part b" "numeric_part c"
  then obtain x y z where "parse_u64 a = Some x" "parse_u64 b = Some y" "parse_u64 c = Some z"
    by (auto simp: numeric_part_def)
  then show "compare_version_part a b = Equal \<Longrightarrow> compare_version_part a c = compare_version_part b c"
    "compare_version_part a b = Less \<Longrightarrow> compare_version_part b c = Less \<Longrightarrow>
      compare_version_part a c = Less"
    using nat_order.trans_eq [of x y z] nat_order.trans_less [of x y z] by (simp_all add: nat_parts)
qed

definition head_part :: "string list \<Rightarrow> string" where
  "head_part ls = (if ls = [] then ''0'' else hd ls)"

lemma numeric_zero: "numeric_part ''0''"
  by (simp add: numeric_part_def parse_u64_def parse_unsigned_def starts_with_def digits_value_def
      byte_def)

lemma compare_cores_step:
  "compare_cores ls rs =
     and_then (compare_version_part (head_part ls) (head_part rs)) (compare_cores (tl ls) (tl rs))"
  by (cases ls; cases rs) (simp_all add: head_part_def part_order.same and_then_def)

lemma head_part_numeric: "list_all numeric_part ls \<Longrightarrow> numeric_part (head_part ls)"
  by (cases ls) (auto simp: head_part_def numeric_zero)

lemma list_all_tl: "list_all P xs \<Longrightarrow> list_all P (tl xs)"
  by (cases xs) auto

lemma cores_shorter:
  "\<not> (a = [] \<and> b = [] \<and> c = []) \<Longrightarrow>
     length (tl a) + length (tl b) + length (tl c) < length a + length b + length c"
  by (cases a; cases b; cases c) auto

lemma compare_cores_trans:
  assumes "list_all numeric_part a" "list_all numeric_part b" "list_all numeric_part c"
  shows "(compare_cores a b = Equal \<longrightarrow> compare_cores a c = compare_cores b c) \<and>
    (compare_cores a b = Less \<and> compare_cores b c = Less \<longrightarrow> compare_cores a c = Less)"
  using assms
proof (induction "length a + length b + length c" arbitrary: a b c rule: less_induct)
  case less
  note numeric = head_part_numeric [OF less.prems(1)] head_part_numeric [OF less.prems(2)]
    head_part_numeric [OF less.prems(3)]
  show ?case
  proof (cases "a = [] \<and> b = [] \<and> c = []")
    case False
    have rest: "(compare_cores (tl a) (tl b) = Equal \<longrightarrow> compare_cores (tl a) (tl c) = compare_cores (tl b) (tl c)) \<and>
      (compare_cores (tl a) (tl b) = Less \<and> compare_cores (tl b) (tl c) = Less \<longrightarrow>
        compare_cores (tl a) (tl c) = Less)"
      by (rule less.hyps [OF cores_shorter [OF False]]) (simp_all add: less.prems list_all_tl)
    show ?thesis
      unfolding compare_cores_step [of a b] compare_cores_step [of a c] compare_cores_step [of b c]
      using part_order.chain_eq [OF numeric, of "compare_cores (tl a) (tl b)"
          "compare_cores (tl a) (tl c)" "compare_cores (tl b) (tl c)"]
        part_order.chain_less [OF numeric, of "compare_cores (tl a) (tl b)"
          "compare_cores (tl b) (tl c)" "compare_cores (tl a) (tl c)"] rest
      by blast
  qed simp
qed

interpretation core_order: comparison compare_cores "list_all numeric_part"
proof unfold_locales
  fix a b c :: "string list"
  show "compare_cores b a = opposite (compare_cores a b)"
    by (induction a b rule: compare_cores.induct) (simp_all add: part_order.chain_turn)
  assume "list_all numeric_part a" "list_all numeric_part b" "list_all numeric_part c"
  from compare_cores_trans [OF this]
  show "compare_cores a b = Equal \<Longrightarrow> compare_cores a c = compare_cores b c"
    "compare_cores a b = Less \<Longrightarrow> compare_cores b c = Less \<Longrightarrow> compare_cores a c = Less"
    by blast+
qed

interpretation presence_order: comparison compare_presence "\<lambda>_. True"
proof unfold_locales
  fix a b c
  let ?parts = "\<lambda>v. split_on CHR ''.'' (the v)"
  show "compare_presence b a = opposite (compare_presence a b)"
    using prerelease_order.turn [of "?parts b" "?parts a"]
    by (cases a; cases b) (simp_all add: compare_prerelease_def)
  show "compare_presence a b = Equal \<Longrightarrow> compare_presence a c = compare_presence b c"
    using prerelease_order.trans_eq [of "?parts a" "?parts b" "?parts c"]
    by (cases a; cases b; cases c) (simp_all add: compare_prerelease_def)
  show "compare_presence a b = Less \<Longrightarrow> compare_presence b c = Less \<Longrightarrow> compare_presence a c = Less"
    using prerelease_order.trans_less [of "?parts a" "?parts b" "?parts c"]
    by (cases a; cases b; cases c) (simp_all add: compare_prerelease_def)
qed

text \<open>Versions whose dotted core consists of numbers, with any prerelease and build.\<close>

definition numeric_version :: "string \<Rightarrow> bool" where
  "numeric_version v \<longleftrightarrow> list_all numeric_part (fst (version_parts v))"

interpretation version_order: comparison compare_versions numeric_version
proof unfold_locales
  fix a b c
  show "compare_versions b a = opposite (compare_versions a b)"
    unfolding compare_versions_def by (rule core_order.chain_turn) (rule presence_order.turn)
  assume "numeric_version a" "numeric_version b" "numeric_version c"
  then have ok: "list_all numeric_part (fst (version_parts a))"
    "list_all numeric_part (fst (version_parts b))" "list_all numeric_part (fst (version_parts c))"
    by (simp_all add: numeric_version_def)
  show "compare_versions a b = Equal \<Longrightarrow> compare_versions a c = compare_versions b c"
    unfolding compare_versions_def
    by (rule core_order.chain_eq [OF ok]) (simp, rule presence_order.trans_eq, simp_all)
  show "compare_versions a b = Less \<Longrightarrow> compare_versions b c = Less \<Longrightarrow> compare_versions a c = Less"
    unfolding compare_versions_def
    by (rule core_order.chain_less [OF ok]) (simp, simp, rule presence_order.trans_less [OF TrueI TrueI TrueI])
qed

lemma sample_parts:
  "version_parts ''1.9'' = ([''1'', ''9''], None)" "version_parts ''1.10'' = ([''1'', ''10''], None)"
  "version_parts ''1.1a'' = ([''1'', ''1a''], None)" "version_parts ''2.0'' = ([''2'', ''0''], None)"
  by code_simp+

lemma sample_parses:
  "parse_u64 ''0'' = Some 0" "parse_u64 ''1'' = Some 1" "parse_u64 ''2'' = Some 2"
  "parse_u64 ''9'' = Some 9" "parse_u64 ''10'' = Some 10" "parse_u64 ''1a'' = None"
  by (simp_all add: parse_u64_def parse_unsigned_def starts_with_def digits_value_def byte_def)

section \<open>Properties of the version order\<close>

lemma sample_newer:
  "numeric_version ''1.9''" "numeric_version ''1.10''" "numeric_version ''2.0''"
  "version_is_newer ''1.10'' ''1.9''" "version_is_newer ''2.0'' ''1.10''" "version_is_newer ''2.0'' ''1.9''"
  by (simp_all add: numeric_version_def numeric_part_def version_is_newer_def compare_versions_def
      sample_parts compare_version_part_def sample_parses and_then_def nat_cmp_def)

text \<open>
  \<open>Newer\<close> is a strict order on the versions whose core is numeric, prereleases and build
  metadata included: no version is newer than itself, two are never each newer than the
  other (this holds for all strings), and newer than a newer one is newer.
\<close>
theorem newer_is_strict_order:
  "\<not> version_is_newer a a \<and> (version_is_newer a b \<longrightarrow> \<not> version_is_newer b a) \<and>
   (numeric_version a \<and> numeric_version b \<and> numeric_version c \<and>
      version_is_newer a b \<and> version_is_newer b c \<longrightarrow> version_is_newer a c)"
  using version_order.same [of a] version_order.turn [of a b] version_order.trans_greater [of a b c]
  by (auto simp: version_is_newer_def)

text \<open>
  Without that restriction it is not an order: three versions that \<open>validate_version\<close>
  accepts are newer than one another in a circle, since a part that is not a number is
  compared as text with one that is.
\<close>
theorem version_order_has_cycles:
  "\<exists>a b c. validate_version a = Inr () \<and> validate_version b = Inr () \<and> validate_version c = Inr () \<and>
     version_is_newer b a \<and> version_is_newer c b \<and> version_is_newer a c"
proof -
  have "version_is_newer ''1.10'' ''1.9''" "version_is_newer ''1.1a'' ''1.10''"
    "version_is_newer ''1.9'' ''1.1a''"
    by (simp_all add: version_is_newer_def compare_versions_def sample_parts compare_version_part_def
        sample_parses and_then_def nat_cmp_def byte_def)
  moreover have "validate_version ''1.10'' = Inr ()" "validate_version ''1.9'' = Inr ()"
    "validate_version ''1.1a'' = Inr ()"
    by code_simp+
  ultimately show ?thesis by blast
qed

theorem newer_is_strict_order_witness: "version_is_newer ''2.0'' ''1.9''"
  using newer_is_strict_order [of "''2.0''" "''1.10''" "''1.9''"] sample_newer(1-5) by blast

end
