(* ===== verification/Updater.thy ===== *)
theory Updater
  imports Versions Bootstrap
begin

text \<open>
  The updater of the host: the first half of \<open>updater.rs\<close>.  It checks a signed feed, offers a
  release that is newer, downloads its archive and hands it to the helper that installs it.

  Ed25519, SHA-256, the JSON encoder and the HTTP transport are packages: parameters of the
  definitions.  The lock is released between the phases of an operation, so the phases are
  definitions of their own; the sequential operations compose them, and the interleavings of
  several threads are a step relation over them.
\<close>

section \<open>Hexadecimal\<close>

record UpdateError =
  ue_code :: ErrorCode
  ue_message :: string

definition update_error :: "ErrorCode \<Rightarrow> string \<Rightarrow> UpdateError" where
  "update_error code message = \<lparr>ue_code = code, ue_message = message\<rparr>"

definition integrity_error :: "string \<Rightarrow> UpdateError" where
  "integrity_error = update_error ErrorCode.UpdateIntegrityFailed"

definition hex_nibble :: "char \<Rightarrow> nat option" where
  "hex_nibble c =
     (if 48 \<le> byte c \<and> byte c \<le> 57 then Some (byte c - 48)
      else if 97 \<le> byte c \<and> byte c \<le> 102 then Some (byte c - 97 + 10)
      else None)"

text \<open>\<open>chunks_exact(2)\<close>, each pair becoming \<open>high << 4 | low\<close>.\<close>

fun decode_pairs :: "string \<Rightarrow> string \<Rightarrow> UpdateError + u8 list" where
  "decode_pairs label (a # b # rest) =
     (case hex_nibble a of
        None \<Rightarrow> Inl (integrity_error (''not lowercase hexadecimal: '' @ label))
      | Some high \<Rightarrow>
          (case hex_nibble b of
             None \<Rightarrow> Inl (integrity_error (''not lowercase hexadecimal: '' @ label))
           | Some low \<Rightarrow>
               rbind (decode_pairs label rest) (\<lambda>bytes.
                 Inr (or (push_bit 4 (of_nat high)) (of_nat low) # bytes))))"
| "decode_pairs label _ = Inr []"

definition decode_hex :: "nat \<Rightarrow> string \<Rightarrow> string \<Rightarrow> UpdateError + u8 list" where
  "decode_hex n s label =
     (if length s \<noteq> n * 2 then Inl (integrity_error (''invalid length: '' @ label))
      else decode_pairs label s)"

definition hex_digits :: string where
  "hex_digits = ''0123456789abcdef''"

definition encode_hex :: "u8 list \<Rightarrow> string" where
  "encode_hex bytes =
     concat (map (\<lambda>b. [hex_digits ! unat (drop_bit 4 b), hex_digits ! unat (and b 0x0f)]) bytes)"

section \<open>The signed feed\<close>

text \<open>
  \<open>cr_key_valid\<close>: whether 32 bytes are an Ed25519 key; \<open>cr_verify key payload signature\<close>;
  \<open>cr_sha256\<close>: the lowercase digest of the bytes; \<open>cr_release_json\<close>: \<open>serde_json::to_vec\<close>.
\<close>

record crypto =
  cr_key_valid :: "u8 list \<Rightarrow> bool"
  cr_verify :: "u8 list \<Rightarrow> string \<Rightarrow> u8 list \<Rightarrow> bool"
  cr_sha256 :: "string \<Rightarrow> string"
  cr_release_json :: "UpdateRelease \<Rightarrow> string option"

definition verify_signed_feed ::
    "crypto \<Rightarrow> url_parser \<Rightarrow> bool \<Rightarrow> SignedUpdateRelease \<Rightarrow> string \<Rightarrow> UpdateError + unit" where
  "verify_signed_feed c parse debug feed public_key =
     (case validate_signed_release parse debug feed of
        Inl _ \<Rightarrow> Inl (integrity_error ''The update feed contract is invalid.'')
      | Inr _ \<Rightarrow>
          rbind (decode_hex 32 public_key ''update public key'') (\<lambda>key.
          rbind (decode_hex 64 (sr_signature feed) ''update signature'') (\<lambda>signature.
          if \<not> cr_key_valid c key
          then Inl (integrity_error ''The configured Ed25519 update public key is invalid.'')
          else (case cr_release_json c (sr_release feed) of
                  None \<Rightarrow> Inl (integrity_error ''Cannot canonicalize the signed release.'')
                | Some payload \<Rightarrow>
                    if cr_verify c key payload signature then Inr ()
                    else Inl (integrity_error ''The update feed signature did not verify.'')))))"

record Candidate =
  ca_artifact :: UpdateArtifact
  ca_version :: string
  ca_notes_url :: "string option"

text \<open>The operating system and the architecture the host was built for.\<close>

record target =
  tg_os :: string
  tg_architecture :: string

definition current_platform :: "string \<Rightarrow> UpdatePlatform option" where
  "current_platform os =
     (if os = ''linux'' then Some UpdatePlatform.Linux
      else if os = ''windows'' then Some UpdatePlatform.Windows
      else if os = ''macos'' then Some UpdatePlatform.MacOs
      else None)"

definition matching_artifact :: "UpdatePlatform \<Rightarrow> string \<Rightarrow> UpdateArtifact \<Rightarrow> bool" where
  "matching_artifact platform architecture a \<longleftrightarrow>
     ua_platform a = platform \<and> ua_architecture a = architecture \<and>
     ua_kind a = UpdateArtifactKind.PortableArchive"

text \<open>
  \<open>check_inner\<close>, with \<open>fetched\<close> the outcome of \<open>fetch_small\<close> and \<open>decode\<close> the JSON decoder.
\<close>

definition check_inner ::
    "crypto \<Rightarrow> url_parser \<Rightarrow> bool \<Rightarrow> target \<Rightarrow> (string \<Rightarrow> SignedUpdateRelease option) \<Rightarrow>
     string \<Rightarrow> string \<Rightarrow> UpdateConfig \<Rightarrow> UpdateError + string \<Rightarrow> UpdateError + Candidate option" where
  "check_inner c parse debug tg decode application_id current_version config fetched =
     rbind fetched (\<lambda>bytes.
       case decode bytes of
         None \<Rightarrow> Inl (integrity_error ''The update feed is not valid JSON.'')
       | Some feed \<Rightarrow>
           rbind (verify_signed_feed c parse debug feed (uc_public_key config)) (\<lambda>_.
           let release = sr_release feed in
           if ur_application_id release \<noteq> application_id
           then Inl (integrity_error ''The signed release belongs to a different application.'')
           else if ur_channel release \<noteq> uc_channel config
           then Inl (integrity_error ''The signed release belongs to a different update channel.'')
           else if \<not> version_is_newer (ur_version release) current_version then Inr None
           else (case current_platform (tg_os tg) of
                   None \<Rightarrow> Inl (update_error ErrorCode.UpdateUnavailable
                     ''This operating system has no Pam Desktop update target.'')
                 | Some platform \<Rightarrow>
                     (case find (matching_artifact platform (tg_architecture tg)) (ur_artifacts release) of
                        None \<Rightarrow> Inl (update_error ErrorCode.UpdateUnavailable
                          ''The release has no portable artifact for this host.'')
                      | Some artifact \<Rightarrow>
                          Inr (Some \<lparr>ca_artifact = artifact, ca_version = ur_version release,
                            ca_notes_url = ur_notes_url release\<rparr>)))))"

section \<open>Download\<close>

text \<open>
  What a download meets: the staging directory, the response, whether the file can be created
  and flushed, and the blocks that are read (\<open>None\<close> is an interrupted read), each with
  whether it could be written.
\<close>

record download_env =
  de_stage :: "UpdateError + string"
  de_connected :: bool
  de_content_length :: "nat option"
  de_created :: bool
  de_blocks :: "(string \<times> bool) option list"
  de_synced :: bool

text \<open>
  The reading loop: the bytes written so far, and the totals that were published as
  \<open>downloaded_bytes\<close>.  The reader gives no more than the signed size plus one byte.
\<close>

fun read_blocks ::
    "nat \<Rightarrow> string \<Rightarrow> (string \<times> bool) option list \<Rightarrow> nat list \<times> (UpdateError + string)" where
  "read_blocks bound written [] = ([], Inr written)"
| "read_blocks bound written (None # rest) =
     ([], Inl (update_error ErrorCode.UpdateUnavailable ''The update download was interrupted.''))"
| "read_blocks bound written (Some (block, ok) # rest) =
     (if block = [] then ([], Inr written)
      else let total = length written + length block in
        if total > bound
        then ([], Inl (integrity_error ''The downloaded update is larger than its signed size.''))
        else if \<not> ok
        then ([], Inl (update_error ErrorCode.UpdateInstallFailed
          ''Cannot write the update staging file.''))
        else (case read_blocks bound (written @ block) rest of
                (totals, result) \<Rightarrow> (total # totals, result)))"

definition archive_name :: "string \<Rightarrow> string" where
  "archive_name os = (if os = ''linux'' then ''update.tar.gz'' else ''update.zip'')"

text \<open>The result is the path of the archive and the contents of the file.\<close>

definition download_inner ::
    "crypto \<Rightarrow> string \<Rightarrow> Candidate \<Rightarrow> download_env \<Rightarrow>
     nat list \<times> (UpdateError + string \<times> string)" where
  "download_inner c os candidate env =
     (let bound = unat (ua_bytes (ca_artifact candidate)) in
      case de_stage env of
        Inl e \<Rightarrow> ([], Inl e)
      | Inr stage \<Rightarrow>
          if \<not> de_connected env
          then ([], Inl (update_error ErrorCode.UpdateUnavailable
            ''Cannot download the update artifact.''))
          else if (case de_content_length env of None \<Rightarrow> False | Some n \<Rightarrow> n \<noteq> bound)
          then ([], Inl (integrity_error ''The update server returned an unexpected artifact size.''))
          else if \<not> de_created env
          then ([], Inl (update_error ErrorCode.UpdateInstallFailed
            ''Cannot create update staging file.''))
          else (case read_blocks bound [] (de_blocks env) of
                  (totals, Inl e) \<Rightarrow> (totals, Inl e)
                | (totals, Inr written) \<Rightarrow>
                    (totals,
                     if \<not> de_synced env
                     then Inl (update_error ErrorCode.UpdateInstallFailed
                       ''Cannot flush the update staging file.'')
                     else if length written \<noteq> bound \<or>
                             cr_sha256 c written \<noteq> ua_sha256 (ca_artifact candidate)
                     then Inl (integrity_error
                       ''The downloaded update does not match its signed size and digest.'')
                     else Inr (path_join stage (archive_name os), written))))"

section \<open>State and phases\<close>

record UpdateSnapshot =
  us_state :: UpdateState
  us_current_version :: string
  us_available_version :: "string option"
  us_downloaded_bytes :: nat
  us_total_bytes :: nat
  us_notes_url :: "string option"
  us_error :: "string option"

record InternalState =
  it_snapshot :: UpdateSnapshot
  it_candidate :: "Candidate option"
  it_archive :: "string option"

definition updater_prepare :: "ApplicationManifest \<Rightarrow> InternalState" where
  "updater_prepare manifest =
     \<lparr>it_snapshot = \<lparr>us_state = (if am_updates manifest \<noteq> None then UpdateState.Idle else UpdateState.Disabled),
        us_current_version = am_version manifest, us_available_version = None,
        us_downloaded_bytes = 0, us_total_bytes = 0, us_notes_url = None, us_error = None\<rparr>,
      it_candidate = None, it_archive = None\<rparr>"

definition busy :: "UpdateState \<Rightarrow> bool" where
  "busy s \<longleftrightarrow> s = UpdateState.Checking \<or> s = UpdateState.Downloading \<or> s = UpdateState.Applying"

definition begin_operation :: "UpdateState \<Rightarrow> InternalState \<Rightarrow> UpdateError + InternalState" where
  "begin_operation next_state s =
     (if busy (us_state (it_snapshot s))
      then Inl (update_error ErrorCode.UpdateUnavailable ''Another update operation is already running.'')
      else Inr (s\<lparr>it_snapshot := (it_snapshot s)\<lparr>us_state := next_state, us_error := None,
             us_downloaded_bytes :=
               (if next_state = UpdateState.Downloading then 0
                else us_downloaded_bytes (it_snapshot s))\<rparr>\<rparr>))"

definition fail_operation :: "UpdateError \<Rightarrow> InternalState \<Rightarrow> InternalState" where
  "fail_operation e s =
     s\<lparr>it_snapshot := (it_snapshot s)\<lparr>us_state := UpdateState.Failed, us_error := Some (ue_message e)\<rparr>\<rparr>"

definition check_commit :: "UpdateError + Candidate option \<Rightarrow> InternalState \<Rightarrow> InternalState" where
  "check_commit result s =
     (case result of
        Inl e \<Rightarrow> fail_operation e s
      | Inr (Some candidate) \<Rightarrow>
          s\<lparr>it_archive := None, it_candidate := Some candidate,
            it_snapshot := (it_snapshot s)\<lparr>us_error := None, us_downloaded_bytes := 0,
              us_state := UpdateState.Available, us_available_version := Some (ca_version candidate),
              us_total_bytes := unat (ua_bytes (ca_artifact candidate)),
              us_notes_url := ca_notes_url candidate\<rparr>\<rparr>
      | Inr None \<Rightarrow>
          s\<lparr>it_archive := None, it_candidate := None,
            it_snapshot := (it_snapshot s)\<lparr>us_error := None, us_downloaded_bytes := 0,
              us_state := UpdateState.UpToDate, us_available_version := None,
              us_total_bytes := 0, us_notes_url := None\<rparr>\<rparr>)"

definition download_commit ::
    "Candidate \<Rightarrow> nat list \<times> (UpdateError + string \<times> string) \<Rightarrow> InternalState \<Rightarrow> InternalState" where
  "download_commit candidate outcome s =
     (let s1 = (if fst outcome = [] then s
                else s\<lparr>it_snapshot := (it_snapshot s)\<lparr>us_downloaded_bytes := last (fst outcome)\<rparr>\<rparr>)
      in case snd outcome of
           Inl e \<Rightarrow> fail_operation e s1
         | Inr (archive, _) \<Rightarrow>
             s1\<lparr>it_archive := Some archive,
               it_snapshot := (it_snapshot s1)\<lparr>us_state := UpdateState.Ready,
                 us_downloaded_bytes := unat (ua_bytes (ca_artifact candidate)), us_error := None\<rparr>\<rparr>)"

definition install_read :: "InternalState \<Rightarrow> UpdateError + string \<times> Candidate" where
  "install_read s =
     (case it_archive s of
        None \<Rightarrow> Inl (update_error ErrorCode.UpdateUnavailable ''No verified update has been downloaded.'')
      | Some archive \<Rightarrow>
          (case it_candidate s of
             None \<Rightarrow> Inl (update_error ErrorCode.UpdateUnavailable
               ''The staged update has no matching release metadata.'')
           | Some candidate \<Rightarrow> Inr (archive, candidate)))"

definition install_commit :: "UpdateError + unit \<Rightarrow> InternalState \<Rightarrow> InternalState" where
  "install_commit launched s = (case launched of Inl e \<Rightarrow> fail_operation e s | Inr _ \<Rightarrow> s)"

section \<open>The operations\<close>

record updater_host =
  uh_crypto :: crypto
  uh_parse_url :: url_parser
  uh_debug :: bool
  uh_target :: target
  uh_decode :: "string \<Rightarrow> SignedUpdateRelease option"
  uh_application_id :: string
  uh_current_version :: string
  uh_config :: "UpdateConfig option"
  uh_bundle_root :: "string option"

definition host_check_inner :: "updater_host \<Rightarrow> UpdateConfig \<Rightarrow> UpdateError + string \<Rightarrow> UpdateError + Candidate option" where
  "host_check_inner h config fetched =
     check_inner (uh_crypto h) (uh_parse_url h) (uh_debug h) (uh_target h) (uh_decode h)
       (uh_application_id h) (uh_current_version h) config fetched"

text \<open>Each operation returns the new state and the error, or the snapshot the caller gets.\<close>

definition updater_check ::
    "updater_host \<Rightarrow> UpdateError + string \<Rightarrow> InternalState \<Rightarrow> InternalState \<times> (UpdateError + UpdateSnapshot)" where
  "updater_check h fetched s =
     (case uh_config h of
        None \<Rightarrow> (s, Inl (update_error ErrorCode.UpdateDisabled ''Updates are not configured.''))
      | Some config \<Rightarrow>
          (case begin_operation UpdateState.Checking s of
             Inl e \<Rightarrow> (s, Inl e)
           | Inr s1 \<Rightarrow>
               (let result = host_check_inner h config fetched;
                    s2 = check_commit result s1
                in case result of Inl e \<Rightarrow> (s2, Inl e) | Inr _ \<Rightarrow> (s2, Inr (it_snapshot s2)))))"

definition updater_download ::
    "updater_host \<Rightarrow> download_env \<Rightarrow> InternalState \<Rightarrow> InternalState \<times> (UpdateError + UpdateSnapshot)" where
  "updater_download h env s =
     (case it_candidate s of
        None \<Rightarrow> (s, Inl (update_error ErrorCode.UpdateUnavailable
          ''No update is available. Check for updates first.''))
      | Some candidate \<Rightarrow>
          (case begin_operation UpdateState.Downloading s of
             Inl e \<Rightarrow> (s, Inl e)
           | Inr s1 \<Rightarrow>
               (let outcome = download_inner (uh_crypto h) (tg_os (uh_target h)) candidate env;
                    s2 = download_commit candidate outcome s1
                in case snd outcome of Inl e \<Rightarrow> (s2, Inl e) | Inr _ \<Rightarrow> (s2, Inr (it_snapshot s2)))))"

text \<open>
  \<open>install\<close> also returns what the helper is started with: the bundle, the archive, the digest.
\<close>

definition updater_install ::
    "updater_host \<Rightarrow> UpdateError + unit \<Rightarrow> InternalState \<Rightarrow>
     InternalState \<times> (string \<times> string \<times> string) option \<times> (UpdateError + UpdateSnapshot)" where
  "updater_install h launched s =
     (case install_read s of
        Inl e \<Rightarrow> (s, None, Inl e)
      | Inr (archive, candidate) \<Rightarrow>
          (case uh_bundle_root h of
             None \<Rightarrow> (s, None, Inl (update_error ErrorCode.UpdateInstallFailed
               ''Updates can only be installed from a packaged Pam Desktop application.''))
           | Some bundle_root \<Rightarrow>
               (case begin_operation UpdateState.Applying s of
                  Inl e \<Rightarrow> (s, None, Inl e)
                | Inr s1 \<Rightarrow>
                    (let s2 = install_commit launched s1;
                         call = (bundle_root, archive, ua_sha256 (ca_artifact candidate))
                     in case launched of
                          Inl e \<Rightarrow> (s2, Some call, Inl e)
                        | Inr _ \<Rightarrow> (s2, Some call, Inr (it_snapshot s2))))))"

section \<open>Interleavings\<close>

text \<open>
  The operations of several threads.  A download reads the candidate under the lock and
  begins under the lock again, so other phases can come between; the same for an install.
\<close>

datatype task =
    CheckTask
  | DownloadAsked Candidate
  | DownloadTask Candidate
  | InstallAsked string Candidate

type_synonym updater_system = "InternalState \<times> task list"

inductive updater_step :: "updater_host \<Rightarrow> updater_system \<Rightarrow> updater_system \<Rightarrow> bool" for h where
  check_start: "uh_config h \<noteq> None \<Longrightarrow> begin_operation UpdateState.Checking s = Inr s' \<Longrightarrow>
    updater_step h (s, ts) (s', CheckTask # ts)"
| check_end: "CheckTask \<in> set ts \<Longrightarrow> uh_config h = Some config \<Longrightarrow>
    updater_step h (s, ts) (check_commit (host_check_inner h config fetched) s, remove1 CheckTask ts)"
| download_ask: "it_candidate s = Some c \<Longrightarrow>
    updater_step h (s, ts) (s, DownloadAsked c # ts)"
| download_start: "DownloadAsked c \<in> set ts \<Longrightarrow> begin_operation UpdateState.Downloading s = Inr s' \<Longrightarrow>
    updater_step h (s, ts) (s', DownloadTask c # remove1 (DownloadAsked c) ts)"
| download_refused: "DownloadAsked c \<in> set ts \<Longrightarrow> begin_operation UpdateState.Downloading s = Inl e \<Longrightarrow>
    updater_step h (s, ts) (s, remove1 (DownloadAsked c) ts)"
| download_end: "DownloadTask c \<in> set ts \<Longrightarrow>
    updater_step h (s, ts)
      (download_commit c (download_inner (uh_crypto h) (tg_os (uh_target h)) c env) s, remove1 (DownloadTask c) ts)"
| install_ask: "install_read s = Inr (archive, c) \<Longrightarrow> uh_bundle_root h \<noteq> None \<Longrightarrow>
    updater_step h (s, ts) (s, InstallAsked archive c # ts)"
| install_start: "InstallAsked archive c \<in> set ts \<Longrightarrow> begin_operation UpdateState.Applying s = Inr s' \<Longrightarrow>
    updater_step h (s, ts) (install_commit launched s', remove1 (InstallAsked archive c) ts)"
| install_refused: "InstallAsked archive c \<in> set ts \<Longrightarrow> begin_operation UpdateState.Applying s = Inl e \<Longrightarrow>
    updater_step h (s, ts) (s, remove1 (InstallAsked archive c) ts)"

inductive updater_reaches :: "updater_host \<Rightarrow> updater_system \<Rightarrow> updater_system \<Rightarrow> bool" for h where
  initial: "updater_reaches h x x"
| step: "updater_reaches h x y \<Longrightarrow> updater_step h y z \<Longrightarrow> updater_reaches h x z"

text \<open>One thread only: whole operations one after the other, with what each download verified.\<close>

inductive updater_used ::
    "updater_host \<Rightarrow> InternalState \<Rightarrow> InternalState \<Rightarrow> (string \<times> string) set \<Rightarrow> bool" for h s0 where
  start: "updater_used h s0 s0 {}"
| check: "updater_used h s0 s files \<Longrightarrow> updater_check h fetched s = (s', r) \<Longrightarrow>
    updater_used h s0 s' files"
| download: "updater_used h s0 s files \<Longrightarrow> updater_download h env s = (s', r) \<Longrightarrow>
    updater_used h s0 s' (files \<union> {(a, b) | a b c. it_candidate s = Some c \<and>
      snd (download_inner (uh_crypto h) (tg_os (uh_target h)) c env) = Inr (a, b)})"
| install: "updater_used h s0 s files \<Longrightarrow> updater_install h launched s = (s', call, r) \<Longrightarrow>
    updater_used h s0 s' files"

section \<open>Lemmas\<close>

lemma hex_digit_nibble: "n < 16 \<Longrightarrow> hex_nibble (hex_digits ! n) = Some n"
proof -
  have "\<forall>n \<in> {0..<16}. hex_nibble (hex_digits ! n) = Some n"
    unfolding hex_digits_def by (simp add: atLeastLessThan_nat_numeral hex_nibble_def byte_def)
  then show "n < 16 \<Longrightarrow> ?thesis" by simp
qed

lemma nibbles_of_byte:
  fixes b :: u8
  shows "unat (drop_bit 4 b) < 16" "unat (and b 0x0f) < 16"
    "or (push_bit 4 (of_nat (unat (drop_bit 4 b)))) (of_nat (unat (and b 0x0f))) = b"
proof -
  have lt: "unat b < 256"
    using unsigned_less [of b] by simp
  then have "unat (drop_bit 4 b) = unat b div 16"
    by (simp only: unsigned_drop_bit_eq) (simp add: drop_bit_eq_div take_bit_nat_eq_self)
  with lt show "unat (drop_bit 4 b) < 16" by linarith
  have "and b 0x0f = take_bit 4 b"
    by (simp add: take_bit_eq_mask mask_numeral)
  moreover have "unat (take_bit 4 b) = unat b mod 16"
    by (simp only: unsigned_take_bit_eq) (simp add: take_bit_eq_mod)
  ultimately show "unat (and b 0x0f) < 16" by simp
  have "or (push_bit 4 (drop_bit 4 b)) (take_bit 4 b) = b"
    by (rule bit_word_eqI) (auto simp: bit_simps)
  then show "or (push_bit 4 (of_nat (unat (drop_bit 4 b)))) (of_nat (unat (and b 0x0f))) = b"
    using \<open>and b 0x0f = take_bit 4 b\<close> by simp
qed

lemma decode_encode_hex: "decode_pairs label (encode_hex bs) = Inr bs"
proof (induction bs)
  case (Cons b bs)
  then show ?case
    by (simp add: encode_hex_def hex_digit_nibble nibbles_of_byte nibbles_of_byte(3) [simplified])
qed (simp add: encode_hex_def)

lemma length_encode_hex: "length (encode_hex bs) = length bs * 2"
  by (induction bs) (simp_all add: encode_hex_def)

lemma hex_nibble_digit:
  assumes "hex_nibble c = Some n"
  shows "n < 16 \<and> hex_digits ! n = c"
proof -
  have "\<forall>m \<in> {48..<103}. \<forall>n. hex_nibble (char_of m) = Some n \<longrightarrow> n < 16 \<and> byte (hex_digits ! n) = (m :: nat)"
    unfolding hex_digits_def
    by (simp add: atLeastLessThan_nat_numeral hex_nibble_def byte_def)
  moreover have "byte c \<in> {48..<103}"
    using assms by (simp add: hex_nibble_def split: if_splits)
  moreover have "char_of (byte c) = c" by (simp add: byte_def)
  ultimately have "n < 16 \<and> byte (hex_digits ! n) = byte c"
    using assms by metis
  then show ?thesis by simp
qed

lemma decode_pairs_sound:
  "decode_pairs label s = Inr bs \<Longrightarrow> even (length s) \<Longrightarrow> encode_hex bs = s \<and> length s = length bs * 2"
proof (induction label s arbitrary: bs rule: decode_pairs.induct)
  case (1 label a b rest)
  then obtain high low bytes where nib: "hex_nibble a = Some high" "hex_nibble b = Some low"
    and rest: "decode_pairs label rest = Inr bytes"
    and bs: "bs = or (push_bit 4 (of_nat high)) (of_nat low) # bytes"
    by (auto simp: rbind_Inr_iff split: option.splits)
  have IH: "encode_hex bytes = rest" "length rest = length bytes * 2"
    using "1.IH" [OF nib rest] "1.prems"(2) by auto
  have lt: "high < 16" "low < 16" and digits: "hex_digits ! high = a" "hex_digits ! low = b"
    using hex_nibble_digit [OF nib(1)] hex_nibble_digit [OF nib(2)] by auto
  let ?x = "or (push_bit 4 (of_nat high)) (of_nat low) :: u8"
  have "\<forall>h \<in> {0..<16}. \<forall>l \<in> {0..<16}.
      unat (drop_bit 4 (or (push_bit 4 (of_nat h)) (of_nat l)) :: u8) = h \<and>
      unat (and (or (push_bit 4 (of_nat h)) (of_nat l)) 0x0f :: u8) = l"
    by (simp add: atLeastLessThan_nat_numeral)
  then have "unat (drop_bit 4 ?x) = high" "unat (and ?x 0x0f) = low"
    using lt by auto
  then show ?case
    using IH bs digits by (simp add: encode_hex_def)
qed (auto simp: encode_hex_def)

lemma decode_hex_iff:
  "decode_hex n s label = Inr bs \<longleftrightarrow> length bs = n \<and> s = encode_hex bs"
proof
  assume "decode_hex n s label = Inr bs"
  then have "length s = n * 2" "decode_pairs label s = Inr bs"
    by (auto simp: decode_hex_def split: if_splits)
  then show "length bs = n \<and> s = encode_hex bs"
    using decode_pairs_sound [of label s bs] by auto
qed (auto simp: decode_hex_def length_encode_hex decode_encode_hex)

text \<open>What a candidate is backed by.\<close>

definition offered_by_feed ::
    "updater_host \<Rightarrow> UpdateConfig \<Rightarrow> string \<Rightarrow> Candidate \<Rightarrow> bool" where
  "offered_by_feed h config bytes c \<longleftrightarrow>
     (\<exists>feed key signature payload platform.
        uh_decode h bytes = Some feed \<and>
        validate_signed_release (uh_parse_url h) (uh_debug h) feed = Inr () \<and>
        uc_public_key config = encode_hex key \<and> length key = 32 \<and>
        sr_signature feed = encode_hex signature \<and> length signature = 64 \<and>
        cr_release_json (uh_crypto h) (sr_release feed) = Some payload \<and>
        cr_verify (uh_crypto h) key payload signature \<and>
        ur_application_id (sr_release feed) = uh_application_id h \<and>
        ur_channel (sr_release feed) = uc_channel config \<and>
        version_is_newer (ca_version c) (uh_current_version h) \<and>
        ca_version c = ur_version (sr_release feed) \<and>
        ca_artifact c \<in> set (ur_artifacts (sr_release feed)) \<and>
        current_platform (tg_os (uh_target h)) = Some platform \<and>
        matching_artifact platform (tg_architecture (uh_target h)) (ca_artifact c))"

lemma verify_signed_feed_Inr:
  "verify_signed_feed c parse debug feed public_key = Inr () \<longleftrightarrow>
     validate_signed_release parse debug feed = Inr () \<and>
     (\<exists>key signature payload. length key = 32 \<and> public_key = encode_hex key \<and>
        length signature = 64 \<and> sr_signature feed = encode_hex signature \<and> cr_key_valid c key \<and>
        cr_release_json c (sr_release feed) = Some payload \<and> cr_verify c key payload signature)"
    (is "?l \<longleftrightarrow> ?r")
proof
  show "?l \<Longrightarrow> ?r"
    by (auto simp: verify_signed_feed_def rbind_Inr_iff decode_hex_iff
        split: sum.splits option.splits if_splits)
next
  assume ?r
  moreover have "decode_hex 32 (encode_hex bs) l = Inr bs" if "length bs = 32" for bs l
    using that by (simp add: decode_hex_iff)
  moreover have "decode_hex 64 (encode_hex bs) l = Inr bs" if "length bs = 64" for bs l
    using that by (simp add: decode_hex_iff)
  ultimately show ?l
    by (auto simp: verify_signed_feed_def)
qed

lemma host_check_inner_offered:
  assumes "host_check_inner h config (Inr bytes) = Inr (Some c)"
  shows "offered_by_feed h config bytes c"
proof -
  let ?cr = "uh_crypto h"
  from assms obtain feed platform where feed: "uh_decode h bytes = Some feed"
    "verify_signed_feed ?cr (uh_parse_url h) (uh_debug h) feed (uc_public_key config) = Inr ()"
    "ur_application_id (sr_release feed) = uh_application_id h"
    "ur_channel (sr_release feed) = uc_channel config"
    "version_is_newer (ur_version (sr_release feed)) (uh_current_version h)"
    "current_platform (tg_os (uh_target h)) = Some platform"
    "find (matching_artifact platform (tg_architecture (uh_target h)))
       (ur_artifacts (sr_release feed)) = Some (ca_artifact c)"
    "ca_version c = ur_version (sr_release feed)"
    unfolding host_check_inner_def check_inner_def
    by (fastforce simp: rbind_Inr_iff Let_def split: option.splits if_splits)
  moreover have "ca_artifact c \<in> set (ur_artifacts (sr_release feed)) \<and>
      matching_artifact platform (tg_architecture (uh_target h)) (ca_artifact c)"
    using feed(7) by (metis find_Some_iff nth_mem)
  moreover obtain key signature payload where
    "validate_signed_release (uh_parse_url h) (uh_debug h) feed = Inr ()"
    "length key = 32" "uc_public_key config = encode_hex key"
    "length signature = 64" "sr_signature feed = encode_hex signature"
    "cr_release_json ?cr (sr_release feed) = Some payload" "cr_verify ?cr key payload signature"
    using feed(2) unfolding verify_signed_feed_Inr by blast
  ultimately show ?thesis
    unfolding offered_by_feed_def
    by (intro exI [of _ feed] exI [of _ key] exI [of _ signature] exI [of _ payload]
        exI [of _ platform]) simp
qed

lemma read_blocks_bounds:
  "read_blocks bound written blocks = (totals, result) \<Longrightarrow> length written \<le> bound \<Longrightarrow>
     (\<forall>t \<in> set totals. length written < t \<and> t \<le> bound) \<and> sorted_wrt (<) totals \<and>
     (\<forall>bytes. result = Inr bytes \<longrightarrow> length bytes \<le> bound \<and> (\<exists>rest. bytes = written @ rest))"
proof (induction bound written blocks arbitrary: totals result rule: read_blocks.induct)
  case (3 bound written block ok rest)
  show ?case
  proof (cases "block = [] \<or> length written + length block > bound \<or> \<not> ok")
    case True
    with 3 show ?thesis by (auto simp: Let_def split: if_splits)
  next
    case False
    obtain ts r where rec: "read_blocks bound (written @ block) rest = (ts, r)"
      by (metis surj_pair)
    have "(\<forall>t \<in> set ts. length (written @ block) < t \<and> t \<le> bound) \<and> sorted_wrt (<) ts \<and>
       (\<forall>bytes. r = Inr bytes \<longrightarrow> length bytes \<le> bound \<and> (\<exists>rest. bytes = (written @ block) @ rest))"
      by (rule "3.IH" [OF _ HOL.refl _ _ rec]) (use False in auto)
    moreover have "totals = (length written + length block) # ts" "result = r"
      using "3.prems"(1) False rec by auto
    moreover have "0 < length block" using False by simp
    ultimately show ?thesis
      using False by auto
  qed
qed auto

lemma download_inner_verified:
  "snd (download_inner c os cand env) = Inr (a, b) \<Longrightarrow>
     length b = unat (ua_bytes (ca_artifact cand)) \<and> cr_sha256 c b = ua_sha256 (ca_artifact cand)"
  by (auto simp: download_inner_def Let_def split: sum.splits if_splits prod.splits)

lemma begin_operation_Inr:
  "begin_operation n s = Inr s' \<Longrightarrow>
     \<not> busy (us_state (it_snapshot s)) \<and> us_state (it_snapshot s') = n \<and>
     it_candidate s' = it_candidate s \<and> it_archive s' = it_archive s"
  by (auto simp: begin_operation_def split: if_splits)

lemma fail_operation_simps [simp]:
  "it_candidate (fail_operation e s) = it_candidate s" "it_archive (fail_operation e s) = it_archive s"
  "us_state (it_snapshot (fail_operation e s)) = UpdateState.Failed"
  by (simp_all add: fail_operation_def)

lemma check_commit_simps:
  "it_candidate (check_commit r s) = (case r of Inl _ \<Rightarrow> it_candidate s | Inr c \<Rightarrow> c)"
  "it_archive (check_commit r s) = (case r of Inl _ \<Rightarrow> it_archive s | Inr _ \<Rightarrow> None)"
  "us_state (it_snapshot (check_commit r s)) \<in>
     {UpdateState.Failed, UpdateState.Available, UpdateState.UpToDate}"
  by (auto simp: check_commit_def split: sum.split option.split)

lemma download_commit_simps:
  "it_candidate (download_commit c out s) = it_candidate s"
  "it_archive (download_commit c out s) =
     (case snd out of Inl _ \<Rightarrow> it_archive s | Inr (a, _) \<Rightarrow> Some a)"
  "us_state (it_snapshot (download_commit c out s)) \<in> {UpdateState.Failed, UpdateState.Ready}"
  by (auto simp: download_commit_def Let_def split: sum.split prod.split)

lemma updater_check_cases:
  assumes "updater_check h fetched s = (s', r)"
  obtains (refused) "s' = s" | (checked) config result where "uh_config h = Some config"
      "result = host_check_inner h config fetched"
      "it_candidate s' = (case result of Inl _ \<Rightarrow> it_candidate s | Inr c \<Rightarrow> c)"
      "it_archive s' = (case result of Inl _ \<Rightarrow> it_archive s | Inr _ \<Rightarrow> None)"
proof (cases "uh_config h")
  case (Some config)
  show thesis
  proof (cases "begin_operation UpdateState.Checking s")
    case (Inr s1)
    have "s' = check_commit (host_check_inner h config fetched) s1"
      using assms Some Inr by (auto simp: updater_check_def Let_def split: sum.splits)
    then show thesis
      using begin_operation_Inr [OF Inr]
      by (intro checked [OF Some HOL.refl]) (simp_all add: check_commit_simps split: sum.split)
  qed (use assms Some refused in \<open>auto simp: updater_check_def\<close>)
qed (use assms refused in \<open>auto simp: updater_check_def\<close>)

lemma updater_download_cases:
  assumes "updater_download h env s = (s', r)"
  obtains (refused) "s' = s" | (downloaded) c where "it_candidate s = Some c" "it_candidate s' = Some c"
      "it_archive s' = (case snd (download_inner (uh_crypto h) (tg_os (uh_target h)) c env) of
         Inl _ \<Rightarrow> it_archive s | Inr (a, _) \<Rightarrow> Some a)"
proof (cases "it_candidate s")
  case (Some c)
  show thesis
  proof (cases "begin_operation UpdateState.Downloading s")
    case (Inr s1)
    have "s' = download_commit c (download_inner (uh_crypto h) (tg_os (uh_target h)) c env) s1"
      using assms Some Inr by (auto simp: updater_download_def Let_def split: sum.splits)
    then show thesis
      using begin_operation_Inr [OF Inr] Some
      by (intro downloaded [OF Some]) (simp_all add: download_commit_simps split: sum.split)
  qed (use assms Some refused in \<open>auto simp: updater_download_def\<close>)
qed (use assms refused in \<open>auto simp: updater_download_def\<close>)

lemma updater_install_state:
  "updater_install h launched s = (s', call, r) \<Longrightarrow>
     it_candidate s' = it_candidate s \<and> it_archive s' = it_archive s \<and>
     (\<forall>root archive sha. call = Some (root, archive, sha) \<longrightarrow> it_archive s = Some archive \<and>
        (\<exists>c. it_candidate s = Some c \<and> sha = ua_sha256 (ca_artifact c)))"
  by (auto simp: updater_install_def install_read_def install_commit_def Let_def
      split: option.splits sum.splits dest!: begin_operation_Inr)

text \<open>The invariant of one thread.\<close>

definition archive_backed :: "updater_host \<Rightarrow> (string \<times> string) set \<Rightarrow> InternalState \<Rightarrow> bool" where
  "archive_backed h files s \<longleftrightarrow>
     (\<forall>a. it_archive s = Some a \<longrightarrow> (\<exists>b c. (a, b) \<in> files \<and> it_candidate s = Some c \<and>
        length b = unat (ua_bytes (ca_artifact c)) \<and>
        cr_sha256 (uh_crypto h) b = ua_sha256 (ca_artifact c)))"

definition candidate_offered :: "updater_host \<Rightarrow> InternalState \<Rightarrow> bool" where
  "candidate_offered h s \<longleftrightarrow>
     (\<forall>c. it_candidate s = Some c \<longrightarrow>
        (\<exists>config bytes. uh_config h = Some config \<and> offered_by_feed h config bytes c))"

lemma updater_used_invariant:
  assumes "updater_used h s0 s files" "it_archive s0 = None" "it_candidate s0 = None"
  shows "archive_backed h files s \<and> candidate_offered h s"
  using assms(1)
proof (induction rule: updater_used.induct)
  case start
  then show ?case using assms(2,3) by (simp add: archive_backed_def candidate_offered_def)
next
  case (check s files fetched s' r)
  from check.hyps(2) show ?case
  proof (cases rule: updater_check_cases)
    case (checked config result)
    have "\<exists>bytes. offered_by_feed h config bytes c" if "result = Inr (Some c)" for c
    proof (cases fetched)
      case (Inl e)
      with that checked show ?thesis by (simp add: host_check_inner_def check_inner_def)
    qed (use that checked host_check_inner_offered in blast)
    with checked check.IH show ?thesis
    proof (cases result)
      case (Inl e)
      then have "it_candidate s' = it_candidate s" "it_archive s' = it_archive s"
        using checked by auto
      with check.IH show ?thesis by (simp add: archive_backed_def candidate_offered_def)
    next
      case (Inr c)
      then have "it_candidate s' = c" "it_archive s' = None"
        using checked by auto
      with Inr checked(1) \<open>\<And>c. result = Inr (Some c) \<Longrightarrow> \<exists>bytes. offered_by_feed h config bytes c\<close>
      show ?thesis by (auto simp: archive_backed_def candidate_offered_def)
    qed
  qed (use check.IH in simp)
next
  case (download s files env s' r)
  from download.hyps(2) show ?case
  proof (cases rule: updater_download_cases)
    case (downloaded c)
    have verified: "length b = unat (ua_bytes (ca_artifact c)) \<and>
        cr_sha256 (uh_crypto h) b = ua_sha256 (ca_artifact c)"
      if "snd (download_inner (uh_crypto h) (tg_os (uh_target h)) c env) = Inr (a, b)" for a b
      using download_inner_verified [OF that] .
    show ?thesis
    proof (cases "snd (download_inner (uh_crypto h) (tg_os (uh_target h)) c env)")
      case (Inl e)
      with downloaded download.IH show ?thesis
        by (auto simp: archive_backed_def candidate_offered_def)
    next
      case (Inr ab)
      obtain a b where ab: "ab = (a, b)" by fastforce
      with downloaded Inr verified download.IH show ?thesis
        by (auto simp: archive_backed_def candidate_offered_def)
    qed
  next
    case refused
    with download.IH show ?thesis
      by (fastforce simp: archive_backed_def)
  qed
next
  case (install s files launched s' call r)
  with updater_install_state show ?case
    by (simp add: archive_backed_def candidate_offered_def)
qed

text \<open>The invariant of the interleavings: the state names the one operation that runs.\<close>

fun active :: "task \<Rightarrow> bool" where
  "active CheckTask = True"
| "active (DownloadTask c) = True"
| "active _ = False"

definition exclusive :: "updater_system \<Rightarrow> bool" where
  "exclusive x \<longleftrightarrow>
     (case us_state (it_snapshot (fst x)) of
        UpdateState.Checking \<Rightarrow> filter active (snd x) = [CheckTask]
      | UpdateState.Downloading \<Rightarrow> (\<exists>c. filter active (snd x) = [DownloadTask c])
      | _ \<Rightarrow> filter active (snd x) = [])"

lemma filter_active_remove1:
  "\<not> active t \<Longrightarrow> filter active (remove1 t ts) = filter active ts"
  by (induction ts) auto

lemma exclusive_active:
  assumes "exclusive (s, ts)" "t \<in> set ts" "active t"
  shows "filter active ts = [t]"
proof -
  have "filter active ts = [] \<or> (\<exists>u. filter active ts = [u])"
    using assms(1) by (cases "us_state (it_snapshot s)") (auto simp: exclusive_def)
  moreover have "t \<in> set (filter active ts)" using assms(2,3) by simp
  ultimately show ?thesis by (auto simp del: set_filter)
qed

lemma exclusive_idle:
  "filter active ts = [] \<Longrightarrow>
     us_state (it_snapshot s) \<noteq> UpdateState.Checking \<Longrightarrow>
     us_state (it_snapshot s) \<noteq> UpdateState.Downloading \<Longrightarrow> exclusive (s, ts)"
  by (cases "us_state (it_snapshot s)") (simp_all add: exclusive_def)

lemma exclusive_begin:
  assumes "begin_operation n s = Inr s'" "exclusive (s, ts)"
  shows "filter active ts = []"
  using begin_operation_Inr [OF assms(1)] assms(2)
  by (cases "us_state (it_snapshot s)") (auto simp: exclusive_def busy_def)

lemma exclusive_inactive:
  "\<not> active t \<Longrightarrow> exclusive (s, remove1 t ts) = exclusive (s, ts)"
  "\<not> active t \<Longrightarrow> exclusive (s, t # ts) = exclusive (s, ts)"
  by (cases "us_state (it_snapshot s)"; simp add: exclusive_def filter_active_remove1)+

lemma exclusive_step:
  assumes "updater_step h x y" "exclusive x"
  shows "exclusive y"
  using assms
proof (cases rule: updater_step.cases)
  case (check_start s s' ts)
  with assms(2) exclusive_begin [of UpdateState.Checking s s' ts] begin_operation_Inr [of _ s s']
  show ?thesis by (auto simp: exclusive_def)
next
  case (check_end ts config s fetched)
  then have "filter active ts = [CheckTask]"
    using assms(2) exclusive_active by auto
  then have "filter active (remove1 CheckTask ts) = []"
    by (simp add: filter_remove1)
  with check_end show ?thesis
    using check_commit_simps(3) [of "host_check_inner h config fetched" s]
    by (auto intro!: exclusive_idle)
next
  case (download_start c ts s s')
  with assms(2) exclusive_begin [of UpdateState.Downloading s s' ts] begin_operation_Inr [of _ s s']
  show ?thesis by (auto simp: exclusive_def filter_active_remove1)
next
  case (download_end c ts s env)
  then have "filter active ts = [DownloadTask c]"
    using assms(2) exclusive_active by auto
  then have "filter active (remove1 (DownloadTask c) ts) = []"
    by (simp add: filter_remove1)
  with download_end show ?thesis
    using download_commit_simps(3) [of c "download_inner (uh_crypto h) (tg_os (uh_target h)) c env" s]
    by (auto intro!: exclusive_idle)
next
  case (install_start archive c ts s s' launched)
  then have "filter active (remove1 (InstallAsked archive c) ts) = []"
    using assms(2) exclusive_begin by (auto simp: filter_active_remove1)
  with install_start begin_operation_Inr [OF install_start(4)] show ?thesis
    by (auto intro!: exclusive_idle simp: install_commit_def split: sum.splits)
qed (use assms(2) in \<open>auto simp: exclusive_inactive\<close>)

lemma exclusive_reaches: "updater_reaches h x y \<Longrightarrow> exclusive x \<Longrightarrow> exclusive y"
  by (induction rule: updater_reaches.induct) (auto intro: exclusive_step)

end
