(* ===== verification/UpdaterClaims.thy ===== *)
theory UpdaterClaims
  imports Updater
begin

text \<open>
  The properties of the updater: what a candidate rests on in every interleaving of the
  operations, what the installer is handed when one thread uses them, and where two threads
  defeat the second.
\<close>

section \<open>A concrete host\<close>

text \<open>
  Two feeds that both verify: the first offers an archive of two bytes, the second another
  one of three bytes.
\<close>

definition sample_url :: url where
  "sample_url = \<lparr>url_scheme = ''https'', url_username = [], url_password = None,
     url_host_str = Some ''example.com'', url_host_of = Some (Domain ''example.com''),
     url_path = ''/u'', url_query = None, url_fragment = None\<rparr>"

definition sample_artifact :: "u64 \<Rightarrow> char \<Rightarrow> UpdateArtifact" where
  "sample_artifact n digit =
     \<lparr>ua_platform = UpdatePlatform.Linux, ua_architecture = ''x86_64'',
      ua_kind = UpdateArtifactKind.PortableArchive, ua_url = ''https://example.com/u'',
      ua_bytes = n, ua_sha256 = replicate 64 digit\<rparr>"

definition sample_feed :: "string \<Rightarrow> UpdateArtifact \<Rightarrow> SignedUpdateRelease" where
  "sample_feed version a =
     \<lparr>sr_release = \<lparr>ur_schema_version = UPDATE_FEED_VERSION,
        ur_application_id = ''com.example.notes'', ur_channel = ''stable'', ur_version = version,
        ur_published_at = ''now'', ur_notes_url = None, ur_artifacts = [a]\<rparr>,
      sr_signature = encode_hex (replicate 64 7)\<rparr>"

definition sample_update_config :: UpdateConfig where
  "sample_update_config =
     \<lparr>uc_endpoint = ''https://example.com/u'', uc_channel = ''stable'',
      uc_public_key = encode_hex (replicate 32 1), uc_policy = UpdatePolicy.Manual\<rparr>"

definition sample_crypto :: crypto where
  "sample_crypto =
     \<lparr>cr_key_valid = (\<lambda>_. True), cr_verify = (\<lambda>_ _ signature. signature = replicate 64 7),
      cr_sha256 = (\<lambda>b. replicate 64 (if b = ''ab'' then CHR ''a'' else CHR ''b'')),
      cr_release_json = (\<lambda>r. Some (ur_version r))\<rparr>"

definition sample_updater :: updater_host where
  "sample_updater =
     \<lparr>uh_crypto = sample_crypto, uh_parse_url = (\<lambda>_. Some sample_url), uh_debug = False,
      uh_target = \<lparr>tg_os = ''linux'', tg_architecture = ''x86_64''\<rparr>,
      uh_decode = (\<lambda>b. if b = ''1'' then Some (sample_feed ''1.10'' (sample_artifact 2 CHR ''a''))
         else Some (sample_feed ''2.0'' (sample_artifact 3 CHR ''b''))),
      uh_application_id = ''com.example.notes'', uh_current_version = ''1.9'',
      uh_config = Some sample_update_config, uh_bundle_root = Some ''/opt/notes''\<rparr>"

definition sample_candidate :: "string \<Rightarrow> UpdateArtifact \<Rightarrow> Candidate" where
  "sample_candidate version a = \<lparr>ca_artifact = a, ca_version = version, ca_notes_url = None\<rparr>"

definition sample_download :: download_env where
  "sample_download = \<lparr>de_stage = Inr ''/tmp/stage'', de_connected = True, de_content_length = Some 2,
     de_created = True, de_blocks = [Some (''a'', True), Some (''b'', True)], de_synced = True\<rparr>"

definition sample_start :: InternalState where
  "sample_start = updater_prepare (sample_manifest\<lparr>am_updates := Some sample_update_config\<rparr>)"

lemma sample_url_trusted: "trusted_update_url False sample_url"
  by (simp add: trusted_update_url_def sample_url_def)

lemma sample_artifact_valid:
  assumes "0 < n" "lower_hex_byte (byte digit)"
  shows "validate_update_artifact (\<lambda>_. Some sample_url) False (sample_artifact n digit) = Inr ()"
proof -
  have "valid_identifier ''x86_64''" by code_simp
  moreover have "\<not> list_ex char_control (str_chars ''https://example.com/u'')" by code_simp
  ultimately show ?thesis
    using assms sample_url_trusted
    by (auto simp: validate_update_artifact_def sample_artifact_def validate_update_url_def valid_hex_def
        result_simps list_all_iff word_gt_0)
qed

lemma sample_feed_valid:
  assumes "0 < n" "lower_hex_byte (byte digit)" "validate_version version = Inr ()"
  shows "validate_signed_release (\<lambda>_. Some sample_url) False
     (sample_feed version (sample_artifact n digit)) = Inr ()"
proof -
  have "validate_application_identifier ''com.example.notes'' = Inr ()" "valid_identifier ''stable''"
    "validate_text ''now'' l 64 False = Inr ()" for l
    by code_simp+
  moreover have "valid_hex 128 (encode_hex (replicate 64 7))" by code_simp
  ultimately show ?thesis
    using sample_artifact_valid [OF assms(1,2)] assms(3)
    by (simp add: validate_signed_release_def validate_update_release_def sample_feed_def result_simps)
qed

lemma sample_feeds_verify:
  assumes "0 < n" "lower_hex_byte (byte digit)" "validate_version version = Inr ()"
  shows "verify_signed_feed sample_crypto (\<lambda>_. Some sample_url) False
     (sample_feed version (sample_artifact n digit)) (uc_public_key sample_update_config) = Inr ()"
  unfolding verify_signed_feed_Inr
  by (intro conjI sample_feed_valid [OF assms] exI [of _ "replicate 32 1"] exI [of _ "replicate 64 7"]
      exI [of _ version])
     (simp_all add: sample_update_config_def sample_feed_def sample_crypto_def)

lemma sample_valid_versions: "validate_version ''1.10'' = Inr ()" "validate_version ''2.0'' = Inr ()"
  "lower_hex_byte (byte CHR ''a'')" "lower_hex_byte (byte CHR ''b'')"
  by code_simp+

lemma sample_checks:
  "host_check_inner sample_updater sample_update_config (Inr ''1'') =
     Inr (Some (sample_candidate ''1.10'' (sample_artifact 2 CHR ''a'')))"
  "host_check_inner sample_updater sample_update_config (Inr ''2'') =
     Inr (Some (sample_candidate ''2.0'' (sample_artifact 3 CHR ''b'')))"
  using sample_feeds_verify [OF _ sample_valid_versions(3,1), of 2]
    sample_feeds_verify [OF _ sample_valid_versions(4,2), of 3] sample_newer
  by (simp_all add: host_check_inner_def check_inner_def sample_updater_def sample_candidate_def
      sample_feed_def sample_update_config_def sample_artifact_def matching_artifact_def
      current_platform_def Let_def)

lemma sample_downloaded:
  "download_inner sample_crypto ''linux'' (sample_candidate ''1.10'' (sample_artifact 2 CHR ''a'')) sample_download =
     ([1, 2], Inr (''/tmp/stage/update.tar.gz'', ''ab''))"
  by (simp add: download_inner_def sample_candidate_def sample_artifact_def sample_download_def
      sample_crypto_def archive_name_def path_join_def Let_def path_is_absolute_def starts_with_def slash_def)

section \<open>Properties\<close>

lemma candidate_offered_step:
  assumes "updater_step h x y" "candidate_offered h (fst x)"
  shows "candidate_offered h (fst y)"
  using assms
proof (cases rule: updater_step.cases)
  case (check_end ts config s fetched)
  show ?thesis
  proof (cases "host_check_inner h config fetched")
    case (Inl e)
    with check_end assms(2) show ?thesis
      by (simp add: candidate_offered_def check_commit_simps)
  next
    case (Inr offered)
    moreover obtain bytes where bytes: "fetched = Inr bytes"
      using Inr by (cases fetched) (auto simp: host_check_inner_def check_inner_def)
    ultimately show ?thesis
      using check_end host_check_inner_offered [of h config]
      by (auto simp: candidate_offered_def check_commit_simps)
  qed
qed (auto simp: candidate_offered_def download_commit_simps install_commit_def
      split: sum.splits dest!: begin_operation_Inr)

lemma candidate_offered_reaches:
  "updater_reaches h x y \<Longrightarrow> candidate_offered h (fst x) \<Longrightarrow> candidate_offered h (fst y)"
  by (induction rule: updater_reaches.induct) (auto intro: candidate_offered_step)

lemma prepared [simp]:
  "it_candidate (updater_prepare m) = None" "it_archive (updater_prepare m) = None"
  "exclusive (updater_prepare m, [])"
  by (simp_all add: updater_prepare_def exclusive_def)

lemmas reach_step = updater_reaches.step [OF _ updater_step.check_start]
  updater_reaches.step [OF _ updater_step.check_end]
  updater_reaches.step [OF _ updater_step.download_ask]
  updater_reaches.step [OF _ updater_step.download_start]
  updater_reaches.step [OF _ updater_step.download_end]

definition sample_checking :: "InternalState \<Rightarrow> InternalState" where
  "sample_checking s = s\<lparr>it_snapshot := (it_snapshot s)\<lparr>us_state := UpdateState.Checking, us_error := None\<rparr>\<rparr>"

definition sample_offered :: InternalState where
  "sample_offered = check_commit (host_check_inner sample_updater sample_update_config (Inr ''1''))
     (sample_checking sample_start)"

lemma sample_begins:
  "begin_operation UpdateState.Checking sample_start = Inr (sample_checking sample_start)"
  "begin_operation UpdateState.Checking sample_offered = Inr (sample_checking sample_offered)"
  by (simp_all add: begin_operation_def sample_start_def updater_prepare_def sample_checking_def busy_def
      sample_offered_def sample_checks check_commit_def)

lemma sample_config: "uh_config sample_updater = Some sample_update_config"
  by (simp add: sample_updater_def)

lemma sample_reaches_checking:
  "updater_reaches sample_updater (sample_start, []) (sample_checking sample_start, [CheckTask])"
  by (rule reach_step(1) [OF updater_reaches.initial]) (simp_all add: sample_config sample_begins)

lemma sample_reaches_offered: "updater_reaches sample_updater (sample_start, []) (sample_offered, [])"
  using reach_step(2) [OF sample_reaches_checking, of sample_update_config "Inr ''1''"]
  by (simp add: sample_config sample_offered_def)

lemma sample_offered_candidate:
  "it_candidate sample_offered = Some (sample_candidate ''1.10'' (sample_artifact 2 CHR ''a''))"
  by (simp add: sample_offered_def sample_checks check_commit_simps)

text \<open>
  C6. In every interleaving of checks, downloads and installs from the prepared updater, the
  candidate that is offered comes from a feed that decoded, passed its validation and verified
  under the configured key, for this application and channel, newer than the running version,
  with an artifact for this platform.
\<close>
theorem no_unsigned_update_is_offered:
  assumes "updater_reaches h (updater_prepare m, []) (s, ts)" "it_candidate s = Some c"
  shows "\<exists>config bytes. uh_config h = Some config \<and> offered_by_feed h config bytes c"
  using candidate_offered_reaches [OF assms(1)] assms(2) by (simp add: candidate_offered_def)

theorem no_unsigned_update_is_offered_witness:
  "\<exists>config bytes. uh_config sample_updater = Some config \<and>
     offered_by_feed sample_updater config bytes (sample_candidate ''1.10'' (sample_artifact 2 CHR ''a''))"
  by (rule no_unsigned_update_is_offered
      [OF sample_reaches_offered [unfolded sample_start_def] sample_offered_candidate])

text \<open>
  At most one check or download runs at a time, in every interleaving, and while one runs
  the state says so.
\<close>
theorem one_update_operation_at_a_time:
  assumes "updater_reaches h (updater_prepare m, []) (s, ts)"
  shows "length (filter active ts) \<le> 1 \<and>
    (filter active ts \<noteq> [] \<longrightarrow> busy (us_state (it_snapshot s)))"
  using exclusive_reaches [OF assms prepared(3)]
  by (cases "us_state (it_snapshot s)"; fastforce simp: exclusive_def busy_def)

theorem one_update_operation_at_a_time_witness:
  "length (filter active [CheckTask]) \<le> 1 \<and> busy (us_state (it_snapshot (sample_checking sample_start)))"
  using one_update_operation_at_a_time [OF sample_reaches_checking [unfolded sample_start_def]]
  by (simp add: sample_start_def)

text \<open>
  A download writes no more than the signed size, publishes increasing totals within it,
  and ends with an archive only when the file has the signed size and digest.
\<close>
theorem download_is_bounded_and_verified:
  assumes "download_inner c os candidate env = (totals, result)"
  shows "(\<forall>t \<in> set totals. 0 < t \<and> t \<le> unat (ua_bytes (ca_artifact candidate))) \<and>
     sorted_wrt (<) totals \<and>
     (\<forall>archive content. result = Inr (archive, content) \<longrightarrow>
        length content = unat (ua_bytes (ca_artifact candidate)) \<and>
        cr_sha256 c content = ua_sha256 (ca_artifact candidate))"
proof -
  have "snd (download_inner c os candidate env) = result" using assms by simp
  moreover have "totals = [] \<or> (\<exists>r. read_blocks (unat (ua_bytes (ca_artifact candidate))) [] (de_blocks env) = (totals, r))"
    using assms by (auto simp: download_inner_def Let_def split: sum.splits if_splits prod.splits)
  ultimately show ?thesis
    using download_inner_verified [of c os candidate env] read_blocks_bounds [of _ "[]"] by fastforce
qed

theorem download_is_bounded_and_verified_witness:
  "(1 :: nat) \<le> unat (2 :: u64) \<and> (2 :: nat) \<le> unat (2 :: u64) \<and> cr_sha256 sample_crypto ''ab'' = replicate 64 CHR ''a''"
  using download_is_bounded_and_verified [OF sample_downloaded]
  by (simp add: sample_candidate_def sample_artifact_def)

text \<open>
  C10. Used by one thread, the updater starts the helper only with an archive that it downloaded
  itself, whose contents have the size and the digest of the candidate offered by a verified
  feed; the digest is the one the helper is given.
\<close>
theorem installer_gets_verified_archive:
  assumes "updater_used h (updater_prepare m) s files"
    and "updater_install h launched s = (s', Some (root, archive, sha), r)"
  shows "uh_bundle_root h = Some root \<and>
     (\<exists>content c config bytes. (archive, content) \<in> files \<and> it_candidate s = Some c \<and>
        uh_config h = Some config \<and> offered_by_feed h config bytes c \<and>
        length content = unat (ua_bytes (ca_artifact c)) \<and>
        sha = ua_sha256 (ca_artifact c) \<and> cr_sha256 (uh_crypto h) content = sha)"
proof -
  have inv: "archive_backed h files s" "candidate_offered h s"
    using updater_used_invariant [OF assms(1)] by simp_all
  obtain c where c: "it_archive s = Some archive" "it_candidate s = Some c" "sha = ua_sha256 (ca_artifact c)"
    using updater_install_state [OF assms(2)] by auto
  have "uh_bundle_root h = Some root"
    using assms(2) by (auto simp: updater_install_def Let_def split: sum.splits option.splits)
  with inv c show ?thesis
    unfolding archive_backed_def candidate_offered_def by fastforce
qed

definition sample_ready :: InternalState where
  "sample_ready = fst (updater_download sample_updater sample_download sample_offered)"

lemma sample_used:
  "updater_used sample_updater sample_start sample_ready {(''/tmp/stage/update.tar.gz'', ''ab'')}"
proof -
  have one: "updater_check sample_updater (Inr ''1'') sample_start = (sample_offered, Inr (it_snapshot sample_offered))"
    by (simp add: updater_check_def sample_config sample_begins sample_checks Let_def sample_offered_def)
  have used: "updater_used sample_updater sample_start sample_offered {}"
    by (rule updater_used.check [OF updater_used.start one])
  obtain r where down: "updater_download sample_updater sample_download sample_offered = (sample_ready, r)"
    by (metis sample_ready_def surjective_pairing)
  have "uh_crypto sample_updater = sample_crypto" "tg_os (uh_target sample_updater) = ''linux''"
    by (simp_all add: sample_updater_def)
  then show ?thesis
    using updater_used.download [OF used down]
    by (simp add: sample_offered_candidate sample_downloaded)
qed

theorem installer_gets_verified_archive_witness:
  "\<exists>content c config bytes. (''/tmp/stage/update.tar.gz'', content) \<in> {(''/tmp/stage/update.tar.gz'', ''ab'')} \<and>
     it_candidate sample_ready = Some c \<and> uh_config sample_updater = Some config \<and>
     offered_by_feed sample_updater config bytes c \<and> length content = unat (ua_bytes (ca_artifact c)) \<and>
     replicate 64 CHR ''a'' = ua_sha256 (ca_artifact c) \<and>
     cr_sha256 (uh_crypto sample_updater) content = replicate 64 CHR ''a''"
proof -
  have host: "uh_crypto sample_updater = sample_crypto" "tg_os (uh_target sample_updater) = ''linux''"
    "uh_bundle_root sample_updater = Some ''/opt/notes''"
    by (simp_all add: sample_updater_def)
  have ready: "it_candidate sample_ready = it_candidate sample_offered"
    "it_archive sample_ready = Some ''/tmp/stage/update.tar.gz''"
    "us_state (it_snapshot sample_ready) = UpdateState.Ready"
    by (simp_all add: sample_ready_def updater_download_def sample_offered_candidate host begin_operation_def
        sample_downloaded download_commit_def Let_def busy_def)
       (simp_all add: sample_offered_def check_commit_def sample_checks)
  obtain s' r where "updater_install sample_updater (Inr ()) sample_ready =
      (s', Some (''/opt/notes'', ''/tmp/stage/update.tar.gz'', replicate 64 CHR ''a''), r)"
    by (simp add: updater_install_def install_read_def ready host sample_offered_candidate begin_operation_def
        busy_def Let_def sample_candidate_def sample_artifact_def)
  from installer_gets_verified_archive [OF sample_used [unfolded sample_start_def] this] show ?thesis by blast
qed

text \<open>
  With two threads this fails: a download that read its candidate before another thread's
  check ends as Ready, next to the candidate of that check, with the archive of the old one;
  its size is not the size of the candidate.
\<close>
theorem interleaved_download_is_stale:
  "\<exists>s c. updater_reaches sample_updater (sample_start, []) (s, []) \<and>
     us_state (it_snapshot s) = UpdateState.Ready \<and> it_candidate s = Some c \<and>
     it_archive s = Some ''/tmp/stage/update.tar.gz'' \<and>
     us_downloaded_bytes (it_snapshot s) = 2 \<and> unat (ua_bytes (ca_artifact c)) = 3"
proof -
  let ?a = "sample_candidate ''1.10'' (sample_artifact 2 CHR ''a'')"
  let ?b = "sample_candidate ''2.0'' (sample_artifact 3 CHR ''b'')"
  have asked: "updater_reaches sample_updater (sample_start, []) (sample_offered, [DownloadAsked ?a])"
    using reach_step(3) [OF sample_reaches_offered sample_offered_candidate] .
  have "updater_reaches sample_updater (sample_start, []) (sample_checking sample_offered, [CheckTask, DownloadAsked ?a])"
    by (rule reach_step(1) [OF asked]) (simp_all add: sample_config sample_begins)
  from reach_step(2) [OF this, of sample_update_config "Inr ''2''"]
  obtain s2 where s2: "updater_reaches sample_updater (sample_start, []) (s2, [DownloadAsked ?a])"
    "it_candidate s2 = Some ?b" "us_state (it_snapshot s2) = UpdateState.Available"
    by (simp add: sample_config sample_checks check_commit_def)
  obtain s3 where s3: "begin_operation UpdateState.Downloading s2 = Inr s3"
    using s2(3) by (simp add: begin_operation_def busy_def)
  have host: "uh_crypto sample_updater = sample_crypto" "tg_os (uh_target sample_updater) = ''linux''"
    by (simp_all add: sample_updater_def)
  have "updater_reaches sample_updater (sample_start, []) (s3, [DownloadTask ?a])"
    using reach_step(4) [OF s2(1) _ s3, of ?a] by simp
  from reach_step(5) [OF this, of ?a sample_download]
  have "updater_reaches sample_updater (sample_start, [])
      (download_commit ?a ([1, 2], Inr (''/tmp/stage/update.tar.gz'', ''ab'')) s3, [])"
    by (simp add: host sample_downloaded)
  moreover have "it_candidate s3 = Some ?b"
    using begin_operation_Inr [OF s3] s2(2) by simp
  ultimately show ?thesis
    by (intro exI conjI) (assumption | simp add: download_commit_def Let_def sample_candidate_def sample_artifact_def)+
qed

end
