(* ===== verification/UpdatePublish.thy ===== *)
theory UpdatePublish
  imports Updater ProjectFiles "HOL-Library.Option_ord" "HOL-Library.List_Lexorder"
    "HOL-Library.Char_ord" "HOL-Library.Product_Lexorder"
begin

text \<open>
  Publishing a feed and starting the helper: \<open>publish_feed\<close>, the two argument parsers, the
  staging directories and the launch of the helper, from \<open>updater.rs\<close>.

  An argument of the command line is an \<open>OsString\<close>, any bytes; \<open>to_str\<close> and \<open>into_string\<close> give a
  \<open>String\<close> when they are UTF-8.
\<close>

section \<open>Staging\<close>

definition safe_path_segment :: "string \<Rightarrow> string" where
  "safe_path_segment value =
     map (\<lambda>c. if ascii_alphanumeric c \<or> c \<in> byte ` {CHR ''.'', CHR ''-'', CHR ''_''} then char_of c
              else CHR ''_'') (str_chars value)"

text \<open>An entry of the directory above the bundle that can be inspected.\<close>

record stage_entry =
  se_name :: string
  se_modified :: "nat option"
  se_is_dir :: bool
  se_is_symlink :: bool

definition stage_prefix :: "string \<Rightarrow> string" where
  "stage_prefix application_id = ''.pam-update-'' @ safe_path_segment application_id @ ''-''"

definition MAX_RETAINED_UPDATE_STAGES :: nat where
  "MAX_RETAINED_UPDATE_STAGES = 1"

text \<open>The stages that \<open>prune_update_stages\<close> removes: all but the newest, newest first.\<close>

definition pruned_update_stages :: "string \<Rightarrow> stage_entry list \<Rightarrow> stage_entry list" where
  "pruned_update_stages application_id entries =
     (let stages = filter (\<lambda>e. starts_with (stage_prefix application_id) (se_name e) \<and>
            se_is_dir e \<and> \<not> se_is_symlink e) entries
      in drop MAX_RETAINED_UPDATE_STAGES (rev (sort_key (\<lambda>e. (se_modified e, se_name e)) stages)))"

definition update_stage_name :: "string \<Rightarrow> string \<Rightarrow> u8 list \<Rightarrow> string" where
  "update_stage_name application_id version entropy =
     ''.pam-update-'' @ safe_path_segment application_id @ ''-'' @ safe_path_segment version @ ''-'' @
     encode_hex entropy"

section \<open>Command lines\<close>

definition os_to_str :: "string \<Rightarrow> string option" where
  "os_to_str s = (if is_utf8 s then Some s else None)"

definition set_path_option :: "string option \<Rightarrow> string option \<Rightarrow> string \<Rightarrow> string \<Rightarrow> string + string" where
  "set_path_option target value missing duplicate =
     (case value of
        None \<Rightarrow> Inl missing
      | Some v \<Rightarrow> if target \<noteq> None then Inl duplicate else Inr v)"

definition set_string_option :: "string option \<Rightarrow> string option \<Rightarrow> string \<Rightarrow> string \<Rightarrow> string + string" where
  "set_string_option target value missing duplicate =
     (case value of
        None \<Rightarrow> Inl missing
      | Some v \<Rightarrow>
          (case os_to_str v of
             None \<Rightarrow> Inl missing
           | Some s \<Rightarrow> if target \<noteq> None then Inl duplicate else Inr s))"

text \<open>\<open>splitn(n, c)\<close>: at most \<open>n\<close> fields, the last takes the rest.\<close>

fun splitn :: "nat \<Rightarrow> 'a \<Rightarrow> 'a list \<Rightarrow> 'a list list" where
  "splitn 0 c s = []"
| "splitn (Suc 0) c s = [s]"
| "splitn (Suc (Suc n)) c s =
     (case split_once c s of None \<Rightarrow> [s] | Some (a, b) \<Rightarrow> a # splitn (Suc n) c b)"

record PublishArtifact =
  pa_platform :: UpdatePlatform
  pa_architecture :: string
  pa_kind :: UpdateArtifactKind
  pa_path :: string
  pa_url :: string

definition platform_of :: "string \<Rightarrow> UpdatePlatform option" where
  "platform_of = current_platform"

definition kind_of :: "string \<Rightarrow> UpdateArtifactKind option" where
  "kind_of s =
     (if s = ''portable'' then Some UpdateArtifactKind.PortableArchive
      else if s = ''installer'' \<or> s = ''native'' then Some UpdateArtifactKind.NativeInstaller
      else None)"

definition parse_publish_artifact :: "string \<Rightarrow> string + PublishArtifact" where
  "parse_publish_artifact value =
     (case os_to_str value of
        None \<Rightarrow> Inl ''artifact tuple must be valid UTF-8''
      | Some v \<Rightarrow>
          (case splitn 5 CHR '','' v of
             [platform, architecture, kind, path, artifact_url] \<Rightarrow>
               if [] \<in> set [platform, architecture, kind, path, artifact_url]
               then Inl ''artifact tuple must be platform,architecture,kind,path,url''
               else (case platform_of platform of
                  None \<Rightarrow> Inl ''unknown update artifact platform''
                | Some p \<Rightarrow>
                    (case kind_of kind of
                       None \<Rightarrow> Inl ''unknown update artifact kind''
                     | Some k \<Rightarrow>
                         Inr \<lparr>pa_platform = p, pa_architecture = architecture, pa_kind = k,
                           pa_path = path, pa_url = artifact_url\<rparr>))
           | _ \<Rightarrow> Inl ''artifact tuple must be platform,architecture,kind,path,url''))"

text \<open>The variables of \<open>PublishOptions::parse\<close>.\<close>

record publish_args =
  pg_private_key :: "string option"
  pg_output :: "string option"
  pg_channel :: "string option"
  pg_published_at :: "string option"
  pg_notes_url :: "string option"
  pg_artifacts :: "PublishArtifact list"
  pg_force :: bool

definition no_publish_args :: publish_args where
  "no_publish_args = \<lparr>pg_private_key = None, pg_output = None, pg_channel = None,
     pg_published_at = None, pg_notes_url = None, pg_artifacts = [], pg_force = False\<rparr>"

text \<open>One option with the argument after it; whether it took that argument is the flag.\<close>

definition publish_option :: "publish_args \<Rightarrow> string \<Rightarrow> string option \<Rightarrow> string + publish_args \<times> bool" where
  "publish_option a option value =
     (if option = ''--key'' then
        rbind (set_path_option (pg_private_key a) value ''--key requires a private key file''
          ''--key may only be specified once'') (\<lambda>v. Inr (a\<lparr>pg_private_key := Some v\<rparr>, True))
      else if option = ''--output'' \<or> option = ''-o'' then
        rbind (set_path_option (pg_output a) value ''--output requires a feed path''
          ''--output may only be specified once'') (\<lambda>v. Inr (a\<lparr>pg_output := Some v\<rparr>, True))
      else if option = ''--channel'' then
        rbind (set_string_option (pg_channel a) value ''--channel requires a value''
          ''--channel may only be specified once'') (\<lambda>v. Inr (a\<lparr>pg_channel := Some v\<rparr>, True))
      else if option = ''--published-at'' then
        rbind (set_string_option (pg_published_at a) value ''--published-at requires an RFC 3339 timestamp''
          ''--published-at may only be specified once'') (\<lambda>v. Inr (a\<lparr>pg_published_at := Some v\<rparr>, True))
      else if option = ''--notes-url'' then
        rbind (set_string_option (pg_notes_url a) value ''--notes-url requires an HTTPS URL''
          ''--notes-url may only be specified once'') (\<lambda>v. Inr (a\<lparr>pg_notes_url := Some v\<rparr>, True))
      else if option = ''--artifact'' then
        (case value of
           None \<Rightarrow> Inl ''--artifact requires a target tuple''
         | Some v \<Rightarrow> rbind (parse_publish_artifact v) (\<lambda>p.
             Inr (a\<lparr>pg_artifacts := pg_artifacts a @ [p]\<rparr>, True)))
      else if option = ''--force'' then Inr (a\<lparr>pg_force := True\<rparr>, False)
      else Inl (''unknown publish-update option '' @ option))"

fun publish_arguments :: "publish_args \<Rightarrow> string list \<Rightarrow> string + publish_args" where
  "publish_arguments a [] = Inr a"
| "publish_arguments a [argument] =
     (case os_to_str argument of
        None \<Rightarrow> Inl ''publish-update options must be valid UTF-8''
      | Some option \<Rightarrow> rbind (publish_option a option None) (\<lambda>(a', _). Inr a'))"
| "publish_arguments a (argument # value # rest) =
     (case os_to_str argument of
        None \<Rightarrow> Inl ''publish-update options must be valid UTF-8''
      | Some option \<Rightarrow> rbind (publish_option a option (Some value)) (\<lambda>(a', taken).
          if taken then publish_arguments a' rest else publish_arguments a' (value # rest)))"

record PublishOptions =
  po_private_key :: string
  po_output :: string
  po_channel :: string
  po_published_at :: string
  po_notes_url :: "string option"
  po_artifacts :: "PublishArtifact list"
  po_force :: bool

definition parse_publish :: "string list \<Rightarrow> string + PublishOptions" where
  "parse_publish arguments =
     rbind (publish_arguments no_publish_args arguments) (\<lambda>a.
       if pg_artifacts a = [] then Inl ''publish-update requires at least one --artifact tuple''
       else case pg_private_key a of
         None \<Rightarrow> Inl ''--key is required''
       | Some private_key \<Rightarrow>
           (case pg_output a of
              None \<Rightarrow> Inl ''--output is required''
            | Some output \<Rightarrow>
                (case pg_published_at a of
                   None \<Rightarrow> Inl ''--published-at is required''
                 | Some published_at \<Rightarrow>
                     Inr \<lparr>po_private_key = private_key, po_output = output,
                       po_channel = (case pg_channel a of None \<Rightarrow> ''stable'' | Some c \<Rightarrow> c),
                       po_published_at = published_at, po_notes_url = pg_notes_url a,
                       po_artifacts = pg_artifacts a, po_force = pg_force a\<rparr>)))"

record ApplyOptions =
  ao_parent_pid :: nat
  ao_bundle :: string
  ao_archive :: string
  ao_sha256 :: string
  ao_launcher :: "string option"

fun apply_values :: "(string \<times> string) list \<Rightarrow> string list \<Rightarrow> string + (string \<times> string) list" where
  "apply_values values [] = Inr values"
| "apply_values values [argument] =
     (case os_to_str argument of
        None \<Rightarrow> Inl ''invalid apply-update option''
      | Some key \<Rightarrow>
          if \<not> starts_with ''--'' key then Inl ''invalid apply-update option''
          else Inl (key @ '' requires a value''))"
| "apply_values values (argument # v # rest) =
     (case os_to_str argument of
        None \<Rightarrow> Inl ''invalid apply-update option''
      | Some key \<Rightarrow>
          if \<not> starts_with ''--'' key then Inl ''invalid apply-update option''
          else if key \<in> fst ` set values then Inl (key @ '' may only be specified once'')
          else apply_values ((key, v) # values) rest)"

definition take_value :: "(string \<times> string) list \<Rightarrow> string \<Rightarrow> string + string" where
  "take_value values key =
     (case map_of values key of None \<Rightarrow> Inl (key @ '' is required'') | Some v \<Rightarrow> Inr v)"

definition apply_keys :: "string list" where
  "apply_keys = [''--parent'', ''--bundle'', ''--archive'', ''--sha256'', ''--launcher'']"

definition parse_parent_pid :: "string \<Rightarrow> string + nat" where
  "parse_parent_pid v =
     (case os_to_str v of
        None \<Rightarrow> Inl ''--parent must be valid UTF-8''
      | Some s \<Rightarrow>
          (case parse_unsigned 32 s of
             None \<Rightarrow> Inl ''--parent must be a positive process identifier''
           | Some n \<Rightarrow> if n = 0 then Inl ''--parent must be a positive process identifier'' else Inr n))"

definition parse_apply :: "string list \<Rightarrow> string + ApplyOptions" where
  "parse_apply arguments =
     rbind (apply_values [] arguments) (\<lambda>values.
     rbind (take_value values ''--parent'') (\<lambda>parent.
     rbind (parse_parent_pid parent) (\<lambda>parent_pid.
     rbind (take_value values ''--bundle'') (\<lambda>installed.
     rbind (take_value values ''--archive'') (\<lambda>archive.
     rbind (take_value values ''--sha256'') (\<lambda>digest.
       case os_to_str digest of
         None \<Rightarrow> Inl ''--sha256 must be a lowercase SHA-256 digest''
       | Some sha256 \<Rightarrow>
           if length sha256 \<noteq> 64 \<or> \<not> list_all lower_hex_byte (map byte sha256)
           then Inl ''--sha256 must be a lowercase SHA-256 digest''
           else if list_ex (\<lambda>(k, _). k \<notin> set apply_keys) values
           then Inl ''unknown apply-update option''
           else Inr \<lparr>ao_parent_pid = parent_pid, ao_bundle = installed, ao_archive = archive,
             ao_sha256 = sha256, ao_launcher = map_of values ''--launcher''\<rparr>))))))"

text \<open>The command line of \<open>launch_apply_helper\<close>, after \<open>apply-update\<close>.\<close>

definition launch_arguments :: "string \<Rightarrow> string \<Rightarrow> string \<Rightarrow> nat \<Rightarrow> string option \<Rightarrow> string list" where
  "launch_arguments bundle_root archive sha256 parent_pid launcher =
     [''--parent'', decimal parent_pid, ''--bundle'', bundle_root, ''--archive'', archive,
      ''--sha256'', sha256] @
     (case launcher of None \<Rightarrow> [] | Some l \<Rightarrow> [''--launcher'', l])"

section \<open>Publication\<close>

text \<open>\<open>SigningKey::verifying_key\<close> and \<open>sign\<close> of a 32-byte seed.\<close>

record signer =
  sn_public :: "u8 list \<Rightarrow> u8 list"
  sn_sign :: "u8 list \<Rightarrow> string \<Rightarrow> u8 list"

definition trim_str :: "string \<Rightarrow> string" where
  "trim_str s = map char_of (utf8_encode (trim_chars (str_chars s)))"

definition read_signing_key :: "filesystem \<Rightarrow> string \<Rightarrow> string + u8 list" where
  "read_signing_key fs path =
     (case fs_mode fs path of
        None \<Rightarrow> Inl ''cannot inspect update private key''
      | Some mode \<Rightarrow>
          if \<not> fs_is_file fs path then Inl ''update private key is not a file''
          else if and mode 0x3F \<noteq> 0
          then Inl ''update private key permissions are too broad; use owner-only mode 0600''
          else (case fs_read fs path of
             None \<Rightarrow> Inl ''cannot read update private key''
           | Some source \<Rightarrow>
               if \<not> is_utf8 source then Inl ''cannot read update private key''
               else (case decode_hex 32 (trim_str source) ''update private key'' of
                  Inl e \<Rightarrow> Inl (ue_message e)
                | Inr seed \<Rightarrow> Inr seed)))"

definition file_size_and_hash :: "crypto \<Rightarrow> filesystem \<Rightarrow> string \<Rightarrow> string + u64 \<times> string" where
  "file_size_and_hash c fs path =
     (case fs_read fs path of
        None \<Rightarrow> Inl ''cannot open update artifact''
      | Some content \<Rightarrow> Inr (of_nat (length content), cr_sha256 c content))"

fun publish_artifacts :: "crypto \<Rightarrow> filesystem \<Rightarrow> PublishArtifact list \<Rightarrow> string + UpdateArtifact list" where
  "publish_artifacts c fs [] = Inr []"
| "publish_artifacts c fs (input # rest) =
     (case fs_canonicalize fs (pa_path input) of
        None \<Rightarrow> Inl ''cannot resolve artifact''
      | Some path \<Rightarrow>
          if \<not> fs_is_file fs path then Inl ''update artifact is not a file''
          else rbind (file_size_and_hash c fs path) (\<lambda>(bytes, sha256).
            rbind (publish_artifacts c fs rest) (\<lambda>artifacts.
              Inr (\<lparr>ua_platform = pa_platform input, ua_architecture = pa_architecture input,
                ua_kind = pa_kind input, ua_url = pa_url input, ua_bytes = bytes,
                ua_sha256 = sha256\<rparr> # artifacts))))"

text \<open>The output on a Unix target: what is there, and whether the two system calls succeed.\<close>

record feed_target =
  ft_exists :: bool
  ft_parent_is_dir :: bool
  ft_written :: bool
  ft_renamed :: bool

definition atomic_write :: "feed_target \<Rightarrow> bool \<Rightarrow> string + unit" where
  "atomic_write t force =
     (if ft_exists t \<and> \<not> force then Inl ''update feed already exists; pass --force to replace it''
      else if \<not> ft_parent_is_dir t then Inl ''update feed directory does not exist''
      else if \<not> ft_written t then Inl ''cannot write update feed staging file''
      else if \<not> ft_renamed t then Inl ''cannot publish update feed atomically''
      else Inr ())"

definition publish_feed ::
    "crypto \<Rightarrow> signer \<Rightarrow> filesystem \<Rightarrow> url_parser \<Rightarrow> bool \<Rightarrow> ApplicationManifest \<Rightarrow> PublishOptions \<Rightarrow>
     feed_target \<Rightarrow> string + SignedUpdateRelease" where
  "publish_feed c sg fs parse debug manifest options t =
     rbind (read_signing_key fs (po_private_key options)) (\<lambda>seed.
       let public_key = encode_hex (sn_public sg seed) in
       if (case am_updates manifest of None \<Rightarrow> False | Some config \<Rightarrow> uc_public_key config \<noteq> public_key)
       then Inl ''the update signing key does not match the public key configured in the application''
       else rbind (publish_artifacts c fs (po_artifacts options)) (\<lambda>artifacts.
         let release = \<lparr>ur_schema_version = UPDATE_FEED_VERSION,
               ur_application_id = am_identifier manifest, ur_channel = po_channel options,
               ur_version = am_version manifest, ur_published_at = po_published_at options,
               ur_notes_url = po_notes_url options, ur_artifacts = artifacts\<rparr>
         in case validate_update_release parse debug release of
              Inl _ \<Rightarrow> Inl ''invalid update release''
            | Inr _ \<Rightarrow>
                (case cr_release_json c release of
                   None \<Rightarrow> Inl ''cannot serialize update release''
                 | Some payload \<Rightarrow>
                     rbind (atomic_write t (po_force options)) (\<lambda>_.
                       Inr \<lparr>sr_release = release,
                         sr_signature = encode_hex (sn_sign sg seed payload)\<rparr>))))"

section \<open>Lemmas\<close>

lemma encode_hex_lower: "list_all lower_hex_byte (map byte (encode_hex bs))"
proof -
  have "\<forall>n \<in> {0..<16}. lower_hex_byte (byte (hex_digits ! n))"
    unfolding hex_digits_def by (simp add: atLeastLessThan_nat_numeral lower_hex_byte_def byte_def ascii_digit_def)
  then have "lower_hex_byte (byte (hex_digits ! n))" if "n < 16" for n
    using that by simp
  then show ?thesis
    using nibbles_of_byte(1,2) by (induction bs) (auto simp: encode_hex_def)
qed

lemma encode_hex_valid: "valid_hex (2 * length bs) (encode_hex bs)"
  using encode_hex_lower [of bs] by (simp add: valid_hex_def length_encode_hex)

lemma digits_value_snoc: "digits_value (s @ [c]) = digits_value s * 10 + (byte c - 48)"
  by (simp add: digits_value_def)

lemma decimal_digits:
  "decimal n \<noteq> [] \<and> list_all (\<lambda>c. 48 \<le> byte c \<and> byte c \<le> 57) (decimal n) \<and> digits_value (decimal n) = n"
proof (induction n rule: decimal.induct)
  case (1 n)
  have digit: "byte (char_of (48 + m) :: char) = 48 + m" if "m < 10" for m :: nat
    using that by (simp add: byte_def)
  show ?case
  proof (cases "n < 10")
    case True
    then show ?thesis using digit by (simp add: decimal.simps [of n] digits_value_def)
  next
    case False
    with 1 digit [of "n mod 10"] show ?thesis
      by (simp add: decimal.simps [of n] digits_value_snoc)
  qed
qed

lemma parse_decimal: "n < 2 ^ bits \<Longrightarrow> parse_unsigned bits (decimal n) = Some n"
proof -
  assume "n < 2 ^ bits"
  moreover have "\<not> starts_with ''+'' (decimal n)"
    using decimal_digits [of n] by (cases "decimal n") (auto simp: starts_with_def byte_def)
  ultimately show ?thesis
    using decimal_digits [of n] by (simp add: parse_unsigned_def)
qed

lemma decimal_is_utf8: "is_utf8 (decimal n)"
  by (rule ascii_is_utf8) (use decimal_digits [of n] in \<open>auto simp: list_all_iff\<close>)

lemma option_is_utf8: "is_utf8 ''--parent''" "is_utf8 ''--bundle''" "is_utf8 ''--archive''"
  "is_utf8 ''--sha256''" "is_utf8 ''--launcher''"
  by (rule ascii_is_utf8; simp add: byte_def)+

lemma lower_hex_ascii: "lower_hex_byte b \<Longrightarrow> b < 128"
  by (auto simp: lower_hex_byte_def ascii_digit_def byte_def)

lemma never_Inl: "(\<forall>e. r \<noteq> Inl e) \<longleftrightarrow> r = Inr ()" for r :: "'e + unit"
  by (cases r) auto

lemma verify_published:
  assumes "publish_feed c sg fs parse debug manifest options t = Inr feed"
    and "\<And>seed. length seed = 32 \<Longrightarrow> length (sn_public sg seed) = 32 \<and> cr_key_valid c (sn_public sg seed)"
    and "\<And>seed payload. length (sn_sign sg seed payload) = 64"
    and "\<And>seed payload. cr_verify c (sn_public sg seed) payload (sn_sign sg seed payload)"
    and "am_updates manifest = Some config"
  shows "verify_signed_feed c parse debug feed (uc_public_key config) = Inr () \<and>
     ur_application_id (sr_release feed) = am_identifier manifest \<and>
     ur_channel (sr_release feed) = po_channel options \<and>
     ur_version (sr_release feed) = am_version manifest"
proof -
  obtain seed payload where parts: "read_signing_key fs (po_private_key options) = Inr seed"
    "uc_public_key config = encode_hex (sn_public sg seed)"
    "validate_update_release parse debug (sr_release feed) = Inr ()"
    "cr_release_json c (sr_release feed) = Some payload"
    "sr_signature feed = encode_hex (sn_sign sg seed payload)"
    "ur_application_id (sr_release feed) = am_identifier manifest"
    "ur_channel (sr_release feed) = po_channel options"
    "ur_version (sr_release feed) = am_version manifest"
    using assms(1,5)
    by (auto simp: publish_feed_def rbind_Inr_iff Let_def never_Inl split: if_splits sum.splits option.splits)
  have seed: "length seed = 32"
    using parts(1) by (auto simp: read_signing_key_def decode_hex_iff split: option.splits if_splits sum.splits)
  have "validate_signed_release parse debug feed = Inr ()"
    using parts(3,5) assms(3) encode_hex_valid [of "sn_sign sg seed payload"]
    by (simp add: validate_signed_release_def result_simps)
  then show ?thesis
    unfolding verify_signed_feed_Inr using parts assms(2) [OF seed] assms(3,4) by metis
qed

lemma utf8_encode_ascii: "\<forall>c \<in> set cs. c < 128 \<Longrightarrow> utf8_encode cs = cs"
  by (induction cs) (auto simp: utf8_encode_def utf8_encode_char_def)

lemma trim_chars_plain:
  assumes "\<forall>c \<in> set cs. \<not> char_whitespace c"
  shows "trim_chars cs = cs"
proof -
  have plain: "dropWhile char_whitespace xs = xs" if "\<forall>c \<in> set xs. \<not> char_whitespace c" for xs
    using that by (cases xs) auto
  show ?thesis using assms plain [of cs] plain [of "rev cs"] by (simp add: trim_chars_def)
qed

lemma trim_hex: "trim_str (encode_hex bs) = encode_hex bs" "is_utf8 (encode_hex bs)"
proof -
  have ascii: "\<forall>c \<in> set (encode_hex bs). byte c < 128"
    using encode_hex_lower [of bs] by (auto simp: list_all_iff intro: lower_hex_ascii)
  then show "is_utf8 (encode_hex bs)" by (rule ascii_is_utf8)
  have "\<forall>b \<in> set (map byte (encode_hex bs)). \<not> char_whitespace b"
    using encode_hex_lower [of bs]
    by (auto simp: list_all_iff lower_hex_byte_def ascii_digit_def char_whitespace_def byte_def)
  with ascii show "trim_str (encode_hex bs) = encode_hex bs"
    by (simp add: trim_str_def str_chars_ascii trim_chars_plain utf8_encode_ascii comp_def byte_def)
qed

section \<open>Properties\<close>

text \<open>
  C18. What is published is what the applications accept: a feed that \<open>publish_feed\<close> writes for an
  application is verified and offered by the updater of that application, if it decodes the feed, has
  updates configured with the published key and the same channel, runs on a platform with an
  artifact, and is of a strictly older version.  The hypotheses on the packages are the laws of
  Ed25519 signatures.
\<close>
theorem published_release_is_offered:
  assumes "publish_feed (uh_crypto h) sg fs (uh_parse_url h) (uh_debug h) manifest options t = Inr feed"
    and "\<And>seed. length seed = 32 \<Longrightarrow>
      length (sn_public sg seed) = 32 \<and> cr_key_valid (uh_crypto h) (sn_public sg seed)"
    and "\<And>seed payload. length (sn_sign sg seed payload) = 64"
    and "\<And>seed payload. cr_verify (uh_crypto h) (sn_public sg seed) payload (sn_sign sg seed payload)"
    and "am_updates manifest = Some config" and "uc_channel config = po_channel options"
    and "uh_decode h bytes = Some feed" and "uh_application_id h = am_identifier manifest"
    and "version_is_newer (am_version manifest) (uh_current_version h)"
    and "current_platform (tg_os (uh_target h)) = Some platform"
    and "find (matching_artifact platform (tg_architecture (uh_target h)))
      (ur_artifacts (sr_release feed)) = Some artifact"
  shows "host_check_inner h config (Inr bytes) =
     Inr (Some \<lparr>ca_artifact = artifact, ca_version = am_version manifest,
       ca_notes_url = ur_notes_url (sr_release feed)\<rparr>)"
  using verify_published [OF assms(1-5)] assms(6-11)
  by (simp add: host_check_inner_def check_inner_def Let_def)

text \<open>
  The helper understands its launcher: the arguments that \<open>launch_apply_helper\<close> passes parse
  back to the same process, bundle, archive, digest and launcher.
\<close>
theorem helper_arguments_roundtrip:
  assumes "0 < parent_pid" and "parent_pid < 2 ^ 32"
    and "validate_lower_hex sha256 64 label = Inr ()"
  shows "parse_apply (launch_arguments bundle_root archive sha256 parent_pid launcher) =
     Inr \<lparr>ao_parent_pid = parent_pid, ao_bundle = bundle_root, ao_archive = archive,
       ao_sha256 = sha256, ao_launcher = launcher\<rparr>"
proof -
  have pid: "parse_parent_pid (decimal parent_pid) = Inr parent_pid"
    using assms(1,2) by (simp add: parse_parent_pid_def os_to_str_def decimal_is_utf8 parse_decimal)
  have hex: "length sha256 = 64" "list_all lower_hex_byte (map byte sha256)"
    using assms(3) by (simp_all add: validate_lower_hex_Inr valid_hex_def)
  then have "is_utf8 sha256"
    by (intro ascii_is_utf8) (auto simp: list_all_iff intro: lower_hex_ascii)
  with pid hex show ?thesis
    by (cases launcher) (simp_all add: launch_arguments_def parse_apply_def os_to_str_def option_is_utf8
        starts_with_def take_value_def apply_keys_def)
qed

text \<open>
  The staging directory of an update is one path component, so it lies beside the bundle
  whatever the identifier and the version are.
\<close>
theorem stage_is_beside_the_bundle:
  "path_components (update_stage_name application_id version entropy) =
     [Normal (update_stage_name application_id version entropy)]"
proof (rule path_components_single)
  have ne: "char_of x \<noteq> slash" if "x < 256" "x \<noteq> 47" for x :: nat
  proof
    assume "char_of x = slash"
    then have "byte (char_of x) = byte slash" by (simp only:)
    with that show False by (simp add: byte_def slash_def)
  qed
  have segment: "slash \<notin> set (safe_path_segment s)" for s
  proof
    assume "slash \<in> set (safe_path_segment s)"
    then obtain x where x: "x \<in> set (str_chars s)"
        "slash = (if ascii_alphanumeric x \<or> x \<in> byte ` {CHR ''.'', CHR ''-'', CHR ''_''} then char_of x else CHR ''_'')"
      unfolding safe_path_segment_def set_map by (elim imageE)
    then have "ascii_alphanumeric x \<or> x \<in> byte ` {CHR ''.'', CHR ''-'', CHR ''_''}" "slash = char_of x"
      by (auto simp: slash_def split: if_splits)
    then have "x < 256" "x \<noteq> 47"
      by (auto simp: ascii_alphanumeric_def ascii_alphabetic_def ascii_lower_def ascii_upper_def
          ascii_digit_def byte_def)
    then have "char_of x \<noteq> slash" by (rule ne)
    with \<open>slash = char_of x\<close> show False by metis
  qed
  have "slash \<notin> set (encode_hex entropy)"
    using encode_hex_lower [of entropy]
    by (auto simp: list_all_iff lower_hex_byte_def ascii_digit_def slash_def byte_def)
  with segment show "slash \<notin> set (update_stage_name application_id version entropy)"
    by (simp add: update_stage_name_def slash_def)
qed (simp_all add: update_stage_name_def)

section \<open>Witnesses\<close>

definition demo_signer :: signer where
  "demo_signer = \<lparr>sn_public = (\<lambda>seed. seed), sn_sign = (\<lambda>_ _. replicate 64 7)\<rparr>"

definition demo_crypto :: crypto where
  "demo_crypto =
     \<lparr>cr_key_valid = (\<lambda>_. True), cr_verify = (\<lambda>_ _ _. True), cr_sha256 = (\<lambda>_. replicate 64 CHR ''a''),
      cr_release_json = (\<lambda>r. Some (ur_version r))\<rparr>"

definition demo_fs :: filesystem where
  "demo_fs =
     \<lparr>fs_canonicalize = Some, fs_is_file = (\<lambda>_. True), fs_is_dir = (\<lambda>_. False), fs_size = (\<lambda>_. Some 2),
      fs_mode = (\<lambda>_. Some 0x180), fs_read = (\<lambda>p. Some (if p = ''key'' then encode_hex (replicate 32 1) else ''ab''))\<rparr>"

definition demo_url :: url where
  "demo_url = \<lparr>url_scheme = ''https'', url_username = [], url_password = None,
     url_host_str = Some ''example.com'', url_host_of = Some (Domain ''example.com''),
     url_path = ''/u'', url_query = None, url_fragment = None\<rparr>"

definition demo_config :: UpdateConfig where
  "demo_config = \<lparr>uc_endpoint = ''https://e/f'', uc_channel = ''stable'',
     uc_public_key = encode_hex (replicate 32 1), uc_policy = UpdatePolicy.Manual\<rparr>"

definition demo_manifest :: ApplicationManifest where
  "demo_manifest = sample_manifest\<lparr>am_version := ''2.0'', am_updates := Some demo_config\<rparr>"

definition demo_options :: PublishOptions where
  "demo_options =
     \<lparr>po_private_key = ''key'', po_output = ''feed.json'', po_channel = ''stable'', po_published_at = ''now'',
      po_notes_url = None, po_artifacts = [\<lparr>pa_platform = UpdatePlatform.Linux, pa_architecture = ''x86_64'',
        pa_kind = UpdateArtifactKind.PortableArchive, pa_path = ''a.tgz'', pa_url = ''https://e/a''\<rparr>],
      po_force = False\<rparr>"

definition demo_artifact :: UpdateArtifact where
  "demo_artifact =
     \<lparr>ua_platform = UpdatePlatform.Linux, ua_architecture = ''x86_64'',
      ua_kind = UpdateArtifactKind.PortableArchive, ua_url = ''https://e/a'', ua_bytes = 2,
      ua_sha256 = replicate 64 CHR ''a''\<rparr>"

definition demo_feed :: SignedUpdateRelease where
  "demo_feed =
     \<lparr>sr_release = \<lparr>ur_schema_version = UPDATE_FEED_VERSION, ur_application_id = ''com.example.notes'',
        ur_channel = ''stable'', ur_version = ''2.0'', ur_published_at = ''now'', ur_notes_url = None,
        ur_artifacts = [demo_artifact]\<rparr>,
      sr_signature = encode_hex (replicate 64 7)\<rparr>"

definition demo_host :: updater_host where
  "demo_host =
     \<lparr>uh_crypto = demo_crypto, uh_parse_url = (\<lambda>_. Some demo_url), uh_debug = False,
      uh_target = \<lparr>tg_os = ''linux'', tg_architecture = ''x86_64''\<rparr>, uh_decode = (\<lambda>_. Some demo_feed),
      uh_application_id = ''com.example.notes'', uh_current_version = ''1.9'',
      uh_config = Some demo_config, uh_bundle_root = None\<rparr>"

lemma demo_key: "read_signing_key demo_fs ''key'' = Inr (replicate 32 1)"
proof -
  have "decode_hex 32 (encode_hex (replicate 32 1)) l = Inr (replicate 32 1)" for l
    by (simp add: decode_hex_iff)
  then show ?thesis
    using trim_hex [of "replicate 32 1"] by (simp add: read_signing_key_def demo_fs_def)
qed

lemma demo_release_valid: "validate_update_release (\<lambda>_. Some demo_url) False (sr_release demo_feed) = Inr ()"
proof -
  have "validate_application_identifier ''com.example.notes'' = Inr ()" "valid_identifier ''stable''"
    "validate_text ''now'' l 64 False = Inr ()" "validate_version ''2.0'' = Inr ()" for l
    by (simp_all add: version_eval text_eval valid_identifier_def)
  moreover have "valid_identifier ''x86_64''" "\<not> list_ex char_control (str_chars ''https://e/a'')"
    "valid_hex 64 (replicate 64 CHR ''a'')"
    by (simp_all add: text_eval valid_identifier_def valid_hex_def lower_hex_byte_def list_all_iff)
  moreover have "trusted_update_url False demo_url"
    by (simp add: trusted_update_url_def demo_url_def)
  ultimately show ?thesis
    by (simp add: validate_update_release_def validate_update_artifact_def validate_update_url_def
        demo_feed_def demo_artifact_def result_simps)
qed

lemma demo_published:
  "publish_feed demo_crypto demo_signer demo_fs (\<lambda>_. Some demo_url) False demo_manifest demo_options
     \<lparr>ft_exists = False, ft_parent_is_dir = True, ft_written = True, ft_renamed = True\<rparr> = Inr demo_feed"
proof -
  have options: "po_private_key demo_options = ''key''" "po_channel demo_options = ''stable''"
    "po_published_at demo_options = ''now''" "po_notes_url demo_options = None"
    "am_identifier demo_manifest = ''com.example.notes''" "am_version demo_manifest = ''2.0''"
    "am_updates demo_manifest = Some demo_config" "uc_public_key demo_config = encode_hex (replicate 32 1)"
    "sn_public demo_signer seed = seed" "sn_sign demo_signer seed payload = replicate 64 7" for seed payload
    by (simp_all add: demo_options_def demo_manifest_def sample_manifest_def demo_config_def demo_signer_def)
  have artifacts: "publish_artifacts demo_crypto demo_fs (po_artifacts demo_options) = Inr [demo_artifact]"
    by (simp add: demo_options_def demo_crypto_def demo_fs_def demo_artifact_def file_size_and_hash_def)
  have release: "\<lparr>ur_schema_version = UPDATE_FEED_VERSION, ur_application_id = ''com.example.notes'',
      ur_channel = ''stable'', ur_version = ''2.0'', ur_published_at = ''now'', ur_notes_url = None,
      ur_artifacts = [demo_artifact]\<rparr> = sr_release demo_feed"
    by (simp add: demo_feed_def)
  show ?thesis
    by (simp add: publish_feed_def Let_def options demo_key artifacts release demo_release_valid)
       (simp add: demo_crypto_def demo_feed_def atomic_write_def options)
qed

theorem published_release_is_offered_witness:
  "host_check_inner demo_host demo_config (Inr ''feed'') =
     Inr (Some \<lparr>ca_artifact = demo_artifact, ca_version = ''2.0'', ca_notes_url = None\<rparr>)"
proof -
  have "host_check_inner demo_host demo_config (Inr ''feed'') = Inr (Some \<lparr>ca_artifact = demo_artifact,
      ca_version = am_version demo_manifest, ca_notes_url = ur_notes_url (sr_release demo_feed)\<rparr>)"
    by (rule published_release_is_offered [where sg = demo_signer and fs = demo_fs and manifest = demo_manifest
          and options = demo_options and platform = UpdatePlatform.Linux
          and t = "\<lparr>ft_exists = False, ft_parent_is_dir = True, ft_written = True, ft_renamed = True\<rparr>"])
       (use demo_published sample_newer(6) in \<open>simp_all add: demo_host_def demo_crypto_def demo_signer_def
          demo_manifest_def demo_config_def demo_options_def demo_feed_def demo_artifact_def sample_manifest_def
          matching_artifact_def current_platform_def\<close>)
  then show ?thesis by (simp add: demo_manifest_def demo_feed_def)
qed

theorem helper_arguments_roundtrip_witness:
  "parse_apply (launch_arguments ''/opt/notes'' ''/opt/u.tgz'' (replicate 64 CHR ''a'') 4711 None) =
     Inr \<lparr>ao_parent_pid = 4711, ao_bundle = ''/opt/notes'', ao_archive = ''/opt/u.tgz'',
       ao_sha256 = replicate 64 CHR ''a'', ao_launcher = None\<rparr>"
proof -
  have "valid_hex 64 (replicate 64 CHR ''a'')"
    by (simp add: text_eval valid_hex_def lower_hex_byte_def list_all_iff)
  then show ?thesis
    by (intro helper_arguments_roundtrip) (simp_all add: validate_lower_hex_Inr)
qed

end
