(* ===== verification/UpdateApply.thy ===== *)
theory UpdateApply
  imports Updater Envelope
begin

text \<open>
  The helper that installs an update: \<open>apply\<close> and its recovery, the last part of \<open>updater.rs\<close>.

  A directory tree is the datatype \<open>entry\<close>; the places the helper works on (the installed
  bundle, its backup, the quarantined bundle, the transaction file, the staged archive and its
  expansion) are the slots of a store.  Every system call consumes a \<open>fault\<close>: it goes
  through, it fails, or the process is killed there.  A failing or killed recursive operation
  leaves any entry behind.  A theorem about all lists of faults is then a theorem about a crash
  at any point.
\<close>

section \<open>Bundles\<close>

datatype entry =
    Directory "(string \<times> entry) list"
  | Regular string
  | Symlink
  | Special
  | Unreadable

fun is_directory :: "entry \<Rightarrow> bool" where
  "is_directory (Directory _) = True"
| "is_directory _ = False"

text \<open>
  \<open>bundle_files\<close>: the recursive \<open>visit\<close>, with the directory it is at.  The path of a file is
  the list of its names below the root; the manifest at the root is left out.
\<close>

fun visit :: "string list \<Rightarrow> (string \<times> entry) list \<Rightarrow> string + (string list \<times> string) list" where
  "visit at [] = Inr []"
| "visit at ((n, Directory es) # rest) =
     rbind (visit (at @ [n]) es) (\<lambda>below. rbind (visit at rest) (\<lambda>others. Inr (below @ others)))"
| "visit at ((n, Regular content) # rest) =
     (if at @ [n] = [''manifest.json''] then visit at rest
      else rbind (visit at rest) (\<lambda>others. Inr ((at @ [n], content) # others)))"
| "visit at ((n, Symlink) # rest) = Inl ''bundle contains a symbolic link''"
| "visit at ((n, Special) # rest) = Inl ''bundle contains a special file''"
| "visit at ((n, Unreadable) # rest) = Inl ''cannot inspect bundle entry''"

definition bundle_files :: "entry \<Rightarrow> string + (string list \<times> string) list" where
  "bundle_files root =
     (case root of Directory es \<Rightarrow> visit [] es | _ \<Rightarrow> Inl ''cannot inspect bundle directory'')"

record InstalledBundleFile =
  bf_path :: string
  bf_bytes :: u64
  bf_sha256 :: string

record InstalledBundleManifest =
  im_schema_version :: u8
  im_protocol_version :: u16
  im_application :: ApplicationManifest
  im_files :: "InstalledBundleFile list"

text \<open>
  \<open>bn_decode\<close> is the JSON decoder of the manifest, \<open>bn_codesign\<close> the exit status of macOS
  \<open>codesign\<close> (\<open>None\<close>: it cannot be started).
\<close>

record bundle_host =
  bn_decode :: "string \<Rightarrow> InstalledBundleManifest option"
  bn_sha256 :: "string \<Rightarrow> string"
  bn_parse_url :: url_parser
  bn_debug :: bool
  bn_os :: string
  bn_codesign :: "entry \<Rightarrow> bool option"

definition MAX_BUNDLE_MANIFEST_BYTES :: nat where
  "MAX_BUNDLE_MANIFEST_BYTES = 10 * 1024 * 1024"

text \<open>\<open>validate_relative_path\<close>: only normal components.\<close>

definition validate_relative_path :: "string \<Rightarrow> string \<Rightarrow> string + unit" where
  "validate_relative_path path label =
     reject_if (path = [] \<or> path_is_absolute path \<or>
         list_ex (\<lambda>c. case c of Normal _ \<Rightarrow> False | _ \<Rightarrow> True) (path_components path))
       (label @ '' must be a normalized relative path'')"

text \<open>
  The map of expected files, as an association list without duplicates.  A \<open>PathBuf\<close> key is
  compared by its components.
\<close>

type_synonym expected_files = "(component list \<times> u64 \<times> string) list"

fun expect_files :: "expected_files \<Rightarrow> InstalledBundleFile list \<Rightarrow> string + expected_files" where
  "expect_files expected [] = Inr expected"
| "expect_files expected (f # rest) =
     rbind (validate_relative_path (bf_path f) ''bundle file'') (\<lambda>_.
       if path_components (bf_path f) \<in> fst ` set expected
       then Inl (''bundle manifest path is duplicated: '' @ bf_path f)
       else expect_files ((path_components (bf_path f), bf_bytes f, bf_sha256 f) # expected) rest)"

definition verify_hash :: "(string \<Rightarrow> string) \<Rightarrow> string \<Rightarrow> string \<Rightarrow> string + unit" where
  "verify_hash sha256 content expected = reject_if (sha256 content \<noteq> expected) ''SHA-256 mismatch''"

fun check_files ::
    "(string \<Rightarrow> string) \<Rightarrow> expected_files \<Rightarrow> (string list \<times> string) list \<Rightarrow> string + expected_files" where
  "check_files sha256 expected [] = Inr expected"
| "check_files sha256 expected ((names, content) # rest) =
     (case map_of expected (map Normal names) of
        None \<Rightarrow> Inl ''bundle contains an undeclared file''
      | Some (bytes, digest) \<Rightarrow>
          if length content \<noteq> unat bytes then Inl ''bundle file size mismatch''
          else rbind (verify_hash sha256 content digest) (\<lambda>_.
            check_files sha256 (filter (\<lambda>f. fst f \<noteq> map Normal names) expected) rest))"

definition verify_bundle :: "bundle_host \<Rightarrow> entry \<Rightarrow> string + unit" where
  "verify_bundle h root =
     (case root of
        Directory es \<Rightarrow>
          (case map_of es ''manifest.json'' of
             Some (Regular bytes) \<Rightarrow>
               if length bytes > MAX_BUNDLE_MANIFEST_BYTES
               then Inl ''bundle manifest exceeds the size limit''
               else (case bn_decode h bytes of
                  None \<Rightarrow> Inl ''invalid bundle manifest''
                | Some manifest \<Rightarrow>
                    if im_schema_version manifest \<noteq> 1 \<or> im_protocol_version manifest \<noteq> PROTOCOL_VERSION
                    then Inl ''bundle manifest uses an unsupported schema or protocol''
                    else (case validate_manifest (bn_parse_url h) (bn_debug h) (im_application manifest) of
                       Inl _ \<Rightarrow> Inl ''invalid application manifest''
                     | Inr _ \<Rightarrow>
                         rbind (expect_files [] (im_files manifest)) (\<lambda>expected.
                         rbind (bundle_files root) (\<lambda>actual.
                         if length actual \<noteq> length expected
                         then Inl ''bundle contents do not match the signed artifact manifest''
                         else rbind (check_files (bn_sha256 h) expected actual) (\<lambda>left.
                           if left \<noteq> []
                           then Inl ''bundle is missing files declared by its manifest''
                           else Inr ())))))
           | _ \<Rightarrow> Inl ''cannot open bundle manifest'')
      | _ \<Rightarrow> Inl ''cannot open bundle manifest'')"

text \<open>The directory below a path of names.\<close>

fun entry_at :: "entry \<Rightarrow> string list \<Rightarrow> entry option" where
  "entry_at e [] = Some e"
| "entry_at (Directory es) (n # names) =
     (case map_of es n of None \<Rightarrow> None | Some e \<Rightarrow> entry_at e names)"
| "entry_at _ _ = None"

definition verify_replacement :: "bundle_host \<Rightarrow> string \<Rightarrow> entry \<Rightarrow> string + unit" where
  "verify_replacement h name root =
     (if path_extension name = Some ''app''
      then if bn_os h \<noteq> ''macos''
        then Inl ''macOS application updates cannot be installed on this platform''
        else (case bn_codesign h root of
           None \<Rightarrow> Inl ''cannot start macOS signature verification''
         | Some success \<Rightarrow>
             if \<not> success then Inl ''macOS application signature verification failed''
             else (case entry_at root [''Contents'', ''Resources'', ''runtime''] of
                None \<Rightarrow> Inl ''cannot open bundle manifest''
              | Some runtime \<Rightarrow> verify_bundle h runtime))
      else verify_bundle h root)"

section \<open>The store and its operations\<close>

datatype slot = Bundle | Backup | Quarantine | Transaction | TransactionTemp | Archive | Expanded

datatype fault = Proceed | Fault "entry option" | Kill "entry option"

record update_world =
  uw_slots :: "slot \<Rightarrow> entry option"
  uw_faults :: "fault list"

datatype 'a outcome = Returned 'a | Raised string | Killed

type_synonym 'a io = "update_world \<Rightarrow> update_world \<times> 'a outcome"

definition io_return :: "'a \<Rightarrow> 'a io" where
  "io_return x w = (w, Returned x)"

definition io_raise :: "string \<Rightarrow> 'a io" where
  "io_raise e w = (w, Raised e)"

definition io_bind :: "'a io \<Rightarrow> ('a \<Rightarrow> 'b io) \<Rightarrow> 'b io" where
  "io_bind m f w =
     (case m w of
        (w', Returned x) \<Rightarrow> f x w'
      | (w', Raised e) \<Rightarrow> (w', Raised e)
      | (w', Killed) \<Rightarrow> (w', Killed))"

text \<open>The result of a call as a value: \<open>let rollback = fs::rename(..)\<close>, \<open>let _ = ..\<close>.\<close>

definition io_result :: "'a io \<Rightarrow> (string + 'a) io" where
  "io_result m w =
     (case m w of
        (w', Returned x) \<Rightarrow> (w', Returned (Inr x))
      | (w', Raised e) \<Rightarrow> (w', Returned (Inl e))
      | (w', Killed) \<Rightarrow> (w', Killed))"

definition io_lift :: "string + 'a \<Rightarrow> 'a io" where
  "io_lift r = (case r of Inl e \<Rightarrow> io_raise e | Inr x \<Rightarrow> io_return x)"

definition pop_fault :: "update_world \<Rightarrow> fault \<times> update_world" where
  "pop_fault w =
     (case uw_faults w of
        [] \<Rightarrow> (Proceed, w)
      | f # rest \<Rightarrow> (f, w\<lparr>uw_faults := rest\<rparr>))"

definition put :: "slot \<Rightarrow> entry option \<Rightarrow> update_world \<Rightarrow> update_world" where
  "put k e w = w\<lparr>uw_slots := (uw_slots w)(k := e)\<rparr>"

text \<open>A call that changes one slot; when it is interrupted the slot holds what the fault left.\<close>

definition change :: "slot \<Rightarrow> string \<Rightarrow> entry option \<Rightarrow> unit io" where
  "change k message e w =
     (case pop_fault w of
        (Proceed, w') \<Rightarrow> (put k e w', Returned ())
      | (Fault left, w') \<Rightarrow> (put k left w', Raised message)
      | (Kill left, w') \<Rightarrow> (put k left w', Killed))"

text \<open>A call that is atomic: it changes nothing when it fails.\<close>

definition atomic :: "string \<Rightarrow> (update_world \<Rightarrow> string + update_world \<times> 'a) \<Rightarrow> 'a io" where
  "atomic message f w =
     (case pop_fault w of
        (Proceed, w') \<Rightarrow> (case f w' of Inl e \<Rightarrow> (w', Raised e) | Inr (w'', x) \<Rightarrow> (w'', Returned x))
      | (Fault _, w') \<Rightarrow> (w', Raised message)
      | (Kill _, w') \<Rightarrow> (w', Killed))"

text \<open>\<open>Path::exists\<close> is false when the path cannot be inspected.\<close>

definition slot_exists :: "slot \<Rightarrow> bool io" where
  "slot_exists k w = (w, Returned (uw_slots w k \<noteq> None))"

text \<open>
  \<open>rename\<close> of a directory: the target must be free or an empty directory.  \<open>rename\<close> of the
  transaction file replaces the target.
\<close>

definition rename_directory :: "slot \<Rightarrow> slot \<Rightarrow> string \<Rightarrow> unit io" where
  "rename_directory source dest message =
     atomic message (\<lambda>w.
       case uw_slots w source of
         None \<Rightarrow> Inl message
       | Some e \<Rightarrow>
           if uw_slots w dest = None \<or> uw_slots w dest = Some (Directory [])
           then Inr (put dest (Some e) (put source None w), ())
           else Inl message)"

definition rename_file :: "slot \<Rightarrow> slot \<Rightarrow> string \<Rightarrow> unit io" where
  "rename_file source dest message =
     atomic message (\<lambda>w.
       case uw_slots w source of
         None \<Rightarrow> Inl message
       | Some e \<Rightarrow> Inr (put dest (Some e) (put source None w), ()))"

definition remove_file :: "slot \<Rightarrow> string \<Rightarrow> unit io" where
  "remove_file k message =
     atomic message (\<lambda>w.
       case uw_slots w k of
         None \<Rightarrow> Inl message
       | Some e \<Rightarrow> if is_directory e then Inl message else Inr (put k None w, ()))"

text \<open>What an interrupted \<open>remove_dir_all\<close> leaves is still a directory, or nothing.\<close>

definition remains :: "entry option \<Rightarrow> entry option" where
  "remains left = (case left of Some (Directory es) \<Rightarrow> Some (Directory es) | _ \<Rightarrow> None)"

definition remove_dir_all :: "slot \<Rightarrow> string \<Rightarrow> unit io" where
  "remove_dir_all k message w =
     (case uw_slots w k of
        Some (Directory _) \<Rightarrow>
          (case pop_fault w of
             (Proceed, w') \<Rightarrow> (put k None w', Returned ())
           | (Fault left, w') \<Rightarrow> (put k (remains left) w', Raised message)
           | (Kill left, w') \<Rightarrow> (put k (remains left) w', Killed))
      | _ \<Rightarrow> (w, Raised message))"

definition remove_scoped_directory :: "slot \<Rightarrow> string \<Rightarrow> unit io" where
  "remove_scoped_directory k label = remove_dir_all k (''cannot remove '' @ label)"

definition scoped_directory_exists :: "slot \<Rightarrow> string \<Rightarrow> bool io" where
  "scoped_directory_exists k label =
     atomic (''cannot inspect '' @ label) (\<lambda>w.
       case uw_slots w k of
         None \<Rightarrow> Inr (w, False)
       | Some e \<Rightarrow> if is_directory e then Inr (w, True) else Inl (label @ '' must be a regular directory''))"

definition remove_if_present :: "slot \<Rightarrow> string \<Rightarrow> unit io" where
  "remove_if_present k label =
     io_bind (slot_exists k) (\<lambda>present.
       if present then remove_scoped_directory k label else io_return ())"

section \<open>Recovery\<close>

text \<open>
  \<open>hh_encode\<close> and \<open>hh_decode\<close> are \<open>serde_json\<close> on the transaction (schema version and digest),
  \<open>hh_extract\<close> the archive tool (\<open>None\<close>: it ends with an error status).
\<close>

record helper_host =
  hh_bundle :: bundle_host
  hh_encode :: "u8 \<times> string \<Rightarrow> string"
  hh_decode :: "string \<Rightarrow> (u8 \<times> string) option"
  hh_extract :: "string \<Rightarrow> (string \<times> entry) list option"

datatype RecoveryOutcome = Ready | AlreadyInstalled

definition MAX_TRANSACTION_BYTES :: nat where
  "MAX_TRANSACTION_BYTES = 4 * 1024"

definition backup_name :: "string \<Rightarrow> string" where
  "backup_name name = CHR ''.'' # name @ ''.previous''"

definition verify_slot :: "helper_host \<Rightarrow> string \<Rightarrow> slot \<Rightarrow> unit io" where
  "verify_slot h name k =
     atomic ''cannot inspect bundle'' (\<lambda>w.
       case uw_slots w k of
         None \<Rightarrow> Inl ''cannot open bundle manifest''
       | Some e \<Rightarrow> (case verify_replacement (hh_bundle h) name e of Inl m \<Rightarrow> Inl m | Inr _ \<Rightarrow> Inr (w, ())))"

definition write_update_transaction :: "helper_host \<Rightarrow> string \<Rightarrow> unit io" where
  "write_update_transaction h sha256 =
     io_bind (slot_exists TransactionTemp) (\<lambda>present.
     io_bind (if present then remove_file TransactionTemp ''cannot reset update transaction staging file''
              else io_return ()) (\<lambda>_.
     io_bind (io_result (
       io_bind (change TransactionTemp ''cannot create update transaction'' (Some (Regular []))) (\<lambda>_.
       io_bind (change TransactionTemp ''cannot persist update transaction''
         (Some (Regular (hh_encode h (1, sha256))))) (\<lambda>_.
       rename_file TransactionTemp Transaction ''cannot publish update transaction'')))) (\<lambda>result.
     io_bind (io_result (remove_file TransactionTemp [])) (\<lambda>_.
     io_lift result))))"

definition read_update_transaction :: "helper_host \<Rightarrow> string \<Rightarrow> bool io" where
  "read_update_transaction h expected_sha256 =
     atomic ''cannot inspect update transaction'' (\<lambda>w.
       case uw_slots w Transaction of
         None \<Rightarrow> Inr (w, False)
       | Some (Regular bytes) \<Rightarrow>
           if length bytes > MAX_TRANSACTION_BYTES
           then Inl ''update transaction is not a bounded regular file''
           else (case hh_decode h bytes of
              None \<Rightarrow> Inl ''cannot decode update transaction''
            | Some (version, digest) \<Rightarrow>
                if version \<noteq> 1 \<or> digest \<noteq> expected_sha256
                then Inl ''update transaction does not match the staged archive''
                else Inr (w, True))
       | Some _ \<Rightarrow> Inl ''update transaction is not a bounded regular file'')"

text \<open>
  The arms of the match: both directories are there, only the backup, only the bundle.
\<close>

definition restore_backup :: "string \<Rightarrow> RecoveryOutcome io" where
  "restore_backup message =
     io_bind (rename_directory Backup Bundle ''cannot restore interrupted update backup'') (\<lambda>_.
     io_bind (remove_file Transaction message) (\<lambda>_.
     io_return Ready))"

definition roll_back_swap :: "helper_host \<Rightarrow> string \<Rightarrow> RecoveryOutcome io" where
  "roll_back_swap h name =
     io_bind (verify_slot h (backup_name name) Backup) (\<lambda>_.
     io_bind (remove_if_present Quarantine ''failed update bundle'') (\<lambda>_.
     io_bind (rename_directory Bundle Quarantine ''cannot quarantine interrupted replacement'') (\<lambda>_.
     restore_backup ''cannot finish update rollback transaction'')))"

definition recover_swapped :: "helper_host \<Rightarrow> string \<Rightarrow> RecoveryOutcome io" where
  "recover_swapped h name =
     io_bind (io_result (verify_slot h name Bundle)) (\<lambda>verified.
     case verified of
       Inr _ \<Rightarrow>
         io_bind (remove_file Transaction ''cannot finish recovered update transaction'') (\<lambda>_.
         io_return AlreadyInstalled)
     | Inl _ \<Rightarrow> roll_back_swap h name)"

definition recover_moved :: "helper_host \<Rightarrow> string \<Rightarrow> RecoveryOutcome io" where
  "recover_moved h name =
     io_bind (verify_slot h (backup_name name) Backup) (\<lambda>_.
     restore_backup ''cannot finish update recovery transaction'')"

definition recover_armed :: "helper_host \<Rightarrow> string \<Rightarrow> RecoveryOutcome io" where
  "recover_armed h name =
     io_bind (verify_slot h name Bundle) (\<lambda>_.
     io_bind (remove_file Transaction ''cannot reset unstarted update transaction'') (\<lambda>_.
     io_return Ready))"

text \<open>\<open>bundle.is_dir()\<close> when no transaction was started.\<close>

definition require_bundle :: "RecoveryOutcome io" where
  "require_bundle w =
     (case uw_slots w Bundle of
        Some (Directory _) \<Rightarrow> (w, Returned Ready)
      | _ \<Rightarrow> (w, Raised ''installed bundle is missing and no recovery transaction exists''))"

definition reconcile_interrupted_update :: "helper_host \<Rightarrow> string \<Rightarrow> string \<Rightarrow> RecoveryOutcome io" where
  "reconcile_interrupted_update h name expected_sha256 =
     io_bind (read_update_transaction h expected_sha256) (\<lambda>started.
     if \<not> started then require_bundle
     else
       io_bind (scoped_directory_exists Bundle ''installed bundle'') (\<lambda>bundle_exists.
       io_bind (scoped_directory_exists Backup ''update recovery backup'') (\<lambda>backup_exists.
       if bundle_exists \<and> backup_exists then recover_swapped h name
       else if backup_exists then recover_moved h name
       else if bundle_exists then recover_armed h name
       else io_raise ''installed bundle and its recovery backup are both missing'')))"

section \<open>Installation\<close>

text \<open>
  The parent is asked for until it is gone; each round sleeps 250 milliseconds and takes what
  the probe took (\<open>delay\<close>).  \<open>started.elapsed()\<close> is \<open>now\<close>, in milliseconds.
\<close>

definition PARENT_EXIT_TIMEOUT :: nat where
  "PARENT_EXIT_TIMEOUT = 120 * 1000"

function wait_for_parent :: "nat \<Rightarrow> nat \<Rightarrow> (nat \<Rightarrow> (string + bool) \<times> nat) \<Rightarrow> string + unit" where
  "wait_for_parent now k probe =
     (case probe k of
        (Inl e, delay) \<Rightarrow> Inl e
      | (Inr False, delay) \<Rightarrow> Inr ()
      | (Inr True, delay) \<Rightarrow>
          if now + delay > PARENT_EXIT_TIMEOUT
          then Inl ''timed out waiting for the desktop host to exit''
          else wait_for_parent (now + delay + 250) (Suc k) probe)"
  by pat_completeness auto
termination
  by (relation "measure (\<lambda>(now, k, probe). PARENT_EXIT_TIMEOUT + 250 - now)") auto

declare wait_for_parent.simps [simp del]

definition verify_archive :: "helper_host \<Rightarrow> string \<Rightarrow> unit io" where
  "verify_archive h sha256 =
     atomic ''cannot open staged update archive'' (\<lambda>w.
       case uw_slots w Archive of
         Some (Regular bytes) \<Rightarrow>
           (case verify_hash (bn_sha256 (hh_bundle h)) bytes sha256 of Inl e \<Rightarrow> Inl e | Inr _ \<Rightarrow> Inr (w, ()))
       | _ \<Rightarrow> Inl ''cannot open staged update archive'')"

definition extract_archive :: "helper_host \<Rightarrow> unit io" where
  "extract_archive h w =
     (case uw_slots w Archive of
        Some (Regular bytes) \<Rightarrow>
          (case hh_extract h bytes of
             Some es \<Rightarrow> change Expanded ''portable archive extraction failed'' (Some (Directory es)) w
           | None \<Rightarrow> (w, Raised ''portable archive extraction failed''))
      | _ \<Rightarrow> (w, Raised ''portable archive extraction failed''))"

definition single_extracted_root :: "(string \<times> entry) io" where
  "single_extracted_root =
     atomic ''cannot inspect extracted update'' (\<lambda>w.
       case uw_slots w Expanded of
         Some (Directory [(n, e)]) \<Rightarrow>
           if is_directory e then Inr (w, (n, e)) else Inl ''portable update root must be a directory''
       | _ \<Rightarrow> Inl ''portable update must contain exactly one bundle directory'')"

definition check_replacement :: "helper_host \<Rightarrow> string \<times> entry \<Rightarrow> unit io" where
  "check_replacement h root =
     atomic ''cannot inspect bundle'' (\<lambda>w.
       case verify_replacement (hh_bundle h) (fst root) (snd root) of Inl m \<Rightarrow> Inl m | Inr _ \<Rightarrow> Inr (w, ()))"

text \<open>The replacement is the only entry of the expansion; moving it leaves the expansion empty.\<close>

definition rename_replacement :: "unit io" where
  "rename_replacement =
     atomic ''cannot install the replacement bundle'' (\<lambda>w.
       case uw_slots w Expanded of
         Some (Directory [(n, e)]) \<Rightarrow>
           if uw_slots w Bundle = None \<or> uw_slots w Bundle = Some (Directory [])
           then Inr (put Bundle (Some e) (put Expanded (Some (Directory [])) w), ())
           else Inl ''cannot install the replacement bundle''
       | _ \<Rightarrow> Inl ''cannot install the replacement bundle'')"

definition cleanup_update_stage :: "unit io" where
  "cleanup_update_stage =
     io_bind (remove_if_present Expanded ''update extraction directory'') (\<lambda>_.
     io_bind (slot_exists Archive) (\<lambda>present.
       if present then remove_file Archive ''cannot remove installed update archive'' else io_return ()))"

definition relaunch :: "string option \<Rightarrow> unit io" where
  "relaunch launcher =
     (case launcher of
        None \<Rightarrow> io_return ()
      | Some path \<Rightarrow>
          io_bind (io_lift (validate_relative_path path ''update relaunch path'')) (\<lambda>_.
          atomic ''update installed but application relaunch failed'' (\<lambda>w. Inr (w, ()))))"

definition expand_replacement :: "helper_host \<Rightarrow> unit io" where
  "expand_replacement h =
     io_bind (slot_exists Expanded) (\<lambda>present.
     io_bind (if present then remove_dir_all Expanded ''cannot reset update extraction directory''
              else io_return ()) (\<lambda>_.
     io_bind (change Expanded ''cannot create update extraction directory'' (Some (Directory []))) (\<lambda>_.
     io_bind (extract_archive h) (\<lambda>_.
     io_bind single_extracted_root (check_replacement h)))))"

definition roll_back :: "string \<Rightarrow> unit io" where
  "roll_back message =
     io_bind (io_result (rename_directory Backup Bundle ''rollback failed'')) (\<lambda>rollback.
     case rollback of
       Inr _ \<Rightarrow> io_bind (io_result (remove_file Transaction [])) (\<lambda>_. io_raise (message @ ''; rollback succeeded''))
     | Inl _ \<Rightarrow> io_raise (message @ '' and rollback failed''))"

definition swap_bundle :: "helper_host \<Rightarrow> string \<Rightarrow> string \<Rightarrow> unit io" where
  "swap_bundle h name sha256 =
     io_bind (remove_if_present Backup ''previous update backup'') (\<lambda>_.
     io_bind (remove_if_present Quarantine ''failed update bundle'') (\<lambda>_.
     io_bind (write_update_transaction h sha256) (\<lambda>_.
     io_bind (rename_directory Bundle Backup ''cannot move the installed bundle to backup'') (\<lambda>_.
     io_bind (io_result rename_replacement) (\<lambda>moved.
     case moved of
       Inl _ \<Rightarrow> roll_back ''cannot install the replacement bundle''
     | Inr _ \<Rightarrow>
         io_bind (io_result (verify_slot h name Bundle)) (\<lambda>verified.
         case verified of
           Inl _ \<Rightarrow>
             io_bind (io_result (rename_directory Bundle Quarantine [])) (\<lambda>_.
             roll_back ''installed bundle verification failed'')
         | Inr _ \<Rightarrow>
             remove_file Transaction ''update installed but transaction cleanup failed''))))))"

definition apply_update ::
    "helper_host \<Rightarrow> string \<Rightarrow> string \<Rightarrow> string option \<Rightarrow> (nat \<Rightarrow> (string + bool) \<times> nat) \<Rightarrow> unit io" where
  "apply_update h name sha256 launcher probe =
     io_bind (verify_archive h sha256) (\<lambda>_.
     io_bind (io_lift (wait_for_parent 0 0 probe)) (\<lambda>_.
     io_bind (reconcile_interrupted_update h name sha256) (\<lambda>outcome.
     if outcome = AlreadyInstalled
     then io_bind cleanup_update_stage (\<lambda>_. relaunch launcher)
     else
       io_bind (expand_replacement h) (\<lambda>_.
       io_bind (swap_bundle h name sha256) (\<lambda>_.
       io_bind cleanup_update_stage (\<lambda>_. relaunch launcher))))))"

end
