(* ===== verification/UpdateRecovery.thy ===== *)
theory UpdateRecovery
  imports UpdateApply
begin

text \<open>
  Crash safety of the update helper.  \<open>crash_safe I P m Q E\<close>: started where the store satisfies
  \<open>P\<close>, the program \<open>m\<close> leaves \<open>Q\<close> when it returns, \<open>E\<close> when it fails, and \<open>I\<close> when it is killed, whatever
  the faults are.  The rules compose it along the programs of UpdateApply.
\<close>

section \<open>A logic of programs that can be killed\<close>

type_synonym store = "slot \<Rightarrow> entry option"

definition crash_safe ::
    "(store \<Rightarrow> bool) \<Rightarrow> (store \<Rightarrow> bool) \<Rightarrow> 'a io \<Rightarrow> ('a \<Rightarrow> store \<Rightarrow> bool) \<Rightarrow> (store \<Rightarrow> bool) \<Rightarrow> bool" where
  "crash_safe I P m Q E \<longleftrightarrow>
     (\<forall>w w' r. P (uw_slots w) \<and> m w = (w', r) \<longrightarrow>
        (case r of Returned x \<Rightarrow> Q x (uw_slots w') | Raised _ \<Rightarrow> E (uw_slots w') | Killed \<Rightarrow> I (uw_slots w')))"

lemma crash_safeI:
  "(\<And>w w' r. P (uw_slots w) \<Longrightarrow> m w = (w', r) \<Longrightarrow>
     (case r of Returned x \<Rightarrow> Q x (uw_slots w') | Raised _ \<Rightarrow> E (uw_slots w') | Killed \<Rightarrow> I (uw_slots w'))) \<Longrightarrow>
   crash_safe I P m Q E"
  unfolding crash_safe_def by blast

lemma crash_safe_weaken:
  assumes "crash_safe I P m Q E" "\<And>s. P' s \<Longrightarrow> P s" "\<And>x s. Q x s \<Longrightarrow> Q' x s" "\<And>s. E s \<Longrightarrow> E' s"
  shows "crash_safe I P' m Q' E'"
  using assms unfolding crash_safe_def by (fastforce split: outcome.splits)

lemma crash_safe_return: "(\<And>s. P s \<Longrightarrow> Q x s) \<Longrightarrow> crash_safe I P (io_return x) Q E"
  by (auto simp: crash_safe_def io_return_def)

lemma crash_safe_raise: "(\<And>s. P s \<Longrightarrow> E s) \<Longrightarrow> crash_safe I P (io_raise e) Q E"
  by (auto simp: crash_safe_def io_raise_def)

lemma crash_safe_lift:
  "(\<And>s x. P s \<Longrightarrow> r = Inr x \<Longrightarrow> Q x s) \<Longrightarrow> (\<And>s. P s \<Longrightarrow> E s) \<Longrightarrow> crash_safe I P (io_lift r) Q E"
  by (auto simp: io_lift_def intro: crash_safe_return crash_safe_raise split: sum.split)

lemma crash_safe_bind:
  assumes "crash_safe I P m R E" "\<And>x. crash_safe I (R x) (f x) Q E"
  shows "crash_safe I P (io_bind m f) Q E"
proof (rule crash_safeI)
  fix w w' r
  assume P: "P (uw_slots w)" and run: "io_bind m f w = (w', r)"
  obtain w1 r1 where m: "m w = (w1, r1)" by fastforce
  show "case r of Returned x \<Rightarrow> Q x (uw_slots w') | Raised _ \<Rightarrow> E (uw_slots w') | Killed \<Rightarrow> I (uw_slots w')"
  proof (cases r1)
    case (Returned x)
    with assms(1) P m have "R x (uw_slots w1)" by (fastforce simp: crash_safe_def)
    moreover have "f x w1 = (w', r)" using run m Returned by (simp add: io_bind_def)
    ultimately show ?thesis using assms(2) [of x] by (auto simp: crash_safe_def)
  next
    case (Raised e)
    with run m have "w' = w1" "r = Raised e" by (auto simp: io_bind_def)
    with assms(1) P m Raised show ?thesis by (fastforce simp: crash_safe_def)
  next
    case Killed
    with run m have "w' = w1" "r = Killed" by (auto simp: io_bind_def)
    with assms(1) P m Killed show ?thesis by (fastforce simp: crash_safe_def)
  qed
qed

lemma crash_safe_result:
  assumes "crash_safe I P m Q E"
  shows "crash_safe I P (io_result m) (\<lambda>r s. case r of Inr x \<Rightarrow> Q x s | Inl _ \<Rightarrow> E s) E'"
  using assms unfolding crash_safe_def io_result_def
  by (fastforce split: outcome.splits prod.splits)

lemma pop_fault_slots: "pop_fault w = (f, w') \<Longrightarrow> uw_slots w' = uw_slots w"
  by (auto simp: pop_fault_def split: list.splits)

lemma crash_safe_atomic:
  assumes "\<And>w w' x. P (uw_slots w) \<Longrightarrow> f w = Inr (w', x) \<Longrightarrow> Q x (uw_slots w')"
    and "\<And>s. P s \<Longrightarrow> E s" and "\<And>s. P s \<Longrightarrow> I s"
  shows "crash_safe I P (atomic message f) Q E"
proof (rule crash_safeI)
  fix w w' r
  assume P: "P (uw_slots w)" and run: "atomic message f w = (w', r)"
  obtain ft w1 where ft: "pop_fault w = (ft, w1)" by fastforce
  then have P1: "P (uw_slots w1)" using P by (simp add: pop_fault_slots)
  show "case r of Returned x \<Rightarrow> Q x (uw_slots w') | Raised _ \<Rightarrow> E (uw_slots w') | Killed \<Rightarrow> I (uw_slots w')"
    using run ft assms(1) [of w1, OF P1] assms(2,3) [OF P1]
    by (cases ft) (auto simp: atomic_def split: sum.splits)
qed

lemma crash_safe_change:
  assumes "\<And>s. P s \<Longrightarrow> Q () (s(k := e))"
    and "\<And>s left. P s \<Longrightarrow> E (s(k := left))" and "\<And>s left. P s \<Longrightarrow> I (s(k := left))"
  shows "crash_safe I P (change k message e) Q E"
  using assms unfolding crash_safe_def change_def
  by (auto simp: put_def pop_fault_slots split: prod.splits fault.splits)

lemma crash_safe_exists:
  "(\<And>s. P s \<Longrightarrow> Q (s k \<noteq> None) s) \<Longrightarrow> crash_safe I P (slot_exists k) Q E"
  by (auto simp: crash_safe_def slot_exists_def)

definition maybe_directory :: "entry option \<Rightarrow> bool" where
  "maybe_directory e \<longleftrightarrow> (case e of None \<Rightarrow> True | Some e \<Rightarrow> is_directory e)"

lemma maybe_directory_simps [simp]:
  "maybe_directory None" "maybe_directory (Some e) = is_directory e" "maybe_directory (remains left)"
  by (simp_all add: maybe_directory_def remains_def split: option.split entry.split)

lemma crash_safe_remove_dir_all:
  assumes "\<And>s. P s \<Longrightarrow> Q () (s(k := None))" and "\<And>s. P s \<Longrightarrow> E s"
    and "\<And>s left. P s \<Longrightarrow> maybe_directory left \<Longrightarrow> E (s(k := left))"
    and "\<And>s left. P s \<Longrightarrow> maybe_directory left \<Longrightarrow> I (s(k := left))"
  shows "crash_safe I P (remove_dir_all k message) Q E"
proof (rule crash_safeI)
  fix w w' r
  assume P: "P (uw_slots w)" and run: "remove_dir_all k message w = (w', r)"
  obtain ft w1 where ft: "pop_fault w = (ft, w1)" by fastforce
  show "case r of Returned x \<Rightarrow> Q x (uw_slots w') | Raised _ \<Rightarrow> E (uw_slots w') | Killed \<Rightarrow> I (uw_slots w')"
    using run ft assms [OF P] pop_fault_slots [OF ft]
    by (cases ft) (auto simp: remove_dir_all_def put_def split: option.splits entry.splits)
qed

lemma crash_safe_remove_if_present:
  assumes "\<And>s. P s \<Longrightarrow> Q () (s(k := None))" and "\<And>s. P s \<Longrightarrow> E s"
    and "\<And>s left. P s \<Longrightarrow> maybe_directory left \<Longrightarrow> E (s(k := left))"
    and "\<And>s left. P s \<Longrightarrow> maybe_directory left \<Longrightarrow> I (s(k := left))"
  shows "crash_safe I P (remove_if_present k label) Q E"
  unfolding remove_if_present_def
proof (rule crash_safe_bind)
  show "crash_safe I P (slot_exists k) (\<lambda>present s. P s \<and> present = (s k \<noteq> None)) E"
    by (rule crash_safe_exists) simp
next
  fix present
  show "crash_safe I (\<lambda>s. P s \<and> present = (s k \<noteq> None))
      (if present then remove_scoped_directory k label else io_return ()) Q E"
  proof (cases present)
    case True
    then show ?thesis
      using assms by (auto simp: remove_scoped_directory_def intro!: crash_safe_remove_dir_all)
  next
    case False
    have "Q () s" if "P s" "s k = None" for s
      using assms(1) [OF that(1)] that(2) by (metis fun_upd_triv)
    with False show ?thesis by (auto intro!: crash_safe_return)
  qed
qed

text \<open>Calls that only look, and calls on places an assertion does not speak of.\<close>

lemma crash_safe_check:
  assumes "\<And>w w' x. f w = Inr (w', x) \<Longrightarrow> w' = w"
    and "\<And>w x. P (uw_slots w) \<Longrightarrow> f w = Inr (w, x) \<Longrightarrow> Q x (uw_slots w)"
    and "\<And>s. P s \<Longrightarrow> E s" and "\<And>s. P s \<Longrightarrow> I s"
  shows "crash_safe I P (atomic message f) Q E"
  by (rule crash_safe_atomic) (use assms in blast)+

section \<open>The states of a swap\<close>

definition installed :: "(entry \<Rightarrow> bool) \<Rightarrow> store \<Rightarrow> bool" where
  "installed good s \<longleftrightarrow> maybe_directory (s Quarantine) \<and> s Transaction = None \<and> (\<exists>b. s Bundle = Some b \<and> good b)"

definition armed :: "(entry \<Rightarrow> bool) \<Rightarrow> (entry \<Rightarrow> bool) \<Rightarrow> store \<Rightarrow> bool" where
  "armed tx good s \<longleftrightarrow> maybe_directory (s Quarantine) \<and> (\<exists>t. s Transaction = Some t \<and> tx t) \<and> s Backup = None \<and>
     (\<exists>b. s Bundle = Some b \<and> good b)"

definition moved :: "(entry \<Rightarrow> bool) \<Rightarrow> (entry \<Rightarrow> bool) \<Rightarrow> store \<Rightarrow> bool" where
  "moved tx good s \<longleftrightarrow> maybe_directory (s Quarantine) \<and> (\<exists>t. s Transaction = Some t \<and> tx t) \<and> s Bundle = None \<and>
     (\<exists>b. s Backup = Some b \<and> good b)"

definition swapped :: "(entry \<Rightarrow> bool) \<Rightarrow> (entry \<Rightarrow> bool) \<Rightarrow> store \<Rightarrow> bool" where
  "swapped tx good s \<longleftrightarrow> maybe_directory (s Quarantine) \<and> (\<exists>t. s Transaction = Some t \<and> tx t) \<and>
     (\<exists>e. s Bundle = Some e \<and> is_directory e) \<and> (\<exists>b. s Backup = Some b \<and> good b)"

definition recoverable :: "(entry \<Rightarrow> bool) \<Rightarrow> (entry \<Rightarrow> bool) \<Rightarrow> store \<Rightarrow> bool" where
  "recoverable tx good s \<longleftrightarrow>
     installed good s \<or> armed tx good s \<or> moved tx good s \<or> swapped tx good s"

lemmas swap_states = installed_def armed_def moved_def swapped_def

lemma recoverableI:
  "installed good s \<Longrightarrow> recoverable tx good s" "armed tx good s \<Longrightarrow> recoverable tx good s"
  "moved tx good s \<Longrightarrow> recoverable tx good s" "swapped tx good s \<Longrightarrow> recoverable tx good s"
  by (simp_all add: recoverable_def)

lemma swap_states_frame [simp]:
  assumes "k \<notin> {Bundle, Backup, Transaction, Quarantine}"
  shows "installed good (s(k := e)) = installed good s" "armed tx good (s(k := e)) = armed tx good s"
    "moved tx good (s(k := e)) = moved tx good s" "swapped tx good (s(k := e)) = swapped tx good s"
    "recoverable tx good (s(k := e)) = recoverable tx good s"
  using assms by (cases k; simp add: recoverable_def swap_states)+

text \<open>Verified here: a directory that passes \<open>verify_replacement\<close> under the bundle's name.\<close>

definition verified :: "helper_host \<Rightarrow> string \<Rightarrow> entry \<Rightarrow> bool" where
  "verified h name e \<longleftrightarrow> is_directory e \<and> verify_replacement (hh_bundle h) name e = Inr ()"

lemma rename_directory_safe:
  assumes "\<And>s e. P s \<Longrightarrow> s source = Some e \<Longrightarrow> s dest = None \<or> s dest = Some (Directory []) \<Longrightarrow>
      Q () (s(source := None, dest := Some e))"
    and "\<And>s. P s \<Longrightarrow> E s" and "\<And>s. P s \<Longrightarrow> I s"
  shows "crash_safe I P (rename_directory source dest message) Q E"
  unfolding rename_directory_def
  by (rule crash_safe_atomic) (use assms in \<open>auto simp: put_def split: option.splits if_splits\<close>)

lemma remove_file_safe:
  assumes "\<And>s. P s \<Longrightarrow> Q () (s(k := None))" and "\<And>s. P s \<Longrightarrow> E s" and "\<And>s. P s \<Longrightarrow> I s"
  shows "crash_safe I P (remove_file k message) Q E"
  unfolding remove_file_def
  by (rule crash_safe_atomic) (use assms in \<open>auto simp: put_def split: option.splits if_splits\<close>)

lemma verify_slot_safe:
  assumes "\<And>s e. P s \<Longrightarrow> s k = Some e \<Longrightarrow> verify_replacement (hh_bundle h) name e = Inr () \<Longrightarrow> Q () s"
    and "\<And>s. P s \<Longrightarrow> E s" and "\<And>s. P s \<Longrightarrow> I s"
  shows "crash_safe I P (verify_slot h name k) Q E"
  unfolding verify_slot_def
  by (rule crash_safe_atomic) (use assms in \<open>auto split: option.splits sum.splits\<close>)

lemma scoped_directory_exists_safe:
  assumes "\<And>s. P s \<Longrightarrow> s k = None \<Longrightarrow> Q False s"
    and "\<And>s e. P s \<Longrightarrow> s k = Some e \<Longrightarrow> is_directory e \<Longrightarrow> Q True s"
    and "\<And>s. P s \<Longrightarrow> E s" and "\<And>s. P s \<Longrightarrow> I s"
  shows "crash_safe I P (scoped_directory_exists k label) Q E"
  unfolding scoped_directory_exists_def
  by (rule crash_safe_atomic) (use assms in \<open>auto split: option.splits if_splits\<close>)

section \<open>The programs preserve recoverability\<close>

lemma read_transaction_safe:
  "crash_safe (recoverable tx good) (recoverable tx good) (read_update_transaction h sha)
     (\<lambda>started s. if started then armed tx good s \<or> moved tx good s \<or> swapped tx good s else installed good s)
     (recoverable tx good)"
  unfolding read_update_transaction_def
  by (rule crash_safe_atomic)
     (auto simp: recoverable_def swap_states split: option.splits entry.splits if_splits)

lemma finish_safe:
  "crash_safe (recoverable tx good) (armed tx good)
     (io_bind (remove_file Transaction m) (\<lambda>_. io_return x)) (\<lambda>_. installed good) (recoverable tx good)"
  by (rule crash_safe_bind [where R = "\<lambda>_. installed good"], rule remove_file_safe)
     (auto simp: swap_states intro: recoverableI crash_safe_return)

lemma restore_backup_safe:
  "crash_safe (recoverable tx good) (moved tx good) (restore_backup m) (\<lambda>_. installed good) (recoverable tx good)"
  unfolding restore_backup_def
  by (rule crash_safe_bind [OF _ finish_safe], rule rename_directory_safe)
     (auto simp: swap_states intro: recoverableI)

lemma recover_armed_safe:
  "crash_safe (recoverable tx good) (armed tx good) (recover_armed h name) (\<lambda>_. installed good) (recoverable tx good)"
  unfolding recover_armed_def
  by (rule crash_safe_bind [OF _ finish_safe], rule verify_slot_safe) (auto intro: recoverableI)

lemma recover_moved_safe:
  "crash_safe (recoverable tx good) (moved tx good) (recover_moved h name) (\<lambda>_. installed good) (recoverable tx good)"
  unfolding recover_moved_def
  by (rule crash_safe_bind [OF _ restore_backup_safe], rule verify_slot_safe) (auto intro: recoverableI)

lemma roll_back_swap_safe:
  "crash_safe (recoverable tx good) (swapped tx good) (roll_back_swap h name) (\<lambda>_. installed good) (recoverable tx good)"
  unfolding roll_back_swap_def
proof (rule crash_safe_bind [where R = "\<lambda>_. swapped tx good"])
  show "crash_safe (recoverable tx good) (swapped tx good) (verify_slot h (backup_name name) Backup)
      (\<lambda>_. swapped tx good) (recoverable tx good)"
    by (rule verify_slot_safe) (auto intro: recoverableI)
  have "crash_safe (recoverable tx good) (swapped tx good) (io_bind (rename_directory Bundle Quarantine m)
      (\<lambda>_. restore_backup m')) (\<lambda>_. installed good) (recoverable tx good)" for m m'
    by (rule crash_safe_bind [OF _ restore_backup_safe], rule rename_directory_safe)
       (auto simp: swap_states intro: recoverableI)
  then show "crash_safe (recoverable tx good) (swapped tx good)
      (io_bind (remove_if_present Quarantine l) (\<lambda>_. io_bind (rename_directory Bundle Quarantine m)
         (\<lambda>_. restore_backup m'))) (\<lambda>_. installed good) (recoverable tx good)" for l m m'
    by (rule crash_safe_bind [rotated], intro crash_safe_remove_if_present)
       (auto simp: recoverable_def swap_states)
qed

text \<open>A choice on the result of a call that was tried.\<close>

lemma crash_safe_try:
  assumes "crash_safe I P m R E'" and "\<And>x. crash_safe I (R x) (f x) Q E"
    and "\<And>e. crash_safe I E' (g e) Q E"
  shows "crash_safe I P (io_bind (io_result m) (\<lambda>r. case r of Inr x \<Rightarrow> f x | Inl e \<Rightarrow> g e)) Q E"
proof (rule crash_safe_bind [OF crash_safe_result [OF assms(1)]])
  fix r :: "string + 'a"
  show "crash_safe I (\<lambda>s. case r of Inr x \<Rightarrow> R x s | Inl _ \<Rightarrow> E' s)
      (case r of Inr x \<Rightarrow> f x | Inl e \<Rightarrow> g e) Q E"
    using assms(2,3) by (cases r) simp_all
qed

lemma recover_swapped_safe:
  "crash_safe (recoverable tx (verified h name)) (swapped tx (verified h name)) (recover_swapped h name)
     (\<lambda>_. installed (verified h name)) (recoverable tx (verified h name))"
  unfolding recover_swapped_def
proof (rule crash_safe_try [OF _ _ roll_back_swap_safe])
  show "crash_safe (recoverable tx (verified h name)) (swapped tx (verified h name)) (verify_slot h name Bundle)
      (\<lambda>_ s. swapped tx (verified h name) s \<and> (\<exists>b. s Bundle = Some b \<and> verified h name b))
      (swapped tx (verified h name))"
    by (rule verify_slot_safe) (auto simp: swap_states verified_def intro: recoverableI)
  show "crash_safe (recoverable tx (verified h name))
      (\<lambda>s. swapped tx (verified h name) s \<and> (\<exists>b. s Bundle = Some b \<and> verified h name b))
      (io_bind (remove_file Transaction m) (\<lambda>_. io_return AlreadyInstalled))
      (\<lambda>_. installed (verified h name)) (recoverable tx (verified h name))" for m
    by (rule crash_safe_bind [where R = "\<lambda>_. installed (verified h name)"], rule remove_file_safe)
       (auto simp: swap_states intro: recoverableI crash_safe_return)
qed

lemma require_bundle_safe:
  "crash_safe I (installed good) require_bundle (\<lambda>_. installed good) (recoverable tx good)"
  by (rule crash_safeI) (auto simp: require_bundle_def recoverable_def split: option.splits entry.splits)

lemma reconcile_safe:
  fixes h name tx
  defines "good \<equiv> verified h name"
  shows "crash_safe (recoverable tx good) (recoverable tx good) (reconcile_interrupted_update h name sha)
     (\<lambda>_. installed good) (recoverable tx good)"
  unfolding reconcile_interrupted_update_def
proof (rule crash_safe_bind [OF read_transaction_safe], split if_split, intro conjI impI)
  fix started
  assume "\<not> started"
  then show "crash_safe (recoverable tx good)
      (\<lambda>s. if started then armed tx good s \<or> moved tx good s \<or> swapped tx good s else installed good s)
      require_bundle (\<lambda>_. installed good) (recoverable tx good)"
    by (simp add: require_bundle_safe)
next
  fix started
  assume "\<not> \<not> started"
  let ?B = "\<lambda>b s. if b then armed tx good s \<or> swapped tx good s else moved tx good s"
  let ?K = "\<lambda>b k s. if b then (if k then swapped tx good s else armed tx good s) else k \<and> moved tx good s"
  have B: "crash_safe (recoverable tx good) (\<lambda>s. armed tx good s \<or> moved tx good s \<or> swapped tx good s)
      (scoped_directory_exists Bundle l) ?B (recoverable tx good)" for l
    by (rule scoped_directory_exists_safe) (auto simp: swap_states intro: recoverableI)
  have K: "crash_safe (recoverable tx good) (?B b) (scoped_directory_exists Backup l) (?K b)
      (recoverable tx good)" for b l
    by (rule scoped_directory_exists_safe) (auto simp: swap_states intro: recoverableI split: if_splits)
  have arms: "crash_safe (recoverable tx good) (?K b k)
      (if b \<and> k then recover_swapped h name else if k then recover_moved h name
       else if b then recover_armed h name else io_raise m) (\<lambda>_. installed good) (recoverable tx good)" for b k m
    using recover_swapped_safe recover_moved_safe recover_armed_safe
    by (cases b; cases k) (simp_all add: crash_safe_raise good_def)
  show "crash_safe (recoverable tx good)
      (\<lambda>s. if started then armed tx good s \<or> moved tx good s \<or> swapped tx good s else installed good s)
      (io_bind (scoped_directory_exists Bundle ''installed bundle'') (\<lambda>b.
       io_bind (scoped_directory_exists Backup ''update recovery backup'') (\<lambda>k.
         if b \<and> k then recover_swapped h name else if k then recover_moved h name
         else if b then recover_armed h name
         else io_raise ''installed bundle and its recovery backup are both missing'')))
      (\<lambda>_. installed good) (recoverable tx good)"
    using \<open>\<not> \<not> started\<close> by simp (rule crash_safe_bind [OF B crash_safe_bind [OF K arms]])
qed


section \<open>The whole helper\<close>

text \<open>Steps that touch none of the three places keep every state of the swap.\<close>

definition neutral :: "'a io \<Rightarrow> bool" where
  "neutral m \<longleftrightarrow> (\<forall>I P. (\<forall>s k e. k \<notin> {Bundle, Backup, Transaction, Quarantine} \<longrightarrow> P (s(k := e)) = P s) \<longrightarrow>
     (\<forall>s. P s \<longrightarrow> I s) \<longrightarrow> crash_safe I P m (\<lambda>_. P) P)"

lemma neutralI:
  "(\<And>I P. (\<And>s k e. k \<notin> {Bundle, Backup, Transaction, Quarantine} \<Longrightarrow> P (s(k := e)) = P s) \<Longrightarrow>
     (\<And>s. P s \<Longrightarrow> I s) \<Longrightarrow> crash_safe I P m (\<lambda>_. P) P) \<Longrightarrow> neutral m"
  unfolding neutral_def by blast

lemma neutralD:
  "neutral m \<Longrightarrow> (\<And>s k e. k \<notin> {Bundle, Backup, Transaction, Quarantine} \<Longrightarrow> P (s(k := e)) = P s) \<Longrightarrow>
     (\<And>s. P s \<Longrightarrow> I s) \<Longrightarrow> crash_safe I P m (\<lambda>_. P) P"
  unfolding neutral_def by blast

lemma neutral_bind:
  assumes "neutral m" "\<And>x. neutral (f x)"
  shows "neutral (io_bind m f)"
  by (rule neutralI, rule crash_safe_bind, rule neutralD [OF assms(1)], assumption, assumption,
      rule neutralD [OF assms(2)])

lemma neutral_return: "neutral (io_return x)"
  by (rule neutralI) (rule crash_safe_return)

lemma neutral_raise: "neutral (io_raise x)"
  by (rule neutralI) (rule crash_safe_raise)

lemma neutral_lift: "neutral (io_lift r)"
  by (simp add: io_lift_def neutral_return neutral_raise split: sum.split)

lemma neutral_exists: "neutral (slot_exists k)"
  by (rule neutralI) (rule crash_safe_exists)

lemma neutral_change: "k \<notin> {Bundle, Backup, Transaction, Quarantine} \<Longrightarrow> neutral (change k message e)"
  by (rule neutralI) (rule crash_safe_change; simp)

lemma neutral_remove_dir_all: "k \<notin> {Bundle, Backup, Transaction, Quarantine} \<Longrightarrow> neutral (remove_dir_all k message)"
  by (rule neutralI) (rule crash_safe_remove_dir_all; simp)

lemma neutral_remove_if_present: "k \<notin> {Bundle, Backup, Transaction, Quarantine} \<Longrightarrow> neutral (remove_if_present k label)"
  by (rule neutralI) (rule crash_safe_remove_if_present; simp)

lemma neutral_remove_file: "k \<notin> {Bundle, Backup, Transaction, Quarantine} \<Longrightarrow> neutral (remove_file k message)"
  by (rule neutralI) (rule remove_file_safe; simp)

lemma neutral_check:
  assumes "\<And>w w' x. f w = Inr (w', x) \<Longrightarrow> w' = w"
  shows "neutral (atomic message f)"
  by (rule neutralI, rule crash_safe_check [OF assms])

lemmas neutral_intros = neutral_bind neutral_return neutral_raise neutral_lift neutral_exists neutral_change
  neutral_remove_dir_all neutral_remove_if_present neutral_remove_file

lemma neutral_verify_archive: "neutral (verify_archive h sha)"
  unfolding verify_archive_def
  by (rule neutral_check) (auto split: option.splits entry.splits sum.splits)

lemma neutral_cleanup: "neutral cleanup_update_stage"
  unfolding cleanup_update_stage_def by (intro neutral_intros) (auto intro!: neutral_intros)

lemma neutral_relaunch: "neutral (relaunch launcher)"
  unfolding relaunch_def by (auto intro!: neutral_intros neutral_check split: option.split)

lemma neutral_extract: "neutral (extract_archive h)"
proof (rule neutralI, rule crash_safeI)
  fix I :: "store \<Rightarrow> bool" and P :: "store \<Rightarrow> bool" and w w' r
  assume P: "\<And>s k e. k \<notin> {Bundle, Backup, Transaction, Quarantine} \<Longrightarrow> P (s(k := e)) = P s"
    and I: "\<And>s. P s \<Longrightarrow> I s" and w: "P (uw_slots w)" and run: "extract_archive h w = (w', r)"
  have "crash_safe I P (change Expanded m e) (\<lambda>_. P) P" for m e
    by (rule crash_safe_change) (use P I in auto)
  with run w show "case r of Returned x \<Rightarrow> P (uw_slots w') | Raised _ \<Rightarrow> P (uw_slots w') | Killed \<Rightarrow> I (uw_slots w')"
    by (auto simp: extract_archive_def crash_safe_def split: option.splits entry.splits)
qed

lemma neutral_expand: "neutral (expand_replacement h)"
  unfolding expand_replacement_def single_extracted_root_def check_replacement_def
  by (intro neutral_bind neutral_exists neutral_change neutral_extract neutral_check)
     (auto intro!: neutral_intros split: option.splits entry.splits list.splits if_splits sum.splits)

lemma neutral_safe:
  assumes "neutral m"
  shows "crash_safe (recoverable tx good) (installed good) m (\<lambda>_. installed good) (installed good)"
    and "crash_safe (recoverable tx good) (recoverable tx good) m (\<lambda>_. recoverable tx good) (recoverable tx good)"
  using assms unfolding neutral_def by (simp_all add: recoverableI)

text \<open>A replacement is staged: the expansion holds one directory.\<close>

definition staged :: "store \<Rightarrow> bool" where
  "staged s \<longleftrightarrow> (\<exists>p. s Expanded = Some (Directory [p]) \<and> is_directory (snd p))"

lemma expand_replacement_safe:
  "crash_safe (recoverable tx good) (installed good) (expand_replacement h)
     (\<lambda>_ s. installed good s \<and> staged s) (recoverable tx good)"
  unfolding expand_replacement_def
proof (rule crash_safe_bind [where R = "\<lambda>_. installed good"])
  let ?I = "recoverable tx good" and ?P = "installed good"
  have neutral: "crash_safe ?I ?P m (\<lambda>_. ?P) ?I" if "neutral m" for m :: "'x io"
    using neutral_safe(1) [OF that] by (rule crash_safe_weaken) (auto intro: recoverableI)
  show "crash_safe ?I ?P (slot_exists Expanded) (\<lambda>_. ?P) ?I"
    by (rule neutral) (rule neutral_exists)
  have root: "crash_safe ?I ?P single_extracted_root
      (\<lambda>p s. ?P s \<and> s Expanded = Some (Directory [p]) \<and> is_directory (snd p)) ?I"
    unfolding single_extracted_root_def
    by (rule crash_safe_atomic) (auto intro: recoverableI split: option.splits entry.splits list.splits if_splits)
  have check: "crash_safe ?I (\<lambda>s. ?P s \<and> s Expanded = Some (Directory [p]) \<and> is_directory (snd p))
      (check_replacement h p) (\<lambda>_ s. ?P s \<and> staged s) ?I" for p
    unfolding check_replacement_def
    by (cases p, rule crash_safe_atomic) (auto simp: staged_def intro: recoverableI split: sum.splits prod.splits)
  show "crash_safe ?I ?P
      (io_bind (if present then remove_dir_all Expanded m1 else io_return ()) (\<lambda>_.
       io_bind (change Expanded m2 (Some (Directory []))) (\<lambda>_.
       io_bind (extract_archive h) (\<lambda>_. io_bind single_extracted_root (check_replacement h)))))
      (\<lambda>_ s. ?P s \<and> staged s) ?I" for present m1 m2
    by (rule crash_safe_bind [OF neutral crash_safe_bind [OF neutral crash_safe_bind
          [OF neutral crash_safe_bind [OF root check]]]])
       (auto intro!: neutral_intros neutral_extract)
qed

lemma write_transaction_safe:
  assumes "tx (Regular (hh_encode h (1, sha)))"
  shows "crash_safe (recoverable tx good) (\<lambda>s. installed good s \<and> s Backup = None \<and> staged s)
    (write_update_transaction h sha) (\<lambda>_ s. armed tx good s \<and> staged s) (recoverable tx good)"
  unfolding write_update_transaction_def
proof (rule crash_safe_bind [OF crash_safe_exists crash_safe_bind])
  let ?I = "recoverable tx good" and ?P = "\<lambda>s. installed good s \<and> s Backup = None \<and> staged s"
    and ?A = "\<lambda>s. armed tx good s \<and> staged s"
  let ?full = "Regular (hh_encode h (1, sha))"
  have frame [simp]: "staged (s(TransactionTemp := e)) = staged s" for s e
    by (simp add: staged_def)
  show "?P s \<Longrightarrow> ?P s" for s .
  show "crash_safe ?I ?P (if present then remove_file TransactionTemp m else io_return ()) (\<lambda>_. ?P) ?I" for present m
    by (auto intro!: remove_file_safe crash_safe_return intro: recoverableI)
  have "crash_safe ?I ?P (change TransactionTemp m e) (\<lambda>_. ?P) ?P" for m e
    by (rule crash_safe_change) (auto intro: recoverableI)
  moreover have "crash_safe ?I ?P (change TransactionTemp m (Some ?full))
      (\<lambda>_ s. ?P s \<and> s TransactionTemp = Some ?full) ?P" for m
    by (rule crash_safe_change) (auto intro: recoverableI)
  moreover have "crash_safe ?I (\<lambda>s. ?P s \<and> s TransactionTemp = Some ?full)
      (rename_file TransactionTemp Transaction m) (\<lambda>_. ?A) ?P" for m
    unfolding rename_file_def
    by (rule crash_safe_atomic)
       (use assms in \<open>auto simp: put_def swap_states staged_def intro: recoverableI split: option.splits\<close>)
  ultimately have publish: "crash_safe ?I ?P
      (io_bind (change TransactionTemp m1 e) (\<lambda>_. io_bind (change TransactionTemp m2 (Some ?full)) (\<lambda>_.
         rename_file TransactionTemp Transaction m3))) (\<lambda>_. ?A) ?P" for m1 m2 m3 e
    by (intro crash_safe_bind)
  show "crash_safe ?I ?P
      (io_bind (io_result (io_bind (change TransactionTemp m1 e) (\<lambda>_.
         io_bind (change TransactionTemp m2 (Some ?full)) (\<lambda>_. rename_file TransactionTemp Transaction m3)))) (\<lambda>result.
       io_bind (io_result (remove_file TransactionTemp [])) (\<lambda>_. io_lift result))) (\<lambda>_. ?A) ?I" for m1 m2 m3 e
  proof (rule crash_safe_bind [OF crash_safe_result [OF publish]])
    fix result :: "string + unit"
    have "crash_safe ?I R (io_result (remove_file TransactionTemp [])) (\<lambda>_. R) ?I"
      if "\<And>s e. R (s(TransactionTemp := e)) = R s" "\<And>s. R s \<Longrightarrow> ?I s" for R
    proof -
      have "crash_safe ?I R (remove_file TransactionTemp []) (\<lambda>_. R) R"
        by (rule remove_file_safe) (use that in auto)
      from crash_safe_result [OF this] show ?thesis
        by (rule crash_safe_weaken) (auto split: sum.splits)
    qed
    note ignore = this
    show "crash_safe ?I (\<lambda>s. case result of Inr _ \<Rightarrow> ?A s | Inl _ \<Rightarrow> ?P s)
        (io_bind (io_result (remove_file TransactionTemp [])) (\<lambda>_. io_lift result)) (\<lambda>_. ?A) ?I"
    proof (cases result)
      case (Inl e)
      show ?thesis
        unfolding Inl by (rule crash_safe_bind [OF ignore crash_safe_lift]) (auto intro: recoverableI)
    next
      case (Inr u)
      show ?thesis
        unfolding Inr by (rule crash_safe_bind [OF ignore crash_safe_lift]) (auto intro: recoverableI)
    qed
  qed
qed

lemma roll_back_safe:
  "crash_safe (recoverable tx good) (\<lambda>s. moved tx good s \<or> swapped tx good s) (roll_back m) Q (recoverable tx good)"
  unfolding roll_back_def
proof (rule crash_safe_try [where R = "\<lambda>_. armed tx good" and E' = "\<lambda>s. moved tx good s \<or> swapped tx good s"])
  show "crash_safe (recoverable tx good) (\<lambda>s. moved tx good s \<or> swapped tx good s)
      (rename_directory Backup Bundle m') (\<lambda>_. armed tx good) (\<lambda>s. moved tx good s \<or> swapped tx good s)" for m'
    by (rule rename_directory_safe) (auto simp: swap_states intro: recoverableI)
  have "crash_safe (recoverable tx good) (armed tx good) (remove_file Transaction [])
      (\<lambda>_. installed good) (armed tx good)"
    by (rule remove_file_safe) (auto simp: swap_states intro: recoverableI)
  from crash_safe_result [OF this]
  have "crash_safe (recoverable tx good) (armed tx good) (io_result (remove_file Transaction []))
      (\<lambda>_. recoverable tx good) (recoverable tx good)"
    by (rule crash_safe_weaken) (auto intro: recoverableI split: sum.splits)
  then show "crash_safe (recoverable tx good) (armed tx good)
      (io_bind (io_result (remove_file Transaction [])) (\<lambda>_. io_raise m')) Q (recoverable tx good)" for m'
    by (rule crash_safe_bind) (rule crash_safe_raise)
  show "crash_safe (recoverable tx good) (\<lambda>s. moved tx good s \<or> swapped tx good s) (io_raise m') Q
      (recoverable tx good)" for m'
    by (rule crash_safe_raise) (auto intro: recoverableI)
qed

lemma rename_replacement_safe:
  "crash_safe (recoverable tx good) (\<lambda>s. moved tx good s \<and> staged s) rename_replacement
     (\<lambda>_. swapped tx good) (moved tx good)"
  unfolding rename_replacement_def
  by (rule crash_safe_atomic)
     (auto simp: put_def swap_states staged_def intro: recoverableI
       split: option.splits entry.splits list.splits if_splits)

lemma quarantine_safe:
  "crash_safe (recoverable tx good) (swapped tx good) (io_result (rename_directory Bundle Quarantine m))
     (\<lambda>_ s. moved tx good s \<or> swapped tx good s) (recoverable tx good)"
proof -
  have "crash_safe (recoverable tx good) (swapped tx good) (rename_directory Bundle Quarantine m)
      (\<lambda>_. moved tx good) (swapped tx good)"
    by (rule rename_directory_safe) (auto simp: swap_states intro: recoverableI)
  from crash_safe_result [OF this] show ?thesis
    by (rule crash_safe_weaken) (auto split: sum.splits)
qed

lemma verify_installed_safe:
  fixes h name tx
  defines "good \<equiv> verified h name"
  shows "crash_safe (recoverable tx good) (swapped tx good)
    (io_bind (io_result (verify_slot h name Bundle)) (\<lambda>v.
       case v of
         Inr _ \<Rightarrow> remove_file Transaction m1
       | Inl _ \<Rightarrow> io_bind (io_result (rename_directory Bundle Quarantine [])) (\<lambda>_. roll_back m2)))
    (\<lambda>_. installed good) (recoverable tx good)"
proof (rule crash_safe_try)
  show "crash_safe (recoverable tx good) (swapped tx good) (verify_slot h name Bundle)
      (\<lambda>_ s. swapped tx good s \<and> (\<exists>b. s Bundle = Some b \<and> good b)) (swapped tx good)"
    by (rule verify_slot_safe) (auto simp: swap_states good_def verified_def intro: recoverableI)
  show "crash_safe (recoverable tx good) (\<lambda>s. swapped tx good s \<and> (\<exists>b. s Bundle = Some b \<and> good b))
      (remove_file Transaction m1) (\<lambda>_. installed good) (recoverable tx good)"
    by (rule remove_file_safe) (auto simp: swap_states intro: recoverableI)
  show "crash_safe (recoverable tx good) (swapped tx good)
      (io_bind (io_result (rename_directory Bundle Quarantine [])) (\<lambda>_. roll_back m2))
      (\<lambda>_. installed good) (recoverable tx good)"
    by (rule crash_safe_bind [OF quarantine_safe roll_back_safe])
qed

lemma swap_bundle_safe:
  fixes h name tx
  defines "good \<equiv> verified h name"
  assumes "tx (Regular (hh_encode h (1, sha)))"
  shows "crash_safe (recoverable tx good) (\<lambda>s. installed good s \<and> staged s) (swap_bundle h name sha)
     (\<lambda>_. installed good) (recoverable tx good)"
  unfolding swap_bundle_def
proof (rule crash_safe_bind)
  let ?I = "recoverable tx good"
  let ?P = "\<lambda>s. installed good s \<and> s Backup = None \<and> staged s"
  have staged_frame [simp]: "k \<noteq> Expanded \<Longrightarrow> staged (s(k := e)) = staged s" for s k e
    by (simp add: staged_def)
  show "crash_safe ?I (\<lambda>s. installed good s \<and> staged s) (remove_if_present Backup l) (\<lambda>_. ?P) ?I" for l
    by (rule crash_safe_remove_if_present) (auto simp: recoverable_def swap_states)
  have clear: "crash_safe ?I ?P (remove_if_present Quarantine l) (\<lambda>_. ?P) ?I" for l
    by (rule crash_safe_remove_if_present) (auto simp: recoverable_def swap_states)
  have move: "crash_safe ?I (\<lambda>s. armed tx good s \<and> staged s) (rename_directory Bundle Backup m)
      (\<lambda>_ s. moved tx good s \<and> staged s) ?I" for m
    by (rule rename_directory_safe) (auto simp: swap_states intro: recoverableI)
  have undo: "crash_safe ?I (moved tx good) (roll_back m) (\<lambda>_. installed good) ?I" for m
    by (rule crash_safe_weaken [OF roll_back_safe]) auto
  note rest = crash_safe_try [OF rename_replacement_safe verify_installed_safe [where h = h and name = name, folded good_def] undo]
  show "crash_safe ?I ?P
      (io_bind (remove_if_present Quarantine l) (\<lambda>_.
       io_bind (write_update_transaction h sha) (\<lambda>_.
       io_bind (rename_directory Bundle Backup m) (\<lambda>_.
       io_bind (io_result rename_replacement) (\<lambda>r.
       case r of
         Inl _ \<Rightarrow> roll_back m1
       | Inr _ \<Rightarrow>
           io_bind (io_result (verify_slot h name Bundle)) (\<lambda>v.
           case v of
             Inl _ \<Rightarrow> io_bind (io_result (rename_directory Bundle Quarantine [])) (\<lambda>_. roll_back m2)
           | Inr _ \<Rightarrow> remove_file Transaction m3)))))) (\<lambda>_. installed good) ?I" for l m m1 m2 m3
    by (rule crash_safe_bind [OF clear crash_safe_bind [OF write_transaction_safe
          crash_safe_bind [OF move rest]]]) (rule assms(2))
qed

theorem apply_update_safe:
  assumes "tx (Regular (hh_encode h (1, sha)))"
  shows "crash_safe (recoverable tx (verified h name)) (recoverable tx (verified h name))
     (apply_update h name sha launcher probe)
     (\<lambda>_. installed (verified h name)) (recoverable tx (verified h name))"
proof -
  let ?good = "verified h name" and ?I = "recoverable tx (verified h name)"
  have neutral: "crash_safe ?I (installed ?good) m (\<lambda>_. installed ?good) ?I" if "neutral m" for m :: "'x io"
    using neutral_safe(1) [OF that] by (rule crash_safe_weaken) (auto intro: recoverableI)
  have ending: "crash_safe ?I (installed ?good) (io_bind cleanup_update_stage (\<lambda>_. relaunch launcher))
      (\<lambda>_. installed ?good) ?I"
    by (intro neutral neutral_bind neutral_cleanup neutral_relaunch)
  have fresh: "crash_safe ?I (installed ?good)
      (io_bind (expand_replacement h) (\<lambda>_. io_bind (swap_bundle h name sha) (\<lambda>_.
         io_bind cleanup_update_stage (\<lambda>_. relaunch launcher)))) (\<lambda>_. installed ?good) ?I"
    by (rule crash_safe_bind [OF expand_replacement_safe crash_safe_bind [OF swap_bundle_safe ending]])
       (rule assms)
  have both: "crash_safe ?I (installed ?good)
      (if outcome = AlreadyInstalled then io_bind cleanup_update_stage (\<lambda>_. relaunch launcher)
       else io_bind (expand_replacement h) (\<lambda>_. io_bind (swap_bundle h name sha) (\<lambda>_.
         io_bind cleanup_update_stage (\<lambda>_. relaunch launcher)))) (\<lambda>_. installed ?good) ?I" for outcome
    using ending fresh by simp
  show ?thesis
    unfolding apply_update_def
    by (rule crash_safe_bind [OF neutral_safe(2) crash_safe_bind [OF neutral_safe(2)
          crash_safe_bind [OF reconcile_safe both]]])
       (rule neutral_verify_archive, rule neutral_lift)
qed

end
