(* ===== verification/UpdateRecoveryClaims.thy ===== *)
theory UpdateRecoveryClaims
  imports UpdateRecovery
begin

text \<open>
  The properties of the update helper: crash safety, recovery, the verification of a bundle,
  and the situations in which recovery is refused.
\<close>

section \<open>Recovery returns\<close>

lemma pop_no_fault [simp]: "uw_faults w = [] \<Longrightarrow> pop_fault w = (Proceed, w)"
  by (simp add: pop_fault_def)

lemma put_simps [simp]:
  "uw_faults (put k e w) = uw_faults w" "uw_slots (put k e w) = (uw_slots w)(k := e)"
  by (simp_all add: put_def)

lemma backup_extension:
  assumes "slash \<notin> set name"
  shows "path_extension (backup_name name) = Some ''previous''"
proof -
  have "path_components (backup_name name) = [Normal (backup_name name)]"
    using assms by (intro path_components_single) (auto simp: backup_name_def slash_def)
  moreover have "split_once CHR ''.'' (rev (backup_name name)) = Some (rev ''previous'', rev name @ ''.'')"
    unfolding split_once_Some_iff by (simp add: backup_name_def)
  ultimately show ?thesis
    by (simp add: path_extension_def path_file_name_def rsplit_once_def)
qed

lemma verify_backup_name:
  assumes "slash \<notin> set name" "path_extension name \<noteq> Some ''app''"
  shows "verify_replacement h (backup_name name) e = verify_replacement h name e"
  using assms by (simp add: verify_replacement_def backup_extension)

lemmas io_defs = io_bind_def io_return_def io_raise_def io_result_def io_lift_def atomic_def
  slot_exists_def rename_directory_def rename_file_def remove_file_def remove_dir_all_def
  remove_scoped_directory_def remove_if_present_def scoped_directory_exists_def verify_slot_def change_def

lemma restore_backup_runs:
  assumes "uw_faults w = []" "uw_slots w Bundle = None" "uw_slots w Backup = Some b"
    and "uw_slots w Transaction = Some (Regular t)"
  shows "\<exists>w'. restore_backup m w = (w', Returned Ready)"
  using assms by (simp add: restore_backup_def io_defs)

lemma reconcile_runs:
  assumes "uw_faults w = []" "slash \<notin> set name" "path_extension name \<noteq> Some ''app''"
    and "hh_decode h (hh_encode h (1, sha)) = Some (1, sha)"
    and "length (hh_encode h (1, sha)) \<le> MAX_TRANSACTION_BYTES"
    and "recoverable (\<lambda>t. t = Regular (hh_encode h (1, sha))) (verified h name) (uw_slots w)"
  shows "\<exists>w' outcome. reconcile_interrupted_update h name sha w = (w', Returned outcome)"
proof -
  let ?t = "Regular (hh_encode h (1, sha))"
  let ?s = "uw_slots w"
  have started: "read_update_transaction h sha w = (w, Returned (?s Transaction \<noteq> None))"
    if "?s Transaction = None \<or> ?s Transaction = Some ?t"
    using that assms by (auto simp: read_update_transaction_def atomic_def)
  note backup = verify_backup_name [OF assms(2,3)]
  consider (installed) "installed (verified h name) ?s" | (armed) "armed (\<lambda>t. t = ?t) (verified h name) ?s"
    | (moved) "moved (\<lambda>t. t = ?t) (verified h name) ?s" | (swapped) "swapped (\<lambda>t. t = ?t) (verified h name) ?s"
    using assms(6) unfolding recoverable_def by blast
  then show ?thesis
  proof cases
    case installed
    then obtain b where "?s Transaction = None" "?s Bundle = Some b" "is_directory b"
      by (auto simp: swap_states verified_def)
    with started show ?thesis
      by (cases b) (auto simp: reconcile_interrupted_update_def require_bundle_def io_bind_def)
  next
    case armed
    then obtain b where "?s Transaction = Some ?t" "?s Bundle = Some b" "?s Backup = None"
      "is_directory b" "verify_replacement (hh_bundle h) name b = Inr ()"
      by (auto simp: swap_states verified_def)
    with started assms(1) show ?thesis
      by (simp add: reconcile_interrupted_update_def recover_armed_def io_defs)
  next
    case moved
    then obtain b where b: "?s Transaction = Some ?t" "?s Bundle = None" "?s Backup = Some b"
      "is_directory b" "verify_replacement (hh_bundle h) name b = Inr ()"
      by (auto simp: swap_states verified_def)
    have "reconcile_interrupted_update h name sha w =
        restore_backup ''cannot finish update recovery transaction'' w"
      using b started assms(1) backup
      by (simp add: reconcile_interrupted_update_def recover_moved_def io_defs)
    with restore_backup_runs [OF assms(1) b(2,3,1)] show ?thesis by metis
  next
    case swapped
    then obtain b e where b: "?s Transaction = Some ?t" "?s Bundle = Some e" "?s Backup = Some b"
      "is_directory e" "is_directory b" "verify_replacement (hh_bundle h) name b = Inr ()"
      "maybe_directory (?s Quarantine)"
      by (auto simp: swap_states verified_def)
    show ?thesis
    proof (cases "verify_replacement (hh_bundle h) name e")
      case (Inr u)
      with b started assms(1) show ?thesis
        by (simp add: reconcile_interrupted_update_def recover_swapped_def io_defs)
    next
      case (Inl m)
      let ?w = "put Bundle None (put Quarantine (Some e) (put Quarantine None w))"
      have "reconcile_interrupted_update h name sha w =
          restore_backup ''cannot finish update rollback transaction'' ?w"
        using b started assms(1) backup Inl
        by (cases "?s Quarantine")
           (auto simp: reconcile_interrupted_update_def recover_swapped_def roll_back_swap_def io_defs
             put_def fun_upd_twist fun_upd_idem split: entry.splits)
      then show ?thesis
        using restore_backup_runs [of ?w b "hh_encode h (1, sha)"] b assms(1) by fastforce
    qed
  qed
qed

section \<open>What a verified bundle contains\<close>

text \<open>The entry at a path below a directory.\<close>

inductive holds_entry :: "(string \<times> entry) list \<Rightarrow> string list \<Rightarrow> entry \<Rightarrow> bool" where
  here: "(n, e) \<in> set es \<Longrightarrow> holds_entry es [n] e"
| below: "(n, Directory ds) \<in> set es \<Longrightarrow> holds_entry ds p e \<Longrightarrow> holds_entry es (n # p) e"

inductive_cases holds_entryE: "holds_entry es p e"

fun plain :: "entry \<Rightarrow> bool" where
  "plain (Directory _) = True"
| "plain (Regular _) = True"
| "plain _ = False"

lemma holds_entry_Nil: "\<not> holds_entry [] p e"
  by (auto elim: holds_entryE)

lemma holds_entry_mono: "holds_entry es p e \<Longrightarrow> set es \<subseteq> set fs \<Longrightarrow> holds_entry fs p e"
  by (erule holds_entry.cases) (auto intro: holds_entry.intros)

lemma holds_entry_Cons:
  "holds_entry ((n, x) # es) p e \<longleftrightarrow>
     p = [n] \<and> e = x \<or> (\<exists>ds q. x = Directory ds \<and> p = n # q \<and> holds_entry ds q e) \<or> holds_entry es p e"
proof
  assume "holds_entry ((n, x) # es) p e"
  then show "p = [n] \<and> e = x \<or> (\<exists>ds q. x = Directory ds \<and> p = n # q \<and> holds_entry ds q e) \<or> holds_entry es p e"
    by (cases rule: holds_entry.cases) (auto intro: holds_entry.intros)
qed (auto intro: holds_entry.intros holds_entry_mono)

lemma visit_Inr:
  "visit at es = Inr fs \<Longrightarrow>
     set fs = {(at @ p, c) | p c. holds_entry es p (Regular c) \<and> at @ p \<noteq> [''manifest.json'']} \<and>
     (\<forall>p e. holds_entry es p e \<longrightarrow> plain e)"
proof (induction at es arbitrary: fs rule: visit.induct)
  case (2 at n es rest)
  then obtain below others where parts: "visit (at @ [n]) es = Inr below" "visit at rest = Inr others"
    "fs = below @ others" by (auto simp: rbind_Inr_iff)
  from "2.IH"(1) [OF parts(1)] "2.IH"(2) [OF parts(2)]
  show ?case by (auto simp: parts(3) holds_entry_Cons)
next
  case (3 at n content rest)
  show ?case
  proof (cases "at @ [n] = [''manifest.json'']")
    case True
    with 3 show ?thesis by (auto simp: holds_entry_Cons)
  next
    case False
    with "3.prems" obtain others where parts: "visit at rest = Inr others" "fs = (at @ [n], content) # others"
      by (auto simp: rbind_Inr_iff)
    from "3.IH"(2) [OF False parts(1)] False show ?thesis
      by (auto simp: parts(2) holds_entry_Cons)
  qed
qed (simp_all add: holds_entry_Nil)

lemma expect_files_Inr:
  "expect_files acc files = Inr expected \<Longrightarrow> distinct (map fst acc) \<Longrightarrow>
     distinct (map fst expected) \<and>
     set expected = set acc \<union> (\<lambda>f. (path_components (bf_path f), bf_bytes f, bf_sha256 f)) ` set files"
proof (induction files arbitrary: acc)
  case (Cons f files)
  then have "path_components (bf_path f) \<notin> fst ` set acc"
    "expect_files ((path_components (bf_path f), bf_bytes f, bf_sha256 f) # acc) files = Inr expected"
    by (auto simp: rbind_Inr_iff split: if_splits)
  with Cons.IH [OF this(2)] Cons.prems(2) show ?case by auto
qed auto

lemma check_files_Inr:
  "check_files sha256 expected actual = Inr left \<Longrightarrow> distinct (map fst expected) \<Longrightarrow>
     (\<forall>(names, content) \<in> set actual. \<exists>bytes digest. (map Normal names, bytes, digest) \<in> set expected \<and>
        length content = unat bytes \<and> sha256 content = digest) \<and>
     {x \<in> set expected. fst x \<notin> map Normal ` fst ` set actual} \<subseteq> set left"
proof (induction sha256 expected actual rule: check_files.induct)
  case (2 sha256 expected names content rest)
  from "2.prems"(1) obtain bytes digest where found: "map_of expected (map Normal names) = Some (bytes, digest)"
    "length content = unat bytes" "sha256 content = digest"
    and rest: "check_files sha256 (filter (\<lambda>f. fst f \<noteq> map Normal names) expected) rest = Inr left"
    by (auto simp: rbind_Inr_iff verify_hash_def reject_if_def split: option.splits if_splits prod.splits)
  have dist: "distinct (map fst (filter (\<lambda>f. fst f \<noteq> map Normal names) expected))"
    using "2.prems"(2) by (rule distinct_map_filter)
  have IH: "(\<forall>(names', content') \<in> set rest. \<exists>bytes digest.
        (map Normal names', bytes, digest) \<in> set (filter (\<lambda>f. fst f \<noteq> map Normal names) expected) \<and>
        length content' = unat bytes \<and> sha256 content' = digest) \<and>
      {x \<in> set (filter (\<lambda>f. fst f \<noteq> map Normal names) expected). fst x \<notin> map Normal ` fst ` set rest} \<subseteq> set left"
    using "2.IH" [OF found(1) HOL.refl _ rest dist] found(2) by simp
  have "(map Normal names, bytes, digest) \<in> set expected" using found(1) by (rule map_of_SomeD)
  then have "\<exists>bytes digest. (map Normal names, bytes, digest) \<in> set expected \<and>
      length content = unat bytes \<and> sha256 content = digest"
    using found(2,3) by blast
  with IH have "\<forall>(names', content') \<in> set ((names, content) # rest). \<exists>bytes digest.
      (map Normal names', bytes, digest) \<in> set expected \<and>
      length content' = unat bytes \<and> sha256 content' = digest"
    by auto
  moreover have "{x \<in> set expected. fst x \<notin> map Normal ` fst ` set ((names, content) # rest)} \<subseteq> set left"
    using IH by auto
  ultimately show ?case by blast
qed auto

text \<open>
  C25. A bundle that the helper accepts is exactly what its manifest declares: there is no link
  or special file in it, every file except the manifest is declared with its size and digest,
  and every declared file is there.
\<close>
theorem verified_bundle_matches_manifest:
  assumes "verify_bundle h root = Inr ()"
  shows "\<exists>es bytes m. root = Directory es \<and> map_of es ''manifest.json'' = Some (Regular bytes) \<and>
     bn_decode h bytes = Some m \<and> im_protocol_version m = PROTOCOL_VERSION \<and>
     validate_manifest (bn_parse_url h) (bn_debug h) (im_application m) = Inr () \<and>
     (\<forall>p e. holds_entry es p e \<longrightarrow> plain e) \<and>
     (\<forall>p c. holds_entry es p (Regular c) \<and> p \<noteq> [''manifest.json''] \<longrightarrow>
        (\<exists>f \<in> set (im_files m). path_components (bf_path f) = map Normal p \<and>
           length c = unat (bf_bytes f) \<and> bn_sha256 h c = bf_sha256 f)) \<and>
     (\<forall>f \<in> set (im_files m). \<exists>p c. path_components (bf_path f) = map Normal p \<and>
        holds_entry es p (Regular c) \<and> length c = unat (bf_bytes f) \<and> bn_sha256 h c = bf_sha256 f)"
proof -
  obtain es bytes m expected actual where root: "root = Directory es"
      "map_of es ''manifest.json'' = Some (Regular bytes)" "bn_decode h bytes = Some m"
      "im_protocol_version m = PROTOCOL_VERSION"
      "validate_manifest (bn_parse_url h) (bn_debug h) (im_application m) = Inr ()"
    and parts: "expect_files [] (im_files m) = Inr expected" "visit [] es = Inr actual"
      "check_files (bn_sha256 h) expected actual = Inr []"
    using assms
    by (auto simp: verify_bundle_def bundle_files_def rbind_Inr_iff
        split: entry.splits option.splits if_splits sum.splits)
  have files: "distinct (map fst expected)"
    "set expected = (\<lambda>f. (path_components (bf_path f), bf_bytes f, bf_sha256 f)) ` set (im_files m)"
    using expect_files_Inr [OF parts(1)] by simp_all
  have actual: "set actual = {(p, c) | p c. holds_entry es p (Regular c) \<and> p \<noteq> [''manifest.json'']}"
    and plain: "\<forall>p e. holds_entry es p e \<longrightarrow> plain e"
    using visit_Inr [OF parts(2)] by simp_all
  have ok: "\<exists>bytes digest. (map Normal p, bytes, digest) \<in> set expected \<and>
      length c = unat bytes \<and> bn_sha256 h c = digest" if "(p, c) \<in> set actual" for p c
    using check_files_Inr [OF parts(3) files(1)] that by blast
  have all: "x \<in> set expected \<Longrightarrow> fst x \<in> map Normal ` fst ` set actual" for x
  proof -
    assume "x \<in> set expected"
    moreover have "{x \<in> set expected. fst x \<notin> map Normal ` fst ` set actual} \<subseteq> {}"
      using check_files_Inr [OF parts(3) files(1)] by simp
    ultimately show ?thesis by blast
  qed
  have "\<exists>f \<in> set (im_files m). path_components (bf_path f) = map Normal p \<and>
      length c = unat (bf_bytes f) \<and> bn_sha256 h c = bf_sha256 f"
    if "holds_entry es p (Regular c)" "p \<noteq> [''manifest.json'']" for p c
    using ok [of p c] that actual files(2) by fastforce
  moreover have "\<exists>p c. path_components (bf_path f) = map Normal p \<and>
      holds_entry es p (Regular c) \<and> length c = unat (bf_bytes f) \<and> bn_sha256 h c = bf_sha256 f"
    if "f \<in> set (im_files m)" for f
  proof -
    have mem: "(path_components (bf_path f), bf_bytes f, bf_sha256 f) \<in> set expected"
      using that files(2) by blast
    from all [OF this] obtain p c where pc: "(p, c) \<in> set actual" "path_components (bf_path f) = map Normal p"
      by auto
    from ok [OF pc(1)] obtain bytes digest where "(map Normal p, bytes, digest) \<in> set expected"
      "length c = unat bytes" "bn_sha256 h c = digest" by blast
    moreover from this(1) mem files(1) pc(2) have "(bytes, digest) = (bf_bytes f, bf_sha256 f)"
      by (metis eq_key_imp_eq_value)
    ultimately show ?thesis using pc actual by auto
  qed
  ultimately show ?thesis
    using root plain by blast
qed

section \<open>Runs of the helper\<close>

text \<open>
  Runs of the helper, one after the other: before each, anything may be staged (an archive, the
  rest of an expansion), and each meets its own faults, which may kill it.
\<close>

inductive helper_runs :: "helper_host \<Rightarrow> string \<Rightarrow> store \<Rightarrow> store \<Rightarrow> bool" for h name where
  no_run: "helper_runs h name s s"
| one_more: "helper_runs h name s s1 \<Longrightarrow>
    apply_update h name sha launcher probe
      \<lparr>uw_slots = s1(Archive := archive, Expanded := expanded), uw_faults = faults\<rparr> = (w, r) \<Longrightarrow>
    helper_runs h name s (uw_slots w)"

lemma crash_safe_run:
  assumes "crash_safe I P m Q E" "P (uw_slots w)" "m w = (w', r)"
    and "\<And>x s. Q x s \<Longrightarrow> I s" "\<And>s. E s \<Longrightarrow> I s"
  shows "I (uw_slots w')"
  using assms unfolding crash_safe_def by (cases r) (metis outcome.case)+

lemma crash_safe_returned:
  "crash_safe I P m Q E \<Longrightarrow> P (uw_slots w) \<Longrightarrow> m w = (w', Returned x) \<Longrightarrow> Q x (uw_slots w')"
  by (force simp: crash_safe_def)

lemma apply_update_run:
  assumes "apply_update h name sha launcher probe w = (w', r)" "tx (Regular (hh_encode h (1, sha)))"
    and "recoverable tx (verified h name) (uw_slots w)"
  shows "recoverable tx (verified h name) (uw_slots w')"
  by (rule crash_safe_run [OF apply_update_safe [where tx = tx, OF assms(2)] assms(3,1)])
     (auto intro: recoverableI)

lemma helper_runs_recoverable:
  "helper_runs h name s s' \<Longrightarrow> recoverable (\<lambda>_. True) (verified h name) s \<Longrightarrow>
     recoverable (\<lambda>_. True) (verified h name) s'"
proof (induction rule: helper_runs.induct)
  case (one_more s s1 sha launcher probe archive expanded faults w r)
  then have "recoverable (\<lambda>_. True) (verified h name) (s1(Archive := archive, Expanded := expanded))"
    by simp
  then show ?case
    using apply_update_run [OF one_more.hyps(2)] by simp
qed

text \<open>
  C1. The helper never loses the application: starting from an installed bundle, after any
  number of runs that succeeded, failed or were killed at any system call, there is a verified
  bundle in its place, or in the backup next to a transaction that says so.
\<close>
theorem crashes_never_lose_the_bundle:
  assumes "installed (verified h name) s" and "helper_runs h name s s'"
  shows "\<exists>b. verified h name b \<and>
     (s' Bundle = Some b \<or> s' Transaction \<noteq> None \<and> s' Backup = Some b)"
proof -
  have "recoverable (\<lambda>_. True) (verified h name) s'"
    using helper_runs_recoverable [OF assms(2)] recoverableI(1) [OF assms(1)] by blast
  then show ?thesis by (auto simp: recoverable_def swap_states)
qed

text \<open>
  C17. For a bundle that is not a macOS \<open>.app\<close> (whose backup is not recovered, see below): whatever
  fault interrupts an installation, running the recovery again with the same archive, undisturbed,
  returns and leaves a verified bundle in place and no transaction.  The other hypotheses are the
  round trip of the transaction's JSON and its size.
\<close>
theorem interrupted_update_recovers:
  assumes "installed (verified h name) (uw_slots w)"
    and "apply_update h name sha launcher probe w = (w', r)"
    and "hh_decode h (hh_encode h (1, sha)) = Some (1, sha)"
    and "length (hh_encode h (1, sha)) \<le> MAX_TRANSACTION_BYTES"
    and "slash \<notin> set name" and "path_extension name \<noteq> Some ''app''"
  shows "\<exists>w'' outcome. reconcile_interrupted_update h name sha (w'\<lparr>uw_faults := []\<rparr>) = (w'', Returned outcome) \<and>
     installed (verified h name) (uw_slots w'')"
proof -
  let ?tx = "\<lambda>t. t = Regular (hh_encode h (1, sha))"
  have "recoverable ?tx (verified h name) (uw_slots w')"
    by (rule apply_update_run [OF assms(2)]) (simp_all add: recoverableI(1) [OF assms(1)])
  then have rec: "recoverable ?tx (verified h name) (uw_slots (w'\<lparr>uw_faults := []\<rparr>))" by simp
  obtain w'' outcome where run: "reconcile_interrupted_update h name sha (w'\<lparr>uw_faults := []\<rparr>) = (w'', Returned outcome)"
    using reconcile_runs [OF _ assms(5,6,3,4) rec] by auto
  have "installed (verified h name) (uw_slots w'')"
    by (rule crash_safe_returned [OF reconcile_safe rec run])
  with run show ?thesis by blast
qed

lemma call_runs:
  assumes "uw_faults w = []"
  shows "uw_slots w source = Some e \<Longrightarrow> uw_slots w dest = None \<Longrightarrow>
      rename_directory source dest m w = (put dest (Some e) (put source None w), Returned ())"
    and "uw_slots w source = Some e \<Longrightarrow> rename_file source dest m w = (put dest (Some e) (put source None w), Returned ())"
    and "uw_slots w k = Some e \<Longrightarrow> \<not> is_directory e \<Longrightarrow> remove_file k m w = (put k None w, Returned ())"
    and "uw_slots w k = None \<Longrightarrow> remove_file k m w = (w, Raised m)"
    and "uw_slots w k = Some e \<Longrightarrow> verify_replacement (hh_bundle h) name e = Inr () \<Longrightarrow>
      verify_slot h name k w = (w, Returned ())"
    and "change k m x w = (put k x w, Returned ())"
    and "maybe_directory (uw_slots w k) \<Longrightarrow> remove_if_present k m w = (put k None w, Returned ())"
    and "uw_slots w Expanded = Some (Directory [(n, e)]) \<Longrightarrow> uw_slots w Bundle = None \<Longrightarrow>
      rename_replacement w = (put Bundle (Some e) (put Expanded (Some (Directory [])) w), Returned ())"
  using assms
  by (simp_all add: rename_directory_def rename_file_def remove_file_def verify_slot_def change_def atomic_def
      rename_replacement_def,
      cases "uw_slots w k")
     (auto simp: remove_if_present_def remove_scoped_directory_def remove_dir_all_def io_bind_def
       slot_exists_def io_return_def put_def fun_upd_idem split: entry.splits)

lemma io_bind_runs: "m w = (w', Returned x) \<Longrightarrow> io_bind m f w = f x w'"
  "m w = (w', Raised e) \<Longrightarrow> io_bind (io_result m) g w = g (Inl e) w'"
  "m w = (w', Returned x) \<Longrightarrow> io_bind (io_result m) g' w = g' (Inr x) w'"
  by (simp_all add: io_bind_def io_result_def)

lemma expand_runs:
  assumes "uw_faults w = []" "uw_slots w Archive = Some (Regular bytes)" "uw_slots w Expanded = None"
    and "hh_extract h bytes = Some [(n, e)]" "is_directory e" "verify_replacement (hh_bundle h) n e = Inr ()"
  shows "expand_replacement h w =
     (put Expanded (Some (Directory [(n, e)])) (put Expanded (Some (Directory [])) w), Returned ())"
  using assms by (simp add: expand_replacement_def extract_archive_def single_extracted_root_def
      check_replacement_def io_bind_def slot_exists_def io_return_def atomic_def call_runs)

lemma write_transaction_runs:
  assumes "uw_faults w = []" "uw_slots w TransactionTemp = None"
  shows "\<exists>w'. write_update_transaction h sha w = (w', Returned ()) \<and> uw_faults w' = [] \<and>
     uw_slots w' = (uw_slots w)(Transaction := Some (Regular (hh_encode h (1, sha))))"
proof -
  have restored: "(uw_slots w)(TransactionTemp := x, TransactionTemp := y, TransactionTemp := None,
      Transaction := z) = (uw_slots w)(Transaction := z)" for x y z
    using assms(2) by (intro ext) simp
  show ?thesis
    using assms restored
    by (simp add: write_update_transaction_def io_bind_runs call_runs io_bind_def slot_exists_def
        io_return_def io_result_def io_lift_def)
qed

lemma swap_runs:
  assumes "uw_faults w = []" "uw_slots w Bundle = Some b" "is_directory b"
    and "maybe_directory (uw_slots w Backup)" "maybe_directory (uw_slots w Quarantine)"
    and "uw_slots w TransactionTemp = None" "uw_slots w Expanded = Some (Directory [(n, e)])"
    and "verify_replacement (hh_bundle h) name e = Inr ()"
  shows "\<exists>w'. swap_bundle h name sha w = (w', Returned ()) \<and> uw_faults w' = [] \<and>
     uw_slots w' = (uw_slots w)(Backup := Some b, Quarantine := None, Bundle := Some e,
       Expanded := Some (Directory []), Transaction := None)"
proof -
  let ?w = "put Quarantine None (put Backup None w)"
  obtain w1 where w1: "write_update_transaction h sha ?w = (w1, Returned ())" "uw_faults w1 = []"
    "uw_slots w1 = (uw_slots ?w)(Transaction := Some (Regular (hh_encode h (1, sha))))"
    using write_transaction_runs [of ?w h sha] assms by auto
  have "swap_bundle h name sha w = (put Transaction None (put Bundle (Some e) (put Expanded (Some (Directory []))
      (put Backup (Some b) (put Bundle None w1)))), Returned ())"
    using assms w1 by (simp add: swap_bundle_def io_bind_runs call_runs)
  then show ?thesis
    using w1 by (auto simp: fun_eq_iff)
qed

text \<open>
  An undisturbed run installs: with an archive of the expected digest that holds one
  verified bundle, the helper returns, the new bundle is in place, the old one is the backup,
  and neither a transaction nor the archive is left.
\<close>
theorem undisturbed_update_installs:
  assumes "uw_faults w = []" and "probe 0 = (Inr False, d)"
    and "uw_slots w Transaction = None" and "uw_slots w TransactionTemp = None"
    and "uw_slots w Bundle = Some old" and "is_directory old"
    and "maybe_directory (uw_slots w Backup)" and "maybe_directory (uw_slots w Quarantine)"
    and "uw_slots w Expanded = None" and "uw_slots w Archive = Some (Regular bytes)"
    and "bn_sha256 (hh_bundle h) bytes = sha" and "hh_extract h bytes = Some [(n, new)]"
    and "is_directory new" and "verify_replacement (hh_bundle h) n new = Inr ()"
    and "verify_replacement (hh_bundle h) name new = Inr ()"
  shows "\<exists>w'. apply_update h name sha None probe w = (w', Returned ()) \<and>
     uw_slots w' Bundle = Some new \<and> uw_slots w' Backup = Some old \<and>
     uw_slots w' Transaction = None \<and> uw_slots w' Archive = None \<and> uw_slots w' Expanded = None"
proof -
  let ?w = "put Expanded (Some (Directory [(n, new)])) (put Expanded (Some (Directory [])) w)"
  obtain w1 where w1: "swap_bundle h name sha ?w = (w1, Returned ())" "uw_faults w1 = []"
    "uw_slots w1 = (uw_slots ?w)(Backup := Some old, Quarantine := None, Bundle := Some new,
       Expanded := Some (Directory []), Transaction := None)"
    using swap_runs [of ?w old n new h name sha] assms by auto
  have gone: "wait_for_parent 0 0 probe = Inr ()"
    using assms(2) by (subst wait_for_parent.simps) simp
  have archive: "verify_archive h sha w = (w, Returned ())"
    using assms by (simp add: verify_archive_def verify_hash_def reject_if_def atomic_def)
  have ready: "reconcile_interrupted_update h name sha w = (w, Returned Ready)"
    using assms by (cases old) (auto simp: reconcile_interrupted_update_def read_update_transaction_def
        require_bundle_def atomic_def io_bind_def)
  have cleanup: "cleanup_update_stage w1 = (put Archive None (put Expanded None w1), Returned ())"
    using w1 assms by (simp add: cleanup_update_stage_def io_defs)
  have "apply_update h name sha None probe w = (put Archive None (put Expanded None w1), Returned ())"
    using archive gone ready cleanup w1 expand_runs [of w bytes h n new] assms
    by (simp add: apply_update_def io_bind_def io_lift_def io_return_def relaunch_def)
  then show ?thesis using w1 by simp
qed

text \<open>
  A transaction of another archive blocks every installation: the helper fails (or is
  killed) and changes nothing.  Nothing else in the program removes the file, so an update
  interrupted after the swap blocks all later releases until the same archive is applied again.
\<close>
theorem foreign_transaction_blocks_updates:
  assumes "uw_slots w Transaction = Some (Regular bytes)" and "hh_decode h bytes = Some (v, digest)"
    and "digest \<noteq> sha" and "apply_update h name sha launcher probe w = (w', r)"
  shows "r \<noteq> Returned () \<and> uw_slots w' = uw_slots w"
proof -
  let ?P = "\<lambda>s. s = uw_slots w"
  have read: "crash_safe ?P ?P (read_update_transaction h sha) (\<lambda>_ _. False) ?P"
    unfolding read_update_transaction_def
    by (rule crash_safe_atomic) (use assms(1-3) in \<open>auto split: if_splits\<close>)
  have blocked: "crash_safe ?P ?P (reconcile_interrupted_update h name sha) (\<lambda>_ _. False) ?P"
    unfolding reconcile_interrupted_update_def
    by (rule crash_safe_bind [OF read]) (simp add: crash_safe_def)
  have archive: "crash_safe ?P ?P (verify_archive h sha) (\<lambda>_. ?P) ?P"
    unfolding verify_archive_def
    by (rule crash_safe_atomic) (auto split: option.splits entry.splits sum.splits)
  have "crash_safe ?P ?P (apply_update h name sha launcher probe) (\<lambda>_ _. False) ?P"
    unfolding apply_update_def
    by (rule crash_safe_bind [OF archive crash_safe_bind [OF crash_safe_lift crash_safe_bind [OF blocked]]])
       (simp_all add: crash_safe_def)
  with assms(4) show ?thesis
    by (cases r) (fastforce simp: crash_safe_def)+
qed

text \<open>
  On macOS an interrupted update of an application bundle is never recovered: the backup is
  verified under its own name, whose extension is \<open>previous\<close>, so it is read as a plain bundle
  and has no manifest at its root.
\<close>
theorem application_backup_is_not_recovered:
  assumes "slash \<notin> set name" and "uw_slots w Bundle = None"
    and "uw_slots w Backup = Some (Directory es)" and "map_of es ''manifest.json'' = None"
    and "uw_slots w Transaction \<noteq> None"
    and "reconcile_interrupted_update h name sha w = (w', r)"
  shows "(\<forall>outcome. r \<noteq> Returned outcome) \<and> uw_slots w' = uw_slots w"
proof -
  have verify: "verify_replacement (hh_bundle h) (backup_name name) (Directory es) = Inl ''cannot open bundle manifest''"
    using assms(1,4) by (simp add: verify_replacement_def backup_extension verify_bundle_def)
  let ?P = "\<lambda>s. s = uw_slots w"
  have read: "crash_safe ?P ?P (read_update_transaction h sha) (\<lambda>started s. started \<and> ?P s) ?P"
    unfolding read_update_transaction_def
    by (rule crash_safe_atomic) (use assms(5) in \<open>auto split: option.splits entry.splits if_splits\<close>)
  have place: "crash_safe ?P ?P (scoped_directory_exists Bundle l) (\<lambda>b s. \<not> b \<and> ?P s) ?P" for l
    by (rule scoped_directory_exists_safe) (use assms(2) in auto)
  have backup: "crash_safe ?P ?P (scoped_directory_exists Backup l) (\<lambda>k s. k \<and> ?P s) ?P" for l
    by (rule scoped_directory_exists_safe) (use assms(3) in auto)
  have "crash_safe ?P ?P (verify_slot h (backup_name name) Backup) (\<lambda>_ _. False) ?P"
    by (rule verify_slot_safe) (use assms(3) verify in auto)
  then have moved: "crash_safe ?P ?P (recover_moved h name) (\<lambda>_ _. False) ?P"
    unfolding recover_moved_def by (rule crash_safe_bind) (simp add: crash_safe_def)
  have choice: "crash_safe ?P (\<lambda>s. k \<and> ?P s)
      (if False \<and> k then x else if k then recover_moved h name else y) (\<lambda>_ _. False) ?P" for k x y
    using moved by (cases k) (simp_all add: crash_safe_def)
  have "crash_safe ?P ?P (reconcile_interrupted_update h name sha) (\<lambda>_ _. False) ?P"
    unfolding reconcile_interrupted_update_def
  proof (rule crash_safe_bind [OF read])
    fix started
    show "crash_safe ?P (\<lambda>s. started \<and> ?P s)
      (if \<not> started then require_bundle
       else io_bind (scoped_directory_exists Bundle ''installed bundle'') (\<lambda>b.
         io_bind (scoped_directory_exists Backup ''update recovery backup'') (\<lambda>k.
         if b \<and> k then recover_swapped h name else if k then recover_moved h name
         else if b then recover_armed h name
         else io_raise ''installed bundle and its recovery backup are both missing''))) (\<lambda>_ _. False) ?P"
    proof (cases started)
      case True
      have inner: "crash_safe ?P (\<lambda>s. \<not> b \<and> ?P s)
          (io_bind (scoped_directory_exists Backup ''update recovery backup'') (\<lambda>k.
            if b \<and> k then recover_swapped h name else if k then recover_moved h name
            else if b then recover_armed h name
            else io_raise ''installed bundle and its recovery backup are both missing'')) (\<lambda>_ _. False) ?P" for b
      proof (cases b)
        case False
        then show ?thesis by simp (rule crash_safe_bind [OF backup choice [simplified]])
      qed (simp add: crash_safe_def)
      from True show ?thesis by simp (rule crash_safe_bind [OF place inner])
    qed (simp add: crash_safe_def)
  qed
  with assms(6) show ?thesis
    by (cases r) (fastforce simp: crash_safe_def)+
qed

section \<open>Witnesses\<close>

definition sample_bundle :: "string \<Rightarrow> entry" where
  "sample_bundle content = Directory [(''manifest.json'', Regular ''{}''), (''app'', Regular content)]"

definition sample_bundle_manifest :: InstalledBundleManifest where
  "sample_bundle_manifest =
     \<lparr>im_schema_version = 1, im_protocol_version = PROTOCOL_VERSION, im_application = sample_manifest,
      im_files = [\<lparr>bf_path = ''app'', bf_bytes = 1, bf_sha256 = ''h''\<rparr>]\<rparr>"

definition sample_helper :: helper_host where
  "sample_helper =
     \<lparr>hh_bundle = \<lparr>bn_decode = (\<lambda>_. Some sample_bundle_manifest), bn_sha256 = (\<lambda>_. ''h''),
        bn_parse_url = (\<lambda>_. None), bn_debug = False, bn_os = ''linux'', bn_codesign = (\<lambda>_. None)\<rparr>,
      hh_encode = snd, hh_decode = (\<lambda>s. Some (1, s)),
      hh_extract = (\<lambda>_. Some [(''notes'', sample_bundle ''2'')])\<rparr>"

definition sample_store :: store where
  "sample_store = (\<lambda>_. None)(Bundle := Some (sample_bundle ''1''), Archive := Some (Regular ''zip''))"

definition gone :: "nat \<Rightarrow> (string + bool) \<times> nat" where
  "gone k = (Inr False, 0)"

definition sample_world :: "fault list \<Rightarrow> update_world" where
  "sample_world faults = \<lparr>uw_slots = sample_store, uw_faults = faults\<rparr>"

lemma sample_bundle_verified:
  "length content = 1 \<Longrightarrow> verify_bundle (hh_bundle sample_helper) (sample_bundle content) = Inr ()"
  by (simp add: verify_bundle_def sample_bundle_def sample_helper_def sample_bundle_manifest_def
      sample_manifest_valid MAX_BUNDLE_MANIFEST_BYTES_def bundle_files_def validate_relative_path_def
      reject_if_def path_is_absolute_def starts_with_def path_components_single slash_def verify_hash_def)

lemma sample_names: "path_extension ''notes'' \<noteq> Some ''app''" "slash \<notin> set ''notes''"
  by code_simp+

lemma sample_replacement:
  "length content = 1 \<Longrightarrow> verify_replacement (hh_bundle sample_helper) ''notes'' (sample_bundle content) = Inr ()"
  using sample_names(1) by (simp add: verify_replacement_def sample_bundle_verified)

lemma sample_installed: "installed (verified sample_helper ''notes'') sample_store"
  using sample_replacement [of "''1''"]
  by (simp add: installed_def sample_store_def verified_def sample_bundle_def)

theorem verified_bundle_matches_manifest_witness:
  "\<exists>f \<in> set (im_files sample_bundle_manifest). path_components (bf_path f) = map Normal [''app''] \<and>
     length ''1'' = unat (bf_bytes f)"
proof -
  have holds: "holds_entry [(''manifest.json'', Regular ''{}''), (''app'', Regular ''1'')] [''app''] (Regular ''1'')"
    by (simp add: holds_entry_Cons)
  have "bn_decode (hh_bundle sample_helper) bytes = Some sample_bundle_manifest" for bytes
    by (simp add: sample_helper_def)
  with verified_bundle_matches_manifest [OF sample_bundle_verified [of "''1''"]] holds
  show ?thesis by (simp add: sample_bundle_def) fastforce
qed

theorem crashes_never_lose_the_bundle_witness:
  "\<exists>b. verified sample_helper ''notes'' b \<and>
     (uw_slots (fst (apply_update sample_helper ''notes'' ''h'' None gone
        (sample_world (replicate 12 Proceed @ [Kill None])))) Bundle = Some b \<or>
      uw_slots (fst (apply_update sample_helper ''notes'' ''h'' None gone
        (sample_world (replicate 12 Proceed @ [Kill None])))) Transaction \<noteq> None \<and>
      uw_slots (fst (apply_update sample_helper ''notes'' ''h'' None gone
        (sample_world (replicate 12 Proceed @ [Kill None])))) Backup = Some b)"
proof -
  let ?w = "sample_world (replicate 12 Proceed @ [Kill None])"
  have "sample_store(Archive := sample_store Archive, Expanded := sample_store Expanded) = sample_store"
    by simp
  then have "helper_runs sample_helper ''notes'' sample_store
      (uw_slots (fst (apply_update sample_helper ''notes'' ''h'' None gone ?w)))"
    by (intro helper_runs.one_more [OF helper_runs.no_run, where sha = "''h''" and launcher = None and
          probe = gone and archive = "sample_store Archive" and expanded = "sample_store Expanded" and
          faults = "replicate 12 Proceed @ [Kill None]" and
          r = "snd (apply_update sample_helper ''notes'' ''h'' None gone ?w)"])
       (simp add: sample_world_def)
  from crashes_never_lose_the_bundle [OF sample_installed this] show ?thesis .
qed

theorem interrupted_update_recovers_witness:
  "\<exists>w'' outcome. reconcile_interrupted_update sample_helper ''notes'' ''h''
     ((fst (apply_update sample_helper ''notes'' ''h'' None gone
        (sample_world (replicate 12 Proceed @ [Kill None]))))\<lparr>uw_faults := []\<rparr>) = (w'', Returned outcome)"
proof -
  let ?w = "sample_world (replicate 12 Proceed @ [Kill None])"
  have "installed (verified sample_helper ''notes'') (uw_slots ?w)"
    using sample_installed by (simp add: sample_world_def)
  moreover have "apply_update sample_helper ''notes'' ''h'' None gone ?w =
      (fst (apply_update sample_helper ''notes'' ''h'' None gone ?w),
       snd (apply_update sample_helper ''notes'' ''h'' None gone ?w))" by simp
  moreover have "hh_decode sample_helper (hh_encode sample_helper (1, ''h'')) = Some (1, ''h'')"
    "length (hh_encode sample_helper (1, ''h'')) \<le> MAX_TRANSACTION_BYTES"
    by (simp_all add: sample_helper_def MAX_TRANSACTION_BYTES_def)
  ultimately show ?thesis
    using interrupted_update_recovers sample_names by metis
qed

theorem undisturbed_update_installs_witness:
  "\<exists>w'. apply_update sample_helper ''notes'' ''h'' None gone (sample_world []) = (w', Returned ()) \<and>
     uw_slots w' Bundle = Some (sample_bundle ''2'') \<and> uw_slots w' Backup = Some (sample_bundle ''1'')"
  using undisturbed_update_installs [of "sample_world []" gone 0 "sample_bundle ''1''" "''zip''" sample_helper
      "''h''" "''notes''" "sample_bundle ''2''" "''notes''"] sample_replacement [of "''2''"]
  by (fastforce simp: sample_world_def sample_store_def gone_def sample_bundle_def sample_helper_def)

theorem foreign_transaction_blocks_updates_witness:
  "snd (apply_update sample_helper ''notes'' ''h'' None gone
      \<lparr>uw_slots = sample_store(Transaction := Some (Regular ''old'')), uw_faults = []\<rparr>) \<noteq> Returned ()"
  by (rule conjunct1 [OF foreign_transaction_blocks_updates [where bytes = "''old''" and v = 1 and digest = "''old''"
      and w' = "fst (apply_update sample_helper ''notes'' ''h'' None gone
        \<lparr>uw_slots = sample_store(Transaction := Some (Regular ''old'')), uw_faults = []\<rparr>)"]])
     (simp_all add: sample_helper_def)

definition lost_store :: store where
  "lost_store = (\<lambda>_. None)(Transaction := Some (Regular ''h''), Backup := Some (Directory [(''Contents'', Directory [])]))"

theorem application_backup_is_not_recovered_witness:
  "snd (reconcile_interrupted_update sample_helper ''Notes.app'' ''h''
      \<lparr>uw_slots = lost_store, uw_faults = []\<rparr>) \<noteq> Returned Ready"
proof -
  let ?r = "reconcile_interrupted_update sample_helper ''Notes.app'' ''h'' \<lparr>uw_slots = lost_store, uw_faults = []\<rparr>"
  have "(\<forall>outcome. snd ?r \<noteq> Returned outcome) \<and> uw_slots (fst ?r) = lost_store"
    using application_backup_is_not_recovered [of "''Notes.app''" "\<lparr>uw_slots = lost_store, uw_faults = []\<rparr>"
        "[(''Contents'', Directory [])]" sample_helper "''h''" "fst ?r" "snd ?r"]
    by (simp add: lost_store_def slash_def)
  then show ?thesis by blast
qed

end
