(* ===== verification/NativeFiles.thy ===== *)
theory NativeFiles
  imports ProjectFiles EventHub Updater "HOL-Library.AList" "HOL-Library.List_Lexorder"
    "HOL-Library.Char_ord"
begin

text \<open>
  \<open>native.rs\<close>, the files a page may reach: authorized roots, grants that the user hands out in
  dialogs or by dropping files, persistent grants, and the file operations behind them.

  A directory capability (\<open>cap_std::fs::Dir\<close>) is named by the path it was opened at.  The
  operating system and the capability package are the records \<open>native_os\<close> and \<open>cap_env\<close>, which
  give the answers of the calls; every call on a capability is recorded in a trace, so that the
  theorems can say what a request may touch.
\<close>

section \<open>Errors\<close>

record NativeError =
  ne_code :: ErrorCode
  ne_message :: string

datatype io_kind = NotFoundKind | PermissionDeniedKind | OtherKind

record io_error =
  ie_kind :: io_kind
  ie_text :: string

definition native_disabled :: "string \<Rightarrow> NativeError" where
  "native_disabled capability = \<lparr>ne_code = CapabilityDisabled,
     ne_message = ''The '' @ capability @ '' capability is not enabled by the PHP application.''\<rparr>"

definition native_invalid :: "string \<Rightarrow> NativeError" where
  "native_invalid m = \<lparr>ne_code = InvalidPayload, ne_message = m\<rparr>"

definition native_permission :: "string \<Rightarrow> NativeError" where
  "native_permission m = \<lparr>ne_code = PermissionDenied, ne_message = m\<rparr>"

definition invalid_grant :: NativeError where
  "invalid_grant = \<lparr>ne_code = InvalidGrant,
     ne_message = ''The file grant is unknown or has expired.''\<rparr>"

definition native_too_large :: "string \<Rightarrow> NativeError" where
  "native_too_large m = \<lparr>ne_code = ResourceTooLarge, ne_message = m\<rparr>"

definition native_failed :: "string \<Rightarrow> string \<Rightarrow> NativeError" where
  "native_failed context_text detail = \<lparr>ne_code = NativeOperationFailed,
     ne_message = context_text @ '': '' @ detail\<rparr>"

definition native_io :: "string \<Rightarrow> io_error \<Rightarrow> NativeError" where
  "native_io context_text e = \<lparr>ne_code = (case ie_kind e of
       NotFoundKind \<Rightarrow> ResourceNotFound
     | PermissionDeniedKind \<Rightarrow> PermissionDenied
     | OtherKind \<Rightarrow> NativeOperationFailed),
     ne_message = context_text @ '': '' @ ie_text e\<rparr>"

text \<open>\<open>result.map_err(|error| NativeError::io(context, &error))\<close>\<close>

fun io_context :: "string \<Rightarrow> io_error + 'a \<Rightarrow> NativeError + 'a" where
  "io_context c (Inl e) = Inl (native_io c e)"
| "io_context c (Inr x) = Inr x"

lemma io_context_Inr [simp]: "io_context c r = Inr x \<longleftrightarrow> r = Inr x"
  by (cases r) auto

section \<open>The operating system\<close>

datatype file_kind = RegularFile | DirectoryFile | SymbolicLink | SpecialFile

record metadata =
  md_kind :: file_kind
  md_len :: nat

record native_os =
  no_symlink_metadata :: "string \<Rightarrow> io_error + metadata"
  no_canonicalize :: "string \<Rightarrow> io_error + string"
  no_is_dir :: "string \<Rightarrow> bool"
  no_open_dir :: "string \<Rightarrow> io_error option"
  no_lossy :: "string \<Rightarrow> string"

record dir_entry =
  de_name :: string
  de_type :: "io_error + file_kind"
  de_metadata :: "io_error + nat"

record cap_env =
  ca_dir_metadata :: "string \<Rightarrow> io_error + metadata"
  ca_symlink_metadata :: "string \<Rightarrow> string \<Rightarrow> io_error + metadata"
  ca_open :: "string \<Rightarrow> string \<Rightarrow> io_error option"
  ca_contents :: "string \<Rightarrow> string \<Rightarrow> io_error + string"
  ca_read_dir :: "string \<Rightarrow> string \<Rightarrow> io_error + (io_error + dir_entry) list"
  ca_open_write :: "string \<Rightarrow> string \<Rightarrow> io_error option"
  ca_write_all :: "string \<Rightarrow> string \<Rightarrow> string \<Rightarrow> io_error option"
  ca_create_dir_all :: "string \<Rightarrow> string \<Rightarrow> io_error option"

datatype cap_call =
    CapMetadata (call_dir: string) (call_path: string)
  | CapRead (call_dir: string) (call_path: string)
  | CapReadDir (call_dir: string) (call_path: string)
  | CapTruncate (call_dir: string) (call_path: string)
  | CapWrite (call_dir: string) (call_path: string) (call_content: string)
  | CapCreateDir (call_dir: string) (call_path: string)

fun call_reads :: "cap_call \<Rightarrow> bool" where
  "call_reads (CapRead d p) = True"
| "call_reads (CapReadDir d p) = True"
| "call_reads _ = False"

fun call_writes :: "cap_call \<Rightarrow> bool" where
  "call_writes (CapTruncate d p) = True"
| "call_writes (CapWrite d p c) = True"
| "call_writes (CapCreateDir d p) = True"
| "call_writes _ = False"

text \<open>Fallible operations with the trace of the calls they made.\<close>

type_synonym 'a traced = "cap_call list \<times> (NativeError + 'a)"

definition tcall :: "cap_call \<Rightarrow> NativeError + 'a \<Rightarrow> 'a traced" where
  "tcall c r = ([c], r)"

definition tlift :: "NativeError + 'a \<Rightarrow> 'a traced" where
  "tlift r = ([], r)"

definition tbind :: "'a traced \<Rightarrow> ('a \<Rightarrow> 'b traced) \<Rightarrow> 'b traced" where
  "tbind m f = (case snd m of
       Inl e \<Rightarrow> (fst m, Inl e)
     | Inr x \<Rightarrow> (fst m @ fst (f x), snd (f x)))"

text \<open>\<open>Path::parent\<close>: the path without its last component; the components are written out.\<close>

fun component_text :: "component \<Rightarrow> string" where
  "component_text RootDir = ''''"
| "component_text CurDir = ''.''"
| "component_text ParentDir = ''..''"
| "component_text (Normal n) = n"

fun join_slash :: "string list \<Rightarrow> string" where
  "join_slash [] = ''''"
| "join_slash [s] = s"
| "join_slash (s # t # ss) = s @ slash # join_slash (t # ss)"

definition components_path :: "component list \<Rightarrow> string" where
  "components_path cs = (if cs = [RootDir] then ''/'' else join_slash (map component_text cs))"

definition path_parent :: "string \<Rightarrow> string option" where
  "path_parent s =
     (case rev (path_components s) of
        [] \<Rightarrow> None
      | RootDir # _ \<Rightarrow> None
      | _ # before \<Rightarrow> Some (components_path (rev before)))"

definition path_eq :: "string \<Rightarrow> string \<Rightarrow> bool" where
  "path_eq p q \<longleftrightarrow> path_components p = path_components q"

section \<open>Roots and grants\<close>

record AuthorizedRoot =
  ar_directory :: string
  ar_access :: FileAccess
  ar_path :: string

record FileGrant =
  fg_directory :: string
  fg_relative :: string
  fg_kind :: FileEntryKind
  fg_access :: FileAccess
  fg_name :: string
  fg_path :: string

record PersistentGrant =
  pg_path :: string
  pg_access :: FileAccess

type_synonym grant_store = "(string \<times> PersistentGrant) list"

record FileReference =
  fx_grant_id :: string
  fx_name :: string
  fx_kind :: FileEntryKind
  fx_access :: FileAccess

record FileTarget =
  ft_root :: "string option"
  ft_grant_id :: "string option"
  ft_path :: string

record ResolvedTarget =
  rt_directory :: string
  rt_relative :: string
  rt_access :: FileAccess
  rt_display_name :: string
  rt_absolute_path :: "string option"

record NativeServices =
  nv_capabilities :: NativeCapabilities
  nv_roots :: "string \<rightharpoonup> AuthorizedRoot"
  nv_grants :: "string \<rightharpoonup> FileGrant"
  nv_persistent :: grant_store
  nv_persistent_path :: string

text \<open>What \<open>create_file_grant\<close> grants: the directory to open, the name in it, the kind, the name
  to display.\<close>

definition existing_grant :: "native_os \<Rightarrow> string \<Rightarrow> metadata \<Rightarrow>
    NativeError + string \<times> string \<times> FileEntryKind \<times> string" where
  "existing_grant os selected m =
     (if md_kind m = SymbolicLink
      then Inl (native_permission ''Symbolic links cannot become external file grants.'')
      else rbind (io_context ''Cannot resolve the selected path'' (no_canonicalize os selected))
        (\<lambda>canonical.
          case md_kind m of
            DirectoryFile \<Rightarrow>
              Inr (canonical, '''', FileEntryKind.Directory,
                (case path_file_name canonical of
                   None \<Rightarrow> no_lossy os canonical
                 | Some name \<Rightarrow> no_lossy os name))
          | RegularFile \<Rightarrow>
              (case path_parent canonical of
                 None \<Rightarrow> Inl (native_invalid ''The selected file has no parent directory.'')
               | Some parent \<Rightarrow>
                   (case path_file_name canonical of
                      None \<Rightarrow> Inl (native_invalid ''The selected file has no filename.'')
                    | Some name \<Rightarrow> Inr (parent, name, FileEntryKind.File, no_lossy os name)))
          | _ \<Rightarrow> Inl (native_invalid ''Only regular files and directories can become grants.'')))"

definition new_file_grant :: "native_os \<Rightarrow> string \<Rightarrow>
    NativeError + string \<times> string \<times> FileEntryKind \<times> string" where
  "new_file_grant os selected =
     (case path_parent selected of
        None \<Rightarrow> Inl (native_invalid ''The selected save path has no parent directory.'')
      | Some parent \<Rightarrow>
          rbind (io_context ''Cannot resolve the save directory'' (no_canonicalize os parent))
            (\<lambda>parent.
              case path_file_name selected of
                None \<Rightarrow> Inl (native_invalid ''The selected save path has no filename.'')
              | Some name \<Rightarrow> Inr (parent, name, FileEntryKind.File, no_lossy os name)))"

definition create_file_grant :: "native_os \<Rightarrow> string \<Rightarrow> FileAccess \<Rightarrow> NativeError + FileGrant" where
  "create_file_grant os selected access =
     rbind (case no_symlink_metadata os selected of
              Inr m \<Rightarrow> existing_grant os selected m
            | Inl e \<Rightarrow>
                if ie_kind e = NotFoundKind \<and> can_write access then new_file_grant os selected
                else Inl (native_io ''Cannot inspect the selected path'' e))
       (\<lambda>(directory_path, relative, kind, name).
         case no_open_dir os directory_path of
           Some e \<Rightarrow> Inl (native_io ''Cannot open the granted directory'' e)
         | None \<Rightarrow> Inr \<lparr>fg_directory = directory_path, fg_relative = relative, fg_kind = kind,
             fg_access = access, fg_name = name, fg_path = path_join directory_path relative\<rparr>)"

definition canonical_grant_target :: "native_os \<Rightarrow> string \<Rightarrow> FileAccess \<Rightarrow> NativeError + string" where
  "canonical_grant_target os selected access =
     (case no_canonicalize os selected of
        Inr path \<Rightarrow> Inr path
      | Inl e \<Rightarrow>
          if ie_kind e = NotFoundKind \<and> can_write access
          then (case path_parent selected of
                  None \<Rightarrow> Inl (native_invalid ''The selected save path has no parent directory.'')
                | Some parent \<Rightarrow>
                    rbind (io_context ''Cannot resolve the save directory'' (no_canonicalize os parent))
                      (\<lambda>parent.
                        case path_file_name selected of
                          None \<Rightarrow> Inl (native_invalid ''The selected save path has no filename.'')
                        | Some name \<Rightarrow> Inr (path_join parent name)))
          else Inl (native_io ''Cannot resolve the selected path'' e))"

section \<open>The persistent grants on disk\<close>

text \<open>
  serde_json is a parameter.  The store is two files, the published one and the temporary file
  beside it; \<open>persist_faults\<close> says which system call fails, and after how many bytes.
\<close>

record grant_codec =
  gc_encode :: "grant_store \<Rightarrow> string + string"
  gc_decode :: "string \<Rightarrow> string + grant_store"

record grant_files =
  gf_store :: "string option"
  gf_temporary :: "string option"

record persist_faults =
  pt_create_dir :: "io_error option"
  pt_open :: "io_error option"
  pt_write :: "(nat \<times> io_error) option"
  pt_sync :: "io_error option"
  pt_rename :: "io_error option"

definition MAX_PERSISTENT_GRANTS :: nat where
  "MAX_PERSISTENT_GRANTS = 128"

definition persist_grants ::
    "grant_codec \<Rightarrow> persist_faults \<Rightarrow> string \<Rightarrow> grant_store \<Rightarrow> grant_files \<Rightarrow>
     grant_files \<times> (NativeError + unit)" where
  "persist_grants codec faults path grants files =
     (if length grants > MAX_PERSISTENT_GRANTS
      then (files, Inl (native_too_large
        ''Applications may retain at most 128 persistent file grants.''))
      else if path_parent path = None
      then (files, Inl (native_failed ''Cannot persist file grants'' ''missing parent''))
      else case pt_create_dir faults of
        Some e \<Rightarrow> (files, Inl (native_io ''Cannot create the file grant store'' e))
      | None \<Rightarrow>
          (case gc_encode codec grants of
             Inl e \<Rightarrow> (files, Inl (native_failed ''Cannot encode persistent file grants'' e))
           | Inr bytes \<Rightarrow>
               (case pt_open faults of
                  Some e \<Rightarrow> (files, Inl (native_io ''Cannot create persistent file grants'' e))
                | None \<Rightarrow>
                    (case pt_write faults of
                       Some (n, e) \<Rightarrow>
                         (files\<lparr>gf_temporary := Some (take n bytes)\<rparr>,
                          Inl (native_io ''Cannot write persistent file grants'' e))
                     | None \<Rightarrow>
                         (case pt_sync faults of
                            Some e \<Rightarrow>
                              (files\<lparr>gf_temporary := Some bytes\<rparr>,
                               Inl (native_io ''Cannot write persistent file grants'' e))
                          | None \<Rightarrow>
                              (case pt_rename faults of
                                 Some e \<Rightarrow>
                                   (files\<lparr>gf_temporary := Some bytes\<rparr>,
                                    Inl (native_io ''Cannot publish persistent file grants'' e))
                               | None \<Rightarrow>
                                   (files\<lparr>gf_temporary := None, gf_store := Some bytes\<rparr>,
                                    Inr ())))))))"

text \<open>\<open>u8::is_ascii_hexdigit\<close> and the check of an entry of the store.\<close>

definition ascii_hexdigit :: "nat \<Rightarrow> bool" where
  "ascii_hexdigit b \<longleftrightarrow> ascii_digit b \<or> 65 \<le> b \<and> b \<le> 70 \<or> 97 \<le> b \<and> b \<le> 102"

definition invalid_store_entry :: "string \<times> PersistentGrant \<Rightarrow> bool" where
  "invalid_store_entry entry =
     (case entry of (grant_id, grant) \<Rightarrow>
        length grant_id \<noteq> 64 \<or> \<not> list_all ascii_hexdigit (map byte grant_id) \<or>
        \<not> path_is_absolute (pg_path grant))"

record store_probe =
  sb_is_file :: bool
  sb_metadata :: "io_error + metadata"
  sb_read :: "io_error + string"

definition load_persistent_grants :: "grant_codec \<Rightarrow> store_probe \<Rightarrow> string + grant_store" where
  "load_persistent_grants codec probe =
     (if \<not> sb_is_file probe then Inr []
      else case sb_metadata probe of
        Inl e \<Rightarrow> Inl (''cannot inspect persistent file grants: '' @ ie_text e)
      | Inr m \<Rightarrow>
          if md_kind m = SymbolicLink \<or> md_len m > 1024 * 1024
          then Inl ''persistent file grants must be a regular file below 1 MiB''
          else (case sb_read probe of
                  Inl e \<Rightarrow> Inl (''cannot read persistent file grants: '' @ ie_text e)
                | Inr bytes \<Rightarrow>
                    (case gc_decode codec bytes of
                       Inl e \<Rightarrow> Inl (''cannot decode persistent file grants: '' @ e)
                     | Inr grants \<Rightarrow>
                         if length grants > MAX_PERSISTENT_GRANTS \<or>
                            list_ex invalid_store_entry grants
                         then Inl ''persistent file grant store has an invalid entry''
                         else Inr grants)))"

text \<open>What a probe of the store finds after \<open>persist_grants\<close> has left its files.\<close>

definition probe_store :: "grant_files \<Rightarrow> store_probe" where
  "probe_store files =
     (case gf_store files of
        None \<Rightarrow> \<lparr>sb_is_file = False, sb_metadata = Inl \<lparr>ie_kind = NotFoundKind, ie_text = ''''\<rparr>,
          sb_read = Inl \<lparr>ie_kind = NotFoundKind, ie_text = ''''\<rparr>\<rparr>
      | Some bytes \<Rightarrow> \<lparr>sb_is_file = True,
          sb_metadata = Inr \<lparr>md_kind = RegularFile, md_len = length bytes\<rparr>, sb_read = Inr bytes\<rparr>)"

definition persistent_grants_path ::
    "string \<Rightarrow> (string \<Rightarrow> string option) \<Rightarrow> string \<Rightarrow> string + string" where
  "persistent_grants_path os env application_id =
     (let base =
        (if os = ''windows'' then env ''LOCALAPPDATA''
         else if os = ''macos''
         then map_option (\<lambda>home. path_join home ''Library/Application Support'') (env ''HOME'')
         else (case env ''XDG_DATA_HOME'' of
                 Some d \<Rightarrow> Some d
               | None \<Rightarrow> map_option (\<lambda>home. path_join home ''.local/share'') (env ''HOME'')))
      in case base of
           None \<Rightarrow> Inl ''cannot locate OS data directory for persistent file grants''
         | Some b \<Rightarrow>
             Inr (path_join (path_join (path_join b ''pam-desktop'') application_id)
               ''file-grants.json''))"

section \<open>Starting the services\<close>

definition prepare_root ::
    "native_os \<Rightarrow> string \<Rightarrow> FileSystemRootConfig \<Rightarrow> string + string \<times> AuthorizedRoot" where
  "prepare_root os project_root config =
     (let candidate = (if path_is_absolute (fr_path config) then fr_path config
        else path_join project_root (fr_path config))
      in case no_canonicalize os candidate of
           Inl e \<Rightarrow> Inl (''cannot authorize filesystem root: '' @ ie_text e)
         | Inr canonical \<Rightarrow>
             if \<not> no_is_dir os canonical then Inl ''filesystem root is not a directory''
             else (case no_open_dir os canonical of
                     Some e \<Rightarrow> Inl (''cannot open filesystem root: '' @ ie_text e)
                   | None \<Rightarrow> Inr (fr_name config, \<lparr>ar_directory = canonical,
                       ar_access = fr_access config, ar_path = canonical\<rparr>)))"

fun prepare_roots ::
    "native_os \<Rightarrow> string \<Rightarrow> FileSystemRootConfig list \<Rightarrow> (string \<rightharpoonup> AuthorizedRoot) \<Rightarrow>
     string + (string \<rightharpoonup> AuthorizedRoot)" where
  "prepare_roots os project_root [] roots = Inr roots"
| "prepare_roots os project_root (config # configs) roots =
     rbind (prepare_root os project_root config) (\<lambda>(name, root).
       prepare_roots os project_root configs (roots(name \<mapsto> root)))"

fun restored_grants :: "native_os \<Rightarrow> grant_store \<Rightarrow> (string \<rightharpoonup> FileGrant)" where
  "restored_grants os [] = Map.empty"
| "restored_grants os ((grant_id, grant) # rest) =
     (case create_file_grant os (pg_path grant) (pg_access grant) of
        Inl _ \<Rightarrow> restored_grants os rest
      | Inr file_grant \<Rightarrow> (restored_grants os rest)(grant_id \<mapsto> file_grant))"

text \<open>\<open>services\<close> is the outcome of preparing the database, HTTP, process and search services.\<close>

definition native_prepare ::
    "url_parser \<Rightarrow> native_os \<Rightarrow> grant_codec \<Rightarrow> store_probe \<Rightarrow> string + string \<Rightarrow> string + unit \<Rightarrow>
     string \<Rightarrow> NativeCapabilities \<Rightarrow> (verror + string) + NativeServices" where
  "native_prepare parse_url os codec probe store_path services project_root capabilities =
     (case validate_capabilities parse_url capabilities of
        Inl e \<Rightarrow> Inl (Inl e)
      | Inr _ \<Rightarrow>
          (case rbind (prepare_roots os project_root (nc_filesystem_roots capabilities) Map.empty)
             (\<lambda>roots. rbind store_path (\<lambda>path.
               rbind (load_persistent_grants codec probe) (\<lambda>persistent.
                 rbind services (\<lambda>_. Inr \<lparr>nv_capabilities = capabilities, nv_roots = roots,
                   nv_grants = restored_grants os persistent, nv_persistent = persistent,
                   nv_persistent_path = path\<rparr>)))) of
             Inl e \<Rightarrow> Inl (Inr e)
           | Inr ns \<Rightarrow> Inr ns))"

section \<open>Granting\<close>

text \<open>\<open>secure_grant_id\<close>: 32 random bytes in hexadecimal.\<close>

definition secure_grant_id :: "string + u8 list \<Rightarrow> NativeError + string" where
  "secure_grant_id random =
     (case random of
        Inl e \<Rightarrow> Inl (native_failed ''Cannot create a secure file grant'' e)
      | Inr bytes \<Rightarrow> Inr (encode_hex bytes))"

text \<open>
  What one grant meets: the file system when it is created and, for a persistent grant, when
  its path is resolved again; the random bytes; the faults of the store.
\<close>

record grant_env =
  ge_os :: native_os
  ge_later :: native_os
  ge_random :: "string + u8 list"
  ge_faults :: persist_faults

definition grant_path_with_persistence ::
    "grant_codec \<Rightarrow> grant_env \<Rightarrow> string \<Rightarrow> FileAccess \<Rightarrow> bool \<Rightarrow> NativeServices \<times> grant_files \<Rightarrow>
     (NativeServices \<times> grant_files) \<times> (NativeError + FileReference)" where
  "grant_path_with_persistence codec env selected access persistent w =
     (case w of (ns, files) \<Rightarrow>
       (case rbind (create_file_grant (ge_os env) selected access) (\<lambda>file_grant.
              rbind (secure_grant_id (ge_random env)) (\<lambda>grant_id. Inr (file_grant, grant_id))) of
          Inl e \<Rightarrow> (w, Inl e)
        | Inr (file_grant, grant_id) \<Rightarrow>
            (let reference = \<lparr>fx_grant_id = grant_id, fx_name = fg_name file_grant,
                   fx_kind = fg_kind file_grant, fx_access = access\<rparr>;
                 ns1 = ns\<lparr>nv_grants := (nv_grants ns)(grant_id \<mapsto> file_grant)\<rparr>
             in if \<not> persistent then ((ns1, files), Inr reference)
                else (case canonical_grant_target (ge_later env) selected access of
                        Inl e \<Rightarrow> ((ns1, files), Inl e)
                      | Inr canonical \<Rightarrow>
                          (let grants = AList.update grant_id
                                 \<lparr>pg_path = canonical, pg_access = access\<rparr> (nv_persistent ns1)
                           in case persist_grants codec (ge_faults env) (nv_persistent_path ns1)
                                grants files of
                                (files', Inr _) \<Rightarrow>
                                  ((ns1\<lparr>nv_persistent := grants\<rparr>, files'), Inr reference)
                              | (files', Inl e) \<Rightarrow>
                                  ((ns1\<lparr>nv_persistent := AList.delete grant_id grants,
                                      nv_grants := (nv_grants ns1)(grant_id := None)\<rparr>, files'),
                                   Inl e))))))"

text \<open>\<open>grant_path\<close> is the call without persistence, which touches no file.\<close>

definition grant_path ::
    "grant_codec \<Rightarrow> grant_env \<Rightarrow> string \<Rightarrow> FileAccess \<Rightarrow> NativeServices \<times> grant_files \<Rightarrow>
     (NativeServices \<times> grant_files) \<times> (NativeError + FileReference)" where
  "grant_path codec env selected access w =
     grant_path_with_persistence codec env selected access False w"

fun grant_paths ::
    "grant_codec \<Rightarrow> (string \<times> grant_env) list \<Rightarrow> FileAccess \<Rightarrow> bool \<Rightarrow> NativeServices \<times> grant_files \<Rightarrow>
     (NativeServices \<times> grant_files) \<times> (NativeError + FileReference list)" where
  "grant_paths codec [] access persistent w = (w, Inr [])"
| "grant_paths codec ((path, env) # rest) access persistent w =
     (case grant_path_with_persistence codec env path access persistent w of
        (w', Inl e) \<Rightarrow> (w', Inl e)
      | (w', Inr reference) \<Rightarrow>
          (case grant_paths codec rest access persistent w' of
             (w'', Inl e) \<Rightarrow> (w'', Inl e)
           | (w'', Inr references) \<Rightarrow> (w'', Inr (reference # references))))"

section \<open>Resolving a target\<close>

definition validate_relative_path_native :: "string \<Rightarrow> NativeError + unit" where
  "validate_relative_path_native p =
     reject_if (path_is_absolute p \<or> list_ex (\<lambda>c. \<not> safe_component c) (path_components p))
       (native_invalid ''Filesystem paths must be relative and cannot contain parent components.'')"

definition resolve_root :: "NativeServices \<Rightarrow> string \<Rightarrow> string \<Rightarrow> NativeError + ResolvedTarget" where
  "resolve_root ns root path =
     (case nv_roots ns root of
        None \<Rightarrow> Inl (native_permission
          (''Filesystem root '' @ root @ '' is not authorized by the PHP application.''))
      | Some authorized \<Rightarrow>
          Inr \<lparr>rt_directory = ar_directory authorized, rt_relative = path,
            rt_access = ar_access authorized,
            rt_display_name = (case path_file_name path of None \<Rightarrow> root | Some name \<Rightarrow> name),
            rt_absolute_path = Some (path_join (ar_path authorized) path)\<rparr>)"

definition resolve_grant :: "NativeServices \<Rightarrow> string \<Rightarrow> string \<Rightarrow> NativeError + ResolvedTarget" where
  "resolve_grant ns grant_id path =
     (case nv_grants ns grant_id of
        None \<Rightarrow> Inl invalid_grant
      | Some grant \<Rightarrow>
          rbind (if fg_kind grant = FileEntryKind.File
                 then (if path \<noteq> []
                       then Inl (native_invalid ''A file grant cannot address a child path.'')
                       else Inr (fg_relative grant))
                 else Inr (path_join (fg_relative grant) path))
            (\<lambda>relative.
              Inr \<lparr>rt_directory = fg_directory grant, rt_relative = relative,
                rt_access = fg_access grant,
                rt_display_name = (if path = [] then fg_name grant
                  else (case path_file_name path of None \<Rightarrow> fg_name grant | Some name \<Rightarrow> name)),
                rt_absolute_path = Some (if fg_kind grant = FileEntryKind.File then fg_path grant
                  else path_join (fg_path grant) path)\<rparr>))"

definition resolve :: "NativeServices \<Rightarrow> FileTarget \<Rightarrow> NativeError + ResolvedTarget" where
  "resolve ns target =
     rbind (validate_relative_path_native (ft_path target)) (\<lambda>_.
       case (ft_root target, ft_grant_id target) of
         (Some root, None) \<Rightarrow> resolve_root ns root (ft_path target)
       | (None, Some grant_id) \<Rightarrow> resolve_grant ns grant_id (ft_path target)
       | _ \<Rightarrow> Inl (native_invalid ''A file target must contain exactly one root or grantId.''))"

section \<open>File operations\<close>

definition MAX_TEXT_BYTES :: nat where
  "MAX_TEXT_BYTES = 8 * 1024 * 1024"

definition MAX_STREAM_BYTES :: nat where
  "MAX_STREAM_BYTES = 4 * 1024 * 1024 * 1024"

definition text_too_large :: "string \<Rightarrow> NativeError" where
  "text_too_large operation = native_too_large
     (''Text '' @ operation @ '' are limited to 8388608 bytes through the bridge.'')"

definition require_read :: "ResolvedTarget \<Rightarrow> NativeError + unit" where
  "require_read t = reject_if (\<not> can_read (rt_access t))
     (native_permission ''This filesystem capability does not allow reads.'')"

definition require_write :: "ResolvedTarget \<Rightarrow> NativeError + unit" where
  "require_write t = reject_if (\<not> can_write (rt_access t))
     (native_permission ''This filesystem capability does not allow writes.'')"

definition target_metadata :: "cap_env \<Rightarrow> ResolvedTarget \<Rightarrow> metadata traced" where
  "target_metadata env t =
     tbind (tcall (CapMetadata (rt_directory t) (rt_relative t))
         (io_context ''Cannot inspect the filesystem resource''
           (if rt_relative t = [] then ca_dir_metadata env (rt_directory t)
            else ca_symlink_metadata env (rt_directory t) (rt_relative t))))
       (\<lambda>m. tlift (if md_kind m = SymbolicLink
         then Inl (native_permission
           ''Symbolic links are not exposed through filesystem capabilities.'')
         else Inr m))"

definition reject_existing_symlink :: "cap_env \<Rightarrow> ResolvedTarget \<Rightarrow> unit traced" where
  "reject_existing_symlink env t =
     tcall (CapMetadata (rt_directory t) (rt_relative t))
       (case ca_symlink_metadata env (rt_directory t) (rt_relative t) of
          Inr m \<Rightarrow>
            if md_kind m = SymbolicLink
            then Inl (native_permission
              ''Symbolic links cannot be written through filesystem capabilities.'')
            else if md_kind m = DirectoryFile
            then Inl (native_invalid ''A directory cannot be overwritten with text.'')
            else Inr ()
        | Inl e \<Rightarrow>
            if ie_kind e = NotFoundKind then Inr ()
            else Inl (native_io ''Cannot inspect the filesystem resource'' e))"

fun unless_error :: "string \<Rightarrow> io_error option \<Rightarrow> NativeError + unit" where
  "unless_error c None = Inr ()"
| "unless_error c (Some e) = Inl (native_io c e)"

definition read_text :: "cap_env \<Rightarrow> ResolvedTarget \<Rightarrow> json traced" where
  "read_text env t =
     tbind (tlift (require_read t)) (\<lambda>_.
     tbind (target_metadata env t) (\<lambda>m.
     tbind (tlift (if md_kind m \<noteq> RegularFile
         then Inl (native_invalid ''The selected resource is not a file.'')
         else if md_len m > MAX_TEXT_BYTES then Inl (text_too_large ''files'')
         else Inr ())) (\<lambda>_.
     tbind (tcall (CapRead (rt_directory t) (rt_relative t))
         (unless_error ''Cannot open the text file'' (ca_open env (rt_directory t) (rt_relative t))))
       (\<lambda>_.
     tbind (tlift (io_context ''Cannot read the text file''
         (ca_contents env (rt_directory t) (rt_relative t)))) (\<lambda>contents.
       (let bytes = take (MAX_TEXT_BYTES + 1) contents
        in tlift (if length bytes > MAX_TEXT_BYTES then Inl (text_too_large ''files'')
           else if \<not> is_utf8 bytes
           then Inl (native_invalid ''The selected file is not valid UTF-8.'')
           else Inr (JObject [(''text'', JString bytes)]))))))))"

definition write_text :: "cap_env \<Rightarrow> ResolvedTarget \<Rightarrow> string option \<Rightarrow> json traced" where
  "write_text env t content =
     tbind (tlift (require_write t)) (\<lambda>_.
     tbind (tlift (case content of
         None \<Rightarrow> Inl (native_invalid ''Text content is required.'')
       | Some c \<Rightarrow> if length c > MAX_TEXT_BYTES then Inl (text_too_large ''writes'') else Inr c))
       (\<lambda>c.
     tbind (reject_existing_symlink env t) (\<lambda>_.
     tbind (tcall (CapTruncate (rt_directory t) (rt_relative t))
         (unless_error ''Cannot open the text file for writing''
           (ca_open_write env (rt_directory t) (rt_relative t)))) (\<lambda>_.
     tbind (tcall (CapWrite (rt_directory t) (rt_relative t) c)
         (unless_error ''Cannot write the text file''
           (ca_write_all env (rt_directory t) (rt_relative t) c))) (\<lambda>_.
       tlift (Inr (JObject [(''bytesWritten'', JInt (int (length c)))])))))))"

record FileEntry =
  fe_name :: string
  fe_path :: string
  fe_kind :: FileEntryKind
  fe_size :: nat

definition join_bridge_path :: "string \<Rightarrow> string \<Rightarrow> string" where
  "join_bridge_path parent child = (if parent = [] then child else parent @ ''/'' @ child)"

definition list_entry :: "string \<Rightarrow> io_error + dir_entry \<Rightarrow> NativeError + FileEntry option" where
  "list_entry bridge_path entry =
     rbind (io_context ''Cannot read a directory entry'' entry) (\<lambda>d.
       if \<not> is_utf8 (de_name d)
       then Inl (native_invalid ''Non-UTF-8 filenames are not supported.'')
       else rbind (io_context ''Cannot inspect a directory entry'' (de_type d)) (\<lambda>file_type.
         case (case file_type of
                 RegularFile \<Rightarrow> Some FileEntryKind.File
               | DirectoryFile \<Rightarrow> Some FileEntryKind.Directory
               | _ \<Rightarrow> None) of
           None \<Rightarrow> Inr None
         | Some kind \<Rightarrow>
             rbind (io_context ''Cannot inspect a directory entry'' (de_metadata d)) (\<lambda>bytes.
               Inr (Some \<lparr>fe_name = de_name d, fe_path = join_bridge_path bridge_path (de_name d),
                 fe_kind = kind, fe_size = bytes\<rparr>))))"

fun list_entries :: "string \<Rightarrow> (io_error + dir_entry) list \<Rightarrow> NativeError + FileEntry list" where
  "list_entries bridge_path [] = Inr []"
| "list_entries bridge_path (entry # rest) =
     rbind (list_entry bridge_path entry) (\<lambda>e.
       rbind (list_entries bridge_path rest) (\<lambda>es.
         Inr (case e of None \<Rightarrow> es | Some x \<Rightarrow> x # es)))"

definition file_entry_json :: "FileEntry \<Rightarrow> json" where
  "file_entry_json e = JObject [(''name'', JString (fe_name e)), (''path'', JString (fe_path e)),
     (''kind'', JInt (int (FileEntryKind_code (fe_kind e)))), (''size'', JInt (int (fe_size e)))]"

text \<open>\<open>sort_by\<close> is stable and compares the names byte by byte.\<close>

definition list_directory :: "cap_env \<Rightarrow> ResolvedTarget \<Rightarrow> string \<Rightarrow> json traced" where
  "list_directory env t bridge_path =
     tbind (tlift (require_read t)) (\<lambda>_.
     tbind (target_metadata env t) (\<lambda>m.
     tbind (tlift (if md_kind m \<noteq> DirectoryFile
         then Inl (native_invalid ''Directory listing requires a directory target.'')
         else Inr ())) (\<lambda>_.
     tbind (tcall (CapReadDir (rt_directory t) (rt_relative t))
         (io_context ''Cannot list the directory''
           (ca_read_dir env (rt_directory t) (rt_relative t)))) (\<lambda>iterator.
       tlift (rbind (list_entries bridge_path iterator) (\<lambda>entries.
         Inr (JArray (map file_entry_json (sort_key fe_name entries)))))))))"

definition file_metadata :: "cap_env \<Rightarrow> ResolvedTarget \<Rightarrow> json traced" where
  "file_metadata env t =
     tbind (tlift (require_read t)) (\<lambda>_.
     tbind (target_metadata env t) (\<lambda>m.
       tlift (rbind (case md_kind m of
           RegularFile \<Rightarrow> Inr FileEntryKind.File
         | DirectoryFile \<Rightarrow> Inr FileEntryKind.Directory
         | _ \<Rightarrow> Inl (native_invalid ''Only files and directories are exposed by the bridge.''))
         (\<lambda>kind. Inr (JObject [(''name'', JString (rt_display_name t)),
           (''kind'', JInt (int (FileEntryKind_code kind))), (''size'', JInt (int (md_len m)))])))))"

definition create_directory :: "cap_env \<Rightarrow> ResolvedTarget \<Rightarrow> json traced" where
  "create_directory env t =
     tbind (tlift (require_write t)) (\<lambda>_.
     tbind (tlift (reject_if (rt_relative t = [])
         (native_invalid ''Creating a directory requires a non-empty relative path.''))) (\<lambda>_.
     tbind (tcall (CapCreateDir (rt_directory t) (rt_relative t))
         (unless_error ''Cannot create the directory''
           (ca_create_dir_all env (rt_directory t) (rt_relative t)))) (\<lambda>_.
       tlift (Inr JNull))))"

record FileRequest =
  fq_operation :: FileOperation
  fq_window_id :: string
  fq_target :: FileTarget
  fq_content :: "string option"

definition filesystem_request :: "cap_env \<Rightarrow> NativeServices \<Rightarrow> FileRequest \<Rightarrow> json traced" where
  "filesystem_request env ns q =
     tbind (tlift (resolve ns (fq_target q))) (\<lambda>t.
       case fq_operation q of
         FileOperation.ReadText \<Rightarrow> read_text env t
       | FileOperation.WriteText \<Rightarrow> write_text env t (fq_content q)
       | FileOperation.List \<Rightarrow> list_directory env t (ft_path (fq_target q))
       | FileOperation.Metadata \<Rightarrow> file_metadata env t
       | FileOperation.CreateDirectory \<Rightarrow> create_directory env t)"

text \<open>The streams of the gateway: the opened file is named by its directory and path.\<close>

definition open_read_stream ::
    "cap_env \<Rightarrow> NativeServices \<Rightarrow> FileTarget \<Rightarrow> ((string \<times> string) \<times> nat) traced" where
  "open_read_stream env ns target =
     tbind (tlift (resolve ns target)) (\<lambda>t.
     tbind (tlift (require_read t)) (\<lambda>_.
     tbind (target_metadata env t) (\<lambda>m.
     tbind (tlift (if md_kind m \<noteq> RegularFile
         then Inl (native_invalid ''Streaming reads require a regular file.'')
         else if md_len m > MAX_STREAM_BYTES
         then Inl (native_too_large ''Streaming files are limited to 4294967296 bytes.'')
         else Inr ())) (\<lambda>_.
     tbind (tcall (CapRead (rt_directory t) (rt_relative t))
         (unless_error ''Cannot open the streaming file''
           (ca_open env (rt_directory t) (rt_relative t)))) (\<lambda>_.
       tlift (Inr ((rt_directory t, rt_relative t), md_len m)))))))"

definition open_write_stream ::
    "cap_env \<Rightarrow> NativeServices \<Rightarrow> FileTarget \<Rightarrow> (string \<times> string) traced" where
  "open_write_stream env ns target =
     tbind (tlift (resolve ns target)) (\<lambda>t.
     tbind (tlift (require_write t)) (\<lambda>_.
     tbind (tlift (reject_if (rt_relative t = [])
         (native_invalid ''Streaming writes require a non-empty file path.''))) (\<lambda>_.
     tbind (reject_existing_symlink env t) (\<lambda>_.
     tbind (tcall (CapTruncate (rt_directory t) (rt_relative t))
         (unless_error ''Cannot open the streaming destination''
           (ca_open_write env (rt_directory t) (rt_relative t)))) (\<lambda>_.
       tlift (Inr (rt_directory t, rt_relative t)))))))"

section \<open>Paths for watching and for the clipboard\<close>

definition watch_path :: "native_os \<Rightarrow> NativeServices \<Rightarrow> FileTarget \<Rightarrow> NativeError + string" where
  "watch_path os ns target =
     (case ft_root target of
        None \<Rightarrow> Inl (native_invalid ''File watches require a named filesystem root.'')
      | Some root_name \<Rightarrow>
          if ft_grant_id target \<noteq> None
          then Inl (native_invalid ''File watches cannot combine root and grantId.'')
          else rbind (validate_relative_path_native (ft_path target)) (\<lambda>_.
            case nv_roots ns root_name of
              None \<Rightarrow> Inl (native_permission ''The filesystem root is not authorized.'')
            | Some root \<Rightarrow>
                if \<not> can_read (ar_access root)
                then Inl (native_permission ''File watches require read access.'')
                else (let candidate = path_join (ar_path root) (ft_path target) in
                  rbind (io_context ''Cannot resolve watched path'' (no_canonicalize os candidate))
                    (\<lambda>canonical.
                      if \<not> path_starts_with canonical (ar_path root)
                      then Inl (native_permission ''The watched path escapes its authorized root.'')
                      else rbind (io_context ''Cannot inspect watched path''
                          (no_symlink_metadata os candidate)) (\<lambda>m.
                        if md_kind m = SymbolicLink
                        then Inl (native_permission ''Symbolic links cannot be watched.'')
                        else Inr canonical)))))"

definition clipboard_file_path ::
    "cap_env \<Rightarrow> native_os \<Rightarrow> NativeServices \<Rightarrow> FileTarget \<Rightarrow> string traced" where
  "clipboard_file_path env os ns target =
     tbind (tlift (resolve ns target)) (\<lambda>t.
     tbind (tlift (require_read t)) (\<lambda>_.
     tbind (target_metadata env t) (\<lambda>m.
       tlift (if md_kind m \<noteq> RegularFile \<and> md_kind m \<noteq> DirectoryFile
         then Inl (native_invalid ''Clipboard file entries must be regular files or directories.'')
         else (case rt_absolute_path t of
                 None \<Rightarrow> Inl (native_permission ''Clipboard files require a canonical local path.'')
               | Some path \<Rightarrow>
                   rbind (io_context ''Cannot resolve clipboard file'' (no_canonicalize os path))
                     (\<lambda>canonical.
                       if \<not> path_eq canonical path
                       then Inl (native_permission
                         ''Clipboard file paths cannot traverse symbolic links.'')
                       else Inr path))))))"

section \<open>Dialogs\<close>

definition MAX_DIALOG_FILTERS :: nat where
  "MAX_DIALOG_FILTERS = 16"

definition MAX_DIALOG_EXTENSIONS :: nat where
  "MAX_DIALOG_EXTENSIONS = 32"

record DialogFilter =
  df_name :: string
  df_extensions :: "string list"

record DialogBridgeRequest =
  dr_kind :: DialogKind
  dr_window_id :: string
  dr_title :: "string option"
  dr_file_name :: "string option"
  dr_filters :: "DialogFilter list"
  dr_access :: "FileAccess option"
  dr_persistent :: bool

definition plain_file_name :: "string \<Rightarrow> bool" where
  "plain_file_name name \<longleftrightarrow> name \<noteq> [] \<and> length name \<le> 255 \<and>
     (case path_components name of [Normal _] \<Rightarrow> True | _ \<Rightarrow> False)"

definition dialog_filter_rejected :: "DialogFilter \<Rightarrow> bool" where
  "dialog_filter_rejected f \<longleftrightarrow>
     trim_is_empty (df_name f) \<or> length (df_name f) > 64 \<or> df_extensions f = [] \<or>
     length (df_extensions f) > MAX_DIALOG_EXTENSIONS \<or>
     list_ex (\<lambda>e. e = [] \<or> length e > 16 \<or> \<not> list_all ascii_alphanumeric (str_chars e))
       (df_extensions f)"

definition validate_dialog :: "NativeCapabilities \<Rightarrow> DialogBridgeRequest \<Rightarrow> NativeError + FileAccess" where
  "validate_dialog capabilities q =
     rbind (steps [
       reject_if (\<not> nc_dialogs capabilities) (native_disabled ''dialogs''),
       when_some (dr_title q) (\<lambda>title. reject_if (length title > 256)
         (native_invalid ''Dialog titles are limited to 256 bytes.'')),
       when_some (dr_file_name q) (\<lambda>name. reject_if (\<not> plain_file_name name)
         (native_invalid ''The suggested filename must be one plain filename.'')),
       reject_if (length (dr_filters q) > MAX_DIALOG_FILTERS)
         (native_invalid ''Dialogs support at most 16 filters.''),
       for_each (\<lambda>f. reject_if (dialog_filter_rejected f)
         (native_invalid ''Dialog filters require a short name and alphanumeric extensions.''))
         (dr_filters q)])
     (\<lambda>_. Inr (case dr_kind q of
         OpenFile \<Rightarrow> FileAccess.Read
       | OpenFiles \<Rightarrow> FileAccess.Read
       | SaveFile \<Rightarrow> FileAccess.ReadWrite
       | OpenDirectory \<Rightarrow> (case dr_access q of None \<Rightarrow> FileAccess.Read | Some a \<Rightarrow> a)))"

lemma update_fresh: "k \<notin> fst ` set xs \<Longrightarrow> AList.update k v xs = xs @ [(k, v)]"
  by (induction xs) auto

lemma split_join_slash:
  "p \<noteq> [] \<Longrightarrow> list_all (\<lambda>n. slash \<notin> set n) p \<Longrightarrow> split_on slash (join_slash p) = p"
  by (induction p rule: join_slash.induct) (auto simp: split_on_no_sep split_on_sep)

end
