(* ===== verification/NativeClaims.thy ===== *)
theory NativeClaims
  imports NativeFiles "HOL-Library.Multiset"
begin

text \<open>
  What the file services of \<open>native.rs\<close> promise: a request touches only what a root or a grant
  authorizes, a grant reaches only what the user selected, and the grants kept on disk are the
  ones in memory whatever fails.
\<close>

section \<open>Traces\<close>

lemma in_tbind [simp]:
  "c \<in> set (fst (tbind m f)) \<longleftrightarrow>
     c \<in> set (fst m) \<or> (\<exists>x. snd m = Inr x \<and> c \<in> set (fst (f x)))"
  by (auto simp: tbind_def split: sum.splits)

lemma snd_tbind_Inr [simp]:
  "snd (tbind m f) = Inr y \<longleftrightarrow> (\<exists>x. snd m = Inr x \<and> snd (f x) = Inr y)"
  by (auto simp: tbind_def split: sum.splits)

lemma traced_simps [simp]:
  "fst (tcall c r) = [c]" "snd (tcall c r) = r" "fst (tlift r) = []" "snd (tlift r) = r"
  by (simp_all add: tcall_def tlift_def)

text \<open>A call of an operation on a resolved target is on that target and allowed by its access.\<close>

definition allowed :: "ResolvedTarget \<Rightarrow> cap_call \<Rightarrow> bool" where
  "allowed t c \<longleftrightarrow> call_dir c = rt_directory t \<and> call_path c = rt_relative t \<and>
     (call_reads c \<longrightarrow> can_read (rt_access t)) \<and> (call_writes c \<longrightarrow> can_write (rt_access t))"

lemma metadata_allowed:
  "c \<in> set (fst (target_metadata env t)) \<Longrightarrow> allowed t c"
  by (auto simp: target_metadata_def allowed_def)

lemma existing_allowed:
  "c \<in> set (fst (reject_existing_symlink env t)) \<Longrightarrow> allowed t c"
  by (auto simp: reject_existing_symlink_def allowed_def)

lemma require_Inr [simp]:
  "require_read t = Inr u \<longleftrightarrow> can_read (rt_access t)"
  "require_write t = Inr u \<longleftrightarrow> can_write (rt_access t)"
  by (simp_all add: require_read_def require_write_def reject_if_Inr)

lemma read_text_allowed: "c \<in> set (fst (read_text env t)) \<Longrightarrow> allowed t c"
  by (auto simp: read_text_def Let_def allowed_def dest: metadata_allowed [unfolded allowed_def])

lemma write_text_allowed: "c \<in> set (fst (write_text env t content)) \<Longrightarrow> allowed t c"
  by (auto simp: write_text_def allowed_def dest: existing_allowed [unfolded allowed_def])

lemma list_directory_allowed: "c \<in> set (fst (list_directory env t p)) \<Longrightarrow> allowed t c"
  by (auto simp: list_directory_def allowed_def dest: metadata_allowed [unfolded allowed_def])

lemma file_metadata_allowed: "c \<in> set (fst (file_metadata env t)) \<Longrightarrow> allowed t c"
  by (auto simp: file_metadata_def dest: metadata_allowed)

lemma create_directory_allowed: "c \<in> set (fst (create_directory env t)) \<Longrightarrow> allowed t c"
  by (auto simp: create_directory_def allowed_def)

lemmas operation_allowed = read_text_allowed write_text_allowed list_directory_allowed
  file_metadata_allowed create_directory_allowed

lemma filesystem_request_allowed:
  assumes "c \<in> set (fst (filesystem_request env ns q))"
  shows "\<exists>t. resolve ns (fq_target q) = Inr t \<and> allowed t c"
  using assms
  by (cases "fq_operation q") (auto simp: filesystem_request_def dest: operation_allowed)

section \<open>Grants\<close>

definition grant_ok :: "FileGrant \<Rightarrow> bool" where
  "grant_ok g \<longleftrightarrow>
     (if fg_kind g = FileEntryKind.File
      then (\<exists>name. path_components (fg_relative g) = [Normal name])
      else fg_relative g = [])"

definition grants_ok :: "NativeServices \<Rightarrow> bool" where
  "grants_ok ns \<longleftrightarrow> (\<forall>i g. nv_grants ns i = Some g \<longrightarrow> grant_ok g)"

lemma file_name_component:
  assumes "path_file_name p = Some name"
  shows "path_components name = [Normal name] \<and> (\<exists>before. path_components p = before @ [Normal name])"
proof -
  obtain cs where cs: "rev (path_components p) = Normal name # cs"
    using assms by (auto simp: path_file_name_def split: list.splits component.splits)
  then have p: "path_components p = rev cs @ [Normal name]"
    by (simp add: rev_eq_Cons_iff)
  then have "Normal name \<in> set (path_components p)" by simp
  then have "name \<in> set (split_on slash p)" "name \<noteq> []" "name \<noteq> ''.''" "name \<noteq> ''..''"
    by (auto dest: set_body_components)
  then have "path_components name = [Normal name]"
    by (intro path_components_single) (auto dest: split_on_pieces)
  with p show ?thesis by blast
qed

lemma existing_grant_Inr:
  assumes "existing_grant os selected m = Inr (dir, path, kind, name)"
  shows "kind = FileEntryKind.File \<and> (\<exists>canonical. no_canonicalize os selected = Inr canonical \<and>
      path_parent canonical = Some dir \<and> path_file_name canonical = Some path) \<or>
    kind = FileEntryKind.Directory \<and> path = [] \<and> no_canonicalize os selected = Inr dir"
proof (cases "no_canonicalize os selected")
  case (Inl e)
  with assms show ?thesis by (simp add: existing_grant_def split: if_splits)
next
  case (Inr canonical)
  with assms show ?thesis
    by (cases "md_kind m") (auto simp: existing_grant_def split: option.splits)
qed

lemma new_file_grant_Inr:
  assumes "new_file_grant os selected = Inr (dir, path, kind, name)"
  shows "kind = FileEntryKind.File \<and> path_file_name selected = Some path \<and>
    (\<exists>parent. path_parent selected = Some parent \<and> no_canonicalize os parent = Inr dir)"
  using assms by (auto simp: new_file_grant_def rbind_Inr_iff split: option.splits)

lemma create_file_grant_Inr:
  assumes "create_file_grant os selected access = Inr g"
  shows "fg_access g = access \<and> fg_path g = path_join (fg_directory g) (fg_relative g) \<and>
    (if fg_kind g = FileEntryKind.File
     then (\<exists>canonical. no_canonicalize os selected = Inr canonical \<and>
          path_parent canonical = Some (fg_directory g) \<and>
          path_file_name canonical = Some (fg_relative g)) \<or>
        (\<exists>parent. path_file_name selected = Some (fg_relative g) \<and>
          path_parent selected = Some parent \<and> no_canonicalize os parent = Inr (fg_directory g) \<and>
          can_write access)
     else fg_relative g = [] \<and> no_canonicalize os selected = Inr (fg_directory g))"
proof -
  obtain dir path kind name where
    source: "(case no_symlink_metadata os selected of
        Inr m \<Rightarrow> existing_grant os selected m
      | Inl e \<Rightarrow> if ie_kind e = NotFoundKind \<and> can_write access then new_file_grant os selected
          else Inl (native_io ''Cannot inspect the selected path'' e)) = Inr (dir, path, kind, name)"
    and g: "g = \<lparr>fg_directory = dir, fg_relative = path, fg_kind = kind, fg_access = access,
      fg_name = name, fg_path = path_join dir path\<rparr>"
    using assms by (fastforce simp: create_file_grant_def rbind_Inr_iff split: option.splits)
  show ?thesis
  proof (cases "no_symlink_metadata os selected")
    case (Inl e)
    with source have "new_file_grant os selected = Inr (dir, path, kind, name)" "can_write access"
      by (auto split: if_splits)
    with new_file_grant_Inr [OF this(1)] g show ?thesis by auto
  next
    case (Inr m)
    with source have "existing_grant os selected m = Inr (dir, path, kind, name)" by simp
    from existing_grant_Inr [OF this] g show ?thesis by auto
  qed
qed

lemma create_file_grant_ok:
  assumes "create_file_grant os selected access = Inr g"
  shows "grant_ok g"
  using create_file_grant_Inr [OF assms] file_name_component
  by (fastforce simp: grant_ok_def split: if_splits)

lemma restored_grants_ok: "restored_grants os store i = Some g \<Longrightarrow> grant_ok g"
  by (induction store rule: restored_grants.induct)
     (auto dest: create_file_grant_ok split: sum.splits if_splits)

text \<open>The five ways a grant can end.\<close>

definition granted :: "NativeServices \<Rightarrow> string \<Rightarrow> FileGrant \<Rightarrow> NativeServices" where
  "granted ns i g = ns\<lparr>nv_grants := (nv_grants ns)(i \<mapsto> g)\<rparr>"

definition reference_to :: "string \<Rightarrow> FileGrant \<Rightarrow> FileAccess \<Rightarrow> FileReference" where
  "reference_to i g access =
     \<lparr>fx_grant_id = i, fx_name = fg_name g, fx_kind = fg_kind g, fx_access = access\<rparr>"

lemma grant_cases [consumes 1, case_names rejected granted unresolved stored refused]:
  assumes "grant_path_with_persistence codec env selected access persistent (ns, files) = (w', r)"
  obtains e where "w' = (ns, files)" "r = Inl e"
  | g i where "create_file_grant (ge_os env) selected access = Inr g"
      "secure_grant_id (ge_random env) = Inr i" "\<not> persistent"
      "w' = (granted ns i g, files)" "r = Inr (reference_to i g access)"
  | g i e where "create_file_grant (ge_os env) selected access = Inr g"
      "secure_grant_id (ge_random env) = Inr i" "persistent"
      "canonical_grant_target (ge_later env) selected access = Inl e"
      "w' = (granted ns i g, files)" "r = Inl e"
  | g i canonical store files' where "create_file_grant (ge_os env) selected access = Inr g"
      "secure_grant_id (ge_random env) = Inr i" "persistent"
      "canonical_grant_target (ge_later env) selected access = Inr canonical"
      "store = AList.update i \<lparr>pg_path = canonical, pg_access = access\<rparr> (nv_persistent ns)"
      "persist_grants codec (ge_faults env) (nv_persistent_path ns) store files = (files', Inr ())"
      "w' = (granted ns i g\<lparr>nv_persistent := store\<rparr>, files')" "r = Inr (reference_to i g access)"
  | g i canonical store files' e where "create_file_grant (ge_os env) selected access = Inr g"
      "secure_grant_id (ge_random env) = Inr i" "persistent"
      "canonical_grant_target (ge_later env) selected access = Inr canonical"
      "store = AList.update i \<lparr>pg_path = canonical, pg_access = access\<rparr> (nv_persistent ns)"
      "persist_grants codec (ge_faults env) (nv_persistent_path ns) store files = (files', Inl e)"
      "w' = (ns\<lparr>nv_persistent := AList.delete i store,
          nv_grants := (nv_grants ns)(i := None)\<rparr>, files')" "r = Inl e"
proof (cases "create_file_grant (ge_os env) selected access")
  case (Inl e)
  then show ?thesis
    using assms that(1) [of e] by (simp add: grant_path_with_persistence_def)
next
  case create: (Inr g)
  show ?thesis
  proof (cases "secure_grant_id (ge_random env)")
    case (Inl e)
    then show ?thesis
      using create assms that(1) [of e] by (simp add: grant_path_with_persistence_def)
  next
    case random: (Inr i)
    show ?thesis
    proof (cases persistent)
      case False
      then show ?thesis
        using create random assms that(2) [of g i]
        by (simp add: grant_path_with_persistence_def granted_def reference_to_def)
    next
      case True
      show ?thesis
      proof (cases "canonical_grant_target (ge_later env) selected access")
        case (Inl e)
        then show ?thesis
          using create random True assms that(3) [of g i e]
          by (simp add: grant_path_with_persistence_def granted_def)
      next
        case (Inr canonical)
        define store where "store = AList.update i \<lparr>pg_path = canonical, pg_access = access\<rparr>
          (nv_persistent ns)"
        obtain files' result where persist:
          "persist_grants codec (ge_faults env) (nv_persistent_path ns) store files = (files', result)"
          by fastforce
        show ?thesis
        proof (cases result)
          case (Inl e)
          show ?thesis
            by (rule that(5) [OF create random True \<open>canonical_grant_target _ _ _ = _\<close> store_def
                  persist [unfolded Inl]])
               (use assms create random True \<open>canonical_grant_target _ _ _ = _\<close> persist Inl in
                 \<open>simp_all add: grant_path_with_persistence_def Let_def store_def\<close>)
        next
          case ok: (Inr u)
          then have persist': "persist_grants codec (ge_faults env) (nv_persistent_path ns) store files
              = (files', Inr ())" using persist by simp
          show ?thesis
            by (rule that(4) [OF create random True \<open>canonical_grant_target _ _ _ = _\<close> store_def
                  persist'])
               (use assms create random True \<open>canonical_grant_target _ _ _ = _\<close> persist' in
                 \<open>simp_all add: grant_path_with_persistence_def Let_def store_def granted_def
                    reference_to_def\<close>)
        qed
      qed
    qed
  qed
qed

lemma granted_simps [simp]:
  "nv_grants (granted ns i g) = (nv_grants ns)(i \<mapsto> g)"
  "nv_roots (granted ns i g) = nv_roots ns" "nv_persistent (granted ns i g) = nv_persistent ns"
  "nv_capabilities (granted ns i g) = nv_capabilities ns"
  "nv_persistent_path (granted ns i g) = nv_persistent_path ns"
  by (simp_all add: granted_def)

lemma grant_keeps_ok:
  assumes "grant_path_with_persistence codec env selected access persistent (ns, files) = (w', r)"
    and "grants_ok ns"
  shows "grants_ok (fst w')"
  using assms(1) by (cases rule: grant_cases)
    (use assms(2) in \<open>auto simp: grants_ok_def dest: create_file_grant_ok\<close>)

section \<open>Authority\<close>

text \<open>The directory, path and access a target stands for, by its root or by its grant.\<close>

definition authorizes :: "NativeServices \<Rightarrow> FileTarget \<Rightarrow> string \<Rightarrow> string \<Rightarrow> FileAccess \<Rightarrow> bool" where
  "authorizes ns target dir path access \<longleftrightarrow>
     (\<exists>name root. ft_root target = Some name \<and> ft_grant_id target = None \<and>
        nv_roots ns name = Some root \<and>
        dir = ar_directory root \<and> path = ft_path target \<and> access = ar_access root) \<or>
     (\<exists>grant_id grant. ft_root target = None \<and> ft_grant_id target = Some grant_id \<and>
        nv_grants ns grant_id = Some grant \<and>
        dir = fg_directory grant \<and> access = fg_access grant \<and>
        path = (if fg_kind grant = FileEntryKind.File then fg_relative grant else ft_path target))"

lemma validate_relative_path_native_Inr:
  "validate_relative_path_native p = Inr u \<longleftrightarrow>
     \<not> path_is_absolute p \<and> list_all safe_component (path_components p)"
  by (auto simp: validate_relative_path_native_def reject_if_Inr list_ex_iff list_all_iff)

lemma path_join_Nil [simp]: "path_join [] p = p"
  by (simp add: path_join_def)

lemma resolve_Inr [consumes 1, case_names by_root by_file by_directory]:
  assumes "resolve ns target = Inr t"
  obtains name root where "ft_root target = Some name" "ft_grant_id target = None"
      "nv_roots ns name = Some root" "rt_directory t = ar_directory root"
      "rt_relative t = ft_path target" "rt_access t = ar_access root"
  | i g where "ft_root target = None" "ft_grant_id target = Some i"
      "nv_grants ns i = Some g" "fg_kind g = FileEntryKind.File" "ft_path target = []"
      "rt_directory t = fg_directory g" "rt_relative t = fg_relative g" "rt_access t = fg_access g"
      "rt_absolute_path t = Some (fg_path g)"
  | i g where "ft_root target = None" "ft_grant_id target = Some i"
      "nv_grants ns i = Some g" "fg_kind g \<noteq> FileEntryKind.File"
      "rt_directory t = fg_directory g" "rt_relative t = path_join (fg_relative g) (ft_path target)"
      "rt_access t = fg_access g"
      "rt_absolute_path t = Some (path_join (fg_path g) (ft_path target))"
proof (cases "ft_root target")
  case None
  with assms obtain i where i: "ft_grant_id target = Some i" "resolve_grant ns i (ft_path target) = Inr t"
    by (auto simp: resolve_def rbind_Inr_iff split: option.splits)
  then obtain g where g: "nv_grants ns i = Some g"
    by (auto simp: resolve_grant_def split: option.splits)
  show ?thesis
  proof (cases "fg_kind g = FileEntryKind.File")
    case True
    with i g None show ?thesis
      by (intro that(2) [of i g]) (auto simp: resolve_grant_def rbind_Inr_iff split: if_splits)
  next
    case False
    with i g None show ?thesis
      by (intro that(3) [of i g]) (auto simp: resolve_grant_def)
  qed
next
  case (Some name)
  with assms have t: "ft_grant_id target = None" "resolve_root ns name (ft_path target) = Inr t"
    by (auto simp: resolve_def rbind_Inr_iff split: option.splits)
  then obtain r where r: "nv_roots ns name = Some r"
    by (auto simp: resolve_root_def split: option.splits)
  with t Some show ?thesis
    by (intro that(1) [of name r]) (auto simp: resolve_root_def)
qed

lemma resolve_path: "resolve ns target = Inr t \<Longrightarrow> list_all safe_component (path_components (ft_path target))"
  by (auto simp: resolve_def rbind_Inr_iff validate_relative_path_native_Inr)

lemma resolve_authorizes:
  assumes "resolve ns target = Inr t" "grants_ok ns"
  shows "authorizes ns target (rt_directory t) (rt_relative t) (rt_access t)"
  using assms(1) by (cases rule: resolve_Inr)
    (use assms(2) in \<open>auto simp: authorizes_def grants_ok_def grant_ok_def\<close>)

lemma resolve_safe:
  assumes "resolve ns target = Inr t" "grants_ok ns"
  shows "list_all safe_component (path_components (rt_relative t))"
  using assms(1)
proof (cases rule: resolve_Inr)
  case (by_file i g)
  then have "grant_ok g" using assms(2) by (auto simp: grants_ok_def)
  with by_file show ?thesis by (auto simp: grant_ok_def)
next
  case (by_directory i g)
  then have "grant_ok g" using assms(2) by (auto simp: grants_ok_def)
  with by_directory resolve_path [OF assms(1)] show ?thesis by (auto simp: grant_ok_def)
qed (use resolve_path [OF assms(1)] in simp)

section \<open>Running services\<close>

text \<open>
  The services after their preparation and any number of grants.  The random buffer has 32
  bytes, a fresh identifier is one that no kept grant has, and \<open>canonicalize\<close> answers with
  absolute paths.
\<close>

inductive serving :: "grant_codec \<Rightarrow> NativeServices \<times> grant_files \<Rightarrow> bool" for codec where
  started: "native_prepare parse_url os codec (probe_store files) store_path services
      root capabilities = Inr ns \<Longrightarrow> serving codec (ns, files)"
| grants: "\<lbrakk> serving codec (ns, files);
      \<forall>bytes. ge_random env = Inr bytes \<longrightarrow>
        length bytes = 32 \<and> encode_hex bytes \<notin> fst ` set (nv_persistent ns);
      \<forall>p c. no_canonicalize (ge_later env) p = Inr c \<longrightarrow> path_is_absolute c;
      grant_path_with_persistence codec env selected access persistent (ns, files) = (w', r) \<rbrakk>
    \<Longrightarrow> serving codec w'"

lemma native_prepare_Inr:
  assumes "native_prepare parse_url os codec probe store_path services root capabilities = Inr ns"
  shows "load_persistent_grants codec probe = Inr (nv_persistent ns) \<and>
    nv_grants ns = restored_grants os (nv_persistent ns)"
  using assms by (auto simp: native_prepare_def rbind_Inr_iff split: sum.splits)

lemma serving_grants_ok: "serving codec w \<Longrightarrow> grants_ok (fst w)"
proof (induction rule: serving.induct)
  case (started parse_url os files store_path services root capabilities ns)
  from native_prepare_Inr [OF this] show ?case
    by (auto simp: grants_ok_def dest: restored_grants_ok)
next
  case (grants ns files env selected access persistent w' r)
  then show ?case by (auto dest: grant_keeps_ok)
qed

section \<open>The grants on disk\<close>

definition codec_law :: "grant_codec \<Rightarrow> bool" where
  "codec_law codec \<longleftrightarrow> (\<forall>store b. gc_encode codec store = Inr b \<longrightarrow> gc_decode codec b = Inr store)"

definition store_fits :: "grant_files \<Rightarrow> bool" where
  "store_fits files = (case gf_store files of None \<Rightarrow> True | Some b \<Rightarrow> length b \<le> 1024 * 1024)"

definition consistent :: "grant_codec \<Rightarrow> NativeServices \<times> grant_files \<Rightarrow> bool" where
  "consistent codec w = (case w of (ns, files) \<Rightarrow>
     length (nv_persistent ns) \<le> MAX_PERSISTENT_GRANTS \<and>
     (\<forall>x \<in> set (nv_persistent ns). \<not> invalid_store_entry x) \<and>
     (case gf_store files of
        None \<Rightarrow> nv_persistent ns = []
      | Some b \<Rightarrow> gc_decode codec b = Inr (nv_persistent ns)))"

lemma persist_grants_Inr:
  assumes "persist_grants codec faults path store files = (files', Inr u)"
  shows "length store \<le> MAX_PERSISTENT_GRANTS \<and>
    (\<exists>b. gc_encode codec store = Inr b \<and> gf_store files' = Some b)"
proof -
  have "length store \<le> MAX_PERSISTENT_GRANTS"
    using assms by (simp add: persist_grants_def split: if_splits)
  moreover obtain b where "gc_encode codec store = Inr b"
    using assms by (fastforce simp: persist_grants_def split: if_splits option.splits sum.splits)
  moreover from this have "gf_store files' = Some b"
    using assms by (auto simp: persist_grants_def split: if_splits option.splits)
  ultimately show ?thesis by blast
qed

lemma persist_grants_Inl:
  "persist_grants codec faults path store files = (files', Inl e) \<Longrightarrow>
     gf_store files' = gf_store files"
  by (auto simp: persist_grants_def split: if_splits option.splits sum.splits)

lemma probe_store_simps:
  "gf_store files = None \<Longrightarrow> load_persistent_grants codec (probe_store files) = Inr []"
  "gf_store files = Some b \<Longrightarrow> length b \<le> 1024 * 1024 \<Longrightarrow>
     load_persistent_grants codec (probe_store files) =
       (case gc_decode codec b of
          Inl e \<Rightarrow> Inl (''cannot decode persistent file grants: '' @ e)
        | Inr store \<Rightarrow>
            if length store > MAX_PERSISTENT_GRANTS \<or> list_ex invalid_store_entry store
            then Inl ''persistent file grant store has an invalid entry'' else Inr store)"
  "gf_store files = Some b \<Longrightarrow> \<not> length b \<le> 1024 * 1024 \<Longrightarrow>
     load_persistent_grants codec (probe_store files) =
       Inl ''persistent file grants must be a regular file below 1 MiB''"
  by (simp_all add: load_persistent_grants_def probe_store_def)

lemma consistent_loads:
  assumes "consistent codec (ns, files)"
  shows "load_persistent_grants codec (probe_store files) =
    (if store_fits files then Inr (nv_persistent ns)
     else Inl ''persistent file grants must be a regular file below 1 MiB'')"
  using assms
  by (cases "gf_store files")
     (auto simp: consistent_def store_fits_def probe_store_simps list_ex_iff)

lemma delete_fresh: "i \<notin> fst ` set xs \<Longrightarrow> AList.delete i (xs @ [(i, v)]) = xs"
  by (induction xs) (auto simp: AList.delete_eq)

lemma ascii_hex_digits: "list_all ascii_hexdigit (map byte (encode_hex bytes))"
proof -
  have "ascii_hexdigit (byte (hex_digits ! n))" if "n < 16" for n :: nat
  proof -
    have "list_all (\<lambda>n. ascii_hexdigit (byte (hex_digits ! n))) [0..<16]"
      by code_simp
    then show ?thesis using that by (auto simp: list_all_iff)
  qed
  with nibbles_of_byte(1,2) show ?thesis
    by (auto simp: encode_hex_def list_all_iff simp del: unsigned_drop_bit_eq)
qed

lemma fresh_entry_valid:
  assumes "secure_grant_id random = Inr i" "\<forall>bytes. random = Inr bytes \<longrightarrow> length bytes = 32"
    and "path_is_absolute path"
  shows "\<not> invalid_store_entry (i, \<lparr>pg_path = path, pg_access = access\<rparr>)"
proof -
  obtain bytes where "random = Inr bytes" "i = encode_hex bytes"
    using assms(1) by (auto simp: secure_grant_id_def split: sum.splits)
  with assms(2,3) show ?thesis
    using ascii_hex_digits [of bytes] by (simp add: invalid_store_entry_def length_encode_hex)
qed

lemma canonical_target_absolute:
  assumes "canonical_grant_target os selected access = Inr path"
    and "\<forall>p c. no_canonicalize os p = Inr c \<longrightarrow> path_is_absolute c"
  shows "path_is_absolute path"
proof (cases "no_canonicalize os selected")
  case (Inl e)
  with assms(1) obtain parent name where parent: "no_canonicalize os parent = Inr name"
    and joined: "\<exists>f. path = path_join name f"
    by (auto simp: canonical_grant_target_def rbind_Inr_iff split: if_splits option.splits)
  then have "path_is_absolute name" using assms(2) by blast
  with joined show ?thesis
    by (cases name) (auto simp: path_join_def path_is_absolute_def starts_with_def slash_def)
next
  case (Inr c)
  with assms show ?thesis by (simp add: canonical_grant_target_def)
qed

lemma grant_keeps_consistent:
  assumes step: "grant_path_with_persistence codec env selected access persistent (ns, files) = (w', r)"
    and law: "codec_law codec" and old: "consistent codec (ns, files)"
    and fresh: "\<forall>bytes. ge_random env = Inr bytes \<longrightarrow>
        length bytes = 32 \<and> encode_hex bytes \<notin> fst ` set (nv_persistent ns)"
    and absolute: "\<forall>p c. no_canonicalize (ge_later env) p = Inr c \<longrightarrow> path_is_absolute c"
  shows "consistent codec w'"
  using step
proof (cases rule: grant_cases)
  case (stored g i canonical store files')
  have new: "i \<notin> fst ` set (nv_persistent ns)"
    using stored(2) fresh by (auto simp: secure_grant_id_def split: sum.splits)
  from persist_grants_Inr [OF stored(6)] obtain b where b: "length store \<le> MAX_PERSISTENT_GRANTS"
    "gc_encode codec store = Inr b" "gf_store files' = Some b" by blast
  have "\<not> invalid_store_entry (i, \<lparr>pg_path = canonical, pg_access = access\<rparr>)"
    using stored(2) fresh canonical_target_absolute [OF stored(4) absolute]
    by (intro fresh_entry_valid) auto
  then show ?thesis
    using b law old unfolding stored(5,7) update_fresh [OF new]
    by (auto simp: consistent_def codec_law_def)
next
  case (refused g i canonical store files' e)
  have new: "i \<notin> fst ` set (nv_persistent ns)"
    using refused(2) fresh by (auto simp: secure_grant_id_def split: sum.splits)
  show ?thesis
    using old persist_grants_Inl [OF refused(6)]
    unfolding refused(5,7) update_fresh [OF new] delete_fresh [OF new]
    by (auto simp: consistent_def split: option.splits)
qed (use old in \<open>auto simp: consistent_def split: option.splits\<close>)

lemma serving_consistent:
  assumes "serving codec w" "codec_law codec"
  shows "consistent codec w"
  using assms(1)
proof (induction rule: serving.induct)
  case (started parse_url os files store_path services root capabilities ns)
  then have load: "load_persistent_grants codec (probe_store files) = Inr (nv_persistent ns)"
    using native_prepare_Inr by blast
  show ?case
  proof (cases "gf_store files")
    case None
    with load show ?thesis by (simp add: consistent_def probe_store_simps)
  next
    case (Some b)
    with load have "length b \<le> 1024 * 1024"
      by (rule_tac ccontr) (simp add: probe_store_simps)
    with Some load show ?thesis
      by (auto simp: consistent_def probe_store_simps list_ex_iff split: sum.splits if_splits)
  qed
next
  case (grants ns files env selected access persistent w' r)
  then show ?case using grant_keeps_consistent assms(2) by blast
qed

section \<open>Properties\<close>

definition call_authorized :: "NativeServices \<Rightarrow> FileTarget \<Rightarrow> cap_call \<Rightarrow> bool" where
  "call_authorized ns target c \<longleftrightarrow>
     (\<exists>access. authorizes ns target (call_dir c) (call_path c) access \<and>
        (call_reads c \<longrightarrow> can_read access) \<and> (call_writes c \<longrightarrow> can_write access)) \<and>
     (\<forall>at. inside at (follow at (path_components (call_path c))))"

text \<open>
  C37. Every call a file request makes on a capability directory is on the directory of the named
  root or of the live grant, reads and writes only with the access it was given, and its path
  cannot leave that directory: for all services that were prepared and then granted anything.
\<close>

theorem file_requests_stay_authorized:
  assumes "serving codec (ns, files)" and "c \<in> set (fst (filesystem_request env ns q))"
  shows "call_authorized ns (fq_target q) c"
proof -
  obtain t where t: "resolve ns (fq_target q) = Inr t" "allowed t c"
    using filesystem_request_allowed [OF assms(2)] by blast
  have ok: "grants_ok ns" using serving_grants_ok [OF assms(1)] by simp
  show ?thesis
    using t(2) resolve_authorizes [OF t(1) ok] follow_safe [OF resolve_safe [OF t(1) ok]]
    by (auto simp: allowed_def call_authorized_def)
qed

text \<open>
  C38. Whatever failed while they were written: if the store is a file of at most 1 MiB, a restart
  reads back exactly the persistent grants in memory; a larger store is refused, and with it the
  start of the application.
\<close>

theorem persistent_grants_survive_restart:
  assumes "codec_law codec" and "serving codec (ns, files)"
  shows "load_persistent_grants codec (probe_store files) =
    (if store_fits files then Inr (nv_persistent ns)
     else Inl ''persistent file grants must be a regular file below 1 MiB'')"
  by (rule consistent_loads [OF serving_consistent [OF assms(2,1)]])

text \<open>What the user selected: an existing file in its directory, an existing directory with what
  lies below it, or a file to be saved in a directory.\<close>

definition within_selection :: "native_os \<Rightarrow> string \<Rightarrow> string \<Rightarrow> string \<Rightarrow> bool" where
  "within_selection os selected dir path \<longleftrightarrow>
     (\<exists>canonical. no_canonicalize os selected = Inr canonical \<and>
        (path_parent canonical = Some dir \<and> path_file_name canonical = Some path \<or>
         dir = canonical \<and> list_all safe_component (path_components path))) \<or>
     (\<exists>parent. path_parent selected = Some parent \<and> no_canonicalize os parent = Inr dir \<and>
        path_file_name selected = Some path)"

text \<open>
  The reference that a dialog hands to the page reaches what the user selected and nothing else,
  with the access of the dialog.
\<close>

theorem grant_reaches_only_selection:
  assumes "grant_path_with_persistence codec env selected access persistent (ns, files) =
      ((ns', files'), Inr reference)"
    and "resolve ns' \<lparr>ft_root = None, ft_grant_id = Some (fx_grant_id reference), ft_path = path\<rparr> =
      Inr t"
  shows "rt_access t = access \<and>
    within_selection (ge_os env) selected (rt_directory t) (rt_relative t)"
proof -
  obtain g where g: "create_file_grant (ge_os env) selected access = Inr g"
    "nv_grants ns' (fx_grant_id reference) = Some g"
    using assms(1) by (cases rule: grant_cases) (auto simp: reference_to_def)
  note made = create_file_grant_Inr [OF g(1)]
  from assms(2) show ?thesis
  proof (cases rule: resolve_Inr)
    case (by_file i h)
    with g made show ?thesis
      by (auto simp: within_selection_def)
  next
    case (by_directory i h)
    with g made resolve_path [OF assms(2)] show ?thesis
      by (auto simp: within_selection_def split: if_splits)
  qed simp
qed

text \<open>
  A directory listing is sorted by name and has exactly the files and directories of the
  directory, or it is an error.
\<close>

lemma list_entry_name:
  "list_entry p x = Inr (Some e) \<Longrightarrow> \<exists>d. x = Inr d \<and> fe_name e = de_name d \<and>
     (de_type d = Inr RegularFile \<or> de_type d = Inr DirectoryFile)"
  "list_entry p x = Inr None \<Longrightarrow> \<exists>d. x = Inr d \<and> de_type d \<noteq> Inr RegularFile \<and>
     de_type d \<noteq> Inr DirectoryFile"
  by (auto simp: list_entry_def rbind_Inr_iff split: if_splits option.splits file_kind.splits)

definition regular_names :: "(io_error + dir_entry) list \<Rightarrow> string list" where
  "regular_names entries = concat (map (\<lambda>x. case x of
       Inl _ \<Rightarrow> []
     | Inr d \<Rightarrow> if de_type d \<in> {Inr RegularFile, Inr DirectoryFile} then [de_name d] else []) entries)"

lemma list_entries_names: "list_entries p xs = Inr es \<Longrightarrow> map fe_name es = regular_names xs"
proof (induction xs arbitrary: es)
  case (Cons x xs)
  then obtain e rest where e: "list_entry p x = Inr e" "list_entries p xs = Inr rest"
    "es = (case e of None \<Rightarrow> rest | Some y \<Rightarrow> y # rest)"
    by (auto simp: rbind_Inr_iff)
  with Cons.IH [OF e(2)] show ?case
    by (cases e) (auto dest!: list_entry_name simp: regular_names_def)
qed (simp add: regular_names_def)

theorem listing_is_sorted_and_complete:
  assumes "snd (list_directory env t p) = Inr v"
  shows "\<exists>es xs. v = JArray (map file_entry_json es) \<and> sorted (map fe_name es) \<and>
    ca_read_dir env (rt_directory t) (rt_relative t) = Inr xs \<and>
    mset (map fe_name es) = mset (regular_names xs)"
proof -
  obtain xs es where xs: "ca_read_dir env (rt_directory t) (rt_relative t) = Inr xs"
    "list_entries p xs = Inr es" "v = JArray (map file_entry_json (sort_key fe_name es))"
    using assms by (auto simp: list_directory_def rbind_Inr_iff)
  have "mset (map fe_name (sort_key fe_name es)) = mset (regular_names xs)"
    by (simp add: list_entries_names [OF xs(2), symmetric])
  with xs show ?thesis by (metis sorted_sort_key)
qed

section \<open>Witnesses\<close>

definition sample_missing :: io_error where
  "sample_missing = \<lparr>ie_kind = NotFoundKind, ie_text = ''missing''\<rparr>"

definition sample_os :: native_os where
  "sample_os = \<lparr>no_symlink_metadata = (\<lambda>p. if p = ''/pick/a.txt''
       then Inr \<lparr>md_kind = RegularFile, md_len = 3\<rparr> else Inl sample_missing),
     no_canonicalize = (\<lambda>p. if p = ''/p/data'' \<or> p = ''/pick/a.txt'' then Inr p
       else Inl sample_missing),
     no_is_dir = (\<lambda>p. p = ''/p/data''), no_open_dir = (\<lambda>_. None), no_lossy = (\<lambda>s. s)\<rparr>"

definition sample_cap :: cap_env where
  "sample_cap = \<lparr>ca_dir_metadata = (\<lambda>_. Inr \<lparr>md_kind = DirectoryFile, md_len = 0\<rparr>),
     ca_symlink_metadata = (\<lambda>_ _. Inr \<lparr>md_kind = RegularFile, md_len = 3\<rparr>),
     ca_open = (\<lambda>_ _. None), ca_contents = (\<lambda>_ _. Inr ''abc''),
     ca_read_dir = (\<lambda>_ _. Inr [Inr \<lparr>de_name = ''b'', de_type = Inr RegularFile, de_metadata = Inr 1\<rparr>,
       Inr \<lparr>de_name = ''a'', de_type = Inr DirectoryFile, de_metadata = Inr 0\<rparr>]),
     ca_open_write = (\<lambda>_ _. None), ca_write_all = (\<lambda>_ _ _. None),
     ca_create_dir_all = (\<lambda>_ _. None)\<rparr>"

definition sample_grant_id :: string where
  "sample_grant_id = encode_hex (replicate 32 7)"

definition sample_grant_store :: grant_store where
  "sample_grant_store = [(sample_grant_id, \<lparr>pg_path = ''/pick/a.txt'', pg_access = FileAccess.Read\<rparr>)]"

definition sample_codec :: grant_codec where
  "sample_codec = \<lparr>gc_encode = (\<lambda>s. if s = sample_grant_store then Inr ''{}'' else Inl ''other''),
     gc_decode = (\<lambda>b. if b = ''{}'' then Inr sample_grant_store else Inl ''other'')\<rparr>"

definition sample_services :: NativeServices where
  "sample_services = \<lparr>nv_capabilities = sample_capabilities,
     nv_roots = [''notes'' \<mapsto> \<lparr>ar_directory = ''/p/data'', ar_access = FileAccess.ReadWrite,
       ar_path = ''/p/data''\<rparr>],
     nv_grants = Map.empty, nv_persistent = [], nv_persistent_path = ''/h/grants.json''\<rparr>"

definition sample_grant_env :: grant_env where
  "sample_grant_env = \<lparr>ge_os = sample_os, ge_later = sample_os, ge_random = Inr (replicate 32 7),
     ge_faults = \<lparr>pt_create_dir = None, pt_open = None, pt_write = None, pt_sync = None,
       pt_rename = None\<rparr>\<rparr>"

definition sample_grant :: FileGrant where
  "sample_grant = \<lparr>fg_directory = ''/pick'', fg_relative = ''a.txt'', fg_kind = FileEntryKind.File,
     fg_access = FileAccess.Read, fg_name = ''a.txt'', fg_path = ''/pick/a.txt''\<rparr>"

lemma sample_paths:
  "path_parent ''/pick/a.txt'' = Some ''/pick''" "path_file_name ''/pick/a.txt'' = Some ''a.txt''"
  "path_join ''/pick'' ''a.txt'' = ''/pick/a.txt''" "path_parent ''/h/grants.json'' = Some ''/h''"
  "path_join ''/p'' ''data'' = ''/p/data''" "path_is_absolute ''/pick/a.txt''"
  "\<not> path_is_absolute ''data''" "\<not> path_is_absolute ''a.txt''"
  "path_components ''a.txt'' = [Normal ''a.txt'']" "path_file_name ''a.txt'' = Some ''a.txt''"
  by code_simp+

lemma sample_root:
  "prepare_root sample_os ''/p'' \<lparr>fr_name = ''notes'', fr_path = ''data'',
     fr_access = FileAccess.ReadWrite\<rparr> =
   Inr (''notes'', \<lparr>ar_directory = ''/p/data'', ar_access = FileAccess.ReadWrite,
     ar_path = ''/p/data''\<rparr>)"
  by (simp add: prepare_root_def sample_paths Let_def) (simp add: sample_os_def)

lemma sample_roots:
  "prepare_roots sample_os ''/p'' (nc_filesystem_roots sample_capabilities) Map.empty =
     Inr (nv_roots sample_services)"
  by (simp add: sample_capabilities_def sample_root sample_services_def)

lemma sample_serving: "serving sample_codec (sample_services, \<lparr>gf_store = None, gf_temporary = None\<rparr>)"
proof (rule serving.started)
  show "native_prepare (\<lambda>_. None) sample_os sample_codec
      (probe_store \<lparr>gf_store = None, gf_temporary = None\<rparr>) (Inr ''/h/grants.json'') (Inr ())
      ''/p'' sample_capabilities = Inr sample_services"
    by (simp add: native_prepare_def sample_capabilities_valid sample_roots probe_store_simps)
       (simp add: sample_services_def)
qed

lemma sample_read: "resolve sample_services \<lparr>ft_root = Some ''notes'', ft_grant_id = None,
    ft_path = ''a.txt''\<rparr> = Inr \<lparr>rt_directory = ''/p/data'', rt_relative = ''a.txt'',
      rt_access = FileAccess.ReadWrite, rt_display_name = ''a.txt'',
      rt_absolute_path = Some (path_join ''/p/data'' ''a.txt'')\<rparr>"
  by (simp add: resolve_def validate_relative_path_native_def sample_paths reject_if_def
      resolve_root_def sample_services_def)

theorem file_requests_stay_authorized_witness:
  "call_authorized sample_services \<lparr>ft_root = Some ''notes'', ft_grant_id = None, ft_path = ''a.txt''\<rparr>
     (CapTruncate ''/p/data'' ''a.txt'')"
proof -
  have "CapTruncate ''/p/data'' ''a.txt'' \<in> set (fst (filesystem_request sample_cap sample_services
      \<lparr>fq_operation = FileOperation.WriteText, fq_window_id = ''main'',
       fq_target = \<lparr>ft_root = Some ''notes'', ft_grant_id = None, ft_path = ''a.txt''\<rparr>,
       fq_content = Some ''x''\<rparr>))"
    by (simp add: filesystem_request_def sample_read write_text_def reject_existing_symlink_def
        sample_cap_def MAX_TEXT_BYTES_def)
  from file_requests_stay_authorized [OF sample_serving this] show ?thesis
    by simp
qed

lemma sample_grant_made:
  "create_file_grant sample_os ''/pick/a.txt'' FileAccess.Read = Inr sample_grant"
  by (simp add: create_file_grant_def existing_grant_def sample_os_def sample_paths sample_grant_def)

lemma sample_grant_step:
  "grant_path_with_persistence sample_codec sample_grant_env ''/pick/a.txt'' FileAccess.Read True
     (sample_services, \<lparr>gf_store = None, gf_temporary = None\<rparr>) =
   ((granted sample_services sample_grant_id sample_grant\<lparr>nv_persistent := sample_grant_store\<rparr>,
     \<lparr>gf_store = Some ''{}'', gf_temporary = None\<rparr>),
    Inr (reference_to sample_grant_id sample_grant FileAccess.Read))"
proof -
  have "canonical_grant_target sample_os ''/pick/a.txt'' FileAccess.Read = Inr ''/pick/a.txt''"
    by (simp add: canonical_grant_target_def sample_os_def)
  then show ?thesis
    by (simp add: grant_path_with_persistence_def sample_grant_env_def sample_grant_made
        secure_grant_id_def sample_grant_id_def [symmetric] persist_grants_def sample_services_def
        MAX_PERSISTENT_GRANTS_def sample_paths sample_codec_def sample_grant_store_def granted_def
        reference_to_def Let_def)
qed

lemma sample_codec_law: "codec_law sample_codec"
  by (auto simp: codec_law_def sample_codec_def split: if_splits)

lemma sample_granted_serving:
  "serving sample_codec
     (granted sample_services sample_grant_id sample_grant\<lparr>nv_persistent := sample_grant_store\<rparr>,
      \<lparr>gf_store = Some ''{}'', gf_temporary = None\<rparr>)"
proof (rule serving.grants [OF sample_serving _ _ sample_grant_step])
  show "\<forall>bytes. ge_random sample_grant_env = Inr bytes \<longrightarrow>
      length bytes = 32 \<and> encode_hex bytes \<notin> fst ` set (nv_persistent sample_services)"
    by (auto simp: sample_grant_env_def sample_services_def)
  show "\<forall>p c. no_canonicalize (ge_later sample_grant_env) p = Inr c \<longrightarrow> path_is_absolute c"
    by (auto simp: sample_grant_env_def sample_os_def path_is_absolute_def starts_with_def
        split: if_splits)
qed

theorem persistent_grants_survive_restart_witness:
  "load_persistent_grants sample_codec (probe_store \<lparr>gf_store = Some ''{}'', gf_temporary = None\<rparr>) =
     Inr sample_grant_store"
  using persistent_grants_survive_restart [OF sample_codec_law sample_granted_serving]
  by (simp add: store_fits_def)

theorem grant_reaches_only_selection_witness:
  "within_selection sample_os ''/pick/a.txt'' ''/pick'' ''a.txt''"
proof -
  have "resolve (granted sample_services sample_grant_id sample_grant\<lparr>nv_persistent := sample_grant_store\<rparr>)
      \<lparr>ft_root = None, ft_grant_id = Some (fx_grant_id (reference_to sample_grant_id sample_grant
         FileAccess.Read)), ft_path = []\<rparr> =
      Inr \<lparr>rt_directory = ''/pick'', rt_relative = ''a.txt'', rt_access = FileAccess.Read,
        rt_display_name = ''a.txt'', rt_absolute_path = Some ''/pick/a.txt''\<rparr>"
    by (simp add: resolve_def validate_relative_path_native_def path_is_absolute_def starts_with_def
        path_components_def reject_if_def resolve_grant_def reference_to_def sample_grant_def
        List.map_filter_def)
  from grant_reaches_only_selection [OF sample_grant_step this] show ?thesis
    by (simp add: sample_grant_env_def)
qed

theorem listing_is_sorted_and_complete_witness:
  "\<exists>es :: FileEntry list. sorted (map fe_name es) \<and> mset (map fe_name es) = {#''a'', ''b''#}"
proof -
  let ?t = "\<lparr>rt_directory = ''/p/data'', rt_relative = [], rt_access = FileAccess.Read,
      rt_display_name = ''notes'', rt_absolute_path = None\<rparr>"
  have "is_utf8 ''a''" "is_utf8 ''b''"
    by (simp_all add: is_utf8_def str_chars_def utf8_encode_def utf8_encode_char_def
        scalar_value_def byte_def)
  then have "snd (list_directory sample_cap ?t []) =
      Inr (JArray (map file_entry_json (sort_key fe_name
        [\<lparr>fe_name = ''b'', fe_path = ''b'', fe_kind = FileEntryKind.File, fe_size = 1\<rparr>,
         \<lparr>fe_name = ''a'', fe_path = ''a'', fe_kind = FileEntryKind.Directory, fe_size = 0\<rparr>])))"
    by (simp add: list_directory_def require_read_def reject_if_def target_metadata_def
        sample_cap_def list_entry_def join_bridge_path_def)
  from listing_is_sorted_and_complete [OF this] obtain es :: "FileEntry list" and xs where es: "sorted (map fe_name es)"
      "ca_read_dir sample_cap (rt_directory ?t) (rt_relative ?t) = Inr xs"
      "mset (map fe_name es) = mset (regular_names xs)"
    by blast
  then have "regular_names xs = [''b'', ''a'']"
    by (auto simp: sample_cap_def regular_names_def)
  with es(1,3) show ?thesis
    by (intro exI [of _ es]) (simp add: add_mset_commute)
qed

end
