(* ===== verification/Telemetry.thy ===== *)
theory Telemetry
  imports UpdatePublish
begin

text \<open>
  \<open>desktop_otlp.rs\<close>: the W3C trace context of a request, the configuration of the exporter from the
  environment, and the bounded queue of command spans with its counters.  The HTTP client is a
  parameter: what \<open>send\<close> returns for a batch.
\<close>

section \<open>Trace context\<close>

record TraceParent =
  tp_trace_id :: string
  tp_parent_span_id :: string
  tp_flags :: u8

definition header_value :: "TraceParent \<Rightarrow> string" where
  "header_value t =
     ''00-'' @ tp_trace_id t @ ''-'' @ tp_parent_span_id t @ ''-'' @ encode_hex [tp_flags t]"

definition lower_hex_text :: "string \<Rightarrow> bool" where
  "lower_hex_text s = list_all lower_hex_byte (map byte s)"

text \<open>\<open>u8::from_str_radix(part, 16)\<close> on two checked digits.\<close>

definition hex_flags :: "string \<Rightarrow> u8" where
  "hex_flags s = of_nat (foldl (\<lambda>n c. n * 16 + the (hex_nibble c)) 0 s)"

definition parse_traceparent :: "string \<Rightarrow> TraceParent option" where
  "parse_traceparent v =
     (case split_on CHR ''-'' v of
        [version, trace_id, span_id, flags] \<Rightarrow>
          if version = ''00'' \<and> length trace_id = 32 \<and> trace_id \<noteq> replicate 32 CHR ''0'' \<and>
             length span_id = 16 \<and> span_id \<noteq> replicate 16 CHR ''0'' \<and> length flags = 2 \<and>
             list_all lower_hex_text [version, trace_id, span_id, flags]
          then Some \<lparr>tp_trace_id = trace_id, tp_parent_span_id = span_id, tp_flags = hex_flags flags\<rparr>
          else None
      | _ \<Rightarrow> None)"

definition valid_context :: "TraceParent \<Rightarrow> bool" where
  "valid_context t \<longleftrightarrow> length (tp_trace_id t) = 32 \<and> tp_trace_id t \<noteq> replicate 32 CHR ''0'' \<and>
     length (tp_parent_span_id t) = 16 \<and> tp_parent_span_id t \<noteq> replicate 16 CHR ''0'' \<and>
     lower_hex_text (tp_trace_id t) \<and> lower_hex_text (tp_parent_span_id t)"

section \<open>Configuration\<close>

text \<open>\<open>std::env::var\<close>; \<open>env_var\<close> is \<open>var(name).ok()\<close>.\<close>

datatype env_value = NotPresent | NotUnicode | Present string

type_synonym environment = "string \<Rightarrow> env_value"

definition env_var :: "environment \<Rightarrow> string \<Rightarrow> string option" where
  "env_var env name = (case env name of Present v \<Rightarrow> Some v | _ \<Rightarrow> None)"

definition or_else :: "'a option \<Rightarrow> 'a option \<Rightarrow> 'a option" where
  "or_else a b = (case a of Some x \<Rightarrow> Some x | None \<Rightarrow> b)"

definition otlp_enabled :: "environment \<Rightarrow> string + bool" where
  "otlp_enabled env =
     (case env ''PAM_DESKTOP_OTLP_ENABLED'' of
        NotPresent \<Rightarrow> Inr False
      | Present v \<Rightarrow>
          if v = ''1'' \<or> v = ''true'' then Inr True
          else if v = ''0'' \<or> v = ''false'' then Inr False
          else Inl ''PAM_DESKTOP_OTLP_ENABLED must be 1, true, 0, or false''
      | NotUnicode \<Rightarrow> Inl ''PAM_DESKTOP_OTLP_ENABLED must be valid UTF-8'')"

text \<open>
  \<open>IpAddr::from_str\<close> on the host text of a URL: four decimal octets without leading zeros.  The
  text of an IPv6 host stands in brackets, which \<open>from_str\<close> does not accept.
\<close>

definition parse_octet :: "string \<Rightarrow> nat option" where
  "parse_octet s =
     (if s \<noteq> [] \<and> length s \<le> 3 \<and> list_all (\<lambda>c. ascii_digit (byte c)) s \<and>
         (length s = 1 \<or> hd s \<noteq> CHR ''0'') \<and> digits_value s < 256
      then Some (digits_value s) else None)"

definition ip_is_loopback :: "string \<Rightarrow> bool" where
  "ip_is_loopback s =
     (case map parse_octet (split_on CHR ''.'' s) of
        [Some a, Some b, Some c, Some d] \<Rightarrow> a = 127
      | _ \<Rightarrow> False)"

definition validate_endpoint :: "url \<Rightarrow> string + unit" where
  "validate_endpoint u =
     (let loopback = (case url_host_str u of
            None \<Rightarrow> False
          | Some host \<Rightarrow> to_ascii_lowercase host = ''localhost'' \<or> ip_is_loopback host)
      in steps [
        reject_if (url_username u \<noteq> [] \<or> url_password u \<noteq> None \<or> url_fragment u \<noteq> None)
          ''Desktop OTLP endpoint must not contain credentials or a fragment'',
        reject_if (url_scheme u \<noteq> ''https'' \<and> \<not> (url_scheme u = ''http'' \<and> loopback))
          ''Desktop OTLP endpoint must use HTTPS; HTTP is allowed only on loopback''])"

text \<open>\<open>u8::from_str_radix\<close> with radix 16: upper and lower case, and a leading plus sign.\<close>

definition radix_digit :: "char \<Rightarrow> nat option" where
  "radix_digit c =
     (let b = byte c in
      if 48 \<le> b \<and> b \<le> 57 then Some (b - 48)
      else if 97 \<le> b \<and> b \<le> 102 then Some (b - 87)
      else if 65 \<le> b \<and> b \<le> 70 then Some (b - 55)
      else None)"

definition hex_pair :: "char \<Rightarrow> char \<Rightarrow> nat option" where
  "hex_pair a b =
     (if a = CHR ''+'' then radix_digit b
      else case (radix_digit a, radix_digit b) of
        (Some high, Some low) \<Rightarrow> Some (high * 16 + low)
      | _ \<Rightarrow> None)"

definition invalid_percent :: string where
  "invalid_percent = ''Desktop OTLP header has invalid percent encoding''"

fun percent_bytes :: "string \<Rightarrow> string + string" where
  "percent_bytes [] = Inr []"
| "percent_bytes (c # cs) =
     (if c = CHR ''%''
      then (case cs of
              a # b # rest \<Rightarrow>
                if \<not> is_utf8 [a, b] then Inl invalid_percent
                else (case hex_pair a b of
                        None \<Rightarrow> Inl invalid_percent
                      | Some n \<Rightarrow> rbind (percent_bytes rest) (\<lambda>bytes. Inr (char_of n # bytes)))
            | _ \<Rightarrow> Inl invalid_percent)
      else rbind (percent_bytes cs) (\<lambda>bytes. Inr (c # bytes)))"

definition percent_decode :: "string \<Rightarrow> string + string" where
  "percent_decode v =
     rbind (percent_bytes v) (\<lambda>bytes.
       if is_utf8 bytes then Inr bytes else Inl ''Desktop OTLP header is not valid UTF-8'')"

definition header_name_char :: "char \<Rightarrow> bool" where
  "header_name_char c \<longleftrightarrow> ascii_alphanumeric (byte c) \<or> c = CHR ''-'' \<or> c = CHR ''_''"

definition parse_header :: "string \<Rightarrow> string + string \<times> string" where
  "parse_header entry =
     (case split_once CHR ''='' entry of
        None \<Rightarrow> Inl ''Desktop OTLP headers must use key=value entries''
      | Some (name, v) \<Rightarrow>
          if name = [] \<or> \<not> list_all header_name_char name
          then Inl ''Desktop OTLP header name is invalid''
          else rbind (percent_decode v) (\<lambda>v.
            if char_of (13::nat) \<in> set v \<or> char_of (10::nat) \<in> set v
            then Inl ''Desktop OTLP header value is invalid''
            else Inr (name, v)))"

fun collect :: "('a \<Rightarrow> 'e + 'b) \<Rightarrow> 'a list \<Rightarrow> 'e + 'b list" where
  "collect f [] = Inr []"
| "collect f (x # xs) = rbind (f x) (\<lambda>y. rbind (collect f xs) (\<lambda>ys. Inr (y # ys)))"

definition parse_headers :: "string \<Rightarrow> string + (string \<times> string) list" where
  "parse_headers raw =
     collect parse_header (filter (\<lambda>e. e \<noteq> []) (map trim_str (split_on CHR '','' raw)))"

definition env_number :: "string \<Rightarrow> string option \<Rightarrow> nat \<Rightarrow> nat \<Rightarrow> nat \<Rightarrow> string + nat" where
  "env_number name raw fallback_value minimum maximum =
     (case raw of
        None \<Rightarrow> Inr fallback_value
      | Some raw \<Rightarrow>
          (case parse_unsigned 64 raw of
             None \<Rightarrow> Inl (name @ '' must be an integer'')
           | Some n \<Rightarrow>
               if \<not> (minimum \<le> n \<and> n \<le> maximum)
               then Inl (name @ '' must be between '' @ decimal minimum @ '' and '' @ decimal maximum)
               else Inr n))"

definition env_usize :: "environment \<Rightarrow> string \<Rightarrow> nat \<Rightarrow> nat \<Rightarrow> nat \<Rightarrow> string + nat" where
  "env_usize env name fallback_value minimum maximum =
     env_number name (env_var env name) fallback_value minimum maximum"

definition env_u64 :: "environment \<Rightarrow> string \<Rightarrow> nat \<Rightarrow> nat \<Rightarrow> nat \<Rightarrow> string + nat" where
  "env_u64 env name fallback_value minimum maximum =
     env_number name (env_var env name) fallback_value minimum maximum"

definition env_u64_fallback ::
    "environment \<Rightarrow> string \<Rightarrow> string \<Rightarrow> nat \<Rightarrow> nat \<Rightarrow> nat \<Rightarrow> string + nat" where
  "env_u64_fallback env primary fallback fallback_value minimum maximum =
     env_number primary (or_else (env_var env primary) (env_var env fallback)) fallback_value minimum maximum"

record otlp_config =
  oc_endpoint :: url
  oc_headers :: "(string \<times> string) list"
  oc_service_name :: string
  oc_batch_size :: nat
  oc_delay :: nat
  oc_timeout :: nat

definition DEFAULT_QUEUE_SIZE :: nat where
  "DEFAULT_QUEUE_SIZE = 2048"

definition DEFAULT_BATCH_SIZE :: nat where
  "DEFAULT_BATCH_SIZE = 512"

definition DEFAULT_DELAY_MS :: nat where
  "DEFAULT_DELAY_MS = 5000"

definition DEFAULT_TIMEOUT_MS :: nat where
  "DEFAULT_TIMEOUT_MS = 10000"

definition queue_size :: "environment \<Rightarrow> string + nat" where
  "queue_size env = env_usize env ''OTEL_BSP_MAX_QUEUE_SIZE'' DEFAULT_QUEUE_SIZE 1 65536"

text \<open>
  \<open>set_path\<close> belongs to the package \<open>url\<close>: it is the parameter \<open>set_path\<close>.
\<close>

definition trim_end_slashes :: "string \<Rightarrow> string" where
  "trim_end_slashes s = rev (dropWhile (\<lambda>c. c = CHR ''/'') (rev s))"

definition otlp_config_from_environment ::
    "url_parser \<Rightarrow> (url \<Rightarrow> string \<Rightarrow> url) \<Rightarrow> environment \<Rightarrow> string + otlp_config" where
  "otlp_config_from_environment parse_url set_path env =
     (let signal_endpoint = env_var env ''OTEL_EXPORTER_OTLP_TRACES_ENDPOINT'';
          global_endpoint = env_var env ''OTEL_EXPORTER_OTLP_ENDPOINT'' in
      case or_else signal_endpoint global_endpoint of
        None \<Rightarrow> Inl ''PAM_DESKTOP_OTLP_ENABLED requires OTEL_EXPORTER_OTLP_TRACES_ENDPOINT or OTEL_EXPORTER_OTLP_ENDPOINT''
      | Some raw_endpoint \<Rightarrow>
          (let protocol = (case or_else (env_var env ''OTEL_EXPORTER_OTLP_TRACES_PROTOCOL'')
                 (env_var env ''OTEL_EXPORTER_OTLP_PROTOCOL'') of
                 Some p \<Rightarrow> p | None \<Rightarrow> ''http/protobuf'') in
           if protocol \<noteq> ''http/json''
           then Inl ''Desktop OTLP requires OTEL_EXPORTER_OTLP_TRACES_PROTOCOL=http/json''
           else (case parse_url raw_endpoint of
             None \<Rightarrow> Inl ''Desktop OTLP endpoint is not a valid URL''
           | Some parsed \<Rightarrow>
               (let endpoint = (if signal_endpoint = None
                      then set_path parsed (trim_end_slashes (url_path parsed) @ ''/v1/traces'')
                      else parsed) in
                rbind (validate_endpoint endpoint) (\<lambda>_.
                rbind (parse_headers (case or_else (env_var env ''OTEL_EXPORTER_OTLP_TRACES_HEADERS'')
                    (env_var env ''OTEL_EXPORTER_OTLP_HEADERS'') of Some h \<Rightarrow> h | None \<Rightarrow> []))
                  (\<lambda>headers.
                rbind (queue_size env) (\<lambda>size.
                rbind (env_usize env ''OTEL_BSP_MAX_EXPORT_BATCH_SIZE'' (min DEFAULT_BATCH_SIZE size)
                    1 size) (\<lambda>batch_size.
                rbind (env_u64 env ''OTEL_BSP_SCHEDULE_DELAY'' DEFAULT_DELAY_MS 1 60000) (\<lambda>delay_ms.
                rbind (env_u64_fallback env ''OTEL_EXPORTER_OTLP_TRACES_TIMEOUT''
                    ''OTEL_EXPORTER_OTLP_TIMEOUT'' DEFAULT_TIMEOUT_MS 1 120000) (\<lambda>timeout_ms.
                (let service_name = (case env_var env ''OTEL_SERVICE_NAME'' of
                       Some n \<Rightarrow> n | None \<Rightarrow> ''pam-desktop'') in
                 if service_name = [] \<or> length service_name > 128 \<or>
                    list_ex char_control (str_chars service_name)
                 then Inl ''OTEL_SERVICE_NAME must contain 1..128 printable characters''
                 else Inr \<lparr>oc_endpoint = endpoint, oc_headers = headers,
                   oc_service_name = service_name, oc_batch_size = batch_size,
                   oc_delay = delay_ms, oc_timeout = timeout_ms\<rparr>)))))))))))"

section \<open>Spans\<close>

datatype CommandOutcome = Success | HandlerFailure | WorkerFailure | TaskFailure

fun CommandOutcome_code :: "CommandOutcome \<Rightarrow> nat" where
  "CommandOutcome_code CommandOutcome.Success = 1"
| "CommandOutcome_code HandlerFailure = 2"
| "CommandOutcome_code WorkerFailure = 3"
| "CommandOutcome_code TaskFailure = 4"

record CommandSpan =
  sp_command :: string
  sp_execution :: CommandExecution
  sp_outcome :: CommandOutcome
  sp_start :: u64
  sp_end :: u64
  sp_parent :: "TraceParent option"

definition json_string_value :: "string \<Rightarrow> json \<Rightarrow> json" where
  "json_string_value key v = JObject [(''key'', JString key), (''value'', JObject [(''stringValue'', v)])]"

definition json_int_value :: "string \<Rightarrow> nat \<Rightarrow> json" where
  "json_int_value key n =
     JObject [(''key'', JString key), (''value'', JObject [(''intValue'', JString (decimal n))])]"

text \<open>\<open>ids\<close> are the random trace and span identifiers of the span.\<close>

definition span_json :: "string \<times> string \<Rightarrow> CommandSpan \<Rightarrow> json" where
  "span_json ids span =
     JObject ([
       (''traceId'', JString (case sp_parent span of None \<Rightarrow> fst ids | Some p \<Rightarrow> tp_trace_id p)),
       (''spanId'', JString (snd ids)),
       (''name'', JString ''pam.desktop.command''),
       (''kind'', JInt 1),
       (''startTimeUnixNano'', JString (decimal (unat (sp_start span)))),
       (''endTimeUnixNano'', JString (decimal (unat (sp_end span)))),
       (''attributes'', JArray [
          json_string_value ''rpc.system'' (JString ''pam.desktop''),
          json_string_value ''rpc.method'' (JString (sp_command span)),
          json_int_value ''pam.desktop.execution'' (CommandExecution_code (sp_execution span)),
          json_int_value ''pam.desktop.outcome'' (CommandOutcome_code (sp_outcome span))]),
       (''status'', JObject [(''code'', JInt (if sp_outcome span = CommandOutcome.Success then 1 else 2))]),
       (''flags'', JInt (case sp_parent span of None \<Rightarrow> 1 | Some p \<Rightarrow> uint (tp_flags p)))] @
       (case sp_parent span of
          None \<Rightarrow> []
        | Some p \<Rightarrow> [(''parentSpanId'', JString (tp_parent_span_id p))]))"

definition otlp_payload :: "string \<Rightarrow> string \<Rightarrow> (string \<times> string) list \<Rightarrow> CommandSpan list \<Rightarrow> json" where
  "otlp_payload package_version service_name ids spans =
     JObject [(''resourceSpans'', JArray [JObject [
       (''resource'', JObject [(''attributes'', JArray [
          json_string_value ''service.name'' (JString service_name),
          json_string_value ''service.version'' (JString package_version)])]),
       (''scopeSpans'', JArray [JObject [
          (''scope'', JObject [(''name'', JString ''pam.desktop''), (''version'', JString package_version)]),
          (''spans'', JArray (map2 span_json ids spans))]])]])]"

section \<open>The queue and its counters\<close>

record OtlpCounters =
  ot_exported :: u64
  ot_dropped :: u64
  ot_errors :: u64
  ot_rejected :: u64

record exporter =
  ex_queue :: "CommandSpan list"
  ex_capacity :: nat
  ex_connected :: bool
  ex_counters :: OtlpCounters

text \<open>\<open>try_send\<close> on the bounded channel: it fails when the queue is full or the thread is gone.\<close>

definition export_span :: "exporter \<Rightarrow> CommandSpan \<Rightarrow> exporter" where
  "export_span x span =
     (if ex_connected x \<and> length (ex_queue x) < ex_capacity x
      then x\<lparr>ex_queue := ex_queue x @ [span]\<rparr>
      else (let c = (ex_counters x)\<lparr>ot_dropped := ot_dropped (ex_counters x) + 1\<rparr>
            in x\<lparr>ex_counters := (if ex_connected x then c else c\<lparr>ot_errors := ot_errors c + 1\<rparr>)\<rparr>))"

text \<open>
  The batch of the export loop: the first span, then what arrives until the batch is full or the
  delay has passed; \<open>Expired\<close> is a timeout, the end of the delay or a closed channel.
\<close>

datatype arrival = Arrived CommandSpan | Expired

fun fill_batch :: "nat \<Rightarrow> CommandSpan list \<Rightarrow> arrival list \<Rightarrow> CommandSpan list" where
  "fill_batch n batch [] = batch"
| "fill_batch n batch (a # arrivals) =
     (if length batch < n
      then (case a of
              Arrived span \<Rightarrow> fill_batch n (batch @ [span]) arrivals
            | Expired \<Rightarrow> batch)
      else batch)"

text \<open>What \<open>send\<close> makes of the answer: the rejected spans it names, none when it names none.\<close>

definition rejected_spans :: "json option \<Rightarrow> nat" where
  "rejected_spans pointer =
     (case pointer of
        Some (JInt n) \<Rightarrow> if 0 \<le> n \<and> n < 2 ^ 64 then nat n else 0
      | Some (JString raw) \<Rightarrow> (case parse_u64 raw of Some n \<Rightarrow> n | None \<Rightarrow> 0)
      | _ \<Rightarrow> 0)"

definition count_batch :: "OtlpCounters \<Rightarrow> nat \<Rightarrow> unit + nat \<Rightarrow> OtlpCounters" where
  "count_batch c count result =
     (case result of
        Inr rejected \<Rightarrow>
          c\<lparr>ot_exported := ot_exported c + sat_sub (of_nat count) (of_nat rejected),
            ot_rejected := ot_rejected c + of_nat rejected\<rparr>
      | Inl _ \<Rightarrow>
          c\<lparr>ot_errors := ot_errors c + 1, ot_dropped := ot_dropped c + of_nat count\<rparr>)"

section \<open>Parsing and printing the trace context\<close>

lemma lower_hex_nibble: "lower_hex_byte (byte c) \<Longrightarrow> \<exists>n. hex_nibble c = Some n"
proof -
  have "byte CHR ''a'' = 97" "byte CHR ''f'' = 102" by (simp_all add: byte_def)
  then show "lower_hex_byte (byte c) \<Longrightarrow> ?thesis"
    by (auto simp: lower_hex_byte_def ascii_digit_def hex_nibble_def)
qed

lemma hex_flags_pair:
  assumes "hex_nibble a = Some high" "hex_nibble b = Some low"
  shows "hex_flags [a, b] = or (push_bit 4 (of_nat high)) (of_nat low)"
proof -
  have "\<forall>h \<in> {0..<16}. \<forall>l \<in> {0..<16}.
      (of_nat (h * 16 + l) :: u8) = or (push_bit 4 (of_nat h)) (of_nat l)"
    by (simp add: atLeastLessThan_nat_numeral)
  moreover have "high < 16" "low < 16"
    using assms hex_nibble_digit by blast+
  ultimately show ?thesis
    using assms by (auto simp: hex_flags_def)
qed

lemma hex_flags_decode:
  assumes "length s = 2" "lower_hex_text s"
  shows "encode_hex [hex_flags s] = s"
proof -
  obtain a b where s: "s = [a, b]"
    using assms(1) by (auto simp: length_Suc_conv numeral_2_eq_2)
  with assms(2) obtain high low where nib: "hex_nibble a = Some high" "hex_nibble b = Some low"
    by (auto simp: lower_hex_text_def dest!: lower_hex_nibble)
  then have "decode_pairs [] s = Inr [hex_flags s]"
    by (simp add: s hex_flags_pair)
  then show ?thesis
    using decode_pairs_sound [of "[]" s "[hex_flags s]"] assms(1) by simp
qed

lemma hex_flags_encode: "hex_flags (encode_hex [f]) = f"
proof -
  have nib: "hex_nibble (hex_digits ! unat (drop_bit 4 f)) = Some (unat (drop_bit 4 f))"
    "hex_nibble (hex_digits ! unat (and f 0x0f)) = Some (unat (and f 0x0f))"
    using nibbles_of_byte(1,2) by (simp_all only: hex_digit_nibble)
  have "encode_hex [f] = [hex_digits ! unat (drop_bit 4 f), hex_digits ! unat (and f 0x0f)]"
    by (simp only: encode_hex_def list.map concat.simps append.simps)
  then show ?thesis
    using hex_flags_pair [OF nib] nibbles_of_byte(3) by simp
qed

lemma lower_hex_no_dash: "lower_hex_text s \<Longrightarrow> CHR ''-'' \<notin> set s"
  by (auto simp: lower_hex_text_def list_all_iff lower_hex_byte_def ascii_digit_def byte_def)

lemma split_header:
  assumes "lower_hex_text trace" "lower_hex_text span"
  shows "split_on CHR ''-'' (''00-'' @ trace @ ''-'' @ span @ ''-'' @ encode_hex bs) =
    [''00'', trace, span, encode_hex bs]"
proof -
  have "lower_hex_text (encode_hex bs)"
    using encode_hex_lower by (simp add: lower_hex_text_def)
  note parts = lower_hex_no_dash [OF assms(1)] lower_hex_no_dash [OF assms(2)]
    lower_hex_no_dash [OF this]
  have "split_on CHR ''-'' (''00'' @ CHR ''-'' # (trace @ CHR ''-'' # (span @ CHR ''-'' # encode_hex bs)))
    = [''00'', trace, span, encode_hex bs]"
    using parts by (subst split_on_sep, simp, subst split_on_sep, simp, subst split_on_sep, simp)
      (simp add: split_on_no_sep)
  then show ?thesis by simp
qed

lemma split_on_join4:
  assumes "split_on c s = [p, q, r, t]"
  shows "s = p @ c # q @ c # r @ c # t"
proof -
  have step: "\<exists>rest. s = x @ c # rest \<and> split_on c rest = y # ys" if "split_on c s = x # y # ys" for s x y ys
    using that
  proof (induction s arbitrary: x)
    case (Cons a s)
    show ?case
    proof (cases "a = c")
      case True
      with Cons.prems show ?thesis by auto
    next
      case False
      then obtain p ps where p: "split_on c s = p # ps" "x = a # p" "y # ys = ps"
        using Cons.prems by (cases "split_on c s") auto
      with Cons.IH [of p] obtain rest where "s = p @ c # rest" "split_on c rest = y # ys" by auto
      with p show ?thesis by auto
    qed
  qed simp
  have final: "s = x" if "split_on c s = [x]" for s x
    using that
  proof (induction s arbitrary: x)
    case (Cons a s)
    then show ?case by (cases "split_on c s") (auto split: if_splits)
  qed simp
  obtain u where "s = p @ c # u" "split_on c u = [q, r, t]"
    using step [OF assms] by blast
  moreover from step [OF this(2)] obtain v where "u = q @ c # v" "split_on c v = [r, t]" by blast
  moreover from step [OF this(2)] obtain w where "v = r @ c # w" "split_on c w = [t]" by blast
  moreover from final [OF this(2)] have "w = t" .
  ultimately show ?thesis by simp
qed

text \<open>
  A trace context is accepted exactly when it is printed from a valid one: parsing and printing
  are inverse to each other.
\<close>

theorem trace_context_roundtrip:
  "parse_traceparent s = Some t \<longleftrightarrow> valid_context t \<and> header_value t = s"
proof
  assume "parse_traceparent s = Some t"
  then obtain trace span flags where s: "split_on CHR ''-'' s = [''00'', trace, span, flags]"
    and t: "t = \<lparr>tp_trace_id = trace, tp_parent_span_id = span, tp_flags = hex_flags flags\<rparr>"
    and ok: "length trace = 32" "trace \<noteq> replicate 32 CHR ''0''" "length span = 16"
      "span \<noteq> replicate 16 CHR ''0''" "length flags = 2" "lower_hex_text trace"
      "lower_hex_text span" "lower_hex_text flags"
    by (auto simp: parse_traceparent_def split: list.splits if_splits)
  have "s = ''00'' @ CHR ''-'' # trace @ CHR ''-'' # span @ CHR ''-'' # flags"
    by (rule split_on_join4 [OF s])
  then show "valid_context t \<and> header_value t = s"
    using ok by (simp add: valid_context_def t header_value_def hex_flags_decode)
next
  assume t: "valid_context t \<and> header_value t = s"
  then have hex: "lower_hex_text (tp_trace_id t)" "lower_hex_text (tp_parent_span_id t)"
    by (auto simp: valid_context_def)
  have "lower_hex_text ''00''" "lower_hex_text (encode_hex [tp_flags t])"
    using encode_hex_lower [of "[tp_flags t]"]
    by (simp_all add: lower_hex_text_def lower_hex_byte_def ascii_digit_def byte_def)
  moreover have "split_on CHR ''-'' s = [''00'', tp_trace_id t, tp_parent_span_id t, encode_hex [tp_flags t]]"
    using t split_header [OF hex] by (auto simp: header_value_def)
  moreover have "length (encode_hex [tp_flags t]) = 2"
    by (simp only: length_encode_hex) simp
  ultimately show "parse_traceparent s = Some t"
    using t by (simp add: parse_traceparent_def valid_context_def hex_flags_encode)
qed

section \<open>Headers\<close>

lemma trim_plain:
  assumes "\<forall>c \<in> set s. byte c < 128" "\<forall>b \<in> set (map byte s). \<not> char_whitespace b"
  shows "trim_str s = s"
  using assms
  by (simp add: trim_str_def str_chars_ascii trim_chars_plain utf8_encode_ascii comp_def byte_def)

lemma collect_Inr: "collect f xs = Inr ys \<longleftrightarrow> list_all2 (\<lambda>x y. f x = Inr y) xs ys"
  by (induction xs arbitrary: ys) (auto simp: rbind_Inr_iff list_all2_Cons1)

text \<open>
  Whatever the environment says, a header that is sent has a name of letters, digits, hyphens and
  underscores and a value without line breaks: no header can be injected.
\<close>

theorem parsed_headers_inject_nothing:
  assumes "parse_headers raw = Inr headers" and "(name, v) \<in> set headers"
  shows "name \<noteq> [] \<and> list_all header_name_char name \<and>
    char_of (13::nat) \<notin> set v \<and> char_of (10::nat) \<notin> set v"
proof -
  obtain entry where "parse_header entry = Inr (name, v)"
    using assms by (auto simp: parse_headers_def collect_Inr list_all2_conv_all_nth in_set_conv_nth)
  then show ?thesis
    by (auto simp: parse_header_def rbind_Inr_iff split: option.splits if_splits)
qed

section \<open>Accounting\<close>

text \<open>
  The exporter with the batch its thread holds and the number of spans submitted so far.  A
  collector does not reject more spans than it was sent.
\<close>

inductive exporting :: "nat \<Rightarrow> nat \<Rightarrow> exporter \<Rightarrow> CommandSpan list \<Rightarrow> bool" for batch_size where
  fresh: "exporting batch_size 0 \<lparr>ex_queue = [], ex_capacity = capacity, ex_connected = True,
      ex_counters = \<lparr>ot_exported = 0, ot_dropped = 0, ot_errors = 0, ot_rejected = 0\<rparr>\<rparr> []"
| submitted: "exporting batch_size n x batch \<Longrightarrow> exporting batch_size (Suc n) (export_span x span) batch"
| taken: "exporting batch_size n x batch \<Longrightarrow> ex_queue x = span # rest \<Longrightarrow> length batch < batch_size \<Longrightarrow>
    exporting batch_size n (x\<lparr>ex_queue := rest\<rparr>) (fill_batch batch_size batch [Arrived span])"
| flushed: "exporting batch_size n x batch \<Longrightarrow> batch \<noteq> [] \<Longrightarrow>
    (\<forall>rejected. result = Inr rejected \<longrightarrow> rejected \<le> length batch) \<Longrightarrow>
    exporting batch_size n (x\<lparr>ex_counters := count_batch (ex_counters x) (length batch) result\<rparr>) []"
| stopped: "exporting batch_size n x batch \<Longrightarrow> exporting batch_size n (x\<lparr>ex_connected := False\<rparr>) batch"

definition accounted :: "exporter \<Rightarrow> CommandSpan list \<Rightarrow> u64" where
  "accounted x batch = ot_exported (ex_counters x) + ot_rejected (ex_counters x) +
     ot_dropped (ex_counters x) + of_nat (length (ex_queue x) + length batch)"

lemma count_batch_total:
  assumes "\<forall>rejected. result = Inr rejected \<longrightarrow> rejected \<le> n" and "n < 2 ^ 64"
  shows "ot_exported (count_batch c n result) + ot_rejected (count_batch c n result) +
      ot_dropped (count_batch c n result) =
    ot_exported c + ot_rejected c + ot_dropped c + of_nat n"
proof (cases result)
  case (Inr rejected)
  with assms have le: "rejected \<le> n" by simp
  with assms(2) have "(of_nat rejected :: u64) \<le> of_nat n"
    by (simp add: word_le_nat_alt unsigned_of_nat take_bit_nat_eq_self)
  then have "sat_sub (of_nat n) (of_nat rejected) = (of_nat n - of_nat rejected :: u64)"
    by (simp add: sat_sub_def)
  with Inr show ?thesis by (simp add: count_batch_def)
qed (simp add: count_batch_def)

lemma exporting_bounded:
  "exporting batch_size n x batch \<Longrightarrow>
     length (ex_queue x) \<le> ex_capacity x \<and> length batch \<le> batch_size"
  by (induction rule: exporting.induct) (auto simp: export_span_def Let_def)

text \<open>
  Every span that was submitted is exported, rejected or dropped exactly once, or still waits in
  the queue or the batch, in any interleaving of the commands and the exporter thread.
\<close>

theorem spans_are_accounted_for:
  assumes "exporting batch_size n x batch" and "batch_size < 2 ^ 64"
  shows "accounted x batch = of_nat n"
  using assms(1)
proof (induction rule: exporting.induct)
  case (flushed n x batch result)
  have "length batch < 2 ^ 64"
    using exporting_bounded [OF flushed(1)] assms(2) by linarith
  from count_batch_total [OF flushed(3) this, of "ex_counters x"] flushed.IH show ?case
    by (simp add: accounted_def algebra_simps)
qed (auto simp: accounted_def export_span_def Let_def algebra_simps)

text \<open>
  The text of an IPv6 host stands in brackets, so the loopback address of IPv6 is refused
  although it is a loopback address.
\<close>

lemma ipv6_loopback_endpoint_refused:
  assumes "url_host_str u = Some ''[::1]''" "url_host_of u = Some (Ipv6 1)" "url_scheme u = ''http''"
  shows "host_is_loopback (the (url_host_of u)) \<and> validate_endpoint u \<noteq> Inr ()"
proof -
  have "\<not> ip_is_loopback ''[::1]''" "to_ascii_lowercase ''[::1]'' \<noteq> ''localhost''"
    by (code_simp)+
  with assms show ?thesis
    by (simp add: validate_endpoint_def reject_if_def)
qed

lemma signed_percent_pair_accepted: "percent_decode ''%+a'' = Inr [char_of (10::nat)]"
proof -
  have "is_utf8 ''+a''" "is_utf8 [char_of (10::nat)]"
    by (simp_all add: is_utf8_def str_chars_def utf8_encode_def utf8_encode_char_def
        scalar_value_def byte_def)
  moreover have "hex_pair CHR ''+'' CHR ''a'' = Some 10"
    by (simp add: hex_pair_def radix_digit_def byte_def)
  ultimately show ?thesis by (simp add: percent_decode_def)
qed

section \<open>Witnesses\<close>

definition sample_span :: CommandSpan where
  "sample_span = \<lparr>sp_command = ''greet'', sp_execution = CommandExecution.Parallel,
     sp_outcome = CommandOutcome.Success, sp_start = 1, sp_end = 2, sp_parent = None\<rparr>"

theorem parsed_headers_inject_nothing_witness:
  "list_all header_name_char ''api-key''"
proof -
  have "split_on CHR '','' ''api-key=a'' = [''api-key=a'']" by code_simp
  moreover have "trim_str ''api-key=a'' = ''api-key=a''"
    by (rule trim_plain) (simp_all add: byte_def char_whitespace_def)
  moreover have "is_utf8 ''a''"
    by (simp add: is_utf8_def str_chars_def utf8_encode_def utf8_encode_char_def
        scalar_value_def byte_def)
  moreover have "char_of (13::nat) \<noteq> CHR ''a''" "char_of (10::nat) \<noteq> CHR ''a''"
    by code_simp+
  ultimately have "parse_headers ''api-key=a'' = Inr [(''api-key'', ''a'')]"
    by (simp add: parse_headers_def parse_header_def percent_decode_def header_name_char_def
        ascii_alphanumeric_def ascii_alphabetic_def ascii_lower_def ascii_upper_def byte_def)
  from parsed_headers_inject_nothing [OF this, of "''api-key''" "''a''"] show ?thesis by simp
qed

theorem spans_are_accounted_for_witness:
  "\<exists>x. exporting 8 1 x [sample_span] \<and> accounted x [sample_span] = 1"
proof -
  let ?x = "\<lparr>ex_queue = [], ex_capacity = 4, ex_connected = True,
      ex_counters = \<lparr>ot_exported = 0, ot_dropped = 0, ot_errors = 0, ot_rejected = 0\<rparr>\<rparr> :: exporter"
  have "exporting 8 (Suc 0) (export_span ?x sample_span) []"
    by (rule exporting.submitted [OF exporting.fresh])
  then have "exporting 8 (Suc 0) (export_span ?x sample_span\<lparr>ex_queue := []\<rparr>)
      (fill_batch 8 [] [Arrived sample_span])"
    by (rule exporting.taken [where rest = "[]"]) (simp_all add: export_span_def)
  then have run: "exporting 8 1 (export_span ?x sample_span\<lparr>ex_queue := []\<rparr>) [sample_span]"
    by simp
  from spans_are_accounted_for [OF run] run show ?thesis by auto
qed

end
