(* ===== verification/Gateway.thy ===== *)
theory Gateway
  imports Supervisor PluginSupervisor NativeFiles Telemetry
begin

text \<open>
  \<open>gateway.rs\<close>, the requests of the pages: authentication, the registry of running requests and
  their cancellation, the choice of a PHP worker, the metrics and the answers.

  A command runs in three parts between which the requests of other connections run:
  \<open>begin_request\<close> up to the start of the blocking task, \<open>run_request\<close> in the task, and
  \<open>finish_request\<close> after it.  The state that the connections share is one record; each part is
  what the code does to it while it holds the locks.  The answers are values; that they are
  encoded as JSON is left out, because encoding them cannot fail.
\<close>

section \<open>Answers\<close>

record ClientError =
  cl_code :: nat
  cl_message :: string

record InvokeResponse =
  ir_ok :: bool
  ir_data :: json
  ir_error :: "ClientError option"

datatype body =
    InvokeBody InvokeResponse
  | CancelBody bool
  | EventBody "u64 \<times> PublishedEvent list"
  | TextBody string

record http_response =
  hr_status :: nat
  hr_headers :: "(string \<times> string) list"
  hr_body :: body

definition quoted :: "string \<Rightarrow> string" where
  "quoted s = CHR 0x27 # s @ [CHR 0x27]"

definition security_policy :: string where
  "security_policy = ''default-src '' @ quoted ''self'' @ ''; base-uri '' @ quoted ''none'' @
     ''; connect-src '' @ quoted ''self'' @ ''; font-src '' @ quoted ''self'' @
     ''; frame-src '' @ quoted ''none'' @ ''; img-src '' @ quoted ''self'' @
     '' data:; object-src '' @ quoted ''none'' @ ''; script-src '' @ quoted ''self'' @
     ''; style-src '' @ quoted ''self'' @ '' '' @ quoted ''unsafe-inline''"

definition secure_response :: "nat \<Rightarrow> string \<Rightarrow> body \<Rightarrow> http_response" where
  "secure_response status content_type b =
     \<lparr>hr_status = status,
      hr_headers = [(''content-type'', content_type), (''content-security-policy'', security_policy),
        (''x-content-type-options'', ''nosniff''), (''cache-control'', ''no-store, max-age=0'')],
      hr_body = b\<rparr>"

definition json_response :: "nat \<Rightarrow> body \<Rightarrow> http_response" where
  "json_response status b = secure_response status ''application/json; charset=utf-8'' b"

definition plain_response :: "nat \<Rightarrow> string \<Rightarrow> http_response" where
  "plain_response status text = secure_response status ''text/plain; charset=utf-8'' (TextBody text)"

definition client_failure :: "nat \<Rightarrow> ErrorCode \<Rightarrow> string \<Rightarrow> http_response" where
  "client_failure status code message =
     json_response status (InvokeBody \<lparr>ir_ok = False, ir_data = JNull,
       ir_error = Some \<lparr>cl_code = ErrorCode_code code, cl_message = message\<rparr>\<rparr>)"

definition unauthorized_response :: http_response where
  "unauthorized_response = client_failure 403 Unauthorized
     ''The desktop bridge rejected this origin or token.''"

definition native_success :: "json \<Rightarrow> http_response" where
  "native_success data = json_response 200
     (InvokeBody \<lparr>ir_ok = True, ir_data = data, ir_error = None\<rparr>)"

definition native_failure :: "NativeError \<Rightarrow> http_response" where
  "native_failure e = client_failure
     (case ne_code e of
        CapabilityDisabled \<Rightarrow> 403 | PermissionDenied \<Rightarrow> 403 | InvalidGrant \<Rightarrow> 403
      | ResourceNotFound \<Rightarrow> 404 | ResourceTooLarge \<Rightarrow> 413
      | InvalidMessage \<Rightarrow> 400 | InvalidPayload \<Rightarrow> 400 | _ \<Rightarrow> 500)
     (ne_code e) (ne_message e)"

text \<open>The result of a blocking task: a failed task (\<open>JoinError\<close>) is on the left.\<close>

definition native_task :: "string + (NativeError + json) \<Rightarrow> http_response" where
  "native_task r =
     (case r of
        Inl e \<Rightarrow> native_failure \<lparr>ne_code = NativeOperationFailed,
          ne_message = ''The native operation task failed: '' @ e\<rparr>
      | Inr (Inl e) \<Rightarrow> native_failure e
      | Inr (Inr data) \<Rightarrow> native_success data)"

fun worker_error_response :: "WorkerRequestError \<Rightarrow> http_response" where
  "worker_error_response TimedOut = client_failure 408 RequestTimedOut
     ''The PHP command exceeded its deadline and the worker was restarted.''"
| "worker_error_response Cancelled = client_failure 408 RequestCancelled
     ''The PHP command was cancelled and the worker was restarted.''"
| "worker_error_response (Crashed message) = client_failure 502 WorkerCrashed
     (''The PHP worker crashed and was recovered: '' @ message)"

definition plugin_error_response :: "PluginError \<Rightarrow> http_response" where
  "plugin_error_response e = client_failure
     (case pl_code e of
        UnknownCommand \<Rightarrow> 400 | InvalidMessage \<Rightarrow> 400 | InvalidPayload \<Rightarrow> 400
      | PluginUnavailable \<Rightarrow> 503
      | RequestTimedOut \<Rightarrow> 408 | RequestCancelled \<Rightarrow> 408 | _ \<Rightarrow> 422)
     (pl_code e) (pl_message e)"

section \<open>The worker pool\<close>

text \<open>
  The atomic counters wrap, as \<open>fetch_add\<close> does.  A call of a pooled worker is a call of its
  supervisor, under its lock.
\<close>

record WorkerPool =
  wp_workers :: "WorkerSupervisor list"
  wp_next :: u64
  wp_affinities :: "string \<rightharpoonup> nat"
  wp_next_affinity :: u64

definition requested_parallel_count :: "Bootstrap \<Rightarrow> nat" where
  "requested_parallel_count b =
     (if ws_isolation (bs_workstation b) \<noteq> ProcessIsolation.Shared
      then max (unat (bs_parallel_worker_count b)) (length (bs_windows b))
      else if list_ex (\<lambda>c. cc_execution c \<noteq> CommandExecution.Stateful) (bs_commands b)
      then unat (bs_parallel_worker_count b)
      else 0)"

text \<open>\<open>WorkerSupervisor::fork\<close> starts another worker of the same project.\<close>

fun pool_workers :: "host \<Rightarrow> (nat \<Rightarrow> spawn_env) \<Rightarrow> nat \<Rightarrow> string + WorkerSupervisor list" where
  "pool_workers h envs 0 = Inr []"
| "pool_workers h envs (Suc n) =
     rbind (pool_workers h envs n) (\<lambda>workers.
     rbind (snd (supervisor_start h (envs n))) (\<lambda>w. Inr (workers @ [w])))"

definition pool_prepare :: "host \<Rightarrow> (nat \<Rightarrow> spawn_env) \<Rightarrow> nat \<Rightarrow> string + WorkerPool" where
  "pool_prepare h envs count =
     rbind (pool_workers h envs count) (\<lambda>workers.
       Inr \<lparr>wp_workers = workers, wp_next = 0, wp_affinities = Map.empty, wp_next_affinity = 0\<rparr>)"

text \<open>The next worker in turn, and the worker that belongs to a key.\<close>

definition pool_select :: "WorkerPool \<Rightarrow> WorkerPool \<times> (WorkerRequestError + nat)" where
  "pool_select p =
     (if wp_workers p = [] then (p, Inl (Crashed ''parallel worker pool is not configured''))
      else (p\<lparr>wp_next := wp_next p + 1\<rparr>, Inr (unat (wp_next p) mod length (wp_workers p))))"

definition pool_affinity :: "WorkerPool \<Rightarrow> string \<Rightarrow> WorkerPool \<times> (WorkerRequestError + nat)" where
  "pool_affinity p key =
     (if wp_workers p = [] then (p, Inl (Crashed ''isolated worker pool is not configured''))
      else case wp_affinities p key of
        Some index \<Rightarrow> (p, Inr index)
      | None \<Rightarrow>
          (let index = unat (wp_next_affinity p);
               p' = p\<lparr>wp_next_affinity := wp_next_affinity p + 1\<rparr>
           in if index \<ge> length (wp_workers p)
              then (p', Inl (Crashed ''isolated worker capacity is exhausted''))
              else (p'\<lparr>wp_affinities := (wp_affinities p)(key \<mapsto> index)\<rparr>, Inr index)))"

record call_env =
  ce_before :: spawn_env
  ce_exchange :: "ResponseEnvelope exchange"
  ce_after :: spawn_env

definition worker_call ::
    "host \<Rightarrow> WorkerSupervisor \<Rightarrow> string \<Rightarrow> string \<Rightarrow> json \<Rightarrow> u64 \<Rightarrow> call_env \<Rightarrow>
     WorkerSupervisor \<times> RequestEnvelope list \<times> (WorkerRequestError + ResponseEnvelope)" where
  "worker_call h s command window_id payload timeout_ms env =
     supervisor_request h s command window_id payload (unat timeout_ms * 1000000)
       (ce_before env) (ce_exchange env) (ce_after env)"

definition pool_call ::
    "host \<Rightarrow> WorkerPool \<times> (WorkerRequestError + nat) \<Rightarrow> string \<Rightarrow> string \<Rightarrow> json \<Rightarrow> u64 \<Rightarrow> call_env \<Rightarrow>
     WorkerPool \<times> RequestEnvelope list \<times> (WorkerRequestError + ResponseEnvelope)" where
  "pool_call h chosen command window_id payload timeout_ms env =
     (case chosen of
        (p, Inl e) \<Rightarrow> (p, [], Inl e)
      | (p, Inr index) \<Rightarrow>
          (case worker_call h (wp_workers p ! index) command window_id payload timeout_ms env of
             (w, sent, result) \<Rightarrow> (p\<lparr>wp_workers := (wp_workers p)[index := w]\<rparr>, sent, result)))"

definition pool_request ::
    "host \<Rightarrow> WorkerPool \<Rightarrow> string \<Rightarrow> string \<Rightarrow> json \<Rightarrow> u64 \<Rightarrow> call_env \<Rightarrow>
     WorkerPool \<times> RequestEnvelope list \<times> (WorkerRequestError + ResponseEnvelope)" where
  "pool_request h p command window_id payload timeout_ms env =
     pool_call h (pool_select p) command window_id payload timeout_ms env"

definition pool_request_keyed ::
    "host \<Rightarrow> WorkerPool \<Rightarrow> string \<Rightarrow> string \<Rightarrow> string \<Rightarrow> json \<Rightarrow> u64 \<Rightarrow> call_env \<Rightarrow>
     WorkerPool \<times> RequestEnvelope list \<times> (WorkerRequestError + ResponseEnvelope)" where
  "pool_request_keyed h p key command window_id payload timeout_ms env =
     pool_call h (pool_affinity p key) command window_id payload timeout_ms env"

section \<open>Metrics\<close>

record GatewayMetrics =
  gm_total_commands :: u64
  gm_failed_commands :: u64
  gm_active_commands :: u64
  gm_total_command_nanoseconds :: u64
  gm_first_command_milliseconds :: u64
  gm_command_microseconds :: "u64 list"
  gm_frame_microseconds :: "u64 list"

definition GatewayMetrics_default :: GatewayMetrics where
  "GatewayMetrics_default = \<lparr>gm_total_commands = 0, gm_failed_commands = 0, gm_active_commands = 0,
     gm_total_command_nanoseconds = 0, gm_first_command_milliseconds = 0,
     gm_command_microseconds = [], gm_frame_microseconds = []\<rparr>"

definition PERFORMANCE_SAMPLE_LIMIT :: nat where
  "PERFORMANCE_SAMPLE_LIMIT = 2048"

definition record_sample :: "u64 list \<Rightarrow> u64 \<Rightarrow> u64 list" where
  "record_sample samples v =
     (if length samples = PERFORMANCE_SAMPLE_LIMIT then tl samples else samples) @ [v]"

text \<open>\<open>usize\<close> arithmetic: \<open>saturating_mul\<close> and \<open>div_ceil\<close>.\<close>

definition percentile_index :: "nat \<Rightarrow> nat \<Rightarrow> nat" where
  "percentile_index n percent = (min ((n - 1) * percent) (2 ^ 64 - 1) + 99) div 100"

definition percentile :: "u64 list \<Rightarrow> nat \<Rightarrow> u64 option" where
  "percentile samples percent =
     (if samples = [] then None
      else (let vs = sort samples; index = percentile_index (length vs) percent
            in if index < length vs then Some (vs ! index) else None))"

definition performance_violations ::
    "PerformanceBudgetConfig \<Rightarrow> bool \<Rightarrow> u64 option \<Rightarrow> u64 \<Rightarrow> u64 option \<Rightarrow> u64 option \<Rightarrow> string list" where
  "performance_violations budget startup_snapshot_hit startup memory ipc frame =
     (let startup_budget = (if startup_snapshot_hit then pb_warm_start_milliseconds budget
            else pb_cold_start_milliseconds budget);
          over = (\<lambda>v limit. case v of None \<Rightarrow> False | Some n \<Rightarrow> n > ucast limit)
      in (if over startup startup_budget
          then [if startup_snapshot_hit then ''warm-start'' else ''cold-start''] else []) @
         (if memory > sat_mul (ucast (pb_idle_memory_megabytes budget)) (1024 * 1024)
          then [''resident-memory''] else []) @
         (if over ipc (pb_ipc_p95_microseconds budget) then [''ipc-p95''] else []) @
         (if over frame (pb_frame_p95_microseconds budget) then [''frame-p95''] else []))"

section \<open>The shared state\<close>

datatype ShellEvent =
    MenuSelected string
  | TrayActivated u8
  | Shortcut u32 ShortcutState

record DialogRequest =
  dq_kind :: DialogKind
  dq_title :: "string option"
  dq_file_name :: "string option"
  dq_filters :: "DialogFilter list"

datatype HostEvent =
    ServoWake
  | ApplyEffects "Effect list"
  | ReloadViews
  | Reconfigure Bootstrap
  | Dialog DialogRequest
  | Shell ShellEvent
  | Exit

record RequestKey =
  rk_window_id :: string
  rk_request_id :: u64

text \<open>
  A cancellation token is a shared flag: it is a number, and the set \<open>gs_cancelled\<close> holds the
  tokens whose flag is set.  \<open>gs_sent\<close> are the events the event loop has been sent, as long as
  it runs.
\<close>

record GatewayState =
  gs_project :: Project
  gs_public_root :: string
  gs_origin :: string
  gs_token :: string
  gs_bootstrap :: Bootstrap
  gs_supervisor :: WorkerSupervisor
  gs_pool :: WorkerPool
  gs_cancellations :: "RequestKey \<rightharpoonup> nat"
  gs_cancelled :: "nat set"
  gs_next_token :: nat
  gs_events :: EventState
  gs_loop_open :: bool
  gs_sent :: "HostEvent list"
  gs_native :: NativeServices
  gs_plugins :: plugins
  gs_metrics :: GatewayMetrics
  gs_otlp :: "exporter option"
  gs_development :: bool
  gs_startup_snapshot_hit :: bool

definition command_execution :: "GatewayState \<Rightarrow> string \<Rightarrow> CommandExecution" where
  "command_execution st name =
     (case find (\<lambda>c. cc_name c = name) (bs_commands (gs_bootstrap st)) of
        None \<Rightarrow> CommandExecution.Stateful
      | Some c \<Rightarrow> cc_execution c)"

definition process_isolation :: "GatewayState \<Rightarrow> ProcessIsolation" where
  "process_isolation st = ws_isolation (bs_workstation (gs_bootstrap st))"

text \<open>
  The chain of parents of a window.  The loop stops after one more step than there are windows,
  so a cycle of parents ends it as well.
\<close>

definition window_parent :: "Bootstrap \<Rightarrow> string \<Rightarrow> string option" where
  "window_parent b w =
     Option.bind (map_of (ws_windows (bs_workstation b)) w) wp_parent"

function parent_chain :: "Bootstrap \<Rightarrow> nat \<Rightarrow> string \<Rightarrow> string" where
  "parent_chain b depth current =
     (case window_parent b current of
        None \<Rightarrow> current
      | Some parent \<Rightarrow>
          if Suc depth > length (bs_windows b) then parent
          else parent_chain b (Suc depth) parent)"
  by pat_completeness auto
termination
  by (relation "measure (\<lambda>(b, depth, current). Suc (length (bs_windows b)) - depth)") auto

declare parent_chain.simps [simp del]

definition isolation_key :: "Bootstrap \<Rightarrow> string \<Rightarrow> string" where
  "isolation_key b window_id =
     (if ws_isolation (bs_workstation b) = ProcessIsolation.PerWorkspace
      then parent_chain b 0 window_id
      else window_id)"

definition has_window :: "GatewayState \<Rightarrow> string \<Rightarrow> bool" where
  "has_window st window_id = list_ex (\<lambda>w. wc_id w = window_id) (bs_windows (gs_bootstrap st))"

definition default_timeout_ms :: "GatewayState \<Rightarrow> u64" where
  "default_timeout_ms st = bs_command_timeout_ms (gs_bootstrap st)"

definition send_event :: "GatewayState \<Rightarrow> HostEvent \<Rightarrow> GatewayState" where
  "send_event st e = (if gs_loop_open st then st\<lparr>gs_sent := gs_sent st @ [e]\<rparr> else st)"

definition publish_event :: "GatewayState \<Rightarrow> ClientEvent \<Rightarrow> GatewayState" where
  "publish_event st e = st\<lparr>gs_events := publish (gs_events st) e\<rparr>"

definition process_response :: "GatewayState \<Rightarrow> ResponseEnvelope \<Rightarrow> GatewayState" where
  "process_response st response =
     foldl publish_event
       (if rs_effects response \<noteq> [] then send_event st (ApplyEffects (rs_effects response)) else st)
       (rs_events response)"

section \<open>Authentication\<close>

text \<open>The text of a header; \<open>get\<close> and \<open>to_str\<close> belong to the package \<open>http\<close>.\<close>

type_synonym headers = "string \<Rightarrow> string option"

definition BRIDGE_HEADER :: string where
  "BRIDGE_HEADER = ''x-pam-bridge''"

definition constant_time_eq :: "u8 list \<Rightarrow> u8 list \<Rightarrow> bool" where
  "constant_time_eq left right =
     (if length left \<noteq> length right then False
      else foldl (\<lambda>difference (l, r). or difference (xor l r)) 0 (zip left right) = 0)"

definition as_bytes :: "string \<Rightarrow> u8 list" where
  "as_bytes s = map (\<lambda>c. of_nat (byte c)) s"

definition authorized :: "GatewayState \<Rightarrow> headers \<Rightarrow> bool" where
  "authorized st headers =
     (let origin_matches = (case headers ''origin'' of None \<Rightarrow> False | Some v \<Rightarrow> v = gs_origin st);
          token_matches = (case headers BRIDGE_HEADER of None \<Rightarrow> False
            | Some v \<Rightarrow> constant_time_eq (as_bytes v) (as_bytes (gs_token st)))
      in origin_matches \<and> token_matches)"

text \<open>\<open>secure_token\<close>: 32 random bytes in hexadecimal.\<close>

definition secure_token :: "string + u8 list \<Rightarrow> string + string" where
  "secure_token random =
     (case random of
        Inl e \<Rightarrow> Inl (''cannot create desktop bridge token: '' @ e)
      | Inr bytes \<Rightarrow> Inr (encode_hex bytes))"

section \<open>The life of a command\<close>

record admitted =
  ad_key :: RequestKey
  ad_token :: nat
  ad_command :: string
  ad_timeout_ms :: u64
  ad_execution :: CommandExecution
  ad_isolation :: ProcessIsolation
  ad_isolation_key :: string
  ad_parent :: "TraceParent option"

text \<open>Registration: a key that is already there is replaced before the conflict is noticed.\<close>

definition register :: "GatewayState \<Rightarrow> RequestKey \<Rightarrow> GatewayState \<times> (http_response + nat)" where
  "register st key =
     (let token = gs_next_token st;
          st' = st\<lparr>gs_next_token := Suc token,
            gs_cancellations := (gs_cancellations st)(key \<mapsto> token)\<rparr>
      in if gs_cancellations st key \<noteq> None
         then (st', Inl (client_failure 409 InvalidMessage
           ''The bridge request identifier is already active.''))
         else (st', Inr token))"

definition first_command :: "u64 \<Rightarrow> GatewayMetrics \<Rightarrow> GatewayMetrics" where
  "first_command elapsed_ms m =
     (if gm_first_command_milliseconds m = 0
      then m\<lparr>gm_first_command_milliseconds := sat_add elapsed_ms 1\<rparr> else m)"

definition begin_request ::
    "GatewayState \<Rightarrow> u64 \<Rightarrow> u64 \<Rightarrow> string \<Rightarrow> u64 option \<Rightarrow> string \<Rightarrow> TraceParent option \<Rightarrow>
     GatewayState \<times> (http_response + admitted)" where
  "begin_request st elapsed_ms request_id window_id timeout_ms command parent =
     (if request_id = 0 \<or> \<not> has_window st window_id
      then (st, Inl (client_failure 400 InvalidMessage ''The bridge request identity is invalid.''))
      else let timeout_ms = (case timeout_ms of None \<Rightarrow> default_timeout_ms st | Some t \<Rightarrow> t) in
        if \<not> between MIN_COMMAND_TIMEOUT_MS MAX_COMMAND_TIMEOUT_MS timeout_ms
        then (st, Inl (client_failure 400 InvalidPayload
          ''The command timeout is outside the allowed range.''))
        else let key = \<lparr>rk_window_id = window_id, rk_request_id = request_id\<rparr> in
          case register st key of
            (st1, Inl conflict) \<Rightarrow> (st1, Inl conflict)
          | (st1, Inr token) \<Rightarrow>
              (let m = first_command elapsed_ms (gs_metrics st1);
                   m' = m\<lparr>gm_total_commands := gm_total_commands m + 1,
                          gm_active_commands := gm_active_commands m + 1\<rparr>
               in (st1\<lparr>gs_metrics := m'\<rparr>,
                   Inr \<lparr>ad_key = key, ad_token = token, ad_command = command,
                     ad_timeout_ms = timeout_ms, ad_execution = command_execution st1 command,
                     ad_isolation = process_isolation st1,
                     ad_isolation_key = isolation_key (gs_bootstrap st1) window_id,
                     ad_parent = parent\<rparr>)))"

definition run_request ::
    "host \<Rightarrow> GatewayState \<Rightarrow> admitted \<Rightarrow> json \<Rightarrow> call_env \<Rightarrow>
     GatewayState \<times> RequestEnvelope list \<times> (WorkerRequestError + ResponseEnvelope)" where
  "run_request h st a payload env =
     (let command = ad_command a; window_id = rk_window_id (ad_key a); t = ad_timeout_ms a in
      case ad_execution a of
        CommandExecution.Stateful \<Rightarrow>
          if ad_isolation a = ProcessIsolation.Shared
          then (case worker_call h (gs_supervisor st) command window_id payload t env of
                  (s, sent, result) \<Rightarrow> (st\<lparr>gs_supervisor := s\<rparr>, sent, result))
          else (case pool_request_keyed h (gs_pool st) (ad_isolation_key a) command window_id
                       payload t env of
                  (p, sent, result) \<Rightarrow> (st\<lparr>gs_pool := p\<rparr>, sent, result))
      | _ \<Rightarrow>
          (case pool_request h (gs_pool st) command window_id payload t env of
             (p, sent, result) \<Rightarrow> (st\<lparr>gs_pool := p\<rparr>, sent, result)))"

text \<open>\<open>span_times\<close> are the Unix times of the start and the end of the span.\<close>

definition export_command_span ::
    "GatewayState \<Rightarrow> admitted \<Rightarrow> CommandOutcome \<Rightarrow> u64 \<times> u64 \<Rightarrow> GatewayState" where
  "export_command_span st a outcome span_times =
     st\<lparr>gs_otlp := map_option (\<lambda>x. export_span x \<lparr>sp_command = ad_command a,
       sp_execution = ad_execution a, sp_outcome = outcome, sp_start = fst span_times,
       sp_end = snd span_times, sp_parent = ad_parent a\<rparr>) (gs_otlp st)\<rparr>"

definition count_failure :: "GatewayState \<Rightarrow> GatewayState" where
  "count_failure st = st\<lparr>gs_metrics :=
     (gs_metrics st)\<lparr>gm_failed_commands := gm_failed_commands (gs_metrics st) + 1\<rparr>\<rparr>"

definition settle_request :: "GatewayState \<Rightarrow> admitted \<Rightarrow> u64 \<Rightarrow> GatewayState" where
  "settle_request st a elapsed_ns =
     (let m = gs_metrics st in
      st\<lparr>gs_metrics := m\<lparr>gm_active_commands := gm_active_commands m - 1,
           gm_total_command_nanoseconds := gm_total_command_nanoseconds m + elapsed_ns,
           gm_command_microseconds := record_sample (gm_command_microseconds m) (elapsed_ns div 1000)\<rparr>,
         gs_cancellations := (gs_cancellations st)(ad_key a := None)\<rparr>)"

definition failure_answer :: "ResponseEnvelope \<Rightarrow> http_response" where
  "failure_answer response =
     json_response 422 (InvokeBody \<lparr>ir_ok = False, ir_data = JNull,
       ir_error = Some (case rs_error response of
          None \<Rightarrow> \<lparr>cl_code = ErrorCode_code Internal,
            cl_message = ''PHP worker returned an unspecified failure''\<rparr>
        | Some e \<Rightarrow> \<lparr>cl_code = ErrorCode_code (pe_code e), cl_message = pe_message e\<rparr>)\<rparr>)"

text \<open>The left of the outer sum is a task that panicked.\<close>

definition finish_request ::
    "GatewayState \<Rightarrow> admitted \<Rightarrow> u64 \<Rightarrow> u64 \<times> u64 \<Rightarrow>
     string + (WorkerRequestError + ResponseEnvelope) \<Rightarrow> GatewayState \<times> http_response" where
  "finish_request st a elapsed_ns span_times result =
     (let st1 = settle_request st a elapsed_ns in
      case result of
        Inr (Inl e) \<Rightarrow>
          (export_command_span (count_failure st1) a WorkerFailure span_times, worker_error_response e)
      | Inl e \<Rightarrow>
          (export_command_span (count_failure st1) a TaskFailure span_times,
           client_failure 502 WorkerCrashed (''The PHP worker task failed: '' @ e))
      | Inr (Inr response) \<Rightarrow>
          (let st2 = process_response st1 response in
           if rs_status response = ResponseStatus.Failure
           then (export_command_span (count_failure st2) a HandlerFailure span_times,
                 failure_answer response)
           else (export_command_span st2 a CommandOutcome.Success span_times,
                 json_response 200 (InvokeBody
                   \<lparr>ir_ok = True, ir_data = rs_payload response, ir_error = None\<rparr>))))"

text \<open>
  A command from its admission to its answer when nothing else runs meanwhile; \<open>re_panic\<close>
  says whether the blocking task panicked instead of returning.
\<close>

record request_env =
  re_elapsed_ms :: u64
  re_call :: call_env
  re_panic :: "string option"
  re_elapsed_ns :: u64
  re_times :: "u64 \<times> u64"

definition execute_request ::
    "host \<Rightarrow> GatewayState \<Rightarrow> u64 \<Rightarrow> string \<Rightarrow> u64 option \<Rightarrow> string \<Rightarrow> json \<Rightarrow> TraceParent option \<Rightarrow>
     request_env \<Rightarrow> GatewayState \<times> RequestEnvelope list \<times> http_response" where
  "execute_request h st request_id window_id timeout_ms command payload parent env =
     (case begin_request st (re_elapsed_ms env) request_id window_id timeout_ms command parent of
        (st1, Inl response) \<Rightarrow> (st1, [], response)
      | (st1, Inr a) \<Rightarrow>
          (case run_request h st1 a payload (re_call env) of
             (st2, sent, result) \<Rightarrow>
               (case finish_request st2 a (re_elapsed_ns env) (re_times env)
                       (case re_panic env of Some e \<Rightarrow> Inl e | None \<Rightarrow> Inr result) of
                  (st3, response) \<Rightarrow> (st3, sent, response))))"

record InvokeRequest =
  iq_request_id :: u64
  iq_command :: string
  iq_window_id :: string
  iq_timeout_ms :: "u64 option"
  iq_traceparent :: "string option"
  iq_payload :: json

definition invoke ::
    "host \<Rightarrow> GatewayState \<Rightarrow> headers \<Rightarrow> InvokeRequest \<Rightarrow> request_env \<Rightarrow>
     GatewayState \<times> RequestEnvelope list \<times> http_response" where
  "invoke h st headers q env =
     (if \<not> authorized st headers then (st, [], unauthorized_response)
      else if validate_identifier (iq_command q) ''command'' \<noteq> Inr ()
      then (st, [], client_failure 400 InvalidMessage ''The command name is invalid.'')
      else case iq_traceparent q of
        None \<Rightarrow> execute_request h st (iq_request_id q) (iq_window_id q) (iq_timeout_ms q)
          (iq_command q) (iq_payload q) None env
      | Some v \<Rightarrow>
          (case parse_traceparent v of
             None \<Rightarrow> (st, [], client_failure 400 InvalidMessage
               ''The traceparent is not a valid W3C version 00 context.'')
           | Some parent \<Rightarrow> execute_request h st (iq_request_id q) (iq_window_id q)
               (iq_timeout_ms q) (iq_command q) (iq_payload q) (Some parent) env))"

definition EVENT_COMMAND :: string where
  "EVENT_COMMAND = ''@pam/event''"

record EmitRequest =
  eq_request_id :: u64
  eq_name :: string
  eq_window_id :: string
  eq_timeout_ms :: "u64 option"
  eq_payload :: json

definition emit ::
    "host \<Rightarrow> GatewayState \<Rightarrow> headers \<Rightarrow> EmitRequest \<Rightarrow> request_env \<Rightarrow>
     GatewayState \<times> RequestEnvelope list \<times> http_response" where
  "emit h st headers q env =
     (if \<not> authorized st headers then (st, [], unauthorized_response)
      else if validate_identifier (eq_name q) ''event'' \<noteq> Inr ()
      then (st, [], client_failure 400 InvalidMessage ''The event name is invalid.'')
      else execute_request h st (eq_request_id q) (eq_window_id q) (eq_timeout_ms q) EVENT_COMMAND
        (JObject [(''name'', JString (eq_name q)), (''payload'', eq_payload q)]) None env)"

record CancelRequest =
  cq_request_id :: u64
  cq_window_id :: string

definition cancel :: "GatewayState \<Rightarrow> headers \<Rightarrow> CancelRequest \<Rightarrow> GatewayState \<times> http_response" where
  "cancel st headers q =
     (if \<not> authorized st headers then (st, unauthorized_response)
      else let cancellation = gs_cancellations st
             \<lparr>rk_window_id = cq_window_id q, rk_request_id = cq_request_id q\<rparr>
        in ((case cancellation of
               None \<Rightarrow> st
             | Some token \<Rightarrow> st\<lparr>gs_cancelled := insert token (gs_cancelled st)\<rparr>),
            json_response 200 (CancelBody (cancellation \<noteq> None))))"

text \<open>The long poll: \<open>rounds\<close> and \<open>hub_later\<close> are what it sees of the hub.\<close>

definition events ::
    "GatewayState \<Rightarrow> headers \<Rightarrow> u64 \<Rightarrow> string \<Rightarrow> (EventState \<times> bool) list \<Rightarrow> EventState \<Rightarrow>
     http_response option" where
  "events st headers after window_id rounds hub_later =
     (if \<not> authorized st headers then Some unauthorized_response
      else if \<not> has_window st window_id
      then Some (client_failure 400 InvalidMessage ''The event window is invalid.'')
      else map_option (\<lambda>evs. json_response 200 (EventBody (poll_response evs hub_later)))
        (poll after window_id rounds))"

end
