(* ===== verification/GatewayClaims.thy ===== *)
theory GatewayClaims
  imports Gateway NativeClaims
begin

text \<open>
  What the gateway promises: who may speak to it, which worker a window gets, that the registry of
  running commands cancels exactly the command that is meant, and what its numbers mean.
\<close>

section \<open>Authentication\<close>

lemma xor_zero_iff: "xor a b = 0 \<longleftrightarrow> a = b" for a b :: u8
proof
  assume "xor a b = 0"
  then have "xor (xor a b) b = xor 0 b" by simp
  then show "a = b" by (simp only: xor.assoc xor_self_eq xor.right_neutral xor.left_neutral)
qed simp

lemma or_xor_fold_zero:
  "foldl (\<lambda>d (l, r). or d (xor l r)) d (zip ls rs) = 0 \<longleftrightarrow>
     d = (0 :: u8) \<and> (\<forall>(l, r) \<in> set (zip ls rs). l = r)"
proof (induction ls arbitrary: d rs)
  case (Cons l ls)
  show ?case
  proof (cases rs)
    case (Cons r rs')
    have "or d (xor l r) = 0 \<longleftrightarrow> d = 0 \<and> l = r"
      by (simp add: or_eq_0_iff xor_zero_iff)
    with Cons Cons.IH show ?thesis by simp
  qed simp
qed simp

lemma constant_time_eq_iff: "constant_time_eq ls rs \<longleftrightarrow> ls = rs"
proof -
  have "constant_time_eq ls rs \<longleftrightarrow> list_all2 (=) ls rs"
    by (simp only: constant_time_eq_def or_xor_fold_zero list_all2_iff) auto
  then show ?thesis by (simp only: list_all2_eq [symmetric])
qed

lemma as_bytes_inj: "as_bytes s = as_bytes t \<longleftrightarrow> s = t"
proof -
  have "inj (\<lambda>c. of_nat (byte c) :: u8)"
  proof (rule injI)
    fix c d assume "(of_nat (byte c) :: u8) = of_nat (byte d)"
    then have "unat (of_nat (byte c) :: u8) = unat (of_nat (byte d) :: u8)" by simp
    moreover have "byte c < 256" "byte d < 256" by (simp_all add: byte_def)
    ultimately have "byte c = byte d" by (simp add: unsigned_of_nat take_bit_nat_eq_self)
    then show "c = d" by (simp add: byte_def)
  qed
  then show ?thesis by (simp add: as_bytes_def inj_map_eq_map)
qed

lemma authorized_iff:
  "authorized st headers \<longleftrightarrow>
     headers ''origin'' = Some (gs_origin st) \<and> headers BRIDGE_HEADER = Some (gs_token st)"
  by (auto simp: authorized_def Let_def constant_time_eq_iff as_bytes_inj split: option.splits)

text \<open>
  C27. The comparison without an early exit decides equality: a request is authorized exactly when its
  origin header is the origin of the gateway and its bridge header is the token, byte for byte.
\<close>

theorem authorized_iff_origin_and_token:
  "authorized st headers \<longleftrightarrow>
     headers ''origin'' = Some (gs_origin st) \<and> headers BRIDGE_HEADER = Some (gs_token st)"
  by (auto simp: authorized_def Let_def constant_time_eq_iff as_bytes_inj split: option.splits)

section \<open>Affinities\<close>

text \<open>
  A pool after any requests, where the keyed requests have keys in \<open>K\<close>.
\<close>

inductive pool_used :: "host \<Rightarrow> string set \<Rightarrow> nat \<Rightarrow> WorkerPool \<Rightarrow> bool" for h K n where
  prepared: "pool_prepare h envs n = Inr p \<Longrightarrow> pool_used h K n p"
| in_turn: "pool_used h K n p \<Longrightarrow>
    pool_request h p command window payload timeout env = (p', sent, r) \<Longrightarrow> pool_used h K n p'"
| keyed: "pool_used h K n p \<Longrightarrow> key \<in> K \<Longrightarrow>
    pool_request_keyed h p key command window payload timeout env = (p', sent, r) \<Longrightarrow>
    pool_used h K n p'"

definition affinity_ok :: "string set \<Rightarrow> nat \<Rightarrow> WorkerPool \<Rightarrow> bool" where
  "affinity_ok K n p \<longleftrightarrow> length (wp_workers p) = n \<and> dom (wp_affinities p) \<subseteq> K \<and>
     inj_on (wp_affinities p) (dom (wp_affinities p)) \<and>
     ran (wp_affinities p) = {..<unat (wp_next_affinity p)} \<and>
     unat (wp_next_affinity p) = card (dom (wp_affinities p))"

lemma pool_workers_length: "pool_workers h envs n = Inr ws \<Longrightarrow> length ws = n"
  by (induction n arbitrary: ws) (auto simp: rbind_Inr_iff)

lemma pool_call_kept:
  "pool_call h (p, r) command window payload timeout env = (p', sent, result) \<Longrightarrow>
     length (wp_workers p') = length (wp_workers p) \<and> wp_affinities p' = wp_affinities p \<and>
     wp_next_affinity p' = wp_next_affinity p \<and> wp_next p' = wp_next p"
  by (auto simp: pool_call_def split: sum.splits prod.splits)

lemma pool_select_kept:
  "pool_select p = (p', r) \<Longrightarrow> wp_workers p' = wp_workers p \<and> wp_affinities p' = wp_affinities p \<and>
     wp_next_affinity p' = wp_next_affinity p"
  by (auto simp: pool_select_def split: if_splits)

lemma affinity_step:
  assumes ok: "affinity_ok K n p" and K: "finite K" "card K \<le> n" "n < 2 ^ 64" and key: "key \<in> K"
  obtains p' i where "pool_affinity p key = (p', Inr i)" "i < n" "affinity_ok K n p'"
    "wp_affinities p' key = Some i"
    "\<And>k j. wp_affinities p k = Some j \<Longrightarrow> wp_affinities p' k = Some j"
proof -
  have "card K > 0" using K(1) key card_gt_0_iff by blast
  then have workers: "wp_workers p \<noteq> []" "length (wp_workers p) = n"
    using ok K(2) by (auto simp: affinity_ok_def)
  have fin: "finite (dom (wp_affinities p))"
    using ok K(1) finite_subset by (auto simp: affinity_ok_def)
  show ?thesis
  proof (cases "wp_affinities p key")
    case (Some i)
    have "i \<in> ran (wp_affinities p)" using Some by (rule ranI)
    then have "i < card (dom (wp_affinities p))" using ok by (simp add: affinity_ok_def)
    also have "\<dots> \<le> card K" using ok K(1) by (simp add: affinity_ok_def card_mono)
    finally have "i < n" using K(2) by simp
    with Some ok workers show ?thesis
      by (intro that [of p i]) (simp_all add: pool_affinity_def)
  next
    case None
    let ?i = "unat (wp_next_affinity p)"
    have "dom (wp_affinities p) \<subset> K" using ok key None by (auto simp: affinity_ok_def)
    then have "card (dom (wp_affinities p)) < card K" using K(1) psubset_card_mono by blast
    then have i: "?i < n" using ok K(2) by (simp add: affinity_ok_def)
    then have succ: "unat (wp_next_affinity p + 1) = Suc ?i"
      using K(3) by (simp add: unat_word_ariths)
    define p' where "p' = p\<lparr>wp_next_affinity := wp_next_affinity p + 1,
      wp_affinities := (wp_affinities p)(key \<mapsto> ?i)\<rparr>"
    have fresh: "?i \<notin> ran (wp_affinities p)" using ok by (simp add: affinity_ok_def)
    have "inj_on (wp_affinities p') (dom (wp_affinities p'))"
      using ok fresh None
      by (auto simp: p'_def affinity_ok_def inj_on_def ran_def dom_def)
    moreover have "ran (wp_affinities p') = {..<Suc ?i}"
      using ok None by (auto simp: p'_def affinity_ok_def lessThan_Suc)
    moreover have "card (dom (wp_affinities p')) = Suc ?i"
      using ok None fin by (simp add: p'_def affinity_ok_def domIff)
    ultimately have "affinity_ok K n p'"
      using ok key succ by (auto simp: affinity_ok_def p'_def)
    moreover have "pool_affinity p key = (p', Inr ?i)"
      using None i workers by (simp add: pool_affinity_def p'_def Let_def)
    ultimately show ?thesis
      using i None by (intro that [of p' ?i]) (auto simp: p'_def)
  qed
qed

lemma pool_used_ok:
  assumes "pool_used h K n p" "finite K" "card K \<le> n" "n < 2 ^ 64"
  shows "affinity_ok K n p"
  using assms(1)
proof (induction rule: pool_used.induct)
  case (prepared envs p)
  then show ?case
    by (auto simp: pool_prepare_def rbind_Inr_iff affinity_ok_def dest: pool_workers_length)
next
  case (in_turn p command window payload timeout env p' sent r)
  obtain q s where q: "pool_select p = (q, s)" by fastforce
  with in_turn.hyps(2) have "pool_call h (q, s) command window payload timeout env = (p', sent, r)"
    by (simp add: pool_request_def)
  from pool_call_kept [OF this] pool_select_kept [OF q] in_turn.IH show ?case
    by (simp add: affinity_ok_def)
next
  case (keyed p key command window payload timeout env p' sent r)
  obtain q i where q: "pool_affinity p key = (q, Inr i)" "affinity_ok K n q"
    using affinity_step [OF keyed.IH assms(2-4) keyed.hyps(2)] by metis
  with keyed.hyps(3) have "pool_call h (q, Inr i) command window payload timeout env = (p', sent, r)"
    by (simp add: pool_request_keyed_def)
  from pool_call_kept [OF this] q(2) show ?case
    by (simp add: affinity_ok_def)
qed

section \<open>Isolation keys\<close>

definition window_ids :: "Bootstrap \<Rightarrow> string set" where
  "window_ids b = wc_id ` set (bs_windows b)"

lemma window_parent_registered:
  assumes "validate_bootstrap parse_url debug b = Inr ()" "window_parent b w = Some parent"
  shows "parent \<in> window_ids b"
proof -
  obtain profile where "(w, profile) \<in> set (ws_windows (bs_workstation b))" "wp_parent profile = Some parent"
    using assms(2) by (auto simp: window_parent_def bind_eq_Some_conv dest: map_of_SomeD)
  with validate_bootstrap_parts(10) [OF assms(1)] show ?thesis
    by (fastforce simp: validate_workstation_def Let_def result_simps validate_window_profile_def
        window_ids_def)
qed

lemma parent_chain_registered:
  assumes "validate_bootstrap parse_url debug b = Inr ()" "w \<in> window_ids b"
  shows "parent_chain b depth w \<in> window_ids b"
  using assms
proof (induction b depth w rule: parent_chain.induct)
  case (1 b depth w)
  show ?case
  proof (cases "window_parent b w")
    case None
    with 1 show ?thesis by (subst parent_chain.simps) simp
  next
    case (Some parent)
    with 1 window_parent_registered have "parent \<in> window_ids b" by blast
    with 1 Some show ?thesis by (subst parent_chain.simps) simp
  qed
qed

lemma isolation_key_registered:
  "validate_bootstrap parse_url debug b = Inr () \<Longrightarrow> w \<in> window_ids b \<Longrightarrow>
     isolation_key b w \<in> window_ids b"
  by (simp add: isolation_key_def parent_chain_registered)

text \<open>
  With isolated processes no window is refused a worker, and two windows share one exactly when
  they have the same isolation key: the window itself, or the root of its workspace.
\<close>

theorem isolated_windows_have_own_workers:
  assumes "validate_bootstrap parse_url debug b = Inr ()"
    and "ws_isolation (bs_workstation b) \<noteq> ProcessIsolation.Shared"
    and "length (bs_windows b) < 2 ^ 64"
    and "pool_used h (isolation_key b ` window_ids b) (requested_parallel_count b) p"
    and "v \<in> window_ids b" and "w \<in> window_ids b"
    and "pool_affinity p (isolation_key b v) = (p', i)"
    and "pool_affinity p' (isolation_key b w) = (p'', j)"
  shows "\<exists>m n. i = Inr m \<and> j = Inr n \<and> (m = n \<longleftrightarrow> isolation_key b v = isolation_key b w)"
proof -
  let ?K = "isolation_key b ` window_ids b" and ?n = "requested_parallel_count b"
  have "?K \<subseteq> window_ids b" using isolation_key_registered [OF assms(1)] by auto
  then have "card ?K \<le> card (window_ids b)" by (simp add: card_mono window_ids_def)
  also have "\<dots> \<le> length (bs_windows b)"
    by (simp add: window_ids_def) (metis card_length length_map set_map)
  finally have K: "finite ?K" "card ?K \<le> ?n"
    using assms(2) by (auto simp: window_ids_def requested_parallel_count_def)
  have "unat (bs_parallel_worker_count b) < 2 ^ LENGTH(8)" by (rule unsigned_less)
  then have "unat (bs_parallel_worker_count b) < 2 ^ 64" by simp
  then have n: "?n < 2 ^ 64" using assms(2,3) by (simp add: requested_parallel_count_def)
  have keys: "isolation_key b v \<in> ?K" "isolation_key b w \<in> ?K" using assms(5,6) by simp_all
  have used: "affinity_ok ?K ?n p" using assms(4) K n by (rule pool_used_ok)
  obtain q m where q: "pool_affinity p (isolation_key b v) = (q, Inr m)" "affinity_ok ?K ?n q"
    "wp_affinities q (isolation_key b v) = Some m"
    by (rule affinity_step [OF used K n keys(1)]) (rule that, assumption, assumption, assumption)
  obtain q' k where q': "pool_affinity q (isolation_key b w) = (q', Inr k)" "affinity_ok ?K ?n q'"
    "wp_affinities q' (isolation_key b w) = Some k"
    and kept: "\<And>l j. wp_affinities q l = Some j \<Longrightarrow> wp_affinities q' l = Some j"
    by (rule affinity_step [OF q(2) K n keys(2)]) (rule that, assumption, assumption, assumption, blast)
  have "wp_affinities q' (isolation_key b v) = Some m" using q(3) by (rule kept)
  then have "m = k \<longleftrightarrow> isolation_key b v = isolation_key b w"
    using q'(2,3) by (auto simp: affinity_ok_def inj_on_def dom_def)
  then show ?thesis
    using assms(7,8) q(1) q'(1) by auto
qed

section \<open>The registry\<close>

text \<open>
  The gateway with the commands that run, and the number of commands begun: commands are
  admitted, run and finished, cancelled, and anything else happens that leaves the registry and
  the counters alone.  No active identifier is used again.
\<close>

definition registry_untouched :: "GatewayState \<Rightarrow> GatewayState \<Rightarrow> bool" where
  "registry_untouched st st' \<longleftrightarrow> gs_cancellations st' = gs_cancellations st \<and>
     gs_cancelled st' = gs_cancelled st \<and> gs_next_token st' = gs_next_token st \<and>
     gm_total_commands (gs_metrics st') = gm_total_commands (gs_metrics st) \<and>
     gm_active_commands (gs_metrics st') = gm_active_commands (gs_metrics st)"

inductive bridging :: "nat \<Rightarrow> admitted list \<Rightarrow> GatewayState \<Rightarrow> bool" where
  quiet: "gs_cancellations st = Map.empty \<Longrightarrow> gs_cancelled st = {} \<Longrightarrow>
    gs_metrics st = GatewayMetrics_default \<Longrightarrow> bridging 0 [] st"
| begun: "bridging n running st \<Longrightarrow>
    gs_cancellations st \<lparr>rk_window_id = window_id, rk_request_id = request_id\<rparr> = None \<Longrightarrow>
    begin_request st elapsed request_id window_id timeout command parent = (st', Inr a) \<Longrightarrow>
    bridging (Suc n) (a # running) st'"
| finished: "bridging n running st \<Longrightarrow> a \<in> set running \<Longrightarrow>
    finish_request st a elapsed_ns span_times result = (st', answer) \<Longrightarrow>
    bridging n (remove1 a running) st'"
| cancelled: "bridging n running st \<Longrightarrow> cancel st headers q = (st', answer) \<Longrightarrow>
    bridging n running st'"
| elsewhere: "bridging n running st \<Longrightarrow> registry_untouched st st' \<Longrightarrow> bridging n running st'"

definition registered :: "admitted list \<Rightarrow> RequestKey \<rightharpoonup> nat" where
  "registered running = map_of (map (\<lambda>a. (ad_key a, ad_token a)) running)"

definition registry_ok :: "nat \<Rightarrow> admitted list \<Rightarrow> GatewayState \<Rightarrow> bool" where
  "registry_ok n running st \<longleftrightarrow>
     gs_cancellations st = registered running \<and> distinct (map ad_key running) \<and>
     distinct (map ad_token running) \<and> (\<forall>a \<in> set running. ad_token a < gs_next_token st) \<and>
     (\<forall>t \<in> gs_cancelled st. t < gs_next_token st) \<and>
     gm_total_commands (gs_metrics st) = of_nat n \<and>
     gm_active_commands (gs_metrics st) = of_nat (length running)"

lemma registered_iff:
  assumes "distinct (map ad_key running)"
  shows "registered running k = Some t \<longleftrightarrow> (\<exists>a \<in> set running. ad_key a = k \<and> ad_token a = t)"
proof -
  have "distinct (map fst (map (\<lambda>a. (ad_key a, ad_token a)) running))"
    using assms by (simp add: comp_def)
  then show ?thesis
    by (auto simp: registered_def image_iff)
qed

lemma registered_None: "registered running k = None \<longleftrightarrow> k \<notin> ad_key ` set running"
  by (auto simp: registered_def map_of_eq_None_iff image_iff)

lemma begin_request_Inr:
  assumes "begin_request st elapsed request_id window_id timeout command parent = (st', Inr a)"
  shows "ad_key a = \<lparr>rk_window_id = window_id, rk_request_id = request_id\<rparr> \<and>
    ad_token a = gs_next_token st \<and> ad_command a = command \<and>
    gs_cancellations st (ad_key a) = None \<and>
    gs_cancellations st' = (gs_cancellations st)(ad_key a \<mapsto> ad_token a) \<and>
    gs_next_token st' = Suc (gs_next_token st) \<and> gs_cancelled st' = gs_cancelled st \<and>
    gm_total_commands (gs_metrics st') = gm_total_commands (gs_metrics st) + 1 \<and>
    gm_active_commands (gs_metrics st') = gm_active_commands (gs_metrics st) + 1 \<and>
    has_window st window_id \<and> request_id \<noteq> 0"
  using assms
  by (auto simp: begin_request_def register_def Let_def first_command_def split: if_splits)

lemma foldl_publish_kept:
  "registry_untouched st (foldl publish_event st es)"
  by (induction es rule: rev_induct) (auto simp: registry_untouched_def publish_event_def)

lemma process_response_kept: "registry_untouched st (process_response st response)"
proof -
  let ?s = "if rs_effects response \<noteq> [] then send_event st (ApplyEffects (rs_effects response)) else st"
  have "registry_untouched st ?s" by (simp add: registry_untouched_def send_event_def)
  with foldl_publish_kept [of ?s "rs_events response"] show ?thesis
    by (simp add: process_response_def registry_untouched_def)
qed

lemma export_kept: "registry_untouched st (export_command_span st a outcome span_times)"
  by (simp add: registry_untouched_def export_command_span_def)

lemma failure_kept: "registry_untouched st (count_failure st)"
  by (simp add: registry_untouched_def count_failure_def)

lemma untouched_refl [simp]: "registry_untouched st st"
  by (simp add: registry_untouched_def)

lemma untouched_trans:
  "registry_untouched a b \<Longrightarrow> registry_untouched b c \<Longrightarrow> registry_untouched a c"
  by (simp add: registry_untouched_def)

lemma finish_request_kept:
  assumes "finish_request st a elapsed_ns span_times result = (st', answer)"
  shows "registry_untouched (settle_request st a elapsed_ns) st'"
  using assms
  by (auto simp: finish_request_def Let_def split: sum.splits if_splits
      intro!: untouched_trans [OF _ export_kept] untouched_trans [OF _ failure_kept]
        process_response_kept)

lemma distinct_remove1_map: "distinct (map f xs) \<Longrightarrow> distinct (map f (remove1 a xs))"
  by (simp add: distinct_map) (blast intro: inj_on_diff)

lemma settle_registered:
  assumes "distinct (map ad_key running)" "a \<in> set running"
  shows "(registered running)(ad_key a := None) = registered (remove1 a running)"
proof (rule ext)
  fix k
  have d: "distinct running" "distinct (map ad_key (remove1 a running))"
    using assms(1) distinct_remove1_map [OF assms(1)] by (simp_all add: distinct_map)
  have "((registered running)(ad_key a := None)) k = Some t \<longleftrightarrow> registered (remove1 a running) k = Some t" for t
    using assms d by (auto simp: registered_iff [OF assms(1)] registered_iff [OF d(2)] distinct_map inj_on_def)
  then show "((registered running)(ad_key a := None)) k = registered (remove1 a running) k"
    by (metis option.exhaust)
qed

lemma bridging_ok: "bridging n running st \<Longrightarrow> registry_ok n running st"
proof (induction rule: bridging.induct)
  case (quiet st)
  then show ?case by (simp add: registry_ok_def registered_def GatewayMetrics_default_def)
next
  case (begun n running st window_id request_id elapsed timeout command parent st' a)
  note new = begin_request_Inr [OF begun.hyps(3)]
  have "registered running (ad_key a) = None" "gs_cancellations st = registered running"
    using begun.IH new by (auto simp: registry_ok_def)
  then have key: "ad_key a \<notin> ad_key ` set running" by (simp add: registered_None)
  moreover have "ad_token a \<notin> ad_token ` set running"
    using begun.IH new by (auto simp: registry_ok_def)
  moreover have "gs_cancellations st' = registered (a # running)"
    using new \<open>gs_cancellations st = _\<close> by (simp add: registered_def)
  ultimately show ?case
    using begun.IH new by (auto simp: registry_ok_def less_Suc_eq)
next
  case (finished n running st a elapsed_ns span_times result st' answer)
  have st': "gs_cancellations st' = (registered running)(ad_key a := None)"
    "gs_cancelled st' = gs_cancelled st" "gs_next_token st' = gs_next_token st"
    "gm_total_commands (gs_metrics st') = gm_total_commands (gs_metrics st)"
    "gm_active_commands (gs_metrics st') = gm_active_commands (gs_metrics st) - 1"
    using finish_request_kept [OF finished.hyps(3)] finished.IH
    by (simp_all add: registry_untouched_def settle_request_def Let_def registry_ok_def)
  have "length running = Suc (length (remove1 a running))"
    using length_pos_if_in_set [OF finished.hyps(2)] finished.hyps(2) by (simp add: length_remove1)
  moreover have "set (remove1 a running) \<subseteq> set running" by (rule set_remove1_subset)
  ultimately show ?case
    using st' finished.IH settle_registered [OF _ finished.hyps(2)]
    by (auto simp: registry_ok_def intro: distinct_remove1_map)
next
  case (cancelled n running st headers q st' answer)
  then show ?case
    by (auto simp: registry_ok_def cancel_def Let_def registered_iff split: if_splits option.splits)
next
  case (elsewhere n running st st')
  then show ?case by (simp add: registry_ok_def registry_untouched_def)
qed

section \<open>Cancellation\<close>

text \<open>
  C29. As long as no page uses the number of a command again while it runs, a cancellation reaches
  exactly the command it names: of the commands that run, the token of one is set afterwards if and
  only if it was set before or the window and the number are its own.
\<close>

theorem cancel_reaches_exactly_its_request:
  assumes "bridging n running st"
    and "authorized st headers"
    and "cancel st headers q = (st', answer)"
    and "a \<in> set running"
  shows "ad_token a \<in> gs_cancelled st' \<longleftrightarrow>
    ad_token a \<in> gs_cancelled st \<or>
    ad_key a = \<lparr>rk_window_id = cq_window_id q, rk_request_id = cq_request_id q\<rparr>"
proof -
  have ok: "registry_ok n running st" using assms(1) by (rule bridging_ok)
  then have d: "distinct (map ad_key running)" "distinct (map ad_token running)"
    and c: "gs_cancellations st = registered running"
    by (simp_all add: registry_ok_def)
  let ?k = "\<lparr>rk_window_id = cq_window_id q, rk_request_id = cq_request_id q\<rparr>"
  show ?thesis
  proof (cases "registered running ?k")
    case None
    then have "ad_key a \<noteq> ?k" using assms(4) by (metis imageI registered_None)
    with None show ?thesis using assms(2,3) c by (auto simp: cancel_def)
  next
    case (Some t)
    then obtain b where b: "b \<in> set running" "ad_key b = ?k" "ad_token b = t"
      using registered_iff [OF d(1)] by blast
    have "ad_token a = t \<longleftrightarrow> ad_key a = ?k"
      using b d assms(4) by (metis distinct_map inj_onD)
    with Some show ?thesis using assms(2,3) c by (auto simp: cancel_def)
  qed
qed

section \<open>Samples\<close>

lemma percentile_index_eq:
  assumes "0 < n" "n \<le> PERFORMANCE_SAMPLE_LIMIT" "percent \<le> 100"
  shows "percentile_index n percent = ((n - 1) * percent + 99) div 100"
proof -
  have "(n - 1) * percent \<le> 2047 * 100"
    using assms by (intro mult_le_mono) (simp_all add: PERFORMANCE_SAMPLE_LIMIT_def)
  then have "min ((n - 1) * percent) (2 ^ 64 - 1) = (n - 1) * percent" by simp
  then show ?thesis by (simp only: percentile_index_def)
qed

lemma sorted_count_le:
  assumes "sorted vs" "i < length vs"
  shows "Suc i \<le> length (filter (\<lambda>x. x \<le> vs ! i) vs)"
proof -
  have "filter (\<lambda>x. x \<le> vs ! i) (take (Suc i) vs) = take (Suc i) vs"
    using assms by (intro filter_True) (auto simp: in_set_conv_nth sorted_nth_mono)
  then have "Suc i = length (filter (\<lambda>x. x \<le> vs ! i) (take (Suc i) vs))" using assms by simp
  also have "\<dots> \<le> length (filter (\<lambda>x. x \<le> vs ! i) (take (Suc i) vs @ drop (Suc i) vs))"
    by (simp only: filter_append length_append le_add1)
  finally show ?thesis by (simp only: append_take_drop_id)
qed

lemma sorted_count_less:
  assumes "sorted vs" "i < length vs"
  shows "length (filter (\<lambda>x. x < vs ! i) vs) \<le> i"
proof -
  have "filter (\<lambda>x. x < vs ! i) (drop i vs) = []"
    using assms by (auto simp: filter_empty_conv in_set_conv_nth not_less intro!: sorted_nth_mono)
  then have "filter (\<lambda>x. x < vs ! i) vs = filter (\<lambda>x. x < vs ! i) (take i vs)"
    by (metis append_Nil2 append_take_drop_id filter_append)
  then show ?thesis by (metis length_filter_le length_take min.boundedE)
qed

lemma filter_sort_length: "length (filter P (sort xs)) = length (filter P xs)"
  by (simp add: filter_sort)

text \<open>
  The percentile of the recorded samples is one of them; at least that share of the samples is not
  above it, and the samples below it are at most that share of the others, rounded up.
\<close>

theorem percentile_splits_samples:
  assumes "samples \<noteq> []" and "length samples \<le> PERFORMANCE_SAMPLE_LIMIT" and "percent \<le> 100"
  shows "\<exists>v \<in> set samples. percentile samples percent = Some v \<and>
    percent * length samples \<le> 100 * length (filter (\<lambda>x. x \<le> v) samples) \<and>
    100 * length (filter (\<lambda>x. x < v) samples) \<le> percent * (length samples - 1) + 99"
proof -
  let ?vs = "sort samples" and ?n = "length samples" and ?i = "percentile_index (length samples) percent"
  have i: "?i = ((?n - 1) * percent + 99) div 100"
    using assms by (intro percentile_index_eq) simp_all
  have "(?n - 1) * percent + 99 \<le> (?n - 1) * 100 + 99" using assms(3) by simp
  also have "\<dots> < ?n * 100" using assms(1) by (cases samples) simp_all
  finally have lt: "?i < ?n" using i by (simp add: less_mult_imp_div_less)
  have up: "(?n - 1) * percent \<le> 100 * ?i" and down: "100 * ?i \<le> (?n - 1) * percent + 99"
    using i by auto
  let ?v = "?vs ! ?i"
  have "percentile samples percent = Some ?v"
    using assms(1) lt by (simp add: percentile_def Let_def)
  moreover have "?v \<in> set samples" using lt by (metis length_sort nth_mem set_sort)
  moreover have "Suc ?i \<le> length (filter (\<lambda>x. x \<le> ?v) samples)"
    using sorted_count_le [of ?vs ?i] lt by (simp add: filter_sort_length)
  moreover have "length (filter (\<lambda>x. x < ?v) samples) \<le> ?i"
    using sorted_count_less [of ?vs ?i] lt by (simp add: filter_sort_length)
  moreover have "percent * ?n \<le> (?n - 1) * percent + 100"
    using assms(1,3) by (cases samples) (auto simp: algebra_simps)
  ultimately show ?thesis using up down
    by (intro bexI [of _ ?v]) (auto simp: mult.commute)
qed

theorem percentile_splits_samples_witness:
  "\<exists>v \<in> set [30, 10, 20 :: u64]. percentile [30, 10, 20] 95 = Some v \<and>
    95 * length [30, 10, 20 :: u64] \<le> 100 * length (filter (\<lambda>x. x \<le> v) [30, 10, 20]) \<and>
    100 * length (filter (\<lambda>x. x < v) [30, 10, 20]) \<le> 95 * (length [30, 10, 20 :: u64] - 1) + 99"
  by (rule percentile_splits_samples) (simp_all add: PERFORMANCE_SAMPLE_LIMIT_def)

lemma record_sample_bounded:
  "length samples \<le> PERFORMANCE_SAMPLE_LIMIT \<Longrightarrow>
     length (record_sample samples v) \<le> PERFORMANCE_SAMPLE_LIMIT"
  by (auto simp: record_sample_def PERFORMANCE_SAMPLE_LIMIT_def)

text \<open>The report of budget violations is empty exactly when every measured value is within its budget.\<close>

definition within :: "u64 option \<Rightarrow> u32 \<Rightarrow> bool" where
  "within v limit \<longleftrightarrow> (case v of None \<Rightarrow> True | Some n \<Rightarrow> unat n \<le> unat limit)"

lemma unat_ucast_u64: "unat (ucast limit :: u64) = unat limit" for limit :: u32
proof -
  have "unat limit < 2 ^ LENGTH(32)" by (rule unsigned_less)
  then show ?thesis by (simp add: unsigned_ucast_eq take_bit_nat_eq_self_iff)
qed

lemma within_iff:
  "(case v of None \<Rightarrow> False | Some n \<Rightarrow> n > ucast limit) \<longleftrightarrow> \<not> within v limit" for limit :: u32
  by (cases v) (simp_all add: within_def word_less_nat_alt unat_ucast_u64 not_le)

text \<open>
  The memory budget is in mebibytes: a \<open>u32\<close> of them never overflows the 64-bit comparison, so
  the saturation of the product is without effect.
\<close>

lemma memory_budget_exact:
  "unat (sat_mul (ucast limit) (1024 * 1024 :: u64)) = unat limit * 1048576" for limit :: u32
proof -
  have "unat limit < 2 ^ LENGTH(32)" by (rule unsigned_less)
  then show ?thesis by (simp add: unat_sat_mul unat_ucast_u64)
qed

theorem no_violation_iff_within_budget:
  "performance_violations budget warm startup memory ipc frame = [] \<longleftrightarrow>
     within startup (if warm then pb_warm_start_milliseconds budget
       else pb_cold_start_milliseconds budget) \<and>
     unat memory \<le> unat (pb_idle_memory_megabytes budget) * 1048576 \<and>
     within ipc (pb_ipc_p95_microseconds budget) \<and> within frame (pb_frame_p95_microseconds budget)"
proof -
  have "memory > sat_mul (ucast limit) (1024 * 1024) \<longleftrightarrow> \<not> unat memory \<le> unat limit * 1048576"
    for limit :: u32
    by (simp only: word_less_nat_alt memory_budget_exact not_le)
  then show ?thesis
    by (simp only: performance_violations_def Let_def within_iff) auto
qed

section \<open>Deviations\<close>

lemma begin_request_twice:
  assumes "begin_request st t0 request_id window_id timeout command parent = (st1, Inr a)"
    and "begin_request st1 t1 request_id window_id timeout command parent = (st2, r)"
  shows "st2 = st1\<lparr>gs_next_token := Suc (gs_next_token st1),
      gs_cancellations := (gs_cancellations st1)(ad_key a \<mapsto> gs_next_token st1)\<rparr>"
proof -
  let ?t = "case timeout of None \<Rightarrow> default_timeout_ms st | Some t \<Rightarrow> t"
  have ok: "request_id \<noteq> 0" "has_window st window_id"
    "between MIN_COMMAND_TIMEOUT_MS MAX_COMMAND_TIMEOUT_MS ?t"
    using assms(1) by (simp_all add: begin_request_def Let_def split: if_splits)
  have "gs_bootstrap st1 = gs_bootstrap st"
    using assms(1) by (auto simp: begin_request_def register_def Let_def split: if_splits)
  then have same: "has_window st1 = has_window st" "default_timeout_ms st1 = default_timeout_ms st"
    by (simp_all add: has_window_def default_timeout_ms_def fun_eq_iff)
  have "gs_cancellations st1 \<lparr>rk_window_id = window_id, rk_request_id = request_id\<rparr> = Some (ad_token a)"
    "ad_key a = \<lparr>rk_window_id = window_id, rk_request_id = request_id\<rparr>"
    using begin_request_Inr [OF assms(1)] by auto
  moreover have "between MIN_COMMAND_TIMEOUT_MS MAX_COMMAND_TIMEOUT_MS
      (case timeout of None \<Rightarrow> default_timeout_ms st1 | Some t \<Rightarrow> t)"
    using ok(3) same(2) by (cases timeout) simp_all
  ultimately show ?thesis
    using assms(2) ok(1,2) by (simp add: begin_request_def register_def Let_def same(1))
qed

text \<open>
  A second request with the number of one that runs is refused, but its registration has already
  replaced the token: a cancellation of that number is answered with success and the command that
  runs is not told.
\<close>

theorem duplicate_request_defeats_cancellation:
  assumes "bridging n running st"
    and "begin_request st t0 request_id window_id timeout command parent = (st1, Inr a)"
    and "begin_request st1 t1 request_id window_id timeout command parent = (st2, repeated)"
    and "authorized st2 headers"
    and "cancel st2 headers \<lparr>cq_request_id = request_id, cq_window_id = window_id\<rparr> = (st3, answer)"
  shows "answer = json_response 200 (CancelBody True) \<and> ad_token a \<notin> gs_cancelled st3"
proof -
  note new = begin_request_Inr [OF assms(2)]
  have fresh: "ad_token a \<notin> gs_cancelled st"
    using bridging_ok [OF assms(1)] new by (auto simp: registry_ok_def)
  have "st2 = st1\<lparr>gs_next_token := Suc (gs_next_token st1),
      gs_cancellations := (gs_cancellations st1)(ad_key a \<mapsto> gs_next_token st1)\<rparr>"
    using assms(2,3) by (rule begin_request_twice)
  then show ?thesis
    using assms(4,5) new fresh by (auto simp: cancel_def Let_def)
qed

text \<open>
  Under process isolation an event of a window goes to the worker of that window: the primary
  worker is left alone.
\<close>

lemma run_request_primary:
  assumes "ad_execution a \<noteq> CommandExecution.Stateful \<or> ad_isolation a \<noteq> ProcessIsolation.Shared"
    and "run_request h st a payload env = (st', sent, result)"
  shows "gs_supervisor st' = gs_supervisor st"
  using assms by (auto simp: run_request_def Let_def split: CommandExecution.splits if_splits prod.splits)

lemma begin_request_lane:
  assumes "begin_request st elapsed request_id window_id timeout command parent = (st', r)"
  shows "gs_supervisor st' = gs_supervisor st \<and> gs_bootstrap st' = gs_bootstrap st \<and>
    (\<forall>a. r = Inr a \<longrightarrow> ad_isolation a = process_isolation st \<and>
      ad_execution a = command_execution st command)"
  using assms
  by (auto simp: begin_request_def register_def Let_def process_isolation_def command_execution_def
      split: if_splits)

lemma finish_request_supervisor:
  assumes "finish_request st a elapsed_ns span_times result = (st', answer)"
  shows "gs_supervisor st' = gs_supervisor st"
proof -
  have "gs_supervisor (foldl publish_event s es) = gs_supervisor s" for s es
    by (induction es rule: rev_induct) (auto simp: publish_event_def)
  with assms show ?thesis
    by (auto simp: finish_request_def Let_def settle_request_def export_command_span_def
        count_failure_def process_response_def send_event_def split: sum.splits if_splits)
qed

lemma execute_request_primary:
  assumes "process_isolation st \<noteq> ProcessIsolation.Shared"
    and "execute_request h st request_id window_id timeout command payload parent env = (st', sent, r)"
  shows "gs_supervisor st' = gs_supervisor st"
proof -
  obtain st1 b where b: "begin_request st (re_elapsed_ms env) request_id window_id timeout command parent
    = (st1, b)" by fastforce
  note b' = begin_request_lane [OF b]
  show ?thesis
  proof (cases b)
    case (Inl e)
    with b b' assms(2) show ?thesis by (simp add: execute_request_def)
  next
    case (Inr a)
    obtain st2 sent' result where r: "run_request h st1 a payload (re_call env) = (st2, sent', result)"
      by (metis prod_cases3)
    obtain st3 answer where f: "finish_request st2 a (re_elapsed_ns env) (re_times env)
      (case re_panic env of Some e \<Rightarrow> Inl e | None \<Rightarrow> Inr result) = (st3, answer)" by fastforce
    have "st' = st3" using assms(2) b r f Inr by (simp add: execute_request_def)
    with finish_request_supervisor [OF f] run_request_primary [OF _ r] b' Inr assms(1)
    show ?thesis by simp
  qed
qed

theorem isolated_events_leave_primary_worker:
  assumes "process_isolation st \<noteq> ProcessIsolation.Shared"
    and "emit h st headers q env = (st', sent, response)"
  shows "gs_supervisor st' = gs_supervisor st"
  using assms execute_request_primary [OF assms(1)] by (auto simp: emit_def split: if_splits)

section \<open>What reaches PHP\<close>

lemma worker_call_sends:
  assumes "worker_call h s command window payload timeout env = (s', sent, r)"
    and "command \<noteq> BOOT_COMMAND"
  shows "\<exists>i. filter (\<lambda>q. \<not> booting q) sent = [] \<or>
    filter (\<lambda>q. \<not> booting q) sent = [request_for_window i command window payload]"
  using supervisor_request_writes_once [OF assms(1) [unfolded worker_call_def] assms(2)] by blast

lemma pool_call_sends:
  assumes "pool_call h chosen command window payload timeout env = (p', sent, r)"
    and "command \<noteq> BOOT_COMMAND"
  shows "\<exists>i. filter (\<lambda>q. \<not> booting q) sent = [] \<or>
    filter (\<lambda>q. \<not> booting q) sent = [request_for_window i command window payload]"
proof -
  obtain p c where c: "chosen = (p, c)" by fastforce
  show ?thesis
  proof (cases c)
    case (Inl e)
    with assms(1) c show ?thesis by (simp add: pool_call_def)
  next
    case (Inr k)
    obtain w sent' r' where w: "worker_call h (wp_workers p ! k) command window payload timeout env
      = (w, sent', r')" by (metis prod_cases3)
    with assms(1) c Inr have "sent = sent'" by (simp add: pool_call_def)
    with worker_call_sends [OF w assms(2)] show ?thesis by simp
  qed
qed

lemma run_request_sends:
  assumes "run_request h st a payload env = (st', sent, result)" and "ad_command a \<noteq> BOOT_COMMAND"
  shows "\<exists>i. filter (\<lambda>q. \<not> booting q) sent = [] \<or>
    filter (\<lambda>q. \<not> booting q) sent =
      [request_for_window i (ad_command a) (rk_window_id (ad_key a)) payload]"
proof -
  let ?w = "rk_window_id (ad_key a)"
  obtain s' s_sent s_r where s: "worker_call h (gs_supervisor st) (ad_command a) ?w payload
    (ad_timeout_ms a) env = (s', s_sent, s_r)" by (metis prod_cases3)
  obtain k' k_sent k_r where k: "pool_request_keyed h (gs_pool st) (ad_isolation_key a)
    (ad_command a) ?w payload (ad_timeout_ms a) env = (k', k_sent, k_r)" by (metis prod_cases3)
  obtain p' p_sent p_r where p: "pool_request h (gs_pool st) (ad_command a) ?w payload
    (ad_timeout_ms a) env = (p', p_sent, p_r)" by (metis prod_cases3)
  have "sent \<in> {s_sent, k_sent, p_sent}"
    using assms(1) s k p by (cases "ad_execution a") (auto simp: run_request_def Let_def split: if_splits)
  with worker_call_sends [OF s assms(2)] pool_call_sends [OF k [unfolded pool_request_keyed_def] assms(2)]
    pool_call_sends [OF p [unfolded pool_request_def] assms(2)]
  show ?thesis by blast
qed

lemma execute_request_sends:
  assumes "execute_request h st request_id window_id timeout command payload parent env = (st', sent, r)"
    and "command \<noteq> BOOT_COMMAND"
  shows "sent = [] \<or> has_window st window_id \<and> (\<exists>i. filter (\<lambda>q. \<not> booting q) sent = [] \<or>
    filter (\<lambda>q. \<not> booting q) sent = [request_for_window i command window_id payload])"
proof -
  obtain st1 b where b: "begin_request st (re_elapsed_ms env) request_id window_id timeout command parent
    = (st1, b)" by fastforce
  show ?thesis
  proof (cases b)
    case (Inl e)
    with b assms(1) show ?thesis by (simp add: execute_request_def)
  next
    case (Inr a)
    obtain st2 sent' result where r: "run_request h st1 a payload (re_call env) = (st2, sent', result)"
      by (metis prod_cases3)
    have "sent = sent'" using assms(1) b r Inr by (auto simp: execute_request_def split: prod.splits)
    with run_request_sends [OF r] begin_request_Inr [OF b [unfolded Inr]] assms(2)
    show ?thesis by auto
  qed
qed

lemma identifier_not_boot: "validate_identifier command what = Inr () \<Longrightarrow> command \<noteq> BOOT_COMMAND"
  by (auto simp: BOOT_COMMAND_def validate_identifier_def str_chars_def ascii_alphabetic_def
      ascii_lower_def ascii_upper_def byte_def reject_if_def)

text \<open>
  A call of a page reaches PHP at most once, as the request it was, and only with the token of the
  gateway and from a window of the application.
\<close>

theorem page_call_reaches_php_once:
  assumes "invoke h st headers q env = (st', sent, response)"
  shows "sent = [] \<or> authorized st headers \<and> has_window st (iq_window_id q) \<and>
    (\<exists>i. filter (\<lambda>r. \<not> booting r) sent = [] \<or>
      filter (\<lambda>r. \<not> booting r) sent =
        [request_for_window i (iq_command q) (iq_window_id q) (iq_payload q)])"
proof (cases "sent = []")
  case False
  then obtain parent where "authorized st headers" "validate_identifier (iq_command q) ''command'' = Inr ()"
    "execute_request h st (iq_request_id q) (iq_window_id q) (iq_timeout_ms q) (iq_command q)
      (iq_payload q) parent env = (st', sent, response)"
    using assms by (auto simp: invoke_def split: if_splits option.splits)
  with execute_request_sends [OF _ identifier_not_boot] show ?thesis by blast
qed simp

section \<open>Witnesses\<close>

definition sample_worker :: WorkerSupervisor where
  "sample_worker = \<lparr>sv_worker = Some \<lparr>wk_next_id = 2\<rparr>, sv_bootstrap = sample_bootstrap, sv_generation = 1\<rparr>"

definition sample_pool :: WorkerPool where
  "sample_pool = \<lparr>wp_workers = [sample_worker, sample_worker], wp_next = 0,
     wp_affinities = Map.empty, wp_next_affinity = 0\<rparr>"

lemma sample_isolation:
  "isolation_key sample_bootstrap ''main'' = ''main''"
  "isolation_key sample_bootstrap ''preview'' = ''main''"
  by (simp_all add: isolation_key_def sample_bootstrap_def sample_workstation_def window_parent_def
      parent_chain.simps)

lemma sample_pool_used:
  "pool_used (plain_host sample_bootstrap) K (requested_parallel_count sample_bootstrap) sample_pool"
proof (rule pool_used.prepared [of _ "\<lambda>_. ready_spawn"])
  have count: "requested_parallel_count sample_bootstrap = Suc (Suc 0)"
    by (simp add: requested_parallel_count_def sample_bootstrap_def sample_workstation_def)
  show "pool_prepare (plain_host sample_bootstrap) (\<lambda>_. ready_spawn)
      (requested_parallel_count sample_bootstrap) = Inr sample_pool"
    unfolding count
    by (simp add: pool_prepare_def sample_started sample_pool_def sample_worker_def)
qed

theorem isolated_windows_have_own_workers_witness:
  "\<exists>m n. (Inr 0 :: WorkerRequestError + nat) = Inr m \<and> (Inr 0 :: WorkerRequestError + nat) = Inr n \<and>
     (m = n \<longleftrightarrow> isolation_key sample_bootstrap ''main'' = isolation_key sample_bootstrap ''preview'')"
proof (rule isolated_windows_have_own_workers [OF sample_bootstrap_valid _ _ sample_pool_used])
  let ?p = "sample_pool\<lparr>wp_next_affinity := 1, wp_affinities := [''main'' \<mapsto> 0]\<rparr>"
  show "pool_affinity sample_pool (isolation_key sample_bootstrap ''main'') = (?p, Inr 0)"
    "pool_affinity ?p (isolation_key sample_bootstrap ''preview'') = (?p, Inr 0)"
    by (simp_all add: sample_isolation pool_affinity_def sample_pool_def Let_def)
qed (simp_all add: sample_bootstrap_def sample_workstation_def window_ids_def sample_window_def)

definition sample_gateway :: GatewayState where
  "sample_gateway = \<lparr>gs_project = sample_project, gs_public_root = ''/p/resources'',
     gs_origin = ''http://127.0.0.1:4100'', gs_token = ''0a1b'', gs_bootstrap = sample_bootstrap,
     gs_supervisor = sample_worker, gs_pool = sample_pool, gs_cancellations = Map.empty,
     gs_cancelled = {}, gs_next_token = 0, gs_events = empty_hub, gs_loop_open = True, gs_sent = [],
     gs_native = sample_services, gs_plugins = Map.empty, gs_metrics = GatewayMetrics_default,
     gs_otlp = None, gs_development = True, gs_startup_snapshot_hit = False\<rparr>"

definition sample_headers :: headers where
  "sample_headers = [''origin'' \<mapsto> ''http://127.0.0.1:4100'', BRIDGE_HEADER \<mapsto> ''0a1b'']"

definition sample_admitted :: admitted where
  "sample_admitted = \<lparr>ad_key = \<lparr>rk_window_id = ''main'', rk_request_id = 7\<rparr>, ad_token = 0,
     ad_command = ''save'', ad_timeout_ms = 10000, ad_execution = CommandExecution.Stateful,
     ad_isolation = ProcessIsolation.PerWorkspace, ad_isolation_key = ''main'', ad_parent = None\<rparr>"

definition sample_running :: GatewayState where
  "sample_running = sample_gateway\<lparr>gs_next_token := 1,
     gs_cancellations := [\<lparr>rk_window_id = ''main'', rk_request_id = 7\<rparr> \<mapsto> 0],
     gs_metrics := GatewayMetrics_default\<lparr>gm_first_command_milliseconds := 41,
       gm_total_commands := 1, gm_active_commands := 1\<rparr>\<rparr>"

lemma sample_bounds:
  "MIN_COMMAND_TIMEOUT_MS \<le> (10000 :: u64)" "(10000 :: u64) \<le> MAX_COMMAND_TIMEOUT_MS"
  by (simp_all add: MIN_COMMAND_TIMEOUT_MS_def MAX_COMMAND_TIMEOUT_MS_def)

lemma sample_windows:
  "has_window st w \<longleftrightarrow> w = ''main'' \<or> w = ''preview''" "default_timeout_ms st = 10000"
  "command_execution st ''save'' = CommandExecution.Stateful"
  "command_execution st EVENT_COMMAND = CommandExecution.Stateful"
  "process_isolation st = ProcessIsolation.PerWorkspace"
  if "gs_bootstrap st = sample_bootstrap"
  using that
  by (auto simp: has_window_def default_timeout_ms_def command_execution_def process_isolation_def
      sample_bootstrap_def sample_window_def sample_workstation_def EVENT_COMMAND_def)

lemma sample_begun:
  "begin_request sample_gateway 40 7 ''main'' None ''save'' None = (sample_running, Inr sample_admitted)"
  by (simp add: begin_request_def register_def Let_def between_def sample_bounds sample_windows
      sample_gateway_def sample_isolation)
    (simp add: first_command_def sample_running_def sample_gateway_def sample_admitted_def
      GatewayMetrics_default_def sat_add_def)

lemma sample_bridging: "bridging (Suc 0) [sample_admitted] sample_running"
  by (rule bridging.begun [OF bridging.quiet _ sample_begun]) (simp_all add: sample_gateway_def)

lemma sample_authorized: "authorized sample_running sample_headers"
  using authorized_iff by (simp add: sample_headers_def sample_running_def sample_gateway_def BRIDGE_HEADER_def)

theorem cancel_reaches_exactly_its_request_witness:
  "ad_token sample_admitted \<in> gs_cancelled (sample_running\<lparr>gs_cancelled := {0}\<rparr>) \<longleftrightarrow>
     ad_token sample_admitted \<in> gs_cancelled sample_running \<or>
     ad_key sample_admitted = \<lparr>rk_window_id = cq_window_id \<lparr>cq_request_id = 7, cq_window_id = ''main''\<rparr>,
       rk_request_id = cq_request_id \<lparr>cq_request_id = 7, cq_window_id = ''main''\<rparr>\<rparr>"
proof (rule cancel_reaches_exactly_its_request [OF sample_bridging sample_authorized])
  show "cancel sample_running sample_headers \<lparr>cq_request_id = 7, cq_window_id = ''main''\<rparr> =
    (sample_running\<lparr>gs_cancelled := {0}\<rparr>, json_response 200 (CancelBody True))"
    using sample_authorized by (simp add: cancel_def) (simp add: sample_running_def sample_gateway_def)
qed simp

theorem duplicate_request_defeats_cancellation_witness:
  "json_response 200 (CancelBody True) = json_response 200 (CancelBody True) \<and>
     ad_token sample_admitted \<notin> gs_cancelled (sample_running\<lparr>gs_next_token := 2,
       gs_cancellations := [\<lparr>rk_window_id = ''main'', rk_request_id = 7\<rparr> \<mapsto> 1], gs_cancelled := {1}\<rparr>)"
proof (rule duplicate_request_defeats_cancellation [OF bridging.quiet sample_begun])
  let ?st = "sample_running\<lparr>gs_next_token := 2,
    gs_cancellations := [\<lparr>rk_window_id = ''main'', rk_request_id = 7\<rparr> \<mapsto> 1]\<rparr>"
  have "begin_request sample_running 50 7 ''main'' None ''save'' None =
    (?st, Inl (client_failure 409 InvalidMessage ''The bridge request identifier is already active.''))"
    by (simp add: begin_request_def register_def Let_def between_def sample_bounds sample_windows
        sample_running_def sample_gateway_def)
  then show "begin_request sample_running 50 7 ''main'' None ''save'' None =
    (?st, Inl (client_failure 409 InvalidMessage ''The bridge request identifier is already active.''))" .
  show granted: "authorized ?st sample_headers"
    using sample_authorized by (simp add: authorized_iff)
  show "cancel ?st sample_headers \<lparr>cq_request_id = 7, cq_window_id = ''main''\<rparr> =
    (sample_running\<lparr>gs_next_token := 2,
       gs_cancellations := [\<lparr>rk_window_id = ''main'', rk_request_id = 7\<rparr> \<mapsto> 1], gs_cancelled := {1}\<rparr>,
     json_response 200 (CancelBody True))"
    using granted by (simp add: cancel_def) (simp add: sample_running_def sample_gateway_def)
qed (simp_all add: sample_gateway_def)

definition silent_env :: request_env where
  "silent_env = \<lparr>re_elapsed_ms = 40, re_call = \<lparr>ce_before = no_spawn, ce_exchange = hung_up,
     ce_after = no_spawn\<rparr>, re_panic = Some ''panic'', re_elapsed_ns = 0, re_times = (0, 0)\<rparr>"

definition sample_emit :: EmitRequest where
  "sample_emit = \<lparr>eq_request_id = 7, eq_name = ''opened'', eq_window_id = ''main'',
     eq_timeout_ms = None, eq_payload = JNull\<rparr>"

theorem isolated_events_leave_primary_worker_witness:
  "gs_supervisor (fst (emit (plain_host sample_bootstrap) sample_gateway sample_headers sample_emit
     silent_env)) = gs_supervisor sample_gateway"
  by (rule isolated_events_leave_primary_worker [where h = "plain_host sample_bootstrap" and
      headers = sample_headers and q = sample_emit and env = silent_env and
      sent = "fst (snd (emit (plain_host sample_bootstrap) sample_gateway sample_headers sample_emit silent_env))" and
      response = "snd (snd (emit (plain_host sample_bootstrap) sample_gateway sample_headers sample_emit silent_env))"])
    (simp_all add: sample_windows sample_gateway_def)

definition sample_invoke :: InvokeRequest where
  "sample_invoke = \<lparr>iq_request_id = 7, iq_command = ''save'', iq_window_id = ''main'',
     iq_timeout_ms = None, iq_traceparent = None, iq_payload = JNull\<rparr>"

theorem page_call_reaches_php_once_witness:
  "fst (snd (invoke (plain_host sample_bootstrap) sample_gateway sample_headers sample_invoke silent_env)) = [] \<or>
   authorized sample_gateway sample_headers \<and> has_window sample_gateway (iq_window_id sample_invoke) \<and>
   (\<exists>i. filter (\<lambda>r. \<not> booting r) (fst (snd (invoke (plain_host sample_bootstrap) sample_gateway
        sample_headers sample_invoke silent_env))) = [] \<or>
      filter (\<lambda>r. \<not> booting r) (fst (snd (invoke (plain_host sample_bootstrap) sample_gateway
        sample_headers sample_invoke silent_env))) =
        [request_for_window i (iq_command sample_invoke) (iq_window_id sample_invoke) (iq_payload sample_invoke)])"
  by (rule page_call_reaches_php_once [where st' = "fst (invoke (plain_host sample_bootstrap)
      sample_gateway sample_headers sample_invoke silent_env)" and response = "snd (snd (invoke
      (plain_host sample_bootstrap) sample_gateway sample_headers sample_invoke silent_env))"]) simp

end
