(* ===== verification/Processes.thy ===== *)
theory Processes
  imports NativeFiles Supervisor
begin

text \<open>
  \<open>process_runner.rs\<close>: the programs an application declares, run to completion or in a terminal.

  The children, their pipes and the threads that drain them are packages and the operating system:
  a \<open>child_env\<close> or \<open>pty_env\<close> gives the answers of their calls.  What is started is returned beside
  the result.
\<close>

section \<open>Requests\<close>

definition PROCESS_MAX_IO :: nat where
  "PROCESS_MAX_IO = 1024 * 1024"

record ProcessRequest =
  ps_operation :: u8
  ps_command :: string
  ps_arguments :: "string list"
  ps_stdin :: string
  ps_timeout_ms :: u64
  ps_session_id :: u64
  ps_columns :: u16
  ps_rows :: u16
  ps_data :: string

record ProcessResponse =
  pp_success :: bool
  pp_exit_code :: "int option"
  pp_stdout :: string
  pp_stderr :: string

record AllowedCommand =
  al_executable :: string
  al_arguments :: "string list"
  al_policy :: ProcessArgumentPolicy

datatype ProcessOperation = RunProcess | PtyOpen | PtyWrite | PtyRead | PtyResize | PtyClose

definition ProcessOperation_try_from :: "u8 \<Rightarrow> NativeError + ProcessOperation" where
  "ProcessOperation_try_from v =
     (if v = 1 then Inr RunProcess else if v = 2 then Inr PtyOpen else if v = 3 then Inr PtyWrite
      else if v = 4 then Inr PtyRead else if v = 5 then Inr PtyResize
      else if v = 6 then Inr PtyClose
      else Inl (native_invalid ''Unknown process operation.''))"

text \<open>A terminal: the output that has arrived and was not read, and whether more can arrive.\<close>

record PtySession =
  se_output :: "string list"
  se_closed :: bool

record ProcessServices =
  pv_commands :: "string \<rightharpoonup> AllowedCommand"
  pv_root :: string
  pv_sessions :: "u64 \<rightharpoonup> PtySession"
  pv_next_session :: u64

section \<open>Preparation\<close>

text \<open>\<open>unix\<close> says whether the permission bits are checked; \<open>mode_of\<close> are the bits.\<close>

definition prepare_command ::
    "native_os \<Rightarrow> bool \<Rightarrow> (string \<Rightarrow> u32) \<Rightarrow> string \<Rightarrow> ProcessCommandConfig \<Rightarrow>
     string + AllowedCommand" where
  "prepare_command os unix mode_of root config =
     (let candidate = path_join root (pc_executable config) in
      case no_symlink_metadata os candidate of
        Inl _ \<Rightarrow> Inl ''cannot inspect process command''
      | Inr m \<Rightarrow>
          if md_kind m \<noteq> RegularFile
          then Inl ''process command must be a regular bundled file''
          else (case no_canonicalize os candidate of
              Inl _ \<Rightarrow> Inl ''cannot resolve process command''
            | Inr executable \<Rightarrow>
                if \<not> path_starts_with executable root then Inl ''process command escapes the project''
                else if unix \<and> and (mode_of candidate) 73 = 0
                then Inl ''process command is not executable''
                else Inr \<lparr>al_executable = executable, al_arguments = pc_arguments config,
                  al_policy = pc_argument_policy config\<rparr>))"

fun prepare_commands ::
    "native_os \<Rightarrow> bool \<Rightarrow> (string \<Rightarrow> u32) \<Rightarrow> string \<Rightarrow> ProcessCommandConfig list \<Rightarrow>
     (string \<rightharpoonup> AllowedCommand) \<Rightarrow> string + (string \<rightharpoonup> AllowedCommand)" where
  "prepare_commands os unix mode_of root [] commands = Inr commands"
| "prepare_commands os unix mode_of root (c # cs) commands =
     rbind (prepare_command os unix mode_of root c) (\<lambda>allowed.
       prepare_commands os unix mode_of root cs (commands(pc_name c \<mapsto> allowed)))"

definition prepare_processes ::
    "native_os \<Rightarrow> bool \<Rightarrow> (string \<Rightarrow> u32) \<Rightarrow> string \<Rightarrow> ProcessCommandConfig list \<Rightarrow>
     string + ProcessServices" where
  "prepare_processes os unix mode_of project_root configs =
     (case no_canonicalize os project_root of
        Inl _ \<Rightarrow> Inl ''cannot resolve process project root''
      | Inr root \<Rightarrow>
          rbind (prepare_commands os unix mode_of root configs Map.empty) (\<lambda>commands.
            Inr \<lparr>pv_commands = commands, pv_root = root, pv_sessions = Map.empty,
              pv_next_session = 1\<rparr>))"

section \<open>Authorization\<close>

definition invalid_arguments :: "string list \<Rightarrow> bool" where
  "invalid_arguments arguments \<longleftrightarrow> length arguments > 32 \<or>
     list_ex (\<lambda>v. length v > 1024 \<or> contains_nul v) arguments"

definition allowed_command :: "ProcessServices \<Rightarrow> ProcessRequest \<Rightarrow> NativeError + AllowedCommand" where
  "allowed_command s q =
     (case pv_commands s (ps_command q) of
        None \<Rightarrow> Inl (native_permission ''The requested process command is not authorized.'')
      | Some allowed \<Rightarrow>
          if invalid_arguments (ps_arguments q)
          then Inl (native_invalid ''Dynamic process arguments are invalid.'')
          else if al_policy allowed = ProcessArgumentPolicy.Fixed \<and> ps_arguments q \<noteq> []
          then Inl (native_permission ''This process command does not allow dynamic arguments.'')
          else Inr allowed)"

section \<open>Running to completion\<close>

text \<open>
  A thread drains each pipe in chunks: at most \<open>PROCESS_MAX_IO\<close> bytes are kept, the rest is read
  and dropped, so that the child never blocks.
\<close>

fun drain_chunks :: "string list \<Rightarrow> string \<times> bool \<Rightarrow> string \<times> bool" where
  "drain_chunks [] kept = kept"
| "drain_chunks (chunk # chunks) (kept, overflow) =
     (let remaining = PROCESS_MAX_IO - length kept in
      if chunk = [] then (kept, overflow)
      else drain_chunks chunks (kept @ take (min (length chunk) remaining) chunk,
             overflow \<or> length chunk > remaining))"

text \<open>A thread that panicked is \<open>None\<close>; a failed read has an error instead of chunks.\<close>

type_synonym drained = "(string + string list) option"

definition collect_output :: "drained \<Rightarrow> string \<Rightarrow> NativeError + string" where
  "collect_output thread label =
     (case thread of
        None \<Rightarrow> Inl (native_failed ''Process output reader crashed'' label)
      | Some (Inl e) \<Rightarrow> Inl (native_failed ''Cannot read process output'' e)
      | Some (Inr chunks) \<Rightarrow>
          (case drain_chunks chunks ([], False) of
             (bytes, overflow) \<Rightarrow>
               if overflow then Inl (native_too_large (''Process '' @ label @ '' exceeded 1 MiB.''))
               else if \<not> is_utf8 bytes
               then Inl (native_invalid (''Process '' @ label @ '' is not valid UTF-8.''))
               else Inr bytes))"

text \<open>
  The loop that waits for the child looks every ten milliseconds; \<open>po_extra\<close> is the time that
  passes beyond that.
\<close>

datatype child_state = PollError string | StillRunning | ExitedWith bool "int option"

record child_poll =
  po_state :: child_state
  po_extra :: nat

datatype waited = WaitError string | WaitTimedOut | WaitExited bool "int option"

function wait_child :: "nat \<Rightarrow> nat \<Rightarrow> nat \<Rightarrow> (nat \<Rightarrow> child_poll) \<Rightarrow> waited" where
  "wait_child deadline now k polls =
     (case po_state (polls k) of
        PollError e \<Rightarrow> WaitError e
      | ExitedWith success code \<Rightarrow> WaitExited success code
      | StillRunning \<Rightarrow>
          if now \<ge> deadline then WaitTimedOut
          else wait_child deadline (now + 10 + po_extra (polls k)) (Suc k) polls)"
  by pat_completeness auto
termination
  by (relation "measure (\<lambda>(deadline, now, k, polls). deadline - now)") auto

declare wait_child.simps [simp del]

record child_env =
  rn_spawn :: "string option"
  rn_drain_stdout :: "string option"
  rn_drain_stderr :: "string option"
  rn_stdin_open :: bool
  rn_writer_start :: "string option"
  rn_polls :: "nat \<Rightarrow> child_poll"
  rn_writer :: "(string + unit) option"
  rn_stdout :: drained
  rn_stderr :: drained

record started =
  sd_executable :: string
  sd_arguments :: "string list"
  sd_directory :: string
  sd_environment :: "(string \<times> string) list"
  sd_terminal :: bool

definition collect_response :: "child_env \<Rightarrow> string \<Rightarrow> bool \<Rightarrow> int option \<Rightarrow> NativeError + ProcessResponse" where
  "collect_response env command success code =
     (case rn_writer env of
        None \<Rightarrow> Inl (native_failed ''Process input writer crashed'' command)
      | Some (Inl e) \<Rightarrow> Inl (native_failed ''Cannot write process stdin'' e)
      | Some (Inr _) \<Rightarrow>
          rbind (collect_output (rn_stdout env) ''stdout'') (\<lambda>stdout.
          rbind (collect_output (rn_stderr env) ''stderr'') (\<lambda>stderr.
            Inr \<lparr>pp_success = success, pp_exit_code = code, pp_stdout = stdout,
              pp_stderr = stderr\<rparr>)))"

definition run_child :: "child_env \<Rightarrow> ProcessRequest \<Rightarrow> NativeError + ProcessResponse" where
  "run_child env q =
     (case rn_drain_stdout env of
        Some e \<Rightarrow> Inl (native_failed ''Cannot start process output reader'' e)
      | None \<Rightarrow>
          (case rn_drain_stderr env of
             Some e \<Rightarrow> Inl (native_failed ''Cannot start process output reader'' e)
           | None \<Rightarrow>
               if \<not> rn_stdin_open env
               then Inl (native_failed ''Cannot open authorized process stdin'' (ps_command q))
               else (case rn_writer_start env of
                   Some e \<Rightarrow> Inl (native_failed ''Cannot start process input writer'' e)
                 | None \<Rightarrow>
                     (case wait_child (unat (ps_timeout_ms q)) 0 0 (rn_polls env) of
                        WaitError e \<Rightarrow> Inl (native_failed ''Cannot inspect process status'' e)
                      | WaitTimedOut \<Rightarrow> Inl (native_failed ''Authorized process timed out''
                          (decimal (unat (ps_timeout_ms q))))
                      | WaitExited success code \<Rightarrow>
                          collect_response env (ps_command q) success code))))"

definition execute_process ::
    "ProcessServices \<Rightarrow> ProcessRequest \<Rightarrow> child_env \<Rightarrow> started list \<times> (NativeError + ProcessResponse)" where
  "execute_process s q env =
     (case pv_commands s (ps_command q) of
        None \<Rightarrow> ([], Inl (native_permission ''The requested process command is not authorized.''))
      | Some allowed \<Rightarrow>
          if \<not> between MIN_COMMAND_TIMEOUT_MS MAX_COMMAND_TIMEOUT_MS (ps_timeout_ms q)
          then ([], Inl (native_invalid ''Process timeout is outside the supported range.''))
          else if invalid_arguments (ps_arguments q)
          then ([], Inl (native_invalid ''Dynamic process arguments are invalid.''))
          else if al_policy allowed = ProcessArgumentPolicy.Fixed \<and> ps_arguments q \<noteq> []
          then ([], Inl (native_permission ''This process command does not allow dynamic arguments.''))
          else if length (ps_stdin q) > PROCESS_MAX_IO
          then ([], Inl (native_too_large ''Process stdin cannot exceed 1 MiB.''))
          else (case rn_spawn env of
              Some e \<Rightarrow> ([], Inl (native_failed ''Cannot start the authorized process'' e))
            | None \<Rightarrow>
                ([\<lparr>sd_executable = al_executable allowed,
                   sd_arguments = al_arguments allowed @ ps_arguments q,
                   sd_directory = pv_root s, sd_environment = [], sd_terminal = False\<rparr>],
                 run_child env q)))"

section \<open>Terminals\<close>

definition validate_terminal_size :: "u16 \<Rightarrow> u16 \<Rightarrow> NativeError + unit" where
  "validate_terminal_size columns rows =
     (if \<not> between 1 1000 columns \<or> \<not> between 1 1000 rows
      then Inl (native_invalid ''Terminal size must be between 1 and 1000 cells.'') else Inr ())"

text \<open>
  \<open>pe_open\<close> are the calls of \<open>open_pty\<close>: before the command is started, and after it; the
  channel of a terminal is read with \<open>try_recv\<close> and, when nothing is there, once with
  \<open>recv_timeout\<close>.
\<close>

datatype receive = Received string "string list" bool | ReceiveTimeout | ReceiveDisconnected

record pty_env =
  pe_openpty :: "string option"
  pe_spawn :: "string option"
  pe_reader :: "string option"
  pe_writer :: "string option"
  pe_thread :: "string option"
  pe_write :: "string option"
  pe_receive :: receive
  pe_try_wait :: "string + (int \<times> string option) option"
  pe_resize :: "string option"
  pe_kill :: "string option"

definition pe_check :: "string option \<Rightarrow> string \<Rightarrow> NativeError + unit" where
  "pe_check failure context_text =
     (case failure of None \<Rightarrow> Inr () | Some e \<Rightarrow> Inl (native_failed context_text e))"

definition open_pty ::
    "ProcessServices \<Rightarrow> ProcessRequest \<Rightarrow> pty_env \<Rightarrow>
     ProcessServices \<times> started list \<times> (NativeError + json)" where
  "open_pty s q env =
     (case rbind (validate_terminal_size (ps_columns q) (ps_rows q)) (\<lambda>_. allowed_command s q) of
        Inl e \<Rightarrow> (s, [], Inl e)
      | Inr allowed \<Rightarrow>
          (case pe_openpty env of
             Some e \<Rightarrow> (s, [], Inl (native_failed ''Cannot open terminal PTY'' e))
           | None \<Rightarrow>
               (case pe_spawn env of
                  Some e \<Rightarrow> (s, [], Inl (native_failed ''Cannot start terminal command'' e))
                | None \<Rightarrow>
                    (let child = \<lparr>sd_executable = al_executable allowed,
                       sd_arguments = al_arguments allowed @ ps_arguments q,
                       sd_directory = pv_root s,
                       sd_environment = [(''TERM'', ''xterm-256color''), (''COLORTERM'', ''truecolor'')],
                       sd_terminal = True\<rparr> in
                     case rbind (pe_check (pe_reader env) ''Cannot open terminal output'') (\<lambda>_.
                          rbind (pe_check (pe_writer env) ''Cannot open terminal input'') (\<lambda>_.
                          pe_check (pe_thread env) ''Cannot start terminal output reader'')) of
                       Inl e \<Rightarrow> (s, [child], Inl e)
                     | Inr _ \<Rightarrow>
                         (let session_id = pv_next_session s in
                          (s\<lparr>pv_next_session := session_id + 1,
                             pv_sessions := (pv_sessions s)(session_id \<mapsto>
                               \<lparr>se_output = [], se_closed = False\<rparr>)\<rparr>,
                           [child],
                           Inr (JObject [(''sessionId'', JInt (uint session_id)),
                             (''columns'', JInt (uint (ps_columns q))),
                             (''rows'', JInt (uint (ps_rows q)))])))))))"

definition no_session :: NativeError where
  "no_session = \<lparr>ne_code = ResourceNotFound, ne_message = ''Terminal session does not exist.''\<rparr>"

definition write_pty :: "ProcessServices \<Rightarrow> ProcessRequest \<Rightarrow> pty_env \<Rightarrow> NativeError + json" where
  "write_pty s q env =
     (if length (ps_data q) > PROCESS_MAX_IO
      then Inl (native_too_large ''Terminal write cannot exceed 1 MiB.'')
      else case pv_sessions s (ps_session_id q) of
        None \<Rightarrow> Inl no_session
      | Some _ \<Rightarrow>
          (case pe_write env of
             Some e \<Rightarrow> Inl (native_failed ''Cannot write terminal input'' e)
           | None \<Rightarrow> Inr (JObject [(''writtenBytes'', JInt (int (length (ps_data q))))])))"

definition PTY_READ_LIMIT :: nat where
  "PTY_READ_LIMIT = 256 * 1024"

text \<open>
  The bytes of the chunks until the limit is reached, the chunks that are left, and whether the
  loop saw the end of the output.
\<close>

fun take_chunks :: "nat \<Rightarrow> bool \<Rightarrow> string list \<Rightarrow> string \<times> string list \<times> bool" where
  "take_chunks n closed [] = ([], [], closed \<and> n < PTY_READ_LIMIT)"
| "take_chunks n closed (chunk # chunks) =
     (if n < PTY_READ_LIMIT
      then case take_chunks (n + length chunk) closed chunks of
             (bytes, left, ended) \<Rightarrow> (chunk @ bytes, left, ended)
      else ([], chunk # chunks, False))"

definition read_chunks :: "PtySession \<Rightarrow> receive \<Rightarrow> string \<times> PtySession \<times> bool" where
  "read_chunks session later =
     (case take_chunks 0 (se_closed session) (se_output session) of
        (bytes, left, ended) \<Rightarrow>
          if bytes = [] \<and> \<not> ended
          then (case later of
              Received chunk others closed \<Rightarrow>
                (case take_chunks (length chunk) closed others of
                   (bytes, left, ended) \<Rightarrow>
                     (chunk @ bytes, \<lparr>se_output = left, se_closed = closed\<rparr>, ended))
            | ReceiveTimeout \<Rightarrow> ([], session\<lparr>se_output := left\<rparr>, False)
            | ReceiveDisconnected \<Rightarrow> ([], \<lparr>se_output = left, se_closed = True\<rparr>, True))
          else (bytes, session\<lparr>se_output := left\<rparr>, ended))"

text \<open>The encoding belongs to the package \<open>base64\<close>.\<close>

definition pty_answer :: "(string \<Rightarrow> string) \<Rightarrow> string \<Rightarrow> bool \<Rightarrow> (int \<times> string option) option \<Rightarrow> json" where
  "pty_answer base64 bytes ended exit =
     JObject [(''data'', JString (base64 bytes)), (''encoding'', JInt 1),
       (''running'', JBool (exit = None \<or> \<not> ended)),
       (''exitCode'', (case exit of None \<Rightarrow> JNull | Some (code, _) \<Rightarrow> JInt code)),
       (''signal'', (case exit of Some (_, Some name) \<Rightarrow> JString name | _ \<Rightarrow> JNull))]"

definition read_pty ::
    "(string \<Rightarrow> string) \<Rightarrow> ProcessServices \<Rightarrow> ProcessRequest \<Rightarrow> pty_env \<Rightarrow>
     ProcessServices \<times> (NativeError + json)" where
  "read_pty base64 s q env =
     (case pv_sessions s (ps_session_id q) of
        None \<Rightarrow> (s, Inl no_session)
      | Some session \<Rightarrow>
          (case read_chunks session (pe_receive env) of
             (bytes, session', ended) \<Rightarrow>
               (let s' = s\<lparr>pv_sessions := (pv_sessions s)(ps_session_id q \<mapsto> session')\<rparr> in
                case pe_try_wait env of
                  Inl e \<Rightarrow> (s', Inl (native_failed ''Cannot inspect terminal command'' e))
                | Inr exit \<Rightarrow> (s', Inr (pty_answer base64 bytes ended exit)))))"

definition resize_pty :: "ProcessServices \<Rightarrow> ProcessRequest \<Rightarrow> pty_env \<Rightarrow> NativeError + json" where
  "resize_pty s q env =
     rbind (validate_terminal_size (ps_columns q) (ps_rows q)) (\<lambda>_.
       case pv_sessions s (ps_session_id q) of
         None \<Rightarrow> Inl no_session
       | Some _ \<Rightarrow>
           (case pe_resize env of
              Some e \<Rightarrow> Inl (native_failed ''Cannot resize terminal PTY'' e)
            | None \<Rightarrow> Inr (JObject [(''columns'', JInt (uint (ps_columns q))),
                (''rows'', JInt (uint (ps_rows q)))])))"

definition close_pty ::
    "ProcessServices \<Rightarrow> ProcessRequest \<Rightarrow> pty_env \<Rightarrow> ProcessServices \<times> (NativeError + json)" where
  "close_pty s q env =
     (case pv_sessions s (ps_session_id q) of
        None \<Rightarrow> (s, Inl no_session)
      | Some _ \<Rightarrow>
          (s\<lparr>pv_sessions := (pv_sessions s)(ps_session_id q := None)\<rparr>,
           case pe_kill env of
             Some e \<Rightarrow> Inl (native_failed ''Cannot stop terminal command'' e)
           | None \<Rightarrow> Inr (JObject [(''closed'', JBool True)])))"

definition process_response_json :: "ProcessResponse \<Rightarrow> json" where
  "process_response_json r =
     JObject [(''success'', JBool (pp_success r)),
       (''exitCode'', (case pp_exit_code r of None \<Rightarrow> JNull | Some code \<Rightarrow> JInt code)),
       (''stdout'', JString (pp_stdout r)), (''stderr'', JString (pp_stderr r))]"

record process_env =
  pn_run :: child_env
  pn_pty :: pty_env
  pn_base64 :: "string \<Rightarrow> string"

definition dispatch_process ::
    "ProcessServices \<Rightarrow> ProcessRequest \<Rightarrow> process_env \<Rightarrow>
     ProcessServices \<times> started list \<times> (NativeError + json)" where
  "dispatch_process s q env =
     (case ProcessOperation_try_from (ps_operation q) of
        Inl e \<Rightarrow> (s, [], Inl e)
      | Inr RunProcess \<Rightarrow>
          (case execute_process s q (pn_run env) of
             (started, r) \<Rightarrow> (s, started, rbind r (\<lambda>x. Inr (process_response_json x))))
      | Inr PtyOpen \<Rightarrow> open_pty s q (pn_pty env)
      | Inr PtyWrite \<Rightarrow> (s, [], write_pty s q (pn_pty env))
      | Inr PtyRead \<Rightarrow>
          (case read_pty (pn_base64 env) s q (pn_pty env) of (s', r) \<Rightarrow> (s', [], r))
      | Inr PtyResize \<Rightarrow> (s, [], resize_pty s q (pn_pty env))
      | Inr PtyClose \<Rightarrow>
          (case close_pty s q (pn_pty env) of (s', r) \<Rightarrow> (s', [], r)))"

definition terminal_session_count :: "ProcessServices \<Rightarrow> nat" where
  "terminal_session_count s = card (dom (pv_sessions s))"

section \<open>What may be started\<close>

text \<open>
  The services after any requests.  A declared command that is started is the canonical file below
  the project, with its own arguments first.
\<close>

inductive processes_used :: "ProcessServices \<Rightarrow> ProcessServices \<Rightarrow> bool" for s0 where
  prepared: "processes_used s0 s0"
| request: "processes_used s0 s \<Longrightarrow> dispatch_process s q env = (s', started, r) \<Longrightarrow>
    processes_used s0 s'"

definition declared_start :: "native_os \<Rightarrow> string \<Rightarrow> ProcessCommandConfig \<Rightarrow> ProcessRequest \<Rightarrow> started \<Rightarrow> bool" where
  "declared_start os root c q x \<longleftrightarrow> pc_name c = ps_command q \<and>
     no_canonicalize os (path_join root (pc_executable c)) = Inr (sd_executable x) \<and>
     path_starts_with (sd_executable x) root \<and>
     sd_arguments x = pc_arguments c @ ps_arguments q \<and>
     (pc_argument_policy c = ProcessArgumentPolicy.Fixed \<longrightarrow> ps_arguments q = []) \<and>
     length (ps_arguments q) \<le> 32 \<and> sd_directory x = root \<and>
     sd_environment x \<in> {[], [(''TERM'', ''xterm-256color''), (''COLORTERM'', ''truecolor'')]}"

lemma dispatch_kept:
  "dispatch_process s q env = (s', started, r) \<Longrightarrow>
     pv_commands s' = pv_commands s \<and> pv_root s' = pv_root s"
  by (auto simp: dispatch_process_def open_pty_def read_pty_def close_pty_def Let_def
      split: sum.splits ProcessOperation.splits prod.splits option.splits)

lemma processes_used_kept:
  "processes_used s0 s \<Longrightarrow> pv_commands s = pv_commands s0 \<and> pv_root s = pv_root s0"
  by (induction rule: processes_used.induct) (auto dest: dispatch_kept)

lemma prepare_command_Inr:
  "prepare_command os unix mode_of root c = Inr a \<Longrightarrow>
     no_canonicalize os (path_join root (pc_executable c)) = Inr (al_executable a) \<and>
     path_starts_with (al_executable a) root \<and> al_arguments a = pc_arguments c \<and>
     al_policy a = pc_argument_policy c"
  by (auto simp: prepare_command_def Let_def split: sum.splits if_splits)

lemma prepare_commands_Inr:
  "prepare_commands os unix mode_of root cs commands = Inr commands' \<Longrightarrow> commands' name = Some a \<Longrightarrow>
     commands name = Some a \<or>
     (\<exists>c \<in> set cs. pc_name c = name \<and> prepare_command os unix mode_of root c = Inr a)"
proof (induction cs arbitrary: commands)
  case (Cons c cs)
  obtain b where b: "prepare_command os unix mode_of root c = Inr b"
    "prepare_commands os unix mode_of root cs (commands(pc_name c \<mapsto> b)) = Inr commands'"
    using Cons.prems(1) by (auto simp: rbind_Inr_iff)
  from Cons.IH [OF b(2) Cons.prems(2)] b(1) show ?case
    by (auto split: if_splits)
qed simp

lemma dispatch_started:
  assumes "dispatch_process s q env = (s', started, r)" and "x \<in> set started"
  shows "\<exists>a. pv_commands s (ps_command q) = Some a \<and> \<not> invalid_arguments (ps_arguments q) \<and>
    (al_policy a = ProcessArgumentPolicy.Fixed \<longrightarrow> ps_arguments q = []) \<and>
    sd_executable x = al_executable a \<and> sd_arguments x = al_arguments a @ ps_arguments q \<and>
    sd_directory x = pv_root s \<and>
    sd_environment x \<in> {[], [(''TERM'', ''xterm-256color''), (''COLORTERM'', ''truecolor'')]}"
  using assms
  by (auto simp: dispatch_process_def execute_process_def open_pty_def allowed_command_def Let_def
      rbind_Inr_iff split: sum.splits ProcessOperation.splits prod.splits option.splits if_splits)

text \<open>
  C28. Whatever pages ask for, the only programs started are declared ones: the file below the project
  that was resolved when the application was prepared, with its declared arguments first, no
  dynamic ones where they are fixed, in the project and without the environment of the host.
\<close>

theorem only_declared_programs_start:
  assumes "prepare_processes os unix mode_of project_root configs = Inr s0"
    and "processes_used s0 s"
    and "dispatch_process s q env = (s', started, r)"
    and "x \<in> set started"
  shows "\<exists>c \<in> set configs. declared_start os (pv_root s0) c q x"
proof -
  have s0: "prepare_commands os unix mode_of (pv_root s0) configs Map.empty = Inr (pv_commands s0)"
    using assms(1) by (auto simp: prepare_processes_def rbind_Inr_iff split: sum.splits)
  obtain a where a: "pv_commands s0 (ps_command q) = Some a" "\<not> invalid_arguments (ps_arguments q)"
    "al_policy a = ProcessArgumentPolicy.Fixed \<longrightarrow> ps_arguments q = []"
    "sd_executable x = al_executable a" "sd_arguments x = al_arguments a @ ps_arguments q"
    "sd_directory x = pv_root s0"
    "sd_environment x \<in> {[], [(''TERM'', ''xterm-256color''), (''COLORTERM'', ''truecolor'')]}"
    using dispatch_started [OF assms(3,4)] processes_used_kept [OF assms(2)] by auto
  obtain c where c: "c \<in> set configs" "pc_name c = ps_command q"
    "prepare_command os unix mode_of (pv_root s0) c = Inr a"
    using prepare_commands_Inr [OF s0 a(1)] by auto
  have "declared_start os (pv_root s0) c q x"
    using prepare_command_Inr [OF c(3)] c(2) a(2-) by (auto simp: declared_start_def invalid_arguments_def)
  with c(1) show ?thesis ..
qed

section \<open>Output\<close>

lemma drain_chunks_eq:
  "length kept \<le> PROCESS_MAX_IO \<Longrightarrow>
     drain_chunks chunks (kept, overflow) =
       (let all = kept @ concat (takeWhile (\<lambda>c. c \<noteq> []) chunks)
        in (take PROCESS_MAX_IO all, overflow \<or> length all > PROCESS_MAX_IO))"
proof (induction chunks arbitrary: kept overflow)
  case (Cons chunk chunks)
  let ?kept = "kept @ take (min (length chunk) (PROCESS_MAX_IO - length kept)) chunk"
  have "length ?kept \<le> PROCESS_MAX_IO" using Cons.prems by simp
  from Cons.IH [OF this] show ?case
    using Cons.prems by (auto simp: Let_def min_def)
qed simp

text \<open>
  The text of a stream that a page gets is all the process wrote, and it gets it exactly when that
  is at most one mebibyte of UTF-8.
\<close>

theorem process_output_is_exact:
  "collect_output (Some (Inr chunks)) label = Inr text \<longleftrightarrow>
     text = concat (takeWhile (\<lambda>c. c \<noteq> []) chunks) \<and> length text \<le> PROCESS_MAX_IO \<and> is_utf8 text"
  by (auto simp: collect_output_def drain_chunks_eq Let_def)

section \<open>Terminal output\<close>

text \<open>
  A terminal with what its command has written and what was delivered: chunks arrive until the
  output is closed, and reads deliver.
\<close>

definition waits :: "PtySession \<Rightarrow> bool" where
  "waits s \<longleftrightarrow> (case take_chunks 0 (se_closed s) (se_output s) of (bytes, left, ended) \<Rightarrow>
     bytes = [] \<and> \<not> ended)"

fun received_bytes :: "receive \<Rightarrow> string" where
  "received_bytes (Received chunk others closed) = chunk @ concat others"
| "received_bytes _ = []"

inductive terminal :: "string \<Rightarrow> string \<Rightarrow> PtySession \<Rightarrow> bool" where
  opened: "terminal [] [] \<lparr>se_output = [], se_closed = False\<rparr>"
| arrives: "terminal written delivered s \<Longrightarrow>
    terminal (written @ chunk) delivered (s\<lparr>se_output := se_output s @ [chunk]\<rparr>)"
| hangs_up: "terminal written delivered s \<Longrightarrow> terminal written delivered (s\<lparr>se_closed := True\<rparr>)"
| read: "terminal written delivered s \<Longrightarrow> read_chunks s later = (bytes, s', ended) \<Longrightarrow>
    terminal (written @ (if waits s then received_bytes later else [])) (delivered @ bytes) s'"

lemma take_chunks_concat:
  "take_chunks n closed chunks = (bytes, left, ended) \<Longrightarrow>
     bytes @ concat left = concat chunks \<and> (ended \<longrightarrow> left = [])"
  by (induction n closed chunks arbitrary: bytes rule: take_chunks.induct)
    (auto split: if_splits prod.splits)

lemma take_chunks_empty:
  "take_chunks n closed chunks = ([], left, ended) \<Longrightarrow> n < PTY_READ_LIMIT \<Longrightarrow> left = []"
  by (induction n closed chunks rule: take_chunks.induct) (auto split: if_splits prod.splits)

lemma read_chunks_concat:
  assumes "read_chunks s later = (bytes, s', ended)"
  shows "bytes @ concat (se_output s') =
      concat (se_output s) @ (if waits s then received_bytes later else []) \<and>
    (ended \<longrightarrow> concat (se_output s') = [])"
proof -
  obtain b l e where b: "take_chunks 0 (se_closed s) (se_output s) = (b, l, e)" by (metis prod_cases3)
  note b' = take_chunks_concat [OF b]
  show ?thesis
  proof (cases "b = [] \<and> \<not> e")
    case True
    then have w: "waits s" by (simp add: waits_def b)
    have l: "l = []" using take_chunks_empty [of 0 _ _ l e] b True by (simp add: PTY_READ_LIMIT_def)
    show ?thesis
    proof (cases later)
      case (Received chunk others closed)
      obtain b2 l2 e2 where t: "take_chunks (length chunk) closed others = (b2, l2, e2)"
        by (metis prod_cases3)
      have "bytes = chunk @ b2 \<and> se_output s' = l2 \<and> ended = e2"
        using assms b True Received t by (auto simp: read_chunks_def)
      then show ?thesis using take_chunks_concat [OF t] b' l True w Received by auto
    qed (use assms b b' l True w in \<open>auto simp: read_chunks_def\<close>)
  next
    case False
    then have "\<not> waits s" by (simp add: waits_def b)
    with False assms b b' show ?thesis by (auto simp: read_chunks_def)
  qed
qed

lemma terminal_delivers:
  "terminal written delivered s \<Longrightarrow> delivered @ concat (se_output s) = written"
proof (induction rule: terminal.induct)
  case (read written delivered s later bytes s' ended)
  then show ?case
    using read_chunks_concat [OF read.hyps(2)] by simp
qed auto

text \<open>
  What the reads of a terminal deliver is what its command has written, in order and without loss;
  the end is only reported when everything has been delivered.
\<close>

theorem terminal_output_is_complete:
  assumes "terminal written delivered s"
    and "read_chunks s later = (bytes, s', ended)"
    and "ended"
  shows "delivered @ bytes = written @ (if waits s then received_bytes later else [])"
  using terminal_delivers [OF terminal.read [OF assms(1,2)]] read_chunks_concat [OF assms(2)] assms(3)
  by simp

section \<open>Terminals are separate\<close>

text \<open>Every open terminal has a number below the next one, until the counter wraps.\<close>

lemma open_pty_fresh:
  assumes "open_pty s q env = (s', started, Inr r)"
    and "\<forall>i \<in> dom (pv_sessions s). i < pv_next_session s" and "pv_next_session s \<noteq> - 1"
  shows "pv_sessions s (pv_next_session s) = None \<and>
    (\<forall>i \<in> dom (pv_sessions s'). i < pv_next_session s') \<and>
    (\<forall>i. i \<noteq> pv_next_session s \<longrightarrow> pv_sessions s' i = pv_sessions s i)"
proof -
  have "pv_next_session s < pv_next_session s + 1"
  proof -
    have "unat (pv_next_session s) \<noteq> unat (- 1 :: u64)" using assms(3) by (metis word_unat_eq_iff)
    moreover have "unat (pv_next_session s) \<le> unat (- 1 :: u64)"
      by (metis word_le_nat_alt word_order.extremum)
    ultimately have "unat (pv_next_session s) < 2 ^ 64 - 1" using unat_max_word [where 'w = 64] by simp
    then show ?thesis by (simp add: word_less_nat_alt unat_word_ariths)
  qed
  moreover have "s' = s\<lparr>pv_next_session := pv_next_session s + 1,
      pv_sessions := (pv_sessions s)(pv_next_session s \<mapsto> \<lparr>se_output = [], se_closed = False\<rparr>)\<rparr>"
    using assms(1) by (auto simp: open_pty_def Let_def split: sum.splits option.splits)
  ultimately show ?thesis
    using assms(2) by (auto intro: less_trans split: if_splits)
qed

section \<open>Witnesses\<close>

definition sample_program :: ProcessCommandConfig where
  "sample_program = \<lparr>pc_name = ''echo'', pc_executable = ''echo'', pc_arguments = [''-n''],
     pc_argument_policy = ProcessArgumentPolicy.Append\<rparr>"

definition sample_program_os :: native_os where
  "sample_program_os = \<lparr>no_symlink_metadata = (\<lambda>_. Inr \<lparr>md_kind = RegularFile, md_len = 3\<rparr>),
     no_canonicalize = Inr, no_is_dir = (\<lambda>_. False), no_open_dir = (\<lambda>_. None), no_lossy = (\<lambda>s. s)\<rparr>"

definition sample_processes :: ProcessServices where
  "sample_processes = \<lparr>pv_commands = [''echo'' \<mapsto> \<lparr>al_executable = ''/p/echo'',
     al_arguments = [''-n''], al_policy = ProcessArgumentPolicy.Append\<rparr>],
     pv_root = ''/p'', pv_sessions = Map.empty, pv_next_session = 1\<rparr>"

definition sample_terminal_request :: ProcessRequest where
  "sample_terminal_request = \<lparr>ps_operation = 2, ps_command = ''echo'', ps_arguments = [''hi''],
     ps_stdin = [], ps_timeout_ms = 1000, ps_session_id = 0, ps_columns = 80, ps_rows = 24, ps_data = []\<rparr>"

definition sample_process_env :: process_env where
  "sample_process_env = \<lparr>pn_run = \<lparr>rn_spawn = None, rn_drain_stdout = None, rn_drain_stderr = None,
       rn_stdin_open = True, rn_writer_start = None,
       rn_polls = (\<lambda>_. \<lparr>po_state = ExitedWith True (Some 0), po_extra = 0\<rparr>),
       rn_writer = Some (Inr ()), rn_stdout = Some (Inr []), rn_stderr = Some (Inr [])\<rparr>,
     pn_pty = \<lparr>pe_openpty = None, pe_spawn = None, pe_reader = None, pe_writer = None,
       pe_thread = None, pe_write = None, pe_receive = ReceiveTimeout, pe_try_wait = Inr None,
       pe_resize = None, pe_kill = None\<rparr>, pn_base64 = (\<lambda>s. s)\<rparr>"

definition sample_start_record :: started where
  "sample_start_record = \<lparr>sd_executable = ''/p/echo'', sd_arguments = [''-n'', ''hi''],
     sd_directory = ''/p'', sd_environment = [(''TERM'', ''xterm-256color''), (''COLORTERM'', ''truecolor'')],
     sd_terminal = True\<rparr>"

lemma sample_program_paths: "path_join ''/p'' ''echo'' = ''/p/echo''" "path_starts_with ''/p/echo'' ''/p''"
  by code_simp+

lemma sample_processes_prepared:
  "prepare_processes sample_program_os False (\<lambda>_. 0) ''/p'' [sample_program] = Inr sample_processes"
  by (simp add: prepare_processes_def sample_program_os_def prepare_command_def sample_program_def
      sample_program_paths sample_processes_def Let_def)

lemma sample_terminal_started:
  "fst (snd (dispatch_process sample_processes sample_terminal_request sample_process_env)) =
     [sample_start_record]"
  by (simp add: dispatch_process_def ProcessOperation_try_from_def sample_terminal_request_def
      open_pty_def validate_terminal_size_def between_def allowed_command_def sample_processes_def
      invalid_arguments_def contains_nul_def byte_def sample_process_env_def pe_check_def Let_def
      sample_start_record_def)

theorem only_declared_programs_start_witness:
  "\<exists>c. c \<in> set [sample_program] \<and>
     declared_start sample_program_os (pv_root sample_processes) c sample_terminal_request sample_start_record"
proof -
  have "dispatch_process sample_processes sample_terminal_request sample_process_env =
    (fst (dispatch_process sample_processes sample_terminal_request sample_process_env),
     [sample_start_record],
     snd (snd (dispatch_process sample_processes sample_terminal_request sample_process_env)))"
    by (simp add: sample_terminal_started prod_eq_iff)
  from only_declared_programs_start [OF sample_processes_prepared processes_used.prepared this]
  show ?thesis by (auto simp only: Bex_def list.set insertI1)
qed

theorem terminal_output_is_complete_witness:
  "[] @ ''ok'' = ([] @ ''ok'') @ (if waits \<lparr>se_output = [] @ [''ok''], se_closed = True\<rparr>
     then received_bytes ReceiveTimeout else [])"
proof (rule terminal_output_is_complete)
  show "terminal ([] @ ''ok'') [] \<lparr>se_output = [] @ [''ok''], se_closed = True\<rparr>"
    using terminal.hangs_up [OF terminal.arrives [OF terminal.opened, of "''ok''"]] by simp
  show "read_chunks \<lparr>se_output = [] @ [''ok''], se_closed = True\<rparr> ReceiveTimeout =
    (''ok'', \<lparr>se_output = [], se_closed = True\<rparr>, True)"
    by (simp add: read_chunks_def PTY_READ_LIMIT_def)
qed simp

end
