(* ===== verification/HttpClient.thy ===== *)
theory HttpClient
  imports NativeFiles Telemetry
begin

text \<open>
  \<open>http_client.rs\<close>: HTTP requests on behalf of pages, to the origins the application declares.

  The packages \<open>url\<close>, \<open>base64\<close> and \<open>ureq\<close> are the record \<open>http_packages\<close>: parsing a URL, its text
  and its origin, the encodings, and sending a request.  What is sent is returned beside the
  answer.
\<close>

definition MAX_REQUEST_BODY_BYTES :: nat where
  "MAX_REQUEST_BODY_BYTES = 8 * 1024 * 1024"

definition MAX_RESPONSE_BODY_BYTES :: nat where
  "MAX_RESPONSE_BODY_BYTES = 16 * 1024 * 1024"

definition MAX_HEADERS :: nat where
  "MAX_HEADERS = 32"

definition MAX_HEADER_BYTES :: nat where
  "MAX_HEADER_BYTES = 8 * 1024"

datatype HttpBodyEncoding = Utf8Body | Base64Body

definition HttpBodyEncoding_try_from :: "u8 \<Rightarrow> string + HttpBodyEncoding" where
  "HttpBodyEncoding_try_from v =
     (if v = 1 then Inr Utf8Body else if v = 2 then Inr Base64Body
      else Inl ''HTTP body encoding must be 1 or 2.'')"

fun HttpBodyEncoding_code :: "HttpBodyEncoding \<Rightarrow> nat" where
  "HttpBodyEncoding_code Utf8Body = 1"
| "HttpBodyEncoding_code Base64Body = 2"

record HttpRequest =
  hq_origin :: string
  hq_method :: HttpMethod
  hq_path :: string
  hq_headers :: "(string \<times> string) list"
  hq_body :: string
  hq_body_encoding :: HttpBodyEncoding
  hq_response_body_encoding :: HttpBodyEncoding
  hq_traceparent :: "string option"

text \<open>
  \<open>hc_body\<close> is what \<open>send\<close> gets; \<open>call\<close> sends no body.  The value of a response header is the
  result of \<open>to_str\<close>; \<open>hp_read\<close> reads the body up to a limit.
\<close>

record http_call =
  hc_method :: HttpMethod
  hc_url :: url
  hc_headers :: "(string \<times> string) list"
  hc_body :: "string option"

record http_reply =
  hp_status :: u16
  hp_headers :: "(string \<times> string option) list"
  hp_read :: "nat \<Rightarrow> string + string"

record http_packages =
  hk_parse :: url_parser
  hk_text :: "url \<Rightarrow> string"
  hk_origin :: "url \<Rightarrow> string"
  hk_encode :: "string \<Rightarrow> string"
  hk_decode :: "string \<Rightarrow> string option"
  hk_send :: "http_call \<Rightarrow> string + http_reply"

text \<open>The agent is configured to follow no redirect and to accept HTTPS only.\<close>

type_synonym http_services = "string \<rightharpoonup> url"

fun prepare_origins ::
    "http_packages \<Rightarrow> HttpOriginConfig list \<Rightarrow> http_services \<Rightarrow> string + http_services" where
  "prepare_origins k [] origins = Inr origins"
| "prepare_origins k (c # cs) origins =
     (case validate_http_origin (hk_parse k) c of
        Inl _ \<Rightarrow> Inl ''invalid HTTP origin''
      | Inr _ \<Rightarrow>
          (case hk_parse k (ho_origin c) of
             None \<Rightarrow> Inl ''cannot parse HTTP origin''
           | Some u \<Rightarrow> prepare_origins k cs (origins(ho_name c \<mapsto> u))))"

definition http_prepare :: "http_packages \<Rightarrow> HttpOriginConfig list \<Rightarrow> string + http_services" where
  "http_prepare k configs = prepare_origins k configs Map.empty"

definition resolve_url :: "http_packages \<Rightarrow> url \<Rightarrow> string \<Rightarrow> NativeError + url" where
  "resolve_url k origin path =
     (if \<not> starts_with ''/'' path \<or> starts_with ''//'' path \<or> CHR ''#'' \<in> set path
      then Inl (native_invalid
        ''Native HTTP paths must begin with one slash and cannot contain fragments.'')
      else
        let base_path = trim_end_slashes (url_path origin) in
        (case hk_parse k (trim_end_slashes (hk_text k origin) @ path) of
           None \<Rightarrow> Inl (native_invalid ''The native HTTP path is invalid.'')
         | Some u \<Rightarrow>
             let within_base = (base_path = [] \<or> url_path u = base_path \<or>
                   (case strip_prefix base_path (url_path u) of
                      None \<Rightarrow> False
                    | Some suffix \<Rightarrow> starts_with ''/'' suffix)) in
             if hk_origin k u \<noteq> hk_origin k origin \<or> \<not> within_base
             then Inl (native_permission ''The native HTTP request escapes its declared origin.'')
             else Inr u))"

definition eq_ignore_ascii_case :: "string \<Rightarrow> string \<Rightarrow> bool" where
  "eq_ignore_ascii_case s t \<longleftrightarrow> to_ascii_lowercase s = to_ascii_lowercase t"

definition blocked_headers :: "string list" where
  "blocked_headers = [''host'', ''connection'', ''content-length'', ''transfer-encoding'', ''cookie'',
     ''traceparent'', ''tracestate'']"

definition invalid_header :: "string \<times> string \<Rightarrow> bool" where
  "invalid_header h =
     (case h of (name, v) \<Rightarrow>
        name = [] \<or> length name > 128 \<or> length v > MAX_HEADER_BYTES \<or>
        \<not> list_all (\<lambda>c. ascii_alphanumeric (byte c) \<or> c \<in> set ''-_'') name \<or>
        list_ex (eq_ignore_ascii_case name) blocked_headers \<or>
        CHR 0x0D \<in> set v \<or> CHR 0x0A \<in> set v)"

definition validate_headers :: "(string \<times> string) list \<Rightarrow> NativeError + unit" where
  "validate_headers headers =
     (if length headers > MAX_HEADERS
      then Inl (native_too_large ''Native HTTP requests accept at most 32 headers.'')
      else if list_ex invalid_header headers
      then Inl (native_invalid ''The native HTTP headers are invalid.'')
      else Inr ())"

definition validated_traceparent :: "string option \<Rightarrow> NativeError + string option" where
  "validated_traceparent v =
     (case v of
        None \<Rightarrow> Inr None
      | Some text \<Rightarrow>
          (case parse_traceparent text of
             None \<Rightarrow> Inl (native_invalid ''The native HTTP traceparent is invalid.'')
           | Some parent \<Rightarrow> Inr (Some (header_value parent))))"

definition decode_body :: "http_packages \<Rightarrow> HttpRequest \<Rightarrow> NativeError + string" where
  "decode_body k q =
     (case hq_body_encoding q of
        Utf8Body \<Rightarrow> Inr (hq_body q)
      | Base64Body \<Rightarrow>
          (case hk_decode k (hq_body q) of
             None \<Rightarrow> Inl (native_invalid ''Base64 HTTP request bodies are invalid.'')
           | Some bytes \<Rightarrow> Inr bytes))"

definition encode_response_body :: "http_packages \<Rightarrow> string \<Rightarrow> HttpBodyEncoding \<Rightarrow> NativeError + string" where
  "encode_response_body k bytes encoding =
     (case encoding of
        Utf8Body \<Rightarrow>
          if is_utf8 bytes then Inr bytes
          else Inl (native_invalid ''Native HTTP text responses must be UTF-8; request Base64 encoding for binary data.'')
      | Base64Body \<Rightarrow> Inr (hk_encode k bytes))"

definition apply_headers :: "(string \<times> string) list \<Rightarrow> string option \<Rightarrow> (string \<times> string) list" where
  "apply_headers headers traceparent =
     headers @ (case traceparent of None \<Rightarrow> [] | Some v \<Rightarrow> [(''traceparent'', v)])"

fun sends_body :: "HttpMethod \<Rightarrow> bool" where
  "sends_body HttpMethod.Post = True"
| "sends_body HttpMethod.Put = True"
| "sends_body HttpMethod.Patch = True"
| "sends_body _ = False"

definition response_headers :: "(string \<times> string option) list \<Rightarrow> (string \<times> json) list" where
  "response_headers headers =
     fold (\<lambda>(name, v) m. case v of None \<Rightarrow> m | Some text \<Rightarrow> AList.update name (JString text) m)
       (filter (\<lambda>(name, _). \<not> eq_ignore_ascii_case name ''set-cookie'') headers) []"

definition http_answer :: "http_packages \<Rightarrow> HttpRequest \<Rightarrow> http_reply \<Rightarrow> NativeError + json" where
  "http_answer k q reply =
     (case hp_read reply MAX_RESPONSE_BODY_BYTES of
        Inl e \<Rightarrow> Inl (native_too_large (''Native HTTP response exceeds 16777216 bytes or cannot be read: '' @ e))
      | Inr bytes \<Rightarrow>
          rbind (encode_response_body k bytes (hq_response_body_encoding q)) (\<lambda>body.
            Inr (JObject [(''status'', JInt (uint (hp_status reply))),
              (''headers'', JObject (response_headers (hp_headers reply))),
              (''body'', JString body),
              (''bodyEncoding'', JInt (int (HttpBodyEncoding_code (hq_response_body_encoding q))))])))"

definition http_checked ::
    "http_packages \<Rightarrow> http_services \<Rightarrow> HttpRequest \<Rightarrow> NativeError + http_call" where
  "http_checked k origins q =
     (case origins (hq_origin q) of
        None \<Rightarrow> Inl (native_disabled (''HTTP origin '' @ hq_origin q))
      | Some origin \<Rightarrow>
          rbind (resolve_url k origin (hq_path q)) (\<lambda>u.
          rbind (validate_headers (hq_headers q)) (\<lambda>_.
          rbind (validated_traceparent (hq_traceparent q)) (\<lambda>traceparent.
          rbind (decode_body k q) (\<lambda>body.
            if length body > MAX_REQUEST_BODY_BYTES
            then Inl (native_too_large ''Native HTTP request bodies are limited to 8388608 bytes.'')
            else if \<not> sends_body (hq_method q) \<and> hq_body q \<noteq> []
            then Inl (native_invalid ''GET, DELETE and HEAD requests cannot contain a body.'')
            else Inr \<lparr>hc_method = hq_method q, hc_url = u,
              hc_headers = apply_headers (hq_headers q) traceparent,
              hc_body = (if sends_body (hq_method q) then Some body else None)\<rparr>)))))"

definition http_dispatch ::
    "http_packages \<Rightarrow> http_services \<Rightarrow> HttpRequest \<Rightarrow> http_call list \<times> (NativeError + json)" where
  "http_dispatch k origins q =
     (case http_checked k origins q of
        Inl e \<Rightarrow> ([], Inl e)
      | Inr call \<Rightarrow>
          ([call],
           case hk_send k call of
             Inl e \<Rightarrow> Inl (native_failed ''Native HTTP request failed'' e)
           | Inr reply \<Rightarrow> http_answer k q reply))"

section \<open>What is sent\<close>

text \<open>
  The target of a call as it is promised: the origin of a declared URL and, where that has a path,
  the path itself or one below it.
\<close>

definition below_origin :: "http_packages \<Rightarrow> url \<Rightarrow> url \<Rightarrow> bool" where
  "below_origin k origin u \<longleftrightarrow> hk_origin k u = hk_origin k origin \<and>
     (let base = trim_end_slashes (url_path origin) in
      base = [] \<or> url_path u = base \<or> (\<exists>rest. url_path u = base @ CHR ''/'' # rest))"

lemma prepare_origins_Inr:
  "prepare_origins k cs origins = Inr origins' \<Longrightarrow> origins' name = Some u \<Longrightarrow>
     origins name = Some u \<or>
     (\<exists>c \<in> set cs. ho_name c = name \<and> hk_parse k (ho_origin c) = Some u \<and> url_scheme u = ''https'')"
proof (induction cs arbitrary: origins)
  case (Cons c cs)
  obtain v where v: "hk_parse k (ho_origin c) = Some v" "url_scheme v = ''https''"
    "prepare_origins k cs (origins(ho_name c \<mapsto> v)) = Inr origins'"
    using Cons.prems(1)
    by (auto simp: validate_http_origin_def result_simps split: sum.splits option.splits)
  from Cons.IH [OF v(3) Cons.prems(2)] v(1,2) show ?case
    by (auto split: if_splits)
qed simp

lemma strip_prefix_Some: "strip_prefix p s = Some rest \<longleftrightarrow> s = p @ rest"
  by (auto simp: strip_prefix_def starts_with_def) (metis append_take_drop_id)

lemma starts_with_one: "starts_with [c] s \<longleftrightarrow> (\<exists>rest. s = c # rest)"
  by (cases s) (auto simp: starts_with_def)

lemma resolve_url_below: "resolve_url k origin path = Inr u \<Longrightarrow> below_origin k origin u"
  by (auto simp: resolve_url_def below_origin_def Let_def strip_prefix_Some starts_with_one
      split: if_splits option.splits)

lemma http_checked_Inr:
  assumes "http_checked k origins q = Inr call"
  obtains origin traceparent body where "origins (hq_origin q) = Some origin"
    "resolve_url k origin (hq_path q) = Inr (hc_url call)" "validate_headers (hq_headers q) = Inr ()"
    "validated_traceparent (hq_traceparent q) = Inr traceparent" "decode_body k q = Inr body"
    "length body \<le> MAX_REQUEST_BODY_BYTES" "hc_headers call = apply_headers (hq_headers q) traceparent"
    "hc_body call \<in> {None, Some body}"
  using assms
  by (auto simp: http_checked_def rbind_Inr_iff split: option.splits if_splits)

text \<open>A call that stays with what was declared and what a page may set.\<close>

definition call_confined :: "http_packages \<Rightarrow> HttpOriginConfig list \<Rightarrow> http_call \<Rightarrow> bool" where
  "call_confined k configs call \<longleftrightarrow>
     (\<exists>c \<in> set configs. \<exists>u. hk_parse k (ho_origin c) = Some u \<and> url_scheme u = ''https'' \<and>
        below_origin k u (hc_url call)) \<and>
     (\<forall>(name, v) \<in> set (hc_headers call). CHR 0x0D \<notin> set v \<and> CHR 0x0A \<notin> set v \<and>
        to_ascii_lowercase name \<notin> {''host'', ''connection'', ''content-length'',
          ''transfer-encoding'', ''cookie'', ''tracestate''}) \<and>
     (\<forall>body. hc_body call = Some body \<longrightarrow> length body \<le> MAX_REQUEST_BODY_BYTES)"

lemma lower_hex_text_lines: "lower_hex_text s \<Longrightarrow> CHR 0x0D \<notin> set s \<and> CHR 0x0A \<notin> set s"
  by (auto simp: lower_hex_text_def lower_hex_byte_def ascii_digit_def list_all_iff byte_def)

lemma validated_traceparent_lines:
  assumes "validated_traceparent t = Inr (Some v)"
  shows "CHR 0x0D \<notin> set v \<and> CHR 0x0A \<notin> set v"
proof -
  obtain parent where "v = header_value parent" "lower_hex_text (tp_trace_id parent)"
    "lower_hex_text (tp_parent_span_id parent)"
    using assms by (auto simp: validated_traceparent_def parse_traceparent_def
        split: option.splits list.splits if_splits)
  moreover have "lower_hex_text (encode_hex [tp_flags parent])"
    using encode_hex_lower [of "[tp_flags parent]"] by (simp add: lower_hex_text_def)
  ultimately show ?thesis
    by (auto simp: header_value_def dest: lower_hex_text_lines)
qed

lemma valid_header_lines:
  assumes "validate_headers headers = Inr ()" "(name, v) \<in> set headers"
  shows "CHR 0x0D \<notin> set v \<and> CHR 0x0A \<notin> set v \<and>
    to_ascii_lowercase name \<notin> {''host'', ''connection'', ''content-length'',
      ''transfer-encoding'', ''cookie'', ''tracestate''}"
proof -
  have "\<not> invalid_header (name, v)"
    using assms by (auto simp: validate_headers_def list_ex_iff split: if_splits)
  moreover have "map to_ascii_lowercase blocked_headers = blocked_headers"
    by code_simp
  ultimately show ?thesis
    by (auto simp: invalid_header_def eq_ignore_ascii_case_def blocked_headers_def)
qed

text \<open>
  C39. Every native HTTP request that leaves the host, whatever a page asks, goes to an origin that the
  application declared, over HTTPS and below its path.  None of its headers is reserved for the
  connection or holds cookies, no value can start a new line, and its body has at most eight
  mebibytes.
\<close>

theorem native_http_stays_on_origin:
  assumes "http_prepare k configs = Inr origins"
    and "http_dispatch k origins q = (calls, answer)"
    and "call \<in> set calls"
  shows "call_confined k configs call"
proof -
  have "http_checked k origins q = Inr call"
    using assms(2,3) by (auto simp: http_dispatch_def split: sum.splits)
  then obtain origin traceparent body where c: "origins (hq_origin q) = Some origin"
    "resolve_url k origin (hq_path q) = Inr (hc_url call)" "validate_headers (hq_headers q) = Inr ()"
    "validated_traceparent (hq_traceparent q) = Inr traceparent"
    "length body \<le> MAX_REQUEST_BODY_BYTES" "hc_headers call = apply_headers (hq_headers q) traceparent"
    "hc_body call \<in> {None, Some body}"
    by (rule http_checked_Inr)
  have "\<exists>c \<in> set configs. hk_parse k (ho_origin c) = Some origin \<and> url_scheme origin = ''https''"
    using prepare_origins_Inr [OF assms(1) [unfolded http_prepare_def] c(1)] by auto
  moreover have "CHR 0x0D \<notin> set v \<and> CHR 0x0A \<notin> set v \<and>
      to_ascii_lowercase name \<notin> {''host'', ''connection'', ''content-length'',
        ''transfer-encoding'', ''cookie'', ''tracestate''}" if "(name, v) \<in> set (hc_headers call)" for name v
  proof (cases "(name, v) \<in> set (hq_headers q)")
    case True
    with valid_header_lines [OF c(3)] show ?thesis by blast
  next
    case False
    with that c(6) have "traceparent = Some v" "name = ''traceparent''"
      by (auto simp: apply_headers_def split: option.splits)
    moreover have "to_ascii_lowercase ''traceparent'' = ''traceparent''" by code_simp
    ultimately show ?thesis using validated_traceparent_lines c(4) by auto
  qed
  ultimately show ?thesis
    using c(5,7) resolve_url_below [OF c(2)] by (auto simp: call_confined_def)
qed

text \<open>The cookies of an answer never reach the page.\<close>

lemma header_names:
  "fst ` set (fold (\<lambda>(name, v) m. case v of None \<Rightarrow> m | Some text \<Rightarrow> AList.update name (JString text) m) hs m)
     \<subseteq> fst ` set m \<union> fst ` set hs"
proof (induction hs arbitrary: m)
  case (Cons h hs)
  obtain name v where h: "h = (name, v)" by fastforce
  show ?case
  proof (cases v)
    case None
    with h Cons.IH [of m] show ?thesis by auto
  next
    case (Some t)
    with h Cons.IH [of "AList.update name (JString t) m"] show ?thesis
      by (simp add: dom_update)
  qed
qed simp

lemma response_headers_no_cookie:
  assumes "(name, v) \<in> set (response_headers headers)"
  shows "\<not> eq_ignore_ascii_case name ''set-cookie''"
proof -
  have "name \<in> fst ` set (response_headers headers)" using assms by force
  from subsetD [OF header_names this [unfolded response_headers_def]]
  show ?thesis by auto
qed

section \<open>Witness\<close>

definition sample_api :: url where
  "sample_api = \<lparr>url_scheme = ''https'', url_username = [], url_password = None,
     url_host_str = Some ''api.example.com'', url_host_of = Some (Domain ''api.example.com''),
     url_path = ''/v1'', url_query = None, url_fragment = None\<rparr>"

definition sample_http :: http_packages where
  "sample_http = \<lparr>hk_parse = (\<lambda>s. if s = ''https://api.example.com/v1'' then Some sample_api
       else if s = ''https://api.example.com/v1/users'' then Some (sample_api\<lparr>url_path := ''/v1/users''\<rparr>)
       else None),
     hk_text = (\<lambda>u. ''https://api.example.com'' @ url_path u), hk_origin = (\<lambda>_. ''https://api.example.com''),
     hk_encode = (\<lambda>s. s), hk_decode = Some, hk_send = (\<lambda>_. Inl ''refused'')\<rparr>"

definition sample_http_request :: HttpRequest where
  "sample_http_request = \<lparr>hq_origin = ''api'', hq_method = HttpMethod.Get, hq_path = ''/users'',
     hq_headers = [], hq_body = [], hq_body_encoding = Utf8Body,
     hq_response_body_encoding = Utf8Body, hq_traceparent = None\<rparr>"

theorem native_http_stays_on_origin_witness:
  "call_confined sample_http [\<lparr>ho_name = ''api'', ho_origin = ''https://api.example.com/v1''\<rparr>]
     \<lparr>hc_method = HttpMethod.Get, hc_url = sample_api\<lparr>url_path := ''/v1/users''\<rparr>, hc_headers = [],
       hc_body = None\<rparr>"
proof (rule native_http_stays_on_origin [where q = sample_http_request])
  have "validate_identifier ''api'' ''HTTP origin'' = Inr ()" by code_simp
  then show "http_prepare sample_http [\<lparr>ho_name = ''api'', ho_origin = ''https://api.example.com/v1''\<rparr>] =
    Inr [''api'' \<mapsto> sample_api]"
    by (simp add: http_prepare_def validate_http_origin_def sample_http_def sample_api_def reject_if_def)
  show "http_dispatch sample_http [''api'' \<mapsto> sample_api] sample_http_request =
    ([\<lparr>hc_method = HttpMethod.Get, hc_url = sample_api\<lparr>url_path := ''/v1/users''\<rparr>, hc_headers = [],
       hc_body = None\<rparr>], Inl (native_failed ''Native HTTP request failed'' ''refused''))"
    by (simp add: http_dispatch_def http_checked_def sample_http_request_def resolve_url_def
        starts_with_def sample_http_def sample_api_def trim_end_slashes_def strip_prefix_def
        validate_headers_def validated_traceparent_def decode_body_def MAX_HEADERS_def
        MAX_REQUEST_BODY_BYTES_def apply_headers_def)
qed simp

end
