(* ===== verification/DataServices.thy ===== *)
theory DataServices
  imports NativeFiles "HOL-Library.Multiset"
begin

text \<open>
  \<open>database.rs\<close>, \<open>search.rs\<close> and \<open>secret_store.rs\<close>: the SQLite databases an application declares,
  its full-text index, and its secrets.

  The package \<open>rusqlite\<close> is the record \<open>sqlite\<close> over connections \<open>'d\<close>; a transaction that is
  dropped is rolled back.  The secret service is the record \<open>secret_env\<close>.
\<close>

section \<open>SQLite\<close>

text \<open>
  A real number is \<open>None\<close> when it is not finite; otherwise it is written as the numbers of
  \<open>JFloat\<close>.  A result of a query is the names of its columns and its rows; a row that cannot be
  stepped to is an error.
\<close>

datatype sql_value =
    SqlNull
  | SqlInteger int
  | SqlReal "(int \<times> int) option"
  | SqlText string
  | SqlBlob

datatype open_flags = OpenReadOnly | OpenReadWriteCreate

record 'd sqlite =
  sl_open :: "string \<Rightarrow> open_flags \<Rightarrow> string + 'd"
  sl_busy_timeout :: "'d \<Rightarrow> string + 'd"
  sl_pragma :: "string \<Rightarrow> 'd \<Rightarrow> string + 'd"
  sl_prepare :: "string \<Rightarrow> 'd \<Rightarrow> string option"
  sl_columns :: "string \<Rightarrow> 'd \<Rightarrow> string list"
  sl_query :: "string \<Rightarrow> sql_value list \<Rightarrow> 'd \<Rightarrow> 'd \<times> (string + (string + sql_value list) list)"
  sl_execute :: "string \<Rightarrow> sql_value list \<Rightarrow> 'd \<Rightarrow> 'd \<times> (string + nat)"
  sl_last_rowid :: "'d \<Rightarrow> int"
  sl_begin :: "'d \<Rightarrow> string + 'd"
  sl_commit :: "'d \<Rightarrow> string + 'd"
  sl_rollback :: "'d \<Rightarrow> 'd"

section \<open>Databases\<close>

definition MAX_SQL_BYTES :: nat where "MAX_SQL_BYTES = 64 * 1024"
definition MAX_PARAMETERS :: nat where "MAX_PARAMETERS = 1024"
definition MAX_ROWS :: nat where "MAX_ROWS = 10000"
definition MAX_COLUMNS :: nat where "MAX_COLUMNS = 256"
definition MAX_TRANSACTIONS :: nat where "MAX_TRANSACTIONS = 256"

record DatabaseStatement =
  ds_sql :: string
  ds_parameters :: "json list"

record DatabaseRequest =
  dr_database :: string
  dr_operation :: DatabaseOperation
  dr_sql :: string
  dr_parameters :: "json list"
  dr_statements :: "DatabaseStatement list"

record 'd DatabaseHandle =
  dh_access :: DatabaseAccess
  dh_connection :: 'd

type_synonym 'd databases = "string \<rightharpoonup> 'd DatabaseHandle"

definition safe_relative_path :: "string \<Rightarrow> string + string" where
  "safe_relative_path path =
     (if path_is_absolute path \<or>
         list_ex (\<lambda>c. case c of Normal _ \<Rightarrow> False | CurDir \<Rightarrow> False | _ \<Rightarrow> True) (path_components path)
      then Inl ''database paths must be project-relative without parent components''
      else Inr path)"

record database_files =
  df_create_dir_all :: "string \<Rightarrow> string option"
  df_canonicalize :: "string \<Rightarrow> string option"
  df_is_symlink :: "string \<Rightarrow> bool"

definition database_flags :: "DatabaseAccess \<Rightarrow> open_flags" where
  "database_flags access =
     (case access of DatabaseAccess.Read \<Rightarrow> OpenReadOnly | DatabaseAccess.ReadWrite \<Rightarrow> OpenReadWriteCreate)"

definition check_parent ::
    "database_files \<Rightarrow> string \<Rightarrow> DatabaseAccess \<Rightarrow> string \<Rightarrow> string + unit" where
  "check_parent fs project_root access path =
     (case path_parent path of
        None \<Rightarrow> Inr ()
      | Some parent \<Rightarrow>
          if access = DatabaseAccess.ReadWrite \<and> df_create_dir_all fs parent \<noteq> None
          then Inl ''cannot create database directory''
          else (case df_canonicalize fs parent of
              None \<Rightarrow> Inl ''cannot resolve database directory''
            | Some canonical_parent \<Rightarrow>
                if \<not> path_starts_with canonical_parent project_root
                then Inl ''database escapes the project root'' else Inr ()))"

definition open_database ::
    "'d sqlite \<Rightarrow> database_files \<Rightarrow> string \<Rightarrow> DatabaseConfig \<Rightarrow> string + string \<times> 'd DatabaseHandle" where
  "open_database l fs project_root config =
     (case validate_database config of
        Inl _ \<Rightarrow> Inl ''invalid database configuration''
      | Inr _ \<Rightarrow>
          rbind (safe_relative_path (db_path config)) (\<lambda>relative.
          let path = path_join project_root relative; access = db_access config in
          rbind (check_parent fs project_root access path) (\<lambda>_.
          if df_is_symlink fs path then Inl ''database cannot be a symbolic link''
          else
          rbind (sl_open l path (database_flags access)) (\<lambda>connection.
          rbind (sl_busy_timeout l connection) (\<lambda>connection.
          rbind (if access = DatabaseAccess.ReadWrite
                 then rbind (sl_pragma l ''journal_mode'' connection) (sl_pragma l ''foreign_keys'')
                 else Inr connection) (\<lambda>connection.
            Inr (path, \<lparr>dh_access = access, dh_connection = connection\<rparr>)))))))"

text \<open>The databases, and the files that were opened.\<close>

fun databases_prepare ::
    "'d sqlite \<Rightarrow> database_files \<Rightarrow> string \<Rightarrow> DatabaseConfig list \<Rightarrow> 'd databases \<Rightarrow>
     (string \<times> open_flags) list \<Rightarrow> string + 'd databases \<times> (string \<times> open_flags) list" where
  "databases_prepare l fs root [] handles opened = Inr (handles, opened)"
| "databases_prepare l fs root (c # cs) handles opened =
     rbind (open_database l fs root c) (\<lambda>(path, handle).
       databases_prepare l fs root cs (handles(db_name c \<mapsto> handle))
         (opened @ [(path, database_flags (db_access c))]))"

definition database_error :: "string \<Rightarrow> NativeError" where
  "database_error e = native_failed ''Database operation failed'' e"

definition validate_statement :: "string \<Rightarrow> json list \<Rightarrow> NativeError + unit" where
  "validate_statement sql parameters =
     (if trim_is_empty sql \<or> length sql > MAX_SQL_BYTES
      then Inl (native_invalid ''SQL statements must contain 1 to 65536 bytes.'')
      else if length parameters > MAX_PARAMETERS
      then Inl (native_too_large ''SQL statements accept at most 1024 parameters.'')
      else Inr ())"

text \<open>
  The integers of the JSON package are those of \<open>i64\<close> and \<open>u64\<close>; a larger number is a float.
\<close>

fun sql_parameter :: "json \<Rightarrow> NativeError + sql_value" where
  "sql_parameter JNull = Inr SqlNull"
| "sql_parameter (JBool b) = Inr (SqlInteger (if b then 1 else 0))"
| "sql_parameter (JInt i) =
     (if - (2 ^ 63) \<le> i \<and> i < 2 ^ 63 then Inr (SqlInteger i)
      else Inl (native_invalid ''Unsigned SQL parameters must fit in i64.''))"
| "sql_parameter (JFloat m e) = Inr (SqlReal (Some (m, e)))"
| "sql_parameter (JString s) = Inr (SqlText s)"
| "sql_parameter (JArray _) =
     Inl (native_invalid ''SQL parameters must be null, booleans, numbers, or strings.'')"
| "sql_parameter (JObject _) =
     Inl (native_invalid ''SQL parameters must be null, booleans, numbers, or strings.'')"

fun sql_parameters :: "json list \<Rightarrow> NativeError + sql_value list" where
  "sql_parameters [] = Inr []"
| "sql_parameters (v # vs) =
     rbind (sql_parameter v) (\<lambda>x. rbind (sql_parameters vs) (\<lambda>xs. Inr (x # xs)))"

fun json_value :: "sql_value \<Rightarrow> NativeError + json" where
  "json_value SqlNull = Inr JNull"
| "json_value (SqlInteger i) = Inr (JInt i)"
| "json_value (SqlReal None) = Inl (native_failed ''Cannot encode database value'' ''non-finite real'')"
| "json_value (SqlReal (Some (m, e))) = Inr (JFloat m e)"
| "json_value (SqlText s) =
     (if is_utf8 s then Inr (JString s)
      else Inl (native_invalid ''Database text results must be valid UTF-8.''))"
| "json_value SqlBlob =
     Inl (native_invalid ''Blob columns require the streaming API and cannot use query().'')"

text \<open>A column whose name occurs again replaces the earlier one in the row object.\<close>

fun row_object :: "string list \<Rightarrow> sql_value list \<Rightarrow> (string \<times> json) list \<Rightarrow> NativeError + json" where
  "row_object (name # names) (v # vs) object =
     rbind (json_value v) (\<lambda>x. row_object names vs (AList.update name x object))"
| "row_object _ _ object = Inr (JObject object)"

fun query_rows ::
    "string list \<Rightarrow> (string + sql_value list) list \<Rightarrow> json list \<Rightarrow> NativeError + json list" where
  "query_rows names [] rows = Inr rows"
| "query_rows names (Inl e # _) rows = Inl (database_error e)"
| "query_rows names (Inr row # rest) rows =
     (if length rows = MAX_ROWS
      then Inl (native_too_large ''Database queries are limited to 10000 rows.'')
      else rbind (row_object names row []) (\<lambda>x. query_rows names rest (rows @ [x])))"

definition query_database ::
    "'d sqlite \<Rightarrow> 'd \<Rightarrow> string \<Rightarrow> json list \<Rightarrow> 'd \<times> (NativeError + json)" where
  "query_database l d sql parameters =
     (case rbind (validate_statement sql parameters) (\<lambda>_. sql_parameters parameters) of
        Inl e \<Rightarrow> (d, Inl e)
      | Inr vs \<Rightarrow>
          (case sl_prepare l sql d of
             Some e \<Rightarrow> (d, Inl (database_error e))
           | None \<Rightarrow>
               if length (sl_columns l sql d) > MAX_COLUMNS
               then (d, Inl (native_too_large ''Database results are limited to 256 columns.''))
               else (case sl_query l sql vs d of
                   (d', Inl e) \<Rightarrow> (d', Inl (database_error e))
                 | (d', Inr rows) \<Rightarrow>
                     (d', rbind (query_rows (sl_columns l sql d) rows [])
                       (\<lambda>rows. Inr (JObject [(''rows'', JArray rows)]))))))"

definition execute_sql ::
    "'d sqlite \<Rightarrow> 'd \<Rightarrow> string \<Rightarrow> json list \<Rightarrow> 'd \<times> (NativeError + nat)" where
  "execute_sql l d sql parameters =
     (case rbind (validate_statement sql parameters) (\<lambda>_. sql_parameters parameters) of
        Inl e \<Rightarrow> (d, Inl e)
      | Inr vs \<Rightarrow>
          (case sl_execute l sql vs d of
             (d', Inl e) \<Rightarrow> (d', Inl (database_error e))
           | (d', Inr changes) \<Rightarrow> (d', Inr changes)))"

fun run_statements ::
    "'d sqlite \<Rightarrow> DatabaseStatement list \<Rightarrow> 'd \<Rightarrow> u64 \<Rightarrow> 'd \<times> (NativeError + u64)" where
  "run_statements l [] d affected = (d, Inr affected)"
| "run_statements l (s # ss) d affected =
     (case execute_sql l d (ds_sql s) (ds_parameters s) of
        (d', Inl e) \<Rightarrow> (d', Inl e)
      | (d', Inr changes) \<Rightarrow> run_statements l ss d' (sat_add affected (of_nat changes)))"

definition run_transaction ::
    "'d sqlite \<Rightarrow> DatabaseStatement list \<Rightarrow> 'd \<Rightarrow> 'd \<times> (NativeError + json)" where
  "run_transaction l statements d =
     (case sl_begin l d of
        Inl e \<Rightarrow> (d, Inl (database_error e))
      | Inr d1 \<Rightarrow>
          (case run_statements l statements d1 0 of
             (d2, Inl e) \<Rightarrow> (sl_rollback l d2, Inl e)
           | (d2, Inr affected) \<Rightarrow>
               (case sl_commit l d2 of
                  Inl e \<Rightarrow> (sl_rollback l d2, Inl (database_error e))
                | Inr d3 \<Rightarrow> (d3, Inr (JObject [(''changes'', JInt (uint affected))])))))"

definition require_database_write :: "DatabaseAccess \<Rightarrow> NativeError + unit" where
  "require_database_write access =
     (if access = DatabaseAccess.ReadWrite then Inr ()
      else Inl (native_permission ''The database is read-only.''))"

definition database_operation ::
    "'d sqlite \<Rightarrow> 'd DatabaseHandle \<Rightarrow> DatabaseRequest \<Rightarrow> 'd \<times> (NativeError + json)" where
  "database_operation l handle q =
     (let d = dh_connection handle in
      case dr_operation q of
        DatabaseOperation.Query \<Rightarrow> query_database l d (dr_sql q) (dr_parameters q)
      | DatabaseOperation.Execute \<Rightarrow>
          (case require_database_write (dh_access handle) of
             Inl e \<Rightarrow> (d, Inl e)
           | Inr _ \<Rightarrow>
               (case execute_sql l d (dr_sql q) (dr_parameters q) of
                  (d', Inl e) \<Rightarrow> (d', Inl e)
                | (d', Inr changes) \<Rightarrow>
                    (d', Inr (JObject [(''changes'', JInt (int changes)),
                      (''lastInsertRowId'', JInt (sl_last_rowid l d'))]))))
      | DatabaseOperation.Transaction \<Rightarrow>
          (case require_database_write (dh_access handle) of
             Inl e \<Rightarrow> (d, Inl e)
           | Inr _ \<Rightarrow>
               if dr_statements q = [] \<or> length (dr_statements q) > MAX_TRANSACTIONS
               then (d, Inl (native_invalid ''Transactions require 1 to 256 statements.''))
               else run_transaction l (dr_statements q) d))"

definition database_dispatch ::
    "'d sqlite \<Rightarrow> 'd databases \<Rightarrow> DatabaseRequest \<Rightarrow> 'd databases \<times> (NativeError + json)" where
  "database_dispatch l handles q =
     (case handles (dr_database q) of
        None \<Rightarrow> (handles, Inl (native_disabled (''database '' @ dr_database q)))
      | Some handle \<Rightarrow>
          (case database_operation l handle q of
             (d, r) \<Rightarrow> (handles(dr_database q \<mapsto> handle\<lparr>dh_connection := d\<rparr>), r)))"

section \<open>Search\<close>

definition MAX_CONTENT_BYTES :: nat where "MAX_CONTENT_BYTES = 2 * 1024 * 1024"
definition MAX_QUERY_BYTES :: nat where "MAX_QUERY_BYTES = 4 * 1024"

datatype SearchOperation = IndexDocument | RemoveDocument | QueryDocuments | RebuildIndex | ClearIndex

definition SearchOperation_try_from :: "u8 \<Rightarrow> NativeError + SearchOperation" where
  "SearchOperation_try_from v =
     (if v = 1 then Inr IndexDocument else if v = 2 then Inr RemoveDocument
      else if v = 3 then Inr QueryDocuments else if v = 4 then Inr RebuildIndex
      else if v = 5 then Inr ClearIndex
      else Inl (native_invalid ''Unknown search operation.''))"

record SearchRequest =
  sr_operation :: u8
  sr_path :: string
  sr_title :: string
  sr_content :: string
  sr_query :: string
  sr_limit :: u16

definition search_error :: "string \<Rightarrow> NativeError" where
  "search_error e = native_failed ''Search index operation failed'' e"

definition DELETE_DOCUMENT :: string where
  "DELETE_DOCUMENT = ''DELETE FROM documents WHERE path = ?1''"

definition INSERT_DOCUMENT :: string where
  "INSERT_DOCUMENT = ''INSERT INTO documents(path,title,content) VALUES(?1,?2,?3)''"

definition CLEAR_DOCUMENTS :: string where
  "CLEAR_DOCUMENTS = ''DELETE FROM documents''"

text \<open>
  The statements of one transaction; the first error rolls it back.  An error beside the
  statements is one that the loop over the files meets before the next statement.
\<close>

type_synonym search_action = "NativeError + string \<times> sql_value list"

fun search_statements :: "'d sqlite \<Rightarrow> search_action list \<Rightarrow> 'd \<Rightarrow> 'd \<times> (NativeError + unit)" where
  "search_statements l [] d = (d, Inr ())"
| "search_statements l (Inl e # rest) d = (d, Inl e)"
| "search_statements l (Inr (sql, vs) # rest) d =
     (case sl_execute l sql vs d of
        (d', Inl e) \<Rightarrow> (d', Inl (search_error e))
      | (d', Inr _) \<Rightarrow> search_statements l rest d')"

definition search_transaction ::
    "'d sqlite \<Rightarrow> search_action list \<Rightarrow> nat \<Rightarrow> 'd \<Rightarrow> 'd \<times> (NativeError + json)" where
  "search_transaction l actions indexed d =
     (case sl_begin l d of
        Inl e \<Rightarrow> (d, Inl (search_error e))
      | Inr d1 \<Rightarrow>
          (case search_statements l actions d1 of
             (d2, Inl e) \<Rightarrow> (sl_rollback l d2, Inl e)
           | (d2, Inr _) \<Rightarrow>
               (case sl_commit l d2 of
                  Inl e \<Rightarrow> (sl_rollback l d2, Inl (search_error e))
                | Inr d3 \<Rightarrow> (d3, Inr (JObject [(''indexed'', JInt (int indexed))])))))"

definition index_document ::
    "'d sqlite \<Rightarrow> 'd \<Rightarrow> string \<Rightarrow> string \<Rightarrow> string \<Rightarrow> 'd \<times> (NativeError + json)" where
  "index_document l d path title content =
     (if path = [] \<or> length path > 4096 \<or> length content > MAX_CONTENT_BYTES
      then (d, Inl (native_invalid
        ''Indexed documents require a bounded path and at most 2 MiB of UTF-8 content.''))
      else search_transaction l [Inr (DELETE_DOCUMENT, [SqlText path]),
             Inr (INSERT_DOCUMENT, [SqlText path, SqlText title, SqlText content])] 1 d)"

text \<open>\<open>matches\<close> is the result of the full-text query with its limit.\<close>

definition search_documents ::
    "(string \<Rightarrow> u16 \<Rightarrow> string + json list) \<Rightarrow> string \<Rightarrow> u16 \<Rightarrow> NativeError + json" where
  "search_documents matches v limit =
     (if trim_is_empty v \<or> length v > MAX_QUERY_BYTES \<or> \<not> between 1 500 limit
      then Inl (native_invalid ''Search requires a query and a limit between 1 and 500.'')
      else case matches v limit of
        Inl e \<Rightarrow> Inl (search_error e)
      | Inr rows \<Rightarrow> Inr (JObject [(''rows'', JArray rows)]))"

text \<open>
  The entries of a directory that is being indexed: errors, links, directories, files with their
  length and their content where it can be read as text, and others.  A directory that cannot be
  read has an error as its only entry.
\<close>

datatype scan_entry =
    ScanError NativeError
  | ScanLink
  | ScanDirectory string "scan_entry list"
  | ScanFile string "nat option" "string option"
  | ScanOther

definition indexed_path :: "string list \<Rightarrow> string" where
  "indexed_path names = map (\<lambda>c. if c = CHR 0x5C then CHR ''/'' else c) (join_slash names)"

definition scan_file ::
    "string list \<Rightarrow> string \<Rightarrow> nat option \<Rightarrow> string option \<Rightarrow> search_action list" where
  "scan_file at name len content =
     (case len of
        None \<Rightarrow> []
      | Some n \<Rightarrow>
          if n > MAX_CONTENT_BYTES then []
          else (case content of
              None \<Rightarrow> []
            | Some document \<Rightarrow>
                [Inr (INSERT_DOCUMENT, [SqlText (indexed_path (at @ [name])), SqlText name,
                   SqlText document])]))"

text \<open>
  The loop over one directory, and the loop over the stack of directories: the one found last is
  scanned first.
\<close>

fun scan_files :: "string list \<Rightarrow> scan_entry list \<Rightarrow>
    search_action list \<times> (string list \<times> scan_entry list) list" where
  "scan_files at [] = ([], [])"
| "scan_files at (ScanError e # rest) = ([Inl e], [])"
| "scan_files at (ScanLink # rest) = scan_files at rest"
| "scan_files at (ScanOther # rest) = scan_files at rest"
| "scan_files at (ScanDirectory name entries # rest) =
     (case scan_files at rest of (files, directories) \<Rightarrow>
        (files, (at @ [name], entries) # directories))"
| "scan_files at (ScanFile name len content # rest) =
     (case scan_files at rest of (files, directories) \<Rightarrow>
        (scan_file at name len content @ files, directories))"

fun scan_size :: "scan_entry \<Rightarrow> nat" where
  "scan_size (ScanDirectory name entries) = Suc (sum_list (map scan_size entries))"
| "scan_size _ = 0"

definition stack_size :: "(string list \<times> scan_entry list) list \<Rightarrow> nat" where
  "stack_size stack = sum_list (map (\<lambda>d. Suc (sum_list (map scan_size (snd d)))) stack)"

lemma scan_files_size:
  "stack_size (snd (scan_files at entries)) \<le> sum_list (map scan_size entries)"
  by (induction at entries rule: scan_files.induct)
    (auto simp: stack_size_def split: prod.splits)

function scan_directories :: "(string list \<times> scan_entry list) list \<Rightarrow> search_action list" where
  "scan_directories [] = []"
| "scan_directories ((at, entries) # stack) =
     fst (scan_files at entries) @
       scan_directories (rev (snd (scan_files at entries)) @ stack)"
  by pat_completeness auto
termination
proof (relation "measure stack_size")
  fix at entries stack
  have "stack_size (rev (snd (scan_files at entries)) @ stack) =
      stack_size (snd (scan_files at entries)) + stack_size stack"
    by (simp add: stack_size_def rev_map [symmetric])
  with scan_files_size [of at entries]
  show "(rev (snd (scan_files at entries)) @ stack, (at, entries) # stack) \<in> measure stack_size"
    by (simp add: stack_size_def)
qed simp

definition rebuild_index :: "'d sqlite \<Rightarrow> 'd \<Rightarrow> scan_entry list \<Rightarrow> 'd \<times> (NativeError + json)" where
  "rebuild_index l d entries =
     (let documents = scan_directories [([], entries)] in
      search_transaction l (Inr (CLEAR_DOCUMENTS, []) # documents) (length documents) d)"

text \<open>\<open>root\<close> is the authorized directory, when the request has one.\<close>

definition search_dispatch ::
    "'d sqlite \<Rightarrow> (string \<Rightarrow> u16 \<Rightarrow> string + json list) \<Rightarrow> 'd \<Rightarrow> SearchRequest \<Rightarrow>
     scan_entry list option \<Rightarrow> 'd \<times> (NativeError + json)" where
  "search_dispatch l matches d q root =
     (case SearchOperation_try_from (sr_operation q) of
        Inl e \<Rightarrow> (d, Inl e)
      | Inr IndexDocument \<Rightarrow> index_document l d (sr_path q) (sr_title q) (sr_content q)
      | Inr RemoveDocument \<Rightarrow>
          (case sl_execute l DELETE_DOCUMENT [SqlText (sr_path q)] d of
             (d', Inl e) \<Rightarrow> (d', Inl (search_error e))
           | (d', Inr removed) \<Rightarrow> (d', Inr (JObject [(''removed'', JInt (int removed))])))
      | Inr QueryDocuments \<Rightarrow> (d, search_documents matches (sr_query q) (sr_limit q))
      | Inr RebuildIndex \<Rightarrow>
          (case root of
             None \<Rightarrow> (d, Inl (native_invalid
               ''Search rebuild requires an authorized filesystem target.''))
           | Some entries \<Rightarrow> rebuild_index l d entries)
      | Inr ClearIndex \<Rightarrow>
          (case sl_execute l CLEAR_DOCUMENTS [] d of
             (d', Inl e) \<Rightarrow> (d', Inl (search_error e))
           | (d', Inr removed) \<Rightarrow> (d', Inr (JObject [(''removed'', JInt (int removed))]))))"

section \<open>Secrets\<close>

definition MAX_SECRET_BYTES :: nat where "MAX_SECRET_BYTES = 64 * 1024"

record SecretRequest =
  sq_operation :: SecretOperation
  sq_key :: string
  sq_value :: "string option"

text \<open>
  The secret service on Linux: \<open>sv_search\<close> gives the unlocked and the locked items with the two
  attributes, \<open>sv_locked\<close> says whether the default collection is locked.  The calls that
  change it are returned in order.
\<close>

record secret_env =
  sv_connect :: "string option"
  sv_search :: "string + string list \<times> string list"
  sv_unlock :: "string \<Rightarrow> string option"
  sv_secret :: "string \<Rightarrow> string + string"
  sv_collection :: "string option"
  sv_locked :: "string + bool"
  sv_unlock_collection :: "string option"
  sv_create :: "string option"
  sv_delete :: "string \<Rightarrow> string option"

datatype secret_call =
    SearchItems "(string \<times> string) list"
  | CreateItem string "(string \<times> string) list" string
  | DeleteItem string

definition secret_attributes :: "string \<Rightarrow> string \<Rightarrow> (string \<times> string) list" where
  "secret_attributes application_id key = [(''application'', application_id), (''pam-key'', key)]"

definition first_item :: "secret_env \<Rightarrow> string list \<times> string list \<Rightarrow> NativeError + string option" where
  "first_item env found =
     (case found of
        (item # _, _) \<Rightarrow> Inr (Some item)
      | ([], item # _) \<Rightarrow>
          (case sv_unlock env item of
             Some e \<Rightarrow> Inl (native_failed ''Cannot unlock the secret'' e)
           | None \<Rightarrow> Inr (Some item))
      | ([], []) \<Rightarrow> Inr None)"

definition read_secret :: "secret_env \<Rightarrow> NativeError + string option" where
  "read_secret env =
     (case sv_search env of
        Inl e \<Rightarrow> Inl (native_failed ''Cannot search Linux Secret Service'' e)
      | Inr found \<Rightarrow>
          rbind (first_item env found) (\<lambda>item.
            case item of
              None \<Rightarrow> Inr None
            | Some item \<Rightarrow>
                (case sv_secret env item of
                   Inl e \<Rightarrow> Inl (native_failed ''Cannot read the secret'' e)
                 | Inr bytes \<Rightarrow>
                     if length bytes > MAX_SECRET_BYTES
                     then Inl (native_too_large ''Stored secret exceeds 64 KiB.'')
                     else if \<not> is_utf8 bytes
                     then Inl (native_invalid ''Stored secret is not valid UTF-8.'')
                     else Inr (Some bytes))))"

fun delete_items :: "secret_env \<Rightarrow> string list \<Rightarrow> secret_call list \<times> (NativeError + unit)" where
  "delete_items env [] = ([], Inr ())"
| "delete_items env (item # items) =
     (case sv_delete env item of
        Some e \<Rightarrow> ([DeleteItem item], Inl (native_failed ''Cannot delete the secret'' e))
      | None \<Rightarrow> (case delete_items env items of (calls, r) \<Rightarrow> (DeleteItem item # calls, r)))"

definition write_secret ::
    "secret_env \<Rightarrow> string \<Rightarrow> string \<Rightarrow> string \<Rightarrow> secret_call list \<times> (NativeError + string option)" where
  "write_secret env application_id key v =
     (case sv_collection env of
        Some e \<Rightarrow> ([], Inl (native_failed ''Cannot open the default Linux secret collection'' e))
      | None \<Rightarrow>
          (case sv_locked env of
             Inl e \<Rightarrow> ([], Inl (native_failed ''Cannot inspect the Linux secret collection'' e))
           | Inr locked \<Rightarrow>
               if locked \<and> sv_unlock_collection env \<noteq> None
               then ([], Inl (native_failed ''Cannot unlock the Linux secret collection''
                 (the (sv_unlock_collection env))))
               else
                 ([CreateItem (application_id @ '': '' @ key) (secret_attributes application_id key) v],
                  case sv_create env of
                    Some e \<Rightarrow> Inl (native_failed ''Cannot store the secret'' e)
                  | None \<Rightarrow> Inr None)))"

definition secret_execute ::
    "secret_env \<Rightarrow> string \<Rightarrow> SecretRequest \<Rightarrow> secret_call list \<times> (NativeError + string option)" where
  "secret_execute env application_id q =
     (let search = SearchItems (secret_attributes application_id (sq_key q)) in
      if validate_identifier (sq_key q) ''secret key'' \<noteq> Inr ()
      then ([], Inl (native_invalid ''invalid secret key''))
      else if (case sq_value q of None \<Rightarrow> False | Some v \<Rightarrow> length v > MAX_SECRET_BYTES)
      then ([], Inl (native_too_large ''Secrets cannot exceed 64 KiB.''))
      else case sv_connect env of
        Some e \<Rightarrow> ([], Inl (native_failed ''Cannot connect to Linux Secret Service'' e))
      | None \<Rightarrow>
          (case sq_operation q of
             SecretOperation.Read \<Rightarrow>
               if sq_value q \<noteq> None
               then ([], Inl (native_invalid ''Secret reads cannot include a value.''))
               else ([search], read_secret env)
           | SecretOperation.Write \<Rightarrow>
               (case sq_value q of
                  None \<Rightarrow> ([], Inl (native_invalid ''Secret writes require a value.''))
                | Some v \<Rightarrow> write_secret env application_id (sq_key q) v)
           | SecretOperation.Delete \<Rightarrow>
               if sq_value q \<noteq> None
               then ([], Inl (native_invalid ''Secret deletion cannot include a value.''))
               else (case sv_search env of
                   Inl e \<Rightarrow> ([search], Inl (native_failed ''Cannot search Linux Secret Service'' e))
                 | Inr (unlocked, locked) \<Rightarrow>
                     (case delete_items env (unlocked @ locked) of
                        (calls, r) \<Rightarrow> (search # calls, rbind r (\<lambda>_. Inr None))))))"

section \<open>Transactions\<close>

text \<open>
  What SQLite documents of a transaction: as long as no statement ends it (\<open>ends\<close>), rolling it
  back restores the database.
\<close>

inductive statements_run :: "'d sqlite \<Rightarrow> (string \<Rightarrow> bool) \<Rightarrow> 'd \<Rightarrow> 'd \<Rightarrow> bool" for l ends d0 where
  begun: "sl_begin l d0 = Inr d \<Longrightarrow> statements_run l ends d0 d"
| executed: "statements_run l ends d0 d \<Longrightarrow> \<not> ends sql \<Longrightarrow> statements_run l ends d0 (fst (sl_execute l sql vs d))"

definition rolls_back :: "'d sqlite \<Rightarrow> (string \<Rightarrow> bool) \<Rightarrow> bool" where
  "rolls_back l ends \<longleftrightarrow> (\<forall>d0 d. statements_run l ends d0 d \<longrightarrow> sl_rollback l d = d0)"

lemma execute_sql_run:
  assumes "statements_run l ends d0 d" "\<not> ends sql" "execute_sql l d sql ps = (d', r)"
  shows "statements_run l ends d0 d'"
proof -
  have "d' = d \<or> (\<exists>vs. d' = fst (sl_execute l sql vs d))"
    using assms(3) by (auto simp: execute_sql_def split: sum.splits prod.splits) (metis fst_conv)+
  with assms(1,2) statements_run.executed show ?thesis by fastforce
qed

lemma run_statements_run:
  "statements_run l ends d0 d \<Longrightarrow> \<forall>s \<in> set ss. \<not> ends (ds_sql s) \<Longrightarrow>
     run_statements l ss d affected = (d', r) \<Longrightarrow> statements_run l ends d0 d'"
proof (induction l ss d affected rule: run_statements.induct)
  case (2 l s ss d affected)
  obtain d1 r1 where e: "execute_sql l d (ds_sql s) (ds_parameters s) = (d1, r1)" by fastforce
  have "statements_run l ends d0 d1"
    using execute_sql_run [OF "2.prems"(1) _ e] "2.prems"(2) by simp
  with e 2 show ?case by (cases r1) auto
qed simp

text \<open>
  A transaction that fails, at a statement or at the commit, leaves the database as it was, if
  none of its statements ends the transaction.
\<close>

theorem failed_transaction_is_rolled_back:
  assumes "rolls_back l ends"
    and "\<forall>s \<in> set (dr_statements q). \<not> ends (ds_sql s)"
    and "dr_operation q = DatabaseOperation.Transaction"
    and "database_dispatch l handles q = (handles', Inl e)"
  shows "handles' = handles"
proof -
  have run: "d' = d" if "run_transaction l (dr_statements q) d = (d', Inl e)" for d d'
  proof (cases "sl_begin l d")
    case (Inl x)
    with that show ?thesis by (simp add: run_transaction_def)
  next
    case (Inr d1)
    obtain d2 r where r: "run_statements l (dr_statements q) d1 0 = (d2, r)" by fastforce
    have "statements_run l ends d d2"
      using run_statements_run [OF statements_run.begun [OF Inr] assms(2) r] .
    then have "sl_rollback l d2 = d" using assms(1) by (auto simp: rolls_back_def)
    with that Inr r show ?thesis by (auto simp: run_transaction_def split: sum.splits)
  qed
  show ?thesis
  proof (cases "handles (dr_database q)")
    case None
    with assms(4) show ?thesis by (simp add: database_dispatch_def)
  next
    case (Some handle)
    obtain d r where o: "database_operation l handle q = (d, r)" by fastforce
    with assms(4) Some have "r = Inl e" and h: "handles' = handles(dr_database q \<mapsto> handle\<lparr>dh_connection := d\<rparr>)"
      by (auto simp: database_dispatch_def)
    with o assms(3) run have "d = dh_connection handle"
      by (auto simp: database_operation_def Let_def split: sum.splits if_splits)
    with h Some show ?thesis by (simp add: fun_upd_idem)
  qed
qed

text \<open>
  A connection with one counter: the committed value and, in a transaction, the value it was begun
  at.  Every statement but the commit adds one; an empty one fails.
\<close>

definition sample_sqlite :: "(nat \<times> nat option) sqlite" where
  "sample_sqlite = \<lparr>sl_open = (\<lambda>_ _. Inr (0, None)), sl_busy_timeout = Inr, sl_pragma = (\<lambda>_. Inr),
     sl_prepare = (\<lambda>_ _. None), sl_columns = (\<lambda>_ _. []), sl_query = (\<lambda>_ _ d. (d, Inr [])),
     sl_execute = (\<lambda>sql _ (n, saved).
       if sql = ''COMMIT'' then ((n, None), Inr 0)
       else if sql = ''FAIL'' then ((n, saved), Inl ''no such table'')
       else ((Suc n, saved), Inr 1)),
     sl_last_rowid = (\<lambda>_. 0), sl_begin = (\<lambda>(n, saved). case saved of
       None \<Rightarrow> Inr (n, Some n) | Some _ \<Rightarrow> Inl ''cannot start a transaction within a transaction''),
     sl_commit = (\<lambda>(n, _). Inr (n, None)),
     sl_rollback = (\<lambda>(n, saved). case saved of None \<Rightarrow> (n, None) | Some m \<Rightarrow> (m, None))\<rparr>"

lemma sample_rolls_back: "rolls_back sample_sqlite (\<lambda>sql. sql = ''COMMIT'')"
proof -
  have "\<exists>n. snd d = Some n \<and> d0 = (n, None)"
    if "statements_run sample_sqlite (\<lambda>sql. sql = ''COMMIT'') d0 d" for d0 d
    using that
  proof (induction rule: statements_run.induct)
    case (begun d)
    then show ?case by (cases d0) (auto simp: sample_sqlite_def split: option.splits)
  next
    case (executed d sql vs)
    then show ?case by (cases d) (auto simp: sample_sqlite_def)
  qed
  then show ?thesis
    unfolding rolls_back_def by (force simp: sample_sqlite_def split: option.splits)
qed

definition sample_statement :: "string \<Rightarrow> DatabaseStatement" where
  "sample_statement sql = \<lparr>ds_sql = sql, ds_parameters = []\<rparr>"

definition sample_transaction :: "string list \<Rightarrow> DatabaseRequest" where
  "sample_transaction sqls = \<lparr>dr_database = ''app'', dr_operation = DatabaseOperation.Transaction,
     dr_sql = [], dr_parameters = [], dr_statements = map sample_statement sqls\<rparr>"

definition sample_databases :: "nat \<Rightarrow> (nat \<times> nat option) databases" where
  "sample_databases n = [''app'' \<mapsto> \<lparr>dh_access = DatabaseAccess.ReadWrite, dh_connection = (n, None)\<rparr>]"

lemma sample_sql_valid:
  "validate_statement ''FAIL'' [] = Inr ()" "validate_statement ''INSERT'' [] = Inr ()"
  "validate_statement ''COMMIT'' [] = Inr ()"
  by (simp_all add: validate_statement_def trim_is_empty_def trim_chars_def str_chars_def
      char_whitespace_def byte_def MAX_SQL_BYTES_def MAX_PARAMETERS_def)

lemma sample_sqlite_steps:
  "execute_sql sample_sqlite (n, s) ''INSERT'' [] = ((Suc n, s), Inr 1)"
  "execute_sql sample_sqlite (n, s) ''COMMIT'' [] = ((n, None), Inr 0)"
  "execute_sql sample_sqlite (n, s) ''FAIL'' [] = ((n, s), Inl (database_error ''no such table''))"
  "sl_begin sample_sqlite (n, None) = Inr (n, Some n)"
  "sl_rollback sample_sqlite (n, Some m) = (m, None)" "sl_rollback sample_sqlite (n, None) = (n, None)"
  by (simp_all add: execute_sql_def sample_sql_valid) (simp_all add: sample_sqlite_def)

theorem failed_transaction_is_rolled_back_witness: "sample_databases 0 = sample_databases 0"
proof (rule failed_transaction_is_rolled_back [OF sample_rolls_back,
      where q = "sample_transaction [''INSERT'', ''FAIL'']" and e = "database_error ''no such table''"])
  show "database_dispatch sample_sqlite (sample_databases 0) (sample_transaction [''INSERT'', ''FAIL'']) =
    (sample_databases 0, Inl (database_error ''no such table''))"
    by (simp add: database_dispatch_def sample_databases_def sample_transaction_def Let_def
        database_operation_def require_database_write_def MAX_TRANSACTIONS_def run_transaction_def
        sample_statement_def sample_sqlite_steps)
qed (simp_all add: sample_transaction_def sample_statement_def)

text \<open>
  A statement that ends the transaction makes the earlier ones permanent although the request
  fails: nothing keeps a page from sending one.
\<close>

theorem committed_statement_survives_failure:
  "database_dispatch sample_sqlite (sample_databases 0) (sample_transaction [''INSERT'', ''COMMIT'', ''FAIL'']) =
     (sample_databases 1, Inl (database_error ''no such table''))"
  by (simp add: database_dispatch_def sample_databases_def sample_transaction_def Let_def
      database_operation_def require_database_write_def MAX_TRANSACTIONS_def run_transaction_def
      sample_statement_def sample_sqlite_steps)

section \<open>Database files\<close>

definition database_confined ::
    "database_files \<Rightarrow> string \<Rightarrow> DatabaseConfig list \<Rightarrow> string \<times> open_flags \<Rightarrow> bool" where
  "database_confined fs root configs opened \<longleftrightarrow>
     (\<exists>c \<in> set configs. fst opened = path_join root (db_path c) \<and>
        snd opened = (if db_access c = DatabaseAccess.Read then OpenReadOnly else OpenReadWriteCreate) \<and>
        \<not> df_is_symlink fs (fst opened) \<and>
        (\<forall>parent. path_parent (fst opened) = Some parent \<longrightarrow>
           (\<exists>p. df_canonicalize fs parent = Some p \<and> path_starts_with p root)))"

lemma open_database_Inr:
  "open_database l fs root c = Inr (path, handle) \<Longrightarrow>
     path = path_join root (db_path c) \<and> \<not> df_is_symlink fs path \<and>
     (\<forall>parent. path_parent path = Some parent \<longrightarrow>
       (\<exists>p. df_canonicalize fs parent = Some p \<and> path_starts_with p root))"
  by (auto simp: open_database_def Let_def rbind_Inr_iff safe_relative_path_def check_parent_def
      split: sum.splits if_splits option.splits)

lemma databases_prepare_Inr:
  "databases_prepare l fs root cs handles opened = Inr (handles', opened') \<Longrightarrow> x \<in> set opened' \<Longrightarrow>
     x \<in> set opened \<or> database_confined fs root cs x"
proof (induction cs arbitrary: handles opened)
  case (Cons c cs)
  obtain path handle where o: "open_database l fs root c = Inr (path, handle)"
    "databases_prepare l fs root cs (handles(db_name c \<mapsto> handle))
      (opened @ [(path, database_flags (db_access c))]) = Inr (handles', opened')"
    using Cons.prems(1) by (auto simp: rbind_Inr_iff split: prod.splits)
  have new: "database_confined fs root (c # cs) (path, database_flags (db_access c))"
    using open_database_Inr [OF o(1)]
    by (auto simp: database_confined_def database_flags_def split: DatabaseAccess.splits)
  have old: "database_confined fs root cs x \<Longrightarrow> database_confined fs root (c # cs) x"
    by (auto simp: database_confined_def)
  from Cons.IH [OF o(2) Cons.prems(2)] new old show ?case by auto
qed auto

text \<open>
  The only files opened as databases are those the application declares, below the project with
  the links of the directory resolved, not through a link of their own, and read-only where
  declared so.
\<close>

theorem database_files_are_confined:
  assumes "databases_prepare l fs root configs Map.empty [] = Inr (handles, opened)"
    and "x \<in> set opened"
  shows "database_confined fs root configs x"
  using databases_prepare_Inr [OF assms(1)] assms(2) by auto

theorem database_files_are_confined_witness:
  "database_confined \<lparr>df_create_dir_all = (\<lambda>_. None), df_canonicalize = Some, df_is_symlink = (\<lambda>_. False)\<rparr>
     ''/p'' [\<lparr>db_name = ''app'', db_path = ''data/app.db'', db_access = DatabaseAccess.Read\<rparr>]
     (''/p/data/app.db'', OpenReadOnly)"
proof (rule database_files_are_confined)
  have "validate_database \<lparr>db_name = ''app'', db_path = ''data/app.db'', db_access = DatabaseAccess.Read\<rparr> = Inr ()"
    "safe_relative_path ''data/app.db'' = Inr ''data/app.db''"
    "path_join ''/p'' ''data/app.db'' = ''/p/data/app.db''"
    "path_parent ''/p/data/app.db'' = Some ''/p/data''" "path_starts_with ''/p/data'' ''/p''"
    by code_simp+
  then show "databases_prepare sample_sqlite
      \<lparr>df_create_dir_all = (\<lambda>_. None), df_canonicalize = Some, df_is_symlink = (\<lambda>_. False)\<rparr> ''/p''
      [\<lparr>db_name = ''app'', db_path = ''data/app.db'', db_access = DatabaseAccess.Read\<rparr>] Map.empty [] =
    Inr ([''app'' \<mapsto> \<lparr>dh_access = DatabaseAccess.Read, dh_connection = (0, None)\<rparr>],
      [(''/p/data/app.db'', OpenReadOnly)])"
    by (simp add: open_database_def Let_def check_parent_def database_flags_def sample_sqlite_def)
qed simp

section \<open>The index\<close>

text \<open>
  What SQLite does with the statements on the table of documents: \<open>view\<close> are the rows.
\<close>

type_synonym document = "string \<times> string \<times> string"

definition document_table :: "'d sqlite \<Rightarrow> ('d \<Rightarrow> document multiset) \<Rightarrow> bool" where
  "document_table l view \<longleftrightarrow>
     (\<forall>d d'. sl_begin l d = Inr d' \<longrightarrow> view d' = view d) \<and>
     (\<forall>d d'. sl_commit l d = Inr d' \<longrightarrow> view d' = view d) \<and>
     (\<forall>d d' n. sl_execute l CLEAR_DOCUMENTS [] d = (d', Inr n) \<longrightarrow> view d' = {#}) \<and>
     (\<forall>p d d' n. sl_execute l DELETE_DOCUMENT [SqlText p] d = (d', Inr n) \<longrightarrow>
        view d' = filter_mset (\<lambda>x. fst x \<noteq> p) (view d)) \<and>
     (\<forall>p t c d d' n. sl_execute l INSERT_DOCUMENT [SqlText p, SqlText t, SqlText c] d = (d', Inr n) \<longrightarrow>
        view d' = add_mset (p, t, c) (view d))"

text \<open>The documents of a tree, as a recursion over it.\<close>

definition file_documents :: "string list \<Rightarrow> string \<Rightarrow> nat option \<Rightarrow> string option \<Rightarrow> document list" where
  "file_documents at name len content =
     (case (len, content) of
        (Some n, Some document) \<Rightarrow>
          if n \<le> MAX_CONTENT_BYTES then [(indexed_path (at @ [name]), name, document)] else []
      | _ \<Rightarrow> [])"

fun tree_documents :: "string list \<Rightarrow> scan_entry \<Rightarrow> document list" where
  "tree_documents at (ScanDirectory name entries) =
     concat (map (tree_documents (at @ [name])) entries)"
| "tree_documents at (ScanFile name len content) = file_documents at name len content"
| "tree_documents at _ = []"

definition insertion :: "document \<Rightarrow> search_action" where
  "insertion x = (case x of (p, t, c) \<Rightarrow> Inr (INSERT_DOCUMENT, [SqlText p, SqlText t, SqlText c]))"

lemma scan_file_insertions: "scan_file at name len content = map insertion (file_documents at name len content)"
  by (auto simp: scan_file_def file_documents_def insertion_def split: option.splits)

lemma scan_files_insertions:
  assumes "\<forall>x \<in> set (fst (scan_files at entries)). is_ok x"
  shows "\<exists>ds. fst (scan_files at entries) = map insertion ds \<and>
    mset ds + mset (concat (map (\<lambda>d. concat (map (tree_documents (fst d)) (snd d))) (snd (scan_files at entries)))) =
      mset (concat (map (tree_documents at) entries))"
  using assms
proof (induction at entries rule: scan_files.induct)
  case (5 at name entries rest)
  then show ?case by (auto simp: union_assoc union_commute split: prod.splits)
next
  case (6 at name len content rest)
  obtain files directories where s: "scan_files at rest = (files, directories)" by fastforce
  with 6 obtain ds where ds: "files = map insertion ds"
    "mset ds + mset (concat (map (\<lambda>d. concat (map (tree_documents (fst d)) (snd d))) directories)) =
      mset (concat (map (tree_documents at) rest))"
    by auto
  with s show ?case
    by (intro exI [of _ "file_documents at name len content @ ds"])
      (simp add: scan_file_insertions union_assoc)
qed auto

lemma mset_concat_rev: "mset (concat (map f (rev xs))) = mset (concat (map f xs))"
  by (induction xs) (simp_all add: union_commute)

lemma scan_directories_insertions:
  assumes "\<forall>x \<in> set (scan_directories stack). is_ok x"
  shows "\<exists>ds. scan_directories stack = map insertion ds \<and>
    mset ds = mset (concat (map (\<lambda>d. concat (map (tree_documents (fst d)) (snd d))) stack))"
  using assms
proof (induction stack rule: scan_directories.induct)
  case (2 at entries stack)
  obtain ds where ds: "fst (scan_files at entries) = map insertion ds"
    "mset ds + mset (concat (map (\<lambda>d. concat (map (tree_documents (fst d)) (snd d))) (snd (scan_files at entries)))) =
      mset (concat (map (tree_documents at) entries))"
    using scan_files_insertions [of at entries] 2(2) by auto
  obtain es where es: "scan_directories (rev (snd (scan_files at entries)) @ stack) = map insertion es"
    "mset es = mset (concat (map (\<lambda>d. concat (map (tree_documents (fst d)) (snd d)))
      (rev (snd (scan_files at entries)) @ stack)))"
    using 2 by auto
  with ds show ?case
    by (intro exI [of _ "ds @ es"]) (simp add: mset_concat_rev union_assoc [symmetric])
qed simp

lemma search_statements_view:
  assumes "document_table l view"
  shows "search_statements l (map insertion ds) d = (d', Inr u) \<Longrightarrow> view d' = mset ds + view d"
proof (induction ds arbitrary: d)
  case (Cons x ds)
  obtain p t c where x: "x = (p, t, c)" by (cases x) auto
  obtain d1 r where e: "sl_execute l INSERT_DOCUMENT [SqlText p, SqlText t, SqlText c] d = (d1, r)" by fastforce
  have i: "insertion x = Inr (INSERT_DOCUMENT, [SqlText p, SqlText t, SqlText c])"
    by (simp add: insertion_def x)
  with Cons.prems e obtain n where "r = Inr n" "search_statements l (map insertion ds) d1 = (d', Inr u)"
    by (cases r) simp_all
  with Cons.IH e x assms show ?case by (simp add: document_table_def)
qed simp

lemma search_statements_ok:
  "search_statements l actions d = (d', Inr u) \<Longrightarrow> x \<in> set actions \<Longrightarrow> is_ok x"
  by (induction l actions d rule: search_statements.induct) (auto split: prod.splits sum.splits)

text \<open>
  A rebuild that succeeds leaves exactly the documents of the tree: one for every readable text file
  of at most two mebibytes that is reached without following a link, at whatever depth.
\<close>

theorem rebuilt_index_is_the_tree:
  assumes "document_table l view"
    and "rebuild_index l d entries = (d', Inr r)"
  shows "view d' = mset (concat (map (tree_documents []) entries))"
proof -
  let ?documents = "scan_directories [([], entries)]"
  obtain d1 d2 where b: "sl_begin l d = Inr d1"
    "search_statements l (Inr (CLEAR_DOCUMENTS, []) # ?documents) d1 = (d2, Inr ())" "sl_commit l d2 = Inr d'"
    using assms(2) by (auto simp: rebuild_index_def Let_def search_transaction_def split: sum.splits prod.splits)
  then obtain d3 n where c: "sl_execute l CLEAR_DOCUMENTS [] d1 = (d3, Inr n)"
    "search_statements l ?documents d3 = (d2, Inr ())"
    by (auto split: prod.splits sum.splits)
  obtain ds where ds: "?documents = map insertion ds"
    "mset ds = mset (concat (map (tree_documents []) entries))"
    using scan_directories_insertions [of "[([], entries)]"] search_statements_ok [OF c(2)] by auto
  with c search_statements_view [OF assms(1)] have "view d2 = mset ds + view d3" by metis
  moreover have "view d3 = {#}" "view d' = view d2"
    using assms(1) b(3) c(1) unfolding document_table_def by blast+
  ultimately show ?thesis using ds(2) by simp
qed

definition sample_table :: "document list sqlite" where
  "sample_table = \<lparr>sl_open = (\<lambda>_ _. Inr []), sl_busy_timeout = Inr, sl_pragma = (\<lambda>_. Inr),
     sl_prepare = (\<lambda>_ _. None), sl_columns = (\<lambda>_ _. []), sl_query = (\<lambda>_ _ d. (d, Inr [])),
     sl_execute = (\<lambda>sql vs d.
       if sql = CLEAR_DOCUMENTS then ([], Inr (length d))
       else case vs of
         [SqlText p] \<Rightarrow> (filter (\<lambda>x. fst x \<noteq> p) d, Inr 1)
       | [SqlText p, SqlText t, SqlText c] \<Rightarrow> ((p, t, c) # d, Inr 1)
       | _ \<Rightarrow> (d, Inl ''no such statement'')),
     sl_last_rowid = (\<lambda>_. 0), sl_begin = Inr, sl_commit = Inr, sl_rollback = (\<lambda>d. d)\<rparr>"

lemma statement_texts: "INSERT_DOCUMENT \<noteq> CLEAR_DOCUMENTS" "DELETE_DOCUMENT \<noteq> CLEAR_DOCUMENTS"
  by (simp_all add: INSERT_DOCUMENT_def DELETE_DOCUMENT_def CLEAR_DOCUMENTS_def)

lemma sample_document_table: "document_table sample_table mset"
  by (auto simp: document_table_def sample_table_def statement_texts)

definition sample_tree :: "scan_entry list" where
  "sample_tree = [ScanDirectory ''notes'' [ScanFile ''b.txt'' (Some 4) (Some ''text''), ScanLink],
     ScanFile ''a.txt'' (Some 2) (Some ''hi''), ScanFile ''big'' (Some 4000000) (Some ''x'')]"

theorem rebuilt_index_is_the_tree_witness:
  "mset [(''notes/b.txt'', ''b.txt'', ''text''), (''a.txt'', ''a.txt'', ''hi'')] =
     mset (concat (map (tree_documents []) sample_tree))"
proof (rule rebuilt_index_is_the_tree [OF sample_document_table,
      where d = "[]" and r = "JObject [(''indexed'', JInt 2)]"])
  have "scan_directories [([], sample_tree)] =
    [Inr (INSERT_DOCUMENT, [SqlText ''a.txt'', SqlText ''a.txt'', SqlText ''hi'']),
     Inr (INSERT_DOCUMENT, [SqlText ''notes/b.txt'', SqlText ''b.txt'', SqlText ''text''])]"
    by (simp add: sample_tree_def scan_file_def MAX_CONTENT_BYTES_def indexed_path_def slash_def)
  then show "rebuild_index sample_table [] sample_tree =
    ([(''notes/b.txt'', ''b.txt'', ''text''), (''a.txt'', ''a.txt'', ''hi'')],
     Inr (JObject [(''indexed'', JInt 2)]))"
    by (simp add: rebuild_index_def search_transaction_def sample_table_def statement_texts)
qed

text \<open>A document that is indexed again replaces the earlier one.\<close>

lemma indexed_document_replaces:
  assumes "document_table l view" and "index_document l d path title content = (d', Inr r)"
  shows "view d' = add_mset (path, title, content) (filter_mset (\<lambda>x. fst x \<noteq> path) (view d))"
proof -
  obtain d1 d2 d3 d4 n m where
    "sl_begin l d = Inr d1" "sl_execute l DELETE_DOCUMENT [SqlText path] d1 = (d2, Inr n)"
    "sl_execute l INSERT_DOCUMENT [SqlText path, SqlText title, SqlText content] d2 = (d3, Inr m)"
    "sl_commit l d3 = Inr d4" "d' = d4"
    using assms(2) by (auto simp: index_document_def search_transaction_def
        split: sum.splits prod.splits if_splits)
  then show ?thesis using assms(1) unfolding document_table_def by metis
qed

end
