(* ===== verification/DeviceServices.thy ===== *)
theory DeviceServices
  imports NativeClaims
begin

text \<open>
  The clipboard and the notifications of a page (\<open>native.rs\<close>).

  The system clipboard and the notification daemon are packages: an environment gives their
  answers, and what they are asked is returned beside the result.
\<close>

section \<open>Clipboard\<close>

definition MAX_CLIPBOARD_BYTES :: nat where "MAX_CLIPBOARD_BYTES = 1024 * 1024"
definition MAX_CLIPBOARD_FILES :: nat where "MAX_CLIPBOARD_FILES = 256"
definition MAX_CLIPBOARD_FORMAT_BYTES :: nat where "MAX_CLIPBOARD_FORMAT_BYTES = 128"

record ClipboardImage =
  ci_width :: nat
  ci_height :: nat
  ci_rgba_base64 :: string

record ClipboardRequest =
  cb_operation :: ClipboardOperation
  cb_window_id :: string
  cb_text :: "string option"
  cb_html :: "string option"
  cb_image :: "ClipboardImage option"
  cb_files :: "FileTarget list"
  cb_format :: "string option"
  cb_data_base64 :: "string option"

datatype clipboard_call =
    GetText
  | SetText string
  | SetHtml string "string option"
  | GetImage
  | SetImage nat nat string
  | GetFiles
  | SetFiles "string list"
  | GetBuffer string
  | SetBuffer string string
  | ListFormats
  | ClearAll

text \<open>\<open>cv_set\<close> answers every call that changes the clipboard.\<close>

record clipboard_env =
  cv_open :: "string option"
  cv_open_custom :: "string option"
  cv_text :: "string + string"
  cv_image :: "string + nat \<times> nat \<times> string"
  cv_files :: "string + (string \<times> grant_env) list"
  cv_buffer :: "string + string"
  cv_formats :: "string + string list"
  cv_set :: "clipboard_call \<Rightarrow> string option"
  cv_encode :: "string \<Rightarrow> string"
  cv_decode :: "string \<Rightarrow> string option"
  cv_cap :: cap_env
  cv_os :: native_os
  cv_codec :: grant_codec

definition ensure_clipboard_size :: "nat \<Rightarrow> NativeError + unit" where
  "ensure_clipboard_size n =
     (if n > MAX_CLIPBOARD_BYTES
      then Inl (native_too_large ''Clipboard content is limited to 1048576 bytes.'') else Inr ())"

text \<open>\<open>usize\<close> products are checked.\<close>

definition checked_pixels :: "nat \<Rightarrow> nat \<Rightarrow> nat option" where
  "checked_pixels width height =
     (if width * height < 2 ^ 64 \<and> width * height * 4 < 2 ^ 64 then Some (width * height * 4) else None)"

definition decode_clipboard_image :: "clipboard_env \<Rightarrow> ClipboardImage \<Rightarrow> NativeError + string" where
  "decode_clipboard_image env picture =
     (case cv_decode env (ci_rgba_base64 picture) of
        None \<Rightarrow> Inl (native_invalid ''Clipboard image must be valid base64.'')
      | Some bytes \<Rightarrow>
          rbind (ensure_clipboard_size (length bytes)) (\<lambda>_.
            case checked_pixels (ci_width picture) (ci_height picture) of
              None \<Rightarrow> Inl (native_invalid ''Clipboard image dimensions overflow.'')
            | Some expected \<Rightarrow>
                if expected \<noteq> length bytes
                then Inl (native_invalid ''Clipboard image must contain width x height RGBA pixels.'')
                else Inr bytes))"

definition validate_custom_clipboard_format :: "string option \<Rightarrow> NativeError + string" where
  "validate_custom_clipboard_format format =
     (case format of
        None \<Rightarrow> Inl (native_invalid ''Clipboard format is required.'')
      | Some f \<Rightarrow>
          if f = [] \<or> length f > MAX_CLIPBOARD_FORMAT_BYTES \<or>
             list_ex (\<lambda>c. byte c \<ge> 128) f \<or> list_ex (\<lambda>c. byte c < 32 \<or> byte c = 127) f \<or>
             \<not> (starts_with ''application/x-'' f \<or> starts_with ''application/vnd.'' f)
          then Inl (native_invalid ''Custom clipboard formats must be printable application/x-* or application/vnd.* identifiers of at most 128 bytes.'')
          else Inr f)"

fun reads_clipboard :: "ClipboardOperation \<Rightarrow> bool" where
  "reads_clipboard ClipboardOperation.ReadText = True"
| "reads_clipboard ClipboardOperation.ReadImage = True"
| "reads_clipboard ClipboardOperation.ReadFiles = True"
| "reads_clipboard ClipboardOperation.ReadCustom = True"
| "reads_clipboard ClipboardOperation.AvailableFormats = True"
| "reads_clipboard _ = False"

type_synonym native_world = "NativeServices \<times> grant_files"

type_synonym clipboard_result = "native_world \<times> clipboard_call list \<times> (NativeError + json)"

text \<open>A read, a write whose result is only success, and a refusal before either.\<close>

definition clip_get ::
    "native_world \<Rightarrow> clipboard_call \<Rightarrow> string \<Rightarrow> string + 'a \<Rightarrow> ('a \<Rightarrow> NativeError + json) \<Rightarrow> clipboard_result" where
  "clip_get w call failure result f =
     (w, [call], case result of Inl e \<Rightarrow> Inl (native_failed failure e) | Inr x \<Rightarrow> f x)"

definition clip_set ::
    "clipboard_env \<Rightarrow> native_world \<Rightarrow> string \<Rightarrow> NativeError + clipboard_call \<Rightarrow> clipboard_result" where
  "clip_set env w failure checked =
     (case checked of
        Inl e \<Rightarrow> (w, [], Inl e)
      | Inr call \<Rightarrow>
          (w, [call], case cv_set env call of
             Some e \<Rightarrow> Inl (native_failed failure e) | None \<Rightarrow> Inr JNull))"

definition required :: "'a option \<Rightarrow> string \<Rightarrow> NativeError + 'a" where
  "required v message = (case v of None \<Rightarrow> Inl (native_invalid message) | Some x \<Rightarrow> Inr x)"

definition clipboard_text :: "string \<Rightarrow> NativeError + string" where
  "clipboard_text t =
     (if length t > MAX_CLIPBOARD_BYTES
      then Inl (native_too_large ''Clipboard text is limited to 1048576 bytes.'') else Inr t)"

definition open_custom :: "clipboard_env \<Rightarrow> NativeError + unit" where
  "open_custom env =
     (case cv_open_custom env of
        None \<Rightarrow> Inr () | Some e \<Rightarrow> Inl (native_failed ''Cannot initialize custom clipboard'' e))"

definition checked_image :: "clipboard_env \<Rightarrow> ClipboardRequest \<Rightarrow> NativeError + clipboard_call" where
  "checked_image env q =
     rbind (required (cb_image q) ''Clipboard image is required.'') (\<lambda>picture.
     rbind (decode_clipboard_image env picture) (\<lambda>bytes.
       Inr (SetImage (ci_width picture) (ci_height picture) bytes)))"

fun clipboard_paths ::
    "clipboard_env \<Rightarrow> NativeServices \<Rightarrow> FileTarget list \<Rightarrow> NativeError + string list" where
  "clipboard_paths env ns [] = Inr []"
| "clipboard_paths env ns (t # ts) =
     rbind (snd (clipboard_file_path (cv_cap env) (cv_os env) ns t)) (\<lambda>path.
     rbind (clipboard_paths env ns ts) (\<lambda>paths. Inr (path # paths)))"

definition checked_files :: "clipboard_env \<Rightarrow> NativeServices \<Rightarrow> ClipboardRequest \<Rightarrow> NativeError + clipboard_call" where
  "checked_files env ns q =
     (if cb_files q = [] \<or> length (cb_files q) > MAX_CLIPBOARD_FILES
      then Inl (native_invalid ''Clipboard file lists require 1 to 256 entries.'')
      else rbind (clipboard_paths env ns (cb_files q)) (\<lambda>paths. Inr (SetFiles paths)))"

definition checked_buffer :: "clipboard_env \<Rightarrow> ClipboardRequest \<Rightarrow> NativeError + clipboard_call" where
  "checked_buffer env q =
     rbind (validate_custom_clipboard_format (cb_format q)) (\<lambda>format.
     rbind (required (cb_data_base64 q) ''Custom clipboard data is required.'') (\<lambda>data.
       case cv_decode env data of
         None \<Rightarrow> Inl (native_invalid ''Custom clipboard data must be valid base64.'')
       | Some bytes \<Rightarrow>
           rbind (ensure_clipboard_size (length bytes)) (\<lambda>_.
           rbind (open_custom env) (\<lambda>_. Inr (SetBuffer format bytes)))))"

definition read_clipboard_files :: "clipboard_env \<Rightarrow> native_world \<Rightarrow> clipboard_result" where
  "read_clipboard_files env w =
     (case cv_files env of
        Inl e \<Rightarrow> (w, [GetFiles], Inl (native_failed ''Cannot read clipboard files'' e))
      | Inr paths \<Rightarrow>
          if length paths > MAX_CLIPBOARD_FILES
          then (w, [GetFiles], Inl (native_too_large ''Clipboard file lists are limited to 256 entries.''))
          else (case grant_paths (cv_codec env) paths FileAccess.Read False w of
              (w', Inl e) \<Rightarrow> (w', [GetFiles], Inl e)
            | (w', Inr grants) \<Rightarrow> (w', [GetFiles], Inr (JArray (map (\<lambda>r. JObject
                [(''grantId'', JString (fx_grant_id r)), (''name'', JString (fx_name r)),
                 (''kind'', JInt (int (FileEntryKind_code (fx_kind r)))),
                 (''access'', JInt (int (FileAccess_code (fx_access r))))]) grants)))))"

definition clipboard_operation ::
    "clipboard_env \<Rightarrow> native_world \<Rightarrow> ClipboardRequest \<Rightarrow> clipboard_result" where
  "clipboard_operation env w q =
     (case cb_operation q of
        ClipboardOperation.ReadText \<Rightarrow>
          clip_get w GetText ''Cannot read clipboard text'' (cv_text env) (\<lambda>t.
            rbind (clipboard_text t) (\<lambda>t. Inr (JObject [(''text'', JString t)])))
      | ClipboardOperation.WriteText \<Rightarrow>
          clip_set env w ''Cannot write clipboard text''
            (rbind (required (cb_text q) ''Clipboard text is required.'') (\<lambda>t.
             rbind (clipboard_text t) (\<lambda>t. Inr (SetText t))))
      | ClipboardOperation.WriteHtml \<Rightarrow>
          clip_set env w ''Cannot write clipboard HTML''
            (rbind (required (cb_html q) ''Clipboard HTML is required.'') (\<lambda>html.
             rbind (ensure_clipboard_size (length html)) (\<lambda>_. Inr (SetHtml html (cb_text q)))))
      | ClipboardOperation.ReadImage \<Rightarrow>
          clip_get w GetImage ''Cannot read clipboard image'' (cv_image env) (\<lambda>(width, height, bytes).
            rbind (ensure_clipboard_size (length bytes)) (\<lambda>_.
              Inr (JObject [(''width'', JInt (int width)), (''height'', JInt (int height)),
                (''rgbaBase64'', JString (cv_encode env bytes))])))
      | ClipboardOperation.WriteImage \<Rightarrow>
          clip_set env w ''Cannot write clipboard image'' (checked_image env q)
      | ClipboardOperation.ReadFiles \<Rightarrow> read_clipboard_files env w
      | ClipboardOperation.WriteFiles \<Rightarrow>
          clip_set env w ''Cannot write clipboard files'' (checked_files env (fst w) q)
      | ClipboardOperation.ReadCustom \<Rightarrow>
          (case rbind (validate_custom_clipboard_format (cb_format q)) (\<lambda>format.
                rbind (open_custom env) (\<lambda>_. Inr format)) of
             Inl e \<Rightarrow> (w, [], Inl e)
           | Inr format \<Rightarrow>
               clip_get w (GetBuffer format) ''Cannot read custom clipboard data'' (cv_buffer env) (\<lambda>bytes.
                 rbind (ensure_clipboard_size (length bytes)) (\<lambda>_.
                   Inr (JObject [(''format'', JString format),
                     (''dataBase64'', JString (cv_encode env bytes))]))))
      | ClipboardOperation.WriteCustom \<Rightarrow>
          clip_set env w ''Cannot write custom clipboard data'' (checked_buffer env q)
      | ClipboardOperation.AvailableFormats \<Rightarrow>
          (case open_custom env of
             Inl e \<Rightarrow> (w, [], Inl e)
           | Inr _ \<Rightarrow>
               clip_get w ListFormats ''Cannot list clipboard formats'' (cv_formats env) (\<lambda>formats.
                 if length formats > 256
                 then Inl (native_too_large ''The system clipboard exposed more than 256 formats.'')
                 else Inr (JObject [(''formats'', JArray (map JString formats))])))
      | ClipboardOperation.Clear \<Rightarrow>
          clip_set env w ''Cannot clear the clipboard'' (Inr ClearAll))"

definition clipboard_request ::
    "clipboard_env \<Rightarrow> native_world \<Rightarrow> ClipboardRequest \<Rightarrow> clipboard_result" where
  "clipboard_request env w q =
     (let reads = reads_clipboard (cb_operation q); capabilities = nv_capabilities (fst w) in
      if reads \<and> \<not> nc_clipboard_read capabilities
      then (w, [], Inl (native_disabled ''clipboard read''))
      else if \<not> reads \<and> \<not> nc_clipboard_write capabilities
      then (w, [], Inl (native_disabled ''clipboard write''))
      else case cv_open env of
        Some e \<Rightarrow> (w, [], Inl (native_failed ''Cannot initialize the clipboard'' e))
      | None \<Rightarrow> clipboard_operation env w q)"

section \<open>Notifications\<close>

definition MAX_NOTIFICATION_TITLE_BYTES :: nat where "MAX_NOTIFICATION_TITLE_BYTES = 256"
definition MAX_NOTIFICATION_BODY_BYTES :: nat where "MAX_NOTIFICATION_BODY_BYTES = 4 * 1024"

record NotificationAction =
  na_id :: string
  na_label :: string

record NotificationRequest =
  nr_window_id :: string
  nr_title :: string
  nr_body :: string
  nr_urgency :: NotificationUrgency
  nr_actions :: "NotificationAction list"

fun check_actions :: "NotificationAction list \<Rightarrow> string set \<Rightarrow> NativeError + unit" where
  "check_actions [] ids = Inr ()"
| "check_actions (a # as) ids =
     (if na_id a = [] \<or> length (na_id a) > 64 \<or>
         \<not> list_all (\<lambda>c. ascii_alphanumeric (byte c) \<or> c \<in> set ''.-_'') (na_id a)
      then Inl (native_invalid
        ''Notification action IDs must contain 1 to 64 ASCII identifier bytes.'')
      else if trim_is_empty (na_label a) \<or> length (na_label a) > 80
      then Inl (native_invalid ''Notification action labels must contain 1 to 80 bytes.'')
      else if na_id a \<in> ids
      then Inl (native_invalid ''Notification action IDs must be unique.'')
      else check_actions as (insert (na_id a) ids))"

definition check_notification :: "NativeCapabilities \<Rightarrow> NotificationRequest \<Rightarrow> NativeError + unit" where
  "check_notification capabilities q =
     (if \<not> nc_notifications capabilities then Inl (native_disabled ''notifications'')
      else if trim_is_empty (nr_title q) \<or> length (nr_title q) > MAX_NOTIFICATION_TITLE_BYTES
      then Inl (native_invalid ''Notification titles must contain 1 to 256 bytes.'')
      else if length (nr_body q) > MAX_NOTIFICATION_BODY_BYTES
      then Inl (native_invalid ''Notification bodies are limited to 4096 bytes.'')
      else if length (nr_actions q) > 4
      then Inl (native_invalid ''Notifications accept at most four actions.'')
      else check_actions (nr_actions q) {})"

record shown =
  sn_summary :: string
  sn_body :: string
  sn_urgency :: NotificationUrgency
  sn_actions :: "(string \<times> string) list"

record notify_env =
  nt_show :: "string + u32"
  nt_listener :: "string option"

text \<open>On Linux; elsewhere the urgency and the actions are left out and the answer is null.\<close>

definition notify ::
    "notify_env \<Rightarrow> NativeCapabilities \<Rightarrow> NotificationRequest \<Rightarrow> shown list \<times> (NativeError + json)" where
  "notify env capabilities q =
     (case check_notification capabilities q of
        Inl e \<Rightarrow> ([], Inl e)
      | Inr _ \<Rightarrow>
          ([\<lparr>sn_summary = nr_title q, sn_body = nr_body q, sn_urgency = nr_urgency q,
             sn_actions = map (\<lambda>a. (na_id a, na_label a)) (nr_actions q)\<rparr>],
           case nt_show env of
             Inl e \<Rightarrow> Inl (native_failed ''Cannot show the notification'' e)
           | Inr notification_id \<Rightarrow>
               (case nt_listener env of
                  Some e \<Rightarrow>
                    if nr_actions q \<noteq> []
                    then Inl (native_failed ''Cannot start notification action listener'' e)
                    else Inr (JObject [(''id'', JInt (uint notification_id))])
                | None \<Rightarrow> Inr (JObject [(''id'', JInt (uint notification_id))]))))"

definition action_event :: "NotificationRequest \<Rightarrow> u32 \<Rightarrow> string \<Rightarrow> ClientEvent" where
  "action_event q notification_id action = \<lparr>ce_name = ''pam.notification.action'',
     ce_payload = JObject [(''notificationId'', JInt (uint notification_id)), (''action'', JString action)],
     ce_window_id = Some (nr_window_id q)\<rparr>"

section \<open>File calls of other services\<close>

lemma allowed_authorized:
  assumes "serving codec (ns, files)" "resolve ns target = Inr t" "allowed t c"
  shows "call_authorized ns target c"
proof -
  have ok: "grants_ok ns" using serving_grants_ok [OF assms(1)] by simp
  show ?thesis
    using assms(3) resolve_authorizes [OF assms(2) ok] follow_safe [OF resolve_safe [OF assms(2) ok]]
    by (auto simp: allowed_def call_authorized_def)
qed

lemma open_read_stream_allowed:
  "c \<in> set (fst (open_read_stream env ns target)) \<Longrightarrow> \<exists>t. resolve ns target = Inr t \<and> allowed t c"
  by (auto simp: open_read_stream_def allowed_def dest: metadata_allowed [unfolded allowed_def])

lemma open_write_stream_allowed:
  "c \<in> set (fst (open_write_stream env ns target)) \<Longrightarrow> \<exists>t. resolve ns target = Inr t \<and> allowed t c"
  by (auto simp: open_write_stream_def allowed_def dest: existing_allowed [unfolded allowed_def])

lemma clipboard_file_path_Inr:
  assumes "snd (clipboard_file_path env os ns target) = Inr path"
  shows "\<exists>t. resolve ns target = Inr t \<and> can_read (rt_access t) \<and> rt_absolute_path t = Some path"
  using assms
  by (auto simp: clipboard_file_path_def rbind_Inr_iff split: option.splits if_splits)

section \<open>What reaches the clipboard\<close>

definition clipboard_reads :: "clipboard_call \<Rightarrow> bool" where
  "clipboard_reads call = (case call of
     GetText \<Rightarrow> True | GetImage \<Rightarrow> True | GetFiles \<Rightarrow> True | GetBuffer _ \<Rightarrow> True | ListFormats \<Rightarrow> True
   | _ \<Rightarrow> False)"

text \<open>The limits of each kind of content; the plain text beside HTML has none.\<close>

definition clipboard_call_ok :: "clipboard_env \<Rightarrow> NativeServices \<Rightarrow> ClipboardRequest \<Rightarrow> clipboard_call \<Rightarrow> bool" where
  "clipboard_call_ok env ns q call = (case call of
     SetText t \<Rightarrow> length t \<le> MAX_CLIPBOARD_BYTES
   | SetHtml html fallback \<Rightarrow> length html \<le> MAX_CLIPBOARD_BYTES
   | SetImage width height bytes \<Rightarrow> length bytes = width * height * 4 \<and> length bytes \<le> MAX_CLIPBOARD_BYTES
   | SetFiles paths \<Rightarrow> paths \<noteq> [] \<and> length paths \<le> MAX_CLIPBOARD_FILES \<and>
       list_all2 (\<lambda>target path. \<exists>t. resolve ns target = Inr t \<and> can_read (rt_access t) \<and>
         rt_absolute_path t = Some path) (cb_files q) paths
   | SetBuffer format bytes \<Rightarrow> length bytes \<le> MAX_CLIPBOARD_BYTES \<and>
       (starts_with ''application/x-'' format \<or> starts_with ''application/vnd.'' format)
   | GetBuffer format \<Rightarrow>
       starts_with ''application/x-'' format \<or> starts_with ''application/vnd.'' format
   | _ \<Rightarrow> True)"

lemma clipboard_paths_Inr:
  "clipboard_paths env ns targets = Inr paths \<Longrightarrow>
     list_all2 (\<lambda>target path. \<exists>t. resolve ns target = Inr t \<and> can_read (rt_access t) \<and>
       rt_absolute_path t = Some path) targets paths"
  by (induction targets arbitrary: paths) (auto simp: rbind_Inr_iff dest!: clipboard_file_path_Inr)

lemma in_clip_get [simp]: "call \<in> set (fst (snd (clip_get w c m r f))) \<longleftrightarrow> call = c"
  by (simp add: clip_get_def)

lemma in_clip_set [simp]: "call \<in> set (fst (snd (clip_set env w m checked))) \<longleftrightarrow> checked = Inr call"
  by (cases checked) (auto simp: clip_set_def)

lemma checked_image_ok:
  "checked_image env q = Inr call \<Longrightarrow> \<not> clipboard_reads call \<and> clipboard_call_ok env ns q call"
  by (auto simp: checked_image_def decode_clipboard_image_def checked_pixels_def rbind_Inr_iff
      ensure_clipboard_size_def clipboard_call_ok_def clipboard_reads_def split: option.splits if_splits)

lemma checked_files_ok:
  assumes "checked_files env ns q = Inr call"
  shows "\<not> clipboard_reads call \<and> clipboard_call_ok env ns q call"
proof -
  obtain paths where p: "call = SetFiles paths" "clipboard_paths env ns (cb_files q) = Inr paths"
    "cb_files q \<noteq> []" "length (cb_files q) \<le> MAX_CLIPBOARD_FILES"
    using assms by (auto simp: checked_files_def rbind_Inr_iff split: if_splits)
  from clipboard_paths_Inr [OF p(2)] have "length paths = length (cb_files q)"
    by (simp add: list_all2_lengthD)
  with p clipboard_paths_Inr [OF p(2)] show ?thesis
    by (auto simp: clipboard_call_ok_def clipboard_reads_def)
qed

lemma custom_format_ok:
  "validate_custom_clipboard_format f = Inr format \<Longrightarrow>
     starts_with ''application/x-'' format \<or> starts_with ''application/vnd.'' format"
  by (auto simp: validate_custom_clipboard_format_def split: option.splits if_splits)

lemma checked_buffer_ok:
  "checked_buffer env q = Inr call \<Longrightarrow> \<not> clipboard_reads call \<and> clipboard_call_ok env ns q call"
  by (auto simp: checked_buffer_def rbind_Inr_iff ensure_clipboard_size_def clipboard_call_ok_def
      clipboard_reads_def dest!: custom_format_ok split: option.splits if_splits)

lemmas clipboard_checked = checked_image_ok checked_files_ok checked_buffer_ok

lemma clipboard_operation_ok:
  assumes "call \<in> set (fst (snd (clipboard_operation env w q)))"
  shows "clipboard_reads call = reads_clipboard (cb_operation q) \<and> clipboard_call_ok env (fst w) q call"
proof (cases "cb_operation q")
  case ReadFiles
  with assms show ?thesis
    by (auto simp: clipboard_operation_def read_clipboard_files_def clipboard_reads_def
        clipboard_call_ok_def split: sum.splits if_splits prod.splits)
next
  case ReadCustom
  with assms show ?thesis
    by (auto simp: clipboard_operation_def clipboard_reads_def clipboard_call_ok_def rbind_Inr_iff
        dest!: custom_format_ok split: sum.splits)
next
  case AvailableFormats
  with assms show ?thesis
    by (auto simp: clipboard_operation_def clipboard_reads_def clipboard_call_ok_def split: sum.splits)
next
  case WriteText
  with assms show ?thesis
    by (auto simp: clipboard_operation_def clipboard_reads_def clipboard_call_ok_def rbind_Inr_iff
        clipboard_text_def split: if_splits)
next
  case WriteHtml
  with assms show ?thesis
    by (auto simp: clipboard_operation_def clipboard_reads_def clipboard_call_ok_def rbind_Inr_iff
        ensure_clipboard_size_def split: if_splits)
qed (use assms in \<open>auto simp: clipboard_operation_def clipboard_reads_def clipboard_call_ok_def
  dest: clipboard_checked\<close>)

text \<open>
  A page reaches the system clipboard only with the capability for that direction, and what it puts
  there is within the limits of its kind: an image has exactly its pixels, a file list names files
  the page may read, a custom format is an application format.
\<close>

theorem clipboard_stays_within_capabilities:
  assumes "clipboard_request env w q = (w', calls, answer)" and "call \<in> set calls"
  shows "(if clipboard_reads call then nc_clipboard_read (nv_capabilities (fst w))
      else nc_clipboard_write (nv_capabilities (fst w))) \<and>
    clipboard_call_ok env (fst w) q call"
proof -
  have "call \<in> set (fst (snd (clipboard_operation env w q)))"
    "reads_clipboard (cb_operation q) \<longrightarrow> nc_clipboard_read (nv_capabilities (fst w))"
    "\<not> reads_clipboard (cb_operation q) \<longrightarrow> nc_clipboard_write (nv_capabilities (fst w))"
    using assms by (auto simp: clipboard_request_def Let_def split: if_splits option.splits)
  then show ?thesis using clipboard_operation_ok by (metis (full_types))
qed

text \<open>
  The plain text written beside HTML is not limited: a text of any length reaches the system
  clipboard, where the same text written alone is refused above one mebibyte.
\<close>

theorem html_fallback_is_unbounded:
  assumes "nc_clipboard_write (nv_capabilities (fst w))" and "cv_open env = None"
  shows "fst (snd (clipboard_request env w
      \<lparr>cb_operation = ClipboardOperation.WriteHtml, cb_window_id = window, cb_text = Some t,
       cb_html = Some [], cb_image = None, cb_files = [], cb_format = None, cb_data_base64 = None\<rparr>)) =
    [SetHtml [] (Some t)]"
  using assms
  by (simp add: clipboard_request_def clipboard_operation_def required_def ensure_clipboard_size_def
      clip_set_def)

section \<open>What reaches the notification daemon\<close>

lemma check_actions_Inr:
  "check_actions as ids = Inr () \<Longrightarrow>
     distinct (map na_id as) \<and> set (map na_id as) \<inter> ids = {} \<and>
     list_all (\<lambda>a. na_id a \<noteq> [] \<and> length (na_id a) \<le> 64) as"
  by (induction as ids rule: check_actions.induct) (auto split: if_splits)

text \<open>
  A notification is shown only with the capability, at most once for a request, with at most four
  actions whose identifiers are distinct, so that the answer of the daemon names one of them.
\<close>

theorem shown_notifications_are_checked:
  assumes "notify env capabilities q = (shown, answer)" and "s \<in> set shown"
  shows "nc_notifications capabilities \<and> shown = [s] \<and> sn_summary s = nr_title q \<and>
    length (sn_summary s) \<le> MAX_NOTIFICATION_TITLE_BYTES \<and>
    length (sn_body s) \<le> MAX_NOTIFICATION_BODY_BYTES \<and>
    length (sn_actions s) \<le> 4 \<and> distinct (map fst (sn_actions s))"
proof -
  have "check_notification capabilities q = Inr ()"
    using assms by (auto simp: notify_def split: sum.splits)
  with assms show ?thesis
    using check_actions_Inr [of "nr_actions q" "{}"]
    by (auto simp: notify_def check_notification_def comp_def split: if_splits)
qed

section \<open>Witnesses\<close>

definition sample_clipboard :: clipboard_env where
  "sample_clipboard = \<lparr>cv_open = None, cv_open_custom = None, cv_text = Inr ''x'', cv_image = Inl ''none'',
     cv_files = Inr [], cv_buffer = Inl ''none'', cv_formats = Inr [], cv_set = (\<lambda>_. None),
     cv_encode = (\<lambda>s. s), cv_decode = Some, cv_cap = sample_cap, cv_os = sample_os, cv_codec = sample_codec\<rparr>"

definition sample_clipboard_world :: native_world where
  "sample_clipboard_world = (sample_services\<lparr>nv_capabilities :=
     sample_capabilities\<lparr>nc_clipboard_write := True, nc_notifications := True\<rparr>\<rparr>,
     \<lparr>gf_store = None, gf_temporary = None\<rparr>)"

definition sample_picture_request :: ClipboardRequest where
  "sample_picture_request = \<lparr>cb_operation = ClipboardOperation.WriteImage, cb_window_id = ''main'',
     cb_text = None, cb_html = None,
     cb_image = Some \<lparr>ci_width = 1, ci_height = 1, ci_rgba_base64 = ''rgba''\<rparr>, cb_files = [],
     cb_format = None, cb_data_base64 = None\<rparr>"

theorem clipboard_stays_within_capabilities_witness:
  "clipboard_call_ok sample_clipboard (fst sample_clipboard_world) sample_picture_request
     (SetImage 1 1 ''rgba'')"
proof -
  have e: "clipboard_request sample_clipboard sample_clipboard_world sample_picture_request =
      (sample_clipboard_world, [SetImage 1 1 ''rgba''], Inr JNull)"
    by (simp add: clipboard_request_def clipboard_operation_def checked_image_def required_def
        decode_clipboard_image_def checked_pixels_def ensure_clipboard_size_def clip_set_def
        MAX_CLIPBOARD_BYTES_def sample_clipboard_def sample_clipboard_world_def
        sample_picture_request_def)
  from clipboard_stays_within_capabilities [OF e] show ?thesis by simp
qed

theorem html_fallback_is_unbounded_witness:
  "fst (snd (clipboard_request sample_clipboard sample_clipboard_world
      \<lparr>cb_operation = ClipboardOperation.WriteHtml, cb_window_id = ''main'',
       cb_text = Some (replicate (MAX_CLIPBOARD_BYTES + 1) CHR ''x''),
       cb_html = Some [], cb_image = None, cb_files = [], cb_format = None, cb_data_base64 = None\<rparr>)) =
    [SetHtml [] (Some (replicate (MAX_CLIPBOARD_BYTES + 1) CHR ''x''))]"
  by (rule html_fallback_is_unbounded) (simp_all add: sample_clipboard_def sample_clipboard_world_def)

definition sample_notification :: NotificationRequest where
  "sample_notification = \<lparr>nr_window_id = ''main'', nr_title = ''Saved'', nr_body = [],
     nr_urgency = NotificationUrgency.Low, nr_actions = [\<lparr>na_id = ''open'', na_label = ''Open''\<rparr>]\<rparr>"

theorem shown_notifications_are_checked_witness:
  "distinct (map fst (sn_actions \<lparr>sn_summary = ''Saved'', sn_body = [],
     sn_urgency = NotificationUrgency.Low, sn_actions = [(''open'', ''Open'')]\<rparr>))"
proof -
  have "notify \<lparr>nt_show = Inr 7, nt_listener = None\<rparr> (nv_capabilities (fst sample_clipboard_world))
      sample_notification =
    ([\<lparr>sn_summary = ''Saved'', sn_body = [], sn_urgency = NotificationUrgency.Low,
       sn_actions = [(''open'', ''Open'')]\<rparr>], Inr (JObject [(''id'', JInt 7)]))"
    by (simp add: notify_def check_notification_def sample_notification_def sample_clipboard_world_def
        MAX_NOTIFICATION_TITLE_BYTES_def MAX_NOTIFICATION_BODY_BYTES_def trim_is_empty_def trim_chars_def
        str_chars_def char_whitespace_def byte_def ascii_alphanumeric_def ascii_alphabetic_def
        ascii_lower_def ascii_upper_def ascii_digit_def)
  from shown_notifications_are_checked [OF this] show ?thesis by simp
qed

end
