(* ===== verification/FileWatch.thy ===== *)
theory FileWatch
  imports NativeFiles
begin

text \<open>
  The two watchers that poll a directory: the file watches of a page (\<open>file_watch.rs\<close>) and the
  project watcher of the development server (\<open>watcher.rs\<close>).

  A poll sees a directory tree.  \<open>watched_node\<close> is what the calls on one entry answer: the length and
  the modification time of a file (zero if it has none), the entries of a directory in the order
  of \<open>read_dir\<close>, or a failure.  Two polls may see any two trees.
\<close>

section \<open>Trees and snapshots\<close>

type_synonym stamp_of_file = "u64 \<times> nat"

datatype watched_node =
    WatchedFile stamp_of_file
  | WatchedDirectory "(string \<times> watched_node) list"
  | WatchedLink
  | WatchedFailure

text \<open>A \<open>BTreeMap\<close> keyed by relative paths, here lists of names, as an association list.\<close>

type_synonym tree_snapshot = "(string list \<times> stamp_of_file) list"

definition MAX_ENTRIES :: nat where
  "MAX_ENTRIES = 10000"

fun collect_watched :: "string list \<Rightarrow> watched_node \<Rightarrow> tree_snapshot \<Rightarrow> tree_snapshot"
and collect_entries :: "string list \<Rightarrow> (string \<times> watched_node) list \<Rightarrow> tree_snapshot \<Rightarrow> tree_snapshot" where
  "collect_watched path (WatchedFile mark) output =
     (if length output \<ge> MAX_ENTRIES then output else AList.update path mark output)"
| "collect_watched path (WatchedDirectory entries) output =
     (if length output \<ge> MAX_ENTRIES then output else collect_entries path entries output)"
| "collect_watched path WatchedLink output = output"
| "collect_watched path WatchedFailure output = output"
| "collect_entries path [] output = output"
| "collect_entries path ((name, node) # entries) output =
     (let output = collect_watched (path @ [name]) node output
      in if length output \<ge> MAX_ENTRIES then output else collect_entries path entries output)"

definition watched_snapshot :: "watched_node \<Rightarrow> tree_snapshot" where
  "watched_snapshot node = collect_watched [] node []"

text \<open>The comparison of two maps.\<close>

definition same_snapshot :: "tree_snapshot \<Rightarrow> tree_snapshot \<Rightarrow> bool" where
  "same_snapshot a b \<longleftrightarrow> list_all (\<lambda>path. map_of a path = map_of b path) (map fst a @ map fst b)"

section \<open>File watches\<close>

record WatchHandle =
  wh_path :: string
  wh_window_id :: string
  wh_watch_id :: string

record FileWatchRequest =
  wq_operation :: FileWatchOperation
  wq_window_id :: string
  wq_watch_id :: string
  wq_target :: "FileTarget option"

text \<open>The texts of \<open>validate_identifier\<close>.\<close>

definition identifier_error :: "verror \<Rightarrow> string" where
  "identifier_error e =
     (case e of
        EmptyIdentifier label \<Rightarrow> label @ '' identifier cannot be empty''
      | MalformedIdentifier label \<Rightarrow> label @ '' identifier must begin with a letter and contain at most 64 ASCII letters, numbers, dots, dashes, or underscores''
      | _ \<Rightarrow> '''')"

type_synonym watches = "string \<rightharpoonup> WatchHandle"

definition watch_key :: "string \<Rightarrow> string \<Rightarrow> string" where
  "watch_key window watch = window @ '':'' @ watch"

text \<open>\<open>spawned\<close> is the outcome of starting the thread of the watch.\<close>

definition file_watch_dispatch ::
    "native_os \<Rightarrow> string option \<Rightarrow> NativeServices \<Rightarrow> watches \<Rightarrow> FileWatchRequest \<Rightarrow>
     watches \<times> (NativeError + unit)" where
  "file_watch_dispatch os spawned ns ws q =
     (case validate_identifier (wq_watch_id q) ''file watch'' of
        Inl e \<Rightarrow> (ws, Inl (native_invalid (identifier_error e)))
      | Inr _ \<Rightarrow>
          (let key = watch_key (wq_window_id q) (wq_watch_id q) in
           case wq_operation q of
             FileWatchOperation.Start \<Rightarrow>
               (case wq_target q of
                  None \<Rightarrow> (ws, Inl (native_invalid ''Starting a file watch requires a target.''))
                | Some target \<Rightarrow>
                    (case watch_path os ns target of
                       Inl e \<Rightarrow> (ws, Inl e)
                     | Inr path \<Rightarrow>
                         if ws key \<noteq> None
                         then (ws, Inl (native_invalid ''The file watch is already active.''))
                         else (case spawned of
                             Some e \<Rightarrow> (ws, Inl (native_failed ''Cannot start file watcher'' e))
                           | None \<Rightarrow>
                               (ws(key \<mapsto> \<lparr>wh_path = path, wh_window_id = wq_window_id q,
                                  wh_watch_id = wq_watch_id q\<rparr>), Inr ()))))
           | FileWatchOperation.Stop \<Rightarrow>
               (case ws key of
                  None \<Rightarrow> (ws, Inl (native_invalid ''The file watch is not active.''))
                | Some _ \<Rightarrow> (ws(key := None), Inr ()))))"

definition changed_event :: "WatchHandle \<Rightarrow> ClientEvent" where
  "changed_event h = \<lparr>ce_name = ''pam.fs.changed'',
     ce_payload = JObject [(''watchId'', JString (wh_watch_id h))],
     ce_window_id = Some (wh_window_id h)\<rparr>"

text \<open>The thread of a watch: one tree for each round it runs before it is stopped.\<close>

fun watch_rounds :: "WatchHandle \<Rightarrow> tree_snapshot \<Rightarrow> watched_node list \<Rightarrow> EventState \<Rightarrow> EventState" where
  "watch_rounds h prior [] hub = hub"
| "watch_rounds h prior (tree # trees) hub =
     (let current = watched_snapshot tree
      in if \<not> same_snapshot current prior
         then watch_rounds h current trees (publish hub (changed_event h))
         else watch_rounds h prior trees hub)"

definition watch_thread :: "WatchHandle \<Rightarrow> watched_node \<Rightarrow> watched_node list \<Rightarrow> EventState \<Rightarrow> EventState" where
  "watch_thread h tree trees hub = watch_rounds h (watched_snapshot tree) trees hub"

section \<open>The project watcher\<close>

datatype ChangeKind = Assets | Runtime

definition ignored_directory :: "string list \<Rightarrow> bool" where
  "ignored_directory path = list_ex (\<lambda>name. name \<in>
     set [''.git'', ''.pam'', ''dist'', ''node_modules'', ''target'', ''vendor'']) path"

definition below_resources :: "string list \<Rightarrow> bool" where
  "below_resources path = (case path of [] \<Rightarrow> False | name # _ \<Rightarrow> name = ''resources'')"

definition watched_file :: "string list \<Rightarrow> bool" where
  "watched_file path \<longleftrightarrow> below_resources path \<or>
     (case rev path of [] \<Rightarrow> False
      | name # _ \<Rightarrow> path_extension name = Some ''php'' \<or>
          name = ''composer.json'' \<or> name = ''composer.lock'')"

text \<open>A failure is an entry whose type or metadata cannot be read, or a directory that cannot.\<close>

fun collect_project :: "string list \<Rightarrow> watched_node \<Rightarrow> tree_snapshot \<Rightarrow> tree_snapshot"
and collect_project_entries ::
    "string list \<Rightarrow> (string \<times> watched_node) list \<Rightarrow> tree_snapshot \<Rightarrow> tree_snapshot" where
  "collect_project path (WatchedFile mark) files =
     (if \<not> watched_file path then files else AList.update path mark files)"
| "collect_project path (WatchedDirectory entries) files =
     (if \<not> ignored_directory path then collect_project_entries path entries files else files)"
| "collect_project path WatchedLink files = files"
| "collect_project path WatchedFailure files = files"
| "collect_project_entries directory [] files = files"
| "collect_project_entries directory ((name, node) # entries) files =
     collect_project_entries directory entries (collect_project (directory @ [name]) node files)"

definition project_snapshot :: "watched_node \<Rightarrow> tree_snapshot" where
  "project_snapshot root =
     (case root of WatchedDirectory entries \<Rightarrow> collect_project_entries [] entries [] | _ \<Rightarrow> [])"

definition changed_kind :: "tree_snapshot \<Rightarrow> tree_snapshot \<Rightarrow> ChangeKind option" where
  "changed_kind previous current =
     (let changed = filter (\<lambda>path. map_of previous path \<noteq> map_of current path)
            (remdups (map fst previous @ map fst current))
      in if changed = [] then None
         else if list_ex (\<lambda>path. \<not> below_resources path) changed then Some Runtime
         else Some Assets)"

fun watcher_rounds :: "tree_snapshot \<Rightarrow> watched_node list \<Rightarrow> ChangeKind list" where
  "watcher_rounds previous [] = []"
| "watcher_rounds previous (tree # trees) =
     (let current = project_snapshot tree
      in (case changed_kind previous current of None \<Rightarrow> [] | Some kind \<Rightarrow> [kind]) @
         watcher_rounds current trees)"

section \<open>What a snapshot holds\<close>

text \<open>
  The files of a tree in the order in which a walk meets them, and the trees in which the names
  of a directory are distinct, as they are on disk.
\<close>

fun tree_files :: "string list \<Rightarrow> watched_node \<Rightarrow> tree_snapshot"
and entries_files :: "string list \<Rightarrow> (string \<times> watched_node) list \<Rightarrow> tree_snapshot" where
  "tree_files path (WatchedFile mark) = [(path, mark)]"
| "tree_files path (WatchedDirectory entries) = entries_files path entries"
| "tree_files path WatchedLink = []"
| "tree_files path WatchedFailure = []"
| "entries_files path [] = []"
| "entries_files path ((name, node) # entries) =
     tree_files (path @ [name]) node @ entries_files path entries"

fun proper_tree :: "watched_node \<Rightarrow> bool" and proper_entries :: "(string \<times> watched_node) list \<Rightarrow> bool" where
  "proper_tree (WatchedDirectory entries) \<longleftrightarrow> distinct (map fst entries) \<and> proper_entries entries"
| "proper_tree (WatchedFile mark) \<longleftrightarrow> True"
| "proper_tree WatchedLink \<longleftrightarrow> True"
| "proper_tree WatchedFailure \<longleftrightarrow> True"
| "proper_entries [] \<longleftrightarrow> True"
| "proper_entries ((name, node) # entries) \<longleftrightarrow> proper_tree node \<and> proper_entries entries"

lemma tree_files_below:
  "k \<in> fst ` set (tree_files path node) \<Longrightarrow> \<exists>rest. k = path @ rest"
  "k \<in> fst ` set (entries_files path entries) \<Longrightarrow>
     \<exists>name rest. name \<in> fst ` set entries \<and> k = path @ name # rest"
proof (induction path node and path entries arbitrary: k and k rule: tree_files_entries_files.induct)
  case (2 path entries)
  then show ?case by fastforce
next
  case (6 path name node entries)
  from "6.prems" consider "k \<in> fst ` set (tree_files (path @ [name]) node)"
    | "k \<in> fst ` set (entries_files path entries)" by (auto simp: image_Un)
  then show ?case
  proof cases
    case 1
    from "6.IH"(1) [OF this] obtain rest where "k = path @ name # rest" by auto
    then show ?thesis by auto
  next
    case 2
    from "6.IH"(2) [OF this] show ?thesis by auto
  qed
qed auto

lemma tree_files_distinct:
  "proper_tree node \<Longrightarrow> distinct (map fst (tree_files path node))"
  "distinct (map fst entries) \<Longrightarrow> proper_entries entries \<Longrightarrow>
     distinct (map fst (entries_files path entries))"
proof (induction path node and path entries rule: tree_files_entries_files.induct)
  case (6 path name node entries)
  have "k \<notin> fst ` set (entries_files path entries)" if "k \<in> fst ` set (tree_files (path @ [name]) node)" for k
    using tree_files_below(1) [OF that] tree_files_below(2) [of k path entries] "6.prems" by auto
  with 6 show ?case by auto
qed auto


lemma same_snapshot_iff: "same_snapshot a b \<longleftrightarrow> map_of a = map_of b"
proof
  assume same: "same_snapshot a b"
  show "map_of a = map_of b"
  proof
    fix k
    show "map_of a k = map_of b k"
    proof (cases "k \<in> fst ` set a \<union> fst ` set b")
      case True
      with same show ?thesis by (auto simp: same_snapshot_def list_all_iff)
    next
      case False
      then have "map_of a k = None" "map_of b k = None" by (simp_all add: map_of_eq_None_iff)
      then show ?thesis by simp
    qed
  qed
qed (simp add: same_snapshot_def list_all_iff)

lemma update_new: "k \<notin> fst ` set xs \<Longrightarrow> AList.update k v xs = xs @ [(k, v)]"
  by (induction xs) auto

lemma collect_tree:
  "proper_tree node \<Longrightarrow> length acc \<le> MAX_ENTRIES \<Longrightarrow>
     fst ` set acc \<inter> fst ` set (tree_files path node) = {} \<Longrightarrow>
     collect_watched path node acc =
       acc @ take (MAX_ENTRIES - length acc) (tree_files path node)"
  "distinct (map fst entries) \<Longrightarrow> proper_entries entries \<Longrightarrow> length acc \<le> MAX_ENTRIES \<Longrightarrow>
     fst ` set acc \<inter> fst ` set (entries_files path entries) = {} \<Longrightarrow>
     collect_entries path entries acc =
       acc @ take (MAX_ENTRIES - length acc) (entries_files path entries)"
proof (induction path node acc and path entries acc rule: collect_watched_collect_entries.induct)
  case (6 path name node entries acc)
  let ?n = "MAX_ENTRIES - length acc" and ?here = "tree_files (path @ [name]) node"
  let ?out = "acc @ take ?n ?here"
  have out: "collect_watched (path @ [name]) node acc = ?out"
    using 6 by (auto simp: image_Un Int_Un_distrib)
  show ?case
  proof (cases "length ?out \<ge> MAX_ENTRIES")
    case True
    then have "?n \<le> length ?here" by simp
    with True show ?thesis by (simp add: out Let_def)
  next
    case False
    then have all: "take ?n ?here = ?here" by (simp add: min_def split: if_splits)
    have "fst ` set ?here \<inter> fst ` set (entries_files path entries) = {}"
      using tree_files_distinct(2) [of "(name, node) # entries" path] "6.prems" by auto
    then have "fst ` set (acc @ ?here) \<inter> fst ` set (entries_files path entries) = {}"
      using "6.prems" by (auto simp: image_Un)
    with 6 False out all show ?thesis by (simp add: Let_def)
  qed
qed (auto simp: update_new take_Cons')

lemma watched_snapshot_take:
  "proper_tree node \<Longrightarrow> watched_snapshot node = take MAX_ENTRIES (tree_files [] node)"
  by (simp add: watched_snapshot_def collect_tree)

lemma map_of_files_eq:
  assumes "proper_tree a" "proper_tree b"
  shows "map_of (tree_files [] a) = map_of (tree_files [] b) \<longleftrightarrow>
    set (tree_files [] a) = set (tree_files [] b)"
  by (rule map_of_inject_set) (use assms tree_files_distinct in auto)

definition small_tree :: "watched_node \<Rightarrow> bool" where
  "small_tree node \<longleftrightarrow> proper_tree node \<and> length (tree_files [] node) \<le> MAX_ENTRIES"

lemma same_watched:
  "small_tree a \<Longrightarrow> small_tree b \<Longrightarrow>
     same_snapshot (watched_snapshot a) (watched_snapshot b) \<longleftrightarrow>
       set (tree_files [] a) = set (tree_files [] b)"
  by (simp add: same_snapshot_iff watched_snapshot_take small_tree_def map_of_files_eq)

definition changed_rounds :: "watched_node list \<Rightarrow> nat" where
  "changed_rounds trees = length (filter (\<lambda>(a, b). set (tree_files [] a) \<noteq> set (tree_files [] b))
     (zip trees (tl trees)))"

lemma watch_rounds_events:
  "small_tree t \<Longrightarrow> same_snapshot (watched_snapshot t) prior \<Longrightarrow> list_all small_tree trees \<Longrightarrow>
     watch_rounds h prior trees hub = publish_all hub (replicate (changed_rounds (t # trees)) (changed_event h))"
proof (induction h prior trees hub arbitrary: t rule: watch_rounds.induct)
  case (2 h prior tree trees hub)
  have same: "same_snapshot (watched_snapshot tree) prior \<longleftrightarrow> set (tree_files [] t) = set (tree_files [] tree)"
    using same_watched [of tree t] "2.prems" by (auto simp: same_snapshot_iff)
  have rounds: "changed_rounds (t # tree # trees) =
      (if set (tree_files [] t) = set (tree_files [] tree) then 0 else 1) + changed_rounds (tree # trees)"
    by (simp add: changed_rounds_def)
  show ?case
  proof (cases "same_snapshot (watched_snapshot tree) prior")
    case True
    then show ?thesis using "2.IH"(2) [of "watched_snapshot tree" tree] "2.prems" same rounds by simp
  next
    case False
    then show ?thesis
      using "2.IH"(1) [of "watched_snapshot tree" tree] "2.prems" same rounds
      by (simp add: same_snapshot_iff publish_all_def)
  qed
qed (simp add: changed_rounds_def publish_all_def)


text \<open>
  A watch announces to its own window exactly the rounds in which a file below the watched path has
  appeared, disappeared or changed its stamp, as long as the trees hold at most ten thousand files.
\<close>

theorem watch_reports_every_change:
  assumes "list_all small_tree (tree # trees)"
  shows "watch_thread h tree trees hub =
    publish_all hub (replicate (changed_rounds (tree # trees)) (changed_event h))"
  using assms by (simp add: watch_thread_def watch_rounds_events same_snapshot_iff)

section \<open>Reloads of the project\<close>

text \<open>A path is watched if no directory on the way to it is ignored.\<close>

definition watched_path :: "string list \<Rightarrow> bool" where
  "watched_path path \<longleftrightarrow> watched_file path \<and> \<not> ignored_directory (butlast path)"

lemma ignored_append [simp]: "ignored_directory (p @ q) \<longleftrightarrow> ignored_directory p \<or> ignored_directory q"
  by (auto simp: ignored_directory_def)

lemma ignored_below:
  "ignored_directory path \<Longrightarrow> (k, v) \<in> set (entries_files path entries) \<Longrightarrow> \<not> watched_path k"
  using tree_files_below(2) [of k path entries] by (force simp: watched_path_def butlast_append)

lemma collect_project_files:
  "proper_tree node \<Longrightarrow> \<not> ignored_directory (butlast path) \<Longrightarrow>
     fst ` set acc \<inter> fst ` set (tree_files path node) = {} \<Longrightarrow>
     collect_project path node acc = acc @ filter (\<lambda>(k, v). watched_path k) (tree_files path node)"
  "distinct (map fst entries) \<Longrightarrow> proper_entries entries \<Longrightarrow> \<not> ignored_directory path \<Longrightarrow>
     fst ` set acc \<inter> fst ` set (entries_files path entries) = {} \<Longrightarrow>
     collect_project_entries path entries acc =
       acc @ filter (\<lambda>(k, v). watched_path k) (entries_files path entries)"
proof (induction path node acc and path entries acc rule: collect_project_collect_project_entries.induct)
  case (1 path mark acc)
  then show ?case by (auto simp: watched_path_def update_new)
next
  case (2 path entries acc)
  have "filter (\<lambda>(k, v). watched_path k) (entries_files path entries) = []" if "ignored_directory path"
    using ignored_below [OF that] by (auto simp: filter_empty_conv)
  with 2 show ?case by (cases "ignored_directory path") simp_all
next
  case (6 path name node entries acc)
  let ?here = "tree_files (path @ [name]) node"
  have apart: "fst ` set ?here \<inter> fst ` set (entries_files path entries) = {}"
    using tree_files_distinct(2) [of "(name, node) # entries" path] "6.prems" by auto
  have here: "collect_project (path @ [name]) node acc = acc @ filter (\<lambda>(k, v). watched_path k) ?here"
    by (rule "6.IH"(1)) (use "6.prems" in \<open>simp_all add: image_Un Int_Un_distrib\<close>)
  have "fst ` set (filter (\<lambda>(k, v). watched_path k) ?here) \<subseteq> fst ` set ?here" by auto
  then have "fst ` set (acc @ filter (\<lambda>(k, v). watched_path k) ?here) \<inter>
      fst ` set (entries_files path entries) = {}"
    using apart "6.prems"(4) by (simp only: set_append image_Un entries_files.simps tree_files.simps) blast
  with 6 here show ?case by simp
qed simp_all

lemma project_snapshot_files:
  assumes "proper_tree (WatchedDirectory entries)"
  shows "project_snapshot (WatchedDirectory entries) =
    filter (\<lambda>(k, v). watched_path k) (tree_files [] (WatchedDirectory entries))"
  using assms by (simp add: project_snapshot_def collect_project_files ignored_directory_def)

text \<open>The paths at which two trees differ: a file is there only once, or with two stamps.\<close>

definition differing :: "watched_node \<Rightarrow> watched_node \<Rightarrow> string list set" where
  "differing a b = fst ` ((set (tree_files [] a) - set (tree_files [] b)) \<union>
     (set (tree_files [] b) - set (tree_files [] a)))"

lemma changed_paths:
  assumes "distinct (map fst xs)" "distinct (map fst ys)"
  shows "k \<in> fst ` set xs \<union> fst ` set ys \<and> map_of xs k \<noteq> map_of ys k \<longleftrightarrow>
    k \<in> fst ` ((set xs - set ys) \<union> (set ys - set xs))"
proof -
  have "(k, v) \<in> set xs \<longleftrightarrow> map_of xs k = Some v" "(k, v) \<in> set ys \<longleftrightarrow> map_of ys k = Some v" for v
    using assms by auto
  moreover have "k \<in> fst ` A \<longleftrightarrow> (\<exists>v. (k, v) \<in> A)" for A :: "('a \<times> 'b) set"
    by force
  ultimately show ?thesis
    by (simp only: Un_iff Diff_iff) (cases "map_of xs k"; cases "map_of ys k"; auto)
qed

lemma changed_kind_cases:
  assumes "distinct (map fst xs)" "distinct (map fst ys)"
  defines "changed \<equiv> fst ` ((set xs - set ys) \<union> (set ys - set xs))"
  shows "changed_kind xs ys = (if changed = {} then None
    else if \<exists>k. k \<in> changed \<and> \<not> below_resources k then Some Runtime else Some Assets)"
proof -
  have "set (filter (\<lambda>k. map_of xs k \<noteq> map_of ys k) (remdups (map fst xs @ map fst ys))) = changed"
    unfolding changed_def using changed_paths [OF assms(1,2)] by auto
  then show ?thesis
    by (auto simp: changed_kind_def Let_def list_ex_iff simp flip: set_empty)
qed

text \<open>
  Whatever happens between two polls, the running application is restarted exactly when a watched
  file outside the resources has changed, and only reloaded in the page when the changes are all
  below the resources.
\<close>

theorem watcher_classifies_changes:
  assumes "proper_tree (WatchedDirectory before)" and "proper_tree (WatchedDirectory after)"
  defines "changed \<equiv> Set.filter watched_path
    (differing (WatchedDirectory before) (WatchedDirectory after))"
  shows "changed_kind (project_snapshot (WatchedDirectory before))
      (project_snapshot (WatchedDirectory after)) =
    (if changed = {} then None
     else if changed \<subseteq> Collect below_resources then Some Assets else Some Runtime)"
proof -
  let ?f = "\<lambda>entries. filter (\<lambda>(k, v :: stamp_of_file). watched_path k) (tree_files [] (WatchedDirectory entries))"
  have d: "distinct (map fst (?f entries))" if "proper_tree (WatchedDirectory entries)" for entries
    using tree_files_distinct(1) [OF that, of "[]"] by (rule distinct_map_filter)
  define actual where "actual = fst ` ((set (?f before) - set (?f after)) \<union> (set (?f after) - set (?f before)))"
  have "actual = changed"
    unfolding actual_def by (force simp: changed_def differing_def)
  moreover have "changed_kind (?f before) (?f after) = (if actual = {} then None
      else if \<exists>k. k \<in> actual \<and> \<not> below_resources k then Some Runtime else Some Assets)"
    unfolding actual_def by (rule changed_kind_cases [OF d [OF assms(1)] d [OF assms(2)]])
  moreover have "changed \<subseteq> Collect below_resources \<longleftrightarrow> \<not> (\<exists>k. k \<in> changed \<and> \<not> below_resources k)"
    by blast
  ultimately show ?thesis
    by (simp only: project_snapshot_files [OF assms(1)] project_snapshot_files [OF assms(2)]) auto
qed

section \<open>The watches of a page\<close>

text \<open>The managers that requests can reach, with the roots as the services were prepared.\<close>

inductive watching :: "NativeServices \<Rightarrow> watches \<Rightarrow> bool" for ns where
  idle: "watching ns Map.empty"
| requested: "watching ns ws \<Longrightarrow> file_watch_dispatch os spawned ns ws q = (ws', r) \<Longrightarrow> watching ns ws'"

inductive_cases watchingE: "watching ns ws"

text \<open>The last colon of a key ends the window, because a watch identifier has none.\<close>

lemma identifier_no_colon:
  assumes "validate_identifier s label = Inr ()" shows "CHR '':'' \<notin> set s"
proof -
  have "valid_identifier s" using assms by (simp add: validate_identifier_Inr)
  then show ?thesis
    by (cases s) (auto simp: valid_identifier_def identifier_char_def ascii_defs byte_def list_all_iff)
qed

lemma watch_key_inject:
  assumes "CHR '':'' \<notin> set i" "CHR '':'' \<notin> set j"
  shows "watch_key v i = watch_key w j \<longleftrightarrow> v = w \<and> i = j"
proof
  assume "watch_key v i = watch_key w j"
  then have eq: "v @ CHR '':'' # i = w @ CHR '':'' # j" by (simp add: watch_key_def)
  have "takeWhile (\<lambda>c. c \<noteq> CHR '':'') (rev (v @ CHR '':'' # i)) = rev i"
    "takeWhile (\<lambda>c. c \<noteq> CHR '':'') (rev (w @ CHR '':'' # j)) = rev j"
    using assms by (auto intro: takeWhile_tail simp: takeWhile_append)
  with eq have "i = j" by simp
  with eq show "v = w \<and> i = j" by simp
qed (simp add: watch_key_def)

lemma watch_path_Inr:
  assumes "watch_path os ns target = Inr path"
  shows "\<exists>name root. ft_root target = Some name \<and> nv_roots ns name = Some root \<and>
    can_read (ar_access root) \<and> path_starts_with path (ar_path root)"
  using assms by (auto simp: watch_path_def rbind_Inr_iff Let_def split: option.splits if_splits)

definition watch_ok :: "NativeServices \<Rightarrow> string \<Rightarrow> WatchHandle \<Rightarrow> bool" where
  "watch_ok ns key h \<longleftrightarrow> key = watch_key (wh_window_id h) (wh_watch_id h) \<and>
     CHR '':'' \<notin> set (wh_watch_id h) \<and>
     (\<exists>name root. nv_roots ns name = Some root \<and> can_read (ar_access root) \<and>
        path_starts_with (wh_path h) (ar_path root))"

lemma watching_ok: "watching ns ws \<Longrightarrow> ws key = Some h \<Longrightarrow> watch_ok ns key h"
proof (induction arbitrary: key h rule: watching.induct)
  case (requested ws os spawned q ws' r)
  show ?case
  proof (cases "ws' key = ws key")
    case False
    with requested.hyps(2) requested.prems
    obtain target where "validate_identifier (wq_watch_id q) ''file watch'' = Inr ()"
      "watch_path os ns target = Inr (wh_path h)" "key = watch_key (wq_window_id q) (wq_watch_id q)"
      "wh_window_id h = wq_window_id q" "wh_watch_id h = wq_watch_id q"
      by (auto simp: file_watch_dispatch_def Let_def split: sum.splits FileWatchOperation.splits
          option.splits if_splits)
    then show ?thesis
      using identifier_no_colon watch_path_Inr by (fastforce simp: watch_ok_def)
  qed (use requested in simp)
qed simp

text \<open>
  Whatever pages ask for, every active watch is one its own window has started, on a path below a
  root it may read; a request changes no watch but the one it names, and none of another window.
\<close>

theorem watches_stay_separate:
  assumes "watching ns ws" and "file_watch_dispatch os spawned ns ws q = (ws', r)"
    and "ws' key = Some h"
  shows "(\<exists>name root. nv_roots ns name = Some root \<and> can_read (ar_access root) \<and>
      path_starts_with (wh_path h) (ar_path root)) \<and>
    ((wh_window_id h, wh_watch_id h) = (wq_window_id q, wq_watch_id q) \<or> ws key = Some h)"
proof -
  have "watch_ok ns key h"
    using watching_ok [OF watching.requested [OF assms(1,2)] assms(3)] .
  moreover have "(wh_window_id h, wh_watch_id h) = (wq_window_id q, wq_watch_id q)" if "ws' key \<noteq> ws key"
    using that assms(2,3)
    by (auto simp: file_watch_dispatch_def Let_def split: sum.splits FileWatchOperation.splits
          option.splits if_splits)
  ultimately show ?thesis using assms(3) by (auto simp: watch_ok_def)
qed

text \<open>
  The requests of other windows do not end a watch either: only a stop that names window and
  watch does.
\<close>

theorem watch_survives_others:
  assumes "watching ns ws" and "ws key = Some h"
    and "file_watch_dispatch os spawned ns ws q = (ws', r)"
    and "(wq_window_id q, wq_watch_id q) \<noteq> (wh_window_id h, wh_watch_id h)"
  shows "ws' key = Some h"
proof (rule ccontr)
  assume "ws' key \<noteq> Some h"
  with assms(2,3) have "key = watch_key (wq_window_id q) (wq_watch_id q)"
    "validate_identifier (wq_watch_id q) ''file watch'' = Inr ()"
    by (auto simp: file_watch_dispatch_def Let_def split: sum.splits FileWatchOperation.splits
          option.splits if_splits)
  with watching_ok [OF assms(1,2)] assms(4) show False
    by (auto simp: watch_ok_def watch_key_inject identifier_no_colon)
qed

section \<open>Witnesses\<close>

definition sample_tree_before :: "(string \<times> watched_node) list" where
  "sample_tree_before = [(''resources'', WatchedDirectory [(''app.css'', WatchedFile (1, 5))]),
     (''vendor'', WatchedDirectory [(''a.php'', WatchedFile (3, 3))]), (''link'', WatchedLink)]"

definition sample_tree_after :: "(string \<times> watched_node) list" where
  "sample_tree_after = [(''vendor'', WatchedDirectory []),
     (''resources'', WatchedDirectory [(''app.css'', WatchedFile (2, 6))])]"

lemma sample_trees:
  "proper_tree (WatchedDirectory sample_tree_before)" "proper_tree (WatchedDirectory sample_tree_after)"
  by (simp_all add: sample_tree_before_def sample_tree_after_def)

theorem watcher_classifies_changes_witness:
  "changed_kind (project_snapshot (WatchedDirectory sample_tree_before))
     (project_snapshot (WatchedDirectory sample_tree_after)) = Some Assets"
proof -
  have "Set.filter watched_path (differing (WatchedDirectory sample_tree_before)
      (WatchedDirectory sample_tree_after)) = {[''resources'', ''app.css'']}"
    by (auto simp: differing_def sample_tree_before_def sample_tree_after_def watched_path_def
        watched_file_def below_resources_def ignored_directory_def)
  then show ?thesis
    using watcher_classifies_changes [OF sample_trees] by (simp add: below_resources_def)
qed

definition sample_watch :: WatchHandle where
  "sample_watch = \<lparr>wh_path = ''/p'', wh_window_id = ''main'', wh_watch_id = ''w''\<rparr>"

theorem watch_reports_every_change_witness:
  "watch_thread sample_watch (WatchedDirectory sample_tree_before)
     [WatchedDirectory sample_tree_before, WatchedDirectory sample_tree_after] empty_hub =
   publish empty_hub (changed_event sample_watch)"
proof -
  have "changed_rounds [WatchedDirectory sample_tree_before, WatchedDirectory sample_tree_before,
      WatchedDirectory sample_tree_after] = 1"
    by (simp add: changed_rounds_def sample_tree_before_def sample_tree_after_def)
  moreover have "list_all small_tree [WatchedDirectory sample_tree_before,
      WatchedDirectory sample_tree_before, WatchedDirectory sample_tree_after]"
    using sample_trees
    by (simp add: small_tree_def MAX_ENTRIES_def sample_tree_before_def sample_tree_after_def)
  ultimately show ?thesis
    using watch_reports_every_change [of "WatchedDirectory sample_tree_before"
        "[WatchedDirectory sample_tree_before, WatchedDirectory sample_tree_after]" sample_watch empty_hub]
    by (simp add: publish_all_def)
qed

definition sample_watch_services :: NativeServices where
  "sample_watch_services = \<lparr>nv_capabilities = sample_capabilities,
     nv_roots = [''notes'' \<mapsto> \<lparr>ar_directory = ''/p'', ar_access = FileAccess.Read, ar_path = ''/p''\<rparr>],
     nv_grants = Map.empty, nv_persistent = [], nv_persistent_path = ''/h''\<rparr>"

definition sample_watch_os :: native_os where
  "sample_watch_os = \<lparr>no_symlink_metadata = (\<lambda>_. Inr \<lparr>md_kind = DirectoryFile, md_len = 0\<rparr>),
     no_canonicalize = (\<lambda>_. Inr ''/p''), no_is_dir = (\<lambda>_. True),
     no_open_dir = (\<lambda>_. None), no_lossy = (\<lambda>s. s)\<rparr>"

definition sample_watch_request :: "string \<Rightarrow> string \<Rightarrow> FileWatchRequest" where
  "sample_watch_request window watch = \<lparr>wq_operation = FileWatchOperation.Start, wq_window_id = window,
     wq_watch_id = watch,
     wq_target = Some \<lparr>ft_root = Some ''notes'', ft_grant_id = None, ft_path = []\<rparr>\<rparr>"

lemma sample_watch_started:
  "file_watch_dispatch sample_watch_os None sample_watch_services Map.empty
     (sample_watch_request ''main'' ''w'') = ([''main:w'' \<mapsto> sample_watch], Inr ())"
proof -
  have "validate_identifier ''w'' ''file watch'' = Inr ()"
    by (simp add: validate_identifier_Inr valid_identifier_def identifier_char_def ascii_defs byte_def)
  moreover have "validate_relative_path_native [] = Inr ()" "path_starts_with ''/p'' ''/p''"
    by code_simp+
  ultimately show ?thesis
    by (simp add: file_watch_dispatch_def sample_watch_request_def watch_path_def Let_def
        sample_watch_services_def sample_watch_os_def watch_key_def sample_watch_def)
qed

theorem watches_stay_separate_witness:
  "\<exists>name root. nv_roots sample_watch_services name = Some root \<and> can_read (ar_access root) \<and>
     path_starts_with (wh_path sample_watch) (ar_path root)"
  using watches_stay_separate [OF watching.idle sample_watch_started, of "''main:w''" sample_watch]
  by simp

theorem watch_survives_others_witness:
  "fst (file_watch_dispatch sample_watch_os None sample_watch_services [''main:w'' \<mapsto> sample_watch]
     (sample_watch_request ''other'' ''w'')) ''main:w'' = Some sample_watch"
proof -
  obtain ws' r where e: "file_watch_dispatch sample_watch_os None sample_watch_services
      [''main:w'' \<mapsto> sample_watch] (sample_watch_request ''other'' ''w'') = (ws', r)" by fastforce
  have "ws' ''main:w'' = Some sample_watch"
    by (rule watch_survives_others [OF watching.requested [OF watching.idle sample_watch_started] _ e])
      (simp_all add: sample_watch_request_def sample_watch_def)
  with e show ?thesis by simp
qed

end
