(* ===== verification/DesktopPortal.thy ===== *)
theory DesktopPortal
  imports DeviceServices UpdatePublish
begin

text \<open>
  The desktop portal of Linux (\<open>desktop_portal.rs\<close>): opening addresses, screenshots, printing, the
  camera and the scanner.  The portal, the scanner program and the clock are an environment; what
  is asked of them is the trace \<open>portal_call list\<close>.
\<close>

section \<open>Calls and answers\<close>

record DesktopPortalRequest =
  pq_operation :: DesktopPortalOperation
  pq_window_id :: string
  pq_url :: "string option"
  pq_target :: "FileTarget option"
  pq_title :: string
  pq_device :: "string option"
  pq_resolution :: "u16 option"
  pq_format :: "ScannerImageFormat option"

definition default_title :: string where
  "default_title = ''Pam Desktop''"

datatype portal_call =
    OpenAddress url
  | TakeScreenshot
  | PreparePrint string
  | SubmitPrint string "string \<times> string"
  | QueryCamera
  | AskCamera
  | RunScanner string "string list"
  | KillScanner
  | FileCall cap_call

text \<open>\<open>pe_open\<close> to \<open>pe_camera_access\<close>: an error text, or what the portal answers.\<close>

record portal_env =
  pe_parse :: url_parser
  pe_open :: "string option"
  pe_screenshot :: "string + string \<times> grant_env"
  pe_prepare_print :: "string option"
  pe_submit_print :: "string option"
  pe_camera :: "string + bool"
  pe_camera_access :: "string option"
  pe_is_file :: "string \<Rightarrow> bool"
  pe_discovery :: "string + bool \<times> string \<times> string"
  pe_lossy :: "string \<Rightarrow> string"
  pe_random :: "string + u8 list"
  pe_staging :: "string option"
  pe_spawn :: "string option"
  pe_rounds :: "(nat option \<times> (string + bool option)) list"
  pe_scanned :: "string + string"
  pe_copy :: "string + nat"
  pe_sync :: "string option"
  pe_cap :: cap_env
  pe_codec :: grant_codec

type_synonym portal_result =
  "(NativeServices \<times> grant_files) \<times> portal_call list \<times> (NativeError + json) option"

text \<open>A step that only decides, a call, and the calls on files a native operation makes.\<close>

type_synonym 'a portal = "portal_call list \<times> (NativeError + 'a)"

definition plift :: "NativeError + 'a \<Rightarrow> 'a portal" where
  "plift r = ([], r)"

definition pcall :: "portal_call \<Rightarrow> NativeError + 'a \<Rightarrow> 'a portal" where
  "pcall c r = ([c], r)"

definition pfiles :: "'a traced \<Rightarrow> 'a portal" where
  "pfiles t = (map FileCall (fst t), snd t)"

definition pbind :: "'a portal \<Rightarrow> ('a \<Rightarrow> 'b portal) \<Rightarrow> 'b portal" where
  "pbind m f = (case m of
     (calls, Inl e) \<Rightarrow> (calls, Inl e)
   | (calls, Inr x) \<Rightarrow> (calls @ fst (f x), snd (f x)))"

definition failing :: "string \<Rightarrow> string option \<Rightarrow> NativeError + unit" where
  "failing context e = (case e of None \<Rightarrow> Inr () | Some t \<Rightarrow> Inl (native_failed context t))"

section \<open>Addresses, screenshots, printing, the camera\<close>

definition allowed_address :: "url \<Rightarrow> bool" where
  "allowed_address u \<longleftrightarrow> url_scheme u \<in> set [''https'', ''mailto'', ''tel''] \<and>
     url_username u = [] \<and> url_password u = None"

definition open_uri :: "portal_env \<Rightarrow> DesktopPortalRequest \<Rightarrow> json portal" where
  "open_uri env q =
     (case pq_url q of
        None \<Rightarrow> plift (Inl (native_invalid ''Opening a URI requires url.''))
      | Some address \<Rightarrow>
          (case pe_parse env address of
             None \<Rightarrow> plift (Inl (native_invalid ''The desktop URI is invalid''))
           | Some u \<Rightarrow>
               if \<not> allowed_address u
               then plift (Inl (native_permission
                 ''Desktop URIs are limited to credential-free https, mailto and tel URLs.''))
               else pbind (pcall (OpenAddress u)
                   (failing ''Cannot open the URI through XDG portal'' (pe_open env)))
                 (\<lambda>_. plift (Inr JNull))))"

definition reference_json :: "FileReference \<Rightarrow> json" where
  "reference_json r = JObject
     [(''grantId'', JString (fx_grant_id r)), (''name'', JString (fx_name r)),
      (''kind'', JInt (int (FileEntryKind_code (fx_kind r)))),
      (''access'', JInt (int (FileAccess_code (fx_access r))))]"

text \<open>The screenshot is the only operation that changes the host: it grants the picture.\<close>

definition take_screenshot ::
    "portal_env \<Rightarrow> NativeServices \<times> grant_files \<Rightarrow> (NativeServices \<times> grant_files) \<times> json portal" where
  "take_screenshot env w =
     (case pe_screenshot env of
        Inl e \<Rightarrow> (w, pcall TakeScreenshot (Inl (native_failed ''Cannot request an XDG screenshot'' e)))
      | Inr (path, genv) \<Rightarrow>
          (case grant_path (pe_codec env) genv path FileAccess.Read w of
             (w', Inl e) \<Rightarrow> (w', pcall TakeScreenshot (Inl e))
           | (w', Inr reference) \<Rightarrow> (w', pcall TakeScreenshot (Inr (reference_json reference)))))"

definition ends_with :: "'a list \<Rightarrow> 'a list \<Rightarrow> bool" where
  "ends_with suffix s = starts_with (rev suffix) (rev s)"

definition print_pdf :: "portal_env \<Rightarrow> NativeServices \<Rightarrow> DesktopPortalRequest \<Rightarrow> json portal" where
  "print_pdf env ns q =
     (if pq_title q = [] \<or> length (pq_title q) > 256
      then plift (Inl (native_invalid ''Print titles must contain 1 to 256 bytes.''))
      else case pq_target q of
        None \<Rightarrow> plift (Inl (native_invalid ''Printing requires a PDF file target.''))
      | Some target \<Rightarrow>
          if \<not> ends_with ''.pdf'' (to_ascii_lowercase (ft_path target))
          then plift (Inl (native_invalid ''The print portal accepts PDF targets only.''))
          else pbind (pfiles (open_read_stream (pe_cap env) ns target)) (\<lambda>(file, _).
            pbind (pcall (PreparePrint (pq_title q))
                (failing ''Cannot prepare the XDG print dialog'' (pe_prepare_print env))) (\<lambda>_.
            pbind (pcall (SubmitPrint (pq_title q) file)
                (failing ''Cannot submit the PDF to XDG print'' (pe_submit_print env))) (\<lambda>_.
              plift (Inr (JObject [(''submitted'', JBool True)]))))))"

definition camera_present :: "portal_env \<Rightarrow> bool portal" where
  "camera_present env = pcall QueryCamera
     (case pe_camera env of
        Inl e \<Rightarrow> Inl (native_failed ''Cannot query camera availability'' e) | Inr present \<Rightarrow> Inr present)"

definition camera_status :: "portal_env \<Rightarrow> json portal" where
  "camera_status env =
     pbind (camera_present env) (\<lambda>present. plift (Inr (JObject [(''present'', JBool present)])))"

definition request_camera :: "portal_env \<Rightarrow> json portal" where
  "request_camera env =
     pbind (camera_present env) (\<lambda>present.
       if \<not> present
       then plift (Inr (JObject [(''granted'', JBool False), (''present'', JBool False)]))
       else pbind (pcall AskCamera
           (case pe_camera_access env of
              None \<Rightarrow> Inr () | Some e \<Rightarrow> Inl (native_permission ''Camera access was denied'')))
         (\<lambda>_. plift (Inr (JObject [(''granted'', JBool True), (''present'', JBool True)]))))"

section \<open>The scanner\<close>

definition MAX_SCAN_BYTES :: nat where
  "MAX_SCAN_BYTES = 256 * 1024 * 1024"

definition scanner_tool :: "portal_env \<Rightarrow> NativeError + string" where
  "scanner_tool env =
     (case filter (pe_is_file env) [''/usr/bin/scanimage'', ''/usr/local/bin/scanimage''] of
        [] \<Rightarrow> Inl (native_failed ''SANE scanimage is unavailable'' ''install sane-utils'')
      | tool # _ \<Rightarrow> Inr tool)"

text \<open>\<open>str::lines\<close>: without the line ends, and no empty line after the last one.\<close>

definition str_lines :: "string \<Rightarrow> string list" where
  "str_lines s =
     (let parts = split_on (CHR 0x0A) s;
          strip_cr = (\<lambda>l. if l \<noteq> [] \<and> last l = CHR 0x0D then butlast l else l)
      in case rev parts of
           [] \<Rightarrow> []
         | final # _ \<Rightarrow> map strip_cr (butlast parts) @ (if final = [] then [] else [final]))"

definition scanner_line :: "string \<Rightarrow> json option" where
  "scanner_line line =
     (case splitn 4 (CHR 0x09) line of
        [device, vendor, model, kind] \<Rightarrow>
          Some (JObject [(''device'', JString (trim_str device)), (''vendor'', JString (trim_str vendor)),
            (''model'', JString (trim_str model)), (''kind'', JString (trim_str kind))])
      | _ \<Rightarrow> None)"

definition bounded_stderr :: "portal_env \<Rightarrow> string \<Rightarrow> string" where
  "bounded_stderr env bytes = pe_lossy env (take (4 * 1024) bytes)"

definition list_scanners :: "portal_env \<Rightarrow> json portal" where
  "list_scanners env =
     pbind (plift (scanner_tool env)) (\<lambda>tool.
     pbind (pcall (RunScanner tool [''--formatted-device-list'', ''%d'' @ [CHR 0x09] @ ''%v'' @ [CHR 0x09] @
         ''%m'' @ [CHR 0x09] @ ''%t'' @ [CHR 0x5C] @ ''n''])
         (case pe_discovery env of
            Inl e \<Rightarrow> Inl (native_failed ''Cannot start scanner discovery'' e) | Inr r \<Rightarrow> Inr r))
       (\<lambda>(success, stdout, stderr).
         plift (if \<not> success
           then Inl (native_failed ''Scanner discovery failed'' (bounded_stderr env stderr))
           else if length stdout > 64 * 1024
           then Inl (native_invalid ''Scanner discovery output exceeded 64 KiB.'')
           else if \<not> is_utf8 stdout
           then Inl (native_invalid ''Scanner discovery returned invalid UTF-8.'')
           else Inr (JObject [(''scanners'', JArray (List.map_filter scanner_line (str_lines stdout)))]))))"

definition validate_scanner_device :: "string option \<Rightarrow> NativeError + string option" where
  "validate_scanner_device device =
     (case device of
        None \<Rightarrow> Inr None
      | Some d \<Rightarrow>
          if d = [] \<or> length d > 256 \<or> list_ex char_control (str_chars d) \<or> starts_with ''-'' d
          then Inl (native_invalid ''Scanner device identifier is invalid.'') else Inr (Some d))"

fun scanner_format :: "ScannerImageFormat \<Rightarrow> string" where
  "scanner_format ScannerImageFormat.Png = ''png''"
| "scanner_format ScannerImageFormat.Jpeg = ''jpeg''"
| "scanner_format ScannerImageFormat.Pnm = ''pnm''"

text \<open>
  The loop over the running scanner: each round sees the size of the staging file, if it can be
  read, and then the exit status.  \<open>None\<close> is a scanner that still runs when the rounds are over.
\<close>

fun await_scanner ::
    "(nat option \<times> (string + bool option)) list \<Rightarrow> (portal_call list \<times> (NativeError + bool)) option" where
  "await_scanner [] = None"
| "await_scanner ((staged, polled) # rounds) =
     (if (case staged of None \<Rightarrow> False | Some n \<Rightarrow> n > MAX_SCAN_BYTES)
      then Some ([KillScanner], Inl (native_invalid ''Scanned images are limited to 256 MiB.''))
      else case polled of
        Inl e \<Rightarrow> Some ([], Inl (native_failed ''Cannot monitor scanner'' e))
      | Inr (Some success) \<Rightarrow> Some ([], Inr success)
      | Inr None \<Rightarrow> await_scanner rounds)"

definition scanner_arguments :: "string option \<Rightarrow> u16 \<Rightarrow> ScannerImageFormat \<Rightarrow> string list" where
  "scanner_arguments device resolution format =
     (case device of None \<Rightarrow> [] | Some d \<Rightarrow> [''--device-name'', d]) @
     [''--resolution='' @ decimal (unat resolution), ''--format='' @ scanner_format format]"

text \<open>What follows when the scanner has ended.\<close>

definition publish_scan ::
    "portal_env \<Rightarrow> NativeServices \<Rightarrow> FileTarget \<Rightarrow> ScannerImageFormat \<Rightarrow> bool \<Rightarrow> json portal" where
  "publish_scan env ns target format success =
     (if \<not> success then plift (Inl (native_failed ''Scanning failed'' ''exit status''))
      else pbind (pfiles (open_write_stream (pe_cap env) ns target)) (\<lambda>_.
        plift (case pe_scanned env of
            Inl e \<Rightarrow> Inl (native_failed ''Cannot reopen scanned image'' e)
          | Inr _ \<Rightarrow>
              (case pe_copy env of
                 Inl e \<Rightarrow> Inl (native_failed ''Cannot publish scanned image'' e)
               | Inr bytes \<Rightarrow>
                   (case pe_sync env of
                      Some e \<Rightarrow> Inl (native_failed ''Cannot persist scanned image'' e)
                    | None \<Rightarrow> Inr (JObject [(''bytesWritten'', JInt (int bytes)),
                        (''format'', JInt (int (ScannerImageFormat_code format)))]))))))"

definition scan_image ::
    "portal_env \<Rightarrow> NativeServices \<Rightarrow> FileTarget \<Rightarrow> string option \<Rightarrow> u16 \<Rightarrow> ScannerImageFormat \<Rightarrow>
     portal_call list \<times> (NativeError + json) option" where
  "scan_image env ns target device resolution format =
     (case pbind (plift (case pe_random env of
              Inl e \<Rightarrow> Inl (native_failed ''Cannot create scanner staging identity'' e) | Inr _ \<Rightarrow> Inr ()))
         (\<lambda>_. pbind (plift (failing ''Cannot create scanner staging file'' (pe_staging env))) (\<lambda>_.
           pbind (plift (scanner_tool env)) (\<lambda>tool.
             pcall (RunScanner tool (scanner_arguments device resolution format))
               (failing ''Cannot start scanner'' (pe_spawn env))))) of
        (calls, Inl e) \<Rightarrow> (calls, Some (Inl e))
      | (calls, Inr _) \<Rightarrow>
          (case await_scanner (pe_rounds env) of
             None \<Rightarrow> (calls, None)
           | Some ended \<Rightarrow>
               (let r = pbind ended (publish_scan env ns target format)
                in (calls @ fst r, Some (snd r)))))"

definition scan_request ::
    "portal_env \<Rightarrow> NativeServices \<Rightarrow> DesktopPortalRequest \<Rightarrow>
     portal_call list \<times> (NativeError + json) option" where
  "scan_request env ns q =
     (case pq_target q of
        None \<Rightarrow> ([], Some (Inl (native_invalid ''Scanning requires a destination target.'')))
      | Some target \<Rightarrow>
          (case validate_scanner_device (pq_device q) of
             Inl e \<Rightarrow> ([], Some (Inl e))
           | Inr device \<Rightarrow>
               (let resolution = (case pq_resolution q of None \<Rightarrow> 300 | Some r \<Rightarrow> r) in
                if \<not> (75 \<le> resolution \<and> resolution \<le> 1200)
                then ([], Some (Inl (native_invalid ''Scanner resolution must be between 75 and 1,200 DPI.'')))
                else scan_image env ns target device resolution
                  (case pq_format q of None \<Rightarrow> ScannerImageFormat.Png | Some f \<Rightarrow> f))))"

section \<open>The operation\<close>

definition portal_execute ::
    "portal_env \<Rightarrow> NativeServices \<times> grant_files \<Rightarrow> DesktopPortalRequest \<Rightarrow> portal_result" where
  "portal_execute env w q =
     (let ns = fst w; settled = (\<lambda>r. (w, fst r, Some (snd r))) in
      if \<not> nc_desktop_portal (nv_capabilities ns)
      then (w, [], Some (Inl (native_disabled ''desktop portal'')))
      else case pq_operation q of
        DesktopPortalOperation.OpenUri \<Rightarrow> settled (open_uri env q)
      | DesktopPortalOperation.Screenshot \<Rightarrow>
          (case take_screenshot env w of (w', r) \<Rightarrow> (w', fst r, Some (snd r)))
      | DesktopPortalOperation.PrintPdf \<Rightarrow> settled (print_pdf env ns q)
      | DesktopPortalOperation.CameraStatus \<Rightarrow> settled (camera_status env)
      | DesktopPortalOperation.RequestCamera \<Rightarrow> settled (request_camera env)
      | DesktopPortalOperation.ListScanners \<Rightarrow> settled (list_scanners env)
      | DesktopPortalOperation.ScanImage \<Rightarrow>
          (case scan_request env ns q of (calls, r) \<Rightarrow> (w, calls, r)))"

section \<open>What reaches the desktop\<close>

lemma in_pbind [simp]:
  "c \<in> set (fst (pbind m f)) \<longleftrightarrow>
     c \<in> set (fst m) \<or> (\<exists>x. snd m = Inr x \<and> c \<in> set (fst (f x)))"
  by (cases m; cases "snd m") (auto simp: pbind_def)

lemma portal_step_simps [simp]:
  "fst (plift r) = []" "snd (plift r) = r" "fst (pcall c r) = [c]" "snd (pcall c r) = r"
  "fst (pfiles t) = map FileCall (fst t)" "snd (pfiles t) = snd t"
  by (simp_all add: plift_def pcall_def pfiles_def)

text \<open>
  An address is a public one without credentials; a scanner program is one of the two known, and
  its arguments are the listing or a device that is no option, a resolution and a format.
\<close>

definition portal_call_ok :: "NativeServices \<Rightarrow> DesktopPortalRequest \<Rightarrow> portal_call \<Rightarrow> bool" where
  "portal_call_ok ns q call = (case call of
     OpenAddress u \<Rightarrow> allowed_address u
   | RunScanner tool arguments \<Rightarrow>
       tool \<in> {''/usr/bin/scanimage'', ''/usr/local/bin/scanimage''} \<and>
       (hd arguments = ''--formatted-device-list'' \<and> length arguments = 2 \<or>
        (\<exists>device resolution format. arguments = scanner_arguments device resolution format \<and>
           75 \<le> resolution \<and> resolution \<le> 1200 \<and>
           (\<forall>d. device = Some d \<longrightarrow> \<not> starts_with ''-'' d \<and> length d \<le> 256)))
   | SubmitPrint title file \<Rightarrow> title = pq_title q \<and> title \<noteq> [] \<and> length title \<le> 256
   | FileCall c \<Rightarrow> (\<exists>target. pq_target q = Some target \<and> call_authorized ns target c)
   | _ \<Rightarrow> True)"

lemma scanner_tool_Inr:
  "scanner_tool env = Inr tool \<Longrightarrow> tool \<in> {''/usr/bin/scanimage'', ''/usr/local/bin/scanimage''}"
  by (auto simp: scanner_tool_def split: if_splits list.splits)

lemma open_uri_ok: "c \<in> set (fst (open_uri env q)) \<Longrightarrow> portal_call_ok ns q c"
  by (auto simp: open_uri_def portal_call_ok_def split: option.splits if_splits)

lemma print_pdf_ok:
  assumes "serving codec (ns, files)" "c \<in> set (fst (print_pdf env ns q))"
  shows "portal_call_ok ns q c"
  using assms(2)
  by (auto simp: print_pdf_def portal_call_ok_def split: option.splits if_splits
      dest!: open_read_stream_allowed allowed_authorized [OF assms(1)])

lemma camera_ok:
  "c \<in> set (fst (camera_status env)) \<Longrightarrow> portal_call_ok ns q c"
  "c \<in> set (fst (request_camera env)) \<Longrightarrow> portal_call_ok ns q c"
  by (auto simp: camera_status_def request_camera_def camera_present_def portal_call_ok_def
      split: if_splits)

lemma list_scanners_ok: "c \<in> set (fst (list_scanners env)) \<Longrightarrow> portal_call_ok ns q c"
  using scanner_tool_Inr by (fastforce simp: list_scanners_def portal_call_ok_def)

lemma await_scanner_calls: "await_scanner rounds = Some (calls, r) \<Longrightarrow> set calls \<subseteq> {KillScanner}"
  by (induction rounds rule: await_scanner.induct) (auto split: if_splits sum.splits option.splits)

lemma publish_scan_ok:
  assumes "serving codec (ns, files)" "pq_target q = Some target"
    "c \<in> set (fst (publish_scan env ns target format success))"
  shows "portal_call_ok ns q c"
  using assms(2,3)
  by (auto simp: publish_scan_def portal_call_ok_def split: if_splits
      dest!: open_write_stream_allowed allowed_authorized [OF assms(1)])

lemma scan_image_ok:
  assumes "serving codec (ns, files)" "pq_target q = Some target"
    and "\<And>d. device = Some d \<Longrightarrow> \<not> starts_with ''-'' d \<and> length d \<le> 256"
    and "75 \<le> resolution" "resolution \<le> 1200"
    and "c \<in> set (fst (scan_image env ns target device resolution format))"
  shows "portal_call_ok ns q c"
proof -
  let ?start = "pbind (plift (case pe_random env of
      Inl e \<Rightarrow> Inl (native_failed ''Cannot create scanner staging identity'' e) | Inr _ \<Rightarrow> Inr ()))
    (\<lambda>_. pbind (plift (failing ''Cannot create scanner staging file'' (pe_staging env))) (\<lambda>_.
      pbind (plift (scanner_tool env)) (\<lambda>tool.
        pcall (RunScanner tool (scanner_arguments device resolution format))
          (failing ''Cannot start scanner'' (pe_spawn env)))))"
  have start: "portal_call_ok ns q c" if "c \<in> set (fst ?start)"
    using that assms(3-5) scanner_tool_Inr [of env] by (fastforce simp: portal_call_ok_def)
  have "c \<in> set (fst ?start) \<or> (\<exists>ended. await_scanner (pe_rounds env) = Some ended \<and>
      c \<in> set (fst (pbind ended (publish_scan env ns target format))))"
    using assms(6) by (auto simp: scan_image_def Let_def simp del: in_pbind split: prod.splits sum.splits option.splits)
  then show ?thesis
  proof
    assume "\<exists>ended. await_scanner (pe_rounds env) = Some ended \<and>
      c \<in> set (fst (pbind ended (publish_scan env ns target format)))"
    then obtain calls r where "await_scanner (pe_rounds env) = Some (calls, r)"
      "c \<in> set calls \<or> (\<exists>success. c \<in> set (fst (publish_scan env ns target format success)))" by auto
    then show ?thesis
      using await_scanner_calls publish_scan_ok [OF assms(1,2)] by (force simp: portal_call_ok_def)
  qed (rule start)
qed

lemma scan_request_ok:
  assumes "serving codec (ns, files)" "c \<in> set (fst (scan_request env ns q))"
  shows "portal_call_ok ns q c"
proof -
  let ?resolution = "case pq_resolution q of None \<Rightarrow> 300 | Some r \<Rightarrow> r"
  let ?format = "case pq_format q of None \<Rightarrow> ScannerImageFormat.Png | Some f \<Rightarrow> f"
  obtain target where target: "pq_target q = Some target"
    using assms(2) by (cases "pq_target q") (simp_all add: scan_request_def)
  moreover obtain device where device: "validate_scanner_device (pq_device q) = Inr device"
    using assms(2) target by (cases "validate_scanner_device (pq_device q)") (simp_all add: scan_request_def)
  ultimately have resolution: "75 \<le> ?resolution" "?resolution \<le> 1200"
    and c: "c \<in> set (fst (scan_image env ns target device ?resolution ?format))"
    using assms(2) by (simp_all add: scan_request_def Let_def split: if_splits)
  from device have "\<not> starts_with ''-'' d \<and> length d \<le> 256" if "device = Some d" for d
    using that by (auto simp: validate_scanner_device_def split: option.splits if_splits)
  from scan_image_ok [OF assms(1) target this resolution c] show ?thesis .
qed

text \<open>
  Whatever a page asks of the desktop: with the portal switched off nothing is called; else only
  public addresses without credentials are opened, the scanner runs with no option a page has
  invented, and the files that are printed or written are those a root or grant authorizes.
\<close>

theorem portal_calls_are_confined:
  assumes "serving codec w" and "portal_execute env w q = (w', calls, answer)" and "c \<in> set calls"
  shows "nc_desktop_portal (nv_capabilities (fst w)) \<and> portal_call_ok (fst w) q c"
proof -
  obtain ns files where w: "w = (ns, files)" by fastforce
  have on: "nc_desktop_portal (nv_capabilities ns)"
    using assms(2,3) by (auto simp: portal_execute_def w Let_def split: if_splits)
  have shot: "c = TakeScreenshot" if "c \<in> set (fst (snd (take_screenshot env w)))"
    using that by (auto simp: take_screenshot_def split: sum.splits prod.splits)
  have serving: "serving codec (ns, files)" using assms(1) w by simp
  show ?thesis
  proof (cases "pq_operation q")
    case Screenshot
    with assms(2,3) on shot show ?thesis
      by (auto simp: portal_execute_def w Let_def portal_call_ok_def split: prod.splits)
  next
    case ScanImage
    with assms(2,3) on scan_request_ok [OF serving, of c env q] show ?thesis
      by (auto simp: portal_execute_def w Let_def split: prod.splits)
  next
    case PrintPdf
    with assms(2,3) on print_pdf_ok [OF serving, of c env q] show ?thesis
      by (auto simp: portal_execute_def w Let_def)
  qed (use assms(2,3) on in \<open>auto simp: portal_execute_def w Let_def
    dest: open_uri_ok camera_ok list_scanners_ok\<close>)
qed

text \<open>An image that is published has been within the limit whenever it was looked at.\<close>

theorem oversized_scan_is_not_published:
  assumes "await_scanner rounds = Some (calls, Inr success)"
  shows "calls = [] \<and> (\<exists>n < length rounds. (\<exists>staged. rounds ! n = (staged, Inr (Some success)) \<and>
     (\<forall>m. staged = Some m \<longrightarrow> m \<le> MAX_SCAN_BYTES)) \<and>
     (\<forall>(staged, polled) \<in> set (take n rounds). polled = Inr None \<and>
        (\<forall>m. staged = Some m \<longrightarrow> m \<le> MAX_SCAN_BYTES)))"
  using assms
proof (induction rounds rule: await_scanner.induct)
  case (2 staged polled rounds)
  have small: "\<forall>m. staged = Some m \<longrightarrow> m \<le> MAX_SCAN_BYTES"
    using 2 by (cases staged) (auto split: if_splits)
  show ?case
  proof (cases "polled = Inr None")
    case True
    have "await_scanner rounds = Some (calls, Inr success)"
      using 2 True by (auto split: if_splits)
    with 2 True small have "calls = [] \<and> (\<exists>n < length rounds.
      (\<exists>staged. rounds ! n = (staged, Inr (Some success)) \<and>
       (\<forall>m. staged = Some m \<longrightarrow> m \<le> MAX_SCAN_BYTES)) \<and>
     (\<forall>(staged, polled) \<in> set (take n rounds). polled = Inr None \<and>
        (\<forall>m. staged = Some m \<longrightarrow> m \<le> MAX_SCAN_BYTES)))"
      by (auto split: if_splits option.splits)
    then obtain n where "calls = []" "n < length rounds"
      "\<exists>staged. rounds ! n = (staged, Inr (Some success)) \<and> (\<forall>m. staged = Some m \<longrightarrow> m \<le> MAX_SCAN_BYTES)"
      "\<forall>(staged, polled) \<in> set (take n rounds). polled = Inr None \<and>
        (\<forall>m. staged = Some m \<longrightarrow> m \<le> MAX_SCAN_BYTES)" by blast
    then show ?thesis using True small by (intro conjI exI [of _ "Suc n"]) auto
  next
    case False
    with 2 small show ?thesis
      by (intro conjI exI [of _ 0]) (auto split: if_splits sum.splits option.splits)
  qed
qed simp

section \<open>Witnesses\<close>

definition sample_portal :: "portal_env" where
  "sample_portal = \<lparr>pe_parse = (\<lambda>_. None),
     pe_open = None, pe_screenshot = Inl ''none'', pe_prepare_print = None, pe_submit_print = None,
     pe_camera = Inr True, pe_camera_access = None, pe_is_file = (\<lambda>_. True), pe_discovery = Inl ''none'',
     pe_lossy = (\<lambda>s. s), pe_random = Inr [], pe_staging = None, pe_spawn = None, pe_rounds = [],
     pe_scanned = Inr [], pe_copy = Inr 0, pe_sync = None, pe_cap = sample_cap, pe_codec = sample_codec\<rparr>"

definition sample_portal_services :: NativeServices where
  "sample_portal_services = sample_services\<lparr>nv_capabilities := sample_capabilities\<lparr>nc_desktop_portal := True\<rparr>\<rparr>"

lemma sample_portal_serving:
  "serving sample_codec (sample_portal_services, \<lparr>gf_store = None, gf_temporary = None\<rparr>)"
proof (rule serving.started)
  have "validate_capabilities (\<lambda>_. None) (sample_capabilities\<lparr>nc_desktop_portal := True\<rparr>) = Inr ()"
    using sample_capabilities_valid by (simp add: validate_capabilities_def)
  then show "native_prepare (\<lambda>_. None) sample_os sample_codec
      (probe_store \<lparr>gf_store = None, gf_temporary = None\<rparr>) (Inr ''/h/grants.json'') (Inr ())
      ''/p'' (sample_capabilities\<lparr>nc_desktop_portal := True\<rparr>) = Inr sample_portal_services"
    by (simp add: native_prepare_def sample_roots probe_store_simps)
       (simp add: sample_portal_services_def sample_services_def)
qed

definition sample_address :: url where
  "sample_address = \<lparr>url_scheme = ''https'', url_username = [], url_password = None,
     url_host_str = Some ''example.com'', url_host_of = None, url_path = ''/'', url_query = None,
     url_fragment = None\<rparr>"

definition sample_portal_request :: DesktopPortalRequest where
  "sample_portal_request = \<lparr>pq_operation = DesktopPortalOperation.OpenUri, pq_window_id = ''main'',
     pq_url = Some ''https://example.com/'', pq_target = None, pq_title = default_title, pq_device = None,
     pq_resolution = None, pq_format = None\<rparr>"

theorem portal_calls_are_confined_witness:
  "portal_call_ok sample_portal_services sample_portal_request (OpenAddress sample_address)"
proof -
  have "portal_execute (sample_portal\<lparr>pe_parse := \<lambda>_. Some sample_address\<rparr>)
      (sample_portal_services, \<lparr>gf_store = None, gf_temporary = None\<rparr>) sample_portal_request =
    ((sample_portal_services, \<lparr>gf_store = None, gf_temporary = None\<rparr>), [OpenAddress sample_address],
     Some (Inr JNull))"
    by (simp add: portal_execute_def sample_portal_request_def sample_portal_services_def open_uri_def
        allowed_address_def sample_address_def sample_portal_def failing_def pbind_def pcall_def plift_def)
  from portal_calls_are_confined [OF sample_portal_serving this] show ?thesis by simp
qed

definition sample_scan :: "(nat option \<times> (string + bool option)) list" where
  "sample_scan = [(Some 5, Inr None), (None, Inr (Some True))]"

theorem oversized_scan_is_not_published_witness: "\<exists>n. n < length sample_scan \<and>
   sample_scan ! n = (None, Inr (Some True))"
proof -
  have "await_scanner sample_scan = Some ([], Inr True)"
    by (simp add: sample_scan_def MAX_SCAN_BYTES_def)
  from oversized_scan_is_not_published [OF this] obtain n staged where
    "n < length sample_scan" "sample_scan ! n = (staged, Inr (Some True))" by blast
  moreover from this have "staged = None" by (auto simp: sample_scan_def nth_Cons split: nat.splits)
  ultimately show ?thesis by blast
qed

end
