(* ===== verification/SystemInfo.thy ===== *)
theory SystemInfo
  imports DesktopPortal Versions
begin

text \<open>
  \<open>system_info.rs\<close> and \<open>resident_memory_bytes\<close> of \<open>gateway.rs\<close>: what the host reads from the files
  of the kernel.  A file is \<open>None\<close> where it cannot be read as text; \<open>f64\<close> parsing is a parameter.
\<close>

section \<open>Words of a text\<close>

fun split_where :: "('a \<Rightarrow> bool) \<Rightarrow> 'a list \<Rightarrow> 'a list list" where
  "split_where p [] = [[]]"
| "split_where p (x # xs) =
     (if p x then [] # split_where p xs
      else case split_where p xs of [] \<Rightarrow> [[x]] | w # ws \<Rightarrow> (x # w) # ws)"

definition split_whitespace :: "string \<Rightarrow> string list" where
  "split_whitespace s = map (\<lambda>w. map char_of (utf8_encode w))
     (filter (\<lambda>w. w \<noteq> []) (split_where char_whitespace (str_chars s)))"

text \<open>\<open>str::replace\<close>.\<close>

function replace_all :: "string \<Rightarrow> string \<Rightarrow> string \<Rightarrow> string" where
  "replace_all pattern new [] = []"
| "replace_all pattern new (c # cs) =
     (if pattern \<noteq> [] \<and> starts_with pattern (c # cs)
      then new @ replace_all pattern new (drop (length pattern) (c # cs))
      else c # replace_all pattern new cs)"
  by pat_completeness auto
termination
  by (relation "measure (\<lambda>(pattern, new, s). length s)") (auto simp: less_Suc_eq_le neq_Nil_conv)

definition ascii_whitespace :: "char \<Rightarrow> bool" where
  "ascii_whitespace c \<longleftrightarrow> byte c \<in> {9, 10, 12, 13, 32}"

definition split_ascii_whitespace :: "string \<Rightarrow> string list" where
  "split_ascii_whitespace s = filter (\<lambda>w. w \<noteq> []) (split_where ascii_whitespace s)"

section \<open>The memory of the process and of the system\<close>

text \<open>\<open>checked_mul\<close> of \<open>u64\<close>.\<close>

definition kibibytes :: "string option \<Rightarrow> nat option" where
  "kibibytes v =
     Option.bind v (\<lambda>s. Option.bind (parse_u64 s) (\<lambda>n.
       if n * 1024 < 2 ^ 64 then Some (n * 1024) else None))"

fun memory_line :: "string \<Rightarrow> nat option \<times> nat option \<Rightarrow> nat option \<times> nat option" where
  "memory_line line (whole, available) =
     (case split_whitespace line of
        [] \<Rightarrow> (whole, available)
      | name # others \<Rightarrow>
          (let first_word = (case others of [] \<Rightarrow> None | f # _ \<Rightarrow> Some f) in
           if name = ''MemTotal:'' then (kibibytes first_word, available)
           else if name = ''MemAvailable:'' then (whole, kibibytes first_word)
           else (whole, available)))"

definition memory_info :: "string option \<Rightarrow> nat option \<times> nat option" where
  "memory_info meminfo =
     (case meminfo of
        None \<Rightarrow> (None, None)
      | Some contents \<Rightarrow> fold memory_line (str_lines contents) (None, None))"

definition resident_memory_bytes :: "string option \<Rightarrow> nat" where
  "resident_memory_bytes status =
     (case status of
        None \<Rightarrow> 0
      | Some contents \<Rightarrow>
          (case List.map_filter (strip_prefix ''VmRSS:'') (str_lines contents) of
             [] \<Rightarrow> 0
           | first_word # _ \<Rightarrow>
               (case split_ascii_whitespace first_word of
                  [] \<Rightarrow> 0
                | kilobytes # _ \<Rightarrow>
                    (case kibibytes (Some kilobytes) of None \<Rightarrow> 0 | Some n \<Rightarrow> n))))"

section \<open>Uptime, connectivity, power\<close>

text \<open>\<open>seconds\<close> reads a number as \<open>f64\<close>: \<open>None\<close> if it is none, is not finite or is negative.\<close>

definition uptime :: "(string \<Rightarrow> nat option) \<Rightarrow> string option \<Rightarrow> nat option" where
  "uptime seconds contents =
     (case contents of
        None \<Rightarrow> None
      | Some text \<Rightarrow>
          (case split_whitespace text of [] \<Rightarrow> None | word # _ \<Rightarrow> seconds word))"

text \<open>The interfaces in the order of \<open>read_dir\<close>, with their state.\<close>

fun any_online :: "(string \<times> string option) list \<Rightarrow> ConnectivityState" where
  "any_online [] = ConnectivityState.Offline"
| "any_online ((name, state) # rest) =
     (if name = ''lo'' then any_online rest
      else if (case state of None \<Rightarrow> False | Some s \<Rightarrow> trim_str s = ''up'') then ConnectivityState.Online
      else any_online rest)"

definition connectivity :: "(string \<times> string option) list option \<Rightarrow> ConnectivityState" where
  "connectivity interfaces =
     (case interfaces of None \<Rightarrow> ConnectivityState.Offline | Some entries \<Rightarrow> any_online entries)"

record power_supply =
  py_type :: "string option"
  py_status :: "string option"
  py_capacity :: "string option"

definition power_status :: "string option \<Rightarrow> PowerState" where
  "power_status status =
     (case map_option trim_str status of
        None \<Rightarrow> PowerState.Unknown
      | Some s \<Rightarrow>
          if s = ''Charging'' then PowerState.Charging
          else if s = ''Discharging'' then PowerState.Discharging
          else if s = ''Full'' then PowerState.Full else PowerState.Unknown)"

fun first_battery :: "power_supply list \<Rightarrow> PowerState \<times> nat option" where
  "first_battery [] = (PowerState.Unknown, None)"
| "first_battery (p # rest) =
     (if (case py_type p of None \<Rightarrow> False | Some kind \<Rightarrow> trim_str kind = ''Battery'')
      then (power_status (py_status p),
        map_option (\<lambda>n. min n 100)
          (Option.bind (py_capacity p) (\<lambda>v. parse_unsigned 8 (trim_str v))))
      else first_battery rest)"

definition power_info :: "power_supply list option \<Rightarrow> PowerState \<times> nat option" where
  "power_info supplies =
     (case supplies of None \<Rightarrow> (PowerState.Unknown, None) | Some entries \<Rightarrow> first_battery entries)"

record SystemSnapshot =
  sy_os :: string
  sy_architecture :: string
  sy_cpu_logical_cores :: nat
  sy_memory_total_bytes :: "nat option"
  sy_memory_available_bytes :: "nat option"
  sy_uptime_seconds :: "nat option"
  sy_connectivity_state :: ConnectivityState
  sy_power_state :: PowerState
  sy_battery_percentage :: "nat option"

record system_files =
  sf_os :: string
  sf_architecture :: string
  sf_cores :: "nat option"
  sf_meminfo :: "string option"
  sf_seconds :: "string \<Rightarrow> nat option"
  sf_uptime :: "string option"
  sf_interfaces :: "(string \<times> string option) list option"
  sf_supplies :: "power_supply list option"

definition system_snapshot :: "system_files \<Rightarrow> SystemSnapshot" where
  "system_snapshot f =
     (case memory_info (sf_meminfo f) of (whole, available) \<Rightarrow>
        (case power_info (sf_supplies f) of (power_state, battery) \<Rightarrow>
           \<lparr>sy_os = sf_os f, sy_architecture = sf_architecture f,
            sy_cpu_logical_cores = (case sf_cores f of None \<Rightarrow> 1 | Some n \<Rightarrow> n),
            sy_memory_total_bytes = whole, sy_memory_available_bytes = available,
            sy_uptime_seconds = uptime (sf_seconds f) (sf_uptime f),
            sy_connectivity_state = connectivity (sf_interfaces f),
            sy_power_state = power_state, sy_battery_percentage = battery\<rparr>))"

definition optional_number :: "nat option \<Rightarrow> json" where
  "optional_number n = (case n of None \<Rightarrow> JNull | Some k \<Rightarrow> JInt (int k))"

definition system_json :: "SystemSnapshot \<Rightarrow> json" where
  "system_json s = JObject
     [(''os'', JString (sy_os s)), (''architecture'', JString (sy_architecture s)),
      (''cpuLogicalCores'', JInt (int (sy_cpu_logical_cores s))),
      (''memoryTotalBytes'', optional_number (sy_memory_total_bytes s)),
      (''memoryAvailableBytes'', optional_number (sy_memory_available_bytes s)),
      (''uptimeSeconds'', optional_number (sy_uptime_seconds s)),
      (''connectivityState'', JInt (int (ConnectivityState_code (sy_connectivity_state s)))),
      (''powerState'', JInt (int (PowerState_code (sy_power_state s)))),
      (''batteryPercentage'', optional_number (sy_battery_percentage s))]"

section \<open>Bounds of the answer\<close>

lemma kibibytes_bound: "kibibytes v = Some n \<Longrightarrow> n < 2 ^ 64"
  by (auto simp: kibibytes_def split: Option.bind_splits if_splits)

definition fits :: "nat option \<Rightarrow> bool" where
  "fits v \<longleftrightarrow> (case v of None \<Rightarrow> True | Some n \<Rightarrow> n < 2 ^ 64)"

lemma fits_kibibytes: "fits (kibibytes v)"
  using kibibytes_bound [of v] by (cases "kibibytes v") (simp_all add: fits_def)

lemma memory_line_fits:
  "fits (fst ta) \<Longrightarrow> fits (snd ta) \<Longrightarrow>
     fits (fst (memory_line line ta)) \<and> fits (snd (memory_line line ta))"
  by (cases ta; cases "split_whitespace line") (simp_all add: Let_def fits_kibibytes)

lemma memory_lines_fit:
  "fits (fst ta) \<Longrightarrow> fits (snd ta) \<Longrightarrow>
     fits (fst (fold memory_line lines ta)) \<and> fits (snd (fold memory_line lines ta))"
  by (induction lines arbitrary: ta) (simp_all add: memory_line_fits)

lemma memory_info_fits: "fits (fst (memory_info m)) \<and> fits (snd (memory_info m))"
  using memory_lines_fit [of "(None, None)"] by (cases m) (simp_all add: memory_info_def fits_def)

lemma first_battery_bound: "first_battery ps = (state, Some n) \<Longrightarrow> n \<le> 100"
  by (induction ps rule: first_battery.induct) (auto split: if_splits)

text \<open>
  Whatever the files of the kernel contain, the sizes a page is told fit into 64 bits and the
  charge of the battery is a percentage.
\<close>

theorem system_snapshot_is_bounded:
  "fits (sy_memory_total_bytes (system_snapshot f)) \<and> fits (sy_memory_available_bytes (system_snapshot f)) \<and>
   (case sy_battery_percentage (system_snapshot f) of None \<Rightarrow> True | Some n \<Rightarrow> n \<le> 100)"
proof -
  obtain state battery where p: "power_info (sf_supplies f) = (state, battery)" by fastforce
  have "case battery of None \<Rightarrow> True | Some n \<Rightarrow> n \<le> 100"
    using p first_battery_bound by (cases battery) (auto simp: power_info_def split: option.splits)
  then show ?thesis
    using memory_info_fits [of "sf_meminfo f"] by (simp add: system_snapshot_def p case_prod_beta)
qed

end
