(* ===== verification/WindowState.thy ===== *)
theory WindowState
  imports NativeFiles
begin

text \<open>
  \<open>window_state.rs\<close>: the geometry of each window, kept in \<open>windows.json\<close> and mapped to the monitors that
  are present when the window is opened again.  The arithmetic of \<open>f64\<close> is a parameter, so a theorem
  holds for every rounding, infinities and NaN included; a clamp whose bounds are swapped panics in
  Rust and is None here.  The first section is the publication of a file that several services share:
  everything is written to a temporary file, which is then renamed.
\<close>

section \<open>Files that are replaced as a whole\<close>

record published_file =
  pf_current :: "string option"
  pf_temporary :: "string option"

text \<open>\<open>we_breaks\<close> is the number of bytes after which writing fails.\<close>

record write_env =
  we_directory :: bool
  we_opens :: bool
  we_breaks :: "nat option"
  we_renames :: bool

definition write_temporary :: "write_env \<Rightarrow> string \<Rightarrow> published_file \<Rightarrow> published_file \<times> bool" where
  "write_temporary e bytes f =
     (if \<not> we_opens e then (f, False)
      else case we_breaks e of
        None \<Rightarrow> (f\<lparr>pf_temporary := Some bytes\<rparr>, True)
      | Some n \<Rightarrow> (f\<lparr>pf_temporary := Some (take n bytes)\<rparr>, False))"

definition rename_temporary :: "write_env \<Rightarrow> published_file \<Rightarrow> published_file \<times> bool" where
  "rename_temporary e f =
     (if we_renames e \<and> pf_temporary f \<noteq> None
      then (f\<lparr>pf_current := pf_temporary f, pf_temporary := None\<rparr>, True)
      else (f, False))"

text \<open>
  What readers of a published file rely on: whichever step fails, they see the content that was there
  before or the new content, never a part of it.
\<close>

locale atomic_publication =
  fixes publish :: "write_env \<Rightarrow> 'v \<Rightarrow> published_file \<Rightarrow> published_file \<times> (string + unit)"
    and content :: "'v \<Rightarrow> string option"
  assumes published: "publish e v f = (f', Inr ()) \<Longrightarrow> pf_current f' = content v"
    and kept: "publish e v f = (f', Inl message) \<Longrightarrow> pf_current f' = pf_current f"
begin

lemma old_or_new: "pf_current (fst (publish e v f)) = pf_current f \<or> pf_current (fst (publish e v f)) = content v"
proof (cases "publish e v f")
  case (Pair f' r)
  then show ?thesis using published [of e v f f'] kept [of e v f f'] by (cases r) auto
qed

fun publish_each :: "(write_env \<times> 'v) list \<Rightarrow> published_file \<Rightarrow> published_file" where
  "publish_each [] f = f"
| "publish_each ((e, v) # rest) f = publish_each rest (fst (publish e v f))"

lemma never_partial:
  "pf_current (publish_each writes f) \<in> insert (pf_current f) ((content \<circ> snd) ` set writes)"
proof (induction writes arbitrary: f)
  case (Cons w writes)
  obtain e v where w: "w = (e, v)" by (cases w)
  show ?case using Cons.IH [of "fst (publish e v f)"] old_or_new [of e v f] by (auto simp: w)
qed simp

end

section \<open>Integers and floating point\<close>

type_synonym i32 = "32 word"

definition i32_saturate :: "int \<Rightarrow> i32" where
  "i32_saturate n = word_of_int (max (- (2 ^ 31)) (min (2 ^ 31 - 1) n))"

definition i32_sat_add :: "i32 \<Rightarrow> i32 \<Rightarrow> i32" where
  "i32_sat_add a b = i32_saturate (sint a + sint b)"

definition i32_sat_sub :: "i32 \<Rightarrow> i32 \<Rightarrow> i32" where
  "i32_sat_sub a b = i32_saturate (sint a - sint b)"

text \<open>\<open>i32::try_from(w).unwrap_or(i32::MAX)\<close>\<close>

definition i32_from_u32 :: "u32 \<Rightarrow> i32" where
  "i32_from_u32 w = (if uint w < 2 ^ 31 then word_of_int (uint w) else word_of_int (2 ^ 31 - 1))"

definition clamp_by :: "('a \<Rightarrow> int) \<Rightarrow> 'a \<Rightarrow> 'a \<Rightarrow> 'a \<Rightarrow> 'a option" where
  "clamp_by key x lower upper =
     (if key lower > key upper then None
      else Some (if key x < key lower then lower else if key x > key upper then upper else x))"

definition i32_max :: "i32 \<Rightarrow> i32 \<Rightarrow> i32" where
  "i32_max a b = (if sint a \<le> sint b then b else a)"

record 'f float_ops =
  fl_quarter :: 'f
  fl_four :: 'f
  fl_max :: "'f \<Rightarrow> 'f \<Rightarrow> 'f"
  fl_clamp :: "'f \<Rightarrow> 'f \<Rightarrow> 'f \<Rightarrow> 'f"
  fl_divide :: "'f \<Rightarrow> 'f \<Rightarrow> 'f"
  fl_multiply :: "'f \<Rightarrow> 'f \<Rightarrow> 'f"
  fl_from_u32 :: "u32 \<Rightarrow> 'f"
  fl_from_i32 :: "i32 \<Rightarrow> 'f"
  fl_round_u32 :: "'f \<Rightarrow> u32"
  fl_round_i32 :: "'f \<Rightarrow> i32"

lemma sint_i32_saturate: "sint (i32_saturate n) = max (- (2 ^ 31)) (min (2 ^ 31 - 1) n)"
  unfolding i32_saturate_def by (simp add: signed_of_int signed_take_bit_int_eq_self)

lemma sint_i32_from_u32: "sint (i32_from_u32 w) = min (2 ^ 31 - 1) (uint w)"
  proof (cases "uint w < 2147483648")
  case True
  have "- 2147483648 \<le> uint w" using uint_ge_0 [of w] by linarith
  then have "signed_take_bit 31 (uint w) = uint w"
    using True by (simp add: signed_take_bit_int_eq_self)
  then show ?thesis using True by (simp add: i32_from_u32_def sint_uint)
qed (simp add: i32_from_u32_def signed_of_int signed_take_bit_int_eq_self)

lemma sint_i32_bounds: "- (2 ^ 31) \<le> sint (a :: i32)" "sint (a :: i32) \<le> 2 ^ 31 - 1"
  using sint_ge [of a] sint_less [of a] by simp_all

lemma clamp_by_Some:
  "key lower \<le> key upper \<Longrightarrow> \<exists>y. clamp_by key x lower upper = Some y \<and> key lower \<le> key y \<and> key y \<le> key upper"
  by (simp add: clamp_by_def)

lemma clamp_by_inside: "key lower \<le> key x \<Longrightarrow> key x \<le> key upper \<Longrightarrow> clamp_by key x lower upper = Some x"
  by (simp add: clamp_by_def)

section \<open>The store\<close>

record 'f MonitorGeometry =
  mg_name :: string
  mg_x :: i32
  mg_y :: i32
  mg_width :: u32
  mg_height :: u32
  mg_scale :: 'f

record 'f SavedWindowState =
  sw_monitor :: string
  sw_relative_x :: i32
  sw_relative_y :: i32
  sw_width :: u32
  sw_height :: u32
  sw_scale :: 'f
  sw_maximized :: bool
  sw_fullscreen :: bool

record RestoredWindowState =
  rw_x :: i32
  rw_y :: i32
  rw_width :: u32
  rw_height :: u32
  rw_maximized :: bool
  rw_fullscreen :: bool

type_synonym 'f window_states = "(string \<times> 'f SavedWindowState) list"

record 'f state_codec =
  sd_encode :: "'f window_states \<Rightarrow> string option"
  sd_decode :: "string \<Rightarrow> 'f window_states option"

definition windows_path :: "string \<Rightarrow> (string \<Rightarrow> string option) \<Rightarrow> string \<Rightarrow> string + string" where
  "windows_path os env application_id =
     (let base =
        (if os = ''windows'' then env ''LOCALAPPDATA''
         else if os = ''macos''
         then map_option (\<lambda>home. path_join home ''Library/Application Support'') (env ''HOME'')
         else (case env ''XDG_DATA_HOME'' of
             Some directory \<Rightarrow> Some directory
           | None \<Rightarrow> map_option (\<lambda>home. path_join home ''.local/share'') (env ''HOME'')))
      in case base of
          None \<Rightarrow> Inl ''cannot locate operating-system data directory for windows''
        | Some directory \<Rightarrow>
            Inr (path_join (path_join (path_join directory ''pam-desktop'') application_id) ''windows.json''))"

definition open_at :: "'f state_codec \<Rightarrow> bool \<Rightarrow> published_file \<Rightarrow> string + 'f window_states" where
  "open_at c readable f =
     (case pf_current f of
        None \<Rightarrow> Inr []
      | Some bytes \<Rightarrow>
          if \<not> readable then Inl ''cannot read window state''
          else case sd_decode c bytes of
            None \<Rightarrow> Inl ''cannot decode window state''
          | Some states \<Rightarrow> Inr states)"

definition publish_states ::
    "'f state_codec \<Rightarrow> write_env \<Rightarrow> 'f window_states \<Rightarrow> published_file \<Rightarrow> published_file \<times> (string + unit)" where
  "publish_states c e states f =
     (if \<not> we_directory e then (f, Inl ''cannot create window state directory'')
      else case sd_encode c states of
        None \<Rightarrow> (f, Inl ''cannot encode window state'')
      | Some bytes \<Rightarrow>
          (case write_temporary e bytes f of
             (f, False) \<Rightarrow> (f, Inl ''cannot persist window state'')
           | (f, True) \<Rightarrow>
               (case rename_temporary e f of
                  (f, False) \<Rightarrow> (f, Inl ''cannot publish window state'')
                | (f, True) \<Rightarrow> (f, Inr ()))))"

definition saved_state ::
    "'f float_ops \<Rightarrow> 'f MonitorGeometry \<Rightarrow> i32 \<Rightarrow> i32 \<Rightarrow> u32 \<Rightarrow> u32 \<Rightarrow> bool \<Rightarrow> bool \<Rightarrow> 'f SavedWindowState" where
  "saved_state fl monitor x y w h maximized fullscreen =
     \<lparr>sw_monitor = mg_name monitor, sw_relative_x = i32_sat_sub x (mg_x monitor),
      sw_relative_y = i32_sat_sub y (mg_y monitor), sw_width = w, sw_height = h,
      sw_scale = fl_max fl (mg_scale monitor) (fl_quarter fl),
      sw_maximized = maximized, sw_fullscreen = fullscreen\<rparr>"

text \<open>The map in memory is changed first, and stays changed when the file cannot be written.\<close>

definition record_window ::
    "'f state_codec \<Rightarrow> write_env \<Rightarrow> string \<Rightarrow> 'f SavedWindowState \<Rightarrow> 'f window_states \<times> published_file \<Rightarrow>
     ('f window_states \<times> published_file) \<times> (string + unit)" where
  "record_window c e name state w =
     (case w of (states, f) \<Rightarrow>
        let states = AList.update name state states;
            (f, result) = publish_states c e states f
        in ((states, f), result))"

definition MIN_VISIBLE :: i32 where "MIN_VISIBLE = 64"

definition remap :: "'f float_ops \<Rightarrow> 'f SavedWindowState \<Rightarrow> 'f MonitorGeometry \<Rightarrow> RestoredWindowState option" where
  "remap fl state monitor =
     (let ratio = fl_clamp fl (fl_divide fl (mg_scale monitor) (fl_max fl (sw_scale state) (fl_quarter fl)))
            (fl_quarter fl) (fl_four fl);
          scaled_u32 = (\<lambda>w. fl_round_u32 fl (fl_multiply fl (fl_from_u32 fl w) ratio));
          scaled_i32 = (\<lambda>n. fl_round_i32 fl (fl_multiply fl (fl_from_i32 fl n) ratio))
      in case (clamp_by uint (scaled_u32 (sw_width state)) 320 (max (mg_width monitor) 320),
               clamp_by uint (scaled_u32 (sw_height state)) 240 (max (mg_height monitor) 240)) of
        (Some w, Some h) \<Rightarrow>
          (let proposed_x = i32_sat_add (mg_x monitor) (scaled_i32 (sw_relative_x state));
               proposed_y = i32_sat_add (mg_y monitor) (scaled_i32 (sw_relative_y state));
               min_x = i32_sat_add (i32_sat_sub (mg_x monitor) (i32_from_u32 w)) MIN_VISIBLE;
               max_x = i32_sat_sub (i32_sat_add (mg_x monitor) (i32_from_u32 (mg_width monitor))) MIN_VISIBLE;
               min_y = mg_y monitor;
               max_y = i32_sat_sub (i32_sat_add (mg_y monitor) (i32_from_u32 (mg_height monitor))) MIN_VISIBLE
           in case (clamp_by sint proposed_x min_x (i32_max max_x min_x),
                    clamp_by sint proposed_y min_y (i32_max max_y min_y)) of
                (Some x, Some y) \<Rightarrow>
                  Some \<lparr>rw_x = x, rw_y = y, rw_width = w, rw_height = h,
                    rw_maximized = sw_maximized state, rw_fullscreen = sw_fullscreen state\<rparr>
              | _ \<Rightarrow> None)
      | _ \<Rightarrow> None)"

definition restore_monitor :: "'f SavedWindowState \<Rightarrow> 'f MonitorGeometry list \<Rightarrow> bool \<Rightarrow> 'f MonitorGeometry option" where
  "restore_monitor state monitors remember =
     (let first = (case monitors of [] \<Rightarrow> None | m # _ \<Rightarrow> Some m) in
      if remember
      then (case find (\<lambda>m. mg_name m = sw_monitor state) monitors of None \<Rightarrow> first | Some m \<Rightarrow> Some m)
      else first)"

text \<open>The outer None is the panic of a clamp; the inner one is the answer that nothing is restored.\<close>

definition restore_window ::
    "'f float_ops \<Rightarrow> 'f window_states \<Rightarrow> string \<Rightarrow> 'f MonitorGeometry list \<Rightarrow> bool \<Rightarrow> RestoredWindowState option option" where
  "restore_window fl states name monitors remember =
     (case map_of states name of
        None \<Rightarrow> Some None
      | Some state \<Rightarrow>
          (case restore_monitor state monitors remember of
             None \<Rightarrow> Some None
           | Some monitor \<Rightarrow> map_option Some (remap fl state monitor)))"

section \<open>Publication\<close>

lemma publish_states_Inr:
  "publish_states c e states f = (f', Inr ()) \<Longrightarrow> \<exists>bytes. sd_encode c states = Some bytes \<and> pf_current f' = Some bytes"
  by (auto simp: publish_states_def write_temporary_def rename_temporary_def
      split: option.splits if_splits prod.splits bool.splits)

lemma publish_states_Inl:
  "publish_states c e states f = (f', Inl m) \<Longrightarrow> pf_current f' = pf_current f"
  by (auto simp: publish_states_def write_temporary_def rename_temporary_def
      split: option.splits if_splits prod.splits bool.splits)

interpretation window_file: atomic_publication "publish_states c" "sd_encode c" for c
  by unfold_locales (auto dest: publish_states_Inr publish_states_Inl)

section \<open>What is restored\<close>

lemma uint_max: "uint (max a b) = max (uint a) (uint b)" for a b :: "'w::len word"
  by (auto simp: max_def word_le_def)

lemma sint_i32_max: "sint (i32_max a b) = max (sint a) (sint b)"
  by (simp add: i32_max_def)

text \<open>No clamp of the code can panic: their bounds are ordered for every monitor and every state.\<close>

lemma remap_total:
  "\<exists>r. remap fl state monitor = Some r \<and>
     320 \<le> uint (rw_width r) \<and> uint (rw_width r) \<le> max (uint (mg_width monitor)) 320 \<and>
     240 \<le> uint (rw_height r) \<and> uint (rw_height r) \<le> max (uint (mg_height monitor)) 240 \<and>
     (let min_x = sint (i32_sat_add (i32_sat_sub (mg_x monitor) (i32_from_u32 (rw_width r))) MIN_VISIBLE);
          max_x = sint (i32_sat_sub (i32_sat_add (mg_x monitor) (i32_from_u32 (mg_width monitor))) MIN_VISIBLE);
          max_y = sint (i32_sat_sub (i32_sat_add (mg_y monitor) (i32_from_u32 (mg_height monitor))) MIN_VISIBLE)
      in min_x \<le> sint (rw_x r) \<and> sint (rw_x r) \<le> max max_x min_x \<and>
         sint (mg_y monitor) \<le> sint (rw_y r) \<and> sint (rw_y r) \<le> max max_y (sint (mg_y monitor)))"
proof -
  have u: "\<exists>w. clamp_by uint v l (max m l) = Some w \<and> uint l \<le> uint w \<and> uint w \<le> max (uint m) (uint l)"
    for v m l :: u32
    using clamp_by_Some [of uint l "max m l" v] by (simp add: uint_max)
  have s: "\<exists>n. clamp_by sint v l (i32_max m l) = Some n \<and> sint l \<le> sint n \<and> sint n \<le> max (sint m) (sint l)"
    for v m l :: i32
    using clamp_by_Some [of sint l "i32_max m l" v] by (simp add: sint_i32_max)
  let ?ratio = "fl_clamp fl (fl_divide fl (mg_scale monitor) (fl_max fl (sw_scale state) (fl_quarter fl)))
            (fl_quarter fl) (fl_four fl)"
  let ?u = "\<lambda>w. fl_round_u32 fl (fl_multiply fl (fl_from_u32 fl w) ?ratio)"
  let ?s = "\<lambda>n. fl_round_i32 fl (fl_multiply fl (fl_from_i32 fl n) ?ratio)"
  obtain w where w: "clamp_by uint (?u (sw_width state)) 320 (max (mg_width monitor) 320) = Some w"
    "320 \<le> uint w" "uint w \<le> max (uint (mg_width monitor)) 320"
    using u [of "?u (sw_width state)" 320 "mg_width monitor"] by auto
  obtain h where h: "clamp_by uint (?u (sw_height state)) 240 (max (mg_height monitor) 240) = Some h"
    "240 \<le> uint h" "uint h \<le> max (uint (mg_height monitor)) 240"
    using u [of "?u (sw_height state)" 240 "mg_height monitor"] by auto
  show ?thesis
    using s [of "i32_sat_add (mg_x monitor) (?s (sw_relative_x state))"
        "i32_sat_add (i32_sat_sub (mg_x monitor) (i32_from_u32 w)) MIN_VISIBLE"
        "i32_sat_sub (i32_sat_add (mg_x monitor) (i32_from_u32 (mg_width monitor))) MIN_VISIBLE"]
      s [of "i32_sat_add (mg_y monitor) (?s (sw_relative_y state))" "mg_y monitor"
        "i32_sat_sub (i32_sat_add (mg_y monitor) (i32_from_u32 (mg_height monitor))) MIN_VISIBLE"]
    by (auto simp: remap_def w h Let_def)
qed

definition sensible_monitor :: "'f MonitorGeometry \<Rightarrow> bool" where
  "sensible_monitor m \<longleftrightarrow> \<bar>sint (mg_x m)\<bar> \<le> 2 ^ 29 \<and> \<bar>sint (mg_y m)\<bar> \<le> 2 ^ 29 \<and>
     64 \<le> uint (mg_width m) \<and> uint (mg_width m) \<le> 2 ^ 29 \<and>
     64 \<le> uint (mg_height m) \<and> uint (mg_height m) \<le> 2 ^ 29"

definition visible_on :: "'f MonitorGeometry \<Rightarrow> RestoredWindowState \<Rightarrow> bool" where
  "visible_on m r \<longleftrightarrow>
     320 \<le> uint (rw_width r) \<and> uint (rw_width r) \<le> max 320 (uint (mg_width m)) \<and>
     240 \<le> uint (rw_height r) \<and> uint (rw_height r) \<le> max 240 (uint (mg_height m)) \<and>
     64 \<le> min (sint (rw_x r) + uint (rw_width r)) (sint (mg_x m) + uint (mg_width m)) -
           max (sint (rw_x r)) (sint (mg_x m)) \<and>
     sint (mg_y m) \<le> sint (rw_y r) \<and> sint (rw_y r) + 64 \<le> sint (mg_y m) + uint (mg_height m)"

lemma remap_visible:
  assumes "sensible_monitor m"
  shows "\<exists>r. remap fl state m = Some r \<and> visible_on m r"
proof -
  obtain r where r: "remap fl state m = Some r"
    and wh: "320 \<le> uint (rw_width r)" "uint (rw_width r) \<le> max (uint (mg_width m)) 320"
      "240 \<le> uint (rw_height r)" "uint (rw_height r) \<le> max (uint (mg_height m)) 240"
    and x: "sint (i32_sat_add (i32_sat_sub (mg_x m) (i32_from_u32 (rw_width r))) MIN_VISIBLE) \<le> sint (rw_x r)"
      "sint (rw_x r) \<le> max (sint (i32_sat_sub (i32_sat_add (mg_x m) (i32_from_u32 (mg_width m))) MIN_VISIBLE))
        (sint (i32_sat_add (i32_sat_sub (mg_x m) (i32_from_u32 (rw_width r))) MIN_VISIBLE))"
    and y: "sint (mg_y m) \<le> sint (rw_y r)"
      "sint (rw_y r) \<le> max (sint (i32_sat_sub (i32_sat_add (mg_y m) (i32_from_u32 (mg_height m))) MIN_VISIBLE))
        (sint (mg_y m))"
    using remap_total [of fl state m] unfolding Let_def by blast
  have v: "sint MIN_VISIBLE = 64" by (simp add: MIN_VISIBLE_def)
  have s: "\<bar>sint (mg_x m)\<bar> \<le> 536870912" "\<bar>sint (mg_y m)\<bar> \<le> 536870912" "64 \<le> uint (mg_width m)"
    "uint (mg_width m) \<le> 536870912" "64 \<le> uint (mg_height m)" "uint (mg_height m) \<le> 536870912"
    using assms by (simp_all add: sensible_monitor_def)
  have min_x: "sint (i32_sat_add (i32_sat_sub (mg_x m) (i32_from_u32 (rw_width r))) MIN_VISIBLE) =
      sint (mg_x m) - uint (rw_width r) + 64"
    using s wh by (simp add: i32_sat_add_def i32_sat_sub_def sint_i32_saturate sint_i32_from_u32 v)
  have max_x: "sint (i32_sat_sub (i32_sat_add (mg_x m) (i32_from_u32 (mg_width m))) MIN_VISIBLE) =
      sint (mg_x m) + uint (mg_width m) - 64"
    using s by (simp add: i32_sat_add_def i32_sat_sub_def sint_i32_saturate sint_i32_from_u32 v)
  have max_y: "sint (i32_sat_sub (i32_sat_add (mg_y m) (i32_from_u32 (mg_height m))) MIN_VISIBLE) =
      sint (mg_y m) + uint (mg_height m) - 64"
    using s by (simp add: i32_sat_add_def i32_sat_sub_def sint_i32_saturate sint_i32_from_u32 v)
  have "visible_on m r"
    using wh x y s unfolding visible_on_def min_x max_x max_y by (auto simp: max_def min_def split: if_splits)
  with r show ?thesis by blast
qed

lemma restore_monitor_known:
  "restore_monitor state monitors remember = None \<longleftrightarrow> monitors = []"
  "restore_monitor state monitors remember = Some m \<Longrightarrow> m \<in> set monitors"
  by (auto simp: restore_monitor_def find_Some_iff Let_def split: list.splits option.splits if_splits)

text \<open>
  C32. Restoring a window never panics, and answers nothing exactly when the window or every monitor is
  unknown.  Otherwise, whatever the floating point arithmetic makes of the saved geometry, and
  whichever monitor was removed, the window is at least 320 by 240 and not larger than its monitor
  allows, at least 64 pixels of its width lie on a monitor that is present, and its upper edge lies on
  that monitor, at least 64 pixels above its lower one.
\<close>
theorem restored_window_is_visible:
  assumes "list_all sensible_monitor monitors"
  shows "\<exists>restored. restore_window fl states name monitors remember = Some restored \<and>
     (restored = None \<longleftrightarrow> map_of states name = None \<or> monitors = []) \<and>
     (restored = None \<or> (\<exists>m \<in> set monitors. visible_on m (the restored)))"
proof (cases "map_of states name")
  case (Some state)
  show ?thesis
  proof (cases "restore_monitor state monitors remember")
    case (Some m)
    then have "m \<in> set monitors" "monitors \<noteq> []"
      using restore_monitor_known [of state monitors remember] by auto
    moreover obtain r where "remap fl state m = Some r" "visible_on m r"
      using assms calculation(1) remap_visible [of m fl state] by (auto simp: list_all_iff)
    ultimately show ?thesis
      using Some \<open>map_of states name = Some state\<close> by (auto simp: restore_window_def)
  qed (use restore_monitor_known(1) [of state monitors remember] in \<open>simp add: restore_window_def Some\<close>)
qed (simp add: restore_window_def)

text \<open>Numbers in units of a quarter as floating point, rounded to the next integer.\<close>

definition sample_floats :: "int float_ops" where
  "sample_floats = \<lparr>fl_quarter = 1, fl_four = 16, fl_max = max, fl_clamp = (\<lambda>x l u. max l (min u x)),
     fl_divide = (\<lambda>x y. 4 * x div y), fl_multiply = (\<lambda>x y. x * y div 4),
     fl_from_u32 = (\<lambda>w. 4 * uint w), fl_from_i32 = (\<lambda>n. 4 * sint n),
     fl_round_u32 = (\<lambda>x. word_of_int ((x + 2) div 4)), fl_round_i32 = (\<lambda>x. word_of_int ((x + 2) div 4))\<rparr>"

definition sample_monitor :: "int MonitorGeometry" where
  "sample_monitor = \<lparr>mg_name = ''primary'', mg_x = 0, mg_y = 0, mg_width = 1280, mg_height = 720, mg_scale = 8\<rparr>"

definition sample_states :: "int window_states" where
  "sample_states = [(''main'', \<lparr>sw_monitor = ''removed'', sw_relative_x = 1780, sw_relative_y = 900,
     sw_width = 1000, sw_height = 800, sw_scale = 4, sw_maximized = True, sw_fullscreen = False\<rparr>)]"

theorem restored_window_is_visible_witness:
  "\<exists>restored. restore_window sample_floats sample_states ''main'' [sample_monitor] True = Some restored \<and>
     restored \<noteq> None \<and> visible_on sample_monitor (the restored)"
proof -
  have "list_all sensible_monitor [sample_monitor]"
    by (simp add: sensible_monitor_def sample_monitor_def)
  from restored_window_is_visible [OF this, of sample_floats sample_states "''main''" True]
  show ?thesis by (auto simp: sample_states_def)
qed

section \<open>Recording and restoring\<close>

text \<open>What is used of \<open>f64\<close> for a monitor whose scale has not changed.\<close>

definition exact_at :: "'f float_ops \<Rightarrow> 'f \<Rightarrow> bool" where
  "exact_at fl scale \<longleftrightarrow>
     (let s = fl_max fl scale (fl_quarter fl);
          ratio = fl_clamp fl (fl_divide fl scale (fl_max fl s (fl_quarter fl))) (fl_quarter fl) (fl_four fl)
      in (\<forall>w. fl_round_u32 fl (fl_multiply fl (fl_from_u32 fl w) ratio) = w) \<and>
         (\<forall>n. fl_round_i32 fl (fl_multiply fl (fl_from_i32 fl n) ratio) = n))"

lemma i32_sat_add_sub:
  assumes "\<bar>sint a\<bar> \<le> 2 ^ 30" "\<bar>sint b\<bar> \<le> 2 ^ 29"
  shows "i32_sat_add b (i32_sat_sub a b) = a"
proof -
  have "sint (i32_sat_add b (i32_sat_sub a b)) = sint a"
    using assms by (simp add: i32_sat_add_def i32_sat_sub_def sint_i32_saturate)
  then show ?thesis by (simp only: signed_word_eqI)
qed

text \<open>
  A window that was recorded is found again where it was: after the file was written, a host that
  opens it restores the same place, size and state on the same monitor with the same scale, if the
  window was visible there.
\<close>
theorem recorded_window_is_restored:
  assumes recorded: "record_window c e name (saved_state fl m x y w h maximized fullscreen) (states, f) = ((states', f'), Inr ())"
    and codec: "\<And>s bytes. sd_encode c s = Some bytes \<Longrightarrow> sd_decode c bytes = Some s"
    and exact: "exact_at fl (mg_scale m)"
    and monitor: "sensible_monitor m" "find (\<lambda>other. mg_name other = mg_name m) monitors = Some m"
    and visible: "visible_on m (RestoredWindowState.make x y w h maximized fullscreen)"
  shows "open_at c True f' = Inr states' \<and>
    restore_window fl states' name monitors True =
      Some (Some (RestoredWindowState.make x y w h maximized fullscreen))"
proof -
  let ?state = "saved_state fl m x y w h maximized fullscreen"
  have states': "states' = AList.update name ?state states" and published: "publish_states c e states' f = (f', Inr ())"
    using recorded by (auto simp: record_window_def Let_def split: prod.splits)
  have opened: "open_at c True f' = Inr states'"
    using publish_states_Inr [OF published] codec by (auto simp: open_at_def)
  have found: "map_of states' name = Some ?state"
    by (simp add: states' update_conv')
  have at: "restore_monitor ?state monitors True = Some m"
    using monitor(2) by (simp add: restore_monitor_def saved_state_def)
  have v: "sint MIN_VISIBLE = 64" by (simp add: MIN_VISIBLE_def)
  have s: "\<bar>sint (mg_x m)\<bar> \<le> 536870912" "\<bar>sint (mg_y m)\<bar> \<le> 536870912" "64 \<le> uint (mg_width m)"
    "uint (mg_width m) \<le> 536870912" "64 \<le> uint (mg_height m)" "uint (mg_height m) \<le> 536870912"
    using monitor(1) by (simp_all add: sensible_monitor_def)
  have p: "320 \<le> uint w" "uint w \<le> max 320 (uint (mg_width m))" "240 \<le> uint h" "uint h \<le> max 240 (uint (mg_height m))"
    "64 \<le> min (sint x + uint w) (sint (mg_x m) + uint (mg_width m)) - max (sint x) (sint (mg_x m))"
    "sint (mg_y m) \<le> sint y" "sint y + 64 \<le> sint (mg_y m) + uint (mg_height m)"
    using visible by (simp_all add: visible_on_def RestoredWindowState.make_def)
  have x_range: "sint (mg_x m) - uint w + 64 \<le> sint x" "sint x \<le> sint (mg_x m) + uint (mg_width m) - 64"
    using p(5) by linarith+
  have "\<bar>sint x\<bar> \<le> 1073741824" "\<bar>sint y\<bar> \<le> 1073741824"
    using s p x_range by linarith+
  then have xy: "i32_sat_add (mg_x m) (i32_sat_sub x (mg_x m)) = x" "i32_sat_add (mg_y m) (i32_sat_sub y (mg_y m)) = y"
    using s by (simp_all add: i32_sat_add_sub)
  have bounds: "sint (i32_sat_add (i32_sat_sub (mg_x m) (i32_from_u32 w)) MIN_VISIBLE) = sint (mg_x m) - uint w + 64"
    "sint (i32_sat_sub (i32_sat_add (mg_x m) (i32_from_u32 (mg_width m))) MIN_VISIBLE) = sint (mg_x m) + uint (mg_width m) - 64"
    "sint (i32_sat_sub (i32_sat_add (mg_y m) (i32_from_u32 (mg_height m))) MIN_VISIBLE) = sint (mg_y m) + uint (mg_height m) - 64"
    using s p(1-4) by (simp_all add: i32_sat_add_def i32_sat_sub_def sint_i32_saturate sint_i32_from_u32 v)
  have clamps: "clamp_by uint w 320 (max (mg_width m) 320) = Some w" "clamp_by uint h 240 (max (mg_height m) 240) = Some h"
    "clamp_by sint x (i32_sat_add (i32_sat_sub (mg_x m) (i32_from_u32 w)) MIN_VISIBLE)
       (i32_max (i32_sat_sub (i32_sat_add (mg_x m) (i32_from_u32 (mg_width m))) MIN_VISIBLE)
         (i32_sat_add (i32_sat_sub (mg_x m) (i32_from_u32 w)) MIN_VISIBLE)) = Some x"
    "clamp_by sint y (mg_y m)
       (i32_max (i32_sat_sub (i32_sat_add (mg_y m) (i32_from_u32 (mg_height m))) MIN_VISIBLE) (mg_y m)) = Some y"
    using p x_range by (auto intro!: clamp_by_inside simp: uint_max sint_i32_max bounds)
  have "remap fl ?state m = Some (RestoredWindowState.make x y w h maximized fullscreen)"
    using exact by (simp add: remap_def saved_state_def exact_at_def Let_def xy clamps RestoredWindowState.make_def)
  then show ?thesis using opened found at by (simp add: restore_window_def)
qed

definition sample_saved :: "int window_states" where
  "sample_saved = [(''main'', saved_state sample_floats (sample_monitor\<lparr>mg_scale := 4\<rparr>) 10 20 800 600 False False)]"

definition sample_state_codec :: "int state_codec" where
  "sample_state_codec = \<lparr>sd_encode = (\<lambda>s. if s = sample_saved then Some ''saved'' else None),
     sd_decode = (\<lambda>bytes. if bytes = ''saved'' then Some sample_saved else None)\<rparr>"

theorem recorded_window_is_restored_witness:
  "open_at sample_state_codec True \<lparr>pf_current = Some ''saved'', pf_temporary = None\<rparr> = Inr sample_saved \<and>
   restore_window sample_floats sample_saved ''main'' [sample_monitor\<lparr>mg_scale := 4\<rparr>] True =
     Some (Some (RestoredWindowState.make 10 20 800 600 False False))"
proof (rule recorded_window_is_restored)
  show "record_window sample_state_codec \<lparr>we_directory = True, we_opens = True, we_breaks = None, we_renames = True\<rparr> ''main''
      (saved_state sample_floats (sample_monitor\<lparr>mg_scale := 4\<rparr>) 10 20 800 600 False False)
      ([], \<lparr>pf_current = None, pf_temporary = None\<rparr>) =
    ((sample_saved, \<lparr>pf_current = Some ''saved'', pf_temporary = None\<rparr>), Inr ())"
    by (simp add: record_window_def publish_states_def write_temporary_def rename_temporary_def
        sample_state_codec_def sample_saved_def)
  show "sd_decode sample_state_codec bytes = Some s" if "sd_encode sample_state_codec s = Some bytes" for s bytes
    using that by (auto simp: sample_state_codec_def split: if_splits)
  have "(4 * n + 2) div 4 = n" for n :: int by simp
  then show "exact_at sample_floats (mg_scale (sample_monitor\<lparr>mg_scale := 4\<rparr>))"
    by (simp add: exact_at_def sample_floats_def sample_monitor_def max_def)
  show "sensible_monitor (sample_monitor\<lparr>mg_scale := 4\<rparr>)"
    by (simp add: sensible_monitor_def sample_monitor_def)
  show "find (\<lambda>other. mg_name other = mg_name (sample_monitor\<lparr>mg_scale := 4\<rparr>)) [sample_monitor\<lparr>mg_scale := 4\<rparr>] =
      Some (sample_monitor\<lparr>mg_scale := 4\<rparr>)"
    by simp
  show "visible_on (sample_monitor\<lparr>mg_scale := 4\<rparr>) (RestoredWindowState.make 10 20 800 600 False False)"
    by (simp add: visible_on_def sample_monitor_def RestoredWindowState.make_def)
qed

end
