(* ===== verification/Diagnostics.thy ===== *)
theory Diagnostics
  imports GatewayClaims WindowState
begin

text \<open>
  \<open>diagnostic_session.rs\<close>: \<open>pam dev\<close> leaves a descriptor of its gateway in \<open>.pam/desktop-session.json\<close>, with
  which \<open>pam-desktop diagnostics\<close> asks the running host for a snapshot.  The directory \<open>.pam\<close> is a map
  from names to nodes; symbolic links are nodes of their own, because the code inspects with
  \<open>symlink_metadata\<close>.
\<close>

section \<open>The descriptor\<close>

definition MAX_DESCRIPTOR_BYTES :: nat where "MAX_DESCRIPTOR_BYTES = 8 * 1024"

record SessionDescriptor =
  dd_schema_version :: u8
  dd_surface_code :: u8
  dd_process_id :: u32
  dd_started_at_unix_ms :: u64
  dd_origin :: string
  dd_bridge_token :: string
  dd_window_id :: string

record DiagnosticSession =
  dn_process_id :: u32
  dn_bridge_token :: string

datatype session_node = SessionLink | SessionDirectory | SessionFile string | SessionSpecial

text \<open>\<open>sf_directory\<close> is the node \<open>.pam\<close> itself.\<close>

record session_files =
  sf_directory :: "session_node option"
  sf_entries :: "string \<Rightarrow> session_node option"

record descriptor_codec =
  dc_encode :: "SessionDescriptor \<Rightarrow> string option"
  dc_decode :: "string \<Rightarrow> SessionDescriptor option"
  dc_parse_url :: url_parser
  dc_port :: "url \<Rightarrow> nat option"

record session_env =
  de_process_id :: u32
  de_now :: u64
  de_inspects :: "string \<Rightarrow> bool"
  de_protects :: bool
  de_write :: write_env

definition session_name :: string where "session_name = ''desktop-session.json''"

definition temporary_name :: "u32 \<Rightarrow> string" where
  "temporary_name pid = ''.desktop-session-'' @ decimal (unat pid) @ ''.tmp''"

definition validate_origin :: "descriptor_codec \<Rightarrow> string \<Rightarrow> string + unit" where
  "validate_origin c origin =
     (case dc_parse_url c origin of
        None \<Rightarrow> Inl ''invalid gateway origin''
      | Some parsed \<Rightarrow>
          reject_if (url_scheme parsed \<noteq> ''http'' \<or> url_host_str parsed \<noteq> Some ''127.0.0.1'' \<or>
              dc_port c parsed = None \<or> url_path parsed \<noteq> ''/'' \<or> url_query parsed \<noteq> None \<or>
              url_fragment parsed \<noteq> None)
            ''desktop diagnostic origin must be a loopback HTTP origin'')"

definition validate_token :: "string \<Rightarrow> string + unit" where
  "validate_token token =
     reject_if (length token \<noteq> 64 \<or> \<not> list_all (\<lambda>c. ascii_hexdigit (byte c)) token)
       ''desktop diagnostic bridge token must contain 64 hexadecimal characters''"

definition validate_window_id :: "string \<Rightarrow> string + unit" where
  "validate_window_id window_id =
     reject_if (window_id = [] \<or> length window_id > 80 \<or>
         \<not> list_all (\<lambda>c. ascii_alphanumeric (byte c) \<or> c \<in> {CHR ''.'', CHR ''_'', CHR ''-''}) window_id)
       ''desktop diagnostic window id is invalid''"

definition reject_symlink :: "session_env \<Rightarrow> session_files \<Rightarrow> string \<Rightarrow> string + unit" where
  "reject_symlink e f name =
     (if \<not> de_inspects e name then Inl ''cannot inspect''
      else case sf_entries f name of
        Some SessionLink \<Rightarrow> Inl ''refusing diagnostic session symlink''
      | Some (SessionFile _) \<Rightarrow> Inr ()
      | Some _ \<Rightarrow> Inl ''diagnostic session path is not a regular file''
      | None \<Rightarrow> Inr ())"

definition prepare_private_directory :: "session_env \<Rightarrow> session_files \<Rightarrow> session_files \<times> (string + unit)" where
  "prepare_private_directory e f =
     (if \<not> de_inspects e ''.pam'' then (f, Inl ''cannot inspect'')
      else let secured = (\<lambda>f. (f, if de_protects e then Inr () else Inl ''cannot secure''))
      in case sf_directory f of
        Some SessionDirectory \<Rightarrow> secured f
      | Some _ \<Rightarrow> (f, Inl ''invalid diagnostic directory'')
      | None \<Rightarrow>
          if we_directory (de_write e) then secured (f\<lparr>sf_directory := Some SessionDirectory\<rparr>)
          else (f, Inl ''cannot create''))"

definition put_session :: "string \<Rightarrow> session_node option \<Rightarrow> session_files \<Rightarrow> session_files" where
  "put_session name node f = f\<lparr>sf_entries := (sf_entries f)(name := node)\<rparr>"

text \<open>The temporary file must be new; it is removed when it cannot be written or renamed.\<close>

definition write_session :: "session_env \<Rightarrow> string \<Rightarrow> session_files \<Rightarrow> session_files \<times> (string + unit)" where
  "write_session e encoded f =
     (let temporary = temporary_name (de_process_id e) in
      if \<not> we_opens (de_write e) \<or> sf_entries f temporary \<noteq> None then (f, Inl ''cannot create'')
      else if we_breaks (de_write e) \<noteq> None then (put_session temporary None f, Inl ''cannot write'')
      else if \<not> we_renames (de_write e) then (put_session temporary None f, Inl ''cannot publish'')
      else (put_session session_name (Some (SessionFile encoded)) (put_session temporary None f), Inr ()))"

definition session_descriptor :: "session_env \<Rightarrow> string \<Rightarrow> string \<Rightarrow> string \<Rightarrow> SessionDescriptor" where
  "session_descriptor e origin token window_id =
     \<lparr>dd_schema_version = 1, dd_surface_code = 3, dd_process_id = de_process_id e,
      dd_started_at_unix_ms = de_now e, dd_origin = origin, dd_bridge_token = token, dd_window_id = window_id\<rparr>"

definition create_session ::
    "descriptor_codec \<Rightarrow> session_env \<Rightarrow> string \<Rightarrow> string \<Rightarrow> string \<Rightarrow> session_files \<Rightarrow>
     session_files \<times> (string + DiagnosticSession)" where
  "create_session c e origin token window_id f =
     (case steps [validate_origin c origin, validate_token token, validate_window_id window_id] of
        Inl m \<Rightarrow> (f, Inl m)
      | Inr _ \<Rightarrow>
          (case prepare_private_directory e f of
             (f, Inl m) \<Rightarrow> (f, Inl m)
           | (f, Inr _) \<Rightarrow>
               (case reject_symlink e f session_name of
                  Inl m \<Rightarrow> (f, Inl m)
                | Inr _ \<Rightarrow>
                    (case dc_encode c (session_descriptor e origin token window_id) of
                       None \<Rightarrow> (f, Inl ''cannot encode desktop diagnostic session'')
                     | Some encoded \<Rightarrow>
                         if length encoded > MAX_DESCRIPTOR_BYTES
                         then (f, Inl ''desktop diagnostic session descriptor is too large'')
                         else (case reject_symlink e f (temporary_name (de_process_id e)) of
                             Inl m \<Rightarrow> (f, Inl m)
                           | Inr _ \<Rightarrow>
                               (case write_session e encoded f of
                                  (f, Inl m) \<Rightarrow> (f, Inl m)
                                | (f, Inr _) \<Rightarrow>
                                    (f, Inr \<lparr>dn_process_id = de_process_id e, dn_bridge_token = token\<rparr>)))))))"

definition read_descriptor :: "descriptor_codec \<Rightarrow> bool \<Rightarrow> session_files \<Rightarrow> string + SessionDescriptor" where
  "read_descriptor c readable f =
     (case sf_entries f session_name of
        None \<Rightarrow> Inl ''cannot read''
      | Some (SessionFile bytes) \<Rightarrow>
          if length bytes > MAX_DESCRIPTOR_BYTES then Inl ''invalid diagnostic session descriptor''
          else if \<not> readable then Inl ''cannot read''
          else (case dc_decode c bytes of
              None \<Rightarrow> Inl ''invalid''
            | Some d \<Rightarrow>
                rbind (steps [
                  reject_if (dd_schema_version d \<noteq> 1 \<or> dd_surface_code d \<noteq> 3 \<or> dd_process_id d = 0)
                    ''unsupported desktop diagnostic session descriptor'',
                  validate_origin c (dd_origin d), validate_token (dd_bridge_token d),
                  validate_window_id (dd_window_id d)]) (\<lambda>_. Inr d))
      | Some _ \<Rightarrow> Inl ''invalid diagnostic session descriptor'')"

text \<open>\<open>Drop\<close>: a process removes only the descriptor that it wrote itself.\<close>

definition drop_session :: "descriptor_codec \<Rightarrow> bool \<Rightarrow> DiagnosticSession \<Rightarrow> session_files \<Rightarrow> session_files" where
  "drop_session c readable session f =
     (case read_descriptor c readable f of
        Inl _ \<Rightarrow> f
      | Inr d \<Rightarrow>
          if dd_process_id d = dn_process_id session \<and> dd_bridge_token d = dn_bridge_token session
          then put_session session_name None f else f)"

section \<open>Asking for a snapshot\<close>

record diagnostic_request =
  dq_endpoint :: string
  dq_headers :: headers
  dq_body :: json

definition snapshot_request :: "SessionDescriptor \<Rightarrow> diagnostic_request" where
  "snapshot_request d =
     \<lparr>dq_endpoint = dd_origin d @ ''/_pam/diagnostics'',
      dq_headers = [''origin'' \<mapsto> dd_origin d, BRIDGE_HEADER \<mapsto> dd_bridge_token d],
      dq_body = JObject [(''windowId'', JString (dd_window_id d))]\<rparr>"

definition json_member :: "json \<Rightarrow> string \<Rightarrow> json option" where
  "json_member v key = (case v of JObject members \<Rightarrow> map_of members key | _ \<Rightarrow> None)"

definition as_u64 :: "json \<Rightarrow> nat option" where
  "as_u64 v = (case v of JInt n \<Rightarrow> if 0 \<le> n \<and> n < 2 ^ 64 then Some (nat n) else None | _ \<Rightarrow> None)"

definition validate_snapshot :: "json \<Rightarrow> string + unit" where
  "validate_snapshot snapshot =
     reject_if (Option.bind (json_member snapshot ''schemaVersion'') as_u64 \<noteq> Some 1 \<or>
         Option.bind (json_member snapshot ''surfaceCode'') as_u64 \<noteq> Some 3 \<or>
         Option.bind (json_member snapshot ''capturedAtUnixMs'') as_u64 = None)
       ''desktop diagnostic response violates the DevTools snapshot envelope''"

text \<open>
  \<open>send\<close> is the HTTP agent without redirects: the body of a successful answer, or nothing when the host
  cannot be reached or answers with an error; at most 64 KiB of text are read.
\<close>

definition capture ::
    "descriptor_codec \<Rightarrow> bool \<Rightarrow> (diagnostic_request \<Rightarrow> string option) \<Rightarrow> (string \<Rightarrow> json option) \<Rightarrow> session_files \<Rightarrow>
     diagnostic_request list \<times> (string + json)" where
  "capture c readable send parse f =
     (case read_descriptor c readable f of
        Inl m \<Rightarrow> ([], Inl (m @ ''. Start this project with `pam dev`, then retry `pam diagnostics`''))
      | Inr d \<Rightarrow>
          ([snapshot_request d],
           case send (snapshot_request d) of
             None \<Rightarrow> Inl ''cannot reach the active PAM Desktop diagnostic session''
           | Some body \<Rightarrow>
               if length body > 64 * 1024 \<or> \<not> is_utf8 body
               then Inl ''cannot read the bounded diagnostic response''
               else (case parse body of
                   None \<Rightarrow> Inl ''desktop diagnostic response is invalid JSON''
                 | Some envelope \<Rightarrow>
                     if json_member envelope ''ok'' \<noteq> Some (JBool True)
                     then Inl ''desktop diagnostic session rejected the snapshot request''
                     else (case json_member envelope ''data'' of
                         None \<Rightarrow> Inl ''desktop diagnostic response has no data''
                       | Some snapshot \<Rightarrow> rbind (validate_snapshot snapshot) (\<lambda>_. Inr snapshot)))))"

section \<open>Sessions\<close>

lemma create_session_Inr:
  assumes "create_session c e origin token window_id f = (f', Inr session)"
  shows "validate_origin c origin = Inr () \<and> validate_token token = Inr () \<and> validate_window_id window_id = Inr () \<and>
    session = \<lparr>dn_process_id = de_process_id e, dn_bridge_token = token\<rparr> \<and>
    (\<exists>encoded. dc_encode c (session_descriptor e origin token window_id) = Some encoded \<and>
      length encoded \<le> MAX_DESCRIPTOR_BYTES \<and> sf_entries f' session_name = Some (SessionFile encoded))"
  using assms
  by (auto simp: create_session_def result_simps write_session_def put_session_def Let_def
      split: sum.splits prod.splits option.splits if_splits)

text \<open>
  The descriptor that a host creates is the one \<open>pam-desktop diagnostics\<close> reads.  The host removes it
  when it ends, but not the descriptor of a host that has replaced it; and whatever goes wrong while a
  descriptor is created, what the file held before is kept.
\<close>
theorem session_descriptor_roundtrip:
  assumes created: "create_session c e origin token window_id f = (f', result)"
    and codec: "\<And>d bytes. dc_encode c d = Some bytes \<Longrightarrow> dc_decode c bytes = Some d"
    and process: "de_process_id e \<noteq> 0"
  shows "case result of
      Inl _ \<Rightarrow> sf_entries f' session_name = sf_entries f session_name
    | Inr session \<Rightarrow>
        read_descriptor c True f' = Inr (session_descriptor e origin token window_id) \<and>
        sf_entries (drop_session c True session f') session_name = None \<and>
        (other \<noteq> session \<longrightarrow> drop_session c readable other f' = f')"
proof (cases result)
  case (Inl m)
  have "session_name \<noteq> temporary_name pid" for pid by (simp add: session_name_def temporary_name_def)
  then show ?thesis
    using created Inl
    by (auto simp: create_session_def prepare_private_directory_def write_session_def put_session_def Let_def
        split: sum.splits prod.splits option.splits if_splits session_node.splits)
next
  case (Inr session)
  note ok = create_session_Inr [OF created [unfolded Inr]]
  let ?d = "session_descriptor e origin token window_id"
  have read: "read_descriptor c True f' = Inr ?d"
    using ok codec [of ?d] process
    by (auto simp: read_descriptor_def result_simps session_descriptor_def)
  have "read_descriptor c readable f' = Inr ?d \<or> (\<exists>m. read_descriptor c readable f' = Inl m)"
    using read by (cases readable) (auto simp: read_descriptor_def split: option.splits session_node.splits)
  moreover have "dd_process_id ?d = dn_process_id session" "dd_bridge_token ?d = dn_bridge_token session"
    using ok by (simp_all add: session_descriptor_def)
  ultimately show ?thesis
    using read Inr by (auto simp: drop_session_def put_session_def)
qed

section \<open>Witnesses\<close>

definition sample_token :: string where "sample_token = replicate 64 CHR ''a''"

definition sample_session_env :: session_env where
  "sample_session_env = \<lparr>de_process_id = 7, de_now = 1, de_inspects = (\<lambda>_. True), de_protects = True,
     de_write = \<lparr>we_directory = True, we_opens = True, we_breaks = None, we_renames = True\<rparr>\<rparr>"

definition sample_descriptor :: SessionDescriptor where
  "sample_descriptor = session_descriptor sample_session_env ''http://127.0.0.1:4100/'' sample_token ''main''"

definition sample_descriptor_codec :: descriptor_codec where
  "sample_descriptor_codec =
     \<lparr>dc_encode = (\<lambda>d. if d = sample_descriptor then Some ''{}'' else None),
      dc_decode = (\<lambda>bytes. if bytes = ''{}'' then Some sample_descriptor else None),
      dc_parse_url = (\<lambda>_. Some \<lparr>url_scheme = ''http'', url_username = [], url_password = None,
        url_host_str = Some ''127.0.0.1'', url_host_of = Some (Ipv4 0x7F000001), url_path = ''/'',
        url_query = None, url_fragment = None\<rparr>),
      dc_port = (\<lambda>_. Some 4100)\<rparr>"

lemma sample_codec: "dc_encode sample_descriptor_codec d = Some bytes \<Longrightarrow> dc_decode sample_descriptor_codec bytes = Some d"
  by (auto simp: sample_descriptor_codec_def split: if_splits)

definition no_session_files :: session_files where
  "no_session_files = \<lparr>sf_directory = None, sf_entries = (\<lambda>_. None)\<rparr>"

definition sample_session_files :: session_files where
  "sample_session_files = \<lparr>sf_directory = Some SessionDirectory, sf_entries = [session_name \<mapsto> SessionFile ''{}'']\<rparr>"

lemma sample_created:
  "create_session sample_descriptor_codec sample_session_env ''http://127.0.0.1:4100/'' sample_token ''main'' no_session_files =
     (sample_session_files, Inr \<lparr>dn_process_id = 7, dn_bridge_token = sample_token\<rparr>)"
proof -
  have "validate_origin sample_descriptor_codec ''http://127.0.0.1:4100/'' = Inr ()"
    by (simp add: validate_origin_def sample_descriptor_codec_def reject_if_def)
  moreover have "validate_token sample_token = Inr ()"
    by (simp add: validate_token_def sample_token_def reject_if_def list_all_iff ascii_hexdigit_def byte_def ascii_digit_def)
  moreover have "validate_window_id ''main'' = Inr ()" by code_simp
  moreover have "dc_encode sample_descriptor_codec
      (session_descriptor sample_session_env ''http://127.0.0.1:4100/'' sample_token ''main'') = Some ''{}''"
    by (simp add: sample_descriptor_codec_def sample_descriptor_def)
  ultimately show ?thesis
    by (simp add: create_session_def prepare_private_directory_def reject_symlink_def write_session_def put_session_def
        sample_session_env_def no_session_files_def sample_session_files_def MAX_DESCRIPTOR_BYTES_def Let_def)
qed

theorem session_descriptor_roundtrip_witness:
  "read_descriptor sample_descriptor_codec True sample_session_files = Inr sample_descriptor \<and>
   drop_session sample_descriptor_codec True \<lparr>dn_process_id = 8, dn_bridge_token = sample_token\<rparr> sample_session_files =
     sample_session_files"
proof -
  have "de_process_id sample_session_env \<noteq> 0" by (simp add: sample_session_env_def)
  from session_descriptor_roundtrip [OF sample_created sample_codec this,
      of "\<lparr>dn_process_id = 8, dn_bridge_token = sample_token\<rparr>" True]
  show ?thesis by (simp add: sample_descriptor_def)
qed

end
