(* ===== verification/Desktop.thy ===== *)
theory Desktop
  imports GatewayClaims Processes HttpClient DataServices FileWatch SystemInfo Diagnostics
begin

text \<open>
  \<open>gateway.rs\<close>, the rest of the handlers: the files and scripts the pages are served, the native
  services they reach, the diagnostics, the automation of a development session, the updater and
  the plugins.

  \<open>Desktop\<close> is what the handlers share: the state of Gateway with the services that live beside it.
  A handler returns the changed desktop, what it has done outside (\<open>effect list\<close>) and its answer.
  What the outside answers is the record \<open>outside\<close>; \<open>ox_panic\<close> is a blocking task that panicked.
\<close>

section \<open>The shared state and the outside\<close>

record 'd Desktop =
  dk_gateway :: GatewayState
  dk_files :: grant_files
  dk_databases :: "'d databases"
  dk_origins :: http_services
  dk_processes :: ProcessServices
  dk_search :: 'd
  dk_watches :: watches
  dk_updater_host :: updater_host
  dk_updater :: InternalState
  dk_scheduler :: "BackgroundJobConfig list option"

datatype EventCode =
    SessionStarting | SessionReady | ChangeDetected | ReloadStarted | ReloadSucceeded | ReloadFailed
  | RuntimeExited | SessionStopped

datatype effect =
    FileEffect cap_call
  | StreamWritten "string \<times> string" string
  | ClipboardEffect clipboard_call
  | NotificationShown shown
  | HttpSent http_call
  | SecretEffect secret_call
  | ProcessStarted started
  | PortalEffect portal_call
  | WorkerSent RequestEnvelope
  | PluginSent PluginRequestEnvelope
  | InstallerStarted "string \<times> string \<times> string"
  | AgentSpawned string
  | AgentStopped string
  | SchedulerStarted "BackgroundJobConfig list"
  | SchedulerStopped "BackgroundJobConfig list"
  | SessionPublished session_files DiagnosticSession
  | DevEvent EventCode json

record 'd outside =
  ox_host :: host
  ox_request :: request_env
  ox_rounds :: "(EventState \<times> bool) list"
  ox_hub_later :: EventState
  ox_fs :: filesystem
  ox_cap :: cap_env
  ox_os :: native_os
  ox_panic :: "string option"
  ox_target :: "string \<Rightarrow> FileTarget option"
  ox_chunks :: "(string + string \<times> string option) list"
  ox_flush :: "string option"
  ox_clipboard :: clipboard_env
  ox_notify :: notify_env
  ox_sqlite :: "'d sqlite"
  ox_matches :: "string \<Rightarrow> u16 \<Rightarrow> string + json list"
  ox_tree :: "string \<Rightarrow> scan_entry list"
  ox_system :: system_files
  ox_http :: http_packages
  ox_secret :: secret_env
  ox_process :: process_env
  ox_watch_spawn :: "string option"
  ox_portal :: portal_env
  ox_dialog :: "(string + (string \<times> grant_env) list) option"
  ox_codec :: grant_codec
  ox_grant :: grant_env
  ox_now :: nat
  ox_uptime :: nat
  ox_status_file :: "string option"
  ox_otlp :: "u64 list"
  ox_fetched :: "UpdateError + string"
  ox_download :: download_env
  ox_launched :: "UpdateError + unit"
  ox_plugin_host :: plugin_host
  ox_plugin_before :: plugin_env
  ox_plugin_exchange :: "PluginResponseEnvelope exchange"
  ox_plugin_after :: plugin_env

type_synonym 'd handled = "'d Desktop \<times> effect list \<times> http_response"

definition on_gateway :: "(GatewayState \<Rightarrow> GatewayState) \<Rightarrow> 'd Desktop \<Rightarrow> 'd Desktop" where
  "on_gateway f d = d\<lparr>dk_gateway := f (dk_gateway d)\<rparr>"

text \<open>The native services and the store of their grants, as the native theories take them.\<close>

definition native_part :: "'d Desktop \<Rightarrow> NativeServices \<times> grant_files" where
  "native_part d = (gs_native (dk_gateway d), dk_files d)"

definition with_native :: "'d Desktop \<Rightarrow> NativeServices \<times> grant_files \<Rightarrow> 'd Desktop" where
  "with_native d w = d\<lparr>dk_gateway := (dk_gateway d)\<lparr>gs_native := fst w\<rparr>, dk_files := snd w\<rparr>"

section \<open>Files and scripts\<close>

definition content_type :: "string \<Rightarrow> string" where
  "content_type path =
     (case path_extension path of
        None \<Rightarrow> ''application/octet-stream''
      | Some e \<Rightarrow>
          if e = ''html'' then ''text/html; charset=utf-8''
          else if e = ''css'' then ''text/css; charset=utf-8''
          else if e = ''js'' \<or> e = ''mjs'' then ''text/javascript; charset=utf-8''
          else if e = ''json'' then ''application/json; charset=utf-8''
          else if e = ''svg'' then ''image/svg+xml''
          else if e = ''png'' then ''image/png''
          else if e = ''jpg'' \<or> e = ''jpeg'' then ''image/jpeg''
          else if e = ''webp'' then ''image/webp''
          else if e = ''woff2'' then ''font/woff2''
          else ''application/octet-stream'')"

definition not_found :: http_response where
  "not_found = plain_response 404 ''Not found''"

definition normal_component :: "component \<Rightarrow> bool" where
  "normal_component c = (case c of Normal _ \<Rightarrow> True | _ \<Rightarrow> False)"

text \<open>The answer with the file that was read, if one was.\<close>

definition serve_file :: "filesystem \<Rightarrow> GatewayState \<Rightarrow> string \<Rightarrow> string option \<times> http_response" where
  "serve_file fs st relative =
     (if path_is_absolute relative \<or> \<not> list_all normal_component (path_components relative)
      then (None, not_found)
      else case fs_canonicalize fs (path_join (gs_public_root st) relative) of
        None \<Rightarrow> (None, not_found)
      | Some path \<Rightarrow>
          if \<not> path_starts_with path (gs_public_root st) \<or> \<not> fs_is_file fs path then (None, not_found)
          else (case fs_read fs path of
              None \<Rightarrow> (None, not_found)
            | Some contents \<Rightarrow>
                (Some path, secure_response 200 (content_type path) (TextBody contents))))"

definition window_entry :: "GatewayState \<Rightarrow> string \<Rightarrow> string option" where
  "window_entry st window_id =
     map_option wc_entry (find (\<lambda>w. wc_id w = window_id) (bs_windows (gs_bootstrap st)))"

definition path_strip_prefix :: "string \<Rightarrow> string \<Rightarrow> string option" where
  "path_strip_prefix p base =
     map_option components_path (strip_prefix (path_components base) (path_components p))"

definition serve_window_entry :: "filesystem \<Rightarrow> GatewayState \<Rightarrow> string \<Rightarrow> string option \<times> http_response" where
  "serve_window_entry fs st window_id =
     (case window_entry st window_id of
        None \<Rightarrow> (None, not_found)
      | Some entry \<Rightarrow>
          (case resolve_entry fs (gs_project st) entry of
             Inl _ \<Rightarrow> (None, not_found)
           | Inr resolved \<Rightarrow>
               (case path_strip_prefix resolved (gs_public_root st) of
                  None \<Rightarrow> (None, not_found)
                | Some relative \<Rightarrow> serve_file fs st relative)))"

text \<open>The namespaces of \<open>window.pam\<close>, in the order of the code.\<close>

definition surface_fields :: "Bootstrap \<Rightarrow> bool \<Rightarrow> string list" where
  "surface_fields b development =
     (let c = bs_capabilities b; w = bs_workstation b; every = \<not> ws_tree_shaking w;
          field = (\<lambda>condition names. if every \<or> condition then names else []) in
      [''apiVersion: 1'', ''commands'', ''emit'', ''invoke'', ''on'', ''windowId''] @
      field (nc_clipboard_read c \<or> nc_clipboard_write c) [''clipboard''] @
      field (nc_databases c \<noteq> []) [''database''] @
      field (ws_devtools w) [''diagnostics''] @
      (if development \<and> ws_devtools w then [''automation''] else []) @
      field (nc_dialogs c) [''dialog''] @
      field (nc_filesystem_roots c \<noteq> []) [''fs: filesystem'', ''search''] @
      field (nc_http_origins c \<noteq> []) [''http''] @
      field (nc_notifications c) [''notification''] @
      field (bs_rust_plugins b \<noteq> []) [''plugins''] @
      field (nc_desktop_portal c) [''portal''] @
      field (nc_processes c \<noteq> []) [''process'', ''terminal''] @
      field (nc_secrets c) [''secrets''] @
      field (nc_system_information c) [''system''] @
      field (am_updates (bs_manifest b) \<noteq> None) [''updater''])"

definition bridge_surface :: "Bootstrap \<Rightarrow> bool \<Rightarrow> string" where
  "bridge_surface b development = ''{'' @ join_with '','' (surface_fields b development) @ ''}''"

text \<open>\<open>script\<close> is the text of the bridge, \<open>encode\<close> and \<open>encode_commands\<close> are \<open>serde_json\<close>.\<close>

definition serve_bridge ::
    "string \<Rightarrow> (string \<Rightarrow> string) \<Rightarrow> (CommandConfig list \<Rightarrow> string option) \<Rightarrow> GatewayState \<Rightarrow> http_response" where
  "serve_bridge script encode encode_commands st =
     (let commands = (case encode_commands (bs_commands (gs_bootstrap st)) of None \<Rightarrow> ''[]'' | Some t \<Rightarrow> t) in
      secure_response 200 ''text/javascript; charset=utf-8''
        (TextBody (replace_all ''__PAM_SURFACE__'' (bridge_surface (gs_bootstrap st) (gs_development st))
          (replace_all ''__PAM_COMMANDS__'' commands
            (replace_all ''__PAM_TOKEN__'' (encode (gs_token st))
              (replace_all ''__PAM_ORIGIN__'' (encode (gs_origin st)) script))))))"

text \<open>The inspector and its two files: the page exists in a development session only.\<close>

definition serve_inspector :: "string \<Rightarrow> string \<Rightarrow> GatewayState \<Rightarrow> http_response" where
  "serve_inspector mime text st =
     (if \<not> gs_development st then not_found
      else secure_response 200 mime (TextBody text))"

section \<open>Guards\<close>

text \<open>Every handler of a page begins with this: \<open>Some\<close> is the refusal.\<close>

definition refused :: "GatewayState \<Rightarrow> headers \<Rightarrow> string \<Rightarrow> string \<Rightarrow> http_response option" where
  "refused st headers window_id message =
     (if \<not> authorized st headers then Some unauthorized_response
      else if \<not> has_window st window_id then Some (client_failure 400 InvalidMessage message)
      else None)"

definition guarded ::
    "'d Desktop \<Rightarrow> headers \<Rightarrow> string \<Rightarrow> string \<Rightarrow> 'd handled \<Rightarrow> 'd handled" where
  "guarded d headers window_id message continue =
     (case refused (dk_gateway d) headers window_id message of
        Some response \<Rightarrow> (d, [], response)
      | None \<Rightarrow> continue)"

definition joined :: "string option \<Rightarrow> NativeError + json \<Rightarrow> http_response" where
  "joined panic r = native_task (case panic of Some e \<Rightarrow> Inl e | None \<Rightarrow> Inr r)"

definition native_answer :: "NativeError + json \<Rightarrow> http_response" where
  "native_answer r = (case r of Inl e \<Rightarrow> native_failure e | Inr data \<Rightarrow> native_success data)"

section \<open>Files\<close>

definition filesystem_handler :: "'d outside \<Rightarrow> 'd Desktop \<Rightarrow> headers \<Rightarrow> FileRequest \<Rightarrow> 'd handled" where
  "filesystem_handler x d headers q =
     guarded d headers (fq_window_id q) ''The filesystem source window is invalid.''
       (case filesystem_request (ox_cap x) (gs_native (dk_gateway d)) q of
          (calls, r) \<Rightarrow> (d, map FileEffect calls, joined (ox_panic x) r))"

text \<open>
  \<open>filesystem_read_stream\<close>: the body is a stream of the opened file; the header with its length is
  added after the answer was made.
\<close>

definition filesystem_read_stream ::
    "'d outside \<Rightarrow> 'd Desktop \<Rightarrow> headers \<Rightarrow> string \<Rightarrow> FileTarget \<Rightarrow> 'd handled" where
  "filesystem_read_stream x d headers window_id target =
     guarded d headers window_id ''The streaming source window is invalid.''
       (case open_read_stream (ox_cap x) (gs_native (dk_gateway d)) target of
          (calls, opened) \<Rightarrow>
            (d, map FileEffect calls,
             case ox_panic x of
               Some e \<Rightarrow> native_failure \<lparr>ne_code = NativeOperationFailed,
                 ne_message = ''The streaming read task failed: '' @ e\<rparr>
             | None \<Rightarrow>
                 (case opened of
                    Inl e \<Rightarrow> native_failure e
                  | Inr ((directory, path), bytes) \<Rightarrow>
                      (let response = secure_response 200 ''application/octet-stream''
                         (TextBody (case ca_contents (ox_cap x) directory path of
                            Inl _ \<Rightarrow> [] | Inr contents \<Rightarrow> contents))
                       in response\<lparr>hr_headers := hr_headers response @
                            [(''content-length'', decimal bytes)]\<rparr>))))"

text \<open>
  The chunks of a body, each an error of the connection or bytes with the outcome of their write.
  The result is what was written before the loop ended, and the failure or the count.
\<close>

fun write_chunks ::
    "(string + string \<times> string option) list \<Rightarrow> u64 \<Rightarrow> string list \<times> (http_response + u64)" where
  "write_chunks [] written = ([], Inr written)"
| "write_chunks (Inl e # chunks) written =
     ([], Inl (native_failure \<lparr>ne_code = NativeOperationFailed,
       ne_message = ''Cannot read the streaming request body: '' @ e\<rparr>))"
| "write_chunks (Inr (chunk, outcome) # chunks) written =
     (let written = sat_add written (of_nat (length chunk)) in
      if unat written > MAX_STREAM_BYTES
      then ([], Inl (client_failure 413 ResourceTooLarge
        ''The streaming write exceeds the four-gibibyte limit.''))
      else case outcome of
        Some e \<Rightarrow> ([], Inl (native_failure \<lparr>ne_code = NativeOperationFailed,
          ne_message = ''Cannot write the streaming destination: '' @ e\<rparr>))
      | None \<Rightarrow> (case write_chunks chunks written of (done, r) \<Rightarrow> (chunk # done, r)))"

definition stream_target :: "'d outside \<Rightarrow> headers \<Rightarrow> http_response + FileTarget" where
  "stream_target x headers =
     (case headers ''x-pam-stream-target'' of
        None \<Rightarrow> Inl (client_failure 400 InvalidPayload ''The streaming write target is missing.'')
      | Some encoded \<Rightarrow>
          (case ox_target x encoded of
             None \<Rightarrow> Inl (client_failure 400 InvalidPayload ''The streaming write target is malformed.'')
           | Some target \<Rightarrow>
               if (case Option.bind (headers ''content-length'') parse_u64 of
                     None \<Rightarrow> False | Some bytes \<Rightarrow> bytes > MAX_STREAM_BYTES)
               then Inl (client_failure 413 ResourceTooLarge
                 ''The streaming write exceeds the four-gibibyte limit.'')
               else Inr target))"

definition filesystem_write_stream :: "'d outside \<Rightarrow> 'd Desktop \<Rightarrow> headers \<Rightarrow> 'd handled" where
  "filesystem_write_stream x d headers =
     (if \<not> authorized (dk_gateway d) headers then (d, [], unauthorized_response)
      else case headers ''x-pam-window'' of
        None \<Rightarrow> (d, [], client_failure 400 InvalidMessage ''The streaming write window is missing.'')
      | Some window_id \<Rightarrow>
          if \<not> has_window (dk_gateway d) window_id
          then (d, [], client_failure 400 InvalidMessage ''The streaming write window is invalid.'')
          else (case stream_target x headers of
              Inl response \<Rightarrow> (d, [], response)
            | Inr target \<Rightarrow>
                (case open_write_stream (ox_cap x) (gs_native (dk_gateway d)) target of
                   (calls, opened) \<Rightarrow>
                     (case (ox_panic x, opened) of
                        (Some e, _) \<Rightarrow> (d, map FileEffect calls,
                          native_failure \<lparr>ne_code = NativeOperationFailed,
                            ne_message = ''The streaming write task failed: '' @ e\<rparr>)
                      | (None, Inl e) \<Rightarrow> (d, map FileEffect calls, native_failure e)
                      | (None, Inr file) \<Rightarrow>
                          (case write_chunks (ox_chunks x) 0 of
                             (done, r) \<Rightarrow>
                               (d, map FileEffect calls @ map (StreamWritten file) done,
                                case r of
                                  Inl response \<Rightarrow> response
                                | Inr written \<Rightarrow>
                                    (case ox_flush x of
                                       Some e \<Rightarrow> native_failure \<lparr>ne_code = NativeOperationFailed,
                                         ne_message = ''Cannot flush the streaming destination: '' @ e\<rparr>
                                     | None \<Rightarrow> native_success (JObject
                                         [(''bytesWritten'', JInt (uint written))]))))))))"

section \<open>The native services\<close>

definition clipboard_handler :: "'d outside \<Rightarrow> 'd Desktop \<Rightarrow> headers \<Rightarrow> ClipboardRequest \<Rightarrow> 'd handled" where
  "clipboard_handler x d headers q =
     guarded d headers (cb_window_id q) ''The clipboard source window is invalid.''
       (case clipboard_request (ox_clipboard x) (native_part d) q of
          (w, calls, r) \<Rightarrow> (with_native d w, map ClipboardEffect calls, joined (ox_panic x) r))"

definition notification_handler :: "'d outside \<Rightarrow> 'd Desktop \<Rightarrow> headers \<Rightarrow> NotificationRequest \<Rightarrow> 'd handled" where
  "notification_handler x d headers q =
     guarded d headers (nr_window_id q) ''The notification source window is invalid.''
       (case notify (ox_notify x) (nv_capabilities (gs_native (dk_gateway d))) q of
          (shown, r) \<Rightarrow> (d, map NotificationShown shown, joined (ox_panic x) r))"

text \<open>The requests of the next handlers carry the window beside what their service takes.\<close>

definition database_handler ::
    "'d outside \<Rightarrow> 'd Desktop \<Rightarrow> headers \<Rightarrow> string \<Rightarrow> DatabaseRequest \<Rightarrow> 'd handled" where
  "database_handler x d headers window_id q =
     guarded d headers window_id ''The database source window is invalid.''
       (case database_dispatch (ox_sqlite x) (dk_databases d) q of
          (handles, r) \<Rightarrow> (d\<lparr>dk_databases := handles\<rparr>, [], joined (ox_panic x) r))"

definition system_information :: "'d outside \<Rightarrow> 'd Desktop \<Rightarrow> headers \<Rightarrow> string \<Rightarrow> 'd handled" where
  "system_information x d headers window_id =
     guarded d headers window_id ''The system information source window is invalid.''
       (d, [], joined (ox_panic x)
          (if \<not> nc_system_information (nv_capabilities (gs_native (dk_gateway d)))
           then Inl (native_disabled ''system information'')
           else Inr (system_json (system_snapshot (ox_system x)))))"

definition http_handler ::
    "'d outside \<Rightarrow> 'd Desktop \<Rightarrow> headers \<Rightarrow> string \<Rightarrow> HttpRequest \<Rightarrow> 'd handled" where
  "http_handler x d headers window_id q =
     guarded d headers window_id ''The native HTTP source window is invalid.''
       (case http_dispatch (ox_http x) (dk_origins d) q of
          (calls, r) \<Rightarrow> (d, map HttpSent calls, joined (ox_panic x) r))"

definition secrets_handler ::
    "'d outside \<Rightarrow> 'd Desktop \<Rightarrow> headers \<Rightarrow> string \<Rightarrow> SecretRequest \<Rightarrow> 'd handled" where
  "secrets_handler x d headers window_id q =
     guarded d headers window_id ''The secret source window is invalid.''
       (if \<not> nc_secrets (nv_capabilities (gs_native (dk_gateway d)))
        then (d, [], native_failure (native_disabled ''secrets''))
        else case secret_execute (ox_secret x) (am_identifier (bs_manifest (gs_bootstrap (dk_gateway d)))) q of
          (calls, r) \<Rightarrow>
            (d, map SecretEffect calls,
             native_answer (rbind r (\<lambda>v. Inr (JObject [(''value'',
               case v of None \<Rightarrow> JNull | Some s \<Rightarrow> JString s)])))))"

definition process_handler ::
    "'d outside \<Rightarrow> 'd Desktop \<Rightarrow> headers \<Rightarrow> string \<Rightarrow> ProcessRequest \<Rightarrow> 'd handled" where
  "process_handler x d headers window_id q =
     guarded d headers window_id ''The process source window is invalid.''
       (case dispatch_process (dk_processes d) q (ox_process x) of
          (s, begun, r) \<Rightarrow> (d\<lparr>dk_processes := s\<rparr>, map ProcessStarted begun, joined (ox_panic x) r))"

text \<open>\<open>NativeServices::search\<close> authorizes the target before the index sees the request.\<close>

definition search_handler ::
    "'d outside \<Rightarrow> 'd Desktop \<Rightarrow> headers \<Rightarrow> string \<Rightarrow> SearchRequest \<Rightarrow> FileTarget option \<Rightarrow> 'd handled" where
  "search_handler x d headers window_id q target =
     guarded d headers window_id ''The search source window is invalid.''
       (case (case target of
                None \<Rightarrow> Inr None
              | Some t \<Rightarrow> map_sum id Some (watch_path (ox_os x) (gs_native (dk_gateway d)) t)) of
          Inl e \<Rightarrow> (d, [], joined (ox_panic x) (Inl e))
        | Inr path \<Rightarrow>
            (case search_dispatch (ox_sqlite x) (ox_matches x) (dk_search d) q (map_option (ox_tree x) path) of
               (index, r) \<Rightarrow> (d\<lparr>dk_search := index\<rparr>, [], joined (ox_panic x) r)))"

definition file_watch_handler :: "'d outside \<Rightarrow> 'd Desktop \<Rightarrow> headers \<Rightarrow> FileWatchRequest \<Rightarrow> 'd handled" where
  "file_watch_handler x d headers q =
     guarded d headers (wq_window_id q) ''The file watch source window is invalid.''
       (case file_watch_dispatch (ox_os x) (ox_watch_spawn x) (gs_native (dk_gateway d)) (dk_watches d) q of
          (ws, r) \<Rightarrow> (d\<lparr>dk_watches := ws\<rparr>, [], native_answer (rbind r (\<lambda>_. Inr JNull))))"

text \<open>A scanner that still runs has no answer yet.\<close>

definition desktop_portal ::
    "'d outside \<Rightarrow> 'd Desktop \<Rightarrow> headers \<Rightarrow> DesktopPortalRequest \<Rightarrow>
     'd Desktop \<times> effect list \<times> http_response option" where
  "desktop_portal x d headers q =
     (case refused (dk_gateway d) headers (pq_window_id q) ''The desktop portal source window is invalid.'' of
        Some response \<Rightarrow> (d, [], Some response)
      | None \<Rightarrow>
          (case portal_execute (ox_portal x) (native_part d) q of
             (w, calls, r) \<Rightarrow> (with_native d w, map PortalEffect calls, map_option native_answer r)))"

section \<open>Dialogs\<close>

definition dialog_data :: "DialogKind \<Rightarrow> FileReference list \<Rightarrow> json" where
  "dialog_data kind files =
     (case kind of
        OpenFiles \<Rightarrow> JArray (map reference_json files)
      | _ \<Rightarrow> (case files of [] \<Rightarrow> JNull | file # _ \<Rightarrow> reference_json file))"

text \<open>
  \<open>ox_dialog\<close> is the reply of the event loop: \<open>None\<close> if it was dropped, an error, or the selected
  paths with what their grants meet.
\<close>

definition dialog :: "'d outside \<Rightarrow> 'd Desktop \<Rightarrow> headers \<Rightarrow> DialogBridgeRequest \<Rightarrow> 'd handled" where
  "dialog x d headers q =
     guarded d headers (dr_window_id q) ''The dialog source window is invalid.''
       (case validate_dialog (nv_capabilities (gs_native (dk_gateway d))) q of
          Inl e \<Rightarrow> (d, [], native_failure e)
        | Inr access \<Rightarrow>
            if \<not> gs_loop_open (dk_gateway d)
            then (d, [], native_failure \<lparr>ne_code = NativeOperationFailed,
              ne_message = ''The native event loop is unavailable for this dialog.''\<rparr>)
            else (let d1 = on_gateway (\<lambda>st. send_event st (Dialog \<lparr>dq_kind = dr_kind q,
                    dq_title = dr_title q, dq_file_name = dr_file_name q, dq_filters = dr_filters q\<rparr>)) d in
              case ox_dialog x of
                None \<Rightarrow> (d1, [], native_failure \<lparr>ne_code = NativeOperationFailed,
                  ne_message = ''The native dialog closed without a result.''\<rparr>)
              | Some (Inl message) \<Rightarrow> (d1, [], native_failure \<lparr>ne_code = NativeOperationFailed,
                  ne_message = message\<rparr>)
              | Some (Inr paths) \<Rightarrow>
                  (case grant_paths (ox_codec x) paths access (dr_persistent q) (native_part d1) of
                     (w, Inl e) \<Rightarrow> (with_native d1 w, [], native_failure e)
                   | (w, Inr files) \<Rightarrow>
                       (with_native d1 w, [], native_success (dialog_data (dr_kind q) files)))))"

end
