(* ===== verification/DesktopControl.thy ===== *)
theory DesktopControl
  imports Desktop
begin

text \<open>
  \<open>gateway.rs\<close>, what controls the desktop: diagnostics and performance samples, automation, drag and
  drop, updates, plugins, the events of the host, the start of the gateway and its reloads.
\<close>

section \<open>Diagnostics\<close>

record DiagnosticsSnapshot =
  ds_captured_at_unix_ms :: nat
  ds_total_commands :: u64
  ds_failed_commands :: u64
  ds_active_commands :: u64
  ds_average_command_microseconds :: u64
  ds_primary_worker_generation :: u64
  ds_parallel_workers :: nat
  ds_event_cursor :: u64
  ds_otlp :: "u64 list"
  ds_uptime_milliseconds :: nat
  ds_resident_memory_bytes :: nat
  ds_terminal_sessions :: nat
  ds_rust_plugins :: nat
  ds_startup_milliseconds :: "u64 option"
  ds_startup_snapshot_hit :: bool
  ds_ipc_p95_microseconds :: "u64 option"
  ds_frame_p95_microseconds :: "u64 option"
  ds_performance_complete :: bool
  ds_performance_passed :: bool
  ds_performance_violations :: "string list"
  ds_performance_budget :: PerformanceBudgetConfig

text \<open>\<open>u64::try_from(..).unwrap_or(u64::MAX)\<close> and \<open>checked_div\<close>.\<close>

definition to_u64 :: "nat \<Rightarrow> nat" where
  "to_u64 n = (if n < 2 ^ 64 then n else 2 ^ 64 - 1)"

definition average_microseconds :: "u64 \<Rightarrow> u64 \<Rightarrow> u64" where
  "average_microseconds nanos commands = (if commands = 0 then 0 else nanos div commands) div 1000"

definition diagnostics_snapshot :: "'d outside \<Rightarrow> 'd Desktop \<Rightarrow> DiagnosticsSnapshot" where
  "diagnostics_snapshot x d =
     (let st = dk_gateway d; m = gs_metrics st;
          startup = (if gm_first_command_milliseconds m = 0 then None
            else Some (gm_first_command_milliseconds m - 1));
          ipc = percentile (gm_command_microseconds m) 95;
          frame = percentile (gm_frame_microseconds m) 95;
          resident = resident_memory_bytes (ox_status_file x);
          budget = ws_performance (bs_workstation (gs_bootstrap st));
          violations = performance_violations budget (gs_startup_snapshot_hit st) startup
            (of_nat resident) ipc frame;
          complete = startup \<noteq> None \<and> ipc \<noteq> None \<and> frame \<noteq> None
      in \<lparr>ds_captured_at_unix_ms = to_u64 (ox_now x),
          ds_total_commands = gm_total_commands m, ds_failed_commands = gm_failed_commands m,
          ds_active_commands = gm_active_commands m,
          ds_average_command_microseconds =
            average_microseconds (gm_total_command_nanoseconds m) (gm_total_commands m),
          ds_primary_worker_generation = sv_generation (gs_supervisor st),
          ds_parallel_workers = length (wp_workers (gs_pool st)),
          ds_event_cursor = latest_id (gs_events st), ds_otlp = ox_otlp x,
          ds_uptime_milliseconds = to_u64 (ox_uptime x),
          ds_resident_memory_bytes = resident,
          ds_terminal_sessions = terminal_session_count (dk_processes d),
          ds_rust_plugins = card (dom (gs_plugins st)),
          ds_startup_milliseconds = startup, ds_startup_snapshot_hit = gs_startup_snapshot_hit st,
          ds_ipc_p95_microseconds = ipc, ds_frame_p95_microseconds = frame,
          ds_performance_complete = complete,
          ds_performance_passed = (complete \<and> violations = []),
          ds_performance_violations = violations, ds_performance_budget = budget\<rparr>)"

text \<open>\<open>encode\<close> is \<open>serde_json::to_value\<close> of the snapshot, null where it fails.\<close>

definition diagnostics ::
    "(DiagnosticsSnapshot \<Rightarrow> json) \<Rightarrow> 'd outside \<Rightarrow> 'd Desktop \<Rightarrow> headers \<Rightarrow> string \<Rightarrow> 'd handled" where
  "diagnostics encode x d headers window_id =
     guarded d headers window_id ''The diagnostics source window is invalid.''
       (d, [], native_success (encode (diagnostics_snapshot x d)))"

definition performance_frame :: "'d Desktop \<Rightarrow> headers \<Rightarrow> string \<Rightarrow> u64 \<Rightarrow> 'd handled" where
  "performance_frame d headers window_id microseconds =
     (if \<not> authorized (dk_gateway d) headers then (d, [], unauthorized_response)
      else if \<not> has_window (dk_gateway d) window_id \<or> \<not> between 1 1000000 microseconds
      then (d, [], client_failure 400 InvalidMessage
        ''Frame samples require a valid window and 1 to 1,000,000 microseconds.'')
      else (on_gateway (\<lambda>st. st\<lparr>gs_metrics := (gs_metrics st)\<lparr>gm_frame_microseconds :=
              record_sample (gm_frame_microseconds (gs_metrics st)) microseconds\<rparr>\<rparr>) d,
            [], native_success JNull))"

section \<open>Drag and drop\<close>

definition window_event :: "string \<Rightarrow> json \<Rightarrow> string option \<Rightarrow> ClientEvent" where
  "window_event name payload window_id =
     \<lparr>ce_name = name, ce_payload = payload, ce_window_id = window_id\<rparr>"

definition announce_event :: "'d Desktop \<Rightarrow> ClientEvent \<Rightarrow> 'd Desktop" where
  "announce_event d e = on_gateway (\<lambda>st. publish_event st e) d"

definition drag_and_drop_enabled :: "'d Desktop \<Rightarrow> bool" where
  "drag_and_drop_enabled d = nc_drag_and_drop (nv_capabilities (gs_native (dk_gateway d)))"

definition dragged_kind :: "io_error + metadata \<Rightarrow> FileEntryKind option" where
  "dragged_kind m =
     (case m of
        Inr m \<Rightarrow> (case md_kind m of
            RegularFile \<Rightarrow> Some FileEntryKind.File | DirectoryFile \<Rightarrow> Some FileEntryKind.Directory
          | _ \<Rightarrow> None)
      | Inl _ \<Rightarrow> None)"

definition enter_payload :: "string \<Rightarrow> FileEntryKind \<Rightarrow> json" where
  "enter_payload name kind = JObject [(''name'', JString name), (''kind'', JInt (int (FileEntryKind_code kind)))]"

definition drag_hover :: "'d outside \<Rightarrow> 'd Desktop \<Rightarrow> string \<Rightarrow> string \<Rightarrow> 'd Desktop" where
  "drag_hover x d window_id path =
     (if \<not> has_window (dk_gateway d) window_id \<or> \<not> drag_and_drop_enabled d then d
      else case dragged_kind (no_symlink_metadata (ox_os x) path) of
        None \<Rightarrow> d
      | Some kind \<Rightarrow>
          (let name = (case path_file_name path of None \<Rightarrow> no_lossy (ox_os x) path
             | Some name \<Rightarrow> no_lossy (ox_os x) name) in
           announce_event d (window_event ''pam.drag.enter'' (enter_payload name kind) (Some window_id))))"

definition files_payload :: "FileReference \<Rightarrow> json" where
  "files_payload r = JObject [(''files'', JArray [reference_json r])]"

definition error_payload :: "ErrorCode \<Rightarrow> string \<Rightarrow> json" where
  "error_payload code message =
     JObject [(''code'', JInt (int (ErrorCode_code code))), (''message'', JString message)]"

definition drag_drop :: "'d outside \<Rightarrow> 'd Desktop \<Rightarrow> string \<Rightarrow> string \<Rightarrow> 'd Desktop" where
  "drag_drop x d window_id path =
     (if \<not> has_window (dk_gateway d) window_id \<or> \<not> drag_and_drop_enabled d then d
      else case grant_path (ox_codec x) (ox_grant x) path FileAccess.Read (native_part d) of
        (w, Inr file) \<Rightarrow> announce_event (with_native d w)
          (window_event ''pam.drag.drop'' (files_payload file) (Some window_id))
      | (w, Inl e) \<Rightarrow> announce_event (with_native d w)
          (window_event ''pam.drag.error'' (error_payload (ne_code e) (ne_message e)) (Some window_id)))"

definition drag_leave :: "'d Desktop \<Rightarrow> string \<Rightarrow> 'd Desktop" where
  "drag_leave d window_id =
     (if \<not> has_window (dk_gateway d) window_id \<or> \<not> drag_and_drop_enabled d then d
      else announce_event d (window_event ''pam.drag.leave'' JNull (Some window_id)))"

section \<open>Automation\<close>

datatype AutomationOperation =
    Menu | ShortcutPress | ShortcutRelease | WindowFocus | WindowShow | WindowHide | WindowClose
  | DragHover | DragDrop | DragLeave

definition AutomationOperation_try_from :: "u8 \<Rightarrow> AutomationOperation option" where
  "AutomationOperation_try_from v =
     (let operations = [Menu, ShortcutPress, ShortcutRelease, WindowFocus, WindowShow, WindowHide,
            WindowClose, DragHover, DragDrop, DragLeave]
      in if 1 \<le> v \<and> unat v \<le> length operations then Some (operations ! (unat v - 1)) else None)"

record AutomationRequest =
  aq_window_id :: string
  aq_operation :: u8
  aq_target :: string
  aq_path :: string

fun menu_contains :: "string \<Rightarrow> MenuItemConfig list \<Rightarrow> bool" where
  "menu_contains i [] = False"
| "menu_contains i (MenuItemConfig kind item label enabled checked accelerator items # rest) =
     (item = i \<and> enabled \<and> (kind = MenuItemKind.Command \<or> kind = MenuItemKind.Checkbox) \<or>
      menu_contains i items \<or> menu_contains i rest)"

definition menu_item_enabled :: "MenuConfig list \<Rightarrow> string \<Rightarrow> bool" where
  "menu_item_enabled menus i = list_ex (\<lambda>menu. menu_contains i (mc_items menu)) menus"

definition resolve_automation_path :: "native_os \<Rightarrow> string \<Rightarrow> string \<Rightarrow> string + string" where
  "resolve_automation_path os root path =
     (if path = [] \<or> path_is_absolute path \<or> \<not> list_all normal_component (path_components path)
      then Inl ''Automation drag paths must be project-relative without traversal.''
      else case no_canonicalize os (path_join root path) of
        Inl e \<Rightarrow> Inl (''Cannot resolve automation drag path: '' @ ie_text e)
      | Inr resolved \<Rightarrow>
          if \<not> path_starts_with resolved root then Inl ''Automation drag path escaped the project.''
          else Inr resolved)"

definition automation_drag_hover ::
    "'d outside \<Rightarrow> 'd Desktop \<Rightarrow> string \<Rightarrow> string \<Rightarrow> 'd Desktop \<times> (string + unit)" where
  "automation_drag_hover x d window_id path =
     (if \<not> drag_and_drop_enabled d then (d, Inl ''Drag and drop capability is disabled.'')
      else case no_symlink_metadata (ox_os x) path of
        Inl e \<Rightarrow> (d, Inl (''Cannot inspect automation drag path: '' @ ie_text e))
      | Inr m \<Rightarrow>
          (case dragged_kind (Inr m) of
             None \<Rightarrow> (d, Inl ''Automation drag target must be a regular file or directory.'')
           | Some kind \<Rightarrow>
               (let name = (case path_file_name path of None \<Rightarrow> [] | Some name \<Rightarrow> no_lossy (ox_os x) name) in
                (announce_event d (window_event ''pam.drag.enter'' (enter_payload name kind) (Some window_id)),
                 Inr ()))))"

definition automation_drag_drop ::
    "'d outside \<Rightarrow> 'd Desktop \<Rightarrow> string \<Rightarrow> string \<Rightarrow> 'd Desktop \<times> (string + unit)" where
  "automation_drag_drop x d window_id path =
     (if \<not> drag_and_drop_enabled d then (d, Inl ''Drag and drop capability is disabled.'')
      else case grant_path (ox_codec x) (ox_grant x) path FileAccess.Read (native_part d) of
        (w, Inl e) \<Rightarrow> (with_native d w, Inl (ne_message e))
      | (w, Inr file) \<Rightarrow>
          (announce_event (with_native d w)
             (window_event ''pam.drag.drop'' (files_payload file) (Some window_id)), Inr ()))"

fun window_effect :: "AutomationOperation \<Rightarrow> EffectKind \<times> json" where
  "window_effect WindowShow = (EffectKind.SetWindowVisible, JObject [(''visible'', JBool True)])"
| "window_effect WindowHide = (EffectKind.SetWindowVisible, JObject [(''visible'', JBool False)])"
| "window_effect WindowClose = (EffectKind.CloseWindow, JNull)"
| "window_effect _ = (EffectKind.FocusWindow, JNull)"

definition automate ::
    "'d outside \<Rightarrow> 'd Desktop \<Rightarrow> AutomationRequest \<Rightarrow> AutomationOperation \<Rightarrow> 'd Desktop \<times> (string + unit)" where
  "automate x d q operation =
     (let b = gs_bootstrap (dk_gateway d); target = aq_target q; window = aq_window_id q;
          drag = (\<lambda>run. case resolve_automation_path (ox_os x) (pj_root (gs_project (dk_gateway d))) (aq_path q) of
            Inl e \<Rightarrow> (d, Inl e) | Inr path \<Rightarrow> run x d window path);
          control = (if list_ex (\<lambda>w. wc_id w = target) (bs_windows b)
            then (if gs_loop_open (dk_gateway d)
              then (on_gateway (\<lambda>st. send_event st (ApplyEffects [\<lparr>ef_kind = fst (window_effect operation),
                     ef_window_id = target, ef_payload = snd (window_effect operation)\<rparr>])) d, Inr ())
              else (d, Inl ''The desktop event loop is unavailable.''))
            else (d, Inl ''The automation window target is unknown.''));
          shortcut = (\<lambda>state. if list_ex (\<lambda>s. gs_id s = target) (sc_shortcuts (bs_shell b))
            then (announce_event d (window_event ''pam.shortcut.changed''
                   (JObject [(''id'', JString target), (''state'', JInt state)]) None), Inr ())
            else (d, Inl ''The automation shortcut target is unknown.''))
      in case operation of
           Menu \<Rightarrow>
             if menu_item_enabled (sc_menus (bs_shell b)) target
             then (announce_event d (window_event ''pam.menu.selected'' (JObject [(''id'', JString target)]) None),
                   Inr ())
             else (d, Inl ''The automation menu target is unknown or disabled.'')
         | ShortcutPress \<Rightarrow> shortcut 1
         | ShortcutRelease \<Rightarrow> shortcut 2
         | WindowFocus \<Rightarrow> control
         | WindowShow \<Rightarrow> control
         | WindowHide \<Rightarrow> control
         | WindowClose \<Rightarrow> control
         | DragHover \<Rightarrow> drag automation_drag_hover
         | DragDrop \<Rightarrow> drag automation_drag_drop
         | DragLeave \<Rightarrow>
             if drag_and_drop_enabled d
             then (announce_event d (window_event ''pam.drag.leave'' JNull (Some window)), Inr ())
             else (d, Inl ''Drag and drop capability is disabled.''))"

definition automation :: "'d outside \<Rightarrow> 'd Desktop \<Rightarrow> headers \<Rightarrow> AutomationRequest \<Rightarrow> 'd handled" where
  "automation x d headers q =
     (let st = dk_gateway d in
      if \<not> authorized st headers then (d, [], unauthorized_response)
      else if \<not> gs_development st \<or> \<not> ws_devtools (bs_workstation (gs_bootstrap st))
      then (d, [], client_failure 403 CapabilityDisabled
        ''Desktop automation is available only in a devtools development session.'')
      else if \<not> has_window st (aq_window_id q)
      then (d, [], client_failure 400 InvalidMessage ''The automation source window is invalid.'')
      else case AutomationOperation_try_from (aq_operation q) of
        None \<Rightarrow> (d, [], client_failure 400 InvalidMessage ''The desktop automation operation is invalid.'')
      | Some operation \<Rightarrow>
          (case automate x d q operation of
             (d', Inr _) \<Rightarrow> (d', [], native_success (JObject [(''accepted'', JBool True)]))
           | (d', Inl message) \<Rightarrow> (d', [], client_failure 400 InvalidPayload message)))"

section \<open>Updates\<close>

definition update_snapshot_json :: "UpdateSnapshot \<Rightarrow> json" where
  "update_snapshot_json s =
     (let optional = (\<lambda>v. case v of None \<Rightarrow> JNull | Some t \<Rightarrow> JString t) in
      JObject [(''state'', JInt (int (UpdateState_code (us_state s)))),
        (''currentVersion'', JString (us_current_version s)),
        (''availableVersion'', optional (us_available_version s)),
        (''downloadedBytes'', JInt (int (us_downloaded_bytes s))),
        (''totalBytes'', JInt (int (us_total_bytes s))),
        (''notesUrl'', optional (us_notes_url s)), (''error'', optional (us_error s))])"

definition update_failure :: "UpdateError \<Rightarrow> http_response" where
  "update_failure e = client_failure
     (case ue_code e of
        UpdateDisabled \<Rightarrow> 403 | UpdateUnavailable \<Rightarrow> 404 | UpdateIntegrityFailed \<Rightarrow> 502 | _ \<Rightarrow> 500)
     (ue_code e) (ue_message e)"

definition update_success :: "UpdateSnapshot \<Rightarrow> http_response" where
  "update_success s = native_success (update_snapshot_json s)"

definition publish_update_snapshot :: "string \<Rightarrow> UpdateSnapshot \<Rightarrow> 'd Desktop \<Rightarrow> 'd Desktop" where
  "publish_update_snapshot name s d = announce_event d (window_event name (update_snapshot_json s) None)"

definition publish_update_error :: "UpdateError \<Rightarrow> 'd Desktop \<Rightarrow> 'd Desktop" where
  "publish_update_error e d =
     announce_event d (window_event ''pam.update.error'' (error_payload (ue_code e) (ue_message e)) None)"

definition update_window :: string where
  "update_window = ''The update source window is invalid.''"

definition update_status :: "'d Desktop \<Rightarrow> headers \<Rightarrow> string \<Rightarrow> 'd handled" where
  "update_status d headers window_id =
     guarded d headers window_id update_window (d, [], update_success (it_snapshot (dk_updater d)))"

definition update_operation ::
    "(InternalState \<Rightarrow> InternalState \<times> (UpdateError + UpdateSnapshot)) \<Rightarrow> 'd outside \<Rightarrow> 'd Desktop \<Rightarrow>
     headers \<Rightarrow> string \<Rightarrow> 'd handled" where
  "update_operation operation x d headers window_id =
     guarded d headers window_id update_window
       (case operation (dk_updater d) of
          (s, result) \<Rightarrow>
            (let d1 = d\<lparr>dk_updater := s\<rparr> in
             case (ox_panic x, result) of
               (Some e, _) \<Rightarrow> (d1, [], update_failure
                 (update_error NativeOperationFailed (''The update task failed: '' @ e)))
             | (None, Inl e) \<Rightarrow> (d1, [], update_failure e)
             | (None, Inr snapshot) \<Rightarrow>
                 (publish_update_snapshot ''pam.update.changed'' snapshot d1, [], update_success snapshot)))"

definition update_check :: "'d outside \<Rightarrow> 'd Desktop \<Rightarrow> headers \<Rightarrow> string \<Rightarrow> 'd handled" where
  "update_check x d = update_operation (updater_check (dk_updater_host d) (ox_fetched x)) x d"

definition update_download :: "'d outside \<Rightarrow> 'd Desktop \<Rightarrow> headers \<Rightarrow> string \<Rightarrow> 'd handled" where
  "update_download x d = update_operation (updater_download (dk_updater_host d) (ox_download x)) x d"

text \<open>The exit is sent 150 milliseconds after the answer.\<close>

definition installer_effect :: "(string \<times> string \<times> string) option \<Rightarrow> effect list" where
  "installer_effect launched = (case launched of None \<Rightarrow> [] | Some call \<Rightarrow> [InstallerStarted call])"

definition update_install :: "'d outside \<Rightarrow> 'd Desktop \<Rightarrow> headers \<Rightarrow> string \<Rightarrow> 'd handled" where
  "update_install x d headers window_id =
     guarded d headers window_id update_window
       (case updater_install (dk_updater_host d) (ox_launched x) (dk_updater d) of
          (s, launched, result) \<Rightarrow>
            (let d1 = d\<lparr>dk_updater := s\<rparr>; begun = installer_effect launched in
             case (ox_panic x, result) of
               (Some e, _) \<Rightarrow> (d1, begun, update_failure
                 (update_error UpdateInstallFailed (''The update install task failed: '' @ e)))
             | (None, Inl e) \<Rightarrow> (d1, begun, update_failure e)
             | (None, Inr snapshot) \<Rightarrow>
                 (on_gateway (\<lambda>st. send_event st Exit)
                    (publish_update_snapshot ''pam.update.applying'' snapshot d1),
                  begun, update_success snapshot)))"

definition updater_policy :: "'d Desktop \<Rightarrow> UpdatePolicy option" where
  "updater_policy d = map_option uc_policy (uh_config (dk_updater_host d))"

text \<open>The thread of the policy, when nothing else uses the updater meanwhile.\<close>

definition policy_install :: "'d outside \<Rightarrow> 'd Desktop \<Rightarrow> 'd Desktop \<times> effect list" where
  "policy_install x d =
     (case updater_install (dk_updater_host d) (ox_launched x) (dk_updater d) of
        (s, launched, Inl e) \<Rightarrow>
          (publish_update_error e (d\<lparr>dk_updater := s\<rparr>), installer_effect launched)
      | (s, launched, Inr snapshot) \<Rightarrow>
          (on_gateway (\<lambda>st. send_event st Exit)
             (publish_update_snapshot ''pam.update.applying'' snapshot (d\<lparr>dk_updater := s\<rparr>)),
           installer_effect launched))"

definition policy_download :: "'d outside \<Rightarrow> 'd Desktop \<Rightarrow> 'd Desktop \<times> effect list" where
  "policy_download x d =
     (case updater_download (dk_updater_host d) (ox_download x) (dk_updater d) of
        (s, Inl e) \<Rightarrow> (publish_update_error e (d\<lparr>dk_updater := s\<rparr>), [])
      | (s, Inr snapshot) \<Rightarrow>
          policy_install x (publish_update_snapshot ''pam.update.ready'' snapshot (d\<lparr>dk_updater := s\<rparr>)))"

definition start_update_policy :: "'d outside \<Rightarrow> 'd Desktop \<Rightarrow> 'd Desktop \<times> effect list" where
  "start_update_policy x d =
     (case updater_policy d of
        None \<Rightarrow> (d, [])
      | Some policy \<Rightarrow>
          if policy = UpdatePolicy.Manual then (d, [])
          else (case updater_check (dk_updater_host d) (ox_fetched x) (dk_updater d) of
              (s, Inl e) \<Rightarrow> (publish_update_error e (d\<lparr>dk_updater := s\<rparr>), [])
            | (s, Inr snapshot) \<Rightarrow>
                (let d1 = publish_update_snapshot ''pam.update.changed'' snapshot (d\<lparr>dk_updater := s\<rparr>) in
                 if policy = UpdatePolicy.Automatic \<and> us_state snapshot = UpdateState.Available
                 then policy_download x d1 else (d1, []))))"

section \<open>Plugins\<close>

record PluginBridgeRequest =
  bq_request_id :: u64
  bq_window_id :: string
  bq_plugin :: string
  bq_command :: string
  bq_timeout_ms :: "u64 option"
  bq_payload :: json

definition plugin_invoke :: "'d outside \<Rightarrow> 'd Desktop \<Rightarrow> headers \<Rightarrow> PluginBridgeRequest \<Rightarrow> 'd handled" where
  "plugin_invoke x d headers q =
     (let st = dk_gateway d in
      if \<not> authorized st headers then (d, [], unauthorized_response)
      else if bq_request_id q = 0 \<or> \<not> has_window st (bq_window_id q) \<or>
        validate_identifier (bq_plugin q) ''plugin'' \<noteq> Inr () \<or>
        validate_identifier (bq_command q) ''plugin command'' \<noteq> Inr ()
      then (d, [], client_failure 400 InvalidMessage ''The Rust plugin invocation identity is invalid.'')
      else let timeout_ms = (case bq_timeout_ms q of None \<Rightarrow> default_timeout_ms st | Some t \<Rightarrow> t) in
        if \<not> between MIN_COMMAND_TIMEOUT_MS MAX_COMMAND_TIMEOUT_MS timeout_ms
        then (d, [], client_failure 400 InvalidPayload
          ''The Rust plugin timeout is outside the allowed range.'')
        else let key = \<lparr>rk_window_id = bq_window_id q, rk_request_id = bq_request_id q\<rparr> in
          case register st key of
            (st1, Inl conflict) \<Rightarrow> (d\<lparr>dk_gateway := st1\<rparr>, [], conflict)
          | (st1, Inr token) \<Rightarrow>
              (case plugins_invoke (ox_plugin_host x) (gs_plugins st1) (bq_plugin q) (bq_command q)
                  (bq_payload q) (Some (unat timeout_ms * 1000000)) (ox_plugin_before x)
                  (ox_plugin_exchange x) (ox_plugin_after x) of
                 (ps, sent, result) \<Rightarrow>
                   (let st2 = st1\<lparr>gs_plugins := ps, gs_cancellations := (gs_cancellations st1)(key := None)\<rparr>;
                        d2 = d\<lparr>dk_gateway := st2\<rparr>
                    in case (ox_panic x, result) of
                         (Some e, _) \<Rightarrow> (d2, map PluginSent sent, plugin_error_response
                           \<lparr>pl_code = PluginFailed, pl_message = ''The Rust plugin task failed: '' @ e\<rparr>)
                       | (None, Inl e) \<Rightarrow> (d2, map PluginSent sent, plugin_error_response e)
                       | (None, Inr invocation) \<Rightarrow>
                           (foldl announce_event d2 (pi_events invocation), map PluginSent sent,
                            native_success (pi_payload invocation)))))"

end
