(* ===== verification/DesktopLife.thy ===== *)
theory DesktopLife
  imports DesktopControl
begin

text \<open>
  \<open>gateway.rs\<close>, the life of the desktop: events of the host for PHP, the start of the gateway, its
  reloads, all requests of pages as one step, and the routes of what a page loads.
\<close>

section \<open>Events for PHP\<close>

definition shell_error :: "ErrorCode \<Rightarrow> string \<Rightarrow> ClientEvent" where
  "shell_error code message = window_event ''pam.shell.error'' (error_payload code message) None"

definition dispatch_php_event ::
    "host \<Rightarrow> call_env \<Rightarrow> string \<Rightarrow> json \<Rightarrow> GatewayState \<Rightarrow> GatewayState \<times> RequestEnvelope list" where
  "dispatch_php_event h env name payload st =
     (case worker_call h (gs_supervisor st) EVENT_COMMAND MAIN_WINDOW_ID
         (JObject [(''name'', JString name), (''payload'', payload)]) (default_timeout_ms st) env of
        (s, sent, result) \<Rightarrow>
          (let st1 = st\<lparr>gs_supervisor := s\<rparr> in
           (case result of
              Inl e \<Rightarrow> publish_event st1 (shell_error WorkerUnavailable (worker_error_text e))
            | Inr response \<Rightarrow>
                if rs_status response = ResponseStatus.Success then process_response st1 response
                else (case rs_error response of
                    None \<Rightarrow> publish_event st1 (shell_error HandlerFailed ''PHP worker rejected a native event.'')
                  | Some e \<Rightarrow>
                      if pe_code e = UnknownEvent then st1
                      else publish_event st1 (shell_error HandlerFailed (pe_message e))),
            sent)))"

definition dispatch_native_event ::
    "host \<Rightarrow> call_env \<Rightarrow> string \<Rightarrow> json \<Rightarrow> GatewayState \<Rightarrow> GatewayState \<times> RequestEnvelope list" where
  "dispatch_native_event h env name payload st =
     dispatch_php_event h env name payload (publish_event st (window_event name payload None))"

section \<open>Development events\<close>

fun EventCode_code :: "EventCode \<Rightarrow> nat" where
  "EventCode_code SessionStarting = 1"
| "EventCode_code SessionReady = 2"
| "EventCode_code ChangeDetected = 3"
| "EventCode_code ReloadStarted = 4"
| "EventCode_code ReloadSucceeded = 5"
| "EventCode_code ReloadFailed = 6"
| "EventCode_code RuntimeExited = 7"
| "EventCode_code SessionStopped = 8"

text \<open>\<open>variable\<close> is \<open>PAM_DEV_EVENTS\<close>; the envelope around an event is left out.\<close>

definition dev_emit :: "string option \<Rightarrow> EventCode \<Rightarrow> json \<Rightarrow> effect list" where
  "dev_emit variable code data =
     (if (case variable of None \<Rightarrow> False
          | Some v \<Rightarrow> to_ascii_lowercase v \<in> set [''1'', ''json'', ''jsonl''])
      then [DevEvent code data] else [])"

section \<open>The parts of a runtime\<close>

record 'd start_env =
  st_host :: host
  st_fs :: filesystem
  st_port :: "string + nat"
  st_random :: "string + u8 list"
  st_sqlite :: "'d sqlite"
  st_database_files :: database_files
  st_http :: http_packages
  st_os :: native_os
  st_unix :: bool
  st_mode_of :: "string \<Rightarrow> u32"
  st_search :: "string + 'd"
  st_codec :: grant_codec
  st_files :: grant_files
  st_platform :: string
  st_variables :: "string \<Rightarrow> string option"
  st_sha256 :: "string \<Rightarrow> string"
  st_updater_host :: "ApplicationManifest \<Rightarrow> updater_host"
  st_otlp :: "string + exporter option"
  st_pool :: "nat \<Rightarrow> spawn_env"
  st_scheduler :: "BackgroundJobConfig list \<Rightarrow> string option"
  st_thread :: "string + unit"
  st_watcher :: "string + unit"
  st_descriptor :: descriptor_codec
  st_session :: session_env
  st_session_files :: session_files
  st_restart :: spawn_env

record 'd runtime =
  rt_native :: NativeServices
  rt_databases :: "'d databases"
  rt_origins :: http_services
  rt_processes :: ProcessServices
  rt_search :: 'd

definition prepare_services ::
    "'d start_env \<Rightarrow> string \<Rightarrow> NativeCapabilities \<Rightarrow>
     string + 'd databases \<times> http_services \<times> ProcessServices \<times> 'd" where
  "prepare_services env root c =
     rbind (databases_prepare (st_sqlite env) (st_database_files env) root (nc_databases c) Map.empty [])
       (\<lambda>(handles, _).
     rbind (http_prepare (st_http env) (nc_http_origins c)) (\<lambda>origins.
     rbind (prepare_processes (st_os env) (st_unix env) (st_mode_of env) root (nc_processes c)) (\<lambda>processes.
     rbind (st_search env) (\<lambda>index. Inr (handles, origins, processes, index)))))"

text \<open>\<open>NativeServices::prepare\<close>.\<close>

definition prepare_runtime ::
    "'d start_env \<Rightarrow> grant_files \<Rightarrow> string \<Rightarrow> string \<Rightarrow> NativeCapabilities \<Rightarrow> string + 'd runtime" where
  "prepare_runtime env files root application_id c =
     (let services = prepare_services env root c;
          store = persistent_grants_path (st_platform env) (st_variables env) application_id
      in case native_prepare (hs_parse_url (st_host env)) (st_os env) (st_codec env) (probe_store files) store
           (map_sum id (\<lambda>_. ()) services) root c of
        Inl (Inl _) \<Rightarrow> Inl ''invalid capabilities''
      | Inl (Inr e) \<Rightarrow> Inl e
      | Inr ns \<Rightarrow> rbind services (\<lambda>(handles, origins, processes, index).
          Inr \<lparr>rt_native = ns, rt_databases = handles, rt_origins = origins, rt_processes = processes,
            rt_search = index\<rparr>))"

text \<open>
  Dropping a scheduler cancels its runs and joins its threads.  The new scheduler has started its
  threads before the old one is dropped; one that cannot be started leaves the one that runs.
\<close>

definition stop_scheduler :: "'d Desktop \<Rightarrow> effect list" where
  "stop_scheduler d = (case dk_scheduler d of None \<Rightarrow> [] | Some jobs \<Rightarrow> [SchedulerStopped jobs])"

definition replace_scheduler ::
    "'d start_env \<Rightarrow> BackgroundJobConfig list \<Rightarrow> 'd Desktop \<Rightarrow> 'd Desktop \<times> effect list \<times> (string + unit)" where
  "replace_scheduler env jobs d =
     (case st_scheduler env jobs of
        Some e \<Rightarrow> (d, [], Inl e)
      | None \<Rightarrow> (d\<lparr>dk_scheduler := Some jobs\<rparr>, SchedulerStarted jobs # stop_scheduler d, Inr ()))"

section \<open>Start\<close>

definition gateway_url :: "nat \<Rightarrow> string" where
  "gateway_url port = ''http://127.0.0.1:'' @ decimal port @ ''/''"

definition assemble ::
    "'d start_env \<Rightarrow> Project \<Rightarrow> WorkerSupervisor \<Rightarrow> Bootstrap \<Rightarrow> bool \<Rightarrow> bool \<Rightarrow> string + 'd Desktop" where
  "assemble env project supervisor b watch snapshot_hit =
     (let files = st_files env in
     rbind (project_validate_bootstrap (st_fs env) (hs_parse_url (st_host env)) (hs_debug (st_host env))
       project b) (\<lambda>_.
     rbind (public_root (st_fs env) project) (\<lambda>public.
     rbind (st_port env) (\<lambda>port.
     rbind (secure_token (st_random env)) (\<lambda>token.
     rbind (prepare_runtime env files (pj_root project) (am_identifier (bs_manifest b)) (bs_capabilities b))
       (\<lambda>runtime.
     rbind (plugins_prepare (st_fs env) (st_sha256 env) project (bs_rust_plugins b)) (\<lambda>plugins.
     rbind (st_otlp env) (\<lambda>otlp.
     rbind (pool_prepare (st_host env) (st_pool env) (requested_parallel_count b)) (\<lambda>pool.
       Inr \<lparr>dk_gateway =
          \<lparr>gs_project = project, gs_public_root = public,
           gs_origin = trim_end_slashes (gateway_url port), gs_token = token, gs_bootstrap = b,
           gs_supervisor = supervisor, gs_pool = pool, gs_cancellations = Map.empty,
           gs_cancelled = {}, gs_next_token = 0, gs_events = empty_hub, gs_loop_open = True,
           gs_sent = [], gs_native = rt_native runtime, gs_plugins = plugins,
           gs_metrics = GatewayMetrics_default, gs_otlp = otlp, gs_development = watch,
           gs_startup_snapshot_hit = snapshot_hit\<rparr>,
         dk_files = files,
         dk_databases = rt_databases runtime, dk_origins = rt_origins runtime,
         dk_processes = rt_processes runtime, dk_search = rt_search runtime,
         dk_watches = Map.empty, dk_updater_host = st_updater_host env (bs_manifest b),
         dk_updater = updater_prepare (bs_manifest b), dk_scheduler = None\<rparr>)))))))))"

text \<open>
  A development host publishes the descriptor of its diagnostic session, for its first window, with
  the address it was given.
\<close>

definition start_session :: "'d start_env \<Rightarrow> string \<Rightarrow> GatewayState \<Rightarrow> string + effect list" where
  "start_session env url st =
     (case bs_windows (gs_bootstrap st) of
        [] \<Rightarrow> Inl ''desktop project has no diagnostic source window''
      | window # _ \<Rightarrow>
          (case create_session (st_descriptor env) (st_session env) url (gs_token st) (wc_id window)
              (st_session_files env) of
             (files, Inl e) \<Rightarrow> Inl e
           | (files, Inr session) \<Rightarrow> Inr [SessionPublished files session]))"

text \<open>\<open>assemble\<close> has bound the port, so \<open>st_port\<close> names it.\<close>

definition gateway_start ::
    "'d start_env \<Rightarrow> 'd outside \<Rightarrow> Project \<Rightarrow> WorkerSupervisor \<Rightarrow> Bootstrap \<Rightarrow> bool \<Rightarrow> bool \<Rightarrow>
     string + 'd Desktop \<times> effect list" where
  "gateway_start env x project supervisor b watch snapshot_hit =
     rbind (assemble env project supervisor b watch snapshot_hit) (\<lambda>d.
     rbind (st_port env) (\<lambda>port.
     (case (if ws_background_agent (bs_workstation b) then (d, [], Inr ())
            else replace_scheduler env (bs_background_jobs b) d) of
        (d1, begun, Inl e) \<Rightarrow> Inl e
      | (d1, begun, Inr _) \<Rightarrow>
          rbind (st_thread env) (\<lambda>_.
          rbind (if watch then st_watcher env else Inr ()) (\<lambda>_.
          rbind (if watch then start_session env (gateway_url port) (dk_gateway d1) else Inr []) (\<lambda>published.
            case start_update_policy x d1 of (d2, installer) \<Rightarrow> Inr (d2, begun @ published @ installer)))))))"

definition window_url :: "string \<Rightarrow> string \<Rightarrow> verror + string" where
  "window_url url window_id =
     rbind (validate_identifier window_id ''window'') (\<lambda>_. Inr (url @ ''_pam/window/'' @ window_id))"

section \<open>Reload\<close>

fun reload_code :: "ChangeKind \<Rightarrow> int" where
  "reload_code Assets = 1"
| "reload_code Runtime = 2"

definition reload_data :: "int \<Rightarrow> json" where
  "reload_data code = JObject [(''reloadCode'', JInt code)]"

definition reloaded_event :: "int \<Rightarrow> ClientEvent" where
  "reloaded_event kind = window_event ''pam.dev.reloaded'' (JObject [(''kind'', JInt kind)]) None"

definition reloaded_parts ::
    "'d start_env \<Rightarrow> grant_files \<Rightarrow> Project \<Rightarrow> string + Bootstrap \<Rightarrow>
     string + Bootstrap \<times> 'd runtime \<times> plugins \<times> WorkerPool" where
  "reloaded_parts env files project restarted =
     rbind restarted (\<lambda>b.
     rbind (project_validate_bootstrap (st_fs env) (hs_parse_url (st_host env)) (hs_debug (st_host env))
       project b) (\<lambda>_.
     rbind (prepare_runtime env files (pj_root project) (am_identifier (bs_manifest b)) (bs_capabilities b))
       (\<lambda>runtime.
     rbind (plugins_prepare (st_fs env) (st_sha256 env) project (bs_rust_plugins b)) (\<lambda>plugins.
     rbind (pool_prepare (st_host env) (st_pool env) (requested_parallel_count b)) (\<lambda>pool.
       Inr (b, runtime, plugins, pool))))))"

definition install_parts ::
    "'d start_env \<Rightarrow> Bootstrap \<Rightarrow> 'd runtime \<Rightarrow> plugins \<Rightarrow> WorkerPool \<Rightarrow> 'd Desktop \<Rightarrow> 'd Desktop" where
  "install_parts env b runtime plugins pool d =
     d\<lparr>dk_gateway := (dk_gateway d)\<lparr>gs_native := rt_native runtime, gs_bootstrap := b,
         gs_plugins := plugins, gs_pool := pool\<rparr>,
       dk_databases := rt_databases runtime, dk_origins := rt_origins runtime,
       dk_processes := rt_processes runtime, dk_search := rt_search runtime,
       dk_updater_host := st_updater_host env (bs_manifest b),
       dk_updater := updater_prepare (bs_manifest b)\<rparr>"

text \<open>A failed start of the agent or of the scheduler is printed and nothing more.\<close>

definition reload_background :: "'d start_env \<Rightarrow> Bootstrap \<Rightarrow> 'd Desktop \<Rightarrow> 'd Desktop \<times> effect list" where
  "reload_background env b d =
     (let application_id = am_identifier (bs_manifest b) in
      if ws_background_agent (bs_workstation b)
      then (d\<lparr>dk_scheduler := None\<rparr>, stop_scheduler d @ [AgentSpawned application_id])
      else (case replace_scheduler env (bs_background_jobs b) d of
          (d1, schedules, _) \<Rightarrow> (d1, AgentStopped application_id # schedules)))"

definition finish_runtime_reload ::
    "'d start_env \<Rightarrow> 'd outside \<Rightarrow> int \<Rightarrow> string + Bootstrap \<times> 'd runtime \<times> plugins \<times> WorkerPool \<Rightarrow>
     'd Desktop \<Rightarrow> 'd Desktop \<times> effect list" where
  "finish_runtime_reload env x code result d =
     (let dev = dev_emit (st_variables env ''PAM_DEV_EVENTS'') in
      case result of
        Inr (b, runtime, plugins, pool) \<Rightarrow>
          (case reload_background env b (install_parts env b runtime plugins pool d) of
             (d1, agent) \<Rightarrow>
               (case start_update_policy x (on_gateway (\<lambda>st. send_event st (Reconfigure b)) d1) of
                  (d2, installer) \<Rightarrow>
                    (announce_event d2 (reloaded_event 2),
                     agent @ installer @ dev ReloadSucceeded (reload_data code))))
      | Inl e \<Rightarrow>
          (announce_event d (window_event ''pam.dev.error'' (JObject [(''message'', JString e)]) None),
           dev ReloadFailed (JObject [(''reloadCode'', JInt code), (''message'', JString e)])))"

definition reload :: "'d start_env \<Rightarrow> 'd outside \<Rightarrow> ChangeKind \<Rightarrow> 'd Desktop \<Rightarrow> 'd Desktop \<times> effect list" where
  "reload env x kind d =
     (let code = reload_code kind; dev = dev_emit (st_variables env ''PAM_DEV_EVENTS'');
          begun = dev ChangeDetected (reload_data code) @ dev ReloadStarted (reload_data code)
      in case kind of
           Assets \<Rightarrow>
             (announce_event (on_gateway (\<lambda>st. send_event st ReloadViews) d) (reloaded_event 1),
              begun @ dev ReloadSucceeded (reload_data code))
         | Runtime \<Rightarrow>
             (case supervisor_restart (st_host env) (gs_supervisor (dk_gateway d)) (st_restart env) of
                (s, sent, restarted) \<Rightarrow>
                  (case finish_runtime_reload env x code
                      (reloaded_parts env (dk_files d) (gs_project (dk_gateway d)) restarted)
                      (on_gateway (\<lambda>st. st\<lparr>gs_supervisor := s\<rparr>) d) of
                     (d', effects) \<Rightarrow> (d', begun @ map WorkerSent sent @ effects))))"

text \<open>A reload serves another configuration exactly when the restarted application is accepted.\<close>

definition reload_accepted :: "'d start_env \<Rightarrow> ChangeKind \<Rightarrow> 'd Desktop \<Rightarrow> bool" where
  "reload_accepted env kind d \<longleftrightarrow> kind = Runtime \<and>
     (case supervisor_restart (st_host env) (gs_supervisor (dk_gateway d)) (st_restart env) of
        (s, sent, restarted) \<Rightarrow>
          \<exists>parts. reloaded_parts env (dk_files d) (gs_project (dk_gateway d)) restarted = Inr parts)"

section \<open>A request of a page\<close>

datatype page_request =
    Invoke InvokeRequest
  | Emit EmitRequest
  | Cancel CancelRequest
  | PollEvents u64 string
  | Filesystem FileRequest
  | ReadStream string FileTarget
  | WriteStream
  | OpenDialog DialogBridgeRequest
  | Clipboard ClipboardRequest
  | Notify NotificationRequest
  | Database string DatabaseRequest
  | SystemInformation string
  | SendHttp string HttpRequest
  | Secrets string SecretRequest
  | StartProcess string ProcessRequest
  | Search string SearchRequest "FileTarget option"
  | FileWatch FileWatchRequest
  | Portal DesktopPortalRequest
  | Diagnose string
  | Automate AutomationRequest
  | FrameSample string u64
  | UpdateStatus string
  | UpdateCheck string
  | UpdateDownload string
  | UpdateInstall string
  | PluginInvoke PluginBridgeRequest

definition gateway_step ::
    "'d Desktop \<Rightarrow> GatewayState \<times> RequestEnvelope list \<times> http_response \<Rightarrow>
     'd Desktop \<times> effect list \<times> http_response option" where
  "gateway_step d r = (case r of (st, sent, response) \<Rightarrow>
     (d\<lparr>dk_gateway := st\<rparr>, map WorkerSent sent, Some response))"

definition answered_step :: "'d handled \<Rightarrow> 'd Desktop \<times> effect list \<times> http_response option" where
  "answered_step r = (case r of (d, effects, response) \<Rightarrow> (d, effects, Some response))"

text \<open>The routes of the page; a poll and a scan may still wait.\<close>

fun handle ::
    "(DiagnosticsSnapshot \<Rightarrow> json) \<Rightarrow> 'd outside \<Rightarrow> 'd Desktop \<Rightarrow> headers \<Rightarrow> page_request \<Rightarrow>
     'd Desktop \<times> effect list \<times> http_response option" where
  "handle encode x d hs (Invoke q) = gateway_step d (invoke (ox_host x) (dk_gateway d) hs q (ox_request x))"
| "handle encode x d hs (Emit q) = gateway_step d (emit (ox_host x) (dk_gateway d) hs q (ox_request x))"
| "handle encode x d hs (Cancel q) =
     (case cancel (dk_gateway d) hs q of (st, response) \<Rightarrow> (d\<lparr>dk_gateway := st\<rparr>, [], Some response))"
| "handle encode x d hs (PollEvents after window_id) =
     (d, [], events (dk_gateway d) hs after window_id (ox_rounds x) (ox_hub_later x))"
| "handle encode x d hs (Filesystem q) = answered_step (filesystem_handler x d hs q)"
| "handle encode x d hs (ReadStream w target) = answered_step (filesystem_read_stream x d hs w target)"
| "handle encode x d hs WriteStream = answered_step (filesystem_write_stream x d hs)"
| "handle encode x d hs (OpenDialog q) = answered_step (dialog x d hs q)"
| "handle encode x d hs (Clipboard q) = answered_step (clipboard_handler x d hs q)"
| "handle encode x d hs (Notify q) = answered_step (notification_handler x d hs q)"
| "handle encode x d hs (Database w q) = answered_step (database_handler x d hs w q)"
| "handle encode x d hs (SystemInformation w) = answered_step (system_information x d hs w)"
| "handle encode x d hs (SendHttp w q) = answered_step (http_handler x d hs w q)"
| "handle encode x d hs (Secrets w q) = answered_step (secrets_handler x d hs w q)"
| "handle encode x d hs (StartProcess w q) = answered_step (process_handler x d hs w q)"
| "handle encode x d hs (Search w q target) = answered_step (search_handler x d hs w q target)"
| "handle encode x d hs (FileWatch q) = answered_step (file_watch_handler x d hs q)"
| "handle encode x d hs (Portal q) = desktop_portal x d hs q"
| "handle encode x d hs (Diagnose w) = answered_step (diagnostics encode x d hs w)"
| "handle encode x d hs (Automate q) = answered_step (automation x d hs q)"
| "handle encode x d hs (FrameSample w n) = answered_step (performance_frame d hs w n)"
| "handle encode x d hs (UpdateStatus w) = answered_step (update_status d hs w)"
| "handle encode x d hs (UpdateCheck w) = answered_step (update_check x d hs w)"
| "handle encode x d hs (UpdateDownload w) = answered_step (update_download x d hs w)"
| "handle encode x d hs (UpdateInstall w) = answered_step (update_install x d hs w)"
| "handle encode x d hs (PluginInvoke q) = answered_step (plugin_invoke x d hs q)"

text \<open>The routes of what a page loads; \<open>assets\<close> are the files the binary includes.\<close>

record assets =
  as_bridge :: string
  as_workstation_js :: string
  as_workstation_css :: string
  as_inspector_html :: string
  as_inspector_css :: string
  as_inspector_js :: string

datatype page_get =
    GetMain
  | GetWindow string
  | GetBridge
  | GetWorkstationJs
  | GetWorkstationCss
  | GetInspector
  | GetInspectorCss
  | GetInspectorJs
  | GetAsset string

fun serve_get ::
    "assets \<Rightarrow> (string \<Rightarrow> string) \<Rightarrow> (CommandConfig list \<Rightarrow> string option) \<Rightarrow> filesystem \<Rightarrow> GatewayState \<Rightarrow>
     page_get \<Rightarrow> http_response" where
  "serve_get a encode encode_commands fs st GetMain = snd (serve_window_entry fs st MAIN_WINDOW_ID)"
| "serve_get a encode encode_commands fs st (GetWindow w) = snd (serve_window_entry fs st w)"
| "serve_get a encode encode_commands fs st GetBridge = serve_bridge (as_bridge a) encode encode_commands st"
| "serve_get a encode encode_commands fs st GetWorkstationJs =
     secure_response 200 ''text/javascript; charset=utf-8'' (TextBody (as_workstation_js a))"
| "serve_get a encode encode_commands fs st GetWorkstationCss =
     secure_response 200 ''text/css; charset=utf-8'' (TextBody (as_workstation_css a))"
| "serve_get a encode encode_commands fs st GetInspector =
     serve_inspector ''text/html; charset=utf-8'' (as_inspector_html a) st"
| "serve_get a encode encode_commands fs st GetInspectorCss =
     serve_inspector ''text/css; charset=utf-8'' (as_inspector_css a) st"
| "serve_get a encode encode_commands fs st GetInspectorJs =
     serve_inspector ''text/javascript; charset=utf-8'' (as_inspector_js a) st"
| "serve_get a encode encode_commands fs st (GetAsset path) = snd (serve_file fs st path)"

text \<open>The window a request names.\<close>

fun request_window :: "headers \<Rightarrow> page_request \<Rightarrow> string option" where
  "request_window hs (Invoke q) = Some (iq_window_id q)"
| "request_window hs (Emit q) = Some (eq_window_id q)"
| "request_window hs (Cancel q) = Some (cq_window_id q)"
| "request_window hs (PollEvents after w) = Some w"
| "request_window hs (Filesystem q) = Some (fq_window_id q)"
| "request_window hs (ReadStream w target) = Some w"
| "request_window hs WriteStream = hs ''x-pam-window''"
| "request_window hs (OpenDialog q) = Some (dr_window_id q)"
| "request_window hs (Clipboard q) = Some (cb_window_id q)"
| "request_window hs (Notify q) = Some (nr_window_id q)"
| "request_window hs (Database w q) = Some w"
| "request_window hs (SystemInformation w) = Some w"
| "request_window hs (SendHttp w q) = Some w"
| "request_window hs (Secrets w q) = Some w"
| "request_window hs (StartProcess w q) = Some w"
| "request_window hs (Search w q target) = Some w"
| "request_window hs (FileWatch q) = Some (wq_window_id q)"
| "request_window hs (Portal q) = Some (pq_window_id q)"
| "request_window hs (Diagnose w) = Some w"
| "request_window hs (Automate q) = Some (aq_window_id q)"
| "request_window hs (FrameSample w n) = Some w"
| "request_window hs (UpdateStatus w) = Some w"
| "request_window hs (UpdateCheck w) = Some w"
| "request_window hs (UpdateDownload w) = Some w"
| "request_window hs (UpdateInstall w) = Some w"
| "request_window hs (PluginInvoke q) = Some (bq_window_id q)"

section \<open>The states a desktop reaches\<close>

text \<open>
  A desktop that was started and then served requests, heard of drags and host events, and was
  reloaded, in any order and with any answers of the outside.  The relation keeps the environment in
  which the parts that are served were prepared: that of the start, or of the last reload that was
  accepted.
\<close>

inductive reached :: "'d start_env \<Rightarrow> 'd Desktop \<Rightarrow> bool" where
  started: "gateway_start env x project supervisor b watch hit = Inr (d, effects) \<Longrightarrow> reached env d"
| requested: "reached env d \<Longrightarrow> handle encode x d hs q = (d', effects, response) \<Longrightarrow> reached env d'"
| hovered: "reached env d \<Longrightarrow> reached env (drag_hover x d window path)"
| dropped: "reached env d \<Longrightarrow> reached env (drag_drop x d window path)"
| left: "reached env d \<Longrightarrow> reached env (drag_leave d window)"
| notified: "reached env d \<Longrightarrow> dispatch_native_event h env' name payload (dk_gateway d) = (st, sent) \<Longrightarrow>
    reached env (d\<lparr>dk_gateway := st\<rparr>)"
| reloaded: "reached env d \<Longrightarrow> reload env' x kind d = (d', effects) \<Longrightarrow>
    reached (if reload_accepted env' kind d then env' else env) d'"

end
