(* ===== verification/DesktopClaims.thy ===== *)
theory DesktopClaims
  imports DesktopLife
begin

text \<open>
  What the handlers promise together: a request that is not the page's own has no effect, every
  answer carries the security headers, and files are served from the public directory only.
\<close>

section \<open>Requests that are refused\<close>

lemma guarded_refused:
  "\<not> authorized (dk_gateway d) hs \<or> \<not> has_window (dk_gateway d) w \<Longrightarrow>
     \<exists>r. guarded d hs w m continue = (d, [], r)"
  by (auto simp: guarded_def refused_def split: option.splits)

lemma execute_request_refused:
  "\<not> has_window st w \<Longrightarrow>
     \<exists>r. execute_request h st n w t command payload parent env = (st, [], r)"
  by (simp add: execute_request_def begin_request_def)

lemma handled_refused:
  assumes "\<not> authorized (dk_gateway d) hs \<or> \<not> has_window (dk_gateway d) w"
  shows "\<exists>r. filesystem_read_stream x d hs w target = (d, [], r)"
    "\<exists>r. database_handler x d hs w dq = (d, [], r)"
    "\<exists>r. system_information x d hs w = (d, [], r)"
    "\<exists>r. http_handler x d hs w hq = (d, [], r)"
    "\<exists>r. secrets_handler x d hs w sq = (d, [], r)"
    "\<exists>r. process_handler x d hs w pq = (d, [], r)"
    "\<exists>r. search_handler x d hs w rq t = (d, [], r)"
    "\<exists>r. diagnostics encode x d hs w = (d, [], r)"
    "\<exists>r. performance_frame d hs w n = (d, [], r)"
    "\<exists>r. update_status d hs w = (d, [], r)"
    "\<exists>r. update_check x d hs w = (d, [], r)"
    "\<exists>r. update_download x d hs w = (d, [], r)"
    "\<exists>r. update_install x d hs w = (d, [], r)"
  using guarded_refused [OF assms]
  by (simp_all add: filesystem_read_stream_def database_handler_def system_information_def
      http_handler_def secrets_handler_def process_handler_def search_handler_def diagnostics_def
      update_status_def update_check_def update_download_def update_operation_def update_install_def)
    (use assms in \<open>simp_all add: performance_frame_def\<close>)

lemma handled_refused_requests:
  "\<not> authorized (dk_gateway d) hs \<or> \<not> has_window (dk_gateway d) (fq_window_id fq) \<Longrightarrow>
     \<exists>r. filesystem_handler x d hs fq = (d, [], r)"
  "\<not> authorized (dk_gateway d) hs \<or> \<not> has_window (dk_gateway d) (dr_window_id dq) \<Longrightarrow>
     \<exists>r. dialog x d hs dq = (d, [], r)"
  "\<not> authorized (dk_gateway d) hs \<or> \<not> has_window (dk_gateway d) (cb_window_id cq) \<Longrightarrow>
     \<exists>r. clipboard_handler x d hs cq = (d, [], r)"
  "\<not> authorized (dk_gateway d) hs \<or> \<not> has_window (dk_gateway d) (nr_window_id nq) \<Longrightarrow>
     \<exists>r. notification_handler x d hs nq = (d, [], r)"
  "\<not> authorized (dk_gateway d) hs \<or> \<not> has_window (dk_gateway d) (wq_window_id wq) \<Longrightarrow>
     \<exists>r. file_watch_handler x d hs wq = (d, [], r)"
  "\<not> authorized (dk_gateway d) hs \<or> \<not> has_window (dk_gateway d) (pq_window_id pq) \<Longrightarrow>
     \<exists>r. desktop_portal x d hs pq = (d, [], Some r)"
  "\<not> authorized (dk_gateway d) hs \<or> \<not> has_window (dk_gateway d) (aq_window_id aq) \<Longrightarrow>
     \<exists>r. automation x d hs aq = (d, [], r)"
  "\<not> authorized (dk_gateway d) hs \<or> \<not> has_window (dk_gateway d) (bq_window_id bq) \<Longrightarrow>
     \<exists>r. plugin_invoke x d hs bq = (d, [], r)"
  by (simp_all add: filesystem_handler_def dialog_def clipboard_handler_def notification_handler_def
      file_watch_handler_def guarded_refused)
    (auto simp: desktop_portal_def refused_def automation_def plugin_invoke_def Let_def)

lemma gateway_step_refused: "gateway_step d (dk_gateway d, [], r) = (d, [], Some r)"
  by (simp add: gateway_step_def)

lemma answered_step_refused [simp]:
  "(\<exists>r. answered_step step = (d, [], r)) \<longleftrightarrow> (\<exists>r. step = (d, [], r))"
  by (cases step) (auto simp: answered_step_def)

lemma invoke_refused:
  assumes "\<not> authorized st hs \<or> \<not> has_window st (iq_window_id q)"
  shows "\<exists>r. invoke h st hs q env = (st, [], r)"
  using assms execute_request_refused by (auto simp: invoke_def split: option.splits)

lemma emit_refused:
  assumes "\<not> authorized st hs \<or> \<not> has_window st (eq_window_id q)"
  shows "\<exists>r. emit h st hs q env = (st, [], r)"
  using assms execute_request_refused by (auto simp: emit_def)

text \<open>
  The window of a cancellation is not looked up: it reaches a running command by the window and the
  number under which that command was registered.
\<close>

definition names_running_command :: "GatewayState \<Rightarrow> CancelRequest \<Rightarrow> bool" where
  "names_running_command st q \<longleftrightarrow>
     gs_cancellations st \<lparr>rk_window_id = cq_window_id q, rk_request_id = cq_request_id q\<rparr> \<noteq> None"

text \<open>
  C3. A request without the origin and the token of this gateway changes nothing and does nothing
  outside, whichever handler it is for, and neither does one for a window the application does not
  have.  The one exception to the second is a cancellation of a command that still runs for that window,
  as it can when a reload has removed the window.
\<close>

theorem refused_requests_have_no_effect:
  assumes "\<not> authorized (dk_gateway d) hs \<or>
      (\<exists>w. request_window hs q = Some w \<and> \<not> has_window (dk_gateway d) w \<and>
        (\<forall>c. q = Cancel c \<longrightarrow> \<not> names_running_command (dk_gateway d) c))"
    and "handle encode x d hs q = (d', effects, response)"
  shows "d' = d \<and> effects = []"
proof -
  have "\<exists>r. handle encode x d hs q = (d, [], r)"
  proof (cases q)
    case (Invoke i)
    then show ?thesis using assms(1) invoke_refused [of "dk_gateway d" hs i "ox_host x" "ox_request x"]
      by (auto simp: gateway_step_def)
  next
    case (Emit i)
    then show ?thesis using assms(1) emit_refused [of "dk_gateway d" hs i "ox_host x" "ox_request x"]
      by (auto simp: gateway_step_def)
  next
    case (Cancel c)
    then show ?thesis using assms(1) by (auto simp: cancel_def names_running_command_def)
  next
    case WriteStream
    then show ?thesis using assms(1)
      by (auto simp: filesystem_write_stream_def answered_step_def split: option.splits)
  next
    case (Portal p)
    then show ?thesis using assms(1) handled_refused_requests(6) [of d hs p x] by auto
  qed (use assms(1) in \<open>auto intro!: handled_refused handled_refused_requests\<close>)
  with assms(2) show ?thesis by auto
qed

section \<open>The headers of an answer\<close>

definition hardened :: "http_response \<Rightarrow> bool" where
  "hardened r \<longleftrightarrow> (''content-security-policy'', security_policy) \<in> set (hr_headers r) \<and>
     (''x-content-type-options'', ''nosniff'') \<in> set (hr_headers r) \<and>
     (''cache-control'', ''no-store, max-age=0'') \<in> set (hr_headers r)"

lemma hardened_secure [simp]: "hardened (secure_response status mime b)"
  by (simp add: hardened_def secure_response_def)

lemma hardened_built [simp]:
  "hardened (json_response status b)" "hardened (plain_response status t)" "hardened not_found"
  "hardened (client_failure status code m)" "hardened unauthorized_response"
  "hardened (native_success data)" "hardened (native_failure e)" "hardened (failure_answer response)"
  "hardened (plugin_error_response pe)" "hardened (update_failure ue)" "hardened (update_success us)"
  "hardened (worker_error_response we)"
  by (simp_all add: json_response_def plain_response_def not_found_def client_failure_def
      unauthorized_response_def native_success_def native_failure_def failure_answer_def
      plugin_error_response_def update_failure_def update_success_def)
    (cases we; simp add: client_failure_def json_response_def)

lemma hardened_joined [simp]: "hardened (joined panic r)" "hardened (native_answer r)"
  by (auto simp: joined_def native_task_def native_answer_def split: option.splits sum.splits)

lemma hardened_more [simp]: "hardened r \<Longrightarrow> hardened (r\<lparr>hr_headers := hr_headers r @ extra\<rparr>)"
  by (simp add: hardened_def)

lemma hardened_finish: "hardened (snd (finish_request st a elapsed spans result))"
  by (auto simp: finish_request_def Let_def split: sum.splits)

lemma hardened_begin: "begin_request st n i w t command parent = (st', Inl r) \<Longrightarrow> hardened r"
  by (auto simp: begin_request_def register_def Let_def split: if_splits prod.splits sum.splits)

lemma hardened_execute: "hardened (snd (snd (execute_request h st i w t command payload parent env)))"
proof (cases "begin_request st (re_elapsed_ms env) i w t command parent")
  case (Pair st1 r)
  show ?thesis
  proof (cases r)
    case (Inl response)
    with Pair show ?thesis by (simp add: execute_request_def hardened_begin)
  next
    case (Inr a)
    with Pair show ?thesis
      using hardened_finish by (simp add: execute_request_def split_beta)
  qed
qed

lemma hardened_guarded: "hardened (snd (snd continue)) \<Longrightarrow> hardened (snd (snd (guarded d hs w m continue)))"
  by (auto simp: guarded_def refused_def split: option.splits if_splits)

lemma hardened_register: "register st key = (st', Inl r) \<Longrightarrow> hardened r"
  by (auto simp: register_def Let_def split: if_splits)

lemma hardened_chunks: "write_chunks chunks n = (written, Inl r) \<Longrightarrow> hardened r"
  by (induction chunks n arbitrary: written rule: write_chunks.induct)
    (auto simp: Let_def split: if_splits option.splits prod.splits)

lemma hardened_stream_target: "stream_target x hs = Inl r \<Longrightarrow> hardened r"
  by (auto simp: stream_target_def split: option.splits if_splits)

lemma hardened_write_stream: "hardened (snd (snd (filesystem_write_stream x d hs)))"
  by (auto simp: filesystem_write_stream_def split: option.splits sum.splits prod.splits
      dest: hardened_stream_target hardened_chunks)

lemma hardened_gateway:
  "hardened (snd (snd (invoke h st hs iq env)))" "hardened (snd (snd (emit h st hs eq env)))"
  "hardened (snd (cancel st hs cq))"
  by (auto simp: invoke_def emit_def cancel_def Let_def hardened_execute split: option.splits)

lemma hardened_native:
  "hardened (snd (snd (filesystem_handler x d hs fq)))"
  "hardened (snd (snd (filesystem_read_stream x d hs w target)))"
  "hardened (snd (snd (clipboard_handler x d hs cq)))"
  "hardened (snd (snd (notification_handler x d hs nq)))"
  "hardened (snd (snd (database_handler x d hs w dq)))"
  "hardened (snd (snd (system_information x d hs w)))"
  "hardened (snd (snd (http_handler x d hs w hq)))"
  "hardened (snd (snd (secrets_handler x d hs w sq)))"
  "hardened (snd (snd (process_handler x d hs w pq)))"
  "hardened (snd (snd (search_handler x d hs w rq rt)))"
  "hardened (snd (snd (file_watch_handler x d hs wq)))"
  unfolding filesystem_handler_def filesystem_read_stream_def clipboard_handler_def
    notification_handler_def database_handler_def system_information_def http_handler_def
    secrets_handler_def process_handler_def search_handler_def file_watch_handler_def
  by (rule hardened_guarded, simp add: Let_def split: prod.splits sum.splits option.splits)+

lemma hardened_control:
  "hardened (snd (snd (dialog x d hs dq)))"
  "hardened (snd (snd (diagnostics encode x d hs w)))"
  "hardened (snd (snd (performance_frame d hs w n)))"
  "hardened (snd (snd (automation x d hs aq)))"
  "hardened (snd (snd (update_status d hs w)))"
  "hardened (snd (snd (update_operation operation x d hs w)))"
  "hardened (snd (snd (update_install x d hs w)))"
  "hardened (snd (snd (plugin_invoke x d hs bq)))"
  unfolding dialog_def diagnostics_def update_status_def update_operation_def update_install_def
  by (rule hardened_guarded, simp add: Let_def split: prod.splits sum.splits option.splits)
    (rule hardened_guarded, simp, simp add: performance_frame_def,
     simp add: automation_def Let_def split: prod.splits sum.splits option.splits,
     rule hardened_guarded, simp,
     rule hardened_guarded, simp add: Let_def split: prod.splits sum.splits option.splits,
     rule hardened_guarded, simp add: Let_def split: prod.splits sum.splits option.splits,
     auto simp: plugin_invoke_def Let_def split: prod.splits sum.splits option.splits
       dest: hardened_register)

lemma hardened_events: "events st hs after w rounds later = Some r \<Longrightarrow> hardened r"
  by (auto simp: events_def split: if_splits)

lemma hardened_portal: "desktop_portal x d hs q = (d', effects, Some r) \<Longrightarrow> hardened r"
  by (auto simp: desktop_portal_def refused_def split: option.splits prod.splits if_splits)

lemma answered_step_response: "answered_step step = (d', effects, Some r) \<Longrightarrow> r = snd (snd step)"
  by (cases step) (simp add: answered_step_def)

lemma gateway_step_response: "gateway_step d step = (d', effects, Some r) \<Longrightarrow> r = snd (snd step)"
  by (cases step) (simp add: gateway_step_def)

lemma hardened_handle:
  assumes "handle encode x d hs q = (d', effects, Some r)"
  shows "hardened r"
proof (cases q)
  case (Invoke i)
  then show ?thesis using assms hardened_gateway(1) by (auto dest!: gateway_step_response)
next
  case (Emit i)
  then show ?thesis using assms hardened_gateway(2) by (auto dest!: gateway_step_response)
next
  case (Cancel c)
  then show ?thesis using assms hardened_gateway(3) [of "dk_gateway d" hs c] by (auto split: prod.splits)
next
  case (PollEvents after w)
  then show ?thesis using assms by (auto dest: hardened_events)
next
  case (Portal p)
  then show ?thesis using assms by (auto dest: hardened_portal)
qed (use assms in \<open>auto dest!: answered_step_response
  simp: hardened_native hardened_control hardened_write_stream update_check_def update_download_def\<close>)

lemma hardened_loaded: "hardened (serve_get a encode encode_commands fs st g)"
  by (cases g) (auto simp: serve_window_entry_def serve_file_def serve_bridge_def serve_inspector_def Let_def
      split: option.splits sum.splits if_splits)

text \<open>
  C15. No answer lets a page load foreign scripts: what any route answers, to the requests of a page
  and for the files, entries, scripts and styles it loads, carries the content security policy
  of the application, forbids sniffing and is not stored.  (What the HTTP framework refuses before a
  handler runs is not modelled.)
\<close>

theorem answers_are_hardened:
  assumes "handle encode x d hs q = (d', effects, Some r) \<or>
    r = serve_get a encode_text encode_commands fs (dk_gateway d) g"
  shows "hardened r"
  using assms hardened_handle hardened_loaded by blast

section \<open>Files of the application\<close>

lemma serve_file_Some:
  assumes "serve_file fs st relative = (Some path, r)"
  shows "path_starts_with path (gs_public_root st) \<and> fs_is_file fs path \<and>
    fs_canonicalize fs (path_join (gs_public_root st) relative) = Some path \<and> hr_status r = 200"
  using assms by (auto simp: serve_file_def secure_response_def split: if_splits option.splits)

text \<open>
  C16. What a page is served, by its path or as the entry of a window, is a file whose resolved path
  lies in the public directory; everything else is answered with 404.
\<close>

theorem served_files_are_public:
  assumes "serve_file fs st relative = (read, r) \<or> serve_window_entry fs st window = (read, r)"
  shows "(case read of
      Some path \<Rightarrow> path_starts_with path (gs_public_root st) \<and> fs_is_file fs path \<and> hr_status r = 200
    | None \<Rightarrow> r = not_found)"
proof (cases read)
  case None
  with assms show ?thesis
    by (auto simp: serve_file_def serve_window_entry_def not_found_def split: if_splits option.splits sum.splits)
next
  case (Some path)
  with assms obtain relative' where "serve_file fs st relative' = (Some path, r)"
    by (auto simp: serve_window_entry_def split: option.splits sum.splits)
  with Some serve_file_Some show ?thesis by fastforce
qed

end
