(* ===== verification/DesktopAuthority.thy ===== *)
theory DesktopAuthority
  imports DesktopClaims DesktopPortal
begin

text \<open>
  What the configuration gives the pages, and that it stays that way: the authority of a desktop is
  everything a page cannot change.  No request, drag or host event changes it; only a reload of the
  runtime replaces it, by the one that the restarted application declares.
\<close>

section \<open>The authority\<close>

text \<open>
  Of the native services, a request may change the grants; \<open>view\<close> says which part of them is compared:
  what was declared, or all of them.
\<close>

definition declared_part where
  "declared_part ns = (nv_capabilities ns, nv_roots ns)"

definition gateway_authority where
  "gateway_authority view st = (gs_project st, gs_public_root st, gs_origin st, gs_token st,
     gs_bootstrap st, gs_development st, map_option sl_config \<circ> gs_plugins st, view (gs_native st))"

definition database_authority :: "'d databases \<Rightarrow> string \<rightharpoonup> DatabaseAccess" where
  "database_authority handles = map_option dh_access \<circ> handles"

definition authority where
  "authority view d = (gateway_authority view (dk_gateway d), database_authority (dk_databases d),
     dk_origins d, pv_commands (dk_processes d), pv_root (dk_processes d))"

section \<open>Native services\<close>

definition native_kept :: "NativeServices \<Rightarrow> NativeServices \<Rightarrow> bool" where
  "native_kept ns ns' \<longleftrightarrow> nv_capabilities ns' = nv_capabilities ns \<and> nv_roots ns' = nv_roots ns"

lemma native_kept_refl [simp]: "native_kept ns ns"
  by (simp add: native_kept_def)

lemma native_kept_trans [trans]: "native_kept a b \<Longrightarrow> native_kept b c \<Longrightarrow> native_kept a c"
  by (simp add: native_kept_def)

lemma native_kept_grant:
  assumes "grant_path_with_persistence codec env selected access persistent w = (w', r)"
  shows "native_kept (fst w) (fst w')"
proof (cases w)
  case (Pair ns files)
  from assms [unfolded Pair] show ?thesis
    by (cases rule: grant_cases) (auto simp: Pair native_kept_def)
qed

lemma native_kept_grants:
  "grant_paths codec paths access persistent w = (w', r) \<Longrightarrow> native_kept (fst w) (fst w')"
proof (induction codec paths access persistent w arbitrary: w' r rule: grant_paths.induct)
  case (2 codec path env rest access persistent w)
  obtain v e where step: "grant_path_with_persistence codec env path access persistent w = (v, e)"
    by fastforce
  show ?case
  proof (cases e)
    case (Inl x)
    with 2 step native_kept_grant [OF step] show ?thesis by simp
  next
    case (Inr x)
    obtain w2 more where rest: "grant_paths codec rest access persistent v = (w2, more)" by fastforce
    from 2(1) [OF step [symmetric] Inr rest] native_kept_grant [OF step]
    have "native_kept (fst w) (fst w2)" by (blast intro: native_kept_trans)
    with 2(2) step Inr rest show ?thesis by (auto split: sum.splits)
  qed
qed simp

lemma native_kept_clip [simp]:
  "fst (clip_get w c m r f) = w" "fst (clip_set env w m checked) = w"
  by (simp_all add: clip_get_def clip_set_def split: sum.splits)

lemma native_kept_files: "native_kept (fst w) (fst (fst (read_clipboard_files env w)))"
  by (auto simp: read_clipboard_files_def dest: native_kept_grants split: sum.splits prod.splits)

lemma native_kept_clipboard: "native_kept (fst w) (fst (fst (clipboard_request env w q)))"
  using native_kept_files [of w env]
  by (auto simp: clipboard_request_def clipboard_operation_def Let_def
      split: option.splits ClipboardOperation.splits sum.splits)

lemma native_kept_screenshot: "native_kept (fst w) (fst (fst (take_screenshot env w)))"
  by (auto simp: take_screenshot_def grant_path_def Let_def dest: native_kept_grant
      split: sum.splits prod.splits option.splits)

lemma native_kept_portal: "native_kept (fst w) (fst (fst (portal_execute env w q)))"
  using native_kept_screenshot [of w env]
  by (auto simp: portal_execute_def Let_def split: DesktopPortalOperation.splits prod.splits)

section \<open>The gateway\<close>

lemma gateway_authority_event [simp]:
  "gateway_authority view (publish_event st e) = gateway_authority view st"
  "gateway_authority view (send_event st h) = gateway_authority view st"
  by (simp_all add: gateway_authority_def publish_event_def send_event_def)

lemma gateway_authority_events [simp]:
  "gateway_authority view (foldl publish_event st es) = gateway_authority view st"
  by (induction es arbitrary: st) simp_all

lemma gateway_authority_response [simp]:
  "gateway_authority view (process_response st response) = gateway_authority view st"
  by (simp add: process_response_def)

lemma gateway_authority_metrics [simp]:
  "gateway_authority view (st\<lparr>gs_metrics := m\<rparr>) = gateway_authority view st"
  "gateway_authority view (st\<lparr>gs_supervisor := s\<rparr>) = gateway_authority view st"
  "gateway_authority view (st\<lparr>gs_pool := p\<rparr>) = gateway_authority view st"
  "gateway_authority view (st\<lparr>gs_cancellations := c\<rparr>) = gateway_authority view st"
  "gateway_authority view (st\<lparr>gs_cancelled := cancelled\<rparr>) = gateway_authority view st"
  "gateway_authority view (st\<lparr>gs_otlp := otlp\<rparr>) = gateway_authority view st"
  by (simp_all add: gateway_authority_def)

lemma gateway_authority_register:
  "register st key = (st', r) \<Longrightarrow> gateway_authority view st' = gateway_authority view st"
  by (auto simp: register_def gateway_authority_def Let_def split: if_splits)

lemma gateway_authority_begin:
  "begin_request st n i w t command parent = (st', r) \<Longrightarrow> gateway_authority view st' = gateway_authority view st"
  by (auto simp: begin_request_def Let_def dest: gateway_authority_register [where view = view]
      split: if_splits prod.splits sum.splits)

lemma gateway_authority_run:
  "run_request h st a payload env = (st', sent, r) \<Longrightarrow> gateway_authority view st' = gateway_authority view st"
  by (auto simp: run_request_def Let_def split: CommandExecution.splits prod.splits if_splits option.splits)

lemma gateway_authority_finish:
  "finish_request st a elapsed spans result = (st', answer) \<Longrightarrow>
     gateway_authority view st' = gateway_authority view st"
  by (auto simp: finish_request_def settle_request_def export_command_span_def count_failure_def Let_def
      split: sum.splits if_splits)

lemma gateway_authority_execute:
  "gateway_authority view (fst (execute_request h st i w t command payload parent env)) =
     gateway_authority view st"
  by (auto simp: execute_request_def dest!: gateway_authority_begin [where view = view]
      gateway_authority_run [where view = view] gateway_authority_finish [where view = view] split: prod.splits sum.splits)

lemma gateway_authority_requests [simp]:
  "gateway_authority view (fst (invoke h st hs iq env)) = gateway_authority view st"
  "gateway_authority view (fst (emit h st hs eq env)) = gateway_authority view st"
  "gateway_authority view (fst (cancel st hs cq)) = gateway_authority view st"
  by (auto simp: invoke_def emit_def cancel_def Let_def gateway_authority_execute split: option.splits)

lemma gateway_authority_native [simp]:
  "native_kept (gs_native st) ns \<Longrightarrow>
     gateway_authority declared_part (st\<lparr>gs_native := ns\<rparr>) = gateway_authority declared_part st"
  by (simp add: gateway_authority_def native_kept_def declared_part_def)

lemma gateway_authority_plugins [simp]:
  "map_option sl_config \<circ> ps = map_option sl_config \<circ> gs_plugins st \<Longrightarrow>
     gateway_authority view (st\<lparr>gs_plugins := ps\<rparr>) = gateway_authority view st"
  by (simp add: gateway_authority_def)

section \<open>The desktop\<close>

lemma authority_on_gateway [simp]:
  "gateway_authority view (f (dk_gateway d)) = gateway_authority view (dk_gateway d) \<Longrightarrow>
     authority view (on_gateway f d) = authority view d"
  by (simp add: authority_def on_gateway_def)

lemma authority_with_native [simp]:
  "native_kept (gs_native (dk_gateway d)) (fst w) \<Longrightarrow> authority declared_part (with_native d w) = authority declared_part d"
  by (simp add: authority_def with_native_def)

lemma authority_updates [simp]:
  "authority view (d\<lparr>dk_search := index\<rparr>) = authority view d" "authority view (d\<lparr>dk_watches := ws\<rparr>) = authority view d"
  "authority view (d\<lparr>dk_updater := u\<rparr>) = authority view d" "authority view (d\<lparr>dk_scheduler := jobs\<rparr>) = authority view d"
  by (simp_all add: authority_def)

lemma authority_announce [simp]:
  "authority view (announce_event d e) = authority view d"
  "authority view (foldl announce_event d es) = authority view d"
  "authority view (publish_update_snapshot name s d) = authority view d"
  "authority view (publish_update_error ue d) = authority view d"
proof -
  show one: "authority view (announce_event d e) = authority view d" for d and e :: ClientEvent
    by (simp add: announce_event_def)
  show "authority view (foldl announce_event d es) = authority view d"
    by (induction es arbitrary: d) (simp_all add: one)
  show "authority view (publish_update_snapshot name s d) = authority view d"
    "authority view (publish_update_error ue d) = authority view d"
    by (simp_all add: publish_update_snapshot_def publish_update_error_def one)
qed

lemma authority_guarded:
  "authority view (fst continue) = authority view d \<Longrightarrow> authority view (fst (guarded d hs w m continue)) = authority view d"
  by (auto simp: guarded_def split: option.splits)

lemma database_authority_update:
  "handles k = Some h \<Longrightarrow>
     database_authority (handles(k \<mapsto> h\<lparr>dh_connection := c\<rparr>)) = database_authority handles"
  by (auto simp: database_authority_def fun_eq_iff)

lemma database_dispatch_kept:
  "database_dispatch l handles q = (handles', r) \<Longrightarrow>
     database_authority handles' = database_authority handles"
  by (auto simp: database_dispatch_def database_authority_update split: option.splits prod.splits)

lemma authority_databases [simp]:
  "database_authority handles = database_authority (dk_databases d) \<Longrightarrow>
     authority view (d\<lparr>dk_databases := handles\<rparr>) = authority view d"
  by (simp add: authority_def)

lemma authority_processes [simp]:
  "pv_commands s = pv_commands (dk_processes d) \<Longrightarrow> pv_root s = pv_root (dk_processes d) \<Longrightarrow>
     authority view (d\<lparr>dk_processes := s\<rparr>) = authority view d"
  by (simp add: authority_def)

lemma authority_services:
  "authority view (fst (filesystem_handler x d hs fq)) = authority view d"
  "authority view (fst (filesystem_read_stream x d hs w target)) = authority view d"
  "authority view (fst (notification_handler x d hs nq)) = authority view d"
  "authority view (fst (system_information x d hs w)) = authority view d"
  "authority view (fst (http_handler x d hs w hq)) = authority view d"
  "authority view (fst (secrets_handler x d hs w sq)) = authority view d"
  "authority view (fst (search_handler x d hs w rq rt)) = authority view d"
  "authority view (fst (file_watch_handler x d hs wq)) = authority view d"
  "authority view (fst (diagnostics encode x d hs w)) = authority view d"
  "authority view (fst (update_status d hs w)) = authority view d"
  unfolding filesystem_handler_def filesystem_read_stream_def notification_handler_def
    system_information_def http_handler_def secrets_handler_def search_handler_def
    file_watch_handler_def diagnostics_def update_status_def
  by (rule authority_guarded, simp split: prod.splits sum.splits option.splits)+

lemma authority_clipboard: "authority declared_part (fst (clipboard_handler x d hs cq)) = authority declared_part d"
  unfolding clipboard_handler_def
  using native_kept_clipboard [of "native_part d" "ox_clipboard x" cq]
  by (intro authority_guarded) (auto simp: native_part_def split: prod.splits)

lemma authority_database: "authority view (fst (database_handler x d hs w dq)) = authority view d"
  unfolding database_handler_def
  by (intro authority_guarded) (auto dest: database_dispatch_kept split: prod.splits)

lemma authority_process: "authority view (fst (process_handler x d hs w pq)) = authority view d"
  unfolding process_handler_def
  by (intro authority_guarded) (auto dest!: dispatch_kept split: prod.splits)

lemma authority_portal: "authority declared_part (fst (desktop_portal x d hs pq)) = authority declared_part d"
  using native_kept_portal [of "native_part d" "ox_portal x" pq]
  by (auto simp: desktop_portal_def native_part_def split: option.splits prod.splits)

lemma authority_write_stream: "authority view (fst (filesystem_write_stream x d hs)) = authority view d"
  by (auto simp: filesystem_write_stream_def split: option.splits sum.splits prod.splits)

lemma authority_grants:
  assumes "grant_paths codec paths access persistent (native_part d) = (w, r)"
  shows "authority declared_part (with_native d w) = authority declared_part d"
  using native_kept_grants [OF assms] by (simp add: native_part_def)

lemma authority_grant:
  assumes "grant_path codec env path access (native_part d) = (w, r)"
  shows "authority declared_part (with_native d w) = authority declared_part d"
  using assms native_kept_grant by (fastforce simp: native_part_def grant_path_def)

lemma authority_dialog: "authority declared_part (fst (dialog x d hs dq)) = authority declared_part d"
proof -
  let ?d1 = "on_gateway (\<lambda>st. send_event st (Dialog \<lparr>dq_kind = dr_kind dq,
    dq_title = dr_title dq, dq_file_name = dr_file_name dq, dq_filters = dr_filters dq\<rparr>)) d"
  have d1: "authority declared_part ?d1 = authority declared_part d" by simp
  show ?thesis
    unfolding dialog_def
    by (rule authority_guarded)
      (auto simp: Let_def d1 dest: authority_grants split: sum.splits option.splits prod.splits)
qed

lemma authority_drag [simp]:
  "authority view (drag_hover x d w path) = authority view d" "authority view (drag_leave d w) = authority view d"
  "authority declared_part (drag_drop x d w path) = authority declared_part d"
  by (auto simp: drag_hover_def drag_leave_def drag_drop_def Let_def dest: authority_grant
      split: option.splits sum.splits prod.splits)

lemma authority_automate: "authority declared_part (fst (automate x d q operation)) = authority declared_part d"
  by (auto simp: automate_def automation_drag_hover_def automation_drag_drop_def Let_def
      dest: authority_grant split: AutomationOperation.splits sum.splits option.splits prod.splits)

lemma authority_automation: "authority declared_part (fst (automation x d hs aq)) = authority declared_part d"
  using authority_automate [of x d aq]
  by (auto simp: automation_def Let_def split: option.splits sum.splits prod.splits)
    (metis fst_conv)+

lemma authority_update_operation: "authority view (fst (update_operation operation x d hs w)) = authority view d"
  unfolding update_operation_def
  by (rule authority_guarded) (simp add: Let_def split: prod.splits option.splits sum.splits)

lemma authority_exit [simp]: "authority view (on_gateway (\<lambda>st. send_event st e) d) = authority view d"
  by simp

lemma authority_update_install: "authority view (fst (update_install x d hs w)) = authority view d"
  unfolding update_install_def
  by (rule authority_guarded) (simp add: Let_def split: prod.splits option.splits sum.splits)

lemma authority_performance: "authority view (fst (performance_frame d hs w n)) = authority view d"
  by (simp add: performance_frame_def)

lemma slot_restart_config: "slot_restart h s env = (s', sent, r) \<Longrightarrow> sl_config s' = sl_config s"
  using slot_restart_effect [of h s env s' sent r] by (simp add: slot_kept_def)

lemma slot_invoke_config:
  "slot_invoke h s command payload timeout env1 x env2 = (s', sent, r) \<Longrightarrow> sl_config s' = sl_config s"
  by (auto simp: slot_invoke_def Let_def dest!: slot_restart_config split: prod.splits sum.splits if_splits)

lemma plugins_invoke_configs:
  "plugins_invoke h ps plugin command payload timeout env1 x env2 = (ps', sent, r) \<Longrightarrow>
     map_option sl_config \<circ> ps' = map_option sl_config \<circ> ps"
  by (auto simp: plugins_invoke_def dest!: slot_invoke_config split: option.splits prod.splits)

lemma authority_gateway [simp]:
  "gateway_authority view st = gateway_authority view (dk_gateway d) \<Longrightarrow>
     authority view (d\<lparr>dk_gateway := st\<rparr>) = authority view d"
  by (simp add: authority_def)

lemma authority_plugin_invoke: "authority view (fst (plugin_invoke x d hs q)) = authority view d"
  by (auto simp: plugin_invoke_def Let_def dest!: gateway_authority_register [where view = view] plugins_invoke_configs
      split: prod.splits sum.splits option.splits)

lemmas authority_handlers = authority_services authority_database authority_process
  authority_write_stream authority_update_operation authority_update_install authority_performance
  authority_plugin_invoke

lemmas authority_granting = authority_clipboard authority_portal authority_dialog authority_automation

lemma authority_answered [simp]: "authority view (fst (answered_step r)) = authority view (fst r)"
  by (cases r) (simp add: answered_step_def)

lemma authority_gateway_step:
  "gateway_authority view (fst r) = gateway_authority view (dk_gateway d) \<Longrightarrow>
     authority view (fst (gateway_step d r)) = authority view d"
  by (cases r) (simp add: gateway_step_def)

lemma authority_cancel: "authority view (fst (handle encode x d hs (Cancel c))) = authority view d"
  using gateway_authority_requests(3) [of view "dk_gateway d" hs c]
  by (cases "cancel (dk_gateway d) hs c") simp

text \<open>The requests with which files can be granted to a page.\<close>

fun grants_files :: "page_request \<Rightarrow> bool" where
  "grants_files (OpenDialog q) = True"
| "grants_files (Clipboard q) = True"
| "grants_files (Portal q) = True"
| "grants_files (Automate q) = True"
| "grants_files _ = False"

lemma authority_handle:
  "\<not> grants_files q \<Longrightarrow> authority view (fst (handle encode x d hs q)) = authority view d"
  "authority declared_part (fst (handle encode x d hs q)) = authority declared_part d"
  by (cases q; simp add: authority_handlers authority_gateway_step authority_cancel
      update_check_def update_download_def del: handle.simps(3))
    (cases q; simp add: authority_handlers authority_granting authority_gateway_step authority_cancel
      update_check_def update_download_def del: handle.simps(3))

lemma authority_notified:
  "dispatch_native_event h env name payload st = (st', sent) \<Longrightarrow>
     gateway_authority view st' = gateway_authority view st"
  by (auto simp: dispatch_native_event_def dispatch_php_event_def Let_def
      split: prod.splits sum.splits option.splits if_splits)

text \<open>
  C14. No request, whatever it carries and whatever the outside answers, changes the application the
  gateway serves, its token and origin, its public directory, the declared directories and databases
  and the access to them, or the declared origins, programs and plugins.  What else of the file
  system a page may reach, the granted files, only changes with a dialog, a clipboard, a portal
  or an automation request: all other requests leave the native services, with their grants, as
  they are.
\<close>

theorem requests_never_extend_authority:
  assumes "handle encode x d hs q = (d', effects, response)"
  shows "gs_bootstrap (dk_gateway d') = gs_bootstrap (dk_gateway d) \<and>
    gs_project (dk_gateway d') = gs_project (dk_gateway d) \<and>
    gs_token (dk_gateway d') = gs_token (dk_gateway d) \<and>
    gs_origin (dk_gateway d') = gs_origin (dk_gateway d) \<and>
    gs_public_root (dk_gateway d') = gs_public_root (dk_gateway d) \<and>
    gs_development (dk_gateway d') = gs_development (dk_gateway d) \<and>
    nv_capabilities (gs_native (dk_gateway d')) = nv_capabilities (gs_native (dk_gateway d)) \<and>
    nv_roots (gs_native (dk_gateway d')) = nv_roots (gs_native (dk_gateway d)) \<and>
    map_option sl_config \<circ> gs_plugins (dk_gateway d') = map_option sl_config \<circ> gs_plugins (dk_gateway d) \<and>
    map_option dh_access \<circ> dk_databases d' = map_option dh_access \<circ> dk_databases d \<and>
    dk_origins d' = dk_origins d \<and> pv_commands (dk_processes d') = pv_commands (dk_processes d) \<and>
    pv_root (dk_processes d') = pv_root (dk_processes d) \<and>
    (\<not> grants_files q \<longrightarrow> gs_native (dk_gateway d') = gs_native (dk_gateway d))"
proof -
  have "authority declared_part d' = authority declared_part d"
    using authority_handle(2) [of encode x d hs q] assms by simp
  moreover have "authority (\<lambda>ns. ns) d' = authority (\<lambda>ns. ns) d" if "\<not> grants_files q"
    using authority_handle(1) [OF that, of "\<lambda>ns. ns" encode x d hs] assms by simp
  ultimately show ?thesis
    by (simp add: authority_def gateway_authority_def database_authority_def declared_part_def)
qed

section \<open>Exactly what is declared\<close>

text \<open>
  A map of services provides the entries of a list of declarations: it has exactly their names, and what
  it holds under a name serves a declaration of that name.
\<close>

definition provides :: "(string \<rightharpoonup> 'v) \<Rightarrow> ('c \<Rightarrow> string) \<Rightarrow> 'c list \<Rightarrow> ('c \<Rightarrow> 'v \<Rightarrow> bool) \<Rightarrow> bool" where
  "provides m name cs serves \<longleftrightarrow> dom m = name ` set cs \<and>
     (\<forall>k v. m k = Some v \<longrightarrow> (\<exists>c \<in> set cs. name c = k \<and> serves c v))"

lemma provides_nothing [simp]: "provides Map.empty name [] serves"
  by (simp add: provides_def)

lemma provides_more:
  "provides m name cs serves \<Longrightarrow> serves c v \<Longrightarrow> provides (m(name c \<mapsto> v)) name (cs @ [c]) serves"
  by (auto simp: provides_def)

definition serves_root :: "native_os \<Rightarrow> string \<Rightarrow> FileSystemRootConfig \<Rightarrow> AuthorizedRoot \<Rightarrow> bool" where
  "serves_root os root c r \<longleftrightarrow> no_canonicalize os (path_join root (fr_path c)) = Inr (ar_directory r) \<and>
     ar_path r = ar_directory r \<and> ar_access r = fr_access c"

definition serves_database :: "DatabaseConfig \<Rightarrow> 'd DatabaseHandle \<Rightarrow> bool" where
  "serves_database c h \<longleftrightarrow> dh_access h = db_access c"

definition serves_origin :: "http_packages \<Rightarrow> HttpOriginConfig \<Rightarrow> url \<Rightarrow> bool" where
  "serves_origin k c u \<longleftrightarrow> hk_parse k (ho_origin c) = Some u \<and> url_scheme u = ''https''"

definition serves_command :: "native_os \<Rightarrow> string \<Rightarrow> ProcessCommandConfig \<Rightarrow> AllowedCommand \<Rightarrow> bool" where
  "serves_command os root c a \<longleftrightarrow>
     no_canonicalize os (path_join root (pc_executable c)) = Inr (al_executable a) \<and>
     path_starts_with (al_executable a) root \<and> al_arguments a = pc_arguments c \<and>
     al_policy a = pc_argument_policy c"

text \<open>
  The databases were opened on the declared files, with the flags of the declared access; the
  connections change with every statement, the names and the access do not.
\<close>

definition databases_opened :: "'d start_env \<Rightarrow> string \<Rightarrow> DatabaseConfig list \<Rightarrow> 'd databases \<Rightarrow> bool" where
  "databases_opened env root cs handles \<longleftrightarrow> (\<exists>opened.
     databases_prepare (st_sqlite env) (st_database_files env) root cs Map.empty [] =
       Inr (opened, map (\<lambda>c. (path_join root (db_path c), database_flags (db_access c))) cs) \<and>
     database_authority handles = database_authority opened \<and> provides opened db_name cs serves_database)"

text \<open>
  What a desktop holds for the bootstrap it serves, in the environment in which its parts were prepared.
\<close>

definition exactly_declared :: "'d start_env \<Rightarrow> 'd Desktop \<Rightarrow> bool" where
  "exactly_declared env d \<longleftrightarrow>
     (let st = dk_gateway d; b = gs_bootstrap st; c = bs_capabilities b; root = pj_root (gs_project st) in
      MAIN_WINDOW_ID \<in> wc_id ` set (bs_windows b) \<and> distinct (map wc_id (bs_windows b)) \<and>
      path_starts_with (gs_public_root st) root \<and>
      nv_capabilities (gs_native st) = c \<and>
      provides (nv_roots (gs_native st)) fr_name (nc_filesystem_roots c) (serves_root (st_os env) root) \<and>
      databases_opened env root (nc_databases c) (dk_databases d) \<and>
      provides (dk_origins d) ho_name (nc_http_origins c) (serves_origin (st_http env)) \<and>
      no_canonicalize (st_os env) root = Inr (pv_root (dk_processes d)) \<and>
      provides (pv_commands (dk_processes d)) pc_name (nc_processes c)
        (serves_command (st_os env) (pv_root (dk_processes d))) \<and>
      provides (map_option sl_config \<circ> gs_plugins st) rp_id (bs_rust_plugins b) (\<lambda>c v. v = c))"

lemma exactly_declared_authority:
  assumes "authority declared_part d' = authority declared_part d" "exactly_declared env d"
  shows "exactly_declared env d'"
proof -
  from assms(1) have eqs: "gs_project (dk_gateway d') = gs_project (dk_gateway d)"
    "gs_public_root (dk_gateway d') = gs_public_root (dk_gateway d)"
    "gs_bootstrap (dk_gateway d') = gs_bootstrap (dk_gateway d)"
    "nv_capabilities (gs_native (dk_gateway d')) = nv_capabilities (gs_native (dk_gateway d))"
    "nv_roots (gs_native (dk_gateway d')) = nv_roots (gs_native (dk_gateway d))"
    "map_option sl_config \<circ> gs_plugins (dk_gateway d') = map_option sl_config \<circ> gs_plugins (dk_gateway d)"
    "database_authority (dk_databases d') = database_authority (dk_databases d)"
    "dk_origins d' = dk_origins d" "pv_commands (dk_processes d') = pv_commands (dk_processes d)"
    "pv_root (dk_processes d') = pv_root (dk_processes d)"
    by (simp_all add: authority_def gateway_authority_def declared_part_def)
  from assms(2) show ?thesis unfolding exactly_declared_def databases_opened_def Let_def eqs .
qed

text \<open>What the preparations build, declaration by declaration.\<close>

lemma prepare_root_serves:
  "prepare_root os root c = Inr r \<Longrightarrow> \<exists>v. r = (fr_name c, v) \<and> serves_root os root c v"
  by (auto simp: prepare_root_def serves_root_def path_join_def Let_def split: sum.splits if_splits option.splits)

lemma prepare_roots_provides:
  "prepare_roots os root cs roots = Inr roots' \<Longrightarrow> provides roots fr_name before (serves_root os root) \<Longrightarrow>
     provides roots' fr_name (before @ cs) (serves_root os root)"
proof (induction cs arbitrary: roots before)
  case (Cons c cs)
  obtain v where v: "serves_root os root c v"
    "prepare_roots os root cs (roots(fr_name c \<mapsto> v)) = Inr roots'"
    using Cons.prems(1) by (auto simp: rbind_Inr_iff dest: prepare_root_serves)
  from Cons.IH [OF v(2) provides_more [OF Cons.prems(2) v(1)]] show ?case by simp
qed simp

lemma prepare_origins_provides:
  "prepare_origins k cs origins = Inr origins' \<Longrightarrow> provides origins ho_name before (serves_origin k) \<Longrightarrow>
     provides origins' ho_name (before @ cs) (serves_origin k)"
proof (induction cs arbitrary: origins before)
  case (Cons c cs)
  obtain v where v: "serves_origin k c v" "prepare_origins k cs (origins(ho_name c \<mapsto> v)) = Inr origins'"
    using Cons.prems(1)
    by (auto simp: validate_http_origin_def serves_origin_def result_simps split: sum.splits option.splits)
  from Cons.IH [OF v(2) provides_more [OF Cons.prems(2) v(1)]] show ?case by simp
qed simp

lemma prepare_commands_provides:
  "prepare_commands os unix mode_of root cs commands = Inr commands' \<Longrightarrow>
     provides commands pc_name before (serves_command os root) \<Longrightarrow>
     provides commands' pc_name (before @ cs) (serves_command os root)"
proof (induction cs arbitrary: commands before)
  case (Cons c cs)
  obtain v where v: "prepare_command os unix mode_of root c = Inr v"
    "prepare_commands os unix mode_of root cs (commands(pc_name c \<mapsto> v)) = Inr commands'"
    using Cons.prems(1) by (auto simp: rbind_Inr_iff)
  have "serves_command os root c v"
    using prepare_command_Inr [OF v(1)] by (simp add: serves_command_def)
  from Cons.IH [OF v(2) provides_more [OF Cons.prems(2) this]] show ?case by simp
qed simp

lemma databases_prepare_provides:
  "databases_prepare l fs root cs handles opened = Inr (handles', opened') \<Longrightarrow>
     provides handles db_name before serves_database \<Longrightarrow>
     provides handles' db_name (before @ cs) serves_database \<and>
     opened' = opened @ map (\<lambda>c. (path_join root (db_path c), database_flags (db_access c))) cs"
proof (induction cs arbitrary: handles opened before)
  case (Cons c cs)
  obtain path h where o: "open_database l fs root c = Inr (path, h)"
    "databases_prepare l fs root cs (handles(db_name c \<mapsto> h))
      (opened @ [(path, database_flags (db_access c))]) = Inr (handles', opened')"
    using Cons.prems(1) by (auto simp: rbind_Inr_iff split: prod.splits)
  have h: "serves_database c h" "path = path_join root (db_path c)"
    using o(1)
    by (auto simp: open_database_def serves_database_def safe_relative_path_def Let_def rbind_Inr_iff
        split: sum.splits if_splits)
  from Cons.IH [OF o(2) provides_more [OF Cons.prems(2) h(1)]] h(2) show ?case by simp
qed simp

lemma plugins_prepare_provides:
  "plugins_prepare fs sha256 project configs = Inr ps \<Longrightarrow>
     provides (map_option sl_config \<circ> ps) rp_id configs (\<lambda>c v. v = c)"
proof (induction configs arbitrary: ps rule: rev_induct)
  case (snoc config configs)
  then obtain qs where qs: "plugins_prepare fs sha256 project configs = Inr qs"
    "ps = qs(rp_id config \<mapsto> lazy_slot config)"
    by (auto simp: plugins_prepare_def rbind_Inr_iff)
  have "map_option sl_config \<circ> ps = (map_option sl_config \<circ> qs)(rp_id config \<mapsto> config)"
    by (simp add: qs(2) lazy_slot_def fun_upd_comp)
  then show ?case
    using provides_more [OF snoc.IH [OF qs(1)], of config config] by (simp only:)
qed (simp add: plugins_prepare_def provides_def)

text \<open>The parts of a runtime that was prepared for a configuration.\<close>

definition runtime_declared :: "'d start_env \<Rightarrow> string \<Rightarrow> NativeCapabilities \<Rightarrow> 'd runtime \<Rightarrow> bool" where
  "runtime_declared env root c r \<longleftrightarrow> nv_capabilities (rt_native r) = c \<and>
     provides (nv_roots (rt_native r)) fr_name (nc_filesystem_roots c) (serves_root (st_os env) root) \<and>
     databases_opened env root (nc_databases c) (rt_databases r) \<and>
     provides (rt_origins r) ho_name (nc_http_origins c) (serves_origin (st_http env)) \<and>
     no_canonicalize (st_os env) root = Inr (pv_root (rt_processes r)) \<and>
     provides (pv_commands (rt_processes r)) pc_name (nc_processes c)
       (serves_command (st_os env) (pv_root (rt_processes r)))"

lemma prepare_services_Inr:
  assumes "prepare_services env root c = Inr (handles, origins, processes, index)"
  shows "(\<exists>opened. databases_prepare (st_sqlite env) (st_database_files env) root (nc_databases c)
      Map.empty [] = Inr (handles, opened)) \<and>
    prepare_origins (st_http env) (nc_http_origins c) Map.empty = Inr origins \<and>
    no_canonicalize (st_os env) root = Inr (pv_root processes) \<and>
    prepare_commands (st_os env) (st_unix env) (st_mode_of env) (pv_root processes) (nc_processes c)
      Map.empty = Inr (pv_commands processes)"
  using assms
  by (auto simp: prepare_services_def http_prepare_def prepare_processes_def rbind_Inr_iff
      split: prod.splits sum.splits)

lemma databases_prepared:
  "databases_prepare (st_sqlite env) (st_database_files env) root cs Map.empty [] = Inr (handles, opened) \<Longrightarrow>
     databases_opened env root cs handles"
  using databases_prepare_provides [of "st_sqlite env" "st_database_files env" root cs Map.empty "[]"
      handles opened "[]"]
  by (auto simp: databases_opened_def)

lemma prepare_runtime_declared:
  assumes "prepare_runtime env files root application c = Inr r"
  shows "runtime_declared env root c r"
proof -
  obtain services where s: "prepare_services env root c = Inr services"
    and roots: "prepare_roots (st_os env) root (nc_filesystem_roots c) Map.empty = Inr (nv_roots (rt_native r))"
    and caps: "nv_capabilities (rt_native r) = c"
    and parts: "services = (rt_databases r, rt_origins r, rt_processes r, rt_search r)"
    using assms
    by (auto simp: prepare_runtime_def native_prepare_def Let_def rbind_Inr_iff map_sum_def
        split: sum.splits)
  note kept = prepare_services_Inr [OF s [unfolded parts]]
  then show ?thesis
    unfolding runtime_declared_def
    using caps databases_prepared prepare_roots_provides [OF roots, of "[]"]
      prepare_origins_provides [of "st_http env" "nc_http_origins c" Map.empty "rt_origins r" "[]"]
      prepare_commands_provides [of "st_os env" "st_unix env" "st_mode_of env" "pv_root (rt_processes r)"
        "nc_processes c" Map.empty "pv_commands (rt_processes r)" "[]"]
    by auto
qed

lemma bootstrap_windows:
  assumes "project_validate_bootstrap fs parse debug project b = Inr ()"
  shows "MAIN_WINDOW_ID \<in> wc_id ` set (bs_windows b) \<and> distinct (map wc_id (bs_windows b))"
proof -
  have "validate_bootstrap parse debug b = Inr ()"
    using assms by (auto simp: project_validate_bootstrap_def rbind_Inr_iff split: sum.splits)
  from validate_bootstrap_parts [OF this] show ?thesis by simp
qed

lemma public_root_inside: "public_root fs p = Inr public \<Longrightarrow> path_starts_with public (pj_root p)"
  by (auto simp: public_root_def split: option.splits if_splits)

text \<open>A desktop that holds the parts prepared for its bootstrap.\<close>

lemma holds_exactly_declared:
  assumes valid: "project_validate_bootstrap (st_fs env) (hs_parse_url (st_host env))
      (hs_debug (st_host env)) (gs_project st) b = Inr ()"
    and runtime: "prepare_runtime env files (pj_root (gs_project st)) (am_identifier (bs_manifest b))
      (bs_capabilities b) = Inr runtime"
    and plugins: "plugins_prepare (st_fs env) (st_sha256 env) project (bs_rust_plugins b) = Inr plugins"
    and public: "path_starts_with (gs_public_root st) (pj_root (gs_project st))"
    and d: "dk_gateway d = st" "gs_bootstrap st = b" "gs_native st = rt_native runtime"
      "gs_plugins st = plugins" "dk_databases d = rt_databases runtime"
      "dk_origins d = rt_origins runtime" "dk_processes d = rt_processes runtime"
  shows "exactly_declared env d"
  using prepare_runtime_declared [OF runtime] bootstrap_windows [OF valid] plugins_prepare_provides [OF plugins] public
  unfolding exactly_declared_def runtime_declared_def Let_def d by blast

lemma assembled_declared:
  assumes "assemble env project supervisor b watch hit = Inr d"
  shows "exactly_declared env d"
proof -
  obtain public port token runtime plugins where parts:
    "project_validate_bootstrap (st_fs env) (hs_parse_url (st_host env)) (hs_debug (st_host env)) project b = Inr ()"
    "public_root (st_fs env) project = Inr public"
    "prepare_runtime env (st_files env) (pj_root project) (am_identifier (bs_manifest b)) (bs_capabilities b) = Inr runtime"
    "plugins_prepare (st_fs env) (st_sha256 env) project (bs_rust_plugins b) = Inr plugins"
    and d: "gs_project (dk_gateway d) = project" "gs_public_root (dk_gateway d) = public"
      "gs_bootstrap (dk_gateway d) = b" "gs_native (dk_gateway d) = rt_native runtime"
      "gs_plugins (dk_gateway d) = plugins" "dk_databases d = rt_databases runtime"
      "dk_origins d = rt_origins runtime" "dk_processes d = rt_processes runtime"
    using assms by (auto simp: assemble_def Let_def rbind_Inr_iff)
  show ?thesis
    by (rule holds_exactly_declared [OF _ _ parts(4) _ refl])
      (use parts public_root_inside [OF parts(2)] in \<open>simp_all add: d\<close>)
qed

lemma authority_policy_install: "authority view (fst (policy_install x d)) = authority view d"
  by (simp add: policy_install_def split: prod.splits sum.splits)

lemma authority_policy_download: "authority view (fst (policy_download x d)) = authority view d"
  by (simp add: policy_download_def authority_policy_install split: prod.splits sum.splits)

lemma authority_policy: "authority view (fst (start_update_policy x d)) = authority view d"
  by (simp add: start_update_policy_def Let_def authority_policy_download
      split: prod.splits sum.splits option.splits)

lemma authority_policy_result:
  "start_update_policy x d = (d', effects) \<Longrightarrow> authority view d' = authority view d"
  using authority_policy [of view x d] by simp

lemma authority_scheduler:
  "replace_scheduler env jobs d = (d', effects, r) \<Longrightarrow> authority view d' = authority view d"
  by (auto simp: replace_scheduler_def split: option.splits)

lemma authority_background: "authority view (fst (reload_background env b d)) = authority view d"
  by (auto simp: reload_background_def Let_def dest: authority_scheduler [where view = view] split: prod.splits)

lemma installed_declared:
  assumes parts: "reloaded_parts env files (gs_project (dk_gateway d)) restarted = Inr (b, runtime, plugins, pool)"
    and "exactly_declared env0 d"
  shows "exactly_declared env (install_parts env b runtime plugins pool d)"
proof -
  have "path_starts_with (gs_public_root (dk_gateway d)) (pj_root (gs_project (dk_gateway d)))"
    using assms(2) by (simp add: exactly_declared_def Let_def)
  with parts show ?thesis
    by (intro holds_exactly_declared [where files = files and plugins = plugins and runtime = runtime, OF _ _ _ _ refl])
      (auto simp: reloaded_parts_def install_parts_def rbind_Inr_iff)
qed

lemma finished_reload_declared:
  assumes "finish_runtime_reload env x code result d = (d', effects)" "exactly_declared env0 d"
    and "result = reloaded_parts env files (gs_project (dk_gateway d)) restarted"
  shows "exactly_declared (if \<exists>parts. result = Inr parts then env else env0) d'"
proof (cases result)
  case (Inl e)
  with assms(1) have "authority declared_part d' = authority declared_part d"
    by (auto simp: finish_runtime_reload_def Let_def)
  from exactly_declared_authority [OF this assms(2)] Inl show ?thesis by simp
next
  case (Inr parts)
  obtain b runtime plugins pool where p: "parts = (b, runtime, plugins, pool)" by (cases parts)
  let ?d = "install_parts env b runtime plugins pool d"
  have "exactly_declared env ?d"
    using installed_declared [OF _ assms(2)] assms(3) Inr p by metis
  moreover have "authority declared_part d' = authority declared_part ?d"
    using assms(1) Inr p authority_background [of declared_part env b ?d]
    by (auto simp: finish_runtime_reload_def Let_def split: prod.splits dest!: authority_policy_result [where view = declared_part])
  ultimately have "exactly_declared env d'" by (blast intro: exactly_declared_authority)
  with Inr p show ?thesis by simp
qed

lemma authority_supervisor: "authority view (on_gateway (\<lambda>st. st\<lparr>gs_supervisor := s\<rparr>) d) = authority view d"
  by simp

lemma reload_declared:
  assumes "reload env x kind d = (d', effects)" "exactly_declared env0 d"
  shows "exactly_declared (if reload_accepted env kind d then env else env0) d'"
proof (cases kind)
  case Assets
  with assms(1) have "authority declared_part d' = authority declared_part d"
    by (auto simp: reload_def Let_def)
  from exactly_declared_authority [OF this assms(2)] Assets show ?thesis
    by (simp add: reload_accepted_def)
next
  case Runtime
  obtain s sent restarted where r: "supervisor_restart (st_host env) (gs_supervisor (dk_gateway d))
      (st_restart env) = (s, sent, restarted)" by (metis prod_cases3)
  let ?d = "on_gateway (\<lambda>st. st\<lparr>gs_supervisor := s\<rparr>) d"
  let ?parts = "reloaded_parts env (dk_files d) (gs_project (dk_gateway d)) restarted"
  obtain d1 es where f: "finish_runtime_reload env x (reload_code Runtime) ?parts ?d = (d1, es)" by fastforce
  have "d1 = d'" using assms(1) Runtime r f by (simp add: reload_def Let_def)
  moreover have kept: "exactly_declared env0 ?d"
    using exactly_declared_authority [OF authority_supervisor assms(2)] .
  have "exactly_declared (if \<exists>parts. ?parts = Inr parts then env else env0) d1"
    by (rule finished_reload_declared [OF f kept]) (simp add: on_gateway_def)
  moreover have "reload_accepted env kind d \<longleftrightarrow> (\<exists>parts. ?parts = Inr parts)"
    using Runtime r by (simp add: reload_accepted_def)
  ultimately show ?thesis by simp
qed

text \<open>The steps of a start that succeeds.\<close>

lemma started_steps:
  assumes "gateway_start env x project supervisor b watch hit = Inr (d, effects)"
  obtains d0 d1 port published where
    "assemble env project supervisor b watch hit = Inr d0" "st_port env = Inr port"
    "d1 = d0 \<or> d1 = d0\<lparr>dk_scheduler := Some (bs_background_jobs b)\<rparr>"
    "(if watch then start_session env (gateway_url port) (dk_gateway d0) else Inr []) = Inr published"
    "set published \<subseteq> set effects" "d = fst (start_update_policy x d1)"
proof -
  obtain d0 port where d0: "assemble env project supervisor b watch hit = Inr d0" "st_port env = Inr port"
    using assms by (auto simp: gateway_start_def rbind_Inr_iff)
  let ?scheduled = "if ws_background_agent (bs_workstation b) then (d0, [], Inr ())
    else replace_scheduler env (bs_background_jobs b) d0"
  obtain d1 begun r where r: "?scheduled = (d1, begun, r)" by (metis prod_cases3)
  then have d1: "r = Inr () \<Longrightarrow> d1 = d0 \<or> d1 = d0\<lparr>dk_scheduler := Some (bs_background_jobs b)\<rparr>"
    by (auto simp: replace_scheduler_def split: if_splits option.splits)
  then have gateway: "r = Inr () \<Longrightarrow> dk_gateway d1 = dk_gateway d0" by auto
  obtain d2 installer where policy: "start_update_policy x d1 = (d2, installer)" by fastforce
  obtain published where p: "r = Inr ()" "d = d2" "effects = begun @ published @ installer"
    "(if watch then start_session env (gateway_url port) (dk_gateway d1) else Inr []) = Inr published"
    using assms unfolding gateway_start_def d0 rbind.simps r prod.case policy
    by (cases r) (auto simp: rbind_Inr_iff policy)
  from p(4) have "(if watch then start_session env (gateway_url port) (dk_gateway d0) else Inr []) =
      Inr published"
    by (simp only: gateway [OF p(1)])
  then show thesis
    by (rule that [OF d0 d1 [OF p(1)]]) (auto simp: p(2,3) policy)
qed

text \<open>
  C2. In every state the desktop reaches, whatever pages send and the outside answers and however often
  it is reloaded, the services are exactly those the served configuration declares, prepared when
  that configuration was accepted: under every declared name, and under no other, the directory of the
  declared path with links resolved and the declared access, the origin that the declared https
  address parses to, the program at the declared path below the project with its arguments, the
  plugin with its configuration, and a database with the declared access; the files opened as
  databases are the declared ones, in order.  A reload replaces the services when the restarted
  application is accepted, and otherwise leaves those that were there.
\<close>

theorem reached_desktop_is_declared:
  assumes "reached env d"
  shows "exactly_declared env d"
  using assms
proof (induction rule: reached.induct)
  case (started env x project supervisor b watch hit d effects)
  from started_steps [OF this] obtain d0 d1 where "assemble env project supervisor b watch hit = Inr d0"
    "d1 = d0 \<or> d1 = d0\<lparr>dk_scheduler := Some (bs_background_jobs b)\<rparr>" "d = fst (start_update_policy x d1)"
    by metis
  moreover from this have "authority declared_part d = authority declared_part d0"
    by (auto simp: authority_policy)
  ultimately show ?case using assembled_declared exactly_declared_authority by blast
next
  case (requested env d encode x hs q d' effects response)
  have "authority declared_part d' = authority declared_part d"
    using authority_handle(2) [of encode x d hs q] requested.hyps(2) by simp
  then show ?case using requested.IH by (rule exactly_declared_authority)
next
  case (notified env d h env' name payload st sent)
  have "authority declared_part (d\<lparr>dk_gateway := st\<rparr>) = authority declared_part d"
    by (rule authority_gateway [OF authority_notified [OF notified.hyps(2)]])
  from exactly_declared_authority [OF this notified.IH] show ?case .
next
  case (reloaded env d env' x kind d' effects)
  then show ?case by (blast intro: reload_declared)
qed (auto intro: exactly_declared_authority [OF authority_drag(1)]
    exactly_declared_authority [OF authority_drag(2)] exactly_declared_authority [OF authority_drag(3)])

end
