(* ===== verification/DesktopReload.thy ===== *)
theory DesktopReload
  imports DesktopAuthority
begin

text \<open>
  What a reload changes and what it leaves, the diagnostic session of a start and the request that
  is made from it, and an application on which the hypotheses of the theorems about the desktop hold.
\<close>

section \<open>Reloads of the runtime\<close>

text \<open>
  A reload whose application is not accepted leaves the configuration, the services, the plugins, the
  pool and the schedules as they are and tells the pages; the PHP worker, though, is the restarted one.
\<close>

lemma failed_reload_keeps_configuration:
  assumes "supervisor_restart (st_host env) (gs_supervisor (dk_gateway d)) (st_restart env) =
      (s, sent, restarted)"
    and "reloaded_parts env (dk_files d) (gs_project (dk_gateway d)) restarted = Inl e"
    and "reload env x Runtime d = (d', effects)"
  shows "d' = d\<lparr>dk_gateway := publish_event ((dk_gateway d)\<lparr>gs_supervisor := s\<rparr>)
    (window_event ''pam.dev.error'' (JObject [(''message'', JString e)]) None)\<rparr>"
  using assms
  by (simp add: reload_def Let_def finish_runtime_reload_def announce_event_def on_gateway_def)

lemma background_kept:
  "dk_watches (fst (reload_background env b d)) = dk_watches d"
  by (auto simp: reload_background_def replace_scheduler_def Let_def split: option.splits)

lemma announced_kept [simp]:
  "dk_watches (announce_event d e) = dk_watches d" "dk_watches (on_gateway f d) = dk_watches d"
  "dk_watches (publish_update_snapshot name us d) = dk_watches d"
  "dk_watches (publish_update_error ue d) = dk_watches d"
  "dk_scheduler (announce_event d e) = dk_scheduler d" "dk_scheduler (on_gateway f d) = dk_scheduler d"
  "dk_scheduler (publish_update_snapshot name us d) = dk_scheduler d"
  "dk_scheduler (publish_update_error ue d) = dk_scheduler d"
  by (simp_all add: announce_event_def on_gateway_def publish_update_snapshot_def publish_update_error_def)

lemma policy_kept:
  "dk_watches (fst (start_update_policy x d)) = dk_watches d"
  by (simp add: start_update_policy_def policy_download_def policy_install_def Let_def
      split: prod.splits sum.splits option.splits)

lemma installed_kept [simp]:
  "dk_watches (install_parts env b runtime plugins pool d) = dk_watches d"
  "dk_scheduler (install_parts env b runtime plugins pool d) = dk_scheduler d"
  by (simp_all add: install_parts_def)

lemma finished_kept:
  "dk_watches (fst (finish_runtime_reload env x code result d)) = dk_watches d"
  by (simp add: finish_runtime_reload_def Let_def split_beta background_kept policy_kept
      split: sum.splits)

lemma watches_survive_reload:
  "dk_watches (fst (reload env x kind d)) = dk_watches d"
  by (cases kind) (simp_all add: reload_def Let_def finished_kept split_beta)

lemma policy_scheduler:
  "dk_scheduler (fst (start_update_policy x d)) = dk_scheduler d"
  by (simp add: start_update_policy_def policy_download_def policy_install_def Let_def
      split: prod.splits sum.splits option.splits)

text \<open>
  A reload to an application with schedules of its own starts them before it stops those that ran,
  so both are alive for a while.
\<close>

theorem reload_overlaps_schedules:
  assumes "supervisor_restart (st_host env) (gs_supervisor (dk_gateway d)) (st_restart env) =
      (s, sent, restarted)"
    and "reloaded_parts env (dk_files d) (gs_project (dk_gateway d)) restarted =
      Inr (b, runtime, plugins, pool)"
    and "\<not> ws_background_agent (bs_workstation b)" "dk_scheduler d = Some old"
    and "st_scheduler env (bs_background_jobs b) = None"
    and "reload env x Runtime d = (d', effects)"
  shows "dk_scheduler d' = Some (bs_background_jobs b) \<and>
    (\<exists>before after. effects = before @ [SchedulerStarted (bs_background_jobs b), SchedulerStopped old] @ after)"
proof -
  let ?d = "install_parts env b runtime plugins pool (on_gateway (\<lambda>st. st\<lparr>gs_supervisor := s\<rparr>) d)"
  let ?r = "?d\<lparr>dk_scheduler := Some (bs_background_jobs b)\<rparr>"
  have background: "reload_background env b ?d = (?r,
      [AgentStopped (am_identifier (bs_manifest b)), SchedulerStarted (bs_background_jobs b), SchedulerStopped old])"
    using assms(3-5) by (simp add: reload_background_def replace_scheduler_def stop_scheduler_def Let_def)
  have "dk_scheduler d' = dk_scheduler ?r"
    using assms(1,2,6) background
      policy_scheduler [of x "on_gateway (\<lambda>st. send_event st (Reconfigure b)) ?r"]
    by (auto simp: reload_def Let_def finish_runtime_reload_def split: prod.splits)
  moreover have "\<exists>before after. effects =
      before @ [SchedulerStarted (bs_background_jobs b), SchedulerStopped old] @ after"
  proof -
    let ?dev = "dev_emit (st_variables env ''PAM_DEV_EVENTS'')"
    have "effects = (?dev ChangeDetected (reload_data 2) @ ?dev ReloadStarted (reload_data 2) @
          map WorkerSent sent @ [AgentStopped (am_identifier (bs_manifest b))]) @
        [SchedulerStarted (bs_background_jobs b), SchedulerStopped old] @
        snd (start_update_policy x (on_gateway (\<lambda>st. send_event st (Reconfigure b)) ?r)) @
        ?dev ReloadSucceeded (reload_data 2)"
      using assms(1,2,6) background by (simp add: reload_def Let_def finish_runtime_reload_def split_beta)
    then show ?thesis by blast
  qed
  ultimately show ?thesis by simp
qed

section \<open>The diagnostic session of a development host\<close>

lemma not_slashed: "trim_end_slashes s \<noteq> t @ ''/''"
proof
  let ?rest = "dropWhile (\<lambda>c. c = CHR ''/'') (rev s)"
  assume "trim_end_slashes s = t @ ''/''"
  then have "rev ?rest = t @ ''/''" unfolding trim_end_slashes_def .
  then have "?rest = rev (t @ ''/'')" by (metis rev_rev_ident)
  then have "?rest \<noteq> []" "hd ?rest = CHR ''/''" by simp_all
  then show False using hd_dropWhile [of "\<lambda>c. c = CHR ''/''" "rev s"] by simp
qed

lemma policy_gateway:
  "gs_origin (dk_gateway (fst (start_update_policy x d))) = gs_origin (dk_gateway d)"
  "gs_token (dk_gateway (fst (start_update_policy x d))) = gs_token (dk_gateway d)"
  using authority_policy [of "\<lambda>ns. ns" x d] by (simp_all add: authority_def gateway_authority_def)

lemma started_session:
  assumes "gateway_start env x project supervisor b True hit = Inr (d, effects)"
  obtains port window files session where
    "create_session (st_descriptor env) (st_session env) (gateway_url port) (gs_token (dk_gateway d))
       window (st_session_files env) = (files, Inr session)"
    "gs_origin (dk_gateway d) = trim_end_slashes (gateway_url port)"
    "SessionPublished files session \<in> set effects"
proof -
  from started_steps [OF assms] obtain d0 d1 port published where d0:
    "assemble env project supervisor b True hit = Inr d0" "st_port env = Inr port"
    "d1 = d0 \<or> d1 = d0\<lparr>dk_scheduler := Some (bs_background_jobs b)\<rparr>"
    "start_session env (gateway_url port) (dk_gateway d0) = Inr published"
    "set published \<subseteq> set effects" "d = fst (start_update_policy x d1)"
    by (metis (full_types))
  from d0(4) obtain window files session where session: "published = [SessionPublished files session]"
    "create_session (st_descriptor env) (st_session env) (gateway_url port) (gs_token (dk_gateway d0))
       window (st_session_files env) = (files, Inr session)"
    by (auto simp: start_session_def split: list.splits prod.splits sum.splits)
  have "gs_origin (dk_gateway d) = gs_origin (dk_gateway d0)" "gs_token (dk_gateway d) = gs_token (dk_gateway d0)"
    using d0(3) by (auto simp: d0(6) policy_gateway)
  moreover have "gs_origin (dk_gateway d0) = trim_end_slashes (gateway_url port)"
    using d0(1,2) by (auto simp: assemble_def Let_def rbind_Inr_iff)
  ultimately show thesis
    using that session d0(5) by simp
qed

text \<open>
  A development host hands its address to the session with the slash at the end, while the origin it
  accepts is the address without it.  The request of \<open>pam-desktop diagnostics\<close> repeats the address as
  it is: the host that wrote the descriptor refuses it, and so a snapshot is never captured.
\<close>
theorem own_diagnostics_are_refused:
  assumes started: "gateway_start env x project supervisor b True hit = Inr (d, effects)"
    and codec: "\<And>sd bytes. dc_encode (st_descriptor env) sd = Some bytes \<Longrightarrow>
      dc_decode (st_descriptor env) bytes = Some sd"
    and process: "de_process_id (st_session env) \<noteq> 0"
  shows "\<exists>files session request. SessionPublished files session \<in> set effects \<and>
    fst (capture (st_descriptor env) True send parse files) = [request] \<and>
    refused (dk_gateway d) (dq_headers request) window_id message = Some unauthorized_response"
proof -
  obtain port window files session where s:
    "create_session (st_descriptor env) (st_session env) (gateway_url port) (gs_token (dk_gateway d))
       window (st_session_files env) = (files, Inr session)"
    "gs_origin (dk_gateway d) = trim_end_slashes (gateway_url port)"
    "SessionPublished files session \<in> set effects"
    using started by (rule started_session)
  let ?d = "session_descriptor (st_session env) (gateway_url port) (gs_token (dk_gateway d)) window"
  have "read_descriptor (st_descriptor env) True files = Inr ?d"
    using create_session_Inr [OF s(1)] codec [of ?d] process
    by (auto simp: read_descriptor_def result_simps session_descriptor_def)
  then have "fst (capture (st_descriptor env) True send parse files) = [snapshot_request ?d]"
    by (simp add: capture_def)
  moreover have "gs_origin (dk_gateway d) \<noteq> gateway_url port"
    using not_slashed unfolding s(2) gateway_url_def by (metis append_assoc)
  then have "refused (dk_gateway d) (dq_headers (snapshot_request ?d)) window_id message =
      Some unauthorized_response"
    by (simp add: snapshot_request_def session_descriptor_def refused_def authorized_def BRIDGE_HEADER_def)
  ultimately show ?thesis using s(3) by blast
qed

section \<open>Witnesses\<close>

text \<open>The sample application on a host where every part of its runtime starts.\<close>

definition sample_disk :: native_os where
  "sample_disk = sample_os\<lparr>no_canonicalize := Inr\<rparr>"

definition sample_updates :: "ApplicationManifest \<Rightarrow> updater_host" where
  "sample_updates manifest = \<lparr>uh_crypto = \<lparr>cr_key_valid = (\<lambda>_. False), cr_verify = (\<lambda>_ _ _. False),
       cr_sha256 = (\<lambda>s. s), cr_release_json = (\<lambda>_. None)\<rparr>,
     uh_parse_url = (\<lambda>_. None), uh_debug = False, uh_target = \<lparr>tg_os = ''linux'', tg_architecture = ''x86_64''\<rparr>,
     uh_decode = (\<lambda>_. None), uh_application_id = am_identifier manifest,
     uh_current_version = am_version manifest, uh_config = am_updates manifest, uh_bundle_root = None\<rparr>"

definition sample_random :: "u8 list" where
  "sample_random = replicate 32 170"

lemma sample_random_token: "encode_hex sample_random = sample_token"
proof -
  have digit: "hex_digits ! unat (drop_bit 4 (170 :: u8)) = CHR ''a''" "hex_digits ! unat (and (170 :: u8) 0x0f) = CHR ''a''"
    by (simp_all add: hex_digits_def)
  have "concat (replicate n [CHR ''a'', CHR ''a'']) = replicate (2 * n) CHR ''a''" for n
    by (induction n) simp_all
  from this [of 32] show ?thesis
    unfolding encode_hex_def sample_random_def sample_token_def map_replicate digit by simp
qed

definition sample_start_env :: "(nat \<times> nat option) start_env" where
  "sample_start_env = \<lparr>st_host = plain_host sample_bootstrap, st_fs = sample_fs, st_port = Inr 4100,
     st_random = Inr sample_random, st_sqlite = sample_sqlite,
     st_database_files = \<lparr>df_create_dir_all = (\<lambda>_. None), df_canonicalize = Some, df_is_symlink = (\<lambda>_. False)\<rparr>,
     st_http = sample_http, st_os = sample_disk, st_unix = True, st_mode_of = (\<lambda>_. 0),
     st_search = Inr (0, None), st_codec = sample_codec,
     st_files = \<lparr>gf_store = None, gf_temporary = None\<rparr>, st_platform = ''linux'',
     st_variables = [''XDG_DATA_HOME'' \<mapsto> ''/h''], st_sha256 = (\<lambda>s. s), st_updater_host = sample_updates,
     st_otlp = Inr None, st_pool = (\<lambda>_. ready_spawn), st_scheduler = (\<lambda>_. None), st_thread = Inr (),
     st_watcher = Inr (), st_descriptor = sample_descriptor_codec, st_session = sample_session_env,
     st_session_files = no_session_files, st_restart = ready_spawn\<rparr>"

definition sample_runtime :: "(nat \<times> nat option) runtime" where
  "sample_runtime =
     \<lparr>rt_native = sample_services\<lparr>nv_persistent_path := ''/h/pam-desktop/com.example.notes/file-grants.json''\<rparr>,
      rt_databases = [''index'' \<mapsto> \<lparr>dh_access = DatabaseAccess.ReadWrite, dh_connection = (0, None)\<rparr>],
      rt_origins = Map.empty,
      rt_processes = \<lparr>pv_commands = Map.empty, pv_root = ''/p'', pv_sessions = Map.empty,
        pv_next_session = 1\<rparr>,
      rt_search = (0, None)\<rparr>"

lemma sample_database_opened:
  "databases_prepare sample_sqlite (st_database_files sample_start_env) ''/p''
     (nc_databases sample_capabilities) Map.empty [] =
   Inr (rt_databases sample_runtime, [(''/p/data/index.sqlite'', OpenReadWriteCreate)])"
proof -
  have "validate_database \<lparr>db_name = ''index'', db_path = ''data/index.sqlite'',
      db_access = DatabaseAccess.ReadWrite\<rparr> = Inr ()"
    "safe_relative_path ''data/index.sqlite'' = Inr ''data/index.sqlite''"
    "path_join ''/p'' ''data/index.sqlite'' = ''/p/data/index.sqlite''"
    "path_parent ''/p/data/index.sqlite'' = Some ''/p/data''" "path_starts_with ''/p/data'' ''/p''"
    by code_simp+
  then show ?thesis
    by (simp add: sample_capabilities_def sample_start_env_def sample_runtime_def open_database_def
        Let_def check_parent_def database_flags_def sample_sqlite_def)
qed

lemma sample_services_prepared:
  "prepare_services sample_start_env ''/p'' sample_capabilities =
     Inr (rt_databases sample_runtime, Map.empty, rt_processes sample_runtime, (0, None))"
  using sample_database_opened
  by (simp add: prepare_services_def)
    (simp add: sample_start_env_def http_prepare_def prepare_processes_def sample_capabilities_def
      sample_disk_def sample_runtime_def)

lemma sample_disk_root:
  "prepare_roots sample_disk ''/p'' (nc_filesystem_roots sample_capabilities) Map.empty =
     Inr (nv_roots sample_services)"
proof -
  have "prepare_root sample_disk ''/p'' \<lparr>fr_name = ''notes'', fr_path = ''data'',
      fr_access = FileAccess.ReadWrite\<rparr> =
    Inr (''notes'', \<lparr>ar_directory = ''/p/data'', ar_access = FileAccess.ReadWrite, ar_path = ''/p/data''\<rparr>)"
    by (simp add: prepare_root_def sample_paths Let_def) (simp add: sample_disk_def sample_os_def)
  then show ?thesis
    by (simp add: sample_capabilities_def sample_services_def)
qed

lemma sample_runtime_prepared:
  "prepare_runtime sample_start_env (st_files sample_start_env) ''/p'' ''com.example.notes'' sample_capabilities =
     Inr sample_runtime"
proof -
  have path: "persistent_grants_path ''linux'' [''XDG_DATA_HOME'' \<mapsto> ''/h''] ''com.example.notes'' =
      Inr ''/h/pam-desktop/com.example.notes/file-grants.json''"
    by code_simp
  have env: "st_host sample_start_env = plain_host sample_bootstrap" "st_os sample_start_env = sample_disk"
    "st_codec sample_start_env = sample_codec" "st_platform sample_start_env = ''linux''"
    "st_files sample_start_env = \<lparr>gf_store = None, gf_temporary = None\<rparr>"
    "st_variables sample_start_env = [''XDG_DATA_HOME'' \<mapsto> ''/h'']"
    by (simp_all add: sample_start_env_def)
  have "native_prepare (\<lambda>_. None) sample_disk sample_codec
      (probe_store \<lparr>gf_store = None, gf_temporary = None\<rparr>)
      (Inr ''/h/pam-desktop/com.example.notes/file-grants.json'') (Inr ()) ''/p'' sample_capabilities =
    Inr (rt_native sample_runtime)"
    by (simp add: native_prepare_def sample_capabilities_valid sample_disk_root probe_store_simps)
      (simp add: sample_services_def sample_runtime_def)
  then show ?thesis
    by (simp add: prepare_runtime_def Let_def sample_services_prepared env path plain_host_def)
      (simp add: sample_runtime_def)
qed

lemma sample_parts_prepared:
  "project_validate_bootstrap sample_fs (\<lambda>_. None) False sample_project sample_bootstrap = Inr ()"
  "plugins_prepare sample_fs (\<lambda>s. s) sample_project [sample_plugin] =
     Inr [''images'' \<mapsto> lazy_slot sample_plugin]"
  "public_root sample_fs sample_project = Inr ''/p/resources''"
  "pool_prepare (plain_host sample_bootstrap) (\<lambda>_. ready_spawn) (requested_parallel_count sample_bootstrap) =
     Inr sample_pool"
proof -
  show "project_validate_bootstrap sample_fs (\<lambda>_. None) False sample_project sample_bootstrap = Inr ()"
    by (simp add: project_validate_bootstrap_def sample_bootstrap_valid,
        simp add: sample_bootstrap_def sample_window_def sample_manifest_def sample_plugin_def
          sample_resolutions)
  show "plugins_prepare sample_fs (\<lambda>s. s) sample_project [sample_plugin] =
      Inr [''images'' \<mapsto> lazy_slot sample_plugin]"
    by (simp add: plugins_prepare_def sample_plugin_def verify_integrity_def sample_plugin_file)
  show "public_root sample_fs sample_project = Inr ''/p/resources''"
    by code_simp
  have "requested_parallel_count sample_bootstrap = Suc (Suc 0)"
    by (simp add: requested_parallel_count_def sample_bootstrap_def sample_workstation_def)
  then show "pool_prepare (plain_host sample_bootstrap) (\<lambda>_. ready_spawn)
      (requested_parallel_count sample_bootstrap) = Inr sample_pool"
    by (simp add: pool_prepare_def sample_started sample_pool_def sample_worker_def)
qed

definition sample_desktop :: "(nat \<times> nat option) Desktop" where
  "sample_desktop = \<lparr>dk_gateway = sample_gateway\<lparr>gs_token := sample_token, gs_native := rt_native sample_runtime,
       gs_plugins := [''images'' \<mapsto> lazy_slot sample_plugin]\<rparr>,
     dk_files = st_files sample_start_env, dk_databases = rt_databases sample_runtime,
     dk_origins = Map.empty, dk_processes = rt_processes sample_runtime, dk_search = (0, None),
     dk_watches = Map.empty, dk_updater_host = sample_updates sample_manifest,
     dk_updater = updater_prepare sample_manifest, dk_scheduler = None\<rparr>"

lemma sample_assembled:
  "assemble sample_start_env sample_project sample_worker sample_bootstrap True False = Inr sample_desktop"
proof -
  have texts: "secure_token (Inr sample_random) = Inr sample_token"
    "trim_end_slashes (gateway_url 4100) = ''http://127.0.0.1:4100''"
    by (simp_all add: secure_token_def sample_random_token gateway_url_def decimal.simps char_of_eq_iff of_char_def
        trim_end_slashes_def)
  have env: "st_host sample_start_env = plain_host sample_bootstrap" "st_fs sample_start_env = sample_fs"
    "st_port sample_start_env = Inr 4100" "st_random sample_start_env = Inr sample_random"
    "st_sha256 sample_start_env = (\<lambda>s. s)" "st_otlp sample_start_env = Inr None"
    "st_pool sample_start_env = (\<lambda>_. ready_spawn)" "st_updater_host sample_start_env = sample_updates"
    "hs_parse_url (plain_host sample_bootstrap) = (\<lambda>_. None)" "\<not> hs_debug (plain_host sample_bootstrap)"
    "pj_root sample_project = ''/p''" "am_identifier sample_manifest = ''com.example.notes''"
    by (simp_all add: sample_start_env_def plain_host_def sample_project_def sample_manifest_def)
  show ?thesis
    by (simp add: assemble_def Let_def env sample_bootstrap_fields sample_parts_prepared texts sample_runtime_prepared)
      (simp add: sample_desktop_def sample_gateway_def sample_runtime_def)
qed

lemma sample_session_started:
  "start_session sample_start_env (gateway_url 4100) (dk_gateway sample_desktop) =
     Inr [SessionPublished sample_session_files \<lparr>dn_process_id = 7, dn_bridge_token = sample_token\<rparr>]"
proof -
  have "gateway_url 4100 = ''http://127.0.0.1:4100/''"
    by (simp add: gateway_url_def decimal.simps char_of_eq_iff of_char_def)
  moreover have "gs_bootstrap (dk_gateway sample_desktop) = sample_bootstrap"
    "gs_token (dk_gateway sample_desktop) = sample_token" "wc_id (sample_window ''main'') = ''main''"
    by (simp_all add: sample_desktop_def sample_gateway_def sample_window_def)
  ultimately show ?thesis
    by (simp add: start_session_def sample_bootstrap_fields, simp add: sample_start_env_def sample_created)
qed

lemma sample_gateway_started:
  "gateway_start sample_start_env x sample_project sample_worker sample_bootstrap True False =
     Inr (sample_desktop\<lparr>dk_scheduler := Some [sample_job]\<rparr>, [SchedulerStarted [sample_job],
       SessionPublished sample_session_files \<lparr>dn_process_id = 7, dn_bridge_token = sample_token\<rparr>])"
proof -
  have "\<not> ws_background_agent (bs_workstation sample_bootstrap)"
    by (simp add: sample_bootstrap_def sample_workstation_def WorkstationConfig_default_def)
  moreover have "replace_scheduler sample_start_env [sample_job] sample_desktop =
      (sample_desktop\<lparr>dk_scheduler := Some [sample_job]\<rparr>, [SchedulerStarted [sample_job]], Inr ())"
    by (simp add: replace_scheduler_def stop_scheduler_def sample_start_env_def sample_desktop_def)
  moreover have "start_update_policy x (sample_desktop\<lparr>dk_scheduler := Some [sample_job]\<rparr>) =
      (sample_desktop\<lparr>dk_scheduler := Some [sample_job]\<rparr>, [])"
    by (simp add: start_update_policy_def updater_policy_def sample_desktop_def sample_updates_def
        sample_manifest_def)
  moreover have "st_thread sample_start_env = Inr ()" "st_watcher sample_start_env = Inr ()"
    "st_port sample_start_env = Inr 4100"
    by (simp_all add: sample_start_env_def)
  ultimately show ?thesis
    by (simp add: gateway_start_def sample_assembled sample_bootstrap_fields sample_session_started)
qed

theorem reached_desktop_is_declared_witness:
  "exactly_declared sample_start_env (sample_desktop\<lparr>dk_scheduler := Some [sample_job]\<rparr>)"
  by (rule reached_desktop_is_declared [OF reached.started [OF sample_gateway_started]])

theorem own_diagnostics_are_refused_witness:
  "\<exists>request :: diagnostic_request. refused (dk_gateway (sample_desktop\<lparr>dk_scheduler := Some [sample_job]\<rparr>)) (dq_headers request)
     ''main'' [] = Some unauthorized_response"
proof -
  have env: "st_descriptor sample_start_env = sample_descriptor_codec" "st_session sample_start_env = sample_session_env"
    by (simp_all add: sample_start_env_def)
  note refusal = own_diagnostics_are_refused [OF sample_gateway_started, unfolded env,
    where window_id = "''main''" and message = "[]" and send = "\<lambda>_. None" and parse = "\<lambda>_. None"]
  show ?thesis
  proof (rule exE [OF refusal])
    show "dc_decode sample_descriptor_codec bytes = Some sd"
      if "dc_encode sample_descriptor_codec sd = Some bytes" for sd bytes
      using that by (rule Diagnostics.sample_codec)
  qed (simp add: sample_session_env_def, elim exE conjE, erule exI)
qed

definition sample_page :: headers where
  "sample_page = [''origin'' \<mapsto> ''http://127.0.0.1:4100'', BRIDGE_HEADER \<mapsto> sample_token]"

lemma sample_page_authorized: "authorized (dk_gateway sample_desktop) sample_page"
  using authorized_iff
  by (simp add: sample_page_def sample_desktop_def sample_gateway_def BRIDGE_HEADER_def)

definition sample_sampled :: "(nat \<times> nat option) Desktop" where
  "sample_sampled = on_gateway (\<lambda>st. st\<lparr>gs_metrics :=
     GatewayMetrics_default\<lparr>gm_frame_microseconds := [16000]\<rparr>\<rparr>) sample_desktop"

lemma sample_frame:
  "handle encode x sample_desktop sample_page (FrameSample ''main'' 16000) =
     (sample_sampled, [], Some (native_success JNull))"
proof -
  have "has_window (dk_gateway sample_desktop) ''main''" "gs_metrics (dk_gateway sample_desktop) = GatewayMetrics_default"
    by (simp_all add: sample_windows sample_desktop_def sample_gateway_def)
  then show ?thesis
    by (simp add: performance_frame_def answered_step_def sample_page_authorized between_def
        sample_sampled_def record_sample_def GatewayMetrics_default_def PERFORMANCE_SAMPLE_LIMIT_def
        on_gateway_def)
qed

theorem answers_are_hardened_witness: "hardened (native_success JNull)"
  by (rule answers_are_hardened [OF disjI1 [OF sample_frame]])

theorem requests_never_extend_authority_witness:
  "gs_token (dk_gateway sample_sampled) = gs_token (dk_gateway sample_desktop)"
  using requests_never_extend_authority [OF sample_frame] by blast

theorem refused_requests_have_no_effect_witness:
  "\<forall>encode x. fst (handle encode x sample_desktop (\<lambda>_. None) (FrameSample ''main'' 16000)) = sample_desktop"
proof (intro allI)
  fix encode and x :: "(nat \<times> nat option) outside"
  have "\<not> authorized (dk_gateway sample_desktop) (\<lambda>_. None)"
    by (simp add: authorized_iff)
  then show "fst (handle encode x sample_desktop (\<lambda>_. None) (FrameSample ''main'' 16000)) = sample_desktop"
    using refused_requests_have_no_effect [of sample_desktop "\<lambda>_. None" "FrameSample ''main'' 16000" encode x]
    by (cases "handle encode x sample_desktop (\<lambda>_. None) (FrameSample ''main'' 16000)") simp
qed

lemma sample_served:
  "serve_file sample_fs sample_gateway ''a.svg'' = (Some ''/p/resources/a.svg'',
     secure_response 200 ''image/svg+xml'' (TextBody ''<svg''))"
proof -
  have "\<not> path_is_absolute ''a.svg''" "path_components ''a.svg'' = [Normal ''a.svg'']"
    "path_join ''/p/resources'' ''a.svg'' = ''/p/resources/a.svg''"
    "path_starts_with ''/p/resources/a.svg'' ''/p/resources''"
    "path_extension ''/p/resources/a.svg'' = Some ''svg''"
    by code_simp+
  then show ?thesis
    by (simp add: serve_file_def sample_gateway_def sample_fs_def content_type_def normal_component_def)
qed

theorem served_files_are_public_witness: "path_starts_with ''/p/resources/a.svg'' ''/p/resources''"
  using served_files_are_public [of sample_fs sample_gateway "''a.svg''"] sample_served
  by (fastforce simp: sample_gateway_def)

lemma sample_restart_fails:
  "supervisor_restart (plain_host sample_bootstrap) sample_worker no_spawn =
     (sample_worker\<lparr>sv_worker := None\<rparr>, [], Inl ''cannot start PHP worker'')"
  by (simp add: supervisor_restart_def spawn_ready_worker_def no_spawn_def executable_is_busy_def
      spawn_attempts.simps [of 0])

lemma sample_restarts:
  "supervisor_restart (plain_host sample_bootstrap) sample_worker ready_spawn =
     (sample_worker\<lparr>sv_generation := 2\<rparr>, [request_for_window 1 BOOT_COMMAND MAIN_WINDOW_ID JNull],
      Inr sample_bootstrap)"
proof -
  have "spawn_ready_worker (plain_host sample_bootstrap) ready_spawn =
      ([request_for_window 1 BOOT_COMMAND MAIN_WINDOW_ID JNull], Inr (\<lparr>wk_next_id = 2\<rparr>, sample_bootstrap))"
    using sample_started
    by (auto simp: supervisor_start_def split: prod.splits sum.splits)
  then show ?thesis
    by (simp add: supervisor_restart_def sample_worker_def sat_add_def)
qed

theorem reload_overlaps_schedules_witness:
  "\<forall>x. dk_scheduler (fst (reload sample_start_env x Runtime
     (sample_desktop\<lparr>dk_scheduler := Some []\<rparr>))) = Some [sample_job]"
proof (intro allI)
  fix x
  let ?d = "sample_desktop\<lparr>dk_scheduler := Some []\<rparr>"
  have env: "st_host sample_start_env = plain_host sample_bootstrap" "st_fs sample_start_env = sample_fs"
    "st_sha256 sample_start_env = (\<lambda>s. s)" "st_pool sample_start_env = (\<lambda>_. ready_spawn)"
    "st_restart sample_start_env = ready_spawn" "st_scheduler sample_start_env = (\<lambda>_. None)"
    "hs_parse_url (plain_host sample_bootstrap) = (\<lambda>_. None)" "\<not> hs_debug (plain_host sample_bootstrap)"
    "gs_project (dk_gateway sample_desktop) = sample_project"
    "gs_supervisor (dk_gateway sample_desktop) = sample_worker"
    "dk_files sample_desktop = st_files sample_start_env"
    by (simp_all add: sample_start_env_def plain_host_def sample_desktop_def sample_gateway_def)
  have "am_identifier sample_manifest = ''com.example.notes''" "pj_root sample_project = ''/p''"
    by (simp_all add: sample_manifest_def sample_project_def)
  then have parts: "reloaded_parts sample_start_env (dk_files ?d) (gs_project (dk_gateway ?d))
      (Inr sample_bootstrap) = Inr (sample_bootstrap, sample_runtime,
        [''images'' \<mapsto> lazy_slot sample_plugin], sample_pool)"
    by (simp add: reloaded_parts_def env sample_bootstrap_fields sample_parts_prepared sample_runtime_prepared)
  have restart: "supervisor_restart (st_host sample_start_env) (gs_supervisor (dk_gateway ?d))
      (st_restart sample_start_env) = (sample_worker\<lparr>sv_generation := 2\<rparr>,
        [request_for_window 1 BOOT_COMMAND MAIN_WINDOW_ID JNull], Inr sample_bootstrap)"
    by (simp add: env sample_restarts)
  have "\<not> ws_background_agent (bs_workstation sample_bootstrap)"
    by (simp add: sample_bootstrap_def sample_workstation_def WorkstationConfig_default_def)
  moreover have "st_scheduler sample_start_env (bs_background_jobs sample_bootstrap) = None"
    "dk_scheduler ?d = Some []"
    by (simp_all add: env)
  ultimately show "dk_scheduler (fst (reload sample_start_env x Runtime ?d)) = Some [sample_job]"
    using reload_overlaps_schedules [OF restart parts] sample_bootstrap_fields(6) by (metis prod.collapse)
qed

end
