(* ===== verification/PackageFiles.thy ===== *)
theory PackageFiles
  imports UpdateRecoveryClaims NativeFiles
begin

text \<open>
  \<open>packager.rs\<close>, the files of a bundle: what is copied from the project, the Composer metadata, the
  manifest with the digest of every file, and the permissions.

  The project is a source tree: directories by their canonical path, each with the entries that
  reading it yields; \<open>canonicalize\<close> is a parameter, so links may lead anywhere and form cycles.  The
  bundle that is built is an \<open>entry\<close> of UpdateApply, so the helper's verification applies to it.
\<close>

section \<open>Paths that are left out\<close>

text \<open>A relative path is the list of its names.\<close>

definition default_excluded :: "string \<Rightarrow> bool" where
  "default_excluded name \<longleftrightarrow>
     name \<in> set [''.git'', ''.pam'', ''.pamignore'', ''dist'', ''node_modules'', ''target''] \<or>
     name = ''.env'' \<or> starts_with ''.env.'' name"

definition excluded_path :: "string list \<Rightarrow> string list \<Rightarrow> bool" where
  "excluded_path relative configured =
     (let scaffold_plugin_source =
            (case relative of first # second # _ \<Rightarrow> first = ''plugins'' \<and> second \<noteq> ''bin'' | _ \<Rightarrow> False);
          nested_package_vendor =
            (''vendor'' \<in> set (drop 1 relative) \<and> starts_with [''vendor''] relative)
      in list_ex default_excluded relative \<or> scaffold_plugin_source \<or> nested_package_vendor \<or>
         list_ex (\<lambda>excluded. starts_with (path_components excluded) (map Normal relative)) configured)"

section \<open>Copying the project\<close>

record source_tree =
  so_directories :: "string list"
  so_canonicalize :: "string \<Rightarrow> string option"
  so_entries :: "string \<Rightarrow> (string \<times> file_kind option) list"
  so_is_file :: "string \<Rightarrow> bool"
  so_read :: "string \<Rightarrow> string option"

record CopyContext =
  cx_project_root :: string
  cx_build_output :: string
  cx_excludes :: "string list"

definition copied_file :: "source_tree \<Rightarrow> string \<Rightarrow> string + entry" where
  "copied_file t path = (case so_read t path of None \<Rightarrow> Inl ''cannot copy'' | Some content \<Rightarrow> Inr (Regular content))"

lemma ancestors_shrink:
  "canonical \<in> set dirs \<Longrightarrow> canonical \<notin> ancestors \<Longrightarrow>
     card (set dirs - insert canonical ancestors) < card (set dirs - ancestors)"
  by (rule psubset_card_mono) auto

text \<open>
  \<open>ancestors\<close> are the directories on the way down, by their canonical path; one that cannot be listed is
  not among \<open>so_directories\<close>.  The recursion ends because each level adds one of them.
\<close>

function copy_directory :: "source_tree \<Rightarrow> CopyContext \<Rightarrow> string \<Rightarrow> string list \<Rightarrow> string set \<Rightarrow> string + (string \<times> entry) list" and
  copy_entries :: "source_tree \<Rightarrow> CopyContext \<Rightarrow> string \<Rightarrow> string list \<Rightarrow> string set \<Rightarrow>
    (string \<times> file_kind option) list \<Rightarrow> string + (string \<times> entry) list" and
  copy_project_symlink :: "source_tree \<Rightarrow> CopyContext \<Rightarrow> string \<Rightarrow> string list \<Rightarrow> string set \<Rightarrow> string + entry"
where
  "copy_directory t c source relative ancestors =
     (case so_canonicalize t source of
        None \<Rightarrow> Inl ''cannot resolve''
      | Some canonical \<Rightarrow>
          if path_starts_with canonical (cx_build_output c) then Inr []
          else if canonical \<in> ancestors then Inl ''bundle symlink cycle detected''
          else if canonical \<notin> set (so_directories t) then Inl ''cannot read''
          else copy_entries t c source relative (insert canonical ancestors) (so_entries t canonical))"
| "copy_entries t c source relative ancestors [] = Inr []"
| "copy_entries t c source relative ancestors ((name, kind) # rest) =
     (let child = relative @ [name]; path = path_join source name in
      if excluded_path child (cx_excludes c) then copy_entries t c source relative ancestors rest
      else rbind (case kind of
          None \<Rightarrow> Inl ''cannot inspect''
        | Some DirectoryFile \<Rightarrow>
            (case so_canonicalize t path of
               None \<Rightarrow> Inl ''cannot resolve''
             | Some canonical \<Rightarrow>
                 if path_starts_with canonical (cx_build_output c) then Inr []
                 else rbind (copy_directory t c path child ancestors) (\<lambda>below. Inr [(name, Directory below)]))
        | Some RegularFile \<Rightarrow> rbind (copied_file t path) (\<lambda>file. Inr [(name, file)])
        | Some SymbolicLink \<Rightarrow> rbind (copy_project_symlink t c path child ancestors) (\<lambda>e. Inr [(name, e)])
        | Some SpecialFile \<Rightarrow> Inl ''unsupported project file type'')
        (\<lambda>copied. rbind (copy_entries t c source relative ancestors rest) (\<lambda>others. Inr (copied @ others))))"
| "copy_project_symlink t c source relative ancestors =
     (case so_canonicalize t source of
        None \<Rightarrow> Inl ''cannot resolve symlink''
      | Some canonical \<Rightarrow>
          if \<not> path_starts_with canonical (cx_project_root c) \<and> \<not> starts_with [''vendor''] relative
          then Inl ''bundle symlink escapes the project outside vendor''
          else if path_starts_with canonical (cx_build_output c)
          then Inl ''bundle symlink points into the build output''
          else if canonical \<in> set (so_directories t)
          then rbind (copy_directory t c canonical relative ancestors) (\<lambda>below. Inr (Directory below))
          else if so_is_file t canonical then copied_file t canonical
          else Inl ''unsupported project symlink'')"
  by pat_completeness auto

termination
  by (relation "measures [
      \<lambda>x. case x of
        Inl (t, c, source, relative, ancestors) \<Rightarrow> card (set (so_directories t) - ancestors)
      | Inr (Inl (t, c, source, relative, ancestors, entries)) \<Rightarrow> card (set (so_directories t) - ancestors)
      | Inr (Inr (t, c, source, relative, ancestors)) \<Rightarrow> card (set (so_directories t) - ancestors),
      \<lambda>x. case x of
        Inl _ \<Rightarrow> 0
      | Inr (Inl (t, c, source, relative, ancestors, entries)) \<Rightarrow> 2 + length entries
      | Inr (Inr _) \<Rightarrow> 1]")
    (auto simp: ancestors_shrink simp del: card_Diff_insert)

definition copy_project :: "source_tree \<Rightarrow> CopyContext \<Rightarrow> string + (string \<times> entry) list" where
  "copy_project t c = copy_directory t c (cx_project_root c) [] {}"

text \<open>
  The names that reading a directory yields are single path components: a joined path has one component
  more, so it stays below whatever its directory is below.
\<close>

definition component_name :: "string \<Rightarrow> bool" where
  "component_name n \<longleftrightarrow> slash \<notin> set n \<and> n \<noteq> [] \<and> n \<noteq> ''.'' \<and> n \<noteq> ''..''"

definition directory_names :: "source_tree \<Rightarrow> bool" where
  "directory_names t \<longleftrightarrow> (\<forall>directory name kind. (name, kind) \<in> set (so_entries t directory) \<longrightarrow> component_name name)"

lemma split_on_append: "split_on c (xs @ c # ys) = split_on c xs @ split_on c ys"
  by (induction xs) (auto split: list.splits)

lemma path_components_join:
  assumes "component_name name"
  shows "path_components (path_join source name) = path_components source @ [Normal name]"
proof -
  have name: "slash \<notin> set name" "name \<noteq> []" "name \<noteq> ''.''" "name \<noteq> ''..''" "split_on slash name = [name]"
    using assms by (simp_all add: component_name_def split_on_no_sep)
  have relative: "\<not> path_is_absolute name"
    using name(1,2) by (cases name) (auto simp: path_is_absolute_def starts_with_def slash_def)
  have joined: "path_components (s @ slash # name) = path_components (s @ tail) @ [Normal name]"
    if "tail = [] \<and> s \<noteq> [] \<or> tail = [slash]" for s tail
  proof -
    have "split_on slash (s @ tail) = split_on slash s \<or> split_on slash (s @ tail) = split_on slash s @ [[]]"
      using that split_on_append [of slash s "[]"] by auto
    moreover have "starts_with ''/'' (s @ slash # name) = starts_with ''/'' (s @ tail)"
      using that by (cases s) (auto simp: starts_with_def slash_def)
    ultimately show ?thesis
      using name by (auto simp: path_components_def Let_def split_on_append List.map_filter_def hd_append)
  qed
  show ?thesis
  proof (cases "source = []")
    case True
    have "path_components [] = []"
      by (simp add: path_components_def List.map_filter_def starts_with_def)
    with True relative path_components_single [OF name(1-4)] show ?thesis
      by (simp add: path_join_def)
  next
    case nonempty: False
    show ?thesis
    proof (cases "last source = slash")
      case True
      then have "source = butlast source @ [slash]"
        using nonempty by (metis append_butlast_last_id)
      moreover have "path_join source name = butlast source @ slash # name"
        using True nonempty relative append_butlast_last_id [OF nonempty]
        by (metis append.assoc append_Cons append_Nil path_join_def)
      ultimately show ?thesis
        using joined [of "[slash]" "butlast source"] by metis
    next
      case False
      then show ?thesis
        using relative nonempty joined [of "[]" source] by (simp add: path_join_def)
    qed
  qed
qed

lemma path_join_below:
  "component_name name \<Longrightarrow> path_starts_with source root \<Longrightarrow> path_starts_with (path_join source name) root"
  by (auto simp: path_starts_with_iff path_components_join)

text \<open>
  What the recursion keeps: no prefix of a copied path is excluded, and outside \<open>vendor\<close> every content
  was read at a path below the project.
\<close>

fun included :: "CopyContext \<Rightarrow> string list \<Rightarrow> string list \<Rightarrow> bool" where
  "included c relative [] = True"
| "included c relative (n # p) =
     (\<not> excluded_path (relative @ [n]) (cx_excludes c) \<and> included c (relative @ [n]) p)"

definition may_read :: "CopyContext \<Rightarrow> string list \<Rightarrow> string \<Rightarrow> bool" where
  "may_read c relative path \<longleftrightarrow> starts_with [''vendor''] relative \<or> path_starts_with path (cx_project_root c)"

lemma may_read_below:
  "may_read c relative source \<Longrightarrow> component_name name \<Longrightarrow> may_read c (relative @ [name]) (path_join source name)"
  by (auto simp: may_read_def starts_with_def path_join_below split: list.splits) (cases relative; simp)+

definition copied_well :: "source_tree \<Rightarrow> CopyContext \<Rightarrow> string list \<Rightarrow> (string \<times> entry) list \<Rightarrow> bool" where
  "copied_well t c relative es \<longleftrightarrow> (\<forall>p e. holds_entry es p e \<longrightarrow> plain e \<and> included c relative p \<and>
     (\<forall>content. e = Regular content \<longrightarrow>
       (\<exists>path. so_read t path = Some content \<and> may_read c (relative @ p) path)))"

lemma copied_well_Nil [simp]: "copied_well t c relative []"
  by (simp add: copied_well_def holds_entry_Nil)

lemma copied_well_append:
  "copied_well t c relative es \<Longrightarrow> copied_well t c relative fs \<Longrightarrow> copied_well t c relative (es @ fs)"
proof -
  have "holds_entry (es @ fs) p e \<longleftrightarrow> holds_entry es p e \<or> holds_entry fs p e" for p e
    by (induction es) (auto simp: holds_entry_Nil holds_entry_Cons)
  then show "copied_well t c relative es \<Longrightarrow> copied_well t c relative fs \<Longrightarrow> copied_well t c relative (es @ fs)"
    by (auto simp: copied_well_def)
qed

definition entry_well :: "source_tree \<Rightarrow> CopyContext \<Rightarrow> string list \<Rightarrow> entry \<Rightarrow> bool" where
  "entry_well t c relative e \<longleftrightarrow>
     (case e of
        Directory es \<Rightarrow> copied_well t c relative es
      | Regular content \<Rightarrow> (\<exists>path. so_read t path = Some content \<and> may_read c relative path)
      | _ \<Rightarrow> False)"

lemma copied_well_one:
  "\<not> excluded_path (relative @ [name]) (cx_excludes c) \<Longrightarrow> entry_well t c (relative @ [name]) e \<Longrightarrow>
     copied_well t c relative [(name, e)]"
  by (cases e) (auto simp: copied_well_def entry_well_def holds_entry_Cons holds_entry_Nil)

lemma copied_file_well:
  "copied_file t path = Inr e \<Longrightarrow> may_read c relative path \<Longrightarrow> entry_well t c relative e"
  by (auto simp: copied_file_def entry_well_def split: option.splits)

lemma copy_well:
  "copy_directory t c source relative ancestors = Inr es \<Longrightarrow> directory_names t \<Longrightarrow>
     may_read c relative source \<Longrightarrow> copied_well t c relative es"
  "copy_entries t c source relative ancestors xs = Inr fs \<Longrightarrow> directory_names t \<Longrightarrow>
     may_read c relative source \<Longrightarrow> \<forall>(name, kind) \<in> set xs. component_name name \<Longrightarrow> copied_well t c relative fs"
  "copy_project_symlink t c source relative ancestors = Inr e \<Longrightarrow> directory_names t \<Longrightarrow> entry_well t c relative e"
proof (induction t c source relative ancestors and t c source relative ancestors xs
    and t c source relative ancestors arbitrary: es and fs and e
    rule: copy_directory_copy_entries_copy_project_symlink.induct)
  case (1 t c source relative ancestors)
  have "\<forall>(name, kind) \<in> set (so_entries t canonical). component_name name" for canonical
    using "1.prems"(2) by (auto simp: directory_names_def)
  with 1 show ?case by (auto split: option.splits if_splits)
next
  case (3 t c source relative ancestors name kind rest)
  have name: "component_name name" and others_names: "\<forall>(name, kind) \<in> set rest. component_name name"
    using "3.prems"(4) by auto
  note child = may_read_below [OF "3.prems"(3) name]
  show ?case
  proof (cases "excluded_path (relative @ [name]) (cx_excludes c)")
    case True
    with 3 show ?thesis by (simp add: Let_def)
  next
    case False
    from "3.prems"(1) False obtain copied others where parts:
      "copy_entries t c source relative ancestors rest = Inr others" "fs = copied @ others"
      and new: "(case kind of
          None \<Rightarrow> Inl ''cannot inspect''
        | Some DirectoryFile \<Rightarrow>
            (case so_canonicalize t (path_join source name) of
               None \<Rightarrow> Inl ''cannot resolve''
             | Some canonical \<Rightarrow>
                 if path_starts_with canonical (cx_build_output c) then Inr []
                 else rbind (copy_directory t c (path_join source name) (relative @ [name]) ancestors)
                   (\<lambda>below. Inr [(name, Directory below)]))
        | Some RegularFile \<Rightarrow> rbind (copied_file t (path_join source name)) (\<lambda>file. Inr [(name, file)])
        | Some SymbolicLink \<Rightarrow> rbind (copy_project_symlink t c (path_join source name) (relative @ [name]) ancestors)
            (\<lambda>e. Inr [(name, e)])
        | Some SpecialFile \<Rightarrow> Inl ''unsupported project file type'') = Inr copied"
      by (auto simp: Let_def rbind_Inr_iff)
    have "copied_well t c relative copied"
    proof (cases kind)
      case (Some k)
      show ?thesis
      proof (cases k)
        case DirectoryFile
        with new Some consider "copied = []" | below where "copied = [(name, Directory below)]"
          "copy_directory t c (path_join source name) (relative @ [name]) ancestors = Inr below"
          by (auto simp: rbind_Inr_iff simp del: copy_directory.simps split: option.splits if_splits)
        then show ?thesis
        proof cases
          case 2
          from new Some DirectoryFile 2(1) obtain canonical where
            "so_canonicalize t (path_join source name) = Some canonical"
            "\<not> path_starts_with canonical (cx_build_output c)"
            by (auto split: option.splits if_splits)
          with "3.IH"(2) [OF refl refl False Some DirectoryFile _ _ 2(2) "3.prems"(2) child]
          have "copied_well t c (relative @ [name]) below" by blast
          then show ?thesis
            using 2(1) False by (simp add: copied_well_one entry_well_def)
        qed simp
      next
        case SymbolicLink
        with new Some obtain e where "copied = [(name, e)]"
          and link: "copy_project_symlink t c (path_join source name) (relative @ [name]) ancestors = Inr e"
          by (auto simp: rbind_Inr_iff simp del: copy_project_symlink.simps)
        then show ?thesis
          using "3.IH"(3) [OF refl refl False Some SymbolicLink link "3.prems"(2)] False
          by (simp add: copied_well_one)
      qed (use new Some False child in \<open>auto simp: rbind_Inr_iff intro!: copied_well_one copied_file_well\<close>)
    qed (use new in simp)
    moreover have "copied_well t c relative others"
      using "3.IH"(4) [OF refl refl False parts(1) "3.prems"(2,3) others_names] .
    ultimately show ?thesis
      by (simp add: parts(2) copied_well_append)
  qed
next
  case (4 t c source relative ancestors)
  obtain canonical where canonical: "so_canonicalize t source = Some canonical" "may_read c relative canonical"
    "\<not> path_starts_with canonical (cx_build_output c)"
    using "4.prems"(1) by (auto simp: may_read_def split: option.splits if_splits)
  from "4.prems"(1) canonical consider
    (dir) below where "e = Directory below" "canonical \<in> set (so_directories t)"
      "copy_directory t c canonical relative ancestors = Inr below"
    | (plain) "copied_file t canonical = Inr e"
    by (auto simp: rbind_Inr_iff simp del: copy_directory.simps split: if_splits)
  then show ?case
  proof cases
    case dir
    from "4.prems"(1) canonical(1) have "\<not> (\<not> path_starts_with canonical (cx_project_root c) \<and>
        \<not> starts_with [''vendor''] relative)"
      by (auto split: if_splits)
    from "4.IH" [OF canonical(1) this canonical(3) dir(2,3) "4.prems"(2) canonical(2)] dir(1)
    show ?thesis by (simp add: entry_well_def)
  qed (rule copied_file_well [OF _ canonical(2)])
qed simp

lemma included_last: "included c relative p \<Longrightarrow> p \<noteq> [] \<Longrightarrow> \<not> excluded_path (relative @ p) (cx_excludes c)"
proof (induction c relative p rule: included.induct)
  case (2 c relative n p)
  then show ?case by (cases p) auto
qed simp

text \<open>
  C12. Whatever links the project has, a copied tree holds only directories and files.  Outside the
  directory \<open>vendor\<close>, every file has the content that was read at a path below the project; links that
  lead elsewhere are only followed in \<open>vendor\<close>.  No path in the tree has a default exclusion (version
  control, build output, environment files) in any of its names, is the source of a scaffolded plugin
  or a nested \<open>vendor\<close> of a package, or lies below a path that the application excludes.
\<close>

theorem copied_project_is_filtered:
  assumes "copy_project t c = Inr es" and "directory_names t" and "holds_entry es p e"
  shows "plain e \<and> (\<forall>content. e = Regular content \<longrightarrow> (\<exists>path. so_read t path = Some content \<and>
      (hd p = ''vendor'' \<or> path_starts_with path (cx_project_root c)))) \<and>
    list_all (\<lambda>name. \<not> default_excluded name) p \<and>
    (\<forall>name rest. p = ''plugins'' # name # rest \<longrightarrow> name = ''bin'') \<and>
    (\<forall>rest. p = ''vendor'' # rest \<longrightarrow> ''vendor'' \<notin> set rest) \<and>
    (\<forall>excluded \<in> set (cx_excludes c). \<not> starts_with (path_components excluded) (map Normal p))"
proof -
  have well: "copied_well t c [] es"
    using copy_well(1) [OF assms(1) [unfolded copy_project_def] assms(2)] by (simp add: may_read_def)
  have "p \<noteq> []" using assms(3) by (auto elim: holds_entryE)
  with well assms(3) have "\<not> excluded_path p (cx_excludes c)"
    using included_last [of c "[]" p] by (simp add: copied_well_def)
  then have "list_all (\<lambda>name. \<not> default_excluded name) p \<and>
      (\<forall>name rest. p = ''plugins'' # name # rest \<longrightarrow> name = ''bin'') \<and>
      (\<forall>rest. p = ''vendor'' # rest \<longrightarrow> ''vendor'' \<notin> set rest) \<and>
      (\<forall>excluded \<in> set (cx_excludes c). \<not> starts_with (path_components excluded) (map Normal p))"
    by (auto simp: excluded_path_def Let_def list_all_iff list_ex_iff starts_with_def)
  moreover have "may_read c p path \<Longrightarrow> hd p = ''vendor'' \<or> path_starts_with path (cx_project_root c)" for path
    using \<open>p \<noteq> []\<close> by (cases p) (auto simp: may_read_def starts_with_def)
  moreover have "plain e" "\<And>content. e = Regular content \<Longrightarrow>
      \<exists>path. so_read t path = Some content \<and> may_read c p path"
    using well assms(3) by (auto simp: copied_well_def)
  ultimately show ?thesis by blast
qed

lemma path_components_current:
  assumes "starts_with ''./'' x"
  shows "hd (path_components x) = CurDir \<and> path_components x \<noteq> []"
proof -
  obtain rest where x: "x = CHR ''.'' # slash # rest"
    using assms by (cases x; cases "tl x") (auto simp: starts_with_def slash_def)
  then have "hd (split_on slash x) = ''.''" "\<not> starts_with ''/'' x"
    by (simp_all add: slash_def starts_with_def)
  then show ?thesis by (simp add: path_components_def Let_def)
qed

text \<open>
  An exclusion that begins with \<open>./\<close> can be accepted, but its leading component never matches a
  copied path, so it excludes nothing.
\<close>

theorem dotted_exclusion_excludes_nothing:
  assumes "starts_with ''./'' x"
  shows "(validate_relative_project_path x label = Inr () \<longleftrightarrow>
      \<not> contains_nul x \<and> ''..'' \<notin> set (split_on slash x)) \<and>
    excluded_path relative (x # configured) = excluded_path relative configured"
proof -
  obtain cs where cs: "path_components x = CurDir # cs"
    using path_components_current [OF assms] by (metis list.collapse)
  have "\<not> starts_with (path_components x) (map Normal relative)"
    by (cases relative) (simp_all add: cs starts_with_def)
  then have "excluded_path relative (x # configured) = excluded_path relative configured"
    by (simp add: excluded_path_def Let_def)
  moreover have "x \<noteq> []" "\<not> path_is_absolute x"
    using assms by (cases x; auto simp: starts_with_def path_is_absolute_def)+
  ultimately show ?thesis
    by (simp add: validate_relative_project_path_Inr valid_project_path_def)
qed

text \<open>
  A path the application needs is refused as an exclusion only as it is written: with a slash behind
  it, it is accepted and leaves the whole path out of the bundle.
\<close>

theorem required_path_can_be_excluded:
  assumes "required \<in> set required_project_paths"
  shows "validate_bundle_excludes {} [required] \<noteq> Inr () \<and>
    validate_bundle_excludes {} [required @ ''/''] = Inr () \<and>
    excluded_path (required # below) [required @ ''/'']"
proof -
  have "list_all (\<lambda>r. validate_bundle_excludes {} [r] \<noteq> Inr () \<and>
      validate_bundle_excludes {} [r @ ''/''] = Inr () \<and> path_components (r @ ''/'') = [Normal r])
    required_project_paths"
    by code_simp
  then have "validate_bundle_excludes {} [required] \<noteq> Inr ()"
    "validate_bundle_excludes {} [required @ ''/''] = Inr ()" "path_components (required @ ''/'') = [Normal required]"
    using assms by (auto simp: list_all_iff)
  then show ?thesis by (simp add: excluded_path_def Let_def starts_with_def)
qed

section \<open>Composer metadata\<close>

definition json_string_field :: "string \<Rightarrow> json \<Rightarrow> string option" where
  "json_string_field key v =
     (case v of
        JObject members \<Rightarrow> (case map_of members key of Some (JString s) \<Rightarrow> Some s | _ \<Rightarrow> None)
      | _ \<Rightarrow> None)"

definition sanitize_manifest :: "(string \<times> json) list \<Rightarrow> (string \<times> json) list" where
  "sanitize_manifest manifest =
     (case map_of manifest ''repositories'' of
        Some (JArray repositories) \<Rightarrow>
          (let kept = filter (\<lambda>r. json_string_field ''type'' r \<noteq> Some ''path'') repositories in
           if kept = [] then AList.delete ''repositories'' manifest
           else AList.update ''repositories'' (JArray kept) manifest)
      | _ \<Rightarrow> manifest)"

definition path_distribution :: "json \<Rightarrow> bool" where
  "path_distribution package =
     (case package of
        JObject members \<Rightarrow>
          (case map_of members ''dist'' of
             Some dist \<Rightarrow> json_string_field ''type'' dist = Some ''path'' | None \<Rightarrow> False)
      | _ \<Rightarrow> False)"

definition sanitize_package :: "json \<Rightarrow> json" where
  "sanitize_package package =
     (case package of
        JObject members \<Rightarrow>
          if path_distribution package
          then JObject (AList.delete ''transport-options'' (AList.delete ''dist'' members))
          else package
      | _ \<Rightarrow> package)"

definition sanitize_packages :: "string \<Rightarrow> (string \<times> json) list \<Rightarrow> (string \<times> json) list" where
  "sanitize_packages key lock =
     (case map_of lock key of
        Some (JArray packages) \<Rightarrow> AList.update key (JArray (map sanitize_package packages)) lock
      | _ \<Rightarrow> lock)"

definition sanitize_lock :: "(string \<times> json) list \<Rightarrow> (string \<times> json) list" where
  "sanitize_lock lock = sanitize_packages ''packages-dev'' (sanitize_packages ''packages'' lock)"

text \<open>\<open>serde_json\<close> reads and prints; the new text ends with a newline.\<close>

record composer_codec =
  cc_parse :: "string \<Rightarrow> json option"
  cc_print :: "(string \<times> json) list \<Rightarrow> string option"

definition read_json_object :: "composer_codec \<Rightarrow> (string \<times> entry) list \<Rightarrow> string \<Rightarrow> string + (string \<times> json) list" where
  "read_json_object k es name =
     (case map_of es name of
        Some (Regular bytes) \<Rightarrow>
          (case cc_parse k bytes of
             None \<Rightarrow> Inl ''invalid Composer metadata''
           | Some (JObject members) \<Rightarrow> Inr members
           | Some _ \<Rightarrow> Inl ''Composer metadata must be an object'')
      | _ \<Rightarrow> Inl ''cannot read Composer metadata'')"

definition write_json_object ::
    "composer_codec \<Rightarrow> (string \<times> entry) list \<Rightarrow> string \<Rightarrow> (string \<times> json) list \<Rightarrow> string + (string \<times> entry) list" where
  "write_json_object k es name members =
     (case cc_print k members of
        None \<Rightarrow> Inl ''cannot serialize''
      | Some encoded \<Rightarrow> Inr (AList.update name (Regular (encoded @ [CHR 0x0A])) es))"

definition sanitize_composer_metadata ::
    "composer_codec \<Rightarrow> (string \<times> entry) list \<Rightarrow> string + (string \<times> entry) list" where
  "sanitize_composer_metadata k app =
     rbind (read_json_object k app ''composer.json'') (\<lambda>manifest.
     rbind (write_json_object k app ''composer.json'' (sanitize_manifest manifest)) (\<lambda>app.
       case map_of app ''composer.lock'' of
         Some (Regular _) \<Rightarrow>
           rbind (read_json_object k app ''composer.lock'') (\<lambda>lock.
             write_json_object k app ''composer.lock'' (sanitize_lock lock))
       | _ \<Rightarrow> Inr app))"

lemma map_of_delete: "map_of (AList.delete k xs) k = None"
  by (simp add: AList.delete_conv')

lemma sanitized_package [simp]: "\<not> path_distribution (sanitize_package package)"
  by (cases package) (auto simp: sanitize_package_def path_distribution_def AList.delete_conv'
      split: option.splits)

lemma sanitize_package_kept: "\<not> path_distribution package \<Longrightarrow> sanitize_package package = package"
  by (auto simp: sanitize_package_def split: json.splits)

definition packages_of :: "string \<Rightarrow> (string \<times> json) list \<Rightarrow> json list" where
  "packages_of key lock = (case map_of lock key of Some (JArray packages) \<Rightarrow> packages | _ \<Rightarrow> [])"

lemma packages_of_sanitized:
  "packages_of key (sanitize_packages key lock) = map sanitize_package (packages_of key lock)"
  "other \<noteq> key \<Longrightarrow> packages_of other (sanitize_packages key lock) = packages_of other lock"
  by (auto simp: packages_of_def sanitize_packages_def update_conv' split: option.splits json.splits)

text \<open>
  The bundle does not tell where path packages came from: afterwards no repository and no package,
  of either list, has a path source, the others are unchanged and in their order, and every other
  member keeps its value.
\<close>

theorem sanitized_metadata_has_no_path_sources:
  "packages_of ''repositories'' (sanitize_manifest manifest) =
     filter (\<lambda>r. json_string_field ''type'' r \<noteq> Some ''path'') (packages_of ''repositories'' manifest) \<and>
   (key \<noteq> ''repositories'' \<longrightarrow> map_of (sanitize_manifest manifest) key = map_of manifest key) \<and>
   (list \<in> {''packages'', ''packages-dev''} \<longrightarrow>
      packages_of list (sanitize_lock lock) = map sanitize_package (packages_of list lock) \<and>
      list_all (\<lambda>package. \<not> path_distribution package) (packages_of list (sanitize_lock lock))) \<and>
   (key \<notin> {''packages'', ''packages-dev''} \<longrightarrow> map_of (sanitize_lock lock) key = map_of lock key)"
proof (intro conjI impI)
  show "packages_of ''repositories'' (sanitize_manifest manifest) =
      filter (\<lambda>r. json_string_field ''type'' r \<noteq> Some ''path'') (packages_of ''repositories'' manifest)"
    by (auto simp: packages_of_def sanitize_manifest_def Let_def update_conv' AList.delete_conv'
        split: option.splits json.splits)
  show "map_of (sanitize_manifest manifest) key = map_of manifest key" if "key \<noteq> ''repositories''"
    using that by (auto simp: sanitize_manifest_def Let_def update_conv' AList.delete_conv'
        split: option.splits json.splits)
next
  assume "list \<in> {''packages'', ''packages-dev''}"
  then show kept: "packages_of list (sanitize_lock lock) = map sanitize_package (packages_of list lock)"
    by (auto simp: sanitize_lock_def packages_of_sanitized)
  show "list_all (\<lambda>package. \<not> path_distribution package) (packages_of list (sanitize_lock lock))"
    by (simp add: kept list_all_iff)
next
  show "map_of (sanitize_lock lock) key = map_of lock key" if "key \<notin> {''packages'', ''packages-dev''}"
    using that by (auto simp: sanitize_lock_def sanitize_packages_def update_conv'
        split: option.splits json.splits)
qed

section \<open>Sample\<close>

definition sample_source :: source_tree where
  "sample_source =
     \<lparr>so_directories = [''/p''], so_canonicalize = Some,
      so_entries = (\<lambda>_. [(''.git'', Some DirectoryFile), (''app'', Some RegularFile)]),
      so_is_file = (\<lambda>_. False), so_read = (\<lambda>_. Some ''1'')\<rparr>"

definition sample_copy :: CopyContext where
  "sample_copy = \<lparr>cx_project_root = ''/p'', cx_build_output = ''/o'', cx_excludes = [''tests'']\<rparr>"

lemma sample_copied: "copy_project sample_source sample_copy = Inr [(''app'', Regular ''1'')]"
  by code_simp

lemma sample_directory_names: "directory_names sample_source"
  by (auto simp: directory_names_def sample_source_def component_name_def slash_def)

theorem copied_project_is_filtered_witness:
  "\<not> default_excluded ''app'' \<and> \<not> starts_with (path_components ''tests'') [Normal ''app'']"
proof -
  have "holds_entry [(''app'', Regular ''1'')] [''app''] (Regular ''1'')"
    by (simp add: holds_entry_Cons)
  from copied_project_is_filtered [OF sample_copied sample_directory_names this] show ?thesis
    by (simp add: sample_copy_def)
qed

end
