(* ===== verification/PackageManifest.thy ===== *)
theory PackageManifest
  imports PackageFiles
begin

text \<open>
  \<open>packager.rs\<close>, the manifest of a bundle: every file with its size and digest, and what the updater
  makes of it.  The helper of UpdateApply reads the same manifest; the main theorem says when a
  bundle that was just packaged passes its verification.
\<close>

section \<open>The manifest\<close>

record BundleFile =
  pb_path :: string
  pb_bytes :: u64
  pb_sha256 :: string

record RuntimeManifest =
  rm_pam_desktop :: string
  rm_pam :: string

record TargetManifest =
  tm_operating_system :: string
  tm_architecture :: string
  tm_abi :: string

record BundleManifest =
  bm_schema_version :: u8
  bm_api_version :: u16
  bm_protocol_version :: u16
  bm_application :: ApplicationManifest
  bm_runtime :: RuntimeManifest
  bm_target :: TargetManifest
  bm_source_date_epoch :: u64
  bm_files :: "BundleFile list"

definition PUBLIC_API_VERSION :: u16 where "PUBLIC_API_VERSION = 1"

definition DEFAULT_SOURCE_DATE_EPOCH :: u64 where "DEFAULT_SOURCE_DATE_EPOCH = 0"

text \<open>
  The host that packages: \<open>pk_environment\<close> is \<open>target_env\<close>, \<open>pk_epoch\<close> the variable
  \<open>SOURCE_DATE_EPOCH\<close>, \<open>pk_version\<close> the version the worker binary prints.
\<close>

record packager =
  pk_os :: string
  pk_architecture :: string
  pk_environment :: string
  pk_desktop_version :: string
  pk_version :: "string + string"
  pk_epoch :: "string option"
  pk_sha256 :: "string \<Rightarrow> string"
  pk_encode :: "BundleManifest \<Rightarrow> string option"

definition target_abi :: "packager \<Rightarrow> string" where
  "target_abi k =
     (if pk_os k = ''windows'' \<and> pk_environment k = ''msvc'' then ''msvc''
      else if pk_os k = ''windows'' then ''gnu''
      else if pk_os k = ''macos'' then ''darwin''
      else if pk_environment k = ''musl'' then ''musl''
      else ''glibc'')"

definition configured_source_date_epoch :: "packager \<Rightarrow> string + u64 option" where
  "configured_source_date_epoch k =
     (case pk_epoch k of
        None \<Rightarrow> Inr None
      | Some v \<Rightarrow> (case parse_u64 v of
          None \<Rightarrow> Inl ''SOURCE_DATE_EPOCH must be an unsigned integer'' | Some n \<Rightarrow> Inr (Some (of_nat n))))"

definition source_date_epoch :: "packager \<Rightarrow> string + u64" where
  "source_date_epoch k =
     rbind (configured_source_date_epoch k) (\<lambda>v. Inr (case v of None \<Rightarrow> DEFAULT_SOURCE_DATE_EPOCH | Some n \<Rightarrow> n))"

definition portable_relative :: "string list \<Rightarrow> string + string" where
  "portable_relative names =
     (if \<not> is_utf8 (join_slash names) then Inl ''bundle path is not valid UTF-8''
      else Inr (map (\<lambda>c. if c = CHR 0x5C then slash else c) (join_slash names)))"

text \<open>The recursive \<open>visit\<close>: links and special files are neither directories nor files.\<close>

fun pack_visit :: "(string \<Rightarrow> string) \<Rightarrow> string list \<Rightarrow> (string \<times> entry) list \<Rightarrow> string + BundleFile list" where
  "pack_visit sha256 at [] = Inr []"
| "pack_visit sha256 at ((n, Directory es) # rest) =
     rbind (pack_visit sha256 (at @ [n]) es) (\<lambda>below.
     rbind (pack_visit sha256 at rest) (\<lambda>others. Inr (below @ others)))"
| "pack_visit sha256 at ((n, Regular content) # rest) =
     (if n = ''manifest.json'' then pack_visit sha256 at rest
      else rbind (portable_relative (at @ [n])) (\<lambda>path.
        rbind (pack_visit sha256 at rest) (\<lambda>others.
          Inr (\<lparr>pb_path = path, pb_bytes = of_nat (length content), pb_sha256 = sha256 content\<rparr> # others))))"
| "pack_visit sha256 at ((n, Symlink) # rest) = pack_visit sha256 at rest"
| "pack_visit sha256 at ((n, Special) # rest) = pack_visit sha256 at rest"
| "pack_visit sha256 at ((n, Unreadable) # rest) = Inl ''cannot inspect''"

text \<open>\<open>bundle_files\<close> of the packager, sorted by path.\<close>

definition packaged_files :: "(string \<Rightarrow> string) \<Rightarrow> (string \<times> entry) list \<Rightarrow> string + BundleFile list" where
  "packaged_files sha256 es = rbind (pack_visit sha256 [] es) (\<lambda>files. Inr (sort_key pb_path files))"

definition bundle_manifest :: "packager \<Rightarrow> ApplicationManifest \<Rightarrow> u64 \<Rightarrow> BundleFile list \<Rightarrow> BundleManifest" where
  "bundle_manifest k application epoch files =
     \<lparr>bm_schema_version = 1, bm_api_version = PUBLIC_API_VERSION, bm_protocol_version = PROTOCOL_VERSION,
      bm_application = application,
      bm_runtime = \<lparr>rm_pam_desktop = pk_desktop_version k,
        rm_pam = (case pk_version k of Inl _ \<Rightarrow> ''unknown'' | Inr v \<Rightarrow> v)\<rparr>,
      bm_target = \<lparr>tm_operating_system = pk_os k, tm_architecture = pk_architecture k, tm_abi = target_abi k\<rparr>,
      bm_source_date_epoch = epoch, bm_files = files\<rparr>"

definition write_bundle_manifest ::
    "packager \<Rightarrow> Bootstrap \<Rightarrow> (string \<times> entry) list \<Rightarrow> string + (string \<times> entry) list" where
  "write_bundle_manifest k b es =
     rbind (source_date_epoch k) (\<lambda>epoch.
     rbind (packaged_files (pk_sha256 k) es) (\<lambda>files.
       case pk_encode k (bundle_manifest k (bs_manifest b) epoch files) of
         None \<Rightarrow> Inl ''cannot serialize bundle manifest''
       | Some encoded \<Rightarrow>
           (case map_of es ''manifest.json'' of
              Some (Directory _) \<Rightarrow> Inl ''cannot write bundle manifest''
            | _ \<Rightarrow> Inr (AList.update ''manifest.json'' (Regular encoded) es))))"

section \<open>Paths of a bundle\<close>

definition portable_path :: "string list \<Rightarrow> bool" where
  "portable_path p \<longleftrightarrow> p \<noteq> [] \<and> is_utf8 (join_slash p) \<and>
     list_all (\<lambda>n. n \<noteq> [] \<and> n \<noteq> ''.'' \<and> n \<noteq> ''..'' \<and> slash \<notin> set n \<and> CHR 0x5C \<notin> set n) p"

lemma join_slash_head:
  "p \<noteq> [] \<Longrightarrow> hd p \<noteq> [] \<Longrightarrow> join_slash p \<noteq> [] \<and> hd (join_slash p) = hd (hd p)"
  by (induction p rule: join_slash.induct) auto

lemma path_components_portable:
  assumes "portable_path p"
  shows "path_components (join_slash p) = map Normal p"
proof -
  have all: "list_all (\<lambda>n. n \<noteq> [] \<and> n \<noteq> ''.'' \<and> n \<noteq> ''..'' \<and> slash \<notin> set n) p" "p \<noteq> []"
    using assms by (auto simp: portable_path_def list_all_iff)
  have segments: "split_on slash (join_slash p) = p"
    using split_join_slash all by (simp add: list_all_iff)
  have "hd p \<noteq> []" "slash \<notin> set (hd p)" "hd p \<noteq> ''.''"
    using all by (cases p; simp)+
  moreover from this have "\<not> starts_with ''/'' (join_slash p)"
    using join_slash_head [OF all(2)]
    by (cases "join_slash p"; cases "hd p") (auto simp: starts_with_def slash_def)
  moreover have "List.map_filter segment_component p = map Normal p"
    using all(1) by (induction p) (auto simp: List.map_filter_simps)
  ultimately show ?thesis
    by (simp add: path_components_def Let_def segments)
qed

lemma join_slash_chars: "list_all (\<lambda>n. c \<notin> set n) p \<Longrightarrow> c \<noteq> slash \<Longrightarrow> c \<notin> set (join_slash p)"
  by (induction p rule: join_slash.induct) auto

lemma portable_relative_Inr:
  assumes "portable_path p"
  shows "portable_relative p = Inr (join_slash p)"
proof -
  have "CHR 0x5C \<notin> set (join_slash p)"
    using assms by (intro join_slash_chars) (auto simp: portable_path_def list_all_iff slash_def)
  then have "map (\<lambda>c. if c = CHR 0x5C then slash else c) (join_slash p) = join_slash p"
    by (auto intro: map_idI)
  then show ?thesis
    using assms by (simp add: portable_relative_def portable_path_def)
qed

section \<open>The files of a tree\<close>

text \<open>
  A tree as the packager stages it: directories and regular files, every name once, every path
  portable.  \<open>regular_files\<close> lists its regular files, manifests included.
\<close>

fun portable_tree :: "string list \<Rightarrow> (string \<times> entry) list \<Rightarrow> bool" where
  "portable_tree at [] = True"
| "portable_tree at ((n, Directory es) # rest) =
     (n \<notin> fst ` set rest \<and> portable_tree (at @ [n]) es \<and> portable_tree at rest)"
| "portable_tree at ((n, Regular content) # rest) =
     (n \<notin> fst ` set rest \<and> portable_path (at @ [n]) \<and> length content < 2 ^ 64 \<and> portable_tree at rest)"
| "portable_tree at (_ # rest) = False"

fun regular_files :: "string list \<Rightarrow> (string \<times> entry) list \<Rightarrow> (string list \<times> string) list" where
  "regular_files at [] = []"
| "regular_files at ((n, Directory es) # rest) = regular_files (at @ [n]) es @ regular_files at rest"
| "regular_files at ((n, Regular content) # rest) = (at @ [n], content) # regular_files at rest"
| "regular_files at (_ # rest) = regular_files at rest"

lemma set_regular_files: "set (regular_files at es) = {(at @ p, c) | p c. holds_entry es p (Regular c)}"
  by (induction at es rule: regular_files.induct) (auto simp: holds_entry_Cons holds_entry_Nil)

lemma regular_files_portable:
  "portable_tree at es \<Longrightarrow> (p, c) \<in> set (regular_files at es) \<Longrightarrow> portable_path p \<and> length c < 2 ^ 64"
  by (induction at es rule: regular_files.induct) auto

lemma holds_entry_head: "holds_entry es p e \<Longrightarrow> p \<noteq> [] \<and> hd p \<in> fst ` set es"
  by (induction rule: holds_entry.induct) force+

lemma holds_entry_below: "holds_entry es p e \<Longrightarrow> e = Regular c \<Longrightarrow> p \<noteq> []"
  using holds_entry_head by blast

lemma distinct_regular_files: "portable_tree at es \<Longrightarrow> distinct (map fst (regular_files at es))"
proof (induction at es rule: regular_files.induct)
  case (2 at n es rest)
  have "False" if "(p, c) \<in> set (regular_files (at @ [n]) es)" "(p, d) \<in> set (regular_files at rest)" for p c d
    using that "2.prems" by (force simp: set_regular_files dest!: holds_entry_head)
  then show ?case using 2 by auto
next
  case (3 at n content rest)
  have "False" if "(at @ [n], d) \<in> set (regular_files at rest)" for d
    using that "3.prems" by (force simp: set_regular_files dest!: holds_entry_head)
  then show ?case using 3 by auto
qed auto

lemma regular_files_append: "regular_files at (es @ fs) = regular_files at es @ regular_files at fs"
  by (induction at es rule: regular_files.induct) auto

lemma visit_tree:
  "portable_tree at es \<Longrightarrow> visit at es = Inr (filter (\<lambda>f. fst f \<noteq> [''manifest.json'']) (regular_files at es))"
  by (induction at es rule: regular_files.induct) auto

definition packaged_file :: "(string \<Rightarrow> string) \<Rightarrow> string list \<times> string \<Rightarrow> BundleFile" where
  "packaged_file sha256 f =
     \<lparr>pb_path = join_slash (fst f), pb_bytes = of_nat (length (snd f)), pb_sha256 = sha256 (snd f)\<rparr>"

lemma pack_visit_tree:
  "portable_tree at es \<Longrightarrow> pack_visit sha256 at es =
     Inr (map (packaged_file sha256) (filter (\<lambda>f. last (fst f) \<noteq> ''manifest.json'') (regular_files at es)))"
proof (induction at es rule: regular_files.induct)
  case (2 at n es rest)
  then show ?case by simp
next
  case (3 at n content rest)
  then show ?case by (simp add: portable_relative_Inr packaged_file_def)
qed auto

section \<open>What the updater makes of it\<close>

lemma expect_files_fresh:
  "distinct (map (path_components \<circ> bf_path) files @ map fst acc) \<Longrightarrow>
   list_all (\<lambda>f. validate_relative_path (bf_path f) ''bundle file'' = Inr ()) files \<Longrightarrow>
     expect_files acc files =
       Inr (rev (map (\<lambda>f. (path_components (bf_path f), bf_bytes f, bf_sha256 f)) files) @ acc)"
proof (induction files arbitrary: acc)
  case (Cons f files)
  then have "path_components (bf_path f) \<notin> fst ` set acc" by auto
  moreover have "validate_relative_path (bf_path f) ''bundle file'' = Inr ()"
    using Cons.prems by simp
  moreover have "expect_files ((path_components (bf_path f), bf_bytes f, bf_sha256 f) # acc) files =
      Inr (rev (map (\<lambda>f. (path_components (bf_path f), bf_bytes f, bf_sha256 f)) files) @
        (path_components (bf_path f), bf_bytes f, bf_sha256 f) # acc)"
    using Cons.prems by (intro Cons.IH) auto
  ultimately show ?case by simp
qed simp

definition declared :: "(string \<Rightarrow> string) \<Rightarrow> string list \<times> string \<Rightarrow> component list \<times> u64 \<times> string" where
  "declared sha256 f = (map Normal (fst f), of_nat (length (snd f)), sha256 (snd f))"

lemma map_Normal_inject: "map Normal p = map Normal q \<longleftrightarrow> p = q"
  by (simp add: inj_map_eq_map inj_def)

lemma check_files_exact:
  "distinct (map fst actual) \<Longrightarrow> distinct (map fst expected) \<Longrightarrow>
   set expected = declared sha256 ` set actual \<Longrightarrow> \<forall>f \<in> set actual. length (snd f) < 2 ^ 64 \<Longrightarrow>
     check_files sha256 expected actual = Inr []"
proof (induction actual arbitrary: expected)
  case (Cons f actual)
  obtain names content where f: "f = (names, content)" by (cases f)
  let ?rest = "filter (\<lambda>x. fst x \<noteq> map Normal names) expected"
  have "(map Normal names, of_nat (length content), sha256 content) \<in> set expected"
    using Cons.prems(3) by (simp add: f declared_def)
  then have found: "map_of expected (map Normal names) = Some (of_nat (length content), sha256 content)"
    using Cons.prems(2) by simp
  have fresh: "fst (declared sha256 g) \<noteq> map Normal names" if "g \<in> set actual" for g
  proof -
    have "fst g \<noteq> names" using Cons.prems(1) that by (auto simp: f)
    then show ?thesis by (simp add: declared_def map_Normal_inject)
  qed
  have "set expected = insert (declared sha256 f) (declared sha256 ` set actual)"
    using Cons.prems(3) by simp
  moreover have "fst (declared sha256 f) = map Normal names"
    by (simp add: f declared_def)
  ultimately have "set ?rest = declared sha256 ` set actual"
    using fresh by (simp del: fst_conv) blast
  moreover have "distinct (map fst ?rest)"
    using Cons.prems(2) by (rule distinct_map_filter)
  ultimately have "check_files sha256 ?rest actual = Inr []"
    using Cons.prems by (intro Cons.IH) auto
  moreover have "unat (of_nat (length content) :: u64) = length content"
    using Cons.prems(4) by (simp add: f unat_of_nat)
  ultimately show ?case
    by (simp add: f found verify_hash_def reject_if_def)
qed simp

text \<open>What the updater's own structures read of the packager's manifest.\<close>

definition installed_file :: "BundleFile \<Rightarrow> InstalledBundleFile" where
  "installed_file f = \<lparr>bf_path = pb_path f, bf_bytes = pb_bytes f, bf_sha256 = pb_sha256 f\<rparr>"

definition installed_view :: "BundleManifest \<Rightarrow> InstalledBundleManifest" where
  "installed_view m =
     \<lparr>im_schema_version = bm_schema_version m, im_protocol_version = bm_protocol_version m,
      im_application = bm_application m, im_files = map installed_file (bm_files m)\<rparr>"

lemma validate_portable_path:
  assumes "portable_path p"
  shows "validate_relative_path (join_slash p) label = Inr ()"
proof -
  have components: "path_components (join_slash p) = map Normal p"
    using assms by (rule path_components_portable)
  have "join_slash p \<noteq> []"
    using assms join_slash_head [of p] by (cases p) (auto simp: portable_path_def)
  moreover have "\<not> path_is_absolute (join_slash p)"
    using components by (auto simp: path_components_def path_is_absolute_def Let_def split: if_splits)
  ultimately show ?thesis
    by (auto simp: validate_relative_path_def reject_if_def components list_ex_iff)
qed

lemma distinct_map_sort: "distinct (map g (sort_key k xs)) = distinct (map g xs)"
  by (simp add: distinct_map)

text \<open>The manifest that was written declares exactly the files that are not named like it.\<close>

lemma packaged_files_check:
  fixes sha256 at es
  defines "P \<equiv> filter (\<lambda>f. last (fst f) \<noteq> ''manifest.json'') (regular_files [] es)"
  assumes "portable_tree [] es" "packaged_files sha256 es = Inr files"
  shows "\<exists>expected. expect_files [] (map installed_file files) = Inr expected \<and>
     length expected = length P \<and> check_files sha256 expected P = Inr []"
proof -
  let ?packed = "map (packaged_file sha256) P"
  have files: "files = sort_key pb_path ?packed"
    using assms by (simp add: packaged_files_def pack_visit_tree P_def)
  have portable: "portable_path (fst f)" "length (snd f) < 2 ^ 64" if "f \<in> set P" for f
    using that regular_files_portable [OF assms(2), of "fst f" "snd f"] by (auto simp: P_def)
  have dist: "distinct (map fst P)"
    unfolding P_def using distinct_regular_files [OF assms(2)] by (rule distinct_map_filter)
  let ?triple = "\<lambda>f. (path_components (bf_path f), bf_bytes f, bf_sha256 f)"
  have same: "?triple (installed_file (packaged_file sha256 f)) = declared sha256 f" if "f \<in> set P" for f
    using portable(1) [OF that]
    by (simp add: installed_file_def packaged_file_def declared_def path_components_portable)
  have keys: "map (path_components \<circ> bf_path \<circ> installed_file) ?packed = map (map Normal \<circ> fst) P"
    using same by (auto simp: declared_def)
  have "distinct (map (path_components \<circ> bf_path \<circ> installed_file) ?packed)"
    unfolding keys using dist by (simp add: distinct_map comp_inj_on inj_on_def map_Normal_inject)
  then have distinct_keys: "distinct (map (path_components \<circ> bf_path) (map installed_file files))"
    by (simp add: files distinct_map_sort comp_assoc)
  have valid: "list_all (\<lambda>f. validate_relative_path (bf_path f) ''bundle file'' = Inr ()) (map installed_file files)"
    using portable(1) by (auto simp: files list_all_iff installed_file_def packaged_file_def validate_portable_path)
  let ?expected = "rev (map ?triple (map installed_file files))"
  have expected: "expect_files [] (map installed_file files) = Inr ?expected"
    using expect_files_fresh [of "map installed_file files" "[]"] distinct_keys valid by simp
  have "set ?expected = (\<lambda>f. ?triple (installed_file (packaged_file sha256 f))) ` set P"
    by (simp add: files image_image)
  also have "\<dots> = declared sha256 ` set P"
    using same by (rule image_cong [OF HOL.refl])
  finally have set_expected: "set ?expected = declared sha256 ` set P" .
  have distinct_expected: "distinct (map fst ?expected)"
    using distinct_keys by (simp add: rev_map [symmetric] comp_def)
  have "check_files sha256 ?expected P = Inr []"
    by (rule check_files_exact [OF dist distinct_expected set_expected]) (use portable(2) in blast)
  then show ?thesis
    using expected by (simp add: files)
qed

lemma portable_tree_append:
  "portable_tree at (es @ fs) \<longleftrightarrow>
     portable_tree at es \<and> portable_tree at fs \<and> fst ` set es \<inter> fst ` set fs = {}"
  by (induction at es rule: portable_tree.induct) auto

lemma portable_manifest: "portable_path [''manifest.json'']"
  by (simp add: portable_path_def slash_def is_utf8_def str_chars_def utf8_encode_def utf8_encode_char_def scalar_value_def byte_def)

lemma length_filter_strict:
  "\<forall>x \<in> set xs. P x \<longrightarrow> Q x \<Longrightarrow> x \<in> set xs \<Longrightarrow> Q x \<Longrightarrow> \<not> P x \<Longrightarrow>
     length (filter P xs) < length (filter Q xs)"
proof (induction xs)
  case (Cons y ys)
  have "length (filter P ys) \<le> length (filter Q ys)"
    using Cons.prems(1) by (induction ys) auto
  with Cons show ?case by (cases "x = y") auto
qed simp

lemma write_bundle_manifest_Inr:
  assumes "write_bundle_manifest k b es = Inr es'" "''manifest.json'' \<notin> fst ` set es"
  shows "\<exists>epoch files encoded. packaged_files (pk_sha256 k) es = Inr files \<and>
     pk_encode k (bundle_manifest k (bs_manifest b) epoch files) = Some encoded \<and>
     es' = es @ [(''manifest.json'', Regular encoded)]"
proof -
  have "map_of es ''manifest.json'' = None"
    using assms(2) by (simp add: map_of_eq_None_iff)
  then show ?thesis
    using assms by (auto simp: write_bundle_manifest_def rbind_Inr_iff update_fresh split: option.splits) blast
qed

text \<open>
  A manifest that was just written, decoded by the updater, is accepted exactly when no file below the
  root is called \<open>manifest.json\<close>: the packager leaves every file of that name out, the updater only the
  one at the root.
\<close>

lemma written_bundle_checked:
  assumes written: "write_bundle_manifest k b es = Inr es'"
    and tree: "portable_tree [] es" "''manifest.json'' \<notin> fst ` set es"
    and codec: "\<And>m encoded. pk_encode k m = Some encoded \<Longrightarrow> bn_decode h encoded = Some (installed_view m)"
    and same_hash: "bn_sha256 h = pk_sha256 k"
    and application: "validate_manifest (bn_parse_url h) (bn_debug h) (bs_manifest b) = Inr ()"
    and size: "\<And>encoded. map_of es' ''manifest.json'' = Some (Regular encoded) \<Longrightarrow>
      length encoded \<le> MAX_BUNDLE_MANIFEST_BYTES"
  shows "verify_bundle h (Directory es') = Inr () \<longleftrightarrow>
           (\<forall>p c. holds_entry es p (Regular c) \<longrightarrow> last p \<noteq> ''manifest.json'')"
proof -
  have no_manifest: "map_of es ''manifest.json'' = None"
    using tree(2) by (simp add: map_of_eq_None_iff)
  obtain epoch files encoded where parts: "packaged_files (pk_sha256 k) es = Inr files"
      "pk_encode k (bundle_manifest k (bs_manifest b) epoch files) = Some encoded"
      "es' = es @ [(''manifest.json'', Regular encoded)]"
    using write_bundle_manifest_Inr [OF written tree(2)] by blast
  let ?files = "regular_files [] es"
  let ?P = "filter (\<lambda>f. last (fst f) \<noteq> ''manifest.json'') ?files"
  let ?A = "filter (\<lambda>f. fst f \<noteq> [''manifest.json'']) ?files"
  have found: "map_of es' ''manifest.json'' = Some (Regular encoded)"
    by (simp add: parts(3) map_add_def no_manifest)
  have small: "length encoded \<le> MAX_BUNDLE_MANIFEST_BYTES" using size [OF found] .
  then have "length encoded < 2 ^ 64" by (simp add: MAX_BUNDLE_MANIFEST_BYTES_def)
  then have "portable_tree [] es'"
    using tree by (simp add: parts(3) portable_tree_append portable_manifest)
  then have visited: "visit [] es' = Inr ?A"
    by (simp add: visit_tree parts(3) regular_files_append)
  obtain expected where expected: "expect_files [] (map installed_file files) = Inr expected"
      "length expected = length ?P" "check_files (pk_sha256 k) expected ?P = Inr []"
    using packaged_files_check [OF tree(1) parts(1)] by blast
  have verify: "verify_bundle h (Directory es') =
      (if length ?A \<noteq> length ?P then Inl ''bundle contents do not match the signed artifact manifest''
       else rbind (check_files (pk_sha256 k) expected ?A) (\<lambda>left.
         if left \<noteq> [] then Inl ''bundle is missing files declared by its manifest'' else Inr ()))"
    using small application
    by (simp add: verify_bundle_def found codec [OF parts(2)] installed_view_def bundle_manifest_def
        expected same_hash bundle_files_def visited)
  show ?thesis
  proof (cases "\<forall>f \<in> set ?files. last (fst f) \<noteq> ''manifest.json''")
    case True
    then have "?A = ?files" "?P = ?files" by (auto simp: filter_id_conv)
    with verify expected(3) have "verify_bundle h (Directory es') = Inr ()" by simp
    with True show ?thesis by (auto simp: set_regular_files)
  next
    case False
    then obtain p c where nested: "(p, c) \<in> set ?files" "last p = ''manifest.json''" by auto
    then have entry: "holds_entry es p (Regular c)" by (auto simp: set_regular_files)
    have "p \<noteq> [''manifest.json'']"
    proof
      assume "p = [''manifest.json'']"
      with holds_entry_head [OF entry] have "''manifest.json'' \<in> fst ` set es" by (metis list.sel(1))
      with tree(2) show False ..
    qed
    then have "length ?P < length ?A"
      using nested by (intro length_filter_strict [of _ _ _ "(p, c)"]) auto
    with verify have "verify_bundle h (Directory es') \<noteq> Inr ()" by auto
    with nested show ?thesis by (auto simp: set_regular_files)
  qed
qed

end
