(* ===== verification/PackageText.thy ===== *)
theory PackageText
  imports PackageManifest SystemInfo
begin

text \<open>
  \<open>packager.rs\<close>, what is decided and written as text: the command line of \<open>pam desktop build\<close>, the names
  of the artifacts, versions and architectures of the package systems, desktop entries and the XML of
  the Apple and Windows packages.
\<close>

section \<open>The build command\<close>

datatype PackageFormat =
  DirectoryBundle | Portable | Debian | Native | AppImage | Rpm | Pkg | Msi

record BuildOptions =
  bo_project :: string
  bo_output :: "string option"
  bo_formats :: "PackageFormat set"
  bo_force :: bool
  bo_sign :: bool

datatype BuildCommand = Help | Build BuildOptions

text \<open>What \<open>--format\<close> adds; \<open>os\<close> is \<open>target_os\<close>.\<close>

definition format_names :: "(string \<times> PackageFormat) list" where
  "format_names =
     [(''directory'', DirectoryBundle), (''portable'', Portable), (''tar.gz'', Portable), (''deb'', Debian),
      (''debian'', Debian), (''native'', Native), (''dmg'', Native), (''msix'', Native),
      (''appimage'', AppImage), (''rpm'', Rpm), (''pkg'', Pkg), (''msi'', Msi)]"

definition all_formats :: "string \<Rightarrow> PackageFormat set" where
  "all_formats os =
     {DirectoryBundle, Portable} \<union>
     (if os = ''linux'' then {Debian, AppImage, Rpm}
      else if os = ''macos'' then {Native, Pkg}
      else {Native, Msi})"

definition requested_formats :: "string \<Rightarrow> string \<Rightarrow> string + PackageFormat set" where
  "requested_formats os v =
     (if v = ''all'' then Inr (all_formats os)
      else case map_of format_names v of
        Some format \<Rightarrow> Inr {format}
      | None \<Rightarrow> Inl ''unknown package format'')"

text \<open>
  The loop over the arguments.  An argument that is not UTF-8 is a project path, as \<open>to_str\<close> has no
  text to match.
\<close>

record parsed_options =
  po_project :: "string option"
  po_output :: "string option"
  po_formats :: "PackageFormat set"
  po_explicit :: bool
  po_force :: bool
  po_sign :: bool

definition project_argument :: "string \<Rightarrow> parsed_options \<Rightarrow> string + parsed_options" where
  "project_argument argument p =
     (if po_project p \<noteq> None then Inl ''build accepts only one project directory''
      else Inr (p\<lparr>po_project := Some argument\<rparr>))"

fun parse_build_arguments :: "string \<Rightarrow> string list \<Rightarrow> parsed_options \<Rightarrow> string + parsed_options option" where
  "parse_build_arguments os [] p = Inr (Some p)"
| "parse_build_arguments os (argument # rest) p =
     (if \<not> is_utf8 argument then rbind (project_argument argument p) (parse_build_arguments os rest)
      else if argument \<in> {''--help'', ''-h''} then Inr None
      else if argument \<in> {''--output'', ''-o''}
      then (case rest of
          [] \<Rightarrow> Inl ''--output requires a directory''
        | v # later \<Rightarrow>
            if po_output p \<noteq> None then Inl ''--output may only be declared once''
            else parse_build_arguments os later (p\<lparr>po_output := Some v\<rparr>))
      else if argument = ''--format''
      then (case rest of
          [] \<Rightarrow> Inl ''--format requires a value''
        | v # later \<Rightarrow>
            if \<not> is_utf8 v then Inl ''package format must be valid UTF-8''
            else rbind (requested_formats os v) (\<lambda>formats.
              parse_build_arguments os later (p\<lparr>po_explicit := True,
                po_formats := (if po_explicit p then po_formats p else {}) \<union> formats\<rparr>)))
      else if argument = ''--force'' then parse_build_arguments os rest (p\<lparr>po_force := True\<rparr>)
      else if argument = ''--sign'' then parse_build_arguments os rest (p\<lparr>po_sign := True\<rparr>)
      else if starts_with ''-'' argument then Inl ''unknown build option''
      else rbind (project_argument argument p) (parse_build_arguments os rest))"

definition initial_options :: parsed_options where
  "initial_options =
     \<lparr>po_project = None, po_output = None, po_formats = {DirectoryBundle, Portable}, po_explicit = False,
      po_force = False, po_sign = False\<rparr>"

definition parse_build :: "string \<Rightarrow> string list \<Rightarrow> string + BuildCommand" where
  "parse_build os arguments =
     rbind (parse_build_arguments os arguments initial_options) (\<lambda>parsed. case parsed of
       None \<Rightarrow> Inr Help
     | Some p \<Rightarrow>
         if po_formats p = {} then Inl ''at least one package format is required''
         else Inr (Build
           \<lparr>bo_project = (case po_project p of None \<Rightarrow> ''.'' | Some path \<Rightarrow> path), bo_output = po_output p,
            bo_formats = po_formats p, bo_force = po_force p, bo_sign = po_sign p\<rparr>))"

definition validate_platform_formats :: "string \<Rightarrow> BuildOptions \<Rightarrow> string + unit" where
  "validate_platform_formats os b =
     (if bo_formats b \<inter> {Debian, AppImage, Rpm} \<noteq> {} \<and> os \<noteq> ''linux''
      then Inl ''appimage, deb and rpm formats are only available on Linux''
      else if Native \<in> bo_formats b \<and> os = ''linux''
      then Inl ''Linux native packaging uses --format deb; --format native targets DMG or MSIX''
      else if Pkg \<in> bo_formats b \<and> os \<noteq> ''macos'' then Inl ''the pkg format is only available on macOS''
      else if Msi \<in> bo_formats b \<and> os \<noteq> ''windows'' then Inl ''the msi format is only available on Windows''
      else if bo_sign b \<and> os = ''linux''
      then Inl ''--sign is available for macOS codesigning/notarization and Windows Authenticode''
      else Inr ())"

lemma all_formats_available:
  "os \<in> {''linux'', ''macos'', ''windows''} \<Longrightarrow>
     validate_platform_formats os \<lparr>bo_project = p, bo_output = d, bo_formats = all_formats os, bo_force = f,
       bo_sign = False\<rparr> = Inr ()"
  by (auto simp: validate_platform_formats_def all_formats_def)

section \<open>Names of the artifacts\<close>

definition executable_name :: "ApplicationManifest \<Rightarrow> string" where
  "executable_name m = last (split_on CHR ''.'' (am_identifier m))"

definition debian_architecture :: "string \<Rightarrow> string + string" where
  "debian_architecture architecture =
     (if architecture = ''x86_64'' then Inr ''amd64''
      else if architecture = ''aarch64'' then Inr ''arm64''
      else Inl ''Debian packaging does not yet map architecture'')"

definition appimage_architecture :: "string \<Rightarrow> string + string" where
  "appimage_architecture architecture =
     (if architecture \<in> {''x86_64'', ''aarch64''} then Inr architecture
      else Inl ''unsupported AppImage architecture'')"

definition rpm_architecture :: "string \<Rightarrow> string + string" where
  "rpm_architecture architecture =
     (if architecture \<in> {''x86_64'', ''aarch64''} then Inr architecture
      else Inl ''unsupported RPM architecture'')"

definition windows_wix_architecture :: "string \<Rightarrow> string + string" where
  "windows_wix_architecture architecture =
     (if architecture = ''x86_64'' then Inr ''x64''
      else if architecture = ''aarch64'' then Inr ''arm64''
      else Inl ''unsupported MSI architecture'')"

record ArtifactNames =
  an_bundle :: string
  an_portable :: string
  an_debian :: string
  an_native :: string
  an_appimage :: string
  an_rpm :: string
  an_pkg :: string
  an_msi :: string
  an_executable :: string
  an_architecture :: string

definition artifact_names :: "packager \<Rightarrow> ApplicationManifest \<Rightarrow> string + ArtifactNames" where
  "artifact_names k m =
     (let executable = executable_name m; version = am_version m; architecture = pk_architecture k;
          bundle = executable @ ''-'' @ version @ ''-'' @ pk_os k @ ''-'' @ architecture;
          file_name = (\<lambda>extension. executable @ ''-'' @ version @ ''-'' @ architecture @ extension) in
      rbind (if pk_os k = ''linux''
             then rbind (debian_architecture architecture) (\<lambda>debian.
               Inr (executable @ ''_'' @ version @ ''_'' @ debian @ ''.deb''))
             else Inr (file_name ''.deb'')) (\<lambda>debian.
      Inr \<lparr>an_bundle = bundle,
        an_portable = bundle @ (if pk_os k = ''linux'' then ''.tar.gz'' else ''.zip''),
        an_debian = debian,
        an_native = file_name (if pk_os k = ''macos'' then ''.dmg'' else ''.msix''),
        an_appimage = file_name ''.AppImage'',
        an_rpm = executable @ ''-'' @ version @ ''.'' @ architecture @ ''.rpm'',
        an_pkg = file_name ''.pkg'', an_msi = file_name ''.msi'',
        an_executable = executable, an_architecture = architecture\<rparr>))"

text \<open>Which artifact a format publishes.\<close>

fun format_name :: "ArtifactNames \<Rightarrow> PackageFormat \<Rightarrow> string" where
  "format_name n DirectoryBundle = an_bundle n"
| "format_name n Portable = an_portable n"
| "format_name n Debian = an_debian n"
| "format_name n Native = an_native n"
| "format_name n AppImage = an_appimage n"
| "format_name n Rpm = an_rpm n"
| "format_name n Pkg = an_pkg n"
| "format_name n Msi = an_msi n"

definition artifact_destination ::
    "string \<Rightarrow> ArtifactNames \<Rightarrow> PackageFormat set \<Rightarrow> PackageFormat \<Rightarrow> string option" where
  "artifact_destination output names formats format =
     (if format \<in> formats then Some (path_join output (format_name names format)) else None)"

definition destination_order :: "PackageFormat list" where
  "destination_order = [DirectoryBundle, Portable, Debian, Native, AppImage, Rpm, Pkg, Msi]"

definition destination_paths :: "string \<Rightarrow> ArtifactNames \<Rightarrow> PackageFormat set \<Rightarrow> string list" where
  "destination_paths output names formats =
     List.map_filter (artifact_destination output names formats) destination_order"

section \<open>Versions of the package systems\<close>

definition version_numbers :: "nat \<Rightarrow> string \<Rightarrow> u16 list" where
  "version_numbers limit version =
     (let runs = take limit (filter (\<lambda>s. s \<noteq> []) (split_where (\<lambda>c. \<not> ascii_digit (byte c)) version));
          numbers = map (\<lambda>s. case parse_unsigned 16 s of None \<Rightarrow> - 1 | Some n \<Rightarrow> of_nat n) runs
      in numbers @ replicate (limit - length numbers) 0)"

definition dotted :: "u16 list \<Rightarrow> string" where
  "dotted numbers = join_with ''.'' (map (\<lambda>n. decimal (unat n)) numbers)"

definition apple_version :: "string \<Rightarrow> string" where
  "apple_version version = dotted (version_numbers 3 version)"

definition windows_version :: "string \<Rightarrow> string" where
  "windows_version version = dotted (version_numbers 4 version)"

lemma length_version_numbers: "length (version_numbers limit version) = limit"
  by (simp add: version_numbers_def Let_def)

text \<open>
  Whatever the version of an application is called, the version of an MSIX or MSI package is four
  numbers of 16 bits between dots, and that of an Apple bundle three, as those formats require.
\<close>
theorem package_versions_fit:
  "\<exists>apple windows. apple_version version = join_with ''.'' (map decimal apple) \<and> length apple = 3 \<and>
     windows_version version = join_with ''.'' (map decimal windows) \<and> length windows = 4 \<and>
     list_all (\<lambda>n. n \<le> 65535) (apple @ windows)"
proof (intro exI conjI)
  have bound: "unat w \<le> 65535" for w :: u16
  proof -
    have "unat w < 2 ^ LENGTH(16)" by (rule unsigned_less)
    then show ?thesis by simp
  qed
  show "apple_version version = join_with ''.'' (map decimal (map unat (version_numbers 3 version)))"
    "windows_version version = join_with ''.'' (map decimal (map unat (version_numbers 4 version)))"
    by (simp_all add: apple_version_def windows_version_def dotted_def comp_def)
  show "list_all (\<lambda>n. n \<le> 65535) (map unat (version_numbers 3 version) @ map unat (version_numbers 4 version))"
    using bound by (auto simp: list_all_iff)
qed (simp_all add: length_version_numbers)

text \<open>The numbers of a prerelease are read as further parts, so Windows orders it after its release.\<close>

lemma windows_prerelease_is_newer:
  "compare_versions ''1.0.0-beta.2'' ''1.0.0'' = Less \<and>
   version_numbers 4 ''1.0.0-beta.2'' = [1, 0, 0, 2] \<and> version_numbers 4 ''1.0.0'' = [1, 0, 0, 0]"
proof -
  have "version_parts ''1.0.0-beta.2'' = ([''1'', ''0'', ''0''], Some ''beta.2'')"
    "version_parts ''1.0.0'' = ([''1'', ''0'', ''0''], None)"
    by code_simp+
  then have "compare_versions ''1.0.0-beta.2'' ''1.0.0'' = Less"
    by (simp add: compare_versions_def compare_version_part_def sample_parses and_then_def nat_cmp_def)
  moreover have "version_numbers 4 ''1.0.0-beta.2'' = [1, 0, 0, 2]" "version_numbers 4 ''1.0.0'' = [1, 0, 0, 0]"
    by (simp_all add: version_numbers_def ascii_digit_def byte_def parse_unsigned_def starts_with_def digits_value_def)
  ultimately show ?thesis by blast
qed

section \<open>Desktop entries\<close>

definition unlines :: "string list \<Rightarrow> string" where
  "unlines ls = concat (map (\<lambda>l. l @ [newline]) ls)"

definition replace_char :: "char \<Rightarrow> string \<Rightarrow> string \<Rightarrow> string" where
  "replace_char c new s = concat (map (\<lambda>x. if x = c then new else [x]) s)"

definition desktop_value :: "string \<Rightarrow> string" where
  "desktop_value v =
     replace_char CHR '';'' [CHR 0x5C, CHR '';''] (replace_char CHR 0x5C [CHR 0x5C, CHR 0x5C] v)"

fun freedesktop_category :: "ApplicationCategory \<Rightarrow> string" where
  "freedesktop_category ApplicationCategory.Development = ''Development''"
| "freedesktop_category ApplicationCategory.Productivity = ''Office''"
| "freedesktop_category ApplicationCategory.Graphics = ''Graphics''"
| "freedesktop_category ApplicationCategory.AudioVideo = ''AudioVideo''"
| "freedesktop_category ApplicationCategory.Network = ''Network''"
| "freedesktop_category ApplicationCategory.Utility = ''Utility''"
| "freedesktop_category ApplicationCategory.Game = ''Game''"
| "freedesktop_category ApplicationCategory.Education = ''Education''"

definition list_line :: "string \<Rightarrow> string list \<Rightarrow> string list" where
  "list_line key items = (if items = [] then [] else [key @ ''='' @ join_with '';'' items @ '';''])"

definition action_lines :: "string \<Rightarrow> QuickActionConfig \<Rightarrow> string list" where
  "action_lines executable a =
     [[], ''[Desktop Action '' @ qa_id a @ '']'', ''Name='' @ desktop_value (qa_label a),
      ''Exec='' @ executable @ '' --pam-quick-action='' @ qa_id a]"

definition desktop_lines :: "ApplicationManifest \<Rightarrow> QuickActionConfig list \<Rightarrow> string \<Rightarrow> string list" where
  "desktop_lines m actions executable =
     [''[Desktop Entry]'', ''Type=Application'', ''Version=1.5'', ''Name='' @ desktop_value (am_name m),
      ''Comment='' @ desktop_value (am_description m), ''Exec='' @ executable @ '' %U'',
      ''Icon='' @ am_identifier m, ''Terminal=false'',
      ''Categories='' @ freedesktop_category (am_category m) @ '';''] @
     list_line ''MimeType'' (lc_mime_types (am_lifecycle m) @
       map (\<lambda>scheme. ''x-scheme-handler/'' @ scheme) (lc_url_schemes (am_lifecycle m))) @
     list_line ''Actions'' (map qa_id actions) @
     [''StartupWMClass='' @ am_identifier m] @ concat (map (action_lines executable) actions)"

definition desktop_entry :: "ApplicationManifest \<Rightarrow> QuickActionConfig list \<Rightarrow> string \<Rightarrow> string" where
  "desktop_entry m actions executable = unlines (desktop_lines m actions executable)"

text \<open>
  The loop of \<open>install.sh\<close> over the lines of the template: \<open>read\<close> leaves a last line without an end
  alone.
\<close>

definition shell_lines :: "string \<Rightarrow> string list" where
  "shell_lines s = butlast (split_on newline s)"

definition installed_entry :: "string \<Rightarrow> string \<Rightarrow> string \<Rightarrow> string" where
  "installed_entry target executable template =
     unlines (map (\<lambda>line. if line = ''Exec=@PAM_EXEC@ %U''
         then ''Exec='' @ target @ ''/bin/'' @ executable @ '' %U'' else line) (shell_lines template))"

definition one_line :: "string \<Rightarrow> bool" where
  "one_line s \<longleftrightarrow> newline \<notin> set s"

lemma one_line_simps [simp]: "one_line []" "one_line (c # s) \<longleftrightarrow> c \<noteq> newline \<and> one_line s"
  "one_line (s @ t) \<longleftrightarrow> one_line s \<and> one_line t"
  by (auto simp: one_line_def)

lemma shell_lines_unlines: "list_all one_line ls \<Longrightarrow> shell_lines (unlines ls) = ls"
proof (induction ls)
  case (Cons l ls)
  then have "split_on newline (unlines (l # ls)) = l # split_on newline (unlines ls)"
    by (simp add: unlines_def one_line_def split_on_sep)
  with Cons show ?case by (simp add: shell_lines_def)
qed (simp add: shell_lines_def unlines_def)

lemma one_line_replace_char: "one_line s \<Longrightarrow> one_line new \<Longrightarrow> one_line (replace_char c new s)"
  by (auto simp: one_line_def replace_char_def)

lemma one_line_desktop_value: "one_line s \<Longrightarrow> one_line (desktop_value s)"
  by (simp add: desktop_value_def one_line_replace_char newline_def)

lemma one_line_join: "list_all one_line ls \<Longrightarrow> one_line s \<Longrightarrow> one_line (join_with s ls)"
  by (induction s ls rule: join_with.induct) auto

lemma one_line_list_line: "list_all one_line items \<Longrightarrow> one_line key \<Longrightarrow> list_all one_line (list_line key items)"
  by (simp add: list_line_def one_line_join newline_def)

lemma one_line_category: "one_line (freedesktop_category c)"
  by (cases c) (simp_all add: newline_def)

lemma utf8_ascii_byte:
  assumes "is_utf8 s" "c \<in> set s" "byte c < 128"
  shows "byte c \<in> set (str_chars s)"
proof -
  have "byte c \<in> set (utf8_encode (str_chars s))"
    using assms(1,2) by (auto simp: is_utf8_def)
  then obtain n where "n \<in> set (str_chars s)" "byte c \<in> set (utf8_encode_char n)"
    by (auto simp: utf8_encode_def)
  with assms(3) show ?thesis
    by (auto simp: utf8_encode_char_def split: if_splits)
qed

lemma valid_text_one_line: "valid_text n allow_empty s \<Longrightarrow> is_utf8 s \<Longrightarrow> one_line s"
proof -
  assume valid: "valid_text n allow_empty s" "is_utf8 s"
  have "byte newline = 10" by (simp add: newline_def byte_def)
  moreover have "10 \<notin> set (str_chars s)"
    using valid(1) by (force simp: valid_text_def char_control_def)
  ultimately show "one_line s"
    using utf8_ascii_byte [OF valid(2), of newline] by (auto simp: one_line_def)
qed

lemma class_one_line: "list_all (\<lambda>c. P (byte c)) s \<Longrightarrow> \<not> P 10 \<Longrightarrow> one_line s"
  by (auto simp: one_line_def list_all_iff newline_def byte_def)

lemma valid_identifier_one_line: "valid_identifier s \<Longrightarrow> one_line s"
proof -
  assume "valid_identifier s"
  then have "list_all identifier_char (map byte s)"
    by (cases s) (auto simp: valid_identifier_def identifier_char_def ascii_alphanumeric_def)
  then show "one_line s"
    by (intro class_one_line [of identifier_char])
      (auto simp: list_all_iff identifier_char_def ascii_alphanumeric_def ascii_alphabetic_def ascii_lower_def
        ascii_upper_def ascii_digit_def byte_literals)
qed

lemma valid_application_identifier_one_line: "valid_application_identifier s \<Longrightarrow> one_line s"
proof -
  assume valid: "valid_application_identifier s"
  have "one_line segment" if "segment \<in> set (split_on CHR ''.'' s)" for segment
  proof -
    have "valid_application_segment segment"
      using valid that by (simp add: valid_application_identifier_def list_all_iff)
    then have "list_all (\<lambda>c. application_segment_char (byte c)) segment"
      by (cases segment) (auto simp: valid_application_segment_def application_segment_char_def list_all_iff)
    then show ?thesis
      by (rule class_one_line) (simp add: application_segment_char_def ascii_lower_def ascii_digit_def byte_literals)
  qed
  then have "newline \<notin> set (concat (split_on CHR ''.'' s))" by (auto simp: one_line_def)
  moreover have "newline \<noteq> CHR ''.''" by (simp add: newline_def)
  ultimately show "one_line s"
    unfolding set_concat_split_on one_line_def by blast
qed

lemma valid_lifecycle_one_line:
  assumes "validate_lifecycle c = Inr ()"
  shows "list_all one_line (lc_mime_types c)" "list_all one_line (lc_url_schemes c)"
proof -
  have part: "one_line p" if "valid_mime_part p" for p
    using that
    by (intro class_one_line [of "\<lambda>b. ascii_lower b \<or> ascii_digit b \<or> b \<in> set (map byte ''!#$&^_.+-'')"])
      (auto simp: valid_mime_part_def list_all_iff ascii_lower_def ascii_digit_def byte_def)
  have "one_line mime" if "mime \<in> set (lc_mime_types c)" for mime
  proof -
    have "(case split_once slash mime of None \<Rightarrow> Inl (Invalid ''application MIME type is invalid'' mime)
      | Some (kind, subtype) \<Rightarrow> reject_if (\<not> valid_mime_part kind \<or> \<not> valid_mime_part subtype)
          (Invalid ''application MIME type is invalid or duplicated'' mime)) = Inr ()"
      using assms that by (auto simp: validate_lifecycle_def rbind_Inr_iff for_each_unique_Inr)
    then obtain kind subtype where "split_once slash mime = Some (kind, subtype)"
      "valid_mime_part kind" "valid_mime_part subtype"
      by (auto simp: reject_if_Inr split: option.splits)
    then show ?thesis
      using part by (auto simp: split_once_Some_iff slash_def newline_def)
  qed
  then show "list_all one_line (lc_mime_types c)" by (simp add: list_all_iff)
  have "one_line scheme" if "valid_url_scheme scheme" for scheme
  proof -
    let ?P = "\<lambda>b. ascii_lower b \<or> ascii_digit b \<or> b \<in> set (map byte ''+.-'')"
    have "?P (byte c)" if c: "c \<in> set scheme" for c
    proof -
      obtain i where "i < length scheme" "scheme ! i = c" using c by (auto simp: in_set_conv_nth)
      moreover have "(i, byte (scheme ! i)) \<in> set (enumerate 0 (map byte scheme))"
        using calculation(1) by (auto simp: in_set_enumerate_eq)
      ultimately show ?thesis
        using \<open>valid_url_scheme scheme\<close> by (force simp: valid_url_scheme_def list_all_iff split: if_splits)
    qed
    then show ?thesis
      by (intro class_one_line [of ?P]) (auto simp: list_all_iff ascii_lower_def ascii_digit_def byte_def)
  qed
  then show "list_all one_line (lc_url_schemes c)"
    using assms by (auto simp: validate_lifecycle_def rbind_Inr_iff for_each_unique_Inr reject_if_Inr list_all_iff)
qed

text \<open>Text fields are Rust strings, so their bytes are UTF-8.\<close>

definition texts_are_utf8 :: "ApplicationManifest \<Rightarrow> QuickActionConfig list \<Rightarrow> bool" where
  "texts_are_utf8 m actions \<longleftrightarrow>
     is_utf8 (am_name m) \<and> is_utf8 (am_description m) \<and> list_all (\<lambda>a. is_utf8 (qa_label a)) actions"

lemma desktop_lines_one_line:
  assumes "validate_manifest parse_url debug m = Inr ()" "list_all (\<lambda>a. validate_quick_action a = Inr ()) actions"
    and "texts_are_utf8 m actions" "one_line executable"
  shows "list_all one_line (desktop_lines m actions executable)"
proof -
  have m: "valid_application_identifier (am_identifier m)" "valid_text 80 False (am_name m)"
    "valid_text 256 True (am_description m)" "validate_lifecycle (am_lifecycle m) = Inr ()"
    using assms(1) by (simp_all add: validate_manifest_def result_simps)
  have texts: "one_line (am_identifier m)" "one_line (am_name m)" "one_line (am_description m)"
    using m assms(3) by (auto simp: texts_are_utf8_def valid_application_identifier_one_line
        dest: valid_text_one_line)
  have a: "one_line (qa_id a)" "one_line (qa_label a)" if "a \<in> set actions" for a
  proof -
    have "valid_identifier (qa_id a)" "valid_text 80 False (qa_label a)"
      using assms(2) that by (simp_all add: list_all_iff validate_quick_action_def result_simps)
    then show "one_line (qa_id a)" "one_line (qa_label a)"
      using assms(3) that
      by (auto simp: texts_are_utf8_def list_all_iff valid_identifier_one_line dest: valid_text_one_line)
  qed
  have "list_all one_line (action_lines executable a)" if "a \<in> set actions" for a
    using a [OF that] assms(4) by (simp add: action_lines_def one_line_desktop_value newline_def)
  then have "list_all one_line (concat (map (action_lines executable) actions))"
    by (auto simp: list_all_iff)
  moreover have "list_all one_line (list_line ''Actions'' (map qa_id actions))"
    using a by (intro one_line_list_line) (auto simp: list_all_iff newline_def)
  moreover have "list_all one_line (list_line ''MimeType'' (lc_mime_types (am_lifecycle m) @
      map (\<lambda>scheme. ''x-scheme-handler/'' @ scheme) (lc_url_schemes (am_lifecycle m))))"
    using valid_lifecycle_one_line [OF m(4)]
    by (intro one_line_list_line) (auto simp: list_all_iff newline_def)
  ultimately show ?thesis
    using texts assms(4)
    by (simp add: desktop_lines_def one_line_desktop_value one_line_category newline_def)
qed

lemma desktop_lines_placeholder:
  "map (\<lambda>line. if line = ''Exec=@PAM_EXEC@ %U'' then ''Exec='' @ path @ '' %U'' else line)
     (desktop_lines m [] ''@PAM_EXEC@'') = desktop_lines m [] path"
  by (simp add: desktop_lines_def list_line_def)

text \<open>
  The portable installer rewrites the desktop entry of a bundle line by line.  An application
  without quick actions gets exactly the entry for its installed executable.  With quick actions,
  the line that starts one keeps the placeholder of the template: only the line of the application
  itself is replaced.
\<close>
theorem installed_desktop_entry:
  assumes "validate_manifest parse_url debug m = Inr ()"
    and "list_all (\<lambda>a. validate_quick_action a = Inr ()) actions"
    and "texts_are_utf8 m actions" "newline \<notin> set target" "newline \<notin> set executable"
  shows "shell_lines (installed_entry target executable (desktop_entry m [] ''@PAM_EXEC@'')) =
      desktop_lines m [] (target @ ''/bin/'' @ executable) \<and>
    list_all (\<lambda>a. ''Exec=@PAM_EXEC@ --pam-quick-action='' @ qa_id a \<in>
      set (shell_lines (installed_entry target executable (desktop_entry m actions ''@PAM_EXEC@'')))) actions"
proof -
  let ?new = "''Exec='' @ target @ ''/bin/'' @ executable @ '' %U''"
  let ?rewrite = "map (\<lambda>line. if line = ''Exec=@PAM_EXEC@ %U'' then ?new else line)"
  have rewritten: "shell_lines (installed_entry target executable (desktop_entry m as ''@PAM_EXEC@'')) =
      ?rewrite (desktop_lines m as ''@PAM_EXEC@'')"
    if as: "list_all (\<lambda>a. validate_quick_action a = Inr ()) as" "texts_are_utf8 m as" for as
  proof -
    have "one_line ''@PAM_EXEC@''" by (simp add: newline_def)
    from desktop_lines_one_line [OF assms(1) as this]
    have lines: "list_all one_line (desktop_lines m as ''@PAM_EXEC@'')" .
    have "one_line ?new" using assms(4,5) by (simp add: one_line_def newline_def)
    with lines have "list_all one_line (?rewrite (desktop_lines m as ''@PAM_EXEC@''))"
      by (auto simp: list_all_iff)
    then show ?thesis
      by (simp add: installed_entry_def desktop_entry_def shell_lines_unlines [OF lines] shell_lines_unlines)
  qed
  have "texts_are_utf8 m []" using assms(3) by (simp add: texts_are_utf8_def)
  then have "shell_lines (installed_entry target executable (desktop_entry m [] ''@PAM_EXEC@'')) =
      desktop_lines m [] (target @ ''/bin/'' @ executable)"
    using desktop_lines_placeholder [of "target @ ''/bin/'' @ executable" m] rewritten [of "[]"]
    by (simp only: append_assoc list.pred_inject simp_thms)
  moreover have "''Exec=@PAM_EXEC@ --pam-quick-action='' @ qa_id a \<in> set (?rewrite (desktop_lines m actions ''@PAM_EXEC@''))"
    if "a \<in> set actions" for a
  proof -
    let ?line = "''Exec=@PAM_EXEC@ --pam-quick-action='' @ qa_id a"
    have "?line \<in> set (action_lines ''@PAM_EXEC@'' a)" by (simp add: action_lines_def)
    then have "?line \<in> set (desktop_lines m actions ''@PAM_EXEC@'')"
      using that by (auto simp: desktop_lines_def)
    moreover have "?line \<noteq> ''Exec=@PAM_EXEC@ %U''" by simp
    ultimately show ?thesis by (auto simp: image_iff)
  qed
  ultimately show ?thesis
    using rewritten [OF assms(2,3)] by (simp add: list_all_iff)
qed

theorem installed_desktop_entry_witness:
  "''Exec=@PAM_EXEC@ --pam-quick-action=new'' \<in> set (shell_lines (installed_entry ''/apps/notes'' ''notes''
      (desktop_entry sample_manifest (sc_quick_actions sample_shell) ''@PAM_EXEC@'')))"
proof -
  have "is_utf8 ''Notes''" "is_utf8 ''Keeps notes''" "is_utf8 ''New note''"
    by (rule ascii_is_utf8; simp add: byte_def)+
  then have "texts_are_utf8 sample_manifest (sc_quick_actions sample_shell)"
    by (simp add: texts_are_utf8_def sample_manifest_def sample_shell_def)
  moreover have "list_all (\<lambda>a. validate_quick_action a = Inr ()) (sc_quick_actions sample_shell)"
    by (simp add: sample_shell_def validate_quick_action_def text_eval)
  ultimately show ?thesis
    using installed_desktop_entry [OF sample_manifest_valid, of "sc_quick_actions sample_shell" "''/apps/notes''" "''notes''"]
    by (simp add: sample_shell_def newline_def)
qed

end
