(* ===== verification/PackageXml.thy ===== *)
theory PackageXml
  imports PackageText
begin

text \<open>
  \<open>packager.rs\<close>, the metadata files of the packages: the Apple property list, the MSIX manifest and the WiX
  source with their escaping, the Debian control file and the RPM specification.
\<close>

section \<open>Escaping\<close>

definition quote :: char where "quote = CHR 0x22"

definition apostrophe :: char where "apostrophe = CHR 0x27"

definition backslash :: char where "backslash = CHR 0x5C"

definition xml_escape :: "string \<Rightarrow> string" where
  "xml_escape v =
     replace_char apostrophe ''&apos;'' (replace_char quote ''&quot;'' (replace_char CHR ''>'' ''&gt;''
       (replace_char CHR ''<'' ''&lt;'' (replace_char CHR ''&'' ''&amp;'' v))))"

text \<open>One character at a time, and what an XML parser reads back.\<close>

definition xml_entity :: "char \<Rightarrow> string" where
  "xml_entity c =
     (if c = CHR ''&'' then ''&amp;'' else if c = CHR ''<'' then ''&lt;'' else if c = CHR ''>'' then ''&gt;''
      else if c = quote then ''&quot;'' else if c = apostrophe then ''&apos;'' else [c])"

definition entities :: "(string \<times> char) list" where
  "entities = [(''&amp;'', CHR ''&''), (''&lt;'', CHR ''<''), (''&gt;'', CHR ''>''), (''&quot;'', quote),
     (''&apos;'', apostrophe)]"

function xml_unescape :: "string \<Rightarrow> string" where
  "xml_unescape [] = []"
| "xml_unescape (c # cs) =
     (case find (\<lambda>e. starts_with (fst e) (c # cs)) entities of
        None \<Rightarrow> c # xml_unescape cs
      | Some (entity, decoded) \<Rightarrow> decoded # xml_unescape (drop (length entity) (c # cs)))"
  by pat_completeness auto

termination
  by (relation "measure length")
    (auto simp: find_Some_iff entities_def nth_Cons' split: if_splits)

lemma replace_char_simps:
  "replace_char c new [] = []"
  "replace_char c new (x # s) = (if x = c then new else [x]) @ replace_char c new s"
  by (simp_all add: replace_char_def)

lemma replace_char_append: "replace_char c new (s @ t) = replace_char c new s @ replace_char c new t"
  by (simp add: replace_char_def)

lemma xml_escape_char: "xml_escape [c] = xml_entity c"
proof (cases "c \<in> {CHR ''&'', CHR ''<'', CHR ''>'', quote, apostrophe}")
  case True
  then show ?thesis
    by (elim insertE) (simp_all add: xml_escape_def replace_char_simps xml_entity_def quote_def apostrophe_def)
next
  case False
  then show ?thesis by (simp add: xml_escape_def replace_char_simps xml_entity_def)
qed

lemma xml_escape_entities: "xml_escape v = concat (map xml_entity v)"
proof (induction v)
  case (Cons c v)
  have "xml_escape ([c] @ v) = xml_escape [c] @ xml_escape v"
    by (simp only: xml_escape_def replace_char_append)
  with Cons show ?case by (simp add: xml_escape_char)
qed (simp add: xml_escape_def replace_char_simps)

lemma xml_unescape_entity:
  "xml_unescape (xml_entity c @ rest) = c # xml_unescape rest"
proof (cases "c \<in> {CHR ''&'', CHR ''<'', CHR ''>'', quote, apostrophe}")
  case True
  then show ?thesis
    by (auto simp: xml_entity_def entities_def starts_with_def quote_def apostrophe_def)
next
  case False
  then have "\<not> starts_with (fst e) (c # rest)" if "e \<in> set entities" for e
    using that by (auto simp: entities_def starts_with_def)
  then have "find (\<lambda>e. starts_with (fst e) (c # rest)) entities = None"
    unfolding find_None_iff by blast
  with False show ?thesis by (simp add: xml_entity_def)
qed

definition markup_char :: "char \<Rightarrow> bool" where
  "markup_char c \<longleftrightarrow> c \<in> {CHR ''<'', CHR ''>'', quote, apostrophe}"

definition markup :: "string \<Rightarrow> string" where
  "markup s = filter markup_char s"

text \<open>
  What is escaped for a property list, an MSIX manifest or a WiX source contains no character of
  markup, and a parser that decodes the five entities reads back exactly the text that was given.
\<close>
theorem xml_text_roundtrip: "xml_unescape (xml_escape v) = v \<and> markup (xml_escape v) = []"
proof
  show "xml_unescape (xml_escape v) = v"
    unfolding xml_escape_entities by (induction v) (simp_all del: xml_unescape.simps(2) add: xml_unescape_entity)
  show "markup (xml_escape v) = []"
    unfolding xml_escape_entities
    by (induction v) (auto simp: markup_def markup_char_def xml_entity_def quote_def apostrophe_def)
qed

section \<open>The metadata files\<close>

definition macos_info_plist :: "ApplicationManifest \<Rightarrow> string \<Rightarrow> string \<Rightarrow> string" where
  "macos_info_plist m executable icon_name =
     unlines [
       ''<?xml version=\"1.0\" encoding=\"UTF-8\"?>'',
       ''<!DOCTYPE plist PUBLIC \"-//Apple//DTD PLIST 1.0//EN\" \"https://www.apple.com/DTDs/PropertyList-1.0.dtd\">'',
       ''<plist version=\"1.0\">'',
       ''<dict>'',
       ''  <key>CFBundleDevelopmentRegion</key><string>en</string>'',
       ''  <key>CFBundleDisplayName</key><string>'' @ xml_escape (am_name m) @ ''</string>'',
       ''  <key>CFBundleExecutable</key><string>'' @ xml_escape executable @ ''</string>'',
       ''  <key>CFBundleIconFile</key><string>'' @ xml_escape icon_name @ ''</string>'',
       ''  <key>CFBundleIdentifier</key><string>'' @ xml_escape (am_identifier m) @ ''</string>'',
       ''  <key>CFBundleInfoDictionaryVersion</key><string>6.0</string>'',
       ''  <key>CFBundleName</key><string>'' @ xml_escape (am_name m) @ ''</string>'',
       ''  <key>CFBundlePackageType</key><string>APPL</string>'',
       ''  <key>CFBundleShortVersionString</key><string>'' @ xml_escape (apple_version (am_version m)) @ ''</string>'',
       ''  <key>CFBundleVersion</key><string>'' @ xml_escape (apple_version (am_version m)) @ ''</string>'',
       ''  <key>LSMinimumSystemVersion</key><string>12.0</string>'',
       ''  <key>NSHighResolutionCapable</key><true/>'',
       ''</dict>'',
       ''</plist>'']"

definition appx_architecture :: "string \<Rightarrow> string" where
  "appx_architecture architecture =
     (if architecture = ''x86_64'' then ''x64'' else if architecture = ''aarch64'' then ''arm64'' else architecture)"

definition windows_appx_manifest :: "ApplicationManifest \<Rightarrow> ArtifactNames \<Rightarrow> string \<Rightarrow> string" where
  "windows_appx_manifest m names publisher =
     unlines [
       ''<?xml version=\"1.0\" encoding=\"utf-8\"?>'',
       ''<Package xmlns=\"http://schemas.microsoft.com/appx/manifest/foundation/windows10\"'',
       ''         xmlns:uap=\"http://schemas.microsoft.com/appx/manifest/uap/windows10\"'',
       ''         xmlns:rescap=\"http://schemas.microsoft.com/appx/manifest/foundation/windows10/restrictedcapabilities\"'',
       ''         IgnorableNamespaces=\"uap rescap\">'',
       ''  <Identity Name=\"'' @ xml_escape (am_identifier m) @ ''\" Publisher=\"'' @ xml_escape publisher @
         ''\" Version=\"'' @ windows_version (am_version m) @ ''\" ProcessorArchitecture=\"'' @
         appx_architecture (an_architecture names) @ ''\"/>'',
       ''  <Properties>'',
       ''    <DisplayName>'' @ xml_escape (am_name m) @ ''</DisplayName>'',
       ''    <PublisherDisplayName>'' @ xml_escape (am_publisher m) @ ''</PublisherDisplayName>'',
       ''    <Logo>Assets'' @ backslash # ''StoreLogo.png</Logo>'',
       ''    <Description>'' @ xml_escape (am_description m) @ ''</Description>'',
       ''  </Properties>'',
       ''  <Resources><Resource Language=\"en-us\"/></Resources>'',
       ''  <Dependencies><TargetDeviceFamily Name=\"Windows.Desktop\" MinVersion=\"10.0.17763.0\" MaxVersionTested=\"10.0.26100.0\"/></Dependencies>'',
       ''  <Applications>'',
       ''    <Application Id=\"App\" Executable=\"runtime'' @ backslash # ''bin'' @ backslash # xml_escape (an_executable names) @
         ''.exe\" EntryPoint=\"Windows.FullTrustApplication\">'',
       ''      <uap:VisualElements DisplayName=\"'' @ xml_escape (am_name m) @ ''\" Description=\"'' @
         xml_escape (am_description m) @ ''\" BackgroundColor=\"transparent\"'',
       ''          Square44x44Logo=\"Assets'' @ backslash # ''Square44x44Logo.png\" Square150x150Logo=\"Assets'' @
         backslash # ''Square150x150Logo.png\"/>'',
       ''    </Application>'',
       ''  </Applications>'',
       ''  <Capabilities><rescap:Capability Name=\"runFullTrust\"/></Capabilities>'',
       ''</Package>'']"

definition hex_upper :: "u8 \<Rightarrow> string" where
  "hex_upper b = map (\<lambda>c. if ascii_lower (byte c) then char_of (byte c - 32) else c) (encode_hex [b])"

text \<open>The thirty-two digits of a digest; \<open>sha256\<close> gives its bytes.\<close>

definition deterministic_windows_guid :: "(string \<Rightarrow> u8 list) \<Rightarrow> string \<Rightarrow> string" where
  "deterministic_windows_guid sha256 identifier =
     (let digest = sha256 identifier; pair = (\<lambda>i. hex_upper (digest ! i)); nibble = (\<lambda>i. tl (hex_upper (digest ! i))) in
      pair 0 @ pair 1 @ pair 2 @ pair 3 @ ''-'' @ pair 4 @ pair 5 @ ''-4'' @ nibble 6 @ pair 7 @
      ''-8'' @ nibble 8 @ pair 9 @ ''-'' @ pair 10 @ pair 11 @ pair 12 @ pair 13 @ pair 14 @ pair 15)"

definition windows_wix_source ::
    "(string \<Rightarrow> u8 list) \<Rightarrow> string \<Rightarrow> ApplicationManifest \<Rightarrow> ArtifactNames \<Rightarrow> string" where
  "windows_wix_source sha256 bundle m names =
     unlines [
       ''<Wix xmlns=\"http://wixtoolset.org/schemas/v4/wxs\">'',
       ''  <Package Name=\"'' @ xml_escape (am_name m) @ ''\" Manufacturer=\"'' @ xml_escape (am_publisher m) @
         ''\" Version=\"'' @ windows_version (am_version m) @ ''\" UpgradeCode=\"'' @
         deterministic_windows_guid sha256 (am_identifier m) @ ''\" Scope=\"perUser\">'',
       ''    <MajorUpgrade DowngradeErrorMessage=\"A newer version is already installed.\" />'',
       ''    <MediaTemplate EmbedCab=\"yes\" />'',
       ''    <StandardDirectory Id=\"LocalAppDataFolder\">'',
       ''      <Directory Id=\"INSTALLFOLDER\" Name=\"'' @ xml_escape (an_executable names) @ ''\">'',
       ''        <Files Include=\"'' @ xml_escape bundle @ backslash # ''**\" />'',
       ''      </Directory>'',
       ''    </StandardDirectory>'',
       ''    <Feature Id=\"Main\"><FilesRef Id=\"INSTALLFOLDER\" /></Feature>'',
       ''  </Package>'',
       ''</Wix>'']"

fun debian_section :: "ApplicationCategory \<Rightarrow> string" where
  "debian_section ApplicationCategory.Development = ''devel''"
| "debian_section ApplicationCategory.Productivity = ''office''"
| "debian_section ApplicationCategory.Graphics = ''graphics''"
| "debian_section ApplicationCategory.AudioVideo = ''sound''"
| "debian_section ApplicationCategory.Network = ''net''"
| "debian_section ApplicationCategory.Utility = ''utils''"
| "debian_section ApplicationCategory.Game = ''games''"
| "debian_section ApplicationCategory.Education = ''education''"

definition described :: "ApplicationManifest \<Rightarrow> string" where
  "described m = (if am_description m = [] then am_name m else am_description m)"

definition debian_control :: "ApplicationManifest \<Rightarrow> ArtifactNames \<Rightarrow> u64 \<Rightarrow> string + string" where
  "debian_control m names bytes =
     rbind (debian_architecture (an_architecture names)) (\<lambda>architecture.
       Inr (unlines [
         ''Package: '' @ am_identifier m,
         ''Version: '' @ am_version m,
         ''Section: '' @ debian_section (am_category m),
         ''Priority: optional'',
         ''Architecture: '' @ architecture,
         ''Maintainer: '' @ am_publisher m,
         ''Installed-Size: '' @ decimal ((unat bytes + 1023) div 1024),
         ''Depends: bubblewrap, libc6, libfontconfig1, libfreetype6, libgl1, libx11-6, libxcb1'',
         ''Description: '' @ am_name m,
         '' '' @ described m]))"

definition rpm_escape :: "string \<Rightarrow> string" where
  "rpm_escape v =
     replace_char CHR ''%'' ''%%'' (map (\<lambda>c. if c = newline \<or> c = CHR 0x0D then CHR '' '' else c) v)"

definition rpm_spec :: "ApplicationManifest \<Rightarrow> ArtifactNames \<Rightarrow> string \<Rightarrow> string + string" where
  "rpm_spec m names payload =
     rbind (rpm_architecture (an_architecture names)) (\<lambda>architecture.
       Inr (unlines [
         ''Name: '' @ an_executable names,
         ''Version: '' @ am_version m,
         ''Release: 1%{?dist}'',
         ''Summary: '' @ rpm_escape (am_name m),
         ''License: Proprietary'',
         ''BuildArch: '' @ architecture,
         ''Requires: bubblewrap, glibc, fontconfig, freetype, libX11, libxcb'',
         [],
         ''%description'',
         rpm_escape (described m),
         [],
         ''%install'',
         ''mkdir -p %{buildroot}'',
         ''cp -a '' @ payload @ ''/* %{buildroot}/'',
         [],
         ''%files'',
         ''/opt/'' @ am_identifier m,
         ''/usr/bin/'' @ an_executable names,
         ''/usr/share/applications/'' @ am_identifier m @ ''.desktop'',
         ''/usr/share/icons'']))"

section \<open>No value changes the markup\<close>

lemma markup_append: "markup (s @ t) = markup s @ markup t"
  by (simp add: markup_def)

lemma markup_unlines: "markup (unlines ls) = concat (map markup ls)"
proof (induction ls)
  case (Cons l ls)
  have "markup (newline # s) = markup s" for s
    by (simp add: markup_def markup_char_def newline_def quote_def apostrophe_def)
  with Cons show ?case by (simp add: unlines_def markup_append)
qed (simp add: unlines_def markup_def)

lemma markup_Cons_backslash: "markup (backslash # s) = markup s"
  by (simp add: markup_def markup_char_def backslash_def quote_def apostrophe_def)

lemma markup_xml_escape: "markup (xml_escape v) = []"
  unfolding xml_escape_entities
  by (induction v) (auto simp: markup_def markup_char_def xml_entity_def quote_def apostrophe_def)

lemma markup_char_byte: "markup_char c \<Longrightarrow> byte c \<in> {34, 39, 60, 62}"
  by (auto simp: markup_char_def quote_def apostrophe_def byte_def)

lemma markup_Nil_iff: "markup s = [] \<longleftrightarrow> (\<forall>c \<in> set s. \<not> markup_char c)"
  by (simp add: markup_def filter_empty_conv)

lemma markup_join: "list_all (\<lambda>l. markup l = []) ls \<Longrightarrow> markup s = [] \<Longrightarrow> markup (join_with s ls) = []"
  by (induction s ls rule: join_with.induct) (auto simp: markup_append markup_def)

lemma markup_dotted: "markup (dotted ns) = []"
proof -
  have "\<not> markup_char c" if "c \<in> set (decimal n)" for c n
  proof -
    have "48 \<le> byte c \<and> byte c \<le> 57"
      using decimal_digits [of n] that by (simp add: list_all_iff)
    then show ?thesis by (auto simp: markup_char_def quote_def apostrophe_def byte_def)
  qed
  then have "markup (decimal n) = []" for n by (simp add: markup_Nil_iff)
  moreover have "markup ''.'' = []" by (simp add: markup_def markup_char_def quote_def apostrophe_def)
  ultimately show ?thesis
    by (simp add: dotted_def markup_join list_all_iff)
qed

lemma markup_hex_upper: "markup (hex_upper b) = []" "markup (tl (hex_upper b)) = []"
proof -
  have "\<not> markup_char (if ascii_lower (byte c) then char_of (byte c - 32) else c)"
    if "c \<in> set (encode_hex [b])" for c
  proof -
    have "lower_hex_byte (byte c)"
      using encode_hex_lower [of "[b]"] that by (simp add: list_all_iff)
    then consider "48 \<le> byte c" "byte c \<le> 57" | "97 \<le> byte c" "byte c \<le> 102"
      by (auto simp: lower_hex_byte_def ascii_digit_def byte_literals)
    then show ?thesis
    proof cases
      case 1
      then show ?thesis by (auto simp: ascii_lower_def byte_literals markup_char_def quote_def apostrophe_def byte_def)
    next
      case 2
      then have "65 \<le> byte (char_of (byte c - 32))" "byte (char_of (byte c - 32)) \<le> 70"
        by (simp_all add: byte_def)
      then have "\<not> markup_char (char_of (byte c - 32))"
        using markup_char_byte by fastforce
      moreover have "ascii_lower (byte c)"
        using 2 by (simp add: ascii_lower_def byte_literals)
      ultimately show ?thesis by simp
    qed
  qed
  then show "markup (hex_upper b) = []"
    unfolding markup_Nil_iff hex_upper_def set_map by blast
  then show "markup (tl (hex_upper b)) = []"
    by (cases "hex_upper b") (simp_all add: markup_Nil_iff)
qed

lemma markup_guid: "markup (deterministic_windows_guid sha256 identifier) = []"
proof -
  have "markup ''-'' = []" "markup ''-4'' = []" "markup ''-8'' = []"
    by (simp_all add: markup_def markup_char_def quote_def apostrophe_def)
  then show ?thesis
    unfolding deterministic_windows_guid_def Let_def
    by (simp only: markup_append markup_hex_upper append_Nil)
qed

lemmas markup_simps = markup_append markup_unlines markup_xml_escape markup_dotted markup_guid
  markup_Cons_backslash apple_version_def windows_version_def append_Nil append_Nil2 list.map

text \<open>
  The markup of the package metadata is fixed: whatever the application, its publisher, its files or
  its icon are called, the property list, the MSIX manifest and the WiX source have the same sequence
  of brackets and quotes, so no value can add an element or an attribute or close one.
\<close>
theorem package_markup_is_fixed:
  assumes "an_architecture names = an_architecture names'"
  shows "markup (macos_info_plist m executable icon_name) = markup (macos_info_plist m' executable' icon_name') \<and>
    markup (windows_appx_manifest m names publisher) = markup (windows_appx_manifest m' names' publisher') \<and>
    markup (windows_wix_source sha256 bundle m names) = markup (windows_wix_source sha256 bundle' m' names')"
proof (intro conjI)
  show "markup (macos_info_plist m executable icon_name) = markup (macos_info_plist m' executable' icon_name')"
    unfolding macos_info_plist_def by (simp only: markup_simps)
  show "markup (windows_appx_manifest m names publisher) = markup (windows_appx_manifest m' names' publisher')"
    unfolding windows_appx_manifest_def assms by (simp only: markup_simps)
  show "markup (windows_wix_source sha256 bundle m names) = markup (windows_wix_source sha256 bundle' m' names')"
    unfolding windows_wix_source_def by (simp only: markup_simps)
qed

definition sample_names_of :: "string \<Rightarrow> ArtifactNames" where
  "sample_names_of executable =
     \<lparr>an_bundle = [], an_portable = [], an_debian = [], an_native = [], an_appimage = [], an_rpm = [],
      an_pkg = [], an_msi = [], an_executable = executable, an_architecture = ''x86_64''\<rparr>"

theorem package_markup_is_fixed_witness:
  "markup (windows_appx_manifest sample_manifest (sample_names_of ''a\"b'') ''x'') =
     markup (windows_appx_manifest (sample_manifest\<lparr>am_name := ''<b>''\<rparr>) (sample_names_of ''notes'') ''y'')"
  using package_markup_is_fixed [of "sample_names_of ''a\"b''" "sample_names_of ''notes''"]
  by (simp add: sample_names_of_def)

end
