(* ===== verification/PackageTree.thy ===== *)
theory PackageTree
  imports PackageXml
begin

text \<open>
  \<open>packager.rs\<close>, the walks over a materialized bundle: the copy into a package root, its size, the file
  modes, and the search for the file that \<open>rpmbuild\<close> wrote.
\<close>

section \<open>Copies and sizes\<close>

text \<open>A file is linked, or copied where that fails; its content is the same either way.\<close>

fun hardlink_or_copy :: "(string \<times> entry) list \<Rightarrow> string + (string \<times> entry) list" where
  "hardlink_or_copy [] = Inr []"
| "hardlink_or_copy ((n, Directory es) # rest) =
     rbind (hardlink_or_copy es) (\<lambda>below.
     rbind (hardlink_or_copy rest) (\<lambda>others. Inr ((n, Directory below) # others)))"
| "hardlink_or_copy ((n, Symlink) # rest) = Inl ''unexpected symlink in materialized bundle''"
| "hardlink_or_copy ((n, Unreadable) # rest) = Inl ''cannot inspect''"
| "hardlink_or_copy ((n, e) # rest) = rbind (hardlink_or_copy rest) (\<lambda>others. Inr ((n, e) # others))"

fun directory_bytes_from :: "u64 \<Rightarrow> (string \<times> entry) list \<Rightarrow> string + u64" where
  "directory_bytes_from bytes [] = Inr bytes"
| "directory_bytes_from bytes ((n, Directory es) # rest) =
     rbind (directory_bytes_from 0 es) (\<lambda>below. directory_bytes_from (sat_add bytes below) rest)"
| "directory_bytes_from bytes ((n, Regular content) # rest) =
     directory_bytes_from (sat_add bytes (if length content < 2 ^ 64 then of_nat (length content) else - 1)) rest"
| "directory_bytes_from bytes ((n, Unreadable) # rest) = Inl ''cannot inspect''"
| "directory_bytes_from bytes (_ # rest) = directory_bytes_from bytes rest"

definition directory_bytes :: "(string \<times> entry) list \<Rightarrow> string + u64" where
  "directory_bytes es = directory_bytes_from 0 es"

fun content_size :: "(string \<times> entry) list \<Rightarrow> nat" where
  "content_size [] = 0"
| "content_size ((n, Directory es) # rest) = content_size es + content_size rest"
| "content_size ((n, Regular content) # rest) = length content + content_size rest"
| "content_size (_ # rest) = content_size rest"

lemma min_add_min: "min (min (a + min b c) c + d) c = min (a + b + d) c" for a b c d :: nat
  by (simp add: min_def)

lemma directory_bytes_from_total:
  "directory_bytes_from bytes es = Inr n \<Longrightarrow>
     unat n = min (unat bytes + content_size es) (2 ^ 64 - 1)"
proof (induction bytes es arbitrary: n rule: directory_bytes_from.induct)
  case (1 bytes)
  have "unat bytes < 2 ^ LENGTH(64)" by (rule unsigned_less)
  with 1 show ?case by simp
next
  case (2 bytes m es rest)
  then obtain below where parts: "directory_bytes_from 0 es = Inr below"
    "directory_bytes_from (sat_add bytes below) rest = Inr n"
    by (auto simp: rbind_Inr_iff)
  show ?case
    using "2.IH"(1) [OF parts(1)] "2.IH"(2) [OF parts(2)]
    by (simp add: unat_sat_add min_def)
next
  case (3 bytes m content rest)
  then have "directory_bytes_from (sat_add bytes (if length content < 2 ^ 64 then of_nat (length content) else - 1)) rest = Inr n"
    by simp
  from "3.IH" [OF this] show ?case
    by (auto simp: unat_sat_add unat_of_nat unat_max_word min_def)
qed auto

section \<open>The search for one artifact\<close>

text \<open>The directories that are left are a stack; the ones of a level go on top of it, the last first.\<close>

fun level_directories :: "string list \<Rightarrow> (string \<times> entry) list \<Rightarrow> (string list \<times> (string \<times> entry) list) list" where
  "level_directories at [] = []"
| "level_directories at ((n, Directory es) # rest) = (at @ [n], es) # level_directories at rest"
| "level_directories at (_ # rest) = level_directories at rest"

fun level_matches :: "string \<Rightarrow> string list \<Rightarrow> (string \<times> entry) list \<Rightarrow> string list list" where
  "level_matches extension at [] = []"
| "level_matches extension at ((n, e) # rest) =
     (if \<not> is_directory e \<and> path_extension n = Some extension then [at @ [n]] else []) @
     level_matches extension at rest"

fun nodes :: "(string \<times> entry) list \<Rightarrow> nat" where
  "nodes [] = 1"
| "nodes ((n, Directory es) # rest) = nodes es + nodes rest"
| "nodes (_ # rest) = nodes rest"

definition stack_nodes :: "(string list \<times> (string \<times> entry) list) list \<Rightarrow> nat" where
  "stack_nodes stack = sum_list (map (\<lambda>d. nodes (snd d)) stack)"

lemma nodes_level: "nodes es = Suc (stack_nodes (level_directories at es))"
  by (induction at es rule: level_directories.induct) (auto simp: stack_nodes_def)

lemma stack_nodes_level:
  "stack_nodes (rev (level_directories at es) @ stack) < stack_nodes ((at, es) # stack)"
proof -
  have "stack_nodes (rev (level_directories at es) @ stack) = stack_nodes (level_directories at es) + stack_nodes stack"
    by (simp add: stack_nodes_def rev_map [symmetric])
  then show ?thesis using nodes_level [of es at] by (simp add: stack_nodes_def)
qed

function search_extension ::
    "string \<Rightarrow> (string list \<times> (string \<times> entry) list) list \<Rightarrow> string list list \<Rightarrow> string list list" where
  "search_extension extension [] matches = matches"
| "search_extension extension ((at, es) # stack) matches =
     search_extension extension (rev (level_directories at es) @ stack) (matches @ level_matches extension at es)"
  by pat_completeness auto

termination
  by (relation "measure (\<lambda>(extension, stack, matches). stack_nodes stack)") (simp_all add: stack_nodes_level)

definition find_single_extension :: "(string \<times> entry) list \<Rightarrow> string \<Rightarrow> string + string list" where
  "find_single_extension root extension =
     (case search_extension extension [([], root)] [] of
        [path] \<Rightarrow> Inr path
      | matches \<Rightarrow> Inl (''expected exactly one artifact, found '' @ decimal (length matches)))"

fun files_with :: "string \<Rightarrow> string list \<Rightarrow> (string \<times> entry) list \<Rightarrow> string list list" where
  "files_with extension at [] = []"
| "files_with extension at ((n, Directory es) # rest) =
     files_with extension (at @ [n]) es @ files_with extension at rest"
| "files_with extension at ((n, _) # rest) =
     (if path_extension n = Some extension then [at @ [n]] else []) @ files_with extension at rest"

lemma files_with_level:
  "mset (files_with extension at es) = mset (level_matches extension at es) +
     (\<Sum>d \<in># mset (level_directories at es). mset (files_with extension (fst d) (snd d)))"
  by (induction extension at es rule: files_with.induct) auto

lemma search_extension_mset:
  "mset (search_extension extension stack matches) =
     mset matches + (\<Sum>d \<in># mset stack. mset (files_with extension (fst d) (snd d)))"
proof (induction extension stack matches rule: search_extension.induct)
  case (2 extension at es stack matches)
  have "mset (search_extension extension ((at, es) # stack) matches) =
      mset (search_extension extension (rev (level_directories at es) @ stack) (matches @ level_matches extension at es))"
    by (simp only: search_extension.simps)
  then show ?case
    unfolding "2.IH" by (simp add: files_with_level [of extension at es])
qed simp

lemma single_of_mset:
  assumes "mset xs = mset ys"
  shows "(case xs of [p] \<Rightarrow> Inr p | ms \<Rightarrow> Inl (f (length ms))) = (case ys of [p] \<Rightarrow> Inr p | ms \<Rightarrow> Inl (f (length ms)))"
proof -
  have len: "length xs = length ys" using assms by (rule mset_eq_length)
  consider "xs = []" | p where "xs = [p]" | p q r where "xs = p # q # r"
    by (cases xs; cases "tl xs") auto
  then show ?thesis
  proof cases
    case 2
    with assms show ?thesis by simp
  next
    case 3
    with len obtain p' q' r' where "ys = p' # q' # r'" by (cases ys; cases "tl ys") auto
    with 3 len show ?thesis by simp
  qed (use len in simp)
qed

text \<open>
  The search with its stack of directories finds exactly the files of the tree with the wanted
  extension: it returns a path when that is the only one of them, and fails when there is none or
  more than one.
\<close>
theorem search_finds_the_only_file:
  "find_single_extension root extension =
     (case files_with extension [] root of
        [path] \<Rightarrow> Inr path
      | matches \<Rightarrow> Inl (''expected exactly one artifact, found '' @ decimal (length matches)))"
proof -
  let ?found = "search_extension extension [([], root)] []" and ?files = "files_with extension [] root"
  have same: "mset ?found = mset ?files"
    by (simp add: search_extension_mset del: search_extension.simps)
  then show ?thesis
    unfolding find_single_extension_def by (rule single_of_mset)
qed

section \<open>File modes\<close>

text \<open>The modes that \<open>normalize_permissions\<close> sets, by path.\<close>

definition file_mode :: "string list \<Rightarrow> nat" where
  "file_mode path =
     (if ''bin'' \<in> set path \<or> path_extension (last path) = Some ''sh'' then 493 else 420)"

fun normalize_permissions :: "string list \<Rightarrow> (string \<times> entry) list \<Rightarrow> string + (string list \<times> nat) list" where
  "normalize_permissions at [] = Inr []"
| "normalize_permissions at ((n, Directory es) # rest) =
     rbind (normalize_permissions (at @ [n]) es) (\<lambda>below.
     rbind (normalize_permissions at rest) (\<lambda>others. Inr ((at @ [n], 493) # below @ others)))"
| "normalize_permissions at ((n, Regular content) # rest) =
     rbind (normalize_permissions at rest) (\<lambda>others. Inr ((at @ [n], file_mode (at @ [n])) # others))"
| "normalize_permissions at ((n, Unreadable) # rest) = Inl ''cannot inspect''"
| "normalize_permissions at (_ # rest) = normalize_permissions at rest"

text \<open>No file or directory of a bundle is left writable for others.\<close>

lemma normalized_modes: "normalize_permissions at es = Inr modes \<Longrightarrow> list_all (\<lambda>m. snd m = 493 \<or> snd m = 420) modes"
  by (induction at es arbitrary: modes rule: normalize_permissions.induct) (auto simp: rbind_Inr_iff file_mode_def)

end
