(* ===== verification/PackageBuild.thy ===== *)
theory PackageBuild
  imports PackageTree
begin

text \<open>
  \<open>packager.rs\<close>, the build: runtime libraries, the materialized bundle, the payload of each package system
  and the publication of the artifacts.  A bundle is the list of its entries; the project tree, the
  binaries, \<open>ldd\<close>, the signing and the packaging tools are fields of the environment.
\<close>

section \<open>Texts written into a bundle\<close>

definition launcher_script :: string where
  "launcher_script = unlines [
     ''#!/bin/sh'',
     ''set -eu'',
     ''PAM_LAUNCHER=$0'',
     ''while [ -L \"$PAM_LAUNCHER\" ]; do'',
     ''    PAM_LINK=$(readlink \"$PAM_LAUNCHER\")'',
     ''    case \"$PAM_LINK\" in'',
     ''        /*) PAM_LAUNCHER=$PAM_LINK ;;'',
     ''        *) PAM_LAUNCHER=$(dirname -- \"$PAM_LAUNCHER\")/$PAM_LINK ;;'',
     ''    esac'',
     ''done'',
     ''PAM_LAUNCHER=$(CDPATH= cd -- \"$(dirname -- \"$PAM_LAUNCHER\")\" && pwd)/$(basename -- \"$PAM_LAUNCHER\")'',
     ''PAM_BUNDLE=$(CDPATH= cd -- \"$(dirname -- \"$PAM_LAUNCHER\")/..\" && pwd)'',
     ''export PAM_BINARY=\"$PAM_BUNDLE/bin/pam\"'',
     ''export PAM_DESKTOP_BUNDLE=1'',
     ''export PAM_DESKTOP_BUNDLE_ROOT=\"$PAM_BUNDLE\"'',
     ''export PAM_DESKTOP_LAUNCHER=\"$PAM_LAUNCHER\"'',
     ''export PHPRC=\"$PAM_BUNDLE/etc/php.ini\"'',
     ''export PHP_INI_SCAN_DIR='',
     ''export LD_LIBRARY_PATH=\"$PAM_BUNDLE/lib${LD_LIBRARY_PATH:+:$LD_LIBRARY_PATH}\"'',
     ''cd \"$PAM_BUNDLE/app\"'',
     ''exec \"$PAM_BUNDLE/bin/pam-desktop\" run \"$PAM_BUNDLE/app\"'']"

definition PORTABLE_INSTALLER :: string where
  "PORTABLE_INSTALLER = unlines [
     ''#!/bin/sh'',
     ''set -eu'',
     ''BUNDLE=$(CDPATH= cd -- \"$(dirname -- \"$0\")\" && pwd)'',
     ''DATA_HOME=${XDG_DATA_HOME:-\"$HOME/.local/share\"}'',
     ''CONFIG_HOME=${XDG_CONFIG_HOME:-\"$HOME/.config\"}'',
     ''BIN_HOME=${XDG_BIN_HOME:-\"$HOME/.local/bin\"}'',
     ''TARGET=\"$DATA_HOME/pam-desktop/apps/@APP_ID@\"'',
     ''TEMPORARY=\"${TARGET}.install-$$\"'',
     ''BACKUP=\"${TARGET}.previous-$$\"'',
     ''mkdir -p \"$(dirname -- \"$TARGET\")\" \"$BIN_HOME\" \"$DATA_HOME/applications\" \"$DATA_HOME/icons/hicolor/@ICON_THEME@/apps\"'',
     ''rm -rf \"$TEMPORARY\" \"$BACKUP\"'',
     ''cp -a \"$BUNDLE\" \"$TEMPORARY\"'',
     ''if [ -e \"$TARGET\" ]; then mv \"$TARGET\" \"$BACKUP\"; fi'',
     ''if ! mv \"$TEMPORARY\" \"$TARGET\"; then'',
     ''    if [ -e \"$BACKUP\" ]; then mv \"$BACKUP\" \"$TARGET\"; fi'',
     ''    exit 1'',
     ''fi'',
     ''rm -rf \"$BACKUP\"'',
     ''ln -sfn \"$TARGET/bin/@EXECUTABLE@\" \"$BIN_HOME/@EXECUTABLE@\"'',
     ''while IFS= read -r line; do'',
     ''    if [ \"$line\" = \"Exec=@PAM_EXEC@ %U\" ]; then'',
     ''        printf 'Exec=%s %%U'' @ [backslash] @ ''n' \"$TARGET/bin/@EXECUTABLE@\"'',
     ''    else'',
     ''        printf '%s'' @ [backslash] @ ''n' \"$line\"'',
     ''    fi'',
     ''done < \"$TARGET/share/applications/@APP_ID@.desktop.in\" '' @ [backslash],
     ''    > \"$DATA_HOME/applications/@APP_ID@.desktop\"'',
     ''if [ \"@AUTOSTART@\" = \"1\" ]; then'',
     ''    mkdir -p \"$CONFIG_HOME/autostart\"'',
     ''    cp \"$DATA_HOME/applications/@APP_ID@.desktop\" \"$CONFIG_HOME/autostart/@APP_ID@.desktop\"'',
     ''fi'',
     ''cp \"$TARGET/share/icons/hicolor/@ICON_THEME@/apps/@APP_ID@.@ICON_EXTENSION@\" '' @ [backslash],
     ''    \"$DATA_HOME/icons/hicolor/@ICON_THEME@/apps/@APP_ID@.@ICON_EXTENSION@\"'',
     ''if command -v update-desktop-database >/dev/null 2>&1; then'',
     ''    update-desktop-database \"$DATA_HOME/applications\" >/dev/null 2>&1 || true'',
     ''fi'',
     ''printf 'Installed @APP_ID@. Run: %s'' @ [backslash] @ ''n' \"$BIN_HOME/@EXECUTABLE@\"'']"

definition PORTABLE_UNINSTALLER :: string where
  "PORTABLE_UNINSTALLER = unlines [
     ''#!/bin/sh'',
     ''set -eu'',
     ''DATA_HOME=${XDG_DATA_HOME:-\"$HOME/.local/share\"}'',
     ''CONFIG_HOME=${XDG_CONFIG_HOME:-\"$HOME/.config\"}'',
     ''BIN_HOME=${XDG_BIN_HOME:-\"$HOME/.local/bin\"}'',
     ''TARGET=\"$DATA_HOME/pam-desktop/apps/@APP_ID@\"'',
     ''LINK=\"$BIN_HOME/@EXECUTABLE@\"'',
     ''if [ -L \"$LINK\" ] && [ \"$(readlink \"$LINK\")\" = \"$TARGET/bin/@EXECUTABLE@\" ]; then'',
     ''    rm -f \"$LINK\"'',
     ''fi'',
     ''rm -f \"$DATA_HOME/applications/@APP_ID@.desktop\"'',
     ''rm -f \"$CONFIG_HOME/autostart/@APP_ID@.desktop\"'',
     ''rm -f \"$DATA_HOME/icons/hicolor/@ICON_THEME@/apps/@APP_ID@.@ICON_EXTENSION@\"'',
     ''rm -rf \"$TARGET\"'',
     ''if command -v update-desktop-database >/dev/null 2>&1; then'',
     ''    update-desktop-database \"$DATA_HOME/applications\" >/dev/null 2>&1 || true'',
     ''fi'',
     ''printf 'Removed @APP_ID@.'' @ [backslash] @ ''n'' @ [apostrophe]]"

definition php_ini :: string where
  "php_ini = unlines [''expose_php=Off'', ''display_errors=Off'', ''log_errors=On'', ''memory_limit=512M'']"

text \<open>The extension of the icon and its theme directory.\<close>

definition icon_extension :: "string \<Rightarrow> string + string" where
  "icon_extension icon =
     (case path_extension icon of
        None \<Rightarrow> Inl ''application icon has no extension''
      | Some extension \<Rightarrow> Inr (to_ascii_lowercase extension))"

definition icon_theme :: "string \<Rightarrow> string" where
  "icon_theme extension = (if extension = ''svg'' then ''scalable'' else ''512x512'')"

definition bundle_icon_path :: "ApplicationManifest \<Rightarrow> string \<Rightarrow> string + string list" where
  "bundle_icon_path m icon =
     rbind (icon_extension icon) (\<lambda>extension.
       Inr [''share'', ''icons'', ''hicolor'', icon_theme extension, ''apps'', am_identifier m @ ''.'' @ extension])"

definition install_script :: "ApplicationManifest \<Rightarrow> string \<Rightarrow> string + string" where
  "install_script m icon =
     rbind (icon_extension icon) (\<lambda>extension.
       Inr (replace_all ''@AUTOSTART@'' (if lc_autostart (am_lifecycle m) then ''1'' else ''0'')
         (replace_all ''@ICON_EXTENSION@'' extension
           (replace_all ''@ICON_THEME@'' (icon_theme extension)
             (replace_all ''@EXECUTABLE@'' (executable_name m)
               (replace_all ''@APP_ID@'' (am_identifier m) PORTABLE_INSTALLER))))))"

definition uninstall_script :: "ApplicationManifest \<Rightarrow> string \<Rightarrow> string + string" where
  "uninstall_script m icon =
     rbind (icon_extension icon) (\<lambda>extension.
       Inr (replace_all ''@ICON_EXTENSION@'' extension
         (replace_all ''@ICON_THEME@'' (icon_theme extension)
           (replace_all ''@EXECUTABLE@'' (executable_name m)
             (replace_all ''@APP_ID@'' (am_identifier m) PORTABLE_UNINSTALLER)))))"

section \<open>Runtime libraries\<close>

record tool_output =
  to_success :: bool
  to_stdout :: string
  to_stderr :: string

fun split_once_at :: "string \<Rightarrow> string \<Rightarrow> (string \<times> string) option" where
  "split_once_at pattern [] = None"
| "split_once_at pattern (c # cs) =
     (if starts_with pattern (c # cs) then Some ([], drop (length pattern) (c # cs))
      else map_option (\<lambda>(before, rest). (c # before, rest)) (split_once_at pattern cs))"

definition system_abi_library :: "string \<Rightarrow> bool" where
  "system_abi_library name =
     list_ex (\<lambda>prefix. starts_with prefix name)
       [''ld-linux'', ''libc.so'', ''libdl.so'', ''libm.so'', ''libpthread.so'', ''libresolv.so'', ''librt.so'',
        ''libutil.so'', ''libnss_'']"

definition library_candidate :: "string \<Rightarrow> string option" where
  "library_candidate line =
     (case split_once_at ''=>'' line of
        Some (_, resolved) \<Rightarrow> (case split_whitespace resolved of [] \<Rightarrow> None | path # _ \<Rightarrow> Some path)
      | None \<Rightarrow> find (starts_with ''/'') (split_whitespace line))"

fun resolved_libraries :: "(string \<Rightarrow> bool) \<Rightarrow> string list \<Rightarrow> string + string list" where
  "resolved_libraries is_file [] = Inr []"
| "resolved_libraries is_file (line # rest) =
     (if contains_str ''not found'' line then Inl ''a runtime dependency is missing''
      else rbind (resolved_libraries is_file rest) (\<lambda>others.
        Inr ((case library_candidate line of
            None \<Rightarrow> []
          | Some path \<Rightarrow>
              (case path_file_name path of
                 None \<Rightarrow> []
               | Some name \<Rightarrow> if is_file path \<and> \<not> system_abi_library name then [path] else [])) @ others)))"

definition runtime_libraries :: "(string \<Rightarrow> bool) \<Rightarrow> tool_output option \<Rightarrow> string + string list" where
  "runtime_libraries is_file ldd =
     (case ldd of
        None \<Rightarrow> Inl ''cannot inspect the binary with ldd''
      | Some out \<Rightarrow>
          let diagnostics = to_stdout out @ [newline] @ to_stderr out in
          if \<not> to_success out \<and> (contains_str ''not a dynamic executable'' diagnostics \<or>
              contains_str ''statically linked'' diagnostics) then Inr []
          else if \<not> to_success out then Inl ''ldd failed''
          else resolved_libraries is_file (str_lines (to_stdout out)))"

text \<open>The map of the libraries by file name, over all binaries.\<close>

fun collect_libraries :: "(string \<times> string) list \<Rightarrow> string list \<Rightarrow> string + (string \<times> string) list" where
  "collect_libraries found [] = Inr found"
| "collect_libraries found (library # rest) =
     (case path_file_name library of
        None \<Rightarrow> Inl ''runtime library has no filename''
      | Some name \<Rightarrow>
          (case map_of found name of
             Some existing \<Rightarrow>
               if existing \<noteq> library then Inl ''runtime library name conflict''
               else collect_libraries found rest
           | None \<Rightarrow> collect_libraries ((name, library) # found) rest))"

fun binary_libraries ::
    "(string \<Rightarrow> bool) \<Rightarrow> (string \<Rightarrow> tool_output option) \<Rightarrow> (string \<times> string) list \<Rightarrow> string list \<Rightarrow>
     string + (string \<times> string) list" where
  "binary_libraries is_file ldd found [] = Inr found"
| "binary_libraries is_file ldd found (binary # rest) =
     rbind (runtime_libraries is_file (ldd binary)) (\<lambda>libraries.
     rbind (collect_libraries found libraries) (\<lambda>found. binary_libraries is_file ldd found rest))"

text \<open>On Windows and macOS: the libraries beside the binaries, the first of a name.\<close>

fun adjacent_libraries ::
    "string \<Rightarrow> (string \<Rightarrow> string list option) \<Rightarrow> (string \<times> string) list \<Rightarrow> string list \<Rightarrow>
     string + (string \<times> string) list" where
  "adjacent_libraries extension entries found [] = Inr found"
| "adjacent_libraries extension entries found (binary # rest) =
     (case path_parent binary of
        None \<Rightarrow> adjacent_libraries extension entries found rest
      | Some parent \<Rightarrow>
          (case entries parent of
             None \<Rightarrow> Inl ''cannot inspect runtime directory''
           | Some names \<Rightarrow>
               adjacent_libraries extension entries
                 (found @ map (\<lambda>name. (name, path_join parent name))
                   (filter (\<lambda>name. path_extension name = Some extension \<and> name \<notin> fst ` set found) names)) rest))"

text \<open>The bundled libraries have distinct names, and none belongs to the ABI of the system.\<close>

lemma resolved_libraries_bundled:
  "resolved_libraries is_file ls = Inr paths \<Longrightarrow>
     list_all (\<lambda>path. is_file path \<and> (\<exists>name. path_file_name path = Some name \<and> \<not> system_abi_library name)) paths"
  by (induction ls arbitrary: paths) (auto simp: rbind_Inr_iff split: if_splits option.splits)

lemma collect_libraries_kept:
  "collect_libraries found ls = Inr result \<Longrightarrow> distinct (map fst found) \<Longrightarrow>
     distinct (map fst result) \<and> set result \<subseteq> set found \<union> (\<lambda>l. (the (path_file_name l), l)) ` set ls \<and>
     (\<lambda>l. (the (path_file_name l), l)) ` set ls \<subseteq> set result \<and> set found \<subseteq> set result"
proof (induction found ls rule: collect_libraries.induct)
  case (2 found library rest)
  then obtain name where name: "path_file_name library = Some name" by (auto split: option.splits)
  show ?case
  proof (cases "map_of found name")
    case None
    with 2 name have "collect_libraries ((name, library) # found) rest = Inr result" by simp
    moreover have "distinct (map fst ((name, library) # found))"
      using None "2.prems"(2) by (simp add: map_of_eq_None_iff)
    ultimately have "distinct (map fst result) \<and>
        set result \<subseteq> set ((name, library) # found) \<union> (\<lambda>l. (the (path_file_name l), l)) ` set rest \<and>
        (\<lambda>l. (the (path_file_name l), l)) ` set rest \<subseteq> set result \<and> set ((name, library) # found) \<subseteq> set result"
      using "2.IH"(1) [OF name None] by blast
    then show ?thesis using name by auto
  next
    case (Some existing)
    with 2 name have same: "existing = library" "collect_libraries found rest = Inr result"
      by (auto split: if_splits)
    have "(name, library) \<in> set found" using Some same(1) by (auto dest: map_of_SomeD)
    with "2.IH"(2) [OF name Some _ same(2) "2.prems"(2)] same(1) name show ?thesis by auto
  qed
qed simp

section \<open>The bundle\<close>

text \<open>
  Writing a file below a bundle: missing directories above it are made first, a directory in its place
  is an error.
\<close>

fun put_entry :: "string list \<Rightarrow> entry \<Rightarrow> (string \<times> entry) list \<Rightarrow> string + (string \<times> entry) list" where
  "put_entry [] e es = Inl ''cannot write''"
| "put_entry [n] e es =
     (case map_of es n of
        Some (Directory _) \<Rightarrow> Inl ''cannot write''
      | _ \<Rightarrow> Inr (AList.update n e es))"
| "put_entry (n # m # path) e es =
     (case map_of es n of
        None \<Rightarrow> rbind (put_entry (m # path) e []) (\<lambda>below. Inr (AList.update n (Directory below) es))
      | Some (Directory ds) \<Rightarrow>
          rbind (put_entry (m # path) e ds) (\<lambda>below. Inr (AList.update n (Directory below) es))
      | Some _ \<Rightarrow> Inl ''cannot create directory'')"

record build_env =
  be_tree :: source_tree
  be_codec :: composer_codec
  be_is_file :: "string \<Rightarrow> bool"
  be_ldd :: "string \<Rightarrow> tool_output option"
  be_beside :: "string \<Rightarrow> string list option"
  be_sign :: "string \<Rightarrow> string \<Rightarrow> string + string"

text \<open>The binaries of a build, by their resolved paths.\<close>

record binaries =
  bb_host :: string
  bb_pam :: string
  bb_launcher :: "string option"

definition exe_suffix :: "packager \<Rightarrow> string" where
  "exe_suffix k = (if pk_os k = ''windows'' then ''.exe'' else [])"

definition normal_names :: "string \<Rightarrow> string list" where
  "normal_names path = List.map_filter (\<lambda>c. case c of Normal n \<Rightarrow> Some n | _ \<Rightarrow> None) (path_components path)"

definition holds_file :: "(string \<times> entry) list \<Rightarrow> string \<Rightarrow> bool" where
  "holds_file es path = (case entry_at (Directory es) (normal_names path) of Some (Regular _) \<Rightarrow> True | _ \<Rightarrow> False)"

definition plugin_bundled :: "packager \<Rightarrow> (string \<times> entry) list \<Rightarrow> RustPluginConfig \<Rightarrow> bool" where
  "plugin_bundled k app plugin \<longleftrightarrow>
     holds_file app (rp_executable plugin) \<or>
     exe_suffix k \<noteq> [] \<and> holds_file app (rp_executable plugin @ exe_suffix k)"

definition plugins_bundled :: "packager \<Rightarrow> (string \<times> entry) list \<Rightarrow> RustPluginConfig list \<Rightarrow> string + unit" where
  "plugins_bundled k app plugins =
     (if list_ex (\<lambda>plugin. \<not> plugin_bundled k app plugin) plugins
      then Inl ''Rust plugin was excluded from the application bundle'' else Inr ())"

definition copy_binary ::
    "build_env \<Rightarrow> string \<Rightarrow> string list \<Rightarrow> (string \<times> entry) list \<Rightarrow> string + (string \<times> entry) list" where
  "copy_binary e source destination es =
     rbind (copied_file (be_tree e) source) (\<lambda>file. put_entry destination file es)"

fun copy_libraries ::
    "build_env \<Rightarrow> (string \<times> string) list \<Rightarrow> (string \<times> entry) list \<Rightarrow> string + (string \<times> entry) list" where
  "copy_libraries e [] es = Inr es"
| "copy_libraries e ((name, source) # rest) es =
     rbind (copy_binary e source [''lib'', name] es) (copy_libraries e rest)"

text \<open>What the platform needs: the libraries and the program that starts the bundle.\<close>

definition copy_runtime ::
    "packager \<Rightarrow> build_env \<Rightarrow> binaries \<Rightarrow> ApplicationManifest \<Rightarrow> (string \<times> entry) list \<Rightarrow>
     string + (string \<times> entry) list" where
  "copy_runtime k e b m es =
     (if pk_os k = ''linux''
      then rbind (binary_libraries (be_is_file e) (be_ldd e) [] [bb_host b, bb_pam b]) (\<lambda>libraries.
           rbind (copy_libraries e libraries es) (\<lambda>es.
             put_entry [''bin'', executable_name m] (Regular launcher_script) es))
      else let extension = (if pk_os k = ''windows'' then ''dll'' else ''dylib'') in
           rbind (adjacent_libraries extension (be_beside e) [] [bb_host b, bb_pam b]) (\<lambda>libraries.
           rbind (copy_libraries e libraries es) (\<lambda>es.
           case bb_launcher b of
             None \<Rightarrow> Inl ''the Pam Desktop native launcher is required on Windows and macOS''
           | Some launcher \<Rightarrow>
               rbind (copy_binary e launcher [''bin'', executable_name m @ exe_suffix k] es) (\<lambda>es.
               rbind (adjacent_libraries extension (be_beside e) [] [launcher]) (\<lambda>libraries.
                 copy_libraries e libraries es)))))"

text \<open>The desktop entry template and the scripts of a portable bundle.\<close>

definition portable_files ::
    "Bootstrap \<Rightarrow> string \<Rightarrow> (string \<times> entry) list \<Rightarrow> string + (string \<times> entry) list" where
  "portable_files b icon es =
     (let m = bs_manifest b in
      rbind (put_entry [''share'', ''applications'', am_identifier m @ ''.desktop.in'']
        (Regular (desktop_entry m (sc_quick_actions (bs_shell b)) ''@PAM_EXEC@'')) es) (\<lambda>es.
      rbind (install_script m icon) (\<lambda>install.
      rbind (put_entry [''install.sh''] (Regular install) es) (\<lambda>es.
      rbind (uninstall_script m icon) (\<lambda>uninstall.
        put_entry [''uninstall.sh''] (Regular uninstall) es)))))"

text \<open>Signing rewrites files of \<open>bin\<close> and \<open>lib\<close>: the Windows executables and libraries, or all of them.\<close>

fun sign_entries ::
    "(string \<Rightarrow> bool) \<Rightarrow> (string \<Rightarrow> string \<Rightarrow> string + string) \<Rightarrow> (string \<times> entry) list \<Rightarrow>
     string + (string \<times> entry) list" where
  "sign_entries signable sign [] = Inr []"
| "sign_entries signable sign ((n, Regular content) # rest) =
     rbind (if signable n then sign n content else Inr content) (\<lambda>signed.
     rbind (sign_entries signable sign rest) (\<lambda>others. Inr ((n, Regular signed) # others)))"
| "sign_entries signable sign (x # rest) =
     rbind (sign_entries signable sign rest) (\<lambda>others. Inr (x # others))"

definition sign_directory ::
    "(string \<Rightarrow> bool) \<Rightarrow> (string \<Rightarrow> string \<Rightarrow> string + string) \<Rightarrow> string \<Rightarrow> (string \<times> entry) list \<Rightarrow>
     string + (string \<times> entry) list" where
  "sign_directory signable sign name es =
     (case map_of es name of
        Some (Directory ds) \<Rightarrow>
          rbind (sign_entries signable sign ds) (\<lambda>signed. Inr (AList.update name (Directory signed) es))
      | _ \<Rightarrow> Inl ''cannot inspect signable files'')"

definition sign_bundle :: "packager \<Rightarrow> build_env \<Rightarrow> (string \<times> entry) list \<Rightarrow> string + (string \<times> entry) list" where
  "sign_bundle k e es =
     (let signable = (\<lambda>name. if pk_os k = ''windows''
            then path_extension name \<in> {Some ''exe'', Some ''dll''} else True) in
      if pk_os k \<in> {''windows'', ''macos''}
      then rbind (sign_directory signable (be_sign e) ''bin'' es) (sign_directory signable (be_sign e) ''lib'')
      else Inr es)"

definition materialize_bundle ::
    "packager \<Rightarrow> build_env \<Rightarrow> binaries \<Rightarrow> Bootstrap \<Rightarrow> CopyContext \<Rightarrow> string \<Rightarrow> bool \<Rightarrow>
     string + (string \<times> entry) list" where
  "materialize_bundle k e b bootstrap c icon sign =
     (let m = bs_manifest bootstrap in
      rbind (copy_project (be_tree e) c) (\<lambda>copied.
      rbind (sanitize_composer_metadata (be_codec e) copied) (\<lambda>app.
      rbind (plugins_bundled k app (bs_rust_plugins bootstrap)) (\<lambda>_.
      rbind (copy_binary e (bb_host b) [''bin'', ''pam-desktop'' @ exe_suffix k]
        [(''app'', Directory app), (''bin'', Directory []), (''lib'', Directory []), (''etc'', Directory []),
         (''share'', Directory [(''applications'', Directory [])])]) (\<lambda>es.
      rbind (copy_binary e (bb_pam b) [''bin'', ''pam'' @ exe_suffix k] es) (\<lambda>es.
      rbind (copy_runtime k e b m es) (\<lambda>es.
      rbind (put_entry [''etc'', ''php.ini''] (Regular php_ini) es) (\<lambda>es.
      rbind (bundle_icon_path m icon) (\<lambda>icon_path.
      rbind (copied_file (be_tree e) icon) (\<lambda>icon_file.
      rbind (put_entry icon_path icon_file es) (\<lambda>es.
      rbind (if pk_os k = ''linux'' then portable_files bootstrap icon es else Inr es) (\<lambda>es.
      rbind (if sign then sign_bundle k e es else Inr es) (\<lambda>es.
      rbind (write_bundle_manifest k bootstrap es) (\<lambda>es.
      rbind (normalize_permissions [] es) (\<lambda>_. Inr es)))))))))))))))"

section \<open>The manifest comes last\<close>

definition roots :: "(string \<times> entry) list \<Rightarrow> string set" where
  "roots es = fst ` set es"

lemma roots_update: "roots (AList.update n e es) = insert n (roots es)"
  by (simp add: roots_def dom_update)

lemma put_entry_roots: "put_entry p e es = Inr es' \<Longrightarrow> roots es' = insert (hd p) (roots es)"
  by (induction p e es arbitrary: es' rule: put_entry.induct)
    (auto simp: rbind_Inr_iff roots_update split: option.splits entry.splits)

definition bundle_roots :: "string set" where
  "bundle_roots = {''app'', ''bin'', ''lib'', ''etc'', ''share'', ''install.sh'', ''uninstall.sh''}"

definition rooted :: "(string \<times> entry) list \<Rightarrow> bool" where
  "rooted es \<longleftrightarrow> roots es \<subseteq> bundle_roots"

lemma root_names: "''bin'' \<in> bundle_roots" "''lib'' \<in> bundle_roots" "''etc'' \<in> bundle_roots"
  "''share'' \<in> bundle_roots" "''install.sh'' \<in> bundle_roots" "''uninstall.sh'' \<in> bundle_roots"
  by (simp_all add: bundle_roots_def)

lemma put_entry_rooted: "put_entry p x es = Inr es' \<Longrightarrow> hd p \<in> bundle_roots \<Longrightarrow> rooted es \<Longrightarrow> rooted es'"
  by (simp add: rooted_def put_entry_roots)

lemma copy_binary_rooted:
  assumes "copy_binary e source p es = Inr es'" "hd p \<in> bundle_roots" "rooted es"
  shows "rooted es'"
proof -
  obtain content where "put_entry p content es = Inr es'"
    using assms(1) by (auto simp: copy_binary_def rbind_Inr_iff simp del: put_entry.simps)
  then show ?thesis using assms(2,3) by (rule put_entry_rooted)
qed

lemma copy_libraries_rooted: "copy_libraries e libraries es = Inr es' \<Longrightarrow> rooted es \<Longrightarrow> rooted es'"
proof (induction e libraries es arbitrary: es' rule: copy_libraries.induct)
  case (2 e name source rest es)
  then obtain es1 where parts: "copy_binary e source [''lib'', name] es = Inr es1" "copy_libraries e rest es1 = Inr es'"
    by (auto simp: rbind_Inr_iff)
  have "rooted es1"
    using copy_binary_rooted [OF parts(1) _ "2.prems"(2)] by (simp add: root_names)
  then show ?case using "2.IH" [OF parts(2)] by blast
qed simp

lemma copy_runtime_rooted:
  assumes "copy_runtime k e b m es = Inr es'" "rooted es"
  shows "rooted es'"
proof (cases "pk_os k = ''linux''")
  case True
  then obtain libraries es1 where "copy_libraries e libraries es = Inr es1"
    "put_entry [''bin'', executable_name m] (Regular launcher_script) es1 = Inr es'"
    using assms(1) by (auto simp: copy_runtime_def rbind_Inr_iff
        simp del: put_entry.simps binary_libraries.simps copy_libraries.simps)
  then show ?thesis
    using copy_libraries_rooted put_entry_rooted assms(2) by (metis list.sel(1) root_names(1))
next
  case False
  then obtain libraries es1 launcher es2 libraries' where "copy_libraries e libraries es = Inr es1"
    "copy_binary e launcher [''bin'', executable_name m @ exe_suffix k] es1 = Inr es2"
    "copy_libraries e libraries' es2 = Inr es'"
    using assms(1) by (auto simp: copy_runtime_def rbind_Inr_iff Let_def
        simp del: adjacent_libraries.simps copy_libraries.simps split: option.splits)
  then show ?thesis
    using copy_libraries_rooted copy_binary_rooted assms(2) by (metis list.sel(1) root_names(1))
qed

lemma portable_files_rooted:
  assumes "portable_files b icon es = Inr es'" "rooted es"
  shows "rooted es'"
proof -
  obtain template es1 install es2 uninstall where
    "put_entry [''share'', ''applications'', am_identifier (bs_manifest b) @ ''.desktop.in''] template es = Inr es1"
    "put_entry [''install.sh''] install es1 = Inr es2" "put_entry [''uninstall.sh''] uninstall es2 = Inr es'"
    using assms(1) unfolding portable_files_def Let_def rbind_Inr_iff by blast
  then show ?thesis
    using put_entry_rooted assms(2) by (metis list.sel(1) root_names(4,5,6))
qed

lemma sign_directory_rooted:
  "sign_directory signable sign name es = Inr es' \<Longrightarrow> name \<in> bundle_roots \<Longrightarrow> rooted es \<Longrightarrow> rooted es'"
  unfolding sign_directory_def rooted_def rbind_Inr_iff
  by (auto simp: rbind_Inr_iff roots_update split: option.splits entry.splits)

lemma sign_bundle_rooted:
  assumes "sign_bundle k e es = Inr es'" "rooted es"
  shows "rooted es'"
proof (cases "pk_os k \<in> {''windows'', ''macos''}")
  case True
  then obtain signable es1 where "sign_directory signable (be_sign e) ''bin'' es = Inr es1"
    "sign_directory signable (be_sign e) ''lib'' es1 = Inr es'"
    using assms(1) by (auto simp: sign_bundle_def Let_def rbind_Inr_iff)
  then show ?thesis
    using sign_directory_rooted assms(2) root_names(1,2) by blast
qed (use assms in \<open>auto simp: sign_bundle_def Let_def\<close>)

lemma materialize_bundle_written:
  assumes "materialize_bundle k e b bootstrap c icon sign = Inr es"
  shows "\<exists>before. write_bundle_manifest k bootstrap before = Inr es \<and> ''manifest.json'' \<notin> fst ` set before"
proof -
  obtain app es1 es2 es3 es4 icon_path icon_file es5 es6 es7 where steps:
    "copy_binary e (bb_host b) [''bin'', ''pam-desktop'' @ exe_suffix k]
        [(''app'', Directory app), (''bin'', Directory []), (''lib'', Directory []), (''etc'', Directory []),
         (''share'', Directory [(''applications'', Directory [])])] = Inr es1"
    "copy_binary e (bb_pam b) [''bin'', ''pam'' @ exe_suffix k] es1 = Inr es2"
    "copy_runtime k e b (bs_manifest bootstrap) es2 = Inr es3"
    "put_entry [''etc'', ''php.ini''] (Regular php_ini) es3 = Inr es4"
    "bundle_icon_path (bs_manifest bootstrap) icon = Inr icon_path"
    "put_entry icon_path icon_file es4 = Inr es5"
    "(if pk_os k = ''linux'' then portable_files bootstrap icon es5 else Inr es5) = Inr es6"
    "(if sign then sign_bundle k e es6 else Inr es6) = Inr es7"
    "write_bundle_manifest k bootstrap es7 = Inr es"
    using assms unfolding materialize_bundle_def Let_def rbind_Inr_iff by blast
  have "rooted es1"
    by (rule copy_binary_rooted [OF steps(1)]) (simp_all add: bundle_roots_def rooted_def roots_def)
  then have "rooted es2"
    using copy_binary_rooted [OF steps(2)] by (simp add: root_names)
  then have "rooted es3"
    by (rule copy_runtime_rooted [OF steps(3)])
  then have "rooted es4"
    using put_entry_rooted [OF steps(4)] by (simp add: root_names)
  moreover have "hd icon_path = ''share''"
    using steps(5) by (auto simp: bundle_icon_path_def rbind_Inr_iff)
  ultimately have "rooted es5"
    using put_entry_rooted [OF steps(6)] by (simp add: root_names)
  then have "rooted es6"
    using steps(7) portable_files_rooted by (auto split: if_splits)
  then have "rooted es7"
    using steps(8) sign_bundle_rooted by (auto split: if_splits)
  moreover have "''manifest.json'' \<notin> bundle_roots" by (simp add: bundle_roots_def)
  ultimately show ?thesis using steps(9) by (auto simp: rooted_def roots_def)
qed

text \<open>
  C11. What \<open>pam desktop build\<close> materializes, as a tree whose paths are UTF-8 and portable, is accepted by the
  updater, which decodes the manifest that was encoded, exactly when that manifest is within the
  size limit of the updater and the one at the root is the only file called \<open>manifest.json\<close>.  Every
  other file of that name, of the application or of a package in its \<open>vendor\<close> directory, is missing
  in the manifest, and the update of such an application can never be installed.
\<close>
theorem materialized_bundle_verifies:
  assumes built: "materialize_bundle k e b bootstrap c icon sign = Inr es"
    and tree: "portable_tree [] es"
    and codec: "\<And>m encoded. pk_encode k m = Some encoded \<Longrightarrow> bn_decode h encoded = Some (installed_view m)"
    and same_hash: "bn_sha256 h = pk_sha256 k"
    and application: "validate_manifest (bn_parse_url h) (bn_debug h) (bs_manifest bootstrap) = Inr ()"
  shows "\<exists>encoded. map_of es ''manifest.json'' = Some (Regular encoded) \<and>
    (verify_bundle h (Directory es) = Inr () \<longleftrightarrow>
       length encoded \<le> MAX_BUNDLE_MANIFEST_BYTES \<and>
       (\<forall>p content. holds_entry es p (Regular content) \<and> last p = ''manifest.json'' \<longrightarrow> p = [''manifest.json'']))"
proof -
  obtain before where written: "write_bundle_manifest k bootstrap before = Inr es"
    and fresh: "''manifest.json'' \<notin> fst ` set before"
    using materialize_bundle_written [OF built] by blast
  obtain encoded where es: "es = before @ [(''manifest.json'', Regular encoded)]"
    using write_bundle_manifest_Inr [OF written fresh] by blast
  have "map_of before ''manifest.json'' = None"
    using fresh by (simp add: map_of_eq_None_iff)
  then have found: "map_of es ''manifest.json'' = Some (Regular encoded)"
    by (simp add: es map_add_def)
  have "portable_tree [] before"
    using tree by (simp add: es portable_tree_append)
  then have checked: "verify_bundle h (Directory es) = Inr () \<longleftrightarrow>
      (\<forall>p content. holds_entry before p (Regular content) \<longrightarrow> last p \<noteq> ''manifest.json'')"
    if "length encoded \<le> MAX_BUNDLE_MANIFEST_BYTES"
    using codec that found by (intro written_bundle_checked [OF written _ fresh _ same_hash application]) simp_all
  have large: "length encoded \<le> MAX_BUNDLE_MANIFEST_BYTES" if "verify_bundle h (Directory es) = Inr ()"
    using that by (simp add: verify_bundle_def found split: if_splits)
  have entries: "holds_entry es p x \<longleftrightarrow> holds_entry before p x \<or> p = [''manifest.json''] \<and> x = Regular encoded" for p x
    unfolding es by (induction before) (auto simp: holds_entry_Cons holds_entry_Nil)
  have named: "p \<noteq> [''manifest.json'']" if "holds_entry before p x" for p x
    using holds_entry_head [OF that] fresh by (metis list.sel(1))
  have "(\<forall>p content. holds_entry before p (Regular content) \<longrightarrow> last p \<noteq> ''manifest.json'') \<longleftrightarrow>
      (\<forall>p content. holds_entry es p (Regular content) \<and> last p = ''manifest.json'' \<longrightarrow> p = [''manifest.json''])"
    unfolding entries using named by blast
  with checked large found show ?thesis by blast
qed

section \<open>Payloads of the package systems\<close>

definition subtree :: "(string \<times> entry) list \<Rightarrow> string list \<Rightarrow> string + entry" where
  "subtree es path =
     (case entry_at (Directory es) path of
        None \<Rightarrow> Inl ''cannot inspect''
      | Some e \<Rightarrow> rbind (hardlink_or_copy [([], e)]) (\<lambda>copied. Inr (snd (hd copied))))"

definition macos_launcher :: "string \<Rightarrow> string" where
  "macos_launcher executable = unlines [
     ''#!/bin/sh'',
     ''set -eu'',
     ''APP=$(CDPATH= cd -- \"$(dirname -- \"$0\")/../..\" && pwd)'',
     ''ROOT=\"$APP/Contents/Resources/runtime\"'',
     ''export PAM_DESKTOP_UPDATE_ROOT=\"$APP\"'',
     ''exec \"$ROOT/bin/'' @ executable @ ''\" \"$@\"'']"

text \<open>\<open>Foo.app\<close>, before it is signed; \<open>icon\<close> is the path of the icon and \<open>picture\<close> its content.\<close>

definition create_macos_application ::
    "ApplicationManifest \<Rightarrow> ArtifactNames \<Rightarrow> string \<Rightarrow> string \<Rightarrow> (string \<times> entry) list \<Rightarrow>
     string + (string \<times> entry) list" where
  "create_macos_application m names icon picture bundle =
     rbind (hardlink_or_copy bundle) (\<lambda>runtime.
     case path_extension icon of
       None \<Rightarrow> Inl ''macOS application icon has no extension''
     | Some extension \<Rightarrow>
         let icon_name = ''AppIcon.'' @ extension in
         Inr [(''Contents'', Directory [
           (''MacOS'', Directory [(an_executable names, Regular (macos_launcher (an_executable names)))]),
           (''Resources'', Directory [(''runtime'', Directory runtime), (icon_name, Regular picture)]),
           (''Info.plist'', Regular (macos_info_plist m (an_executable names) icon_name))])])"

definition create_windows_root ::
    "ApplicationManifest \<Rightarrow> ArtifactNames \<Rightarrow> string \<Rightarrow> string option \<Rightarrow> (string \<times> entry) list \<Rightarrow>
     (string \<times> entry) list \<Rightarrow> string + (string \<times> entry) list" where
  "create_windows_root m names icon publisher assets bundle =
     (if \<not> (case path_extension icon of None \<Rightarrow> False | Some extension \<Rightarrow> to_ascii_lowercase extension = ''png'')
      then Inl ''MSIX packaging requires a PNG application icon''
      else if length (am_identifier m) > 50
      then Inl ''MSIX application identifiers must contain at most 50 characters''
      else rbind (hardlink_or_copy bundle) (\<lambda>runtime.
        Inr [(''Assets'', Directory assets), (''runtime'', Directory runtime),
          (''AppxManifest.xml'', Regular (windows_appx_manifest m names
            (case publisher of None \<Rightarrow> ''CN=Pam Desktop Development'' | Some p \<Rightarrow> p)))]))"

fun subtrees :: "(string \<times> entry) list \<Rightarrow> string list \<Rightarrow> string + (string \<times> entry) list" where
  "subtrees es [] = Inr []"
| "subtrees es (name # names) =
     rbind (subtree es [name]) (\<lambda>e. rbind (subtrees es names) (\<lambda>others. Inr ((name, e) # others)))"

text \<open>
  The root that is installed by Debian and RPM packages: the application below \<open>/opt\<close>, and below
  \<open>/usr\<close> its desktop entry, its icon and the link to its launcher.
\<close>

definition installed_root ::
    "Bootstrap \<Rightarrow> ArtifactNames \<Rightarrow> string \<Rightarrow> (string \<times> entry) list \<Rightarrow> (string \<times> entry) list \<Rightarrow>
     string + (string \<times> entry) list" where
  "installed_root b names icon bundle application =
     (let m = bs_manifest b; launcher = ''/opt/'' @ am_identifier m @ ''/bin/'' @ an_executable names in
      rbind (put_entry [''usr'', ''share'', ''applications'', am_identifier m @ ''.desktop'']
        (Regular (desktop_entry m (sc_quick_actions (bs_shell b)) launcher))
        [(''opt'', Directory [(am_identifier m, Directory application)])]) (\<lambda>root.
      rbind (bundle_icon_path m icon) (\<lambda>icon_path.
      rbind (subtree bundle icon_path) (\<lambda>picture.
      rbind (put_entry (''usr'' # icon_path) picture root) (\<lambda>root.
        put_entry [''usr'', ''bin'', an_executable names] Symlink root)))))"

definition debian_root ::
    "Bootstrap \<Rightarrow> ArtifactNames \<Rightarrow> string \<Rightarrow> (string \<times> entry) list \<Rightarrow> string + (string \<times> entry) list" where
  "debian_root b names icon bundle =
     rbind (subtrees bundle [''app'', ''bin'', ''lib'', ''etc'', ''manifest.json'']) (\<lambda>application.
     rbind (installed_root b names icon bundle application) (\<lambda>root.
     rbind (directory_bytes root) (\<lambda>bytes.
     rbind (debian_control (bs_manifest b) names bytes) (\<lambda>control.
       put_entry [''DEBIAN'', ''control''] (Regular control) root))))"

definition rpm_payload ::
    "Bootstrap \<Rightarrow> ArtifactNames \<Rightarrow> string \<Rightarrow> (string \<times> entry) list \<Rightarrow> string + (string \<times> entry) list" where
  "rpm_payload b names icon bundle =
     rbind (hardlink_or_copy bundle) (\<lambda>application. installed_root b names icon bundle application)"

definition app_run :: "string \<Rightarrow> string" where
  "app_run executable = unlines [
     ''#!/bin/sh'',
     ''set -eu'',
     ''HERE=$(CDPATH= cd -- \"$(dirname -- \"$0\")\" && pwd)'',
     ''exec \"$HERE/usr/bin/'' @ executable @ ''\" \"$@\"'']"

definition appimage_directory ::
    "Bootstrap \<Rightarrow> ArtifactNames \<Rightarrow> string \<Rightarrow> string \<Rightarrow> (string \<times> entry) list \<Rightarrow> string + (string \<times> entry) list" where
  "appimage_directory b names icon picture bundle =
     (let m = bs_manifest b;
          extension = (case path_extension icon of None \<Rightarrow> ''png'' | Some extension \<Rightarrow> extension) in
      rbind (hardlink_or_copy bundle) (\<lambda>runtime.
      rbind (appimage_architecture (an_architecture names)) (\<lambda>_.
        Inr [(''usr'', Directory [
            (''lib'', Directory [(am_identifier m, Directory runtime)]),
            (''bin'', Directory [(an_executable names, Symlink)])]),
          (am_identifier m @ ''.desktop'',
            Regular (desktop_entry m (sc_quick_actions (bs_shell b)) (an_executable names))),
          (am_identifier m @ ''.'' @ extension, Regular picture),
          (''AppRun.desktop'', Symlink), (''AppRun'', Regular (app_run (an_executable names)))])))"

lemma hardlink_or_copy_same: "hardlink_or_copy es = Inr copied \<Longrightarrow> copied = es"
  by (induction es arbitrary: copied rule: hardlink_or_copy.induct) (auto simp: rbind_Inr_iff)

text \<open>
  A macOS application and the directory of an AppImage hold the bundle itself, file by file, manifest
  included.  In particular the updater accepts the macOS application exactly when its code signature
  is valid and it would accept the bundle.
\<close>
theorem packages_hold_the_bundle:
  assumes "bn_os h = ''macos''" "path_extension name = Some ''app''"
    and "create_macos_application m names icon picture bundle = Inr application"
    and "appimage_directory b names icon picture bundle = Inr appdir"
  shows "(verify_replacement h name (Directory application) = Inr () \<longleftrightarrow>
       bn_codesign h (Directory application) = Some True \<and> verify_bundle h (Directory bundle) = Inr ()) \<and>
     entry_at (Directory appdir) [''usr'', ''lib'', am_identifier (bs_manifest b)] = Some (Directory bundle)"
proof -
  obtain icon_name plist script where application:
    "application = [(''Contents'', Directory [(''MacOS'', Directory [(an_executable names, Regular script)]),
       (''Resources'', Directory [(''runtime'', Directory bundle), (icon_name, Regular picture)]),
       (''Info.plist'', Regular plist)])]"
    using assms(3) by (auto simp: create_macos_application_def rbind_Inr_iff Let_def
        dest!: hardlink_or_copy_same split: option.splits)
  have "entry_at (Directory application) [''Contents'', ''Resources'', ''runtime''] = Some (Directory bundle)"
    by (simp add: application)
  then have "verify_replacement h name (Directory application) = Inr () \<longleftrightarrow>
      bn_codesign h (Directory application) = Some True \<and> verify_bundle h (Directory bundle) = Inr ()"
    using assms(1,2) by (auto simp: verify_replacement_def split: option.splits)
  moreover have "entry_at (Directory appdir) [''usr'', ''lib'', am_identifier (bs_manifest b)] = Some (Directory bundle)"
    using assms(4) by (auto simp: appimage_directory_def rbind_Inr_iff Let_def dest!: hardlink_or_copy_same)
  ultimately show ?thesis by blast
qed

section \<open>Sample\<close>

definition sample_release :: Bootstrap where
  "sample_release = sample_bootstrap\<lparr>bs_rust_plugins := []\<rparr>"

lemma sample_release_fields:
  "bs_manifest sample_release = sample_manifest" "bs_windows sample_release = bs_windows sample_bootstrap"
  "bs_commands sample_release = bs_commands sample_bootstrap"
  "bs_capabilities sample_release = bs_capabilities sample_bootstrap" "bs_shell sample_release = bs_shell sample_bootstrap"
  "bs_background_jobs sample_release = bs_background_jobs sample_bootstrap" "bs_rust_plugins sample_release = []"
  "bs_php_plugins sample_release = bs_php_plugins sample_bootstrap"
  "bs_workstation sample_release = bs_workstation sample_bootstrap"
  "bs_command_timeout_ms sample_release = bs_command_timeout_ms sample_bootstrap"
  "bs_parallel_worker_count sample_release = bs_parallel_worker_count sample_bootstrap"
  by (simp_all add: sample_release_def sample_bootstrap_def)

lemma sample_release_valid: "validate_bootstrap (\<lambda>_. None) False sample_release = Inr ()"
  using sample_bootstrap_valid
  unfolding validate_bootstrap_def sample_release_fields
  by (simp add: rbind_Inr_iff sample_bootstrap_fields(1))

definition sample_packager :: "(BundleManifest \<Rightarrow> string option) \<Rightarrow> packager" where
  "sample_packager encode =
     \<lparr>pk_os = ''macos'', pk_architecture = ''x86_64'', pk_environment = [], pk_desktop_version = ''0.1.0'',
      pk_version = Inl [], pk_epoch = None, pk_sha256 = (\<lambda>s. s), pk_encode = encode\<rparr>"

definition sample_env :: "bool \<Rightarrow> build_env" where
  "sample_env nested =
     \<lparr>be_tree = \<lparr>so_directories = [''/p''], so_canonicalize = Some,
        so_entries = (\<lambda>_. (''composer.json'', Some RegularFile) #
          (if nested then [(''manifest.json'', Some RegularFile)] else [])), so_is_file = (\<lambda>_. True),
        so_read = (\<lambda>_. Some ''1'')\<rparr>,
      be_codec = \<lparr>cc_parse = (\<lambda>_. Some (JObject [])), cc_print = (\<lambda>_. Some ''{}'')\<rparr>,
      be_is_file = (\<lambda>_. True), be_ldd = (\<lambda>_. None), be_beside = (\<lambda>_. Some []),
      be_sign = (\<lambda>_ content. Inr content)\<rparr>"

definition sample_binaries :: binaries where
  "sample_binaries = 
     \<lparr>bb_host = ''/p/resources/a.svg'', bb_pam = ''/p/resources/a.svg'', bb_launcher = Some ''/b/launcher''\<rparr>"

definition sample_context :: CopyContext where
  "sample_context = \<lparr>cx_project_root = ''/p'', cx_build_output = ''/o'', cx_excludes = am_bundle_excludes sample_manifest\<rparr>"

lemma sample_project_copied:
  "copy_project (be_tree (sample_env True)) sample_context =
     Inr [(''composer.json'', Regular ''1''), (''manifest.json'', Regular ''1'')]"
  "copy_project (be_tree (sample_env False)) sample_context = Inr [(''composer.json'', Regular ''1'')]"
  by code_simp+

definition sample_app_files :: "bool \<Rightarrow> (string \<times> entry) list" where
  "sample_app_files nested =
     (''composer.json'', Regular [CHR ''{'', CHR ''}'', CHR 0x0A]) #
     (if nested then [(''manifest.json'', Regular ''1'')] else [])"

lemma sample_app:
  "rbind (copy_project (be_tree (sample_env nested)) sample_context)
     (\<lambda>copied. rbind (sanitize_composer_metadata (be_codec (sample_env nested)) copied) f) = f (sample_app_files nested)"
  using sample_project_copied
  by (cases nested) (simp_all add: sanitize_composer_metadata_def read_json_object_def write_json_object_def
      sample_env_def sanitize_manifest_def sample_app_files_def)

lemma adjacent_none: "adjacent_libraries extension (\<lambda>_. Some []) found bs = Inr found"
  by (induction bs) (auto split: option.splits)

definition sample_bundle_tree :: "bool \<Rightarrow> (string \<times> entry) list" where
  "sample_bundle_tree nested =
     [(''app'', Directory (sample_app_files nested)),
      (''bin'', Directory [(''pam-desktop'', Regular ''1''), (''pam'', Regular ''1''), (''notes'', Regular ''1'')]),
      (''lib'', Directory []), (''etc'', Directory [(''php.ini'', Regular php_ini)]),
      (''share'', Directory [(''applications'', Directory []), (''icons'', Directory [(''hicolor'', Directory
        [(''scalable'', Directory [(''apps'', Directory [(''com.example.notes.svg'', Regular ''1'')])])])])])]"

lemma sample_icon_path: "bundle_icon_path sample_manifest ''/p/resources/a.svg'' =
    Inr [''share'', ''icons'', ''hicolor'', ''scalable'', ''apps'', ''com.example.notes.svg'']"
  "executable_name sample_manifest = ''notes''"
  by code_simp+

lemma sample_tree_portable:
  "portable_tree [] (sample_bundle_tree nested @ [(''manifest.json'', Regular ''{}'')])"
  by (cases nested; simp add: sample_bundle_tree_def sample_app_files_def php_ini_def unlines_def portable_path_def slash_def)
    (auto intro!: ascii_is_utf8 simp: byte_def)

definition sample_packed :: BundleManifest where
  "sample_packed = bundle_manifest (sample_packager (\<lambda>_. None)) sample_manifest 0
     (case packaged_files (\<lambda>s. s) (sample_bundle_tree False) of Inr files \<Rightarrow> files | Inl _ \<Rightarrow> [])"

definition sample_encode :: "BundleManifest \<Rightarrow> string option" where
  "sample_encode m = (if m = sample_packed then Some ''{}'' else None)"

definition sample_verifier :: bundle_host where
  "sample_verifier =
     \<lparr>bn_decode = (\<lambda>_. Some (installed_view sample_packed)), bn_sha256 = (\<lambda>s. s),
      bn_parse_url = (\<lambda>_. None), bn_debug = False, bn_os = ''macos'', bn_codesign = (\<lambda>_. None)\<rparr>"

lemma sample_bundle_written:
  "write_bundle_manifest (sample_packager sample_encode) sample_release (sample_bundle_tree nested) =
     Inr (sample_bundle_tree nested @ [(''manifest.json'', Regular ''{}'')])"
proof -
  have tree: "portable_tree [] (sample_bundle_tree n)" for n
    using sample_tree_portable [of n] by (simp add: portable_tree_append)
  have packed: "packaged_files (\<lambda>s. s) (sample_bundle_tree n) =
      Inr (sort_key pb_path (map (packaged_file (\<lambda>s. s))
        (filter (\<lambda>f. last (fst f) \<noteq> ''manifest.json'') (regular_files [] (sample_bundle_tree n)))))" for n
    using tree by (simp add: packaged_files_def pack_visit_tree)
  have "filter (\<lambda>f. last (fst f) \<noteq> ''manifest.json'') (regular_files [] (sample_bundle_tree nested)) =
      filter (\<lambda>f. last (fst f) \<noteq> ''manifest.json'') (regular_files [] (sample_bundle_tree False))"
    by (simp add: sample_bundle_tree_def sample_app_files_def)
  then have "packaged_files (\<lambda>s. s) (sample_bundle_tree nested) = packaged_files (\<lambda>s. s) (sample_bundle_tree False)"
    by (simp only: packed)
  moreover obtain files where files: "packaged_files (\<lambda>s. s) (sample_bundle_tree False) = Inr files"
    using packed by blast
  moreover have "sample_encode (bundle_manifest (sample_packager sample_encode) sample_manifest 0 files) = Some ''{}''"
    by (simp add: sample_encode_def sample_packed_def files bundle_manifest_def sample_packager_def target_abi_def)
  moreover have "map_of (sample_bundle_tree nested) ''manifest.json'' = None"
    "AList.update ''manifest.json'' e (sample_bundle_tree nested) = sample_bundle_tree nested @ [(''manifest.json'', e)]" for e
    by (simp_all add: sample_bundle_tree_def)
  moreover have "pk_sha256 (sample_packager sample_encode) = (\<lambda>s. s)" "pk_epoch (sample_packager sample_encode) = None"
    "pk_encode (sample_packager sample_encode) = sample_encode"
    by (simp_all add: sample_packager_def)
  ultimately show ?thesis
    by (simp add: write_bundle_manifest_def source_date_epoch_def configured_source_date_epoch_def
        DEFAULT_SOURCE_DATE_EPOCH_def sample_release_fields)
qed

lemma sample_materialized:
  "materialize_bundle (sample_packager sample_encode) (sample_env nested) sample_binaries sample_release sample_context
     ''/p/resources/a.svg'' False = Inr (sample_bundle_tree nested @ [(''manifest.json'', Regular ''{}'')])"
proof -
  have "pk_os (sample_packager sample_encode) = ''macos''" "exe_suffix (sample_packager sample_encode) = []"
    "be_beside (sample_env nested) = (\<lambda>_. Some [])"
    "copied_file (be_tree (sample_env nested)) path = Inr (Regular ''1'')" for path
    by (simp_all add: exe_suffix_def sample_env_def copied_file_def sample_packager_def)
  note simps = this sample_icon_path sample_release_fields adjacent_none
  have "\<exists>modes. normalize_permissions [] (sample_bundle_tree nested @ [(''manifest.json'', Regular ''{}'')]) = Inr modes"
    by (cases nested) (simp_all add: sample_bundle_tree_def sample_app_files_def)
  with sample_bundle_written [of nested] show ?thesis
    by (auto simp: materialize_bundle_def plugins_bundled_def simps copy_binary_def copy_runtime_def sample_binaries_def Let_def
        sample_app sample_bundle_tree_def simp del: normalize_permissions.simps)
qed

theorem materialized_bundle_verifies_witness:
  "verify_bundle sample_verifier (Directory (sample_bundle_tree True @ [(''manifest.json'', Regular ''{}'')])) \<noteq> Inr () \<and>
   verify_bundle sample_verifier (Directory (sample_bundle_tree False @ [(''manifest.json'', Regular ''{}'')])) = Inr ()"
proof -
  have encoded: "sample_encode m = Some e \<Longrightarrow> m = sample_packed \<and> e = ''{}''" for m e
    by (simp add: sample_encode_def split: if_splits)
  let ?tree = "\<lambda>nested. sample_bundle_tree nested @ [(''manifest.json'', Regular ''{}'')]"
  have found: "map_of (?tree nested) ''manifest.json'' = Some (Regular ''{}'')" for nested
    by (simp add: sample_bundle_tree_def)
  have "\<exists>encoded. map_of (?tree nested) ''manifest.json'' = Some (Regular encoded) \<and>
    (verify_bundle sample_verifier (Directory (?tree nested)) = Inr () \<longleftrightarrow>
      length encoded \<le> MAX_BUNDLE_MANIFEST_BYTES \<and>
      (\<forall>p c. holds_entry (?tree nested) p (Regular c) \<and> last p = ''manifest.json'' \<longrightarrow> p = [''manifest.json'']))" for nested
    by (rule materialized_bundle_verifies [OF sample_materialized sample_tree_portable])
      (auto simp: sample_packager_def sample_verifier_def sample_release_fields sample_manifest_valid dest!: encoded)
  then have checked: "verify_bundle sample_verifier (Directory (?tree nested)) = Inr () \<longleftrightarrow>
      (\<forall>p c. holds_entry (?tree nested) p (Regular c) \<and> last p = ''manifest.json'' \<longrightarrow> p = [''manifest.json''])" for nested
    unfolding found by (simp add: MAX_BUNDLE_MANIFEST_BYTES_def)
  have "holds_entry (?tree True) [''app'', ''manifest.json''] (Regular ''1'')"
    by (simp add: sample_bundle_tree_def sample_app_files_def holds_entry_Cons)
  moreover have "holds_entry (?tree False) p (Regular c) \<Longrightarrow> last p = ''manifest.json'' \<Longrightarrow> p = [''manifest.json'']" for p c
    by (auto simp: sample_bundle_tree_def sample_app_files_def holds_entry_Cons holds_entry_Nil)
  ultimately show ?thesis
    unfolding checked by fastforce
qed

definition sample_installed_files :: "(string \<times> entry) list" where
  "sample_installed_files = [(''manifest.json'', Regular ''{}''), (''app'', Regular ''1'')]"

definition sample_mac_verifier :: bundle_host where
  "sample_mac_verifier = (hh_bundle sample_helper)\<lparr>bn_os := ''macos'', bn_codesign := (\<lambda>_. Some True)\<rparr>"

lemma sample_mac_verified: "verify_bundle sample_mac_verifier (Directory sample_installed_files) = Inr ()"
proof -
  have same: "bn_decode sample_mac_verifier = bn_decode (hh_bundle sample_helper)"
    "bn_sha256 sample_mac_verifier = bn_sha256 (hh_bundle sample_helper)"
    "bn_parse_url sample_mac_verifier = bn_parse_url (hh_bundle sample_helper)"
    "bn_debug sample_mac_verifier = bn_debug (hh_bundle sample_helper)"
    by (simp_all add: sample_mac_verifier_def)
  have "verify_bundle sample_mac_verifier root = verify_bundle (hh_bundle sample_helper) root" for root
    by (simp only: verify_bundle_def same)
  then show ?thesis
    using sample_bundle_verified [of "''1''"] by (simp add: sample_bundle_def sample_installed_files_def)
qed

theorem packages_hold_the_bundle_witness:
  "\<exists>application. create_macos_application sample_manifest (sample_names_of ''notes'') ''a.png'' ''1'' sample_installed_files =
       Inr application \<and> verify_replacement sample_mac_verifier ''Notes.app'' (Directory application) = Inr ()"
proof -
  have extension: "path_extension ''a.png'' = Some ''png''" "path_extension ''Notes.app'' = Some ''app''"
    by code_simp+
  obtain application where application:
    "create_macos_application sample_manifest (sample_names_of ''notes'') ''a.png'' ''1'' sample_installed_files = Inr application"
    by (simp add: create_macos_application_def sample_installed_files_def extension Let_def)
  obtain appdir where
    "appimage_directory sample_bootstrap (sample_names_of ''notes'') ''a.png'' ''1'' sample_installed_files = Inr appdir"
    by (simp add: appimage_directory_def sample_installed_files_def appimage_architecture_def sample_names_of_def Let_def)
  moreover have "bn_os sample_mac_verifier = ''macos''" "bn_codesign sample_mac_verifier e = Some True" for e
    by (simp_all add: sample_mac_verifier_def)
  ultimately show ?thesis
    using packages_hold_the_bundle [OF _ extension(2) application] sample_mac_verified application by blast
qed

end
