(* ===== verification/PackagePublish.thy ===== *)
theory PackagePublish
  imports PackageBuild ProjectFiles
begin

text \<open>
  \<open>build_with_binaries\<close> of \<open>packager.rs\<close>: the checks before anything is written, the artifacts staged in a
  workspace of their own, and their publication in the output directory.  The workspace is removed in
  every case, so only the output directory is state.
\<close>

section \<open>The packaging tools\<close>

text \<open>
  \<open>bt_run\<close> is the artifact a tool makes of a payload, signed where that is asked for; \<open>bt_available\<close> is the
  check of a tool with \<open>--version\<close>; \<open>bt_removable\<close> and \<open>bt_renames\<close> say where removing and renaming succeed.
\<close>

record build_tools =
  bt_output :: "string option"
  bt_workspace :: bool
  bt_available :: "string \<Rightarrow> bool"
  bt_assets :: "string + (string \<times> entry) list"
  bt_publisher :: "string option"
  bt_sha256 :: "string \<Rightarrow> u8 list"
  bt_run :: "PackageFormat \<Rightarrow> (string \<times> entry) list \<Rightarrow> string + entry"
  bt_removable :: "string \<Rightarrow> bool"
  bt_renames :: "string \<Rightarrow> bool"

definition require_packaging_tool :: "build_tools \<Rightarrow> string \<Rightarrow> string + unit" where
  "require_packaging_tool t name =
     (if bt_available t name then Inr () else Inl (name @ '' is required''))"

definition create_portable_archive ::
    "packager \<Rightarrow> build_tools \<Rightarrow> ApplicationManifest \<Rightarrow> ArtifactNames \<Rightarrow> string \<Rightarrow> string \<Rightarrow>
     (string \<times> entry) list \<Rightarrow> string + entry" where
  "create_portable_archive k t m names icon picture bundle =
     (if pk_os k = ''linux'' \<or> pk_os k = ''windows''
      then bt_run t Portable [(an_bundle names, Directory bundle)]
      else if pk_os k = ''macos''
      then rbind (create_macos_application m names icon picture bundle) (\<lambda>application.
        bt_run t Portable [(an_executable names @ ''.app'', Directory application)])
      else Inl ''portable archives are unsupported on this platform'')"

definition create_native_package ::
    "packager \<Rightarrow> build_tools \<Rightarrow> ApplicationManifest \<Rightarrow> ArtifactNames \<Rightarrow> string \<Rightarrow> string \<Rightarrow>
     (string \<times> entry) list \<Rightarrow> string + entry" where
  "create_native_package k t m names icon picture bundle =
     (if pk_os k = ''macos''
      then rbind (create_macos_application m names icon picture bundle) (\<lambda>application.
        bt_run t Native [(an_executable names @ ''.app'', Directory application)])
      else if pk_os k = ''windows''
      then rbind (create_windows_root m names icon (bt_publisher t)
          (case bt_assets t of Inl _ \<Rightarrow> [] | Inr assets \<Rightarrow> assets) bundle) (\<lambda>root.
        rbind (bt_assets t) (\<lambda>_. bt_run t Native root))
      else Inl ''native packages are only available on macOS and Windows'')"

fun stage_format ::
    "packager \<Rightarrow> build_tools \<Rightarrow> Bootstrap \<Rightarrow> ArtifactNames \<Rightarrow> string \<Rightarrow> string \<Rightarrow>
     (string \<times> entry) list \<Rightarrow> PackageFormat \<Rightarrow> string + entry" where
  "stage_format k t b names icon picture bundle DirectoryBundle = Inr (Directory bundle)"
| "stage_format k t b names icon picture bundle Portable =
     create_portable_archive k t (bs_manifest b) names icon picture bundle"
| "stage_format k t b names icon picture bundle Debian =
     rbind (debian_root b names icon bundle) (bt_run t Debian)"
| "stage_format k t b names icon picture bundle Native =
     create_native_package k t (bs_manifest b) names icon picture bundle"
| "stage_format k t b names icon picture bundle AppImage =
     rbind (require_packaging_tool t ''appimagetool'') (\<lambda>_.
     rbind (appimage_directory b names icon picture bundle) (bt_run t AppImage))"
| "stage_format k t b names icon picture bundle Rpm =
     rbind (require_packaging_tool t ''rpmbuild'') (\<lambda>_.
     rbind (rpm_payload b names icon bundle) (\<lambda>payload.
     rbind (rpm_spec (bs_manifest b) names ''rpm-payload'') (\<lambda>spec.
       bt_run t Rpm [(''rpm-payload'', Directory payload), (an_executable names @ ''.spec'', Regular spec)])))"
| "stage_format k t b names icon picture bundle Pkg =
     rbind (require_packaging_tool t ''pkgbuild'') (\<lambda>_.
     rbind (create_macos_application (bs_manifest b) names icon picture bundle) (\<lambda>application.
       bt_run t Pkg [(''Applications'', Directory [(an_executable names @ ''.app'', Directory application)])]))"
| "stage_format k t b names icon picture bundle Msi =
     rbind (require_packaging_tool t ''wix'') (\<lambda>_.
     rbind (windows_wix_architecture (an_architecture names)) (\<lambda>_.
       bt_run t Msi [(an_bundle names, Directory bundle), (''pam-desktop.wxs'',
         Regular (windows_wix_source (bt_sha256 t) (an_bundle names) (bs_manifest b) names))]))"

definition staging_order :: "PackageFormat list" where
  "staging_order = [Portable, Debian, Native, AppImage, Rpm, Pkg, Msi, DirectoryBundle]"

fun stage_artifacts ::
    "(PackageFormat \<Rightarrow> string + entry) \<Rightarrow> (PackageFormat \<Rightarrow> string option) \<Rightarrow> PackageFormat list \<Rightarrow>
     string + (entry \<times> string option) list" where
  "stage_artifacts stage destination [] = Inr []"
| "stage_artifacts stage destination (format # rest) =
     rbind (stage format) (\<lambda>artifact.
     rbind (stage_artifacts stage destination rest) (\<lambda>others. Inr ((artifact, destination format) # others)))"

section \<open>The output directory\<close>

text \<open>
  What the paths lead to, links followed, as \<open>Path::exists\<close> sees it: a path is \<open>None\<close> if nothing is there
  or if it is a dangling link.  So a dangling link does not stop a build without \<open>--force\<close>, is not
  removed with it, and is replaced by the artifact that is renamed to its path.
\<close>

type_synonym outputs = "string \<Rightarrow> entry option"

definition ensure_available :: "outputs \<Rightarrow> string list \<Rightarrow> bool \<Rightarrow> string + unit" where
  "ensure_available out paths force =
     (if force then Inr ()
      else if list_ex (\<lambda>p. out p \<noteq> None) paths then Inl ''artifact already exists''
      else Inr ())"

fun remove_paths :: "(string \<Rightarrow> bool) \<Rightarrow> string list \<Rightarrow> outputs \<Rightarrow> outputs \<times> (string + unit)" where
  "remove_paths removable [] out = (out, Inr ())"
| "remove_paths removable (p # paths) out =
     (if out p = None then remove_paths removable paths out
      else if removable p then remove_paths removable paths (out(p := None))
      else (out, Inl ''cannot replace''))"

definition remove_existing :: "(string \<Rightarrow> bool) \<Rightarrow> string list \<Rightarrow> bool \<Rightarrow> outputs \<Rightarrow> outputs \<times> (string + unit)" where
  "remove_existing removable paths force out =
     (if \<not> force then (out, Inr ()) else remove_paths removable paths out)"

fun publish_built ::
    "(string \<Rightarrow> bool) \<Rightarrow> (entry \<times> string option) list \<Rightarrow> outputs \<Rightarrow> outputs \<times> (string + string list)" where
  "publish_built renames [] out = (out, Inr [])"
| "publish_built renames ((artifact, None) # rest) out = (out, Inl ''internal package destination is missing'')"
| "publish_built renames ((artifact, Some p) # rest) out =
     (if \<not> renames p then (out, Inl ''cannot publish artifact'')
      else case publish_built renames rest (out(p := Some artifact)) of
        (out, Inl e) \<Rightarrow> (out, Inl e)
      | (out, Inr paths) \<Rightarrow> (out, Inr (p # paths)))"

definition validated_binary :: "filesystem \<Rightarrow> string \<Rightarrow> string \<Rightarrow> string + string" where
  "validated_binary fs path label =
     (case fs_canonicalize fs path of
        None \<Rightarrow> Inl (''cannot resolve '' @ label)
      | Some resolved \<Rightarrow> if fs_is_file fs resolved then Inr resolved else Inl (label @ '' is not a file''))"

text \<open>Everything before the output directory is touched: the staged artifacts and their destinations.\<close>

record build_inputs =
  bi_packager :: packager
  bi_files :: filesystem
  bi_env :: build_env
  bi_tools :: build_tools
  bi_parse_url :: url_parser
  bi_debug :: bool
  bi_project :: Project
  bi_host :: string
  bi_pam :: string
  bi_launcher :: "string option"

definition icon_content :: "filesystem \<Rightarrow> string \<Rightarrow> string" where
  "icon_content fs icon = (case fs_read fs icon of None \<Rightarrow> [] | Some content \<Rightarrow> content)"

definition staged_build ::
    "build_inputs \<Rightarrow> Bootstrap \<Rightarrow> BuildOptions \<Rightarrow> outputs \<Rightarrow>
     string + (entry \<times> string option) list \<times> string list" where
  "staged_build i b options out =
     (let k = bi_packager i; fs = bi_files i; t = bi_tools i; m = bs_manifest b in
      rbind (validate_platform_formats (pk_os k) options) (\<lambda>_.
      case validate_bootstrap (bi_parse_url i) (bi_debug i) b of
        Inl _ \<Rightarrow> Inl ''invalid bootstrap''
      | Inr _ \<Rightarrow>
      rbind (resolve_icon fs (bi_project i) (am_icon m)) (\<lambda>icon.
      rbind (validated_binary fs (bi_host i) ''Pam Desktop host'') (\<lambda>host.
      rbind (validated_binary fs (bi_pam i) ''Pam worker'') (\<lambda>pam.
      case bt_output t of
        None \<Rightarrow> Inl ''cannot create output directory''
      | Some output \<Rightarrow>
      rbind (artifact_names k m) (\<lambda>names.
      let paths = destination_paths output names (bo_formats options) in
      rbind (ensure_available out paths (bo_force options)) (\<lambda>_.
      if \<not> bt_workspace t then Inl ''cannot create build workspace'' else
      rbind (materialize_bundle k (bi_env i) \<lparr>bb_host = host, bb_pam = pam, bb_launcher = bi_launcher i\<rparr> b
        \<lparr>cx_project_root = pj_root (bi_project i), cx_build_output = output, cx_excludes = am_bundle_excludes m\<rparr>
        icon (bo_sign options)) (\<lambda>bundle.
      rbind (source_date_epoch k) (\<lambda>_.
      rbind (stage_artifacts
          (stage_format k t b names icon (icon_content fs icon) bundle)
          (artifact_destination output names (bo_formats options))
          (filter (\<lambda>f. f \<in> bo_formats options) staging_order)) (\<lambda>built.
      Inr (built, paths)))))))))))"

definition build_with_binaries ::
    "build_inputs \<Rightarrow> Bootstrap \<Rightarrow> BuildOptions \<Rightarrow> outputs \<Rightarrow> outputs \<times> (string + string list)" where
  "build_with_binaries i b options out =
     (case staged_build i b options out of
        Inl e \<Rightarrow> (out, Inl e)
      | Inr (built, paths) \<Rightarrow>
          (case remove_existing (bt_removable (bi_tools i)) paths (bo_force options) out of
             (out, Inl e) \<Rightarrow> (out, Inl e)
           | (out, Inr _) \<Rightarrow> publish_built (bt_renames (bi_tools i)) built out))"

text \<open>\<open>build\<close>: what it asks of the host; \<open>pam\<close> is the variable \<open>PAM_BINARY\<close>, \<open>search\<close> the directories of \<open>PATH\<close>.\<close>

definition resolve_executable :: "filesystem \<Rightarrow> string list option \<Rightarrow> string \<Rightarrow> string + string" where
  "resolve_executable fs search path =
     (if path_is_absolute path \<or> length (path_components path) > 1 then validated_binary fs path ''Pam worker''
      else case search of
        None \<Rightarrow> Inl ''PATH is missing while resolving the Pam worker''
      | Some directories \<Rightarrow>
          (case find (fs_is_file fs) (map (\<lambda>d. path_join d path) directories) of
             None \<Rightarrow> Inl ''cannot find the Pam worker in PATH'' | Some candidate \<Rightarrow> Inr candidate))"

definition binary_version :: "tool_output option \<Rightarrow> string + string" where
  "binary_version run =
     (case run of
        None \<Rightarrow> Inl ''cannot read version''
      | Some out \<Rightarrow>
          if \<not> to_success out then Inl ''--version failed''
          else if \<not> is_utf8 (to_stdout out) then Inl ''Pam version output is not UTF-8''
          else (case split_whitespace (to_stdout out) of
             [] \<Rightarrow> Inl ''Pam version output is empty'' | parts \<Rightarrow> Inr (last parts)))"

definition build ::
    "build_inputs \<Rightarrow> bool \<Rightarrow> string option \<Rightarrow> string option \<Rightarrow> string list option \<Rightarrow> Bootstrap \<Rightarrow> BuildOptions \<Rightarrow>
     outputs \<Rightarrow> outputs \<times> (string + string list)" where
  "build i servo host pam search b options out =
     (let os = pk_os (bi_packager i); fs = bi_files i in
      if os \<notin> {''linux'', ''windows'', ''macos''} then (out, Inl ''packaging does not support this system'')
      else if \<not> servo then (out, Inl ''built without Servo'')
      else case host of
        None \<Rightarrow> (out, Inl ''cannot resolve the pam-desktop executable'')
      | Some exe \<Rightarrow>
          (case (case pam of None \<Rightarrow> Inl ''PAM_BINARY is missing'' | Some path \<Rightarrow> resolve_executable fs search path) of
             Inl e \<Rightarrow> (out, Inl e)
           | Inr worker \<Rightarrow>
               let sibling = path_join (case path_parent exe of None \<Rightarrow> [] | Some d \<Rightarrow> d)
                     (''pam-desktop-launcher'' @ exe_suffix (bi_packager i)) in
               (case (if os = ''linux'' then Inr None
                      else rbind (validated_binary fs sibling ''Pam Desktop native launcher'') (\<lambda>l. Inr (Some l))) of
                  Inl e \<Rightarrow> (out, Inl e)
                | Inr launcher \<Rightarrow>
                    build_with_binaries (i\<lparr>bi_host := exe, bi_pam := worker, bi_launcher := launcher\<rparr>) b options out)))"

text \<open>The certificate of \<open>sign_windows_path\<close>, from the variable \<open>PAM_WINDOWS_CERTIFICATE_SHA1\<close>.\<close>

definition windows_thumbprint :: "string option \<Rightarrow> string + string" where
  "windows_thumbprint variable =
     (case variable of
        None \<Rightarrow> Inl ''PAM_WINDOWS_CERTIFICATE_SHA1 is required for Windows signing''
      | Some thumbprint \<Rightarrow>
          if length thumbprint \<noteq> 40 \<or> \<not> list_all ascii_hexdigit (map byte thumbprint)
          then Inl ''PAM_WINDOWS_CERTIFICATE_SHA1 must be a 40-digit certificate thumbprint''
          else Inr thumbprint)"

section \<open>What a build leaves\<close>

lemma remove_paths_run:
  "remove_paths removable paths out = (out', r) \<Longrightarrow> (p \<notin> set paths \<longrightarrow> out' p = out p)"
  by (induction removable paths out arbitrary: out' r rule: remove_paths.induct) (auto split: if_splits)

lemma publish_built_run:
  "publish_built renames built out = (out', r) \<Longrightarrow>
     (\<forall>p. Some p \<notin> snd ` set built \<longrightarrow> out' p = out p) \<and>
     (\<forall>paths. r = Inr paths \<longrightarrow> map snd built = map Some paths \<and>
        (distinct paths \<longrightarrow> (\<forall>(e, d) \<in> set built. out' (the d) = Some e)))"
proof (induction renames built out arbitrary: out' r rule: publish_built.induct)
  case (3 renames artifact p rest out)
  show ?case
  proof (cases "renames p")
    case True
    obtain out1 r1 where rest: "publish_built renames rest (out(p := Some artifact)) = (out1, r1)"
      by fastforce
    from "3.IH" [OF _ rest] True
    have kept: "\<forall>q. Some q \<notin> snd ` set rest \<longrightarrow> out1 q = (out(p := Some artifact)) q"
      and paths: "\<forall>paths. r1 = Inr paths \<longrightarrow> map snd rest = map Some paths \<and>
        (distinct paths \<longrightarrow> (\<forall>(e, d) \<in> set rest. out1 (the d) = Some e))" by simp_all
    show ?thesis
    proof (cases r1)
      case (Inl e)
      with 3 True rest have "out' = out1" "r = Inl e" by simp_all
      with kept show ?thesis by auto
    next
      case (Inr later)
      with 3 True rest have result: "out' = out1" "r = Inr (p # later)" by simp_all
      have later: "map snd rest = map Some later" using paths Inr by simp
      have "out1 p = Some artifact" if "distinct (p # later)"
      proof -
        have "snd ` set rest = Some ` set later"
          using arg_cong [OF later, of set] by simp
        then have "Some p \<notin> snd ` set rest" using that by auto
        then show ?thesis using kept by simp
      qed
      with kept paths Inr result later show ?thesis by auto
    qed
  qed (use 3 in auto)
qed auto

lemma artifact_suffixes:
  assumes "artifact_names k m = Inr names" "pk_architecture k \<in> {''x86_64'', ''aarch64''}"
    and "pk_os k \<in> {''linux'', ''macos'', ''windows''}"
  shows "inj (format_name names)"
proof -
  define ending where "ending f = take 2 (rev (format_name names f))" for f
  note names = artifact_names_def Let_def rbind_Inr_iff ending_def
  have endings: "ending DirectoryBundle = ''46''" "ending Portable = ''zg'' \<or> ending Portable = ''pi''"
    "ending Debian = ''be''" "ending Native = ''gm'' \<or> ending Native = ''xi''" "ending AppImage = ''eg''"
    "ending Rpm = ''mp''" "ending Pkg = ''gk''" "ending Msi = ''is''"
    using assms by (auto simp: names split: if_splits)
  have "x = y" if "ending x = ending y" for x y
    using that endings by (cases x; cases y) auto
  then have "inj ending" by (auto simp: inj_def)
  then show ?thesis by (auto simp: inj_def ending_def)
qed

lemma executable_name_relative:
  assumes "valid_application_identifier (am_identifier m)"
  shows "executable_name m \<noteq> [] \<and> hd (executable_name m) \<noteq> slash"
proof -
  have "executable_name m \<in> set (split_on CHR ''.'' (am_identifier m))"
    by (simp add: executable_name_def)
  then have "valid_application_segment (executable_name m)"
    using assms by (auto simp: valid_application_identifier_def list_all_iff)
  then show ?thesis
    by (auto simp: valid_application_segment_def ascii_lower_def byte_def slash_def)
qed

lemma format_name_relative:
  assumes "artifact_names k m = Inr names" "valid_application_identifier (am_identifier m)"
  shows "\<not> path_is_absolute (format_name names f)"
proof -
  have "\<exists>rest. format_name names f = executable_name m @ rest"
    using assms(1) by (cases f) (auto simp: artifact_names_def Let_def rbind_Inr_iff split: if_splits)
  then show ?thesis
    using executable_name_relative [OF assms(2)]
    by (cases "executable_name m") (auto simp: path_is_absolute_def starts_with_def slash_def)
qed

lemma path_join_inject:
  "\<not> path_is_absolute a \<Longrightarrow> \<not> path_is_absolute b \<Longrightarrow> path_join output a = path_join output b \<longleftrightarrow> a = b"
  by (simp add: path_join_def)

lemma stage_artifacts_Inr:
  "stage_artifacts stage destination fs = Inr built \<Longrightarrow>
     map snd built = map destination fs \<and> list_all2 (\<lambda>f x. stage f = Inr (fst x)) fs built"
  by (induction fs arbitrary: built) (auto simp: rbind_Inr_iff)

definition requested :: "BuildOptions \<Rightarrow> PackageFormat list" where
  "requested options = filter (\<lambda>f. f \<in> bo_formats options) staging_order"

lemma set_requested: "set (requested options) = bo_formats options"
proof -
  have "f \<in> set staging_order" for f by (cases f) (simp_all add: staging_order_def)
  then show ?thesis by (auto simp: requested_def)
qed

lemma distinct_requested: "distinct (requested options)"
  by (simp add: requested_def staging_order_def)

lemma set_destination_paths:
  "set (destination_paths output names formats) = (\<lambda>f. path_join output (format_name names f)) ` formats"
proof -
  have "f \<in> set destination_order" for f by (cases f) (simp_all add: destination_order_def)
  then show ?thesis
    by (auto simp: destination_paths_def artifact_destination_def List.map_filter_def image_iff)
qed

lemma staged_build_Inr:
  assumes "staged_build i b options out = Inr (built, paths)"
  shows "\<exists>output names icon picture bundle. bt_output (bi_tools i) = Some output \<and>
     artifact_names (bi_packager i) (bs_manifest b) = Inr names \<and>
     validate_platform_formats (pk_os (bi_packager i)) options = Inr () \<and>
     validate_bootstrap (bi_parse_url i) (bi_debug i) b = Inr () \<and>
     paths = destination_paths output names (bo_formats options) \<and>
     ensure_available out paths (bo_force options) = Inr () \<and>
     stage_artifacts (stage_format (bi_packager i) (bi_tools i) b names icon picture bundle)
       (artifact_destination output names (bo_formats options)) (requested options) = Inr built"
  using assms unfolding staged_build_def requested_def Let_def
  by (auto simp: rbind_Inr_iff split: sum.splits option.splits if_splits)

lemma validate_bootstrap_identifier:
  "validate_bootstrap parse_url debug b = Inr () \<Longrightarrow> valid_application_identifier (am_identifier (bs_manifest b))"
  by (auto simp: validate_bootstrap_def validate_manifest_def result_simps)

text \<open>
  C24. A build changes nothing in the output directory but the artifacts it was asked for.  Without
  \<open>--force\<close> it leaves every existing path as it was, whichever step fails.  When it succeeds, it
  returns one path for each requested format, in the order of staging, all of them different, and
  each holds the artifact that was staged for its format.
\<close>
theorem build_publishes_requested_artifacts:
  assumes run: "build_with_binaries i b options out = (out', result)"
    and host: "pk_architecture (bi_packager i) \<in> {''x86_64'', ''aarch64''}"
      "pk_os (bi_packager i) \<in> {''linux'', ''macos'', ''windows''}"
  shows "(\<not> bo_force options \<and> out p \<noteq> None \<longrightarrow> out' p = out p) \<and>
     (bt_output (bi_tools i) = Some output \<and> artifact_names (bi_packager i) (bs_manifest b) = Inr names \<and>
        p \<notin> set (destination_paths output names (bo_formats options)) \<longrightarrow> out' p = out p) \<and>
     (result = Inr artifacts \<longrightarrow> (\<exists>output names icon picture bundle.
        artifacts = map (\<lambda>f. path_join output (format_name names f)) (requested options) \<and> distinct artifacts \<and>
        list_all (\<lambda>f. \<exists>artifact.
          stage_format (bi_packager i) (bi_tools i) b names icon picture bundle f = Inr artifact \<and>
          out' (path_join output (format_name names f)) = Some artifact) (requested options)))"
proof (cases "staged_build i b options out")
  case (Inl e)
  then show ?thesis using run by (auto simp: build_with_binaries_def)
next
  case (Inr staged_paths)
  obtain built paths where staged: "staged_build i b options out = Inr (built, paths)"
    using Inr by (cases staged_paths) simp
  obtain output1 names1 icon picture es where parts: "bt_output (bi_tools i) = Some output1"
      "artifact_names (bi_packager i) (bs_manifest b) = Inr names1"
      "validate_bootstrap (bi_parse_url i) (bi_debug i) b = Inr ()"
      "paths = destination_paths output1 names1 (bo_formats options)"
      "ensure_available out paths (bo_force options) = Inr ()"
    and staging: "stage_artifacts (stage_format (bi_packager i) (bi_tools i) b names1 icon picture es)
       (artifact_destination output1 names1 (bo_formats options)) (requested options) = Inr built"
    using staged_build_Inr [OF staged] by blast
  let ?to = "\<lambda>f. path_join output1 (format_name names1 f)"
  have destinations: "map snd built = map (Some \<circ> ?to) (requested options)"
    using stage_artifacts_Inr [OF staging] set_requested by (auto simp: artifact_destination_def)
  have "set (map snd built) = set (map (Some \<circ> ?to) (requested options))"
    by (simp only: destinations)
  then have targets: "snd ` set built = Some ` set paths"
    by (simp add: parts(4) set_destination_paths set_requested image_image comp_def)
  have "inj ?to"
    using artifact_suffixes [OF parts(2) host]
      path_join_inject [OF format_name_relative format_name_relative, OF parts(2) _ parts(2)]
      validate_bootstrap_identifier [OF parts(3)]
    by (auto simp: inj_def)
  then have dist: "distinct (map ?to (requested options))"
    using distinct_requested by (simp add: distinct_map inj_on_def inj_def)
  obtain out1 removed where removing:
    "remove_existing (bt_removable (bi_tools i)) paths (bo_force options) out = (out1, removed)" by fastforce
  have kept1: "out1 p = out p" if "p \<notin> set paths \<or> \<not> bo_force options" for p
    using removing that remove_paths_run [of "bt_removable (bi_tools i)" paths out out1 removed p]
    by (auto simp: remove_existing_def split: if_splits)
  have free: "out p = None" if "\<not> bo_force options" "p \<in> set paths" for p
    using parts(5) that by (auto simp: ensure_available_def list_ex_iff split: if_splits)
  show ?thesis
  proof (cases removed)
    case (Inl e)
    then have "out' = out1" "result = Inl e"
      using run staged removing by (simp_all add: build_with_binaries_def)
    then show ?thesis using kept1 parts(1,2,4) by auto
  next
    case (Inr u)
    then have publish: "publish_built (bt_renames (bi_tools i)) built out1 = (out', result)"
      using run staged removing by (simp add: build_with_binaries_def)
    have kept: "out' p = out p" if "p \<notin> set paths" for p
      using publish_built_run [OF publish] kept1 [of p] that by (auto simp: targets)
    have published: "\<exists>output names icon picture bundle.
        artifacts = map (\<lambda>f. path_join output (format_name names f)) (requested options) \<and> distinct artifacts \<and>
        list_all (\<lambda>f. \<exists>artifact.
          stage_format (bi_packager i) (bi_tools i) b names icon picture bundle f = Inr artifact \<and>
          out' (path_join output (format_name names f)) = Some artifact) (requested options)"
      if "result = Inr artifacts"
    proof -
      have "map Some artifacts = map Some (map ?to (requested options))"
        using publish_built_run [OF publish] that destinations by simp
      then have artifacts: "artifacts = map ?to (requested options)"
        by (simp only: inj_map_eq_map [OF inj_Some])
      then have holds: "out' (the d) = Some e" if "(e, d) \<in> set built" for e d
        using publish_built_run [OF publish] \<open>result = Inr artifacts\<close> dist that by blast
      have "\<exists>artifact. stage_format (bi_packager i) (bi_tools i) b names1 icon picture es f = Inr artifact \<and>
          out' (?to f) = Some artifact" if f: "f \<in> set (requested options)" for f
      proof -
        obtain n where n: "n < length (requested options)" "requested options ! n = f"
          using f by (auto simp: in_set_conv_nth)
        moreover have len: "length built = length (requested options)"
          using arg_cong [OF destinations, of length] by simp
        ultimately have "snd (built ! n) = Some (?to f)"
          using arg_cong [OF destinations, of "\<lambda>xs. xs ! n"] by simp
        moreover have "stage_format (bi_packager i) (bi_tools i) b names1 icon picture es f = Inr (fst (built ! n))"
          using stage_artifacts_Inr [OF staging] n by (auto simp: list_all2_conv_all_nth)
        moreover have "built ! n \<in> set built" using n len by simp
        ultimately show ?thesis using holds [of "fst (built ! n)" "snd (built ! n)"]
          by (metis option.sel prod.collapse)
      qed
      then have "artifacts = map (\<lambda>f. path_join output1 (format_name names1 f)) (requested options) \<and>
          distinct artifacts \<and>
          list_all (\<lambda>f. \<exists>artifact.
            stage_format (bi_packager i) (bi_tools i) b names1 icon picture es f = Inr artifact \<and>
            out' (path_join output1 (format_name names1 f)) = Some artifact) (requested options)"
        using artifacts dist by (simp add: list_all_iff)
      then show ?thesis by blast
    qed
    show ?thesis
      using kept published free parts(1,2,4) by fastforce
  qed
qed

section \<open>Sample\<close>

definition sample_tools :: build_tools where
  "sample_tools =
     \<lparr>bt_output = Some ''/o'', bt_workspace = True, bt_available = (\<lambda>_. True), bt_assets = Inr [],
      bt_publisher = None, bt_sha256 = (\<lambda>_. []), bt_run = (\<lambda>_ _. Inr (Regular ''a'')),
      bt_removable = (\<lambda>_. True), bt_renames = (\<lambda>_. True)\<rparr>"

definition sample_inputs :: build_inputs where
  "sample_inputs =
     \<lparr>bi_packager = sample_packager sample_encode, bi_files = sample_fs, bi_env = sample_env False, bi_tools = sample_tools,
      bi_parse_url = (\<lambda>_. None), bi_debug = False, bi_project = sample_project,
      bi_host = ''/b/host'', bi_pam = ''/b/pam'', bi_launcher = Some ''/b/launcher''\<rparr>"

definition sample_options :: BuildOptions where
  "sample_options =
     \<lparr>bo_project = ''.'', bo_output = None, bo_formats = {DirectoryBundle}, bo_force = False,
      bo_sign = False\<rparr>"

lemma sample_requested: "requested sample_options = [DirectoryBundle]"
  by (simp add: requested_def staging_order_def sample_options_def)

lemma sample_build:
  "\<exists>out' artifacts. build_with_binaries sample_inputs sample_release sample_options (\<lambda>_. None) = (out', Inr artifacts)"
proof -
  obtain es where es: "materialize_bundle (sample_packager sample_encode) (sample_env False) sample_binaries sample_release sample_context
     ''/p/resources/a.svg'' False = Inr es"
    using sample_materialized by blast
  have canonical: "fs_canonicalize sample_fs ''/b/host'' = Some ''/p/resources/a.svg''"
    "fs_canonicalize sample_fs ''/b/pam'' = Some ''/p/resources/a.svg''" "fs_is_file sample_fs p" for p
    by (simp_all add: sample_fs_def)
  have mac: "pk_os (sample_packager sample_encode) = ''macos''" "pk_epoch (sample_packager sample_encode) = None"
    by (simp_all add: sample_packager_def)
  then obtain names where names: "artifact_names (sample_packager sample_encode) sample_manifest = Inr names"
    by (simp add: artifact_names_def Let_def)
  have icon: "am_icon sample_manifest = ''resources/icon.svg''" by (simp add: sample_manifest_def)
  have "staged_build sample_inputs sample_release sample_options (\<lambda>_. None) =
      Inr ([(Directory es, artifact_destination ''/o'' names {DirectoryBundle} DirectoryBundle)],
        destination_paths ''/o'' names {DirectoryBundle})"
    using es names icon sample_icon
    by (simp add: staged_build_def sample_inputs_def Let_def sample_options_def validate_platform_formats_def mac
        sample_release_valid sample_release_fields validated_binary_def canonical sample_tools_def
        ensure_available_def sample_binaries_def sample_context_def sample_project_def source_date_epoch_def
        configured_source_date_epoch_def staging_order_def list_ex_iff)
  then show ?thesis
    by (simp add: build_with_binaries_def remove_existing_def sample_options_def artifact_destination_def
        sample_inputs_def sample_tools_def)
qed

theorem build_publishes_requested_artifacts_witness:
  "\<exists>out' path. build_with_binaries sample_inputs sample_release sample_options (\<lambda>_. None) = (out', Inr [path]) \<and>
     out' path \<noteq> None"
proof -
  obtain out' artifacts where run:
    "build_with_binaries sample_inputs sample_release sample_options (\<lambda>_. None) = (out', Inr artifacts)"
    using sample_build by blast
  have "pk_architecture (bi_packager sample_inputs) \<in> {''x86_64'', ''aarch64''}"
    "pk_os (bi_packager sample_inputs) \<in> {''linux'', ''macos'', ''windows''}"
    by (simp_all add: sample_inputs_def sample_packager_def)
  from build_publishes_requested_artifacts [OF run this, THEN conjunct2, THEN conjunct2, of artifacts] obtain path where
    "artifacts = [path]" "out' path \<noteq> None"
    by (auto simp: sample_requested)
  with run show ?thesis by blast
qed

end
