(* ===== verification/Lifecycle.thy ===== *)
theory Lifecycle
  imports DesktopPortal SystemInfo
begin

text \<open>
  \<open>lifecycle.rs\<close>: one running instance per application.  The first process binds an endpoint and listens;
  a later one hands its arguments over and ends.  The module has a variant for Linux, over a socket
  file, and a portable one, over a named endpoint with length-prefixed frames.
\<close>

section \<open>Messages\<close>

definition MAX_ACTIVATION_BYTES :: nat where "MAX_ACTIVATION_BYTES = 64 * 1024"

definition ACTIVATION_ACK :: string where "ACTIVATION_ACK = ''PAM-DESKTOP-ACTIVATION-1'' @ [CHR 0x0A]"

record Activation =
  ac_arguments :: "string list"

record activation_codec =
  an_encode :: "Activation \<Rightarrow> string option"
  an_decode :: "string \<Rightarrow> Activation option"

text \<open>The payload of \<open>forward\<close>, which both variants compute in the same way.\<close>

definition activation_payload :: "activation_codec \<Rightarrow> string list \<Rightarrow> string + string" where
  "activation_payload c arguments =
     (case an_encode c \<lparr>ac_arguments = arguments\<rparr> of
        None \<Rightarrow> Inl ''cannot encode application activation''
      | Some payload \<Rightarrow>
          if length payload > MAX_ACTIVATION_BYTES then Inl ''application activation exceeds 64 KiB''
          else Inr payload)"

text \<open>
  The other end of a connection, as \<open>forward\<close> sees it: whether each call succeeds, and the bytes that
  can be read until the peer closes, None when reading fails or takes two seconds.
\<close>

record contact =
  ct_connects :: bool
  ct_timeout :: bool
  ct_writes :: bool
  ct_shutdown :: bool
  ct_reply :: "string option"

definition forward :: "activation_codec \<Rightarrow> contact \<Rightarrow> string list \<Rightarrow> string + unit" where
  "forward c ct arguments =
     rbind (activation_payload c arguments) (\<lambda>payload.
     rbind (if ct_connects ct then Inr () else Inl ''cannot contact the primary application instance'') (\<lambda>_.
     rbind (if ct_timeout ct then Inr () else Inl ''cannot secure the activation response'') (\<lambda>_.
     rbind (if ct_writes ct then Inr () else Inl ''cannot forward application activation'') (\<lambda>_.
     rbind (if ct_shutdown ct then Inr () else Inl ''cannot finish application activation'') (\<lambda>_.
       case ct_reply ct of
         None \<Rightarrow> Inl ''cannot confirm application activation''
       | Some reply \<Rightarrow>
           if take (length ACTIVATION_ACK + 1) reply \<noteq> ACTIVATION_ACK
           then Inl ''primary application returned an invalid activation acknowledgement''
           else Inr ())))))"

section \<open>The listener\<close>

text \<open>
  A connection is the bytes that arrive on it (None when reading fails) and whether the answer can be
  written.  \<open>connection\<close> gives what is answered and the activation the handler is called with.
\<close>

definition connection :: "activation_codec \<Rightarrow> string option \<Rightarrow> bool \<Rightarrow> string \<times> Activation option" where
  "connection c arrived writes =
     (case map_option (take (MAX_ACTIVATION_BYTES + 1)) arrived of
        None \<Rightarrow> ([], None)
      | Some bytes \<Rightarrow>
          if length bytes > MAX_ACTIVATION_BYTES then ([], None)
          else (case an_decode c bytes of
              None \<Rightarrow> ([], None)
            | Some activation \<Rightarrow> if writes then (ACTIVATION_ACK, Some activation) else ([], None)))"

datatype accepted = Stream "string option" bool | WouldBlock | Broken

text \<open>
  The thread of \<open>listen\<close>: each round first reads the stop flag.  The result is the activations that were
  handled, in order.
\<close>

fun listen_loop :: "(string option \<Rightarrow> bool \<Rightarrow> string \<times> Activation option) \<Rightarrow> (bool \<times> accepted) list \<Rightarrow> Activation list" where
  "listen_loop serve_stream [] = []"
| "listen_loop serve_stream ((stop, event) # rest) =
     (if stop then []
      else case event of
        Stream arrived writes \<Rightarrow>
          (case snd (serve_stream arrived writes) of
             None \<Rightarrow> listen_loop serve_stream rest
           | Some activation \<Rightarrow> activation # listen_loop serve_stream rest)
      | WouldBlock \<Rightarrow> listen_loop serve_stream rest
      | Broken \<Rightarrow> [])"

definition start_listening :: "bool \<Rightarrow> bool \<Rightarrow> bool \<Rightarrow> bool \<times> (string + unit)" where
  "start_listening has_listener nonblocking spawns =
     (if \<not> has_listener then (False, Inl ''single-instance listener was already started'')
      else if \<not> nonblocking then (False, Inl ''cannot configure single-instance listener'')
      else if \<not> spawns then (False, Inl ''cannot start single-instance listener'')
      else (False, Inr ()))"

section \<open>The endpoint on Linux\<close>

datatype creation = DirectoryCreated | DirectoryExists | CreationFails

record runtime_env =
  rt_runtime_dir :: "string option"
  rt_is_dir :: "string \<Rightarrow> bool"
  rt_status :: "string option"
  rt_temp_dir :: string
  rt_create :: "string \<Rightarrow> creation"
  rt_protect :: "string \<Rightarrow> bool"
  rt_metadata :: "string \<Rightarrow> (bool \<times> u32 \<times> u32) option"

fun find_map :: "('a \<Rightarrow> 'b option) \<Rightarrow> 'a list \<Rightarrow> 'b option" where
  "find_map f [] = None"
| "find_map f (x # xs) = (case f x of None \<Rightarrow> find_map f xs | Some y \<Rightarrow> Some y)"

definition status_uid :: "string \<Rightarrow> string option" where
  "status_uid status =
     find_map (\<lambda>line. Option.bind (strip_prefix ''Uid:'' line)
       (\<lambda>ids. case split_whitespace ids of [] \<Rightarrow> None | uid # _ \<Rightarrow> Some uid)) (str_lines status)"

definition private_runtime_directory :: "runtime_env \<Rightarrow> string + string" where
  "private_runtime_directory e =
     (case rt_status e of
        None \<Rightarrow> Inl ''cannot resolve the current Linux user''
      | Some status \<Rightarrow>
          (case status_uid status of
             None \<Rightarrow> Inl ''cannot resolve the current Linux user identifier''
           | Some uid \<Rightarrow>
               let path = path_join (rt_temp_dir e) (''pam-desktop-'' @ uid) in
               rbind (case rt_create e path of
                   DirectoryCreated \<Rightarrow> if rt_protect e path then Inr () else Inl ''cannot protect runtime directory''
                 | DirectoryExists \<Rightarrow> Inr ()
                 | CreationFails \<Rightarrow> Inl ''cannot create runtime directory'') (\<lambda>_.
               case rt_metadata e path of
                 None \<Rightarrow> Inl ''cannot inspect runtime directory''
               | Some (is_dir, owner, mode) \<Rightarrow>
                   (case parse_unsigned 32 uid of
                      None \<Rightarrow> Inl ''invalid Linux user identifier''
                    | Some expected \<Rightarrow>
                        if \<not> is_dir \<or> unat owner \<noteq> expected \<or> and mode 0x3F \<noteq> 0
                        then Inl ''runtime directory is not private to the current user''
                        else Inr path))))"

definition socket_path :: "(string \<Rightarrow> string) \<Rightarrow> runtime_env \<Rightarrow> string \<Rightarrow> string + string" where
  "socket_path sha256 e identifier =
     rbind (case rt_runtime_dir e of Some runtime \<Rightarrow> Inr runtime | None \<Rightarrow> private_runtime_directory e) (\<lambda>runtime.
       if \<not> rt_is_dir e runtime then Inl ''runtime directory does not exist''
       else Inr (path_join runtime (''pam-desktop-'' @ take 24 (sha256 identifier) @ ''.sock'')))"

section \<open>Acquiring the endpoint on Linux\<close>

datatype Instance = PrimaryInstance | ForwardedInstance

datatype bind_result = Bound | AddrInUse | BindFails

datatype endpoint_call = BindCall string | ForwardCall string | RemoveCall string | ProtectCall string

record acquire_env =
  aq_bind :: bind_result
  aq_contact :: contact
  aq_remove :: bool
  aq_rebind :: bool
  aq_protect :: bool

definition secure_listener :: "bool \<Rightarrow> string + Instance" where
  "secure_listener protects =
     (if protects then Inr PrimaryInstance else Inl ''cannot protect single-instance socket'')"

text \<open>Any failure to forward is taken as a sign of a stale socket, which is then replaced.\<close>

definition acquire_at ::
    "activation_codec \<Rightarrow> acquire_env \<Rightarrow> string \<Rightarrow> string list \<Rightarrow> endpoint_call list \<times> (string + Instance)" where
  "acquire_at c a path arguments =
     (case aq_bind a of
        Bound \<Rightarrow> ([BindCall path, ProtectCall path], secure_listener (aq_protect a))
      | BindFails \<Rightarrow> ([BindCall path], Inl ''cannot bind single-instance socket'')
      | AddrInUse \<Rightarrow>
          if is_ok (forward c (aq_contact a) arguments)
          then ([BindCall path, ForwardCall path], Inr ForwardedInstance)
          else if \<not> aq_remove a
          then ([BindCall path, ForwardCall path, RemoveCall path],
                Inl ''cannot recover stale single-instance socket'')
          else if \<not> aq_rebind a
          then ([BindCall path, ForwardCall path, RemoveCall path, BindCall path],
                Inl ''cannot bind single-instance socket'')
          else ([BindCall path, ForwardCall path, RemoveCall path, BindCall path, ProtectCall path],
                secure_listener (aq_protect a)))"

definition acquire ::
    "activation_codec \<Rightarrow> (string \<Rightarrow> string) \<Rightarrow> runtime_env \<Rightarrow> acquire_env \<Rightarrow> string \<Rightarrow> string list \<Rightarrow>
     endpoint_call list \<times> (string + Instance)" where
  "acquire c sha256 e a identifier arguments =
     (case socket_path sha256 e identifier of
        Inl message \<Rightarrow> ([], Inl message)
      | Inr path \<Rightarrow> acquire_at c a path arguments)"

section \<open>The portable endpoint\<close>

definition portable_endpoint :: "(string \<Rightarrow> string) \<Rightarrow> string \<Rightarrow> string" where
  "portable_endpoint sha256 identifier = ''pam-desktop-'' @ take 24 (sha256 identifier)"

datatype create_error = InUse | AccessDenied | OtherError

definition endpoint_is_owned_by_primary :: "string \<Rightarrow> create_error \<Rightarrow> bool" where
  "endpoint_is_owned_by_primary os error \<longleftrightarrow> error = InUse \<or> os = ''windows'' \<and> error = AccessDenied"

definition be_bytes :: "nat \<Rightarrow> string" where
  "be_bytes n = map (\<lambda>k. char_of (n div k mod 256)) [16777216, 65536, 256, 1]"

definition be_value :: "string \<Rightarrow> nat" where
  "be_value bytes = foldl (\<lambda>n c. n * 256 + byte c) 0 bytes"

definition read_exact :: "nat \<Rightarrow> string \<Rightarrow> (string \<times> string) option" where
  "read_exact n arrived = (if length arrived < n then None else Some (take n arrived, drop n arrived))"

definition activation_frame :: "string \<Rightarrow> string" where
  "activation_frame payload = be_bytes (length payload) @ payload"

definition forward_portable ::
    "activation_codec \<Rightarrow> bool \<Rightarrow> contact \<Rightarrow> string list \<Rightarrow> string + unit" where
  "forward_portable c names ct arguments =
     rbind (activation_payload c arguments) (\<lambda>payload.
     rbind (if names then Inr () else Inl ''cannot name the primary application endpoint'') (\<lambda>_.
     rbind (if ct_connects ct then Inr () else Inl ''cannot contact the primary application instance'') (\<lambda>_.
     rbind (if length payload < 2 ^ 32 then Inr ()
            else Inl ''application activation exceeds protocol capacity'') (\<lambda>_.
     rbind (if ct_writes ct then Inr () else Inl ''cannot forward application activation'') (\<lambda>_.
       case Option.bind (ct_reply ct) (read_exact (length ACTIVATION_ACK)) of
         None \<Rightarrow> Inl ''cannot confirm application activation''
       | Some (acknowledgement, _) \<Rightarrow>
           if acknowledgement \<noteq> ACTIVATION_ACK
           then Inl ''primary application returned an invalid activation acknowledgement''
           else Inr ())))))"

definition read_activation_frame :: "string \<Rightarrow> string + string" where
  "read_activation_frame arrived =
     (case read_exact 4 arrived of
        None \<Rightarrow> Inl ''cannot read application activation length''
      | Some (prefix, rest) \<Rightarrow>
          if be_value prefix > MAX_ACTIVATION_BYTES then Inl ''application activation exceeds 64 KiB''
          else (case read_exact (be_value prefix) rest of
              None \<Rightarrow> Inl ''cannot read application activation''
            | Some (payload, _) \<Rightarrow> Inr payload))"

definition portable_connection :: "activation_codec \<Rightarrow> string option \<Rightarrow> bool \<Rightarrow> string \<times> Activation option" where
  "portable_connection c arrived writes =
     (case map_option read_activation_frame arrived of
        Some (Inr bytes) \<Rightarrow>
          (case an_decode c bytes of
             None \<Rightarrow> ([], None)
           | Some activation \<Rightarrow> if writes then (ACTIVATION_ACK, Some activation) else ([], None))
      | _ \<Rightarrow> ([], None))"

definition acquire_portable ::
    "activation_codec \<Rightarrow> string \<Rightarrow> bool \<Rightarrow> create_error + unit \<Rightarrow> contact \<Rightarrow> string list \<Rightarrow> string + Instance" where
  "acquire_portable c os names create ct arguments =
     (if \<not> names then Inl ''cannot name the single-instance endpoint''
      else case create of
        Inr _ \<Rightarrow> Inr PrimaryInstance
      | Inl error \<Rightarrow>
          if endpoint_is_owned_by_primary os error
          then rbind (forward_portable c names ct arguments) (\<lambda>_. Inr ForwardedInstance)
          else Inl ''cannot bind single-instance endpoint'')"

section \<open>Delivery\<close>

lemma be_value_bytes:
  assumes "n < 2 ^ 32"
  shows "be_value (be_bytes n) = n"
proof -
  have "n div 16777216 = n div 65536 div 256" "n div 65536 = n div 256 div 256"
    by (simp_all add: div_mult2_eq [symmetric])
  then have "(((n div 16777216) * 256 + n div 65536 mod 256) * 256 + n div 256 mod 256) * 256 + n mod 256 = n"
    by (simp add: div_mult_mod_eq)
  moreover have "n div 16777216 mod 256 = n div 16777216"
    using assms by (simp add: less_mult_imp_div_less)
  ultimately show ?thesis
    by (simp add: be_value_def be_bytes_def byte_def)
qed

lemma read_activation_frame_frame:
  assumes "length payload \<le> MAX_ACTIVATION_BYTES"
  shows "read_activation_frame (activation_frame payload) = Inr payload"
proof -
  have "length payload < 2 ^ 32" using assms by (simp add: MAX_ACTIVATION_BYTES_def)
  moreover have "length (be_bytes (length payload)) = 4" by (simp add: be_bytes_def)
  ultimately show ?thesis
    using assms by (simp add: read_activation_frame_def activation_frame_def read_exact_def be_value_bytes)
qed

lemma activation_payload_Inr:
  "activation_payload c arguments = Inr payload \<longleftrightarrow>
     an_encode c \<lparr>ac_arguments = arguments\<rparr> = Some payload \<and> length payload \<le> MAX_ACTIVATION_BYTES"
  by (auto simp: activation_payload_def split: option.splits)

definition answering :: "string \<Rightarrow> contact" where
  "answering reply = \<lparr>ct_connects = True, ct_timeout = True, ct_writes = True, ct_shutdown = True, ct_reply = Some reply\<rparr>"

text \<open>
  C33. What later processes hand over, the primary handles: every activation of at most 64 KiB, exactly
  once and in the order of the connections, and each of these processes is told so and ends.  This
  holds for the Linux socket, where the end of the message is the end of the stream, and for the
  portable endpoint with its length prefix.  A larger activation is refused before it is sent.
\<close>
theorem activations_are_delivered:
  assumes codec: "\<And>a payload. an_encode c a = Some payload \<Longrightarrow> an_decode c payload = Some a"
    and clients: "list_all2 (\<lambda>arguments payload. activation_payload c arguments = Inr payload) clients payloads"
  shows "map ac_arguments (listen_loop (connection c) (map (\<lambda>p. (False, Stream (Some p) True)) payloads)) = clients \<and>
    map ac_arguments (listen_loop (portable_connection c)
      (map (\<lambda>p. (False, Stream (Some (activation_frame p)) True)) payloads)) = clients \<and>
    list_all2 (\<lambda>arguments p.
      forward c (answering (fst (connection c (Some p) True))) arguments = Inr () \<and>
      forward_portable c True (answering (fst (portable_connection c (Some (activation_frame p)) True))) arguments = Inr ())
      clients payloads"
proof -
  have one: "connection c (Some p) True = (ACTIVATION_ACK, Some \<lparr>ac_arguments = arguments\<rparr>) \<and>
      portable_connection c (Some (activation_frame p)) True = (ACTIVATION_ACK, Some \<lparr>ac_arguments = arguments\<rparr>)"
    if "activation_payload c arguments = Inr p" for arguments p
    using that codec [of "\<lparr>ac_arguments = arguments\<rparr>" p]
    by (auto simp: activation_payload_Inr connection_def portable_connection_def read_activation_frame_frame)
  have small: "length p < 2 ^ 32" if "activation_payload c arguments = Inr p" for arguments p
    using that by (simp add: activation_payload_Inr MAX_ACTIVATION_BYTES_def)
  from clients show ?thesis
  proof (induction rule: list_all2_induct)
    case (Cons arguments clients p payloads)
    then show ?case
      using one [OF Cons.hyps(1)] small [OF Cons.hyps(1)]
      by (simp add: forward_def forward_portable_def answering_def read_exact_def)
  qed simp
qed

text \<open>Arguments behind each other, each with a NUL, as the command lines of a process are stored.\<close>

definition sample_activations :: activation_codec where
  "sample_activations = \<lparr>an_encode = (\<lambda>a.
       if list_all (\<lambda>s. CHR 0x00 \<notin> set s) (ac_arguments a)
       then Some (concat (map (\<lambda>s. s @ [CHR 0x00]) (ac_arguments a))) else None),
     an_decode = (\<lambda>s. Some \<lparr>ac_arguments = butlast (split_on (CHR 0x00) s)\<rparr>)\<rparr>"

lemma split_terminated:
  "list_all (\<lambda>s. x \<notin> set s) ss \<Longrightarrow> butlast (split_on x (concat (map (\<lambda>s. s @ [x]) ss))) = ss"
  by (induction ss) (simp_all add: split_on_sep)

theorem activations_are_delivered_witness:
  "map ac_arguments (listen_loop (connection sample_activations)
     (map (\<lambda>p. (False, Stream (Some p) True)) [''open'' @ [CHR 0x00], []])) = [[''open''], []]"
proof -
  have "an_decode sample_activations payload = Some a" if "an_encode sample_activations a = Some payload" for a payload
    using that split_terminated [of "CHR 0x00" "ac_arguments a"] by (auto simp: sample_activations_def split: if_splits)
  moreover have "list_all2 (\<lambda>arguments payload. activation_payload sample_activations arguments = Inr payload)
      [[''open''], []] [''open'' @ [CHR 0x00], []]"
    by (simp add: activation_payload_Inr sample_activations_def MAX_ACTIVATION_BYTES_def)
  ultimately show ?thesis
    using activations_are_delivered [of sample_activations "[[''open''], []]"] by blast
qed

section \<open>Several processes\<close>

text \<open>
  The calls of \<open>acquire_at\<close> on one socket path, by processes that run at the same time.  \<open>es_socket\<close> is the
  process whose socket the path names; a process that left without removing it leaves a stale one.
  \<open>answers p q\<close> says that \<open>q\<close>, while it is served, acknowledges what \<open>p\<close> forwards.
\<close>

datatype phase = Starting | Contending | Recovering | Rebinding | Serving | HandedOver | Failed | Gone

record endpoint_state =
  es_socket :: "nat option"
  es_phase :: "nat \<Rightarrow> phase"

definition enter :: "nat \<Rightarrow> phase \<Rightarrow> nat option \<Rightarrow> endpoint_state \<Rightarrow> endpoint_state" where
  "enter p phase socket s = s\<lparr>es_socket := socket, es_phase := (es_phase s)(p := phase)\<rparr>"

definition served :: "endpoint_state \<Rightarrow> nat option" where
  "served s = (case es_socket s of None \<Rightarrow> None | Some q \<Rightarrow> if es_phase s q = Serving then Some q else None)"

definition acquire_call :: "(nat \<Rightarrow> nat \<Rightarrow> bool) \<Rightarrow> nat \<Rightarrow> endpoint_state \<Rightarrow> endpoint_state option" where
  "acquire_call answers p s =
     (case es_phase s p of
        Starting \<Rightarrow> Some (if es_socket s = None then enter p Serving (Some p) s else enter p Contending (es_socket s) s)
      | Contending \<Rightarrow>
          Some (case served s of
              Some q \<Rightarrow> enter p (if answers p q then HandedOver else Recovering) (es_socket s) s
            | None \<Rightarrow> enter p Recovering (es_socket s) s)
      | Recovering \<Rightarrow> Some (enter p (if es_socket s = None then Failed else Rebinding) None s)
      | Rebinding \<Rightarrow> Some (if es_socket s = None then enter p Serving (Some p) s else enter p Failed (es_socket s) s)
      | _ \<Rightarrow> None)"

text \<open>Dropping the guard removes whatever the path names; a killed process leaves its socket behind.\<close>

inductive instances_run :: "(nat \<Rightarrow> nat \<Rightarrow> bool) \<Rightarrow> nat set \<Rightarrow> endpoint_state \<Rightarrow> endpoint_state \<Rightarrow> bool"
  for answers :: "nat \<Rightarrow> nat \<Rightarrow> bool" and leaving :: "nat set" and s :: endpoint_state where
  instances_start: "instances_run answers leaving s s"
| instances_call: "instances_run answers leaving s t \<Longrightarrow> acquire_call answers p t = Some u \<Longrightarrow>
    instances_run answers leaving s u"
| instances_drop: "instances_run answers leaving s t \<Longrightarrow> p \<in> leaving \<Longrightarrow> es_phase t p = Serving \<Longrightarrow>
    instances_run answers leaving s (enter p Gone None t)"
| instances_killed: "instances_run answers leaving s t \<Longrightarrow> p \<in> leaving \<Longrightarrow> es_phase t p = Serving \<Longrightarrow>
    instances_run answers leaving s (enter p Gone (es_socket t) t)"

lemmas endpoint_defs = acquire_call_def enter_def served_def

text \<open>A process on its own makes the calls of \<open>acquire_at\<close>, with the outcomes that the state decides.\<close>

definition outcomes :: "activation_codec \<Rightarrow> (nat \<Rightarrow> nat \<Rightarrow> bool) \<Rightarrow> nat \<Rightarrow> endpoint_state \<Rightarrow> acquire_env" where
  "outcomes c answers p s =
     \<lparr>aq_bind = (if es_socket s = None then Bound else AddrInUse),
      aq_contact = (case served s of
          Some q \<Rightarrow> answering (if answers p q then ACTIVATION_ACK else [])
        | None \<Rightarrow> (answering [])\<lparr>ct_connects := False\<rparr>),
      aq_remove = True, aq_rebind = True, aq_protect = True\<rparr>"

definition call_alone :: "(nat \<Rightarrow> nat \<Rightarrow> bool) \<Rightarrow> nat \<Rightarrow> endpoint_state \<Rightarrow> endpoint_state" where
  "call_alone answers p s = (case acquire_call answers p s of None \<Rightarrow> s | Some t \<Rightarrow> t)"

lemma acquire_alone:
  assumes "es_phase s p = Starting" and "activation_payload c arguments = Inr payload"
  shows "snd (acquire_at c (outcomes c answers p s) path arguments) =
    (case es_phase ((call_alone answers p ^^ 4) s) p of
       Serving \<Rightarrow> Inr PrimaryInstance
     | HandedOver \<Rightarrow> Inr ForwardedInstance
     | _ \<Rightarrow> Inl ''cannot bind single-instance socket'')"
proof -
  have four: "(f ^^ 4) x = f (f (f (f x)))" for f :: "'x \<Rightarrow> 'x" and x by (simp add: numeral_eq_Suc)
  note defs = acquire_at_def outcomes_def secure_listener_def
  show ?thesis
  proof (cases "es_socket s")
    case None
    then show ?thesis using assms(1) by (simp add: defs four call_alone_def endpoint_defs)
  next
    case (Some q)
    then have "q \<noteq> p \<or> es_phase s q \<noteq> Serving" using assms(1) by auto
    moreover have refused: "forward c (answering []) arguments \<noteq> Inr ()"
      "forward c ((answering [])\<lparr>ct_connects := False\<rparr>) arguments \<noteq> Inr ()"
      "forward c (answering ACTIVATION_ACK) arguments = Inr ()"
      using assms(2) by (simp_all add: forward_def answering_def ACTIVATION_ACK_def)
    ultimately show ?thesis
      using assms(1) Some
      by (cases "es_phase s q = Serving"; cases "answers p q")
        (simp_all add: defs four call_alone_def endpoint_defs is_ok_unit_iff)
  qed
qed

definition waiting :: "phase \<Rightarrow> bool" where
  "waiting phase \<longleftrightarrow> phase \<in> {Starting, Contending, HandedOver, Gone}"

text \<open>
  C19. While a primary serves, acknowledges everything it is handed and does not leave, and each of
  the others is still trying to start or has handed over (none has begun to replace the socket), no
  other process becomes primary, however their calls interleave: the path keeps naming its socket,
  and the others stay as they were said to be.
\<close>
theorem running_primary_is_unique:
  assumes run: "instances_run answers leaving s t"
    and primary: "es_socket s = Some q" "es_phase s q = Serving" "q \<notin> leaving" "\<And>p. answers p q"
    and others: "\<And>p. p \<noteq> q \<Longrightarrow> waiting (es_phase s p)"
  shows "es_socket t = Some q \<and> es_phase t q = Serving \<and>
    (p \<noteq> q \<longrightarrow> waiting (es_phase t p))"
proof -
  have "es_socket t = Some q \<and> es_phase t q = Serving \<and>
    (\<forall>p. p \<noteq> q \<longrightarrow> waiting (es_phase t p))"
    using run
  proof (induction rule: instances_run.induct)
    case (instances_call t p u)
    then have "p \<noteq> q" by (auto simp: acquire_call_def)
    then have "waiting (es_phase t p)" using instances_call.IH by blast
    then have "u = enter p Contending (Some q) t \<or> u = enter p HandedOver (Some q) t"
      using instances_call primary(4) by (auto simp: endpoint_defs waiting_def)
    moreover have "waiting Contending" "waiting HandedOver" by (simp_all add: waiting_def)
    ultimately show ?case using instances_call.IH \<open>p \<noteq> q\<close> by (auto simp: enter_def)
  next
    case (instances_drop t p)
    then have "waiting Serving" using primary(3) by metis
    then show ?case by (simp add: waiting_def)
  next
    case (instances_killed t p)
    then have "waiting Serving" using primary(3) by metis
    then show ?case by (simp add: waiting_def)
  qed (use primary others in auto)
  then show ?thesis by blast
qed

lemma run_call_alone:
  "instances_run answers leaving s t \<Longrightarrow> instances_run answers leaving s (call_alone answers p t)"
  by (auto simp: call_alone_def split: option.splits intro: instances_run.intros)

definition fresh_endpoint :: endpoint_state where
  "fresh_endpoint = \<lparr>es_socket = Some 0, es_phase = (\<lambda>_. Starting)(0 := Serving)\<rparr>"

theorem running_primary_is_unique_witness:
  "es_socket (call_alone (\<lambda>_ _. True) 1 (call_alone (\<lambda>_ _. True) 1 fresh_endpoint)) = Some 0 \<and>
   es_phase (call_alone (\<lambda>_ _. True) 1 (call_alone (\<lambda>_ _. True) 1 fresh_endpoint)) 0 = Serving"
proof -
  let ?t = "call_alone (\<lambda>_ _. True) 1 (call_alone (\<lambda>_ _. True) 1 fresh_endpoint)"
  have "instances_run (\<lambda>_ _. True) {} fresh_endpoint ?t"
    by (intro run_call_alone instances_start)
  from running_primary_is_unique [OF this, of 0 0] show ?thesis
    by (auto simp: fresh_endpoint_def waiting_def)
qed

text \<open>
  The contract rests on both conditions.  A process whose activation is too large does not contact the
  primary at all and takes its place, while the primary still runs.
\<close>

lemma oversized_activation_replaces_primary:
  assumes "an_encode c \<lparr>ac_arguments = arguments\<rparr> = Some payload" "length payload > MAX_ACTIVATION_BYTES"
    and "aq_bind a = AddrInUse" "aq_remove a" "aq_rebind a" "aq_protect a"
  shows "acquire_at c a path arguments =
    ([BindCall path, ForwardCall path, RemoveCall path, BindCall path, ProtectCall path], Inr PrimaryInstance)"
  using assms by (simp add: acquire_at_def forward_def activation_payload_def secure_listener_def)

text \<open>
  When the primary leaves in order while one process contends and another starts, both become primary:
  the first removes the socket that the second has just bound.
\<close>

lemma exit_race_starts_two_primaries:
  "\<exists>t. instances_run (\<lambda>_ _. True) {0} \<lparr>es_socket = None, es_phase = (\<lambda>_. Starting)\<rparr> t \<and>
     es_phase t 1 = Serving \<and> es_phase t 2 = Serving"
proof -
  let ?call = "call_alone (\<lambda>_ _. True)"
  let ?s = "\<lparr>es_socket = None, es_phase = (\<lambda>_. Starting)\<rparr>"
  let ?left = "enter 0 Gone None (?call 1 (?call 0 ?s))"
  have "instances_run (\<lambda>_ _. True) {0} ?s (?call 1 (?call 0 ?s))"
    by (intro run_call_alone instances_start)
  then have "instances_run (\<lambda>_ _. True) {0} ?s ?left"
    by (rule instances_drop) (simp_all add: call_alone_def endpoint_defs)
  then have "instances_run (\<lambda>_ _. True) {0} ?s (?call 1 (?call 1 (?call 2 (?call 1 ?left))))"
    by (intro run_call_alone)
  moreover have "es_phase (?call 1 (?call 1 (?call 2 (?call 1 ?left)))) 1 = Serving"
    "es_phase (?call 1 (?call 1 (?call 2 (?call 1 ?left)))) 2 = Serving"
    by (simp_all add: call_alone_def endpoint_defs)
  ultimately show ?thesis by blast
qed

text \<open>A runtime directory the host makes for itself belongs to the user alone.\<close>

lemma private_directory_is_private:
  assumes "private_runtime_directory e = Inr path"
  shows "\<exists>owner mode uid. rt_metadata e path = Some (True, owner, mode) \<and> and mode 0x3F = 0 \<and>
    Option.bind (rt_status e) status_uid = Some uid \<and> parse_unsigned 32 uid = Some (unat owner)"
  using assms
  by (auto simp: private_runtime_directory_def rbind_Inr_iff Let_def split: option.splits creation.splits if_splits)

end
