(* ===== verification/Startup.thy ===== *)
theory Startup
  imports WindowState Lifecycle Supervisor UpdatePublish
begin

text \<open>
  \<open>startup_snapshot.rs\<close>, \<open>runtime.rs\<close> and \<open>background_agent.rs\<close>: the bootstrap of the last run, with which
  windows can be shown before PHP has started; the preparation of the runtime with and without it;
  and the process that runs background jobs when no window is open.
\<close>

section \<open>The fingerprint of a project\<close>

text \<open>
  The project as \<open>is_dir\<close>, \<open>is_file\<close> and \<open>read\<close> see it, through links: a directory that cannot be listed
  and a file that cannot be read are None.
\<close>

datatype input_node =
    InputDirectory "(string \<times> input_node) list option"
  | InputFile "string option"
  | InputOther

definition skipped_directory :: "string \<Rightarrow> bool" where
  "skipped_directory name \<longleftrightarrow> name \<in> {''.git'', ''.pam'', ''dist'', ''node_modules'', ''target'', ''vendor''}"

definition input_name :: "string \<Rightarrow> bool" where
  "input_name name \<longleftrightarrow>
     name \<in> {''composer.json'', ''composer.lock'', ''pam.json''} \<or> path_extension name = Some ''php''"

fun collect_inputs :: "string list \<Rightarrow> input_node \<Rightarrow> string + (string list \<times> string option) list"
and collect_input_entries ::
    "string list \<Rightarrow> (string \<times> input_node) list \<Rightarrow> string + (string list \<times> string option) list" where
  "collect_inputs at (InputDirectory None) = Inl ''cannot inspect''"
| "collect_inputs at (InputDirectory (Some entries)) = collect_input_entries at entries"
| "collect_inputs at (InputFile content) = Inr [(at, content)]"
| "collect_inputs at InputOther = Inr []"
| "collect_input_entries at [] = Inr []"
| "collect_input_entries at ((name, node) # rest) =
     rbind (case node of
         InputDirectory _ \<Rightarrow> if skipped_directory name then Inr [] else collect_inputs (at @ [name]) node
       | InputFile _ \<Rightarrow> if input_name name then collect_inputs (at @ [name]) node else Inr []
       | InputOther \<Rightarrow> Inr []) (\<lambda>found.
     rbind (collect_input_entries at rest) (\<lambda>others. Inr (found @ others)))"

definition le_bytes :: "nat \<Rightarrow> nat \<Rightarrow> string" where
  "le_bytes width n = map (\<lambda>k. char_of (n div 256 ^ k mod 256)) [0..<width]"

definition fingerprint_header :: string where
  "fingerprint_header = ''pam-desktop-startup-snapshot-v1'' @ [CHR 0x00]"

definition to_string_lossy :: "string \<Rightarrow> string" where
  "to_string_lossy s = map char_of (utf8_encode (str_chars s))"

text \<open>The bytes that are hashed for one file; the length is eight bytes, the lowest first.\<close>

definition fingerprint_part :: "string list \<times> string \<Rightarrow> string" where
  "fingerprint_part input =
     (case input of (path, content) \<Rightarrow> to_string_lossy (join_slash path) @ [CHR 0x00] @ le_bytes 8 (length content) @ content)"

fun read_inputs :: "(string list \<times> string option) list \<Rightarrow> string + (string list \<times> string) list" where
  "read_inputs [] = Inr []"
| "read_inputs ((path, None) # rest) = Inl ''cannot fingerprint''"
| "read_inputs ((path, Some content) # rest) = rbind (read_inputs rest) (\<lambda>others. Inr ((path, content) # others))"

definition project_inputs :: "input_node \<Rightarrow> string + (string list \<times> string) list" where
  "project_inputs root = rbind (collect_inputs [] root) (\<lambda>candidates. read_inputs (sort_key fst candidates))"

definition fingerprint_material :: "(string list \<times> string) list \<Rightarrow> string" where
  "fingerprint_material inputs = fingerprint_header @ concat (map fingerprint_part inputs)"

definition project_fingerprint :: "(string \<Rightarrow> string) \<Rightarrow> input_node \<Rightarrow> string + string" where
  "project_fingerprint sha256 root =
     rbind (project_inputs root) (\<lambda>inputs. Inr (sha256 (fingerprint_material inputs)))"

section \<open>The snapshot file\<close>

definition SNAPSHOT_SCHEMA :: u16 where "SNAPSHOT_SCHEMA = 1"

record SnapshotFile =
  sx_schema :: u16
  sx_protocol :: u16
  sx_project_fingerprint :: string
  sx_bootstrap :: Bootstrap

record StartupSnapshot =
  ssn_path :: string
  ssn_fingerprint :: string

record snapshot_env =
  su_os :: string
  su_variables :: "string \<Rightarrow> string option"
  su_sha256 :: "string \<Rightarrow> string"
  su_encode :: "SnapshotFile \<Rightarrow> string option"
  su_decode :: "string \<Rightarrow> SnapshotFile option"
  su_fs :: filesystem
  su_parse_url :: url_parser
  su_debug :: bool
  su_readable :: bool
  su_removes :: bool
  su_restricts :: bool
  su_write :: write_env

definition cache_root :: "snapshot_env \<Rightarrow> string + string" where
  "cache_root e =
     (let base =
        (if su_os e = ''windows'' then su_variables e ''LOCALAPPDATA''
         else if su_os e = ''macos''
         then map_option (\<lambda>home. path_join home ''Library/Caches'') (su_variables e ''HOME'')
         else (case su_variables e ''XDG_CACHE_HOME'' of
             Some directory \<Rightarrow> Some directory
           | None \<Rightarrow> map_option (\<lambda>home. path_join home ''.cache'') (su_variables e ''HOME'')))
      in case base of
          None \<Rightarrow> Inl ''cannot locate operating-system cache directory''
        | Some directory \<Rightarrow> Inr directory)"

definition snapshot_path :: "snapshot_env \<Rightarrow> string \<Rightarrow> string + string" where
  "snapshot_path e root =
     (case fs_canonicalize (su_fs e) root of
        None \<Rightarrow> Inl ''cannot identify project for startup snapshot''
      | Some canonical \<Rightarrow>
          rbind (cache_root e) (\<lambda>cache.
            Inr (path_join (path_join cache ''pam-desktop/snapshots'') (su_sha256 e canonical @ ''.json''))))"

definition snapshot_prepare :: "snapshot_env \<Rightarrow> Project \<Rightarrow> input_node \<Rightarrow> string + StartupSnapshot" where
  "snapshot_prepare e project tree =
     rbind (snapshot_path e (pj_root project)) (\<lambda>path.
     rbind (project_fingerprint (su_sha256 e) tree) (\<lambda>fingerprint.
       Inr \<lparr>ssn_path = path, ssn_fingerprint = fingerprint\<rparr>))"

definition snapshot_load :: "snapshot_env \<Rightarrow> Project \<Rightarrow> StartupSnapshot \<Rightarrow> published_file \<Rightarrow> Bootstrap option" where
  "snapshot_load e project s f =
     (case (if su_readable e then pf_current f else None) of
        None \<Rightarrow> None
      | Some bytes \<Rightarrow>
          (case su_decode e bytes of
             None \<Rightarrow> None
           | Some x \<Rightarrow>
               if sx_schema x \<noteq> SNAPSHOT_SCHEMA \<or> sx_protocol x \<noteq> PROTOCOL_VERSION \<or>
                  sx_project_fingerprint x \<noteq> ssn_fingerprint s \<or>
                  project_validate_bootstrap (su_fs e) (su_parse_url e) (su_debug e) project (sx_bootstrap x) \<noteq> Inr () \<or>
                  \<not> ws_startup_snapshot (bs_workstation (sx_bootstrap x))
               then None else Some (sx_bootstrap x)))"

definition snapshot_remove :: "snapshot_env \<Rightarrow> published_file \<Rightarrow> published_file \<times> (string + unit)" where
  "snapshot_remove e f =
     (if pf_current f = None then (f, Inr ())
      else if su_removes e then (f\<lparr>pf_current := None\<rparr>, Inr ())
      else (f, Inl ''cannot remove disabled startup snapshot''))"

definition snapshot_publish ::
    "snapshot_env \<Rightarrow> StartupSnapshot \<Rightarrow> Bootstrap \<Rightarrow> published_file \<Rightarrow> published_file \<times> (string + unit)" where
  "snapshot_publish e s b f =
     (if \<not> ws_startup_snapshot (bs_workstation b) then snapshot_remove e f
      else case su_encode e \<lparr>sx_schema = SNAPSHOT_SCHEMA, sx_protocol = PROTOCOL_VERSION,
          sx_project_fingerprint = ssn_fingerprint s, sx_bootstrap = b\<rparr> of
        None \<Rightarrow> (f, Inl ''cannot encode startup snapshot'')
      | Some bytes \<Rightarrow>
          if \<not> we_directory (su_write e) then (f, Inl ''cannot create startup snapshot directory'')
          else if \<not> su_restricts e then (f, Inl ''cannot restrict startup snapshot directory'')
          else (case write_temporary (su_write e) bytes f of
              (f, False) \<Rightarrow> (f, Inl ''cannot persist startup snapshot'')
            | (f, True) \<Rightarrow>
                (case rename_temporary (su_write e) f of
                   (f, False) \<Rightarrow> (f, Inl ''cannot publish startup snapshot'')
                 | (f, True) \<Rightarrow> (f, Inr ()))))"

section \<open>The runtime\<close>

text \<open>
  \<open>started\<close> is what \<open>WorkerSupervisor::start\<close> returns; in \<open>Starting\<close> it is the result of the thread, None
  when the thread panicked.
\<close>

datatype SupervisorPreparation = ReadySupervisor WorkerSupervisor | StartingSupervisor "(string + WorkerSupervisor) option"

record DesktopRuntime =
  dr_project :: Project
  dr_supervisor :: SupervisorPreparation
  dr_bootstrap :: Bootstrap
  dr_snapshot_hit :: bool
  dr_startup_snapshot :: "StartupSnapshot option"

definition runtime_prepare ::
    "snapshot_env \<Rightarrow> Project \<Rightarrow> input_node \<Rightarrow> string + WorkerSupervisor \<Rightarrow> published_file \<Rightarrow>
     published_file \<times> (string + DesktopRuntime)" where
  "runtime_prepare e project tree started f =
     (case snapshot_prepare e project tree of
        Inl m \<Rightarrow> (f, Inl m)
      | Inr snapshot \<Rightarrow>
          let cached = snapshot_load e project snapshot f in
          (case started of
             Inl m \<Rightarrow> (f, Inl m)
           | Inr supervisor \<Rightarrow>
               let b = sv_bootstrap supervisor in
               (case project_validate_bootstrap (su_fs e) (su_parse_url e) (su_debug e) project b of
                  Inl m \<Rightarrow> (f, Inl m)
                | Inr _ \<Rightarrow>
                    (case snapshot_publish e snapshot b f of
                       (f, Inl m) \<Rightarrow> (f, Inl m)
                     | (f, Inr _) \<Rightarrow>
                         (f, Inr \<lparr>dr_project = project, dr_supervisor = ReadySupervisor supervisor, dr_bootstrap = b,
                           dr_snapshot_hit = (cached = Some b), dr_startup_snapshot = None\<rparr>)))))"

definition prepare_interactive ::
    "snapshot_env \<Rightarrow> Project \<Rightarrow> input_node \<Rightarrow> bool \<Rightarrow> (string + WorkerSupervisor) option \<Rightarrow> published_file \<Rightarrow>
     published_file \<times> (string + DesktopRuntime)" where
  "prepare_interactive e project tree spawns joined f =
     (case snapshot_prepare e project tree of
        Inl m \<Rightarrow> (f, Inl m)
      | Inr snapshot \<Rightarrow>
          (case snapshot_load e project snapshot f of
             None \<Rightarrow>
               runtime_prepare e project tree
                 (case joined of None \<Rightarrow> Inl ''panicked'' | Some started \<Rightarrow> started) f
           | Some b \<Rightarrow>
               if \<not> spawns then (f, Inl ''cannot start parallel PHP bootstrap'')
               else (f, Inr \<lparr>dr_project = project, dr_supervisor = StartingSupervisor joined, dr_bootstrap = b,
                   dr_snapshot_hit = True, dr_startup_snapshot = Some snapshot\<rparr>)))"

definition join_supervisor :: "SupervisorPreparation \<Rightarrow> string + WorkerSupervisor" where
  "join_supervisor preparation =
     (case preparation of
        ReadySupervisor supervisor \<Rightarrow> Inr supervisor
      | StartingSupervisor None \<Rightarrow> Inl ''parallel PHP bootstrap thread panicked''
      | StartingSupervisor (Some started) \<Rightarrow> started)"

definition into_worker_parts :: "snapshot_env \<Rightarrow> DesktopRuntime \<Rightarrow> string + Project \<times> WorkerSupervisor \<times> Bootstrap" where
  "into_worker_parts e r =
     rbind (join_supervisor (dr_supervisor r)) (\<lambda>supervisor.
     rbind (project_validate_bootstrap (su_fs e) (su_parse_url e) (su_debug e) (dr_project r) (sv_bootstrap supervisor)) (\<lambda>_.
       Inr (dr_project r, supervisor, sv_bootstrap supervisor)))"

definition into_parts ::
    "snapshot_env \<Rightarrow> DesktopRuntime \<Rightarrow> published_file \<Rightarrow>
     published_file \<times> (string + Project \<times> WorkerSupervisor \<times> Bootstrap \<times> bool)" where
  "into_parts e r f =
     (case join_supervisor (dr_supervisor r) of
        Inl m \<Rightarrow> (f, Inl m)
      | Inr supervisor \<Rightarrow>
          let b = sv_bootstrap supervisor in
          (case project_validate_bootstrap (su_fs e) (su_parse_url e) (su_debug e) (dr_project r) b of
             Inl m \<Rightarrow> (f, Inl m)
           | Inr _ \<Rightarrow>
               (case (case dr_startup_snapshot r of None \<Rightarrow> (f, Inr ()) | Some s \<Rightarrow> snapshot_publish e s b f) of
                  (f, Inl m) \<Rightarrow> (f, Inl m)
                | (f, Inr _) \<Rightarrow>
                    (f, Inr (dr_project r, supervisor, b, dr_snapshot_hit r \<and> dr_bootstrap r = b)))))"

text \<open>The None is the panic of \<open>expect\<close>, or of the index into the windows.\<close>

definition runtime_entry :: "snapshot_env \<Rightarrow> DesktopRuntime \<Rightarrow> string option" where
  "runtime_entry e r =
     (case bs_windows (dr_bootstrap r) of
        [] \<Rightarrow> None
      | window # _ \<Rightarrow>
          (case resolve_entry (su_fs e) (dr_project r) (wc_entry window) of Inl _ \<Rightarrow> None | Inr path \<Rightarrow> Some path))"

definition worker_generation :: "DesktopRuntime \<Rightarrow> u64" where
  "worker_generation r = (case dr_supervisor r of ReadySupervisor supervisor \<Rightarrow> sv_generation supervisor | _ \<Rightarrow> 0)"

section \<open>Fingerprints\<close>

definition le_value :: "string \<Rightarrow> nat" where
  "le_value bytes = foldr (\<lambda>c n. byte c + 256 * n) bytes 0"

lemma le_bytes_Suc: "le_bytes (Suc width) n = char_of (n mod 256) # le_bytes width (n div 256)"
proof -
  have "[0..<Suc width] = 0 # map Suc [0..<width]" by (simp add: map_Suc_upt upt_conv_Cons)
  then show ?thesis by (simp add: le_bytes_def div_mult2_eq del: upt_Suc)
qed

lemma le_value_bytes: "le_value (le_bytes width n) = n mod 256 ^ width"
proof (induction width arbitrary: n)
  case (Suc width)
  then show ?case
    by (simp add: le_bytes_Suc le_value_def byte_def mod_mult2_eq)
qed (simp add: le_bytes_def le_value_def)

lemma length_le_bytes [simp]: "length (le_bytes width n) = width"
  by (simp add: le_bytes_def)

lemma to_string_lossy_utf8: "is_utf8 s \<Longrightarrow> to_string_lossy s = s"
  by (simp add: to_string_lossy_def is_utf8_def byte_def comp_def)

definition hashable :: "string list \<times> string \<Rightarrow> bool" where
  "hashable input \<longleftrightarrow> (case input of (path, content) \<Rightarrow>
     path \<noteq> [] \<and> list_all (\<lambda>n. n \<noteq> [] \<and> slash \<notin> set n \<and> CHR 0x00 \<notin> set n) path \<and>
     is_utf8 (join_slash path) \<and> length content < 2 ^ 64)"

lemma hashable_names: "hashable (p, c) \<Longrightarrow> p \<noteq> [] \<and> list_all (\<lambda>n. slash \<notin> set n) p"
  by (simp add: hashable_def list_all_iff)

lemma join_slash_no_nul:
  "list_all (\<lambda>n. CHR 0x00 \<notin> set n) path \<Longrightarrow> CHR 0x00 \<notin> set (join_slash path)"
  by (induction path rule: join_slash.induct) (auto simp: slash_def)

lemma fingerprint_part_unique:
  assumes "hashable (p, c)" "hashable (q, d)" "fingerprint_part (p, c) @ xs = fingerprint_part (q, d) @ ys"
  shows "p = q \<and> c = d \<and> xs = ys"
proof -
  have nul: "CHR 0x00 \<notin> set (join_slash p)" "CHR 0x00 \<notin> set (join_slash q)"
    using assms(1,2) by (auto simp: hashable_def list_all_iff intro!: join_slash_no_nul)
  have lossy: "to_string_lossy (join_slash p) = join_slash p" "to_string_lossy (join_slash q) = join_slash q"
    using assms(1,2) by (simp_all add: hashable_def to_string_lossy_utf8)
  have split: "split_once (CHR 0x00) (join_slash r @ [CHR 0x00] @ rest) = Some (join_slash r, rest)"
    if "CHR 0x00 \<notin> set (join_slash r)" for r rest
    using that by (simp add: split_once_Some_iff)
  let ?c = "le_bytes 8 (length c) @ c @ xs" and ?d = "le_bytes 8 (length d) @ d @ ys"
  have "join_slash p @ [CHR 0x00] @ ?c = join_slash q @ [CHR 0x00] @ ?d"
    using assms(3) by (simp add: fingerprint_part_def lossy)
  then have "(join_slash p, ?c) = (join_slash q, ?d)"
    using split [OF nul(1), of ?c] split [OF nul(2), of ?d] by (simp only: option.inject)
  then have names: "join_slash p = join_slash q" and "?c = ?d" by (simp_all only: prod.inject)
  then have rest: "le_bytes 8 (length c) = le_bytes 8 (length d)" "c @ xs = d @ ys"
    using append_eq_append_conv [of "le_bytes 8 (length c)" "le_bytes 8 (length d)" "c @ xs" "d @ ys"]
    by (simp_all only: length_le_bytes simp_thms)
  have "length c mod 256 ^ 8 = length d mod 256 ^ 8"
    unfolding le_value_bytes [symmetric] rest(1) ..
  moreover have "(256 :: nat) ^ 8 = 2 ^ 64" by simp
  ultimately have "length c = length d"
    using assms(1,2) by (simp only: hashable_def prod.case mod_less)
  moreover have "split_on slash (join_slash p) = p" "split_on slash (join_slash q) = q"
    using hashable_names [OF assms(1)] hashable_names [OF assms(2)] by (simp_all add: split_join_slash)
  then have "p = q" by (metis names)
  ultimately show ?thesis using rest(2) by simp
qed

text \<open>
  Two projects are hashed as the same bytes exactly when they have the same inputs: the same names
  and the same contents, file by file.  So the host only uses a snapshot for other inputs if two
  different byte strings have the same SHA-256.
\<close>
theorem fingerprint_determines_inputs:
  assumes "list_all hashable as" "list_all hashable bs"
  shows "fingerprint_material as = fingerprint_material bs \<longleftrightarrow> as = bs"
proof -
  have nonempty: "fingerprint_part i \<noteq> []" for i by (cases i) (simp add: fingerprint_part_def)
  have "concat (map fingerprint_part as) = concat (map fingerprint_part bs) \<Longrightarrow> as = bs"
    using assms
  proof (induction as arbitrary: bs)
    case Nil
    then show ?case using nonempty by (cases bs) auto
  next
    case (Cons a as)
    then obtain b bs' where bs: "bs = b # bs'" using nonempty [of a] by (cases bs) auto
    obtain p c q d where ab: "a = (p, c)" "b = (q, d)" by (cases a, cases b)
    have "p = q \<and> c = d \<and> concat (map fingerprint_part as) = concat (map fingerprint_part bs')"
      using Cons.prems by (intro fingerprint_part_unique) (simp_all add: bs ab)
    then show ?case using Cons.IH [of bs'] Cons.prems by (simp add: bs ab)
  qed
  then show ?thesis by (auto simp: fingerprint_material_def)
qed

theorem fingerprint_determines_inputs_witness:
  "fingerprint_material [([''app.php''], ''1'')] \<noteq> fingerprint_material [([''app.php''], ''2'')]"
proof -
  have "is_utf8 ''app.php''" by (rule ascii_is_utf8) (simp add: byte_def)
  then have "list_all hashable [([''app.php''], ''1'')]" "list_all hashable [([''app.php''], ''2'')]"
    by (simp_all add: hashable_def slash_def)
  from fingerprint_determines_inputs [OF this] show ?thesis by simp
qed

section \<open>Snapshots\<close>

definition snapshot_content :: "snapshot_env \<Rightarrow> StartupSnapshot \<Rightarrow> Bootstrap \<Rightarrow> string option" where
  "snapshot_content e s b =
     (if ws_startup_snapshot (bs_workstation b)
      then su_encode e \<lparr>sx_schema = SNAPSHOT_SCHEMA, sx_protocol = PROTOCOL_VERSION,
        sx_project_fingerprint = ssn_fingerprint s, sx_bootstrap = b\<rparr>
      else None)"

lemma snapshot_publish_Inr:
  "snapshot_publish e s b f = (f', Inr ()) \<Longrightarrow> pf_current f' = snapshot_content e s b"
  by (auto simp: snapshot_publish_def snapshot_remove_def snapshot_content_def write_temporary_def rename_temporary_def
      split: option.splits if_splits prod.splits bool.splits)

lemma snapshot_publish_Inl:
  "snapshot_publish e s b f = (f', Inl m) \<Longrightarrow> pf_current f' = pf_current f"
  by (auto simp: snapshot_publish_def snapshot_remove_def write_temporary_def rename_temporary_def
      split: option.splits if_splits prod.splits bool.splits)

interpretation snapshot_file: atomic_publication "\<lambda>w. snapshot_publish (e\<lparr>su_write := w\<rparr>) s" "snapshot_content e s" for e s
proof unfold_locales
  show "snapshot_publish (e\<lparr>su_write := w\<rparr>) s v f = (f', Inr ()) \<Longrightarrow> pf_current f' = snapshot_content e s v" for w v f f'
    by (drule snapshot_publish_Inr) (simp add: snapshot_content_def)
  show "snapshot_publish (e\<lparr>su_write := w\<rparr>) s v f = (f', Inl m) \<Longrightarrow> pf_current f' = pf_current f" for w v f f' m
    by (rule snapshot_publish_Inl)
qed

definition accepted_by :: "snapshot_env \<Rightarrow> Project \<Rightarrow> Bootstrap \<Rightarrow> bool" where
  "accepted_by e project b \<longleftrightarrow> project_validate_bootstrap (su_fs e) (su_parse_url e) (su_debug e) project b = Inr ()"

lemma snapshot_load_Some:
  "snapshot_load e project s f = Some b \<Longrightarrow> accepted_by e project b"
  by (auto simp: snapshot_load_def accepted_by_def split: option.splits if_splits)

text \<open>
  Whatever happens to a run while it publishes its snapshot, the next start reads either what was
  there before or exactly the bootstrap that was published, and the latter only while the inputs of the
  project have the same fingerprint.  A project that disables snapshots is never started from one.
\<close>
theorem published_snapshot_is_loaded:
  assumes codec: "\<And>x bytes. su_encode e x = Some bytes \<Longrightarrow> su_decode e bytes = Some x"
    and "su_readable e" and "accepted_by e project b"
    and publish: "snapshot_publish e s b f = (f', result)"
  shows "(result = Inr () \<and> ws_startup_snapshot (bs_workstation b) \<longrightarrow>
       snapshot_load e project s f' = Some b \<and>
       (ssn_fingerprint other \<noteq> ssn_fingerprint s \<longrightarrow> snapshot_load e project other f' = None)) \<and>
     (result = Inr () \<and> \<not> ws_startup_snapshot (bs_workstation b) \<longrightarrow> snapshot_load e project other f' = None) \<and>
     (result \<noteq> Inr () \<longrightarrow> snapshot_load e project other f' = snapshot_load e project other f)"
proof (cases result)
  case (Inl m)
  then have "pf_current f' = pf_current f" using publish snapshot_publish_Inl by metis
  then show ?thesis using Inl by (simp add: snapshot_load_def)
next
  case (Inr u)
  then have content: "pf_current f' = snapshot_content e s b" using publish snapshot_publish_Inr by (metis (full_types) old.unit.exhaust)
  show ?thesis
  proof (cases "ws_startup_snapshot (bs_workstation b)")
    case True
    have "snapshot_content e s b \<noteq> None"
      using publish Inr True by (auto simp: snapshot_publish_def snapshot_content_def split: option.splits)
    then obtain bytes where bytes: "su_encode e \<lparr>sx_schema = SNAPSHOT_SCHEMA, sx_protocol = PROTOCOL_VERSION,
        sx_project_fingerprint = ssn_fingerprint s, sx_bootstrap = b\<rparr> = Some bytes" "pf_current f' = Some bytes"
      using content True by (auto simp: snapshot_content_def)
    then show ?thesis
      using codec [OF bytes(1)] assms(2,3) True Inr by (simp add: snapshot_load_def accepted_by_def)
  next
    case False
    then show ?thesis using Inr content by (simp add: snapshot_load_def snapshot_content_def)
  qed
qed

section \<open>Starting with and without a snapshot\<close>

text \<open>What follows the preparation, both in the interactive host and in \<open>run_desktop\<close>.\<close>

definition opened ::
    "snapshot_env \<Rightarrow> published_file \<times> (string + DesktopRuntime) \<Rightarrow>
     published_file \<times> (string + Project \<times> WorkerSupervisor \<times> Bootstrap \<times> bool)" where
  "opened e prepared = (case prepared of (f, Inl m) \<Rightarrow> (f, Inl m) | (f, Inr r) \<Rightarrow> into_parts e r f)"

text \<open>
  C20. A host that shows its windows from the snapshot while PHP starts ends up with the same parts as one
  that waits for PHP: the same project, worker and bootstrap, the same answer whether the snapshot was
  right, the same file and the same failure.  A snapshot is never used in the place of what the worker
  says.
\<close>
theorem interactive_start_is_transparent:
  "opened e (prepare_interactive e project tree True (Some started) f) = opened e (runtime_prepare e project tree started f)"
proof (cases "snapshot_prepare e project tree")
  case (Inr snapshot)
  show ?thesis
  proof (cases "snapshot_load e project snapshot f")
    case (Some cached)
    then show ?thesis
      using Inr
      by (cases started)
        (auto simp: opened_def prepare_interactive_def runtime_prepare_def into_parts_def join_supervisor_def Let_def
          split: sum.splits prod.splits)
  qed (simp add: prepare_interactive_def Inr)
qed (simp add: opened_def prepare_interactive_def runtime_prepare_def)

text \<open>
  C21. The first windows are only ever opened for a bootstrap that the project accepts, from the snapshot
  or from PHP, so that the entry of the first window exists: \<open>entry\<close> cannot panic.  After the start the
  host works with the bootstrap of the running worker, which the project accepts too.
\<close>
theorem opened_runtime_is_accepted:
  assumes "prepare_interactive e project tree spawns joined f = (f', Inr r)"
  shows "accepted_by e project (dr_bootstrap r) \<and> runtime_entry e r \<noteq> None \<and>
    (into_parts e r f' = (f'', Inr (project', supervisor, b, hit)) \<longrightarrow>
       project' = project \<and> b = sv_bootstrap supervisor \<and> accepted_by e project b \<and>
       (hit \<longrightarrow> dr_bootstrap r = b))"
proof -
  have r: "accepted_by e project (dr_bootstrap r) \<and> dr_project r = project"
    using assms
    by (auto simp: prepare_interactive_def runtime_prepare_def accepted_by_def Let_def
        dest: snapshot_load_Some [unfolded accepted_by_def] split: sum.splits option.splits prod.splits if_splits)
  then have "validate_bootstrap (su_parse_url e) (su_debug e) (dr_bootstrap r) = Inr ()"
    and entries: "\<forall>w \<in> set (bs_windows (dr_bootstrap r)). \<exists>path. resolve_entry (su_fs e) project (wc_entry w) = Inr path"
    by (auto simp: accepted_by_def project_validate_bootstrap_def result_simps split: sum.splits)
  then obtain w ws where "bs_windows (dr_bootstrap r) = w # ws"
    using validate_bootstrap_parts(7) [of "su_parse_url e" "su_debug e" "dr_bootstrap r"]
    by (cases "bs_windows (dr_bootstrap r)") auto
  with entries r have "runtime_entry e r \<noteq> None"
    by (auto simp: runtime_entry_def)
  moreover have "into_parts e r f' = (f'', Inr (project', supervisor, b, hit)) \<longrightarrow>
       project' = project \<and> b = sv_bootstrap supervisor \<and> accepted_by e project b \<and> (hit \<longrightarrow> dr_bootstrap r = b)"
    using r by (auto simp: into_parts_def accepted_by_def Let_def split: sum.splits prod.splits)
  ultimately show ?thesis using r by blast
qed

section \<open>Witnesses\<close>

definition sample_snapshot :: StartupSnapshot where
  "sample_snapshot = \<lparr>ssn_path = ''/c/s.json'', ssn_fingerprint = ''f''\<rparr>"

definition sample_snapshot_file :: SnapshotFile where
  "sample_snapshot_file = \<lparr>sx_schema = SNAPSHOT_SCHEMA, sx_protocol = PROTOCOL_VERSION,
     sx_project_fingerprint = ''f'', sx_bootstrap = sample_bootstrap\<rparr>"

definition sample_snapshot_env :: snapshot_env where
  "sample_snapshot_env =
     \<lparr>su_os = ''linux'', su_variables = [''XDG_CACHE_HOME'' \<mapsto> ''/c''], su_sha256 = (\<lambda>_. ''f''),
      su_encode = (\<lambda>x. if x = sample_snapshot_file then Some ''{}'' else None),
      su_decode = (\<lambda>bytes. if bytes = ''{}'' then Some sample_snapshot_file else None),
      su_fs = sample_fs, su_parse_url = (\<lambda>_. None), su_debug = False, su_readable = True, su_removes = True,
      su_restricts = True, su_write = \<lparr>we_directory = True, we_opens = True, we_breaks = None, we_renames = True\<rparr>\<rparr>"

lemma sample_accepted: "accepted_by sample_snapshot_env sample_project sample_bootstrap"
proof -
  have "project_validate_bootstrap sample_fs (\<lambda>_. None) False sample_project sample_bootstrap = Inr ()"
    by (simp add: project_validate_bootstrap_def sample_bootstrap_valid,
        simp add: sample_bootstrap_def sample_window_def sample_manifest_def sample_plugin_def sample_resolutions)
  then show ?thesis by (simp add: accepted_by_def sample_snapshot_env_def)
qed

lemma sample_snapshot_codec:
  "su_encode sample_snapshot_env x = Some bytes \<Longrightarrow> su_decode sample_snapshot_env bytes = Some x"
  by (auto simp: sample_snapshot_env_def split: if_splits)

lemma sample_keeps_snapshot: "ws_startup_snapshot (bs_workstation sample_bootstrap)"
  by (simp add: sample_bootstrap_def sample_workstation_def WorkstationConfig_default_def)

lemma sample_published:
  "snapshot_publish sample_snapshot_env sample_snapshot sample_bootstrap \<lparr>pf_current = None, pf_temporary = None\<rparr> =
     (\<lparr>pf_current = Some ''{}'', pf_temporary = None\<rparr>, Inr ())"
  by (simp add: snapshot_publish_def sample_keeps_snapshot,
      simp add: sample_snapshot_env_def sample_snapshot_def sample_snapshot_file_def write_temporary_def
        rename_temporary_def)

theorem published_snapshot_is_loaded_witness:
  "snapshot_load sample_snapshot_env sample_project sample_snapshot \<lparr>pf_current = Some ''{}'', pf_temporary = None\<rparr> =
     Some sample_bootstrap"
proof -
  have "su_readable sample_snapshot_env" by (simp add: sample_snapshot_env_def)
  from published_snapshot_is_loaded [OF sample_snapshot_codec this sample_accepted sample_published, of sample_snapshot]
  show ?thesis using sample_keeps_snapshot by blast
qed

lemma sample_prepared:
  "prepare_interactive sample_snapshot_env sample_project (InputDirectory (Some [])) True None
     \<lparr>pf_current = Some ''{}'', pf_temporary = None\<rparr> =
   (\<lparr>pf_current = Some ''{}'', pf_temporary = None\<rparr>,
    Inr \<lparr>dr_project = sample_project, dr_supervisor = StartingSupervisor None, dr_bootstrap = sample_bootstrap,
      dr_snapshot_hit = True, dr_startup_snapshot = Some \<lparr>ssn_path =
        path_join (path_join ''/c'' ''pam-desktop/snapshots'') ''f.json'', ssn_fingerprint = ''f''\<rparr>\<rparr>)"
proof -
  have "snapshot_prepare sample_snapshot_env sample_project (InputDirectory (Some [])) =
      Inr \<lparr>ssn_path = path_join (path_join ''/c'' ''pam-desktop/snapshots'') ''f.json'', ssn_fingerprint = ''f''\<rparr>"
    by (simp add: snapshot_prepare_def snapshot_path_def cache_root_def project_fingerprint_def project_inputs_def
        sample_snapshot_env_def sample_fs_def)
  moreover have "snapshot_load sample_snapshot_env sample_project
      \<lparr>ssn_path = path_join (path_join ''/c'' ''pam-desktop/snapshots'') ''f.json'', ssn_fingerprint = ''f''\<rparr>
      \<lparr>pf_current = Some ''{}'', pf_temporary = None\<rparr> = Some sample_bootstrap"
    using sample_accepted sample_keeps_snapshot
    by (simp add: snapshot_load_def accepted_by_def, simp add: sample_snapshot_env_def sample_snapshot_file_def)
  ultimately show ?thesis by (simp add: prepare_interactive_def)
qed

theorem opened_runtime_is_accepted_witness:
  "accepted_by sample_snapshot_env sample_project sample_bootstrap"
  using opened_runtime_is_accepted [OF sample_prepared] by simp

end
