(* ===== verification/Agent.thy ===== *)
theory Agent
  imports Startup
begin

text \<open>
  \<open>background_agent.rs\<close>: the process that runs the background jobs of an application without a window.
  The host starts it and waits for a marker file; the agent is a single instance of its own, which
  later processes stop by forwarding an argument to it.
\<close>

section \<open>Starting the agent\<close>

definition STOP_ARGUMENT :: string where "STOP_ARGUMENT = ''--pam-agent-stop''"

definition READY_MARKER :: string where "READY_MARKER = ''PAM-DESKTOP-AGENT-READY-1'' @ [CHR 0x0A]"

definition READY_TIMEOUT :: nat where "READY_TIMEOUT = 15000"

text \<open>
  One round of the loop: what reading the marker gives, what \<open>try_wait\<close> says, and the time that passes
  beyond the 25 milliseconds of the pause.
\<close>

datatype marker = NoMarker | Marker string | MarkerFails

record agent_round =
  ag_marker :: marker
  ag_exit :: "string + string option"
  ag_extra :: nat

datatype agent_effect = SpawnAgent string | KillAgent | ReapAgent | RemoveMarker

function agent_loop :: "nat \<Rightarrow> nat \<Rightarrow> nat \<Rightarrow> (nat \<Rightarrow> agent_round) \<Rightarrow> agent_effect list \<times> (string + unit)" where
  "agent_loop deadline now k rounds =
     (case ag_marker (rounds k) of
        Marker content \<Rightarrow>
          if content = READY_MARKER then ([RemoveMarker], Inr ())
          else ([KillAgent, RemoveMarker], Inl ''background agent returned an invalid readiness marker'')
      | MarkerFails \<Rightarrow> ([KillAgent], Inl ''cannot read background agent readiness'')
      | NoMarker \<Rightarrow>
          (case ag_exit (rounds k) of
             Inl e \<Rightarrow> ([], Inl ''cannot inspect background agent startup'')
           | Inr (Some status) \<Rightarrow> ([RemoveMarker], Inl ''background agent exited before readiness'')
           | Inr None \<Rightarrow>
               if now \<ge> deadline
               then ([KillAgent, ReapAgent, RemoveMarker], Inl ''did not become ready within 15 seconds'')
               else agent_loop deadline (now + 25 + ag_extra (rounds k)) (Suc k) rounds))"
  by pat_completeness auto
termination
  by (relation "measure (\<lambda>(deadline, now, k, rounds). deadline - now)") auto

declare agent_loop.simps [simp del]

record agent_env =
  ag_child :: bool
  ag_executable :: "string option"
  ag_random :: "u8 list option"
  ag_process :: u32
  ag_temp_dir :: string
  ag_spawns :: bool
  ag_now :: nat
  ag_rounds :: "nat \<Rightarrow> agent_round"

definition readiness_path :: "agent_env \<Rightarrow> string + string" where
  "readiness_path e =
     (case ag_random e of
        None \<Rightarrow> Inl ''cannot generate background agent readiness token''
      | Some random \<Rightarrow>
          Inr (path_join (ag_temp_dir e)
            (''pam-desktop-agent-ready-'' @ decimal (unat (ag_process e)) @ ''-'' @ encode_hex random)))"

definition spawn_agent :: "agent_env \<Rightarrow> agent_effect list \<times> (string + unit)" where
  "spawn_agent e =
     (if ag_child e then ([], Inr ())
      else case ag_executable e of
        None \<Rightarrow> ([], Inl ''cannot locate desktop agent executable'')
      | Some executable \<Rightarrow>
          (case readiness_path e of
             Inl m \<Rightarrow> ([], Inl m)
           | Inr readiness \<Rightarrow>
               if \<not> ag_spawns e then ([SpawnAgent readiness], Inl ''cannot start background agent'')
               else (case agent_loop (ag_now e + READY_TIMEOUT) (ag_now e) 0 (ag_rounds e) of
                   (effects, result) \<Rightarrow> (SpawnAgent readiness # effects, result))))"

section \<open>The agent\<close>

text \<open>
  \<open>publish_readiness\<close> makes a new file and then writes it: what a reader of the path sees, one content
  after the other, and whether the whole call succeeds.
\<close>

definition publish_readiness :: "string option \<Rightarrow> bool \<Rightarrow> nat option \<Rightarrow> marker list \<times> (string + unit)" where
  "publish_readiness variable creates breaks =
     (case variable of
        None \<Rightarrow> ([], Inr ())
      | Some _ \<Rightarrow>
          if \<not> creates then ([], Inl ''cannot publish background agent readiness'')
          else case breaks of
            Some n \<Rightarrow> ([Marker [], Marker (take n READY_MARKER)], Inl ''cannot persist background agent readiness'')
          | None \<Rightarrow> ([Marker [], Marker READY_MARKER], Inr ()))"

definition stop_requested :: "Activation \<Rightarrow> bool" where
  "stop_requested activation \<longleftrightarrow> list_ex (\<lambda>a. a = STOP_ARGUMENT) (ac_arguments activation)"

datatype run_event = AcquireAgent string | ListenAgent | PrepareServices | StartJobs | PublishReadiness | AwaitStop | DropAgent

text \<open>
  The failures of the parts that \<open>run\<close> starts, in its order, and the activations its listener handles
  until it ends.
\<close>

record agent_parts_env =
  ra_parts :: "string + Bootstrap"
  ra_instance :: "string + Instance"
  ra_listen :: "string + unit"
  ra_services :: "string + unit"
  ra_jobs :: "string + unit"
  ra_ready :: "string + unit"
  ra_activations :: "Activation list"

definition agent_id :: "Bootstrap \<Rightarrow> string" where
  "agent_id b = am_identifier (bs_manifest b) @ ''.agent''"

definition run_agent :: "agent_parts_env \<Rightarrow> run_event list \<times> (string + unit)" where
  "run_agent e =
     (case ra_parts e of
        Inl m \<Rightarrow> ([], Inl m)
      | Inr b \<Rightarrow>
          if \<not> ws_background_agent (bs_workstation b)
          then ([], Inl ''the desktop project has no background agent enabled'')
          else let acquired = AcquireAgent (agent_id b) in
            (case ra_instance e of
               Inl m \<Rightarrow> ([acquired], Inl m)
             | Inr ForwardedInstance \<Rightarrow> ([acquired, PublishReadiness], ra_ready e)
             | Inr PrimaryInstance \<Rightarrow>
                 (case ra_listen e of
                    Inl m \<Rightarrow> ([acquired, ListenAgent, DropAgent], Inl m)
                  | Inr _ \<Rightarrow>
                 (case ra_services e of
                    Inl m \<Rightarrow> ([acquired, ListenAgent, PrepareServices, DropAgent], Inl m)
                  | Inr _ \<Rightarrow>
                 (case ra_jobs e of
                    Inl m \<Rightarrow> ([acquired, ListenAgent, PrepareServices, StartJobs, DropAgent], Inl m)
                  | Inr _ \<Rightarrow>
                 (case ra_ready e of
                    Inl m \<Rightarrow>
                      ([acquired, ListenAgent, PrepareServices, StartJobs, PublishReadiness, DropAgent], Inl m)
                  | Inr _ \<Rightarrow>
                      ([acquired, ListenAgent, PrepareServices, StartJobs, PublishReadiness, AwaitStop, DropAgent],
                       if list_ex stop_requested (ra_activations e) then Inr ()
                       else Inl ''background agent control channel stopped'')))))))"

definition agent_stop ::
    "activation_codec \<Rightarrow> (string \<Rightarrow> string) \<Rightarrow> runtime_env \<Rightarrow> acquire_env \<Rightarrow> string \<Rightarrow> string + unit" where
  "agent_stop c sha256 e a application_id =
     rbind (snd (acquire c sha256 e a (application_id @ ''.agent'') [STOP_ARGUMENT])) (\<lambda>_. Inr ())"

section \<open>Readiness\<close>

definition still_starting :: "agent_round \<Rightarrow> bool" where
  "still_starting r \<longleftrightarrow> ag_marker r = NoMarker \<and> ag_exit r = Inr None"

primrec waited_until :: "nat \<Rightarrow> nat \<Rightarrow> (nat \<Rightarrow> agent_round) \<Rightarrow> nat \<Rightarrow> nat" where
  "waited_until now k rounds 0 = now"
| "waited_until now k rounds (Suc n) = waited_until (now + 25 + ag_extra (rounds k)) (Suc k) rounds n"

text \<open>The loop reaches round \<open>k + n\<close> and finds the marker there.\<close>

definition ready_at :: "nat \<Rightarrow> nat \<Rightarrow> nat \<Rightarrow> (nat \<Rightarrow> agent_round) \<Rightarrow> string \<Rightarrow> nat \<Rightarrow> bool" where
  "ready_at deadline now k rounds content n \<longleftrightarrow> ag_marker (rounds (k + n)) = Marker content \<and>
     (\<forall>j < n. still_starting (rounds (k + j)) \<and> waited_until now k rounds j < deadline)"

lemma ready_at_0: "ready_at deadline now k rounds content 0 \<longleftrightarrow> ag_marker (rounds k) = Marker content"
  by (simp add: ready_at_def)

lemma ready_at_Suc:
  "ready_at deadline now k rounds content (Suc n) \<longleftrightarrow> still_starting (rounds k) \<and> now < deadline \<and>
     ready_at deadline (now + 25 + ag_extra (rounds k)) (Suc k) rounds content n"
  by (auto simp: ready_at_def All_less_Suc2)

lemma agent_loop_ready:
  "agent_loop deadline now k rounds =
     (if content = READY_MARKER then ([RemoveMarker], Inr ())
      else ([KillAgent, RemoveMarker], Inl ''background agent returned an invalid readiness marker''))"
  if "ready_at deadline now k rounds content n"
  using that
proof (induction n arbitrary: now k)
  case 0
  then show ?case by (simp add: ready_at_0 agent_loop.simps)
next
  case (Suc n)
  then show ?case by (subst agent_loop.simps) (simp add: ready_at_Suc still_starting_def)
qed

text \<open>
  The outcome of the round in which the loop ends, at a time: only a round that is still starting
  before the deadline goes on.
\<close>

definition ends_in :: "nat \<Rightarrow> nat \<Rightarrow> agent_round \<Rightarrow> agent_effect list \<times> (string + unit) \<Rightarrow> bool" where
  "ends_in deadline now r result \<longleftrightarrow>
     (still_starting r \<longrightarrow> deadline \<le> now) \<and>
     (snd result = Inr () \<longleftrightarrow> ag_marker r = Marker READY_MARKER) \<and>
     (KillAgent \<in> set (fst result) \<longleftrightarrow>
        still_starting r \<or> ag_marker r = MarkerFails \<or>
        (\<exists>content. ag_marker r = Marker content \<and> content \<noteq> READY_MARKER))"

definition goes_on :: "nat \<Rightarrow> nat \<Rightarrow> nat \<Rightarrow> (nat \<Rightarrow> agent_round) \<Rightarrow> nat \<Rightarrow> bool" where
  "goes_on deadline now k rounds n \<longleftrightarrow>
     (\<forall>j < n. still_starting (rounds (k + j)) \<and> waited_until now k rounds j < deadline)"

lemma goes_on_Suc:
  "goes_on deadline now k rounds (Suc n) \<longleftrightarrow> still_starting (rounds k) \<and> now < deadline \<and>
     goes_on deadline (now + 25 + ag_extra (rounds k)) (Suc k) rounds n"
  by (auto simp: goes_on_def All_less_Suc2)

lemma agent_loop_ends:
  "\<exists>n. goes_on deadline now k rounds n \<and>
     ends_in deadline (waited_until now k rounds n) (rounds (k + n)) (agent_loop deadline now k rounds)"
proof (induction deadline now k rounds rule: agent_loop.induct)
  case (1 deadline now k rounds)
  show ?case
  proof (cases "still_starting (rounds k) \<and> now < deadline")
    case True
    then have "agent_loop deadline now k rounds = agent_loop deadline (now + 25 + ag_extra (rounds k)) (Suc k) rounds"
      by (subst agent_loop.simps) (simp add: still_starting_def)
    moreover from 1 True obtain n where "goes_on deadline (now + 25 + ag_extra (rounds k)) (Suc k) rounds n"
      "ends_in deadline (waited_until (now + 25 + ag_extra (rounds k)) (Suc k) rounds n) (rounds (Suc k + n))
        (agent_loop deadline (now + 25 + ag_extra (rounds k)) (Suc k) rounds)"
      by (auto simp: still_starting_def)
    ultimately show ?thesis
      using True by (intro exI [of _ "Suc n"]) (simp add: goes_on_Suc)
  next
    case False
    then have "ends_in deadline now (rounds k) (agent_loop deadline now k rounds)"
      by (auto simp: ends_in_def still_starting_def agent_loop.simps [of deadline now k]
          split: marker.splits sum.splits option.splits if_splits)
    then show ?thesis by (intro exI [of _ 0]) (simp add: goes_on_def)
  qed
qed

lemma waited_at_least: "now + 25 * n \<le> waited_until now k rounds n"
proof (induction n arbitrary: now k)
  case (Suc n)
  from Suc [of "now + 25 + ag_extra (rounds k)" "Suc k"] show ?case by simp
qed simp

lemma rounds_bounded:
  assumes "goes_on (now + timeout) now k rounds n"
  shows "25 * n \<le> timeout + 24"
proof (cases n)
  case (Suc m)
  then have "waited_until now k rounds m < now + timeout"
    using assms by (simp add: goes_on_def)
  with waited_at_least [of now m k rounds] Suc show ?thesis by simp
qed simp

text \<open>
  C22. The host waits at most 600 rounds of 25 milliseconds: it goes on only while the agent runs, has
  left no marker and the deadline has not passed.  In the round in which it stops, the agent counts as
  started exactly when the marker is complete, and it is killed exactly when the marker is wrong
  or cannot be read or the deadline has passed.  So an agent that did not start and was not killed
  left no marker and has exited, or could not be inspected.
\<close>
theorem agent_started_iff_ready:
  assumes "\<not> ag_child e" "ag_executable e = Some executable" "readiness_path e = Inr path" "ag_spawns e"
  shows "\<exists>n r. n \<le> 600 \<and> r = ag_rounds e n \<and>
    (\<forall>j < n. still_starting (ag_rounds e j) \<and>
       waited_until (ag_now e) 0 (ag_rounds e) j < ag_now e + READY_TIMEOUT) \<and>
    (still_starting r \<longrightarrow> ag_now e + READY_TIMEOUT \<le> waited_until (ag_now e) 0 (ag_rounds e) n) \<and>
    (snd (spawn_agent e) = Inr () \<longleftrightarrow> ag_marker r = Marker READY_MARKER) \<and>
    (KillAgent \<in> set (fst (spawn_agent e)) \<longleftrightarrow> still_starting r \<or> ag_marker r = MarkerFails \<or>
       (\<exists>content. ag_marker r = Marker content \<and> content \<noteq> READY_MARKER)) \<and>
    (snd (spawn_agent e) = Inr () \<or> KillAgent \<in> set (fst (spawn_agent e)) \<or>
       ag_marker r = NoMarker \<and> ag_exit r \<noteq> Inr None)"
proof -
  let ?deadline = "ag_now e + READY_TIMEOUT"
  let ?run = "agent_loop ?deadline (ag_now e) 0 (ag_rounds e)"
  obtain n where n: "goes_on ?deadline (ag_now e) 0 (ag_rounds e) n"
    "ends_in ?deadline (waited_until (ag_now e) 0 (ag_rounds e) n) (ag_rounds e n) ?run"
    using agent_loop_ends [of ?deadline "ag_now e" 0 "ag_rounds e"] by auto
  have spawn: "spawn_agent e = (SpawnAgent path # fst ?run, snd ?run)"
    using assms by (simp add: spawn_agent_def split: prod.splits)
  have "n \<le> 600" using rounds_bounded [OF n(1)] by (simp add: READY_TIMEOUT_def)
  moreover have "ag_marker (ag_rounds e n) = Marker READY_MARKER \<or> still_starting (ag_rounds e n) \<or>
      ag_marker (ag_rounds e n) = MarkerFails \<or>
      (\<exists>content. ag_marker (ag_rounds e n) = Marker content \<and> content \<noteq> READY_MARKER) \<or>
      ag_marker (ag_rounds e n) = NoMarker \<and> ag_exit (ag_rounds e n) \<noteq> Inr None"
    by (cases "ag_marker (ag_rounds e n)") (auto simp: still_starting_def)
  ultimately show ?thesis
    using n unfolding ends_in_def goes_on_def spawn
    by (intro exI [of _ n] exI [of _ "ag_rounds e n"]) simp
qed

definition sample_agent :: agent_env where
  "sample_agent = \<lparr>ag_child = False, ag_executable = Some ''/usr/bin/app'', ag_random = Some [], ag_process = 7,
     ag_temp_dir = ''/tmp'', ag_spawns = True, ag_now = 0,
     ag_rounds = (\<lambda>k. \<lparr>ag_marker = if k = 0 then NoMarker else Marker READY_MARKER, ag_exit = Inr None, ag_extra = 0\<rparr>)\<rparr>"

theorem agent_started_iff_ready_witness:
  "snd (spawn_agent sample_agent) = Inr () \<and> KillAgent \<notin> set (fst (spawn_agent sample_agent))"
proof -
  have "\<not> ag_child sample_agent" "ag_executable sample_agent = Some ''/usr/bin/app''"
    "readiness_path sample_agent =
       Inr (path_join ''/tmp'' (''pam-desktop-agent-ready-'' @ decimal (unat (7 :: u32)) @ ''-'' @ encode_hex []))"
    "ag_spawns sample_agent"
    by (simp_all add: sample_agent_def readiness_path_def)
  from agent_started_iff_ready [OF this] obtain n where n: "n \<le> 600"
    "still_starting (ag_rounds sample_agent n) \<longrightarrow>
       READY_TIMEOUT \<le> waited_until 0 0 (ag_rounds sample_agent) n"
    "snd (spawn_agent sample_agent) = Inr () \<longleftrightarrow> ag_marker (ag_rounds sample_agent n) = Marker READY_MARKER"
    "KillAgent \<in> set (fst (spawn_agent sample_agent)) \<longleftrightarrow> still_starting (ag_rounds sample_agent n) \<or>
       ag_marker (ag_rounds sample_agent n) = MarkerFails \<or>
       (\<exists>content. ag_marker (ag_rounds sample_agent n) = Marker content \<and> content \<noteq> READY_MARKER)"
    by (auto simp: sample_agent_def)
  have "n \<noteq> 0"
  proof
    assume "n = 0"
    with n(2) show False by (simp add: sample_agent_def still_starting_def READY_TIMEOUT_def)
  qed
  then have "ag_marker (ag_rounds sample_agent n) = Marker READY_MARKER"
    by (simp add: sample_agent_def)
  with n(3,4) show ?thesis by (auto simp: still_starting_def)
qed

text \<open>
  The agent makes its marker file before it writes the marker.  A host that reads the file in between
  kills the agent, although the agent publishes its readiness without an error.
\<close>

lemma readiness_race_kills_agent:
  assumes "ready_at deadline now 0 rounds [] n"
  shows "Marker [] \<in> set (fst (publish_readiness (Some path) True None)) \<and>
    snd (publish_readiness (Some path) True None) = Inr () \<and>
    KillAgent \<in> set (fst (agent_loop deadline now 0 rounds))"
  using agent_loop_ready [OF assms] by (simp add: publish_readiness_def READY_MARKER_def)

text \<open>The jobs run before the agent is called ready, and a stop that is handed over ends it in order.\<close>

lemma stop_ends_agent:
  assumes codec: "\<And>a payload. an_encode c a = Some payload \<Longrightarrow> an_decode c payload = Some a"
    and "activation_payload c [STOP_ARGUMENT] = Inr payload"
    and "ra_activations e = listen_loop (connection c) ((False, Stream (Some payload) True) # later)"
    and "AwaitStop \<in> set (fst (run_agent e))"
  shows "snd (run_agent e) = Inr () \<and> last (fst (run_agent e)) = DropAgent"
proof -
  have "\<lparr>ac_arguments = [STOP_ARGUMENT]\<rparr> \<in> set (ra_activations e)"
    using assms(2,3) codec by (auto simp: activation_payload_Inr connection_def)
  then have "list_ex stop_requested (ra_activations e)"
    unfolding list_ex_iff stop_requested_def by force
  then show ?thesis
    using assms(4) by (auto simp: run_agent_def Let_def split: sum.splits Instance.splits if_splits)
qed

end
