(* ===== verification/CrashReports.thy ===== *)
theory CrashReports
  imports NativeFiles
begin

text \<open>
  \<open>crash_report.rs\<close>: the panic hook writes a report into a directory of the application and keeps the
  last eight.  The directory is the list of its files in the order of \<open>read_dir\<close>.
\<close>

section \<open>Reports\<close>

definition MAX_REPORTS :: nat where "MAX_REPORTS = 8"

definition MAX_BACKTRACE_BYTES :: nat where "MAX_BACKTRACE_BYTES = 256 * 1024"

record CrashLocation =
  cl_file :: string
  cl_line :: u32
  cl_column :: u32

record CrashReport =
  ch_schema_version :: u8
  ch_surface_code :: u8
  ch_application_id :: string
  ch_host_version :: string
  ch_process_id :: u32
  ch_captured_at_unix_ms :: u64
  ch_thread :: string
  ch_location :: "CrashLocation option"
  ch_backtrace :: string

text \<open>\<open>String::truncate\<close> panics inside a character, here None.\<close>

definition is_char_boundary :: "nat \<Rightarrow> string \<Rightarrow> bool" where
  "is_char_boundary n s \<longleftrightarrow> n = 0 \<or> n = length s \<or> n < length s \<and> \<not> (128 \<le> byte (s ! n) \<and> byte (s ! n) < 192)"

definition truncate_string :: "nat \<Rightarrow> string \<Rightarrow> string option" where
  "truncate_string n s =
     (if n > length s then Some s else if is_char_boundary n s then Some (take n s) else None)"

definition bounded_backtrace :: "string \<Rightarrow> string option" where
  "bounded_backtrace backtrace =
     (if length backtrace > MAX_BACKTRACE_BYTES then truncate_string MAX_BACKTRACE_BYTES backtrace
      else Some backtrace)"

definition bounded_thread :: "string option \<Rightarrow> string" where
  "bounded_thread name =
     map char_of (utf8_encode (take 80 (str_chars (case name of None \<Rightarrow> ''unnamed'' | Some n \<Rightarrow> n))))"

record panic_env =
  pn_application :: string
  pn_version :: string
  pn_process :: u32
  pn_now :: u64
  pn_thread :: "string option"
  pn_location :: "CrashLocation option"
  pn_backtrace :: string
  pn_encode :: "CrashReport \<Rightarrow> string option"
  pn_opens :: bool
  pn_breaks :: "nat option"
  pn_renames :: bool
  pn_lists :: bool
  pn_removes :: "string \<Rightarrow> bool"

definition crash_report :: "panic_env \<Rightarrow> string \<Rightarrow> CrashReport" where
  "crash_report e backtrace =
     \<lparr>ch_schema_version = 1, ch_surface_code = 3, ch_application_id = pn_application e,
      ch_host_version = pn_version e, ch_process_id = pn_process e, ch_captured_at_unix_ms = pn_now e,
      ch_thread = bounded_thread (pn_thread e), ch_location = pn_location e, ch_backtrace = backtrace\<rparr>"

definition report_name :: "panic_env \<Rightarrow> string" where
  "report_name e = ''crash-'' @ decimal (unat (pn_now e)) @ ''-'' @ decimal (unat (pn_process e)) @ ''.json''"

type_synonym report_directory = "(string \<times> string) list"

definition is_report :: "string \<Rightarrow> bool" where
  "is_report name \<longleftrightarrow> is_utf8 name \<and> starts_with ''crash-'' name \<and>
     map_option to_ascii_lowercase (path_extension name) = Some ''json''"

definition reports_of :: "report_directory \<Rightarrow> string list" where
  "reports_of dir = sort (filter is_report (map fst dir))"

definition outdated_reports :: "report_directory \<Rightarrow> string list" where
  "outdated_reports dir = take (length (reports_of dir) - MAX_REPORTS) (reports_of dir)"

definition prune :: "panic_env \<Rightarrow> report_directory \<Rightarrow> report_directory \<times> (string + unit)" where
  "prune e dir =
     (if \<not> pn_lists e then (dir, Inl ''cannot list crash reports'')
      else (filter (\<lambda>(name, _). \<not> (name \<in> set (outdated_reports dir) \<and> pn_removes e name)) dir, Inr ()))"

text \<open>The outer None is a panic within the hook, which aborts the process.\<close>

definition write_report :: "panic_env \<Rightarrow> report_directory \<Rightarrow> (report_directory \<times> (string + unit)) option" where
  "write_report e dir =
     (case bounded_backtrace (pn_backtrace e) of
        None \<Rightarrow> None
      | Some backtrace \<Rightarrow>
          Some (case pn_encode e (crash_report e backtrace) of
              None \<Rightarrow> (dir, Inl ''cannot encode crash report'')
            | Some bytes \<Rightarrow>
                let temporary = report_name e @ ''.tmp'' in
                if \<not> pn_opens e \<or> temporary \<in> fst ` set dir then (dir, Inl ''cannot create crash report'')
                else case pn_breaks e of
                  Some n \<Rightarrow> (dir @ [(temporary, take n bytes)], Inl ''cannot persist crash report'')
                | None \<Rightarrow>
                    if \<not> pn_renames e then (dir @ [(temporary, bytes)], Inl ''cannot publish crash report'')
                    else prune e (AList.update (report_name e) bytes dir)))"

definition report_directory_path :: "string \<Rightarrow> (string \<Rightarrow> string option) \<Rightarrow> string \<Rightarrow> string + string" where
  "report_directory_path os env application_id =
     (let base =
        (if os = ''windows'' then env ''LOCALAPPDATA''
         else if os = ''macos''
         then map_option (\<lambda>home. path_join home ''Library/Application Support'') (env ''HOME'')
         else (case env ''XDG_STATE_HOME'' of
             Some directory \<Rightarrow> Some directory
           | None \<Rightarrow> map_option (\<lambda>home. path_join home ''.local/state'') (env ''HOME'')))
      in case base of
          None \<Rightarrow> Inl ''cannot locate operating-system state directory for crash reports''
        | Some directory \<Rightarrow>
            Inr (path_join (path_join (path_join directory ''pam-desktop'') application_id) ''crashes''))"

section \<open>What is kept\<close>

text \<open>
  A report that is written leaves at most eight in the directory, if old ones can be removed: those
  with the greatest names.  Files that are not reports are never touched, and neither are the reports
  that are kept.
\<close>
theorem crash_reports_are_bounded:
  assumes "prune e dir = (dir', Inr ())" "distinct (map fst dir)" "\<forall>name. pn_removes e name"
  shows "length (filter is_report (map fst dir')) = min MAX_REPORTS (length (filter is_report (map fst dir))) \<and>
    filter (\<lambda>f. \<not> is_report (fst f)) dir' = filter (\<lambda>f. \<not> is_report (fst f)) dir \<and>
    (\<forall>kept \<in> set dir'. \<forall>removed \<in> set dir - set dir'. is_report (fst kept) \<longrightarrow> fst removed < fst kept)"
proof -
  let ?reports = "reports_of dir" and ?n = "length (reports_of dir) - MAX_REPORTS"
  have reports: "sorted ?reports" "distinct ?reports" "set ?reports = {n \<in> fst ` set dir. is_report n}"
    using assms(2) by (auto simp: reports_of_def)
  have dir': "dir' = filter (\<lambda>f. fst f \<notin> set (take ?n ?reports)) dir"
    using assms(1,3) by (auto simp: prune_def outdated_reports_def split: if_splits intro!: filter_cong)
  have parts: "set (take ?n ?reports) \<inter> set (drop ?n ?reports) = {}"
    "set (take ?n ?reports) \<union> set (drop ?n ?reports) = set ?reports"
    using reports(2) by (simp_all add: set_take_disj_set_drop_if_distinct set_append [symmetric] del: set_append)
  have kept: "set (filter is_report (map fst dir')) = set (drop ?n ?reports)"
  proof -
    have "set (filter is_report (map fst dir')) = {n \<in> fst ` set dir. is_report n} - set (take ?n ?reports)"
      unfolding dir' by auto
    then show ?thesis using parts reports(3) by blast
  qed
  have "distinct (filter is_report (map fst dir'))"
    using assms(2) unfolding dir' by (simp add: distinct_map_filter)
  then have "length (filter is_report (map fst dir')) = length (drop ?n ?reports)"
    using kept distinct_card reports(2) by (metis distinct_drop)
  moreover have "filter (\<lambda>f. \<not> is_report (fst f)) dir' = filter (\<lambda>f. \<not> is_report (fst f)) dir"
    unfolding dir' using parts(2) reports(3) by (auto simp: filter_filter intro!: filter_cong)
  moreover have "fst removed < fst kept"
    if "kept \<in> set dir'" "removed \<in> set dir - set dir'" "is_report (fst kept)" for kept removed
  proof -
    have "fst removed \<in> set (take ?n ?reports)" "fst kept \<in> set (drop ?n ?reports)"
      using that parts reports(3) unfolding dir' by auto
    moreover have "sorted_wrt (<) (take ?n ?reports @ drop ?n ?reports)"
      using reports(1,2) by (simp add: strict_sorted_iff)
    ultimately show ?thesis unfolding sorted_wrt_append by blast
  qed
  ultimately show ?thesis by (simp add: reports_of_def)
qed

text \<open>
  The limit of a backtrace is a number of bytes.  When it falls within a character, such as one in the
  path of a source file, the hook itself panics, no report is written and the process is aborted.
\<close>

lemma truncation_can_panic:
  assumes "length backtrace > MAX_BACKTRACE_BYTES" "128 \<le> byte (backtrace ! MAX_BACKTRACE_BYTES)"
    "byte (backtrace ! MAX_BACKTRACE_BYTES) < 192" "pn_backtrace e = backtrace"
  shows "write_report e dir = None"
  using assms
  by (simp add: write_report_def bounded_backtrace_def truncate_string_def is_char_boundary_def MAX_BACKTRACE_BYTES_def)

definition sample_panic :: panic_env where
  "sample_panic = \<lparr>pn_application = ''a'', pn_version = ''1'', pn_process = 1, pn_now = 1, pn_thread = None,
     pn_location = None, pn_backtrace = [], pn_encode = (\<lambda>_. None), pn_opens = True, pn_breaks = None,
     pn_renames = True, pn_lists = True, pn_removes = (\<lambda>_. True)\<rparr>"

theorem crash_reports_are_bounded_witness:
  "length (filter is_report (map fst (fst (prune sample_panic [(''crash-1-1.json'', []), (''notes'', [])])))) \<le> MAX_REPORTS"
proof -
  have "distinct (map fst [(''crash-1-1.json'', []), (''notes'', [])])" by simp
  moreover have "\<forall>name. pn_removes sample_panic name" by (simp add: sample_panic_def)
  moreover obtain dir' where "prune sample_panic [(''crash-1-1.json'', []), (''notes'', [])] = (dir', Inr ())"
    by (simp add: prune_def sample_panic_def)
  ultimately show ?thesis using crash_reports_are_bounded by fastforce
qed

end
