(* ===== verification/Visual.thy ===== *)
theory Visual
  imports NativeFiles UpdatePublish
begin

text \<open>
  \<open>visual.rs\<close>: \<open>pam-desktop visual\<close> accepts a screenshot as golden image or compares one with it, pixel by
  pixel, and leaves evidence.  The PNG decoder is a parameter; what the command does to files is a list
  of effects.
\<close>

section \<open>The command line\<close>

datatype VisualAction = AcceptGolden | VerifyGolden

record VisualOptions =
  vo_action :: VisualAction
  vo_project :: string
  vo_name :: string
  vo_actual :: string
  vo_force :: bool

definition visual_usage :: string where "visual_usage = ''usage: pam-desktop visual accept|verify''"

record visual_scan =
  vs_project :: string
  vs_name :: "string option"
  vs_actual :: "string option"
  vs_force :: bool
  vs_positional :: bool

text \<open>\<open>next_utf8\<close>\<close>

definition utf8_value :: "string \<Rightarrow> string + string" where
  "utf8_value s = (case os_to_str s of None \<Rightarrow> Inl ''must contain valid UTF-8'' | Some v \<Rightarrow> Inr v)"

fun scan_visual :: "VisualAction \<Rightarrow> visual_scan \<Rightarrow> string list \<Rightarrow> string + visual_scan" where
  "scan_visual action scan [] = Inr scan"
| "scan_visual action scan (argument # rest) =
     (if \<not> is_utf8 argument then Inl visual_usage
      else if argument = ''--name'' \<or> argument = ''--actual'' then
        (case rest of
           [] \<Rightarrow> Inl visual_usage
         | v # rest \<Rightarrow> rbind (utf8_value v) (\<lambda>v.
             scan_visual action (if argument = ''--name'' then scan\<lparr>vs_name := Some v\<rparr>
               else scan\<lparr>vs_actual := Some v\<rparr>) rest))
      else if argument = ''--force'' \<and> action = AcceptGolden then scan_visual action (scan\<lparr>vs_force := True\<rparr>) rest
      else if \<not> starts_with ''-'' argument \<and> \<not> vs_positional scan
      then scan_visual action (scan\<lparr>vs_project := argument, vs_positional := True\<rparr>) rest
      else Inl visual_usage)"

definition valid_name :: "string \<Rightarrow> bool" where
  "valid_name name \<longleftrightarrow> name \<noteq> [] \<and> length name \<le> 64 \<and>
     list_all (\<lambda>c. ascii_lower (byte c) \<or> ascii_digit (byte c) \<or> c = CHR ''.'' \<or> c = CHR ''-'') name \<and>
     \<not> starts_with ''.'' name \<and> last name \<noteq> CHR ''.''"

definition validate_relative :: "string \<Rightarrow> string + unit" where
  "validate_relative path =
     reject_if (path_extension path \<noteq> Some ''png'' \<or> path_is_absolute path \<or>
         \<not> list_all (\<lambda>c. case c of Normal _ \<Rightarrow> True | _ \<Rightarrow> False) (path_components path))
       ''must be a project-relative .png path without traversal''"

definition parse_visual :: "string list \<Rightarrow> string + VisualOptions" where
  "parse_visual arguments =
     (case arguments of
        [] \<Rightarrow> Inl visual_usage
      | command # rest \<Rightarrow>
          rbind (if command = ''accept'' then Inr AcceptGolden
                 else if command = ''verify'' then Inr VerifyGolden else Inl visual_usage) (\<lambda>action.
          rbind (scan_visual action \<lparr>vs_project = ''.'', vs_name = None, vs_actual = None, vs_force = False,
              vs_positional = False\<rparr> rest) (\<lambda>scan.
            case vs_name scan of
              None \<Rightarrow> Inl visual_usage
            | Some name \<Rightarrow>
                if \<not> valid_name name
                then Inl ''visual case names must be 1-64 lowercase letters, digits, dots or hyphens''
                else (case vs_actual scan of
                    None \<Rightarrow> Inl visual_usage
                  | Some actual \<Rightarrow>
                      rbind (validate_relative actual) (\<lambda>_.
                        Inr \<lparr>vo_action = action, vo_project = vs_project scan, vo_name = name,
                          vo_actual = actual, vo_force = vs_force scan\<rparr>)))))"

section \<open>Images\<close>

definition MAX_PNG_BYTES :: nat where "MAX_PNG_BYTES = 32 * 1024 * 1024"

definition MAX_DECODED_BYTES :: nat where "MAX_DECODED_BYTES = 64 * 1024 * 1024"

definition MAX_DIMENSION :: u32 where "MAX_DIMENSION = 8192"

record Image =
  im_width :: u32
  im_height :: u32
  im_rgba :: "u8 list"

datatype ColorType = Grayscale | Rgb | Indexed | GrayscaleAlpha | Rgba

record png_frame =
  pg_width :: u32
  pg_height :: u32
  pg_color :: ColorType
  pg_buffer_size :: nat
  pg_pixels :: "u8 list"

text \<open>
  \<open>pd_size\<close> is the size of the buffer for one frame, inside None when it overflows; both fail for data
  that is not an image.
\<close>

record png_decoder =
  pd_size :: "string \<Rightarrow> nat option option"
  pd_frame :: "string \<Rightarrow> png_frame option"

fun rgb_pixels :: "u8 list \<Rightarrow> u8 list" where
  "rgb_pixels (r # g # b # rest) = r # g # b # 255 # rgb_pixels rest"
| "rgb_pixels _ = []"

fun gray_alpha_pixels :: "u8 list \<Rightarrow> u8 list" where
  "gray_alpha_pixels (v # a # rest) = v # v # v # a # gray_alpha_pixels rest"
| "gray_alpha_pixels _ = []"

definition to_rgba :: "u8 list \<Rightarrow> ColorType \<Rightarrow> string + u8 list" where
  "to_rgba pixels color =
     (case color of
        Rgba \<Rightarrow> Inr pixels
      | Rgb \<Rightarrow> Inr (rgb_pixels pixels)
      | Grayscale \<Rightarrow> Inr (concat (map (\<lambda>v. [v, v, v, 255]) pixels))
      | GrayscaleAlpha \<Rightarrow> Inr (gray_alpha_pixels pixels)
      | Indexed \<Rightarrow> Inl ''indexed PNG was not expanded by the decoder'')"

definition decode_png :: "png_decoder \<Rightarrow> string \<Rightarrow> string + Image" where
  "decode_png d bytes =
     (case pd_size d bytes of
        None \<Rightarrow> Inl ''invalid PNG''
      | Some None \<Rightarrow> Inl ''PNG dimensions overflow''
      | Some (Some n) \<Rightarrow>
          if n > MAX_DECODED_BYTES then Inl ''decoded PNG exceeds''
          else (case pd_frame d bytes of
              None \<Rightarrow> Inl ''cannot decode PNG''
            | Some p \<Rightarrow>
                if pg_width p = 0 \<or> pg_height p = 0 \<or> pg_width p > MAX_DIMENSION \<or> pg_height p > MAX_DIMENSION
                then Inl ''PNG dimensions must be between 1 and 8192px''
                else rbind (to_rgba (take (pg_buffer_size p) (pg_pixels p)) (pg_color p)) (\<lambda>rgba.
                  Inr \<lparr>im_width = pg_width p, im_height = pg_height p, im_rgba = rgba\<rparr>)))"

definition read_png :: "filesystem \<Rightarrow> string \<Rightarrow> string + string" where
  "read_png fs path =
     (case fs_size fs path of
        None \<Rightarrow> Inl ''cannot inspect PNG''
      | Some n \<Rightarrow>
          if \<not> fs_is_file fs path \<or> n > MAX_PNG_BYTES then Inl ''PNG must be a regular file no larger than''
          else (case fs_read fs path of None \<Rightarrow> Inl ''cannot read PNG'' | Some bytes \<Rightarrow> Inr bytes))"

section \<open>Files of the project\<close>

definition resolve_project_file :: "filesystem \<Rightarrow> string \<Rightarrow> string \<Rightarrow> string + string" where
  "resolve_project_file fs root relative =
     rbind (validate_relative relative) (\<lambda>_.
       case fs_canonicalize fs (path_join root relative) of
         None \<Rightarrow> Inl ''cannot resolve''
       | Some resolved \<Rightarrow>
           if \<not> path_starts_with resolved root \<or> \<not> fs_is_file fs resolved
           then Inl ''must be a regular file inside the project''
           else Inr resolved)"

datatype visual_effect =
    CreateDirectories string
  | WriteFile string string
  | DeleteFile string
  | RenameFile string string

record visual_env =
  ve_fs :: filesystem
  ve_process :: u32
  ve_creates :: bool
  ve_is_link_or_dir :: "string \<Rightarrow> bool"
  ve_writes :: bool
  ve_removes :: bool
  ve_renames :: bool

text \<open>The temporary file is removed in every case; after a rename there is none left.\<close>

definition write_scoped :: "visual_env \<Rightarrow> string \<Rightarrow> string \<Rightarrow> string \<Rightarrow> visual_effect list \<times> (string + unit)" where
  "write_scoped e root destination bytes =
     (case path_parent destination of
        None \<Rightarrow> ([], Inl ''visual output has no parent'')
      | Some parent \<Rightarrow>
          if \<not> ve_creates e then ([], Inl ''cannot create'')
          else (case fs_canonicalize (ve_fs e) parent of
              None \<Rightarrow> ([CreateDirectories parent], Inl ''cannot resolve'')
            | Some resolved \<Rightarrow>
                if \<not> path_starts_with resolved root
                then ([CreateDirectories parent], Inl ''visual output escapes the project through a symbolic link'')
                else if ve_is_link_or_dir e destination
                then ([CreateDirectories parent], Inl ''visual output is not a regular project file'')
                else let temporary = path_join parent (''.pam-visual-'' @ decimal (unat (ve_process e)) @ ''.tmp'');
                         before = [CreateDirectories parent, WriteFile temporary bytes];
                         replaced = (if fs_is_file (ve_fs e) destination then [DeleteFile destination] else [])
                  in if \<not> ve_writes e then (before @ [DeleteFile temporary], Inl ''cannot write'')
                     else if fs_is_file (ve_fs e) destination \<and> \<not> ve_removes e
                     then (before @ [DeleteFile temporary], Inl ''cannot replace'')
                     else if \<not> ve_renames e
                     then (before @ replaced @ [DeleteFile temporary], Inl ''cannot replace'')
                     else (before @ replaced @ [RenameFile temporary destination, DeleteFile temporary], Inr ())))"

section \<open>The comparison\<close>

record Evidence =
  ev_schema_version :: u8
  ev_surface_code :: u8
  ev_comparison_code :: u8
  ev_case :: string
  ev_width :: u32
  ev_height :: u32
  ev_changed_pixels :: nat
  ev_actual_sha256 :: string
  ev_golden_sha256 :: string
  ev_project_revision :: "string option"
  ev_host_os :: string
  ev_host_arch :: string
  ev_pam_desktop_version :: string

fun pixels :: "u8 list \<Rightarrow> (u8 \<times> u8 \<times> u8 \<times> u8) list" where
  "pixels (r # g # b # a # rest) = (r, g, b, a) # pixels rest"
| "pixels _ = []"

definition changed_pixels :: "Image \<Rightarrow> Image \<Rightarrow> nat" where
  "changed_pixels actual golden =
     (if im_width actual = im_width golden \<and> im_height actual = im_height golden
      then length (filter (\<lambda>(l, r). l \<noteq> r) (zip (pixels (im_rgba actual)) (pixels (im_rgba golden))))
      else unat (im_width actual) * unat (im_height actual) + unat (im_width golden) * unat (im_height golden))"

definition images_match :: "Image \<Rightarrow> Image \<Rightarrow> bool" where
  "images_match actual golden \<longleftrightarrow>
     im_width actual = im_width golden \<and> im_height actual = im_height golden \<and> changed_pixels actual golden = 0"

text \<open>The output of \<open>git rev-parse\<close>: whether it succeeded, and its bytes.\<close>

definition project_revision :: "(bool \<times> string) option \<Rightarrow> string option" where
  "project_revision git =
     (case git of
        None \<Rightarrow> None
      | Some (success, stdout) \<Rightarrow>
          if \<not> is_utf8 stdout then None
          else let revision = map char_of (utf8_encode (trim_chars (str_chars stdout)))
            in if success \<and> length revision = 40 \<and> list_all (\<lambda>c. ascii_hexdigit (byte c)) revision
               then Some (to_ascii_lowercase revision) else None)"

record visual_tools =
  vt_env :: visual_env
  vt_decoder :: png_decoder
  vt_sha256 :: "string \<Rightarrow> string"
  vt_git :: "(bool \<times> string) option"
  vt_os :: string
  vt_arch :: string
  vt_version :: string
  vt_encode :: "Evidence \<Rightarrow> string option"

definition visual_golden :: "string \<Rightarrow> string \<Rightarrow> string" where
  "visual_golden root name = path_join (path_join (path_join root ''tests'') ''visual'') (name @ ''.png'')"

definition visual_evidence :: "string \<Rightarrow> string \<Rightarrow> string" where
  "visual_evidence root name = path_join (path_join (path_join root ''artifacts'') ''visual'') (name @ ''.json'')"

definition verify_visual ::
    "visual_tools \<Rightarrow> string \<Rightarrow> string \<Rightarrow> string \<Rightarrow> Image \<Rightarrow> visual_effect list \<times> (string + unit)" where
  "verify_visual t root name actual_bytes actual =
     (let fs = ve_fs (vt_env t) in
      case fs_canonicalize fs (visual_golden root name) of
        None \<Rightarrow> ([], Inl ''cannot resolve visual golden'')
      | Some resolved \<Rightarrow>
          if \<not> path_starts_with resolved root \<or> \<not> fs_is_file fs resolved
          then ([], Inl ''visual golden must be a regular file inside the project'')
          else (case read_png fs resolved of
              Inl m \<Rightarrow> ([], Inl m)
            | Inr golden_bytes \<Rightarrow>
                (case decode_png (vt_decoder t) golden_bytes of
                   Inl m \<Rightarrow> ([], Inl m)
                 | Inr golden \<Rightarrow>
                     let matches = images_match actual golden in
                     (case vt_encode t \<lparr>ev_schema_version = 1, ev_surface_code = 3, ev_comparison_code = if matches then 1 else 2, ev_case = name,
                         ev_width = im_width actual, ev_height = im_height actual,
                         ev_changed_pixels = changed_pixels actual golden,
                         ev_actual_sha256 = vt_sha256 t actual_bytes, ev_golden_sha256 = vt_sha256 t golden_bytes,
                         ev_project_revision = project_revision (vt_git t), ev_host_os = vt_os t,
                         ev_host_arch = vt_arch t, ev_pam_desktop_version = vt_version t\<rparr> of
                        None \<Rightarrow> ([], Inl ''cannot encode visual evidence'')
                      | Some encoded \<Rightarrow>
                          (case write_scoped (vt_env t) root (visual_evidence root name) encoded of
                             (effects, Inl m) \<Rightarrow> (effects, Inl m)
                           | (effects, Inr _) \<Rightarrow>
                               (effects, if matches then Inr () else Inl ''visual case differs from its golden''))))))"

definition run_visual ::
    "visual_tools \<Rightarrow> (string \<Rightarrow> string + Project) \<Rightarrow> (string \<Rightarrow> bool) \<Rightarrow> string list \<Rightarrow>
     visual_effect list \<times> (string + unit)" where
  "run_visual t find_project exists arguments =
     (case rbind (parse_visual arguments) (\<lambda>q.
           rbind (find_project (vo_project q)) (\<lambda>p.
           rbind (resolve_project_file (ve_fs (vt_env t)) (pj_root p) (vo_actual q)) (\<lambda>path.
           rbind (read_png (ve_fs (vt_env t)) path) (\<lambda>bytes.
           rbind (decode_png (vt_decoder t) bytes) (\<lambda>actual. Inr (q, pj_root p, bytes, actual)))))) of
        Inl m \<Rightarrow> ([], Inl m)
      | Inr (q, root, bytes, actual) \<Rightarrow>
          let golden = visual_golden root (vo_name q) in
          (case vo_action q of
             AcceptGolden \<Rightarrow>
               if exists golden \<and> \<not> vo_force q then ([], Inl ''visual golden already exists'')
               else write_scoped (vt_env t) root golden bytes
           | VerifyGolden \<Rightarrow> verify_visual t root (vo_name q) bytes actual))"

section \<open>Exactness\<close>

fun channels :: "ColorType \<Rightarrow> nat" where
  "channels Grayscale = 1"
| "channels Rgb = 3"
| "channels Indexed = 1"
| "channels GrayscaleAlpha = 2"
| "channels Rgba = 4"

text \<open>What \<open>png\<close> documents: a frame fills its buffer with all channels of all pixels.\<close>

definition fills_frames :: "png_decoder \<Rightarrow> bool" where
  "fills_frames d \<longleftrightarrow> (\<forall>bytes p. pd_frame d bytes = Some p \<longrightarrow>
     pg_buffer_size p = channels (pg_color p) * (unat (pg_width p) * unat (pg_height p)) \<and>
     pg_buffer_size p \<le> length (pg_pixels p))"

definition complete_image :: "Image \<Rightarrow> bool" where
  "complete_image i \<longleftrightarrow> length (im_rgba i) = 4 * (unat (im_width i) * unat (im_height i))"

lemma length_rgb_pixels: "length ps = 3 * n \<Longrightarrow> length (rgb_pixels ps) = 4 * n"
proof (induction ps arbitrary: n rule: rgb_pixels.induct)
  case (1 r g b rest)
  then show ?case by (cases n) auto
qed (auto simp: numeral_eq_Suc)

lemma length_gray_alpha_pixels: "length ps = 2 * n \<Longrightarrow> length (gray_alpha_pixels ps) = 4 * n"
proof (induction ps arbitrary: n rule: gray_alpha_pixels.induct)
  case (1 v a rest)
  then show ?case by (cases n) auto
qed (auto simp: numeral_eq_Suc)

lemma length_gray_pixels: "length (concat (map (\<lambda>v. [v, v, v, 255]) ps)) = 4 * length ps"
  by (induction ps) auto

lemma to_rgba_complete:
  assumes "to_rgba ps color = Inr rgba" "length ps = channels color * n"
  shows "length rgba = 4 * n"
  using assms
  by (cases color) (auto simp: to_rgba_def length_rgb_pixels length_gray_alpha_pixels length_gray_pixels)

lemma decode_png_complete:
  assumes "fills_frames d" "decode_png d bytes = Inr i"
  shows "complete_image i"
proof -
  obtain p rgba where p: "pd_frame d bytes = Some p"
    and rgba: "to_rgba (take (pg_buffer_size p) (pg_pixels p)) (pg_color p) = Inr rgba"
    and i: "i = \<lparr>im_width = pg_width p, im_height = pg_height p, im_rgba = rgba\<rparr>"
    using assms(2) by (auto simp: decode_png_def rbind_Inr_iff split: option.splits if_splits)
  have "pg_buffer_size p = channels (pg_color p) * (unat (pg_width p) * unat (pg_height p))"
    "pg_buffer_size p \<le> length (pg_pixels p)"
    using assms(1) p unfolding fills_frames_def by blast+
  then have "length (take (pg_buffer_size p) (pg_pixels p)) =
      channels (pg_color p) * (unat (pg_width p) * unat (pg_height p))"
    by simp
  from to_rgba_complete [OF rgba this] show ?thesis by (simp add: complete_image_def i)
qed

lemma not_quadruple: "Suc 0 \<noteq> 4 * n" "Suc (Suc 0) \<noteq> 4 * n" "Suc (Suc (Suc 0)) \<noteq> 4 * n" for n :: nat
  by presburger+

lemma pixels_complete:
  "length a = 4 * n \<Longrightarrow> length b = 4 * n \<Longrightarrow> length (pixels a) = n \<and> (pixels a = pixels b \<longleftrightarrow> a = b)"
proof (induction a arbitrary: b n rule: pixels.induct)
  case (1 r g b a rest c)
  then obtain m where n: "n = Suc m" by (cases n) auto
  with 1(3) obtain r' g' b' a' rest' where "c = r' # g' # b' # a' # rest'"
    by (auto simp: length_Suc_conv numeral_eq_Suc)
  then show ?case using 1 n by auto
qed (simp_all add: not_quadruple)

lemma filter_zip_differs: "length xs = length ys \<Longrightarrow> filter (\<lambda>(l, r). l \<noteq> r) (zip xs ys) = [] \<longleftrightarrow> xs = ys"
  by (induction xs ys rule: list_induct2) auto

lemma images_match_iff:
  assumes "complete_image a" "complete_image b"
  shows "images_match a b \<longleftrightarrow> a = b"
proof (cases "im_width a = im_width b \<and> im_height a = im_height b")
  case True
  then have "length (im_rgba a) = 4 * (unat (im_width a) * unat (im_height a))"
    "length (im_rgba b) = 4 * (unat (im_width a) * unat (im_height a))"
    using assms by (simp_all add: complete_image_def)
  note p = pixels_complete [OF this] pixels_complete [OF this(2,1)]
  then have "filter (\<lambda>(l, r). l \<noteq> r) (zip (pixels (im_rgba a)) (pixels (im_rgba b))) = [] \<longleftrightarrow> im_rgba a = im_rgba b"
    using filter_zip_differs [of "pixels (im_rgba a)" "pixels (im_rgba b)"] by simp
  with True show ?thesis by (cases a; cases b) (simp add: images_match_def changed_pixels_def)
qed (auto simp: images_match_def)

text \<open>
  C35. A visual test passes exactly when the screenshot and the golden image have the same size and the
  same pixels after decoding, whatever the colour types of the two files; a test that fails leaves the
  same kind of evidence as one that passes.
\<close>
theorem visual_test_is_exact:
  assumes decoder: "fills_frames (vt_decoder t)" "decode_png (vt_decoder t) bytes = Inr actual"
    and golden: "fs_canonicalize (ve_fs (vt_env t)) (visual_golden root name) = Some resolved"
      "path_starts_with resolved root" "fs_is_file (ve_fs (vt_env t)) resolved"
      "read_png (ve_fs (vt_env t)) resolved = Inr golden_bytes"
      "decode_png (vt_decoder t) golden_bytes = Inr golden"
    and evidence: "\<And>x. vt_encode t x = Some (encoded x)"
      "\<And>x. snd (write_scoped (vt_env t) root (visual_evidence root name) (encoded x)) = Inr ()"
  shows "(snd (verify_visual t root name bytes actual) = Inr () \<longleftrightarrow> actual = golden) \<and>
    (\<exists>x. ev_case x = name \<and> (ev_comparison_code x = 1 \<longleftrightarrow> actual = golden) \<and>
      fst (verify_visual t root name bytes actual) =
        fst (write_scoped (vt_env t) root (visual_evidence root name) (encoded x)))"
proof -
  have matches: "images_match actual golden \<longleftrightarrow> actual = golden"
    using decode_png_complete decoder golden(5) images_match_iff by blast
  let ?x = "\<lparr>ev_schema_version = 1, ev_surface_code = 3, ev_comparison_code = if images_match actual golden then 1 else 2, ev_case = name,
     ev_width = im_width actual, ev_height = im_height actual, ev_changed_pixels = changed_pixels actual golden,
     ev_actual_sha256 = vt_sha256 t bytes, ev_golden_sha256 = vt_sha256 t golden_bytes,
     ev_project_revision = project_revision (vt_git t), ev_host_os = vt_os t, ev_host_arch = vt_arch t,
     ev_pam_desktop_version = vt_version t\<rparr>"
  obtain effects where "write_scoped (vt_env t) root (visual_evidence root name) (encoded ?x) = (effects, Inr ())"
    using evidence(2) [of ?x] by (cases "write_scoped (vt_env t) root (visual_evidence root name) (encoded ?x)") auto
  then have "verify_visual t root name bytes actual =
      (effects, if images_match actual golden then Inr () else Inl ''visual case differs from its golden'')"
    using golden by (simp add: verify_visual_def evidence(1) Let_def)
  moreover have "ev_case ?x = name" "ev_comparison_code ?x = 1 \<longleftrightarrow> actual = golden"
    by (simp_all add: matches)
  moreover note \<open>write_scoped (vt_env t) root (visual_evidence root name) (encoded ?x) = (effects, Inr ())\<close>
  ultimately show ?thesis using matches by (intro conjI exI [of _ ?x]) simp_all
qed

text \<open>Everything that is written lies in a directory of the project, links resolved.\<close>

lemma write_scoped_confined:
  assumes "write_scoped e root destination bytes = (effects, result)" "WriteFile path content \<in> set effects"
  shows "content = bytes \<and> (\<exists>parent resolved. path_parent destination = Some parent \<and>
    path = path_join parent (''.pam-visual-'' @ decimal (unat (ve_process e)) @ ''.tmp'') \<and>
    fs_canonicalize (ve_fs e) parent = Some resolved \<and> path_starts_with resolved root)"
  using assms by (auto simp: write_scoped_def Let_def split: option.splits if_splits)

section \<open>Witnesses\<close>

definition sample_visual_fs :: filesystem where
  "sample_visual_fs = \<lparr>fs_canonicalize = (\<lambda>_. Some ''/p''), fs_is_file = (\<lambda>_. True), fs_is_dir = (\<lambda>_. True),
     fs_size = (\<lambda>_. Some 1), fs_mode = (\<lambda>_. None), fs_read = (\<lambda>_. Some ''x'')\<rparr>"

definition sample_visual :: visual_tools where
  "sample_visual =
     \<lparr>vt_env = \<lparr>ve_fs = sample_visual_fs, ve_process = 7, ve_creates = True, ve_is_link_or_dir = (\<lambda>_. False),
        ve_writes = True, ve_removes = True, ve_renames = True\<rparr>,
      vt_decoder = \<lparr>pd_size = (\<lambda>_. Some (Some 4)),
        pd_frame = (\<lambda>_. Some \<lparr>pg_width = 1, pg_height = 1, pg_color = Rgba, pg_buffer_size = 4, pg_pixels = [1, 2, 3, 4]\<rparr>)\<rparr>,
      vt_sha256 = (\<lambda>s. s), vt_git = None, vt_os = ''linux'', vt_arch = ''x86_64'', vt_version = ''1'', vt_encode = (\<lambda>_. Some ''{}'')\<rparr>"

definition sample_image :: Image where
  "sample_image = \<lparr>im_width = 1, im_height = 1, im_rgba = [1, 2, 3, 4]\<rparr>"

lemma sample_decoded: "decode_png (vt_decoder sample_visual) bytes = Inr sample_image"
  by (simp add: decode_png_def sample_visual_def MAX_DECODED_BYTES_def MAX_DIMENSION_def to_rgba_def sample_image_def)

theorem visual_test_is_exact_witness: "snd (verify_visual sample_visual ''/p'' ''a'' ''x'' sample_image) = Inr ()"
proof -
  have decoder: "fills_frames (vt_decoder sample_visual)" by (simp add: fills_frames_def sample_visual_def)
  have fs: "ve_fs (vt_env sample_visual) = sample_visual_fs" by (simp add: sample_visual_def)
  have "path_parent (visual_evidence ''/p'' ''a'') = Some ''/p/artifacts/visual''" by code_simp
  then have "snd (write_scoped (vt_env sample_visual) ''/p'' (visual_evidence ''/p'' ''a'') ''{}'') = Inr ()"
    by (simp add: write_scoped_def sample_visual_def sample_visual_fs_def Let_def)
  moreover have "fs_canonicalize (ve_fs (vt_env sample_visual)) (visual_golden ''/p'' ''a'') = Some ''/p''"
    "path_starts_with ''/p'' ''/p''" "fs_is_file (ve_fs (vt_env sample_visual)) ''/p''"
    "read_png (ve_fs (vt_env sample_visual)) ''/p'' = Inr ''x''" "vt_encode sample_visual x = Some ''{}''" for x
    by (simp_all add: fs sample_visual_fs_def read_png_def MAX_PNG_BYTES_def, simp add: sample_visual_def)
  ultimately show ?thesis
    using visual_test_is_exact [OF decoder sample_decoded _ _ _ _ sample_decoded, where encoded = "\<lambda>_. ''{}''"] by blast
qed

end
