(* ===== verification/Spec2Isabelle.thy ===== *)
theory Spec2Isabelle
  imports ProtocolClaims Transport EventHub Supervisor PluginSupervisor Scheduler
    PermissionAudit UpdaterClaims UpdatePublish UpdateRecoveryClaims
    NativeClaims Telemetry GatewayClaims Processes HttpClient DataServices
    DeviceServices FileWatch DesktopPortal DesktopReload PackagePublish WindowState Lifecycle
    Diagnostics Agent CrashReports Visual
begin

text \<open>
  A verification development for PAM Desktop, a desktop application host: PHP code runs in a
  worker process, a Rust host owns windows, files and every other authority, plugins in Rust
  run as further processes.  The development models the Rust crates under \<open>crates/\<close>.

  \<^bold>\<open>The program.\<close>  \<open>pam-desktop-protocol\<close> defines the messages between the host and the worker and
  plugin processes, and the configuration (the bootstrap) the worker sends at start, with its
  validation.  \<open>pam-desktop-plugin\<close> is the loop a plugin runs.  \<open>pam-desktop-shell\<close> is the host: it
  discovers the project, starts and supervises the processes, serves the user interface
  through a gateway, through which pages reach PHP and the native services, runs background
  jobs, audits permissions and updates itself.

  \<^bold>\<open>Theories, in the order of the program.\<close>

  \<^item> Prelude: sums as \<open>Result\<close>, saturating arithmetic on words, characters and strings of Rust,
    sorted and repeated validation steps, JSON-independent list lemmas; the collection
    \<open>result_simps\<close> says for each validator what \<open>Inr ()\<close> means.
  \<^item> WireCodes (protocol \<open>lib.rs\<close>): the integer-coded enumerations; the locale \<open>wire_code\<close> states the
    laws of a code and its decoder and is interpreted for each enumeration.
  \<^item> Paths: \<open>std::path\<close> on Unix and the lexical meaning of a path; Validators: the text validators,
    each with the predicate it decides.
  \<^item> Config, ShellConfig, Bootstrap: the structs of the bootstrap as records and their \<open>validate\<close>
    methods, in the order of their checks, errors included; Envelope: requests, responses and
    their checks; ProtocolClaims: what the validated data guarantees to the rest of the host.
  \<^item> Transport (\<open>pam-desktop-plugin\<close>, framing of \<open>worker.rs\<close> and \<open>plugin.rs\<close>): JSON lines and the SDK loop.
  \<^item> EventHub (\<open>event_hub.rs\<close>, the events handler of \<open>gateway.rs\<close>): the bounded history; it implements an
    append-only log.
  \<^item> Supervisor (\<open>worker.rs\<close>): requests, deadline, restart of the PHP worker.  PluginSupervisor
    (\<open>plugin.rs\<close>): the same for Rust plugins, pinned identity and the sandbox: its command line is built
    argument by argument and read back as bubblewrap reads it.
    ProjectFiles (\<open>project.rs\<close>): discovery and confinement over an explicit file system.
  \<^item> Scheduler (\<open>scheduler.rs\<close>): journal, runs, retries and the thread of a job.
  \<^item> PermissionAudit (\<open>permission_audit.rs\<close>): the rules and the decision of \<open>pam-desktop audit\<close>.
  \<^item> Versions, Updater, UpdaterClaims (\<open>updater.rs\<close>): version order, signed feeds, download, the state
    machine of the updater and its interleavings.  UpdateApply: the helper that verifies a
    staged bundle and swaps it in, as calls on a file system that may fail or be killed at any
    call; UpdateRecovery, UpdateRecoveryClaims: what every interruption leaves and how the next
    run recovers.  UpdatePublish: the command lines of the helper and the publisher, and the feed
    it writes.
  \<^item> NativeFiles, NativeClaims (\<open>native.rs\<close>): authorized roots, grants of single files, their persistent
    store and the operations on files below them.  DeviceServices: the clipboard and
    notifications.  Processes (\<open>process_runner.rs\<close>): declared programs and terminals.  HttpClient
    (\<open>http_client.rs\<close>), DataServices (\<open>database.rs\<close>, \<open>search.rs\<close>, \<open>secret_store.rs\<close>), DesktopPortal
    (\<open>desktop_portal.rs\<close>), SystemInfo (\<open>system_info.rs\<close>): the other services of a page.
    FileWatch (\<open>file_watch.rs\<close>, \<open>watcher.rs\<close>): the polling watches and the classification of changes.
  \<^item> Telemetry (\<open>desktop_otlp.rs\<close>): trace contexts, the configuration and the batches of the exporter.
  \<^item> Gateway, GatewayClaims (\<open>gateway.rs\<close>): the shared state, authentication, and a command from its
    admission to its answer.  Desktop, DesktopControl: the other handlers over the record
    \<open>Desktop\<close>, which holds the gateway and every service, with what they do outside as a list of
    effects.  DesktopLife: the start with the diagnostic session of a development host, reloads, the
    routes of what a page loads, and the relation \<open>reached\<close> of the states that all of these reach,
    which remembers the preparation that was accepted last.  DesktopClaims, DesktopAuthority,
    DesktopReload: refusals, headers and served files; that no request changes what was declared
    and that every reached desktop holds exactly what its last accepted preparation declares; what a
    reload replaces, and why the host refuses its own diagnostics.
  \<^item> The packager (\<open>packager.rs\<close>).  PackageFiles: what is excluded and copied, files that must be in a
    project, modes.  PackageManifest: the bundle manifest and the names of an application.
    PackageText: versions, desktop entries, launchers and the portable installer.  PackageXml: the
    metadata of macOS, MSIX, MSI and the escaping they need.  PackageTree: libraries, search paths,
    the tree that is written and links in it.  PackageBuild: the bundle and its packages.
    PackagePublish: the command line, staging of every format and the replacement of artifacts.
  \<^item> WindowState (\<open>window_state.rs\<close>): the saved geometry of windows, and the files that are replaced as a
    whole.  Lifecycle (\<open>lifecycle.rs\<close>): the single instance, its two transports and its races.
    Diagnostics (\<open>diagnostic_session.rs\<close>): the session descriptor that the start leaves and its reader.
  \<^item> Startup (\<open>startup_snapshot.rs\<close>, \<open>runtime.rs\<close>): snapshots and what a start makes of them.  Agent
    (\<open>background_agent.rs\<close>): the process for background jobs.  CrashReports (\<open>crash_report.rs\<close>) and
    Visual (\<open>visual.rs\<close>): reports of panics, comparison of screenshots.

  \<^bold>\<open>How the code is read.\<close>  A struct is a record whose fields carry a prefix, an enum a datatype with
  the source's constructors, \<open>Result<T, E>\<close> the sum \<open>E + T\<close>; integers are words of their width, sizes
  of strings \<open>nat\<close>; a \<open>String\<close> is the list of its bytes.  A function that changes state returns the
  changed record.  What the operating system or another process decides (replies, clocks, spawn
  results, files) is an argument of the definition that meets it, so a theorem about all
  arguments covers every behaviour of the environment.  Packages (serde_json, url, Ed25519,
  SHA-256) are function parameters; the witnesses instantiate them.

  \<^bold>\<open>Bounds.\<close>  All recursion is structural or has a measure; \<open>await\<close> recurses on the distance to the
  deadline, because each poll of the code sleeps for at least the polling interval.  The event
  history keeps 256 events, a frame has at most a megabyte, a spawn is tried 26 times.

  \<^bold>\<open>Not modelled.\<close>  The texts of the embedded pages and scripts, the routing of axum and the threads
  of the server; the Servo engine and the native shell (windows, tray, menus), which call those
  libraries; the probes of the platform crate; the bytes of the archives and what the packaging and
  signing tools that the packager calls do with the files they are given.  The wording of error messages that contain texts of
  the operating system is abbreviated.
\<close>

end
